(* ===== verification/Js_Base.thy ===== *)
theory Js_Base
  imports Complex_Main "HOL-Library.Monad_Syntax"
begin

text \<open>
  The prelude of the development: the values of the TypeScript sources as HOL values, and
  the lemmas that the component theories share.

  Conventions.
  \<^item> A JavaScript \<^verbatim>\<open>number\<close> that counts (identifiers, seconds, milliseconds) is an \<open>int\<close>; one
    that measures (watts, watt-hours, prices), and every \<^verbatim>\<open>Decimal\<close>, is an exact \<open>rat\<close>. The
    rounding of binary floats and of decimal.js at 20 significant digits is not modelled.
  \<^item> A property that may be \<^verbatim>\<open>undefined\<close> or \<^verbatim>\<open>null\<close> is an \<open>option\<close>. The operators that read
    truthiness (\<^verbatim>\<open>x || d\<close>, \<^verbatim>\<open>if (x)\<close>) treat \<open>0\<close> and the empty string as absent; they are the
    functions \<open>or_num\<close>, \<open>truthy_num\<close> and \<open>truthy_str\<close> below.
  \<^item> A \<^verbatim>\<open>Date\<close> is the \<open>int\<close> of its milliseconds since the epoch.
  \<^item> A thrown exception is \<open>Inl\<close> of an \<open>exn\<close>; \<open>Error_Monad\<close>-style sequencing is
    \<open>bindE\<close>.
\<close>

section \<open>Exceptions\<close>

text \<open>
  \<^verbatim>\<open>TypeError\<close> is what the engine raises when a property of \<^verbatim>\<open>undefined\<close> is read;
  \<open>DecimalError\<close> is decimal.js's rejection of an argument that is not a number;
  \<open>BackendError\<close> and \<open>AppError\<close> are the two exception classes of src/exception, with the
  message or the HTTP error code the code gives; \<open>PlatformError\<close> is an error of the client of an external
  platform, with its class, its HTTP status and its code.
\<close>

datatype exn =
    TypeError
  | DecimalError
  | BackendError string
  | AppError int string
  | PlatformError string int string

type_synonym 'a res = "exn + 'a"

definition bindE :: "'a res \<Rightarrow> ('a \<Rightarrow> 'b res) \<Rightarrow> 'b res" where
  "bindE m f = (case m of Inl e \<Rightarrow> Inl e | Inr a \<Rightarrow> f a)"

lemma bindE_Inl [simp]: "bindE (Inl e) f = Inl e"
  by (simp add: bindE_def)

lemma bindE_Inr [simp]: "bindE (Inr a) f = f a"
  by (simp add: bindE_def)

lemma bindE_eq_Inr: "bindE m f = Inr b \<longleftrightarrow> (\<exists>a. m = Inr a \<and> f a = Inr b)"
  by (cases m) auto

lemma bindE_eq_Inl: "bindE m f = Inl e \<longleftrightarrow> m = Inl e \<or> (\<exists>a. m = Inr a \<and> f a = Inl e)"
  by (cases m) auto

lemma bindE_InrE:
  assumes "bindE m f = Inr b"
  obtains a where "m = Inr a" and "f a = Inr b"
  using assms by (cases m) auto

definition is_ok :: "'a res \<Rightarrow> bool" where
  "is_ok m = (case m of Inl _ \<Rightarrow> False | Inr _ \<Rightarrow> True)"

lemma is_ok_simps [simp]: "is_ok (Inr a)" "\<not> is_ok (Inl e)"
  by (simp_all add: is_ok_def)

lemma is_okD: "is_ok m \<Longrightarrow> \<exists>a. m = Inr a"
  by (cases m) auto

section \<open>Truthiness and default values\<close>

definition truthy_num :: "'a::zero option \<Rightarrow> bool" where
  "truthy_num x = (case x of None \<Rightarrow> False | Some v \<Rightarrow> v \<noteq> 0)"

definition truthy_str :: "string option \<Rightarrow> bool" where
  "truthy_str x = (case x of None \<Rightarrow> False | Some s \<Rightarrow> s \<noteq> [])"

definition or_num :: "'a::zero option \<Rightarrow> 'a \<Rightarrow> 'a" where
  "or_num x d = (case x of None \<Rightarrow> d | Some v \<Rightarrow> if v = 0 then d else v)"

definition or_else :: "'a option \<Rightarrow> 'a \<Rightarrow> 'a" where
  "or_else x d = (case x of None \<Rightarrow> d | Some v \<Rightarrow> v)"

lemma truthy_num_simps [simp]:
  "\<not> truthy_num None" "truthy_num (Some v) \<longleftrightarrow> v \<noteq> 0"
  by (simp_all add: truthy_num_def)

lemma truthy_str_simps [simp]:
  "\<not> truthy_str None" "truthy_str (Some s) \<longleftrightarrow> s \<noteq> []"
  by (simp_all add: truthy_str_def)

lemma or_num_simps [simp]:
  "or_num None d = d" "or_num (Some v) d = (if v = 0 then d else v)"
  by (simp_all add: or_num_def)

lemma or_num_zero: "or_num x 0 = (case x of None \<Rightarrow> 0 | Some v \<Rightarrow> v)"
  by (cases x) auto

lemma or_else_simps [simp]: "or_else None d = d" "or_else (Some v) d = v"
  by (simp_all add: or_else_def)

section \<open>Truncation\<close>

text \<open>
  \<^verbatim>\<open>Decimal.trunc\<close> and \<^verbatim>\<open>divToInt\<close> round towards zero, and so does \<^verbatim>\<open>moment.diff\<close> in a unit;
  \<open>rtrunc\<close> is that rounding of a rational, as a rational.
\<close>

definition rtrunc :: "rat \<Rightarrow> rat" where
  "rtrunc x = of_int (if x < 0 then \<lceil>x\<rceil> else \<lfloor>x\<rfloor>)"

definition div_to_int :: "rat \<Rightarrow> rat \<Rightarrow> rat" where
  "div_to_int a b = rtrunc (a / b)"

definition tdiv :: "int \<Rightarrow> int \<Rightarrow> int" where
  "tdiv a b = sgn a * sgn b * (\<bar>a\<bar> div \<bar>b\<bar>)"

lemma rtrunc_nonneg [simp]: "0 \<le> x \<Longrightarrow> 0 \<le> rtrunc x"
  by (simp add: rtrunc_def)

lemma rtrunc_le: "0 \<le> x \<Longrightarrow> rtrunc x \<le> x"
  by (simp add: rtrunc_def)

lemma rtrunc_gt: "0 \<le> x \<Longrightarrow> x < rtrunc x + 1"
  unfolding rtrunc_def by simp linarith

lemma rtrunc_of_int [simp]: "rtrunc (of_int k) = of_int k"
  by (simp add: rtrunc_def)

lemma rtrunc_0 [simp]: "rtrunc 0 = 0"
  by (simp add: rtrunc_def)

lemma rtrunc_mono: "0 \<le> x \<Longrightarrow> x \<le> y \<Longrightarrow> rtrunc x \<le> rtrunc y"
  by (simp add: rtrunc_def floor_mono)

lemma rtrunc_minus_int: "of_int k \<le> x \<Longrightarrow> 0 \<le> x \<Longrightarrow> rtrunc (x - of_int k) = rtrunc x - of_int k"
  by (simp add: rtrunc_def)

lemma rtrunc_int: "\<exists>k. rtrunc x = of_int k"
  unfolding rtrunc_def by blast

lemma floor_div_numeral [simp]: "\<lfloor>numeral a / numeral b :: rat\<rfloor> = numeral a div numeral b"
  using floor_divide_of_int_eq[of "numeral a" "numeral b", where 'a = rat] by simp

lemma tdiv_nonneg: "0 \<le> a \<Longrightarrow> 0 < b \<Longrightarrow> tdiv a b = a div b"
  by (simp add: tdiv_def sgn_if)

lemma tdiv_nonneg_ge: "0 \<le> a \<Longrightarrow> 0 < b \<Longrightarrow> 0 \<le> tdiv a b"
  by (simp add: tdiv_nonneg pos_imp_zdiv_nonneg_iff)

section \<open>parseInt\<close>

text \<open>
  \<^verbatim>\<open>parseInt(s)\<close>: leading white space, an optional sign, an optional \<^verbatim>\<open>0x\<close> prefix that selects
  base 16, then the longest run of digits. \<open>None\<close> is \<^verbatim>\<open>NaN\<close>.
\<close>

definition is_space :: "char \<Rightarrow> bool" where
  "is_space c = (c = CHR '' '' \<or> c = CHR 0x09 \<or> c = CHR 0x0A \<or> c = CHR 0x0B \<or> c = CHR 0x0C \<or> c = CHR 0x0D)"

definition digit_of :: "nat \<Rightarrow> char \<Rightarrow> nat option" where
  "digit_of base c =
     (let n = of_char c :: nat;
          d = (if 48 \<le> n \<and> n \<le> 57 then n - 48
               else if 65 \<le> n \<and> n \<le> 90 then n - 55
               else if 97 \<le> n \<and> n \<le> 122 then n - 87 else 99)
      in if d < base then Some d else None)"

fun digits_value :: "nat \<Rightarrow> int \<Rightarrow> string \<Rightarrow> int" where
  "digits_value base acc [] = acc"
| "digits_value base acc (c # cs) =
     (case digit_of base c of None \<Rightarrow> acc | Some d \<Rightarrow> digits_value base (acc * int base + int d) cs)"

definition parse_unsigned :: "string \<Rightarrow> int option" where
  "parse_unsigned s =
     (let (base, t) = (case s of
            a # b # u \<Rightarrow> if a = CHR ''0'' \<and> (b = CHR ''x'' \<or> b = CHR ''X'') then (16, u) else (10, s)
          | _ \<Rightarrow> (10, s))
      in case t of [] \<Rightarrow> None
         | c # _ \<Rightarrow> if digit_of base c = None then None else Some (digits_value base 0 t))"

definition parseInt :: "string \<Rightarrow> int option" where
  "parseInt s =
     (case dropWhile is_space s of
        [] \<Rightarrow> None
      | c # t \<Rightarrow>
          if c = CHR ''-'' then map_option uminus (parse_unsigned t)
          else if c = CHR ''+'' then parse_unsigned t
          else parse_unsigned (c # t))"

text \<open>\<^verbatim>\<open>Utils.convertToInt\<close> on a string: the empty string is falsy and gives 0.\<close>

definition convertToInt_str :: "string \<Rightarrow> int option" where
  "convertToInt_str s = (if s = [] then Some 0 else parseInt s)"

definition slice_str :: "string \<Rightarrow> nat \<Rightarrow> nat \<Rightarrow> string" where
  "slice_str s a b = take (b - a) (drop a s)"

text \<open>The decimal digits of a number in a template string.\<close>

fun show_nat :: "nat \<Rightarrow> string" where
  "show_nat n = (if n < 10 then [char_of (48 + n)] else show_nat (n div 10) @ [char_of (48 + n mod 10)])"

declare show_nat.simps [simp del]

definition show_int :: "int \<Rightarrow> string" where
  "show_int n = (if n < 0 then CHR ''-'' # show_nat (nat (- n)) else show_nat (nat n))"

text \<open>\<^verbatim>\<open>toLowerCase\<close> on the letters of ASCII.\<close>

definition to_lower :: "string \<Rightarrow> string" where
  "to_lower = map (\<lambda>c. if 65 \<le> (of_char c :: nat) \<and> (of_char c :: nat) \<le> 90 then char_of ((of_char c :: nat) + 32) else c)"

section \<open>Sums over lists\<close>

lemma sum_list_map_const_mult: "sum_list (map (\<lambda>x. c * f x) xs) = c * sum_list (map f xs)" for c :: rat
  by (induction xs) (simp_all add: algebra_simps)

lemma fold_add_sum_list: "fold (\<lambda>x acc. acc + f x) xs a = a + sum_list (map f xs)"
  for a :: "'b::comm_monoid_add"
  by (induction xs arbitrary: a) (simp_all add: ac_simps)

lemma filter_find_first: "filter P xs = [] \<longleftrightarrow> find P xs = None"
  by (induction xs) auto


section \<open>The first position that satisfies a test\<close>

fun first_index :: "('a \<Rightarrow> bool) \<Rightarrow> 'a list \<Rightarrow> nat option" where
  "first_index P [] = None"
| "first_index P (x # xs) = (if P x then Some 0 else map_option Suc (first_index P xs))"

lemma first_index_Some:
  "first_index P xs = Some i \<Longrightarrow> i < length xs \<and> P (xs ! i) \<and> (\<forall>j < i. \<not> P (xs ! j))"
proof (induction xs arbitrary: i)
  case (Cons x xs)
  then show ?case
    by (auto split: if_splits simp: less_Suc_eq_0_disj)
qed simp

lemma first_index_None: "first_index P xs = None \<longleftrightarrow> (\<forall>x \<in> set xs. \<not> P x)"
  by (induction xs) auto

lemma first_index_cong:
  "length xs = length ys \<Longrightarrow> (\<And>i. i < length xs \<Longrightarrow> P (xs ! i) = Q (ys ! i)) \<Longrightarrow> first_index P xs = first_index Q ys"
proof (induction xs ys rule: list_induct2)
  case (Cons x xs y ys)
  from Cons.prems[of 0] have "P x = Q y" by simp
  moreover have "first_index P xs = first_index Q ys"
    using Cons.prems[of "Suc _"] by (intro Cons.IH) auto
  ultimately show ?case by simp
qed simp

end
