(* ===== verification/Station_Types.thy ===== *)
theory Station_Types
  imports Js_Base
begin

text \<open>
  The data of a charging station (src/types/ChargingStation.ts, src/types/ocpp/OCPPServer.ts,
  src/types/Transaction.ts): enumerations as datatypes, interfaces as records. A field the
  interface declares optional, or that the code tests before use, is an \<open>option\<close>; array
  entries are objects, as declared.
\<close>

section \<open>Enumerations\<close>

datatype ConnectorType =
    TYPE_2 | COMBO_CCS | CHADEMO | TYPE_1 | TYPE_3C | TYPE_1_CCS | DOMESTIC | UNKNOWN

datatype ChargePointStatus =
    AVAILABLE | PREPARING | CHARGING | OCCUPIED | SUSPENDED_EVSE | SUSPENDED_EV
  | FINISHING | RESERVED | UNAVAILABLE | FAULTED

datatype CurrentType = AC | DC

datatype OCPPVersion = VERSION_15 | VERSION_16 | VERSION_20

datatype OCPPPhase = L1 | L2 | L3 | N | L1_N | L2_N | L3_N | L1_L2 | L2_L3 | L3_L1

datatype ChargingRateUnitType = RATE_WATT | RATE_AMPERE

datatype Voltage = VOLTAGE_400 | VOLTAGE_230 | VOLTAGE_110

fun voltage_value :: "Voltage \<Rightarrow> rat" where
  "voltage_value VOLTAGE_400 = 400"
| "voltage_value VOLTAGE_230 = 230"
| "voltage_value VOLTAGE_110 = 110"

datatype InactivityStatus = INFO | WARNING | ERROR

text \<open>The three levels are ordered by severity.\<close>

fun inactivity_rank :: "InactivityStatus \<Rightarrow> nat" where
  "inactivity_rank INFO = 0"
| "inactivity_rank WARNING = 1"
| "inactivity_rank ERROR = 2"

instantiation InactivityStatus :: linorder
begin

definition less_eq_InactivityStatus :: "InactivityStatus \<Rightarrow> InactivityStatus \<Rightarrow> bool" where
  "less_eq_InactivityStatus a b = (inactivity_rank a \<le> inactivity_rank b)"

definition less_InactivityStatus :: "InactivityStatus \<Rightarrow> InactivityStatus \<Rightarrow> bool" where
  "less_InactivityStatus a b = (inactivity_rank a < inactivity_rank b)"

instance
proof
  fix a b :: InactivityStatus
  assume "a \<le> b" and "b \<le> a"
  then show "a = b"
    by (cases a; cases b) (simp_all add: less_eq_InactivityStatus_def)
qed (auto simp: less_eq_InactivityStatus_def less_InactivityStatus_def)

end

section \<open>Charging stations\<close>

text \<open>\<^verbatim>\<open>PhaseAssignmentToGrid\<close>: the phase of the grid behind each phase of the connector.\<close>

record phase_assignment =
  csPhaseL1 :: "OCPPPhase option"
  csPhaseL2 :: "OCPPPhase option"
  csPhaseL3 :: "OCPPPhase option"

record connector =
  con_connectorId :: int
  con_currentInstantWatts :: "rat option"
  con_currentStateOfCharge :: "rat option"
  con_currentTotalConsumptionWh :: "rat option"
  con_currentTotalInactivitySecs :: "rat option"
  con_currentInactivityStatus :: "InactivityStatus option"
  con_currentTransactionID :: "int option"
  con_currentTransactionDate :: "int option"
  con_currentTagID :: "string option"
  con_currentUserID :: "string option"
  con_status :: ChargePointStatus
  con_errorCode :: "string option"
  con_info :: "string option"
  con_vendorErrorCode :: "string option"
  con_power :: "rat option"
  con_type :: "ConnectorType option"
  con_voltage :: "Voltage option"
  con_amperage :: "rat option"
  con_amperageLimit :: "rat option"
  con_statusLastChangedOn :: "int option"
  con_numberOfConnectedPhase :: "int option"
  con_currentType :: "CurrentType option"
  con_chargePointID :: "int option"
  con_phaseAssignmentToGrid :: "phase_assignment option"

record charge_point =
  cp_chargePointID :: int
  cp_currentType :: "CurrentType option"
  cp_voltage :: "Voltage option"
  cp_amperage :: rat
  cp_numberOfConnectedPhase :: int
  cp_cannotChargeInParallel :: bool
  cp_sharePowerToAllConnectors :: bool
  cp_excludeFromPowerLimitation :: bool
  cp_power :: rat
  cp_ocppParamForPowerLimitation :: "string option"
  cp_efficiency :: "rat option"
  cp_connectorIDs :: "int list"

text \<open>What the charging station reads of its site area (src/types/SiteArea.ts).\<close>

record site_area =
  sa_id :: string
  sa_maximumPower :: "rat option"
  sa_voltage :: Voltage
  sa_smartCharging :: bool
  sa_accessControl :: bool

record charging_station =
  cs_id :: string
  cs_siteID :: "string option"
  cs_siteAreaID :: "string option"
  cs_companyID :: "string option"
  cs_issuer :: bool
  cs_public :: bool
  cs_chargePointVendor :: string
  cs_chargePointModel :: string
  cs_chargePointSerialNumber :: "string option"
  cs_ocppVersion :: OCPPVersion
  cs_powerLimitUnit :: ChargingRateUnitType
  cs_supportChargingProfiles :: bool
  cs_supportStaticLimitation :: bool
  cs_excludeFromSmartCharging :: bool
  cs_siteArea :: "site_area option"
  cs_deleted :: bool
  cs_inactive :: bool
  cs_forceInactive :: bool
  cs_lastSeen :: int
  cs_maximumPower :: rat
  cs_voltage :: "Voltage option"
  cs_chargePoints :: "charge_point list option"
  cs_connectors :: "connector list option"
  cs_backupConnectors :: "connector list option"

section \<open>What the electrical helpers read of a transaction\<close>

record phases_used =
  csPhase1 :: bool
  csPhase2 :: bool
  csPhase3 :: bool

record phase_amps =
  pa_total :: rat
  pa_L1 :: rat
  pa_L2 :: rat
  pa_L3 :: rat

section \<open>Looking entries up by identifier\<close>

definition connectors_of :: "charging_station \<Rightarrow> connector list" where
  "connectors_of cs = or_else (cs_connectors cs) []"

definition charge_points_of :: "charging_station \<Rightarrow> charge_point list" where
  "charge_points_of cs = or_else (cs_chargePoints cs) []"

definition getChargePointFromID :: "charging_station \<Rightarrow> int \<Rightarrow> charge_point option" where
  "getChargePointFromID cs i =
     (case cs_chargePoints cs of None \<Rightarrow> None | Some cps \<Rightarrow> find (\<lambda>cp. cp_chargePointID cp = i) cps)"

definition getConnectorFromID :: "charging_station \<Rightarrow> int \<Rightarrow> connector option" where
  "getConnectorFromID cs i =
     (case cs_connectors cs of None \<Rightarrow> None | Some cons \<Rightarrow> find (\<lambda>c. con_connectorId c = i) cons)"

definition getLastSeenConnectorFromID :: "charging_station \<Rightarrow> int \<Rightarrow> connector option" where
  "getLastSeenConnectorFromID cs i =
     (case cs_backupConnectors cs of None \<Rightarrow> None | Some cons \<Rightarrow> find (\<lambda>c. con_connectorId c = i) cons)"

text \<open>
  \<^verbatim>\<open>Utils.getConnectorsFromChargePoint\<close>: the connectors of a charge point, in its order,
  skipping the identifiers the station does not have.
\<close>

definition getConnectorsFromChargePoint :: "charging_station \<Rightarrow> charge_point option \<Rightarrow> connector list" where
  "getConnectorsFromChargePoint cs cp =
     (case cp of None \<Rightarrow> []
      | Some p \<Rightarrow> List.map_filter (getConnectorFromID cs) (cp_connectorIDs p))"

lemma getConnectorFromID_Some:
  assumes "getConnectorFromID cs i = Some c"
  shows "con_connectorId c = i" and "c \<in> set (connectors_of cs)"
  using assms by (auto simp: getConnectorFromID_def connectors_of_def find_Some_iff split: option.splits)

lemma getConnectorFromID_None_iff:
  "getConnectorFromID cs i = None \<longleftrightarrow> (\<forall>c \<in> set (connectors_of cs). con_connectorId c \<noteq> i)"
  by (auto simp: getConnectorFromID_def connectors_of_def find_None_iff split: option.splits)

lemma getConnectorsFromChargePoint_sound:
  "c \<in> set (getConnectorsFromChargePoint cs (Some p)) \<Longrightarrow>
     con_connectorId c \<in> set (cp_connectorIDs p) \<and> c \<in> set (connectors_of cs)"
  by (auto simp: getConnectorsFromChargePoint_def List.map_filter_def dest: getConnectorFromID_Some)

end
