(* ===== verification/Pricing_Types.thy ===== *)
theory Pricing_Types
  imports Station_Types
begin

text \<open>
  The data of the pricing engine (src/types/Pricing.ts): tariffs (pricing definitions), their
  four dimensions, the priced data that accumulates on a dimension while a session runs, and
  the context the pricer carries from one consumption to the next.
\<close>

datatype PricingEntity = TENANT | COMPANY | SITE | SITE_AREA | CHARGING_STATION

datatype DimensionType = FLAT_FEE | ENERGY | CHARGING_TIME | PARKING_TIME

datatype PricingSource = SIMPLE | CONVERGENT_CHARGING | OCPI

record priced_dimension_data =
  pdd_unitPrice :: "rat option"
  pdd_amountAsDecimal :: "rat option"
  pdd_amount :: rat
  pdd_roundedAmount :: rat
  pdd_quantity :: rat
  pdd_stepSize :: "rat option"
  pdd_sourceName :: "string option"
  pdd_itemDescription :: "string option"
  pdd_taxes :: "string list option"

record pricing_dimension =
  dim_active :: bool
  dim_price :: rat
  dim_stepSize :: "rat option"
  dim_pricedData :: "priced_dimension_data option"

record pricing_dimensions =
  dims_flatFee :: "pricing_dimension option"
  dims_energy :: "pricing_dimension option"
  dims_chargingTime :: "pricing_dimension option"
  dims_parkingTime :: "pricing_dimension option"

record pricing_static_restriction =
  sr_validFrom :: "int option"
  sr_validTo :: "int option"
  sr_connectorType :: "ConnectorType option"
  sr_connectorPowerkW :: "rat option"

record pricing_restriction =
  pr_daysOfWeek :: "int list option"
  pr_timeFrom :: "string option"
  pr_timeTo :: "string option"
  pr_minEnergyKWh :: "rat option"
  pr_maxEnergyKWh :: "rat option"
  pr_minDurationSecs :: "rat option"
  pr_maxDurationSecs :: "rat option"

record pricing_definition =
  def_id :: "string option"
  def_entityID :: "string option"
  def_entityType :: "PricingEntity option"
  def_name :: string
  def_description :: string
  def_staticRestrictions :: "pricing_static_restriction option"
  def_restrictions :: "pricing_restriction option"
  def_dimensions :: pricing_dimensions

record pricer_context =
  ctx_flatFeeAlreadyPriced :: bool
  ctx_sessionStartDate :: int
  ctx_lastAbsorbedConsumption :: "rat option"
  ctx_lastAbsorbedChargingTime :: "int option"
  ctx_lastAbsorbedParkingTime :: "int option"
  ctx_timezone :: "string option"

record pricing_model =
  pm_pricingDefinitions :: "pricing_definition list"
  pm_pricerContext :: pricer_context

record priced_consumption_data =
  pcd_flatFee :: "priced_dimension_data option"
  pcd_energy :: "priced_dimension_data option"
  pcd_chargingTime :: "priced_dimension_data option"
  pcd_parkingTime :: "priced_dimension_data option"

section \<open>Access by dimension type\<close>

text \<open>The source indexes these objects with the dimension's name: \<^verbatim>\<open>dimensions[dimensionType]\<close>.\<close>

fun dim_of :: "DimensionType \<Rightarrow> pricing_dimensions \<Rightarrow> pricing_dimension option" where
  "dim_of FLAT_FEE d = dims_flatFee d"
| "dim_of ENERGY d = dims_energy d"
| "dim_of CHARGING_TIME d = dims_chargingTime d"
| "dim_of PARKING_TIME d = dims_parkingTime d"

fun set_dim :: "DimensionType \<Rightarrow> pricing_dimension \<Rightarrow> pricing_dimensions \<Rightarrow> pricing_dimensions" where
  "set_dim FLAT_FEE x d = d\<lparr>dims_flatFee := Some x\<rparr>"
| "set_dim ENERGY x d = d\<lparr>dims_energy := Some x\<rparr>"
| "set_dim CHARGING_TIME x d = d\<lparr>dims_chargingTime := Some x\<rparr>"
| "set_dim PARKING_TIME x d = d\<lparr>dims_parkingTime := Some x\<rparr>"

fun pcd_of :: "DimensionType \<Rightarrow> priced_consumption_data \<Rightarrow> priced_dimension_data option" where
  "pcd_of FLAT_FEE d = pcd_flatFee d"
| "pcd_of ENERGY d = pcd_energy d"
| "pcd_of CHARGING_TIME d = pcd_chargingTime d"
| "pcd_of PARKING_TIME d = pcd_parkingTime d"

fun set_pcd :: "DimensionType \<Rightarrow> priced_dimension_data \<Rightarrow> priced_consumption_data \<Rightarrow> priced_consumption_data" where
  "set_pcd FLAT_FEE x d = d\<lparr>pcd_flatFee := Some x\<rparr>"
| "set_pcd ENERGY x d = d\<lparr>pcd_energy := Some x\<rparr>"
| "set_pcd CHARGING_TIME x d = d\<lparr>pcd_chargingTime := Some x\<rparr>"
| "set_pcd PARKING_TIME x d = d\<lparr>pcd_parkingTime := Some x\<rparr>"

lemma dim_of_set_dim [simp]: "dim_of t (set_dim u x d) = (if t = u then Some x else dim_of t d)"
  by (cases t; cases u) simp_all

lemma pcd_of_set_pcd [simp]: "pcd_of t (set_pcd u x d) = (if t = u then Some x else pcd_of t d)"
  by (cases t; cases u) simp_all

definition no_priced_data :: priced_consumption_data where
  "no_priced_data = \<lparr> pcd_flatFee = None, pcd_energy = None, pcd_chargingTime = None, pcd_parkingTime = None \<rparr>"

lemma pcd_of_no_priced_data [simp]: "pcd_of t no_priced_data = None"
  by (cases t) (simp_all add: no_priced_data_def)

text \<open>\<^verbatim>\<open>Utils.truncTo(value, 2)\<close> keeps two decimals, towards zero.\<close>

definition truncTo :: "rat \<Rightarrow> nat \<Rightarrow> rat" where
  "truncTo value scale = rtrunc (value * 10 ^ scale) / 10 ^ scale"

lemma truncTo_le: "0 \<le> x \<Longrightarrow> truncTo x n \<le> x"
  using rtrunc_le[of "x * 10 ^ n"] by (simp add: truncTo_def divide_le_eq)

lemma truncTo_nonneg: "0 \<le> x \<Longrightarrow> 0 \<le> truncTo x n"
  by (simp add: truncTo_def)

lemma truncTo_gt: "0 \<le> x \<Longrightarrow> x - 1 / 10 ^ n < truncTo x n"
proof -
  assume "0 \<le> x"
  then have "x * 10 ^ n < rtrunc (x * 10 ^ n) + 1"
    by (simp add: rtrunc_gt)
  then have "x < (rtrunc (x * 10 ^ n) + 1) / 10 ^ n"
    by (simp add: less_divide_eq)
  then show ?thesis
    by (simp add: truncTo_def add_divide_distrib)
qed

lemma truncTo_0 [simp]: "truncTo 0 n = 0"
  by (simp add: truncTo_def)

end
