(* ===== verification/Pricing_Time.thy ===== *)
theory Pricing_Time
  imports Js_Base
begin

text \<open>
  Times of the day as the tariffs compare them
  (src/integration/pricing/simple-pricing/PricingTimeLimit.ts). The three components are what
  \<^verbatim>\<open>parseInt\<close> returned, so each may be \<^verbatim>\<open>NaN\<close> (\<open>None\<close>); every comparison with \<^verbatim>\<open>NaN\<close>
  is false. \<open>seconds_of_day\<close> is the abstract value of a proper time, and the properties state
  the comparisons and the range test over it.
\<close>

record time_limit =
  tl_hour :: "int option"
  tl_minute :: "int option"
  tl_second :: "int option"

definition nan_less :: "int option \<Rightarrow> int option \<Rightarrow> bool" where
  "nan_less a b = (case (a, b) of (Some x, Some y) \<Rightarrow> x < y | _ \<Rightarrow> False)"

definition nan_eq :: "int option \<Rightarrow> int option \<Rightarrow> bool" where
  "nan_eq a b = (case (a, b) of (Some x, Some y) \<Rightarrow> x = y | _ \<Rightarrow> False)"

definition parseTime :: "string \<Rightarrow> time_limit" where
  "parseTime s = \<lparr> tl_hour = convertToInt_str (slice_str s 0 2),
                    tl_minute = convertToInt_str (slice_str s 3 5),
                    tl_second = convertToInt_str (slice_str s 6 8) \<rparr>"

definition isGreaterThan :: "time_limit \<Rightarrow> time_limit \<Rightarrow> bool" where
  "isGreaterThan a b =
     (if nan_eq (tl_hour a) (tl_hour b) then
        if nan_eq (tl_minute a) (tl_minute b) then nan_less (tl_second b) (tl_second a)
        else nan_less (tl_minute b) (tl_minute a)
      else nan_less (tl_hour b) (tl_hour a))"

definition isSameOrLowerThan :: "time_limit \<Rightarrow> time_limit \<Rightarrow> bool" where
  "isSameOrLowerThan a b = (\<not> isGreaterThan a b)"

definition isLowerThan :: "time_limit \<Rightarrow> time_limit \<Rightarrow> bool" where
  "isLowerThan a b =
     (if nan_eq (tl_hour a) (tl_hour b) then
        if nan_eq (tl_minute a) (tl_minute b) then nan_less (tl_second a) (tl_second b)
        else nan_less (tl_minute a) (tl_minute b)
      else nan_less (tl_hour a) (tl_hour b))"

definition isSameOrGreaterThan :: "time_limit \<Rightarrow> time_limit \<Rightarrow> bool" where
  "isSameOrGreaterThan a b = (\<not> isLowerThan a b)"

lemma nan_less_asym: "nan_less a b \<Longrightarrow> \<not> nan_less b a"
  by (auto simp: nan_less_def split: option.splits)

lemma nan_eq_sym: "nan_eq a b = nan_eq b a"
  by (auto simp: nan_eq_def split: option.splits)

lemma isLowerThan_asym: "isLowerThan a b \<Longrightarrow> \<not> isLowerThan b a"
  by (auto simp: isLowerThan_def nan_eq_sym[of "tl_hour b"] nan_eq_sym[of "tl_minute b"]
      dest: nan_less_asym split: if_splits)

text \<open>
  \<open>isBetween\<close> calls itself with the limits exchanged when the range spans two days; it stops
  because the exchanged limits are in order.
\<close>

function isBetween :: "time_limit \<Rightarrow> time_limit \<Rightarrow> time_limit \<Rightarrow> bool" where
  "isBetween t timeFrom timeTo =
     (if isLowerThan timeTo timeFrom then \<not> isBetween t timeTo timeFrom
      else isSameOrGreaterThan t timeFrom \<and> isLowerThan t timeTo)"
  by pat_completeness auto
termination
  by (relation "measure (\<lambda>(t, f, u). if isLowerThan u f then 1 else 0)") (auto dest: isLowerThan_asym)

declare isBetween.simps [simp del]

section \<open>The abstract time of day\<close>

definition time_limit_of :: "int \<Rightarrow> int \<Rightarrow> int \<Rightarrow> time_limit" where
  "time_limit_of h m s = \<lparr> tl_hour = Some h, tl_minute = Some m, tl_second = Some s \<rparr>"

fun proper_time :: "time_limit \<Rightarrow> bool" where
  "proper_time \<lparr>tl_hour = Some h, tl_minute = Some m, tl_second = Some s\<rparr> =
     (0 \<le> h \<and> h < 24 \<and> 0 \<le> m \<and> m < 60 \<and> 0 \<le> s \<and> s < 60)"
| "proper_time _ = False"

fun seconds_of_day :: "time_limit \<Rightarrow> int" where
  "seconds_of_day \<lparr>tl_hour = Some h, tl_minute = Some m, tl_second = Some s\<rparr> = h * 3600 + m * 60 + s"
| "seconds_of_day _ = 0"

lemma proper_timeE:
  assumes "proper_time t"
  obtains h m s where "t = time_limit_of h m s" "0 \<le> h" "h < 24" "0 \<le> m" "m < 60" "0 \<le> s" "s < 60"
    "seconds_of_day t = h * 3600 + m * 60 + s"
  using assms by (cases t rule: proper_time.cases) (auto simp: time_limit_of_def)

lemma isLowerThan_seconds:
  assumes "proper_time a" and "proper_time b"
  shows "isLowerThan a b = (seconds_of_day a < seconds_of_day b)"
proof -
  from assms(1) obtain h m s where a: "a = time_limit_of h m s" "0 \<le> m" "m < 60" "0 \<le> s" "s < 60"
    "seconds_of_day a = h * 3600 + m * 60 + s" by (rule proper_timeE)
  from assms(2) obtain h' m' s' where b: "b = time_limit_of h' m' s'" "0 \<le> m'" "m' < 60" "0 \<le> s'" "s' < 60"
    "seconds_of_day b = h' * 3600 + m' * 60 + s'" by (rule proper_timeE)
  from a b show ?thesis
    by (auto simp: isLowerThan_def time_limit_of_def nan_eq_def nan_less_def)
qed

text \<open>A time lies in a daily window \<open>[a, b)\<close> that may cross midnight.\<close>

definition in_daily_window :: "int \<Rightarrow> int \<Rightarrow> int \<Rightarrow> bool" where
  "in_daily_window a b t = (if a \<le> b then a \<le> t \<and> t < b else a \<le> t \<or> t < b)"

section \<open>Properties\<close>

text \<open>On proper times the recursive range test is membership of the daily window from the
  first limit to the second, including the windows that cross midnight.\<close>

theorem isBetween_daily_window:
  assumes "proper_time t" and "proper_time timeFrom" and "proper_time timeTo"
  shows "isBetween t timeFrom timeTo =
    in_daily_window (seconds_of_day timeFrom) (seconds_of_day timeTo) (seconds_of_day t)"
  using assms
  by (auto simp: isBetween.simps[of t timeFrom timeTo] isBetween.simps[of t timeTo timeFrom]
      isLowerThan_seconds isSameOrGreaterThan_def in_daily_window_def)

theorem isBetween_daily_window_witness:
  "isBetween (parseTime ''23:30:00'') (parseTime ''20:00'') (parseTime ''08:00'') = in_daily_window 72000 28800 84600
   \<and> isBetween (parseTime ''23:30:00'') (parseTime ''20:00'') (parseTime ''08:00'')"
proof -
  have t: "parseTime ''23:30:00'' = time_limit_of 23 30 0" "parseTime ''20:00'' = time_limit_of 20 0 0"
    "parseTime ''08:00'' = time_limit_of 8 0 0"
    by code_simp+
  have "isBetween (time_limit_of 23 30 0) (time_limit_of 20 0 0) (time_limit_of 8 0 0) =
      in_daily_window (seconds_of_day (time_limit_of 20 0 0)) (seconds_of_day (time_limit_of 8 0 0))
        (seconds_of_day (time_limit_of 23 30 0))"
    by (rule isBetween_daily_window) (simp_all add: time_limit_of_def)
  then show ?thesis
    unfolding t by (simp add: time_limit_of_def in_daily_window_def)
qed

end
