(* ===== verification/Chunk_Pricer.thy ===== *)
theory Chunk_Pricer
  imports Pricing_Types Pricing_Time
begin

text \<open>
  Pricing one consumption chunk (src/integration/pricing/ConsumptionChunkPricer.ts). The state
  is the pricing model of the session: the tariffs, whose dimensions accumulate priced data, and
  the pricer context. The tariff in force is the index of the first one whose restrictions hold;
  when there is none the source reads a property of \<^verbatim>\<open>undefined\<close> and raises, which is
  \<open>Inl TypeError\<close> here.

  The time-zone arithmetic is moment-timezone's, a parameter: \<open>tz_isoWeekday\<close> and
  \<open>tz_format\<close> (format \<^verbatim>\<open>HH:mm:ss\<close>) of a zone name and an instant.
\<close>

record tz_lib =
  tz_isoWeekday :: "string \<Rightarrow> int \<Rightarrow> int"
  tz_format :: "string \<Rightarrow> int \<Rightarrow> string"

record consumption_chunk =
  ch_startedAt :: int
  ch_endedAt :: int
  ch_consumptionWh :: "rat option"
  ch_cumulatedConsumptionWh :: rat
  ch_totalDurationSecs :: "rat option"
  ch_totalInactivitySecs :: "rat option"

definition diff_seconds :: "int \<Rightarrow> int \<Rightarrow> int" where
  "diff_seconds a b = tdiv (a - b) 1000"

section \<open>Restrictions\<close>

definition checkDayOfWeek :: "tz_lib \<Rightarrow> string option \<Rightarrow> consumption_chunk \<Rightarrow> pricing_restriction \<Rightarrow> bool" where
  "checkDayOfWeek tz timezone ch r =
     (case pr_daysOfWeek r of
        None \<Rightarrow> True
      | Some days \<Rightarrow>
          if truthy_str timezone
          then tz_isoWeekday tz (or_else timezone []) (ch_startedAt ch) \<in> set days
          else False)"

definition or_str :: "string option \<Rightarrow> string \<Rightarrow> string" where
  "or_str x d = (if truthy_str x then or_else x d else d)"

definition checkTimeValidity :: "tz_lib \<Rightarrow> string option \<Rightarrow> consumption_chunk \<Rightarrow> pricing_restriction \<Rightarrow> bool" where
  "checkTimeValidity tz timezone ch r =
     (if pr_timeFrom r = None \<and> pr_timeTo r = None then True
      else if \<not> truthy_str timezone then False
      else
        (let timeFrom = parseTime (or_str (pr_timeFrom r) ''00:00'');
             timeTo = parseTime (or_str (pr_timeTo r) ''00:00'');
             consumptionStartTime = parseTime (tz_format tz (or_else timezone []) (ch_startedAt ch))
         in isBetween consumptionStartTime timeFrom timeTo))"

definition checkMinEnergy :: "consumption_chunk \<Rightarrow> pricing_restriction \<Rightarrow> bool" where
  "checkMinEnergy ch r =
     (case pr_minEnergyKWh r of None \<Rightarrow> True
      | Some e \<Rightarrow> \<not> (ch_cumulatedConsumptionWh ch / 1000 < e))"

definition checkMaxEnergy :: "consumption_chunk \<Rightarrow> pricing_restriction \<Rightarrow> bool" where
  "checkMaxEnergy ch r =
     (case pr_maxEnergyKWh r of None \<Rightarrow> True
      | Some e \<Rightarrow> \<not> (ch_cumulatedConsumptionWh ch / 1000 \<ge> e))"

definition checkMinDuration :: "consumption_chunk \<Rightarrow> pricing_restriction \<Rightarrow> bool" where
  "checkMinDuration ch r =
     (case pr_minDurationSecs r of None \<Rightarrow> True
      | Some e \<Rightarrow> \<not> (or_else (ch_totalDurationSecs ch) 0 < e))"

definition checkMaxDuration :: "consumption_chunk \<Rightarrow> pricing_restriction \<Rightarrow> bool" where
  "checkMaxDuration ch r =
     (case pr_maxDurationSecs r of None \<Rightarrow> True
      | Some e \<Rightarrow> \<not> (or_else (ch_totalDurationSecs ch) 0 \<ge> e))"

definition checkPricingDefinitionRestrictions ::
  "tz_lib \<Rightarrow> string option \<Rightarrow> consumption_chunk \<Rightarrow> pricing_definition \<Rightarrow> bool" where
  "checkPricingDefinitionRestrictions tz timezone ch d =
     (case def_restrictions d of
        None \<Rightarrow> True
      | Some r \<Rightarrow> checkDayOfWeek tz timezone ch r \<and> checkTimeValidity tz timezone ch r
                  \<and> checkMinEnergy ch r \<and> checkMaxEnergy ch r
                  \<and> checkMinDuration ch r \<and> checkMaxDuration ch r)"

text \<open>The constructor keeps the first tariff that passes its restrictions, as \<^verbatim>\<open>[ filtered[0] ]\<close>.\<close>

definition actualPricingDefinition :: "tz_lib \<Rightarrow> pricing_model \<Rightarrow> consumption_chunk \<Rightarrow> nat option" where
  "actualPricingDefinition tz m ch =
     first_index (checkPricingDefinitionRestrictions tz (ctx_timezone (pm_pricerContext m)) ch)
       (pm_pricingDefinitions m)"

text \<open>
  \<open>getActiveDefinition4Dimension\<close>: the tariff in force if its dimension of the given type
  exists and is active, with the dimension.
\<close>

definition getActiveDefinition4Dimension ::
  "pricing_model \<Rightarrow> nat option \<Rightarrow> DimensionType \<Rightarrow> (pricing_definition \<times> pricing_dimension) option res" where
  "getActiveDefinition4Dimension m active t =
     (case active of
        None \<Rightarrow> Inl TypeError
      | Some i \<Rightarrow>
          (let d = pm_pricingDefinitions m ! i in
           case dim_of t (def_dimensions d) of
             None \<Rightarrow> Inr None
           | Some dm \<Rightarrow> Inr (if dim_active dm then Some (d, dm) else None)))"

section \<open>Priced data of a dimension\<close>

definition addPricedData :: "pricing_dimension \<Rightarrow> priced_dimension_data \<Rightarrow> pricing_dimension" where
  "addPricedData dm pd =
     (case dim_pricedData dm of
        Some prev \<Rightarrow>
          (let sum = or_else (pdd_amountAsDecimal prev) 0 + or_else (pdd_amountAsDecimal pd) 0
           in dm\<lparr>dim_pricedData := Some (prev\<lparr>
                pdd_amountAsDecimal := Some sum,
                pdd_amount := sum,
                pdd_quantity := pdd_quantity prev + pdd_quantity pd,
                pdd_roundedAmount := truncTo sum 2\<rparr>)\<rparr>)
      | None \<Rightarrow> dm\<lparr>dim_pricedData := Some pd\<rparr>)"

definition priced :: "rat \<Rightarrow> rat \<Rightarrow> rat \<Rightarrow> rat option \<Rightarrow> priced_dimension_data" where
  "priced unitPrice amt quantity step =
     \<lparr> pdd_unitPrice = Some unitPrice, pdd_amountAsDecimal = Some amt, pdd_amount = amt,
       pdd_roundedAmount = truncTo amt 2, pdd_quantity = quantity, pdd_stepSize = step,
       pdd_sourceName = None, pdd_itemDescription = None, pdd_taxes = None \<rparr>"

definition priceFlatFeeDimension :: "pricing_dimension \<Rightarrow> pricing_dimension \<times> priced_dimension_data" where
  "priceFlatFeeDimension dm =
     (let unitPrice = dim_price dm in
      if dim_pricedData dm \<noteq> None then (dm, priced 0 0 0 None)
      else (let pd = priced unitPrice unitPrice 1 None in (dm\<lparr>dim_pricedData := Some pd\<rparr>, pd)))"

definition priceConsumptionStep :: "pricing_dimension \<Rightarrow> rat \<Rightarrow> pricing_dimension \<times> priced_dimension_data" where
  "priceConsumptionStep dm steps =
     (let unitPrice = dim_price dm;
          quantity = steps * or_else (dim_stepSize dm) 0;
          amountAsDecimal = unitPrice * quantity / 1000;
          pd = priced unitPrice amountAsDecimal quantity (dim_stepSize dm)
      in (addPricedData dm pd, pd))"

definition priceConsumptionWh :: "pricing_dimension \<Rightarrow> rat \<Rightarrow> pricing_dimension \<times> priced_dimension_data" where
  "priceConsumptionWh dm consumptionWh =
     (let unitPrice = dim_price dm;
          amountAsDecimal = unitPrice * consumptionWh / 1000;
          pd = priced unitPrice amountAsDecimal consumptionWh None
      in (addPricedData dm pd, pd))"

definition priceTimeSteps :: "pricing_dimension \<Rightarrow> rat \<Rightarrow> pricing_dimension \<times> priced_dimension_data" where
  "priceTimeSteps dm steps =
     (let unitPrice = dim_price dm;
          quantity = steps * or_else (dim_stepSize dm) 0;
          amountAsDecimal = unitPrice * quantity / 3600;
          pd = priced unitPrice amountAsDecimal quantity (dim_stepSize dm)
      in (addPricedData dm pd, pd))"

definition priceTimeSpent :: "pricing_dimension \<Rightarrow> rat \<Rightarrow> pricing_dimension \<times> priced_dimension_data" where
  "priceTimeSpent dm seconds =
     (let unitPrice = dim_price dm;
          amountAsDecimal = unitPrice * seconds / 3600;
          pd = priced unitPrice amountAsDecimal seconds None
      in (addPricedData dm pd, pd))"

definition priceTimeDimension ::
  "consumption_chunk \<Rightarrow> pricing_dimension \<Rightarrow> int \<Rightarrow> (pricing_dimension \<times> priced_dimension_data) option" where
  "priceTimeDimension ch dm lastStepDate =
     (if truthy_num (dim_stepSize dm) then
        (let timeSpent = diff_seconds (ch_endedAt ch) lastStepDate;
             nbSteps = div_to_int (of_int timeSpent) (or_else (dim_stepSize dm) 0)
         in if nbSteps > 0 then Some (priceTimeSteps dm nbSteps) else None)
      else
        (let seconds = diff_seconds (ch_endedAt ch) (ch_startedAt ch)
         in if seconds > 0 then Some (priceTimeSpent dm (of_int seconds)) else None))"

section \<open>The context\<close>

definition upd_ctx :: "(pricer_context \<Rightarrow> pricer_context) \<Rightarrow> pricing_model \<Rightarrow> pricing_model" where
  "upd_ctx f m = m\<lparr>pm_pricerContext := f (pm_pricerContext m)\<rparr>"

definition getAbsorbedConsumption :: "pricing_model \<Rightarrow> rat" where
  "getAbsorbedConsumption m = or_num (ctx_lastAbsorbedConsumption (pm_pricerContext m)) 0"

definition absorbConsumption :: "consumption_chunk \<Rightarrow> pricing_model \<Rightarrow> pricing_model" where
  "absorbConsumption ch = upd_ctx (\<lambda>c. c\<lparr>ctx_lastAbsorbedConsumption := Some (ch_cumulatedConsumptionWh ch)\<rparr>)"

definition absorbStepConsumption :: "consumption_chunk \<Rightarrow> priced_dimension_data \<Rightarrow> pricing_model \<Rightarrow> pricing_model" where
  "absorbStepConsumption ch pd =
     (let step = or_else (pdd_stepSize pd) 0
      in upd_ctx (\<lambda>c. c\<lparr>ctx_lastAbsorbedConsumption :=
           Some (rtrunc (ch_cumulatedConsumptionWh ch / step) * step)\<rparr>))"

definition getAbsorbedChargingTime :: "pricing_model \<Rightarrow> int" where
  "getAbsorbedChargingTime m =
     or_else (ctx_lastAbsorbedChargingTime (pm_pricerContext m)) (ctx_sessionStartDate (pm_pricerContext m))"

definition absorbChargingTime :: "consumption_chunk \<Rightarrow> pricing_model \<Rightarrow> pricing_model" where
  "absorbChargingTime ch = upd_ctx (\<lambda>c. c\<lparr>ctx_lastAbsorbedChargingTime := Some (ch_endedAt ch)\<rparr>)"

definition getAbsorbedParkingTime :: "pricing_model \<Rightarrow> int" where
  "getAbsorbedParkingTime m =
     or_else (ctx_lastAbsorbedParkingTime (pm_pricerContext m)) (ctx_sessionStartDate (pm_pricerContext m))"

definition absorbParkingTime :: "consumption_chunk \<Rightarrow> pricing_model \<Rightarrow> pricing_model" where
  "absorbParkingTime ch = upd_ctx (\<lambda>c. c\<lparr>ctx_lastAbsorbedParkingTime := Some (ch_endedAt ch)\<rparr>)"

text \<open>
  Writing a dimension back. The object that the first call of a dimension stores is the one it
  returns, so naming the returned object names the stored one too; \<open>store_dim\<close> does both.
\<close>

definition name_pd :: "string \<Rightarrow> priced_dimension_data \<Rightarrow> priced_dimension_data" where
  "name_pd n pd = pd\<lparr>pdd_sourceName := Some n\<rparr>"

definition name_stored :: "bool \<Rightarrow> string \<Rightarrow> pricing_dimension \<Rightarrow> pricing_dimension" where
  "name_stored fresh n dm = (if fresh then dm\<lparr>dim_pricedData := map_option (name_pd n) (dim_pricedData dm)\<rparr> else dm)"

definition put_dim :: "nat \<Rightarrow> DimensionType \<Rightarrow> pricing_dimension \<Rightarrow> pricing_model \<Rightarrow> pricing_model" where
  "put_dim i t dm m =
     (let d = pm_pricingDefinitions m ! i
      in m\<lparr>pm_pricingDefinitions :=
           (pm_pricingDefinitions m)[i := d\<lparr>def_dimensions := set_dim t dm (def_dimensions d)\<rparr>]\<rparr>)"

definition store_dim ::
  "nat option \<Rightarrow> DimensionType \<Rightarrow> pricing_definition \<Rightarrow> pricing_dimension \<Rightarrow>
   pricing_dimension \<times> priced_dimension_data \<Rightarrow> pricing_model \<Rightarrow> pricing_model \<times> priced_dimension_data" where
  "store_dim active t d old r m =
     (put_dim (or_else active 0) t
        (name_stored (dim_pricedData old = None) (def_name d) (fst r)) m,
      name_pd (def_name d) (snd r))"

section \<open>The four dimensions\<close>

type_synonym priced_step = "(pricing_model \<times> priced_dimension_data option) res"

definition priceFlatFeeConsumption :: "consumption_chunk \<Rightarrow> nat option \<Rightarrow> pricing_model \<Rightarrow> priced_step" where
  "priceFlatFeeConsumption ch active m =
     (if ctx_flatFeeAlreadyPriced (pm_pricerContext m) then Inr (m, None)
      else bindE (getActiveDefinition4Dimension m active FLAT_FEE) (\<lambda>found.
        case found of
          None \<Rightarrow> Inr (m, None)
        | Some (d, dm) \<Rightarrow>
            if ch_cumulatedConsumptionWh ch > 0 then
              (let (m', pd) = store_dim active FLAT_FEE d dm (priceFlatFeeDimension dm) m
               in Inr (upd_ctx (\<lambda>c. c\<lparr>ctx_flatFeeAlreadyPriced := True\<rparr>) m', Some pd))
            else Inr (m, None)))"

definition priceEnergyConsumption :: "consumption_chunk \<Rightarrow> nat option \<Rightarrow> pricing_model \<Rightarrow> priced_step" where
  "priceEnergyConsumption ch active m =
     bindE (getActiveDefinition4Dimension m active ENERGY) (\<lambda>found.
       case found of
         None \<Rightarrow> Inr (absorbConsumption ch m, None)
       | Some (d, dm) \<Rightarrow>
           (let consumptionWh = or_num (ch_consumptionWh ch) 0 in
            if truthy_num (dim_stepSize dm) then
              if ch_cumulatedConsumptionWh ch > 0 then
                (let delta = ch_cumulatedConsumptionWh ch - getAbsorbedConsumption m;
                     nbSteps = div_to_int delta (or_else (dim_stepSize dm) 0)
                 in if nbSteps > 0 then
                      (let (m', pd) = store_dim active ENERGY d dm (priceConsumptionStep dm nbSteps) m
                       in Inr (absorbStepConsumption ch pd m', Some pd))
                    else Inr (m, None))
              else Inr (m, None)
            else if consumptionWh > 0 then
              (let (m', pd) = store_dim active ENERGY d dm (priceConsumptionWh dm consumptionWh) m
               in Inr (absorbConsumption ch m', Some pd))
            else Inr (m, None)))"

definition priceChargingTimeConsumption :: "consumption_chunk \<Rightarrow> nat option \<Rightarrow> pricing_model \<Rightarrow> priced_step" where
  "priceChargingTimeConsumption ch active m =
     bindE (getActiveDefinition4Dimension m active DimensionType.CHARGING_TIME) (\<lambda>found.
       case found of
         None \<Rightarrow> Inr (absorbChargingTime ch m, None)
       | Some (d, dm) \<Rightarrow>
           if or_num (ch_consumptionWh ch) 0 > 0 then
             (case priceTimeDimension ch dm (getAbsorbedChargingTime m) of
                Some r \<Rightarrow>
                  (let (m', pd) = store_dim active DimensionType.CHARGING_TIME d dm r m
                   in Inr (absorbChargingTime ch m', Some pd))
              | None \<Rightarrow> Inr (m, None))
           else Inr (absorbChargingTime ch m, None))"

definition priceParkingTimeConsumption :: "consumption_chunk \<Rightarrow> nat option \<Rightarrow> pricing_model \<Rightarrow> priced_step" where
  "priceParkingTimeConsumption ch active m =
     bindE (getActiveDefinition4Dimension m active PARKING_TIME) (\<lambda>found.
       case found of
         None \<Rightarrow> Inr (absorbParkingTime ch m, None)
       | Some (d, dm) \<Rightarrow>
           if or_num (ch_totalInactivitySecs ch) 0 > 0 \<and> ch_cumulatedConsumptionWh ch > 0
              \<and> or_num (ch_consumptionWh ch) 0 \<le> 0 then
             (case priceTimeDimension ch dm (getAbsorbedParkingTime m) of
                Some r \<Rightarrow>
                  (let (m', pd) = store_dim active PARKING_TIME d dm r m
                   in Inr (absorbParkingTime ch m', Some pd))
              | None \<Rightarrow> Inr (m, None))
           else Inr (absorbParkingTime ch m, None))"

text \<open>The chunk: the four dimensions in this order, on the tariff chosen before any of them.\<close>

definition priceConsumptionChunk ::
  "tz_lib \<Rightarrow> consumption_chunk \<Rightarrow> pricing_model \<Rightarrow> (pricing_model \<times> priced_consumption_data) res" where
  "priceConsumptionChunk tz ch m =
     (let active = actualPricingDefinition tz m ch in
      bindE (priceFlatFeeConsumption ch active m) (\<lambda>(m1, flatFee).
      bindE (priceEnergyConsumption ch active m1) (\<lambda>(m2, energy).
      bindE (priceChargingTimeConsumption ch active m2) (\<lambda>(m3, chargingTime).
      bindE (priceParkingTimeConsumption ch active m3) (\<lambda>(m4, parkingTime).
        Inr (m4, \<lparr> pcd_flatFee = flatFee, pcd_energy = energy,
                    pcd_chargingTime = chargingTime, pcd_parkingTime = parkingTime \<rparr>))))))"


section \<open>What a pricing step adds to the bill\<close>

text \<open>
  A measure of priced data is a number that adding priced data to a dimension adds up: the
  quantity and the decimal amount are two. \<open>billed f t m\<close> is the measure over the whole
  pricing model, for one dimension type.
\<close>

definition stored_measure :: "(priced_dimension_data \<Rightarrow> rat) \<Rightarrow> pricing_dimension option \<Rightarrow> rat" where
  "stored_measure f dmo =
     (case Option.bind dmo dim_pricedData of None \<Rightarrow> 0 | Some pd \<Rightarrow> f pd)"

definition billed :: "(priced_dimension_data \<Rightarrow> rat) \<Rightarrow> DimensionType \<Rightarrow> pricing_model \<Rightarrow> rat" where
  "billed f t m = sum_list (map (\<lambda>d. stored_measure f (dim_of t (def_dimensions d))) (pm_pricingDefinitions m))"

definition reported :: "(priced_dimension_data \<Rightarrow> rat) \<Rightarrow> priced_dimension_data option \<Rightarrow> rat" where
  "reported f pdo = (case pdo of None \<Rightarrow> 0 | Some pd \<Rightarrow> f pd)"

definition pd_decimal :: "priced_dimension_data \<Rightarrow> rat" where
  "pd_decimal pd = or_else (pdd_amountAsDecimal pd) 0"

lemma reported_simps [simp]: "reported f None = 0" "reported f (Some pd) = f pd"
  by (simp_all add: reported_def)

lemma stored_measure_Some [simp]:
  "stored_measure f (Some dm) = (case dim_pricedData dm of None \<Rightarrow> 0 | Some pd \<Rightarrow> f pd)"
  "stored_measure f None = 0"
  by (simp_all add: stored_measure_def)

lemma getActive_Some:
  assumes "getActiveDefinition4Dimension m active t = Inr (Some (d, dm))"
  obtains i where "active = Some i" "d = pm_pricingDefinitions m ! i"
    "dim_of t (def_dimensions d) = Some dm" "dim_active dm"
  using assms
  by (auto simp: getActiveDefinition4Dimension_def Let_def split: option.splits if_splits)

lemma upd_ctx_simps [simp]:
  "pm_pricingDefinitions (upd_ctx f m) = pm_pricingDefinitions m"
  "pm_pricerContext (upd_ctx f m) = f (pm_pricerContext m)"
  "billed g t (upd_ctx f m) = billed g t m"
  by (simp_all add: upd_ctx_def billed_def)

lemma put_dim_simps [simp]:
  "length (pm_pricingDefinitions (put_dim i t dm m)) = length (pm_pricingDefinitions m)"
  "pm_pricerContext (put_dim i t dm m) = pm_pricerContext m"
  by (simp_all add: put_dim_def Let_def)

lemma sum_list_update_at:
  "i < length xs \<Longrightarrow> sum_list (map g (xs[i := x])) = sum_list (map g xs) - g (xs ! i) + g x" for g :: "'a \<Rightarrow> rat"
  by (induction xs arbitrary: i) (auto split: nat.splits)

lemma billed_put_dim:
  assumes "i < length (pm_pricingDefinitions m)"
  shows "billed f u (put_dim i t dm m) =
    (if u = t then billed f t m - stored_measure f (dim_of t (def_dimensions (pm_pricingDefinitions m ! i)))
                   + stored_measure f (Some dm)
     else billed f u m)"
  using assms by (simp add: billed_def put_dim_def Let_def sum_list_update_at)

locale dimension_measure =
  fixes f :: "priced_dimension_data \<Rightarrow> rat"
  assumes measure_add:
      "stored_measure f (Some (addPricedData dm pd)) = stored_measure f (Some dm) + f pd"
    and measure_name: "f (name_pd n pd) = f pd"
    and measure_zero: "f (priced 0 0 0 None) = 0"
begin

lemma measure_name_stored: "stored_measure f (Some (name_stored b n dm)) = stored_measure f (Some dm)"
  by (cases "dim_pricedData dm") (simp_all add: name_stored_def measure_name)

lemma measure_flat_fee:
  "priceFlatFeeDimension dm = (dm', pd) \<Longrightarrow>
     stored_measure f (Some dm') = stored_measure f (Some dm) + f pd"
  by (auto simp: priceFlatFeeDimension_def Let_def measure_zero split: if_splits)

lemma measure_adders:
  "priceConsumptionStep dm n = (dm', pd) \<Longrightarrow> stored_measure f (Some dm') = stored_measure f (Some dm) + f pd"
  "priceConsumptionWh dm n = (dm', pd) \<Longrightarrow> stored_measure f (Some dm') = stored_measure f (Some dm) + f pd"
  "priceTimeSteps dm n = (dm', pd) \<Longrightarrow> stored_measure f (Some dm') = stored_measure f (Some dm) + f pd"
  "priceTimeSpent dm n = (dm', pd) \<Longrightarrow> stored_measure f (Some dm') = stored_measure f (Some dm) + f pd"
  using measure_add
  by (auto simp: priceConsumptionStep_def priceConsumptionWh_def priceTimeSteps_def priceTimeSpent_def Let_def)

lemma measure_time:
  "priceTimeDimension ch dm d = Some (dm', pd) \<Longrightarrow> stored_measure f (Some dm') = stored_measure f (Some dm) + f pd"
  by (auto simp: priceTimeDimension_def Let_def split: if_splits dest: measure_adders)

lemma store_dim_billed:
  assumes r: "r = (dm', pd0)" "stored_measure f (Some dm') = stored_measure f (Some dm) + f pd0"
    and i: "active = Some i" "i < length (pm_pricingDefinitions m)"
    and d: "dim_of t (def_dimensions (pm_pricingDefinitions m ! i)) = Some dm"
    and s: "store_dim active t d dm r m = (m', pd)"
  shows "billed f u m' = billed f u m + (if u = t then f pd else 0)"
    and "length (pm_pricingDefinitions m') = length (pm_pricingDefinitions m)"
proof -
  from s i(1) r(1) have m': "m' = put_dim i t (name_stored (dim_pricedData dm = None) (def_name d) dm') m"
    and pd: "pd = name_pd (def_name d) pd0"
    by (auto simp: store_dim_def)
  show "billed f u m' = billed f u m + (if u = t then f pd else 0)"
    unfolding m' pd billed_put_dim[OF i(2)] measure_name_stored r(2) d measure_name by simp
  show "length (pm_pricingDefinitions m') = length (pm_pricingDefinitions m)"
    by (simp add: m')
qed

end

interpretation quantity: dimension_measure pdd_quantity
  by unfold_locales (auto simp: addPricedData_def Let_def name_pd_def priced_def split: option.splits)

interpretation decimal: dimension_measure pd_decimal
  by unfold_locales (auto simp: addPricedData_def Let_def name_pd_def priced_def pd_decimal_def split: option.splits)


definition valid_active :: "nat option \<Rightarrow> pricing_model \<Rightarrow> bool" where
  "valid_active active m = (case active of None \<Rightarrow> True | Some i \<Rightarrow> i < length (pm_pricingDefinitions m))"

lemma actual_valid: "valid_active (actualPricingDefinition tz m ch) m"
  by (auto simp: valid_active_def actualPricingDefinition_def split: option.splits dest: first_index_Some)

lemmas absorb_defs = absorbConsumption_def absorbStepConsumption_def absorbChargingTime_def absorbParkingTime_def

text \<open>
  Every step either leaves the tariffs alone and reports nothing, or makes one call of a
  dimension pricer, stores its result and reports it.
\<close>

definition pricing_call :: "pricing_dimension \<Rightarrow> pricing_dimension \<times> priced_dimension_data \<Rightarrow> bool" where
  "pricing_call dm r = (r = priceFlatFeeDimension dm \<or> (\<exists>n > 0. r = priceConsumptionStep dm n)
     \<or> (\<exists>n > 0. r = priceConsumptionWh dm n) \<or> (\<exists>n > 0. r = priceTimeSteps dm n)
     \<or> (\<exists>n > 0. r = priceTimeSpent dm n))"

definition step_shape ::
  "DimensionType \<Rightarrow> nat option \<Rightarrow> pricing_model \<Rightarrow> pricing_model \<Rightarrow> priced_dimension_data option \<Rightarrow> bool" where
  "step_shape t active m m' res =
     ((res = None \<and> pm_pricingDefinitions m' = pm_pricingDefinitions m)
      \<or> (\<exists>x r. getActiveDefinition4Dimension m active t = Inr (Some x) \<and> pricing_call (snd x) r
            \<and> res = Some (snd (store_dim active t (fst x) (snd x) r m))
            \<and> pm_pricingDefinitions m' = pm_pricingDefinitions (fst (store_dim active t (fst x) (snd x) r m))))"

lemma step_shape_none: "pm_pricingDefinitions m' = pm_pricingDefinitions m \<Longrightarrow> step_shape t active m m' None"
  by (simp add: step_shape_def)

lemma step_shape_some:
  assumes "getActiveDefinition4Dimension m active t = Inr (Some (d, dm))" and "pricing_call dm r"
    and "pm_pricingDefinitions m' = pm_pricingDefinitions (fst (store_dim active t d dm r m))"
  shows "step_shape t active m m' (Some (snd (store_dim active t d dm r m)))"
  unfolding step_shape_def using assms by (intro disjI2 exI[of _ "(d, dm)"] exI[of _ r]) simp

lemma pricing_call_simps [simp]:
  "pricing_call dm (priceFlatFeeDimension dm)" "n > 0 \<Longrightarrow> pricing_call dm (priceConsumptionStep dm n)"
  "n > 0 \<Longrightarrow> pricing_call dm (priceConsumptionWh dm n)" "n > 0 \<Longrightarrow> pricing_call dm (priceTimeSteps dm n)"
  "n > 0 \<Longrightarrow> pricing_call dm (priceTimeSpent dm n)"
  unfolding pricing_call_def by blast+

lemma priceTimeDimension_call: "priceTimeDimension ch dm d = Some r \<Longrightarrow> pricing_call dm r"
  by (auto simp: priceTimeDimension_def Let_def split: if_splits)

lemma flat_fee_shape:
  assumes "priceFlatFeeConsumption ch active m = Inr (m', res)"
  shows "step_shape FLAT_FEE active m m' res"
  using assms unfolding priceFlatFeeConsumption_def
  by (auto elim!: bindE_InrE simp: step_shape_none step_shape_some Let_def split_def split: if_splits option.splits)

lemma energy_shape:
  assumes "priceEnergyConsumption ch active m = Inr (m', res)"
  shows "step_shape ENERGY active m m' res"
  using assms unfolding priceEnergyConsumption_def
  by (auto elim!: bindE_InrE simp: step_shape_none step_shape_some Let_def absorb_defs split_def split: if_splits option.splits)

lemma charging_time_shape:
  assumes "priceChargingTimeConsumption ch active m = Inr (m', res)"
  shows "step_shape DimensionType.CHARGING_TIME active m m' res"
  using assms unfolding priceChargingTimeConsumption_def
  by (auto elim!: bindE_InrE simp: step_shape_none step_shape_some Let_def absorb_defs split_def split: if_splits option.splits
      dest!: priceTimeDimension_call)

lemma parking_time_shape:
  assumes "priceParkingTimeConsumption ch active m = Inr (m', res)"
  shows "step_shape PARKING_TIME active m m' res"
  using assms unfolding priceParkingTimeConsumption_def
  by (auto elim!: bindE_InrE simp: step_shape_none step_shape_some Let_def absorb_defs split_def split: if_splits option.splits
      dest!: priceTimeDimension_call)

lemma priceConsumptionChunk_steps:
  assumes "priceConsumptionChunk tz ch m = Inr (m', p)"
  obtains m1 m2 m3 where
    "priceFlatFeeConsumption ch (actualPricingDefinition tz m ch) m = Inr (m1, pcd_flatFee p)"
    "priceEnergyConsumption ch (actualPricingDefinition tz m ch) m1 = Inr (m2, pcd_energy p)"
    "priceChargingTimeConsumption ch (actualPricingDefinition tz m ch) m2 = Inr (m3, pcd_chargingTime p)"
    "priceParkingTimeConsumption ch (actualPricingDefinition tz m ch) m3 = Inr (m', pcd_parkingTime p)"
  using assms that by (auto simp: priceConsumptionChunk_def Let_def bindE_eq_Inr)

context dimension_measure
begin

lemma call_measure:
  "pricing_call dm r \<Longrightarrow> stored_measure f (Some (fst r)) = stored_measure f (Some dm) + f (snd r)"
  using measure_flat_fee[of dm "fst r" "snd r"] measure_adders[of dm _ "fst r" "snd r"]
  by (auto simp: pricing_call_def)

lemma step_effect:
  assumes "step_shape t active m m' res" and "valid_active active m"
  shows "billed f u m' = billed f u m + (if u = t then reported f res else 0)
    \<and> valid_active active m'"
  using assms(1) unfolding step_shape_def
proof (elim disjE exE conjE)
  assume "res = None" "pm_pricingDefinitions m' = pm_pricingDefinitions m"
  then show ?thesis using assms(2) by (simp add: billed_def valid_active_def split: option.splits)
next
  fix x r
  assume a: "getActiveDefinition4Dimension m active t = Inr (Some x)"
    and r: "pricing_call (snd x) r" and res: "res = Some (snd (store_dim active t (fst x) (snd x) r m))"
    and m': "pm_pricingDefinitions m' = pm_pricingDefinitions (fst (store_dim active t (fst x) (snd x) r m))"
  from a obtain i where i: "active = Some i" and d: "fst x = pm_pricingDefinitions m ! i"
    and dm: "dim_of t (def_dimensions (fst x)) = Some (snd x)"
    using getActive_Some[of m active t "fst x" "snd x"] by auto
  from i assms(2) have il: "i < length (pm_pricingDefinitions m)"
    by (simp add: valid_active_def)
  note store_dim_billed[OF prod.collapse[symmetric] call_measure[OF r] i il dm[unfolded d] prod.collapse[symmetric]]
  then show ?thesis using i il m' res by (simp add: billed_def valid_active_def)
qed

lemma chunk_effect:
  assumes "priceConsumptionChunk tz ch m = Inr (m', p)"
  shows "billed f t m' = billed f t m + reported f (pcd_of t p)"
proof -
  let ?a = "actualPricingDefinition tz m ch"
  from assms obtain m1 m2 m3 where
    s: "priceFlatFeeConsumption ch ?a m = Inr (m1, pcd_flatFee p)"
       "priceEnergyConsumption ch ?a m1 = Inr (m2, pcd_energy p)"
       "priceChargingTimeConsumption ch ?a m2 = Inr (m3, pcd_chargingTime p)"
       "priceParkingTimeConsumption ch ?a m3 = Inr (m', pcd_parkingTime p)"
    by (rule priceConsumptionChunk_steps)
  note e1 = step_effect[OF flat_fee_shape[OF s(1)] actual_valid]
  note e2 = step_effect[OF energy_shape[OF s(2)] e1[THEN conjunct2]]
  note e3 = step_effect[OF charging_time_shape[OF s(3)] e2[THEN conjunct2]]
  note e4 = step_effect[OF parking_time_shape[OF s(4)] e3[THEN conjunct2]]
  from e1 e2 e3 e4 show ?thesis by (cases t) simp_all
qed

end

end
