(* ===== verification/Consumption_Pricer.thy ===== *)
theory Consumption_Pricer
  imports Chunk_Pricer
begin

text \<open>
  Pricing one consumption record (src/integration/pricing/ConsumptionPricer.ts and
  PricingHelper.ts): a record longer than a minute is cut into chunks of at most sixty seconds,
  each is priced in turn, and the priced data of the chunks is accumulated into the data of the
  record.
\<close>

record consumption =
  cn_startedAt :: int
  cn_endedAt :: int
  cn_consumptionWh :: "rat option"
  cn_cumulatedConsumptionWh :: rat
  cn_inactivitySecs :: "rat option"
  cn_totalInactivitySecs :: "rat option"
  cn_totalDurationSecs :: "rat option"

section \<open>Chunks\<close>

text \<open>
  The loop of \<open>generateChunk\<close>, with its three running totals. \<open>w\<close> is the record's energy,
  \<open>n\<close> its number of seconds and \<open>inactivity\<close> its inactivity in seconds.
\<close>

function chunk_loop ::
  "int \<Rightarrow> rat \<Rightarrow> int \<Rightarrow> rat \<Rightarrow> int \<Rightarrow> rat \<Rightarrow> rat \<Rightarrow> rat \<Rightarrow> consumption_chunk list" where
  "chunk_loop startedAt w n inactivity already cum dur inact =
     (if already < n then
        (let secondsToPrice = min (n - already) 60;
             inactivityToPrice = (if w = 0 \<and> inactivity = of_int n then of_int secondsToPrice else 0);
             chunkConsumptionWh = w * of_int secondsToPrice / of_int n;
             cum' = cum + chunkConsumptionWh;
             dur' = dur + of_int secondsToPrice;
             inact' = inact + inactivityToPrice
         in \<lparr> ch_startedAt = startedAt + already * 1000,
              ch_endedAt = startedAt + (already + secondsToPrice) * 1000,
              ch_consumptionWh = Some chunkConsumptionWh,
              ch_cumulatedConsumptionWh = cum',
              ch_totalDurationSecs = Some dur',
              ch_totalInactivitySecs = Some inact' \<rparr>
            # chunk_loop startedAt w n inactivity (already + secondsToPrice) cum' dur' inact')
      else [])"
  by pat_completeness auto
termination
  by (relation "measure (\<lambda>(_, _, n, _, already, _). nat (n - already))") auto

declare chunk_loop.simps [simp del]

definition durationSecs :: "consumption \<Rightarrow> int" where
  "durationSecs c = diff_seconds (cn_endedAt c) (cn_startedAt c)"

definition generateChunk :: "consumption \<Rightarrow> consumption_chunk list res" where
  "generateChunk c =
     (let inactivitySecs = or_num (cn_inactivitySecs c) 0 in
      if durationSecs c \<le> 60 then
        Inr [\<lparr> ch_startedAt = cn_startedAt c, ch_endedAt = cn_endedAt c,
               ch_consumptionWh = cn_consumptionWh c,
               ch_cumulatedConsumptionWh = cn_cumulatedConsumptionWh c,
               ch_totalDurationSecs = cn_totalDurationSecs c,
               ch_totalInactivitySecs = cn_totalInactivitySecs c \<rparr>]
      else case cn_consumptionWh c of
        None \<Rightarrow> Inl DecimalError
      | Some w \<Rightarrow>
          Inr (chunk_loop (cn_startedAt c) w (durationSecs c) inactivitySecs 0
                 (cn_cumulatedConsumptionWh c - w)
                 (or_else (cn_totalDurationSecs c) 0 - of_int (durationSecs c))
                 (or_else (cn_totalInactivitySecs c) 0 - inactivitySecs)))"

section \<open>Accumulation\<close>

definition empty_dimension_data :: priced_dimension_data where
  "empty_dimension_data = \<lparr> pdd_unitPrice = None, pdd_amountAsDecimal = Some 0, pdd_amount = 0,
     pdd_roundedAmount = 0, pdd_quantity = 0, pdd_stepSize = None, pdd_sourceName = None,
     pdd_itemDescription = None, pdd_taxes = None \<rparr>"

definition accumulatePricedConsumptionData ::
  "priced_consumption_data \<Rightarrow> DimensionType \<Rightarrow> priced_consumption_data \<Rightarrow> priced_consumption_data" where
  "accumulatePricedConsumptionData pricedData t accumulated =
     (case pcd_of t pricedData of
        None \<Rightarrow> accumulated
      | Some pd \<Rightarrow>
          (let acc = or_else (pcd_of t accumulated) empty_dimension_data;
               persistedAmount = (case pdd_amountAsDecimal pd of None \<Rightarrow> pdd_amount pd | Some a \<Rightarrow> a);
               sum = or_else (pdd_amountAsDecimal acc) 0 + persistedAmount
           in set_pcd t (acc\<lparr> pdd_quantity := pdd_quantity acc + pdd_quantity pd,
                              pdd_amountAsDecimal := Some sum,
                              pdd_amount := sum,
                              pdd_roundedAmount := truncTo sum 2 \<rparr>) accumulated))"

definition accumulateAllDimensions ::
  "priced_consumption_data \<Rightarrow> priced_consumption_data \<Rightarrow> priced_consumption_data" where
  "accumulateAllDimensions p accumulated =
     accumulatePricedConsumptionData p PARKING_TIME
       (accumulatePricedConsumptionData p DimensionType.CHARGING_TIME
         (accumulatePricedConsumptionData p ENERGY
           (accumulatePricedConsumptionData p FLAT_FEE accumulated)))"

definition accumulatePricedConsumption :: "priced_consumption_data list \<Rightarrow> priced_consumption_data" where
  "accumulatePricedConsumption ps = fold accumulateAllDimensions ps no_priced_data"

definition accumulatePricingDimension ::
  "pricing_dimensions list \<Rightarrow> DimensionType \<Rightarrow> rat \<times> rat" where
  "accumulatePricingDimension dimensions t =
     fold (\<lambda>d (cumulatedAmount, cumulatedRoundedAmount).
         (case Option.bind (dim_of t d) dim_pricedData of
            None \<Rightarrow> (cumulatedAmount, cumulatedRoundedAmount)
          | Some pd \<Rightarrow> (cumulatedAmount + pdd_amount pd, cumulatedRoundedAmount + pdd_roundedAmount pd)))
       dimensions (0, 0)"

definition accumulatePricingDimensions :: "pricing_dimensions list \<Rightarrow> rat \<times> rat" where
  "accumulatePricingDimensions dimensions =
     (let flatFee = accumulatePricingDimension dimensions FLAT_FEE;
          energy = accumulatePricingDimension dimensions ENERGY;
          chargingTime = accumulatePricingDimension dimensions DimensionType.CHARGING_TIME;
          parkingTime = accumulatePricingDimension dimensions PARKING_TIME
      in (fst flatFee + fst energy + fst chargingTime + fst parkingTime,
          snd flatFee + snd energy + snd chargingTime + snd parkingTime))"

section \<open>Pricing a consumption\<close>

fun priceChunks ::
  "tz_lib \<Rightarrow> consumption_chunk list \<Rightarrow> pricing_model \<Rightarrow> priced_consumption_data \<Rightarrow>
   (pricing_model \<times> priced_consumption_data) res" where
  "priceChunks tz [] m acc = Inr (m, acc)"
| "priceChunks tz (ch # chs) m acc =
     bindE (priceConsumptionChunk tz ch m) (\<lambda>(m', pricedData).
       priceChunks tz chs m' (accumulatePricedConsumption [acc, pricedData]))"

definition priceConsumption ::
  "tz_lib \<Rightarrow> pricing_model \<Rightarrow> consumption \<Rightarrow> (pricing_model \<times> priced_consumption_data) res" where
  "priceConsumption tz m c = bindE (generateChunk c) (\<lambda>chs. priceChunks tz chs m no_priced_data)"

section \<open>Lemmas on the chunks\<close>

text \<open>A chain of chunks that tiles an interval, each at most a minute long.\<close>

fun tiles :: "int \<Rightarrow> int \<Rightarrow> consumption_chunk list \<Rightarrow> bool" where
  "tiles a b [] = (a = b)"
| "tiles a b (ch # chs) =
     (ch_startedAt ch = a \<and> a < ch_endedAt ch \<and> ch_endedAt ch \<le> a + 60000 \<and> tiles (ch_endedAt ch) b chs)"

definition chunk_wh :: "consumption_chunk \<Rightarrow> rat" where
  "chunk_wh ch = or_num (ch_consumptionWh ch) 0"

fun running_cumulated :: "rat \<Rightarrow> consumption_chunk list \<Rightarrow> bool" where
  "running_cumulated c [] = True"
| "running_cumulated c (ch # chs) =
     (ch_cumulatedConsumptionWh ch = c + chunk_wh ch \<and> running_cumulated (ch_cumulatedConsumptionWh ch) chs)"

lemma chunk_loop_props:
  assumes "0 \<le> already" and "already \<le> n" and "0 < n"
  shows "tiles (s + already * 1000) (s + n * 1000) (chunk_loop s w n i already cum dur inact)"
    and "sum_list (map chunk_wh (chunk_loop s w n i already cum dur inact)) = w * of_int (n - already) / of_int n"
    and "running_cumulated cum (chunk_loop s w n i already cum dur inact)"
    and "already < n \<Longrightarrow> ch_totalDurationSecs (last (chunk_loop s w n i already cum dur inact))
          = Some (dur + of_int (n - already))"
    and "already < n \<Longrightarrow> chunk_loop s w n i already cum dur inact \<noteq> []"
  using assms
proof (induction s w n i already cum dur inact rule: chunk_loop.induct)
  case (1 s w n i already cum dur inact)
  let ?p = "min (n - already) 60"
  let ?rest = "chunk_loop s w n i (already + ?p) (cum + w * of_int ?p / of_int n) (dur + of_int ?p)
    (inact + (if w = 0 \<and> i = of_int n then of_int ?p else 0))"
  have unfold: "already < n \<Longrightarrow> chunk_loop s w n i already cum dur inact =
    \<lparr> ch_startedAt = s + already * 1000, ch_endedAt = s + (already + ?p) * 1000,
      ch_consumptionWh = Some (w * of_int ?p / of_int n), ch_cumulatedConsumptionWh = cum + w * of_int ?p / of_int n,
      ch_totalDurationSecs = Some (dur + of_int ?p),
      ch_totalInactivitySecs = Some (inact + (if w = 0 \<and> i = of_int n then of_int ?p else 0)) \<rparr> # ?rest"
    by (subst chunk_loop.simps) (simp add: Let_def)
  have nil: "\<not> already < n \<Longrightarrow> chunk_loop s w n i already cum dur inact = []"
    by (subst chunk_loop.simps) simp
  note IH = "1.IH"[OF _ refl refl refl refl refl refl]
  { case 1
    then show ?case
    proof (cases "already < n")
      case True
      have "tiles (s + (already + ?p) * 1000) (s + n * 1000) ?rest"
        using True 1 by (intro IH(1)) auto
      then show ?thesis unfolding unfold[OF True] using True by simp
    qed (use 1 nil in simp)
  next
    case 2
    show ?case
    proof (cases "already < n")
      case True
      have "sum_list (map chunk_wh ?rest) = w * of_int (n - (already + ?p)) / of_int n"
        using True 2 by (intro IH(2)) auto
      then have "sum_list (map chunk_wh (chunk_loop s w n i already cum dur inact)) =
          w * of_int ?p / of_int n + w * of_int (n - (already + ?p)) / of_int n"
        unfolding unfold[OF True] by (simp add: chunk_wh_def)
      also have "\<dots> = w * of_int (n - already) / of_int n"
        by (simp add: add_divide_distrib[symmetric] algebra_simps)
      finally show ?thesis .
    qed (use 2 nil in simp)
  next
    case 3
    show ?case
    proof (cases "already < n")
      case True
      have "running_cumulated (cum + w * of_int ?p / of_int n) ?rest"
        using True 3 by (intro IH(3)) auto
      then show ?thesis unfolding unfold[OF True] by (simp add: chunk_wh_def)
    qed (simp add: nil)
  next
    case 4
    show ?case
    proof (cases "already + ?p < n")
      case True
      have "?rest \<noteq> []" and "ch_totalDurationSecs (last ?rest) = Some (dur + of_int ?p + of_int (n - (already + ?p)))"
        using True 4 by (intro IH(4,5); auto)+
      then show ?thesis unfolding unfold[OF 4(1)] by (simp add: algebra_simps)
    next
      case False
      then have "?rest = []" by (subst chunk_loop.simps) simp
      moreover have "?p = n - already" using False 4(1) by auto
      ultimately show ?thesis unfolding unfold[OF 4(1)] by simp
    qed
  next
    case 5
    show ?case unfolding unfold[OF 5(1)] by simp
  }
qed


section \<open>Lemmas on the accumulation\<close>

definition has_decimal :: "priced_consumption_data \<Rightarrow> bool" where
  "has_decimal p = (\<forall>t. case pcd_of t p of None \<Rightarrow> True | Some pd \<Rightarrow> pdd_amountAsDecimal pd \<noteq> None)"

lemma has_decimal_none [simp]: "has_decimal no_priced_data"
  by (simp add: has_decimal_def)

lemma pcd_of_accumulate_other [simp]:
  "u \<noteq> t \<Longrightarrow> pcd_of u (accumulatePricedConsumptionData p t acc) = pcd_of u acc"
  by (simp add: accumulatePricedConsumptionData_def Let_def split: option.splits)

lemma pcd_of_accumulate_all:
  "pcd_of t (accumulateAllDimensions p acc) = pcd_of t (accumulatePricedConsumptionData p t acc)"
proof -
  have skip: "u \<noteq> v \<Longrightarrow> pcd_of v (accumulatePricedConsumptionData p v (accumulatePricedConsumptionData p u a)) =
      pcd_of v (accumulatePricedConsumptionData p v a)" for u v a
    using pcd_of_accumulate_other[of v u p a]
    by (simp add: accumulatePricedConsumptionData_def[of p v] Let_def del: pcd_of_accumulate_other split: option.splits)
  show ?thesis
    unfolding accumulateAllDimensions_def
    by (cases t) (simp_all add: skip del: pcd_of.simps)
qed

lemma accumulate_two:
  "accumulatePricedConsumption [a, b] = accumulateAllDimensions b (accumulateAllDimensions a no_priced_data)"
  by (simp add: accumulatePricedConsumption_def)

lemma has_decimal_accumulate: "has_decimal acc \<Longrightarrow> has_decimal (accumulateAllDimensions p acc)"
  by (auto simp: has_decimal_def pcd_of_accumulate_all accumulatePricedConsumptionData_def Let_def split: option.splits)

lemma priced_decimal [simp]: "pdd_amountAsDecimal (priced u a q s) = Some a"
  by (simp add: priced_def)

lemma pricing_call_decimal: "pricing_call dm r \<Longrightarrow> pdd_amountAsDecimal (snd r) \<noteq> None"
  unfolding pricing_call_def
  by (elim disjE exE) (simp_all add: priceFlatFeeDimension_def priceConsumptionStep_def priceConsumptionWh_def
      priceTimeSteps_def priceTimeSpent_def Let_def del: not_None_eq)

lemma step_decimal:
  assumes "step_shape t active m m' (Some pd)"
  shows "pdd_amountAsDecimal pd \<noteq> None"
  using assms by (auto simp: step_shape_def store_dim_def name_pd_def dest: pricing_call_decimal)

lemma chunk_decimal:
  assumes "priceConsumptionChunk tz ch m = Inr (m', p)"
  shows "has_decimal p"
proof -
  from assms obtain m1 m2 m3 where
    s: "priceFlatFeeConsumption ch (actualPricingDefinition tz m ch) m = Inr (m1, pcd_flatFee p)"
       "priceEnergyConsumption ch (actualPricingDefinition tz m ch) m1 = Inr (m2, pcd_energy p)"
       "priceChargingTimeConsumption ch (actualPricingDefinition tz m ch) m2 = Inr (m3, pcd_chargingTime p)"
       "priceParkingTimeConsumption ch (actualPricingDefinition tz m ch) m3 = Inr (m', pcd_parkingTime p)"
    by (rule priceConsumptionChunk_steps)
  have "pdd_amountAsDecimal pd \<noteq> None" if "pcd_of t p = Some pd" for t pd
    using that flat_fee_shape[OF s(1)] energy_shape[OF s(2)] charging_time_shape[OF s(3)] parking_time_shape[OF s(4)]
    by (cases t) (auto dest: step_decimal)
  then show ?thesis by (auto simp: has_decimal_def split: option.splits)
qed

locale accumulated_measure = dimension_measure +
  assumes accumulate_add: "has_decimal acc \<Longrightarrow> has_decimal p \<Longrightarrow>
    reported f (pcd_of t (accumulateAllDimensions p acc)) = reported f (pcd_of t acc) + reported f (pcd_of t p)"
begin

lemma accumulate_pair:
  "has_decimal acc \<Longrightarrow> has_decimal p \<Longrightarrow>
   reported f (pcd_of t (accumulatePricedConsumption [acc, p])) = reported f (pcd_of t acc) + reported f (pcd_of t p)"
  by (simp add: accumulate_two accumulate_add has_decimal_accumulate)

lemma priceChunks_effect:
  "priceChunks tz chs m acc = Inr (m', acc') \<Longrightarrow> has_decimal acc \<Longrightarrow>
   billed f t m' = billed f t m + reported f (pcd_of t acc') - reported f (pcd_of t acc)"
proof (induction chs arbitrary: m acc)
  case (Cons ch chs)
  from Cons.prems(1) obtain m1 p where c: "priceConsumptionChunk tz ch m = Inr (m1, p)"
    and r: "priceChunks tz chs m1 (accumulatePricedConsumption [acc, p]) = Inr (m', acc')"
    by (auto elim!: bindE_InrE)
  have d: "has_decimal (accumulatePricedConsumption [acc, p])"
    by (simp add: accumulate_two has_decimal_accumulate)
  from Cons.IH[OF r d] chunk_effect[OF c, of t] accumulate_pair[OF Cons.prems(2) chunk_decimal[OF c], of t]
  show ?case by simp
qed simp

end

interpretation acc_quantity: accumulated_measure pdd_quantity
  by unfold_locales
    (auto simp: pcd_of_accumulate_all accumulatePricedConsumptionData_def Let_def empty_dimension_data_def
      or_else_def split: option.splits)

interpretation acc_decimal: accumulated_measure pd_decimal
proof
  fix acc p t
  assume "has_decimal acc" "has_decimal p"
  then show "reported pd_decimal (pcd_of t (accumulateAllDimensions p acc)) =
      reported pd_decimal (pcd_of t acc) + reported pd_decimal (pcd_of t p)"
    by (auto simp: pcd_of_accumulate_all accumulatePricedConsumptionData_def Let_def empty_dimension_data_def
        pd_decimal_def has_decimal_def or_else_def dest!: spec[of _ t] split: option.splits)
qed


section \<open>The context along a run\<close>

lemma store_dim_ctx [simp]: "pm_pricerContext (fst (store_dim a t d dm r m)) = pm_pricerContext m"
  by (simp add: store_dim_def)

definition flat_flag :: "pricing_model \<Rightarrow> bool" where
  "flat_flag m = ctx_flatFeeAlreadyPriced (pm_pricerContext m)"

definition absorbed_Wh :: "pricing_model \<Rightarrow> rat option" where
  "absorbed_Wh m = ctx_lastAbsorbedConsumption (pm_pricerContext m)"

lemma flat_fee_ctx:
  assumes "priceFlatFeeConsumption ch active m = Inr (m', res)"
  shows "absorbed_Wh m' = absorbed_Wh m" and "flat_flag m' = (flat_flag m \<or> res \<noteq> None)"
    and "flat_flag m \<Longrightarrow> res = None"
  using assms unfolding priceFlatFeeConsumption_def absorbed_Wh_def flat_flag_def
  by (auto elim!: bindE_InrE simp: Let_def split_def split: if_splits option.splits)

lemma flat_fee_quantity:
  assumes "priceFlatFeeConsumption ch active m = Inr (m', Some pd)"
  shows "pdd_quantity pd \<in> {0, 1}"
  using assms unfolding priceFlatFeeConsumption_def
  by (auto elim!: bindE_InrE simp: Let_def split_def store_dim_def name_pd_def priced_def priceFlatFeeDimension_def
      split: if_splits option.splits)

lemma energy_ctx:
  assumes "priceEnergyConsumption ch active m = Inr (m', res)"
  shows "flat_flag m' = flat_flag m"
  using assms unfolding priceEnergyConsumption_def flat_flag_def
  by (auto elim!: bindE_InrE simp: Let_def split_def absorb_defs split: if_splits option.splits)

lemma charging_time_ctx:
  assumes "priceChargingTimeConsumption ch active m = Inr (m', res)"
  shows "flat_flag m' = flat_flag m" and "absorbed_Wh m' = absorbed_Wh m"
  using assms unfolding priceChargingTimeConsumption_def flat_flag_def absorbed_Wh_def
  by (auto elim!: bindE_InrE simp: Let_def split_def absorb_defs split: if_splits option.splits)

lemma parking_time_ctx:
  assumes "priceParkingTimeConsumption ch active m = Inr (m', res)"
  shows "flat_flag m' = flat_flag m" and "absorbed_Wh m' = absorbed_Wh m"
  using assms unfolding priceParkingTimeConsumption_def flat_flag_def absorbed_Wh_def
  by (auto elim!: bindE_InrE simp: Let_def split_def absorb_defs split: if_splits option.splits)

lemma chunk_flat_fee:
  assumes "priceConsumptionChunk tz ch m = Inr (m', p)"
  shows "flat_flag m' = (flat_flag m \<or> pcd_flatFee p \<noteq> None)" and "flat_flag m \<Longrightarrow> pcd_flatFee p = None"
    and "reported pdd_quantity (pcd_flatFee p) \<in> {0, 1}"
  using assms
  by (auto elim!: priceConsumptionChunk_steps simp: charging_time_ctx parking_time_ctx energy_ctx
      flat_fee_ctx(2,3) reported_def split: option.splits dest: flat_fee_quantity)

lemma chunks_flat_fee:
  assumes "priceChunks tz chs m acc = Inr (m', acc')"
  shows "billed pdd_quantity FLAT_FEE m' = billed pdd_quantity FLAT_FEE m
    \<or> billed pdd_quantity FLAT_FEE m' = billed pdd_quantity FLAT_FEE m + 1 \<and> \<not> flat_flag m \<and> flat_flag m'"
    and "flat_flag m \<Longrightarrow> flat_flag m' \<and> billed pdd_quantity FLAT_FEE m' = billed pdd_quantity FLAT_FEE m"
  using assms
proof (induction chs arbitrary: m acc)
  case (Cons ch chs)
  { case 1
    then obtain m1 p where c: "priceConsumptionChunk tz ch m = Inr (m1, p)"
      and r: "priceChunks tz chs m1 (accumulatePricedConsumption [acc, p]) = Inr (m', acc')"
      by (auto elim!: bindE_InrE)
    show ?case
      using Cons.IH(1)[OF r] Cons.IH(2)[OF _ r] quantity.chunk_effect[OF c, of FLAT_FEE] chunk_flat_fee[OF c] by auto
  next
    case 2
    then obtain m1 p where c: "priceConsumptionChunk tz ch m = Inr (m1, p)"
      and r: "priceChunks tz chs m1 (accumulatePricedConsumption [acc, p]) = Inr (m', acc')"
      by (auto elim!: bindE_InrE)
    show ?case
      using Cons.IH(2)[OF _ r] quantity.chunk_effect[OF c, of FLAT_FEE] chunk_flat_fee[OF c] 2(1) by auto
  }
qed simp_all

lemma consumption_flat_fee:
  assumes "priceConsumption tz m c = Inr (m', p)"
  shows "billed pdd_quantity FLAT_FEE m' = billed pdd_quantity FLAT_FEE m
    \<or> billed pdd_quantity FLAT_FEE m' = billed pdd_quantity FLAT_FEE m + 1 \<and> \<not> flat_flag m \<and> flat_flag m'"
    and "flat_flag m \<Longrightarrow> flat_flag m' \<and> billed pdd_quantity FLAT_FEE m' = billed pdd_quantity FLAT_FEE m"
proof -
  from assms obtain chs where c: "priceChunks tz chs m no_priced_data = Inr (m', p)"
    by (auto simp: priceConsumption_def elim: bindE_InrE)
  show "billed pdd_quantity FLAT_FEE m' = billed pdd_quantity FLAT_FEE m
    \<or> billed pdd_quantity FLAT_FEE m' = billed pdd_quantity FLAT_FEE m + 1 \<and> \<not> flat_flag m \<and> flat_flag m'"
    by (rule chunks_flat_fee(1)[OF c])
  show "flat_flag m \<Longrightarrow> flat_flag m' \<and> billed pdd_quantity FLAT_FEE m' = billed pdd_quantity FLAT_FEE m"
    using chunks_flat_fee(2)[OF c] by blast
qed

section \<open>Properties\<close>

text \<open>C31: the chunks of a consumption longer than a minute tile its interval in whole seconds, none
  longer than sixty seconds; their energies sum to the energy of the consumption, each reports the
  running cumulated energy, and the last one the total duration.\<close>

theorem chunks_preserve_consumption:
  assumes "60 < durationSecs c" and "cn_consumptionWh c = Some w"
  shows "\<exists>chs. generateChunk c = Inr chs \<and> chs \<noteq> []
    \<and> tiles (cn_startedAt c) (cn_startedAt c + durationSecs c * 1000) chs
    \<and> sum_list (map chunk_wh chs) = w
    \<and> running_cumulated (cn_cumulatedConsumptionWh c - w) chs
    \<and> ch_totalDurationSecs (last chs) = Some (or_else (cn_totalDurationSecs c) 0)"
proof -
  let ?chs = "chunk_loop (cn_startedAt c) w (durationSecs c) (or_num (cn_inactivitySecs c) 0) 0
    (cn_cumulatedConsumptionWh c - w) (or_else (cn_totalDurationSecs c) 0 - of_int (durationSecs c))
    (or_else (cn_totalInactivitySecs c) 0 - or_num (cn_inactivitySecs c) 0)"
  have n: "0 \<le> durationSecs c" "0 < durationSecs c" using assms(1) by auto
  have "generateChunk c = Inr ?chs"
    using assms by (simp add: generateChunk_def Let_def)
  with chunk_loop_props[of 0 "durationSecs c"] n assms(1) show ?thesis by simp
qed

definition sample_consumption :: consumption where
  "sample_consumption = \<lparr> cn_startedAt = 0, cn_endedAt = 150000, cn_consumptionWh = Some 500,
     cn_cumulatedConsumptionWh = 700, cn_inactivitySecs = None, cn_totalInactivitySecs = Some 0,
     cn_totalDurationSecs = Some 150 \<rparr>"

theorem chunks_preserve_consumption_witness:
  "\<exists>chs. generateChunk sample_consumption = Inr chs \<and> chs \<noteq> []
    \<and> tiles 0 150000 chs \<and> sum_list (map chunk_wh chs) = 500 \<and> running_cumulated 200 chs
    \<and> ch_totalDurationSecs (last chs) = Some 150"
proof -
  have d: "durationSecs sample_consumption = 150" by code_simp
  show ?thesis
    using chunks_preserve_consumption[of sample_consumption 500] by (simp add: d) (simp add: sample_consumption_def)
qed

text \<open>C26: what pricing a consumption reports is what it adds to the session's bill, for every
  dimension, in quantity and in amount.\<close>

theorem reported_equals_billed:
  assumes "priceConsumption tz m c = Inr (m', p)"
  shows "billed pdd_quantity t m' = billed pdd_quantity t m + reported pdd_quantity (pcd_of t p)
    \<and> billed pd_decimal t m' = billed pd_decimal t m + reported pd_decimal (pcd_of t p)"
proof -
  from assms obtain chs where "priceChunks tz chs m no_priced_data = Inr (m', p)"
    by (auto simp: priceConsumption_def elim: bindE_InrE)
  from acc_quantity.priceChunks_effect[OF this, of t] acc_decimal.priceChunks_effect[OF this, of t]
  show ?thesis by simp
qed

definition dimension_of :: "rat \<Rightarrow> rat option \<Rightarrow> pricing_dimension" where
  "dimension_of price step = \<lparr> dim_active = True, dim_price = price, dim_stepSize = step, dim_pricedData = None \<rparr>"

definition tariff_of :: "string \<Rightarrow> pricing_restriction option \<Rightarrow> pricing_dimensions \<Rightarrow> pricing_definition" where
  "tariff_of n r ds = \<lparr> def_id = None, def_entityID = None, def_entityType = None, def_name = n,
     def_description = n, def_staticRestrictions = None, def_restrictions = r, def_dimensions = ds \<rparr>"

definition fresh_context :: "int \<Rightarrow> string option \<Rightarrow> pricer_context" where
  "fresh_context start timezone = \<lparr> ctx_flatFeeAlreadyPriced = False, ctx_sessionStartDate = start,
     ctx_lastAbsorbedConsumption = None, ctx_lastAbsorbedChargingTime = None,
     ctx_lastAbsorbedParkingTime = None, ctx_timezone = timezone \<rparr>"

definition utc :: tz_lib where
  "utc = \<lparr> tz_isoWeekday = (\<lambda>_ _. 1), tz_format = (\<lambda>_ _. ''12:00:00'') \<rparr>"

definition sample_model :: pricing_model where
  "sample_model = \<lparr> pm_pricingDefinitions =
       [tariff_of ''T'' None \<lparr> dims_flatFee = Some (dimension_of 1 None), dims_energy = Some (dimension_of (1/2) (Some 100)),
          dims_chargingTime = None, dims_parkingTime = None \<rparr>],
     pm_pricerContext = fresh_context 0 (Some ''Europe/Paris'') \<rparr>"

lemmas check_eval =
  actualPricingDefinition_def checkPricingDefinitionRestrictions_def checkDayOfWeek_def checkTimeValidity_def
  checkMinEnergy_def checkMaxEnergy_def checkMinDuration_def checkMaxDuration_def getActiveDefinition4Dimension_def

lemmas pricer_eval =
  priceFlatFeeConsumption_def priceEnergyConsumption_def priceChargingTimeConsumption_def
  priceParkingTimeConsumption_def priceFlatFeeDimension_def priceConsumptionStep_def priceConsumptionWh_def
  priceTimeDimension_def priceTimeSteps_def priceTimeSpent_def addPricedData_def priced_def
  store_dim_def put_dim_def name_stored_def name_pd_def upd_ctx_def absorb_defs getAbsorbedConsumption_def
  getAbsorbedChargingTime_def getAbsorbedParkingTime_def div_to_int_def rtrunc_def truncTo_def

lemmas consumption_eval =
  priceConsumption_def generateChunk_def durationSecs_def diff_seconds_def tdiv_def priceConsumptionChunk_def
  accumulatePricedConsumption_def accumulateAllDimensions_def accumulatePricedConsumptionData_def
  no_priced_data_def empty_dimension_data_def

lemmas sample_eval = sample_model_def sample_consumption_def tariff_of_def dimension_of_def fresh_context_def utc_def

definition short_consumption :: consumption where
  "short_consumption = \<lparr> cn_startedAt = 0, cn_endedAt = 60000, cn_consumptionWh = Some 730,
     cn_cumulatedConsumptionWh = 730, cn_inactivitySecs = None, cn_totalInactivitySecs = Some 0,
     cn_totalDurationSecs = Some 60 \<rparr>"

theorem reported_equals_billed_witness:
  "\<exists>m' p. priceConsumption utc sample_model short_consumption = Inr (m', p)
    \<and> billed pdd_quantity ENERGY m' = billed pdd_quantity ENERGY sample_model + reported pdd_quantity (pcd_of ENERGY p)
    \<and> reported pdd_quantity (pcd_of ENERGY p) = 700"
proof -
  have ok: "(case priceConsumption utc sample_model short_consumption of
      Inl _ \<Rightarrow> False | Inr r \<Rightarrow> reported pdd_quantity (pcd_of ENERGY (snd r)) = 700)"
    by (simp add: consumption_eval pricer_eval check_eval sample_eval short_consumption_def Let_def)
  then obtain m' p where r: "priceConsumption utc sample_model short_consumption = Inr (m', p)"
    and q: "reported pdd_quantity (pcd_of ENERGY p) = 700"
    by (auto split: sum.splits)
  from reported_equals_billed[OF r, of ENERGY] r q show ?thesis by blast
qed

end
