(* ===== verification/Tariff_Steps.thy ===== *)
theory Tariff_Steps
  imports Consumption_Pricer
begin

text \<open>
  Energy tariffs with a step size. With one unrestricted tariff the bill is exactly the whole
  steps of the energy delivered; when a session moves from one tariff to another in the middle of
  a step, the absorbed consumption is rounded to the new tariff's grid and energy is billed twice.
\<close>

section \<open>The first tariff along a run\<close>

text \<open>
  What the argument needs of the first tariff: it has no restrictions, so it is the tariff in
  force for every chunk, and its energy dimension is active, with step \<open>s\<close>.
\<close>

definition energy_dim :: "pricing_model \<Rightarrow> pricing_dimension option" where
  "energy_dim m = (case pm_pricingDefinitions m of [] \<Rightarrow> None | d # _ \<Rightarrow> dims_energy (def_dimensions d))"

definition step_tariff :: "rat \<Rightarrow> pricing_model \<Rightarrow> bool" where
  "step_tariff s m =
     (case pm_pricingDefinitions m of
        [] \<Rightarrow> False
      | d # _ \<Rightarrow> def_restrictions d = None \<and>
          (case dims_energy (def_dimensions d) of None \<Rightarrow> False
           | Some dm \<Rightarrow> dim_active dm \<and> dim_stepSize dm = Some s))"

lemma step_tariffE:
  assumes "step_tariff s m"
  obtains d ds dm where "pm_pricingDefinitions m = d # ds" "def_restrictions d = None"
    "dims_energy (def_dimensions d) = Some dm" "dim_active dm" "dim_stepSize dm = Some s" "energy_dim m = Some dm"
  using assms by (auto simp: step_tariff_def energy_dim_def split: list.splits option.splits)

lemma step_tariff_active: "step_tariff s m \<Longrightarrow> actualPricingDefinition tz m ch = Some 0"
  by (erule step_tariffE) (simp add: actualPricingDefinition_def checkPricingDefinitionRestrictions_def)

text \<open>The steps of the other dimensions leave the restrictions and the energy dimension alone.\<close>

lemma other_step_tariff:
  assumes "step_shape t (Some 0) m m' res" and "t \<noteq> ENERGY" and "step_tariff s m"
  shows "step_tariff s m'" and "energy_dim m' = energy_dim m"
proof -
  obtain d ds where m: "pm_pricingDefinitions m = d # ds"
    using assms(3) by (rule step_tariffE)
  have "\<exists>dims. pm_pricingDefinitions m' = d\<lparr>def_dimensions := dims\<rparr> # ds
      \<and> dims_energy dims = dims_energy (def_dimensions d)"
    using assms(1) unfolding step_shape_def
  proof (elim disjE exE conjE)
    assume "pm_pricingDefinitions m' = pm_pricingDefinitions m"
    then show ?thesis by (intro exI[of _ "def_dimensions d"]) (simp add: m)
  next
    fix x r
    assume "pm_pricingDefinitions m' = pm_pricingDefinitions (fst (store_dim (Some 0) t (fst x) (snd x) r m))"
    then have "pm_pricingDefinitions m' = d\<lparr>def_dimensions :=
        set_dim t (name_stored (dim_pricedData (snd x) = None) (def_name (fst x)) (fst r)) (def_dimensions d)\<rparr> # ds"
      by (simp add: store_dim_def put_dim_def m)
    with assms(2) show ?thesis by (cases t) auto
  qed
  then show "step_tariff s m'" and "energy_dim m' = energy_dim m"
    using assms(3) m by (auto simp: step_tariff_def energy_dim_def)
qed

section \<open>One energy step\<close>

definition whole_steps :: "rat \<Rightarrow> rat \<Rightarrow> rat" where
  "whole_steps s c = rtrunc (c / s) * s"

definition energy_quantity :: "pricing_model \<Rightarrow> rat" where
  "energy_quantity m = stored_measure pdd_quantity (energy_dim m)"

lemma whole_steps_diff:
  assumes "0 < s" and "0 \<le> c" and "c \<le> c'"
  shows "div_to_int (c' - whole_steps s c) s = rtrunc (c' / s) - rtrunc (c / s)"
proof -
  obtain k where k: "rtrunc (c / s) = of_int k"
    using rtrunc_int by blast
  have "of_int k \<le> c / s"
    using rtrunc_le[of "c / s"] assms k by simp
  also have "\<dots> \<le> c' / s"
    using assms by (simp add: divide_right_mono)
  finally have "rtrunc (c' / s - of_int k) = rtrunc (c' / s) - of_int k"
    using assms by (intro rtrunc_minus_int) auto
  moreover have "(c' - whole_steps s c) / s = c' / s - of_int k"
    using assms(1) by (simp add: whole_steps_def k diff_divide_distrib)
  ultimately show ?thesis by (simp add: div_to_int_def k)
qed

lemma energy_step:
  assumes t: "step_tariff s m" and s: "0 < s" and c: "0 \<le> c" "c \<le> ch_cumulatedConsumptionWh ch"
    and a: "or_num (absorbed_Wh m) 0 = whole_steps s c"
    and e: "priceEnergyConsumption ch (Some 0) m = Inr (m', res)"
  shows "step_tariff s m'" and "energy_quantity m' = energy_quantity m + reported pdd_quantity res"
    and "or_num (absorbed_Wh m') 0 = whole_steps s (ch_cumulatedConsumptionWh ch)"
    and "reported pdd_quantity res = whole_steps s (ch_cumulatedConsumptionWh ch) - whole_steps s c"
proof -
  obtain d ds dm where m: "pm_pricingDefinitions m = d # ds" "def_restrictions d = None"
    "dims_energy (def_dimensions d) = Some dm" "dim_active dm" "dim_stepSize dm = Some s" "energy_dim m = Some dm"
    using t by (rule step_tariffE)
  let ?C = "ch_cumulatedConsumptionWh ch"
  define n where "n = rtrunc (?C / s) - rtrunc (c / s)"
  have n0: "0 \<le> n"
    using s c by (simp add: n_def rtrunc_mono divide_right_mono)
  have n: "div_to_int (?C - getAbsorbedConsumption m) s = n"
    using whole_steps_diff[OF s c] a by (simp add: getAbsorbedConsumption_def absorbed_Wh_def n_def)
  have diff: "n * s = whole_steps s ?C - whole_steps s c"
    by (simp add: n_def whole_steps_def algebra_simps)
  have act: "getActiveDefinition4Dimension m (Some 0) ENERGY = Inr (Some (d, dm))"
    using m by (simp add: getActiveDefinition4Dimension_def)
  have C0: "\<not> 0 < ?C \<Longrightarrow> n = 0"
  proof -
    assume "\<not> 0 < ?C"
    with c have "?C = c" by linarith
    then show "n = 0" by (simp add: n_def)
  qed
  have store: "pm_pricingDefinitions (fst (store_dim (Some 0) ENERGY d dm r m)) =
      d\<lparr>def_dimensions := (def_dimensions d)\<lparr>dims_energy :=
         Some (name_stored (dim_pricedData dm = None) (def_name d) (fst r))\<rparr>\<rparr> # ds" for r
    by (simp add: store_dim_def put_dim_def m)
  have mes: "(m' = m \<and> res = None \<and> n = 0) \<or>
     (0 < n \<and> m' = absorbStepConsumption ch (snd (store_dim (Some 0) ENERGY d dm (priceConsumptionStep dm n) m))
                (fst (store_dim (Some 0) ENERGY d dm (priceConsumptionStep dm n) m))
      \<and> res = Some (snd (store_dim (Some 0) ENERGY d dm (priceConsumptionStep dm n) m)))"
    using e s n0 C0 by (auto simp: priceEnergyConsumption_def act m(5) n Let_def split_def split: if_splits)
  have r: "fst (priceConsumptionStep dm n) = addPricedData dm (snd (priceConsumptionStep dm n))"
    "pdd_quantity (snd (store_dim (Some 0) ENERGY d dm (priceConsumptionStep dm n) m)) = n * s"
    "pdd_stepSize (snd (store_dim (Some 0) ENERGY d dm (priceConsumptionStep dm n) m)) = Some s"
    "pdd_quantity (snd (priceConsumptionStep dm n)) = n * s"
    by (simp_all add: priceConsumptionStep_def store_dim_def name_pd_def priced_def m(5) Let_def)
  have add: "dim_active (addPricedData dm pd) = dim_active dm" "dim_stepSize (addPricedData dm pd) = dim_stepSize dm"
    "dim_active (name_stored b nm dm') = dim_active dm'" "dim_stepSize (name_stored b nm dm') = dim_stepSize dm'"
    for pd b nm dm'
    by (simp_all add: addPricedData_def name_stored_def Let_def split: option.splits)
  show "step_tariff s m'"
    using mes t m r(1) by (auto simp: step_tariff_def absorb_defs Let_def store add)
  show "energy_quantity m' = energy_quantity m + reported pdd_quantity res"
    using mes r(2,4) quantity.measure_add[of dm "snd (priceConsumptionStep dm n)"]
      quantity.measure_name_stored[of "dim_pricedData dm = None" "def_name d" "fst (priceConsumptionStep dm n)"]
    by (auto simp: energy_quantity_def m(6) energy_dim_def absorb_defs Let_def store r(1))
      (simp_all add: m)
  show "or_num (absorbed_Wh m') 0 = whole_steps s ?C"
    using mes a diff r(3) by (auto simp: absorbed_Wh_def absorb_defs Let_def whole_steps_def)
  show "reported pdd_quantity res = whole_steps s ?C - whole_steps s c"
    using mes diff r(2) by auto
qed


lemma chunk_step:
  assumes t: "step_tariff s m" and s: "0 < s" and c: "0 \<le> c" "c \<le> ch_cumulatedConsumptionWh ch"
    and a: "or_num (absorbed_Wh m) 0 = whole_steps s c"
    and p: "priceConsumptionChunk tz ch m = Inr (m', p)"
  shows "step_tariff s m'" and "or_num (absorbed_Wh m') 0 = whole_steps s (ch_cumulatedConsumptionWh ch)"
    and "energy_quantity m' = energy_quantity m + (whole_steps s (ch_cumulatedConsumptionWh ch) - whole_steps s c)"
proof -
  from p obtain m1 m2 m3 where
    q: "priceFlatFeeConsumption ch (Some 0) m = Inr (m1, pcd_flatFee p)"
       "priceEnergyConsumption ch (Some 0) m1 = Inr (m2, pcd_energy p)"
       "priceChargingTimeConsumption ch (Some 0) m2 = Inr (m3, pcd_chargingTime p)"
       "priceParkingTimeConsumption ch (Some 0) m3 = Inr (m', pcd_parkingTime p)"
    by (rule priceConsumptionChunk_steps) (simp add: step_tariff_active[OF t])
  note f = other_step_tariff[OF flat_fee_shape[OF q(1)] _ t, simplified]
  have a1: "or_num (absorbed_Wh m1) 0 = whole_steps s c"
    using flat_fee_ctx(1)[OF q(1)] a by simp
  note e = energy_step[OF f(1) s c a1 q(2)]
  note h = other_step_tariff[OF charging_time_shape[OF q(3)] _ e(1), simplified]
  note k = other_step_tariff[OF parking_time_shape[OF q(4)] _ h(1), simplified]
  show "step_tariff s m'" by (rule k(1))
  show "or_num (absorbed_Wh m') 0 = whole_steps s (ch_cumulatedConsumptionWh ch)"
    using e(3) charging_time_ctx(2)[OF q(3)] parking_time_ctx(2)[OF q(4)] by simp
  show "energy_quantity m' = energy_quantity m + (whole_steps s (ch_cumulatedConsumptionWh ch) - whole_steps s c)"
    using e(2,4) f(2) h(2) k(2) by (simp add: energy_quantity_def)
qed

lemma chunks_step:
  "priceChunks tz chs m acc = Inr (m', p) \<Longrightarrow> step_tariff s m \<Longrightarrow> 0 < s \<Longrightarrow> 0 \<le> c \<Longrightarrow>
   sorted (c # map ch_cumulatedConsumptionWh chs) \<Longrightarrow> or_num (absorbed_Wh m) 0 = whole_steps s c \<Longrightarrow>
   energy_quantity m' = energy_quantity m
     + (whole_steps s (last (c # map ch_cumulatedConsumptionWh chs)) - whole_steps s c)"
proof (induction chs arbitrary: m acc c)
  case (Cons ch chs)
  from Cons.prems(1) obtain m1 p1 where e: "priceConsumptionChunk tz ch m = Inr (m1, p1)"
    and r: "priceChunks tz chs m1 (accumulatePricedConsumption [acc, p1]) = Inr (m', p)"
    by (auto elim!: bindE_InrE)
  have c: "c \<le> ch_cumulatedConsumptionWh ch" and srt: "sorted (ch_cumulatedConsumptionWh ch # map ch_cumulatedConsumptionWh chs)"
    using Cons.prems(5) by auto
  note step = chunk_step[OF Cons.prems(2,3,4) c Cons.prems(6) e]
  have "0 \<le> ch_cumulatedConsumptionWh ch" using Cons.prems(4) c by linarith
  from Cons.IH[OF r step(1) Cons.prems(3) this srt step(2)] step(3) show ?case
    by (simp only: list.map last.simps list.distinct if_False)
qed simp

section \<open>Properties\<close>

text \<open>A session priced by an unrestricted tariff whose energy dimension has step \<open>s\<close> bills exactly the
  whole steps of the energy it delivered: never a step too many, never one too few, however the
  deliveries are spread over the chunks.\<close>

theorem step_tariff_bills_whole_steps:
  assumes "priceChunks tz chs m no_priced_data = Inr (m', p)" and "step_tariff s m" and "0 < s"
    and "sorted (0 # map ch_cumulatedConsumptionWh chs)" and "absorbed_Wh m = None"
  shows "energy_quantity m' = energy_quantity m
    + rtrunc (last (0 # map ch_cumulatedConsumptionWh chs) / s) * s"
  using chunks_step[OF assms(1-3) _ assms(4)] assms(5) by (simp add: whole_steps_def)

definition chunk_of :: "int \<Rightarrow> rat \<Rightarrow> rat \<Rightarrow> consumption_chunk" where
  "chunk_of k wh cumulated = \<lparr> ch_startedAt = k * 60000, ch_endedAt = (k + 1) * 60000, ch_consumptionWh = Some wh,
     ch_cumulatedConsumptionWh = cumulated, ch_totalDurationSecs = Some (of_int (k + 1) * 60),
     ch_totalInactivitySecs = Some 0 \<rparr>"

theorem step_tariff_bills_whole_steps_witness:
  "\<exists>m' p. priceChunks utc [chunk_of 0 730 730, chunk_of 1 150 880] sample_model no_priced_data = Inr (m', p)
    \<and> energy_quantity m' = 800"
proof -
  have ok: "is_ok (priceChunks utc [chunk_of 0 730 730, chunk_of 1 150 880] sample_model no_priced_data)"
    by (simp add: consumption_eval pricer_eval check_eval sample_eval chunk_of_def Let_def)
  then obtain m' p where r:
    "priceChunks utc [chunk_of 0 730 730, chunk_of 1 150 880] sample_model no_priced_data = Inr (m', p)"
    by (metis is_okD surj_pair)
  have t: "step_tariff 100 sample_model" and a: "absorbed_Wh sample_model = None"
    and q: "energy_quantity sample_model = 0"
    by (simp_all add: step_tariff_def sample_eval absorbed_Wh_def energy_quantity_def energy_dim_def)
  have "energy_quantity m' = energy_quantity sample_model
      + rtrunc (last (0 # map ch_cumulatedConsumptionWh [chunk_of 0 730 730, chunk_of 1 150 880]) / 100) * 100"
    by (rule step_tariff_bills_whole_steps[OF r t _ _ a]) (simp_all add: chunk_of_def)
  then have "energy_quantity m' = 800"
    by (simp add: q chunk_of_def rtrunc_def)
  with r show ?thesis by blast
qed

text \<open>Two tariffs, the first for the first two kilowatt-hours and without a step, the second with a
  step of one kilowatt-hour.\<close>

definition below_2kWh :: pricing_restriction where
  "below_2kWh = \<lparr> pr_daysOfWeek = None, pr_timeFrom = None, pr_timeTo = None, pr_minEnergyKWh = None,
     pr_maxEnergyKWh = Some 2, pr_minDurationSecs = None, pr_maxDurationSecs = None \<rparr>"

definition energy_only :: "pricing_dimension \<Rightarrow> pricing_dimensions" where
  "energy_only dm = \<lparr> dims_flatFee = None, dims_energy = Some dm, dims_chargingTime = None, dims_parkingTime = None \<rparr>"

definition two_tariffs ::
  "priced_dimension_data option \<Rightarrow> priced_dimension_data option \<Rightarrow> rat option \<Rightarrow> int option \<Rightarrow> pricing_model" where
  "two_tariffs a b absorbed time = \<lparr> pm_pricingDefinitions =
       [tariff_of ''A'' (Some below_2kWh) (energy_only ((dimension_of (1/4) None)\<lparr>dim_pricedData := a\<rparr>)),
        tariff_of ''B'' None (energy_only ((dimension_of (1/2) (Some 1000))\<lparr>dim_pricedData := b\<rparr>))],
     pm_pricerContext = \<lparr> ctx_flatFeeAlreadyPriced = False, ctx_sessionStartDate = 0,
       ctx_lastAbsorbedConsumption = absorbed, ctx_lastAbsorbedChargingTime = time,
       ctx_lastAbsorbedParkingTime = time, ctx_timezone = None \<rparr> \<rparr>"

definition pd_of :: "string \<Rightarrow> rat \<Rightarrow> rat \<Rightarrow> rat option \<Rightarrow> priced_dimension_data" where
  "pd_of n price quantity step = name_pd n (priced price (price * quantity / 1000) quantity step)"

definition only_energy :: "priced_dimension_data \<Rightarrow> priced_consumption_data" where
  "only_energy pd = \<lparr> pcd_flatFee = None, pcd_energy = Some pd, pcd_chargingTime = None, pcd_parkingTime = None \<rparr>"

lemmas two_tariffs_eval = two_tariffs_def below_2kWh_def energy_only_def pd_of_def only_energy_def chunk_of_def tariff_of_def
  dimension_of_def

lemma two_tariffs_chunk_1:
  "priceConsumptionChunk utc (chunk_of 0 1500 1500) (two_tariffs None None None None) =
     Inr (two_tariffs (Some (pd_of ''A'' (1/4) 1500 None)) None (Some 1500) (Some 60000),
          only_energy (pd_of ''A'' (1/4) 1500 None))"
  by (simp add: priceConsumptionChunk_def pricer_eval check_eval two_tariffs_eval Let_def)

lemma two_tariffs_chunk_2:
  "priceConsumptionChunk utc (chunk_of 1 1100 2600) (two_tariffs (Some a) None (Some 1500) (Some 60000)) =
     Inr (two_tariffs (Some a) (Some (pd_of ''B'' (1/2) 1000 (Some 1000))) (Some 2000) (Some 120000),
          only_energy (pd_of ''B'' (1/2) 1000 (Some 1000)))"
  by (simp add: priceConsumptionChunk_def pricer_eval check_eval two_tariffs_eval Let_def)

lemma two_tariffs_chunk_3:
  "priceConsumptionChunk utc (chunk_of 2 400 3000)
       (two_tariffs (Some a) (Some (pd_of ''B'' (1/2) 1000 (Some 1000))) (Some 2000) (Some 120000)) =
     Inr (two_tariffs (Some a) (Some (pd_of ''B'' (1/2) 2000 (Some 1000))) (Some 3000) (Some 180000),
          only_energy (pd_of ''B'' (1/2) 1000 (Some 1000)))"
  by (simp add: priceConsumptionChunk_def pricer_eval check_eval two_tariffs_eval Let_def)

text \<open>A change of tariff in the middle of a step bills energy twice: under the two
  tariffs above, a session that delivers 3000 Wh is billed for 3500 Wh.\<close>

theorem tariff_switch_bills_twice:
  "\<exists>m' p. priceChunks utc [chunk_of 0 1500 1500, chunk_of 1 1100 2600, chunk_of 2 400 3000]
        (two_tariffs None None None None) no_priced_data = Inr (m', p)
      \<and> billed pdd_quantity ENERGY m' = 3500
      \<and> sum_list (map chunk_wh [chunk_of 0 1500 1500, chunk_of 1 1100 2600, chunk_of 2 400 3000]) = 3000"
  by (simp add: two_tariffs_chunk_1 two_tariffs_chunk_2 two_tariffs_chunk_3)
    (simp add: two_tariffs_eval billed_def chunk_wh_def name_pd_def priced_def)

end
