(* ===== verification/Transaction_Types.thy ===== *)
theory Transaction_Types
  imports Station_Types Pricing_Types
begin

text \<open>
  Transactions, meter values and consumptions (src/types/Transaction.ts, Consumption.ts,
  User.ts, src/types/ocpp/OCPPServer.ts). The fields of an interface that come in groups of five
  (\<^verbatim>\<open>instantWatts\<close>, \<^verbatim>\<open>instantWattsL1\<close> to \<^verbatim>\<open>L3\<close> and \<^verbatim>\<open>instantWattsDC\<close>, and the same
  for volts and amps) are one \<open>readings\<close> record; every other field keeps its own name.

  A reading is \<open>None\<close> when the property is \<^verbatim>\<open>undefined\<close>. A reading that is not a number is held as 0:
  the code only tests readings for truth and for being positive, and passes them through
  \<^verbatim>\<open>Utils.convertToFloat\<close>, none of which tells \<^verbatim>\<open>NaN\<close> from 0.
\<close>

section \<open>Meter values\<close>

datatype OCPPReadingContext =
    INTERRUPTION_BEGIN | INTERRUPTION_END | OTHER | SAMPLE_CLOCK | SAMPLE_PERIODIC
  | TRANSACTION_BEGIN | TRANSACTION_END | TRIGGER

datatype OCPPValueFormat = RAW | SIGNED_DATA

datatype OCPPMeasurand =
    CURRENT_EXPORT | CURRENT_IMPORT | CURRENT_OFFERED
  | ENERGY_ACTIVE_EXPORT_REGISTER | ENERGY_ACTIVE_IMPORT_REGISTER
  | ENERGY_REACTIVE_EXPORT_REGISTER | ENERGY_REACTIVE_IMPORT_REGISTER
  | ENERGY_ACTIVE_EXPORT_INTERVAL | ENERGY_ACTIVE_IMPORT_INTERVAL
  | ENERGY_REACTIVE_EXPORT_INTERVAL | ENERGY_REACTIVE_IMPORT_INTERVAL
  | FREQUENCY | POWER_ACTIVE_EXPORT | POWER_ACTIVE_IMPORT | POWER_FACTOR | POWER_OFFERED
  | POWER_REACTIVE_EXPORT | POWER_REACTIVE_IMPORT | FAN_RPM | STATE_OF_CHARGE | TEMPERATURE | VOLTAGE

datatype OCPPLocation = BODY | CABLE | EV | INLET | OUTLET

datatype OCPPUnitOfMeasure =
    WATT_HOUR | KILO_WATT_HOUR | VAR_HOUR | KILO_VAR_HOUR | WATT | KILO_WATT | VOLT_AMP
  | KILO_VOLT_AMP | VAR | KILO_VAR | AMP | VOLT | TEMP_CELSIUS | TEMP_FAHRENHEIT | TEMP_KELVIN | PERCENT

record ocpp_attribute =
  at_context :: "OCPPReadingContext option"
  at_format :: "OCPPValueFormat option"
  at_measurand :: "OCPPMeasurand option"
  at_phase :: "OCPPPhase option"
  at_location :: "OCPPLocation option"
  at_unit :: "OCPPUnitOfMeasure option"

text \<open>The value of a meter value is a number (\<open>None\<close> is \<^verbatim>\<open>NaN\<close>) or a string.\<close>

datatype mv_value = Number "rat option" | Text string

record meter_value =
  mv_connectorId :: int
  mv_transactionId :: "int option"
  mv_timestamp :: int
  mv_attribute :: "ocpp_attribute option"
  mv_value :: mv_value

record sampled_value = ocpp_attribute +
  sv_value :: string

section \<open>Readings\<close>

record readings =
  rd_total :: "rat option"
  rd_L1 :: "rat option"
  rd_L2 :: "rat option"
  rd_L3 :: "rat option"
  rd_DC :: "rat option"

definition no_readings :: readings where
  "no_readings = \<lparr> rd_total = None, rd_L1 = None, rd_L2 = None, rd_L3 = None, rd_DC = None \<rparr>"

definition zero_readings :: readings where
  "zero_readings = \<lparr> rd_total = Some 0, rd_L1 = Some 0, rd_L2 = Some 0, rd_L3 = Some 0, rd_DC = Some 0 \<rparr>"

text \<open>\<^verbatim>\<open>x > 0\<close> and \<^verbatim>\<open>Utils.convertToFloat(x)\<close> of a property that may be undefined.\<close>

definition pos :: "rat option \<Rightarrow> bool" where
  "pos x = (case x of None \<Rightarrow> False | Some v \<Rightarrow> v > 0)"

definition to_float :: "rat option \<Rightarrow> rat option" where
  "to_float x = Some (or_num x 0)"

definition float_readings :: "readings \<Rightarrow> readings" where
  "float_readings r = \<lparr> rd_total = to_float (rd_total r), rd_L1 = to_float (rd_L1 r), rd_L2 = to_float (rd_L2 r),
     rd_L3 = to_float (rd_L3 r), rd_DC = to_float (rd_DC r) \<rparr>"

lemma pos_simps [simp]: "\<not> pos None" "pos (Some v) \<longleftrightarrow> 0 < v"
  by (simp_all add: pos_def)

lemma pos_to_float [simp]: "pos (to_float x) = pos x"
  by (cases x) (simp_all add: to_float_def)

section \<open>Transactions\<close>

record address =
  adr_address1 :: string
  adr_address2 :: "string option"
  adr_postalCode :: string
  adr_city :: string
  adr_region :: "string option"
  adr_country :: string

text \<open>\<^verbatim>\<open>BillingUserData\<close>: the customer of the billing system that a user is.\<close>

record billing_user_data =
  ubd_customerID :: string
  ubd_liveMode :: bool
  ubd_lastChangedOn :: "int option"
  ubd_hasSynchroError :: bool
  ubd_invoicesLastSynchronizedOn :: "int option"

record user =
  usr_id :: string
  usr_issuer :: bool
  usr_authorizationID :: "string option"
  usr_name :: string
  usr_firstName :: "string option"
  usr_email :: string
  usr_locale :: "string option"
  usr_address :: "address option"
  usr_freeAccess :: bool
  usr_billingData :: "billing_user_data option"

record last_consumption =
  lc_value :: rat
  lc_timestamp :: int

record remote_stop =
  rs_timestamp :: int
  rs_tagID :: string
  rs_userID :: string

record transaction_stop =
  stop_timestamp :: int
  stop_meterStop :: rat
  stop_reason :: "string option"
  stop_tagID :: "string option"
  stop_userID :: "string option"
  stop_price :: "rat option"
  stop_roundedPrice :: "rat option"
  stop_priceUnit :: "string option"
  stop_pricingSource :: "PricingSource option"
  stop_stateOfCharge :: rat
  stop_totalInactivitySecs :: rat
  stop_extraInactivitySecs :: rat
  stop_extraInactivityComputed :: bool
  stop_totalConsumptionWh :: rat
  stop_totalDurationSecs :: "rat option"
  stop_inactivityStatus :: InactivityStatus
  stop_signedData :: string

text \<open>
  \<^verbatim>\<open>billingData\<close> (src/types/Billing.ts): whether billing was active when the session started, and what
  became of it at the end.
\<close>

datatype BillingStatus = UNBILLED | BILLED | PENDING | FAILED

datatype BillingInvoiceStatus = PAID | OPEN | DRAFT | VOID | UNCOLLECTIBLE | DELETED

record billing_invoice_item =
  bii_transactionID :: int
  bii_currency :: "string option"
  bii_pricingData :: "priced_consumption_data list"
  bii_headerDescription :: "string option"
  bii_metadata :: "(string \<times> string) list"

record billing_stop =
  bst_status :: BillingStatus
  bst_invoiceID :: "string option"
  bst_invoiceNumber :: "string option"
  bst_invoiceStatus :: "BillingInvoiceStatus option"
  bst_invoiceItem :: "billing_invoice_item option"

record billing_data =
  bd_withBillingActive :: bool
  bd_lastUpdate :: int
  bd_stop :: "billing_stop option"

text \<open>
  The properties that live only while the session runs: \<^verbatim>\<open>TransactionStorage.saveTransaction\<close>
  removes them once the transaction has a \<^verbatim>\<open>stop\<close>. The source keeps them beside the
  others in the transaction object.
\<close>

record runtime =
  rt_currentTimestamp :: "int option"
  rt_currentStateOfCharge :: rat
  rt_currentSignedData :: "string option"
  rt_currentConsumptionWh :: rat
  rt_currentTotalConsumptionWh :: rat
  rt_currentTotalInactivitySecs :: rat
  rt_currentInactivityStatus :: InactivityStatus
  rt_currentTotalDurationSecs :: "rat option"
  rt_currentCumulatedPrice :: "rat option"
  rt_currentCumulatedRoundedPrice :: "rat option"
  rt_transactionEndReceived :: bool
  rt_numberOfMeterValues :: int
  rt_watts :: readings
  rt_volts :: readings
  rt_amps :: readings
  rt_lastConsumption :: "last_consumption option"

record transaction =
  tx_id :: int
  tx_chargeBoxID :: string
  tx_connectorId :: int
  tx_companyID :: "string option"
  tx_siteID :: "string option"
  tx_siteAreaID :: "string option"
  tx_issuer :: bool
  tx_tagID :: "string option"
  tx_userID :: "string option"
  tx_user :: "user option"
  tx_authorizationID :: "string option"
  tx_signedData :: string
  tx_meterStart :: rat
  tx_timestamp :: int
  tx_timezone :: "string option"
  tx_price :: "rat option"
  tx_roundedPrice :: "rat option"
  tx_priceUnit :: "string option"
  tx_pricingSource :: "PricingSource option"
  tx_pricingModel :: "pricing_model option"
  tx_stateOfCharge :: rat
  tx_phasesUsed :: "phases_used option"
  tx_run :: runtime
  tx_remotestop :: "remote_stop option"
  tx_stop :: "transaction_stop option"
  tx_billingData :: "billing_data option"

definition upd_run :: "(runtime \<Rightarrow> runtime) \<Rightarrow> transaction \<Rightarrow> transaction" where
  "upd_run f t = t\<lparr>tx_run := f (tx_run t)\<rparr>"

lemma upd_run_simps [simp]:
  "tx_run (upd_run f t) = f (tx_run t)" "tx_id (upd_run f t) = tx_id t"
  "tx_stop (upd_run f t) = tx_stop t" "tx_timestamp (upd_run f t) = tx_timestamp t"
  "tx_connectorId (upd_run f t) = tx_connectorId t" "tx_meterStart (upd_run f t) = tx_meterStart t"
  "tx_chargeBoxID (upd_run f t) = tx_chargeBoxID t" "tx_pricingModel (upd_run f t) = tx_pricingModel t"
  by (simp_all add: upd_run_def)

definition blank_runtime :: runtime where
  "blank_runtime = \<lparr> rt_currentTimestamp = None, rt_currentStateOfCharge = 0, rt_currentSignedData = None,
     rt_currentConsumptionWh = 0, rt_currentTotalConsumptionWh = 0, rt_currentTotalInactivitySecs = 0,
     rt_currentInactivityStatus = INFO, rt_currentTotalDurationSecs = None, rt_currentCumulatedPrice = None,
     rt_currentCumulatedRoundedPrice = None, rt_transactionEndReceived = False, rt_numberOfMeterValues = 0,
     rt_watts = no_readings, rt_volts = no_readings, rt_amps = no_readings, rt_lastConsumption = None \<rparr>"

section \<open>Consumptions\<close>

datatype ConnectorCurrentLimitSource = CHARGING_PROFILE | STATIC_LIMITATION | CONNECTOR

datatype SiteAreaLimitSource = LIMIT_CHARGING_STATIONS | LIMIT_SITE_AREA

record connector_limit =
  lim_amps :: "rat option"
  lim_watts :: "rat option"
  lim_source :: ConnectorCurrentLimitSource

record site_area_limit =
  sal_watts :: rat
  sal_amps :: rat
  sal_source :: SiteAreaLimitSource
  sal_smartCharging :: bool

text \<open>
  A consumption as the meter values build it. The limits are set together, and only for a value
  that carries energy: \<open>mc_limit\<close> and \<open>mc_siteLimit\<close> group them.
\<close>

record meter_consumption =
  mc_transactionId :: int
  mc_connectorId :: int
  mc_chargeBoxID :: string
  mc_siteAreaID :: "string option"
  mc_siteID :: "string option"
  mc_userID :: "string option"
  mc_startedAt :: "int option"
  mc_endedAt :: int
  mc_stateOfCharge :: "rat option"
  mc_watts :: readings
  mc_volts :: readings
  mc_amps :: readings
  mc_consumptionWh :: "rat option"
  mc_consumptionAmps :: "rat option"
  mc_cumulatedConsumptionWh :: "rat option"
  mc_cumulatedConsumptionAmps :: "rat option"
  mc_inactivitySecs :: "rat option"
  mc_totalInactivitySecs :: "rat option"
  mc_totalDurationSecs :: "rat option"
  mc_limit :: "connector_limit option"
  mc_siteLimit :: "site_area_limit option"
  mc_cumulatedAmount :: "rat option"
  mc_amount :: "rat option"
  mc_roundedAmount :: "rat option"
  mc_currencyCode :: "string option"
  mc_pricingSource :: "PricingSource option"
  mc_toPrice :: bool

end
