(* ===== verification/Station_Utils.thy ===== *)
theory Station_Utils
  imports Station_Types
begin

text \<open>
  The electrical helpers of src/utils/Utils.ts: voltage, current type, connected phases, power
  and amperage of a station, of one of its charge points or of one connector, the conversions
  between watts and amps, phase detection and the connector statistics. The loops that return
  early are the recursive functions \<open>cp_lookup\<close>, \<open>con_lookup\<close> (first value found) and
  \<open>cp_total\<close>, \<open>con_total\<close> (a running total, or a value returned at once as \<open>Inl\<close>).
\<close>

section \<open>First value found\<close>

definition cp_selected :: "charge_point option \<Rightarrow> charge_point \<Rightarrow> bool" where
  "cp_selected cpo p = (case cpo of None \<Rightarrow> True | Some q \<Rightarrow> cp_chargePointID q = cp_chargePointID p)"

fun cp_lookup ::
  "charging_station \<Rightarrow> charge_point option \<Rightarrow> int \<Rightarrow> (charge_point \<Rightarrow> 'a option) \<Rightarrow>
   (connector \<Rightarrow> 'a option) \<Rightarrow> charge_point list \<Rightarrow> 'a option" where
  "cp_lookup cs cpo cid cpf conf [] = None"
| "cp_lookup cs cpo cid cpf conf (p # ps) =
     (if cp_selected cpo p then
        if cid = 0 \<and> cpf p \<noteq> None then cpf p
        else if cid \<in> set (cp_connectorIDs p) \<and> cpf p \<noteq> None then
          (case Option.bind (getConnectorFromID cs cid) conf of Some v \<Rightarrow> Some v | None \<Rightarrow> cpf p)
        else cp_lookup cs cpo cid cpf conf ps
      else cp_lookup cs cpo cid cpf conf ps)"

fun con_lookup :: "int \<Rightarrow> (connector \<Rightarrow> 'a option) \<Rightarrow> connector list \<Rightarrow> 'a option" where
  "con_lookup cid conf [] = None"
| "con_lookup cid conf (c # cs) =
     (if cid = 0 \<and> conf c \<noteq> None then conf c
      else if con_connectorId c = cid \<and> conf c \<noteq> None then conf c
      else con_lookup cid conf cs)"

definition station_lookup ::
  "charging_station \<Rightarrow> charge_point option \<Rightarrow> int \<Rightarrow> (charge_point \<Rightarrow> 'a option) \<Rightarrow>
   (connector \<Rightarrow> 'a option) \<Rightarrow> 'a option" where
  "station_lookup cs cpo cid cpf conf =
     (case cp_lookup cs cpo cid cpf conf (charge_points_of cs) of
        Some v \<Rightarrow> Some v
      | None \<Rightarrow> con_lookup cid conf (connectors_of cs))"

text \<open>A number that is 0 is falsy: it does not stop the search.\<close>

definition nonzero :: "'a::zero \<Rightarrow> 'a option" where
  "nonzero x = (if x = 0 then None else Some x)"

definition getNumberOfConnectedPhases :: "charging_station \<Rightarrow> charge_point option \<Rightarrow> int \<Rightarrow> int" where
  "getNumberOfConnectedPhases cs cpo cid =
     (case station_lookup cs cpo cid (\<lambda>p. nonzero (cp_numberOfConnectedPhase p))
             (\<lambda>c. Option.bind (con_numberOfConnectedPhase c) nonzero) of
        Some n \<Rightarrow> n | None \<Rightarrow> 1)"

definition getChargingStationVoltage :: "charging_station \<Rightarrow> charge_point option \<Rightarrow> int \<Rightarrow> Voltage" where
  "getChargingStationVoltage cs cpo cid =
     (case cs_voltage cs of
        Some v \<Rightarrow> v
      | None \<Rightarrow> (case station_lookup cs cpo cid cp_voltage con_voltage of
                  Some v \<Rightarrow> v | None \<Rightarrow> VOLTAGE_230))"

definition getChargingStationCurrentType ::
  "charging_station \<Rightarrow> charge_point option \<Rightarrow> int \<Rightarrow> CurrentType option" where
  "getChargingStationCurrentType cs cpo cid = station_lookup cs cpo cid cp_currentType con_currentType"

section \<open>Totals\<close>

fun cp_total ::
  "charging_station \<Rightarrow> charge_point option \<Rightarrow> int \<Rightarrow> (charge_point \<Rightarrow> rat) \<Rightarrow>
   (connector \<Rightarrow> rat option) \<Rightarrow> rat \<Rightarrow> charge_point list \<Rightarrow> rat + rat" where
  "cp_total cs cpo cid cpv conv tot [] = Inr tot"
| "cp_total cs cpo cid cpv conv tot (p # ps) =
     (if cp_selected cpo p then
        if cid = 0 \<and> cpv p \<noteq> 0 then cp_total cs cpo cid cpv conv (tot + cpv p) ps
        else if cid \<in> set (cp_connectorIDs p) \<and> cpv p \<noteq> 0 then
          Inl (if cp_cannotChargeInParallel p \<or> cp_sharePowerToAllConnectors p then
                 or_num (Option.bind (getConnectorFromID cs cid) conv) (cpv p)
               else cpv p / of_nat (length (cp_connectorIDs p)))
        else cp_total cs cpo cid cpv conv tot ps
      else cp_total cs cpo cid cpv conv tot ps)"

fun con_total :: "int \<Rightarrow> (connector \<Rightarrow> rat option) \<Rightarrow> rat \<Rightarrow> connector list \<Rightarrow> rat + rat" where
  "con_total cid conv tot [] = Inr tot"
| "con_total cid conv tot (c # cs) =
     (let tot' = (if cid = 0 then tot + or_num (conv c) 0 else tot)
      in if con_connectorId c = cid \<and> truthy_num (conv c) then Inl (or_num (conv c) 0)
         else con_total cid conv tot' cs)"

definition station_total ::
  "charging_station \<Rightarrow> charge_point option \<Rightarrow> int \<Rightarrow> (charge_point \<Rightarrow> rat) \<Rightarrow>
   (connector \<Rightarrow> rat option) \<Rightarrow> rat + rat" where
  "station_total cs cpo cid cpv conv =
     (case cp_total cs cpo cid cpv conv 0 (charge_points_of cs) of
        Inl v \<Rightarrow> Inl v
      | Inr tot \<Rightarrow> if tot = 0 then con_total cid conv tot (connectors_of cs) else Inr tot)"

definition result_of :: "rat + rat \<Rightarrow> rat" where
  "result_of r = (case r of Inl v \<Rightarrow> v | Inr v \<Rightarrow> v)"

definition getChargingStationAmperage :: "charging_station \<Rightarrow> charge_point option \<Rightarrow> int \<Rightarrow> rat" where
  "getChargingStationAmperage cs cpo cid = result_of (station_total cs cpo cid cp_amperage con_amperage)"

definition getChargingStationPower :: "charging_station \<Rightarrow> charge_point option \<Rightarrow> int \<Rightarrow> rat" where
  "getChargingStationPower cs cpo cid =
     (case station_total cs cpo cid cp_power con_power of
        Inl v \<Rightarrow> v
      | Inr tot \<Rightarrow>
          if tot = 0 then
            (let amperage = getChargingStationAmperage cs cpo cid;
                 voltage = voltage_value (getChargingStationVoltage cs cpo cid)
             in if voltage \<noteq> 0 \<and> amperage \<noteq> 0 then voltage * amperage else tot)
          else tot)"

text \<open>\<^verbatim>\<open>Math.round\<close> rounds halves up.\<close>

definition math_round :: "rat \<Rightarrow> rat" where
  "math_round x = of_int \<lfloor>x + 1/2\<rfloor>"

definition is_int :: "rat \<Rightarrow> bool" where
  "is_int x = (of_int \<lfloor>x\<rfloor> = x)"

definition getChargingStationAmperagePerPhase :: "charging_station \<Rightarrow> charge_point option \<Rightarrow> int \<Rightarrow> rat" where
  "getChargingStationAmperagePerPhase cs cpo cid =
     (let totalAmps = getChargingStationAmperage cs cpo cid;
          n = of_int (getNumberOfConnectedPhases cs cpo cid)
      in if is_int (totalAmps / n) then totalAmps / n else math_round (totalAmps / n))"

section \<open>Conversions\<close>

definition convertAmpToWatt :: "charging_station \<Rightarrow> charge_point option \<Rightarrow> int \<Rightarrow> rat \<Rightarrow> rat" where
  "convertAmpToWatt cs cpo cid ampValue =
     (let voltage = voltage_value (getChargingStationVoltage cs cpo cid)
      in if voltage \<noteq> 0 then voltage * ampValue else 0)"

definition convertWattToAmp :: "charging_station \<Rightarrow> charge_point option \<Rightarrow> int \<Rightarrow> rat \<Rightarrow> rat" where
  "convertWattToAmp cs cpo cid wattValue =
     (let voltage = voltage_value (getChargingStationVoltage cs cpo cid)
      in if voltage \<noteq> 0 then wattValue / voltage else 0)"

text \<open>
  An optional number that takes part in a sum makes the sum \<^verbatim>\<open>NaN\<close> when it is absent: the
  sums below are \<open>rat option\<close>, with \<open>None\<close> for \<^verbatim>\<open>NaN\<close> (or \<^verbatim>\<open>undefined\<close>, where it is returned).
\<close>

definition nan_add :: "rat option \<Rightarrow> rat option \<Rightarrow> rat option" where
  "nan_add a b = (case (a, b) of (Some x, Some y) \<Rightarrow> Some (x + y) | _ \<Rightarrow> None)"

definition nan_sum :: "rat option \<Rightarrow> rat option list \<Rightarrow> rat option" where
  "nan_sum a xs = fold (\<lambda>x acc. nan_add acc x) xs a"

definition computeChargingStationTotalAmps :: "charging_station \<Rightarrow> rat option" where
  "computeChargingStationTotalAmps cs =
     (if cs_maximumPower cs \<noteq> 0 then Some (convertWattToAmp cs None 0 (cs_maximumPower cs))
      else
        (let totalAmps = sum_list (map cp_amperage (charge_points_of cs))
         in if totalAmps = 0 then nan_sum (Some totalAmps) (map con_amperage (connectors_of cs))
            else Some totalAmps))"

definition amperageLimit_of :: "charging_station \<Rightarrow> int option \<Rightarrow> rat option" where
  "amperageLimit_of cs i =
     Option.bind (Option.bind i (getConnectorFromID cs)) con_amperageLimit"

definition cp_limits :: "charging_station \<Rightarrow> charge_point option \<Rightarrow> charge_point \<Rightarrow> rat option list" where
  "cp_limits cs cpo p =
     (if \<not> cp_selected cpo p \<or> cp_excludeFromPowerLimitation p then []
      else if cp_cannotChargeInParallel p \<or> cp_sharePowerToAllConnectors p then
        [amperageLimit_of cs (case cp_connectorIDs p of [] \<Rightarrow> None | i # _ \<Rightarrow> Some i)]
      else map (\<lambda>i. amperageLimit_of cs (Some i)) (cp_connectorIDs p))"

definition getChargingStationAmperageLimit :: "charging_station \<Rightarrow> charge_point option \<Rightarrow> int \<Rightarrow> rat option" where
  "getChargingStationAmperageLimit cs cpo cid =
     (if cid > 0 then amperageLimit_of cs (Some cid)
      else
        (let limit1 = nan_sum (Some 0) (concat (map (cp_limits cs cpo) (charge_points_of cs)));
             limit2 = (if limit1 = Some 0 then nan_sum limit1 (map con_amperageLimit (connectors_of cs)) else limit1);
             amperageMax = getChargingStationAmperage cs cpo cid
         in case limit2 of
              None \<Rightarrow> None
            | Some l \<Rightarrow> if l = 0 \<or> l > amperageMax then Some amperageMax else Some l))"

section \<open>Phases\<close>

definition AMPERAGE_DETECTION_THRESHOLD :: rat where
  "AMPERAGE_DETECTION_THRESHOLD = 1 / 2"

text \<open>
  In \<open>isTransactionInProgressOnThreePhases\<close> the test of the current type is joined by \<^verbatim>\<open>&&\<close> to
  the first of the three phase tests only, as \<^verbatim>\<open>&&\<close> binds tighter than \<^verbatim>\<open>||\<close> in the source.
\<close>

definition isTransactionInProgressOnThreePhases :: "CurrentType option \<Rightarrow> phase_amps \<Rightarrow> bool" where
  "isTransactionInProgressOnThreePhases currentType t =
     (\<not> ((currentType = Some AC \<and> (pa_L1 t > 0 \<and> (pa_L2 t = 0 \<or> pa_L3 t = 0)))
        \<or> (pa_L2 t > 0 \<and> (pa_L1 t = 0 \<or> pa_L3 t = 0))
        \<or> (pa_L3 t > 0 \<and> (pa_L1 t = 0 \<or> pa_L2 t = 0))))"

definition checkIfPhasesProvidedInTransactionInProgress :: "phase_amps \<Rightarrow> bool" where
  "checkIfPhasesProvidedInTransactionInProgress t =
     (pa_total t > AMPERAGE_DETECTION_THRESHOLD \<and>
        (pa_L1 t > AMPERAGE_DETECTION_THRESHOLD \<or> pa_L2 t > AMPERAGE_DETECTION_THRESHOLD
           \<or> pa_L3 t > AMPERAGE_DETECTION_THRESHOLD))"

definition getUsedPhasesInTransactionInProgress :: "CurrentType option \<Rightarrow> phase_amps \<Rightarrow> phases_used" where
  "getUsedPhasesInTransactionInProgress currentType t =
     (if currentType = Some AC \<and> checkIfPhasesProvidedInTransactionInProgress t then
        \<lparr> csPhase1 = (pa_L1 t > AMPERAGE_DETECTION_THRESHOLD),
          csPhase2 = (pa_L2 t > AMPERAGE_DETECTION_THRESHOLD),
          csPhase3 = (pa_L3 t > AMPERAGE_DETECTION_THRESHOLD) \<rparr>
      else \<lparr> csPhase1 = True, csPhase2 = True, csPhase3 = True \<rparr>)"

definition getNumberOfUsedPhasesInTransactionInProgress ::
  "CurrentType option \<Rightarrow> phases_used option \<Rightarrow> int" where
  "getNumberOfUsedPhasesInTransactionInProgress currentType phasesUsed =
     (case phasesUsed of
        Some u \<Rightarrow>
          if currentType = Some AC then
            of_bool (csPhase1 u) + of_bool (csPhase2 u) + of_bool (csPhase3 u)
          else -1
      | None \<Rightarrow> -1)"

section \<open>Inactivity\<close>

definition getEndOfChargeNotificationIntervalMins :: "charging_station \<Rightarrow> int \<Rightarrow> int" where
  "getEndOfChargeNotificationIntervalMins cs connectorId =
     (case getConnectorFromID cs connectorId of
        None \<Rightarrow> 0
      | Some c \<Rightarrow>
          (case con_power c of
             None \<Rightarrow> 0
           | Some p \<Rightarrow> if p \<le> 3680 then 120 else if p \<le> 7360 then 60
                       else if p < 50000 then 30 else 15))"

definition getInactivityStatusLevel :: "charging_station \<Rightarrow> int \<Rightarrow> rat option \<Rightarrow> InactivityStatus" where
  "getInactivityStatusLevel cs connectorId inactivitySecs =
     (case inactivitySecs of
        None \<Rightarrow> INFO
      | Some secs \<Rightarrow>
          if secs = 0 then INFO
          else
            (let intervalMins = of_int (getEndOfChargeNotificationIntervalMins cs connectorId)
             in if secs < intervalMins * 60 then INFO
                else if secs < intervalMins * 60 * 2 then WARNING
                else ERROR))"

section \<open>Connector statistics\<close>

record connector_stats =
  st_totalChargers :: int
  st_availableChargers :: int
  st_totalConnectors :: int
  st_chargingConnectors :: int
  st_suspendedConnectors :: int
  st_availableConnectors :: int
  st_unavailableConnectors :: int
  st_preparingConnectors :: int
  st_finishingConnectors :: int
  st_faultedConnectors :: int

definition empty_stats :: connector_stats where
  "empty_stats = \<lparr> st_totalChargers = 0, st_availableChargers = 0, st_totalConnectors = 0,
     st_chargingConnectors = 0, st_suspendedConnectors = 0, st_availableConnectors = 0,
     st_unavailableConnectors = 0, st_preparingConnectors = 0, st_finishingConnectors = 0,
     st_faultedConnectors = 0 \<rparr>"

definition count_connector :: "bool \<Rightarrow> connector \<Rightarrow> connector_stats \<Rightarrow> connector_stats" where
  "count_connector inactive c st0 =
     (let st = st0\<lparr>st_totalConnectors := st_totalConnectors st0 + 1\<rparr>; s = con_status c in
      if inactive \<or> s = UNAVAILABLE then st\<lparr>st_unavailableConnectors := st_unavailableConnectors st + 1\<rparr>
      else if s = AVAILABLE then st\<lparr>st_availableConnectors := st_availableConnectors st + 1\<rparr>
      else if s = SUSPENDED_EV \<or> s = SUSPENDED_EVSE then st\<lparr>st_suspendedConnectors := st_suspendedConnectors st + 1\<rparr>
      else if s = CHARGING \<or> s = OCCUPIED then st\<lparr>st_chargingConnectors := st_chargingConnectors st + 1\<rparr>
      else if s = FAULTED then st\<lparr>st_faultedConnectors := st_faultedConnectors st + 1\<rparr>
      else if s = PREPARING then st\<lparr>st_preparingConnectors := st_preparingConnectors st + 1\<rparr>
      else if s = FINISHING then st\<lparr>st_finishingConnectors := st_finishingConnectors st + 1\<rparr>
      else st)"

text \<open>The second loop of a station stops (\<^verbatim>\<open>break\<close>) at the first available connector.\<close>

fun count_available_charger :: "bool \<Rightarrow> connector list \<Rightarrow> connector_stats \<Rightarrow> connector_stats" where
  "count_available_charger inactive [] st = st"
| "count_available_charger inactive (c # cs) st =
     (if \<not> inactive \<and> con_status c = AVAILABLE
      then st\<lparr>st_availableChargers := st_availableChargers st + 1\<rparr>
      else count_available_charger inactive cs st)"

definition count_station :: "charging_station \<Rightarrow> connector_stats \<Rightarrow> connector_stats" where
  "count_station cs st =
     (if cs_deleted cs then st
      else
        (let st1 = st\<lparr>st_totalChargers := st_totalChargers st + 1\<rparr>;
             st2 = fold (count_connector (cs_inactive cs)) (connectors_of cs) st1
         in count_available_charger (cs_inactive cs) (connectors_of cs) st2))"

definition getConnectorStatusesFromChargingStations :: "charging_station list \<Rightarrow> connector_stats" where
  "getConnectorStatusesFromChargingStations css = fold count_station css empty_stats"

section \<open>Lemmas\<close>

lemma voltage_value_pos [simp]: "0 < voltage_value v"
  by (cases v) simp_all

lemma voltage_value_nz [simp]: "voltage_value v \<noteq> 0"
  using voltage_value_pos[of v] by linarith

lemma cp_lookup_same:
  "(\<And>p v. p \<in> set ps \<Longrightarrow> cpf p = Some v \<Longrightarrow> P v) \<Longrightarrow>
   (\<And>c v. c \<in> set (connectors_of cs) \<Longrightarrow> conf c = Some v \<Longrightarrow> P v) \<Longrightarrow>
   cp_lookup cs cpo cid cpf conf ps = Some w \<Longrightarrow> P w"
proof (induction ps)
  case (Cons p ps)
  show ?case
  proof (cases "cp_lookup cs cpo cid cpf conf ps = Some w")
    case True
    with Cons show ?thesis by auto
  next
    case False
    with Cons.prems(3) consider "cpf p = Some w" | c where "getConnectorFromID cs cid = Some c" "conf c = Some w"
      by (auto split: if_splits option.splits simp: Option.bind_eq_Some_conv)
    then show ?thesis
      using Cons.prems(1,2) by (cases) (auto dest: getConnectorFromID_Some)
  qed
qed simp

lemma con_lookup_same:
  "(\<And>c v. c \<in> set cons \<Longrightarrow> conf c = Some v \<Longrightarrow> P v) \<Longrightarrow> con_lookup cid conf cons = Some w \<Longrightarrow> P w"
  by (induction cons) (auto split: if_splits)

lemma station_lookup_same:
  assumes "\<And>p v. p \<in> set (charge_points_of cs) \<Longrightarrow> cpf p = Some v \<Longrightarrow> P v"
    and "\<And>c v. c \<in> set (connectors_of cs) \<Longrightarrow> conf c = Some v \<Longrightarrow> P v"
    and "station_lookup cs cpo cid cpf conf = Some w"
  shows "P w"
  using assms(3) cp_lookup_same[of "charge_points_of cs" cpf P cs conf] con_lookup_same[of "connectors_of cs" conf P]
    assms(1,2)
  by (auto simp: station_lookup_def split: option.splits)

lemma getNumberOfConnectedPhases_nz: "getNumberOfConnectedPhases cs cpo cid \<noteq> 0"
proof (cases "station_lookup cs cpo cid (\<lambda>p. nonzero (cp_numberOfConnectedPhase p))
             (\<lambda>c. Option.bind (con_numberOfConnectedPhase c) nonzero)")
  case (Some w)
  have "w \<noteq> 0"
    by (rule station_lookup_same[OF _ _ Some, where P = "\<lambda>v. v \<noteq> 0"])
      (auto simp: nonzero_def Option.bind_eq_Some_conv split: if_splits)
  with Some show ?thesis by (simp add: getNumberOfConnectedPhases_def)
qed (simp add: getNumberOfConnectedPhases_def)

text \<open>The running total of \<open>cp_total\<close> over a whole station is a plain sum.\<close>

lemma cp_total_station:
  "(\<forall>p \<in> set ps. 0 \<notin> set (cp_connectorIDs p)) \<Longrightarrow>
   cp_total cs None 0 cpv conv tot ps = Inr (tot + sum_list (map cpv ps))"
  by (induction ps arbitrary: tot) (auto simp: cp_selected_def)

lemma con_total_station:
  "(\<forall>c \<in> set cons. con_connectorId c \<noteq> 0) \<Longrightarrow>
   con_total 0 conv tot cons = Inr (tot + sum_list (map (\<lambda>c. or_num (conv c) 0) cons))"
  by (induction cons arbitrary: tot) (auto simp: Let_def)

text \<open>The counters: each connector adds one to the total and at most one to a bucket.\<close>

definition bucket_sum :: "connector_stats \<Rightarrow> int" where
  "bucket_sum st = st_chargingConnectors st + st_suspendedConnectors st + st_availableConnectors st
     + st_unavailableConnectors st + st_preparingConnectors st + st_finishingConnectors st
     + st_faultedConnectors st"

definition unbucketed :: "bool \<Rightarrow> connector \<Rightarrow> bool" where
  "unbucketed inactive c = (\<not> inactive \<and> con_status c = RESERVED)"

lemma count_connector_bucket:
  "bucket_sum (count_connector inactive c st) = bucket_sum st + (if unbucketed inactive c then 0 else 1)"
  "st_totalConnectors (count_connector inactive c st) = st_totalConnectors st + 1"
  "st_totalChargers (count_connector inactive c st) = st_totalChargers st"
  "st_availableChargers (count_connector inactive c st) = st_availableChargers st"
  by (cases "con_status c"; simp add: count_connector_def bucket_sum_def unbucketed_def Let_def)+

lemma fold_count_connector:
  "bucket_sum (fold (count_connector i) cons st) =
     bucket_sum st + int (length (filter (\<lambda>c. \<not> unbucketed i c) cons))"
  "st_totalConnectors (fold (count_connector i) cons st) = st_totalConnectors st + int (length cons)"
  "st_totalChargers (fold (count_connector i) cons st) = st_totalChargers st"
  "st_availableChargers (fold (count_connector i) cons st) = st_availableChargers st"
  by (induction cons arbitrary: st) (auto simp: count_connector_bucket)

lemma count_available_charger_eq:
  "count_available_charger i cons st =
     (if \<exists>c \<in> set cons. \<not> i \<and> con_status c = AVAILABLE
      then st\<lparr>st_availableChargers := st_availableChargers st + 1\<rparr> else st)"
  by (induction cons) auto

lemma bucket_sum_available [simp]: "bucket_sum (st\<lparr>st_availableChargers := n\<rparr>) = bucket_sum st"
  "bucket_sum (st\<lparr>st_totalChargers := n\<rparr>) = bucket_sum st"
  by (simp_all add: bucket_sum_def)

definition live :: "charging_station list \<Rightarrow> charging_station list" where
  "live css = filter (\<lambda>cs. \<not> cs_deleted cs) css"

lemma fold_count_station:
  "bucket_sum (fold count_station css st) = bucket_sum st +
     sum_list (map (\<lambda>cs. int (length (filter (\<lambda>c. \<not> unbucketed (cs_inactive cs) c) (connectors_of cs)))) (live css))"
  "st_totalConnectors (fold count_station css st) = st_totalConnectors st +
     sum_list (map (\<lambda>cs. int (length (connectors_of cs))) (live css))"
  "st_totalChargers (fold count_station css st) = st_totalChargers st + int (length (live css))"
  "st_availableChargers (fold count_station css st) = st_availableChargers st +
     int (length (filter (\<lambda>cs. \<exists>c \<in> set (connectors_of cs). \<not> cs_inactive cs \<and> con_status c = AVAILABLE) (live css)))"
  by (induction css arbitrary: st)
    (auto simp: live_def count_station_def Let_def count_available_charger_eq fold_count_connector)

section \<open>Properties\<close>

text \<open>Watts and amps convert into each other without loss, on every station and connector.\<close>

theorem watt_amp_roundtrip:
  "convertAmpToWatt cs cpo cid (convertWattToAmp cs cpo cid w) = w
   \<and> convertWattToAmp cs cpo cid (convertAmpToWatt cs cpo cid a) = a"
  by (simp add: convertAmpToWatt_def convertWattToAmp_def Let_def)

text \<open>The connector statistics account for every connector of a station that is not deleted:
  the total is the sum of the seven status counters plus the reserved connectors of active stations,
  which no counter takes; available stations are among the counted ones.\<close>

theorem connector_stats_partition:
  "st_totalConnectors (getConnectorStatusesFromChargingStations css) =
     bucket_sum (getConnectorStatusesFromChargingStations css)
     + sum_list (map (\<lambda>cs. int (length (filter (unbucketed (cs_inactive cs)) (connectors_of cs)))) (live css))
   \<and> st_totalChargers (getConnectorStatusesFromChargingStations css) = int (length (live css))
   \<and> st_availableChargers (getConnectorStatusesFromChargingStations css)
       \<le> st_totalChargers (getConnectorStatusesFromChargingStations css)"
proof -
  have split: "int (length (connectors_of cs)) =
      int (length (filter (\<lambda>c. \<not> unbucketed (cs_inactive cs) c) (connectors_of cs)))
      + int (length (filter (unbucketed (cs_inactive cs)) (connectors_of cs)))" for cs
    using sum_length_filter_compl[of "unbucketed (cs_inactive cs)" "connectors_of cs"] by linarith
  have "sum_list (map (\<lambda>cs. int (length (connectors_of cs))) xs) =
      sum_list (map (\<lambda>cs. int (length (filter (\<lambda>c. \<not> unbucketed (cs_inactive cs) c) (connectors_of cs)))) xs)
      + sum_list (map (\<lambda>cs. int (length (filter (unbucketed (cs_inactive cs)) (connectors_of cs)))) xs)" for xs
    by (subst sum_list_addf[symmetric]) (simp add: split[symmetric])
  then show ?thesis
    by (simp add: getConnectorStatusesFromChargingStations_def fold_count_station)
      (simp add: empty_stats_def bucket_sum_def)
qed

text \<open>The amperage limit of a station or charge point, when it is a number, never exceeds its amperage.\<close>

theorem amperage_limit_bounded:
  assumes "cid \<le> 0" and "getChargingStationAmperageLimit cs cpo cid = Some l"
  shows "l \<le> getChargingStationAmperage cs cpo cid"
  using assms by (auto simp: getChargingStationAmperageLimit_def Let_def split: option.splits if_splits)

definition sample_connector :: "int \<Rightarrow> connector" where
  "sample_connector i = \<lparr> con_connectorId = i, con_currentInstantWatts = None, con_currentStateOfCharge = None,
     con_currentTotalConsumptionWh = None, con_currentTotalInactivitySecs = None,
     con_currentInactivityStatus = None, con_currentTransactionID = None,
     con_currentTransactionDate = None, con_currentTagID = None, con_currentUserID = None,
     con_status = AVAILABLE, con_errorCode = None, con_info = None, con_vendorErrorCode = None,
     con_power = Some 22000, con_type = Some TYPE_2, con_voltage = Some VOLTAGE_230,
     con_amperage = Some 96, con_amperageLimit = Some 120, con_statusLastChangedOn = None,
     con_numberOfConnectedPhase = Some 3, con_currentType = Some AC, con_chargePointID = None,
     con_phaseAssignmentToGrid = None \<rparr>"

definition sample_station :: charging_station where
  "sample_station = \<lparr> cs_id = ''CS-1'', cs_siteID = Some ''S1'', cs_siteAreaID = Some ''SA1'', cs_companyID = Some ''C1'',
     cs_issuer = True, cs_public = True, cs_chargePointVendor = ''Schneider'', cs_chargePointModel = ''EVlink'',
     cs_chargePointSerialNumber = None, cs_ocppVersion = VERSION_16, cs_powerLimitUnit = RATE_AMPERE,
     cs_supportChargingProfiles = True, cs_supportStaticLimitation = True, cs_excludeFromSmartCharging = False, cs_siteArea = None,
     cs_deleted = False, cs_inactive = False, cs_forceInactive = False, cs_lastSeen = 0, cs_maximumPower = 0,
     cs_voltage = None, cs_chargePoints = None,
     cs_connectors = Some [sample_connector 1, sample_connector 2], cs_backupConnectors = None \<rparr>"

theorem amperage_limit_bounded_witness:
  "getChargingStationAmperageLimit sample_station None 0 = Some 192
   \<and> 192 \<le> getChargingStationAmperage sample_station None 0"
proof -
  have h: "getChargingStationAmperageLimit sample_station None 0 = Some 192"
    by code_simp
  show ?thesis using h amperage_limit_bounded[OF _ h] by simp
qed

text \<open>The inactivity level of a session only rises as its inactivity grows.\<close>

theorem inactivity_level_mono:
  assumes "a \<le> b"
  shows "getInactivityStatusLevel cs i (Some a) \<le> getInactivityStatusLevel cs i (Some b)"
proof -
  have "0 \<le> getEndOfChargeNotificationIntervalMins cs i"
    by (simp add: getEndOfChargeNotificationIntervalMins_def split: option.splits)
  with assms show ?thesis
    by (auto simp: getInactivityStatusLevel_def Let_def less_eq_InactivityStatus_def)
qed

theorem inactivity_level_mono_witness:
  "getInactivityStatusLevel sample_station 1 (Some 60) \<le> getInactivityStatusLevel sample_station 1 (Some 2000)"
  by (rule inactivity_level_mono) simp

text \<open>A direct-current session whose meter reports a current on the second phase only is taken to be on
  less than three phases, although the test is meant for alternating current.\<close>

theorem three_phases_ignores_current_type:
  "\<not> isTransactionInProgressOnThreePhases (Some DC) \<lparr>pa_total = 16, pa_L1 = 0, pa_L2 = 16, pa_L3 = 0\<rparr>
   \<and> isTransactionInProgressOnThreePhases (Some DC) \<lparr>pa_total = 16, pa_L1 = 16, pa_L2 = 0, pa_L3 = 0\<rparr>"
  by (simp add: isTransactionInProgressOnThreePhases_def)

end
