(* ===== verification/Pricing_Engine.thy ===== *)
theory Pricing_Engine
  imports Consumption_Pricer Transaction_Types Station_Utils
begin

text \<open>
  The pricing engine (src/integration/pricing/PricingEngine.ts) and the built-in pricing of a
  session (simple-pricing/BuiltInPricingIntegration.ts): the tariffs that apply to a session are
  resolved once, when it starts, with a free default tariff behind them; every consumption of the
  session is then priced on that model, and the amounts accumulated on it.

  What the engine reads of its surroundings is a \<open>pricing_env\<close>: the time-zone library, the
  currency of the pricing settings (\<open>None\<close> when the pricing component is inactive), the tenant, and
  the tariffs stored for an entity, newest first (the MongoDB query of
  \<open>fetchPricingDefinitions4Entity\<close>).
\<close>

record pricing_env =
  pe_tz :: tz_lib
  pe_currency :: "string option"
  pe_tenantID :: string
  pe_definitions :: "PricingEntity \<Rightarrow> string \<Rightarrow> pricing_definition list"

record priced_consumption =
  pc_pricingSource :: PricingSource
  pc_amount :: rat
  pc_roundedAmount :: rat
  pc_currencyCode :: string
  pc_cumulatedAmount :: rat
  pc_cumulatedRoundedAmount :: rat

section \<open>Resolving the tariffs of a session\<close>

definition checkDateValidity :: "pricing_static_restriction \<Rightarrow> transaction \<Rightarrow> bool" where
  "checkDateValidity sr t =
     ((case sr_validFrom sr of None \<Rightarrow> True | Some from \<Rightarrow> \<not> tx_timestamp t < from)
      \<and> (case sr_validTo sr of None \<Rightarrow> True | Some until \<Rightarrow> \<not> tx_timestamp t \<ge> until))"

definition checkConnectorType :: "pricing_static_restriction \<Rightarrow> transaction \<Rightarrow> charging_station \<Rightarrow> bool" where
  "checkConnectorType sr t cs =
     (case sr_connectorType sr of
        None \<Rightarrow> True
      | Some ty \<Rightarrow> Option.bind (getConnectorFromID cs (tx_connectorId t)) con_type = Some ty)"

text \<open>\<^verbatim>\<open>Utils.createDecimal\<close> reads a missing power as 0.\<close>

definition checkConnectorPower :: "pricing_static_restriction \<Rightarrow> transaction \<Rightarrow> charging_station \<Rightarrow> bool" where
  "checkConnectorPower sr t cs =
     (case sr_connectorPowerkW sr of
        None \<Rightarrow> True
      | Some kW \<Rightarrow>
          or_else (Option.bind (getConnectorFromID cs (tx_connectorId t)) con_power) 0 / 1000 = kW)"

definition checkEntityType :: "PricingEntity \<Rightarrow> pricing_definition \<Rightarrow> bool" where
  "checkEntityType entityType d = (def_entityType d = Some entityType)"

definition checkStaticRestrictions :: "transaction \<Rightarrow> charging_station \<Rightarrow> pricing_definition \<Rightarrow> bool" where
  "checkStaticRestrictions t cs d =
     (case def_staticRestrictions d of
        None \<Rightarrow> True
      | Some sr \<Rightarrow> checkDateValidity sr t \<and> checkConnectorType sr t cs \<and> checkConnectorPower sr t cs)"

definition shrinkPricingDefinition :: "pricing_definition \<Rightarrow> pricing_definition" where
  "shrinkPricingDefinition d = d\<lparr>def_description := def_name d\<rparr>"

definition getPricingDefinitions4Entity ::
  "'a pricing_env_scheme \<Rightarrow> transaction \<Rightarrow> charging_station \<Rightarrow> PricingEntity \<Rightarrow> string option \<Rightarrow> pricing_definition list" where
  "getPricingDefinitions4Entity env t cs entityType entityID =
     (if \<not> truthy_str entityID then []
      else map shrinkPricingDefinition
        (filter (checkStaticRestrictions t cs)
           (filter (checkEntityType entityType) (pe_definitions env entityType (or_else entityID [])))))"

definition initial_context :: "transaction \<Rightarrow> pricer_context" where
  "initial_context t = \<lparr> ctx_flatFeeAlreadyPriced = False, ctx_sessionStartDate = tx_timestamp t,
     ctx_lastAbsorbedConsumption = None, ctx_lastAbsorbedChargingTime = None,
     ctx_lastAbsorbedParkingTime = None, ctx_timezone = tx_timezone t \<rparr>"

definition resolvePricingContext ::
  "'a pricing_env_scheme \<Rightarrow> transaction \<Rightarrow> charging_station \<Rightarrow> pricing_model" where
  "resolvePricingContext env t cs =
     \<lparr> pm_pricingDefinitions =
         getPricingDefinitions4Entity env t cs PricingEntity.CHARGING_STATION (Some (tx_chargeBoxID t))
         @ getPricingDefinitions4Entity env t cs PricingEntity.SITE (tx_siteID t)
         @ getPricingDefinitions4Entity env t cs PricingEntity.TENANT (Some (pe_tenantID env)),
       pm_pricerContext = initial_context t \<rparr>"

definition getDefaultPricingDefinition :: pricing_definition where
  "getDefaultPricingDefinition =
     \<lparr> def_id = None, def_entityID = None, def_entityType = None, def_name = ''No Tariff'',
       def_description = ''Tariff used when no other pricing definition matches'',
       def_staticRestrictions = None, def_restrictions = None,
       def_dimensions = \<lparr> dims_flatFee = None,
         dims_energy = Some \<lparr> dim_active = True, dim_price = 0, dim_stepSize = None, dim_pricedData = None \<rparr>,
         dims_chargingTime = None, dims_parkingTime = None \<rparr> \<rparr>"

text \<open>\<^verbatim>\<open>BuiltInPricingIntegration.resolvePricingContext\<close>: the engine's model and the fallback.\<close>

definition resolveSessionModel ::
  "'a pricing_env_scheme \<Rightarrow> transaction \<Rightarrow> charging_station \<Rightarrow> pricing_model" where
  "resolveSessionModel env t cs =
     (let m = resolvePricingContext env t cs
      in m\<lparr>pm_pricingDefinitions := pm_pricingDefinitions m @ [getDefaultPricingDefinition]\<rparr>)"

section \<open>What a session has been priced\<close>

definition extractFinalPricedConsumptionData :: "pricing_definition \<Rightarrow> priced_consumption_data option" where
  "extractFinalPricedConsumptionData d =
     (let pd = (\<lambda>t. Option.bind (dim_of t (def_dimensions d)) dim_pricedData) in
      if pd FLAT_FEE \<noteq> None \<or> pd ENERGY \<noteq> None \<or> pd DimensionType.CHARGING_TIME \<noteq> None \<or> pd PARKING_TIME \<noteq> None
      then Some \<lparr> pcd_flatFee = pd FLAT_FEE, pcd_energy = pd ENERGY,
                  pcd_chargingTime = pd DimensionType.CHARGING_TIME, pcd_parkingTime = pd PARKING_TIME \<rparr>
      else None)"

definition extractFinalPricingData :: "pricing_model option \<Rightarrow> priced_consumption_data list" where
  "extractFinalPricingData m =
     (case m of None \<Rightarrow> []
      | Some pm \<Rightarrow> List.map_filter extractFinalPricedConsumptionData (pm_pricingDefinitions pm))"

definition computeCumulatedAmount :: "pricing_model \<Rightarrow> rat \<times> rat" where
  "computeCumulatedAmount m = accumulatePricingDimensions (map def_dimensions (pm_pricingDefinitions m))"

definition amount_of :: "priced_dimension_data option \<Rightarrow> rat" where
  "amount_of pdo = (case pdo of None \<Rightarrow> 0 | Some pd \<Rightarrow> pdd_amount pd)"

definition rounded_of :: "priced_dimension_data option \<Rightarrow> rat" where
  "rounded_of pdo = (case pdo of None \<Rightarrow> 0 | Some pd \<Rightarrow> pdd_roundedAmount pd)"

text \<open>
  \<^verbatim>\<open>computePrice\<close>. The pricing model is an object shared with the transaction: pricing mutates it
  in place, so the model after the call is returned beside the priced consumption.
\<close>

definition computePrice ::
  "'a pricing_env_scheme \<Rightarrow> string \<Rightarrow> transaction \<Rightarrow> consumption \<Rightarrow> charging_station \<Rightarrow>
   (pricing_model \<times> priced_consumption) res" where
  "computePrice env currency t c cs =
     bindE (priceConsumption (pe_tz env) (or_else (tx_pricingModel t) (resolveSessionModel env t cs)) c) (\<lambda>(m', p).
       (let cumulated = computeCumulatedAmount m' in
        Inr (m', \<lparr> pc_pricingSource = SIMPLE,
          pc_amount = amount_of (pcd_flatFee p) + amount_of (pcd_energy p)
                    + amount_of (pcd_chargingTime p) + amount_of (pcd_parkingTime p),
          pc_roundedAmount = rounded_of (pcd_flatFee p) + rounded_of (pcd_energy p)
                    + rounded_of (pcd_chargingTime p) + rounded_of (pcd_parkingTime p),
          pc_currencyCode = currency,
          pc_cumulatedAmount = fst cumulated,
          pc_cumulatedRoundedAmount = snd cumulated \<rparr>)))"

text \<open>The four entry points of the integration differ in what they log.\<close>

definition startSession where "startSession = computePrice"
definition updateSession where "updateSession = computePrice"
definition stopSession where "stopSession = computePrice"
definition endSession where "endSession = computePrice"

section \<open>Sound priced data\<close>

text \<open>
  Priced data is coherent when its three amounts agree; it is sound when it is also not negative, and
  nothing costs nothing.
  A tariff is sound when its prices and steps are not negative and its stored data is sound.
\<close>

definition coherent :: "priced_dimension_data \<Rightarrow> bool" where
  "coherent pd = (pdd_amountAsDecimal pd = Some (pdd_amount pd) \<and> pdd_roundedAmount pd = truncTo (pdd_amount pd) 2)"

definition sound_pd :: "priced_dimension_data \<Rightarrow> bool" where
  "sound_pd pd = (coherent pd \<and> 0 \<le> pdd_amount pd \<and> 0 \<le> pdd_quantity pd \<and> (pdd_quantity pd = 0 \<longrightarrow> pdd_amount pd = 0))"

definition sound_dim :: "pricing_dimension \<Rightarrow> bool" where
  "sound_dim dm = (0 \<le> dim_price dm \<and> 0 \<le> or_else (dim_stepSize dm) 0
     \<and> (case dim_pricedData dm of None \<Rightarrow> True | Some pd \<Rightarrow> sound_pd pd))"

definition sound_definition :: "pricing_definition \<Rightarrow> bool" where
  "sound_definition d = (\<forall>t. case dim_of t (def_dimensions d) of None \<Rightarrow> True | Some dm \<Rightarrow> sound_dim dm)"

definition sound_model :: "pricing_model \<Rightarrow> bool" where
  "sound_model m = list_all sound_definition (pm_pricingDefinitions m)"

definition sound_data :: "priced_consumption_data \<Rightarrow> bool" where
  "sound_data p = (\<forall>t. case pcd_of t p of None \<Rightarrow> True | Some pd \<Rightarrow> sound_pd pd)"

lemma sound_priced: "0 \<le> a \<Longrightarrow> 0 \<le> q \<Longrightarrow> (q = 0 \<Longrightarrow> a = 0) \<Longrightarrow> sound_pd (priced u a q s)"
  by (simp add: sound_pd_def coherent_def priced_def)

lemma sound_name [simp]: "sound_pd (name_pd n pd) = sound_pd pd"
  by (simp add: sound_pd_def coherent_def name_pd_def)

lemma sound_name_stored [simp]: "sound_dim (name_stored b n dm) = sound_dim dm"
  by (cases "dim_pricedData dm") (simp_all add: sound_dim_def name_stored_def)

lemma sound_addPricedData: "sound_dim dm \<Longrightarrow> sound_pd pd \<Longrightarrow> sound_dim (addPricedData dm pd)"
  by (auto simp: sound_dim_def sound_pd_def coherent_def addPricedData_def Let_def split: option.splits)

lemma sound_call:
  assumes "pricing_call dm r" and "sound_dim dm"
  shows "sound_dim (fst r) \<and> sound_pd (snd r)"
proof -
  have p: "0 \<le> dim_price dm" "0 \<le> or_else (dim_stepSize dm) 0" using assms(2) by (simp_all add: sound_dim_def)
  show ?thesis
    using assms p unfolding pricing_call_def
    by (elim disjE exE)
      (auto simp: priceFlatFeeDimension_def priceConsumptionStep_def priceConsumptionWh_def priceTimeSteps_def
        priceTimeSpent_def Let_def sound_priced intro!: sound_addPricedData, auto simp: sound_dim_def sound_priced)
qed

lemma sound_dimD: "sound_definition d \<Longrightarrow> dim_of t (def_dimensions d) = Some dm \<Longrightarrow> sound_dim dm"
  by (auto simp: sound_definition_def dest!: spec[of _ t])

lemma sound_put_dim:
  assumes "sound_model m" and "sound_dim dm" and "i < length (pm_pricingDefinitions m)"
  shows "sound_model (put_dim i t dm m)"
  using assms by (auto simp: sound_model_def put_dim_def Let_def list_all_length nth_list_update sound_definition_def)

lemma sound_step:
  assumes "step_shape t active m m' res" and "sound_model m" and "valid_active active m"
  shows "sound_model m' \<and> (\<forall>pd. res = Some pd \<longrightarrow> sound_pd pd) \<and> valid_active active m'"
  using assms(1) unfolding step_shape_def
proof (elim disjE exE conjE)
  assume "res = None" "pm_pricingDefinitions m' = pm_pricingDefinitions m"
  then show ?thesis using assms(2,3) by (simp add: sound_model_def valid_active_def split: option.splits)
next
  fix x r
  assume a: "getActiveDefinition4Dimension m active t = Inr (Some x)"
    and r: "pricing_call (snd x) r" and res: "res = Some (snd (store_dim active t (fst x) (snd x) r m))"
    and m': "pm_pricingDefinitions m' = pm_pricingDefinitions (fst (store_dim active t (fst x) (snd x) r m))"
  from a obtain i where i: "active = Some i" and d: "fst x = pm_pricingDefinitions m ! i"
    and dm: "dim_of t (def_dimensions (fst x)) = Some (snd x)"
    using getActive_Some[of m active t "fst x" "snd x"] by auto
  from i assms(3) have il: "i < length (pm_pricingDefinitions m)" by (simp add: valid_active_def)
  with assms(2) d dm have "sound_dim (snd x)"
    by (auto simp: sound_model_def list_all_length intro: sound_dimD)
  from sound_call[OF r this] have s: "sound_dim (fst r)" "sound_pd (snd r)" by simp_all
  show ?thesis
    using sound_put_dim[OF assms(2) _ il, of "name_stored (dim_pricedData (snd x) = None) (def_name (fst x)) (fst r)" t]
      s m' res i il
    by (simp add: sound_model_def store_dim_def valid_active_def)
qed

lemma sound_chunk:
  assumes "priceConsumptionChunk tz ch m = Inr (m', p)" and "sound_model m"
  shows "sound_model m' \<and> sound_data p"
proof -
  let ?a = "actualPricingDefinition tz m ch"
  from assms(1) obtain m1 m2 m3 where
    s: "priceFlatFeeConsumption ch ?a m = Inr (m1, pcd_flatFee p)"
       "priceEnergyConsumption ch ?a m1 = Inr (m2, pcd_energy p)"
       "priceChargingTimeConsumption ch ?a m2 = Inr (m3, pcd_chargingTime p)"
       "priceParkingTimeConsumption ch ?a m3 = Inr (m', pcd_parkingTime p)"
    by (rule priceConsumptionChunk_steps)
  note e1 = sound_step[OF flat_fee_shape[OF s(1)] assms(2) actual_valid]
  note e2 = sound_step[OF energy_shape[OF s(2)] e1[THEN conjunct1] e1[THEN conjunct2, THEN conjunct2]]
  note e3 = sound_step[OF charging_time_shape[OF s(3)] e2[THEN conjunct1] e2[THEN conjunct2, THEN conjunct2]]
  note e4 = sound_step[OF parking_time_shape[OF s(4)] e3[THEN conjunct1] e3[THEN conjunct2, THEN conjunct2]]
  have "sound_pd pd" if "pcd_of t p = Some pd" for t pd
    using that e1 e2 e3 e4 by (cases t) auto
  with e4 show ?thesis by (auto simp: sound_data_def split: option.splits)
qed

lemma sound_accumulate_one:
  assumes "case pcd_of t acc of None \<Rightarrow> True | Some pd \<Rightarrow> sound_pd pd" and "case pcd_of t p of None \<Rightarrow> True | Some pd \<Rightarrow> sound_pd pd"
  shows "case pcd_of t (accumulatePricedConsumptionData p t acc) of None \<Rightarrow> True | Some pd \<Rightarrow> sound_pd pd"
  using assms
  by (cases "pcd_of t p"; cases "pcd_of t acc")
    (auto simp: accumulatePricedConsumptionData_def Let_def sound_pd_def coherent_def empty_dimension_data_def or_else_def
      add_nonneg_eq_0_iff)

lemma sound_accumulate: "sound_data acc \<Longrightarrow> sound_data p \<Longrightarrow> sound_data (accumulateAllDimensions p acc)"
  unfolding sound_data_def pcd_of_accumulate_all by (blast intro: sound_accumulate_one)

lemma sound_none [simp]: "sound_data no_priced_data"
  by (simp add: sound_data_def)

lemma sound_chunks:
  "priceChunks tz chs m acc = Inr (m', acc') \<Longrightarrow> sound_model m \<Longrightarrow> sound_data acc \<Longrightarrow>
     sound_model m' \<and> sound_data acc'"
proof (induction chs arbitrary: m acc)
  case (Cons ch chs)
  from Cons.prems(1) obtain m1 p where c: "priceConsumptionChunk tz ch m = Inr (m1, p)"
    and r: "priceChunks tz chs m1 (accumulatePricedConsumption [acc, p]) = Inr (m', acc')"
    by (auto elim!: bindE_InrE)
  from sound_chunk[OF c Cons.prems(2)] show ?case
    by (intro Cons.IH[OF r]) (simp_all add: accumulate_two sound_accumulate Cons.prems(3))
qed simp

lemma sound_consumption:
  assumes "priceConsumption tz m c = Inr (m', p)" and "sound_model m"
  shows "sound_model m' \<and> sound_data p"
proof -
  from assms(1) obtain chs where "priceChunks tz chs m no_priced_data = Inr (m', p)"
    by (auto simp: priceConsumption_def elim: bindE_InrE)
  from sound_chunks[OF this assms(2)] show ?thesis by simp
qed

section \<open>Cumulated amounts\<close>

lemma accumulatePricingDimension_eq:
  "accumulatePricingDimension ds t =
     (sum_list (map (\<lambda>d. stored_measure pdd_amount (dim_of t d)) ds),
      sum_list (map (\<lambda>d. stored_measure pdd_roundedAmount (dim_of t d)) ds))"
proof -
  have "fold (\<lambda>d (a, r). case Option.bind (dim_of t d) dim_pricedData of None \<Rightarrow> (a, r)
            | Some pd \<Rightarrow> (a + pdd_amount pd, r + pdd_roundedAmount pd)) ds (a, r) =
      (a + sum_list (map (\<lambda>d. stored_measure pdd_amount (dim_of t d)) ds),
       r + sum_list (map (\<lambda>d. stored_measure pdd_roundedAmount (dim_of t d)) ds))" for a r
    by (induction ds arbitrary: a r) (auto simp: stored_measure_def split: option.splits)
  from this[of 0 0] show ?thesis by (simp add: accumulatePricingDimension_def)
qed

lemma computeCumulatedAmount_eq:
  "computeCumulatedAmount m =
     (billed pdd_amount FLAT_FEE m + billed pdd_amount ENERGY m
        + billed pdd_amount DimensionType.CHARGING_TIME m + billed pdd_amount PARKING_TIME m,
      billed pdd_roundedAmount FLAT_FEE m + billed pdd_roundedAmount ENERGY m
        + billed pdd_roundedAmount DimensionType.CHARGING_TIME m + billed pdd_roundedAmount PARKING_TIME m)"
  by (simp add: computeCumulatedAmount_def accumulatePricingDimensions_def Let_def accumulatePricingDimension_eq
      billed_def o_def)

lemma stored_amount_decimal:
  "sound_definition d \<Longrightarrow> stored_measure pdd_amount (dim_of t (def_dimensions d)) = stored_measure pd_decimal (dim_of t (def_dimensions d))"
  by (auto simp: sound_definition_def stored_measure_def sound_dim_def sound_pd_def coherent_def pd_decimal_def
      split: option.splits bind_splits dest!: spec[of _ t])

lemma billed_amount_decimal: "sound_model m \<Longrightarrow> billed pdd_amount t m = billed pd_decimal t m"
  unfolding billed_def sound_model_def
  by (intro arg_cong[of _ _ sum_list] map_cong refl) (auto simp: list_all_iff stored_amount_decimal)

lemma amount_of_decimal: "sound_data p \<Longrightarrow> amount_of (pcd_of t p) = reported pd_decimal (pcd_of t p)"
  by (auto simp: amount_of_def sound_data_def sound_pd_def coherent_def pd_decimal_def
      split: option.splits dest!: spec[of _ t])

lemma cumulated_after:
  assumes "priceConsumption tz m c = Inr (m', p)" and "sound_model m"
  shows "fst (computeCumulatedAmount m') = fst (computeCumulatedAmount m)
     + (amount_of (pcd_flatFee p) + amount_of (pcd_energy p) + amount_of (pcd_chargingTime p) + amount_of (pcd_parkingTime p))"
proof -
  from sound_consumption[OF assms] have s: "sound_model m'" "sound_data p" by simp_all
  have b: "billed pdd_amount t m' = billed pdd_amount t m + amount_of (pcd_of t p)" for t
  proof -
    from assms(1) obtain chs where "priceChunks tz chs m no_priced_data = Inr (m', p)"
      by (auto simp: priceConsumption_def elim: bindE_InrE)
    from acc_decimal.priceChunks_effect[OF this, of t] show ?thesis
      by (simp add: billed_amount_decimal assms(2) s amount_of_decimal)
  qed
  from b[of FLAT_FEE] b[of ENERGY] b[of "DimensionType.CHARGING_TIME"] b[of PARKING_TIME] show ?thesis
    by (simp add: computeCumulatedAmount_eq)
qed

section \<open>The fallback tariff\<close>

text \<open>A model whose last tariff has no restriction always has a tariff in force.\<close>

definition has_fallback :: "pricing_model \<Rightarrow> bool" where
  "has_fallback m = (pm_pricingDefinitions m \<noteq> [] \<and> def_restrictions (last (pm_pricingDefinitions m)) = None)"

lemma fallback_active:
  "has_fallback m \<Longrightarrow> actualPricingDefinition tz m ch \<noteq> None"
  unfolding has_fallback_def actualPricingDefinition_def first_index_None
  by (auto simp: checkPricingDefinitionRestrictions_def split: option.splits intro!: bexI[of _ "last (pm_pricingDefinitions m)"])

lemma restrictions_put_dim:
  "map def_restrictions (pm_pricingDefinitions (put_dim i t dm m)) = map def_restrictions (pm_pricingDefinitions m)"
proof (cases "i < length (pm_pricingDefinitions m)")
  case True
  then show ?thesis
    by (simp add: put_dim_def Let_def map_update list_update_same_conv)
qed (simp add: put_dim_def Let_def list_update_beyond)

lemma restrictions_step:
  "step_shape t active m m' res \<Longrightarrow>
     map def_restrictions (pm_pricingDefinitions m') = map def_restrictions (pm_pricingDefinitions m)"
  unfolding step_shape_def by (elim disjE exE conjE) (simp_all add: store_dim_def restrictions_put_dim)

lemma has_fallback_cong:
  assumes "map def_restrictions (pm_pricingDefinitions m') = map def_restrictions (pm_pricingDefinitions m)"
  shows "has_fallback m' = has_fallback m"
proof -
  have "(pm_pricingDefinitions m' = []) = (pm_pricingDefinitions m = [])"
    using assms by (metis map_is_Nil_conv)
  moreover have "def_restrictions (last (pm_pricingDefinitions m')) = def_restrictions (last (pm_pricingDefinitions m))"
    if "pm_pricingDefinitions m \<noteq> []"
    using assms that calculation by (metis last_map)
  ultimately show ?thesis by (auto simp: has_fallback_def)
qed

lemma getActive_total: "active \<noteq> None \<Longrightarrow> \<exists>r. getActiveDefinition4Dimension m active t = Inr r"
  by (cases active) (auto simp: getActiveDefinition4Dimension_def Let_def split: option.splits)

lemma steps_total:
  assumes "active \<noteq> None"
  shows "\<exists>r. priceFlatFeeConsumption ch active m = Inr r" and "\<exists>r. priceEnergyConsumption ch active m = Inr r"
    and "\<exists>r. priceChargingTimeConsumption ch active m = Inr r" and "\<exists>r. priceParkingTimeConsumption ch active m = Inr r"
proof -
  obtain r1 r2 r3 r4 where "getActiveDefinition4Dimension m active FLAT_FEE = Inr r1"
    "getActiveDefinition4Dimension m active ENERGY = Inr r2"
    "getActiveDefinition4Dimension m active DimensionType.CHARGING_TIME = Inr r3"
    "getActiveDefinition4Dimension m active PARKING_TIME = Inr r4"
    using getActive_total[OF assms] by metis
  then show "\<exists>r. priceFlatFeeConsumption ch active m = Inr r" "\<exists>r. priceEnergyConsumption ch active m = Inr r"
    "\<exists>r. priceChargingTimeConsumption ch active m = Inr r" "\<exists>r. priceParkingTimeConsumption ch active m = Inr r"
    by (auto simp: priceFlatFeeConsumption_def priceEnergyConsumption_def priceChargingTimeConsumption_def
        priceParkingTimeConsumption_def Let_def split_def split: option.splits)
qed

lemma chunk_total:
  assumes "has_fallback m"
  shows "\<exists>m' p. priceConsumptionChunk tz ch m = Inr (m', p) \<and> has_fallback m'"
proof -
  let ?a = "actualPricingDefinition tz m ch"
  have a: "?a \<noteq> None" by (rule fallback_active[OF assms])
  obtain m1 p1 where 1: "priceFlatFeeConsumption ch ?a m = Inr (m1, p1)" using steps_total(1)[OF a] by force
  obtain m2 p2 where 2: "priceEnergyConsumption ch ?a m1 = Inr (m2, p2)" using steps_total(2)[OF a] by force
  obtain m3 p3 where 3: "priceChargingTimeConsumption ch ?a m2 = Inr (m3, p3)" using steps_total(3)[OF a] by force
  obtain m4 p4 where 4: "priceParkingTimeConsumption ch ?a m3 = Inr (m4, p4)" using steps_total(4)[OF a] by force
  have "has_fallback m4"
    using assms has_fallback_cong[OF restrictions_step[OF flat_fee_shape[OF 1]]]
      has_fallback_cong[OF restrictions_step[OF energy_shape[OF 2]]]
      has_fallback_cong[OF restrictions_step[OF charging_time_shape[OF 3]]]
      has_fallback_cong[OF restrictions_step[OF parking_time_shape[OF 4]]] by simp
  then show ?thesis by (simp add: priceConsumptionChunk_def Let_def 1 2 3 4)
qed

lemma chunks_total:
  "has_fallback m \<Longrightarrow> \<exists>m' p. priceChunks tz chs m acc = Inr (m', p) \<and> has_fallback m'"
proof (induction chs arbitrary: m acc)
  case (Cons ch chs)
  obtain m1 p1 where 1: "priceConsumptionChunk tz ch m = Inr (m1, p1)" "has_fallback m1"
    using chunk_total[OF Cons.prems] by blast
  from Cons.IH[OF 1(2)] 1(1) show ?case by simp
qed simp

text \<open>A consumption that can be cut into chunks: a long one must say what energy it carries.\<close>

definition priceable :: "consumption \<Rightarrow> bool" where
  "priceable c = (durationSecs c \<le> 60 \<or> cn_consumptionWh c \<noteq> None)"

lemma consumption_total:
  assumes "has_fallback m" and "priceable c"
  shows "\<exists>m' p. priceConsumption tz m c = Inr (m', p) \<and> has_fallback m'"
proof -
  obtain chs where "generateChunk c = Inr chs"
    using assms(2) by (cases "durationSecs c \<le> 60") (auto simp: priceable_def generateChunk_def Let_def)
  with chunks_total[OF assms(1)] show ?thesis by (simp add: priceConsumption_def)
qed

section \<open>Sessions\<close>

text \<open>
  The prices of a session: every consumption on the model that the first one resolved, which the
  start of the transaction stores in it.
\<close>

fun price_session ::
  "'a pricing_env_scheme \<Rightarrow> string \<Rightarrow> charging_station \<Rightarrow> transaction \<Rightarrow> consumption list \<Rightarrow>
   (transaction \<times> priced_consumption list) res" where
  "price_session env currency cs t [] = Inr (t, [])"
| "price_session env currency cs t (c # cns) =
     bindE (computePrice env currency t c cs) (\<lambda>(m, pc).
     bindE (price_session env currency cs (t\<lparr>tx_pricingModel := Some m\<rparr>) cns) (\<lambda>(t', pcs). Inr (t', pc # pcs)))"

lemma computePrice_some:
  assumes "tx_pricingModel t = Some m"
  shows "computePrice env currency t c cs =
    bindE (priceConsumption (pe_tz env) m c) (\<lambda>(m', p). Inr (m', \<lparr> pc_pricingSource = SIMPLE,
          pc_amount = amount_of (pcd_flatFee p) + amount_of (pcd_energy p)
                    + amount_of (pcd_chargingTime p) + amount_of (pcd_parkingTime p),
          pc_roundedAmount = rounded_of (pcd_flatFee p) + rounded_of (pcd_energy p)
                    + rounded_of (pcd_chargingTime p) + rounded_of (pcd_parkingTime p),
          pc_currencyCode = currency,
          pc_cumulatedAmount = fst (computeCumulatedAmount m'),
          pc_cumulatedRoundedAmount = snd (computeCumulatedAmount m') \<rparr>))"
  by (simp add: computePrice_def assms Let_def)

lemma computePrice_none:
  "tx_pricingModel t = None \<Longrightarrow>
     computePrice env currency t c cs = computePrice env currency (t\<lparr>tx_pricingModel := Some (resolveSessionModel env t cs)\<rparr>) c cs"
  by (simp add: computePrice_def)

lemma computePrice_Inr:
  assumes "computePrice env currency t c cs = Inr (m', pc)" and "tx_pricingModel t = Some m"
  obtains p where "priceConsumption (pe_tz env) m c = Inr (m', p)"
    "pc_amount pc = amount_of (pcd_flatFee p) + amount_of (pcd_energy p)
       + amount_of (pcd_chargingTime p) + amount_of (pcd_parkingTime p)"
    "pc_cumulatedAmount pc = fst (computeCumulatedAmount m')"
    "pc_cumulatedRoundedAmount pc = snd (computeCumulatedAmount m')"
  using assms(1) that by (auto simp: computePrice_some[OF assms(2)] elim!: bindE_InrE)

lemma session_telescopes:
  "price_session env currency cs t cns = Inr (t', pcs) \<Longrightarrow> tx_pricingModel t = Some m \<Longrightarrow> sound_model m \<Longrightarrow>
   \<exists>m'. tx_pricingModel t' = Some m' \<and> sound_model m' \<and>
     fst (computeCumulatedAmount m') = fst (computeCumulatedAmount m) + sum_list (map pc_amount pcs) \<and>
     (cns \<noteq> [] \<longrightarrow> pc_cumulatedAmount (last pcs) = fst (computeCumulatedAmount m')
        \<and> pc_cumulatedRoundedAmount (last pcs) = snd (computeCumulatedAmount m'))"
proof (induction cns arbitrary: t m pcs)
  case (Cons c cns)
  from Cons.prems(1) obtain m1 pc ps where c: "computePrice env currency t c cs = Inr (m1, pc)"
    and r: "price_session env currency cs (t\<lparr>tx_pricingModel := Some m1\<rparr>) cns = Inr (t', ps)"
    and pcs: "pcs = pc # ps"
    by (auto elim!: bindE_InrE)
  from computePrice_Inr[OF c Cons.prems(2)] obtain p where p: "priceConsumption (pe_tz env) m c = Inr (m1, p)"
    and a: "pc_amount pc = amount_of (pcd_flatFee p) + amount_of (pcd_energy p)
       + amount_of (pcd_chargingTime p) + amount_of (pcd_parkingTime p)"
    and q: "pc_cumulatedAmount pc = fst (computeCumulatedAmount m1)"
       "pc_cumulatedRoundedAmount pc = snd (computeCumulatedAmount m1)" .
  have s: "sound_model m1" using sound_consumption[OF p Cons.prems(3)] by simp
  from Cons.IH[OF r _ s] obtain m' where
    ih: "tx_pricingModel t' = Some m'" "sound_model m'"
      "fst (computeCumulatedAmount m') = fst (computeCumulatedAmount m1) + sum_list (map pc_amount ps)"
      "cns \<noteq> [] \<longrightarrow> pc_cumulatedAmount (last ps) = fst (computeCumulatedAmount m')
        \<and> pc_cumulatedRoundedAmount (last ps) = snd (computeCumulatedAmount m')"
    by auto
  have nil: "cns = [] \<Longrightarrow> ps = [] \<and> m' = m1" using r ih(1) by auto
  have ne: "cns \<noteq> [] \<Longrightarrow> ps \<noteq> []" using r by (cases cns) (auto elim!: bindE_InrE)
  show ?case
    using ih cumulated_after[OF p Cons.prems(3)] a q nil ne
    by (cases "cns = []") (auto simp: pcs)
qed auto

lemma session_flat_fee:
  "price_session env currency cs t cns = Inr (t', pcs) \<Longrightarrow> tx_pricingModel t = Some m \<Longrightarrow>
   \<exists>m'. tx_pricingModel t' = Some m' \<and>
     (billed pdd_quantity FLAT_FEE m' = billed pdd_quantity FLAT_FEE m
       \<or> billed pdd_quantity FLAT_FEE m' = billed pdd_quantity FLAT_FEE m + 1 \<and> \<not> flat_flag m \<and> flat_flag m')
     \<and> (flat_flag m \<longrightarrow> flat_flag m' \<and> billed pdd_quantity FLAT_FEE m' = billed pdd_quantity FLAT_FEE m)"
proof (induction cns arbitrary: t m pcs)
  case (Cons c cns)
  from Cons.prems(1) obtain m1 pc ps where c: "computePrice env currency t c cs = Inr (m1, pc)"
    and r: "price_session env currency cs (t\<lparr>tx_pricingModel := Some m1\<rparr>) cns = Inr (t', ps)"
    by (auto elim!: bindE_InrE)
  from computePrice_Inr[OF c Cons.prems(2)] obtain p where p: "priceConsumption (pe_tz env) m c = Inr (m1, p)" .
  obtain m' where "tx_pricingModel t' = Some m'" and
    "billed pdd_quantity FLAT_FEE m' = billed pdd_quantity FLAT_FEE m1
       \<or> billed pdd_quantity FLAT_FEE m' = billed pdd_quantity FLAT_FEE m1 + 1 \<and> \<not> flat_flag m1 \<and> flat_flag m'"
    "flat_flag m1 \<longrightarrow> flat_flag m' \<and> billed pdd_quantity FLAT_FEE m' = billed pdd_quantity FLAT_FEE m1"
    using Cons.IH[OF r, of m1] by auto
  with consumption_flat_fee[OF p] show ?case by auto
qed auto

section \<open>Resolved models\<close>

definition fresh_definition :: "pricing_definition \<Rightarrow> bool" where
  "fresh_definition d = (sound_definition d
     \<and> (\<forall>t. case dim_of t (def_dimensions d) of None \<Rightarrow> True | Some dm \<Rightarrow> dim_pricedData dm = None))"

definition fresh_tariffs :: "'a pricing_env_scheme \<Rightarrow> bool" where
  "fresh_tariffs env = (\<forall>e i. list_all fresh_definition (pe_definitions env e i))"

lemma fresh_shrink [simp]: "fresh_definition (shrinkPricingDefinition d) = fresh_definition d"
  by (simp add: fresh_definition_def sound_definition_def shrinkPricingDefinition_def)

lemma definitions_sound:
  "d \<in> set (getPricingDefinitions4Entity env t cs e i) \<Longrightarrow> \<exists>d0 \<in> set (pe_definitions env e (or_else i [])).
    d = shrinkPricingDefinition d0 \<and> def_entityType d0 = Some e \<and> checkStaticRestrictions t cs d0"
  by (auto simp: getPricingDefinitions4Entity_def checkEntityType_def split: if_splits)

lemma resolved_fallback: "has_fallback (resolveSessionModel env t cs)"
  by (simp add: has_fallback_def getDefaultPricingDefinition_def resolveSessionModel_def Let_def)

lemma default_fresh [simp]: "fresh_definition getDefaultPricingDefinition"
  unfolding fresh_definition_def sound_definition_def
  by (intro conjI allI; case_tac t) (simp_all add: getDefaultPricingDefinition_def sound_dim_def)

lemma resolved_fresh:
  assumes "fresh_tariffs env"
  shows "list_all fresh_definition (pm_pricingDefinitions (resolveSessionModel env t cs))"
    and "\<not> flat_flag (resolveSessionModel env t cs)"
proof -
  have f: "fresh_definition d" if "d \<in> set (getPricingDefinitions4Entity env t cs e i)" for d e i
    using definitions_sound[OF that] assms by (fastforce simp: fresh_tariffs_def list_all_iff)
  show "list_all fresh_definition (pm_pricingDefinitions (resolveSessionModel env t cs))"
    by (auto simp: resolveSessionModel_def resolvePricingContext_def Let_def list_all_iff dest: f)
  show "\<not> flat_flag (resolveSessionModel env t cs)"
    by (simp add: resolveSessionModel_def resolvePricingContext_def Let_def flat_flag_def initial_context_def)
qed

lemma fresh_billed: "list_all fresh_definition (pm_pricingDefinitions m) \<Longrightarrow> billed f t m = 0"
  unfolding billed_def
  by (rule sum_list_0[THEN trans[rotated], OF arg_cong[of _ _ sum_list]], rule map_cong[OF refl])
    (auto simp: list_all_iff fresh_definition_def stored_measure_def split: option.splits bind_splits dest!: spec[of _ t])

lemma fresh_sound: "list_all fresh_definition (pm_pricingDefinitions m) \<Longrightarrow> sound_model m"
  by (auto simp: sound_model_def fresh_definition_def list_all_iff)

lemma session_total:
  "tx_pricingModel t = Some m \<Longrightarrow> has_fallback m \<Longrightarrow> list_all priceable cns \<Longrightarrow>
   \<exists>r. price_session env currency cs t cns = Inr r"
proof (induction cns arbitrary: t m)
  case (Cons c cns)
  from consumption_total[OF Cons.prems(2), of c "pe_tz env"] Cons.prems(3) obtain m1 p where
    "priceConsumption (pe_tz env) m c = Inr (m1, p)" "has_fallback m1" by auto
  with Cons.IH[of "t\<lparr>tx_pricingModel := Some m1\<rparr>" m1] Cons.prems show ?case
    by (auto simp: computePrice_some)
qed simp

lemma price_session_start:
  "tx_pricingModel t = None \<Longrightarrow>
   price_session env currency cs t (c # cns) =
     price_session env currency cs (t\<lparr>tx_pricingModel := Some (resolveSessionModel env t cs)\<rparr>) (c # cns)"
  by (simp add: computePrice_none)

section \<open>Rounding\<close>

definition priced_dimensions :: "pricing_model \<Rightarrow> rat" where
  "priced_dimensions m = billed (\<lambda>_. 1) FLAT_FEE m + billed (\<lambda>_. 1) ENERGY m
     + billed (\<lambda>_. 1) DimensionType.CHARGING_TIME m + billed (\<lambda>_. 1) PARKING_TIME m"

lemma stored_rounding:
  assumes "sound_definition d"
  shows "stored_measure pdd_roundedAmount (dim_of t (def_dimensions d)) \<le> stored_measure pdd_amount (dim_of t (def_dimensions d))"
    and "stored_measure pdd_amount (dim_of t (def_dimensions d))
      \<le> stored_measure pdd_roundedAmount (dim_of t (def_dimensions d)) + 1 / 100 * stored_measure (\<lambda>_. 1) (dim_of t (def_dimensions d))"
proof -
  have r: "truncTo a 2 \<le> a" "a \<le> truncTo a 2 + 1 / 100" if "0 \<le> a" for a
    using truncTo_le[OF that, of 2] truncTo_gt[OF that, of 2] by simp_all
  from assms show "stored_measure pdd_roundedAmount (dim_of t (def_dimensions d)) \<le> stored_measure pdd_amount (dim_of t (def_dimensions d))"
    "stored_measure pdd_amount (dim_of t (def_dimensions d))
      \<le> stored_measure pdd_roundedAmount (dim_of t (def_dimensions d)) + 1 / 100 * stored_measure (\<lambda>_. 1) (dim_of t (def_dimensions d))"
    by (auto simp: sound_definition_def stored_measure_def sound_dim_def sound_pd_def coherent_def r
        split: option.splits bind_splits dest!: spec[of _ t])
qed

lemma billed_rounding:
  assumes "sound_model m"
  shows "billed pdd_roundedAmount t m \<le> billed pdd_amount t m"
    and "billed pdd_amount t m \<le> billed pdd_roundedAmount t m + 1 / 100 * billed (\<lambda>_. 1) t m"
proof -
  have "list_all sound_definition ds \<Longrightarrow>
      sum_list (map (\<lambda>d. stored_measure pdd_roundedAmount (dim_of t (def_dimensions d))) ds)
        \<le> sum_list (map (\<lambda>d. stored_measure pdd_amount (dim_of t (def_dimensions d))) ds)
      \<and> sum_list (map (\<lambda>d. stored_measure pdd_amount (dim_of t (def_dimensions d))) ds)
        \<le> sum_list (map (\<lambda>d. stored_measure pdd_roundedAmount (dim_of t (def_dimensions d))) ds)
          + 1 / 100 * sum_list (map (\<lambda>d. stored_measure (\<lambda>_. 1) (dim_of t (def_dimensions d))) ds)" for ds
  proof (induction ds)
    case (Cons d ds)
    with stored_rounding[of d t] show ?case by (auto simp: algebra_simps add_divide_distrib)
  qed simp
  with assms show "billed pdd_roundedAmount t m \<le> billed pdd_amount t m"
    "billed pdd_amount t m \<le> billed pdd_roundedAmount t m + 1 / 100 * billed (\<lambda>_. 1) t m"
    by (auto simp: billed_def sound_model_def)
qed

lemma cumulated_rounding:
  assumes "sound_model m"
  shows "snd (computeCumulatedAmount m) \<le> fst (computeCumulatedAmount m)"
    and "fst (computeCumulatedAmount m) \<le> snd (computeCumulatedAmount m) + priced_dimensions m / 100"
  using billed_rounding[OF assms, of FLAT_FEE] billed_rounding[OF assms, of ENERGY]
    billed_rounding[OF assms, of "DimensionType.CHARGING_TIME"] billed_rounding[OF assms, of PARKING_TIME]
  by (simp_all add: computeCumulatedAmount_eq priced_dimensions_def add_divide_distrib)

section \<open>The invoice\<close>

definition total_amount :: "priced_consumption_data \<Rightarrow> rat" where
  "total_amount p = amount_of (pcd_flatFee p) + amount_of (pcd_energy p)
     + amount_of (pcd_chargingTime p) + amount_of (pcd_parkingTime p)"

lemma extract_total:
  "(case extractFinalPricedConsumptionData d of None \<Rightarrow> 0 | Some p \<Rightarrow> total_amount p) =
     stored_measure pdd_amount (dim_of FLAT_FEE (def_dimensions d)) + stored_measure pdd_amount (dim_of ENERGY (def_dimensions d))
     + stored_measure pdd_amount (dim_of DimensionType.CHARGING_TIME (def_dimensions d))
     + stored_measure pdd_amount (dim_of PARKING_TIME (def_dimensions d))"
  by (auto simp: extractFinalPricedConsumptionData_def Let_def total_amount_def stored_measure_def amount_of_def
      split: option.splits)

lemma sum_map_filter:
  "sum_list (map g (List.map_filter f xs)) = sum_list (map (\<lambda>x. case f x of None \<Rightarrow> 0 | Some y \<Rightarrow> g y) xs)"
  for g :: "'b \<Rightarrow> rat"
  by (induction xs) (simp_all add: map_filter_simps split: option.splits)

section \<open>Properties\<close>

text \<open>Pricing a session never fails: whatever the stored tariffs and their restrictions, every
  consumption that says what energy it carries is priced, because the free default tariff is behind
  the others.\<close>

theorem session_pricing_never_fails:
  assumes "tx_pricingModel t = None" and "list_all priceable cns"
  shows "\<exists>r. price_session env currency cs t cns = Inr r"
proof (cases cns)
  case (Cons c cs')
  with session_total[of "t\<lparr>tx_pricingModel := Some (resolveSessionModel env t cs)\<rparr>" _ cns env currency cs,
      OF _ resolved_fallback[of env t cs] assms(2)]
  show ?thesis by (simp add: price_session_start[OF assms(1)] del: price_session.simps)
qed simp

text \<open>C1: the cumulated price a session ends with is the sum of the prices of its consumptions, and
  the rounded one stays at most one cent per priced dimension below it.\<close>

theorem session_price_is_sum:
  assumes "fresh_tariffs env" and "tx_pricingModel t = None"
    and "price_session env currency cs t (c # cns) = Inr (t', pcs)"
  shows "pc_cumulatedAmount (last pcs) = sum_list (map pc_amount pcs)
    \<and> (\<exists>m. tx_pricingModel t' = Some m
         \<and> pc_cumulatedRoundedAmount (last pcs) \<le> pc_cumulatedAmount (last pcs)
         \<and> pc_cumulatedAmount (last pcs) \<le> pc_cumulatedRoundedAmount (last pcs) + priced_dimensions m / 100)"
proof -
  let ?m = "resolveSessionModel env t cs"
  note fresh = resolved_fresh(1)[OF assms(1), of t cs]
  from session_telescopes[OF assms(3)[unfolded price_session_start[OF assms(2)]], of ?m] fresh_sound[OF fresh]
  obtain m' where "tx_pricingModel t' = Some m'" "sound_model m'"
    "fst (computeCumulatedAmount m') = fst (computeCumulatedAmount ?m) + sum_list (map pc_amount pcs)"
    "pc_cumulatedAmount (last pcs) = fst (computeCumulatedAmount m')"
    "pc_cumulatedRoundedAmount (last pcs) = snd (computeCumulatedAmount m')" by auto
  with cumulated_rounding[of m'] show ?thesis
    by (simp add: computeCumulatedAmount_eq[of ?m] fresh_billed[OF fresh])
qed

text \<open>C29: a session is charged its flat fee at most once, however many consumptions and tariffs it
  goes through.\<close>

theorem session_flat_fee_once:
  assumes "fresh_tariffs env" and "tx_pricingModel t = None"
    and "price_session env currency cs t (c # cns) = Inr (t', pcs)"
  shows "\<exists>m. tx_pricingModel t' = Some m \<and> billed pdd_quantity FLAT_FEE m \<in> {0, 1}"
  using session_flat_fee[OF assms(3)[unfolded price_session_start[OF assms(2)]], of "resolveSessionModel env t cs"]
    fresh_billed[OF resolved_fresh(1)[OF assms(1), of t cs]] by auto

text \<open>The tariffs of the charging station come before those of its site and of the tenant. When
  one of them is attached to the station, meets its static restrictions and passes its dynamic ones,
  the tariff in force is one of the station's.\<close>

theorem station_tariff_precedence:
  assumes "ds = getPricingDefinitions4Entity env t cs PricingEntity.CHARGING_STATION (Some (tx_chargeBoxID t))"
    and "d \<in> set ds" and "checkPricingDefinitionRestrictions tz (tx_timezone t) ch d"
  shows "\<exists>i < length ds. actualPricingDefinition tz (resolveSessionModel env t cs) ch = Some i
    \<and> pm_pricingDefinitions (resolveSessionModel env t cs) ! i = ds ! i
    \<and> def_entityType (ds ! i) = Some PricingEntity.CHARGING_STATION
    \<and> checkPricingDefinitionRestrictions tz (tx_timezone t) ch (ds ! i)"
proof -
  obtain rest where m: "resolveSessionModel env t cs =
      \<lparr> pm_pricingDefinitions = ds @ rest, pm_pricerContext = initial_context t \<rparr>"
    by (simp add: resolveSessionModel_def resolvePricingContext_def Let_def assms(1))
  let ?P = "checkPricingDefinitionRestrictions tz (tx_timezone t) ch"
  have fi: "first_index ?P (ds @ rest) = first_index ?P ds" if "first_index ?P ds \<noteq> None"
    using that by (induction ds) auto
  from assms(2,3) obtain i where i: "first_index ?P ds = Some i"
    using first_index_None[of ?P ds] by (cases "first_index ?P ds") auto
  from first_index_Some[OF i] have "i < length ds" "?P (ds ! i)" by auto
  moreover have "def_entityType (ds ! i) = Some PricingEntity.CHARGING_STATION"
    using definitions_sound[of "ds ! i"] \<open>i < length ds\<close> unfolding assms(1)
    by (fastforce simp: shrinkPricingDefinition_def dest: nth_mem)
  ultimately show ?thesis
    using fi i by (simp add: m actualPricingDefinition_def initial_context_def nth_append)
qed

text \<open>The priced data handed to billing at the end of a session adds up to the cumulated amount
  of the session: no priced dimension is left out of the invoice.\<close>

theorem invoice_is_cumulated_amount:
  "sum_list (map total_amount (extractFinalPricingData (Some m))) = fst (computeCumulatedAmount m)"
  by (simp add: extractFinalPricingData_def sum_map_filter extract_total computeCumulatedAmount_eq billed_def sum_list_addf)

section \<open>Witnesses\<close>

definition sample_transaction :: transaction where
  "sample_transaction = \<lparr> tx_id = 7, tx_chargeBoxID = ''CS-1'', tx_connectorId = 1, tx_companyID = None,
     tx_siteID = None, tx_siteAreaID = None, tx_issuer = True, tx_tagID = Some ''TAG'', tx_userID = None, tx_user = None,
     tx_authorizationID = None, tx_signedData = [], tx_meterStart = 0, tx_timestamp = 0,
     tx_timezone = Some ''Europe/Paris'', tx_price = None, tx_roundedPrice = None, tx_priceUnit = None,
     tx_pricingSource = None, tx_pricingModel = None, tx_stateOfCharge = 0, tx_phasesUsed = None,
     tx_run = blank_runtime\<lparr>rt_lastConsumption := Some \<lparr> lc_value = 0, lc_timestamp = 0 \<rparr>\<rparr>,
     tx_remotestop = None, tx_stop = None, tx_billingData = None \<rparr>"

definition station_tariff :: pricing_definition where
  "station_tariff = (tariff_of ''T'' None \<lparr> dims_flatFee = Some (dimension_of 1 None),
     dims_energy = Some (dimension_of (1/2) (Some 100)), dims_chargingTime = None, dims_parkingTime = None \<rparr>)
     \<lparr>def_entityType := Some PricingEntity.CHARGING_STATION\<rparr>"

definition sample_env :: pricing_env where
  "sample_env = \<lparr> pe_tz = utc, pe_currency = Some ''EUR'', pe_tenantID = ''T1'',
     pe_definitions = (\<lambda>e i. if e = PricingEntity.CHARGING_STATION \<and> i = ''CS-1'' then [station_tariff] else []) \<rparr>"

lemma sample_tariff_fresh: "fresh_tariffs sample_env"
  unfolding fresh_tariffs_def fresh_definition_def sound_definition_def
  by (intro allI; simp add: sample_env_def, intro impI conjI allI; case_tac t)
    (simp_all add: station_tariff_def tariff_of_def dimension_of_def sound_dim_def)

lemmas resolve_eval =
  resolveSessionModel_def resolvePricingContext_def getPricingDefinitions4Entity_def checkEntityType_def
  checkStaticRestrictions_def shrinkPricingDefinition_def getDefaultPricingDefinition_def initial_context_def

theorem session_pricing_never_fails_witness:
  "\<exists>r. price_session sample_env ''EUR'' sample_station sample_transaction [short_consumption, sample_consumption] = Inr r"
  by (rule session_pricing_never_fails)
    (simp_all add: sample_transaction_def priceable_def short_consumption_def sample_consumption_def durationSecs_def
      diff_seconds_def tdiv_def)

lemma sample_resolved:
  "resolveSessionModel sample_env sample_transaction sample_station =
     \<lparr> pm_pricingDefinitions = [station_tariff, getDefaultPricingDefinition],
       pm_pricerContext = initial_context sample_transaction \<rparr>"
  by (simp add: resolve_eval sample_env_def sample_transaction_def station_tariff_def tariff_of_def Let_def)

lemma sample_priced:
  "case priceConsumption utc \<lparr> pm_pricingDefinitions = [station_tariff, getDefaultPricingDefinition],
      pm_pricerContext = initial_context sample_transaction \<rparr> short_consumption of
     Inl _ \<Rightarrow> False | Inr (m, p) \<Rightarrow> fst (computeCumulatedAmount m) = 27 / 20"
  by (simp add: sample_transaction_def consumption_eval pricer_eval check_eval sample_eval short_consumption_def
      station_tariff_def initial_context_def getDefaultPricingDefinition_def Let_def)
    (simp add: computeCumulatedAmount_def accumulatePricingDimensions_def accumulatePricingDimension_def)

lemma sample_session:
  "\<exists>t pcs. price_session sample_env ''EUR'' sample_station sample_transaction [short_consumption] = Inr (t, pcs)
     \<and> pc_cumulatedAmount (last pcs) = 27 / 20"
proof -
  from sample_priced obtain m p where
    r: "priceConsumption utc \<lparr> pm_pricingDefinitions = [station_tariff, getDefaultPricingDefinition],
      pm_pricerContext = initial_context sample_transaction \<rparr> short_consumption = Inr (m, p)"
      "fst (computeCumulatedAmount m) = 27 / 20"
    by (auto split: sum.splits)
  have "tx_pricingModel sample_transaction = None" "pe_tz sample_env = utc"
    by (simp_all add: sample_transaction_def sample_env_def)
  with r show ?thesis by (simp add: computePrice_def sample_resolved Let_def)
qed

theorem session_price_is_sum_witness:
  "\<exists>t pcs. price_session sample_env ''EUR'' sample_station sample_transaction [short_consumption] = Inr (t, pcs)
     \<and> sum_list (map pc_amount pcs) = 27 / 20"
proof -
  from sample_session obtain t pcs where
    r: "price_session sample_env ''EUR'' sample_station sample_transaction [short_consumption] = Inr (t, pcs)"
    and c: "pc_cumulatedAmount (last pcs) = 27 / 20" by blast
  have "tx_pricingModel sample_transaction = None" by (simp add: sample_transaction_def)
  from session_price_is_sum[OF sample_tariff_fresh this r] r c show ?thesis by auto
qed

theorem session_flat_fee_once_witness:
  "\<exists>t pcs m. price_session sample_env ''EUR'' sample_station sample_transaction [short_consumption] = Inr (t, pcs)
     \<and> tx_pricingModel t = Some m \<and> billed pdd_quantity FLAT_FEE m \<in> {0, 1}"
proof -
  from sample_session obtain t pcs where
    r: "price_session sample_env ''EUR'' sample_station sample_transaction [short_consumption] = Inr (t, pcs)"
    by blast
  have "tx_pricingModel sample_transaction = None" by (simp add: sample_transaction_def)
  from session_flat_fee_once[OF sample_tariff_fresh this r] r show ?thesis by auto
qed

definition sample_chunk :: consumption_chunk where
  "sample_chunk = \<lparr> ch_startedAt = 0, ch_endedAt = 60000, ch_consumptionWh = Some 730,
     ch_cumulatedConsumptionWh = 730, ch_totalDurationSecs = Some 60, ch_totalInactivitySecs = Some 0 \<rparr>"

theorem station_tariff_precedence_witness:
  "actualPricingDefinition utc (resolveSessionModel sample_env sample_transaction sample_station) sample_chunk = Some 0"
proof -
  have d: "[station_tariff] = getPricingDefinitions4Entity sample_env sample_transaction sample_station
      PricingEntity.CHARGING_STATION (Some (tx_chargeBoxID sample_transaction))"
    by (simp add: resolve_eval sample_env_def sample_transaction_def station_tariff_def tariff_of_def)
  have p: "checkPricingDefinitionRestrictions utc (tx_timezone sample_transaction) sample_chunk station_tariff"
    by (simp add: checkPricingDefinitionRestrictions_def station_tariff_def tariff_of_def)
  from station_tariff_precedence[OF d _ p] show ?thesis by auto
qed

end
