(* ===== verification/Charging_Limits.thy ===== *)
theory Charging_Limits
  imports Station_Utils Transaction_Types
begin

text \<open>
  The current limits of a connector (src/integration/charging-station-vendor/
  ChargingStationVendorIntegration.ts): the unit conversions between the limits of charging
  profiles, of charge points and of connectors, the limit in force at a moment, and the static power
  limitation.

  Time is in milliseconds since the epoch. The calendar date of the server is that of a zone with the
  constant offset \<open>off\<close>. What the station answers to a request is a parameter.
\<close>

datatype ChargingProfileKindType = ABSOLUTE | RECURRING | RELATIVE

datatype ChargingProfilePurposeType = CHARGE_POINT_MAX_PROFILE | TX_DEFAULT_PROFILE | TX_PROFILE

datatype RecurrencyKindType = DAILY | WEEKLY

record schedule_period =
  sp_startPeriod :: int
  sp_limit :: rat

record charging_schedule =
  sch_duration :: "int option"
  sch_startSchedule :: int
  sch_chargingRateUnit :: ChargingRateUnitType
  sch_periods :: "schedule_period list"

record charging_profile =
  prf_connectorID :: int
  prf_stackLevel :: int
  prf_purpose :: ChargingProfilePurposeType
  prf_kind :: ChargingProfileKindType
  prf_recurrencyKind :: "RecurrencyKindType option"
  prf_schedule :: charging_schedule

definition MIN_LIMIT_PER_PHASE :: rat where
  "MIN_LIMIT_PER_PHASE = 6"

section \<open>Unit conversions\<close>

definition chargePointToConnectorLimitAmps :: "charge_point option \<Rightarrow> rat \<Rightarrow> rat res" where
  "chargePointToConnectorLimitAmps cpo limitAmp =
     (case cpo of
        None \<Rightarrow> Inl TypeError
      | Some p \<Rightarrow>
          Inr (if cp_cannotChargeInParallel p \<or> cp_sharePowerToAllConnectors p then limitAmp
               else limitAmp / of_nat (length (cp_connectorIDs p))))"

definition connectorToChargePointLimitAmps :: "charge_point option \<Rightarrow> rat \<Rightarrow> rat res" where
  "connectorToChargePointLimitAmps cpo limitAmp =
     (case cpo of
        None \<Rightarrow> Inl TypeError
      | Some p \<Rightarrow>
          Inr (if cp_cannotChargeInParallel p \<or> cp_sharePowerToAllConnectors p then limitAmp
               else limitAmp * of_nat (length (cp_connectorIDs p))))"

definition convertLimitAmpPerPhase :: "charging_station \<Rightarrow> charge_point option \<Rightarrow> int \<Rightarrow> rat \<Rightarrow> rat res" where
  "convertLimitAmpPerPhase cs cpo cid limitAmpAllPhases =
     bindE (if cid = 0 then chargePointToConnectorLimitAmps cpo limitAmpAllPhases else Inr limitAmpAllPhases)
       (\<lambda>l. Inr (l / of_int (getNumberOfConnectedPhases cs cpo cid)))"

definition convertLimitAmpToAllPhases :: "charging_station \<Rightarrow> charge_point option \<Rightarrow> int \<Rightarrow> rat \<Rightarrow> rat res" where
  "convertLimitAmpToAllPhases cs cpo cid limitAmpPerPhase =
     bindE (if cid = 0 then connectorToChargePointLimitAmps cpo limitAmpPerPhase else Inr limitAmpPerPhase)
       (\<lambda>l. Inr (l * of_int (getNumberOfConnectedPhases cs cpo cid)))"

fun mapE :: "('a \<Rightarrow> 'b res) \<Rightarrow> 'a list \<Rightarrow> 'b list res" where
  "mapE f [] = Inr []"
| "mapE f (x # xs) = bindE (f x) (\<lambda>y. bindE (mapE f xs) (\<lambda>ys. Inr (y # ys)))"

text \<open>
  \<^verbatim>\<open>convertToVendorChargingProfile\<close>: the schedule as the station wants it, in amps per phase or in
  watts for all phases.
\<close>

definition to_vendor_period :: "charging_station \<Rightarrow> charge_point option \<Rightarrow> int \<Rightarrow> schedule_period \<Rightarrow> schedule_period res" where
  "to_vendor_period cs cpo cid p =
     bindE (if cs_powerLimitUnit cs = RATE_AMPERE then convertLimitAmpPerPhase cs cpo cid (sp_limit p)
            else bindE (chargePointToConnectorLimitAmps cpo (sp_limit p)) (\<lambda>l. Inr (convertAmpToWatt cs cpo cid l)))
       (\<lambda>l. Inr (p\<lparr>sp_limit := l\<rparr>))"

definition convertToVendorChargingProfile ::
  "charging_station \<Rightarrow> charge_point option \<Rightarrow> charging_profile \<Rightarrow> charging_profile res" where
  "convertToVendorChargingProfile cs cpo prf =
     (if cs_connectors cs = None then Inr prf
      else
        (let sch = prf_schedule prf;
             sch' = (if cs_powerLimitUnit cs = RATE_WATT then sch\<lparr>sch_chargingRateUnit := RATE_WATT\<rparr> else sch)
         in bindE (mapE (to_vendor_period cs cpo (prf_connectorID prf)) (sch_periods sch)) (\<lambda>ps.
              Inr (prf\<lparr>prf_schedule := sch'\<lparr>sch_periods := ps\<rparr>\<rparr>))))"

text \<open>
  \<^verbatim>\<open>convertFromVendorChargingSchedule\<close>: the schedule the station reports, back in amps for all
  phases. The display values it adds (minutes, watts) are left out.
\<close>

definition from_vendor_period ::
  "charging_station \<Rightarrow> charge_point option \<Rightarrow> int \<Rightarrow> ChargingRateUnitType \<Rightarrow> schedule_period \<Rightarrow> schedule_period res" where
  "from_vendor_period cs cpo cid unit p =
     bindE (convertLimitAmpToAllPhases cs cpo cid
              (if unit = RATE_WATT then convertWattToAmp cs cpo cid (sp_limit p) else sp_limit p))
       (\<lambda>l. Inr (p\<lparr>sp_limit := l\<rparr>))"

definition convertFromVendorChargingSchedule ::
  "charging_station \<Rightarrow> charge_point option \<Rightarrow> int \<Rightarrow> charging_schedule \<Rightarrow> charging_schedule res" where
  "convertFromVendorChargingSchedule cs cpo cid sch =
     bindE (mapE (from_vendor_period cs cpo cid (sch_chargingRateUnit sch)) (sch_periods sch)) (\<lambda>ps.
       Inr (sch\<lparr>sch_periods := ps, sch_chargingRateUnit := RATE_AMPERE\<rparr>))"

section \<open>The limit in force\<close>

text \<open>
  The search for the period of an active schedule. \<open>prev\<close> is \<^verbatim>\<open>lastButOneSchedule\<close>, undefined before
  the first period has been passed.
\<close>

fun period_limit ::
  "int \<Rightarrow> int \<Rightarrow> schedule_period list \<Rightarrow> schedule_period option \<Rightarrow> schedule_period list \<Rightarrow> rat option res" where
  "period_limit start now periods prev [] = Inr None"
| "period_limit start now periods prev (p # ps) =
     (if length periods = 1 \<and> sp_startPeriod p = 0 then Inr (Some (sp_limit p))
      else if start + sp_startPeriod p * 1000 > now then
        (case prev of None \<Rightarrow> Inl TypeError | Some q \<Rightarrow> Inr (Some (sp_limit q)))
      else if sp_startPeriod p = sp_startPeriod (last periods) then Inr (Some (sp_limit p))
      else period_limit start now periods (Some p) ps)"

definition day_ms :: int where
  "day_ms = 86400000"

text \<open>\<^verbatim>\<open>startSchedule.setFullYear(today)\<close>, then one day back when that is still to come.\<close>

definition daily_start :: "int \<Rightarrow> int \<Rightarrow> int \<Rightarrow> int" where
  "daily_start off now start =
     (let today = ((now + off) div day_ms) * day_ms + (start + off) mod day_ms - off
      in if today > now then today - day_ms else today)"

definition schedule_limit :: "int \<Rightarrow> int \<Rightarrow> charging_schedule \<Rightarrow> rat option res" where
  "schedule_limit now start sch =
     (if start + or_else (sch_duration sch) 0 * 1000 > now
      then period_limit start now (sch_periods sch) None (sch_periods sch)
      else Inr None)"

definition profile_connector_limit :: "charging_station \<Rightarrow> charge_point option \<Rightarrow> int \<Rightarrow> rat \<Rightarrow> connector_limit" where
  "profile_connector_limit cs cpo cid l =
     \<lparr> lim_amps = Some l, lim_watts = Some (convertAmpToWatt cs cpo cid l), lim_source = CHARGING_PROFILE \<rparr>"

fun getCurrentConnectorLimitFromProfiles ::
  "int \<Rightarrow> int \<Rightarrow> charging_station \<Rightarrow> charge_point option \<Rightarrow> int \<Rightarrow> charging_profile list \<Rightarrow> connector_limit option res" where
  "getCurrentConnectorLimitFromProfiles off now cs cpo cid [] = Inr None"
| "getCurrentConnectorLimitFromProfiles off now cs cpo cid (prf # prfs) =
     (let sch = prf_schedule prf;
          daily = prf_kind prf = RECURRING \<and> prf_recurrencyKind prf = Some DAILY \<and> now > sch_startSchedule sch;
          start = (if daily then daily_start off now (sch_startSchedule sch) else sch_startSchedule sch)
      in if \<not> daily \<and> start > now then Inr None
         else bindE (schedule_limit now start sch) (\<lambda>found.
           case found of
             Some l \<Rightarrow> Inr (Some (profile_connector_limit cs cpo cid l))
           | None \<Rightarrow> getCurrentConnectorLimitFromProfiles off now cs cpo cid prfs))"

definition profiles_for :: "int \<Rightarrow> ChargingProfilePurposeType \<Rightarrow> charging_profile list \<Rightarrow> charging_profile list" where
  "profiles_for cid purpose prfs = filter (\<lambda>prf. prf_connectorID prf = cid \<and> prf_purpose prf = purpose) prfs"

text \<open>The body of the \<^verbatim>\<open>try\<close>: \<open>None\<close> falls through to the default.\<close>

definition try_connector_limit ::
  "int \<Rightarrow> int \<Rightarrow> charging_profile list \<Rightarrow> charging_station \<Rightarrow> charge_point option \<Rightarrow> int \<Rightarrow> connector_limit option res" where
  "try_connector_limit off now prfs cs cpo cid =
     (if cid = 0 then Inl (BackendError ''Cannot get the current connector limit on Connector ID 0'')
      else bindE
        (if \<not> cs_supportChargingProfiles cs then Inr None
         else bindE (getCurrentConnectorLimitFromProfiles off now cs cpo cid (profiles_for cid TX_PROFILE prfs)) (\<lambda>r1.
           if r1 \<noteq> None then Inr r1
           else
             (let default0 = profiles_for 0 TX_DEFAULT_PROFILE prfs;
                  defaults = (if default0 = [] then profiles_for cid TX_DEFAULT_PROFILE prfs else default0)
              in bindE (getCurrentConnectorLimitFromProfiles off now cs cpo cid defaults) (\<lambda>r2.
                if r2 \<noteq> None then Inr r2
                else getCurrentConnectorLimitFromProfiles off now cs cpo cid
                       (profiles_for cid CHARGE_POINT_MAX_PROFILE prfs)))))
        (\<lambda>r. if r \<noteq> None then Inr r
             else if cs_supportStaticLimitation cs then
               (case getChargingStationAmperageLimit cs cpo cid of
                  None \<Rightarrow> Inr None
                | Some a \<Rightarrow>
                    if a > 0 then
                      Inr (Some \<lparr> lim_amps = Some a, lim_watts = Some (convertAmpToWatt cs cpo cid a),
                                  lim_source = STATIC_LIMITATION \<rparr>)
                    else Inr None)
             else Inr None))"

definition getCurrentConnectorLimit ::
  "int \<Rightarrow> int \<Rightarrow> charging_profile list \<Rightarrow> charging_station \<Rightarrow> charge_point option \<Rightarrow> int \<Rightarrow> connector_limit res" where
  "getCurrentConnectorLimit off now prfs cs cpo cid =
     (case getConnectorFromID cs cid of
        None \<Rightarrow> Inl TypeError
      | Some c \<Rightarrow>
          Inr (case try_connector_limit off now prfs cs cpo cid of
                 Inr (Some l) \<Rightarrow> l
               | _ \<Rightarrow> \<lparr> lim_amps = con_amperageLimit c, lim_watts = con_power c, lim_source = CONNECTOR \<rparr>))"

section \<open>The vendor of a station\<close>

text \<open>
  ChargingStationVendorFactory.ts: the lower-cased vendor name selects the integration, \<open>None\<close>
  when the \<^verbatim>\<open>switch\<close> has no case for it. The integrations of EV-BOX and Keba differ from the default one
  in the unit of the static limit.
\<close>

datatype vendor_integration = DEFAULT_VENDOR | EVBOX_VENDOR | KEBA_VENDOR

definition default_vendors :: "string list" where
  "default_vendors = [
    ''abb'', ''ark ac ev charger'', ''dbt-cev'', ''schneider electric'', ''ev meter'', ''innogy'',
    ''ingeteam'', ''ingeteam energy'', ''ies'', ''wall box chargers'', ''en+'', ''exadys'', ''ebee'',
    ''bender gmbh co. kg'', ''webasto'', ''mennekes'', ''delta electronics'', ''delta'', ''legrand'',
    ''atess'', ''sap labs france caen'', ''circontrol'', ''xcharge'', ''joinon'', ''lafon technologies'',
    ''alfen bv'', ''alpitronic gmbh'', ''cfos'', ''ecotap'', ''pt.efacec'', ''hdm'', ''hager'', ''joint'',
    ''aixcharge'', ''tritium'', ''green motion'', ''nexans'', ''com.g2mobility'', ''meaecn'', ''kostad'',
    ''kempower'', ''growatt'', ''electric loading'', ''Chargex gmbh'', ''setec-power'', ''vestel'']"

definition getChargingStationVendorImpl :: "string \<Rightarrow> vendor_integration option" where
  "getChargingStationVendorImpl vendor =
     (let name = to_lower vendor in
      if name = ''ev-box'' then Some EVBOX_VENDOR
      else if name = ''keba ag'' then Some KEBA_VENDOR
      else if name \<in> set default_vendors then Some DEFAULT_VENDOR
      else None)"

fun static_limit_unit :: "vendor_integration \<Rightarrow> rat" where
  "static_limit_unit DEFAULT_VENDOR = 1"
| "static_limit_unit EVBOX_VENDOR = 10"
| "static_limit_unit KEBA_VENDOR = 1000"

section \<open>Static power limitation\<close>

datatype OCPPConfigurationStatus = ACCEPTED | REJECTED | REBOOT_REQUIRED | NOT_SUPPORTED

definition hasStaticLimitationFullSupport :: "charging_station \<Rightarrow> charge_point option \<Rightarrow> bool" where
  "hasStaticLimitationFullSupport cs cpo =
     (cs_supportStaticLimitation cs
      \<and> (case cpo of None \<Rightarrow> False
         | Some p \<Rightarrow> \<not> cp_excludeFromPowerLimitation p \<and> truthy_str (cp_ocppParamForPowerLimitation p)))"

definition static_limit_floor :: "charging_station \<Rightarrow> charge_point \<Rightarrow> rat" where
  "static_limit_floor cs p =
     MIN_LIMIT_PER_PHASE * of_int (getNumberOfConnectedPhases cs (Some p) 0) * of_nat (length (cp_connectorIDs p))"

definition set_amperage_limit :: "rat \<Rightarrow> charging_station \<Rightarrow> charging_station" where
  "set_amperage_limit l cs =
     cs\<lparr>cs_connectors := map_option (map (\<lambda>c. c\<lparr>con_amperageLimit := Some l\<rparr>)) (cs_connectors cs)\<rparr>"

text \<open>
  \<open>request key value\<close> is the answer of the station to the change of an OCPP parameter, where an
  exception that carries a status counts as that status. \<open>mult\<close> is the unit of the vendor: 1, or
  10 for EV-BOX and 1000 for Keba.
\<close>

definition setStaticPowerLimitation ::
  "(string \<Rightarrow> rat \<Rightarrow> OCPPConfigurationStatus res) \<Rightarrow> rat \<Rightarrow> charging_station \<Rightarrow> charge_point option \<Rightarrow> rat \<Rightarrow>
   (charging_station \<times> OCPPConfigurationStatus) res" where
  "setStaticPowerLimitation request mult cs cpo maxAmps =
     (case cpo of
        None \<Rightarrow> Inl TypeError
      | Some p \<Rightarrow>
          (if cp_excludeFromPowerLimitation p then Inr (cs, NOT_SUPPORTED)
           else if \<not> truthy_str (cp_ocppParamForPowerLimitation p) then Inr (cs, NOT_SUPPORTED)
           else if \<not> hasStaticLimitationFullSupport cs cpo then
             Inl (BackendError ''Charging Station capabilities or configuration does not support power limitation'')
           else if maxAmps < static_limit_floor cs p then
             Inl (BackendError ''Cannot set the minimum power limit'')
           else if connectors_of cs = [] then Inl (BackendError ''The Charging Station has no connector'')
           else
             bindE (convertLimitAmpPerPhase cs cpo 0 (maxAmps * mult)) (\<lambda>v.
             bindE (request (or_else (cp_ocppParamForPowerLimitation p) []) v) (\<lambda>status.
               if status = ACCEPTED \<or> status = REBOOT_REQUIRED then
                 bindE (chargePointToConnectorLimitAmps cpo maxAmps) (\<lambda>l. Inr (set_amperage_limit l cs, status))
               else Inr (cs, status)))))"

definition set_connector_limit :: "int \<Rightarrow> rat \<Rightarrow> connector list \<Rightarrow> connector list" where
  "set_connector_limit cid l cons =
     (case first_index (\<lambda>c. con_connectorId c = cid) cons of
        None \<Rightarrow> cons
      | Some i \<Rightarrow> cons[i := (cons ! i)\<lparr>con_amperageLimit := Some l\<rparr>])"

fun limit_connectors ::
  "charge_point \<Rightarrow> rat \<Rightarrow> int list \<Rightarrow> charging_station \<Rightarrow> charging_station res" where
  "limit_connectors p v [] cs = Inr cs"
| "limit_connectors p v (cid # cids) cs =
     (case getConnectorFromID cs cid of
        None \<Rightarrow> limit_connectors p v cids cs
      | Some _ \<Rightarrow>
          bindE (convertLimitAmpToAllPhases cs (Some p) cid v) (\<lambda>l.
            limit_connectors p v cids
              (cs\<lparr>cs_connectors := map_option (set_connector_limit cid l) (cs_connectors cs)\<rparr>)))"

text \<open>\<open>value\<close> is the number the parameter's string parses to; \<open>divisor\<close> is the unit of the vendor.\<close>

definition checkUpdateOfOCPPParams ::
  "rat \<Rightarrow> string \<Rightarrow> rat \<Rightarrow> charging_station \<Rightarrow> charging_station res" where
  "checkUpdateOfOCPPParams divisor name value cs =
     fold (\<lambda>p r. bindE r (\<lambda>cs'.
         if cp_ocppParamForPowerLimitation p = Some name
         then limit_connectors p (value / divisor) (cp_connectorIDs p) cs' else Inr cs'))
       (charge_points_of cs) (Inr cs)"

section \<open>Lemmas on the conversions\<close>

lemma mapE_compose:
  "(\<And>x. x \<in> set xs \<Longrightarrow> bindE (f x) g = Inr x) \<Longrightarrow> bindE (mapE f xs) (mapE g) = Inr xs"
proof (induction xs)
  case (Cons x xs)
  then obtain y where "f x = Inr y" "g y = Inr x" by (fastforce elim!: bindE_InrE)
  moreover from Cons obtain ys where "mapE f xs = Inr ys" "mapE g ys = Inr xs" by (fastforce elim!: bindE_InrE)
  ultimately show ?case by simp
qed simp

lemma point_to_connector_inverse:
  assumes "cp_connectorIDs p \<noteq> []"
  shows "bindE (chargePointToConnectorLimitAmps (Some p) l) (connectorToChargePointLimitAmps (Some p)) = Inr l"
  using assms by (simp add: chargePointToConnectorLimitAmps_def connectorToChargePointLimitAmps_def)

lemma per_phase_inverse:
  assumes "cid = 0 \<Longrightarrow> cp_connectorIDs p \<noteq> []"
  shows "bindE (convertLimitAmpPerPhase cs (Some p) cid l) (convertLimitAmpToAllPhases cs (Some p) cid) = Inr l"
  using assms
  by (cases "cid = 0") (auto simp: convertLimitAmpPerPhase_def convertLimitAmpToAllPhases_def
      chargePointToConnectorLimitAmps_def connectorToChargePointLimitAmps_def getNumberOfConnectedPhases_nz)

lemma amp_watt [simp]: "convertWattToAmp cs cpo cid (convertAmpToWatt cs cpo cid a) = a"
  by (simp add: convertAmpToWatt_def convertWattToAmp_def Let_def)

lemma connectors_of_set_amperage:
  "connectors_of (set_amperage_limit l cs) = map (\<lambda>c. c\<lparr>con_amperageLimit := Some l\<rparr>) (connectors_of cs)"
  by (cases "cs_connectors cs") (simp_all add: set_amperage_limit_def connectors_of_def)

lemma point_to_connector_ge:
  assumes "chargePointToConnectorLimitAmps (Some p) a = Inr l" and "cp_connectorIDs p \<noteq> []"
    and "k * of_nat (length (cp_connectorIDs p)) \<le> a" and "0 \<le> k"
  shows "k \<le> l"
proof -
  have n: "(1::rat) \<le> of_nat (length (cp_connectorIDs p))"
    using assms(2) by (cases "cp_connectorIDs p") auto
  from mult_left_mono[OF n assms(4)] assms(3) have "k \<le> a" by linarith
  moreover from n assms(3) have "k \<le> a / of_nat (length (cp_connectorIDs p))"
    by (metis linorder_not_less mult.commute not_one_le_zero order_le_less_trans pos_le_divide_eq zero_less_one)
  ultimately show ?thesis using assms(1) by (auto simp: chargePointToConnectorLimitAmps_def split: if_splits)
qed

lemma setStatic_accepted:
  assumes r: "setStaticPowerLimitation request mult cs (Some p) maxAmps = Inr (cs', status)"
    and st: "status = ACCEPTED \<or> status = REBOOT_REQUIRED"
  obtains l where "static_limit_floor cs p \<le> maxAmps" "connectors_of cs \<noteq> []"
    "chargePointToConnectorLimitAmps (Some p) maxAmps = Inr l" "cs' = set_amperage_limit l cs"
proof -
  from st have st': "status \<noteq> NOT_SUPPORTED" by auto
  from r st' have g: "\<not> maxAmps < static_limit_floor cs p" "connectors_of cs \<noteq> []"
    and b: "bindE (convertLimitAmpPerPhase cs (Some p) 0 (maxAmps * mult)) (\<lambda>v.
             bindE (request (or_else (cp_ocppParamForPowerLimitation p) []) v) (\<lambda>status.
               if status = ACCEPTED \<or> status = REBOOT_REQUIRED then
                 bindE (chargePointToConnectorLimitAmps (Some p) maxAmps) (\<lambda>l. Inr (set_amperage_limit l cs, status))
               else Inr (cs, status))) = Inr (cs', status)"
    unfolding setStaticPowerLimitation_def option.case by (simp_all split: if_split_asm)
  from b obtain st0 where "(if st0 = ACCEPTED \<or> st0 = REBOOT_REQUIRED then
                 bindE (chargePointToConnectorLimitAmps (Some p) maxAmps) (\<lambda>l. Inr (set_amperage_limit l cs, st0))
               else Inr (cs, st0)) = Inr (cs', status)"
    by (elim bindE_InrE)
  with st obtain l where "chargePointToConnectorLimitAmps (Some p) maxAmps = Inr l" "cs' = set_amperage_limit l cs"
    by (simp split: if_split_asm) (elim bindE_InrE; simp)
  with g that show ?thesis by (simp add: not_less)
qed

section \<open>Lemmas on the search\<close>

definition elapsed :: "int \<Rightarrow> int \<Rightarrow> schedule_period \<Rightarrow> bool" where
  "elapsed start now p = (start + sp_startPeriod p * 1000 \<le> now)"

lemma period_limit_search:
  assumes "sorted_wrt (\<lambda>p q. sp_startPeriod p < sp_startPeriod q) (pre @ ps)" and "pre @ ps = periods"
    and "length periods \<noteq> 1" and "ps \<noteq> []" and "pre \<noteq> []"
    and "\<forall>p \<in> set pre. elapsed start now p"
  shows "period_limit start now periods (Some (last pre)) ps =
    Inr (Some (sp_limit (last (filter (elapsed start now) periods))))"
  using assms
proof (induction ps arbitrary: pre)
  case (Cons p ps)
  have later: "sp_startPeriod p < sp_startPeriod q" if "q \<in> set ps" for q
    using Cons.prems(1) that by (simp add: sorted_wrt_append)
  show ?case
  proof (cases "elapsed start now p")
    case False
    then have none: "filter (elapsed start now) (p # ps) = []"
      using later by (force simp: filter_empty_conv elapsed_def)
    have "filter (elapsed start now) periods = pre"
      using Cons.prems(2,6) none by (metis append_Nil2 filter_True filter_append)
    with False Cons.prems(3) show ?thesis by (simp add: elapsed_def[of _ _ p])
  next
    case True
    show ?thesis
    proof (cases ps)
      case Nil
      with True Cons.prems(2,6) have "filter (elapsed start now) periods = periods" "last periods = p"
        by (auto simp: filter_id_conv)
      with True Cons.prems(3) show ?thesis by (simp add: elapsed_def[of _ _ p])
    next
      case (Cons q qs)
      have "last periods \<in> set ps" using Cons.prems(2) \<open>ps = q # qs\<close> by auto
      from later[OF this] have "sp_startPeriod p \<noteq> sp_startPeriod (last periods)" by simp
      moreover have "period_limit start now periods (Some (last (pre @ [p]))) ps =
          Inr (Some (sp_limit (last (filter (elapsed start now) periods))))"
        using Cons.prems True \<open>ps = q # qs\<close> by (intro Cons.IH) auto
      ultimately show ?thesis using True Cons.prems(3) by (simp add: elapsed_def[of _ _ p])
    qed
  qed
qed simp

lemma period_limit_active:
  assumes "sorted_wrt (\<lambda>p q. sp_startPeriod p < sp_startPeriod q) periods" and "periods \<noteq> []"
    and "sp_startPeriod (hd periods) = 0" and "start \<le> now"
  shows "period_limit start now periods None periods =
    Inr (Some (sp_limit (last (filter (elapsed start now) periods))))"
proof -
  from assms(2) obtain p ps where ps: "periods = p # ps" by (cases periods) auto
  have p: "elapsed start now p" "sp_startPeriod p = 0" using assms(3,4) ps by (simp_all add: elapsed_def)
  show ?thesis
  proof (cases ps)
    case Nil
    with ps p show ?thesis by simp
  next
    case (Cons q qs)
    have "last periods \<in> set ps" using ps Cons by auto
    with assms(1) ps have "sp_startPeriod p < sp_startPeriod (last periods)" by simp
    moreover have "period_limit start now periods (Some (last [p])) ps =
        Inr (Some (sp_limit (last (filter (elapsed start now) periods))))"
      using assms(1) ps Cons p by (intro period_limit_search) auto
    ultimately show ?thesis using p ps Cons by (simp add: elapsed_def[of _ _ p])
  qed
qed

section \<open>Samples\<close>

definition sample_point :: charge_point where
  "sample_point = \<lparr> cp_chargePointID = 1, cp_currentType = Some AC, cp_voltage = Some VOLTAGE_230, cp_amperage = 96,
     cp_numberOfConnectedPhase = 3, cp_cannotChargeInParallel = False, cp_sharePowerToAllConnectors = False,
     cp_excludeFromPowerLimitation = False, cp_power = 22080, cp_ocppParamForPowerLimitation = Some ''maxintensity'',
     cp_efficiency = None,
     cp_connectorIDs = [1, 2] \<rparr>"

definition point_station :: "ChargingRateUnitType \<Rightarrow> charging_station" where
  "point_station unit = sample_station\<lparr>cs_chargePoints := Some [sample_point], cs_powerLimitUnit := unit\<rparr>"

definition sample_schedule :: charging_schedule where
  "sample_schedule = \<lparr> sch_duration = Some 3600, sch_startSchedule = 0, sch_chargingRateUnit = RATE_AMPERE,
     sch_periods = [\<lparr> sp_startPeriod = 0, sp_limit = 96 \<rparr>, \<lparr> sp_startPeriod = 600, sp_limit = 48 \<rparr>,
                    \<lparr> sp_startPeriod = 1200, sp_limit = 24 \<rparr>] \<rparr>"

definition sample_profile :: "int \<Rightarrow> charging_profile" where
  "sample_profile start = \<lparr> prf_connectorID = 1, prf_stackLevel = 1, prf_purpose = TX_PROFILE, prf_kind = ABSOLUTE,
     prf_recurrencyKind = None, prf_schedule = sample_schedule\<lparr>sch_startSchedule := start\<rparr> \<rparr>"

lemmas limit_eval = point_station_def sample_station_def sample_connector_def sample_point_def
  getNumberOfConnectedPhases_def station_lookup_def nonzero_def charge_points_of_def connectors_of_def

section \<open>Properties\<close>

text \<open>In an active schedule whose periods are in order from 0, the limit found is that of the last
  period that has begun.\<close>

theorem schedule_limit_lookup:
  assumes "sorted_wrt (\<lambda>p q. sp_startPeriod p < sp_startPeriod q) (sch_periods sch)" and "sch_periods sch \<noteq> []"
    and "sp_startPeriod (hd (sch_periods sch)) = 0"
    and "start \<le> now" and "sch_duration sch = Some dur" and "now < start + dur * 1000"
  shows "schedule_limit now start sch =
    Inr (Some (sp_limit (last (filter (\<lambda>p. start + sp_startPeriod p * 1000 \<le> now) (sch_periods sch)))))"
  using period_limit_active[OF assms(1,2,3,4)] assms(5,6)
  by (simp add: schedule_limit_def elapsed_def[abs_def])

theorem schedule_limit_lookup_witness:
  "schedule_limit 700000 0 sample_schedule = Inr (Some 48)"
  using schedule_limit_lookup[of sample_schedule 0 700000 3600] by (simp add: sample_schedule_def)

text \<open>On a station limited in amps, a charging profile sent to the station and its schedule read
  back come out unchanged, on a connector and on a whole charge point.\<close>

theorem vendor_schedule_roundtrip:
  assumes "cs_powerLimitUnit cs = RATE_AMPERE" and "sch_chargingRateUnit (prf_schedule prf) = RATE_AMPERE"
    and "cs_connectors cs \<noteq> None" and "cp_connectorIDs p \<noteq> []"
  shows "\<exists>prf'. convertToVendorChargingProfile cs (Some p) prf = Inr prf'
    \<and> convertFromVendorChargingSchedule cs (Some p) (prf_connectorID prf) (prf_schedule prf') = Inr (prf_schedule prf)"
proof -
  let ?to = "to_vendor_period cs (Some p) (prf_connectorID prf)"
  let ?from = "from_vendor_period cs (Some p) (prf_connectorID prf) RATE_AMPERE"
  have "bindE (?to x) ?from = Inr x" for x
    using per_phase_inverse[of "prf_connectorID prf" p cs "sp_limit x"] assms(1,4)
    by (auto simp: to_vendor_period_def from_vendor_period_def bindE_eq_Inr)
  then have "bindE (mapE ?to (sch_periods (prf_schedule prf))) (mapE ?from) = Inr (sch_periods (prf_schedule prf))"
    by (intro mapE_compose)
  then obtain ps where "mapE ?to (sch_periods (prf_schedule prf)) = Inr ps"
    "mapE ?from ps = Inr (sch_periods (prf_schedule prf))" by (auto elim: bindE_InrE)
  with assms show ?thesis
    by (auto simp: convertToVendorChargingProfile_def convertFromVendorChargingSchedule_def Let_def)
qed

theorem vendor_schedule_roundtrip_witness:
  "\<exists>prf'. convertToVendorChargingProfile (point_station RATE_AMPERE) (Some sample_point) (sample_profile 0) = Inr prf'
    \<and> convertFromVendorChargingSchedule (point_station RATE_AMPERE) (Some sample_point)
        (prf_connectorID (sample_profile 0)) (prf_schedule prf') = Inr (prf_schedule (sample_profile 0))"
  by (rule vendor_schedule_roundtrip) (simp_all add: limit_eval sample_profile_def sample_schedule_def)

text \<open>On a station limited in watts the same round trip multiplies every limit by the number of
  connected phases: a limit of 96 A on a three-phase charge point is read back as 288 A.\<close>

theorem watt_schedule_roundtrip_scales:
  "bindE (to_vendor_period (point_station RATE_WATT) (Some sample_point) 0 \<lparr> sp_startPeriod = 0, sp_limit = 96 \<rparr>)
     (from_vendor_period (point_station RATE_WATT) (Some sample_point) 0 RATE_WATT)
   = Inr \<lparr> sp_startPeriod = 0, sp_limit = 288 \<rparr>"
  by (simp add: to_vendor_period_def from_vendor_period_def convertLimitAmpToAllPhases_def
      chargePointToConnectorLimitAmps_def connectorToChargePointLimitAmps_def limit_eval)

text \<open>When the station accepts a static power limitation, every connector is left at least the
  minimum of six amps on each connected phase.\<close>

theorem static_limit_minimum:
  assumes "setStaticPowerLimitation request mult cs (Some p) maxAmps = Inr (cs', status)"
    and "status = ACCEPTED \<or> status = REBOOT_REQUIRED"
    and "cp_connectorIDs p \<noteq> []" and "0 \<le> getNumberOfConnectedPhases cs (Some p) 0"
  shows "connectors_of cs' \<noteq> [] \<and> (\<forall>c \<in> set (connectors_of cs'). \<exists>l. con_amperageLimit c = Some l
    \<and> MIN_LIMIT_PER_PHASE * of_int (getNumberOfConnectedPhases cs (Some p) 0) \<le> l)"
proof -
  let ?k = "MIN_LIMIT_PER_PHASE * of_int (getNumberOfConnectedPhases cs (Some p) 0)"
  from assms(1,2) obtain l where m: "static_limit_floor cs p \<le> maxAmps"
    and ne: "connectors_of cs \<noteq> []"
    and l: "chargePointToConnectorLimitAmps (Some p) maxAmps = Inr l" and cs': "cs' = set_amperage_limit l cs"
    by (rule setStatic_accepted)
  from assms(4) have "0 \<le> ?k" by (simp add: MIN_LIMIT_PER_PHASE_def)
  with point_to_connector_ge[OF l assms(3)] m have "?k \<le> l" by (simp add: static_limit_floor_def)
  with ne show ?thesis by (auto simp: cs' connectors_of_set_amperage)
qed

theorem static_limit_minimum_witness:
  "list_all (\<lambda>c. \<exists>l. con_amperageLimit c = Some l \<and> 18 \<le> l)
     (connectors_of (set_amperage_limit 24 (point_station RATE_AMPERE)))"
proof -
  have "setStaticPowerLimitation (\<lambda>_ _. Inr ACCEPTED) 1 (point_station RATE_AMPERE) (Some sample_point) 48 =
      Inr (set_amperage_limit 24 (point_station RATE_AMPERE), ACCEPTED)"
    by (simp add: setStaticPowerLimitation_def hasStaticLimitationFullSupport_def convertLimitAmpPerPhase_def
        chargePointToConnectorLimitAmps_def static_limit_floor_def MIN_LIMIT_PER_PHASE_def limit_eval)
  moreover have "getNumberOfConnectedPhases (point_station RATE_AMPERE) (Some sample_point) 0 = 3"
    by (simp add: limit_eval)
  ultimately show ?thesis
    using static_limit_minimum[of "\<lambda>_ _. Inr ACCEPTED" 1 "point_station RATE_AMPERE" sample_point 48]
    by (simp add: sample_point_def MIN_LIMIT_PER_PHASE_def list_all_iff)
qed

text \<open>The limit accepted for one charge point is written to every connector of the station, also to
  those of the other charge points: connector 3, outside the charge point with connectors 1 and 2,
  loses its own limit.\<close>

theorem static_limit_overwrites_other_points:
  "let cs = (point_station RATE_AMPERE)\<lparr>cs_connectors :=
       Some [sample_connector 1, sample_connector 2, (sample_connector 3)\<lparr>con_amperageLimit := Some 63\<rparr>]\<rparr>
   in 3 \<notin> set (cp_connectorIDs sample_point) \<and>
      (case setStaticPowerLimitation (\<lambda>_ _. Inr ACCEPTED) 1 cs (Some sample_point) 48 of
         Inl _ \<Rightarrow> False
       | Inr (cs', _) \<Rightarrow> map_option con_amperageLimit (getConnectorFromID cs' 3) = Some (Some 24))"
  by (simp add: setStaticPowerLimitation_def hasStaticLimitationFullSupport_def convertLimitAmpPerPhase_def
      chargePointToConnectorLimitAmps_def static_limit_floor_def MIN_LIMIT_PER_PHASE_def limit_eval set_amperage_limit_def
      getConnectorFromID_def Let_def)

text \<open>The search for the limit in force stops at the first profile that is still to start, even
  when a later one is active.\<close>

theorem future_profile_hides_active_one:
  "getCurrentConnectorLimitFromProfiles 0 700000 cs cpo 1 [sample_profile 0] =
     Inr (Some (profile_connector_limit cs cpo 1 48))
   \<and> getCurrentConnectorLimitFromProfiles 0 700000 cs cpo 1 [sample_profile 900000, sample_profile 0] = Inr None"
  by (simp add: sample_profile_def sample_schedule_def schedule_limit_def Let_def)

text \<open>One of the vendor names of the factory can never be selected: the enumeration spells it with
  an upper-case letter, while the name it is compared with is in lower case, so its stations get no
  vendor integration.\<close>

theorem chargex_vendor_unreachable:
  "''Chargex gmbh'' \<in> set default_vendors \<and> (\<forall>v. to_lower v \<noteq> ''Chargex gmbh'')
   \<and> getChargingStationVendorImpl ''Chargex gmbh'' = None"
proof -
  have "c \<notin> set (to_lower v)" if "c = CHR ''C''" for c v
    using that by (auto simp: to_lower_def split: if_splits dest!: arg_cong[of _ _ "of_char :: char \<Rightarrow> nat"])
  then have "to_lower v \<noteq> ''Chargex gmbh''" for v
    by (metis list.set_intros(1))
  moreover have "''Chargex gmbh'' \<in> set default_vendors"
    by (simp add: default_vendors_def)
  moreover have "getChargingStationVendorImpl ''Chargex gmbh'' = None"
    by code_simp
  ultimately show ?thesis by blast
qed

end
