(* ===== verification/Meter_Values.thy ===== *)
theory Meter_Values
  imports Pricing_Engine Charging_Limits
begin

text \<open>
  From meter values to consumptions (src/server/ocpp/utils/OCPPUtils.ts and the meter value
  handling of src/server/ocpp/services/OCPPService.ts): normalisation of a request, classification of
  a value, the consumption a value gives and what it changes in the transaction, the consistency
  pass over power and current, and the pricing of a consumption.

  An \<open>ocpp_env\<close> is what the handlers read of their surroundings: the clock, the offset of the
  server's time zone, whether the organization component is active, the stations and the charging
  profiles in the database.
\<close>

record ocpp_env = pricing_env +
  oe_now :: int
  oe_offset :: int
  oe_organization :: bool
  oe_siteAreaStations :: "string \<Rightarrow> charging_station list"
  oe_profiles :: "string \<Rightarrow> charging_profile list"

section \<open>Numbers in strings\<close>

text \<open>
  \<^verbatim>\<open>parseFloat\<close>: the longest decimal literal at the front; \<open>None\<close> is \<^verbatim>\<open>NaN\<close>. The literal
  \<^verbatim>\<open>Infinity\<close> is not modelled.
\<close>

definition is_digit :: "char \<Rightarrow> bool" where
  "is_digit c = (digit_of 10 c \<noteq> None)"

definition parse_exponent :: "string \<Rightarrow> int" where
  "parse_exponent s =
     (case s of
        e # t \<Rightarrow>
          if e = CHR ''e'' \<or> e = CHR ''E'' then
            (case t of
               c # u \<Rightarrow>
                 if c = CHR ''-'' then - digits_value 10 0 u
                 else if c = CHR ''+'' then digits_value 10 0 u
                 else digits_value 10 0 t
             | [] \<Rightarrow> 0)
          else 0
      | [] \<Rightarrow> 0)"

definition parse_mantissa :: "string \<Rightarrow> rat option" where
  "parse_mantissa s =
     (let ip = takeWhile is_digit s;
          rest = dropWhile is_digit s;
          fp = (case rest of c # t \<Rightarrow> if c = CHR ''.'' then takeWhile is_digit t else [] | [] \<Rightarrow> []);
          rest' = (case rest of c # t \<Rightarrow> if c = CHR ''.'' then dropWhile is_digit t else rest | [] \<Rightarrow> []);
          ex = parse_exponent rest';
          value = of_int (digits_value 10 0 (ip @ fp)) / 10 ^ length fp
      in if ip = [] \<and> fp = [] then None
         else Some (if 0 \<le> ex then value * 10 ^ nat ex else value / 10 ^ nat (- ex)))"

definition parseFloat :: "string \<Rightarrow> rat option" where
  "parseFloat s =
     (case dropWhile is_space s of
        [] \<Rightarrow> None
      | c # t \<Rightarrow>
          if c = CHR ''-'' then map_option uminus (parse_mantissa t)
          else if c = CHR ''+'' then parse_mantissa t
          else parse_mantissa (c # t))"

text \<open>\<^verbatim>\<open>Utils.convertToFloat\<close> of a meter value.\<close>

definition convertToFloat :: "mv_value \<Rightarrow> rat option" where
  "convertToFloat v =
     (case v of
        Number None \<Rightarrow> Some 0
      | Number (Some x) \<Rightarrow> Some x
      | Text s \<Rightarrow> if s = [] then Some 0 else parseFloat s)"

definition reading :: "mv_value \<Rightarrow> rat" where
  "reading v = or_else (convertToFloat v) 0"

section \<open>Classification\<close>

definition has_attribute :: "(ocpp_attribute \<Rightarrow> bool) \<Rightarrow> meter_value \<Rightarrow> bool" where
  "has_attribute P mv = (case mv_attribute mv of None \<Rightarrow> True | Some a \<Rightarrow> P a)"

definition isSocMeterValue :: "meter_value \<Rightarrow> bool" where
  "isSocMeterValue = has_attribute (\<lambda>a. at_measurand a = Some STATE_OF_CHARGE
     \<and> (at_context a = Some SAMPLE_PERIODIC \<or> at_context a = Some TRANSACTION_END))"

definition isEnergyActiveImportMeterValue :: "meter_value \<Rightarrow> bool" where
  "isEnergyActiveImportMeterValue = has_attribute (\<lambda>a. at_measurand a = Some ENERGY_ACTIVE_IMPORT_REGISTER
     \<and> (at_context a = Some SAMPLE_PERIODIC \<or> at_context a = Some TRANSACTION_END \<or> at_context a = Some SAMPLE_CLOCK))"

definition isPowerActiveImportMeterValue :: "meter_value \<Rightarrow> bool" where
  "isPowerActiveImportMeterValue = has_attribute (\<lambda>a. at_measurand a = Some POWER_ACTIVE_IMPORT
     \<and> at_context a = Some SAMPLE_PERIODIC)"

definition isCurrentImportMeterValue :: "meter_value \<Rightarrow> bool" where
  "isCurrentImportMeterValue = has_attribute (\<lambda>a. at_measurand a = Some CURRENT_IMPORT
     \<and> at_context a = Some SAMPLE_PERIODIC)"

definition isVoltageMeterValue :: "meter_value \<Rightarrow> bool" where
  "isVoltageMeterValue = has_attribute (\<lambda>a. at_measurand a = Some VOLTAGE
     \<and> at_context a = Some SAMPLE_PERIODIC)"

definition isValidMeterValue :: "meter_value \<Rightarrow> bool" where
  "isValidMeterValue mv = (isSocMeterValue mv \<or> isEnergyActiveImportMeterValue mv
     \<or> isPowerActiveImportMeterValue mv \<or> isCurrentImportMeterValue mv \<or> isVoltageMeterValue mv)"

definition mv_phase :: "meter_value \<Rightarrow> OCPPPhase option" where
  "mv_phase mv = Option.bind (mv_attribute mv) at_phase"

definition mv_unit :: "meter_value \<Rightarrow> OCPPUnitOfMeasure option" where
  "mv_unit mv = Option.bind (mv_attribute mv) at_unit"

section \<open>Normalisation\<close>

text \<open>
  A request of OCPP 1.6 carries sampled values under each meter value; one of OCPP 1.5 carries values
  with the attributes they have, if any. The parser has made arrays of single elements.
\<close>

datatype raw_values =
    Sampled "sampled_value list"
  | Valued "(string \<times> ocpp_attribute option) list"

record raw_meter_value =
  rmv_timestamp :: int
  rmv_values :: raw_values

definition buildMeterValueAttributes :: "sampled_value \<Rightarrow> ocpp_attribute" where
  "buildMeterValueAttributes sv =
     \<lparr> at_context = Some (or_else (at_context sv) SAMPLE_PERIODIC),
       at_format = Some (or_else (at_format sv) RAW),
       at_measurand = Some (or_else (at_measurand sv) ENERGY_ACTIVE_IMPORT_REGISTER),
       at_phase = at_phase sv,
       at_location = Some (or_else (at_location sv) OUTLET),
       at_unit = Some (or_else (at_unit sv) WATT_HOUR) \<rparr>"

definition normalize_sampled :: "int \<Rightarrow> int option \<Rightarrow> int \<Rightarrow> sampled_value \<Rightarrow> meter_value" where
  "normalize_sampled cid tid ts sv =
     (let a = buildMeterValueAttributes sv in
      \<lparr> mv_connectorId = cid, mv_transactionId = tid, mv_timestamp = ts, mv_attribute = Some a,
        mv_value = (if at_format a = Some RAW then Number (convertToFloat (Text (sv_value sv)))
                    else Text (sv_value sv)) \<rparr>)"

definition normalize_valued :: "int \<Rightarrow> int option \<Rightarrow> int \<Rightarrow> string \<times> ocpp_attribute option \<Rightarrow> meter_value" where
  "normalize_valued cid tid ts v =
     \<lparr> mv_connectorId = cid, mv_transactionId = tid, mv_timestamp = ts, mv_attribute = snd v,
       mv_value = Number (convertToFloat (Text (fst v))) \<rparr>"

definition normalize_raw :: "charging_station \<Rightarrow> int \<Rightarrow> int option \<Rightarrow> raw_meter_value \<Rightarrow> meter_value list res" where
  "normalize_raw cs cid tid r =
     (if cs_ocppVersion cs = VERSION_16 then
        (case rmv_values r of
           Sampled svs \<Rightarrow> Inr (map (normalize_sampled cid tid (rmv_timestamp r)) svs)
         | Valued _ \<Rightarrow> Inl TypeError)
      else
        (case rmv_values r of
           Sampled _ \<Rightarrow> Inr []
         | Valued vs \<Rightarrow> Inr (map (normalize_valued cid tid (rmv_timestamp r)) vs)))"

definition normalizeMeterValues ::
  "charging_station \<Rightarrow> int \<Rightarrow> int option \<Rightarrow> raw_meter_value list \<Rightarrow> meter_value list res" where
  "normalizeMeterValues cs cid tid raws = bindE (mapE (normalize_raw cs cid tid) raws) (\<lambda>mvs. Inr (concat mvs))"

text \<open>
  \<^verbatim>\<open>filterMeterValuesOnSpecificChargingStations\<close> filters with an asynchronous predicate. What
  \<^verbatim>\<open>Array.filter\<close> tests is the promise that the call returns, an object, which is true: \<open>promise\<close> is
  the truth value of a promise, whatever it resolves to.
\<close>

definition promise :: "bool \<Rightarrow> bool" where
  "promise resolved = True"

definition not_sample_clock :: "meter_value \<Rightarrow> bool" where
  "not_sample_clock mv = (case mv_attribute mv of None \<Rightarrow> True | Some a \<Rightarrow> at_context a \<noteq> Some SAMPLE_CLOCK)"

definition filterMeterValuesOnSpecificChargingStations :: "charging_station \<Rightarrow> meter_value list \<Rightarrow> meter_value list" where
  "filterMeterValuesOnSpecificChargingStations cs mvs =
     (if cs_chargePointVendor cs \<noteq> ''abb'' \<or> cs_ocppVersion cs \<noteq> VERSION_15
      then filter (\<lambda>mv. promise (not_sample_clock mv)) mvs else mvs)"

section \<open>Readings by phase\<close>

fun set_line :: "OCPPPhase option \<Rightarrow> rat \<Rightarrow> readings \<Rightarrow> readings" where
  "set_line (Some L1) v r = r\<lparr>rd_L1 := Some v\<rparr>"
| "set_line (Some L2) v r = r\<lparr>rd_L2 := Some v\<rparr>"
| "set_line (Some L3) v r = r\<lparr>rd_L3 := Some v\<rparr>"
| "set_line _ v r = r\<lparr>rd_total := Some v\<rparr>"

text \<open>A phase measured against neutral counts as the phase, for power and voltage.\<close>

fun neutral_line :: "OCPPPhase option \<Rightarrow> OCPPPhase option" where
  "neutral_line (Some L1_N) = Some L1"
| "neutral_line (Some L2_N) = Some L2"
| "neutral_line (Some L3_N) = Some L3"
| "neutral_line ph = ph"

definition set_power :: "CurrentType option \<Rightarrow> OCPPPhase option \<Rightarrow> rat \<Rightarrow> readings \<Rightarrow> readings" where
  "set_power ct ph v r =
     (case ct of None \<Rightarrow> r | Some DC \<Rightarrow> r\<lparr>rd_DC := Some v\<rparr> | Some AC \<Rightarrow> set_line (neutral_line ph) v r)"

definition set_voltage :: "CurrentType option \<Rightarrow> OCPPPhase option \<Rightarrow> rat \<Rightarrow> readings \<Rightarrow> readings" where
  "set_voltage ct ph v r =
     (case ct of None \<Rightarrow> r | Some DC \<Rightarrow> r\<lparr>rd_DC := Some v\<rparr>
      | Some AC \<Rightarrow> if ph \<in> {Some L1_L2, Some L2_L3, Some L3_L1} then r else set_line (neutral_line ph) v r)"

definition set_current :: "CurrentType option \<Rightarrow> int \<Rightarrow> OCPPPhase option \<Rightarrow> rat \<Rightarrow> readings \<Rightarrow> readings" where
  "set_current ct phases ph v r =
     (case ct of None \<Rightarrow> r | Some DC \<Rightarrow> r\<lparr>rd_DC := Some v\<rparr>
      | Some AC \<Rightarrow> if ph \<in> {Some L1, Some L2, Some L3} then set_line ph v r else r\<lparr>rd_total := Some (v * of_int phases)\<rparr>)"

section \<open>Limits written on a consumption\<close>

definition site_area_watts :: "charging_station list \<Rightarrow> rat res" where
  "site_area_watts css =
     fold (\<lambda>c acc. bindE acc (\<lambda>w. case con_power c of None \<Rightarrow> Inl DecimalError | Some p \<Rightarrow> Inr (w + p)))
       (concat (map connectors_of css)) (Inr 0)"

text \<open>
  \<^verbatim>\<open>addSiteLimitationToConsumption\<close>: a site area without a maximum power gets the sum of the
  powers of its connectors, and keeps it.
\<close>

definition addSiteLimitationToConsumption ::
  "'a ocpp_env_scheme \<Rightarrow> charging_station \<Rightarrow> meter_consumption \<Rightarrow> (charging_station \<times> meter_consumption) res" where
  "addSiteLimitationToConsumption env cs c =
     (case cs_siteArea cs of
        None \<Rightarrow> Inr (cs, c)
      | Some sa \<Rightarrow>
          if \<not> oe_organization env then Inr (cs, c)
          else if truthy_num (sa_maximumPower sa) then
            (let w = or_else (sa_maximumPower sa) 0 in
             Inr (cs, c\<lparr>mc_siteLimit := Some \<lparr> sal_watts = w, sal_amps = w / voltage_value (sa_voltage sa),
               sal_source = LIMIT_SITE_AREA, sal_smartCharging = sa_smartCharging sa \<rparr>\<rparr>))
          else bindE (site_area_watts (oe_siteAreaStations env (sa_id sa))) (\<lambda>w.
            Inr (cs\<lparr>cs_siteArea := Some (sa\<lparr>sa_maximumPower := Some w\<rparr>)\<rparr>,
                 c\<lparr>mc_siteLimit := Some \<lparr> sal_watts = w, sal_amps = math_round (w / voltage_value (sa_voltage sa)),
                   sal_source = LIMIT_CHARGING_STATIONS, sal_smartCharging = sa_smartCharging sa \<rparr>\<rparr>)))"

definition addConnectorLimitationToConsumption ::
  "'a ocpp_env_scheme \<Rightarrow> charging_station \<Rightarrow> int \<Rightarrow> meter_consumption \<Rightarrow> meter_consumption res" where
  "addConnectorLimitationToConsumption env cs cid c =
     (let con = getConnectorFromID cs cid in
      case getChargingStationVendorImpl (cs_chargePointVendor cs) of
        Some _ \<Rightarrow>
          (let cp = Option.bind (Option.bind con con_chargePointID) (getChargePointFromID cs)
           in bindE (getCurrentConnectorLimit (oe_offset env) (oe_now env) (oe_profiles env (cs_id cs)) cs cp cid)
                (\<lambda>l. Inr (c\<lparr>mc_limit := Some l\<rparr>)))
      | None \<Rightarrow>
          Inr (c\<lparr>mc_limit := Some \<lparr> lim_amps = Option.bind con con_amperageLimit, lim_watts = Option.bind con con_power,
                 lim_source = CONNECTOR \<rparr>\<rparr>))"

section \<open>The consumption of a meter value\<close>

definition initial_consumption :: "transaction \<Rightarrow> int \<Rightarrow> meter_consumption" where
  "initial_consumption t endedAt = \<lparr> mc_transactionId = tx_id t, mc_connectorId = tx_connectorId t,
     mc_chargeBoxID = tx_chargeBoxID t, mc_siteAreaID = tx_siteAreaID t, mc_siteID = tx_siteID t, mc_userID = tx_userID t,
     mc_startedAt = None, mc_endedAt = endedAt, mc_stateOfCharge = None,
     mc_watts = no_readings, mc_volts = no_readings, mc_amps = no_readings,
     mc_consumptionWh = None, mc_consumptionAmps = None, mc_cumulatedConsumptionWh = None,
     mc_cumulatedConsumptionAmps = None, mc_inactivitySecs = None, mc_totalInactivitySecs = None,
     mc_totalDurationSecs = None, mc_limit = None, mc_siteLimit = None, mc_cumulatedAmount = None,
     mc_amount = None, mc_roundedAmount = None, mc_currencyCode = None, mc_pricingSource = None, mc_toPrice = False \<rparr>"

definition secs_between :: "int \<Rightarrow> int \<Rightarrow> rat" where
  "secs_between later earlier = of_int (later - earlier) / 1000"

text \<open>The limit does not come from a charging profile that is below the minimum of the connected phases.\<close>

definition not_throttled :: "charging_station \<Rightarrow> int \<Rightarrow> meter_consumption \<Rightarrow> bool" where
  "not_throttled cs cid c =
     (case mc_limit c of
        None \<Rightarrow> True
      | Some l \<Rightarrow> lim_source l \<noteq> CHARGING_PROFILE
          \<or> (case lim_amps l of None \<Rightarrow> False
             | Some a \<Rightarrow> a \<ge> MIN_LIMIT_PER_PHASE * of_int (getNumberOfConnectedPhases cs None cid)))"

definition meter_value_Wh :: "meter_value \<Rightarrow> rat option" where
  "meter_value_Wh mv =
     (if mv_unit mv = Some KILO_WATT_HOUR then map_option (\<lambda>v. v * 1000) (convertToFloat (mv_value mv))
      else convertToFloat (mv_value mv))"

definition set_last :: "rat \<Rightarrow> meter_value \<Rightarrow> transaction \<Rightarrow> transaction" where
  "set_last v mv = upd_run (\<lambda>r. r\<lparr>rt_lastConsumption := Some \<lparr> lc_value = v, lc_timestamp = mv_timestamp mv \<rparr>\<rparr>)"

text \<open>The energy register went up, by \<open>d\<close>.\<close>

definition delivered ::
  "charging_station \<Rightarrow> meter_value \<Rightarrow> rat \<Rightarrow> rat \<Rightarrow> transaction \<Rightarrow> meter_consumption \<Rightarrow> transaction \<times> meter_consumption" where
  "delivered cs mv v d t c =
     (set_last v mv (upd_run (\<lambda>r. r\<lparr>rt_currentTotalConsumptionWh := rt_currentTotalConsumptionWh r + d\<rparr>) t),
      c\<lparr>mc_consumptionWh := Some d, mc_consumptionAmps := Some (convertWattToAmp cs None (tx_connectorId t) d)\<rparr>)"

text \<open>It did not: the time since the last consumption is inactivity, unless smart charging holds the session.\<close>

definition idle ::
  "charging_station \<Rightarrow> rat \<Rightarrow> transaction \<Rightarrow> meter_consumption \<Rightarrow> transaction \<times> meter_consumption" where
  "idle cs secs t c =
     (let c1 = c\<lparr>mc_consumptionWh := Some 0, mc_consumptionAmps := Some 0\<rparr> in
      if not_throttled cs (tx_connectorId t) c then
        (let total = rt_currentTotalInactivitySecs (tx_run t) + secs in
         (upd_run (\<lambda>r. r\<lparr>rt_currentTotalInactivitySecs := total\<rparr>) t,
          c1\<lparr>mc_inactivitySecs := Some secs, mc_totalInactivitySecs := Some total\<rparr>))
      else (t, c1))"

text \<open>
  The energy branch, from the limits already written on \<open>c\<close>. A register that is not a number
  (\<open>None\<close>) is neither above nor equal to the last one.
\<close>

definition energy_consumption ::
  "charging_station \<Rightarrow> transaction \<Rightarrow> last_consumption \<Rightarrow> meter_value \<Rightarrow> meter_consumption \<Rightarrow> transaction \<times> meter_consumption" where
  "energy_consumption cs t lc mv c =
     (let secs = secs_between (mv_timestamp mv) (lc_timestamp lc);
          (t', c') =
            (case meter_value_Wh mv of
               Some v \<Rightarrow>
                 if v > lc_value lc then delivered cs mv v (v - lc_value lc) t c
                 else idle cs secs (if v = lc_value lc then set_last v mv t else t) c
             | None \<Rightarrow> idle cs secs t c);
          totalWh = rt_currentTotalConsumptionWh (tx_run t')
      in (t',
          c'\<lparr>mc_cumulatedConsumptionWh := Some totalWh,
             mc_cumulatedConsumptionAmps := Some (convertWattToAmp cs None (tx_connectorId t) totalWh),
             mc_totalDurationSecs := Some (case tx_stop t of
                 None \<Rightarrow> secs_between (mv_timestamp mv) (tx_timestamp t)
               | Some st \<Rightarrow> secs_between (stop_timestamp st) (tx_timestamp t)),
             mc_cumulatedAmount := rt_currentCumulatedPrice (tx_run t),
             mc_pricingSource := tx_pricingSource t,
             mc_toPrice := True\<rparr>))"

definition first_last :: "transaction \<Rightarrow> last_consumption option \<Rightarrow> last_consumption" where
  "first_last t lco = or_else lco \<lparr> lc_value = tx_meterStart t, lc_timestamp = tx_timestamp t \<rparr>"

definition createConsumptionFromMeterValue ::
  "'a ocpp_env_scheme \<Rightarrow> charging_station \<Rightarrow> transaction \<Rightarrow> last_consumption option \<Rightarrow> meter_value \<Rightarrow>
   (charging_station \<times> transaction \<times> meter_consumption option) res" where
  "createConsumptionFromMeterValue env cs t lco mv =
     (if \<not> isValidMeterValue mv then Inr (cs, t, None)
      else
        (let lc = first_last t lco;
             c = initial_consumption t (mv_timestamp mv);
             ct = getChargingStationCurrentType cs None (tx_connectorId t);
             v = reading (mv_value mv) in
         if isSocMeterValue mv then Inr (cs, t, Some (c\<lparr>mc_stateOfCharge := Some v\<rparr>))
         else if isPowerActiveImportMeterValue mv then
           Inr (cs, t, Some (c\<lparr>mc_watts :=
             set_power ct (mv_phase mv) (if mv_unit mv = Some KILO_WATT then v * 1000 else v) (mc_watts c)\<rparr>))
         else if isVoltageMeterValue mv then
           Inr (cs, t, Some (c\<lparr>mc_volts := set_voltage ct (mv_phase mv) v (mc_volts c)\<rparr>))
         else if isCurrentImportMeterValue mv then
           Inr (cs, t, Some (c\<lparr>mc_amps :=
             set_current ct (getNumberOfConnectedPhases cs None (tx_connectorId t)) (mv_phase mv) v (mc_amps c)\<rparr>))
         else
           bindE (addConnectorLimitationToConsumption env cs (tx_connectorId t) (c\<lparr>mc_startedAt := Some (lc_timestamp lc)\<rparr>)) (\<lambda>c1.
           bindE (addSiteLimitationToConsumption env cs c1) (\<lambda>(cs', c2).
             (let (t', c3) = energy_consumption cs' t lc mv c2 in Inr (cs', t', Some c3))))))"

section \<open>Consumptions of a request\<close>

text \<open>
  Two values with the same end make one consumption: the properties that the later one has
  overwrite those of the earlier one. A value with energy has all the energy properties, defined or
  not; the inactivity only when it is idle.
\<close>

definition over :: "'a option \<Rightarrow> 'a option \<Rightarrow> 'a option" where
  "over new old = (case new of None \<Rightarrow> old | Some _ \<Rightarrow> new)"

definition over_readings :: "readings \<Rightarrow> readings \<Rightarrow> readings" where
  "over_readings new old = \<lparr> rd_total = over (rd_total new) (rd_total old), rd_L1 = over (rd_L1 new) (rd_L1 old),
     rd_L2 = over (rd_L2 new) (rd_L2 old), rd_L3 = over (rd_L3 new) (rd_L3 old), rd_DC = over (rd_DC new) (rd_DC old) \<rparr>"

definition over_energy :: "meter_consumption \<Rightarrow> meter_consumption \<Rightarrow> meter_consumption" where
  "over_energy new old =
     (if mc_toPrice new then
        old\<lparr>mc_startedAt := mc_startedAt new, mc_consumptionWh := mc_consumptionWh new,
            mc_consumptionAmps := mc_consumptionAmps new,
            mc_cumulatedConsumptionWh := mc_cumulatedConsumptionWh new,
            mc_cumulatedConsumptionAmps := mc_cumulatedConsumptionAmps new,
            mc_inactivitySecs := over (mc_inactivitySecs new) (mc_inactivitySecs old),
            mc_totalInactivitySecs := over (mc_totalInactivitySecs new) (mc_totalInactivitySecs old),
            mc_totalDurationSecs := mc_totalDurationSecs new,
            mc_limit := mc_limit new, mc_siteLimit := over (mc_siteLimit new) (mc_siteLimit old),
            mc_cumulatedAmount := mc_cumulatedAmount new, mc_pricingSource := mc_pricingSource new,
            mc_toPrice := True\<rparr>
      else old)"

definition merge_consumption :: "meter_consumption \<Rightarrow> meter_consumption \<Rightarrow> meter_consumption" where
  "merge_consumption new old =
     (over_energy new old)
       \<lparr>mc_transactionId := mc_transactionId new, mc_connectorId := mc_connectorId new,
        mc_chargeBoxID := mc_chargeBoxID new, mc_siteAreaID := mc_siteAreaID new, mc_siteID := mc_siteID new,
        mc_userID := mc_userID new, mc_endedAt := mc_endedAt new,
        mc_stateOfCharge := over (mc_stateOfCharge new) (mc_stateOfCharge old),
        mc_watts := over_readings (mc_watts new) (mc_watts old),
        mc_volts := over_readings (mc_volts new) (mc_volts old),
        mc_amps := over_readings (mc_amps new) (mc_amps old)\<rparr>"

definition add_consumption :: "meter_consumption \<Rightarrow> meter_consumption list \<Rightarrow> meter_consumption list" where
  "add_consumption c cns =
     (case first_index (\<lambda>x. mc_endedAt x = mc_endedAt c) cns of
        None \<Rightarrow> cns @ [c]
      | Some i \<Rightarrow> cns[i := merge_consumption c (cns ! i)])"

definition in_the_past :: "transaction \<Rightarrow> meter_value \<Rightarrow> bool" where
  "in_the_past t mv =
     (case rt_lastConsumption (tx_run t) of None \<Rightarrow> False | Some lc \<Rightarrow> mv_timestamp mv < lc_timestamp lc)"

fun consume_meter_values ::
  "'a ocpp_env_scheme \<Rightarrow> charging_station \<Rightarrow> transaction \<Rightarrow> meter_value list \<Rightarrow> meter_consumption list \<Rightarrow>
   (charging_station \<times> transaction \<times> meter_consumption list) res" where
  "consume_meter_values env cs t [] cns = Inr (cs, t, cns)"
| "consume_meter_values env cs t (mv # mvs) cns =
     (if \<not> isValidMeterValue mv \<or> in_the_past t mv then consume_meter_values env cs t mvs cns
      else bindE (createConsumptionFromMeterValue env cs t (rt_lastConsumption (tx_run t)) mv) (\<lambda>(cs', t', co).
        consume_meter_values env cs' t' mvs (case co of None \<Rightarrow> cns | Some c \<Rightarrow> add_consumption c cns)))"

text \<open>\<^verbatim>\<open>assertConsistencyInConsumption\<close>, in its five passes.\<close>

definition any_line :: "readings \<Rightarrow> bool" where
  "any_line r = (pos (rd_L1 r) \<or> pos (rd_L2 r) \<or> pos (rd_L3 r))"

definition check_total :: "readings \<Rightarrow> readings" where
  "check_total r =
     (if any_line r then
        (let r1 = r\<lparr>rd_L1 := to_float (rd_L1 r), rd_L2 := to_float (rd_L2 r), rd_L3 := to_float (rd_L3 r)\<rparr>;
             total = or_num (rd_L1 r) 0 + or_num (rd_L2 r) 0 + or_num (rd_L3 r) 0
         in case rd_total r of
              None \<Rightarrow> r1
            | Some w \<Rightarrow> if w < total / (11/10) \<or> w > total * (11/10) then r1\<lparr>rd_total := Some total\<rparr> else r1)
      else r)"

definition average_watts :: "meter_consumption \<Rightarrow> rat" where
  "average_watts c =
     (let secs = (case mc_startedAt c of None \<Rightarrow> 0 | Some s \<Rightarrow> secs_between (mc_endedAt c) s)
      in or_num (mc_consumptionWh c) 0 * (if secs > 0 then 3600 / secs else 0))"

definition fill_watts :: "charging_station \<Rightarrow> int \<Rightarrow> meter_consumption \<Rightarrow> meter_consumption" where
  "fill_watts cs cid c =
     (if truthy_num (rd_total (mc_watts c)) then c
      else
        (let amps = or_num (rd_total (mc_amps c)) 0;
             w = (if pos (rd_total (mc_amps c)) then
                    (if pos (rd_total (mc_volts c)) then or_num (rd_total (mc_volts c)) 0 * amps
                     else convertAmpToWatt cs None cid amps)
                  else average_watts c)
         in c\<lparr>mc_watts := (mc_watts c)\<lparr>rd_total := Some w\<rparr>\<rparr>))"

definition fill_amps :: "charging_station \<Rightarrow> int \<Rightarrow> meter_consumption \<Rightarrow> meter_consumption" where
  "fill_amps cs cid c =
     (if truthy_num (rd_total (mc_amps c)) \<or> \<not> pos (rd_total (mc_watts c)) then c
      else
        (let w = or_num (rd_total (mc_watts c)) 0;
             a = (if pos (rd_total (mc_volts c)) then w / or_num (rd_total (mc_volts c)) 0 else convertWattToAmp cs None cid w)
         in c\<lparr>mc_amps := (mc_amps c)\<lparr>rd_total := Some a\<rparr>\<rparr>))"

definition line_watts :: "charging_station \<Rightarrow> int \<Rightarrow> rat option \<Rightarrow> rat option \<Rightarrow> rat option" where
  "line_watts cs cid volts amps =
     Some (if pos volts then or_num amps 0 * or_num volts 0 else convertAmpToWatt cs None cid (or_num amps 0))"

definition fill_lines :: "charging_station \<Rightarrow> int \<Rightarrow> meter_consumption \<Rightarrow> meter_consumption" where
  "fill_lines cs cid c =
     (let w = mc_watts c; v = mc_volts c; a = mc_amps c in
      if \<not> truthy_num (rd_L1 w) \<and> \<not> truthy_num (rd_L2 w) \<and> \<not> truthy_num (rd_L3 w) \<and> any_line a then
        c\<lparr>mc_watts := w\<lparr>rd_L1 := line_watts cs cid (rd_L1 v) (rd_L1 a), rd_L2 := line_watts cs cid (rd_L2 v) (rd_L2 a),
                          rd_L3 := line_watts cs cid (rd_L3 v) (rd_L3 a)\<rparr>\<rparr>
      else c)"

definition fill_DC :: "meter_consumption \<Rightarrow> meter_consumption" where
  "fill_DC c =
     (if \<not> truthy_num (rd_DC (mc_watts c)) \<and> pos (rd_DC (mc_amps c)) \<and> pos (rd_DC (mc_volts c)) then
        c\<lparr>mc_watts := (mc_watts c)\<lparr>rd_DC := Some (or_num (rd_DC (mc_amps c)) 0 * or_num (rd_DC (mc_volts c)) 0)\<rparr>\<rparr>
      else c)"

definition assertConsistencyInConsumption :: "charging_station \<Rightarrow> int \<Rightarrow> meter_consumption \<Rightarrow> meter_consumption" where
  "assertConsistencyInConsumption cs cid c =
     fill_DC (fill_lines cs cid (fill_amps cs cid (fill_watts cs cid
       (c\<lparr>mc_watts := check_total (mc_watts c), mc_amps := check_total (mc_amps c)\<rparr>))))"

text \<open>
  The sort reads \<^verbatim>\<open>startedAt.getTime()\<close> of the elements it compares, and every element of a list
  of two or more is compared.
\<close>

definition sort_consumptions :: "meter_consumption list \<Rightarrow> meter_consumption list res" where
  "sort_consumptions cns =
     (if length cns \<le> 1 then Inr cns
      else if \<exists>c \<in> set cns. mc_startedAt c = None then Inl TypeError
      else Inr (sort_key (\<lambda>c. or_else (mc_startedAt c) 0) cns))"

definition createConsumptionsFromMeterValues ::
  "'a ocpp_env_scheme \<Rightarrow> charging_station \<Rightarrow> transaction \<Rightarrow> meter_value list \<Rightarrow>
   (charging_station \<times> transaction \<times> meter_consumption list) res" where
  "createConsumptionsFromMeterValues env cs t mvs =
     bindE (consume_meter_values env cs t mvs []) (\<lambda>(cs', t', cns).
     bindE (sort_consumptions (map (assertConsistencyInConsumption cs' (tx_connectorId t')) cns)) (\<lambda>cns'.
       Inr (cs', t', cns')))"

section \<open>Updating the transaction\<close>

definition updateTransactionWithConsumption ::
  "int \<Rightarrow> charging_station \<Rightarrow> transaction \<Rightarrow> meter_consumption \<Rightarrow> transaction" where
  "updateTransactionWithConsumption now cs t c =
     (let r = tx_run t;
          soc = or_num (mc_stateOfCharge c) 0;
          r' = r\<lparr>rt_currentConsumptionWh := or_num (mc_consumptionWh c) 0,
                 rt_currentTotalConsumptionWh := or_num (mc_cumulatedConsumptionWh c) 0,
                 rt_watts := float_readings (mc_watts c),
                 rt_volts := float_readings (mc_volts c),
                 rt_amps := float_readings (mc_amps c),
                 rt_currentTimestamp := Some (mc_endedAt c),
                 rt_currentStateOfCharge := soc,
                 rt_currentTotalDurationSecs := Some (secs_between
                    (case rt_lastConsumption r of None \<Rightarrow> now | Some lc \<Rightarrow> lc_timestamp lc) (tx_timestamp t)),
                 rt_currentInactivityStatus :=
                    getInactivityStatusLevel cs (tx_connectorId t) (Some (rt_currentTotalInactivitySecs r))\<rparr>
      in t\<lparr>tx_run := r', tx_stateOfCharge := (if tx_stateOfCharge t = 0 then soc else tx_stateOfCharge t)\<rparr>)"

record stop_request =
  sr_transactionId :: int
  sr_meterStop :: rat
  sr_timestamp :: int
  sr_reason :: "string option"
  sr_idTag :: "string option"
  sr_transactionData :: "sampled_value list"

definition updateTransactionWithStopTransaction ::
  "charging_station \<Rightarrow> transaction \<Rightarrow> stop_request \<Rightarrow> user option \<Rightarrow> user option \<Rightarrow> string option \<Rightarrow> bool \<Rightarrow> transaction" where
  "updateTransactionWithStopTransaction cs t req usr alternateUser tagId isSoftStop =
     (let r = tx_run t in
      t\<lparr>tx_stop := Some \<lparr> stop_timestamp = sr_timestamp req, stop_meterStop = sr_meterStop req,
         stop_reason = sr_reason req, stop_tagID = tagId,
         stop_userID = (case alternateUser of Some u \<Rightarrow> Some (usr_id u) | None \<Rightarrow> map_option usr_id usr),
         stop_price = rt_currentCumulatedPrice r, stop_roundedPrice = rt_currentCumulatedRoundedPrice r,
         stop_priceUnit = tx_priceUnit t, stop_pricingSource = tx_pricingSource t,
         stop_stateOfCharge = rt_currentStateOfCharge r,
         stop_totalInactivitySecs = rt_currentTotalInactivitySecs r,
         stop_extraInactivitySecs = 0, stop_extraInactivityComputed = isSoftStop,
         stop_totalConsumptionWh = rt_currentTotalConsumptionWh r,
         stop_totalDurationSecs = rt_currentTotalDurationSecs r,
         stop_inactivityStatus =
           getInactivityStatusLevel cs (tx_connectorId t) (Some (rt_currentTotalInactivitySecs r)),
         stop_signedData = or_else (rt_currentSignedData r) [] \<rparr>\<rparr>)"

text \<open>The meter values that close a session: the final register, then the last known readings.\<close>

definition raw_attribute :: "OCPPMeasurand \<Rightarrow> OCPPUnitOfMeasure \<Rightarrow> OCPPLocation \<Rightarrow> OCPPPhase option \<Rightarrow> ocpp_attribute" where
  "raw_attribute measurand u loc ph = \<lparr> at_context = Some SAMPLE_PERIODIC, at_format = Some RAW,
     at_measurand = Some measurand, at_phase = ph, at_location = Some loc, at_unit = Some u \<rparr>"

definition OCPP_ENERGY_ACTIVE_IMPORT_REGISTER_ATTRIBUTE :: ocpp_attribute where
  "OCPP_ENERGY_ACTIVE_IMPORT_REGISTER_ATTRIBUTE = raw_attribute ENERGY_ACTIVE_IMPORT_REGISTER WATT_HOUR OUTLET None"

definition OCPP_SOC_ATTRIBUTE :: ocpp_attribute where
  "OCPP_SOC_ATTRIBUTE = raw_attribute STATE_OF_CHARGE PERCENT EV None"

definition stop_value :: "transaction \<Rightarrow> stop_request \<Rightarrow> rat \<Rightarrow> ocpp_attribute \<Rightarrow> meter_value" where
  "stop_value t req v a = \<lparr> mv_connectorId = tx_connectorId t, mv_transactionId = Some (tx_id t),
     mv_timestamp = sr_timestamp req, mv_attribute = Some a, mv_value = Number (Some v) \<rparr>"

definition stop_lines ::
  "transaction \<Rightarrow> stop_request \<Rightarrow> OCPPMeasurand \<Rightarrow> OCPPUnitOfMeasure \<Rightarrow> (rat \<Rightarrow> rat) \<Rightarrow> readings \<Rightarrow> meter_value list" where
  "stop_lines t req measurand u perPhase r =
     (let att = raw_attribute measurand u OUTLET;
          line = (\<lambda>ph x. if pos x then [stop_value t req (or_num x 0) (att ph)] else [])
      in (if pos (rd_total r) \<or> pos (rd_DC r) then
            [stop_value t req (if truthy_num (rd_total r) then perPhase (or_num (rd_total r) 0) else or_num (rd_DC r) 0) (att None)]
          else [])
         @ line (Some L1) (rd_L1 r) @ line (Some L2) (rd_L2 r) @ line (Some L3) (rd_L3 r))"

definition createTransactionStopMeterValues :: "charging_station \<Rightarrow> transaction \<Rightarrow> stop_request \<Rightarrow> meter_value list" where
  "createTransactionStopMeterValues cs t req =
     (let r = tx_run t;
          phases = of_int (getNumberOfConnectedPhases cs None (tx_connectorId t)) in
      [stop_value t req (sr_meterStop req) OCPP_ENERGY_ACTIVE_IMPORT_REGISTER_ATTRIBUTE]
      @ (if rt_currentStateOfCharge r > 0 then [stop_value t req (rt_currentStateOfCharge r) OCPP_SOC_ATTRIBUTE] else [])
      @ stop_lines t req VOLTAGE VOLT id (rt_volts r)
      @ stop_lines t req CURRENT_IMPORT AMP (\<lambda>a. a / phases) (rt_amps r)
      @ stop_lines t req POWER_ACTIVE_IMPORT WATT id (rt_watts r))"

definition createFirstConsumption ::
  "'a ocpp_env_scheme \<Rightarrow> charging_station \<Rightarrow> transaction \<Rightarrow> (charging_station \<times> transaction \<times> meter_consumption option) res" where
  "createFirstConsumption env cs t =
     createConsumptionFromMeterValue env cs t (Some \<lparr> lc_value = tx_meterStart t, lc_timestamp = tx_timestamp t \<rparr>)
       \<lparr> mv_connectorId = tx_connectorId t, mv_transactionId = Some (tx_id t), mv_timestamp = tx_timestamp t,
         mv_attribute = Some OCPP_ENERGY_ACTIVE_IMPORT_REGISTER_ATTRIBUTE, mv_value = Number (Some (tx_meterStart t)) \<rparr>"

section \<open>Pricing a consumption\<close>

datatype TransactionAction = START | UPDATE | STOP | END

definition pricing_view :: "meter_consumption \<Rightarrow> consumption" where
  "pricing_view c = \<lparr> cn_startedAt = or_else (mc_startedAt c) 0, cn_endedAt = mc_endedAt c,
     cn_consumptionWh = mc_consumptionWh c, cn_cumulatedConsumptionWh = or_else (mc_cumulatedConsumptionWh c) 0,
     cn_inactivitySecs = mc_inactivitySecs c, cn_totalInactivitySecs = mc_totalInactivitySecs c,
     cn_totalDurationSecs = mc_totalDurationSecs c \<rparr>"

definition updateCumulatedAmounts ::
  "transaction \<Rightarrow> meter_consumption \<Rightarrow> priced_consumption \<Rightarrow> transaction \<times> meter_consumption" where
  "updateCumulatedAmounts t c pc =
     (upd_run (\<lambda>r. r\<lparr>rt_currentCumulatedPrice := Some (pc_cumulatedAmount pc),
                     rt_currentCumulatedRoundedPrice := Some (pc_cumulatedRoundedAmount pc)\<rparr>) t,
      c\<lparr>mc_amount := Some (pc_amount pc), mc_roundedAmount := Some (pc_roundedAmount pc),
        mc_currencyCode := Some (pc_currencyCode pc), mc_pricingSource := Some (pc_pricingSource pc),
        mc_cumulatedAmount := Some (pc_cumulatedAmount pc)\<rparr>)"

text \<open>
  \<^verbatim>\<open>processTransactionPricing\<close> with the built-in pricing. A model the transaction already has is priced in
  place; a model resolved here is kept in the transaction by the \<^verbatim>\<open>START\<close> action only.
\<close>

definition processTransactionPricing ::
  "'a ocpp_env_scheme \<Rightarrow> transaction \<Rightarrow> charging_station \<Rightarrow> meter_consumption \<Rightarrow> TransactionAction \<Rightarrow>
   (transaction \<times> meter_consumption) res" where
  "processTransactionPricing env t cs c action =
     (case pe_currency env of
        None \<Rightarrow> Inr (t, c)
      | Some currency \<Rightarrow>
          bindE (computePrice env currency t (pricing_view c) cs) (\<lambda>(m, pc).
            (let (t1, c1) = updateCumulatedAmounts t c pc;
                 t2 = (if action = START then
                         t1\<lparr>tx_price := Some (pc_amount pc), tx_roundedPrice := Some (pc_roundedAmount pc),
                            tx_priceUnit := Some (pc_currencyCode pc), tx_pricingSource := Some (pc_pricingSource pc),
                            tx_pricingModel := Some m\<rparr>
                       else t1\<lparr>tx_pricingModel := map_option (\<lambda>_. m) (tx_pricingModel t)\<rparr>)
             in Inr (t2, c1))))"

text \<open>The consumption of the time the car stayed after the end of the session, from the last one.\<close>

definition buildExtraConsumptionInactivity :: "transaction \<Rightarrow> meter_consumption option \<Rightarrow> meter_consumption option" where
  "buildExtraConsumptionInactivity t lastc =
     (case tx_stop t of
        None \<Rightarrow> None
      | Some st \<Rightarrow>
          if stop_extraInactivitySecs st > 0 then
            map_option (\<lambda>c. c\<lparr>
                mc_startedAt := Some (stop_timestamp st),
                mc_endedAt := stop_timestamp st + \<lfloor>stop_extraInactivitySecs st * 1000\<rfloor>,
                mc_inactivitySecs := Some (stop_extraInactivitySecs st),
                mc_totalDurationSecs := Some (or_num (mc_totalDurationSecs c) 0 + stop_extraInactivitySecs st),
                mc_totalInactivitySecs := Some (or_num (mc_totalInactivitySecs c) 0 + stop_extraInactivitySecs st),
                mc_consumptionAmps := Some 0, mc_consumptionWh := Some 0,
                mc_amps := zero_readings, mc_watts := zero_readings, mc_toPrice := True\<rparr>) lastc
          else None)"

text \<open>The transaction after the extra inactivity, with the consumption to save.\<close>

definition buildAndPriceExtraConsumptionInactivity ::
  "'a ocpp_env_scheme \<Rightarrow> charging_station \<Rightarrow> transaction \<Rightarrow> meter_consumption option \<Rightarrow>
   (transaction \<times> meter_consumption option) res" where
  "buildAndPriceExtraConsumptionInactivity env cs t lastc =
     (case buildExtraConsumptionInactivity t lastc of
        None \<Rightarrow> Inr (t, None)
      | Some c \<Rightarrow>
          bindE (processTransactionPricing env t cs c END) (\<lambda>(t', c').
            Inr (t'\<lparr>tx_stop := map_option (\<lambda>st. st\<lparr>
                   stop_timestamp := mc_endedAt c',
                   stop_totalDurationSecs := Some (secs_between (mc_endedAt c') (tx_timestamp t')),
                   stop_price := rt_currentCumulatedPrice (tx_run t'),
                   stop_roundedPrice := rt_currentCumulatedRoundedPrice (tx_run t')\<rparr>) (tx_stop t')\<rparr>,
                 Some c')))"

section \<open>What a request changes before its consumptions\<close>

definition text_of :: "mv_value \<Rightarrow> string" where
  "text_of v = (case v of Text s \<Rightarrow> s | Number _ \<Rightarrow> [])"

definition clear_instant_readings :: "runtime \<Rightarrow> runtime" where
  "clear_instant_readings r = r\<lparr>rt_watts := zero_readings, rt_volts := zero_readings, rt_amps := zero_readings,
     rt_transactionEndReceived := True\<rparr>"

text \<open>\<^verbatim>\<open>updateSignedData\<close>: \<open>None\<close> when the value is not signed data of the begin or the end.\<close>

definition updateSignedData :: "transaction \<Rightarrow> ocpp_attribute \<Rightarrow> mv_value \<Rightarrow> transaction option" where
  "updateSignedData t a v =
     (if at_format a \<noteq> Some SIGNED_DATA then None
      else if at_context a = Some TRANSACTION_BEGIN then Some (t\<lparr>tx_signedData := text_of v\<rparr>)
      else if at_context a = Some TRANSACTION_END then Some (upd_run (\<lambda>r. r\<lparr>rt_currentSignedData := Some (text_of v)\<rparr>) t)
      else None)"

definition update_with_value :: "charging_station \<Rightarrow> transaction \<Rightarrow> meter_value \<Rightarrow> transaction res" where
  "update_with_value cs t mv =
     (case mv_attribute mv of
        None \<Rightarrow> Inl TypeError
      | Some a \<Rightarrow>
          (let at_end = at_context a = Some TRANSACTION_END;
               t1 = (if at_end \<and> \<not> rt_transactionEndReceived (tx_run t) then upd_run clear_instant_readings t else t);
               v = reading (mv_value mv);
               ct = getChargingStationCurrentType cs None (tx_connectorId t) in
           case updateSignedData t1 a (mv_value mv) of
             Some t2 \<Rightarrow> Inr t2
           | None \<Rightarrow>
               if at_measurand a = Some STATE_OF_CHARGE \<and> at_context a = Some TRANSACTION_BEGIN then
                 Inr (t1\<lparr>tx_stateOfCharge := v\<rparr>)
               else if at_measurand a = Some STATE_OF_CHARGE \<and> at_end then
                 Inr (upd_run (\<lambda>r. r\<lparr>rt_currentStateOfCharge := v\<rparr>) t1)
               else if at_measurand a = Some VOLTAGE \<and> at_end then
                 Inr (upd_run (\<lambda>r. r\<lparr>rt_volts := set_voltage ct (at_phase a) v (rt_volts r)\<rparr>) t1)
               else if at_measurand a = Some POWER_ACTIVE_IMPORT \<and> at_end then
                 Inr (upd_run (\<lambda>r. r\<lparr>rt_watts :=
                   set_power ct (at_phase a) (if at_unit a = Some KILO_WATT then v * 1000 else v) (rt_watts r)\<rparr>) t1)
               else if at_measurand a = Some CURRENT_IMPORT \<and> at_end then
                 Inr (upd_run (\<lambda>r. r\<lparr>rt_amps :=
                   set_current ct (getNumberOfConnectedPhases cs None (tx_connectorId t)) (at_phase a) v (rt_amps r)\<rparr>) t1)
               else if isEnergyActiveImportMeterValue mv then
                 Inr (upd_run (\<lambda>r. r\<lparr>rt_numberOfMeterValues := rt_numberOfMeterValues r + 1\<rparr>) t1)
               else Inr t1))"

fun updateTransactionWithMeterValues :: "charging_station \<Rightarrow> transaction \<Rightarrow> meter_value list \<Rightarrow> transaction res" where
  "updateTransactionWithMeterValues cs t [] = Inr t"
| "updateTransactionWithMeterValues cs t (mv # mvs) =
     bindE (update_with_value cs t mv) (\<lambda>t'. updateTransactionWithMeterValues cs t' mvs)"

section \<open>Lemmas: what a meter value may change\<close>

text \<open>The meter account of a session: the energy counted so far is the last register less the first.\<close>

definition last_of :: "transaction \<Rightarrow> last_consumption" where
  "last_of t = first_last t (rt_lastConsumption (tx_run t))"

definition meter_account :: "transaction \<Rightarrow> bool" where
  "meter_account t = (rt_currentTotalConsumptionWh (tx_run t) = lc_value (last_of t) - tx_meterStart t)"

text \<open>Steps that only move the account forward.\<close>

definition forward :: "transaction \<Rightarrow> transaction \<Rightarrow> bool" where
  "forward t t' =
     (tx_meterStart t' = tx_meterStart t \<and> tx_connectorId t' = tx_connectorId t \<and> tx_timestamp t' = tx_timestamp t
      \<and> tx_stop t' = tx_stop t
      \<and> lc_value (last_of t) \<le> lc_value (last_of t')
      \<and> rt_currentTotalConsumptionWh (tx_run t') - rt_currentTotalConsumptionWh (tx_run t)
          = lc_value (last_of t') - lc_value (last_of t))"

lemma forward_refl [simp]: "forward t t"
  by (simp add: forward_def)

lemma forward_trans: "forward t u \<Longrightarrow> forward u v \<Longrightarrow> forward t v"
  by (auto simp: forward_def)

lemma forward_account: "forward t t' \<Longrightarrow> meter_account t \<Longrightarrow> meter_account t'"
  by (auto simp: forward_def meter_account_def)

lemma last_of_set_last [simp]: "last_of (set_last v mv t) = \<lparr> lc_value = v, lc_timestamp = mv_timestamp mv \<rparr>"
  by (simp add: last_of_def first_last_def set_last_def)

lemma set_last_simps [simp]:
  "tx_meterStart (set_last v mv t) = tx_meterStart t" "tx_connectorId (set_last v mv t) = tx_connectorId t"
  "tx_timestamp (set_last v mv t) = tx_timestamp t" "tx_stop (set_last v mv t) = tx_stop t"
  "rt_currentTotalConsumptionWh (tx_run (set_last v mv t)) = rt_currentTotalConsumptionWh (tx_run t)"
  "rt_currentTotalInactivitySecs (tx_run (set_last v mv t)) = rt_currentTotalInactivitySecs (tx_run t)"
  by (simp_all add: set_last_def)

lemma last_of_upd_run [simp]:
  "(\<And>r. rt_lastConsumption (f r) = rt_lastConsumption r) \<Longrightarrow> last_of (upd_run f t) = last_of t"
  by (simp add: last_of_def first_last_def)

lemma idle_simps [simp]:
  "last_of (fst (idle cs secs t c)) = last_of t"
  "tx_meterStart (fst (idle cs secs t c)) = tx_meterStart t" "tx_connectorId (fst (idle cs secs t c)) = tx_connectorId t"
  "tx_timestamp (fst (idle cs secs t c)) = tx_timestamp t" "tx_stop (fst (idle cs secs t c)) = tx_stop t"
  "rt_currentTotalConsumptionWh (tx_run (fst (idle cs secs t c))) = rt_currentTotalConsumptionWh (tx_run t)"
  "mc_consumptionWh (snd (idle cs secs t c)) = Some 0" "mc_endedAt (snd (idle cs secs t c)) = mc_endedAt c"
  "mc_startedAt (snd (idle cs secs t c)) = mc_startedAt c"
  by (simp_all add: idle_def Let_def)

lemma delivered_simps [simp]:
  "last_of (fst (delivered cs mv v d t c)) = \<lparr> lc_value = v, lc_timestamp = mv_timestamp mv \<rparr>"
  "tx_meterStart (fst (delivered cs mv v d t c)) = tx_meterStart t"
  "tx_connectorId (fst (delivered cs mv v d t c)) = tx_connectorId t"
  "tx_timestamp (fst (delivered cs mv v d t c)) = tx_timestamp t" "tx_stop (fst (delivered cs mv v d t c)) = tx_stop t"
  "rt_currentTotalConsumptionWh (tx_run (fst (delivered cs mv v d t c))) = rt_currentTotalConsumptionWh (tx_run t) + d"
  "rt_currentTotalInactivitySecs (tx_run (fst (delivered cs mv v d t c))) = rt_currentTotalInactivitySecs (tx_run t)"
  "mc_consumptionWh (snd (delivered cs mv v d t c)) = Some d" "mc_endedAt (snd (delivered cs mv v d t c)) = mc_endedAt c"
  "mc_startedAt (snd (delivered cs mv v d t c)) = mc_startedAt c"
  by (simp_all add: delivered_def)

lemma energy_effect:
  assumes "energy_consumption cs t (last_of t) mv c = (t', c')"
  shows "forward t t'"
    and "mc_consumptionWh c' = Some (rt_currentTotalConsumptionWh (tx_run t') - rt_currentTotalConsumptionWh (tx_run t))"
    and "mc_cumulatedConsumptionWh c' = Some (rt_currentTotalConsumptionWh (tx_run t'))"
    and "mc_endedAt c' = mc_endedAt c" and "mc_startedAt c' = mc_startedAt c" and "mc_toPrice c'"
  using assms
  by (auto simp: energy_consumption_def Let_def split_def forward_def split: option.splits if_splits)

end
