(* ===== verification/Meter_Laws.thy ===== *)
theory Meter_Laws
  imports Meter_Values "HOL-Library.Multiset"
begin

text \<open>
  What a request of meter values does to the session: the energy account, the inactivity, the
  consistency of the power readings, the consumptions of the end of the session. The lemmas follow
  \<open>consume_meter_values\<close>, the loop of \<^verbatim>\<open>createConsumptionsFromMeterValues\<close>; the properties are at
  the end.
\<close>

section \<open>One meter value\<close>

text \<open>The values that reach the energy branch.\<close>

definition carries_energy :: "meter_value \<Rightarrow> bool" where
  "carries_energy mv = (mv_attribute mv \<noteq> None \<and> isEnergyActiveImportMeterValue mv)"

definition energy_of :: "meter_consumption \<Rightarrow> rat" where
  "energy_of c = or_num (mc_consumptionWh c) 0"

lemmas classify = isSocMeterValue_def isEnergyActiveImportMeterValue_def isPowerActiveImportMeterValue_def
  isCurrentImportMeterValue_def isVoltageMeterValue_def isValidMeterValue_def has_attribute_def carries_energy_def

lemma carries_energy_branch:
  "carries_energy mv \<longleftrightarrow> isValidMeterValue mv \<and> \<not> isSocMeterValue mv \<and> \<not> isPowerActiveImportMeterValue mv
     \<and> \<not> isVoltageMeterValue mv \<and> \<not> isCurrentImportMeterValue mv"
  by (auto simp: classify split: option.splits)

lemma initial_consumption_simps [simp]:
  "mc_consumptionWh (initial_consumption t e) = None" "mc_endedAt (initial_consumption t e) = e"
  "mc_startedAt (initial_consumption t e) = None" "mc_toPrice (initial_consumption t e) = False"
  by (simp_all add: initial_consumption_def)

lemma connector_limit_keeps:
  "addConnectorLimitationToConsumption env cs cid c = Inr c' \<Longrightarrow>
     mc_endedAt c' = mc_endedAt c \<and> mc_startedAt c' = mc_startedAt c"
  by (auto simp: addConnectorLimitationToConsumption_def Let_def split: option.splits elim!: bindE_InrE)

lemma site_limit_keeps:
  "addSiteLimitationToConsumption env cs c = Inr (cs', c') \<Longrightarrow>
     mc_endedAt c' = mc_endedAt c \<and> mc_startedAt c' = mc_startedAt c \<and> cs_connectors cs' = cs_connectors cs
     \<and> cs_chargePoints cs' = cs_chargePoints cs"
  by (auto simp: addSiteLimitationToConsumption_def Let_def split: option.splits if_splits elim!: bindE_InrE)

text \<open>The effect of one meter value, by the branch it takes.\<close>

lemma other_value:
  assumes "createConsumptionFromMeterValue env cs t lco mv = Inr (cs', t', co)" and "\<not> carries_energy mv"
  shows "cs' = cs" and "t' = t"
    and "\<And>c. co = Some c \<Longrightarrow> mc_consumptionWh c = None \<and> mc_startedAt c = None \<and> \<not> mc_toPrice c
           \<and> mc_endedAt c = mv_timestamp mv"
  using assms unfolding carries_energy_branch
  by (auto simp: createConsumptionFromMeterValue_def Let_def split: if_splits)

lemma energy_value:
  assumes "createConsumptionFromMeterValue env cs t (rt_lastConsumption (tx_run t)) mv = Inr (cs', t', co)"
    and "carries_energy mv"
  obtains c c2 where "co = Some c" and "energy_consumption cs' t (last_of t) mv c2 = (t', c)"
    and "mc_endedAt c = mv_timestamp mv" and "mc_startedAt c = Some (lc_timestamp (last_of t))"
proof -
  from assms(2) have "isValidMeterValue mv" "\<not> isSocMeterValue mv" "\<not> isPowerActiveImportMeterValue mv"
    "\<not> isVoltageMeterValue mv" "\<not> isCurrentImportMeterValue mv"
    by (simp_all add: carries_energy_branch)
  with assms(1) obtain c1 c2 c where
    "addConnectorLimitationToConsumption env cs (tx_connectorId t)
       ((initial_consumption t (mv_timestamp mv))\<lparr>mc_startedAt := Some (lc_timestamp (last_of t))\<rparr>) = Inr c1"
    and "addSiteLimitationToConsumption env cs c1 = Inr (cs', c2)"
    and e: "energy_consumption cs' t (last_of t) mv c2 = (t', c)" and "co = Some c"
    unfolding createConsumptionFromMeterValue_def
    by (auto simp: Let_def last_of_def elim!: bindE_InrE split: prod.splits)
  moreover from this(1,2) have "mc_endedAt c2 = mv_timestamp mv \<and> mc_startedAt c2 = Some (lc_timestamp (last_of t))"
    by (auto dest!: connector_limit_keeps site_limit_keeps)
  ultimately show thesis
    using that[of c c2] energy_effect(4,5)[OF e] by simp
qed

lemma value_forward:
  assumes "createConsumptionFromMeterValue env cs t (rt_lastConsumption (tx_run t)) mv = Inr (cs', t', co)"
  shows "forward t t'"
proof (cases "carries_energy mv")
  case True
  with assms show ?thesis by (auto elim: energy_value intro: energy_effect(1))
next
  case False
  with assms show ?thesis by (simp add: other_value(2)[OF assms])
qed

lemma value_energy:
  assumes "createConsumptionFromMeterValue env cs t (rt_lastConsumption (tx_run t)) mv = Inr (cs', t', co)"
  shows "rt_currentTotalConsumptionWh (tx_run t') = rt_currentTotalConsumptionWh (tx_run t)
           + (case co of None \<Rightarrow> 0 | Some c \<Rightarrow> energy_of c)"
    and "co = Some c \<Longrightarrow> mc_endedAt c = mv_timestamp mv \<and> mc_toPrice c = carries_energy mv
           \<and> (\<not> mc_toPrice c \<longrightarrow> mc_consumptionWh c = None) \<and> 0 \<le> energy_of c"
proof -
  consider "carries_energy mv" | "\<not> carries_energy mv" by blast
  then have "rt_currentTotalConsumptionWh (tx_run t') = rt_currentTotalConsumptionWh (tx_run t)
           + (case co of None \<Rightarrow> 0 | Some c \<Rightarrow> energy_of c)
     \<and> (\<forall>c. co = Some c \<longrightarrow> mc_endedAt c = mv_timestamp mv \<and> mc_toPrice c = carries_energy mv
           \<and> (\<not> mc_toPrice c \<longrightarrow> mc_consumptionWh c = None) \<and> 0 \<le> energy_of c)"
  proof cases
    case 1
    with assms obtain c c2 where co: "co = Some c" and e: "energy_consumption cs' t (last_of t) mv c2 = (t', c)"
      and "mc_endedAt c = mv_timestamp mv" by (rule energy_value)
    with energy_effect(1,2,6)[OF e] 1 show ?thesis
      by (auto simp: energy_of_def or_num_zero forward_def)
  next
    case 2
    with other_value[OF assms 2] show ?thesis
      by (cases co) (auto simp: energy_of_def)
  qed
  then show "rt_currentTotalConsumptionWh (tx_run t') = rt_currentTotalConsumptionWh (tx_run t)
           + (case co of None \<Rightarrow> 0 | Some c \<Rightarrow> energy_of c)"
    and "co = Some c \<Longrightarrow> mc_endedAt c = mv_timestamp mv \<and> mc_toPrice c = carries_energy mv
           \<and> (\<not> mc_toPrice c \<longrightarrow> mc_consumptionWh c = None) \<and> 0 \<le> energy_of c"
    by blast+
qed

section \<open>Collecting consumptions\<close>

lemma sum_list_update_diff: "i < length xs \<Longrightarrow> sum_list (xs[i := y]) = sum_list xs - xs ! i + y"
  for y :: "'a::ab_group_add"
  by (induction xs arbitrary: i) (auto simp: algebra_simps split: nat.split)

lemma merge_simps [simp]:
  "mc_endedAt (merge_consumption c x) = mc_endedAt c"
  "mc_toPrice (merge_consumption c x) = (mc_toPrice c \<or> mc_toPrice x)"
  "mc_consumptionWh (merge_consumption c x) = (if mc_toPrice c then mc_consumptionWh c else mc_consumptionWh x)"
  "mc_startedAt (merge_consumption c x) = (if mc_toPrice c then mc_startedAt c else mc_startedAt x)"
  by (auto simp: merge_consumption_def over_energy_def)

lemma add_consumption_cases:
  obtains "\<forall>x \<in> set cns. mc_endedAt x \<noteq> mc_endedAt c" and "add_consumption c cns = cns @ [c]"
  | i where "i < length cns" and "mc_endedAt (cns ! i) = mc_endedAt c"
      and "add_consumption c cns = cns[i := merge_consumption c (cns ! i)]"
  by (cases "first_index (\<lambda>x. mc_endedAt x = mc_endedAt c) cns")
    (auto simp: add_consumption_def first_index_None dest: first_index_Some)

lemma add_consumption_set:
  assumes "y \<in> set (add_consumption c cns)"
  shows "y \<in> set cns \<or> y = c \<or> (\<exists>x \<in> set cns. mc_endedAt x = mc_endedAt c \<and> y = merge_consumption c x)"
  using assms
  by (cases rule: add_consumption_cases[of cns c]) (auto dest!: subsetD[OF set_update_subset_insert])

text \<open>
  Consumptions without energy have no energy property yet; the energy of a new one is added to the
  list unless a consumption with energy of the same end is there.
\<close>

definition settled :: "int set \<Rightarrow> meter_consumption list \<Rightarrow> bool" where
  "settled pending cns = (\<forall>c \<in> set cns. (if mc_toPrice c then mc_endedAt c \<notin> pending else mc_consumptionWh c = None)
     \<and> 0 \<le> energy_of c)"

lemma add_consumption_energy:
  assumes "settled pending cns" and "\<not> mc_toPrice c \<longrightarrow> mc_consumptionWh c = None" and "0 \<le> energy_of c"
    and "mc_toPrice c \<longrightarrow> mc_endedAt c \<in> pending"
  shows "sum_list (map energy_of (add_consumption c cns)) = sum_list (map energy_of cns) + energy_of c"
    and "settled (if mc_toPrice c then pending - {mc_endedAt c} else pending) (add_consumption c cns)"
proof -
  show "sum_list (map energy_of (add_consumption c cns)) = sum_list (map energy_of cns) + energy_of c"
  proof (cases rule: add_consumption_cases[of cns c])
    case (2 i)
    then have "if mc_toPrice (cns ! i) then mc_endedAt c \<notin> pending else mc_consumptionWh (cns ! i) = None"
      using assms(1) unfolding settled_def by (metis nth_mem)
    with assms(2-) 2 show ?thesis
      by (auto simp: map_update sum_list_update_diff energy_of_def split: if_splits)
  qed simp
  show "settled (if mc_toPrice c then pending - {mc_endedAt c} else pending) (add_consumption c cns)"
    unfolding settled_def
  proof
    fix y assume "y \<in> set (add_consumption c cns)"
    from add_consumption_set[OF this] assms show "(if mc_toPrice y then mc_endedAt y \<notin>
        (if mc_toPrice c then pending - {mc_endedAt c} else pending) else mc_consumptionWh y = None) \<and> 0 \<le> energy_of y"
      by (auto simp: settled_def energy_of_def split: if_splits)
  qed
qed

lemma settled_mono: "settled P cns \<Longrightarrow> Q \<subseteq> P \<Longrightarrow> settled Q cns"
  unfolding settled_def by (metis subsetD)

definition energy_times :: "meter_value list \<Rightarrow> int list" where
  "energy_times mvs = map mv_timestamp (filter carries_energy mvs)"

lemma energy_times_simps [simp]:
  "energy_times [] = []"
  "energy_times (mv # mvs) = (if carries_energy mv then mv_timestamp mv # energy_times mvs else energy_times mvs)"
  by (simp_all add: energy_times_def)

lemma clock_filter_removes_nothing: "filterMeterValuesOnSpecificChargingStations cs mvs = mvs"
  by (simp add: filterMeterValuesOnSpecificChargingStations_def promise_def)

section \<open>The loop\<close>

text \<open>One turn of the loop, for the inductions below.\<close>

lemma consume_ConsE:
  assumes "consume_meter_values env cs t (mv # mvs) cns = Inr r"
  obtains (skip) "consume_meter_values env cs t mvs cns = Inr r"
  | (step) cs1 t1 co where
      "createConsumptionFromMeterValue env cs t (rt_lastConsumption (tx_run t)) mv = Inr (cs1, t1, co)"
      and "consume_meter_values env cs1 t1 mvs (case co of None \<Rightarrow> cns | Some c \<Rightarrow> add_consumption c cns) = Inr r"
      and "isValidMeterValue mv" and "\<not> in_the_past t mv"
  using assms by (auto split: if_split_asm elim!: bindE_InrE)

lemma consume_forward:
  "consume_meter_values env cs t mvs cns = Inr (cs', t', cns') \<Longrightarrow> forward t t'"
proof (induction mvs arbitrary: cs t cns)
  case (Cons mv mvs)
  from Cons.prems show ?case
  proof (cases rule: consume_ConsE)
    case (step cs1 t1 co)
    with Cons.IH[OF step(2)] value_forward[OF step(1)] show ?thesis by (blast intro: forward_trans)
  qed (use Cons.IH in blast)
qed simp

lemma consume_energy:
  assumes "consume_meter_values env cs t mvs cns = Inr (cs', t', cns')" and "distinct (energy_times mvs)"
    and "settled (set (energy_times mvs)) cns"
  shows "sum_list (map energy_of cns') - sum_list (map energy_of cns)
       = rt_currentTotalConsumptionWh (tx_run t') - rt_currentTotalConsumptionWh (tx_run t) \<and> settled {} cns'"
  using assms
proof (induction mvs arbitrary: cs t cns)
  case (Cons mv mvs)
  have rest: "settled (set (energy_times mvs)) cns" and "distinct (energy_times mvs)"
    using Cons.prems(2,3) by (auto elim: settled_mono split: if_splits)
  from Cons.prems(1) show ?case
  proof (cases rule: consume_ConsE)
    case skip
    with Cons.IH rest \<open>distinct (energy_times mvs)\<close> show ?thesis by blast
  next
    case (step cs1 t1 co)
    let ?cns = "case co of None \<Rightarrow> cns | Some c \<Rightarrow> add_consumption c cns"
    have "settled (set (energy_times mvs)) ?cns
        \<and> sum_list (map energy_of ?cns) = sum_list (map energy_of cns) + (case co of None \<Rightarrow> 0 | Some c \<Rightarrow> energy_of c)"
    proof (cases co)
      case (Some c)
      from value_energy(2)[OF step(1) Some] Cons.prems(2)
      have c: "\<not> mc_toPrice c \<longrightarrow> mc_consumptionWh c = None" "0 \<le> energy_of c"
        "mc_toPrice c \<longrightarrow> mc_endedAt c \<in> set (energy_times (mv # mvs))"
        "set (energy_times mvs) \<subseteq> (if mc_toPrice c then set (energy_times (mv # mvs)) - {mc_endedAt c}
            else set (energy_times (mv # mvs)))"
        by (auto split: if_splits)
      from add_consumption_energy[OF Cons.prems(3) c(1-3)] c(4) Some show ?thesis by (auto intro: settled_mono)
    qed (use rest in simp)
    moreover from Cons.IH[OF step(2)] calculation \<open>distinct (energy_times mvs)\<close>
    have "sum_list (map energy_of cns') - sum_list (map energy_of ?cns)
       = rt_currentTotalConsumptionWh (tx_run t') - rt_currentTotalConsumptionWh (tx_run t1) \<and> settled {} cns'"
      by blast
    ultimately show ?thesis using value_energy(1)[OF step(1)] by simp
  qed
qed (auto elim: settled_mono)

text \<open>The consistency pass and the sort do not touch the energy.\<close>

lemma assert_simps [simp]:
  "mc_consumptionWh (assertConsistencyInConsumption cs cid c) = mc_consumptionWh c"
  "mc_startedAt (assertConsistencyInConsumption cs cid c) = mc_startedAt c"
  "mc_endedAt (assertConsistencyInConsumption cs cid c) = mc_endedAt c"
  "mc_toPrice (assertConsistencyInConsumption cs cid c) = mc_toPrice c"
  "mc_cumulatedConsumptionWh (assertConsistencyInConsumption cs cid c) = mc_cumulatedConsumptionWh c"
  by (simp_all add: assertConsistencyInConsumption_def fill_DC_def fill_lines_def fill_amps_def fill_watts_def Let_def)

lemma sort_mset: "sort_consumptions cns = Inr cns' \<Longrightarrow> mset cns' = mset cns"
  by (auto simp: sort_consumptions_def split: if_splits)

lemma created_energy:
  assumes "createConsumptionsFromMeterValues env cs t mvs = Inr (cs', t', cns)"
  obtains raw where "consume_meter_values env cs t mvs [] = Inr (cs', t', raw)"
    and "mset cns = mset (map (assertConsistencyInConsumption cs' (tx_connectorId t')) raw)"
    and "sum_list (map energy_of cns) = sum_list (map energy_of raw)"
    and "\<forall>c \<in> set cns. \<exists>d \<in> set raw. energy_of c = energy_of d"
proof -
  from assms obtain raw where raw: "consume_meter_values env cs t mvs [] = Inr (cs', t', raw)"
    and "sort_consumptions (map (assertConsistencyInConsumption cs' (tx_connectorId t')) raw) = Inr cns"
    by (auto simp: createConsumptionsFromMeterValues_def elim!: bindE_InrE)
  from this(2) have m: "mset cns = mset (map (assertConsistencyInConsumption cs' (tx_connectorId t')) raw)"
    by (rule sort_mset)
  have e: "energy_of (assertConsistencyInConsumption a b c) = energy_of c" for a b c
    by (simp add: energy_of_def)
  have "mset (map energy_of cns) = mset (map energy_of raw)"
    using m by (simp add: e image_mset.compositionality comp_def)
  then have "sum_list (map energy_of cns) = sum_list (map energy_of raw)" by (metis sum_mset_sum_list)
  moreover have "\<forall>c \<in> set cns. \<exists>d \<in> set raw. energy_of c = energy_of d"
    using m mset_eq_setD[OF m] by (auto simp: e)
  ultimately show thesis using that raw m by blast
qed

section \<open>Inactivity\<close>

definition inactivity :: "transaction \<Rightarrow> rat" where
  "inactivity t = rt_currentTotalInactivitySecs (tx_run t)"

text \<open>The registers of a request are numbers that do not go down.\<close>

fun rising :: "rat \<Rightarrow> meter_value list \<Rightarrow> bool" where
  "rising v [] = True"
| "rising v (mv # mvs) =
     (if carries_energy mv then (case meter_value_Wh mv of None \<Rightarrow> False | Some w \<Rightarrow> v \<le> w \<and> rising w mvs)
      else rising v mvs)"

lemma rising_mono: "rising w mvs \<Longrightarrow> v \<le> w \<Longrightarrow> rising v mvs"
  by (induction mvs arbitrary: v) (auto split: option.splits)

lemma energy_inactivity:
  assumes "energy_consumption cs t (last_of t) mv c = (t', c')" and "meter_value_Wh mv = Some w"
    and "lc_value (last_of t) \<le> w" and "lc_timestamp (last_of t) \<le> mv_timestamp mv"
  shows "inactivity t \<le> inactivity t'"
    and "inactivity t' - inactivity t \<le> secs_between (lc_timestamp (last_of t')) (lc_timestamp (last_of t))"
    and "last_of t' = \<lparr> lc_value = w, lc_timestamp = mv_timestamp mv \<rparr>"
  using assms
  by (auto simp: energy_consumption_def inactivity_def Let_def split_def idle_def secs_between_def
      split: if_splits)

lemma not_in_the_past:
  "\<not> in_the_past t mv \<Longrightarrow> tx_timestamp t \<le> mv_timestamp mv \<Longrightarrow> lc_timestamp (last_of t) \<le> mv_timestamp mv"
  by (auto simp: in_the_past_def last_of_def first_last_def split: option.splits)

lemma secs_between_trans: "secs_between c b + secs_between b a = secs_between c a"
  by (simp add: secs_between_def add_divide_distrib[symmetric])

lemma secs_between_same [simp]: "secs_between a a = 0"
  by (simp add: secs_between_def)

lemma consume_inactivity:
  assumes "consume_meter_values env cs t mvs cns = Inr (cs', t', cns')" and "rising (lc_value (last_of t)) mvs"
    and "\<forall>mv \<in> set mvs. tx_timestamp t \<le> mv_timestamp mv"
  shows "inactivity t \<le> inactivity t'
    \<and> inactivity t' - inactivity t \<le> secs_between (lc_timestamp (last_of t')) (lc_timestamp (last_of t))"
  using assms
proof (induction mvs arbitrary: cs t cns)
  case (Cons mv mvs)
  have rest: "rising (lc_value (last_of t)) mvs"
    using Cons.prems(2) by (auto elim: rising_mono split: if_splits option.splits)
  from Cons.prems(1) show ?case
  proof (cases rule: consume_ConsE)
    case skip
    from Cons.IH[OF skip rest] Cons.prems(3) show ?thesis by simp
  next
    case (step cs1 t1 co)
    have "forward t t1" by (rule value_forward[OF step(1)])
    then have ts: "\<forall>mv \<in> set mvs. tx_timestamp t1 \<le> mv_timestamp mv"
      using Cons.prems(3) by (simp add: forward_def)
    have one: "inactivity t \<le> inactivity t1
        \<and> inactivity t1 - inactivity t \<le> secs_between (lc_timestamp (last_of t1)) (lc_timestamp (last_of t))
        \<and> rising (lc_value (last_of t1)) mvs"
    proof (cases "carries_energy mv")
      case True
      with Cons.prems(2) obtain w where w: "meter_value_Wh mv = Some w" "lc_value (last_of t) \<le> w" "rising w mvs"
        by (auto split: option.splits)
      from step(1) True obtain c c2 where e: "energy_consumption cs1 t (last_of t) mv c2 = (t1, c)"
        by (rule energy_value)
      have "lc_timestamp (last_of t) \<le> mv_timestamp mv"
        using not_in_the_past[OF step(4)] Cons.prems(3) by simp
      from energy_inactivity[OF e w(1,2) this] w(3) show ?thesis by simp
    next
      case False
      with other_value(2)[OF step(1)] rest show ?thesis by simp
    qed
    from Cons.IH[OF step(2)] one ts show ?thesis
      using secs_between_trans[of "lc_timestamp (last_of t')" "lc_timestamp (last_of t1)" "lc_timestamp (last_of t)"]
      by auto
  qed
qed simp

section \<open>The end of a session\<close>

text \<open>Values of one time make one consumption.\<close>

lemma consume_one_time:
  assumes "consume_meter_values env cs t mvs [c] = Inr (cs', t', cns)"
    and "\<forall>mv \<in> set mvs. mv_timestamp mv = mc_endedAt c \<and> \<not> carries_energy mv"
  shows "t' = t \<and> cs' = cs \<and> (\<exists>d. cns = [d] \<and> mc_consumptionWh d = mc_consumptionWh c \<and> mc_endedAt d = mc_endedAt c
    \<and> mc_startedAt d = mc_startedAt c \<and> mc_toPrice d = mc_toPrice c)"
  using assms
proof (induction mvs arbitrary: c)
  case (Cons mv mvs)
  from Cons.prems(1) show ?case
  proof (cases rule: consume_ConsE)
    case skip
    with Cons.IH[of c] Cons.prems(2) show ?thesis by simp
  next
    case (step cs1 t1 co)
    from Cons.prems(2) have "\<not> carries_energy mv" "mv_timestamp mv = mc_endedAt c" by auto
    note o = other_value[OF step(1) this(1)]
    show ?thesis
    proof (cases co)
      case None
      with step(2) o Cons.IH[of c] Cons.prems(2) show ?thesis by simp
    next
      case (Some d)
      with o(3)[OF Some] \<open>mv_timestamp mv = mc_endedAt c\<close>
      have "consume_meter_values env cs t mvs [merge_consumption d c] = Inr (cs', t', cns)"
        using step(2) o(1,2) by (simp add: add_consumption_def)
      from Cons.IH[OF this] o(3)[OF Some] Cons.prems(2) \<open>mv_timestamp mv = mc_endedAt c\<close> show ?thesis by simp
    qed
  qed
qed auto

lemmas stop_values = stop_value_def stop_lines_def raw_attribute_def OCPP_ENERGY_ACTIVE_IMPORT_REGISTER_ATTRIBUTE_def
  OCPP_SOC_ATTRIBUTE_def

lemma stop_lines_values:
  "mv \<in> set (stop_lines t req m u f r) \<Longrightarrow> m \<noteq> ENERGY_ACTIVE_IMPORT_REGISTER \<Longrightarrow>
     mv_timestamp mv = sr_timestamp req \<and> \<not> carries_energy mv"
  by (auto simp: stop_values classify Let_def split: if_splits)

lemma stop_meter_values:
  obtains rest where "createTransactionStopMeterValues cs t req =
      stop_value t req (sr_meterStop req) OCPP_ENERGY_ACTIVE_IMPORT_REGISTER_ATTRIBUTE # rest"
    and "\<forall>mv \<in> set rest. mv_timestamp mv = sr_timestamp req \<and> \<not> carries_energy mv"
proof -
  have "\<not> carries_energy (stop_value t req v OCPP_SOC_ATTRIBUTE)" for v
    by (simp add: stop_values classify)
  then show thesis
    by (intro that[unfolded createTransactionStopMeterValues_def Let_def])
      (auto simp: stop_value_def dest: stop_lines_values)
qed

section \<open>A concrete request\<close>

definition ocpp_sample_env :: ocpp_env where
  "ocpp_sample_env = \<lparr> pe_tz = utc, pe_currency = Some ''EUR'', pe_tenantID = ''T1'',
     pe_definitions = (\<lambda>e i. if e = PricingEntity.CHARGING_STATION \<and> i = ''CS-1'' then [station_tariff] else []),
     oe_now = 200000, oe_offset = 0, oe_organization = False, oe_siteAreaStations = (\<lambda>_. []), oe_profiles = (\<lambda>_. []) \<rparr>"

definition energy_at :: "int \<Rightarrow> rat \<Rightarrow> meter_value" where
  "energy_at ts v = \<lparr> mv_connectorId = 1, mv_transactionId = Some 7, mv_timestamp = ts,
     mv_attribute = Some OCPP_ENERGY_ACTIVE_IMPORT_REGISTER_ATTRIBUTE, mv_value = Number (Some v) \<rparr>"

definition soc_at :: "int \<Rightarrow> rat \<Rightarrow> meter_value" where
  "soc_at ts v = \<lparr> mv_connectorId = 1, mv_transactionId = Some 7, mv_timestamp = ts,
     mv_attribute = Some OCPP_SOC_ATTRIBUTE, mv_value = Number (Some v) \<rparr>"

lemma energy_at_simps [simp]:
  "carries_energy (energy_at ts v)" "mv_timestamp (energy_at ts v) = ts"
  "meter_value_Wh (energy_at ts v) = Some v" "isValidMeterValue (energy_at ts v)"
  "isSocMeterValue (energy_at ts v) = False" "isPowerActiveImportMeterValue (energy_at ts v) = False"
  "isVoltageMeterValue (energy_at ts v) = False" "isCurrentImportMeterValue (energy_at ts v) = False"
  by (simp_all add: energy_at_def classify stop_values meter_value_Wh_def mv_unit_def convertToFloat_def)

lemma soc_at_simps [simp]:
  "\<not> carries_energy (soc_at ts v)" "mv_timestamp (soc_at ts v) = ts" "isSocMeterValue (soc_at ts v)"
  by (simp_all add: soc_at_def classify stop_values)

lemma sample_no_vendor [simp]: "getChargingStationVendorImpl (cs_chargePointVendor sample_station) = None"
  by (simp add: sample_station_def getChargingStationVendorImpl_def to_lower_def default_vendors_def)

text \<open>An energy value on the sample station: its limits are those of the connector.\<close>

lemma sample_energy:
  "createConsumptionFromMeterValue env sample_station t lco (energy_at ts v) =
     (let c = (initial_consumption t ts)\<lparr>mc_startedAt := Some (lc_timestamp (first_last t lco)),
         mc_limit := Some \<lparr> lim_amps = Option.bind (getConnectorFromID sample_station (tx_connectorId t)) con_amperageLimit,
           lim_watts = Option.bind (getConnectorFromID sample_station (tx_connectorId t)) con_power,
           lim_source = CONNECTOR \<rparr>\<rparr>;
       (t', c') = energy_consumption sample_station t (first_last t lco) (energy_at ts v) c
      in Inr (sample_station, t', Some c'))"
  by (simp add: createConsumptionFromMeterValue_def Let_def addConnectorLimitationToConsumption_def
      addSiteLimitationToConsumption_def sample_station_def getChargingStationVendorImpl_def to_lower_def
      default_vendors_def)

lemmas meter_eval = sample_energy energy_consumption_def first_last_def idle_def delivered_def set_last_def upd_run_def
  not_throttled_def in_the_past_def sample_transaction_def blank_runtime_def secs_between_def Let_def
  createConsumptionsFromMeterValues_def add_consumption_def sort_consumptions_def energy_of_def

lemma sample_request:
  "\<exists>t cns. createConsumptionsFromMeterValues ocpp_sample_env sample_station sample_transaction
     [energy_at 60000 1000, energy_at 120000 1000, energy_at 180000 1500] = Inr (sample_station, t, cns)
   \<and> rt_currentTotalConsumptionWh (tx_run t) = 1500 \<and> inactivity t = 60
   \<and> last_of t = \<lparr> lc_value = 1500, lc_timestamp = 180000 \<rparr>"
  by (simp add: meter_eval inactivity_def last_of_def)

lemma sample_last: "last_of sample_transaction = \<lparr> lc_value = 0, lc_timestamp = 0 \<rparr>"
  by (simp add: last_of_def first_last_def sample_transaction_def)

definition sample_stop :: stop_request where
  "sample_stop = \<lparr> sr_transactionId = 7, sr_meterStop = 1000, sr_timestamp = 60000, sr_reason = None,
     sr_idTag = Some ''TAG'', sr_transactionData = [] \<rparr>"

lemma sample_stop_values:
  "createTransactionStopMeterValues sample_station sample_transaction sample_stop = [energy_at 60000 1000]"
  by (simp add: createTransactionStopMeterValues_def stop_values sample_transaction_def sample_stop_def blank_runtime_def
      no_readings_def energy_at_def Let_def)

definition phase_readings :: "rat \<Rightarrow> rat \<Rightarrow> rat \<Rightarrow> rat option \<Rightarrow> readings" where
  "phase_readings a b c tot = \<lparr> rd_total = tot, rd_L1 = Some a, rd_L2 = Some b, rd_L3 = Some c, rd_DC = None \<rparr>"

section \<open>The consistency pass\<close>

definition lines_total :: "readings \<Rightarrow> rat" where
  "lines_total r = or_num (rd_L1 r) 0 + or_num (rd_L2 r) 0 + or_num (rd_L3 r) 0"

definition nonneg_lines :: "readings \<Rightarrow> bool" where
  "nonneg_lines r = (0 \<le> or_num (rd_L1 r) 0 \<and> 0 \<le> or_num (rd_L2 r) 0 \<and> 0 \<le> or_num (rd_L3 r) 0)"

lemma any_line_total: "any_line r \<Longrightarrow> nonneg_lines r \<Longrightarrow> 0 < lines_total r"
  by (auto simp: any_line_def nonneg_lines_def lines_total_def pos_def or_num_zero split: option.splits)

lemma check_total_lines [simp]: "lines_total (check_total r) = lines_total r"
  by (simp add: check_total_def lines_total_def to_float_def Let_def split: option.split)

lemma any_line_truthy: "any_line r \<Longrightarrow> truthy_num (rd_L1 (check_total r)) \<or> truthy_num (rd_L2 (check_total r))
    \<or> truthy_num (rd_L3 (check_total r))"
  by (auto simp: any_line_def check_total_def to_float_def Let_def pos_def or_num_zero split: option.splits)

lemma check_total_None: "rd_total (check_total r) = None \<longleftrightarrow> rd_total r = None"
  by (simp add: check_total_def Let_def split: option.split)

text \<open>When the phases report a power, the later passes leave them alone, and the total too if it is there.\<close>

lemma fill_lines_given:
  "truthy_num (rd_L1 (mc_watts d)) \<or> truthy_num (rd_L2 (mc_watts d)) \<or> truthy_num (rd_L3 (mc_watts d)) \<Longrightarrow>
     fill_lines cs cid d = d"
  by (auto simp: fill_lines_def Let_def)

lemma assert_lines:
  assumes "any_line (mc_watts c)"
  shows "lines_total (mc_watts (assertConsistencyInConsumption cs cid c)) = lines_total (mc_watts c)"
proof -
  let ?c = "c\<lparr>mc_watts := check_total (mc_watts c), mc_amps := check_total (mc_amps c)\<rparr>"
  let ?d = "fill_amps cs cid (fill_watts cs cid ?c)"
  have w: "rd_L1 (mc_watts ?d) = rd_L1 (check_total (mc_watts c))" "rd_L2 (mc_watts ?d) = rd_L2 (check_total (mc_watts c))"
    "rd_L3 (mc_watts ?d) = rd_L3 (check_total (mc_watts c))"
    by (simp_all add: fill_watts_def fill_amps_def Let_def)
  then have "fill_lines cs cid ?d = ?d"
    using any_line_truthy[OF assms] by (intro fill_lines_given) (simp only: w)
  moreover have "lines_total (mc_watts (fill_DC ?d)) = lines_total (mc_watts ?d)"
    by (simp add: fill_DC_def lines_total_def)
  moreover have "lines_total (mc_watts ?d) = lines_total (check_total (mc_watts c))"
    by (simp only: lines_total_def w)
  ultimately show ?thesis by (simp add: assertConsistencyInConsumption_def)
qed

lemma fill_lines_total [simp]: "rd_total (mc_watts (fill_lines cs cid c)) = rd_total (mc_watts c)"
  by (simp add: fill_lines_def Let_def)

lemma fill_DC_total [simp]: "rd_total (mc_watts (fill_DC c)) = rd_total (mc_watts c)"
  by (simp add: fill_DC_def)

lemma fill_amps_watts [simp]: "mc_watts (fill_amps cs cid c) = mc_watts c"
  by (simp add: fill_amps_def Let_def)

lemma fill_watts_total:
  "rd_total (mc_watts (fill_watts cs cid c)) =
     (if truthy_num (rd_total (mc_watts c)) then rd_total (mc_watts c)
      else Some (if pos (rd_total (mc_amps c)) then
             (if pos (rd_total (mc_volts c)) then or_num (rd_total (mc_volts c)) 0 * or_num (rd_total (mc_amps c)) 0
              else convertAmpToWatt cs None cid (or_num (rd_total (mc_amps c)) 0))
           else average_watts c))"
  by (simp add: fill_watts_def Let_def)

lemma check_total_within:
  assumes "any_line r" and "nonneg_lines r" and "rd_total r = Some w"
  shows "\<exists>T. rd_total (check_total r) = Some T \<and> 0 < T \<and> lines_total r / (11/10) \<le> T \<and> T \<le> lines_total r * (11/10)"
proof -
  have "0 < lines_total r" using any_line_total[OF assms(1,2)] .
  with assms(1,3) show ?thesis
    by (auto simp: check_total_def Let_def lines_total_def[symmetric])
qed

lemma stop_consumption_value:
  assumes "createConsumptionsFromMeterValues env cs t (createTransactionStopMeterValues cs t req) = Inr (cs', t', cns)"
    and "meter_account t" and "lc_timestamp (last_of t) \<le> sr_timestamp req" and "lc_value (last_of t) \<le> sr_meterStop req"
  shows "rt_currentTotalConsumptionWh (tx_run t') = sr_meterStop req - tx_meterStart t
    \<and> (\<exists>c. cns = [c] \<and> mc_toPrice c \<and> mc_endedAt c = sr_timestamp req
         \<and> energy_of c = sr_meterStop req - lc_value (last_of t))"
proof -
  let ?v = "stop_value t req (sr_meterStop req) OCPP_ENERGY_ACTIVE_IMPORT_REGISTER_ATTRIBUTE"
  obtain rest where mvs: "createTransactionStopMeterValues cs t req = ?v # rest"
    and rest: "\<forall>mv \<in> set rest. mv_timestamp mv = sr_timestamp req \<and> \<not> carries_energy mv"
    by (rule stop_meter_values)
  have v: "carries_energy ?v" "isValidMeterValue ?v" "mv_timestamp ?v = sr_timestamp req"
    and wh: "meter_value_Wh ?v = Some (sr_meterStop req)"
    by (simp_all add: stop_values classify meter_value_Wh_def mv_unit_def convertToFloat_def)
  have now: "\<not> in_the_past t ?v"
    using assms(3) by (auto simp: in_the_past_def last_of_def first_last_def stop_value_def split: option.splits)
  from assms(1) obtain raw where "consume_meter_values env cs t (?v # rest) [] = Inr (cs', t', raw)"
    and m: "mset cns = mset (map (assertConsistencyInConsumption cs' (tx_connectorId t')) raw)"
    unfolding mvs by (rule created_energy)
  then obtain cs1 t1 co where s: "createConsumptionFromMeterValue env cs t (rt_lastConsumption (tx_run t)) ?v = Inr (cs1, t1, co)"
    and r: "consume_meter_values env cs1 t1 rest (case co of None \<Rightarrow> [] | Some c \<Rightarrow> add_consumption c []) = Inr (cs', t', raw)"
    using now v(2) by (auto elim!: bindE_InrE)
  from s v(1) obtain c c2 where co: "co = Some c" and e: "energy_consumption cs1 t (last_of t) ?v c2 = (t1, c)"
    and ended: "mc_endedAt c = mv_timestamp ?v" by (rule energy_value)
  from r co have r': "consume_meter_values env cs1 t1 rest [c] = Inr (cs', t', raw)" by (simp add: add_consumption_def)
  have "\<forall>mv \<in> set rest. mv_timestamp mv = mc_endedAt c \<and> \<not> carries_energy mv" using rest ended v(3) by simp
  from consume_one_time[OF r' this] m obtain d where d: "t' = t1" "raw = [d]" "mc_consumptionWh d = mc_consumptionWh c"
    "mc_endedAt d = mc_endedAt c" "mc_toPrice d = mc_toPrice c" by blast
  have l: "last_of t1 = \<lparr> lc_value = sr_meterStop req, lc_timestamp = sr_timestamp req \<rparr>"
    using energy_inactivity(3)[OF e wh assms(4)] assms(3) v(3) by simp
  from m d(2) obtain k where "cns = [k]" "k = assertConsistencyInConsumption cs' (tx_connectorId t') d" by simp
  with d energy_effect(1,2,6)[OF e] l ended v(3) assms(2) show ?thesis
    by (auto simp: energy_of_def forward_def meter_account_def or_num_zero)
qed

lemma stop_consumption_total:
  assumes "createConsumptionsFromMeterValues env cs t (createTransactionStopMeterValues cs t req) = Inr (cs', t', cns)"
    and "meter_account t" and "lc_timestamp (last_of t) \<le> sr_timestamp req" and "lc_value (last_of t) \<le> sr_meterStop req"
  shows "rt_currentTotalConsumptionWh (tx_run t') = sr_meterStop req - tx_meterStart t"
  using stop_consumption_value[OF assms] by blast

section \<open>Properties\<close>

text \<open>C21: making the consumptions of a request of meter values (\<^verbatim>\<open>createConsumptionsFromMeterValues\<close>, before the handler
  carries them over to the transaction) keeps the account of the session, the total energy being the last register
  less the first, and neither the total nor the register goes down.\<close>

theorem meter_values_account:
  assumes "createConsumptionsFromMeterValues env cs t mvs = Inr (cs', t', cns)" and "meter_account t"
  shows "meter_account t'
    \<and> rt_currentTotalConsumptionWh (tx_run t) \<le> rt_currentTotalConsumptionWh (tx_run t')
    \<and> lc_value (last_of t) \<le> lc_value (last_of t')"
proof -
  from assms(1) have "forward t t'" by (auto elim!: created_energy dest: consume_forward)
  with assms(2) show ?thesis by (auto simp: meter_account_def forward_def)
qed

theorem meter_values_account_witness:
  "\<exists>t cns. createConsumptionsFromMeterValues ocpp_sample_env sample_station sample_transaction
     [energy_at 60000 1000, energy_at 120000 1000, energy_at 180000 1500] = Inr (sample_station, t, cns) \<and> meter_account t"
proof -
  have "meter_account sample_transaction"
    by (simp add: meter_account_def sample_last, simp add: sample_transaction_def blank_runtime_def)
  with sample_request meter_values_account show ?thesis by blast
qed

text \<open>C27: when the energy values of a request have different timestamps, the energies of its consumptions
  are not negative and add up to the increase of the register: all the energy metered is priced, and only once.\<close>

theorem consumptions_sum_to_register:
  assumes "createConsumptionsFromMeterValues env cs t mvs = Inr (cs', t', cns)" and "distinct (energy_times mvs)"
  shows "sum_list (map energy_of cns) = lc_value (last_of t') - lc_value (last_of t) \<and> (\<forall>c \<in> set cns. 0 \<le> energy_of c)"
proof -
  from assms(1) obtain raw where raw: "consume_meter_values env cs t mvs [] = Inr (cs', t', raw)"
    and sums: "sum_list (map energy_of cns) = sum_list (map energy_of raw)"
    and each: "\<forall>c \<in> set cns. \<exists>d \<in> set raw. energy_of c = energy_of d"
    by (rule created_energy)
  have "settled (set (energy_times mvs)) []" by (simp add: settled_def)
  from consume_energy[OF raw assms(2) this] consume_forward[OF raw] sums each show ?thesis
    unfolding settled_def forward_def by fastforce
qed

theorem consumptions_sum_to_register_witness:
  "\<exists>t cns. createConsumptionsFromMeterValues ocpp_sample_env sample_station sample_transaction
     [energy_at 60000 1000, energy_at 120000 1000, energy_at 180000 1500] = Inr (sample_station, t, cns)
   \<and> sum_list (map energy_of cns) = 1500"
proof -
  from sample_request obtain t cns where
    r: "createConsumptionsFromMeterValues ocpp_sample_env sample_station sample_transaction
      [energy_at 60000 1000, energy_at 120000 1000, energy_at 180000 1500] = Inr (sample_station, t, cns)"
    and l: "last_of t = \<lparr> lc_value = 1500, lc_timestamp = 180000 \<rparr>" by blast
  from consumptions_sum_to_register[OF r] r l show ?thesis by (auto simp: sample_last)
qed

text \<open>Two equal energy values with one timestamp: the second overwrites the energy of the first with
  zero, so the session counts 1000 Wh and its only consumption, the one that is priced, has none.\<close>

theorem duplicate_value_loses_energy:
  "\<exists>t c. createConsumptionsFromMeterValues ocpp_sample_env sample_station sample_transaction
     [energy_at 60000 1000, energy_at 60000 1000] = Inr (sample_station, t, [c])
   \<and> rt_currentTotalConsumptionWh (tx_run t) = 1000 \<and> mc_toPrice c \<and> mc_consumptionWh c = Some 0"
  by (simp add: meter_eval)

text \<open>When the registers of a request do not go down, the inactivity it adds to the session is
  not negative and at most the time between the last consumptions before and after the request.\<close>

theorem inactivity_within_elapsed:
  assumes "createConsumptionsFromMeterValues env cs t mvs = Inr (cs', t', cns)"
    and "rising (lc_value (last_of t)) mvs" and "\<forall>mv \<in> set mvs. tx_timestamp t \<le> mv_timestamp mv"
  shows "inactivity t \<le> inactivity t'
    \<and> inactivity t' - inactivity t \<le> secs_between (lc_timestamp (last_of t')) (lc_timestamp (last_of t))"
proof -
  from assms(1) obtain raw where "consume_meter_values env cs t mvs [] = Inr (cs', t', raw)" by (rule created_energy)
  from consume_inactivity[OF this assms(2,3)] show ?thesis .
qed

theorem inactivity_within_elapsed_witness:
  "\<exists>t cns. createConsumptionsFromMeterValues ocpp_sample_env sample_station sample_transaction
     [energy_at 60000 1000, energy_at 120000 1000, energy_at 180000 1500] = Inr (sample_station, t, cns)
   \<and> inactivity t = 60 \<and> inactivity t - inactivity sample_transaction \<le> 180"
proof -
  from sample_request obtain t cns where
    r: "createConsumptionsFromMeterValues ocpp_sample_env sample_station sample_transaction
      [energy_at 60000 1000, energy_at 120000 1000, energy_at 180000 1500] = Inr (sample_station, t, cns)"
    and i: "inactivity t = 60" and l: "last_of t = \<lparr> lc_value = 1500, lc_timestamp = 180000 \<rparr>" by blast
  have "tx_timestamp sample_transaction = 0" by (simp add: sample_transaction_def)
  with inactivity_within_elapsed[OF r] r i l show ?thesis by (simp add: sample_last secs_between_def)
qed

text \<open>A register below the last one counts the time since the last consumption as inactivity but
  is not kept as the last consumption, so the next one counts it again: two such values at 60 and 120
  seconds give 180 seconds of inactivity.\<close>

theorem inactivity_counted_twice:
  "\<exists>t cns. createConsumptionsFromMeterValues ocpp_sample_env sample_station sample_transaction
     [energy_at 60000 (-1), energy_at 120000 (-1)] = Inr (sample_station, t, cns)
   \<and> inactivity sample_transaction = 0 \<and> inactivity t = 180"
  by (simp add: meter_eval inactivity_def)

text \<open>A request with two charge levels of different times and no energy values makes the sort of
  the consumptions fail, for they have no start: whatever the station, the whole request is lost.\<close>

theorem unsorted_consumptions_fail:
  assumes "a \<noteq> b" and "\<not> in_the_past t (soc_at a v)" and "\<not> in_the_past t (soc_at b w)"
  shows "createConsumptionsFromMeterValues env cs t [soc_at a v, soc_at b w] = Inl TypeError"
  using assms
  by (simp add: createConsumptionsFromMeterValues_def createConsumptionFromMeterValue_def isValidMeterValue_def Let_def
      add_consumption_def sort_consumptions_def)

theorem unsorted_consumptions_fail_witness:
  "createConsumptionsFromMeterValues ocpp_sample_env sample_station sample_transaction
     [soc_at 60000 20, soc_at 120000 21] = Inl TypeError"
  by (rule unsorted_consumptions_fail) (simp_all add: in_the_past_def sample_transaction_def)

text \<open>The values that close a session make one consumption, which ends with the session and carries
  what the final register adds to the last one; the total of the session is then the difference of the
  registers of its stop and its start.\<close>

theorem stop_consumption:
  assumes "createConsumptionsFromMeterValues env cs t (createTransactionStopMeterValues cs t req) = Inr (cs', t', cns)"
    and "meter_account t" and "lc_timestamp (last_of t) \<le> sr_timestamp req" and "lc_value (last_of t) \<le> sr_meterStop req"
  shows "rt_currentTotalConsumptionWh (tx_run t') = sr_meterStop req - tx_meterStart t
    \<and> (\<exists>c. cns = [c] \<and> mc_toPrice c \<and> mc_endedAt c = sr_timestamp req
         \<and> energy_of c = sr_meterStop req - lc_value (last_of t))"
  using assms by (rule stop_consumption_value)

theorem stop_consumption_witness:
  "\<exists>t cns. createConsumptionsFromMeterValues ocpp_sample_env sample_station sample_transaction
      (createTransactionStopMeterValues sample_station sample_transaction sample_stop) = Inr (sample_station, t, cns)
    \<and> rt_currentTotalConsumptionWh (tx_run t) = 1000"
proof -
  have "\<exists>t cns. createConsumptionsFromMeterValues ocpp_sample_env sample_station sample_transaction
      (createTransactionStopMeterValues sample_station sample_transaction sample_stop) = Inr (sample_station, t, cns)"
    unfolding sample_stop_values by (simp add: meter_eval)
  then obtain t cns where r: "createConsumptionsFromMeterValues ocpp_sample_env sample_station sample_transaction
      (createTransactionStopMeterValues sample_station sample_transaction sample_stop) = Inr (sample_station, t, cns)"
    by blast
  have "meter_account sample_transaction" "tx_meterStart sample_transaction = 0"
    by (simp_all add: meter_account_def sample_last, simp_all add: sample_transaction_def blank_runtime_def)
  with stop_consumption[OF r] r show ?thesis by (auto simp: sample_last sample_stop_def)
qed

text \<open>After the consistency pass a total power that was reported is within ten percent of the sum of
  the powers reported by the phases.\<close>

theorem total_power_consistent:
  assumes "any_line (mc_watts c)" and "nonneg_lines (mc_watts c)" and "rd_total (mc_watts c) = Some w"
    and "r = mc_watts (assertConsistencyInConsumption cs cid c)"
  shows "lines_total r = lines_total (mc_watts c)
    \<and> (\<exists>T. rd_total r = Some T \<and> 0 < T \<and> lines_total r / (11/10) \<le> T \<and> T \<le> lines_total r * (11/10))"
proof -
  from check_total_within[OF assms(1-3)] obtain T where T: "rd_total (check_total (mc_watts c)) = Some T" "0 < T"
    "lines_total (mc_watts c) / (11/10) \<le> T" "T \<le> lines_total (mc_watts c) * (11/10)" by blast
  then have "rd_total r = Some T"
    by (simp add: assms(4) assertConsistencyInConsumption_def fill_watts_total)
  with T assert_lines[OF assms(1)] show ?thesis by (simp add: assms(4))
qed

theorem total_power_consistent_witness:
  "lines_total (mc_watts (assertConsistencyInConsumption sample_station 1
     ((initial_consumption sample_transaction 60000)\<lparr>mc_watts := phase_readings 3000 3000 3000 (Some 3000)\<rparr>))) = 9000"
  using total_power_consistent[of "(initial_consumption sample_transaction 60000)
      \<lparr>mc_watts := phase_readings 3000 3000 3000 (Some 3000)\<rparr>" 3000, OF _ _ _ refl, of sample_station 1]
  by (simp add: phase_readings_def any_line_def nonneg_lines_def lines_total_def)

text \<open>A station that reports the power of its phases only gets no total from them: without a current
  the total power is the average that the energy gives, zero when the register has not moved, whatever the
  phases report.\<close>

theorem phase_power_gives_no_total:
  assumes "rd_total (mc_watts c) = None" and "rd_total (mc_amps c) = None"
  shows "rd_total (mc_watts (assertConsistencyInConsumption cs cid c)) = Some (average_watts c)
    \<and> (mc_consumptionWh c = Some 0 \<longrightarrow> average_watts c = 0)"
proof -
  have "rd_total (check_total (mc_watts c)) = None" "rd_total (check_total (mc_amps c)) = None"
    using assms by (simp_all add: check_total_None)
  moreover have "average_watts (c\<lparr>mc_watts := x, mc_amps := y\<rparr>) = average_watts c" for x y
    by (simp add: average_watts_def Let_def cong: option.case_cong)
  ultimately show ?thesis
    by (simp add: assertConsistencyInConsumption_def fill_watts_total) (simp add: average_watts_def Let_def)
qed

theorem phase_power_gives_no_total_witness:
  "rd_total (mc_watts (assertConsistencyInConsumption sample_station 1
     ((initial_consumption sample_transaction 60000)\<lparr>mc_consumptionWh := Some 0,
        mc_watts := phase_readings 3000 3000 3000 None\<rparr>))) = Some 0"
proof -
  let ?c = "(initial_consumption sample_transaction 60000)\<lparr>mc_consumptionWh := Some 0,
        mc_watts := phase_readings 3000 3000 3000 None\<rparr>"
  have "rd_total (mc_watts ?c) = None" "rd_total (mc_amps ?c) = None" "mc_consumptionWh ?c = Some 0"
    by (simp_all add: phase_readings_def initial_consumption_def no_readings_def)
  with phase_power_gives_no_total[of ?c sample_station 1] show ?thesis by simp
qed

end
