(* ===== verification/Handler_Monad.thy ===== *)
theory Handler_Monad
  imports Js_Base
begin

text \<open>
  A request handler changes the state of the back end as it goes and may raise an exception at any
  point; what it saved before stays. It is a function from the state to the state it leaves and a
  value or an exception. The rules for \<open>triple\<close> prove that a handler keeps an invariant, on
  the normal and on the exceptional way out, with what is known of the values it computes.
\<close>

type_synonym ('s, 'a) handler = "'s \<Rightarrow> 's \<times> 'a res"

definition returnS :: "'a \<Rightarrow> ('s, 'a) handler" where
  "returnS a = (\<lambda>s. (s, Inr a))"

text \<open>A step that only computes, and may fail.\<close>

definition liftS :: "'a res \<Rightarrow> ('s, 'a) handler" where
  "liftS r = (\<lambda>s. (s, r))"

definition readS :: "('s \<Rightarrow> 'a) \<Rightarrow> ('s, 'a) handler" where
  "readS f = (\<lambda>s. (s, Inr (f s)))"

definition modifyS :: "('s \<Rightarrow> 's) \<Rightarrow> ('s, unit) handler" where
  "modifyS f = (\<lambda>s. (f s, Inr ()))"

definition bindS :: "('s, 'a) handler \<Rightarrow> ('a \<Rightarrow> ('s, 'b) handler) \<Rightarrow> ('s, 'b) handler" where
  "bindS m f = (\<lambda>s. case m s of (s', r) \<Rightarrow> (case r of Inl e \<Rightarrow> (s', Inl e) | Inr a \<Rightarrow> f a s'))"

text \<open>A loop over a list that threads a value, and a block with a \<^verbatim>\<open>finally\<close> that only changes the state.\<close>

fun foldS :: "('a \<Rightarrow> 'b \<Rightarrow> ('s, 'b) handler) \<Rightarrow> 'a list \<Rightarrow> 'b \<Rightarrow> ('s, 'b) handler" where
  "foldS f [] b = returnS b"
| "foldS f (a # as) b = bindS (f a b) (foldS f as)"

definition finallyS :: "('s, 'a) handler \<Rightarrow> ('s \<Rightarrow> 's) \<Rightarrow> ('s, 'a) handler" where
  "finallyS m f = (\<lambda>s. case m s of (s', r) \<Rightarrow> (f s', r))"

text \<open>A \<^verbatim>\<open>catch\<close> that raises another exception.\<close>

definition rethrowS :: "('s, 'a) handler \<Rightarrow> exn \<Rightarrow> ('s, 'a) handler" where
  "rethrowS m e = (\<lambda>s. case m s of (s', r) \<Rightarrow> (s', case r of Inl _ \<Rightarrow> Inl e | Inr a \<Rightarrow> Inr a))"

text \<open>A \<^verbatim>\<open>catch\<close> that goes on with what the block changed, and an exception.\<close>

definition catchS :: "('s, 'a) handler \<Rightarrow> (exn \<Rightarrow> ('s, 'a) handler) \<Rightarrow> ('s, 'a) handler" where
  "catchS m f = (\<lambda>s. case m s of (s', r) \<Rightarrow> (case r of Inl e \<Rightarrow> f e s' | Inr a \<Rightarrow> (s', Inr a)))"

definition throwS :: "exn \<Rightarrow> ('s, 'a) handler" where
  "throwS e = (\<lambda>s. (s, Inl e))"

lemmas handler_simps = returnS_def liftS_def readS_def modifyS_def bindS_def

lemma bindS_Inr: "bindS m f s = (s', Inr b) \<longleftrightarrow> (\<exists>s1 a. m s = (s1, Inr a) \<and> f a s1 = (s', Inr b))"
  by (auto simp: bindS_def split: prod.splits sum.splits)

definition triple :: "('s \<Rightarrow> bool) \<Rightarrow> ('s \<Rightarrow> bool) \<Rightarrow> ('s, 'a) handler \<Rightarrow> ('a \<Rightarrow> 's \<Rightarrow> bool) \<Rightarrow> bool" where
  "triple I P m Q = (\<forall>s. I s \<and> P s \<longrightarrow> I (fst (m s)) \<and> (\<forall>a. snd (m s) = Inr a \<longrightarrow> Q a (fst (m s))))"

lemma tripleI:
  assumes "\<And>s. I s \<Longrightarrow> P s \<Longrightarrow> I (fst (m s))"
    and "\<And>s a. I s \<Longrightarrow> P s \<Longrightarrow> snd (m s) = Inr a \<Longrightarrow> Q a (fst (m s))"
  shows "triple I P m Q"
  using assms by (simp add: triple_def)

lemma triple_inv: "triple I P m Q \<Longrightarrow> I s \<Longrightarrow> P s \<Longrightarrow> I (fst (m s))"
  by (simp add: triple_def)

lemma triple_post: "triple I P m Q \<Longrightarrow> I s \<Longrightarrow> P s \<Longrightarrow> m s = (s', Inr a) \<Longrightarrow> I s' \<and> Q a s'"
  unfolding triple_def by (metis fst_conv snd_conv)

lemma triple_bind:
  assumes "triple I P m Q" and "\<And>a. triple I (Q a) (f a) R"
  shows "triple I P (bindS m f) R"
  using assms unfolding triple_def bindS_def
  by (fastforce split: prod.splits sum.splits)

lemma triple_return: "(\<And>s. I s \<Longrightarrow> P s \<Longrightarrow> Q a s) \<Longrightarrow> triple I P (returnS a) Q"
  by (simp add: triple_def returnS_def)

lemma triple_lift: "(\<And>s a. I s \<Longrightarrow> P s \<Longrightarrow> r = Inr a \<Longrightarrow> Q a s) \<Longrightarrow> triple I P (liftS r) Q"
  by (simp add: triple_def liftS_def)

lemma triple_read: "(\<And>s. I s \<Longrightarrow> P s \<Longrightarrow> Q (f s) s) \<Longrightarrow> triple I P (readS f) Q"
  by (simp add: triple_def readS_def)

lemma triple_modify: "(\<And>s. I s \<Longrightarrow> P s \<Longrightarrow> I (f s) \<and> Q () (f s)) \<Longrightarrow> triple I P (modifyS f) Q"
  by (simp add: triple_def modifyS_def)

lemma triple_if: "(b \<Longrightarrow> triple I P m Q) \<Longrightarrow> (\<not> b \<Longrightarrow> triple I P n Q) \<Longrightarrow> triple I P (if b then m else n) Q"
  by simp

lemma triple_weaken: "triple I P' m Q' \<Longrightarrow> (\<And>s. P s \<Longrightarrow> P' s) \<Longrightarrow> (\<And>a s. Q' a s \<Longrightarrow> Q a s) \<Longrightarrow> triple I P m Q"
  unfolding triple_def by blast

lemma triple_pure_pre: "(b \<Longrightarrow> triple I P m Q) \<Longrightarrow> triple I (\<lambda>s. b \<and> P s) m Q"
  by (auto simp: triple_def)

end
