(* ===== verification/Ocpp_Service.thy ===== *)
theory Ocpp_Service
  imports Meter_Laws Handler_Monad
begin

text \<open>
  The requests of a charging station (src/server/ocpp/services/OCPPService.ts, with the
  validations of OCPPValidation.ts and what TransactionStorage.ts and ConsumptionStorage.ts write
  and read): start and stop of a transaction, meter values, status notification.

  The state \<open>central\<close> is what the database holds for one charging station: its document, its
  transactions and their consumptions. A handler reads the station's document, works on that copy and
  on copies of transactions, and saves them where the code does: what is not saved before an exception
  is lost, what is saved stays. Parameters of the model (\<open>service_env\<close>): the users, the outcome
  of the authorization, the billing and roaming integrations, the template of a new connector, the
  generator of identifiers. Left out, for they do not change this state: logging, notifications,
  the archive of raw meter values and status notifications, smart charging, the car of the user.
  A request is one that the JSON schema of the code accepts.
\<close>

section \<open>Surroundings and state\<close>

record billing_impl =
  bi_start :: "transaction \<Rightarrow> bool res"
  bi_update :: "transaction \<Rightarrow> unit res"
  bi_stop :: "transaction \<Rightarrow> billing_stop res"
  bi_end :: "transaction \<Rightarrow> billing_stop res"

record service_env = ocpp_env +
  se_user :: "string \<Rightarrow> user option"
  se_userByTag :: "string option \<Rightarrow> user option"
  se_authorizeStart :: "charging_station \<Rightarrow> transaction \<Rightarrow> string option \<Rightarrow> user option res"
  se_authorizeStop :: "charging_station \<Rightarrow> transaction \<Rightarrow> string option \<Rightarrow> (user option \<times> user option) res"
  se_billing :: "billing_impl option"
  se_roaming :: "transaction \<Rightarrow> TransactionAction \<Rightarrow> unit res"
  se_template :: "charging_station \<Rightarrow> connector \<Rightarrow> charging_station"
  se_newID :: "int list \<Rightarrow> int"
  se_timezone :: "charging_station \<Rightarrow> string option"

record central =
  ct_station :: charging_station
  ct_transactions :: "transaction list"
  ct_consumptions :: "meter_consumption list"

section \<open>Storage\<close>

text \<open>
  \<^verbatim>\<open>saveTransaction\<close> writes a new document: properties that are undefined become 0, the user is a
  reference, and a transaction with a stop loses its runtime properties.
\<close>

definition stored_runtime :: "runtime \<Rightarrow> runtime" where
  "stored_runtime r = r\<lparr>rt_currentTimestamp := None, rt_currentConsumptionWh := 0,
     rt_currentCumulatedPrice := to_float (rt_currentCumulatedPrice r),
     rt_currentCumulatedRoundedPrice := to_float (rt_currentCumulatedRoundedPrice r),
     rt_currentTotalDurationSecs := to_float (rt_currentTotalDurationSecs r),
     rt_watts := float_readings (rt_watts r), rt_volts := float_readings (rt_volts r), rt_amps := float_readings (rt_amps r)\<rparr>"

definition stored_stop :: "transaction \<Rightarrow> transaction_stop \<Rightarrow> transaction_stop" where
  "stored_stop t st = st\<lparr>stop_price := to_float (stop_price st), stop_roundedPrice := to_float (stop_roundedPrice st),
     stop_totalDurationSecs := to_float (stop_totalDurationSecs st), stop_priceUnit := tx_priceUnit t\<rparr>"

definition stored :: "transaction \<Rightarrow> transaction" where
  "stored t = t\<lparr>tx_user := None, tx_authorizationID := None, tx_price := to_float (tx_price t),
     tx_roundedPrice := to_float (tx_roundedPrice t),
     tx_run := (if tx_stop t = None then stored_runtime (tx_run t) else blank_runtime),
     tx_stop := map_option (stored_stop t) (tx_stop t)\<rparr>"

fun replace_transaction :: "transaction \<Rightarrow> transaction list \<Rightarrow> transaction list" where
  "replace_transaction t [] = [t]"
| "replace_transaction t (u # us) = (if tx_id u = tx_id t then t # us else u # replace_transaction t us)"

definition saveTransaction :: "transaction \<Rightarrow> (central, unit) handler" where
  "saveTransaction t = modifyS (\<lambda>s. s\<lparr>ct_transactions := replace_transaction (stored t) (ct_transactions s)\<rparr>)"

definition deleteTransaction :: "int \<Rightarrow> central \<Rightarrow> central" where
  "deleteTransaction tid s = s\<lparr>ct_transactions := filter (\<lambda>t. tx_id t \<noteq> tid) (ct_transactions s),
     ct_consumptions := filter (\<lambda>c. mc_transactionId c \<noteq> tid) (ct_consumptions s)\<rparr>"

text \<open>Every reading of a transaction joins its user.\<close>

definition with_user :: "'a service_env_scheme \<Rightarrow> transaction \<Rightarrow> transaction" where
  "with_user env t = t\<lparr>tx_user := Option.bind (tx_userID t) (se_user env)\<rparr>"

definition getTransaction :: "'a service_env_scheme \<Rightarrow> int \<Rightarrow> central \<Rightarrow> transaction option" where
  "getTransaction env tid s = map_option (with_user env) (find (\<lambda>t. tx_id t = tid) (ct_transactions s))"

text \<open>\<^verbatim>\<open>getActiveTransaction\<close> finds none when there are several.\<close>

definition active_on :: "charging_station \<Rightarrow> int \<Rightarrow> transaction \<Rightarrow> bool" where
  "active_on cs cid t = (tx_chargeBoxID t = cs_id cs \<and> tx_connectorId t = cid \<and> tx_stop t = None)"

definition getActiveTransaction :: "'a service_env_scheme \<Rightarrow> charging_station \<Rightarrow> int \<Rightarrow> central \<Rightarrow> transaction option" where
  "getActiveTransaction env cs cid s =
     (case filter (active_on cs cid) (ct_transactions s) of [t] \<Rightarrow> Some (with_user env t) | _ \<Rightarrow> None)"

fun latest :: "transaction list \<Rightarrow> transaction option" where
  "latest [] = None"
| "latest (t # ts) = (case latest ts of None \<Rightarrow> Some t | Some u \<Rightarrow> Some (if tx_timestamp t < tx_timestamp u then u else t))"

definition getLastTransactionFromChargingStation ::
  "'a service_env_scheme \<Rightarrow> charging_station \<Rightarrow> int \<Rightarrow> central \<Rightarrow> transaction option" where
  "getLastTransactionFromChargingStation env cs cid s = map_option (with_user env)
     (latest (filter (\<lambda>t. tx_chargeBoxID t = cs_id cs \<and> tx_connectorId t = cid) (ct_transactions s)))"

definition findAvailableID :: "'a service_env_scheme \<Rightarrow> central \<Rightarrow> int" where
  "findAvailableID env s = se_newID env (map tx_id (ct_transactions s))"

text \<open>
  \<^verbatim>\<open>saveConsumption\<close>: the identifier of a consumption is the hash of its transaction and its end, so
  that one with the same end replaces the one before.
\<close>

definition stored_consumption :: "meter_consumption \<Rightarrow> meter_consumption" where
  "stored_consumption c = c\<lparr>mc_consumptionWh := to_float (mc_consumptionWh c), mc_consumptionAmps := to_float (mc_consumptionAmps c),
     mc_cumulatedAmount := to_float (mc_cumulatedAmount c), mc_cumulatedConsumptionWh := to_float (mc_cumulatedConsumptionWh c),
     mc_cumulatedConsumptionAmps := to_float (mc_cumulatedConsumptionAmps c), mc_amount := to_float (mc_amount c),
     mc_roundedAmount := to_float (mc_roundedAmount c), mc_watts := float_readings (mc_watts c),
     mc_amps := float_readings (mc_amps c), mc_volts := float_readings (mc_volts c),
     mc_inactivitySecs := to_float (mc_inactivitySecs c), mc_totalInactivitySecs := to_float (mc_totalInactivitySecs c),
     mc_totalDurationSecs := to_float (mc_totalDurationSecs c), mc_toPrice := False\<rparr>"

fun replace_consumption :: "meter_consumption \<Rightarrow> meter_consumption list \<Rightarrow> meter_consumption list" where
  "replace_consumption c [] = [c]"
| "replace_consumption c (d # ds) =
     (if mc_transactionId d = mc_transactionId c \<and> mc_endedAt d = mc_endedAt c then c # ds else d # replace_consumption c ds)"

definition saveConsumption :: "meter_consumption \<Rightarrow> (central, unit) handler" where
  "saveConsumption c = modifyS (\<lambda>s. s\<lparr>ct_consumptions := replace_consumption (stored_consumption c) (ct_consumptions s)\<rparr>)"

fun last_started :: "meter_consumption list \<Rightarrow> meter_consumption option" where
  "last_started [] = None"
| "last_started (c # cs) = (case last_started cs of None \<Rightarrow> Some c
     | Some d \<Rightarrow> Some (if or_else (mc_startedAt c) 0 < or_else (mc_startedAt d) 0 then d else c))"

definition getLastTransactionConsumption :: "int \<Rightarrow> central \<Rightarrow> meter_consumption option" where
  "getLastTransactionConsumption tid s = last_started (filter (\<lambda>c. mc_transactionId c = tid) (ct_consumptions s))"

text \<open>The site area of a station is joined, not stored in it.\<close>

definition saveChargingStation :: "charging_station \<Rightarrow> (central, unit) handler" where
  "saveChargingStation cs = modifyS (\<lambda>s. s\<lparr>ct_station := cs\<lparr>cs_siteArea := cs_siteArea (ct_station s)\<rparr>\<rparr>)"

section \<open>Connectors\<close>

fun update_first :: "('a \<Rightarrow> bool) \<Rightarrow> ('a \<Rightarrow> 'a) \<Rightarrow> 'a list \<Rightarrow> 'a list" where
  "update_first P f [] = []"
| "update_first P f (x # xs) = (if P x then f x # xs else x # update_first P f xs)"

definition on_connector :: "int \<Rightarrow> (connector \<Rightarrow> connector) \<Rightarrow> charging_station \<Rightarrow> charging_station" where
  "on_connector cid f cs = cs\<lparr>cs_connectors := map_option (update_first (\<lambda>c. con_connectorId c = cid) f) (cs_connectors cs)\<rparr>"

definition clear_runtime :: "connector \<Rightarrow> connector" where
  "clear_runtime c = c\<lparr>con_currentInstantWatts := Some 0, con_currentTotalConsumptionWh := Some 0,
     con_currentTotalInactivitySecs := Some 0, con_currentInactivityStatus := Some INFO, con_currentStateOfCharge := Some 0,
     con_currentTransactionID := Some 0, con_currentTransactionDate := None, con_currentTagID := None,
     con_currentUserID := None\<rparr>"

definition clearChargingStationConnectorRuntimeData :: "charging_station \<Rightarrow> int \<Rightarrow> charging_station" where
  "clearChargingStationConnectorRuntimeData cs cid = on_connector cid clear_runtime cs"

definition updateChargingStationConnectorWithTransaction :: "transaction \<Rightarrow> charging_station \<Rightarrow> charging_station" where
  "updateChargingStationConnectorWithTransaction t cs = on_connector (tx_connectorId t) (\<lambda>c. (clear_runtime c)
     \<lparr>con_currentTransactionID := Some (tx_id t), con_currentTransactionDate := Some (tx_timestamp t),
      con_currentTagID := tx_tagID t, con_currentUserID := tx_userID t\<rparr>) cs"

text \<open>
  \<^verbatim>\<open>updateChargingStationWithTransaction\<close> asks the severity of the inactivity of \<^verbatim>\<open>transaction.chargeBox\<close>,
  a join that the meter values do not ask for: it is undefined, like a station without connectors.
\<close>

definition no_station :: "charging_station \<Rightarrow> charging_station" where
  "no_station cs = cs\<lparr>cs_connectors := None\<rparr>"

definition updateChargingStationWithTransaction :: "charging_station \<Rightarrow> transaction \<Rightarrow> charging_station" where
  "updateChargingStationWithTransaction cs t =
     (if tx_stop t = None then
        on_connector (tx_connectorId t) (\<lambda>c. c\<lparr>con_currentInstantWatts := rd_total (rt_watts (tx_run t)),
          con_currentTotalConsumptionWh := Some (rt_currentTotalConsumptionWh (tx_run t)),
          con_currentTotalInactivitySecs := Some (rt_currentTotalInactivitySecs (tx_run t)),
          con_currentInactivityStatus := Some (getInactivityStatusLevel (no_station cs) (tx_connectorId t)
             (Some (rt_currentTotalInactivitySecs (tx_run t)))),
          con_currentStateOfCharge := Some (rt_currentStateOfCharge (tx_run t)), con_currentTagID := tx_tagID t,
          con_currentTransactionID := Some (tx_id t), con_currentUserID := tx_userID t\<rparr>) cs
      else clearChargingStationConnectorRuntimeData cs (tx_connectorId t))"

section \<open>Validation\<close>

definition cleanUpTagID :: "string option \<Rightarrow> string option" where
  "cleanUpTagID tag = map_option (\<lambda>s. if drop (length s - 5) (to_lower s) = '';null'' then take (length s - 5) s else s) tag"

record meter_request =
  mr_connectorId :: int
  mr_transactionId :: "int option"
  mr_values :: "raw_meter_value list"

text \<open>The transaction of the connector takes the place of the one of the request, even when it is 0.\<close>

definition validateMeterValues :: "charging_station \<Rightarrow> meter_request \<Rightarrow> meter_request" where
  "validateMeterValues cs r =
     (let cid = (if mr_connectorId r = 0 then 1 else mr_connectorId r);
          onConnector = (case getConnectorFromID cs cid of None \<Rightarrow> 0 | Some c \<Rightarrow> or_else (con_currentTransactionID c) 0)
      in r\<lparr>mr_connectorId := cid,
           mr_transactionId := (case mr_transactionId r of
               Some tid \<Rightarrow> Some onConnector
             | None \<Rightarrow> if onConnector > 0 then Some onConnector else None)\<rparr>)"

section \<open>Billing and roaming\<close>

definition processTransactionBilling :: "'a service_env_scheme \<Rightarrow> transaction \<Rightarrow> TransactionAction \<Rightarrow> transaction res" where
  "processTransactionBilling env t action =
     (case (tx_user t, se_billing env) of
        (Some u, Some b) \<Rightarrow>
          if \<not> usr_issuer u then Inr t
          else (case action of
              START \<Rightarrow> (case bi_start b t of
                  Inl _ \<Rightarrow> Inl (BackendError ''Billing - startTransaction failed'')
                | Inr active \<Rightarrow> Inr (t\<lparr>tx_billingData := Some \<lparr> bd_withBillingActive = active, bd_lastUpdate = oe_now env,
                    bd_stop = None \<rparr>\<rparr>))
            | UPDATE \<Rightarrow> Inr (case bi_update b t of Inl _ \<Rightarrow> t
                | Inr _ \<Rightarrow> t\<lparr>tx_billingData := map_option (\<lambda>d. d\<lparr>bd_lastUpdate := oe_now env\<rparr>) (tx_billingData t)\<rparr>)
            | STOP \<Rightarrow> Inr (case bi_stop b t of Inl _ \<Rightarrow> t
                | Inr d \<Rightarrow> t\<lparr>tx_billingData := map_option (\<lambda>x. x\<lparr>bd_stop := Some d, bd_lastUpdate := oe_now env\<rparr>) (tx_billingData t)\<rparr>)
            | END \<Rightarrow> Inr (case bi_end b t of Inl _ \<Rightarrow> t
                | Inr d \<Rightarrow> t\<lparr>tx_billingData := map_option (\<lambda>x. x\<lparr>bd_stop := Some d, bd_lastUpdate := oe_now env\<rparr>) (tx_billingData t)\<rparr>))
      | _ \<Rightarrow> Inr t)"

definition processTransactionRoaming ::
  "'a service_env_scheme \<Rightarrow> transaction \<Rightarrow> charging_station \<Rightarrow> TransactionAction \<Rightarrow> unit res" where
  "processTransactionRoaming env t cs action =
     (let roaming = (case tx_user t of None \<Rightarrow> False | Some u \<Rightarrow> \<not> usr_issuer u)
            \<and> (case cs_siteArea cs of None \<Rightarrow> False | Some sa \<Rightarrow> sa_accessControl sa)
      in if \<not> roaming then Inr ()
         else (case se_roaming env t action of
             Inl e \<Rightarrow> if action = UPDATE then Inr () else Inl e
           | Inr _ \<Rightarrow> Inr ()))"

section \<open>Meter values\<close>

definition getTransactionFromMeterValues :: "'a service_env_scheme \<Rightarrow> meter_request \<Rightarrow> central \<Rightarrow> transaction res" where
  "getTransactionFromMeterValues env r s =
     (if \<not> truthy_num (mr_transactionId r) then
        Inl (BackendError ''Meter Values are not linked to a transaction and will be ignored'')
      else (case getTransaction env (or_else (mr_transactionId r) 0) s of
          None \<Rightarrow> Inl (BackendError ''Transaction does not exist'')
        | Some t \<Rightarrow> if tx_stop t \<noteq> None then Inl (BackendError ''Transaction has already been stopped'') else Inr t))"

text \<open>
  The loop over the consumptions that the meter values and the stop share: update, price, and for the meter
  values bill, then save.
\<close>

definition price_consumption ::
  "'a service_env_scheme \<Rightarrow> charging_station \<Rightarrow> TransactionAction \<Rightarrow> transaction \<Rightarrow> meter_consumption \<Rightarrow>
   (transaction \<times> meter_consumption) res" where
  "price_consumption env cs action t c =
     (if mc_toPrice c then
        bindE (processTransactionPricing env t cs c action) (\<lambda>(t', c').
        bindE (if action = UPDATE then processTransactionBilling env t' UPDATE else Inr t') (\<lambda>t''. Inr (t'', c')))
      else Inr (t, c))"

fun process_consumptions ::
  "'a service_env_scheme \<Rightarrow> charging_station \<Rightarrow> TransactionAction \<Rightarrow> transaction \<Rightarrow> meter_consumption list \<Rightarrow>
   (central, transaction) handler" where
  "process_consumptions env cs action t [] = returnS t"
| "process_consumptions env cs action t (c # cns) =
     bindS (liftS (price_consumption env cs action (updateTransactionWithConsumption (oe_now env) cs t c) c)) (\<lambda>(t', c').
     bindS (saveConsumption c') (\<lambda>_. process_consumptions env cs action t' cns))"

definition instant_amps :: "transaction \<Rightarrow> phase_amps" where
  "instant_amps t = (let r = rt_amps (tx_run t) in
     \<lparr> pa_total = or_num (rd_total r) 0, pa_L1 = or_num (rd_L1 r) 0, pa_L2 = or_num (rd_L2 r) 0, pa_L3 = or_num (rd_L3 r) 0 \<rparr>)"

definition set_phases_used :: "charging_station \<Rightarrow> transaction \<Rightarrow> transaction" where
  "set_phases_used cs t =
     (if tx_phasesUsed t = None \<and> checkIfPhasesProvidedInTransactionInProgress (instant_amps t)
         \<and> rt_numberOfMeterValues (tx_run t) \<ge> 1
      then t\<lparr>tx_phasesUsed := Some (getUsedPhasesInTransactionInProgress
              (getChargingStationCurrentType cs None (tx_connectorId t)) (instant_amps t))\<rparr>
      else t)"

definition meter_values_update ::
  "'a service_env_scheme \<Rightarrow> charging_station \<Rightarrow> transaction \<Rightarrow> meter_value list \<Rightarrow> (central, unit) handler" where
  "meter_values_update env cs t mvs =
     bindS (liftS (updateTransactionWithMeterValues cs t mvs)) (\<lambda>t1.
     bindS (liftS (createConsumptionsFromMeterValues env cs t1 mvs)) (\<lambda>(cs2, t2, cns).
     bindS (process_consumptions env cs2 UPDATE t2 cns) (\<lambda>t3.
     let t4 = set_phases_used cs2 t3 in
     bindS (liftS (processTransactionRoaming env t4 cs2 UPDATE)) (\<lambda>_.
     bindS (saveTransaction t4) (\<lambda>_.
       saveChargingStation (updateChargingStationWithTransaction cs2 t4))))))"

definition handleMeterValues :: "'a service_env_scheme \<Rightarrow> meter_request \<Rightarrow> (central, unit) handler" where
  "handleMeterValues env r =
     bindS (readS ct_station) (\<lambda>cs.
     let r' = validateMeterValues cs r in
     bindS (liftS (normalizeMeterValues cs (mr_connectorId r') (mr_transactionId r') (mr_values r'))) (\<lambda>normalized.
     let mvs = filterMeterValuesOnSpecificChargingStations cs normalized in
     if mvs = [] then returnS ()
     else
       bindS (\<lambda>s. (s, getTransactionFromMeterValues env r' s)) (\<lambda>t. meter_values_update env cs t mvs)))"

section \<open>Stop\<close>

definition getStopTransactionTagId :: "'a service_env_scheme \<Rightarrow> stop_request \<Rightarrow> transaction \<Rightarrow> string option" where
  "getStopTransactionTagId env req t =
     (case tx_remotestop t of
        Some r \<Rightarrow>
          if secs_between (oe_now env) (rs_timestamp r) < 60 then Some (rs_tagID r)
          else if truthy_str (sr_idTag req) then sr_idTag req else tx_tagID t
      | None \<Rightarrow> if truthy_str (sr_idTag req) then sr_idTag req else tx_tagID t)"

definition checkAuthorizeStopTransactionAndGetUsers ::
  "'a service_env_scheme \<Rightarrow> charging_station \<Rightarrow> transaction \<Rightarrow> string option \<Rightarrow> bool \<Rightarrow> (user option \<times> user option) res" where
  "checkAuthorizeStopTransactionAndGetUsers env cs t tag byCentralSystem =
     bindE (if byCentralSystem then Inr (se_userByTag env tag, None) else se_authorizeStop env cs t tag) (\<lambda>users.
       if tx_stop t \<noteq> None then Inl (BackendError ''Transaction has already been stopped'') else Inr users)"

definition checkSoftStopTransaction :: "transaction \<Rightarrow> stop_request \<Rightarrow> bool \<Rightarrow> stop_request" where
  "checkSoftStopTransaction t req soft =
     (if soft then req\<lparr>sr_meterStop := (case rt_lastConsumption (tx_run t) of None \<Rightarrow> 0 | Some lc \<Rightarrow> lc_value lc)\<rparr> else req)"

definition after_transaction_end :: "transaction \<Rightarrow> stop_request \<Rightarrow> transaction" where
  "after_transaction_end t req =
     (case rt_lastConsumption (tx_run t) of
        None \<Rightarrow> t
      | Some lc \<Rightarrow>
          (let secs = secs_between (sr_timestamp req) (lc_timestamp lc) in
           if secs > 0 then
             upd_run (\<lambda>r. r\<lparr>rt_currentTotalInactivitySecs := rt_currentTotalInactivitySecs r + secs,
               rt_currentTotalDurationSecs := map_option (\<lambda>d. d + secs) (rt_currentTotalDurationSecs r)\<rparr>) t
           else t))"

definition checkAndApplyLastConsumptionInStopTransaction ::
  "'a service_env_scheme \<Rightarrow> charging_station \<Rightarrow> transaction \<Rightarrow> stop_request \<Rightarrow> (central, transaction) handler" where
  "checkAndApplyLastConsumptionInStopTransaction env cs t req =
     (if \<not> rt_transactionEndReceived (tx_run t) then
        bindS (liftS (createConsumptionsFromMeterValues env cs t (createTransactionStopMeterValues cs t req))) (\<lambda>(cs', t', cns).
          process_consumptions env cs' STOP t' cns)
      else returnS (after_transaction_end t req))"

definition signed_step :: "sampled_value \<Rightarrow> transaction \<Rightarrow> transaction" where
  "signed_step sv t =
     (if at_format sv = Some SIGNED_DATA then
        (if at_context sv = Some TRANSACTION_BEGIN then t\<lparr>tx_signedData := sv_value sv\<rparr>
         else if at_context sv = Some TRANSACTION_END then upd_run (\<lambda>r. r\<lparr>rt_currentSignedData := Some (sv_value sv)\<rparr>) t
         else t)
      else t)"

definition checkAndUpdateTransactionWithSignedDataInStopTransaction :: "transaction \<Rightarrow> stop_request \<Rightarrow> transaction" where
  "checkAndUpdateTransactionWithSignedDataInStopTransaction t req = fold signed_step (sr_transactionData req) t"

text \<open>
  \<^verbatim>\<open>handleStopTransaction\<close>: the station of the header may be missing. The connector is freed, and saved,
  before the last consumption is computed.
\<close>

definition stop_body ::
  "'a service_env_scheme \<Rightarrow> charging_station \<Rightarrow> stop_request \<Rightarrow> bool \<Rightarrow> bool \<Rightarrow> transaction \<Rightarrow> (central, unit) handler" where
  "stop_body env cs req soft byCentralSystem t =
     (let tag = getStopTransactionTagId env req t in
      bindS (liftS (checkAuthorizeStopTransactionAndGetUsers env cs t tag byCentralSystem)) (\<lambda>(usr, alternateUser).
      let cs1 = clearChargingStationConnectorRuntimeData cs (tx_connectorId t);
          req1 = checkSoftStopTransaction t req soft in
      bindS (saveChargingStation cs1) (\<lambda>_.
      bindS (checkAndApplyLastConsumptionInStopTransaction env cs1 t req1) (\<lambda>t1.
      let t2 = checkAndUpdateTransactionWithSignedDataInStopTransaction t1 req1;
          t3 = updateTransactionWithStopTransaction cs1 t2 req1 usr alternateUser tag soft in
      bindS (liftS (processTransactionBilling env t3 STOP)) (\<lambda>t4.
      bindS (liftS (processTransactionRoaming env t4 cs1 STOP)) (\<lambda>_. saveTransaction t4))))))"

definition handleStopTransaction ::
  "'a service_env_scheme \<Rightarrow> charging_station option \<Rightarrow> stop_request \<Rightarrow> bool \<Rightarrow> bool \<Rightarrow> (central, unit) handler" where
  "handleStopTransaction env header req0 soft byCentralSystem =
     (case header of
        None \<Rightarrow> liftS (Inl TypeError)
      | Some cs \<Rightarrow>
          (let req = req0\<lparr>sr_idTag := cleanUpTagID (sr_idTag req0)\<rparr> in
           if sr_transactionId req = 0 then returnS ()
           else bindS (\<lambda>s. (s, case getTransaction env (sr_transactionId req) s of
                    None \<Rightarrow> Inl (BackendError ''Transaction doesn't exist'') | Some t \<Rightarrow> Inr t))
                  (stop_body env cs req soft byCentralSystem)))"

section \<open>Start\<close>

record start_request =
  st_connectorId :: int
  st_idTag :: "string option"
  st_meterStart :: rat
  st_timestamp :: int

definition createTransaction :: "'a service_env_scheme \<Rightarrow> charging_station \<Rightarrow> start_request \<Rightarrow> int \<Rightarrow> transaction" where
  "createTransaction env cs req tid =
     (let org = (\<lambda>x. if oe_organization env then x else None) in
      \<lparr> tx_id = tid, tx_chargeBoxID = cs_id cs, tx_connectorId = st_connectorId req,
        tx_companyID = org (cs_companyID cs), tx_siteID = org (cs_siteID cs), tx_siteAreaID = org (cs_siteAreaID cs),
        tx_issuer = True, tx_tagID = st_idTag req, tx_userID = None, tx_user = None, tx_authorizationID = None,
        tx_signedData = [], tx_meterStart = st_meterStart req, tx_timestamp = st_timestamp req,
        tx_timezone = se_timezone env cs, tx_price = None, tx_roundedPrice = None, tx_priceUnit = None,
        tx_pricingSource = None, tx_pricingModel = None, tx_stateOfCharge = 0, tx_phasesUsed = None,
        tx_run = blank_runtime\<lparr>rt_watts := no_readings\<lparr>rd_total := Some 0\<rparr>,
          rt_lastConsumption := Some \<lparr> lc_value = st_meterStart req, lc_timestamp = st_timestamp req \<rparr>\<rparr>,
        tx_remotestop = None, tx_stop = None, tx_billingData = None \<rparr>)"

definition set_user :: "user option \<Rightarrow> transaction \<Rightarrow> transaction" where
  "set_user usr t = (case usr of None \<Rightarrow> t
     | Some u \<Rightarrow> t\<lparr>tx_userID := Some (usr_id u), tx_user := Some u, tx_authorizationID := usr_authorizationID u\<rparr>)"

text \<open>
  \<^verbatim>\<open>processExistingTransaction\<close>: a pending transaction is deleted when it has no energy, and stopped
  otherwise, with a header that has no station. The loop ends when there is none or the same comes
  again; \<open>None\<close> is that the turns given did not suffice.
\<close>

definition pending_stop :: "transaction \<Rightarrow> stop_request" where
  "pending_stop t = (let lc = last_of t in
     \<lparr> sr_transactionId = tx_id t, sr_meterStop = lc_value lc, sr_timestamp = lc_timestamp lc, sr_reason = None,
       sr_idTag = None, sr_transactionData = [] \<rparr>)"

fun process_existing_loop ::
  "nat \<Rightarrow> 'a service_env_scheme \<Rightarrow> int option \<Rightarrow> int \<Rightarrow> charging_station \<Rightarrow> central \<Rightarrow> (central \<times> charging_station) option" where
  "process_existing_loop 0 env lastID cid cs s = None"
| "process_existing_loop (Suc n) env lastID cid cs s =
     (case getActiveTransaction env cs cid s of
        None \<Rightarrow> Some (s, cs)
      | Some t \<Rightarrow>
          if lastID = Some (tx_id t) then Some (s, cs)
          else if rt_currentTotalConsumptionWh (tx_run t) \<le> 0 then
            process_existing_loop n env (Some (tx_id t)) cid
              (clearChargingStationConnectorRuntimeData cs (tx_connectorId t)) (deleteTransaction (tx_id t) s)
          else
            process_existing_loop n env (Some (tx_id t)) cid cs
              (fst (handleStopTransaction env None (pending_stop t) False True s)))"

definition existing_turns :: nat where
  "existing_turns = 2"

definition processExistingTransaction ::
  "'a service_env_scheme \<Rightarrow> charging_station \<Rightarrow> int \<Rightarrow> (central, charging_station) handler" where
  "processExistingTransaction env cs cid = (\<lambda>s.
     case process_existing_loop existing_turns env None cid cs s of
       None \<Rightarrow> (s, Inl TypeError) | Some (s', cs') \<Rightarrow> (s', Inr cs'))"

definition price_first ::
  "'a service_env_scheme \<Rightarrow> charging_station \<Rightarrow> transaction \<Rightarrow> (charging_station \<times> transaction) res" where
  "price_first env cs t =
     bindE (createFirstConsumption env cs t) (\<lambda>(cs', t', co).
       case co of None \<Rightarrow> Inl TypeError
       | Some c \<Rightarrow>
           bindE (processTransactionPricing env t' cs' c START) (\<lambda>(t2, _).
           bindE (processTransactionBilling env t2 START) (\<lambda>t3.
           bindE (processTransactionRoaming env t3 cs' START) (\<lambda>_. Inr (cs', t3)))))"

definition handleStartTransaction :: "'a service_env_scheme \<Rightarrow> start_request \<Rightarrow> (central, int) handler" where
  "handleStartTransaction env req0 =
     bindS (readS ct_station) (\<lambda>cs.
     let req = req0\<lparr>st_idTag := cleanUpTagID (st_idTag req0)\<rparr> in
     if getConnectorFromID cs (st_connectorId req) = None then liftS (Inl (BackendError ''The Connector ID is invalid''))
     else
       bindS (readS (findAvailableID env)) (\<lambda>tid.
       let t0 = createTransaction env cs req tid in
       bindS (liftS (se_authorizeStart env cs t0 (st_idTag req))) (\<lambda>usr.
       let t1 = set_user usr t0 in
       bindS (processExistingTransaction env cs (st_connectorId req)) (\<lambda>cs1.
       bindS (liftS (price_first env cs1 t1)) (\<lambda>(cs2, t2).
       bindS (saveTransaction t2) (\<lambda>_.
       bindS (saveChargingStation (updateChargingStationConnectorWithTransaction t2 cs2)) (\<lambda>_. returnS (tx_id t2))))))))"

section \<open>Status notification\<close>

record status_notification =
  sn_connectorId :: int
  sn_status :: ChargePointStatus
  sn_errorCode :: "string option"
  sn_info :: "string option"
  sn_vendorErrorCode :: "string option"
  sn_timestamp :: int

definition new_connector :: "int \<Rightarrow> connector" where
  "new_connector cid = \<lparr> con_connectorId = cid, con_currentInstantWatts = Some 0, con_currentStateOfCharge = None,
     con_currentTotalConsumptionWh = None, con_currentTotalInactivitySecs = None, con_currentInactivityStatus = None,
     con_currentTransactionID = Some 0, con_currentTransactionDate = None, con_currentTagID = None,
     con_currentUserID = None, con_status = UNAVAILABLE, con_errorCode = None, con_info = None,
     con_vendorErrorCode = None, con_power = Some 0, con_type = Some UNKNOWN, con_voltage = None, con_amperage = None,
     con_amperageLimit = None, con_statusLastChangedOn = None, con_numberOfConnectedPhase = None, con_currentType = None,
     con_chargePointID = None, con_phaseAssignmentToGrid = None \<rparr>"

text \<open>The station with the connector of the notification, and whether the notification repeats what is known.\<close>

definition checkAndGetConnectorFromStatusNotification ::
  "'a service_env_scheme \<Rightarrow> charging_station \<Rightarrow> status_notification \<Rightarrow> (charging_station \<times> bool) res" where
  "checkAndGetConnectorFromStatusNotification env cs n =
     (case getConnectorFromID cs (sn_connectorId n) of
        Some c \<Rightarrow> Inr (cs, con_status c = sn_status n \<and> con_info c = sn_info n \<and> con_errorCode c = sn_errorCode n
                          \<and> con_vendorErrorCode c = sn_vendorErrorCode n)
      | None \<Rightarrow>
          (case cs_connectors cs of
             None \<Rightarrow> Inl TypeError
           | Some cons \<Rightarrow>
               (let (c, cs1) = (case getLastSeenConnectorFromID cs (sn_connectorId n) of
                     Some c \<Rightarrow> (c, cs\<lparr>cs_backupConnectors := map_option (filter (\<lambda>b. con_connectorId b \<noteq> con_connectorId c))
                                        (cs_backupConnectors cs)\<rparr>)
                   | None \<Rightarrow> (new_connector (sn_connectorId n), cs))
                in Inr (se_template env (cs1\<lparr>cs_connectors := Some (cons @ [c])\<rparr>) c, False))))"

definition counts_extra_inactivity :: "ChargePointStatus \<Rightarrow> ChargePointStatus \<Rightarrow> bool" where
  "counts_extra_inactivity old new =
     (old \<in> {FINISHING, CHARGING, SUSPENDED_EV, SUSPENDED_EVSE, OCCUPIED, UNAVAILABLE} \<and> new = AVAILABLE)"

text \<open>Once, for the first notification after the stop.\<close>

definition checkAndComputeTransactionExtraInactivityFromStatusNotification ::
  "'a service_env_scheme \<Rightarrow> charging_station \<Rightarrow> transaction \<Rightarrow> ChargePointStatus \<Rightarrow> status_notification \<Rightarrow>
   (central, transaction \<times> bool) handler" where
  "checkAndComputeTransactionExtraInactivityFromStatusNotification env cs t old n =
     (case tx_stop t of
        None \<Rightarrow> liftS (Inl TypeError)
      | Some st \<Rightarrow>
          if stop_extraInactivityComputed st then returnS (t, False)
          else
            (let secs = (if counts_extra_inactivity old (sn_status n)
                         then max 0 (of_int \<lfloor>secs_between (sn_timestamp n) (stop_timestamp st)\<rfloor>) else 0);
                 flag = (\<lambda>u. u\<lparr>tx_stop := map_option (\<lambda>x. x\<lparr>stop_extraInactivityComputed := True\<rparr>) (tx_stop u)\<rparr>);
                 t1 = t\<lparr>tx_stop := Some (st\<lparr>stop_extraInactivitySecs := secs\<rparr>)\<rparr>
             in if secs > 0 then
                  (let t2 = t\<lparr>tx_stop := Some (st\<lparr>stop_extraInactivitySecs := secs,
                          stop_inactivityStatus := getInactivityStatusLevel cs (tx_connectorId t)
                            (Some (stop_totalInactivitySecs st + secs))\<rparr>)\<rparr> in
                   bindS (readS (getLastTransactionConsumption (tx_id t))) (\<lambda>lastc.
                   bindS (liftS (buildAndPriceExtraConsumptionInactivity env cs t2 lastc)) (\<lambda>(t3, co).
                   bindS (case co of None \<Rightarrow> returnS () | Some c \<Rightarrow> saveConsumption c) (\<lambda>_.
                     returnS (flag t3, True)))))
                else returnS (flag t1, True)))"

definition checkAndBillTransaction :: "'a service_env_scheme \<Rightarrow> transaction \<Rightarrow> (transaction \<times> bool) res" where
  "checkAndBillTransaction env t =
     (if (case tx_stop t of None \<Rightarrow> False | Some st \<Rightarrow> stop_extraInactivityComputed st) then
        bindE (processTransactionBilling env t END) (\<lambda>t'. Inr (t', True))
      else Inr (t, False))"

definition checkAndUpdateLastCompletedTransactionFromStatusNotification ::
  "'a service_env_scheme \<Rightarrow> charging_station \<Rightarrow> status_notification \<Rightarrow> ChargePointStatus \<Rightarrow> (central, charging_station) handler" where
  "checkAndUpdateLastCompletedTransactionFromStatusNotification env cs n old =
     (if sn_status n = AVAILABLE \<or> sn_status n = PREPARING then
        bindS (readS (getLastTransactionFromChargingStation env cs (sn_connectorId n))) (\<lambda>lastt.
          case lastt of
            None \<Rightarrow> returnS cs
          | Some t \<Rightarrow>
              bindS (if tx_stop t \<noteq> None then
                  bindS (checkAndComputeTransactionExtraInactivityFromStatusNotification env cs t old n) (\<lambda>(t1, updated).
                  bindS (liftS (checkAndBillTransaction env t1)) (\<lambda>(t2, billed).
                    if updated \<or> billed then saveTransaction t2 else returnS ()))
                else returnS ())
                (\<lambda>_. returnS (clearChargingStationConnectorRuntimeData cs (tx_connectorId t))))
      else returnS cs)"

definition set_status :: "status_notification \<Rightarrow> connector \<Rightarrow> connector" where
  "set_status n c = c\<lparr>con_connectorId := sn_connectorId n, con_status := sn_status n, con_errorCode := sn_errorCode n,
     con_info := sn_info n, con_vendorErrorCode := sn_vendorErrorCode n, con_statusLastChangedOn := Some (sn_timestamp n)\<rparr>"

definition sort_connectors :: "charging_station \<Rightarrow> charging_station" where
  "sort_connectors cs = cs\<lparr>cs_connectors := map_option (sort_key con_connectorId) (cs_connectors cs)\<rparr>"

definition status_of :: "charging_station \<Rightarrow> int \<Rightarrow> ChargePointStatus" where
  "status_of cs cid = (case getConnectorFromID cs cid of None \<Rightarrow> UNAVAILABLE | Some c \<Rightarrow> con_status c)"

definition handleStatusNotification :: "'a service_env_scheme \<Rightarrow> status_notification \<Rightarrow> (central, unit) handler" where
  "handleStatusNotification env n =
     (if sn_connectorId n \<le> 0 then returnS ()
      else
        bindS (readS ct_station) (\<lambda>cs.
        bindS (liftS (checkAndGetConnectorFromStatusNotification env cs n)) (\<lambda>(cs1, ignored).
        if ignored then returnS ()
        else
          bindS (checkAndUpdateLastCompletedTransactionFromStatusNotification env cs1 n (status_of cs1 (sn_connectorId n))) (\<lambda>cs2.
            saveChargingStation (sort_connectors (on_connector (sn_connectorId n) (set_status n) cs2))))))"

end
