(* ===== verification/Collections.thy ===== *)
theory Collections
  imports Js_Base
begin

text \<open>
  The contracts of the collections of the data base (src/storage/mongodb). A collection is the list
  of its documents in the order they were inserted; \<^verbatim>\<open>_id\<close> is unique. \<open>keyed_collection\<close> is
  \<^verbatim>\<open>findOneAndReplace\<close> with \<^verbatim>\<open>upsert\<close>, by which transactions and consumptions are saved;
  \<open>evolving_collection\<close> adds an order in which a document may only move on; \<open>exclusive_collection\<close>
  is \<^verbatim>\<open>insertOne\<close> and \<^verbatim>\<open>findOneAndDelete\<close>, on which the locks rest. The components interpret them
  on their own definitions.
\<close>

lemma find_unique:
  "distinct (map key ds) \<Longrightarrow> find (\<lambda>e. key e = k) ds = Some d \<longleftrightarrow> d \<in> set ds \<and> key d = k"
  by (induction ds) (auto simp: rev_image_eqI)

lemma find_absent: "find (\<lambda>e. key e = k) ds = None \<longleftrightarrow> k \<notin> key ` set ds"
  by (auto simp: find_None_iff)

section \<open>Replacing or inserting by key\<close>

locale keyed_collection =
  fixes key :: "'d \<Rightarrow> 'k" and put :: "'d \<Rightarrow> 'd list \<Rightarrow> 'd list"
  assumes put_keys: "map key (put d ds) = (if key d \<in> key ` set ds then map key ds else map key ds @ [key d])"
    and put_set: "distinct (map key ds) \<Longrightarrow> set (put d ds) = insert d {e \<in> set ds. key e \<noteq> key d}"
begin

lemma put_distinct: "distinct (map key ds) \<Longrightarrow> distinct (map key (put d ds))"
  by (auto simp: put_keys)

lemma find_put:
  assumes "distinct (map key ds)"
  shows "find (\<lambda>e. key e = k) (put d ds) = (if k = key d then Some d else find (\<lambda>e. key e = k) ds)"
proof (rule option.expand, goal_cases)
  case 1
  show ?case using assms by (auto simp: find_absent put_set)
next
  case 2
  show ?case
  proof (cases "k = key d")
    case True
    then show ?thesis using find_unique[OF put_distinct[OF assms], of k d d] assms by (simp add: put_set)
  next
    case False
    with 2 obtain e where e: "find (\<lambda>e. key e = k) (put d ds) = Some e" by auto
    with False have "find (\<lambda>e. key e = k) ds = Some e"
      using find_unique[OF put_distinct[OF assms], of k d e] find_unique[OF assms, of k e] by (auto simp: put_set[OF assms])
    with e False show ?thesis by simp
  qed
qed

lemma put_length: "length (put d ds) = (if key d \<in> key ` set ds then length ds else Suc (length ds))"
  using arg_cong[OF put_keys, of length] by (simp split: if_splits)

end

section \<open>Documents that only move on\<close>

locale evolving_collection = keyed_collection key put
  for key :: "'d \<Rightarrow> 'k" and put :: "'d \<Rightarrow> 'd list \<Rightarrow> 'd list" +
  fixes valid :: "'d \<Rightarrow> bool" and later :: "'d \<Rightarrow> 'd \<Rightarrow> bool"
  assumes later_refl: "later d d"
begin

lemma put_valid:
  assumes "distinct (map key ds)" and "\<forall>e \<in> set ds. valid e" and "valid d"
  shows "\<forall>e \<in> set (put d ds). valid e"
  using assms by (auto simp: put_set)

lemma put_later:
  assumes "distinct (map key ds)" and "\<And>e. e \<in> set ds \<Longrightarrow> key e = key d \<Longrightarrow> later e d" and "e \<in> set ds"
  shows "\<exists>e' \<in> set (put d ds). later e e'"
proof (cases "key e = key d")
  case True
  with assms show ?thesis by (auto simp: put_set)
next
  case False
  with assms(1,3) show ?thesis by (auto simp: put_set intro: later_refl)
qed

end

section \<open>Inserting only what is absent\<close>

text \<open>
  \<open>held\<close> says which key each client believes it holds. When clients only take a key by an insertion that
  succeeded, and delete only the key they hold, no two of them hold the same key.
\<close>

definition exclusive :: "('k \<Rightarrow> 's \<Rightarrow> bool) \<Rightarrow> ('p \<Rightarrow> 'k option) \<Rightarrow> 's \<Rightarrow> bool" where
  "exclusive mem held s = ((\<forall>p k. held p = Some k \<longrightarrow> mem k s) \<and>
     (\<forall>p q k. held p = Some k \<longrightarrow> held q = Some k \<longrightarrow> p = q))"

locale exclusive_collection =
  fixes key :: "'d \<Rightarrow> 'k" and ok :: "'s \<Rightarrow> bool" and mem :: "'k \<Rightarrow> 's \<Rightarrow> bool"
    and insert_one :: "'d \<Rightarrow> 's \<Rightarrow> 's res" and delete_one :: "'k \<Rightarrow> 's \<Rightarrow> 's"
  assumes insert_absent: "insert_one d s = Inr s' \<Longrightarrow> \<not> mem (key d) s"
    and insert_fails: "insert_one d s = Inl e \<Longrightarrow> mem (key d) s"
    and mem_insert: "insert_one d s = Inr s' \<Longrightarrow> mem k s' \<longleftrightarrow> k = key d \<or> mem k s"
    and mem_delete: "ok s \<Longrightarrow> mem k (delete_one k' s) \<longleftrightarrow> mem k s \<and> k \<noteq> k'"
    and insert_ok: "insert_one d s = Inr s' \<Longrightarrow> ok s \<Longrightarrow> ok s'"
    and delete_ok: "ok s \<Longrightarrow> ok (delete_one k s)"
begin

lemma exclusive_insert:
  assumes "exclusive mem held s" and "insert_one d s = Inr s'"
  shows "exclusive mem (held(p := Some (key d))) s'"
  using assms(1) insert_absent[OF assms(2)] mem_insert[OF assms(2)] unfolding exclusive_def by (auto split: if_splits)

lemma exclusive_delete:
  assumes "exclusive mem held s" and "ok s" and "held p = Some k"
  shows "exclusive mem (held(p := None)) (delete_one k s)"
  using assms unfolding exclusive_def by (auto simp: mem_delete split: if_splits)

lemma insert_iff: "(\<exists>s'. insert_one d s = Inr s') \<longleftrightarrow> \<not> mem (key d) s"
  using insert_absent insert_fails by (cases "insert_one d s") auto

end

lemma exclusive_drop: "exclusive mem held s \<Longrightarrow> exclusive mem (held(p := None)) s"
  unfolding exclusive_def by (auto split: if_splits)

end
