(* ===== verification/Session_Laws.thy ===== *)
theory Session_Laws
  imports Ocpp_Service Collections
begin

text \<open>
  The life of the sessions under any sequence of requests: which requests may change the energy account
  of a session, the invariant of the database, and the order in which sessions evolve. The lemmas follow
  a transaction through the steps of the handlers; the properties are at the end.
\<close>

section \<open>Steps that leave the account alone\<close>

definition same_account :: "transaction \<Rightarrow> transaction \<Rightarrow> bool" where
  "same_account t t' =
     (tx_id t' = tx_id t \<and> tx_stop t' = tx_stop t \<and> tx_meterStart t' = tx_meterStart t \<and> tx_timestamp t' = tx_timestamp t
      \<and> tx_connectorId t' = tx_connectorId t \<and> tx_chargeBoxID t' = tx_chargeBoxID t
      \<and> rt_lastConsumption (tx_run t') = rt_lastConsumption (tx_run t)
      \<and> rt_currentTotalConsumptionWh (tx_run t') = rt_currentTotalConsumptionWh (tx_run t))"

lemma same_account_refl [simp]: "same_account t t"
  by (simp add: same_account_def)

lemma same_account_trans: "same_account t u \<Longrightarrow> same_account u v \<Longrightarrow> same_account t v"
  by (simp add: same_account_def)

lemma same_account_last: "same_account t t' \<Longrightarrow> last_of t' = last_of t"
  by (simp add: same_account_def last_of_def first_last_def)

lemma same_account_account: "same_account t t' \<Longrightarrow> meter_account t' = meter_account t"
  by (simp add: meter_account_def same_account_last) (simp add: same_account_def)

lemma same_account_upd_run:
  "(\<And>r. rt_lastConsumption (f r) = rt_lastConsumption r) \<Longrightarrow>
   (\<And>r. rt_currentTotalConsumptionWh (f r) = rt_currentTotalConsumptionWh r) \<Longrightarrow> same_account t (upd_run f t)"
  by (simp add: same_account_def upd_run_def)

lemma updateSignedData_account: "updateSignedData t a v = Some t' \<Longrightarrow> same_account t t'"
  by (auto simp: updateSignedData_def same_account_def upd_run_def split: if_splits)

lemma update_with_value_account:
  assumes "update_with_value cs t mv = Inr t'"
  shows "same_account t t'"
proof -
  obtain a where a: "mv_attribute mv = Some a" using assms by (cases "mv_attribute mv") (simp_all add: update_with_value_def)
  define t1 where "t1 = (if at_context a = Some TRANSACTION_END \<and> \<not> rt_transactionEndReceived (tx_run t)
      then upd_run clear_instant_readings t else t)"
  have t1: "same_account t t1"
    unfolding t1_def by (simp add: same_account_upd_run clear_instant_readings_def)
  show ?thesis
  proof (cases "updateSignedData t1 a (mv_value mv)")
    case (Some t2)
    with assms have "t' = t2" by (simp add: update_with_value_def a Let_def t1_def)
    with t1 updateSignedData_account[OF Some] show ?thesis by (auto intro: same_account_trans)
  next
    case None
    have "same_account t1 (t1\<lparr>tx_stateOfCharge := v\<rparr>)" for v by (simp add: same_account_def)
    with assms None have "same_account t1 t'"
      unfolding update_with_value_def a option.case Let_def t1_def[symmetric] None
      by (auto split: if_split_asm intro!: same_account_upd_run)
    with t1 show ?thesis by (rule same_account_trans)
  qed
qed

lemma updateTransactionWithMeterValues_account:
  "updateTransactionWithMeterValues cs t mvs = Inr t' \<Longrightarrow> same_account t t'"
  by (induction mvs arbitrary: t)
    (auto elim!: bindE_InrE dest: update_with_value_account intro: same_account_trans)

lemma pricing_account:
  "processTransactionPricing env t cs c action = Inr (t', c') \<Longrightarrow> same_account t t'"
  by (auto simp: processTransactionPricing_def updateCumulatedAmounts_def same_account_def Let_def upd_run_def
      split: option.splits if_splits elim!: bindE_InrE)

lemma billing_account: "processTransactionBilling env t action = Inr t' \<Longrightarrow> same_account t t'"
  by (auto simp: processTransactionBilling_def same_account_def split: option.splits if_splits TransactionAction.splits sum.splits)

lemma price_consumption_account: "price_consumption env cs action t c = Inr (t', c') \<Longrightarrow> same_account t t'"
  by (auto simp: price_consumption_def split: if_splits elim!: bindE_InrE
      dest!: pricing_account billing_account intro: same_account_trans)

lemma updateTransactionWithConsumption_account:
  "mc_cumulatedConsumptionWh c = Some (rt_currentTotalConsumptionWh (tx_run t)) \<Longrightarrow>
     same_account t (updateTransactionWithConsumption now cs t c)"
  by (simp add: updateTransactionWithConsumption_def same_account_def Let_def)

lemma set_phases_used_account: "same_account t (set_phases_used cs t)"
  by (simp add: set_phases_used_def same_account_def)

lemma signed_account: "same_account t (fold signed_step svs t)"
proof (induction svs arbitrary: t)
  case (Cons sv svs)
  have "same_account t (signed_step sv t)" by (simp add: signed_step_def same_account_def)
  with Cons.IH show ?case by (auto intro: same_account_trans)
qed simp

lemma after_transaction_end_account: "same_account t (after_transaction_end t req)"
  by (simp add: after_transaction_end_def same_account_def Let_def split: option.split)

section \<open>Requests of one time\<close>

text \<open>
  The usual request: its values have one time, and one of them is the energy register. The request
  without it is in the properties at the end.
\<close>

definition complete_values :: "meter_value list \<Rightarrow> bool" where
  "complete_values mvs =
     ((\<forall>a \<in> set mvs. \<forall>b \<in> set mvs. isValidMeterValue a \<and> isValidMeterValue b \<longrightarrow> mv_timestamp a = mv_timestamp b)
      \<and> (list_ex isValidMeterValue mvs \<longrightarrow> list_ex carries_energy mvs))"

definition past_at :: "int \<Rightarrow> transaction \<Rightarrow> bool" where
  "past_at ts t = (case rt_lastConsumption (tx_run t) of None \<Rightarrow> False | Some lc \<Rightarrow> ts < lc_timestamp lc)"

definition single :: "int \<Rightarrow> transaction \<Rightarrow> meter_consumption list \<Rightarrow> bool" where
  "single ts t cns = (cns = [] \<or> (\<exists>c. cns = [c] \<and> mc_endedAt c = ts
     \<and> (mc_toPrice c \<longrightarrow> mc_cumulatedConsumptionWh c = Some (rt_currentTotalConsumptionWh (tx_run t)))))"

lemma merge_cumulated [simp]:
  "mc_cumulatedConsumptionWh (merge_consumption c x) =
     (if mc_toPrice c then mc_cumulatedConsumptionWh c else mc_cumulatedConsumptionWh x)"
  by (auto simp: merge_consumption_def over_energy_def)

lemma energy_last:
  assumes "energy_consumption cs t (last_of t) mv c = (t', c')"
  shows "rt_lastConsumption (tx_run t') = rt_lastConsumption (tx_run t)
    \<or> (\<exists>v. rt_lastConsumption (tx_run t') = Some \<lparr> lc_value = v, lc_timestamp = mv_timestamp mv \<rparr>)"
    and "tx_id t' = tx_id t" and "tx_chargeBoxID t' = tx_chargeBoxID t"
  using assms
  by (auto simp: energy_consumption_def delivered_def idle_def set_last_def Let_def split: option.splits if_splits prod.splits)

text \<open>One value of the request.\<close>

lemma value_single:
  assumes "createConsumptionFromMeterValue env cs t (rt_lastConsumption (tx_run t)) mv = Inr (cs', t', co)"
    and "single ts t cns" and "mv_timestamp mv = ts" and "\<not> past_at ts t"
  shows "single ts t' (case co of None \<Rightarrow> cns | Some c \<Rightarrow> add_consumption c cns)"
    and "\<not> past_at ts t'" and "rt_lastConsumption (tx_run t) \<noteq> None \<longrightarrow> rt_lastConsumption (tx_run t') \<noteq> None"
    and "tx_id t' = tx_id t \<and> tx_chargeBoxID t' = tx_chargeBoxID t"
    and "carries_energy mv \<or> list_ex mc_toPrice cns \<Longrightarrow> list_ex mc_toPrice (case co of None \<Rightarrow> cns | Some c \<Rightarrow> add_consumption c cns)"
proof -
  have "single ts t' (case co of None \<Rightarrow> cns | Some c \<Rightarrow> add_consumption c cns) \<and> \<not> past_at ts t'
     \<and> (rt_lastConsumption (tx_run t) \<noteq> None \<longrightarrow> rt_lastConsumption (tx_run t') \<noteq> None)
     \<and> (tx_id t' = tx_id t \<and> tx_chargeBoxID t' = tx_chargeBoxID t)
     \<and> (carries_energy mv \<or> list_ex mc_toPrice cns \<longrightarrow>
          list_ex mc_toPrice (case co of None \<Rightarrow> cns | Some c \<Rightarrow> add_consumption c cns))"
  proof (cases "carries_energy mv")
    case True
    from assms(1) True obtain c c2 where co: "co = Some c" and e: "energy_consumption cs' t (last_of t) mv c2 = (t', c)"
      and ended: "mc_endedAt c = mv_timestamp mv" by (rule energy_value)
    from energy_last[OF e] energy_effect(3,6)[OF e] assms(2,3,4) ended show ?thesis
      by (auto simp: single_def past_at_def co add_consumption_def)
  next
    case False
    note o = other_value[OF assms(1) False]
    show ?thesis
    proof (cases co)
      case (Some c)
      with False o(3)[OF Some] assms(2,3,4) show ?thesis
        by (auto simp: single_def add_consumption_def o(2))
    qed (use o assms False in \<open>simp\<close>)
  qed
  then show "single ts t' (case co of None \<Rightarrow> cns | Some c \<Rightarrow> add_consumption c cns)"
    and "\<not> past_at ts t'" and "rt_lastConsumption (tx_run t) \<noteq> None \<longrightarrow> rt_lastConsumption (tx_run t') \<noteq> None"
    and "tx_id t' = tx_id t \<and> tx_chargeBoxID t' = tx_chargeBoxID t"
    and "carries_energy mv \<or> list_ex mc_toPrice cns \<Longrightarrow> list_ex mc_toPrice (case co of None \<Rightarrow> cns | Some c \<Rightarrow> add_consumption c cns)"
    by blast+
qed

lemma consume_single:
  assumes "consume_meter_values env cs t mvs cns = Inr (cs', t', cns')"
    and "\<forall>mv \<in> set mvs. isValidMeterValue mv \<longrightarrow> mv_timestamp mv = ts" and "single ts t cns" and "\<not> past_at ts t"
  shows "single ts t' cns' \<and> (rt_lastConsumption (tx_run t) \<noteq> None \<longrightarrow> rt_lastConsumption (tx_run t') \<noteq> None)
    \<and> tx_id t' = tx_id t \<and> tx_chargeBoxID t' = tx_chargeBoxID t
    \<and> (list_ex mc_toPrice cns \<or> list_ex carries_energy mvs \<longrightarrow> list_ex mc_toPrice cns')"
  using assms
proof (induction mvs arbitrary: cs t cns)
  case (Cons mv mvs)
  show ?case
  proof (cases "isValidMeterValue mv")
    case True
    with Cons.prems(2,4) have ts: "mv_timestamp mv = ts" "\<not> in_the_past t mv"
      by (auto simp: past_at_def in_the_past_def split: option.splits)
    with Cons.prems(1) True obtain cs1 t1 co where
      s: "createConsumptionFromMeterValue env cs t (rt_lastConsumption (tx_run t)) mv = Inr (cs1, t1, co)"
      and r: "consume_meter_values env cs1 t1 mvs (case co of None \<Rightarrow> cns | Some c \<Rightarrow> add_consumption c cns) = Inr (cs', t', cns')"
      by (auto elim!: bindE_InrE)
    note v = value_single[OF s Cons.prems(3) ts(1) Cons.prems(4)]
    from Cons.IH[OF r _ v(1,2)] v(3-5) Cons.prems(2) show ?thesis by auto
  next
    case False
    then have "\<not> carries_energy mv" by (simp add: carries_energy_branch)
    with False Cons show ?thesis by simp
  qed
qed simp

lemma consume_past:
  "consume_meter_values env cs t mvs cns = Inr (cs', t', cns') \<Longrightarrow>
   \<forall>mv \<in> set mvs. isValidMeterValue mv \<longrightarrow> mv_timestamp mv = ts \<Longrightarrow> past_at ts t \<Longrightarrow> t' = t \<and> cns' = cns"
  by (induction mvs) (auto simp: past_at_def in_the_past_def split: option.splits if_splits)

lemma assert_cumulated_simps [simp]:
  "length (map (assertConsistencyInConsumption cs cid) cns) = length cns" by simp

lemma complete_created:
  assumes "createConsumptionsFromMeterValues env cs t mvs = Inr (cs', t', cns)" and "complete_values mvs"
  shows "forward t t'" and "tx_id t' = tx_id t \<and> tx_chargeBoxID t' = tx_chargeBoxID t"
    and "rt_lastConsumption (tx_run t) \<noteq> None \<longrightarrow> rt_lastConsumption (tx_run t') \<noteq> None"
    and "cns = [] \<or> (\<exists>c. cns = [c] \<and> mc_cumulatedConsumptionWh c = Some (rt_currentTotalConsumptionWh (tx_run t')))"
proof -
  from assms(1) obtain raw where raw: "consume_meter_values env cs t mvs [] = Inr (cs', t', raw)"
    and m: "mset cns = mset (map (assertConsistencyInConsumption cs' (tx_connectorId t')) raw)"
    by (rule created_energy)
  show "forward t t'" using raw by (rule consume_forward)
  obtain ts where ts: "\<forall>mv \<in> set mvs. isValidMeterValue mv \<longrightarrow> mv_timestamp mv = ts"
    using assms(2) unfolding complete_values_def by (metis (no_types, lifting))
  have all: "tx_id t' = tx_id t \<and> tx_chargeBoxID t' = tx_chargeBoxID t
    \<and> (rt_lastConsumption (tx_run t) \<noteq> None \<longrightarrow> rt_lastConsumption (tx_run t') \<noteq> None)
    \<and> (raw = [] \<or> (\<exists>c. raw = [c] \<and> mc_cumulatedConsumptionWh c = Some (rt_currentTotalConsumptionWh (tx_run t'))))"
  proof (cases "past_at ts t")
    case True
    from consume_past[OF raw ts True] show ?thesis by simp
  next
    case False
    have "single ts t []" by (simp add: single_def)
    note s = consume_single[OF raw ts this False]
    have "raw = [] \<or> list_ex mc_toPrice raw"
    proof (cases "list_ex isValidMeterValue mvs")
      case True
      with assms(2) s show ?thesis by (simp add: complete_values_def)
    next
      case no: False
      have "consume_meter_values env cs t mvs [] = Inr (cs, t, [])"
        using no by (induction mvs) auto
      with raw show ?thesis by simp
    qed
    with s show ?thesis by (auto simp: single_def)
  qed
  then show "tx_id t' = tx_id t \<and> tx_chargeBoxID t' = tx_chargeBoxID t"
    and "rt_lastConsumption (tx_run t) \<noteq> None \<longrightarrow> rt_lastConsumption (tx_run t') \<noteq> None" by blast+
  from all m show "cns = [] \<or> (\<exists>c. cns = [c] \<and> mc_cumulatedConsumptionWh c = Some (rt_currentTotalConsumptionWh (tx_run t')))"
    by auto
qed

lemma stop_values_complete: "complete_values (createTransactionStopMeterValues cs t req)"
proof -
  obtain rest where mvs: "createTransactionStopMeterValues cs t req =
      stop_value t req (sr_meterStop req) OCPP_ENERGY_ACTIVE_IMPORT_REGISTER_ATTRIBUTE # rest"
    and rest: "\<forall>mv \<in> set rest. mv_timestamp mv = sr_timestamp req \<and> \<not> carries_energy mv"
    by (rule stop_meter_values)
  have "carries_energy (stop_value t req (sr_meterStop req) OCPP_ENERGY_ACTIVE_IMPORT_REGISTER_ATTRIBUTE)"
    "mv_timestamp (stop_value t req (sr_meterStop req) OCPP_ENERGY_ACTIVE_IMPORT_REGISTER_ATTRIBUTE) = sr_timestamp req"
    by (simp_all add: stop_values classify)
  with rest show ?thesis unfolding mvs complete_values_def by auto
qed

section \<open>The database\<close>

text \<open>The energy of a session, and the order in which a session evolves: a stop is final.\<close>

definition session_energy :: "transaction \<Rightarrow> rat" where
  "session_energy t = (case tx_stop t of None \<Rightarrow> rt_currentTotalConsumptionWh (tx_run t) | Some st \<Rightarrow> stop_totalConsumptionWh st)"

definition session_ok :: "transaction \<Rightarrow> bool" where
  "session_ok t = (case tx_stop t of
       None \<Rightarrow> rt_lastConsumption (tx_run t) \<noteq> None \<and> meter_account t \<and> tx_meterStart t \<le> lc_value (last_of t)
     | Some st \<Rightarrow> 0 \<le> stop_totalConsumptionWh st)"

definition later :: "transaction \<Rightarrow> transaction \<Rightarrow> bool" where
  "later t t' = (tx_id t' = tx_id t \<and>
     (case tx_stop t of
        None \<Rightarrow> session_energy t \<le> session_energy t'
      | Some st \<Rightarrow> (\<exists>st'. tx_stop t' = Some st' \<and> stop_meterStop st' = stop_meterStop st
          \<and> stop_totalConsumptionWh st' = stop_totalConsumptionWh st \<and> stop_userID st' = stop_userID st
          \<and> stop_tagID st' = stop_tagID st)))"

text \<open>A session is kept when it is stopped or has energy.\<close>

definition kept :: "transaction \<Rightarrow> bool" where
  "kept t = (tx_stop t \<noteq> None \<or> 0 < session_energy t)"

definition db_ok :: "central \<Rightarrow> bool" where
  "db_ok s = (distinct (map tx_id (ct_transactions s)) \<and> (\<forall>t \<in> set (ct_transactions s). session_ok t))"

definition evolved :: "central \<Rightarrow> central \<Rightarrow> bool" where
  "evolved s0 s = (\<forall>t \<in> set (ct_transactions s0). kept t \<longrightarrow> (\<exists>t' \<in> set (ct_transactions s). later t t'))"

lemma later_refl [simp]: "later t t"
  by (simp add: later_def split: option.split)

lemma later_trans: "later t u \<Longrightarrow> later u v \<Longrightarrow> later t v"
  by (auto simp: later_def session_energy_def split: option.splits)

lemma later_kept: "later t u \<Longrightarrow> kept t \<Longrightarrow> kept u"
  by (auto simp: later_def kept_def split: option.splits)

lemma session_ok_energy: "session_ok t \<Longrightarrow> 0 \<le> session_energy t"
  by (auto simp: session_ok_def session_energy_def meter_account_def split: option.splits)

lemma evolved_refl [simp]: "evolved s s"
  unfolding evolved_def using later_refl by blast

lemma evolved_trans: "evolved s t \<Longrightarrow> evolved t u \<Longrightarrow> evolved s u"
  unfolding evolved_def by (meson later_trans later_kept)

section \<open>Saving and reading\<close>

lemma stored_simps [simp]:
  "tx_id (stored t) = tx_id t" "session_energy (stored t) = session_energy t"
  "tx_stop (stored t) = None \<longleftrightarrow> tx_stop t = None"
  by (simp_all add: stored_def stored_stop_def stored_runtime_def session_energy_def split: option.split)

lemma stored_ok: "session_ok t \<Longrightarrow> session_ok (stored t)"
  by (auto simp: stored_def stored_stop_def stored_runtime_def session_ok_def meter_account_def last_of_def first_last_def
      split: option.splits)

lemma stored_later: "later t (stored t)"
  by (auto simp: later_def stored_def stored_stop_def stored_runtime_def session_energy_def split: option.split)

lemma with_user_simps [simp]:
  "tx_id (with_user env t) = tx_id t" "tx_stop (with_user env t) = tx_stop t" "tx_run (with_user env t) = tx_run t"
  "tx_meterStart (with_user env t) = tx_meterStart t" "tx_timestamp (with_user env t) = tx_timestamp t"
  "session_energy (with_user env t) = session_energy t" "session_ok (with_user env t) = session_ok t"
  by (simp_all add: with_user_def session_energy_def session_ok_def meter_account_def last_of_def first_last_def
      split: option.splits)

text \<open>
  Both collections are replaced or inserted into by a key: the identifier of a transaction, and the
  transaction and end of a consumption.
\<close>

interpretation transactions: evolving_collection tx_id replace_transaction session_ok later
proof (unfold_locales, goal_cases)
  case (1 d ds)
  show ?case by (induction ds) auto
next
  case (2 ds d)
  then show ?case by (induction ds) (auto simp: rev_image_eqI)
qed simp

definition consumption_key :: "meter_consumption \<Rightarrow> int \<times> int" where
  "consumption_key c = (mc_transactionId c, mc_endedAt c)"

interpretation consumptions: keyed_collection consumption_key replace_consumption
proof (unfold_locales, goal_cases)
  case (1 d ds)
  show ?case by (induction ds) (auto simp: consumption_key_def)
next
  case (2 ds d)
  then show ?case by (induction ds) (auto simp: consumption_key_def rev_image_eqI)
qed

text \<open>A copy of a transaction of the database, further on.\<close>

definition pending :: "transaction \<Rightarrow> central \<Rightarrow> bool" where
  "pending t s = (session_ok t \<and> (\<forall>u \<in> set (ct_transactions s). tx_id u = tx_id t \<longrightarrow> later u t))"

lemma pending_consumptions [simp]: "pending t (s\<lparr>ct_consumptions := x\<rparr>) = pending t s"
  "pending t (s\<lparr>ct_station := y\<rparr>) = pending t s"
  by (simp_all add: pending_def)

lemma pending_later: "pending t s \<Longrightarrow> later t t' \<Longrightarrow> session_ok t' \<Longrightarrow> pending t' s"
  unfolding pending_def by (metis later_def later_trans)

definition keeps :: "central \<Rightarrow> central \<Rightarrow> bool" where
  "keeps s0 s = (db_ok s \<and> evolved s0 s)"

lemma keeps_simps [simp]: "keeps s0 (s\<lparr>ct_consumptions := x\<rparr>) = keeps s0 s" "keeps s0 (s\<lparr>ct_station := y\<rparr>) = keeps s0 s"
  by (simp_all add: keeps_def db_ok_def evolved_def)

lemma save_keeps:
  assumes "keeps s0 s" and "pending t s"
  shows "keeps s0 (s\<lparr>ct_transactions := replace_transaction (stored t) (ct_transactions s)\<rparr>)"
proof -
  let ?s = "s\<lparr>ct_transactions := replace_transaction (stored t) (ct_transactions s)\<rparr>"
  have d: "distinct (map tx_id (ct_transactions s))" and v: "\<forall>u \<in> set (ct_transactions s). session_ok u"
    using assms(1) by (simp_all add: keeps_def db_ok_def)
  have "session_ok (stored t)" using assms(2) by (simp add: pending_def stored_ok)
  then have "db_ok ?s"
    unfolding db_ok_def using transactions.put_distinct[OF d] transactions.put_valid[OF d v] by simp
  moreover have later: "tx_id u = tx_id (stored t) \<Longrightarrow> u \<in> set (ct_transactions s) \<Longrightarrow> later u (stored t)" for u
    using assms(2) unfolding pending_def by (metis later_trans stored_later stored_simps(1))
  have "evolved s ?s"
    unfolding evolved_def using transactions.put_later[OF d, of "stored t"] later by simp
  ultimately show ?thesis using assms(1) unfolding keeps_def by (blast intro: evolved_trans)
qed

lemma delete_keeps:
  assumes "keeps s0 s" and "\<And>u. u \<in> set (ct_transactions s) \<Longrightarrow> tx_id u = tid \<Longrightarrow> \<not> kept u"
  shows "keeps s0 (deleteTransaction tid s)"
proof -
  have "evolved s (deleteTransaction tid s)"
    unfolding evolved_def deleteTransaction_def using assms(2) later_refl by fastforce
  moreover have "db_ok (deleteTransaction tid s)"
    using assms(1) by (auto simp: keeps_def db_ok_def deleteTransaction_def distinct_map_filter)
  ultimately show ?thesis using assms(1) unfolding keeps_def by (blast intro: evolved_trans)
qed

section \<open>Rules for the handlers\<close>

lemma saveTransaction_triple: "triple (keeps s0) (pending t) (saveTransaction t) (\<lambda>_ _. True)"
  unfolding saveTransaction_def by (intro triple_modify) (simp add: save_keeps)

lemma saveConsumption_triple: "triple (keeps s0) (pending t) (saveConsumption c) (\<lambda>_. pending t)"
  unfolding saveConsumption_def by (intro triple_modify) simp

lemma saveChargingStation_triple: "triple (keeps s0) (pending t) (saveChargingStation cs) (\<lambda>_. pending t)"
  unfolding saveChargingStation_def by (intro triple_modify) simp

lemma saveChargingStation_last: "triple (keeps s0) P (saveChargingStation cs) (\<lambda>_ _. True)"
  unfolding saveChargingStation_def by (intro triple_modify) simp

lemma same_account_energy: "same_account t t' \<Longrightarrow> session_energy t' = session_energy t"
  by (simp add: same_account_def session_energy_def split: option.split)

lemma same_account_ok: "same_account t t' \<Longrightarrow> session_ok t' = session_ok t"
  using same_account_account[of t t'] same_account_last[of t t']
  by (simp add: same_account_def session_ok_def split: option.split)

lemma same_account_later: "same_account t t' \<Longrightarrow> later t t'"
  using same_account_energy[of t t'] by (auto simp: same_account_def later_def split: option.splits)

lemma pending_same: "pending t s \<Longrightarrow> same_account t t' \<Longrightarrow> pending t' s"
  using pending_later same_account_later same_account_ok unfolding pending_def by blast

lemma process_consumptions_triple:
  assumes "cns = [] \<or> (\<exists>c. cns = [c] \<and> mc_cumulatedConsumptionWh c = Some (rt_currentTotalConsumptionWh (tx_run t)))"
  shows "triple (keeps s0) (pending t) (process_consumptions env cs action t cns) (\<lambda>t' s. pending t' s \<and> same_account t t')"
  using assms
proof
  assume "cns = []"
  then show ?thesis by (simp add: triple_return)
next
  assume "\<exists>c. cns = [c] \<and> mc_cumulatedConsumptionWh c = Some (rt_currentTotalConsumptionWh (tx_run t))"
  then obtain c where c: "cns = [c]" "mc_cumulatedConsumptionWh c = Some (rt_currentTotalConsumptionWh (tx_run t))" by blast
  let ?u = "updateTransactionWithConsumption (oe_now env) cs t c"
  have u: "same_account t ?u" by (rule updateTransactionWithConsumption_account[OF c(2)])
  show ?thesis
    unfolding c(1) process_consumptions.simps
  proof (rule triple_bind[where Q = "\<lambda>(t', c') s. pending t' s \<and> same_account t t'"])
    show "triple (keeps s0) (pending t) (liftS (price_consumption env cs action ?u c)) (\<lambda>(t', c') s. pending t' s \<and> same_account t t')"
      using u by (intro triple_lift) (auto dest!: price_consumption_account intro: pending_same same_account_trans)
  next
    fix a :: "transaction \<times> meter_consumption"
    obtain t' c' where a: "a = (t', c')" by (cases a)
    show "triple (keeps s0) (case a of (t', c') \<Rightarrow> \<lambda>s. pending t' s \<and> same_account t t')
        (case a of (t', c') \<Rightarrow> bindS (saveConsumption c') (\<lambda>_. returnS t')) (\<lambda>t' s. pending t' s \<and> same_account t t')"
      unfolding a prod.case saveConsumption_def
      by (rule triple_bind[where Q = "\<lambda>_ s. pending t' s \<and> same_account t t'"], rule triple_modify, simp, rule triple_return, simp)
  qed
qed

lemma with_user_later: "later u (with_user env u)"
  by (auto simp: later_def split: option.split)

lemma getTransaction_pending:
  assumes "keeps s0 s" and "getTransaction env tid s = Some t"
  shows "pending t s"
proof -
  from assms(2) obtain u where u: "find (\<lambda>t. tx_id t = tid) (ct_transactions s) = Some u" and t: "t = with_user env u"
    by (auto simp: getTransaction_def)
  then have mem: "u \<in> set (ct_transactions s)" by (auto simp: find_Some_iff)
  have "distinct (map tx_id (ct_transactions s))" and ok: "session_ok u"
    using assms(1) mem by (auto simp: keeps_def db_ok_def)
  then have "v = u" if "v \<in> set (ct_transactions s)" "tx_id v = tx_id u" for v
    using that mem by (simp add: distinct_map inj_on_def)
  with ok with_user_later[of u env] show ?thesis by (auto simp: pending_def t)
qed

lemma created_pending:
  assumes "pending t s" and "tx_stop t = None" and "createConsumptionsFromMeterValues env cs t mvs = Inr (cs', t', cns)"
    and "complete_values mvs"
  shows "pending t' s" and "tx_stop t' = None"
    and "cns = [] \<or> (\<exists>c. cns = [c] \<and> mc_cumulatedConsumptionWh c = Some (rt_currentTotalConsumptionWh (tx_run t')))"
proof -
  note c = complete_created[OF assms(3,4)]
  from c(1) assms(2) show stop: "tx_stop t' = None" by (simp add: forward_def)
  have "meter_account t" "rt_lastConsumption (tx_run t) \<noteq> None" "tx_meterStart t \<le> lc_value (last_of t)"
    using assms(1,2) by (simp_all add: pending_def session_ok_def)
  with c(1,3) have "session_ok t'"
    using stop forward_account[OF c(1)] by (auto simp: session_ok_def forward_def)
  moreover have "later t t'" using c(1,2) assms(2) stop by (simp add: later_def session_energy_def forward_def)
  ultimately show "pending t' s" using assms(1) pending_later by blast
  show "cns = [] \<or> (\<exists>c. cns = [c] \<and> mc_cumulatedConsumptionWh c = Some (rt_currentTotalConsumptionWh (tx_run t')))"
    by (rule c(4))
qed

section \<open>The four requests\<close>

text \<open>Meter values.\<close>

lemma meter_values_update_triple:
  assumes "complete_values mvs"
  shows "triple (keeps s0) (\<lambda>s. pending t s \<and> tx_stop t = None) (meter_values_update env cs t mvs) (\<lambda>_ _. True)"
  unfolding meter_values_update_def Let_def
proof (rule triple_bind[where Q = "\<lambda>t1 s. pending t1 s \<and> tx_stop t1 = None"], goal_cases)
  case 1
  show ?case
    by (intro triple_lift)
      (auto dest!: updateTransactionWithMeterValues_account intro: pending_same simp: same_account_def)
next
  case (2 t1)
  show ?case
  proof (rule triple_bind[where Q = "\<lambda>(cs2, t2, cns) s. pending t2 s \<and> tx_stop t2 = None
        \<and> (cns = [] \<or> (\<exists>c. cns = [c] \<and> mc_cumulatedConsumptionWh c = Some (rt_currentTotalConsumptionWh (tx_run t2))))"], goal_cases)
    case 1
    show ?case
    proof (rule triple_lift)
      fix s a assume p: "pending t1 s \<and> tx_stop t1 = None" and r: "createConsumptionsFromMeterValues env cs t1 mvs = Inr a"
      obtain cs2 t2 cns where a: "a = (cs2, t2, cns)" by (cases a)
      from created_pending[OF conjunct1[OF p] conjunct2[OF p] r[unfolded a] assms]
      show "(case a of (cs2, t2, cns) \<Rightarrow> \<lambda>s. pending t2 s \<and> tx_stop t2 = None
        \<and> (cns = [] \<or> (\<exists>c. cns = [c] \<and> mc_cumulatedConsumptionWh c = Some (rt_currentTotalConsumptionWh (tx_run t2))))) s"
        unfolding a by simp
    qed
  next
    case (2 a)
    obtain cs2 t2 cns where a: "a = (cs2, t2, cns)" by (cases a)
    have save: "triple (keeps s0) (pending t4)
        (bindS (liftS (processTransactionRoaming env t4 cs2 UPDATE)) (\<lambda>_. bindS (saveTransaction t4) (\<lambda>_. saveChargingStation x)))
        (\<lambda>_ _. True)" for t4 x
      by (rule triple_bind[where Q = "\<lambda>_. pending t4"], rule triple_lift, simp)
        (rule triple_bind[OF saveTransaction_triple saveChargingStation_last])
    show ?case
      unfolding a prod.case triple_pure_pre
    proof (rule triple_weaken[where P' = "\<lambda>s. (cns = [] \<or> (\<exists>c. cns = [c] \<and> mc_cumulatedConsumptionWh c =
          Some (rt_currentTotalConsumptionWh (tx_run t2)))) \<and> pending t2 s" and Q' = "\<lambda>_ _. True", OF triple_pure_pre], goal_cases)
      case 1
      show ?case
      proof (rule triple_bind[OF process_consumptions_triple[OF 1]], goal_cases)
        case (1 t3)
        show ?case
          by (rule triple_weaken[OF save]) (auto intro: pending_same set_phases_used_account)
      qed
    qed auto
  qed
qed

text \<open>The values of a request, whatever they are, have one time and an energy register.\<close>

definition complete_request :: "charging_station \<Rightarrow> meter_request \<Rightarrow> bool" where
  "complete_request cs r = (let r' = validateMeterValues cs r in
     case normalizeMeterValues cs (mr_connectorId r') (mr_transactionId r') (mr_values r') of
       Inl _ \<Rightarrow> True | Inr mvs \<Rightarrow> complete_values mvs)"

lemma handleMeterValues_keeps:
  assumes "complete_request (ct_station s) r" and "keeps s0 s"
  shows "keeps s0 (fst (handleMeterValues env r s))"
proof -
  let ?cs = "ct_station s"
  let ?r = "validateMeterValues ?cs r"
  show ?thesis
  proof (cases "normalizeMeterValues ?cs (mr_connectorId ?r) (mr_transactionId ?r) (mr_values ?r)")
    case (Inr mvs)
    show ?thesis
    proof (cases "mvs = []")
      case False
      show ?thesis
      proof (cases "getTransactionFromMeterValues env ?r s")
        case t: (Inr t)
        then have "getTransaction env (or_else (mr_transactionId ?r) 0) s = Some t" "tx_stop t = None"
          by (auto simp: getTransactionFromMeterValues_def split: if_splits option.splits)
        then have "pending t s \<and> tx_stop t = None" using getTransaction_pending[OF assms(2)] by blast
        moreover have "complete_values mvs" using assms(1) Inr by (simp add: complete_request_def Let_def)
        ultimately have "keeps s0 (fst (meter_values_update env ?cs t mvs s))"
          using triple_inv[OF meter_values_update_triple[of mvs s0 t env ?cs]] assms(2) by blast
        with Inr t False show ?thesis
          by (simp add: handleMeterValues_def Let_def handler_simps clock_filter_removes_nothing)
      qed (use Inr False assms(2) in \<open>simp add: handleMeterValues_def Let_def handler_simps clock_filter_removes_nothing\<close>)
    qed (use Inr assms(2) in \<open>simp add: handleMeterValues_def Let_def handler_simps clock_filter_removes_nothing\<close>)
  qed (use assms(2) in \<open>simp add: handleMeterValues_def Let_def handler_simps\<close>)
qed

text \<open>Stop.\<close>

lemma stopped_pending:
  assumes "pending t s" and "tx_stop t = None"
  shows "pending (updateTransactionWithStopTransaction cs t req usr alt tag soft) s"
proof -
  let ?t = "updateTransactionWithStopTransaction cs t req usr alt tag soft"
  have "session_energy ?t = session_energy t" "tx_id ?t = tx_id t" "session_ok ?t = (0 \<le> session_energy ?t)"
    using assms(2) by (simp_all add: updateTransactionWithStopTransaction_def session_energy_def session_ok_def Let_def)
  moreover have "0 \<le> session_energy t" using assms(1) session_ok_energy by (simp add: pending_def)
  ultimately show ?thesis using assms by (intro pending_later[OF assms(1)]) (simp_all add: later_def)
qed

lemma apply_last_triple:
  "triple (keeps s0) (\<lambda>s. pending t s \<and> tx_stop t = None) (checkAndApplyLastConsumptionInStopTransaction env cs t req)
     (\<lambda>t' s. pending t' s \<and> tx_stop t' = None)"
proof (cases "rt_transactionEndReceived (tx_run t)")
  case True
  then show ?thesis
    unfolding checkAndApplyLastConsumptionInStopTransaction_def
    using after_transaction_end_account[of t req]
    by (auto intro!: triple_return intro: pending_same simp: same_account_def)
next
  case False
  show ?thesis
    unfolding checkAndApplyLastConsumptionInStopTransaction_def
    using False
  proof (simp only: not_False_eq_True if_True,
      rule_tac Q = "\<lambda>(cs2, t2, cns) s. (tx_stop t2 = None \<and> (cns = [] \<or> (\<exists>c. cns = [c] \<and> mc_cumulatedConsumptionWh c =
        Some (rt_currentTotalConsumptionWh (tx_run t2))))) \<and> pending t2 s" in triple_bind, goal_cases)
    case 1
    show ?case
    proof (rule triple_lift)
      fix s a assume p: "pending t s \<and> tx_stop t = None"
        and r: "createConsumptionsFromMeterValues env cs t (createTransactionStopMeterValues cs t req) = Inr a"
      obtain cs2 t2 cns where a: "a = (cs2, t2, cns)" by (cases a)
      from created_pending[OF conjunct1[OF p] conjunct2[OF p] r[unfolded a] stop_values_complete]
      show "(case a of (cs2, t2, cns) \<Rightarrow> \<lambda>s. (tx_stop t2 = None \<and> (cns = [] \<or> (\<exists>c. cns = [c] \<and> mc_cumulatedConsumptionWh c =
        Some (rt_currentTotalConsumptionWh (tx_run t2))))) \<and> pending t2 s) s"
        unfolding a by simp
    qed
  next
    case (2 a)
    obtain cs2 t2 cns where a: "a = (cs2, t2, cns)" by (cases a)
    show ?case
      unfolding a prod.case
    proof (rule triple_pure_pre, elim conjE)
      assume t2: "tx_stop t2 = None"
        and cns: "cns = [] \<or> (\<exists>c. cns = [c] \<and> mc_cumulatedConsumptionWh c = Some (rt_currentTotalConsumptionWh (tx_run t2)))"
      show "triple (keeps s0) (pending t2) (process_consumptions env cs2 STOP t2 cns) (\<lambda>t' s. pending t' s \<and> tx_stop t' = None)"
        by (rule triple_weaken[OF process_consumptions_triple[OF cns]]) (use t2 in \<open>auto simp: same_account_def\<close>)
    qed
  qed
qed

lemma stop_body_triple: "triple (keeps s0) (pending t) (stop_body env cs req soft central t) (\<lambda>_ _. True)"
  unfolding stop_body_def Let_def
proof (rule triple_bind[where Q = "\<lambda>_ s. pending t s \<and> tx_stop t = None"], goal_cases)
  case 1
  show ?case
    by (intro triple_lift) (auto simp: checkAuthorizeStopTransactionAndGetUsers_def elim!: bindE_InrE split: if_split_asm)
next
  case (2 users)
  obtain usr alt where u: "users = (usr, alt)" by (cases users)
  show ?case
    unfolding u prod.case
  proof (rule triple_bind[where Q = "\<lambda>_ s. pending t s \<and> tx_stop t = None"], goal_cases)
    case 1
    show ?case unfolding saveChargingStation_def by (intro triple_modify) simp
  next
    case 2
    show ?case
    proof (rule triple_bind[OF apply_last_triple], goal_cases)
      case (1 t1)
      let ?cs = "clearChargingStationConnectorRuntimeData cs (tx_connectorId t)"
      let ?req = "checkSoftStopTransaction t req soft"
      let ?tag = "getStopTransactionTagId env req t"
      let ?t3 = "updateTransactionWithStopTransaction ?cs (checkAndUpdateTransactionWithSignedDataInStopTransaction t1 ?req) ?req usr alt ?tag soft"
      have t3: "pending ?t3 s" if "pending t1 s" "tx_stop t1 = None" for s
      proof -
        let ?t2 = "checkAndUpdateTransactionWithSignedDataInStopTransaction t1 ?req"
        have "same_account t1 ?t2"
          by (simp add: checkAndUpdateTransactionWithSignedDataInStopTransaction_def signed_account)
        with that have "pending ?t2 s" "tx_stop ?t2 = None" by (auto intro: pending_same simp: same_account_def)
        then show ?thesis by (rule stopped_pending)
      qed
      show ?case
      proof (rule triple_bind[where Q = "\<lambda>t4 s. pending t4 s"], goal_cases)
        case 1
        show ?case by (intro triple_lift) (auto intro: pending_same[OF t3] dest!: billing_account)
      next
        case (2 t4)
        show ?case
          by (rule triple_bind[where Q = "\<lambda>_. pending t4"], rule triple_lift, simp, rule saveTransaction_triple)
      qed
    qed
  qed
qed

lemma handleStopTransaction_keeps:
  assumes "keeps s0 s"
  shows "keeps s0 (fst (handleStopTransaction env header req soft central s))"
proof (cases header)
  case (Some cs)
  let ?req = "req\<lparr>sr_idTag := cleanUpTagID (sr_idTag req)\<rparr>"
  show ?thesis
  proof (cases "getTransaction env (sr_transactionId req) s")
    case t: (Some t)
    from triple_inv[OF stop_body_triple assms getTransaction_pending[OF assms t], of env cs ?req soft central] Some t assms
    show ?thesis by (simp add: handleStopTransaction_def Let_def handler_simps)
  qed (use Some assms in \<open>simp add: handleStopTransaction_def Let_def handler_simps\<close>)
qed (use assms in \<open>simp add: handleStopTransaction_def handler_simps\<close>)

text \<open>Start.\<close>

lemma active_mem:
  assumes "getActiveTransaction env cs cid s = Some t"
  obtains u where "filter (active_on cs cid) (ct_transactions s) = [u]" and "t = with_user env u"
    and "u \<in> set (ct_transactions s)" and "tx_stop u = None"
proof -
  from assms obtain u where f: "filter (active_on cs cid) (ct_transactions s) = [u]" and t: "t = with_user env u"
    by (auto simp: getActiveTransaction_def split: list.splits)
  have "u \<in> set (filter (active_on cs cid) (ct_transactions s))" unfolding f by simp
  then have "u \<in> set (ct_transactions s)" "tx_stop u = None" by (auto simp: active_on_def)
  with that f t show thesis by blast
qed

lemma stop_without_station [simp]: "handleStopTransaction env None req soft central s = (s, Inl TypeError)"
  by (simp add: handleStopTransaction_def liftS_def)

lemma existing_keeps:
  "process_existing_loop n env lastID cid cs s = Some (s', cs') \<Longrightarrow> keeps s0 s \<Longrightarrow>
     keeps s0 s' \<and> set (ct_transactions s') \<subseteq> set (ct_transactions s)"
proof (induction n arbitrary: lastID cs s)
  case (Suc n)
  show ?case
  proof (cases "getActiveTransaction env cs cid s")
    case None
    with Suc.prems show ?thesis by simp
  next
    case (Some t)
    from Some obtain u where u: "t = with_user env u" "u \<in> set (ct_transactions s)" "tx_stop u = None" by (rule active_mem)
    show ?thesis
    proof (cases "lastID \<noteq> Some (tx_id t) \<and> rt_currentTotalConsumptionWh (tx_run t) \<le> 0")
      case True
      have "\<not> kept v" if "v \<in> set (ct_transactions s)" "tx_id v = tx_id t" for v
      proof -
        have "v = u" using Suc.prems(2) that u by (simp add: keeps_def db_ok_def distinct_map inj_on_def)
        with True u show ?thesis by (simp add: kept_def session_energy_def)
      qed
      with Suc.prems(2) have "keeps s0 (deleteTransaction (tx_id t) s)" by (rule delete_keeps)
      moreover have "set (ct_transactions (deleteTransaction (tx_id t) s)) \<subseteq> set (ct_transactions s)"
        by (auto simp: deleteTransaction_def)
      ultimately show ?thesis
        using Suc.prems(1) Some True Suc.IH[of _ _ "deleteTransaction (tx_id t) s"] by (simp, blast)
    next
      case False
      with Suc.prems Some Suc.IH[of _ _ s] show ?thesis by (auto split: if_split_asm)
    qed
  qed
qed simp

definition unused :: "int \<Rightarrow> central \<Rightarrow> bool" where
  "unused tid s = (tid \<notin> tx_id ` set (ct_transactions s))"

lemma unused_pending: "unused (tx_id t) s \<Longrightarrow> session_ok t \<Longrightarrow> pending t s"
  unfolding unused_def pending_def by (metis imageI)

lemma createTransaction_ok: "session_ok (set_user usr (createTransaction env cs req tid))"
  "tx_id (set_user usr (createTransaction env cs req tid)) = tid"
  "tx_stop (set_user usr (createTransaction env cs req tid)) = None"
  by (simp_all add: createTransaction_def set_user_def session_ok_def meter_account_def last_of_def first_last_def
      blank_runtime_def Let_def split: option.split)

lemma createTransaction_last:
  "rt_lastConsumption (tx_run (set_user usr (createTransaction env cs req tid))) =
     Some \<lparr> lc_value = tx_meterStart (set_user usr (createTransaction env cs req tid)),
            lc_timestamp = tx_timestamp (set_user usr (createTransaction env cs req tid)) \<rparr>"
  by (simp add: createTransaction_def set_user_def Let_def split: option.split)

lemma first_value_valid: "carries_energy \<lparr> mv_connectorId = a, mv_transactionId = b, mv_timestamp = e,
    mv_attribute = Some OCPP_ENERGY_ACTIVE_IMPORT_REGISTER_ATTRIBUTE, mv_value = v \<rparr>"
  by (simp add: stop_values classify)

lemma price_first_ok:
  assumes "price_first env cs t = Inr (cs', t')" and "session_ok t" and "tx_stop t = None"
    and "rt_lastConsumption (tx_run t) = Some \<lparr> lc_value = tx_meterStart t, lc_timestamp = tx_timestamp t \<rparr>"
  shows "session_ok t' \<and> tx_id t' = tx_id t"
proof -
  let ?mv = "\<lparr> mv_connectorId = tx_connectorId t, mv_transactionId = Some (tx_id t), mv_timestamp = tx_timestamp t,
     mv_attribute = Some OCPP_ENERGY_ACTIVE_IMPORT_REGISTER_ATTRIBUTE, mv_value = Number (Some (tx_meterStart t)) \<rparr>"
  from assms(1) obtain t1 co c t2 c2 where
    f: "createConsumptionFromMeterValue env cs t (rt_lastConsumption (tx_run t)) ?mv = Inr (cs', t1, co)"
    and "processTransactionPricing env t1 cs' c START = Inr (t2, c2)" and "processTransactionBilling env t2 START = Inr t'"
    unfolding price_first_def createFirstConsumption_def assms(4)[symmetric]
    by (auto elim!: bindE_InrE split: option.splits)
  from this(2,3) have same: "same_account t1 t'"
    by (blast intro: same_account_trans dest: pricing_account billing_account)
  from f first_value_valid obtain c c2 where e: "energy_consumption cs' t (last_of t) ?mv c2 = (t1, c)"
    by (rule energy_value)
  from energy_last[OF e] have l: "rt_lastConsumption (tx_run t1) \<noteq> None" "tx_id t1 = tx_id t" using assms(4) by auto
  from energy_effect(1)[OF e] have fw: "forward t t1" .
  have "session_ok t1"
    using assms(2,3) l(1) fw forward_account[OF fw] by (auto simp: session_ok_def forward_def)
  with same_account_ok[OF same] same l(2) show ?thesis by (simp add: same_account_def)
qed

lemma handleStartTransaction_keeps:
  assumes "keeps s0 s" and fresh: "\<And>ids. se_newID env ids \<notin> set ids"
  shows "keeps s0 (fst (handleStartTransaction env req s))"
proof -
  have "triple (keeps s0) (\<lambda>_. True) (handleStartTransaction env req) (\<lambda>_ _. True)"
    unfolding handleStartTransaction_def Let_def
  proof (rule triple_bind[where Q = "\<lambda>_ _. True"], rule triple_read, simp, rule triple_if, rule triple_lift, simp,
      rule triple_bind[where Q = "\<lambda>tid s. unused tid s"], goal_cases)
    case (1 cs)
    show ?case
      using fresh[of "map tx_id _"] by (intro triple_read) (simp add: unused_def findAvailableID_def)
  next
    case (2 cs tid)
    let ?req = "req\<lparr>st_idTag := cleanUpTagID (st_idTag req)\<rparr>"
    show ?case
    proof (rule triple_bind[where Q = "\<lambda>_ s. unused tid s"], rule triple_lift, simp, goal_cases)
      case (1 usr)
      let ?t = "set_user usr (createTransaction env cs ?req tid)"
      show ?case
      proof (rule triple_bind[where Q = "\<lambda>_ s. unused tid s"], goal_cases)
        case 1
        show ?case
          unfolding processExistingTransaction_def
          by (rule tripleI) (auto simp: unused_def split: option.splits dest: existing_keeps)
      next
        case (2 cs1)
        show ?case
        proof (rule triple_bind[where Q = "\<lambda>(cs2, t2) s. pending t2 s"], goal_cases)
          case 1
          show ?case
          proof (rule triple_lift)
            fix s a assume "unused tid s" and "price_first env cs1 ?t = Inr a"
            moreover obtain cs2 t2 where "a = (cs2, t2)" by (cases a)
            ultimately show "(case a of (cs2, t2) \<Rightarrow> \<lambda>s. pending t2 s) s"
              using price_first_ok[OF _ createTransaction_ok(1,3) createTransaction_last, of env cs1 usr env cs ?req tid cs2 t2]
              by (auto simp: createTransaction_ok(2) intro: unused_pending)
          qed
        next
          case (2 a)
          obtain cs2 t2 where a: "a = (cs2, t2)" by (cases a)
          show ?case
            unfolding a prod.case
            by (rule triple_bind[OF saveTransaction_triple], rule triple_bind[OF saveChargingStation_last])
              (rule triple_return, simp)
        qed
      qed
    qed
  qed
  from triple_inv[OF this assms(1)] show ?thesis by simp
qed

text \<open>Status notification.\<close>

lemma later_stopped_ok: "tx_stop t \<noteq> None \<Longrightarrow> session_ok t \<Longrightarrow> later t t' \<Longrightarrow> session_ok t'"
  by (auto simp: later_def session_ok_def split: option.splits)

lemma extra_inactivity_later:
  assumes "buildAndPriceExtraConsumptionInactivity env cs t lastc = Inr (t', co)"
  shows "later t t'"
proof (cases "buildExtraConsumptionInactivity t lastc")
  case None
  with assms show ?thesis by (simp add: buildAndPriceExtraConsumptionInactivity_def)
next
  case (Some c)
  with assms obtain t1 c1 where p: "processTransactionPricing env t cs c END = Inr (t1, c1)"
    and t': "tx_id t' = tx_id t1" and st: "tx_stop t' = map_option (\<lambda>st. st\<lparr>
                   stop_timestamp := mc_endedAt c1,
                   stop_totalDurationSecs := Some (secs_between (mc_endedAt c1) (tx_timestamp t1)),
                   stop_price := rt_currentCumulatedPrice (tx_run t1),
                   stop_roundedPrice := rt_currentCumulatedRoundedPrice (tx_run t1)\<rparr>) (tx_stop t1)"
    and run: "tx_run t' = tx_run t1"
    by (auto simp: buildAndPriceExtraConsumptionInactivity_def elim!: bindE_InrE)
  from pricing_account[OF p] t' st run show ?thesis
    by (cases "tx_stop t") (simp_all add: later_def same_account_def session_energy_def)
qed

lemma extra_triple:
  "triple (keeps s0) (\<lambda>s. tx_stop t \<noteq> None \<and> pending t s)
     (checkAndComputeTransactionExtraInactivityFromStatusNotification env cs t old n)
     (\<lambda>(t', updated) s. pending t' s)"
proof (rule triple_pure_pre)
  assume "tx_stop t \<noteq> None"
  then obtain st where st: "tx_stop t = Some st" by blast
  have change: "pending t' s" if "pending t s" "later t t'" for t' s
  proof -
    have "session_ok t'" using that later_stopped_ok[of t t'] st by (simp add: pending_def)
    with that show ?thesis by (blast intro: pending_later)
  qed
  show "triple (keeps s0) (pending t) (checkAndComputeTransactionExtraInactivityFromStatusNotification env cs t old n)
     (\<lambda>(t', updated) s. pending t' s)"
    unfolding checkAndComputeTransactionExtraInactivityFromStatusNotification_def st option.case Let_def
  proof (rule triple_if, rule triple_return, simp, rule triple_if,
      rule triple_bind[where Q = "\<lambda>_. pending t"], rule triple_read, simp, goal_cases)
    case (1 lastc)
    let ?secs = "if counts_extra_inactivity old (sn_status n)
        then max 0 (of_int \<lfloor>secs_between (sn_timestamp n) (stop_timestamp st)\<rfloor>) else 0"
    let ?t2 = "t\<lparr>tx_stop := Some (st\<lparr>stop_extraInactivitySecs := ?secs,
        stop_inactivityStatus := getInactivityStatusLevel cs (tx_connectorId t) (Some (stop_totalInactivitySecs st + ?secs))\<rparr>)\<rparr>"
    let ?flag = "\<lambda>u. u\<lparr>tx_stop := map_option (\<lambda>x. x\<lparr>stop_extraInactivityComputed := True\<rparr>) (tx_stop u)\<rparr>"
    have t2: "later t ?t2" by (simp add: later_def st)
    have flag: "later u (?flag u)" for u :: transaction
      by (cases "tx_stop u") (simp_all add: later_def session_energy_def)
    show ?case
    proof (rule triple_bind[where Q = "\<lambda>(t3, co) s. pending (?flag t3) s"], goal_cases)
      case 1
      show ?case
      proof (rule triple_lift)
        fix s a assume p: "pending t s" and r: "buildAndPriceExtraConsumptionInactivity env cs ?t2 lastc = Inr a"
        obtain t3 co where a: "a = (t3, co)" by (cases a)
        from extra_inactivity_later[OF r[unfolded a]] t2 flag have "later t (?flag t3)" by (blast intro: later_trans)
        with p show "(case a of (t3, co) \<Rightarrow> \<lambda>s. pending (?flag t3) s) s" unfolding a prod.case by (rule change)
      qed
    next
      case (2 a)
      obtain t3 co where a: "a = (t3, co)" by (cases a)
      show ?case
        unfolding a prod.case
      proof (rule triple_bind[where Q = "\<lambda>_ s. pending (?flag t3) s"], goal_cases)
        case 1
        show ?case by (cases co) (simp_all add: triple_return saveConsumption_triple)
      next
        case 2
        show ?case by (rule triple_return) simp
      qed
    qed
  next
    case 2
    show ?case by (rule triple_return) (auto intro!: change simp: later_def st)
  qed
qed

lemma last_mem: "latest ts = Some t \<Longrightarrow> t \<in> set ts"
  by (induction ts arbitrary: t) (auto split: option.splits if_splits)

lemma last_pending:
  assumes "keeps s0 s" and "getLastTransactionFromChargingStation env cs cid s = Some t"
  shows "pending t s"
proof -
  from assms(2) obtain u where u: "u \<in> set (ct_transactions s)" and t: "t = with_user env u"
    by (auto simp: getLastTransactionFromChargingStation_def dest!: last_mem)
  have "distinct (map tx_id (ct_transactions s))" and ok: "session_ok u"
    using assms(1) u by (auto simp: keeps_def db_ok_def)
  then have "v = u" if "v \<in> set (ct_transactions s)" "tx_id v = tx_id u" for v
    using that u by (simp add: distinct_map inj_on_def)
  with ok with_user_later[of u env] show ?thesis by (auto simp: pending_def t)
qed

lemma completed_triple:
  "triple (keeps s0) (\<lambda>_. True) (checkAndUpdateLastCompletedTransactionFromStatusNotification env cs n old) (\<lambda>_ _. True)"
  unfolding checkAndUpdateLastCompletedTransactionFromStatusNotification_def
proof (rule triple_if, rule triple_bind[where Q = "\<lambda>lastt s. case lastt of None \<Rightarrow> True | Some t \<Rightarrow> pending t s"],
    rule triple_read, simp add: last_pending split: option.split, goal_cases)
  case (1 lastt)
  show ?case
  proof (cases lastt)
    case None
    then show ?thesis by (simp add: triple_return)
  next
    case (Some t)
    show ?thesis
      unfolding Some option.case
    proof (rule triple_bind[where Q = "\<lambda>_ _. True"], rule triple_if, goal_cases)
      case 1
      show ?case
      proof (rule triple_bind[where Q = "\<lambda>(t1, updated) s. pending t1 s"], goal_cases)
        case 1
        show ?case using 1 \<open>tx_stop t \<noteq> None\<close> by (intro triple_weaken[OF extra_triple]) auto
      next
        case (2 a)
        obtain t1 updated where a: "a = (t1, updated)" by (cases a)
        show ?case
          unfolding a prod.case
        proof (rule triple_bind[where Q = "\<lambda>(t2, billed) s. pending t2 s"], goal_cases)
          case 1
          show ?case
            by (intro triple_lift) (auto simp: checkAndBillTransaction_def elim!: bindE_InrE split: if_split_asm
                intro: pending_same dest: billing_account)
        next
          case (2 b)
          obtain t2 billed where b: "b = (t2, billed)" by (cases b)
          show ?case unfolding b prod.case by (rule triple_if, rule saveTransaction_triple, rule triple_return, simp)
        qed
      qed
    next
      case 2
      show ?case by (rule triple_return) simp
    next
      case 3
      show ?case by (rule triple_return) simp
    qed
  qed
next
  case 2
  show ?case by (rule triple_return) simp
qed

lemma handleStatusNotification_keeps:
  assumes "keeps s0 s"
  shows "keeps s0 (fst (handleStatusNotification env n s))"
proof -
  have "triple (keeps s0) (\<lambda>_. True) (handleStatusNotification env n) (\<lambda>_ _. True)"
    unfolding handleStatusNotification_def
  proof (rule triple_if, rule triple_return, simp, rule triple_bind[where Q = "\<lambda>_ _. True"], rule triple_read, simp,
      rule triple_bind[where Q = "\<lambda>_ _. True"], rule triple_lift, simp, goal_cases)
    case (1 cs a)
    obtain cs1 ignored where a: "a = (cs1, ignored)" by (cases a)
    show ?case
      unfolding a prod.case
      by (rule triple_if, rule triple_return, simp, rule triple_bind[OF completed_triple saveChargingStation_last])
  qed
  from triple_inv[OF this assms] show ?thesis by simp
qed

section \<open>Any sequence of requests\<close>

text \<open>
  One request of the charging station, with its own surroundings: the time, the users, the integrations may
  change from one to the next. Requests of meter values are complete, and new identifiers are new, as
  \<^verbatim>\<open>findAvailableID\<close> makes sure. The header of a stop always has its station.
\<close>

inductive request :: "central \<Rightarrow> central \<Rightarrow> bool" where
  start: "(\<And>ids. se_newID env ids \<notin> set ids) \<Longrightarrow> s' = fst (handleStartTransaction (env :: service_env) req s) \<Longrightarrow> request s s'"
| meter: "complete_request (ct_station s) r \<Longrightarrow> s' = fst (handleMeterValues (env :: service_env) r s) \<Longrightarrow> request s s'"
| stop: "s' = fst (handleStopTransaction (env :: service_env) (Some (ct_station s)) stp soft False s) \<Longrightarrow> request s s'"
| status: "s' = fst (handleStatusNotification (env :: service_env) n s) \<Longrightarrow> request s s'"

inductive requests :: "central \<Rightarrow> central \<Rightarrow> bool" where
  none: "requests s s"
| more: "requests s t \<Longrightarrow> request t u \<Longrightarrow> requests s u"

lemma request_keeps: "request s t \<Longrightarrow> keeps s0 s \<Longrightarrow> keeps s0 t"
  by (induction rule: request.induct)
    (simp_all add: handleStartTransaction_keeps handleMeterValues_keeps handleStopTransaction_keeps handleStatusNotification_keeps)

lemma requests_keeps: "requests s t \<Longrightarrow> keeps s0 s \<Longrightarrow> keeps s0 t"
  by (induction rule: requests.induct) (blast intro: request_keeps)+

lemma db_ok_keeps: "db_ok s \<Longrightarrow> keeps s s"
  by (simp add: keeps_def)

end
