(* ===== verification/Session_Properties.thy ===== *)
theory Session_Properties
  imports Session_Laws
begin

text \<open>
  The properties of the sessions under any sequence of requests, the ones of each request, and the
  concrete runs that show them. The runs are on the sample station, with pricing, billing and
  roaming switched off.
\<close>

section \<open>Concrete runs\<close>

definition sample_service :: service_env where
  "sample_service = \<lparr> pe_tz = utc, pe_currency = None, pe_tenantID = ''T1'', pe_definitions = (\<lambda>_ _. []),
     oe_now = 200000, oe_offset = 0, oe_organization = False, oe_siteAreaStations = (\<lambda>_. []), oe_profiles = (\<lambda>_. []),
     se_user = (\<lambda>_. None), se_userByTag = (\<lambda>_. None), se_authorizeStart = (\<lambda>_ _ _. Inr None),
     se_authorizeStop = (\<lambda>_ _ _. Inr (None, None)), se_billing = None, se_roaming = (\<lambda>_ _. Inr ()),
     se_template = (\<lambda>cs _. cs), se_newID = (\<lambda>ids. 7 + sum_list (map abs ids)), se_timezone = (\<lambda>_. None) \<rparr>"

lemma sample_service_simps [simp]:
  "pe_currency sample_service = None" "se_billing sample_service = None" "oe_now sample_service = 200000"
  "se_user sample_service = (\<lambda>_. None)" "se_authorizeStop sample_service = (\<lambda>_ _ _. Inr (None, None))"
  "oe_organization sample_service = False"
  by (simp_all add: sample_service_def)

lemma fresh_ids: "se_newID sample_service ids \<notin> set ids"
proof
  assume "se_newID sample_service ids \<in> set ids"
  moreover have "0 \<le> sum_list (map abs xs)" for xs :: "int list"
    by (induction xs) auto
  then have "x \<le> sum_list (map abs ids)" if "x \<in> set ids" for x
    using that by (induction ids) (auto intro: add_increasing add_increasing2)
  ultimately show False by (fastforce simp: sample_service_def)
qed

definition sample_start :: start_request where
  "sample_start = \<lparr> st_connectorId = 1, st_idTag = Some ''TAG'', st_meterStart = 0, st_timestamp = 0 \<rparr>"

definition energy_sample :: "string \<Rightarrow> sampled_value" where
  "energy_sample v = \<lparr> at_context = None, at_format = None, at_measurand = None, at_phase = None, at_location = None,
     at_unit = None, sv_value = v \<rparr>"

definition soc_sample :: "string \<Rightarrow> sampled_value" where
  "soc_sample v = \<lparr> at_context = None, at_format = None, at_measurand = Some STATE_OF_CHARGE, at_phase = None,
     at_location = None, at_unit = Some PERCENT, sv_value = v \<rparr>"

definition sample_request_at :: "int \<Rightarrow> sampled_value \<Rightarrow> meter_request" where
  "sample_request_at ts v = \<lparr> mr_connectorId = 1, mr_transactionId = Some 7,
     mr_values = [\<lparr> rmv_timestamp = ts, rmv_values = Sampled [v] \<rparr>] \<rparr>"

text \<open>The session after its start: the values of the records it is made of.\<close>

definition sample_session :: "runtime \<Rightarrow> transaction" where
  "sample_session r = \<lparr> tx_id = 7, tx_chargeBoxID = ''CS-1'', tx_connectorId = 1, tx_companyID = None, tx_siteID = None,
     tx_siteAreaID = None, tx_issuer = True, tx_tagID = Some ''TAG'', tx_userID = None, tx_user = None,
     tx_authorizationID = None, tx_signedData = [], tx_meterStart = 0, tx_timestamp = 0, tx_timezone = None,
     tx_price = Some 0, tx_roundedPrice = Some 0, tx_priceUnit = None, tx_pricingSource = None, tx_pricingModel = None,
     tx_stateOfCharge = 0, tx_phasesUsed = None, tx_run = r, tx_remotestop = None, tx_stop = None, tx_billingData = None \<rparr>"

definition sample_runtime :: "rat \<Rightarrow> last_consumption \<Rightarrow> runtime" where
  "sample_runtime tot lc = \<lparr> rt_currentTimestamp = None, rt_currentStateOfCharge = 0, rt_currentSignedData = None,
     rt_currentConsumptionWh = 0, rt_currentTotalConsumptionWh = tot, rt_currentTotalInactivitySecs = 0,
     rt_currentInactivityStatus = INFO, rt_currentTotalDurationSecs = Some 0, rt_currentCumulatedPrice = Some 0,
     rt_currentCumulatedRoundedPrice = Some 0, rt_transactionEndReceived = False, rt_numberOfMeterValues = 0,
     rt_watts = zero_readings, rt_volts = zero_readings, rt_amps = zero_readings, rt_lastConsumption = Some lc \<rparr>"

definition busy_connector :: connector where
  "busy_connector = (clear_runtime (sample_connector 1))\<lparr>con_currentTransactionID := Some 7,
     con_currentTransactionDate := Some 0, con_currentTagID := Some ''TAG''\<rparr>"

definition sample_central :: "connector \<Rightarrow> transaction list \<Rightarrow> central" where
  "sample_central c txs = \<lparr> ct_station = sample_station\<lparr>cs_connectors := Some [c, sample_connector 2]\<rparr>,
     ct_transactions = txs, ct_consumptions = [] \<rparr>"

lemmas sample_types = sample_service_def sample_start_def energy_sample_def soc_sample_def sample_request_at_def
  sample_session_def sample_runtime_def sample_central_def sample_station_def sample_connector_def busy_connector_def
  clear_runtime_def zero_readings_def no_readings_def blank_runtime_def

lemmas start_eval = handleStartTransaction_def handler_simps getConnectorFromID_def cleanUpTagID_def to_lower_def
  findAvailableID_def processExistingTransaction_def existing_turns_def numeral_2_eq_2 getActiveTransaction_def active_on_def
  price_first_def createFirstConsumption_def createTransaction_def set_user_def createConsumptionFromMeterValue_def
  stop_values classify addConnectorLimitationToConsumption_def addSiteLimitationToConsumption_def
  getChargingStationVendorImpl_def default_vendors_def energy_consumption_def first_last_def meter_value_Wh_def
  convertToFloat_def mv_unit_def idle_def set_last_def upd_run_def not_throttled_def secs_between_def
  processTransactionPricing_def processTransactionBilling_def processTransactionRoaming_def saveTransaction_def
  saveChargingStation_def updateChargingStationConnectorWithTransaction_def on_connector_def Let_def

lemmas store_eval = stored_def stored_runtime_def to_float_def float_readings_def

lemma run_start:
  "handleStartTransaction sample_service sample_start (sample_central (sample_connector 1) []) =
     (sample_central busy_connector [sample_session (sample_runtime 0 \<lparr> lc_value = 0, lc_timestamp = 0 \<rparr>)], Inr 7)"
  by (simp add: start_eval sample_types store_eval)

lemmas parse_eval = parseFloat_def parse_mantissa_def parse_exponent_def is_digit_def digit_of_def is_space_def

lemma parse_samples: "parseFloat ''1000'' = Some 1000" "parseFloat ''20'' = Some 20"
  by (simp_all add: parse_eval Let_def)

text \<open>A request on the busy connector, step by step.\<close>

definition busy_station :: "connector \<Rightarrow> charging_station" where
  "busy_station c = sample_station\<lparr>cs_connectors := Some [c, sample_connector 2]\<rparr>"

lemma busy_simps [simp]:
  "cs_ocppVersion (busy_station c) = VERSION_16" "cs_siteArea (busy_station c) = None" "cs_id (busy_station c) = ''CS-1''"
  "getChargingStationVendorImpl (cs_chargePointVendor (busy_station c)) = None"
  "cs_connectors (busy_station c) = Some [c, sample_connector 2]" "ct_station (sample_central c txs) = busy_station c"
  "ct_transactions (sample_central c txs) = txs" "ct_consumptions (sample_central c txs) = []"
  by (simp_all add: busy_station_def sample_central_def getChargingStationVendorImpl_def to_lower_def default_vendors_def
      sample_station_def)

lemma sample_values:
  "normalizeMeterValues (busy_station c) 1 (Some 7) (mr_values (sample_request_at ts (energy_sample ''1000''))) =
     Inr [energy_at ts 1000]"
  "normalizeMeterValues (busy_station c) 1 (Some 7) (mr_values (sample_request_at ts (soc_sample ''20''))) =
     Inr [(soc_at ts 20)\<lparr>mv_attribute := Some (OCPP_SOC_ATTRIBUTE\<lparr>at_location := Some OUTLET\<rparr>)\<rparr>]"
  by (simp_all add: normalizeMeterValues_def normalize_raw_def normalize_sampled_def buildMeterValueAttributes_def
      sample_request_at_def energy_sample_def soc_sample_def energy_at_def soc_at_def stop_values convertToFloat_def parse_samples Let_def)

definition sample_state :: "rat \<Rightarrow> last_consumption \<Rightarrow> central" where
  "sample_state tot lc = sample_central busy_connector [sample_session (sample_runtime tot lc)]"

lemma busy_connector_simps [simp]:
  "con_connectorId busy_connector = 1" "con_currentTransactionID busy_connector = Some 7"
  by (simp_all add: busy_connector_def clear_runtime_def sample_connector_def)

lemma sample_validated:
  "validateMeterValues (busy_station busy_connector) (sample_request_at ts v) = sample_request_at ts v"
  by (simp add: validateMeterValues_def sample_request_at_def getConnectorFromID_def Let_def)

lemma sample_found: "getTransactionFromMeterValues sample_service (sample_request_at ts v) (sample_state tot lc) =
    Inr (sample_session (sample_runtime tot lc))"
  by (simp add: getTransactionFromMeterValues_def getTransaction_def with_user_def sample_request_at_def sample_state_def
      sample_session_def)

lemma sample_session_simps [simp]:
  "tx_id (sample_session r) = 7" "tx_run (sample_session r) = r" "tx_stop (sample_session r) = None"
  "tx_user (sample_session r) = None" "tx_connectorId (sample_session r) = 1" "tx_timestamp (sample_session r) = 0"
  "tx_meterStart (sample_session r) = 0" "tx_chargeBoxID (sample_session r) = ''CS-1''" "tx_userID (sample_session r) = None"
  by (simp_all add: sample_session_def)

lemma sample_lists [simp]: "ct_transactions (sample_state tot lc) = [sample_session (sample_runtime tot lc)]"
  "ct_consumptions (sample_state tot lc) = []"
  by (simp_all add: sample_state_def)

lemma energy_stored [simp]: "energy_of (stored_consumption c) = energy_of c"
  by (simp add: energy_of_def stored_consumption_def to_float_def)

lemma sample_state_simps [simp]:
  "ct_station (sample_state tot lc) = busy_station busy_connector" "mr_connectorId (sample_request_at ts v) = 1"
  "mr_transactionId (sample_request_at ts v) = Some 7"
  by (simp_all add: sample_state_def sample_request_at_def)

lemma sample_handler:
  "normalizeMeterValues (busy_station busy_connector) 1 (Some 7) (mr_values (sample_request_at ts v)) = Inr [mv] \<Longrightarrow>
   handleMeterValues sample_service (sample_request_at ts v) (sample_state tot lc) =
     meter_values_update sample_service (busy_station busy_connector) (sample_session (sample_runtime tot lc)) [mv] (sample_state tot lc)"
  by (simp add: handleMeterValues_def bindS_def readS_def liftS_def sample_validated sample_found
      clock_filter_removes_nothing Let_def)

lemma plain_energy:
  "createConsumptionFromMeterValue env (busy_station c) t lco (energy_at ts v) =
     (let cn = (initial_consumption t ts)\<lparr>mc_startedAt := Some (lc_timestamp (first_last t lco)),
         mc_limit := Some \<lparr> lim_amps = Option.bind (getConnectorFromID (busy_station c) (tx_connectorId t)) con_amperageLimit,
           lim_watts = Option.bind (getConnectorFromID (busy_station c) (tx_connectorId t)) con_power,
           lim_source = CONNECTOR \<rparr>\<rparr>;
       (t', c') = energy_consumption (busy_station c) t (first_last t lco) (energy_at ts v) cn
      in Inr (busy_station c, t', Some c'))"
  by (simp add: createConsumptionFromMeterValue_def addConnectorLimitationToConsumption_def
      addSiteLimitationToConsumption_def Let_def)

lemma energy_count: "updateTransactionWithMeterValues cs t [energy_at ts v] =
    Inr (upd_run (\<lambda>r. r\<lparr>rt_numberOfMeterValues := rt_numberOfMeterValues r + 1\<rparr>) t)"
  by (simp add: update_with_value_def updateSignedData_def energy_at_def stop_values Let_def)
    (simp add: classify)

lemma run_created:
  "\<exists>t c. createConsumptionsFromMeterValues sample_service (busy_station busy_connector)
      (upd_run (\<lambda>r. r\<lparr>rt_numberOfMeterValues := rt_numberOfMeterValues r + 1\<rparr>)
        (sample_session (sample_runtime 0 \<lparr> lc_value = 0, lc_timestamp = 0 \<rparr>)))
      [energy_at 60000 1000] = Inr (busy_station busy_connector, t, [c])
    \<and> tx_stop t = None \<and> tx_id t = 7 \<and> tx_user t = None \<and> rt_currentTotalConsumptionWh (tx_run t) = 1000
    \<and> mc_consumptionWh c = Some 1000 \<and> mc_cumulatedConsumptionWh c = Some 1000 \<and> mc_toPrice c"
  by (simp add: createConsumptionsFromMeterValues_def plain_energy in_the_past_def sample_session_def sample_runtime_def
      energy_consumption_def first_last_def delivered_def set_last_def upd_run_def add_consumption_def sort_consumptions_def
      secs_between_def Let_def)

lemma sample_price [simp]: "tx_user t = None \<Longrightarrow> price_consumption sample_service cs a t c = Inr (t, c)"
  by (simp add: price_consumption_def processTransactionPricing_def processTransactionBilling_def split: option.split)

lemma sample_billing [simp]: "processTransactionBilling sample_service t a = Inr t"
  by (simp add: processTransactionBilling_def split: option.split)

lemma sample_roaming [simp]: "tx_user t = None \<Longrightarrow> processTransactionRoaming env t cs a = Inr ()"
  by (simp add: processTransactionRoaming_def Let_def)

lemma update_user [simp]: "tx_user (updateTransactionWithConsumption now cs t c) = tx_user t"
  "tx_user (set_phases_used cs t) = tx_user t"
  by (simp_all add: updateTransactionWithConsumption_def set_phases_used_def Let_def)

lemma run_meter:
  "\<exists>s t c. handleMeterValues sample_service (sample_request_at 60000 (energy_sample ''1000''))
      (sample_state 0 \<lparr> lc_value = 0, lc_timestamp = 0 \<rparr>) = (s, Inr ())
    \<and> ct_transactions s = [t] \<and> tx_id t = 7 \<and> session_energy t = 1000 \<and> tx_stop t = None
    \<and> ct_consumptions s = [c] \<and> energy_of c = 1000"
proof -
  obtain t c where r: "createConsumptionsFromMeterValues sample_service (busy_station busy_connector)
      (upd_run (\<lambda>r. r\<lparr>rt_numberOfMeterValues := rt_numberOfMeterValues r + 1\<rparr>)
        (sample_session (sample_runtime 0 \<lparr> lc_value = 0, lc_timestamp = 0 \<rparr>)))
      [energy_at 60000 1000] = Inr (busy_station busy_connector, t, [c])"
    and t: "tx_stop t = None" "tx_id t = 7" "tx_user t = None" "rt_currentTotalConsumptionWh (tx_run t) = 1000"
    and c: "mc_consumptionWh c = Some 1000" "mc_cumulatedConsumptionWh c = Some 1000" "mc_toPrice c"
    using run_created by blast
  let ?u = "set_phases_used (busy_station busy_connector) (updateTransactionWithConsumption 200000 (busy_station busy_connector) t c)"
  have u: "tx_stop ?u = None" "tx_id ?u = 7" "tx_user ?u = None" "session_energy ?u = 1000"
    using t c(2) by (simp_all add: set_phases_used_def updateTransactionWithConsumption_def session_energy_def Let_def)
  show ?thesis
    using r t c u
    by (simp add: sample_handler[OF sample_values(1)] meter_values_update_def handler_simps energy_count saveTransaction_def
        saveConsumption_def saveChargingStation_def energy_of_def[of c] Let_def
        del: updateTransactionWithMeterValues.simps)
qed

text \<open>A request with a charge level and no energy.\<close>

lemma plain_soc:
  "createConsumptionFromMeterValue env cs t lco (soc_at ts v) =
     Inr (cs, t, Some ((initial_consumption t ts)\<lparr>mc_stateOfCharge := Some v\<rparr>))"
  by (simp add: createConsumptionFromMeterValue_def Let_def reading_def isValidMeterValue_def)
    (simp add: soc_at_def convertToFloat_def)

lemma soc_counts_nothing: "updateTransactionWithMeterValues cs t [soc_at ts v] = Inr t"
  by (simp add: update_with_value_def updateSignedData_def soc_at_def stop_values Let_def) (simp add: classify)

lemma created_soc:
  assumes "\<not> in_the_past t (soc_at ts v)"
  obtains c where "createConsumptionsFromMeterValues env cs t [soc_at ts v] = Inr (cs, t, [c])"
    and "\<not> mc_toPrice c" and "mc_cumulatedConsumptionWh c = None"
  using assms
  by (simp add: createConsumptionsFromMeterValues_def plain_soc add_consumption_def sort_consumptions_def isValidMeterValue_def)
    (simp add: initial_consumption_def)

lemma update_stop [simp]: "tx_stop (updateTransactionWithConsumption now cs t c) = tx_stop t"
  "tx_id (updateTransactionWithConsumption now cs t c) = tx_id t" "tx_id (set_phases_used cs t) = tx_id t"
  "tx_stop (set_phases_used cs t) = tx_stop t" "tx_run (set_phases_used cs t) = tx_run t"
  by (simp_all add: updateTransactionWithConsumption_def set_phases_used_def Let_def)

lemma replaced_mem: "t \<in> set (replace_transaction t ts)"
  by (induction ts) auto

text \<open>A stop.\<close>

definition freed_station :: charging_station where
  "freed_station = clearChargingStationConnectorRuntimeData (busy_station busy_connector) 1"

lemma freed_eq: "freed_station = busy_station (clear_runtime busy_connector)"
  by (simp add: freed_station_def clearChargingStationConnectorRuntimeData_def on_connector_def busy_station_def)

lemma sample_session_stop_values:
  "createTransactionStopMeterValues (busy_station c) (sample_session (sample_runtime 0 lc)) sample_stop = [energy_at 60000 1000]"
  by (simp add: createTransactionStopMeterValues_def stop_values sample_session_def sample_stop_def sample_runtime_def
      zero_readings_def energy_at_def Let_def)

lemma run_stop_created:
  "\<exists>t c. createConsumptionsFromMeterValues sample_service (busy_station k)
        (sample_session (sample_runtime 0 \<lparr> lc_value = 0, lc_timestamp = 0 \<rparr>))
      [energy_at 60000 1000] = Inr (busy_station k, t, [c])
    \<and> tx_stop t = None \<and> tx_id t = 7 \<and> tx_user t = None \<and> rt_currentTotalConsumptionWh (tx_run t) = 1000
    \<and> mc_consumptionWh c = Some 1000 \<and> mc_cumulatedConsumptionWh c = Some 1000 \<and> mc_toPrice c"
  by (simp add: createConsumptionsFromMeterValues_def plain_energy in_the_past_def sample_session_def sample_runtime_def
      energy_consumption_def first_last_def delivered_def set_last_def upd_run_def add_consumption_def sort_consumptions_def
      secs_between_def Let_def)

lemma sample_stop_simps [simp]: "sr_transactionId sample_stop = 7" "sr_idTag sample_stop = Some ''TAG''"
 "sample_stop\<lparr>sr_idTag := Some ''TAG''\<rparr> = sample_stop" "sr_transactionData sample_stop = []" "sr_meterStop sample_stop = 1000"
  by (simp_all add: sample_stop_def)

lemma not_ended [simp]: "\<not> rt_transactionEndReceived (sample_runtime tot lc)"
  by (simp add: sample_runtime_def)

lemma clean_tag: "cleanUpTagID (Some ''TAG'') = Some ''TAG''"
  by (simp add: cleanUpTagID_def to_lower_def)

lemma run_stop:
  "\<exists>s t st. handleStopTransaction sample_service (Some (busy_station busy_connector)) sample_stop False False
      (sample_state 0 \<lparr> lc_value = 0, lc_timestamp = 0 \<rparr>) = (s, Inr ())
    \<and> ct_transactions s = [t] \<and> tx_id t = 7 \<and> tx_stop t = Some st \<and> stop_totalConsumptionWh st = 1000
    \<and> stop_meterStop st = 1000"
proof -
  let ?t0 = "sample_session (sample_runtime 0 \<lparr> lc_value = 0, lc_timestamp = 0 \<rparr>)"
  obtain t c where r: "createConsumptionsFromMeterValues sample_service freed_station ?t0
      [energy_at 60000 1000] = Inr (freed_station, t, [c])"
    and t: "tx_stop t = None" "tx_id t = 7" "tx_user t = None" "rt_currentTotalConsumptionWh (tx_run t) = 1000"
    and c: "mc_consumptionWh c = Some 1000" "mc_cumulatedConsumptionWh c = Some 1000" "mc_toPrice c"
    using run_stop_created unfolding freed_eq by blast
  let ?u = "updateTransactionWithConsumption 200000 freed_station t c"
  have total: "rt_currentTotalConsumptionWh (tx_run ?u) = 1000"
    using c(2) by (simp add: updateTransactionWithConsumption_def Let_def)
  have tag: "getStopTransactionTagId sample_service sample_stop ?t0 = Some ''TAG''"
    by (simp add: getStopTransactionTagId_def sample_session_def)
  have stored_run: "tx_stop (stored u) = map_option (stored_stop u) (tx_stop u)" for u
    by (simp add: stored_def)
  have stop: "tx_stop (updateTransactionWithStopTransaction cs u req usr alt tg soft) = Some x \<Longrightarrow>
    stop_totalConsumptionWh x = rt_currentTotalConsumptionWh (tx_run u) \<and> stop_meterStop x = sr_meterStop req" for cs u req usr alt tg soft x
    by (auto simp: updateTransactionWithStopTransaction_def Let_def)
  have keep: "tx_user (updateTransactionWithStopTransaction cs u req usr alt tg soft) = tx_user u"
     "tx_id (updateTransactionWithStopTransaction cs u req usr alt tg soft) = tx_id u"
     "tx_stop (updateTransactionWithStopTransaction cs u req usr alt tg soft) \<noteq> None" for cs u req usr alt tg soft
    by (auto simp: updateTransactionWithStopTransaction_def Let_def)
  let ?v = "updateTransactionWithStopTransaction freed_station ?u sample_stop None None (Some ''TAG'') False"
  obtain st where st: "tx_stop ?v = Some st" using keep(3)[of freed_station ?u] by blast
  have found: "getTransaction sample_service 7 (sample_state 0 \<lparr> lc_value = 0, lc_timestamp = 0 \<rparr>) = Some ?t0"
    by (simp add: getTransaction_def with_user_def sample_session_def)
  have sv: "createTransactionStopMeterValues freed_station ?t0 sample_stop = [energy_at 60000 1000]"
    by (simp add: freed_eq sample_session_stop_values)
  show ?thesis
    using r t c st stop[OF st] total keep(1,2) by (simp add: stored_run stored_stop_def handleStopTransaction_def stop_body_def handler_simps clean_tag found tag
        checkAuthorizeStopTransactionAndGetUsers_def checkSoftStopTransaction_def saveChargingStation_def
        freed_station_def[symmetric] checkAndApplyLastConsumptionInStopTransaction_def 
        sv saveConsumption_def saveTransaction_def
        checkAndUpdateTransactionWithSignedDataInStopTransaction_def Let_def)
qed

text \<open>The runs as sequences of requests.\<close>

definition no_sessions :: central where
  "no_sessions = sample_central (sample_connector 1) []"

lemma no_sessions_simps [simp]: "ct_transactions no_sessions = []"
  by (simp add: no_sessions_def)

lemma requests_start: "requests no_sessions (sample_state 0 \<lparr> lc_value = 0, lc_timestamp = 0 \<rparr>)"
  using request.start[OF fresh_ids, of "sample_state 0 \<lparr> lc_value = 0, lc_timestamp = 0 \<rparr>" sample_start no_sessions]
  by (auto simp: run_start no_sessions_def sample_state_def intro: requests.intros)

lemma sample_complete: "complete_request (busy_station busy_connector) (sample_request_at ts (energy_sample ''1000''))"
  by (simp add: complete_request_def sample_validated sample_values complete_values_def Let_def)

lemma requests_meter:
  "\<exists>s t. requests no_sessions s \<and> ct_transactions s = [t] \<and> tx_id t = 7 \<and> session_energy t = 1000 \<and> tx_stop t = None"
proof -
  obtain s t where r: "handleMeterValues sample_service (sample_request_at 60000 (energy_sample ''1000''))
      (sample_state 0 \<lparr> lc_value = 0, lc_timestamp = 0 \<rparr>) = (s, Inr ())"
    and t: "ct_transactions s = [t] \<and> tx_id t = 7 \<and> session_energy t = 1000 \<and> tx_stop t = None"
    using run_meter by blast
  have "request (sample_state 0 \<lparr> lc_value = 0, lc_timestamp = 0 \<rparr>) s"
    by (rule request.meter[of _ "sample_request_at 60000 (energy_sample ''1000'')" _ sample_service])
      (simp_all add: sample_complete r)
  with requests_start t show ?thesis by (blast intro: requests.more)
qed

lemma requests_stop:
  "\<exists>s t st. requests no_sessions s \<and> ct_transactions s = [t] \<and> tx_id t = 7 \<and> tx_stop t = Some st
    \<and> stop_totalConsumptionWh st = 1000 \<and> stop_meterStop st = 1000"
proof -
  obtain s t st where r: "handleStopTransaction sample_service (Some (busy_station busy_connector)) sample_stop False False
      (sample_state 0 \<lparr> lc_value = 0, lc_timestamp = 0 \<rparr>) = (s, Inr ())"
    and t: "ct_transactions s = [t] \<and> tx_id t = 7 \<and> tx_stop t = Some st \<and> stop_totalConsumptionWh st = 1000
    \<and> stop_meterStop st = 1000"
    using run_stop by blast
  have "request (sample_state 0 \<lparr> lc_value = 0, lc_timestamp = 0 \<rparr>) s"
    by (rule request.stop[of _ sample_service _ sample_stop False]) (simp add: r)
  with requests_start t show ?thesis by (blast intro: requests.more)
qed

lemma freed_connector_refuses_values:
  assumes "getConnectorFromID (ct_station s) (mr_connectorId r) = Some c" and "mr_connectorId r \<noteq> 0"
    and "con_currentTransactionID c = Some 0"
  shows "fst (handleMeterValues env r s) = s"
proof -
  have "\<not> truthy_num (mr_transactionId (validateMeterValues (ct_station s) r))"
    using assms by (simp add: validateMeterValues_def Let_def split: option.split)
  then show ?thesis
    by (simp add: handleMeterValues_def handler_simps getTransactionFromMeterValues_def Let_def split: sum.split)
qed

lemma find_update_first: "find P xs = Some x \<Longrightarrow> P (f x) \<Longrightarrow> find P (update_first P f xs) = Some (f x)"
  by (induction xs) (auto split: if_splits)

definition available_notification :: status_notification where
  "available_notification = \<lparr> sn_connectorId = 1, sn_status = AVAILABLE, sn_errorCode = Some ''NoError'', sn_info = None,
     sn_vendorErrorCode = None, sn_timestamp = 90000 \<rparr>"

lemma sample_connector_order: "sort_key con_connectorId [clear_runtime busy_connector, sample_connector 2] = [clear_runtime busy_connector, sample_connector 2]"
  by (simp add: clear_runtime_def sample_connector_def)

section \<open>Properties: any sequence of requests\<close>

text \<open>C2: through complete requests of a station (starts, stops, changes of status, and meter values that all have one
  time and an energy register), from a database without transactions, the identifiers of the transactions are distinct;
  the energy of a running session is its last register less its first, which is not behind; and the energy of a
  stopped session is not negative.\<close>

theorem sessions_accounted:
  assumes "requests s0 s" and "ct_transactions s0 = []"
  shows "distinct (map tx_id (ct_transactions s)) \<and> (\<forall>t \<in> set (ct_transactions s). case tx_stop t of
      None \<Rightarrow> rt_currentTotalConsumptionWh (tx_run t) = lc_value (last_of t) - tx_meterStart t
              \<and> tx_meterStart t \<le> lc_value (last_of t)
    | Some st \<Rightarrow> 0 \<le> stop_totalConsumptionWh st)"
proof -
  have "db_ok s0" using assms(2) by (simp add: db_ok_def)
  with assms(1) have "db_ok s" using requests_keeps[of s0 s s0] db_ok_keeps by (simp add: keeps_def)
  then show ?thesis by (fastforce simp: db_ok_def session_ok_def meter_account_def split: option.splits)
qed

theorem sessions_accounted_witness:
  "\<exists>s t. requests no_sessions s \<and> ct_transactions s = [t] \<and> session_energy t = 1000
    \<and> 1000 = lc_value (last_of t) - tx_meterStart t"
proof -
  obtain s t where s: "requests no_sessions s" and t: "ct_transactions s = [t]" "session_energy t = 1000" "tx_stop t = None"
    using requests_meter by blast
  from sessions_accounted[OF s no_sessions_simps] t have "1000 = lc_value (last_of t) - tx_meterStart t"
    by (simp add: session_energy_def)
  with s t show ?thesis by blast
qed

text \<open>C6: a stop is final: of a session that complete requests have led to (meter values that all have one time and an
  energy register) no further complete requests change the final register, the energy, or the user or the tag that
  stopped it, and they never delete it.\<close>

theorem stop_is_final:
  assumes "requests s0 s" and "ct_transactions s0 = []" and "requests s s'"
    and "t \<in> set (ct_transactions s)" and "tx_stop t = Some st"
  shows "\<exists>t' st'. t' \<in> set (ct_transactions s') \<and> tx_id t' = tx_id t \<and> tx_stop t' = Some st'
    \<and> stop_meterStop st' = stop_meterStop st \<and> stop_totalConsumptionWh st' = stop_totalConsumptionWh st
    \<and> stop_userID st' = stop_userID st \<and> stop_tagID st' = stop_tagID st"
proof -
  have "db_ok s0" using assms(2) by (simp add: db_ok_def)
  with assms(1) have "db_ok s" using requests_keeps[of s0 s s0] db_ok_keeps by (simp add: keeps_def)
  then have "evolved s s'" using requests_keeps[OF assms(3), of s] db_ok_keeps by (simp add: keeps_def)
  with assms(4,5) show ?thesis by (fastforce simp: evolved_def kept_def later_def)
qed

theorem stop_is_final_witness:
  "\<exists>s t. requests no_sessions s \<and> ct_transactions s = [t] \<and> tx_stop t \<noteq> None
    \<and> (\<exists>t' st'. t' \<in> set (ct_transactions (fst (handleStopTransaction sample_service (Some (ct_station s)) sample_stop False False s)))
         \<and> tx_stop t' = Some st' \<and> stop_totalConsumptionWh st' = 1000)"
proof -
  obtain s t st where s: "requests no_sessions s" and t: "ct_transactions s = [t]" "tx_stop t = Some st"
    "stop_totalConsumptionWh st = 1000" using requests_stop by blast
  have "requests s (fst (handleStopTransaction sample_service (Some (ct_station s)) sample_stop False False s))"
    by (blast intro: requests.intros request.stop[OF refl])
  from stop_is_final[OF s no_sessions_simps this, of t st] t s show ?thesis by fastforce
qed

text \<open>C7: the energy of a session never goes down and a session that has energy is never lost, through
  any complete requests: only a running session without energy can be deleted.\<close>

theorem energy_never_lost:
  assumes "requests s0 s" and "ct_transactions s0 = []" and "requests s s'"
    and "t \<in> set (ct_transactions s)" and "0 < session_energy t"
  shows "\<exists>t' \<in> set (ct_transactions s'). tx_id t' = tx_id t \<and> session_energy t \<le> session_energy t'"
proof -
  have "db_ok s0" using assms(2) by (simp add: db_ok_def)
  with assms(1) have "db_ok s" using requests_keeps[of s0 s s0] db_ok_keeps by (simp add: keeps_def)
  then have "evolved s s'" using requests_keeps[OF assms(3), of s] db_ok_keeps by (simp add: keeps_def)
  with assms(4,5) obtain t' where "t' \<in> set (ct_transactions s')" "later t t'" by (auto simp: evolved_def kept_def)
  then show ?thesis by (auto simp: later_def session_energy_def split: option.splits)
qed

theorem energy_never_lost_witness:
  "\<exists>s t. requests no_sessions s \<and> ct_transactions s = [t]
    \<and> (\<exists>t' \<in> set (ct_transactions (fst (handleStartTransaction sample_service sample_start s))). 1000 \<le> session_energy t')"
proof -
  obtain s t where s: "requests no_sessions s" and t: "ct_transactions s = [t]" "session_energy t = 1000"
    using requests_meter by blast
  have "requests s (fst (handleStartTransaction sample_service sample_start s))"
    by (blast intro: requests.intros request.start[OF fresh_ids refl])
  from energy_never_lost[OF s no_sessions_simps this, of t] t s show ?thesis by fastforce
qed

section \<open>Properties: single requests\<close>

text \<open>A request of meter values that has a charge level and no energy register sets the energy of
  the session to zero, whatever it was.\<close>

theorem charge_level_resets_energy:
  assumes "meter_values_update env cs t [soc_at ts v] s = (s', Inr ())"
    and "\<not> in_the_past t (soc_at ts v)" and "tx_stop t = None"
  shows "\<exists>t' \<in> set (ct_transactions s'). tx_id t' = tx_id t \<and> session_energy t' = 0"
proof -
  obtain c where c: "createConsumptionsFromMeterValues env cs t [soc_at ts v] = Inr (cs, t, [c])"
    and p: "\<not> mc_toPrice c" "mc_cumulatedConsumptionWh c = None"
    using created_soc[OF assms(2)] by blast
  let ?u = "set_phases_used cs (updateTransactionWithConsumption (oe_now env) cs t c)"
  have u: "tx_id ?u = tx_id t" "session_energy ?u = 0"
    using p(2) assms(3) by (simp_all add: session_energy_def) (simp add: updateTransactionWithConsumption_def Let_def)
  from assms(1) have "stored ?u \<in> set (ct_transactions s')"
    by (auto simp: meter_values_update_def soc_counts_nothing c p price_consumption_def handler_simps saveConsumption_def
        saveTransaction_def saveChargingStation_def Let_def replaced_mem split: sum.splits simp del: updateTransactionWithMeterValues.simps)
  with u show ?thesis by (intro bexI[of _ "stored ?u"]) simp_all
qed

theorem charge_level_resets_energy_witness:
  "\<exists>s'. meter_values_update sample_service (busy_station busy_connector)
      (sample_session (sample_runtime 1000 \<lparr> lc_value = 1000, lc_timestamp = 0 \<rparr>)) [soc_at 60000 20]
      (sample_state 1000 \<lparr> lc_value = 1000, lc_timestamp = 0 \<rparr>) = (s', Inr ())
    \<and> (\<exists>t' \<in> set (ct_transactions s'). tx_id t' = 7 \<and> session_energy t' = 0)"
proof -
  let ?t = "sample_session (sample_runtime 1000 \<lparr> lc_value = 1000, lc_timestamp = 0 \<rparr>)"
  have past: "\<not> in_the_past ?t (soc_at 60000 20)" by (simp add: in_the_past_def sample_runtime_def)
  obtain c where c: "createConsumptionsFromMeterValues sample_service (busy_station busy_connector) ?t [soc_at 60000 20] =
      Inr (busy_station busy_connector, ?t, [c])" using created_soc[OF past] by blast
  have "\<exists>s'. meter_values_update sample_service (busy_station busy_connector) ?t [soc_at 60000 20]
      (sample_state 1000 \<lparr> lc_value = 1000, lc_timestamp = 0 \<rparr>) = (s', Inr ())"
    by (simp add: meter_values_update_def soc_counts_nothing c handler_simps saveConsumption_def saveTransaction_def
        saveChargingStation_def Let_def del: updateTransactionWithMeterValues.simps)
  then obtain s' where "meter_values_update sample_service (busy_station busy_connector) ?t [soc_at 60000 20]
      (sample_state 1000 \<lparr> lc_value = 1000, lc_timestamp = 0 \<rparr>) = (s', Inr ())" by blast
  with charge_level_resets_energy[OF this past] show ?thesis by simp
qed

lemma process_one_account:
  assumes "cns = [] \<or> (\<exists>c. cns = [c] \<and> mc_cumulatedConsumptionWh c = Some (rt_currentTotalConsumptionWh (tx_run t)))"
    and "process_consumptions env cs action t cns s = (s', Inr t')"
  shows "same_account t t'"
  using assms(1)
proof
  assume "cns = []"
  with assms(2) show ?thesis by (simp add: returnS_def)
next
  assume "\<exists>c. cns = [c] \<and> mc_cumulatedConsumptionWh c = Some (rt_currentTotalConsumptionWh (tx_run t))"
  then obtain c where c: "cns = [c]" "mc_cumulatedConsumptionWh c = Some (rt_currentTotalConsumptionWh (tx_run t))" by blast
  with assms(2) have "\<exists>c'. price_consumption env cs action (updateTransactionWithConsumption (oe_now env) cs t c) c = Inr (t', c')"
    by (auto simp: handler_simps saveConsumption_def split: sum.splits)
  with updateTransactionWithConsumption_account[OF c(2)] show ?thesis
    by (blast dest: price_consumption_account intro: same_account_trans)
qed

lemma apply_last_value:
  assumes "checkAndApplyLastConsumptionInStopTransaction env cs t req s = (s', Inr t')"
    and "\<not> rt_transactionEndReceived (tx_run t)" and "tx_stop t = None" and "meter_account t"
    and "lc_timestamp (last_of t) \<le> sr_timestamp req" and "lc_value (last_of t) \<le> sr_meterStop req"
  shows "tx_id t' = tx_id t \<and> rt_currentTotalConsumptionWh (tx_run t') = sr_meterStop req - tx_meterStart t"
proof -
  from assms(1,2) obtain cs2 t2 cns where
    cr: "createConsumptionsFromMeterValues env cs t (createTransactionStopMeterValues cs t req) = Inr (cs2, t2, cns)"
    and pc: "process_consumptions env cs2 STOP t2 cns s = (s', Inr t')"
    by (auto simp: checkAndApplyLastConsumptionInStopTransaction_def bindS_def liftS_def split: sum.splits)
  from complete_created[OF cr stop_values_complete] process_one_account[OF _ pc] have "same_account t2 t'" "tx_id t2 = tx_id t"
    by auto
  with stop_consumption_total[OF cr assms(4-6)] show ?thesis by (simp add: same_account_def)
qed

lemma stop_body_value:
  assumes "\<And>s s' t1 cs1. checkAndApplyLastConsumptionInStopTransaction env cs1 t req s = (s', Inr t1) \<Longrightarrow> tx_stop t = None \<Longrightarrow>
      tx_id t1 = tx_id t \<and> rt_currentTotalConsumptionWh (tx_run t1) = tot"
  shows "triple (\<lambda>_. True) (\<lambda>_. True) (stop_body env cs req False central t)
    (\<lambda>_ s. \<exists>t' st. t' \<in> set (ct_transactions s) \<and> tx_id t' = tx_id t \<and> tx_stop t' = Some st
       \<and> stop_meterStop st = sr_meterStop req \<and> stop_totalConsumptionWh st = tot)"
  unfolding stop_body_def checkSoftStopTransaction_def Let_def if_False
proof (rule triple_bind[where Q = "\<lambda>_ s. tx_stop t = None"], goal_cases)
  case 1
  show ?case
    by (intro triple_lift) (auto simp: checkAuthorizeStopTransactionAndGetUsers_def elim!: bindE_InrE split: if_split_asm)
next
  case (2 users)
  obtain usr alt where u: "users = (usr, alt)" by (cases users)
  show ?case
    unfolding u prod.case
  proof (rule triple_bind[where Q = "\<lambda>_ s. tx_stop t = None"], goal_cases)
    case 1
    show ?case unfolding saveChargingStation_def by (intro triple_modify) simp
  next
    case 2
    show ?case
    proof (rule triple_bind[where Q = "\<lambda>t1 _. tx_id t1 = tx_id t \<and> rt_currentTotalConsumptionWh (tx_run t1) = tot"], goal_cases)
      case 1
      let ?m = "checkAndApplyLastConsumptionInStopTransaction env (clearChargingStationConnectorRuntimeData cs (tx_connectorId t)) t req"
      show ?case
      proof (rule tripleI)
        fix s a assume "tx_stop t = None" and "snd (?m s) = Inr a"
        then have "?m s = (fst (?m s), Inr a)" by (metis prod.collapse)
        from assms[OF this \<open>tx_stop t = None\<close>] show "tx_id a = tx_id t \<and> rt_currentTotalConsumptionWh (tx_run a) = tot" .
      qed simp
    next
      case (2 t1)
      let ?t2 = "checkAndUpdateTransactionWithSignedDataInStopTransaction t1 req"
      show ?case
      proof (rule triple_bind[where Q = "\<lambda>t4 _. tx_id t4 = tx_id t \<and> (\<exists>st. tx_stop t4 = Some st
            \<and> stop_meterStop st = sr_meterStop req \<and> stop_totalConsumptionWh st = tot)"], goal_cases)
        case 1
        have "same_account t1 ?t2" by (simp add: checkAndUpdateTransactionWithSignedDataInStopTransaction_def signed_account)
        then show ?case
          by (intro triple_lift)
            (auto dest!: billing_account simp: same_account_def updateTransactionWithStopTransaction_def Let_def)
      next
        case (2 t4)
        have st: "tx_stop (stored t4) = map_option (stored_stop t4) (tx_stop t4)" by (simp add: stored_def)
        show ?case
          by (rule triple_bind[where Q = "\<lambda>_ _. tx_id t4 = tx_id t \<and> (\<exists>st. tx_stop t4 = Some st
            \<and> stop_meterStop st = sr_meterStop req \<and> stop_totalConsumptionWh st = tot)"], rule triple_lift, simp)
            (auto simp: saveTransaction_def st stored_stop_def intro!: triple_modify replaced_mem exI[of _ "stored t4"])
      qed
    qed
  qed
qed

text \<open>An accepted stop closes the session with the energy between its two registers, when the
  session has not sent its last values before and the stop is not behind the last consumption.\<close>

theorem stop_closes_account:
  assumes "handleStopTransaction env (Some cs) req False central s = (s', Inr ())" and "sr_transactionId req \<noteq> 0"
    and "getTransaction env (sr_transactionId req) s = Some t" and "\<not> rt_transactionEndReceived (tx_run t)"
    and "meter_account t" and "lc_timestamp (last_of t) \<le> sr_timestamp req" and "lc_value (last_of t) \<le> sr_meterStop req"
  shows "\<exists>t' st. t' \<in> set (ct_transactions s') \<and> tx_id t' = tx_id t \<and> tx_stop t' = Some st
    \<and> stop_meterStop st = sr_meterStop req \<and> stop_totalConsumptionWh st = sr_meterStop req - tx_meterStart t"
proof -
  let ?req = "req\<lparr>sr_idTag := cleanUpTagID (sr_idTag req)\<rparr>"
  from assms(1,2,3) have b: "stop_body env cs ?req False central t s = (s', Inr ())"
    by (simp add: handleStopTransaction_def bindS_def Let_def)
  have "triple (\<lambda>_. True) (\<lambda>_. True) (stop_body env cs ?req False central t)
    (\<lambda>_ s. \<exists>t' st. t' \<in> set (ct_transactions s) \<and> tx_id t' = tx_id t \<and> tx_stop t' = Some st
       \<and> stop_meterStop st = sr_meterStop ?req \<and> stop_totalConsumptionWh st = sr_meterStop req - tx_meterStart t)"
    by (rule stop_body_value) (use apply_last_value[of env _ t ?req] assms(4-7) in simp)
  from triple_post[OF this _ _ b] show ?thesis by simp
qed

theorem stop_closes_account_witness:
  "\<exists>s t st. handleStopTransaction sample_service (Some (busy_station busy_connector)) sample_stop False False
      (sample_state 0 \<lparr> lc_value = 0, lc_timestamp = 0 \<rparr>) = (s, Inr ())
    \<and> t \<in> set (ct_transactions s) \<and> tx_stop t = Some st \<and> stop_totalConsumptionWh st = 1000"
proof -
  let ?t0 = "sample_session (sample_runtime 0 \<lparr> lc_value = 0, lc_timestamp = 0 \<rparr>)"
  obtain s where r: "handleStopTransaction sample_service (Some (busy_station busy_connector)) sample_stop False False
      (sample_state 0 \<lparr> lc_value = 0, lc_timestamp = 0 \<rparr>) = (s, Inr ())" using run_stop by blast
  have "getTransaction sample_service 7 (sample_state 0 \<lparr> lc_value = 0, lc_timestamp = 0 \<rparr>) = Some ?t0"
    by (simp add: getTransaction_def with_user_def sample_session_def)
  moreover have "last_of ?t0 = \<lparr> lc_value = 0, lc_timestamp = 0 \<rparr>" "rt_currentTotalConsumptionWh (tx_run ?t0) = 0"
    by (simp_all add: last_of_def first_last_def sample_runtime_def)
  moreover have "sr_timestamp sample_stop = 60000" by (simp add: sample_stop_def)
  ultimately have "\<exists>t st. t \<in> set (ct_transactions s) \<and> tx_stop t = Some st \<and> stop_totalConsumptionWh st = 1000"
    using stop_closes_account[OF r, of ?t0] by (simp add: meter_account_def) blast
  with r show ?thesis by blast
qed

text \<open>The clean-up of pending transactions before a start always ends, within two turns of its loop.\<close>

theorem clean_up_ends:
  "\<exists>s' cs'. process_existing_loop (Suc (Suc n)) env None cid cs s = Some (s', cs')
     \<and> process_existing_loop existing_turns env None cid cs s = Some (s', cs')"
proof (cases "getActiveTransaction env cs cid s")
  case None
  then show ?thesis by (simp add: existing_turns_def numeral_2_eq_2)
next
  case (Some t)
  then obtain u where u: "filter (active_on cs cid) (ct_transactions s) = [u]" "t = with_user env u" by (rule active_mem)
  have "filter (active_on cs cid) (filter (\<lambda>t. tx_id t \<noteq> tx_id u) (ct_transactions s)) =
      filter (\<lambda>t. tx_id t \<noteq> tx_id u) [u]"
    unfolding u(1)[symmetric] by (simp add: conj_commute)
  moreover have "active_on (clearChargingStationConnectorRuntimeData cs x) = active_on cs" for x
    by (intro ext) (simp add: active_on_def clearChargingStationConnectorRuntimeData_def on_connector_def)
  ultimately have "getActiveTransaction env (clearChargingStationConnectorRuntimeData cs (tx_connectorId t)) cid
      (deleteTransaction (tx_id t) s) = None"
    by (simp add: getActiveTransaction_def deleteTransaction_def u(2))
  with Some show ?thesis by (simp add: existing_turns_def numeral_2_eq_2)
qed

text \<open>A pending transaction that has energy is not stopped by the start of the next one: the stop
  is asked for without a station, fails, and leaves everything as it was.\<close>

theorem pending_session_not_stopped:
  assumes "getActiveTransaction env cs cid s = Some t" and "0 < rt_currentTotalConsumptionWh (tx_run t)"
  shows "processExistingTransaction env cs cid s = (s, Inr cs)"
  using assms by (simp add: processExistingTransaction_def existing_turns_def numeral_2_eq_2)

theorem pending_session_not_stopped_witness:
  "processExistingTransaction sample_service (busy_station busy_connector) 1
      (sample_state 1000 \<lparr> lc_value = 1000, lc_timestamp = 0 \<rparr>) =
    (sample_state 1000 \<lparr> lc_value = 1000, lc_timestamp = 0 \<rparr>, Inr (busy_station busy_connector))"
  by (rule pending_session_not_stopped[where t = "sample_session (sample_runtime 1000 \<lparr> lc_value = 1000, lc_timestamp = 0 \<rparr>)"])
    (simp_all add: getActiveTransaction_def active_on_def with_user_def, simp_all add: sample_session_def sample_runtime_def)

text \<open>A notification that the connector is available, while its session still runs, frees the connector and
  leaves the session running: from then on all meter values of the connector are refused and change nothing.\<close>

theorem available_cuts_session:
  "let s = sample_state 1000 \<lparr> lc_value = 1000, lc_timestamp = 60000 \<rparr>;
       s' = fst (handleStatusNotification sample_service available_notification s)
   in ct_transactions s' = [sample_session (sample_runtime 1000 \<lparr> lc_value = 1000, lc_timestamp = 60000 \<rparr>)]
      \<and> fst (handleMeterValues env (r\<lparr>mr_connectorId := 1\<rparr>) s') = s'"
proof -
  let ?s = "sample_state 1000 \<lparr> lc_value = 1000, lc_timestamp = 60000 \<rparr>"
  let ?s' = "fst (handleStatusNotification sample_service available_notification ?s)"
  have s': "?s' = ?s\<lparr>ct_station := busy_station (set_status available_notification (clear_runtime busy_connector))\<rparr>"
    by (simp add: handleStatusNotification_def handler_simps available_notification_def getConnectorFromID_def
        checkAndGetConnectorFromStatusNotification_def checkAndUpdateLastCompletedTransactionFromStatusNotification_def
        getLastTransactionFromChargingStation_def with_user_def status_of_def saveChargingStation_def Let_def)
      (simp add: sort_connectors_def on_connector_def clearChargingStationConnectorRuntimeData_def set_status_def
        busy_station_def sample_station_def busy_connector_def clear_runtime_def sample_connector_def sample_session_def)
  have "getConnectorFromID (ct_station ?s') 1 = Some (set_status available_notification (clear_runtime busy_connector))"
    unfolding s' by (simp add: getConnectorFromID_def set_status_def available_notification_def)
  from freed_connector_refuses_values[of ?s' "r\<lparr>mr_connectorId := 1\<rparr>", simplified, OF this]
  have "fst (handleMeterValues env (r\<lparr>mr_connectorId := 1\<rparr>) ?s') = ?s'"
    by (simp add: set_status_def clear_runtime_def)
  then show ?thesis unfolding Let_def by (simp add: s')
qed

text \<open>The severity shown on the connector after meter values is the highest for any inactivity at all,
  whatever the power of the connector, since it is asked of a station that was not read.\<close>

theorem connector_severity_always_error:
  assumes "tx_stop t = None" and "getConnectorFromID cs (tx_connectorId t) = Some c" and "0 < inactivity t"
  shows "\<exists>c'. getConnectorFromID (updateChargingStationWithTransaction cs t) (tx_connectorId t) = Some c'
    \<and> con_currentInactivityStatus c' = Some ERROR"
proof -
  have id: "con_connectorId c = tx_connectorId t" using assms(2) by (rule getConnectorFromID_Some(1))
  have "getInactivityStatusLevel (no_station cs) (tx_connectorId t) (Some (inactivity t)) = ERROR"
    using assms(3) by (simp add: getInactivityStatusLevel_def getEndOfChargeNotificationIntervalMins_def no_station_def
        getConnectorFromID_def Let_def)
  with assms(1,2) id show ?thesis
    by (auto simp: updateChargingStationWithTransaction_def on_connector_def getConnectorFromID_def inactivity_def
        find_update_first split: option.splits)
qed

theorem connector_severity_always_error_witness:
  "(\<exists>c'. getConnectorFromID (updateChargingStationWithTransaction sample_station
       (upd_run (\<lambda>r. r\<lparr>rt_currentTotalInactivitySecs := 1\<rparr>) sample_transaction)) 1 = Some c'
     \<and> con_currentInactivityStatus c' = Some ERROR)
   \<and> getInactivityStatusLevel sample_station 1 (Some 1) = INFO"
proof -
  let ?t = "upd_run (\<lambda>r. r\<lparr>rt_currentTotalInactivitySecs := 1\<rparr>) sample_transaction"
  have "tx_stop ?t = None" "tx_connectorId ?t = 1" "0 < inactivity ?t"
    by (simp_all add: sample_transaction_def inactivity_def)
  moreover have "getConnectorFromID sample_station 1 = Some (sample_connector 1)"
    by (simp add: getConnectorFromID_def sample_station_def sample_connector_def)
  moreover have "getInactivityStatusLevel sample_station 1 (Some 1) = INFO"
    by (simp add: getInactivityStatusLevel_def getEndOfChargeNotificationIntervalMins_def getConnectorFromID_def
        sample_station_def sample_connector_def Let_def)
  ultimately show ?thesis using connector_severity_always_error[of ?t sample_station] by simp
qed

end
