(* ===== verification/Locking.thy ===== *)
theory Locking
  imports Collections
begin

text \<open>
  The distributed locks (src/types/Locking.ts, src/storage/mongodb/LockingStorage.ts,
  src/locking/LockingManager.ts, src/locking/LockingHelper.ts). A lock is a document of a collection
  shared by all processes of the back end; to take it is to insert the document. The hash of its
  identifier (SHA-256) and the name of the host are parameters.

  The first part is one process seen alone: \<open>acquire\<close> with its waiting loop, where \<open>others\<close>
  says what the other processes do to the collection while it sleeps. The second part interleaves any
  number of processes, one data base operation at a time.
\<close>

section \<open>Data\<close>

datatype LockType = EXCLUSIVE

fun lock_type_name :: "LockType \<Rightarrow> string" where
  "lock_type_name EXCLUSIVE = ''E''"

datatype LockEntity =
    DATABASE | DATABASE_INDEX | CHARGING_STATION | SITE_AREA | USER | LOGGING | PERFORMANCE
  | TRANSACTION | CAR | CAR_CATALOG | INVOICE | ASSET | OCPI_ENDPOINT | TAG | OICP_ENDPOINT
  | ASYNC_TASK | ASYNC_TASK_MANAGER | SCHEDULER_TASK

fun lock_entity_name :: "LockEntity \<Rightarrow> string" where
  "lock_entity_name DATABASE = ''database''"
| "lock_entity_name DATABASE_INDEX = ''database-index''"
| "lock_entity_name CHARGING_STATION = ''charging-station''"
| "lock_entity_name SITE_AREA = ''site-area''"
| "lock_entity_name USER = ''user''"
| "lock_entity_name LOGGING = ''logging''"
| "lock_entity_name PERFORMANCE = ''performance''"
| "lock_entity_name TRANSACTION = ''transaction''"
| "lock_entity_name CAR = ''car''"
| "lock_entity_name CAR_CATALOG = ''car-catalog''"
| "lock_entity_name INVOICE = ''invoice''"
| "lock_entity_name ASSET = ''asset''"
| "lock_entity_name OCPI_ENDPOINT = ''ocpi-endpoint''"
| "lock_entity_name TAG = ''tag''"
| "lock_entity_name OICP_ENDPOINT = ''oicp-endpoint''"
| "lock_entity_name ASYNC_TASK = ''async-task''"
| "lock_entity_name ASYNC_TASK_MANAGER = ''async-task-manager''"
| "lock_entity_name SCHEDULER_TASK = ''scheduler-task''"

record lock =
  lk_id :: string
  lk_tenantID :: "string option"
  lk_entity :: LockEntity
  lk_key :: string
  lk_type :: LockType
  lk_timestamp :: int
  lk_expirationDate :: "int option"
  lk_hostname :: string

definition LOCK_WAIT_MILLIS :: int where "LOCK_WAIT_MILLIS = 1000"
definition SMART_CHARGING_LOCK_SECS :: int where "SMART_CHARGING_LOCK_SECS = 5"
definition CHARGING_STATION_LOCK_SECS :: int where "CHARGING_STATION_LOCK_SECS = 5"
definition DEFAULT_TENANT :: string where "DEFAULT_TENANT = ''default''"

section \<open>The collection of locks\<close>

text \<open>\<^verbatim>\<open>insertOne\<close> rejects a document whose \<^verbatim>\<open>_id\<close> is in the collection.\<close>

definition insertLock :: "lock \<Rightarrow> lock list \<Rightarrow> lock list res" where
  "insertLock l ls =
     (if find (\<lambda>d. lk_id d = lk_id l) ls \<noteq> None then Inl (BackendError ''duplicate key'')
      else Inr (ls @ [l\<lparr>lk_tenantID := if lk_tenantID l \<noteq> Some DEFAULT_TENANT then lk_tenantID l else None\<rparr>]))"

definition getLock :: "string \<Rightarrow> lock list \<Rightarrow> lock option" where
  "getLock i ls = (let found = filter (\<lambda>d. lk_id d = i) ls in if length found = 1 then Some (hd found) else None)"

fun delete_first :: "string \<Rightarrow> lock list \<Rightarrow> lock list" where
  "delete_first i [] = []"
| "delete_first i (d # ds) = (if lk_id d = i then ds else d # delete_first i ds)"

definition deleteLock :: "string \<Rightarrow> lock list \<Rightarrow> lock list \<times> bool" where
  "deleteLock i ls = (delete_first i ls, find (\<lambda>d. lk_id d = i) ls \<noteq> None)"

definition deleteLockByHostname :: "string \<Rightarrow> lock list \<Rightarrow> lock list" where
  "deleteLockByHostname host ls = filter (\<lambda>d. lk_hostname d \<noteq> host) ls"

section \<open>The manager\<close>

definition createLock ::
  "(string \<Rightarrow> string) \<Rightarrow> int \<Rightarrow> string \<Rightarrow> string \<Rightarrow> LockEntity option \<Rightarrow> string \<Rightarrow> LockType \<Rightarrow> int \<Rightarrow> lock res" where
  "createLock hash now host tenantID entity key typ lockValiditySecs =
     (if tenantID = [] then Inl (BackendError ''Tenant must be provided'')
      else case entity of None \<Rightarrow> Inl (BackendError ''Entity must be provided'')
      | Some e \<Rightarrow>
          if key = [] then Inl (BackendError ''Key must be provided'')
          else Inr \<lparr> lk_id = hash (tenantID @ ''~'' @ lock_entity_name e @ ''~'' @ to_lower key @ ''~'' @ lock_type_name typ),
                 lk_tenantID = Some tenantID, lk_entity = e, lk_key = to_lower key, lk_type = typ, lk_timestamp = now,
                 lk_expirationDate = (if lockValiditySecs > 0 then Some (now + lockValiditySecs * 1000) else None),
                 lk_hostname = host \<rparr>)"

definition createExclusiveLock ::
  "(string \<Rightarrow> string) \<Rightarrow> int \<Rightarrow> string \<Rightarrow> string \<Rightarrow> LockEntity \<Rightarrow> string \<Rightarrow> int \<Rightarrow> lock res" where
  "createExclusiveLock hash now host tenantID entity key lockValiditySecs =
     createLock hash now host tenantID (Some entity) key EXCLUSIVE lockValiditySecs"

text \<open>The world of one process: the clock, in milliseconds, and the collection.\<close>

record lock_world =
  lw_now :: int
  lw_locks :: "lock list"

type_synonym others = "int \<Rightarrow> lock list \<Rightarrow> lock list"

definition sleep :: "others \<Rightarrow> int \<Rightarrow> lock_world \<Rightarrow> lock_world" where
  "sleep others millis w =
     (let t = lw_now w + millis in \<lparr> lw_now = t, lw_locks = others t (lw_locks w) \<rparr>)"

text \<open>The \<^verbatim>\<open>do while\<close> loop of a lock with a timeout; the time the operations take is the sleep only.\<close>

function wait_and_insert :: "others \<Rightarrow> lock \<Rightarrow> int \<Rightarrow> lock_world \<Rightarrow> lock_world \<times> unit res" where
  "wait_and_insert others l timeoutDateMs w =
     (case insertLock l (lw_locks w) of
        Inr ls \<Rightarrow> (w\<lparr>lw_locks := ls\<rparr>, Inr ())
      | Inl _ \<Rightarrow>
          (let w' = sleep others LOCK_WAIT_MILLIS w in
           if lw_now w' < timeoutDateMs then wait_and_insert others l timeoutDateMs w'
           else (w', Inl (BackendError ''Lock acquisition timeout reached''))))"
  by auto
termination
  by (relation "measure (\<lambda>(_, _, t, w). nat (t - lw_now w))") (auto simp: sleep_def LOCK_WAIT_MILLIS_def Let_def)

definition acquireExclusiveLock :: "others \<Rightarrow> lock \<Rightarrow> int \<Rightarrow> lock_world \<Rightarrow> lock_world \<times> unit res" where
  "acquireExclusiveLock others l timeoutSecs w =
     (if timeoutSecs > 0 then wait_and_insert others l (lw_now w + timeoutSecs * 1000) w
      else case insertLock l (lw_locks w) of
             Inr ls \<Rightarrow> (w\<lparr>lw_locks := ls\<rparr>, Inr ())
           | Inl e \<Rightarrow> (w, Inl e))"

definition release :: "lock \<Rightarrow> lock list \<Rightarrow> lock list \<times> bool" where
  "release l ls = deleteLock (lk_id l) ls"

definition expired :: "int \<Rightarrow> lock \<Rightarrow> bool" where
  "expired now l = (case lk_expirationDate l of None \<Rightarrow> False | Some d \<Rightarrow> d < now)"

definition checkAndReleaseExpiredLock :: "lock \<Rightarrow> lock_world \<Rightarrow> lock_world \<times> bool" where
  "checkAndReleaseExpiredLock l w =
     (case getLock (lk_id l) (lw_locks w) of
        None \<Rightarrow> (w, False)
      | Some lockInDB \<Rightarrow>
          if expired (lw_now w) lockInDB then (w\<lparr>lw_locks := fst (release lockInDB (lw_locks w))\<rparr>, True)
          else (w, False))"

function acquire :: "others \<Rightarrow> lock \<Rightarrow> int \<Rightarrow> bool \<Rightarrow> lock_world \<Rightarrow> lock_world \<times> bool" where
  "acquire others l timeoutSecs retry w =
     (let (w1, r) = (case lk_type l of EXCLUSIVE \<Rightarrow> acquireExclusiveLock others l timeoutSecs w) in
      case r of
        Inr _ \<Rightarrow> (w1, True)
      | Inl _ \<Rightarrow>
          if retry then
            (let (w2, freed) = checkAndReleaseExpiredLock l w1 in
             if freed then acquire others l timeoutSecs False w2 else (w2, False))
          else (w1, False))"
  by auto
termination
  by (relation "measure (\<lambda>(_, _, _, retry, _). if retry then 1 else 0)") auto

declare wait_and_insert.simps [simp del]
declare acquire.simps [simp del]

section \<open>The collection as an interface\<close>

text \<open>\<^verbatim>\<open>_id\<close> is unique: the identifiers of the documents are distinct, and every operation keeps that.\<close>

definition one_per_id :: "lock list \<Rightarrow> bool" where
  "one_per_id ls = distinct (map lk_id ls)"

definition lock_ids :: "lock list \<Rightarrow> string set" where
  "lock_ids ls = lk_id ` set ls"

definition saved_lock :: "lock \<Rightarrow> lock" where
  "saved_lock l = l\<lparr>lk_tenantID := if lk_tenantID l \<noteq> Some DEFAULT_TENANT then lk_tenantID l else None\<rparr>"

lemma saved_lock_simps [simp]:
  "lk_id (saved_lock l) = lk_id l" "lk_expirationDate (saved_lock l) = lk_expirationDate l"
  "expired now (saved_lock l) = expired now l"
  by (simp_all add: saved_lock_def expired_def)

lemma find_id_iff: "find (\<lambda>d. lk_id d = i) ls = None \<longleftrightarrow> i \<notin> lock_ids ls"
  by (simp add: lock_ids_def find_absent)

lemma getLock_find: "one_per_id ls \<Longrightarrow> getLock i ls = find (\<lambda>d. lk_id d = i) ls"
proof (induction ls)
  case (Cons d ds)
  then have "getLock i ds = find (\<lambda>d. lk_id d = i) ds" by (simp add: one_per_id_def)
  moreover have "lk_id d = i \<Longrightarrow> filter (\<lambda>d. lk_id d = i) ds = []"
    using Cons.prems by (auto simp: one_per_id_def filter_empty_conv rev_image_eqI)
  ultimately show ?case by (auto simp: getLock_def)
qed (simp add: getLock_def)

lemma delete_first_filter: "one_per_id ls \<Longrightarrow> delete_first i ls = filter (\<lambda>d. lk_id d \<noteq> i) ls"
proof (induction ls)
  case (Cons d ds)
  then have "lk_id d = i \<Longrightarrow> filter (\<lambda>d. lk_id d \<noteq> i) ds = ds"
    by (auto simp: one_per_id_def filter_id_conv rev_image_eqI)
  with Cons show ?case by (simp add: one_per_id_def)
qed simp

lemma delete_first_absent: "i \<notin> lock_ids ls \<Longrightarrow> delete_first i (ls @ ds) = ls @ delete_first i ds"
  by (induction ls) (auto simp: lock_ids_def)

lemma insert_Inr: "insertLock l ls = Inr ls' \<longleftrightarrow> lk_id l \<notin> lock_ids ls \<and> ls' = ls @ [saved_lock l]"
  by (auto simp: insertLock_def saved_lock_def find_id_iff[symmetric])

lemma insert_Inl: "insertLock l ls = Inl e \<longleftrightarrow> lk_id l \<in> lock_ids ls \<and> e = BackendError ''duplicate key''"
  by (auto simp: insertLock_def find_absent lock_ids_def)

lemma one_per_id_delete: "one_per_id ls \<Longrightarrow> one_per_id (delete_first i ls)"
  by (simp add: delete_first_filter) (simp add: one_per_id_def distinct_map_filter)

interpretation locks: exclusive_collection lk_id one_per_id "\<lambda>i ls. i \<in> lock_ids ls" insertLock delete_first
proof (unfold_locales, goal_cases)
  case (4 s k k')
  then show ?case by (auto simp: delete_first_filter lock_ids_def)
next
  case (6 s k)
  then show ?case by (rule one_per_id_delete)
qed (auto simp: insert_Inr insert_Inl lock_ids_def one_per_id_def)

section \<open>One process\<close>

lemma getLock_insert:
  assumes "one_per_id ls" and "insertLock l ls = Inr ls'"
  shows "getLock k ls' = (if k = lk_id l then Some (saved_lock l) else getLock k ls)"
proof -
  have "one_per_id ls'" using assms locks.insert_ok by blast
  moreover have "k \<noteq> lk_id l \<Longrightarrow> find (\<lambda>d. lk_id d = k) (ls @ [saved_lock l]) = find (\<lambda>d. lk_id d = k) ls"
    by (induction ls) auto
  moreover have "lk_id l \<notin> lock_ids ls \<Longrightarrow> find (\<lambda>d. lk_id d = lk_id l) (ls @ [saved_lock l]) = Some (saved_lock l)"
    by (induction ls) (auto simp: lock_ids_def)
  ultimately show ?thesis using assms by (auto simp: getLock_find insert_Inr)
qed

lemma getLock_delete:
  assumes "one_per_id ls" and "k \<noteq> i"
  shows "getLock k (delete_first i ls) = getLock k ls"
proof -
  have "find (\<lambda>d. lk_id d = k) (filter (\<lambda>d. lk_id d \<noteq> i) ls) = find (\<lambda>d. lk_id d = k) ls"
    using assms(2) by (induction ls) auto
  then show ?thesis using assms(1) by (simp add: getLock_find one_per_id_delete) (simp add: delete_first_filter)
qed

lemma getLock_None: "one_per_id ls \<Longrightarrow> getLock i ls = None \<longleftrightarrow> i \<notin> lock_ids ls"
  by (simp add: getLock_find find_id_iff)

lemma getLock_id: "getLock i ls = Some d \<Longrightarrow> lk_id d = i"
  by (auto simp: getLock_def Let_def length_Suc_conv filter_eq_Cons_iff split: if_splits)

lemma acquire_free:
  assumes "lk_id l \<notin> lock_ids (lw_locks w)"
  shows "acquire others l T retry w = (w\<lparr>lw_locks := lw_locks w @ [saved_lock l]\<rparr>, True)"
proof -
  have "insertLock l (lw_locks w) = Inr (lw_locks w @ [saved_lock l])" using assms by (simp add: insert_Inr)
  then have "acquireExclusiveLock others l T w = (w\<lparr>lw_locks := lw_locks w @ [saved_lock l]\<rparr>, Inr ())"
    by (simp add: acquireExclusiveLock_def wait_and_insert.simps)
  then show ?thesis by (cases "lk_type l") (simp add: acquire.simps)
qed

lemma acquire_taken:
  assumes "lk_id l \<in> lock_ids (lw_locks w)" and "T \<le> 0" and "one_per_id (lw_locks w)"
  shows "acquire others l T True w =
    (if \<exists>d. getLock (lk_id l) (lw_locks w) = Some d \<and> expired (lw_now w) d
     then (w\<lparr>lw_locks := delete_first (lk_id l) (lw_locks w) @ [saved_lock l]\<rparr>, True) else (w, False))"
proof -
  obtain d where d: "getLock (lk_id l) (lw_locks w) = Some d"
    using assms(1,3) getLock_None by fastforce
  have "insertLock l (lw_locks w) = Inl (BackendError ''duplicate key'')" using assms(1) by (simp add: insert_Inl)
  then have "acquireExclusiveLock others l T w = (w, Inl (BackendError ''duplicate key''))"
    using assms(2) by (simp add: acquireExclusiveLock_def)
  moreover have "lk_id l \<notin> lock_ids (delete_first (lk_id l) (lw_locks w))"
    using locks.mem_delete[OF assms(3)] by blast
  ultimately show ?thesis
    using d getLock_id[OF d]
    by (subst acquire.simps, cases "lk_type l")
      (simp add: checkAndReleaseExpiredLock_def release_def deleteLock_def acquire_free)
qed

text \<open>A process that does not wait takes a lock exactly when no document has its identifier or the one
  there has expired; then the document with this identifier is its own, and no other lock is touched.\<close>

theorem acquire_takes_free_or_expired:
  assumes "one_per_id (lw_locks w)" and "timeoutSecs \<le> 0" and "acquire others l timeoutSecs True w = (w', ok)"
  shows "ok = (case getLock (lk_id l) (lw_locks w) of None \<Rightarrow> True | Some d \<Rightarrow> expired (lw_now w) d)
    \<and> getLock k (lw_locks w') = (if ok \<and> k = lk_id l then Some (saved_lock l) else getLock k (lw_locks w))
    \<and> one_per_id (lw_locks w')"
proof (cases "lk_id l \<in> lock_ids (lw_locks w)")
  case False
  with assms have w': "w' = w\<lparr>lw_locks := lw_locks w @ [saved_lock l]\<rparr>" "ok" by (simp_all add: acquire_free)
  from False have i: "insertLock l (lw_locks w) = Inr (lw_locks w')" by (simp add: insert_Inr w')
  show ?thesis
    using getLock_insert[OF assms(1) i] locks.insert_ok[OF i assms(1)] w'(2) False assms(1) by (simp add: getLock_None[THEN iffD2])
next
  case True
  then obtain d where d: "getLock (lk_id l) (lw_locks w) = Some d"
    using assms(1) getLock_None by fastforce
  show ?thesis
  proof (cases "expired (lw_now w) d")
    case False
    with assms True d show ?thesis by (auto simp: acquire_taken)
  next
    case exp: True
    let ?ls = "delete_first (lk_id l) (lw_locks w)"
    have w': "w' = w\<lparr>lw_locks := ?ls @ [saved_lock l]\<rparr>" "ok" using assms True d exp by (auto simp: acquire_taken)
    have i: "insertLock l ?ls = Inr (lw_locks w')"
      using locks.mem_delete[OF assms(1)] by (simp add: insert_Inr w')
    have "one_per_id ?ls" using assms(1) by (rule one_per_id_delete)
    from getLock_insert[OF this i] locks.insert_ok[OF i this] show ?thesis
      using w'(2) d exp assms(1) by (simp add: getLock_delete)
  qed
qed

text \<open>Taking a free lock and releasing it leaves the collection as it was, whatever the timeout.\<close>

theorem acquire_release_restores:
  assumes "lk_id l \<notin> lock_ids (lw_locks w)"
  shows "let (w', ok) = acquire others l timeoutSecs retry w in ok \<and> release l (lw_locks w') = (lw_locks w, True)"
proof -
  have "find (\<lambda>d. lk_id d = lk_id l) (lw_locks w @ [saved_lock l]) \<noteq> None"
    by (simp add: find_None_iff) auto
  then show ?thesis
    using assms by (simp add: acquire_free release_def deleteLock_def delete_first_absent)
qed

section \<open>The time a process waits\<close>

lemma wait_and_insert_time:
  assumes "wait_and_insert others l t w = (w', r)" and "lw_now w < t"
  shows "lw_now w \<le> lw_now w' \<and> lw_now w' \<le> t + LOCK_WAIT_MILLIS - 1"
  using assms
proof (induction others l t w arbitrary: w' rule: wait_and_insert.induct)
  case (1 others l t w)
  show ?case
  proof (cases "insertLock l (lw_locks w)")
    case (Inr ls)
    with 1 show ?thesis by (auto simp: wait_and_insert.simps[of _ _ _ w] LOCK_WAIT_MILLIS_def)
  next
    case (Inl e)
    let ?w = "sleep others LOCK_WAIT_MILLIS w"
    have now: "lw_now ?w = lw_now w + LOCK_WAIT_MILLIS" by (simp add: sleep_def Let_def)
    show ?thesis
    proof (cases "lw_now ?w < t")
      case True
      then show ?thesis
        using 1(1)[OF Inl refl] 1(2,3) Inl now by (simp add: wait_and_insert.simps[of _ _ _ w] LOCK_WAIT_MILLIS_def)
    next
      case False
      with 1(2,3) Inl now show ?thesis by (auto simp: wait_and_insert.simps[of _ _ _ w] LOCK_WAIT_MILLIS_def)
    qed
  qed
qed

lemma wait_and_insert_saved:
  "wait_and_insert others l t w = (w', Inr ()) \<Longrightarrow> saved_lock l \<in> set (lw_locks w')"
proof (induction others l t w arbitrary: w' rule: wait_and_insert.induct)
  case (1 others l t w)
  then show ?case
    by (auto simp: wait_and_insert.simps[of _ _ _ w] Let_def insert_Inr split: sum.splits if_splits)
qed

definition wait_bound :: "int \<Rightarrow> int" where
  "wait_bound timeoutSecs = (if timeoutSecs > 0 then timeoutSecs * 1000 + LOCK_WAIT_MILLIS - 1 else 0)"

lemma acquireExclusiveLock_time:
  assumes "acquireExclusiveLock others l T w = (w', r)"
  shows "lw_now w \<le> lw_now w' \<and> lw_now w' \<le> lw_now w + wait_bound T"
proof (cases "T > 0")
  case True
  with assms have "wait_and_insert others l (lw_now w + T * 1000) w = (w', r)"
    by (simp add: acquireExclusiveLock_def)
  from wait_and_insert_time[OF this] True show ?thesis by (simp add: wait_bound_def LOCK_WAIT_MILLIS_def)
next
  case False
  with assms show ?thesis by (auto simp: acquireExclusiveLock_def wait_bound_def split: sum.splits)
qed

lemma acquireExclusiveLock_saved:
  "acquireExclusiveLock others l T w = (w', Inr ()) \<Longrightarrow> saved_lock l \<in> set (lw_locks w')"
  by (auto simp: acquireExclusiveLock_def insert_Inr wait_and_insert_saved split: if_splits sum.splits)

lemma acquire_now: "lw_now (fst (checkAndReleaseExpiredLock l w)) = lw_now w"
  by (simp add: checkAndReleaseExpiredLock_def split: option.split)

lemma acquire_once:
  assumes "acquire others l T False w = (w', ok)"
  shows "lw_now w' \<le> lw_now w + wait_bound T \<and> (ok \<longrightarrow> saved_lock l \<in> set (lw_locks w'))"
proof -
  obtain w1 r where a: "acquireExclusiveLock others l T w = (w1, r)" by fastforce
  with assms have "w' = w1" "ok = is_ok r" by (cases "lk_type l"; auto simp: acquire.simps split: sum.splits)+
  then show ?thesis using acquireExclusiveLock_time[OF a] acquireExclusiveLock_saved[of others l T w w'] a
    by (cases r) auto
qed

text \<open>The second attempt, after an expired lock was removed, has the whole timeout again.\<close>

lemma acquire_twice:
  assumes "acquire others l T True w = (w', ok)"
  shows "lw_now w' \<le> lw_now w + 2 * wait_bound T \<and> (ok \<longrightarrow> saved_lock l \<in> set (lw_locks w'))"
proof -
  obtain w1 r where a: "acquireExclusiveLock others l T w = (w1, r)" by fastforce
  have t1: "lw_now w1 \<le> lw_now w + wait_bound T" using acquireExclusiveLock_time[OF a] by simp
  have b: "0 \<le> wait_bound T" by (simp add: wait_bound_def LOCK_WAIT_MILLIS_def)
  show ?thesis
  proof (cases r)
    case (Inr u)
    with a assms have "w' = w1" by (cases "lk_type l") (simp add: acquire.simps)
    with acquireExclusiveLock_saved[of others l T w w1] Inr a t1 b show ?thesis by simp
  next
    case (Inl e)
    obtain w2 freed where c: "checkAndReleaseExpiredLock l w1 = (w2, freed)" by fastforce
    have n: "lw_now w2 = lw_now w1" using acquire_now[of l w1] c by simp
    have "(w', ok) = (if freed then acquire others l T False w2 else (w2, False))"
      using assms a Inl c by (cases "lk_type l") (simp add: acquire.simps[of _ _ _ True])
    then show ?thesis using acquire_once[of others l T w2 w' ok] t1 n b by (cases freed) auto
  qed
qed

text \<open>A process gives up, or has its lock, within two timeouts and two sleeps; a lock whose validity is
  longer than that is stored before it expires.\<close>

theorem acquire_in_time:
  assumes "createExclusiveLock hash (lw_now w) host tenantID entity key validitySecs = Inr l"
    and "acquire others l timeoutSecs True w = (w', ok)" and "0 \<le> timeoutSecs" and "2 * (timeoutSecs + 1) \<le> validitySecs"
  shows "lw_now w' \<le> lw_now w + 2000 * (timeoutSecs + 1)
    \<and> (ok \<longrightarrow> (\<exists>d \<in> set (lw_locks w'). lk_id d = lk_id l \<and> \<not> expired (lw_now w') d))"
proof -
  have "wait_bound timeoutSecs \<le> 1000 * (timeoutSecs + 1)"
    using assms(3) by (simp add: wait_bound_def LOCK_WAIT_MILLIS_def)
  with acquire_twice[OF assms(2)] have now: "lw_now w' \<le> lw_now w + 2000 * (timeoutSecs + 1)"
    and saved: "ok \<longrightarrow> saved_lock l \<in> set (lw_locks w')" by auto
  have "lk_expirationDate l = Some (lw_now w + validitySecs * 1000)"
    using assms(1,3,4) by (auto simp: createExclusiveLock_def createLock_def split: if_splits)
  with now assms(4) have "\<not> expired (lw_now w') (saved_lock l)" by (simp add: expired_def)
  with now saved show ?thesis by (auto intro: bexI[of _ "saved_lock l"])
qed

text \<open>A lock that nobody touches keeps a process waiting until its timeout.\<close>

lemma wait_blocked:
  assumes "lk_id l \<in> lock_ids (lw_locks w)"
  shows "\<exists>t' e. wait_and_insert (\<lambda>_ ls. ls) l t w = (w\<lparr>lw_now := t'\<rparr>, Inl e) \<and> t \<le> t'"
  using assms
proof (induction "\<lambda>(_ :: int) (ls :: lock list). ls" l t w rule: wait_and_insert.induct)
  case (1 l t w)
  then have i: "insertLock l (lw_locks w) = Inl (BackendError ''duplicate key'')" by (simp add: insert_Inl)
  have s: "sleep (\<lambda>_ ls. ls) LOCK_WAIT_MILLIS w = w\<lparr>lw_now := lw_now w + LOCK_WAIT_MILLIS\<rparr>" by (simp add: sleep_def Let_def)
  show ?case
  proof (cases "lw_now w + LOCK_WAIT_MILLIS < t")
    case True
    with 1(1)[OF i refl] 1(2) i s show ?thesis
      by (auto simp: wait_and_insert.simps[of _ _ _ w] Let_def)
  next
    case False
    with i s show ?thesis
      by (intro exI[of _ "lw_now w + LOCK_WAIT_MILLIS"]) (simp add: wait_and_insert.simps[of _ _ _ w] Let_def)
  qed
qed

text \<open>No lock is lost for ever. When the document of a lock is left by a process that died and expires before
  the timeout, the process that waits for it and is alone gets the lock.\<close>

theorem abandoned_lock_is_taken:
  assumes "one_per_id (lw_locks w)" and "getLock (lk_id l) (lw_locks w) = Some d"
    and "lk_expirationDate d = Some e" and "e < lw_now w + timeoutSecs * 1000" and "0 < timeoutSecs"
  shows "\<exists>t' \<ge> lw_now w. acquire (\<lambda>_ ls. ls) l timeoutSecs True w =
    (\<lparr> lw_now = t', lw_locks = delete_first (lk_id l) (lw_locks w) @ [saved_lock l] \<rparr>, True)"
proof -
  let ?id = "\<lambda>(_ :: int) (ls :: lock list). ls"
  have "lk_id l \<in> lock_ids (lw_locks w)" using assms(2) getLock_None[OF assms(1), of "lk_id l"] by (cases "lk_id l \<in> lock_ids (lw_locks w)") auto
  from wait_blocked[OF this, of "lw_now w + timeoutSecs * 1000"] obtain t' x
    where w0: "wait_and_insert ?id l (lw_now w + timeoutSecs * 1000) w = (w\<lparr>lw_now := t'\<rparr>, Inl x)"
      and t': "lw_now w + timeoutSecs * 1000 \<le> t'" by blast
  then have w1: "acquireExclusiveLock ?id l timeoutSecs w = (w\<lparr>lw_now := t'\<rparr>, Inl x)"
    using assms(5) by (simp add: acquireExclusiveLock_def)
  let ?w2 = "w\<lparr>lw_now := t', lw_locks := delete_first (lk_id l) (lw_locks w)\<rparr>"
  have exp: "expired t' d" using assms(3,4) t' by (simp add: expired_def)
  have check: "checkAndReleaseExpiredLock l (w\<lparr>lw_now := t'\<rparr>) = (?w2, True)"
    using exp assms(2) getLock_id[OF assms(2)] by (simp add: checkAndReleaseExpiredLock_def release_def deleteLock_def)
  have "lk_id l \<notin> lock_ids (lw_locks ?w2)" using locks.mem_delete[OF assms(1)] by simp
  from acquire_free[OF this] have "acquire ?id l timeoutSecs True w = (?w2\<lparr>lw_locks := lw_locks ?w2 @ [saved_lock l]\<rparr>, True)"
    using w1 check by (cases "lk_type l") (simp add: acquire.simps[of _ _ _ True])
  moreover have "lw_now w \<le> t'" using t' assms(5) by simp
  ultimately show ?thesis by (auto intro!: exI[of _ t'])
qed

end
