(* ===== verification/Lock_Protocol.thy ===== *)
theory Lock_Protocol
  imports Locking
begin

text \<open>
  The locks the back end uses (src/locking/LockingHelper.ts): what an identifier stands for, and what
  happens when several processes take and release locks at the same time. A process that wants a lock
  goes through the phases of \<open>acquire\<close> in src/locking/LockingManager.ts, one operation of the data
  base at a time: it inserts; when that fails it reads the document; when the document has expired it
  deletes it, by its identifier, and inserts again.
\<close>

section \<open>The locks of the helper\<close>

record lock_env =
  le_hash :: "string \<Rightarrow> string"
  le_host :: string
  le_others :: others

definition acquire_new ::
  "lock_env \<Rightarrow> string \<Rightarrow> LockEntity \<Rightarrow> string \<Rightarrow> int \<Rightarrow> int \<Rightarrow> lock_world \<Rightarrow> (lock_world \<times> lock option) res" where
  "acquire_new env tenantID entity key lockValiditySecs timeoutSecs w =
     bindE (createExclusiveLock (le_hash env) (lw_now w) (le_host env) tenantID entity key lockValiditySecs) (\<lambda>l.
       let (w', ok) = acquire (le_others env) l timeoutSecs True w
       in Inr (w', if ok then Some l else None))"

definition acquireOCPIEndpointActionLock :: "lock_env \<Rightarrow> string \<Rightarrow> string \<Rightarrow> string \<Rightarrow> lock_world \<Rightarrow> (lock_world \<times> lock option) res" where
  "acquireOCPIEndpointActionLock env tenantID ocpiEndpointID action = acquire_new env tenantID OCPI_ENDPOINT (ocpiEndpointID @ ''-'' @ action) 600 0"

definition acquireOICPEndpointActionLock :: "lock_env \<Rightarrow> string \<Rightarrow> string \<Rightarrow> string \<Rightarrow> lock_world \<Rightarrow> (lock_world \<times> lock option) res" where
  "acquireOICPEndpointActionLock env tenantID oicpEndpointID action = acquire_new env tenantID OICP_ENDPOINT (oicpEndpointID @ ''-'' @ action) 600 0"

definition acquireAsyncTaskLock :: "lock_env \<Rightarrow> string \<Rightarrow> string \<Rightarrow> lock_world \<Rightarrow> (lock_world \<times> lock option) res" where
  "acquireAsyncTaskLock env tenantID asyncTaskID = acquire_new env tenantID ASYNC_TASK asyncTaskID (15 * 60) 0"

definition acquireScheduledTaskLock :: "lock_env \<Rightarrow> string \<Rightarrow> string \<Rightarrow> lock_world \<Rightarrow> (lock_world \<times> lock option) res" where
  "acquireScheduledTaskLock env tenantID scheduledTaskName = acquire_new env tenantID SCHEDULER_TASK scheduledTaskName (15 * 60) 0"

definition acquireAsyncTaskManagerLock :: "lock_env \<Rightarrow> string \<Rightarrow> lock_world \<Rightarrow> (lock_world \<times> lock option) res" where
  "acquireAsyncTaskManagerLock env tenantID = acquire_new env tenantID ASYNC_TASK_MANAGER ''async-task-manager'' (15 * 60) 0"

definition acquireSiteAreaSmartChargingLock :: "lock_env \<Rightarrow> string \<Rightarrow> string \<Rightarrow> lock_world \<Rightarrow> (lock_world \<times> lock option) res" where
  "acquireSiteAreaSmartChargingLock env tenantID siteAreaID = acquire_new env tenantID SITE_AREA (siteAreaID @ ''-smart-charging'') (3 * 60) SMART_CHARGING_LOCK_SECS"

definition acquireBillingSyncUsersLock :: "lock_env \<Rightarrow> string \<Rightarrow> lock_world \<Rightarrow> (lock_world \<times> lock option) res" where
  "acquireBillingSyncUsersLock env tenantID = acquire_new env tenantID USER ''synchronize-billing-users'' 600 0"

definition acquireImportUsersLock :: "lock_env \<Rightarrow> string \<Rightarrow> lock_world \<Rightarrow> (lock_world \<times> lock option) res" where
  "acquireImportUsersLock env tenantID = acquire_new env tenantID USER ''import-users'' 600 0"

definition acquireImportTagsLock :: "lock_env \<Rightarrow> string \<Rightarrow> lock_world \<Rightarrow> (lock_world \<times> lock option) res" where
  "acquireImportTagsLock env tenantID = acquire_new env tenantID TAG ''import-tags'' 600 0"

definition acquireSyncCarCatalogsLock :: "lock_env \<Rightarrow> string \<Rightarrow> lock_world \<Rightarrow> (lock_world \<times> lock option) res" where
  "acquireSyncCarCatalogsLock env tenantID = acquire_new env tenantID CAR_CATALOG ''synchronize-car-catalogs'' 600 0"

definition acquireBillingSyncInvoicesLock :: "lock_env \<Rightarrow> string \<Rightarrow> lock_world \<Rightarrow> (lock_world \<times> lock option) res" where
  "acquireBillingSyncInvoicesLock env tenantID = acquire_new env tenantID INVOICE ''synchronize-billing-invoices'' 600 0"

definition acquireBillingPeriodicOperationLock :: "lock_env \<Rightarrow> string \<Rightarrow> lock_world \<Rightarrow> (lock_world \<times> lock option) res" where
  "acquireBillingPeriodicOperationLock env tenantID = acquire_new env tenantID INVOICE ''periodic-billing'' 600 0"

definition acquireAssetRetrieveConsumptionsLock :: "lock_env \<Rightarrow> string \<Rightarrow> string \<Rightarrow> lock_world \<Rightarrow> (lock_world \<times> lock option) res" where
  "acquireAssetRetrieveConsumptionsLock env tenantID assetID = acquire_new env tenantID ASSET (assetID @ ''-consumptions'') 600 0"

definition acquireOCPIPushCpoCdrsLock :: "lock_env \<Rightarrow> string \<Rightarrow> lock_world \<Rightarrow> (lock_world \<times> lock option) res" where
  "acquireOCPIPushCpoCdrsLock env tenantID = acquire_new env tenantID TRANSACTION ''push-cdrs'' 600 0"

definition createOCPIPushTokensLock :: "lock_env \<Rightarrow> string \<Rightarrow> string \<Rightarrow> lock_world \<Rightarrow> (lock_world \<times> lock option) res" where
  "createOCPIPushTokensLock env tenantID ocpiEndpointID = acquireOCPIEndpointActionLock env tenantID ocpiEndpointID ''push-tokens''"

definition acquireOCPIPushCdrLock :: "lock_env \<Rightarrow> string \<Rightarrow> int \<Rightarrow> lock_world \<Rightarrow> (lock_world \<times> lock option) res" where
  "acquireOCPIPushCdrLock env tenantID transactionID = acquire_new env tenantID TRANSACTION (''push-cdr-'' @ show_int transactionID) 600 0"

definition acquireCloseTransactionsInProgressLock :: "lock_env \<Rightarrow> string \<Rightarrow> lock_world \<Rightarrow> (lock_world \<times> lock option) res" where
  "acquireCloseTransactionsInProgressLock env tenantID = acquire_new env tenantID TRANSACTION ''close-transactions-in-progress'' 600 0"

definition createOCPIPullTokensLock :: "lock_env \<Rightarrow> string \<Rightarrow> string \<Rightarrow> bool \<Rightarrow> lock_world \<Rightarrow> (lock_world \<times> lock option) res" where
  "createOCPIPullTokensLock env tenantID ocpiEndpointID partial = acquireOCPIEndpointActionLock env tenantID ocpiEndpointID (''pull-tokens'' @ (if partial then ''-partial'' else []))"

definition createOCPICheckCdrsLock :: "lock_env \<Rightarrow> string \<Rightarrow> string \<Rightarrow> lock_world \<Rightarrow> (lock_world \<times> lock option) res" where
  "createOCPICheckCdrsLock env tenantID ocpiEndpointID = acquireOCPIEndpointActionLock env tenantID ocpiEndpointID ''check-cdrs''"

definition createOCPICheckLocationsLock :: "lock_env \<Rightarrow> string \<Rightarrow> string \<Rightarrow> lock_world \<Rightarrow> (lock_world \<times> lock option) res" where
  "createOCPICheckLocationsLock env tenantID ocpiEndpointID = acquireOCPIEndpointActionLock env tenantID ocpiEndpointID ''check-locations''"

definition createOCPICheckSessionsLock :: "lock_env \<Rightarrow> string \<Rightarrow> string \<Rightarrow> lock_world \<Rightarrow> (lock_world \<times> lock option) res" where
  "createOCPICheckSessionsLock env tenantID ocpiEndpointID = acquireOCPIEndpointActionLock env tenantID ocpiEndpointID ''check-sessions''"

definition createOCPIPullCdrsLock :: "lock_env \<Rightarrow> string \<Rightarrow> string \<Rightarrow> lock_world \<Rightarrow> (lock_world \<times> lock option) res" where
  "createOCPIPullCdrsLock env tenantID ocpiEndpointID = acquireOCPIEndpointActionLock env tenantID ocpiEndpointID ''pull-cdrs''"

definition createOCPIPullLocationsLock :: "lock_env \<Rightarrow> string \<Rightarrow> string \<Rightarrow> lock_world \<Rightarrow> (lock_world \<times> lock option) res" where
  "createOCPIPullLocationsLock env tenantID ocpiEndpointID = acquireOCPIEndpointActionLock env tenantID ocpiEndpointID ''pull-locations''"

definition createOCPIPullSessionsLock :: "lock_env \<Rightarrow> string \<Rightarrow> string \<Rightarrow> lock_world \<Rightarrow> (lock_world \<times> lock option) res" where
  "createOCPIPullSessionsLock env tenantID ocpiEndpointID = acquireOCPIEndpointActionLock env tenantID ocpiEndpointID ''pull-sessions''"

definition createOCPIPatchLocationsLock :: "lock_env \<Rightarrow> string \<Rightarrow> string \<Rightarrow> lock_world \<Rightarrow> (lock_world \<times> lock option) res" where
  "createOCPIPatchLocationsLock env tenantID ocpiEndpointID = acquireOCPIEndpointActionLock env tenantID ocpiEndpointID ''patch-locations''"

definition createOCPIPatchEVSEStatusesLock :: "lock_env \<Rightarrow> string \<Rightarrow> string \<Rightarrow> lock_world \<Rightarrow> (lock_world \<times> lock option) res" where
  "createOCPIPatchEVSEStatusesLock env tenantID ocpiEndpointID = acquireOCPIEndpointActionLock env tenantID ocpiEndpointID ''patch-evse-statuses''"

definition createOICPPatchEVSEsLock :: "lock_env \<Rightarrow> string \<Rightarrow> string \<Rightarrow> lock_world \<Rightarrow> (lock_world \<times> lock option) res" where
  "createOICPPatchEVSEsLock env tenantID oicpEndpointID = acquireOICPEndpointActionLock env tenantID oicpEndpointID ''patch-evses''"

definition createOICPPatchEvseStatusesLock :: "lock_env \<Rightarrow> string \<Rightarrow> string \<Rightarrow> lock_world \<Rightarrow> (lock_world \<times> lock option) res" where
  "createOICPPatchEvseStatusesLock env tenantID oicpEndpointID = acquireOICPEndpointActionLock env tenantID oicpEndpointID ''patch-evse-statuses''"

definition acquireOICPPushCdrLock :: "lock_env \<Rightarrow> string \<Rightarrow> int \<Rightarrow> lock_world \<Rightarrow> (lock_world \<times> lock option) res" where
  "acquireOICPPushCdrLock env tenantID transactionID = acquire_new env tenantID TRANSACTION (''push-cdr-'' @ show_int transactionID) 600 0"

definition acquireBillUserLock :: "lock_env \<Rightarrow> string \<Rightarrow> string \<Rightarrow> lock_world \<Rightarrow> (lock_world \<times> lock option) res" where
  "acquireBillUserLock env tenantID userID = acquire_new env tenantID USER (''bill-user-'' @ userID) 600 60"

definition acquireChargingStationLock :: "lock_env \<Rightarrow> string \<Rightarrow> string \<Rightarrow> lock_world \<Rightarrow> (lock_world \<times> lock option) res" where
  "acquireChargingStationLock env tenantID chargingStationID = acquire_new env tenantID CHARGING_STATION chargingStationID CHARGING_STATION_LOCK_SECS (CHARGING_STATION_LOCK_SECS * 2)"

definition acquireBillPendingTransactionsLock :: "lock_env \<Rightarrow> string \<Rightarrow> lock_world \<Rightarrow> (lock_world \<times> lock option) res" where
  "acquireBillPendingTransactionsLock env tenantID = acquire_new env tenantID TRANSACTION ''bill-pending-transactions'' 600 0"

definition acquireBillPendingTransactionLock :: "lock_env \<Rightarrow> string \<Rightarrow> int \<Rightarrow> lock_world \<Rightarrow> (lock_world \<times> lock option) res" where
  "acquireBillPendingTransactionLock env tenantID transactionID = acquire_new env tenantID TRANSACTION (''bill-pending-transaction-'' @ show_int transactionID) 600 0"

section \<open>What an identifier stands for\<close>

lemma split_at:
  "c \<notin> set a \<Longrightarrow> c \<notin> set b \<Longrightarrow> a @ c # x = b @ c # y \<longleftrightarrow> a = b \<and> x = y"
proof (induction a arbitrary: b)
  case Nil
  then show ?case by (cases b) auto
next
  case (Cons d a)
  then show ?case by (cases b) auto
qed

lemma lock_entity_name_inj: "lock_entity_name e = lock_entity_name f \<longleftrightarrow> e = f"
  by (cases e; cases f) simp_all

lemma lock_entity_name_plain: "CHR ''~'' \<notin> set (lock_entity_name e)"
  by (cases e) simp_all

text \<open>Two locks have the same identifier exactly when they are for the same tenant, entity and key, up to
  the case of the key; the hash has no collisions and identifiers of tenants have no tilde.\<close>

theorem lock_id_identifies:
  assumes "inj hash" and "CHR ''~'' \<notin> set t1" and "CHR ''~'' \<notin> set t2"
    and "createExclusiveLock hash now1 host1 t1 e1 k1 v1 = Inr l1"
    and "createExclusiveLock hash now2 host2 t2 e2 k2 v2 = Inr l2"
  shows "lk_id l1 = lk_id l2 \<longleftrightarrow> t1 = t2 \<and> e1 = e2 \<and> to_lower k1 = to_lower k2"
proof -
  have "lk_id l1 = hash (t1 @ CHR ''~'' # lock_entity_name e1 @ CHR ''~'' # to_lower k1 @ ''~E'')"
    and "lk_id l2 = hash (t2 @ CHR ''~'' # lock_entity_name e2 @ CHR ''~'' # to_lower k2 @ ''~E'')"
    using assms(4,5) by (auto simp: createExclusiveLock_def createLock_def split: if_splits)
  then show ?thesis
    using assms(1-3)
    by (simp add: inj_eq split_at lock_entity_name_plain lock_entity_name_inj)
qed

definition waiting_env :: lock_env where
  "waiting_env = \<lparr> le_hash = id, le_host = ''pod-1'', le_others = (\<lambda>t ls. if t \<ge> 6000 then [] else ls) \<rparr>"

definition station_lock :: "int \<Rightarrow> lock" where
  "station_lock t = \<lparr> lk_id = ''tenant~charging-station~cs-1~E'', lk_tenantID = Some ''tenant'', lk_entity = CHARGING_STATION,
     lk_key = ''cs-1'', lk_type = EXCLUSIVE, lk_timestamp = t, lk_expirationDate = Some (t + 5000), lk_hostname = ''pod-1'' \<rparr>"

lemma station_lock_simps [simp]:
  "lk_id (station_lock t) = ''tenant~charging-station~cs-1~E''" "lk_expirationDate (station_lock t) = Some (t + 5000)"
  "saved_lock (station_lock t) = station_lock t" "lk_type (station_lock t) = EXCLUSIVE"
  by (simp_all add: station_lock_def saved_lock_def DEFAULT_TENANT_def)

lemma station_lock_created:
  "createExclusiveLock id t ''pod-1'' ''tenant'' CHARGING_STATION ''cs-1'' 5 = Inr (station_lock t)"
  by (simp add: createExclusiveLock_def createLock_def station_lock_def to_lower_def)

lemma wait_one:
  "lk_id l \<in> lock_ids ls \<Longrightarrow> n + 1000 < t \<Longrightarrow>
   wait_and_insert others l t \<lparr> lw_now = n, lw_locks = ls \<rparr> =
   wait_and_insert others l t \<lparr> lw_now = n + 1000, lw_locks = others (n + 1000) ls \<rparr>"
  by (subst wait_and_insert.simps) (simp add: insertLock_def find_absent lock_ids_def sleep_def LOCK_WAIT_MILLIS_def Let_def)

lemma wait_free:
  "lk_id l \<notin> lock_ids ls \<Longrightarrow>
   wait_and_insert others l t \<lparr> lw_now = n, lw_locks = ls \<rparr> = (\<lparr> lw_now = n, lw_locks = ls @ [saved_lock l] \<rparr>, Inr ())"
  by (subst wait_and_insert.simps) (simp add: insert_Inr[THEN iffD2])


text \<open>A lock that was waited for longer than its validity is stored already expired: the lock of a charging
  station is valid for 5 seconds and is waited for up to 10. Here another process gives the lock back in
  the sixth second; the lock that is then stored has expired at this very moment, and any other process
  takes it away at once.\<close>

theorem station_lock_stored_expired:
  "acquireChargingStationLock waiting_env ''tenant'' ''cs-1'' \<lparr> lw_now = 0, lw_locks = [station_lock (-1000)] \<rparr> =
     Inr (\<lparr> lw_now = 6000, lw_locks = [station_lock 0] \<rparr>, Some (station_lock 0))
   \<and> expired 6000 (station_lock 0)
   \<and> acquire others (station_lock 6000) 0 True \<lparr> lw_now = 6000, lw_locks = [station_lock 0] \<rparr> =
     (\<lparr> lw_now = 6000, lw_locks = [station_lock 6000] \<rparr>, True)"
proof -
  have "wait_and_insert (le_others waiting_env) (station_lock 0) 10000 \<lparr> lw_now = 0, lw_locks = [station_lock (-1000)] \<rparr> =
      (\<lparr> lw_now = 6000, lw_locks = [station_lock 0] \<rparr>, Inr ())"
    by (simp add: wait_one wait_free lock_ids_def waiting_env_def)
  then have "acquire (le_others waiting_env) (station_lock 0) 10 True \<lparr> lw_now = 0, lw_locks = [station_lock (-1000)] \<rparr> =
      (\<lparr> lw_now = 6000, lw_locks = [station_lock 0] \<rparr>, True)"
    by (subst acquire.simps) (simp add: acquireExclusiveLock_def)
  then have "acquireChargingStationLock waiting_env ''tenant'' ''cs-1'' \<lparr> lw_now = 0, lw_locks = [station_lock (-1000)] \<rparr> =
     Inr (\<lparr> lw_now = 6000, lw_locks = [station_lock 0] \<rparr>, Some (station_lock 0))"
    using station_lock_created[of 0]
    by (simp add: acquireChargingStationLock_def acquire_new_def CHARGING_STATION_LOCK_SECS_def waiting_env_def id_def)
  moreover have "expired 6000 (station_lock 0)" by (simp add: expired_def)
  moreover have "getLock ''tenant~charging-station~cs-1~E'' [station_lock 0] = Some (station_lock 0)"
    by (simp add: getLock_def)
  ultimately show ?thesis
    by (simp add: acquire_taken lock_ids_def one_per_id_def)
qed

section \<open>Many processes\<close>

text \<open>
  The phases of one process: \<open>Inserting l retry\<close> is inside \<^verbatim>\<open>acquire\<close> before
  \<^verbatim>\<open>insertOne\<close>, also while it sleeps between two attempts; \<open>Checking l\<close> is after the failure, before
  \<^verbatim>\<open>getLock\<close>; \<open>Removing l\<close> has read an expired document and is before
  \<^verbatim>\<open>findOneAndDelete\<close>; \<open>Holding l\<close> has its lock, until it releases it or dies.
\<close>

datatype phase = Idle | Inserting lock bool | Checking lock | Removing lock | Holding lock

record lock_system =
  ls_now :: int
  ls_locks :: "lock list"
  ls_phase :: "nat \<Rightarrow> phase"

definition goes :: "lock_system \<Rightarrow> nat \<Rightarrow> phase \<Rightarrow> lock_system" where
  "goes s p ph = s\<lparr>ls_phase := (ls_phase s)(p := ph)\<rparr>"

inductive lock_step :: "lock_system \<Rightarrow> lock_system \<Rightarrow> bool" where
  tick: "0 \<le> d \<Longrightarrow> lock_step s (s\<lparr>ls_now := ls_now s + d\<rparr>)"
| start: "ls_phase s p = Idle \<Longrightarrow> createExclusiveLock hash (ls_now s) host tenantID entity key validity = Inr l \<Longrightarrow>
    lock_step s (goes s p (Inserting l True))"
| inserted: "ls_phase s p = Inserting l retry \<Longrightarrow> insertLock l (ls_locks s) = Inr ls \<Longrightarrow>
    lock_step s ((goes s p (Holding l))\<lparr>ls_locks := ls\<rparr>)"
| failed: "ls_phase s p = Inserting l True \<Longrightarrow> insertLock l (ls_locks s) = Inl e \<Longrightarrow> lock_step s (goes s p (Checking l))"
| refused: "ls_phase s p = Inserting l False \<Longrightarrow> insertLock l (ls_locks s) = Inl e \<Longrightarrow> lock_step s (goes s p Idle)"
| valid: "ls_phase s p = Checking l \<Longrightarrow> (case getLock (lk_id l) (ls_locks s) of None \<Rightarrow> True | Some d \<Rightarrow> \<not> expired (ls_now s) d) \<Longrightarrow>
    lock_step s (goes s p Idle)"
| outdated: "ls_phase s p = Checking l \<Longrightarrow> getLock (lk_id l) (ls_locks s) = Some d \<Longrightarrow> expired (ls_now s) d \<Longrightarrow>
    lock_step s (goes s p (Removing l))"
| removed: "ls_phase s p = Removing l \<Longrightarrow>
    lock_step s ((goes s p (Inserting l False))\<lparr>ls_locks := fst (release l (ls_locks s))\<rparr>)"
| released: "ls_phase s p = Holding l \<Longrightarrow> lock_step s ((goes s p Idle)\<lparr>ls_locks := fst (release l (ls_locks s))\<rparr>)"
| died: "ls_phase s p = Holding l \<Longrightarrow> lock_step s (goes s p Idle)"

abbreviation lock_steps :: "lock_system \<Rightarrow> lock_system \<Rightarrow> bool" where
  "lock_steps \<equiv> lock_step\<^sup>*\<^sup>*"

definition idle_system :: "int \<Rightarrow> lock_system" where
  "idle_system now = \<lparr> ls_now = now, ls_locks = [], ls_phase = (\<lambda>_. Idle) \<rparr>"

text \<open>A run in which no lock outlives its validity in the collection.\<close>

definition timely_step :: "lock_system \<Rightarrow> lock_system \<Rightarrow> bool" where
  "timely_step s t = (lock_step s t \<and> list_all (\<lambda>l. \<not> expired (ls_now t) l) (ls_locks t))"

definition held_by :: "lock_system \<Rightarrow> nat \<Rightarrow> string option" where
  "held_by s p = (case ls_phase s p of Holding l \<Rightarrow> Some (lk_id l) | _ \<Rightarrow> None)"

definition lock_inv :: "lock_system \<Rightarrow> bool" where
  "lock_inv s = (exclusive (\<lambda>i ls. i \<in> lock_ids ls) (held_by s) (ls_locks s) \<and> one_per_id (ls_locks s)
     \<and> list_all (\<lambda>l. \<not> expired (ls_now s) l) (ls_locks s) \<and> (\<forall>p l. ls_phase s p \<noteq> Removing l))"

lemma goes_simps [simp]:
  "ls_now (goes s p ph) = ls_now s" "ls_locks (goes s p ph) = ls_locks s" "ls_phase (goes s p ph) = (ls_phase s)(p := ph)"
  by (simp_all add: goes_def)

lemma held_goes:
  "held_by (goes s p (Holding l)) = (held_by s)(p := Some (lk_id l))"
  "\<forall>l. ph \<noteq> Holding l \<Longrightarrow> held_by (goes s p ph) = (held_by s)(p := None)"
  by (auto simp: held_by_def fun_eq_iff split: phase.split)

lemma held_locks [simp]: "held_by (s\<lparr>ls_locks := ls\<rparr>) = held_by s" "held_by (s\<lparr>ls_now := n\<rparr>) = held_by s"
  by (auto simp: held_by_def fun_eq_iff)

lemma timely_step_inv:
  assumes "timely_step s t" and inv: "lock_inv s"
  shows "lock_inv t"
proof -
  from assms(1) have step: "lock_step s t" and fresh: "list_all (\<lambda>l. \<not> expired (ls_now t) l) (ls_locks t)"
    by (simp_all add: timely_step_def)
  from inv have ex: "exclusive (\<lambda>i ls. i \<in> lock_ids ls) (held_by s) (ls_locks s)" and one: "one_per_id (ls_locks s)"
    and old: "list_all (\<lambda>l. \<not> expired (ls_now s) l) (ls_locks s)" and rm: "\<And>p l. ls_phase s p \<noteq> Removing l"
    by (simp_all add: lock_inv_def)
  have drop: "lock_inv (goes s p ph)" if "\<forall>l. ph \<noteq> Holding l" "\<forall>l. ph \<noteq> Removing l" for p ph
    using exclusive_drop[OF ex, of p] one old rm that by (auto simp: lock_inv_def held_goes)
  from step show ?thesis
  proof cases
    case (tick d)
    with ex one fresh rm show ?thesis by (simp add: lock_inv_def)
  next
    case (inserted p l retry ls)
    have "exclusive (\<lambda>i ls. i \<in> lock_ids ls) ((held_by s)(p := Some (lk_id l))) ls"
      using locks.exclusive_insert[OF ex inserted(3)] .
    moreover have "one_per_id ls" using locks.insert_ok[OF inserted(3) one] .
    ultimately show ?thesis using fresh rm inserted(1) by (simp add: lock_inv_def held_goes)
  next
    case (outdated p l d)
    then have "d \<in> set (ls_locks s)" by (auto simp: getLock_find[OF one] find_Some_iff)
    with old outdated(4) show ?thesis by (auto simp: list_all_iff)
  next
    case (removed p l)
    with rm show ?thesis by blast
  next
    case (released p l)
    then have h: "held_by s p = Some (lk_id l)" by (simp add: held_by_def)
    have "exclusive (\<lambda>i ls. i \<in> lock_ids ls) ((held_by s)(p := None)) (delete_first (lk_id l) (ls_locks s))"
      using locks.exclusive_delete[OF ex one h] .
    moreover have "one_per_id (delete_first (lk_id l) (ls_locks s))" using one by (rule locks.delete_ok)
    ultimately show ?thesis using fresh rm released(1)
      by (simp add: lock_inv_def held_goes release_def deleteLock_def)
  qed (use drop in simp_all)
qed

lemma timely_steps_inv: "timely_step\<^sup>*\<^sup>* s t \<Longrightarrow> lock_inv s \<Longrightarrow> lock_inv t"
  by (induction rule: rtranclp_induct) (blast intro: timely_step_inv)+

lemma idle_inv: "lock_inv (idle_system now)"
  by (simp add: lock_inv_def idle_system_def exclusive_def held_by_def one_per_id_def)

text \<open>C3: mutual exclusion. As long as no lock outlives its validity, two processes never hold the same lock,
  whatever the order of their operations, also when processes die holding locks.\<close>

theorem mutual_exclusion:
  assumes "timely_step\<^sup>*\<^sup>* (idle_system now) s"
    and "ls_phase s p = Holding l" and "ls_phase s q = Holding l'" and "lk_id l = lk_id l'"
  shows "p = q"
  using timely_steps_inv[OF assms(1) idle_inv] assms(2-4)
  unfolding lock_inv_def exclusive_def held_by_def by (metis (no_types, lifting) phase.case(5))

lemma station_start: "ls_phase s p = Idle \<Longrightarrow> lock_step s (goes s p (Inserting (station_lock (ls_now s)) True))"
  by (rule lock_step.start[OF _ station_lock_created])

text \<open>C37: the take-over of an expired lock is a race. Process 0 takes a lock and dies; after its validity two other
  processes find it expired; the second one deletes, by its identifier, the lock that the first one has
  just taken, and takes it too. Both hold it, and it has not expired.\<close>

theorem takeover_race:
  "\<exists>s. lock_steps (idle_system 0) s \<and> ls_phase s 1 = Holding (station_lock 6000) \<and> ls_phase s 2 = Holding (station_lock 6000)
     \<and> ls_locks s = [station_lock 6000] \<and> \<not> expired (ls_now s) (station_lock 6000)"
proof -
  let ?l = "station_lock 6000"
  define s0 where "s0 = goes (idle_system 0) 0 (Inserting (station_lock 0) True)"
  define s1 where "s1 = (goes s0 0 (Holding (station_lock 0)))\<lparr>ls_locks := [station_lock 0]\<rparr>"
  define s2 where "s2 = goes s1 0 Idle"
  define s3 where "s3 = s2\<lparr>ls_now := ls_now s2 + 6000\<rparr>"
  define s4 where "s4 = goes s3 1 (Inserting ?l True)"
  define s5 where "s5 = goes s4 2 (Inserting ?l True)"
  define s6 where "s6 = goes s5 1 (Checking ?l)"
  define s7 where "s7 = goes s6 2 (Checking ?l)"
  define s8 where "s8 = goes s7 1 (Removing ?l)"
  define s9 where "s9 = goes s8 2 (Removing ?l)"
  define s10 where "s10 = (goes s9 1 (Inserting ?l False))\<lparr>ls_locks := []\<rparr>"
  define s11 where "s11 = (goes s10 1 (Holding ?l))\<lparr>ls_locks := [?l]\<rparr>"
  define s12 where "s12 = (goes s11 2 (Inserting ?l False))\<lparr>ls_locks := []\<rparr>"
  define s13 where "s13 = (goes s12 2 (Holding ?l))\<lparr>ls_locks := [?l]\<rparr>"
  note defs = idle_system_def s0_def s1_def s2_def s3_def s4_def s5_def s6_def s7_def s8_def s9_def s10_def s11_def s12_def s13_def
  note eval = insertLock_def getLock_def release_def deleteLock_def expired_def saved_lock_def[symmetric]
  have "lock_step (idle_system 0) s0" using station_start[of "idle_system 0" 0] by (simp add: defs)
  moreover have "lock_step s0 s1" unfolding s1_def by (rule lock_step.inserted[where retry = True]) (simp_all add: defs eval)
  moreover have "lock_step s1 s2" unfolding s2_def by (rule lock_step.died) (simp add: s1_def)
  moreover have "lock_step s2 s3" unfolding s3_def by (rule lock_step.tick) simp
  moreover have "lock_step s3 s4" using station_start[of s3 1] by (simp add: defs)
  moreover have "lock_step s4 s5" using station_start[of s4 2] by (simp add: defs)
  moreover have "lock_step s5 s6" unfolding s6_def by (rule lock_step.failed) (simp_all add: defs eval)
  moreover have "lock_step s6 s7" unfolding s7_def by (rule lock_step.failed) (simp_all add: defs eval)
  moreover have "lock_step s7 s8" unfolding s8_def by (rule lock_step.outdated[where d = "station_lock 0"]) (simp_all add: defs eval)
  moreover have "lock_step s8 s9" unfolding s9_def by (rule lock_step.outdated[where d = "station_lock 0"]) (simp_all add: defs eval)
  moreover have "lock_step s9 s10" using lock_step.removed[of s9 1 ?l] by (simp add: defs eval)
  moreover have "lock_step s10 s11" unfolding s11_def by (rule lock_step.inserted[where retry = False]) (simp_all add: defs eval)
  moreover have "lock_step s11 s12" using lock_step.removed[of s11 2 ?l] by (simp add: defs eval)
  moreover have "lock_step s12 s13" unfolding s13_def by (rule lock_step.inserted[where retry = False]) (simp_all add: defs eval)
  ultimately have "lock_steps (idle_system 0) s13" by (meson converse_rtranclp_into_rtranclp rtranclp.rtrancl_refl)
  moreover have "ls_phase s13 1 = Holding ?l" "ls_phase s13 2 = Holding ?l" "ls_locks s13 = [?l]" "ls_now s13 = 6000"
    by (simp_all add: defs)
  ultimately show ?thesis by (auto simp: expired_def)
qed

section \<open>Instances\<close>

theorem acquire_takes_free_or_expired_witness:
  "let (w', ok) = acquire (\<lambda>_ ls. ls) (station_lock 6000) 0 True \<lparr> lw_now = 6000, lw_locks = [station_lock 0] \<rparr>
   in ok \<and> getLock (lk_id (station_lock 0)) (lw_locks w') = Some (station_lock 6000)"
proof -
  let ?w = "\<lparr> lw_now = 6000, lw_locks = [station_lock 0] \<rparr>"
  obtain w' ok where a: "acquire (\<lambda>_ ls. ls) (station_lock 6000) 0 True ?w = (w', ok)" by fastforce
  have one: "one_per_id (lw_locks ?w)" by (simp add: one_per_id_def)
  show ?thesis
    using acquire_takes_free_or_expired[OF one _ a, of "lk_id (station_lock 0)"] a
    by (simp add: getLock_def expired_def)
qed

theorem abandoned_lock_is_taken_witness:
  "snd (acquire (\<lambda>_ ls. ls) (station_lock 4500) 1 True \<lparr> lw_now = 4500, lw_locks = [station_lock 0] \<rparr>)"
proof -
  let ?w = "\<lparr> lw_now = 4500, lw_locks = [station_lock 0] \<rparr>"
  have one: "one_per_id (lw_locks ?w)" by (simp add: one_per_id_def)
  have "getLock (lk_id (station_lock 4500)) (lw_locks ?w) = Some (station_lock 0)" by (simp add: getLock_def)
  from abandoned_lock_is_taken[OF one this, of 5000 1] show ?thesis by auto
qed

theorem acquire_release_restores_witness:
  "let (w', ok) = acquire (\<lambda>_ ls. ls) (station_lock 0) 0 True \<lparr> lw_now = 0, lw_locks = [] \<rparr>
   in ok \<and> release (station_lock 0) (lw_locks w') = ([], True)"
  using acquire_release_restores[of "station_lock 0" "\<lparr> lw_now = 0, lw_locks = [] \<rparr>" "\<lambda>_ ls. ls" 0 True]
  by (simp add: lock_ids_def)

theorem acquire_in_time_witness:
  "let (w', ok) = acquire (\<lambda>_ ls. ls) (station_lock 0) 1 True \<lparr> lw_now = 0, lw_locks = [] \<rparr>
   in lw_now w' \<le> 4000 \<and> list_ex (\<lambda>d. lk_id d = lk_id (station_lock 0) \<and> \<not> expired (lw_now w') d) (lw_locks w')"
proof -
  let ?w = "\<lparr> lw_now = 0, lw_locks = [] \<rparr>"
  obtain w' ok where a: "acquire (\<lambda>_ ls. ls) (station_lock 0) 1 True ?w = (w', ok)" by fastforce
  from a have ok: "ok" by (simp add: acquire_free lock_ids_def)
  have c: "createExclusiveLock id (lw_now ?w) ''pod-1'' ''tenant'' CHARGING_STATION ''cs-1'' 5 = Inr (station_lock 0)"
    using station_lock_created[of 0] by simp
  have "lw_now w' \<le> 4000" "\<exists>d \<in> set (lw_locks w'). lk_id d = lk_id (station_lock 0) \<and> \<not> expired (lw_now w') d"
    using acquire_in_time[OF c a] ok by (simp_all del: station_lock_simps)
  with a show ?thesis by (simp add: list_ex_iff del: station_lock_simps)
qed

theorem lock_id_identifies_witness:
  "lk_id (station_lock 0) = lk_id (station_lock 6000)"
  using lock_id_identifies[OF inj_on_id _ _ station_lock_created[of 0] station_lock_created[of 6000]] by simp

theorem mutual_exclusion_witness:
  "{q. ls_phase ((goes (idle_system 0) 0 (Holding (station_lock 0)))\<lparr>ls_locks := [station_lock 0]\<rparr>) q = Holding (station_lock 0)} = {0}"
proof -
  define s where "s = goes (idle_system 0) 0 (Inserting (station_lock 0) True)"
  define t where "t = (goes s 0 (Holding (station_lock 0)))\<lparr>ls_locks := [station_lock 0]\<rparr>"
  have "timely_step (idle_system 0) s"
    using station_start[of "idle_system 0" 0] by (simp add: timely_step_def s_def idle_system_def)
  moreover have "lock_step s t" unfolding t_def
    by (rule lock_step.inserted[where retry = True]) (simp_all add: s_def idle_system_def insertLock_def saved_lock_def[symmetric])
  then have "timely_step s t" by (simp add: timely_step_def t_def s_def idle_system_def expired_def)
  ultimately have r: "timely_step\<^sup>*\<^sup>* (idle_system 0) t" by (meson converse_rtranclp_into_rtranclp rtranclp.rtrancl_refl)
  have eq: "t = (goes (idle_system 0) 0 (Holding (station_lock 0)))\<lparr>ls_locks := [station_lock 0]\<rparr>"
    by (simp add: t_def s_def goes_def)
  have h: "ls_phase t 0 = Holding (station_lock 0)" by (simp add: t_def)
  have "ls_phase t q = Holding (station_lock 0) \<Longrightarrow> q = 0" for q
    using mutual_exclusion[OF r _ h refl] by blast
  with h have "{q. ls_phase t q = Holding (station_lock 0)} = {0}" by blast
  then show ?thesis unfolding eq .
qed

end
