(* ===== verification/Access_Types.thy ===== *)
theory Access_Types
  imports Js_Base
begin

text \<open>
  The vocabulary of the access control (src/types/Authorization.ts): the resources, the actions, the
  grants of a role with their conditions, and the context in which a condition is evaluated.
\<close>

section \<open>Resources and actions\<close>

datatype Entity =
    SITE | SITE_AREA | COMPANY | CHARGING_STATION | TENANT | TRANSACTION
  | REPORT | USER | USERS_SITES | LOGGING | PRICING | PRICING_DEFINITION
  | BILLING | SETTING | ASYNC_TASK | OCPI_ENDPOINT | OICP_ENDPOINT | CONNECTION
  | ASSET | CAR_CATALOG | CAR | INVOICE | TAX | REGISTRATION_TOKEN
  | CHARGING_PROFILE | NOTIFICATION | TAG | PAYMENT_METHOD | SOURCE

datatype (plugins only: code) Action =
    READ | CREATE | UPDATE | UPDATE_BY_VISUAL_ID | REPLACE | REVOKE
  | DELETE | LOGOUT | LOGIN | LIST | IN_ERROR | RESET
  | ASSIGN | UNASSIGN | CLEAR_CACHE | TRIGGER_DATA_TRANSFER | SYNCHRONIZE | GET_CONFIGURATION
  | CHANGE_CONFIGURATION | SYNCHRONIZE_CAR_CATALOGS | REMOTE_START_TRANSACTION | REMOTE_STOP_TRANSACTION | START_TRANSACTION | STOP_TRANSACTION
  | UNLOCK_CONNECTOR | AUTHORIZE | SET_CHARGING_PROFILE | GET_COMPOSITE_SCHEDULE | CLEAR_CHARGING_PROFILE | GET_DIAGNOSTICS
  | UPDATE_FIRMWARE | EXPORT | CHANGE_AVAILABILITY | REFUND_TRANSACTION | SYNCHRONIZE_BILLING_USER | BILLING_SETUP_PAYMENT_METHOD
  | BILLING_PAYMENT_METHODS | BILLING_DELETE_PAYMENT_METHOD | BILLING_CHARGE_INVOICE | CHECK_CONNECTION | CLEAR_BILLING_TEST_DATA | RETRIEVE_CONSUMPTION
  | READ_CONSUMPTION | CREATE_CONSUMPTION | PING | GENERATE_LOCAL_TOKEN | REGISTER | TRIGGER_JOB
  | DOWNLOAD | IMPORT | ASSIGN_USERS_TO_SITE | UNASSIGN_USERS_FROM_SITE | ASSIGN_ASSETS_TO_SITE_AREA | UNASSIGN_ASSETS_FROM_SITE_AREA
  | READ_ASSETS_FROM_SITE_AREA | ASSIGN_CHARGING_STATIONS_TO_SITE_AREA | UNASSIGN_CHARGING_STATIONS_FROM_SITE_AREA | READ_CHARGING_STATIONS_FROM_SITE_AREA | EXPORT_OCPP_PARAMS | GENERATE_QR
  | MAINTAIN_PRICING_DEFINITIONS

text \<open>The strings of the enumerations.\<close>

primrec entity_name :: "Entity \<Rightarrow> string" where
  "entity_name Entity.SITE = ''Site''"
| "entity_name Entity.SITE_AREA = ''SiteArea''"
| "entity_name Entity.COMPANY = ''Company''"
| "entity_name Entity.CHARGING_STATION = ''ChargingStation''"
| "entity_name Entity.TENANT = ''Tenant''"
| "entity_name Entity.TRANSACTION = ''Transaction''"
| "entity_name Entity.REPORT = ''Report''"
| "entity_name Entity.USER = ''User''"
| "entity_name Entity.USERS_SITES = ''UsersSites''"
| "entity_name Entity.LOGGING = ''Logging''"
| "entity_name Entity.PRICING = ''Pricing''"
| "entity_name Entity.PRICING_DEFINITION = ''PricingDefinition''"
| "entity_name Entity.BILLING = ''Billing''"
| "entity_name Entity.SETTING = ''Setting''"
| "entity_name Entity.ASYNC_TASK = ''AsyncTask''"
| "entity_name Entity.OCPI_ENDPOINT = ''OcpiEndpoint''"
| "entity_name Entity.OICP_ENDPOINT = ''OicpEndpoint''"
| "entity_name Entity.CONNECTION = ''Connection''"
| "entity_name Entity.ASSET = ''Asset''"
| "entity_name Entity.CAR_CATALOG = ''CarCatalog''"
| "entity_name Entity.CAR = ''Car''"
| "entity_name Entity.INVOICE = ''Invoice''"
| "entity_name Entity.TAX = ''Tax''"
| "entity_name Entity.REGISTRATION_TOKEN = ''RegistrationToken''"
| "entity_name Entity.CHARGING_PROFILE = ''ChargingProfile''"
| "entity_name Entity.NOTIFICATION = ''Notification''"
| "entity_name Entity.TAG = ''Tag''"
| "entity_name Entity.PAYMENT_METHOD = ''PaymentMethod''"
| "entity_name Entity.SOURCE = ''Source''"

primrec action_name :: "Action \<Rightarrow> string" where
  "action_name Action.READ = ''Read''"
| "action_name Action.CREATE = ''Create''"
| "action_name Action.UPDATE = ''Update''"
| "action_name Action.UPDATE_BY_VISUAL_ID = ''UpdateByVisualID''"
| "action_name Action.REPLACE = ''Replace''"
| "action_name Action.REVOKE = ''Revoke''"
| "action_name Action.DELETE = ''Delete''"
| "action_name Action.LOGOUT = ''Logout''"
| "action_name Action.LOGIN = ''Login''"
| "action_name Action.LIST = ''List''"
| "action_name Action.IN_ERROR = ''InError''"
| "action_name Action.RESET = ''Reset''"
| "action_name Action.ASSIGN = ''Assign''"
| "action_name Action.UNASSIGN = ''Unassign''"
| "action_name Action.CLEAR_CACHE = ''ClearCache''"
| "action_name Action.TRIGGER_DATA_TRANSFER = ''DataTransfer''"
| "action_name Action.SYNCHRONIZE = ''Synchronize''"
| "action_name Action.GET_CONFIGURATION = ''GetConfiguration''"
| "action_name Action.CHANGE_CONFIGURATION = ''ChangeConfiguration''"
| "action_name Action.SYNCHRONIZE_CAR_CATALOGS = ''SynchronizeCarCatalogs''"
| "action_name Action.REMOTE_START_TRANSACTION = ''RemoteStartTransaction''"
| "action_name Action.REMOTE_STOP_TRANSACTION = ''RemoteStopTransaction''"
| "action_name Action.START_TRANSACTION = ''StartTransaction''"
| "action_name Action.STOP_TRANSACTION = ''StopTransaction''"
| "action_name Action.UNLOCK_CONNECTOR = ''UnlockConnector''"
| "action_name Action.AUTHORIZE = ''Authorize''"
| "action_name Action.SET_CHARGING_PROFILE = ''SetChargingProfile''"
| "action_name Action.GET_COMPOSITE_SCHEDULE = ''GetCompositeSchedule''"
| "action_name Action.CLEAR_CHARGING_PROFILE = ''ClearChargingProfile''"
| "action_name Action.GET_DIAGNOSTICS = ''GetDiagnostics''"
| "action_name Action.UPDATE_FIRMWARE = ''UpdateFirmware''"
| "action_name Action.EXPORT = ''Export''"
| "action_name Action.CHANGE_AVAILABILITY = ''ChangeAvailability''"
| "action_name Action.REFUND_TRANSACTION = ''RefundTransaction''"
| "action_name Action.SYNCHRONIZE_BILLING_USER = ''SynchronizeBillingUser''"
| "action_name Action.BILLING_SETUP_PAYMENT_METHOD = ''BillingSetupPaymentMethod''"
| "action_name Action.BILLING_PAYMENT_METHODS = ''BillingPaymentMethods''"
| "action_name Action.BILLING_DELETE_PAYMENT_METHOD = ''BillingDeletePaymentMethod''"
| "action_name Action.BILLING_CHARGE_INVOICE = ''BillingChargeInvoice''"
| "action_name Action.CHECK_CONNECTION = ''CheckConnection''"
| "action_name Action.CLEAR_BILLING_TEST_DATA = ''ClearBillingTestData''"
| "action_name Action.RETRIEVE_CONSUMPTION = ''RetrieveConsumption''"
| "action_name Action.READ_CONSUMPTION = ''ReadConsumption''"
| "action_name Action.CREATE_CONSUMPTION = ''CreateConsumption''"
| "action_name Action.PING = ''Ping''"
| "action_name Action.GENERATE_LOCAL_TOKEN = ''GenerateLocalToken''"
| "action_name Action.REGISTER = ''Register''"
| "action_name Action.TRIGGER_JOB = ''TriggerJob''"
| "action_name Action.DOWNLOAD = ''Download''"
| "action_name Action.IMPORT = ''Import''"
| "action_name Action.ASSIGN_USERS_TO_SITE = ''AssignUsers''"
| "action_name Action.UNASSIGN_USERS_FROM_SITE = ''UnassignUsers''"
| "action_name Action.ASSIGN_ASSETS_TO_SITE_AREA = ''AssignAssets''"
| "action_name Action.UNASSIGN_ASSETS_FROM_SITE_AREA = ''UnassignAssets''"
| "action_name Action.READ_ASSETS_FROM_SITE_AREA = ''ReadAssets''"
| "action_name Action.ASSIGN_CHARGING_STATIONS_TO_SITE_AREA = ''AssignChargingStations''"
| "action_name Action.UNASSIGN_CHARGING_STATIONS_FROM_SITE_AREA = ''UnassignChargingStations''"
| "action_name Action.READ_CHARGING_STATIONS_FROM_SITE_AREA = ''ReadChargingStationsFromSiteArea''"
| "action_name Action.EXPORT_OCPP_PARAMS = ''ExportOCPPParams''"
| "action_name Action.GENERATE_QR = ''GenerateQrCode''"
| "action_name Action.MAINTAIN_PRICING_DEFINITIONS = ''MaintainPricingDefinitions''"

section \<open>Grants\<close>

text \<open>
  A value of the context: \<^verbatim>\<open>undefined\<close>, \<^verbatim>\<open>null\<close>, a string or a list of strings. The conditions of
  role-acl compare a value of the context with a constant or with another field (\<^verbatim>\<open>$.field\<close>); the
  condition \<^verbatim>\<open>custom:dynamicAuthorizations\<close> carries the filters and assertions that the caller has to
  process. In the list of filters every entry is one name or a list of alternatives.
\<close>

datatype ctx_value = Undefined | Null | Str string | Strs "string list"

datatype operand = Const ctx_value | Field string

datatype name_group = One string | AnyOf "string list"

type_synonym metadata = "(string \<times> (string \<times> bool) list) list"

datatype condition =
    Equals_Fn string operand
  | List_Contains_Fn string operand
  | Or_Fn "condition list"
  | Dynamic "name_group list option" "name_group list option" "metadata option"

datatype grant = Grant (g_resource: Entity) (g_actions: "Action list") (g_condition: "condition option") (g_attributes: "string list option")

record role_definition =
  rd_extends :: "string list"
  rd_grants :: "grant list"

section \<open>Contexts and results\<close>

text \<open>\<open>ax_filters\<close> and the others are \<open>None\<close> while the property is \<^verbatim>\<open>undefined\<close>.\<close>

record auth_context =
  ax_value :: "string \<Rightarrow> ctx_value"
  ax_filters :: "name_group list option"
  ax_filtersSet :: bool
  ax_asserts :: "name_group list option"
  ax_assertsSet :: bool
  ax_metadata :: "metadata option"
  ax_metadataSet :: bool

record permission =
  pm_granted :: bool
  pm_attributes :: "string list"

record auth_result =
  ar_authorized :: bool
  ar_fields :: "string list"
  ar_context :: auth_context

definition no_context :: auth_context where
  "no_context = \<lparr> ax_value = (\<lambda>_. Undefined), ax_filters = None, ax_filtersSet = False, ax_asserts = None,
     ax_assertsSet = False, ax_metadata = None, ax_metadataSet = False \<rparr>"

end
