(* ===== verification/Access_Table.thy ===== *)
theory Access_Table
  imports Access_Types
begin

text \<open>
  The table of grants and the custom condition of src/authorization/AuthorizationsDefinition.ts,
  grant by grant in the order of the source. The grants of a role are in several lists.
\<close>

section \<open>The grants of each role\<close>

definition superAdmin_grants_1 :: "grant list" where
  "superAdmin_grants_1 = [
    Grant Entity.USER [Action.LIST] (Some (Dynamic (Some []) (Some []) (Some [(''status'', [(''visible'', True),
      (''mandatory'', True)])]))) (Some [''id'', ''name'', ''firstName'', ''email'', ''role'', ''status'', ''issuer'',
      ''createdOn'', ''createdBy'', ''lastChangedOn'', ''lastChangedBy'', ''eulaAcceptedOn'', ''eulaAcceptedVersion'',
      ''locale'', ''billingData.customerID'', ''billingData.lastChangedOn'']),
    Grant Entity.USER [Action.DELETE] (Some (Dynamic (Some [One ''-OwnUser'', One ''LocalIssuer'']) (Some []) None)) None,
    Grant Entity.USER [Action.READ, Action.CREATE] None (Some [''id'', ''name'', ''firstName'', ''email'', ''role'',
      ''status'', ''issuer'', ''locale'', ''plateID'', ''notificationsActive'', ''notifications'', ''phone'', ''mobile'',
      ''iNumber'', ''costCenter'', ''address'']),
    Grant Entity.USER [Action.UPDATE] (Some (Dynamic (Some [One ''LocalIssuer'']) (Some []) None)) (Some [''id'', ''name'',
      ''firstName'', ''email'', ''role'', ''status'', ''issuer'', ''locale'', ''plateID'', ''notificationsActive'',
      ''notifications'', ''phone'', ''mobile'', ''iNumber'', ''costCenter'', ''address'']),
    Grant Entity.LOGGING [Action.LIST, Action.EXPORT] None (Some [''id'', ''level'', ''timestamp'', ''type'', ''source'',
      ''host'', ''action'', ''message'', ''chargingStationID'', ''siteID'', ''user.name'', ''user.firstName'',
      ''actionOnUser.name'', ''actionOnUser.firstName'', ''hasDetailedMessages'', ''method'', ''module'']),
    Grant Entity.LOGGING [Action.READ] None (Some [''id'', ''level'', ''timestamp'', ''type'', ''source'', ''host'',
      ''action'', ''message'', ''chargingStationID'', ''siteID'', ''user.name'', ''user.firstName'', ''actionOnUser.name'',
      ''actionOnUser.firstName'', ''hasDetailedMessages'', ''detailedMessages'']),
    Grant Entity.TENANT [Action.LIST] None None,
    Grant Entity.TENANT [Action.CREATE, Action.READ, Action.UPDATE, Action.DELETE] None None,
    Grant Entity.CAR_CATALOG [Action.LIST] None (Some [''id'', ''vehicleModel'', ''vehicleMake'', ''vehicleModelVersion'',
      ''batteryCapacityFull'', ''fastchargeChargeSpeed'', ''performanceTopspeed'', ''performanceAcceleration'', ''rangeWLTP'',
      ''rangeReal'', ''efficiencyReal'', ''image'', ''chargeStandardPower'', ''chargeStandardPhase'',
      ''chargeStandardPhaseAmp'', ''chargeAlternativePower'', ''chargeOptionPower'', ''chargeOptionPhaseAmp'',
      ''chargeOptionPhase'', ''chargeAlternativePhaseAmp'', ''chargeAlternativePhase'', ''chargePlug'', ''fastChargePlug'',
      ''fastChargePowerMax'', ''drivetrainPowerHP'']),
    Grant Entity.CAR_CATALOG [Action.SYNCHRONIZE] None None,
    Grant Entity.CAR_CATALOG [Action.READ] None (Some [''id'', ''vehicleModel'', ''vehicleMake'', ''vehicleModelVersion'',
      ''batteryCapacityFull'', ''fastchargeChargeSpeed'', ''performanceTopspeed'', ''performanceAcceleration'', ''rangeWLTP'',
      ''rangeReal'', ''efficiencyReal'', ''drivetrainPropulsion'', ''drivetrainTorque'', ''batteryCapacityUseable'',
      ''chargePlug'', ''fastChargePlug'', ''fastChargePowerMax'', ''chargePlugLocation'', ''drivetrainPowerHP'',
      ''chargeStandardChargeSpeed'', ''chargeStandardChargeTime'', ''miscSeats'', ''miscBody'', ''miscIsofix'',
      ''miscTurningCircle'', ''miscSegment'', ''miscIsofixSeats'', ''chargeStandardPower'', ''chargeStandardPhase'',
      ''chargeAlternativePower'', ''hash'', ''chargeAlternativePhase'', ''chargeOptionPower'', ''chargeOptionPhase'',
      ''image'', ''chargeOptionPhaseAmp'', ''chargeAlternativePhaseAmp''])]"

definition admin_grants_1 :: "grant list" where
  "admin_grants_1 = [
    Grant Entity.USER [Action.LIST, Action.EXPORT, Action.IMPORT] (Some (Dynamic (Some []) (Some []) (Some [(''status'',
      [(''visible'', True), (''mandatory'', True)])]))) (Some [''id'', ''name'', ''firstName'', ''email'', ''role'',
      ''status'', ''issuer'', ''createdOn'', ''createdBy'', ''lastChangedOn'', ''lastChangedBy'', ''eulaAcceptedOn'',
      ''eulaAcceptedVersion'', ''locale'', ''billingData.customerID'', ''billingData.lastChangedOn'', ''technical'',
      ''freeAccess'']),
    Grant Entity.USER [Action.IN_ERROR] None (Some [''id'', ''name'', ''firstName'', ''email'', ''role'', ''status'',
      ''issuer'', ''createdOn'', ''lastChangedOn'', ''errorCodeDetails'', ''errorCode'']),
    Grant Entity.USER [Action.SYNCHRONIZE_BILLING_USER] None None,
    Grant Entity.USER [Action.DELETE] (Some (Dynamic (Some [One ''-OwnUser'', One ''LocalIssuer'']) (Some []) None)) None,
    Grant Entity.USER [Action.READ, Action.CREATE] None (Some [''id'', ''name'', ''firstName'', ''email'', ''role'',
      ''status'', ''issuer'', ''locale'', ''plateID'', ''notificationsActive'', ''notifications'', ''phone'', ''mobile'',
      ''iNumber'', ''costCenter'', ''address'', ''technical'', ''freeAccess'']),
    Grant Entity.USER [Action.UPDATE] (Some (Dynamic (Some [One ''LocalIssuer'']) (Some []) None)) (Some [''id'', ''name'',
      ''firstName'', ''email'', ''role'', ''status'', ''issuer'', ''locale'', ''plateID'', ''notificationsActive'',
      ''notifications'', ''phone'', ''mobile'', ''iNumber'', ''costCenter'', ''address'', ''technical'', ''freeAccess'']),
    Grant Entity.COMPANY [Action.LIST] None (Some [''id'', ''name'', ''address.address1'', ''address.address2'',
      ''address.postalCode'', ''address.city'', ''address.country'', ''address.coordinates'', ''logo'', ''issuer'',
      ''distanceMeters'', ''createdOn'', ''lastChangedOn'', ''createdBy.name'', ''createdBy.firstName'',
      ''lastChangedBy.name'', ''lastChangedBy.firstName'']),
    Grant Entity.TAG [Action.LIST] None (Some [''id'', ''userID'', ''active'', ''ocpiToken'', ''description'', ''visualID'',
      ''issuer'', ''default'', ''user.name'', ''user.firstName'', ''user.email'', ''createdOn'', ''lastChangedOn'']),
    Grant Entity.TAG [Action.IMPORT, Action.EXPORT] None None,
    Grant Entity.TAG [Action.READ] (Some (Dynamic (Some []) (Some []) None)) (Some [''id'', ''userID'', ''issuer'', ''active'',
      ''description'', ''visualID'', ''default'', ''user.id'', ''user.name'', ''user.firstName'', ''user.email'']),
    Grant Entity.TAG [Action.UPDATE, Action.DELETE] (Some (Dynamic (Some [One ''LocalIssuer'']) (Some []) None)) None,
    Grant Entity.TAG [Action.CREATE] None None,
    Grant Entity.CHARGING_PROFILE [Action.LIST] None None,
    Grant Entity.CHARGING_PROFILE [Action.READ] None None,
    Grant Entity.COMPANY [Action.READ] None (Some [''id'', ''name'', ''issuer'', ''logo'', ''address'']),
    Grant Entity.COMPANY [Action.CREATE, Action.UPDATE,
      Action.DELETE] (Some (Dynamic (Some [One ''LocalIssuer'']) (Some []) None)) None,
    Grant Entity.SITE [Action.LIST] None (Some [''id'', ''name'', ''address.address1'', ''address.address2'',
      ''address.postalCode'', ''address.city'', ''address.country'', ''address.coordinates'', ''companyID'', ''company.name'',
      ''autoUserSiteAssignment'', ''issuer'', ''autoUserSiteAssignment'', ''distanceMeters'', ''public'', ''createdOn'',
      ''lastChangedOn'', ''createdBy.name'', ''createdBy.firstName'', ''lastChangedBy.name'', ''lastChangedBy.firstName'']),
    Grant Entity.SITE [Action.READ] None (Some [''id'', ''name'', ''address'', ''companyID'', ''company.name'',
      ''autoUserSiteAssignment'', ''issuer'', ''autoUserSiteAssignment'', ''distanceMeters'', ''public'', ''createdOn'',
      ''lastChangedOn'', ''tariffID''])]"

definition admin_grants_2 :: "grant list" where
  "admin_grants_2 = [
    Grant Entity.SITE [Action.CREATE, Action.UPDATE, Action.DELETE, Action.EXPORT_OCPP_PARAMS, Action.GENERATE_QR,
      Action.MAINTAIN_PRICING_DEFINITIONS] (Some (Dynamic (Some [One ''LocalIssuer'']) (Some []) None)) None,
    Grant Entity.USERS_SITES [Action.LIST] None (Some [''user.id'', ''user.name'', ''user.firstName'', ''user.email'',
      ''user.role'', ''siteAdmin'', ''siteOwner'', ''siteID'']),
    Grant Entity.USERS_SITES [Action.ASSIGN, Action.UNASSIGN,
      Action.READ] (Some (Dynamic (Some [One ''LocalIssuer'']) (Some []) None)) None,
    Grant Entity.SITE_AREA [Action.LIST] None (Some [''id'', ''name'', ''siteID'', ''maximumPower'', ''voltage'',
      ''numberOfPhases'', ''accessControl'', ''smartCharging'', ''address.address1'', ''address.address2'',
      ''address.postalCode'', ''address.city'', ''address.country'', ''address.coordinates'', ''site.id'', ''site.name'',
      ''site.public'', ''issuer'', ''distanceMeters'', ''createdOn'', ''createdBy'', ''lastChangedOn'', ''lastChangedBy'']),
    Grant Entity.SITE_AREA [Action.READ, Action.READ_CHARGING_STATIONS_FROM_SITE_AREA] None (Some [''id'', ''name'',
      ''issuer'', ''image'', ''address'', ''maximumPower'', ''numberOfPhases'', ''voltage'', ''smartCharging'',
      ''accessControl'', ''connectorStats'', ''siteID'', ''site.name'', ''site.public'', ''tariffID'']),
    Grant Entity.SITE_AREA [Action.CREATE, Action.UPDATE, Action.DELETE, Action.ASSIGN_ASSETS_TO_SITE_AREA,
      Action.UNASSIGN_ASSETS_FROM_SITE_AREA, Action.ASSIGN_CHARGING_STATIONS_TO_SITE_AREA,
      Action.UNASSIGN_CHARGING_STATIONS_FROM_SITE_AREA, Action.EXPORT_OCPP_PARAMS, Action.GENERATE_QR,
      Action.READ_ASSETS_FROM_SITE_AREA] (Some (Dynamic (Some [One ''LocalIssuer'']) (Some []) None)) None,
    Grant Entity.CHARGING_STATION [Action.LIST, Action.IN_ERROR] None (Some [''id'', ''inactive'', ''public'',
      ''chargingStationURL'', ''issuer'', ''maximumPower'', ''masterSlave'', ''excludeFromSmartCharging'', ''lastReboot'',
      ''siteAreaID'', ''siteArea.id'', ''siteArea.name'', ''siteArea.smartCharging'', ''siteArea.siteID'', ''site.id'',
      ''site.name'', ''siteID'', ''voltage'', ''coordinates'', ''forceInactive'', ''manualConfiguration'',
      ''firmwareUpdateStatus'', ''capabilities'', ''endpoint'', ''chargePointVendor'', ''chargePointModel'', ''ocppVersion'',
      ''ocppProtocol'', ''lastSeen'', ''firmwareVersion'', ''currentIPAddress'', ''ocppStandardParameters'',
      ''ocppVendorParameters'', ''connectors'', ''chargePoints'', ''createdOn'', ''chargeBoxSerialNumber'',
      ''chargePointSerialNumber'', ''powerLimitUnit'']),
    Grant Entity.CHARGING_STATION [Action.CREATE, Action.READ, Action.UPDATE, Action.DELETE, Action.RESET, Action.CLEAR_CACHE,
      Action.GET_CONFIGURATION, Action.CHANGE_CONFIGURATION, Action.REMOTE_START_TRANSACTION, Action.REMOTE_STOP_TRANSACTION,
      Action.STOP_TRANSACTION, Action.START_TRANSACTION, Action.UNLOCK_CONNECTOR, Action.AUTHORIZE,
      Action.SET_CHARGING_PROFILE, Action.GET_COMPOSITE_SCHEDULE, Action.CLEAR_CHARGING_PROFILE, Action.GET_DIAGNOSTICS,
      Action.UPDATE_FIRMWARE, Action.EXPORT, Action.CHANGE_AVAILABILITY, Action.TRIGGER_DATA_TRANSFER] None None,
    Grant Entity.TRANSACTION [Action.LIST, Action.EXPORT, Action.IN_ERROR] None None,
    Grant Entity.TRANSACTION [Action.READ, Action.UPDATE, Action.DELETE, Action.REFUND_TRANSACTION] None None,
    Grant Entity.REPORT [Action.READ] None None,
    Grant Entity.LOGGING [Action.LIST, Action.EXPORT] None (Some [''id'', ''level'', ''timestamp'', ''type'', ''source'',
      ''host'', ''action'', ''message'', ''chargingStationID'', ''siteID'', ''user.name'', ''user.firstName'',
      ''actionOnUser.name'', ''actionOnUser.firstName'', ''hasDetailedMessages'', ''method'', ''module'']),
    Grant Entity.LOGGING [Action.READ] None (Some [''id'', ''level'', ''timestamp'', ''type'', ''source'', ''host'',
      ''action'', ''message'', ''chargingStationID'', ''siteID'', ''user.name'', ''user.firstName'', ''actionOnUser.name'',
      ''actionOnUser.firstName'', ''hasDetailedMessages'', ''detailedMessages'']),
    Grant Entity.PRICING [Action.READ, Action.UPDATE] None None,
    Grant Entity.PRICING_DEFINITION [Action.LIST] None (Some [''id'', ''entityID'', ''entityType'', ''name'', ''description'',
      ''entityName'', ''staticRestrictions.validFrom'', ''staticRestrictions.validTo'', ''staticRestrictions.connectorType'',
      ''staticRestrictions.connectorPowerkW'', ''restrictions.daysOfWeek'', ''restrictions.timeFrom'', ''restrictions.timeTo'',
      ''restrictions.minEnergyKWh'', ''restrictions.maxEnergyKWh'', ''restrictions.minDurationSecs'',
      ''restrictions.maxDurationSecs'', ''dimensions.flatFee.active'', ''dimensions.flatFee.price'',
      ''dimensions.flatFee.stepSize'', ''dimensions.flatFee.pricedData'', ''dimensions.energy.active'',
      ''dimensions.energy.price'', ''dimensions.energy.stepSize'', ''dimensions.energy.pricedData'',
      ''dimensions.chargingTime.active'', ''dimensions.chargingTime.price'', ''dimensions.chargingTime.stepSize'',
      ''dimensions.chargingTime.pricedData'', ''dimensions.parkingTime.active'', ''dimensions.parkingTime.price'',
      ''dimensions.parkingTime.stepSize'', ''dimensions.parkingTime.pricedData'']),
    Grant Entity.PRICING_DEFINITION [Action.CREATE, Action.READ, Action.UPDATE, Action.DELETE] None (Some [''id'',
      ''entityID'', ''entityType'', ''name'', ''description'', ''entityName'', ''staticRestrictions.validFrom'',
      ''staticRestrictions.validTo'', ''staticRestrictions.connectorType'', ''staticRestrictions.connectorPowerkW'',
      ''restrictions.daysOfWeek'', ''restrictions.timeFrom'', ''restrictions.timeTo'', ''restrictions.minEnergyKWh'',
      ''restrictions.maxEnergyKWh'', ''restrictions.minDurationSecs'', ''restrictions.maxDurationSecs'',
      ''dimensions.flatFee.active'', ''dimensions.flatFee.price'', ''dimensions.flatFee.stepSize'',
      ''dimensions.flatFee.pricedData'', ''dimensions.energy.active'', ''dimensions.energy.price'',
      ''dimensions.energy.stepSize'', ''dimensions.energy.pricedData'', ''dimensions.chargingTime.active'',
      ''dimensions.chargingTime.price'', ''dimensions.chargingTime.stepSize'', ''dimensions.chargingTime.pricedData'',
      ''dimensions.parkingTime.active'', ''dimensions.parkingTime.price'', ''dimensions.parkingTime.stepSize'',
      ''dimensions.parkingTime.pricedData'']),
    Grant Entity.BILLING [Action.CHECK_CONNECTION, Action.CLEAR_BILLING_TEST_DATA] None None,
    Grant Entity.TAX [Action.LIST] None None,
    Grant Entity.INVOICE [Action.LIST] None None]"

definition admin_grants_3 :: "grant list" where
  "admin_grants_3 = [
    Grant Entity.INVOICE [Action.DOWNLOAD, Action.READ] None None,
    Grant Entity.ASSET [Action.CREATE, Action.READ, Action.CHECK_CONNECTION, Action.CREATE_CONSUMPTION] None None,
    Grant Entity.ASSET [Action.READ_CONSUMPTION] (Some (Dynamic (Some []) (Some []) None)) (Some [''id'', ''name'',
      ''siteAreaID'', ''siteArea.id'', ''siteArea.name'', ''siteArea.siteID'', ''siteID'', ''assetType'', ''coordinates'',
      ''dynamicAsset'', ''usesPushAPI'', ''connectionID'', ''meterID'', ''currentInstantWatts'', ''currentStateOfCharge'',
      ''issuer'', ''startedAt'', ''instantWatts'', ''instantAmps'', ''limitWatts'', ''limitAmps'', ''endedAt'',
      ''stateOfCharge'']),
    Grant Entity.ASSET [Action.RETRIEVE_CONSUMPTION] (Some (Dynamic (Some []) (Some []) None)) None,
    Grant Entity.ASSET [Action.UPDATE, Action.DELETE] (Some (Dynamic (Some [One ''LocalIssuer'']) (Some []) None)) None,
    Grant Entity.ASSET [Action.LIST] None (Some [''id'', ''name'', ''siteAreaID'', ''siteArea.id'', ''siteArea.name'',
      ''siteArea.siteID'', ''siteID'', ''assetType'', ''coordinates'', ''dynamicAsset'', ''usesPushAPI'', ''connectionID'',
      ''meterID'', ''currentInstantWatts'', ''currentStateOfCharge'', ''issuer'', ''site.id'', ''site.name'']),
    Grant Entity.ASSET [Action.IN_ERROR] None (Some [''id'', ''name'', ''errorCodeDetails'', ''errorCode'']),
    Grant Entity.SETTING [Action.LIST] None None,
    Grant Entity.SETTING [Action.CREATE, Action.READ, Action.UPDATE, Action.DELETE] None None,
    Grant Entity.REGISTRATION_TOKEN [Action.LIST] None (Some [''id'', ''status'', ''description'', ''createdOn'',
      ''lastChangedOn'', ''expirationDate'', ''revocationDate'', ''siteAreaID'', ''siteArea.name'', ''createdBy.name'',
      ''createdBy.firstName'', ''lastChangedBy.name'', ''lastChangedBy.firstName'']),
    Grant Entity.REGISTRATION_TOKEN [Action.READ, Action.CREATE, Action.UPDATE] None (Some [''id'', ''status'',
      ''description'', ''createdOn'', ''lastChangedOn'', ''expirationDate'', ''revocationDate'', ''siteAreaID'',
      ''siteArea.name'', ''createdBy.name'', ''createdBy.firstName'', ''lastChangedBy.name'', ''lastChangedBy.firstName'']),
    Grant Entity.REGISTRATION_TOKEN [Action.DELETE, Action.REVOKE] None None,
    Grant Entity.OCPI_ENDPOINT [Action.LIST] None None,
    Grant Entity.OCPI_ENDPOINT [Action.CREATE, Action.READ, Action.UPDATE, Action.DELETE, Action.PING,
      Action.GENERATE_LOCAL_TOKEN, Action.REGISTER, Action.TRIGGER_JOB] None None,
    Grant Entity.OICP_ENDPOINT [Action.LIST] None None,
    Grant Entity.OICP_ENDPOINT [Action.CREATE, Action.READ, Action.UPDATE, Action.DELETE, Action.PING, Action.REGISTER,
      Action.TRIGGER_JOB] None None,
    Grant Entity.CONNECTION [Action.LIST] None None,
    Grant Entity.CONNECTION [Action.CREATE, Action.READ, Action.DELETE] None None,
    Grant Entity.CAR_CATALOG [Action.LIST] None (Some [''id'', ''vehicleModel'', ''vehicleMake'', ''vehicleModelVersion'',
      ''batteryCapacityFull'', ''fastchargeChargeSpeed'', ''performanceTopspeed'', ''performanceAcceleration'', ''rangeWLTP'',
      ''rangeReal'', ''efficiencyReal'', ''image'', ''chargeStandardPower'', ''chargeStandardPhase'',
      ''chargeStandardPhaseAmp'', ''chargeAlternativePower'', ''chargeOptionPower'', ''chargeOptionPhaseAmp'',
      ''chargeOptionPhase'', ''chargeAlternativePhaseAmp'', ''chargeAlternativePhase'', ''chargePlug'', ''fastChargePlug'',
      ''fastChargePowerMax'', ''drivetrainPowerHP'']),
    Grant Entity.CAR_CATALOG [Action.READ] None (Some [''id'', ''vehicleModel'', ''vehicleMake'', ''vehicleModelVersion'',
      ''batteryCapacityFull'', ''fastchargeChargeSpeed'', ''performanceTopspeed'', ''performanceAcceleration'', ''rangeWLTP'',
      ''rangeReal'', ''efficiencyReal'', ''drivetrainPropulsion'', ''drivetrainTorque'', ''batteryCapacityUseable'',
      ''chargePlug'', ''fastChargePlug'', ''fastChargePowerMax'', ''chargePlugLocation'', ''drivetrainPowerHP'',
      ''chargeStandardChargeSpeed'', ''chargeStandardChargeTime'', ''miscSeats'', ''miscBody'', ''miscIsofix'',
      ''miscTurningCircle'', ''miscSegment'', ''miscIsofixSeats'', ''chargeStandardPower'', ''chargeStandardPhase'',
      ''chargeAlternativePower'', ''hash'', ''chargeAlternativePhase'', ''chargeOptionPower'', ''chargeOptionPhase'',
      ''image'', ''chargeOptionPhaseAmp'', ''chargeAlternativePhaseAmp'']),
    Grant Entity.CAR [Action.CREATE, Action.UPDATE, Action.DELETE] None None,
    Grant Entity.CAR [Action.READ] None (Some [''id'', ''type'', ''vin'', ''licensePlate'', ''converter'', ''default'',
      ''createdOn'', ''lastChangedOn'', ''carCatalogID'', ''carCatalog.vehicleMake'', ''carCatalog.vehicleModel'',
      ''carCatalog.vehicleModelVersion'', ''carCatalog.image'', ''carCatalog.chargeStandardPower'',
      ''carCatalog.chargeStandardPhaseAmp'', ''carCatalog.chargeStandardPhase'', ''carCatalog.chargeAlternativePower'',
      ''carCatalog.chargeAlternativePhaseAmp'', ''carCatalog.chargeAlternativePhase'', ''carCatalog.chargeOptionPower'',
      ''carCatalog.chargeOptionPhaseAmp'', ''carCatalog.chargeOptionPhase'', ''user.id'', ''user.name'', ''user.firstName'',
      ''userID'', ''carConnectorData.carConnectorID'', ''carConnectorData.carConnectorMeterID'']),
    Grant Entity.CAR [Action.LIST] None (Some [''id'', ''type'', ''vin'', ''licensePlate'', ''converter'', ''default'',
      ''createdOn'', ''lastChangedOn'', ''carCatalog.id'', ''carCatalog.vehicleMake'', ''carCatalog.vehicleModel'',
      ''carCatalog.vehicleModelVersion'', ''carCatalog.image'', ''carCatalog.fastChargePowerMax'',
      ''carCatalog.batteryCapacityFull'', ''createdBy.name'', ''createdBy.firstName'', ''lastChangedBy.name'',
      ''lastChangedBy.firstName'', ''user.id'', ''user.name'', ''user.firstName'', ''userID'']),
    Grant Entity.NOTIFICATION [Action.CREATE] None None,
    Grant Entity.PAYMENT_METHOD [Action.LIST] None None,
    Grant Entity.PAYMENT_METHOD [Action.READ, Action.CREATE, Action.DELETE] None None,
    Grant Entity.SOURCE [Action.LIST] None None]"

definition basic_grants_1 :: "grant list" where
  "basic_grants_1 = [
    Grant Entity.USER [Action.READ] (Some (Dynamic (Some [One ''OwnUser'']) (Some []) None)) (Some [''id'', ''name'',
      ''firstName'', ''email'', ''role'', ''issuer'', ''locale'', ''notificationsActive'', ''notifications'', ''phone'',
      ''mobile'', ''iNumber'', ''costCenter'', ''address'']),
    Grant Entity.USER [Action.UPDATE] (Some (Dynamic (Some [One ''OwnUser'']) (Some [One ''BasicUser'']) None)) (Some [''id'',
      ''name'', ''firstName'', ''email'', ''role'', ''issuer'', ''locale'', ''notificationsActive'', ''notifications'',
      ''phone'', ''mobile'', ''iNumber'', ''costCenter'', ''address'']),
    Grant Entity.SETTING [Action.READ] None None,
    Grant Entity.CAR_CATALOG [Action.LIST] None (Some [''id'', ''vehicleModel'', ''vehicleMake'', ''vehicleModelVersion'',
      ''batteryCapacityFull'', ''fastchargeChargeSpeed'', ''performanceTopspeed'', ''performanceAcceleration'', ''rangeWLTP'',
      ''rangeReal'', ''efficiencyReal'', ''image'', ''chargeStandardPower'', ''chargeStandardPhase'',
      ''chargeStandardPhaseAmp'', ''chargeAlternativePower'', ''chargeOptionPower'', ''chargeOptionPhaseAmp'',
      ''chargeOptionPhase'', ''chargeAlternativePhaseAmp'', ''chargeAlternativePhase'', ''chargePlug'', ''fastChargePlug'',
      ''fastChargePowerMax'', ''drivetrainPowerHP'']),
    Grant Entity.CAR_CATALOG [Action.READ] None (Some [''id'', ''vehicleModel'', ''vehicleMake'', ''vehicleModelVersion'',
      ''batteryCapacityFull'', ''fastchargeChargeSpeed'', ''performanceTopspeed'', ''performanceAcceleration'', ''rangeWLTP'',
      ''rangeReal'', ''efficiencyReal'', ''drivetrainPropulsion'', ''drivetrainTorque'', ''batteryCapacityUseable'',
      ''chargePlug'', ''fastChargePlug'', ''fastChargePowerMax'', ''chargePlugLocation'', ''drivetrainPowerHP'',
      ''chargeStandardChargeSpeed'', ''chargeStandardChargeTime'', ''miscSeats'', ''miscBody'', ''miscIsofix'',
      ''miscTurningCircle'', ''miscSegment'', ''miscIsofixSeats'', ''chargeStandardPower'', ''chargeStandardPhase'',
      ''chargeAlternativePower'', ''hash'', ''chargeAlternativePhase'', ''chargeOptionPower'', ''chargeOptionPhase'',
      ''image'', ''chargeOptionPhaseAmp'', ''chargeAlternativePhaseAmp'']),
    Grant Entity.CAR [Action.LIST] (Some (Dynamic (Some [One ''OwnUser'']) (Some []) None)) (Some [''id'', ''type'', ''vin'',
      ''licensePlate'', ''converter'', ''default'', ''createdOn'', ''lastChangedOn'', ''carCatalog.id'',
      ''carCatalog.vehicleMake'', ''carCatalog.vehicleModel'', ''carCatalog.vehicleModelVersion'', ''carCatalog.image'',
      ''carCatalog.fastChargePowerMax'', ''carCatalog.batteryCapacityFull'', ''createdBy.name'', ''createdBy.firstName'',
      ''lastChangedBy.name'', ''lastChangedBy.firstName'', ''user.id'', ''user.name'', ''user.firstName'', ''userID'']),
    Grant Entity.CAR [Action.CREATE, Action.UPDATE] (Some (Dynamic (Some [One ''OwnUser'']) (Some [One ''-PoolCar'',
      One ''OwnUser'']) None)) None,
    Grant Entity.CAR [Action.READ] (Some (Dynamic (Some [One ''OwnUser'']) (Some []) None)) (Some [''id'', ''type'', ''vin'',
      ''licensePlate'', ''converter'', ''default'', ''createdOn'', ''lastChangedOn'', ''carCatalogID'',
      ''carCatalog.vehicleMake'', ''carCatalog.vehicleModel'', ''carCatalog.vehicleModelVersion'', ''carCatalog.image'',
      ''carCatalog.chargeStandardPower'', ''carCatalog.chargeStandardPhaseAmp'', ''carCatalog.chargeStandardPhase'',
      ''carCatalog.chargeAlternativePower'', ''carCatalog.chargeAlternativePhaseAmp'', ''carCatalog.chargeAlternativePhase'',
      ''carCatalog.chargeOptionPower'', ''carCatalog.chargeOptionPhaseAmp'', ''carCatalog.chargeOptionPhase'', ''user.id'',
      ''user.name'', ''user.firstName'', ''userID'', ''carConnectorData.carConnectorID'',
      ''carConnectorData.carConnectorMeterID'']),
    Grant Entity.CAR [Action.DELETE] (Some (Dynamic (Some [One ''OwnUser'']) (Some []) None)) None,
    Grant Entity.COMPANY [Action.LIST] (Some (Dynamic (Some [One ''AssignedSitesCompanies'',
      One ''LocalIssuer'']) (Some []) None)) (Some [''id'', ''name'', ''address.address1'', ''address.address2'',
      ''address.postalCode'', ''address.city'', ''address.country'', ''address.coordinates'', ''logo'', ''issuer'',
      ''distanceMeters'', ''createdOn'', ''lastChangedOn'']),
    Grant Entity.COMPANY [Action.READ] (Some (Dynamic (Some [One ''AssignedSitesCompanies'',
      One ''LocalIssuer'']) (Some []) None)) (Some [''id'', ''name'', ''issuer'', ''logo'', ''address'']),
    Grant Entity.INVOICE [Action.LIST] None None]"

definition basic_grants_2 :: "grant list" where
  "basic_grants_2 = [
    Grant Entity.INVOICE [Action.DOWNLOAD, Action.READ] (Some (Dynamic (Some [One ''OwnUser'']) (Some []) None)) None,
    Grant Entity.PAYMENT_METHOD [Action.LIST] None None,
    Grant Entity.PAYMENT_METHOD [Action.READ, Action.CREATE, Action.DELETE] None None,
    Grant Entity.SITE [Action.LIST] (Some (Dynamic (Some [One ''AssignedSites'',
      One ''LocalIssuer'']) (Some []) None)) (Some [''id'', ''name'', ''address.address1'', ''address.address2'',
      ''address.postalCode'', ''address.city'', ''address.country'', ''address.coordinates'', ''companyID'', ''company.name'',
      ''autoUserSiteAssignment'', ''issuer'', ''autoUserSiteAssignment'', ''distanceMeters'', ''public'', ''createdOn'',
      ''lastChangedOn'']),
    Grant Entity.SITE [Action.READ] (Some (Dynamic (Some [One ''AssignedSites'',
      One ''LocalIssuer'']) (Some []) None)) (Some [''id'', ''name'', ''address'', ''companyID'', ''company.name'',
      ''autoUserSiteAssignment'', ''issuer'', ''autoUserSiteAssignment'', ''distanceMeters'', ''public'', ''createdOn'',
      ''lastChangedOn'']),
    Grant Entity.SITE_AREA [Action.LIST] (Some (Dynamic (Some [One ''AssignedSites'']) (Some []) None)) (Some [''id'',
      ''name'', ''siteID'', ''maximumPower'', ''voltage'', ''numberOfPhases'', ''accessControl'', ''smartCharging'',
      ''address.address1'', ''address.address2'', ''address.postalCode'', ''address.city'', ''address.country'',
      ''address.coordinates'', ''site.id'', ''site.name'', ''issuer'', ''distanceMeters'', ''createdOn'', ''lastChangedOn'']),
    Grant Entity.SITE_AREA [Action.READ,
      Action.READ_CHARGING_STATIONS_FROM_SITE_AREA] (Some (Dynamic (Some [One ''AssignedSites'']) (Some []) None)) (Some [''id'',
      ''name'', ''issuer'', ''image'', ''address'', ''maximumPower'', ''numberOfPhases'', ''voltage'', ''smartCharging'',
      ''accessControl'', ''connectorStats'', ''siteID'', ''site.name'']),
    Grant Entity.CHARGING_STATION [Action.LIST] None (Some [''id'', ''inactive'', ''public'', ''chargingStationURL'',
      ''issuer'', ''maximumPower'', ''masterSlave'', ''excludeFromSmartCharging'', ''lastReboot'', ''siteAreaID'',
      ''siteArea.id'', ''siteArea.name'', ''siteArea.smartCharging'', ''siteArea.siteID'', ''site.id'', ''site.name'',
      ''siteID'', ''voltage'', ''coordinates'', ''forceInactive'', ''manualConfiguration'', ''firmwareUpdateStatus'',
      ''capabilities'', ''endpoint'', ''chargePointVendor'', ''chargePointModel'', ''ocppVersion'', ''ocppProtocol'',
      ''lastSeen'', ''firmwareVersion'', ''currentIPAddress'', ''ocppStandardParameters'', ''ocppVendorParameters'',
      ''connectors'', ''chargePoints'', ''createdOn'', ''chargeBoxSerialNumber'', ''chargePointSerialNumber'',
      ''powerLimitUnit'']),
    Grant Entity.CHARGING_STATION [Action.READ] None None,
    Grant Entity.CHARGING_STATION [Action.REMOTE_START_TRANSACTION, Action.AUTHORIZE,
      Action.START_TRANSACTION] (Some (Or_Fn [Equals_Fn ''site'' (Const Null),
      List_Contains_Fn ''sites'' (Field ''site'')])) None,
    Grant Entity.CHARGING_STATION [Action.REMOTE_STOP_TRANSACTION,
      Action.STOP_TRANSACTION] (Some (Dynamic (Some [One ''AssignedSites'', One ''LocalIssuer'']) (Some []) None)) None,
    Grant Entity.TAG [Action.LIST] (Some (Dynamic (Some [One ''OwnUser'']) (Some []) None)) (Some [''userID'', ''active'',
      ''description'', ''visualID'', ''issuer'', ''default'', ''createdOn'', ''lastChangedOn'']),
    Grant Entity.TAG [Action.READ] (Some (Dynamic (Some [One ''OwnUser'']) (Some []) None)) (Some [''userID'', ''issuer'',
      ''active'', ''description'', ''visualID'', ''default'', ''user.id'', ''user.name'', ''user.firstName'', ''user.email'',
      ''user.issuer''])]"

definition basic_grants_3 :: "grant list" where
  "basic_grants_3 = [
    Grant Entity.TAG [Action.UNASSIGN,
      Action.UPDATE_BY_VISUAL_ID] (Some (Dynamic (Some [One ''OwnUser'']) (Some [One ''OwnUser'']) None)) None,
    Grant Entity.TAG [Action.ASSIGN] (Some (Dynamic (Some [One ''LocalIssuer'']) (Some []) None)) (Some [''userID'',
      ''description'', ''visualID'', ''default'', ''user.name'', ''user.firstName'', ''user.email'', ''createdOn'',
      ''lastChangedOn'']),
    Grant Entity.TRANSACTION [Action.LIST, Action.EXPORT] None None,
    Grant Entity.TRANSACTION [Action.READ, Action.UPDATE] (Some (Or_Fn [Equals_Fn ''user'' (Field ''owner''),
      List_Contains_Fn ''tagIDs'' (Field ''tagID'')])) None,
    Grant Entity.CONNECTION [Action.LIST] None None,
    Grant Entity.CONNECTION [Action.CREATE] None None,
    Grant Entity.CONNECTION [Action.READ, Action.DELETE] (Some (Dynamic (Some [One ''OwnUser'']) (Some []) None)) None,
    Grant Entity.NOTIFICATION [Action.CREATE] None None]"

definition demo_grants_1 :: "grant list" where
  "demo_grants_1 = [
    Grant Entity.USER [Action.READ] (Some (Dynamic (Some [One ''OwnUser'']) (Some []) None)) (Some [''id'', ''name'',
      ''firstName'', ''email'', ''issuer'', ''locale'', ''notificationsActive'', ''notifications'', ''phone'', ''mobile'',
      ''iNumber'', ''costCenter'', ''address'']),
    Grant Entity.ASSET [Action.LIST] None (Some [''id'', ''name'', ''siteAreaID'', ''siteArea.id'', ''siteArea.name'',
      ''siteArea.siteID'', ''siteID'', ''assetType'', ''coordinates'', ''dynamicAsset'', ''connectionID'', ''meterID'',
      ''currentInstantWatts'', ''currentStateOfCharge'', ''site.id'', ''site.name'']),
    Grant Entity.ASSET [Action.READ] None None,
    Grant Entity.ASSET [Action.READ_CONSUMPTION] (Some (Dynamic (Some []) (Some []) None)) (Some [''id'', ''name'',
      ''siteAreaID'', ''siteArea.id'', ''siteArea.name'', ''siteArea.siteID'', ''siteID'', ''assetType'', ''coordinates'',
      ''dynamicAsset'', ''connectionID'', ''meterID'', ''currentInstantWatts'', ''currentStateOfCharge'', ''startedAt'',
      ''instantWatts'', ''instantAmps'', ''limitWatts'', ''limitAmps'', ''endedAt'', ''stateOfCharge'']),
    Grant Entity.SETTING [Action.READ] None None,
    Grant Entity.CAR_CATALOG [Action.LIST] None (Some [''id'', ''vehicleModel'', ''vehicleMake'', ''vehicleModelVersion'',
      ''batteryCapacityFull'', ''fastchargeChargeSpeed'', ''performanceTopspeed'', ''performanceAcceleration'', ''rangeWLTP'',
      ''rangeReal'', ''efficiencyReal'', ''image'', ''chargeStandardPower'', ''chargeStandardPhase'',
      ''chargeStandardPhaseAmp'', ''chargeAlternativePower'', ''chargeOptionPower'', ''chargeOptionPhaseAmp'',
      ''chargeOptionPhase'', ''chargeAlternativePhaseAmp'', ''chargeAlternativePhase'', ''chargePlug'', ''fastChargePlug'',
      ''fastChargePowerMax'', ''drivetrainPowerHP'']),
    Grant Entity.CAR_CATALOG [Action.READ] None (Some [''id'', ''vehicleModel'', ''vehicleMake'', ''vehicleModelVersion'',
      ''batteryCapacityFull'', ''fastchargeChargeSpeed'', ''performanceTopspeed'', ''performanceAcceleration'', ''rangeWLTP'',
      ''rangeReal'', ''efficiencyReal'', ''drivetrainPropulsion'', ''drivetrainTorque'', ''batteryCapacityUseable'',
      ''chargePlug'', ''fastChargePlug'', ''fastChargePowerMax'', ''chargePlugLocation'', ''drivetrainPowerHP'',
      ''chargeStandardChargeSpeed'', ''chargeStandardChargeTime'', ''miscSeats'', ''miscBody'', ''miscIsofix'',
      ''miscTurningCircle'', ''miscSegment'', ''miscIsofixSeats'', ''chargeStandardPower'', ''chargeStandardPhase'',
      ''chargeAlternativePower'', ''hash'', ''chargeAlternativePhase'', ''chargeOptionPower'', ''chargeOptionPhase'',
      ''image'', ''chargeOptionPhaseAmp'', ''chargeAlternativePhaseAmp'']),
    Grant Entity.CAR [Action.READ] None (Some [''id'', ''type'', ''vin'', ''licensePlate'', ''converter'', ''default'',
      ''createdOn'', ''lastChangedOn'', ''carCatalogID'', ''carCatalog.vehicleMake'', ''carCatalog.vehicleModel'',
      ''carCatalog.vehicleModelVersion'', ''carCatalog.image'', ''carCatalog.chargeStandardPower'',
      ''carCatalog.chargeStandardPhaseAmp'', ''carCatalog.chargeStandardPhase'', ''carCatalog.chargeAlternativePower'',
      ''carCatalog.chargeAlternativePhaseAmp'', ''carCatalog.chargeAlternativePhase'', ''carCatalog.chargeOptionPower'',
      ''carCatalog.chargeOptionPhaseAmp'', ''carCatalog.chargeOptionPhase'']),
    Grant Entity.CAR [Action.LIST] None (Some [''id'', ''type'', ''vin'', ''licensePlate'', ''converter'', ''default'',
      ''createdOn'', ''lastChangedOn'', ''carCatalog.id'', ''carCatalog.vehicleMake'', ''carCatalog.vehicleModel'',
      ''carCatalog.vehicleModelVersion'', ''carCatalog.image'', ''carCatalog.fastChargePowerMax'',
      ''carCatalog.batteryCapacityFull'']),
    Grant Entity.COMPANY [Action.LIST] None (Some [''id'', ''name'', ''address.address1'', ''address.address2'',
      ''address.postalCode'', ''address.city'', ''address.country'', ''address.coordinates'', ''logo'', ''issuer'',
      ''distanceMeters'', ''createdOn'', ''lastChangedOn'']),
    Grant Entity.COMPANY [Action.READ] None (Some [''id'', ''name'', ''issuer'', ''logo'', ''address'']),
    Grant Entity.SITE [Action.LIST] None (Some [''id'', ''name'', ''address.address1'', ''address.address2'',
      ''address.postalCode'', ''address.city'', ''address.country'', ''address.coordinates'', ''companyID'', ''company.name'',
      ''autoUserSiteAssignment'', ''issuer'', ''autoUserSiteAssignment'', ''distanceMeters'', ''public'', ''createdOn'',
      ''lastChangedOn'']),
    Grant Entity.SITE [Action.READ] None (Some [''id'', ''name'', ''address'', ''companyID'', ''company.name'',
      ''autoUserSiteAssignment'', ''issuer'', ''autoUserSiteAssignment'', ''distanceMeters'', ''public'', ''createdOn'',
      ''lastChangedOn'']),
    Grant Entity.SITE_AREA [Action.LIST] None (Some [''id'', ''name'', ''siteID'', ''maximumPower'', ''voltage'',
      ''numberOfPhases'', ''accessControl'', ''smartCharging'', ''address.address1'', ''address.address2'',
      ''address.postalCode'', ''address.city'', ''address.country'', ''address.coordinates'', ''site.id'', ''site.name'',
      ''issuer'', ''distanceMeters'', ''createdOn'', ''lastChangedOn'']),
    Grant Entity.SITE_AREA [Action.READ] None (Some [''id'', ''name'', ''issuer'', ''image'', ''address'', ''maximumPower'',
      ''numberOfPhases'', ''voltage'', ''smartCharging'', ''accessControl'', ''connectorStats'', ''siteID'', ''site.name'']),
    Grant Entity.CHARGING_STATION [Action.LIST] None (Some [''id'', ''inactive'', ''public'', ''chargingStationURL'',
      ''issuer'', ''maximumPower'', ''masterSlave'', ''excludeFromSmartCharging'', ''lastReboot'', ''siteAreaID'',
      ''siteArea.id'', ''siteArea.name'', ''siteArea.smartCharging'', ''siteArea.siteID'', ''site.id'', ''site.name'',
      ''siteID'', ''voltage'', ''coordinates'', ''forceInactive'', ''manualConfiguration'', ''firmwareUpdateStatus'',
      ''capabilities'', ''endpoint'', ''chargePointVendor'', ''chargePointModel'', ''ocppVersion'', ''ocppProtocol'',
      ''lastSeen'', ''firmwareVersion'', ''currentIPAddress'', ''ocppStandardParameters'', ''ocppVendorParameters'',
      ''connectors'', ''chargePoints'', ''createdOn'', ''chargeBoxSerialNumber'', ''chargePointSerialNumber'',
      ''powerLimitUnit'']),
    Grant Entity.CHARGING_STATION [Action.READ] None None,
    Grant Entity.TRANSACTION [Action.LIST] None None,
    Grant Entity.TRANSACTION [Action.READ] None None]"

definition siteAdmin_grants_1 :: "grant list" where
  "siteAdmin_grants_1 = [
    Grant Entity.TAG [Action.ASSIGN, Action.UNASSIGN,
      Action.UPDATE_BY_VISUAL_ID] (Some (Dynamic (Some [One ''ExcludeAction'']) (Some []) None)) None,
    Grant Entity.USER [Action.LIST] (Some (Dynamic (Some [One ''SitesAdmin'',
      One ''LocalIssuer'']) (Some []) (Some [(''status'', [(''visible'', True), (''mandatory'', True)])]))) (Some [''id'',
      ''name'', ''firstName'', ''email'', ''role'', ''status'', ''issuer'', ''createdOn'', ''lastChangedOn'',
      ''eulaAcceptedOn'', ''eulaAcceptedVersion'', ''locale'', ''billingData.customerID'', ''billingData.lastChangedOn'',
      ''technical'']),
    Grant Entity.USER [Action.READ] (Some (Dynamic (Some [One ''SitesAdmin'',
      One ''LocalIssuer'']) (Some []) None)) (Some [''id'', ''name'', ''firstName'', ''email'', ''role'', ''status'',
      ''issuer'', ''locale'', ''plateID'', ''notificationsActive'', ''notifications'', ''phone'', ''mobile'', ''iNumber'',
      ''costCenter'', ''address'', ''technical'']),

      Grant Entity.USER [Action.CREATE] (Some (Dynamic (Some [One ''SitesAdmin'']) (Some [One ''BasicUser'']) None)) (Some [''id'',
      ''name'', ''firstName'', ''email'', ''role'', ''status'', ''issuer'', ''locale'', ''plateID'', ''notificationsActive'',
      ''notifications'', ''phone'', ''mobile'', ''iNumber'', ''costCenter'', ''address'', ''technical'']),
    Grant Entity.USER [Action.UPDATE] (Some (Dynamic (Some [One ''SitesAdmin'',
      One ''LocalIssuer'']) (Some [One ''BasicUser'']) None)) (Some [''id'', ''name'', ''firstName'', ''email'', ''role'',
      ''status'', ''issuer'', ''locale'', ''plateID'', ''notificationsActive'', ''notifications'', ''phone'', ''mobile'',
      ''iNumber'', ''costCenter'', ''address'', ''technical'']),
    Grant Entity.USER [Action.SYNCHRONIZE_BILLING_USER] None None,
    Grant Entity.USER [Action.DELETE] (Some (Dynamic (Some [One ''-OwnUser'', One ''SitesAdmin'',
      One ''LocalIssuer'']) (Some [One ''BasicUser'']) None)) None,
    Grant Entity.USERS_SITES [Action.LIST, Action.UNASSIGN, Action.READ] (Some (Dynamic (Some [One ''SitesAdmin'',
      One ''LocalIssuer'']) (Some []) None)) (Some [''user.id'', ''user.name'', ''user.firstName'', ''user.email'',
      ''user.role'', ''siteAdmin'', ''siteOwner'', ''siteID'']),
    Grant Entity.SITE [Action.UPDATE, Action.MAINTAIN_PRICING_DEFINITIONS] (Some (Dynamic (Some [One ''SitesAdmin'',
      One ''LocalIssuer'']) (Some []) None)) None,
    Grant Entity.SITE [Action.READ] (Some (Dynamic (Some [One ''AssignedSites'',
      One ''LocalIssuer'']) (Some []) (Some [(''autoUserSiteAssignment'', [(''enabled'', False)])]))) (Some [''id'', ''name'',
      ''address'', ''companyID'', ''company.name'', ''autoUserSiteAssignment'', ''issuer'', ''autoUserSiteAssignment'',
      ''distanceMeters'', ''public'', ''createdOn'', ''lastChangedOn'', ''tariffID'']),
    Grant Entity.SITE_AREA [Action.CREATE] None None]"

definition siteAdmin_grants_2 :: "grant list" where
  "siteAdmin_grants_2 = [
    Grant Entity.SITE_AREA [Action.UPDATE, Action.DELETE, Action.UNASSIGN_ASSETS_FROM_SITE_AREA,
      Action.UNASSIGN_CHARGING_STATIONS_FROM_SITE_AREA] (Some (Dynamic (Some [One ''SitesAdmin'',
      One ''LocalIssuer'']) (Some []) None)) None,
    Grant Entity.SITE_AREA [Action.READ] None (Some [''id'', ''name'', ''issuer'', ''image'', ''address'', ''maximumPower'',
      ''numberOfPhases'', ''voltage'', ''smartCharging'', ''accessControl'', ''connectorStats'', ''siteID'', ''site.name'',
      ''site.public'', ''tariffID'']),

      Grant Entity.SITE_AREA [Action.READ_ASSETS_FROM_SITE_AREA] (Some (Dynamic (Some [One ''SitesAdmin'']) (Some []) None)) (Some [''id'',
      ''name'', ''issuer'', ''image'', ''address'', ''maximumPower'', ''numberOfPhases'', ''voltage'', ''smartCharging'',
      ''accessControl'', ''connectorStats'', ''siteID'', ''site.name'']),
    Grant Entity.ASSET [Action.LIST] (Some (Dynamic (Some [One ''AssignedSites'',
      One ''LocalIssuer'']) (Some []) None)) (Some [''id'', ''name'', ''siteAreaID'', ''siteArea.id'', ''siteArea.name'',
      ''siteArea.siteID'', ''siteID'', ''assetType'', ''coordinates'', ''dynamicAsset'', ''connectionID'', ''meterID'',
      ''currentInstantWatts'', ''currentStateOfCharge'', ''excludeFromSmartCharging'', ''staticValueWatt'',
      ''variationThresholdPercent'', ''fluctuationPercent'', ''site.id'', ''site.name'']),
    Grant Entity.ASSET [Action.READ] (Some (Dynamic (Some [One ''AssignedSites'',
      One ''LocalIssuer'']) (Some []) None)) (Some [''id'', ''name'', ''siteAreaID'', ''siteArea.id'', ''siteArea.name'',
      ''siteArea.siteID'', ''siteID'', ''assetType'', ''coordinates'', ''dynamicAsset'', ''connectionID'', ''meterID'',
      ''currentInstantWatts'', ''currentStateOfCharge'', ''excludeFromSmartCharging'', ''staticValueWatt'',
      ''variationThresholdPercent'', ''fluctuationPercent'']),
    Grant Entity.ASSET [Action.READ_CONSUMPTION] (Some (Dynamic (Some [One ''AssignedSites'',
      One ''LocalIssuer'']) (Some []) None)) (Some [''id'', ''name'', ''siteAreaID'', ''siteArea.id'', ''siteArea.name'',
      ''siteArea.siteID'', ''siteID'', ''assetType'', ''coordinates'', ''dynamicAsset'', ''connectionID'', ''meterID'',
      ''currentInstantWatts'', ''currentStateOfCharge'', ''startedAt'', ''instantWatts'', ''instantAmps'', ''limitWatts'',
      ''limitAmps'', ''endedAt'', ''stateOfCharge'']),
    Grant Entity.CAR [Action.LIST] (Some (Dynamic (Some [One ''SitesAdmin'']) (Some []) None)) (Some [''id'', ''type'',
      ''vin'', ''licensePlate'', ''converter'', ''default'', ''createdOn'', ''lastChangedOn'', ''carCatalog.id'',
      ''carCatalog.vehicleMake'', ''carCatalog.vehicleModel'', ''carCatalog.vehicleModelVersion'', ''carCatalog.image'',
      ''carCatalog.fastChargePowerMax'', ''carCatalog.batteryCapacityFull'', ''createdBy.name'', ''createdBy.firstName'',
      ''lastChangedBy.name'', ''lastChangedBy.firstName'', ''user.id'', ''user.name'', ''user.firstName'', ''userID'']),
    Grant Entity.CAR [Action.CREATE] (Some (Dynamic (Some []) (Some []) None)) None,
    Grant Entity.CAR [Action.READ] (Some (Dynamic (Some [One ''SitesAdmin'']) (Some []) None)) (Some [''id'', ''type'',
      ''vin'', ''licensePlate'', ''converter'', ''default'', ''createdOn'', ''lastChangedOn'', ''user.id'', ''user.name'',
      ''user.firstName'', ''carCatalogID'', ''carCatalog.vehicleMake'', ''carCatalog.vehicleModel'',
      ''carCatalog.vehicleModelVersion'', ''carCatalog.image'', ''carCatalog.chargeStandardPower'',
      ''carCatalog.chargeStandardPhaseAmp'', ''carCatalog.chargeStandardPhase'', ''carCatalog.chargeAlternativePower'',
      ''carCatalog.chargeAlternativePhaseAmp'', ''carCatalog.chargeAlternativePhase'', ''carCatalog.chargeOptionPower'',
      ''carCatalog.chargeOptionPhaseAmp'', ''carCatalog.chargeOptionPhase'', ''carConnectorData.carConnectorID'',
      ''carConnectorData.carConnectorMeterID'']),
    Grant Entity.CAR [Action.UPDATE, Action.DELETE] (Some (Dynamic (Some [One ''SitesAdmin'']) (Some []) None)) None]"

definition siteAdmin_grants_3 :: "grant list" where
  "siteAdmin_grants_3 = [
    Grant Entity.CHARGING_STATION [Action.UPDATE, Action.DELETE, Action.RESET, Action.CLEAR_CACHE, Action.GET_CONFIGURATION,
      Action.CHANGE_CONFIGURATION, Action.SET_CHARGING_PROFILE, Action.GET_COMPOSITE_SCHEDULE, Action.CLEAR_CHARGING_PROFILE,
      Action.GET_DIAGNOSTICS, Action.UPDATE_FIRMWARE, Action.REMOTE_STOP_TRANSACTION, Action.STOP_TRANSACTION, Action.EXPORT,
      Action.CHANGE_AVAILABILITY] (Some (List_Contains_Fn ''sitesAdmin'' (Field ''site''))) None,
    Grant Entity.CHARGING_PROFILE [Action.LIST] None None,
    Grant Entity.CHARGING_PROFILE [Action.READ] (Some (List_Contains_Fn ''sitesAdmin'' (Field ''site''))) None,
    Grant Entity.TRANSACTION [Action.READ, Action.UPDATE] (Some (List_Contains_Fn ''sitesAdmin'' (Field ''site''))) None,
    Grant Entity.REPORT [Action.READ] None None,
    Grant Entity.LOGGING [Action.LIST,
      Action.EXPORT] (Some (Dynamic (Some [One ''SitesAdmin'']) (Some []) None)) (Some [''id'', ''level'', ''timestamp'',
      ''type'', ''source'', ''host'', ''action'', ''message'', ''chargingStationID'', ''siteID'', ''user.name'',
      ''user.firstName'', ''actionOnUser.name'', ''actionOnUser.firstName'', ''hasDetailedMessages'', ''method'', ''module'']),
    Grant Entity.LOGGING [Action.READ] (Some (Dynamic (Some [One ''SitesAdmin'']) (Some []) None)) (Some [''id'', ''level'',
      ''timestamp'', ''type'', ''source'', ''host'', ''action'', ''message'', ''chargingStationID'', ''siteID'', ''user.name'',
      ''user.firstName'', ''actionOnUser.name'', ''actionOnUser.firstName'', ''hasDetailedMessages'', ''detailedMessages'']),
    Grant Entity.REGISTRATION_TOKEN [Action.LIST] (Some (Dynamic (Some [One ''SitesAdmin'']) (Some []) (Some [(''siteAreaID'',
      [(''mandatory'', True)])]))) (Some [''id'', ''status'', ''description'', ''createdOn'', ''lastChangedOn'',
      ''expirationDate'', ''revocationDate'', ''siteAreaID'', ''siteArea.name'', ''createdBy.name'', ''createdBy.firstName'',
      ''lastChangedBy.name'', ''lastChangedBy.firstName'']),
    Grant Entity.REGISTRATION_TOKEN [Action.READ] (Some (Dynamic (Some [One ''SitesAdmin'']) (Some []) None)) (Some [''id'',
      ''status'', ''description'', ''createdOn'', ''lastChangedOn'', ''expirationDate'', ''revocationDate'', ''siteAreaID'',
      ''siteArea.name'', ''createdBy.name'', ''createdBy.firstName'', ''lastChangedBy.name'', ''lastChangedBy.firstName'']),
    Grant Entity.REGISTRATION_TOKEN [Action.CREATE,
      Action.UPDATE] (Some (Dynamic (Some [One ''SitesAdmin'']) (Some [One ''SiteAreaMandatory'']) None)) (Some [''id'',
      ''status'', ''description'', ''createdOn'', ''lastChangedOn'', ''expirationDate'', ''revocationDate'', ''siteAreaID'',
      ''siteArea.name'', ''createdBy.name'', ''createdBy.firstName'', ''lastChangedBy.name'', ''lastChangedBy.firstName'']),
    Grant Entity.REGISTRATION_TOKEN [Action.DELETE,
      Action.REVOKE] (Some (Dynamic (Some [One ''SitesAdmin'']) (Some []) None)) None,
    Grant Entity.TAG [Action.LIST, Action.EXPORT] (Some (Dynamic (Some [One ''SitesAdmin'',
      One ''LocalIssuer'']) (Some []) (Some [(''userID'', [(''mandatory'', True)])]))) (Some [''id'', ''userID'', ''active'',
      ''ocpiToken'', ''description'', ''visualID'', ''issuer'', ''default'', ''user.name'', ''user.firstName'', ''user.email'',
      ''createdOn'', ''lastChangedOn'']),
    Grant Entity.TAG [Action.CREATE] (Some (Dynamic (Some []) (Some [One ''UserMandatory'']) None)) None]"

definition siteAdmin_grants_4 :: "grant list" where
  "siteAdmin_grants_4 = [
    Grant Entity.TAG [Action.READ] (Some (Dynamic (Some [One ''SitesAdmin'',
      One ''LocalIssuer'']) (Some []) (Some [(''userID'', [(''mandatory'', True)])]))) (Some [''id'', ''userID'', ''issuer'',
      ''active'', ''description'', ''visualID'', ''default'', ''user.id'', ''user.name'', ''user.firstName'', ''user.email'']),
    Grant Entity.TAG [Action.DELETE] (Some (Dynamic (Some [One ''SitesAdmin'', One ''LocalIssuer'']) (Some []) None)) None,
    Grant Entity.TAG [Action.UPDATE] (Some (Dynamic (Some [One ''SitesAdmin'',
      One ''LocalIssuer'']) (Some [One ''UserMandatory'']) None)) None,
    Grant Entity.PRICING_DEFINITION [Action.LIST] (Some (Dynamic (Some [One ''SitesAdmin'']) (Some []) None)) (Some [''id'',
      ''entityID'', ''entityType'', ''name'', ''description'', ''entityName'', ''staticRestrictions.validFrom'',
      ''staticRestrictions.validTo'', ''staticRestrictions.connectorType'', ''staticRestrictions.connectorPowerkW'',
      ''restrictions.daysOfWeek'', ''restrictions.timeFrom'', ''restrictions.timeTo'', ''restrictions.minEnergyKWh'',
      ''restrictions.maxEnergyKWh'', ''restrictions.minDurationSecs'', ''restrictions.maxDurationSecs'',
      ''dimensions.flatFee.active'', ''dimensions.flatFee.price'', ''dimensions.flatFee.stepSize'',
      ''dimensions.flatFee.pricedData'', ''dimensions.energy.active'', ''dimensions.energy.price'',
      ''dimensions.energy.stepSize'', ''dimensions.energy.pricedData'', ''dimensions.chargingTime.active'',
      ''dimensions.chargingTime.price'', ''dimensions.chargingTime.stepSize'', ''dimensions.chargingTime.pricedData'',
      ''dimensions.parkingTime.active'', ''dimensions.parkingTime.price'', ''dimensions.parkingTime.stepSize'',
      ''dimensions.parkingTime.pricedData'']),
    Grant Entity.PRICING_DEFINITION [Action.CREATE, Action.READ, Action.UPDATE,
      Action.DELETE] (Some (Dynamic (Some [One ''SitesAdmin'']) (Some []) None)) (Some [''id'', ''entityID'', ''entityType'',
      ''name'', ''description'', ''entityName'', ''staticRestrictions.validFrom'', ''staticRestrictions.validTo'',
      ''staticRestrictions.connectorType'', ''staticRestrictions.connectorPowerkW'', ''restrictions.daysOfWeek'',
      ''restrictions.timeFrom'', ''restrictions.timeTo'', ''restrictions.minEnergyKWh'', ''restrictions.maxEnergyKWh'',
      ''restrictions.minDurationSecs'', ''restrictions.maxDurationSecs'', ''dimensions.flatFee.active'',
      ''dimensions.flatFee.price'', ''dimensions.flatFee.stepSize'', ''dimensions.flatFee.pricedData'',
      ''dimensions.energy.active'', ''dimensions.energy.price'', ''dimensions.energy.stepSize'',
      ''dimensions.energy.pricedData'', ''dimensions.chargingTime.active'', ''dimensions.chargingTime.price'',
      ''dimensions.chargingTime.stepSize'', ''dimensions.chargingTime.pricedData'', ''dimensions.parkingTime.active'',
      ''dimensions.parkingTime.price'', ''dimensions.parkingTime.stepSize'', ''dimensions.parkingTime.pricedData'']),
    Grant Entity.SOURCE [Action.LIST] None None]"

definition siteOwner_grants_1 :: "grant list" where
  "siteOwner_grants_1 = [
    Grant Entity.USER [Action.LIST] (Some (Dynamic (Some [One ''SitesOwner'',
      One ''LocalIssuer'']) (Some []) None)) (Some [''id'', ''name'', ''firstName'', ''email'', ''role'', ''status'',
      ''issuer'', ''createdOn'', ''lastChangedOn'', ''eulaAcceptedOn'', ''eulaAcceptedVersion'', ''locale'',
      ''billingData.customerID'', ''billingData.lastChangedOn'']),
    Grant Entity.USER [Action.READ] (Some (Dynamic (Some [One ''SitesOwner'',
      One ''LocalIssuer'']) (Some []) None)) (Some [''id'', ''name'', ''firstName'', ''email'', ''issuer'', ''locale'',
      ''notificationsActive'', ''notifications'', ''phone'', ''mobile'', ''iNumber'', ''costCenter'', ''address'']),
    Grant Entity.TRANSACTION [Action.READ,
      Action.REFUND_TRANSACTION] (Some (List_Contains_Fn ''sitesOwner'' (Field ''site''))) None,
    Grant Entity.REPORT [Action.READ] None None,
    Grant Entity.PRICING_DEFINITION [Action.LIST] (Some (Dynamic (Some [One ''SitesOwner'',
      One ''LocalIssuer'']) (Some []) None)) (Some [''id'', ''entityID'', ''entityType'', ''name'', ''description'',
      ''entityName'', ''staticRestrictions.validFrom'', ''staticRestrictions.validTo'', ''staticRestrictions.connectorType'',
      ''staticRestrictions.connectorPowerkW'', ''restrictions.daysOfWeek'', ''restrictions.timeFrom'', ''restrictions.timeTo'',
      ''restrictions.minEnergyKWh'', ''restrictions.maxEnergyKWh'', ''restrictions.minDurationSecs'',
      ''restrictions.maxDurationSecs'', ''dimensions.flatFee.active'', ''dimensions.flatFee.price'',
      ''dimensions.flatFee.stepSize'', ''dimensions.flatFee.pricedData'', ''dimensions.energy.active'',
      ''dimensions.energy.price'', ''dimensions.energy.stepSize'', ''dimensions.energy.pricedData'',
      ''dimensions.chargingTime.active'', ''dimensions.chargingTime.price'', ''dimensions.chargingTime.stepSize'',
      ''dimensions.chargingTime.pricedData'', ''dimensions.parkingTime.active'', ''dimensions.parkingTime.price'',
      ''dimensions.parkingTime.stepSize'', ''dimensions.parkingTime.pricedData''])]"

section \<open>The roles\<close>

definition AUTHORIZATION_DEFINITION :: "(string \<times> role_definition) list" where
  "AUTHORIZATION_DEFINITION = [
     (''superAdmin'', \<lparr> rd_extends = [], rd_grants = superAdmin_grants_1 \<rparr>),
     (''admin'', \<lparr> rd_extends = [], rd_grants = admin_grants_1 @ admin_grants_2 @ admin_grants_3 \<rparr>),
     (''basic'', \<lparr> rd_extends = [], rd_grants = basic_grants_1 @ basic_grants_2 @ basic_grants_3 \<rparr>),
     (''demo'', \<lparr> rd_extends = [], rd_grants = demo_grants_1 \<rparr>),
     (''siteAdmin'', \<lparr> rd_extends = [''basic''], rd_grants = siteAdmin_grants_1 @ siteAdmin_grants_2 @ siteAdmin_grants_3 @ siteAdmin_grants_4 \<rparr>),
     (''siteOwner'', \<lparr> rd_extends = [''basic''], rd_grants = siteOwner_grants_1 \<rparr>)]"

end
