(* ===== verification/Access_Control.thy ===== *)
theory Access_Control
  imports Access_Table
begin

text \<open>
  Deciding an action (src/authorization/AuthorizationsManager.ts, and the custom condition at the end
  of src/authorization/AuthorizationsDefinition.ts). The decision over the table is the package
  role-acl, whose code is not in the repository: it is the parameter \<open>acl\<close>, and the locale
  \<open>role_acl\<close> states what its documentation promises: the grants considered are those of the roles and
  of the roles they extend, for the resource and the action; access is granted when the condition of
  one of them holds; the attributes are those of the grants that hold; and evaluating a custom
  condition passes it the context, which it may change.
\<close>

section \<open>The custom condition\<close>

definition set_once :: "'a option \<Rightarrow> bool \<Rightarrow> 'a option \<Rightarrow> 'a \<Rightarrow> 'a option \<times> bool" where
  "set_once arg isSet current initial =
     (case arg of
        Some x \<Rightarrow> if \<not> isSet then (Some x, True) else (Some (or_else current initial), isSet)
      | None \<Rightarrow> (Some (or_else current initial), isSet))"

definition dynamicAuthorizations ::
  "name_group list option \<Rightarrow> name_group list option \<Rightarrow> metadata option \<Rightarrow> auth_context \<Rightarrow> auth_context \<times> bool" where
  "dynamicAuthorizations filters asserts metadata ctx =
     (let (fs, fset) = set_once filters (ax_filtersSet ctx) (ax_filters ctx) [];
          (as, aset) = set_once asserts (ax_assertsSet ctx) (ax_asserts ctx) [];
          (md, mset) = set_once metadata (ax_metadataSet ctx) (ax_metadata ctx) []
      in (ctx\<lparr>ax_filters := fs, ax_filtersSet := fset, ax_asserts := as, ax_assertsSet := aset,
            ax_metadata := md, ax_metadataSet := mset\<rparr>, True))"

fun run_condition :: "condition \<Rightarrow> auth_context \<Rightarrow> auth_context" where
  "run_condition (Dynamic filters asserts metadata) ctx = fst (dynamicAuthorizations filters asserts metadata ctx)"
| "run_condition _ ctx = ctx"

section \<open>The grants that are considered\<close>

type_synonym roles_table = "(string \<times> role_definition) list"

fun inherited :: "nat \<Rightarrow> roles_table \<Rightarrow> string \<Rightarrow> grant list" where
  "inherited 0 tbl r = []"
| "inherited (Suc n) tbl r =
     (case map_of tbl r of None \<Rightarrow> [] | Some d \<Rightarrow> rd_grants d @ concat (map (inherited n tbl) (rd_extends d)))"

definition matching :: "roles_table \<Rightarrow> string list \<Rightarrow> Entity \<Rightarrow> Action \<Rightarrow> grant list" where
  "matching tbl roles r a =
     filter (\<lambda>g. g_resource g = r \<and> a \<in> set (g_actions g)) (concat (map (inherited (length tbl) tbl) roles))"

definition grant_holds :: "(condition \<Rightarrow> auth_context \<Rightarrow> bool) \<Rightarrow> auth_context \<Rightarrow> grant \<Rightarrow> bool" where
  "grant_holds holds ctx g = (case g_condition g of None \<Rightarrow> True | Some c \<Rightarrow> holds c ctx)"

definition attributes_of :: "grant \<Rightarrow> string list" where
  "attributes_of g = (case g_attributes g of None \<Rightarrow> [''*''] | Some as \<Rightarrow> as)"

section \<open>The package\<close>

type_synonym acl = "roles_table \<Rightarrow> string list \<Rightarrow> Entity \<Rightarrow> Action \<Rightarrow> auth_context \<Rightarrow> (auth_context \<times> permission) res"

locale role_acl =
  fixes acl :: "roles_table \<Rightarrow> string list \<Rightarrow> Entity \<Rightarrow> Action \<Rightarrow> auth_context \<Rightarrow> (auth_context \<times> permission) res"
    and holds :: "condition \<Rightarrow> auth_context \<Rightarrow> bool"
  assumes acl_total: "roles \<noteq> [] \<Longrightarrow> set roles \<subseteq> fst ` set tbl \<Longrightarrow> is_ok (acl tbl roles r a ctx)"
    and acl_granted: "acl tbl roles r a ctx = Inr (ctx', p) \<Longrightarrow>
      pm_granted p \<longleftrightarrow> (\<exists>g \<in> set (matching tbl roles r a). grant_holds holds ctx g)"
    and acl_attributes: "acl tbl roles r a ctx = Inr (ctx', p) \<Longrightarrow>
      set (pm_attributes p) = (\<Union>g \<in> {g \<in> set (matching tbl roles r a). grant_holds holds ctx g}. set (attributes_of g))"
    and acl_context: "acl tbl roles r a ctx = Inr (ctx', p) \<Longrightarrow>
      \<exists>cs. set (map Some cs) \<subseteq> g_condition ` set (matching tbl roles r a) \<and> ctx' = fold run_condition cs ctx
        \<and> (pm_granted p \<longrightarrow> cs = [] \<longrightarrow> (\<exists>g \<in> set (matching tbl roles r a). g_condition g = None))"
    and holds_const: "holds (Equals_Fn k (Const Null)) ctx \<Longrightarrow> ax_value ctx k \<noteq> Str s"
    and holds_null: "ax_value ctx k = Null \<Longrightarrow> holds (Equals_Fn k (Const Null)) ctx"
    and holds_equal: "ax_value ctx k = Str s \<Longrightarrow> ax_value ctx f = Str t \<Longrightarrow> holds (Equals_Fn k (Field f)) ctx \<longleftrightarrow> s = t"
    and holds_contains: "ax_value ctx k = Strs xs \<Longrightarrow> ax_value ctx f = Str s \<Longrightarrow> holds (List_Contains_Fn k (Field f)) ctx \<longleftrightarrow> s \<in> set xs"
    and holds_or: "holds (Or_Fn cs) ctx \<longleftrightarrow> (\<exists>c \<in> set cs. holds c ctx)"
    and holds_dynamic: "holds (Dynamic fs as md) ctx"
begin

lemma granted_grant:
  assumes "acl tbl roles r a ctx = Inr (ctx', p)" and "pm_granted p"
  obtains g where "g \<in> set (matching tbl roles r a)" and "grant_holds holds ctx g"
  using acl_granted[OF assms(1)] assms(2) by blast

lemma dynamic_grants:
  assumes "acl tbl roles r a ctx = Inr (ctx', p)" and "g \<in> set (matching tbl roles r a)"
    and "g_condition g = Some (Dynamic fs as md)"
  shows "pm_granted p"
proof -
  have "grant_holds holds ctx g" by (simp add: grant_holds_def assms(3) holds_dynamic)
  with acl_granted[OF assms(1)] assms(2) show ?thesis by blast
qed

lemma not_granted:
  assumes "acl tbl roles r a ctx = Inr (ctx', p)" and "matching tbl roles r a = []"
  shows "\<not> pm_granted p" and "pm_attributes p = []"
  using acl_granted[OF assms(1)] acl_attributes[OF assms(1)] assms(2) by simp_all

end

text \<open>An implementation that follows the documentation, evaluating the conditions in the order of the grants.\<close>

fun in_order :: "condition \<Rightarrow> auth_context \<Rightarrow> bool" where
  "in_order (Equals_Fn k (Const v)) ctx = (ax_value ctx k = v)"
| "in_order (Equals_Fn k (Field f)) ctx = (ax_value ctx k = ax_value ctx f)"
| "in_order (List_Contains_Fn k f) ctx =
     (case (ax_value ctx k, case f of Const v \<Rightarrow> v | Field f \<Rightarrow> ax_value ctx f) of
        (Strs xs, Str s) \<Rightarrow> s \<in> set xs | _ \<Rightarrow> False)"
| "in_order (Or_Fn cs) ctx = list_ex (\<lambda>c. in_order c ctx) cs"
| "in_order (Dynamic fs as md) ctx = True"

definition ordered_acl :: acl where
  "ordered_acl tbl roles r a ctx =
     (if roles = [] \<or> \<not> list_all (\<lambda>n. n \<in> fst ` set tbl) roles then Inl (BackendError ''role not found'')
      else
        (let gs = matching tbl roles r a; ok = filter (grant_holds in_order ctx) gs
         in Inr (fold run_condition (List.map_filter g_condition gs) ctx,
              \<lparr> pm_granted = ok \<noteq> [], pm_attributes = concat (map attributes_of ok) \<rparr>)))"

interpretation ordered: role_acl ordered_acl in_order
proof (unfold_locales, goal_cases)
  case (1 roles tbl r a ctx)
  then show ?case by (auto simp: ordered_acl_def list_all_iff Let_def)
next
  case (4 tbl roles r a ctx ctx' p)
  let ?gs = "matching tbl roles r a"
  have eq: "ctx' = fold run_condition (List.map_filter g_condition ?gs) ctx"
    and granted: "pm_granted p \<longleftrightarrow> filter (grant_holds in_order ctx) ?gs \<noteq> []"
    using 4 by (auto simp: ordered_acl_def Let_def split: if_splits)
  have sub: "set (map Some (List.map_filter g_condition ?gs)) \<subseteq> g_condition ` set ?gs"
    by (auto simp: List.map_filter_def)
  have "\<exists>g \<in> set ?gs. g_condition g = None" if "pm_granted p" and "List.map_filter g_condition ?gs = []"
  proof -
    from that(1) granted obtain g where "g \<in> set ?gs" by (auto simp: filter_empty_conv)
    with that(2) show ?thesis by (auto simp: List.map_filter_def filter_empty_conv)
  qed
  with eq sub show ?case by blast
qed (auto simp: ordered_acl_def Let_def filter_empty_conv list_ex_iff split: if_splits)

end
