(* ===== verification/Authorizations.thy ===== *)
theory Authorizations
  imports Access_Control Transaction_Types
begin

text \<open>
  Who may do what: the decisions of src/authorization/AuthorizationsManager.ts with their cache, the
  token of a user (src/types/UserToken.ts) and the static checks of src/authorization/Authorizations.ts,
  of which most ask for one action on one resource. \<open>acl\<close> is the package role-acl.
\<close>

section \<open>Users, tokens, sites\<close>

datatype UserRole = SUPER_ADMIN | ADMIN | BASIC | DEMO

datatype UserStatus = PENDING | ACTIVE | INACTIVE | BLOCKED | LOCKED

datatype TenantComponents =
    OCPI | OICP | REFUND | PRICING | ORGANIZATION | STATISTICS | ANALYTICS | BILLING | ASSET | SMART_CHARGING | CAR | CAR_CONNECTOR

record account = user +
  acc_role :: UserRole
  acc_status :: UserStatus

record user_token =
  ut_id :: string
  ut_role :: UserRole
  ut_rolesACL :: "string list"
  ut_tagIDs :: "string list"
  ut_sitesAdmin :: "string list"
  ut_sitesOwner :: "string list"
  ut_sites :: "string list"
  ut_activeComponents :: "TenantComponents list"

record user_site =
  us_userID :: string
  us_siteID :: string
  us_siteAdmin :: bool
  us_siteOwner :: bool

record site =
  si_id :: string
  si_companyID :: string
  si_issuer :: bool

record tag =
  tg_id :: string
  tg_active :: bool
  tg_issuer :: bool
  tg_userID :: "string option"
  tg_ocpiToken :: "string option"

text \<open>The collections of a tenant that the checks read, and its components with their activation.\<close>

record directory =
  dr_users :: "account list"
  dr_tags :: "tag list"
  dr_sites :: "site list"
  dr_userSites :: "user_site list"
  dr_components :: "(TenantComponents \<times> bool) list"

definition isComponentActiveFromToken :: "user_token \<Rightarrow> TenantComponents \<Rightarrow> bool" where
  "isComponentActiveFromToken u c = (c \<in> set (ut_activeComponents u))"

definition isTenantComponentActive :: "directory \<Rightarrow> TenantComponents \<Rightarrow> bool" where
  "isTenantComponentActive d c = or_else (map_of (dr_components d) c) False"

definition getTenantActiveComponents :: "directory \<Rightarrow> TenantComponents list" where
  "getTenantActiveComponents d = map fst (filter snd (dr_components d))"

text \<open>The sites of a user, joined with the collection of sites; \<open>getSites\<close> is the query by user and issuer.\<close>

definition getUserSites :: "directory \<Rightarrow> string \<Rightarrow> bool \<Rightarrow> bool \<Rightarrow> user_site list" where
  "getUserSites d userID siteAdmin siteOwner =
     filter (\<lambda>x. us_userID x = userID \<and> (siteAdmin \<longrightarrow> us_siteAdmin x) \<and> (siteOwner \<longrightarrow> us_siteOwner x)
       \<and> us_siteID x \<in> si_id ` set (dr_sites d)) (dr_userSites d)"

definition getSites_of_user :: "directory \<Rightarrow> string \<Rightarrow> site list" where
  "getSites_of_user d userID =
     filter (\<lambda>s. si_issuer s \<and> list_ex (\<lambda>x. us_siteID x = si_id s \<and> us_userID x = userID) (dr_userSites d)) (dr_sites d)"

section \<open>The manager and its cache\<close>

record acl_env =
  ae_acl :: acl
  ae_json :: "auth_context \<Rightarrow> string"

type_synonym auth_cache = "string \<Rightarrow> auth_result option"

fun join :: "string \<Rightarrow> string list \<Rightarrow> string" where
  "join sep [] = []"
| "join sep [x] = x"
| "join sep (x # xs) = x @ sep @ join sep xs"

definition authID :: "acl_env \<Rightarrow> string list \<Rightarrow> Entity \<Rightarrow> Action \<Rightarrow> auth_context \<Rightarrow> string" where
  "authID env roles resource action ctx =
     join '','' roles @ ''~'' @ entity_name resource @ ''~'' @ action_name action @ ''~'' @ ae_json env ctx @ ''}''"

definition can_acl :: "acl \<Rightarrow> string list \<Rightarrow> Entity \<Rightarrow> Action \<Rightarrow> auth_context \<Rightarrow> bool res" where
  "can_acl acl roles resource action ctx =
     (case acl AUTHORIZATION_DEFINITION roles resource action ctx of
        Inl _ \<Rightarrow> Inl (BackendError ''Unable to check authorization'')
      | Inr (_, p) \<Rightarrow> Inr (pm_granted p))"

text \<open>The properties of the stored context are copied over those of the caller's.\<close>

definition enrich :: "auth_context \<Rightarrow> auth_context \<Rightarrow> auth_context" where
  "enrich ctx stored = \<lparr>
     ax_value = (\<lambda>k. if ax_value stored k \<noteq> Undefined then ax_value stored k else ax_value ctx k),
     ax_filters = (if ax_filters stored \<noteq> None then ax_filters stored else ax_filters ctx),
     ax_filtersSet = (ax_filtersSet stored \<or> ax_filtersSet ctx),
     ax_asserts = (if ax_asserts stored \<noteq> None then ax_asserts stored else ax_asserts ctx),
     ax_assertsSet = (ax_assertsSet stored \<or> ax_assertsSet ctx),
     ax_metadata = (if ax_metadata stored \<noteq> None then ax_metadata stored else ax_metadata ctx),
     ax_metadataSet = (ax_metadataSet stored \<or> ax_metadataSet ctx) \<rparr>"

definition canPerformAction_acl ::
  "acl_env \<Rightarrow> string list \<Rightarrow> Entity \<Rightarrow> Action \<Rightarrow> auth_context \<Rightarrow> auth_cache \<Rightarrow> auth_cache \<times> (auth_result \<times> auth_context) res" where
  "canPerformAction_acl env roles resource action ctx cache =
     (let i = authID env roles resource action ctx in
      case cache i of
        Some result \<Rightarrow> (cache, Inr (result, enrich ctx (ar_context result)))
      | None \<Rightarrow>
          (case ae_acl env AUTHORIZATION_DEFINITION roles resource action ctx of
             Inl _ \<Rightarrow> (cache, Inl (BackendError ''Unable to check authorization''))
           | Inr (ctx', p) \<Rightarrow>
               (let result = \<lparr> ar_authorized = pm_granted p, ar_fields = pm_attributes p, ar_context = ctx' \<rparr>
                in (cache(i \<mapsto> result), Inr (result, ctx')))))"

section \<open>The checks of a logged user\<close>

definition canPerformAction :: "acl \<Rightarrow> user_token \<Rightarrow> Entity \<Rightarrow> Action \<Rightarrow> auth_context \<Rightarrow> bool res" where
  "canPerformAction acl u entity action ctx = can_acl acl (ut_rolesACL u) entity action ctx"

definition can ::
  "acl_env \<Rightarrow> user_token \<Rightarrow> Entity \<Rightarrow> Action \<Rightarrow> auth_context \<Rightarrow> auth_cache \<Rightarrow> auth_cache \<times> (auth_result \<times> auth_context) res" where
  "can env u entity action ctx = canPerformAction_acl env (ut_rolesACL u) entity action ctx"

definition opt_value :: "string option \<Rightarrow> ctx_value" where
  "opt_value x = (case x of None \<Rightarrow> Undefined | Some s \<Rightarrow> Str s)"

definition context_of :: "(string \<times> ctx_value) list \<Rightarrow> auth_context" where
  "context_of kvs = no_context\<lparr>ax_value := (\<lambda>k. or_else (map_of kvs k) Undefined)\<rparr>"

definition isSuperAdmin :: "UserRole \<Rightarrow> bool" where "isSuperAdmin r = (r = SUPER_ADMIN)"
definition isAdmin :: "UserRole \<Rightarrow> bool" where "isAdmin r = (r = ADMIN)"
definition isBasic :: "UserRole \<Rightarrow> bool" where "isBasic r = (r = BASIC)"
definition isDemo :: "UserRole \<Rightarrow> bool" where "isDemo r = (r = DEMO)"

definition isSiteAdmin :: "user_token \<Rightarrow> bool" where
  "isSiteAdmin u = (ut_role u = BASIC \<and> ut_sitesAdmin u \<noteq> [])"

definition isSiteOwner :: "user_token \<Rightarrow> bool" where
  "isSiteOwner u = (ut_sitesOwner u \<noteq> [])"

definition canRefundTransaction :: "acl \<Rightarrow> user_token \<Rightarrow> transaction \<Rightarrow> bool res" where
  "canRefundTransaction acl u t =
     canPerformAction acl u Entity.TRANSACTION Action.REFUND_TRANSACTION
       (context_of [(''UserID'', opt_value (tx_userID t)), (''sitesOwner'', Strs (ut_sitesOwner u)), (''site'', opt_value (tx_siteID t))])"

definition canStartTransaction :: "acl \<Rightarrow> user_token \<Rightarrow> charging_station option \<Rightarrow> bool res" where
  "canStartTransaction acl u cs =
     (if isComponentActiveFromToken u ORGANIZATION then
        (case cs of
           None \<Rightarrow> Inr False
         | Some c \<Rightarrow>
             if \<not> truthy_str (cs_siteID c) \<or> \<not> truthy_str (cs_siteAreaID c) then Inr False
             else canPerformAction acl u Entity.CHARGING_STATION Action.REMOTE_START_TRANSACTION
                    (context_of [(''site'', opt_value (cs_siteID c)), (''sites'', Strs (ut_sites u)), (''sitesAdmin'', Strs (ut_sitesAdmin u))]))
      else canPerformAction acl u Entity.CHARGING_STATION Action.REMOTE_START_TRANSACTION (context_of [(''site'', Null)]))"

definition transaction_context :: "user_token \<Rightarrow> transaction \<Rightarrow> (string \<times> ctx_value) list" where
  "transaction_context u t = [(''user'', opt_value (tx_userID t)), (''owner'', Str (ut_id u)), (''tagIDs'', Strs (ut_tagIDs u)),
     (''tagID'', opt_value (tx_tagID t)), (''site'', opt_value (tx_siteID t)), (''sites'', Strs (ut_sites u)),
     (''sitesAdmin'', Strs (ut_sitesAdmin u))]"

definition canStopTransaction :: "acl \<Rightarrow> user_token \<Rightarrow> transaction option \<Rightarrow> bool res" where
  "canStopTransaction acl u t =
     (case t of None \<Rightarrow> Inr False
      | Some t \<Rightarrow> canPerformAction acl u Entity.CHARGING_STATION Action.REMOTE_STOP_TRANSACTION (context_of (transaction_context u t)))"

definition canReadTransaction :: "acl \<Rightarrow> user_token \<Rightarrow> transaction option \<Rightarrow> bool res" where
  "canReadTransaction acl u t =
     (case t of None \<Rightarrow> Inr False
      | Some t \<Rightarrow> canPerformAction acl u Entity.TRANSACTION Action.READ
                    (context_of (transaction_context u t @ [(''sitesOwner'', Strs (ut_sitesOwner u))])))"

definition canUpdateTransaction :: "acl \<Rightarrow> user_token \<Rightarrow> transaction option \<Rightarrow> bool res" where
  "canUpdateTransaction acl u t =
     (case t of None \<Rightarrow> Inr False
      | Some t \<Rightarrow> canPerformAction acl u Entity.TRANSACTION Action.UPDATE
                    (context_of (transaction_context u t @ [(''sitesOwner'', Strs (ut_sitesOwner u))])))"

definition canPerformActionOnChargingStation ::
  "acl \<Rightarrow> user_token \<Rightarrow> Action \<Rightarrow> charging_station \<Rightarrow> auth_context option \<Rightarrow> bool res" where
  "canPerformActionOnChargingStation acl u action cs context =
     (let ctx = (case context of Some c \<Rightarrow> c
        | None \<Rightarrow> context_of [(''tagIDs'', Strs (ut_tagIDs u)), (''owner'', Str (ut_id u)),
            (''site'', if isComponentActiveFromToken u ORGANIZATION then opt_value (cs_siteID cs) else Null),
            (''sites'', Strs (ut_sites u)), (''sitesAdmin'', Strs (ut_sitesAdmin u))])
      in canPerformAction acl u Entity.CHARGING_STATION action ctx)"

definition canExportParams :: "acl \<Rightarrow> user_token \<Rightarrow> string option \<Rightarrow> bool res" where
  "canExportParams acl u siteID = canPerformAction acl u Entity.CHARGING_STATION Action.EXPORT
     (context_of [(''site'', opt_value siteID), (''sitesAdmin'', Strs (ut_sitesAdmin u))])"

section \<open>The checks that ask for one action\<close>

definition canListLoggings :: "acl \<Rightarrow> user_token \<Rightarrow> bool res" where
  "canListLoggings acl u = canPerformAction acl u Entity.LOGGING Action.LIST no_context"

definition canReadLog :: "acl \<Rightarrow> user_token \<Rightarrow> bool res" where
  "canReadLog acl u = canPerformAction acl u Entity.LOGGING Action.READ no_context"

definition canListTransactions :: "acl \<Rightarrow> user_token \<Rightarrow> bool res" where
  "canListTransactions acl u = canPerformAction acl u Entity.TRANSACTION Action.LIST no_context"

definition canListTransactionsInError :: "acl \<Rightarrow> user_token \<Rightarrow> bool res" where
  "canListTransactionsInError acl u = canPerformAction acl u Entity.TRANSACTION Action.IN_ERROR no_context"

definition canReadReport :: "acl \<Rightarrow> user_token \<Rightarrow> bool res" where
  "canReadReport acl u = canPerformAction acl u Entity.REPORT Action.READ no_context"

definition canDeleteTransaction :: "acl \<Rightarrow> user_token \<Rightarrow> bool res" where
  "canDeleteTransaction acl u = canPerformAction acl u Entity.TRANSACTION Action.DELETE no_context"

definition canListChargingStations :: "acl \<Rightarrow> user_token \<Rightarrow> bool res" where
  "canListChargingStations acl u = canPerformAction acl u Entity.CHARGING_STATION Action.LIST no_context"

definition canListChargingStationsInError :: "acl \<Rightarrow> user_token \<Rightarrow> bool res" where
  "canListChargingStationsInError acl u = canPerformAction acl u Entity.CHARGING_STATION Action.IN_ERROR no_context"

definition canReadChargingStation :: "acl \<Rightarrow> user_token \<Rightarrow> bool res" where
  "canReadChargingStation acl u = canPerformAction acl u Entity.CHARGING_STATION Action.READ no_context"

definition canUpdateChargingStation :: "acl \<Rightarrow> user_token \<Rightarrow> string option \<Rightarrow> bool res" where
  "canUpdateChargingStation acl u siteID = canPerformAction acl u Entity.CHARGING_STATION Action.UPDATE (context_of [(''site'', opt_value siteID), (''sitesAdmin'', Strs (ut_sitesAdmin u))])"

definition canDeleteChargingStation :: "acl \<Rightarrow> user_token \<Rightarrow> string option \<Rightarrow> bool res" where
  "canDeleteChargingStation acl u siteID = canPerformAction acl u Entity.CHARGING_STATION Action.DELETE (context_of [(''site'', opt_value siteID), (''sitesAdmin'', Strs (ut_sitesAdmin u))])"

definition canAssignUsersSites :: "acl_env \<Rightarrow> user_token \<Rightarrow> auth_context \<Rightarrow> auth_cache \<Rightarrow> auth_cache \<times> (auth_result \<times> auth_context) res" where
  "canAssignUsersSites env u = can env u Entity.USERS_SITES Action.ASSIGN"

definition canUnassignUsersSites :: "acl_env \<Rightarrow> user_token \<Rightarrow> auth_context \<Rightarrow> auth_cache \<Rightarrow> auth_cache \<times> (auth_result \<times> auth_context) res" where
  "canUnassignUsersSites env u = can env u Entity.USERS_SITES Action.UNASSIGN"

definition canListUsersSites :: "acl_env \<Rightarrow> user_token \<Rightarrow> auth_context \<Rightarrow> auth_cache \<Rightarrow> auth_cache \<times> (auth_result \<times> auth_context) res" where
  "canListUsersSites env u = can env u Entity.USERS_SITES Action.LIST"

definition canListUsers :: "acl_env \<Rightarrow> user_token \<Rightarrow> auth_context \<Rightarrow> auth_cache \<Rightarrow> auth_cache \<times> (auth_result \<times> auth_context) res" where
  "canListUsers env u = can env u Entity.USER Action.LIST"

definition canListUsersInErrors :: "acl_env \<Rightarrow> user_token \<Rightarrow> auth_context \<Rightarrow> auth_cache \<Rightarrow> auth_cache \<times> (auth_result \<times> auth_context) res" where
  "canListUsersInErrors env u = can env u Entity.USER Action.IN_ERROR"

definition canListTags :: "acl \<Rightarrow> user_token \<Rightarrow> bool res" where
  "canListTags acl u = canPerformAction acl u Entity.TAG Action.LIST no_context"

definition canReadTag :: "acl \<Rightarrow> user_token \<Rightarrow> bool res" where
  "canReadTag acl u = canPerformAction acl u Entity.TAG Action.READ no_context"

definition canDeleteTag :: "acl \<Rightarrow> user_token \<Rightarrow> bool res" where
  "canDeleteTag acl u = canPerformAction acl u Entity.TAG Action.DELETE no_context"

definition canCreateTag :: "acl \<Rightarrow> user_token \<Rightarrow> bool res" where
  "canCreateTag acl u = canPerformAction acl u Entity.TAG Action.CREATE no_context"

definition canUpdateTag :: "acl \<Rightarrow> user_token \<Rightarrow> bool res" where
  "canUpdateTag acl u = canPerformAction acl u Entity.TAG Action.UPDATE no_context"

definition canImportTags :: "acl_env \<Rightarrow> user_token \<Rightarrow> auth_context \<Rightarrow> auth_cache \<Rightarrow> auth_cache \<times> (auth_result \<times> auth_context) res" where
  "canImportTags env u = can env u Entity.TAG Action.IMPORT"

definition canExportTags :: "acl_env \<Rightarrow> user_token \<Rightarrow> auth_context \<Rightarrow> auth_cache \<Rightarrow> auth_cache \<times> (auth_result \<times> auth_context) res" where
  "canExportTags env u = can env u Entity.TAG Action.EXPORT"

definition canReadUser :: "acl_env \<Rightarrow> user_token \<Rightarrow> auth_context \<Rightarrow> auth_cache \<Rightarrow> auth_cache \<times> (auth_result \<times> auth_context) res" where
  "canReadUser env u = can env u Entity.USER Action.READ"

definition canCreateUser :: "acl_env \<Rightarrow> user_token \<Rightarrow> auth_context \<Rightarrow> auth_cache \<Rightarrow> auth_cache \<times> (auth_result \<times> auth_context) res" where
  "canCreateUser env u = can env u Entity.USER Action.CREATE"

definition canImportUsers :: "acl_env \<Rightarrow> user_token \<Rightarrow> auth_context \<Rightarrow> auth_cache \<Rightarrow> auth_cache \<times> (auth_result \<times> auth_context) res" where
  "canImportUsers env u = can env u Entity.USER Action.IMPORT"

definition canUpdateUser :: "acl_env \<Rightarrow> user_token \<Rightarrow> auth_context \<Rightarrow> auth_cache \<Rightarrow> auth_cache \<times> (auth_result \<times> auth_context) res" where
  "canUpdateUser env u = can env u Entity.USER Action.UPDATE"

definition canDeleteUser :: "acl_env \<Rightarrow> user_token \<Rightarrow> auth_context \<Rightarrow> auth_cache \<Rightarrow> auth_cache \<times> (auth_result \<times> auth_context) res" where
  "canDeleteUser env u = can env u Entity.USER Action.DELETE"

definition canListSites :: "acl_env \<Rightarrow> user_token \<Rightarrow> auth_context \<Rightarrow> auth_cache \<Rightarrow> auth_cache \<times> (auth_result \<times> auth_context) res" where
  "canListSites env u = can env u Entity.SITE Action.LIST"

definition canReadSite :: "acl_env \<Rightarrow> user_token \<Rightarrow> auth_context \<Rightarrow> auth_cache \<Rightarrow> auth_cache \<times> (auth_result \<times> auth_context) res" where
  "canReadSite env u = can env u Entity.SITE Action.READ"

definition canCreateSite :: "acl_env \<Rightarrow> user_token \<Rightarrow> auth_context \<Rightarrow> auth_cache \<Rightarrow> auth_cache \<times> (auth_result \<times> auth_context) res" where
  "canCreateSite env u = can env u Entity.SITE Action.CREATE"

definition canUpdateSite :: "acl_env \<Rightarrow> user_token \<Rightarrow> auth_context \<Rightarrow> auth_cache \<Rightarrow> auth_cache \<times> (auth_result \<times> auth_context) res" where
  "canUpdateSite env u = can env u Entity.SITE Action.UPDATE"

definition canDeleteSite :: "acl_env \<Rightarrow> user_token \<Rightarrow> auth_context \<Rightarrow> auth_cache \<Rightarrow> auth_cache \<times> (auth_result \<times> auth_context) res" where
  "canDeleteSite env u = can env u Entity.SITE Action.DELETE"

definition canListSettings :: "acl \<Rightarrow> user_token \<Rightarrow> bool res" where
  "canListSettings acl u = canPerformAction acl u Entity.SETTING Action.LIST no_context"

definition canReadSetting :: "acl \<Rightarrow> user_token \<Rightarrow> auth_context \<Rightarrow> bool res" where
  "canReadSetting acl u context = canPerformAction acl u Entity.SETTING Action.READ context"

definition canDeleteSetting :: "acl \<Rightarrow> user_token \<Rightarrow> bool res" where
  "canDeleteSetting acl u = canPerformAction acl u Entity.SETTING Action.DELETE no_context"

definition canCreateSetting :: "acl \<Rightarrow> user_token \<Rightarrow> bool res" where
  "canCreateSetting acl u = canPerformAction acl u Entity.SETTING Action.CREATE no_context"

definition canUpdateSetting :: "acl \<Rightarrow> user_token \<Rightarrow> bool res" where
  "canUpdateSetting acl u = canPerformAction acl u Entity.SETTING Action.UPDATE no_context"

definition canCreateRegistrationToken :: "acl \<Rightarrow> user_token \<Rightarrow> string option \<Rightarrow> bool res" where
  "canCreateRegistrationToken acl u siteID = canPerformAction acl u Entity.REGISTRATION_TOKEN Action.CREATE (context_of [(''site'', opt_value siteID), (''sites'', Strs (ut_sitesAdmin u))])"

definition canReadRegistrationToken :: "acl \<Rightarrow> user_token \<Rightarrow> string option \<Rightarrow> bool res" where
  "canReadRegistrationToken acl u siteID = canPerformAction acl u Entity.REGISTRATION_TOKEN Action.READ (context_of [(''site'', opt_value siteID), (''sites'', Strs (ut_sitesAdmin u))])"

definition canDeleteRegistrationToken :: "acl \<Rightarrow> user_token \<Rightarrow> string option \<Rightarrow> bool res" where
  "canDeleteRegistrationToken acl u siteID = canPerformAction acl u Entity.REGISTRATION_TOKEN Action.DELETE (context_of [(''site'', opt_value siteID), (''sites'', Strs (ut_sitesAdmin u))])"

definition canUpdateRegistrationToken :: "acl \<Rightarrow> user_token \<Rightarrow> string option \<Rightarrow> bool res" where
  "canUpdateRegistrationToken acl u siteID = canPerformAction acl u Entity.REGISTRATION_TOKEN Action.UPDATE (context_of [(''site'', opt_value siteID), (''sites'', Strs (ut_sitesAdmin u))])"

definition canListRegistrationTokens :: "acl \<Rightarrow> user_token \<Rightarrow> bool res" where
  "canListRegistrationTokens acl u = canPerformAction acl u Entity.REGISTRATION_TOKEN Action.LIST no_context"

definition canListOcpiEndpoints :: "acl \<Rightarrow> user_token \<Rightarrow> bool res" where
  "canListOcpiEndpoints acl u = canPerformAction acl u Entity.OCPI_ENDPOINT Action.LIST no_context"

definition canReadOcpiEndpoint :: "acl \<Rightarrow> user_token \<Rightarrow> bool res" where
  "canReadOcpiEndpoint acl u = canPerformAction acl u Entity.OCPI_ENDPOINT Action.READ no_context"

definition canDeleteOcpiEndpoint :: "acl \<Rightarrow> user_token \<Rightarrow> bool res" where
  "canDeleteOcpiEndpoint acl u = canPerformAction acl u Entity.OCPI_ENDPOINT Action.DELETE no_context"

definition canCreateOcpiEndpoint :: "acl \<Rightarrow> user_token \<Rightarrow> bool res" where
  "canCreateOcpiEndpoint acl u = canPerformAction acl u Entity.OCPI_ENDPOINT Action.CREATE no_context"

definition canUpdateOcpiEndpoint :: "acl \<Rightarrow> user_token \<Rightarrow> bool res" where
  "canUpdateOcpiEndpoint acl u = canPerformAction acl u Entity.OCPI_ENDPOINT Action.UPDATE no_context"

definition canPingOcpiEndpoint :: "acl \<Rightarrow> user_token \<Rightarrow> bool res" where
  "canPingOcpiEndpoint acl u = canPerformAction acl u Entity.OCPI_ENDPOINT Action.PING no_context"

definition canTriggerJobOcpiEndpoint :: "acl \<Rightarrow> user_token \<Rightarrow> bool res" where
  "canTriggerJobOcpiEndpoint acl u = canPerformAction acl u Entity.OCPI_ENDPOINT Action.TRIGGER_JOB no_context"

definition canRegisterOcpiEndpoint :: "acl \<Rightarrow> user_token \<Rightarrow> bool res" where
  "canRegisterOcpiEndpoint acl u = canPerformAction acl u Entity.OCPI_ENDPOINT Action.REGISTER no_context"

definition canGenerateLocalTokenOcpiEndpoint :: "acl \<Rightarrow> user_token \<Rightarrow> bool res" where
  "canGenerateLocalTokenOcpiEndpoint acl u = canPerformAction acl u Entity.OCPI_ENDPOINT Action.GENERATE_LOCAL_TOKEN no_context"

definition canListOicpEndpoints :: "acl \<Rightarrow> user_token \<Rightarrow> bool res" where
  "canListOicpEndpoints acl u = canPerformAction acl u Entity.OICP_ENDPOINT Action.LIST no_context"

definition canReadOicpEndpoint :: "acl \<Rightarrow> user_token \<Rightarrow> bool res" where
  "canReadOicpEndpoint acl u = canPerformAction acl u Entity.OICP_ENDPOINT Action.READ no_context"

definition canDeleteOicpEndpoint :: "acl \<Rightarrow> user_token \<Rightarrow> bool res" where
  "canDeleteOicpEndpoint acl u = canPerformAction acl u Entity.OICP_ENDPOINT Action.DELETE no_context"

definition canCreateOicpEndpoint :: "acl \<Rightarrow> user_token \<Rightarrow> bool res" where
  "canCreateOicpEndpoint acl u = canPerformAction acl u Entity.OICP_ENDPOINT Action.CREATE no_context"

definition canUpdateOicpEndpoint :: "acl \<Rightarrow> user_token \<Rightarrow> bool res" where
  "canUpdateOicpEndpoint acl u = canPerformAction acl u Entity.OICP_ENDPOINT Action.UPDATE no_context"

definition canPingOicpEndpoint :: "acl \<Rightarrow> user_token \<Rightarrow> bool res" where
  "canPingOicpEndpoint acl u = canPerformAction acl u Entity.OICP_ENDPOINT Action.PING no_context"

definition canTriggerJobOicpEndpoint :: "acl \<Rightarrow> user_token \<Rightarrow> bool res" where
  "canTriggerJobOicpEndpoint acl u = canPerformAction acl u Entity.OICP_ENDPOINT Action.TRIGGER_JOB no_context"

definition canRegisterOicpEndpoint :: "acl \<Rightarrow> user_token \<Rightarrow> bool res" where
  "canRegisterOicpEndpoint acl u = canPerformAction acl u Entity.OICP_ENDPOINT Action.REGISTER no_context"

definition canListChargingProfiles :: "acl \<Rightarrow> user_token \<Rightarrow> bool res" where
  "canListChargingProfiles acl u = canPerformAction acl u Entity.CHARGING_PROFILE Action.LIST no_context"

definition canReadChargingProfile :: "acl \<Rightarrow> user_token \<Rightarrow> string option \<Rightarrow> bool res" where
  "canReadChargingProfile acl u siteID = canPerformAction acl u Entity.CHARGING_PROFILE Action.READ (context_of [(''site'', opt_value siteID), (''sitesAdmin'', Strs (ut_sitesAdmin u))])"

definition canUpdateSiteArea :: "acl_env \<Rightarrow> user_token \<Rightarrow> auth_context \<Rightarrow> auth_cache \<Rightarrow> auth_cache \<times> (auth_result \<times> auth_context) res" where
  "canUpdateSiteArea env u = can env u Entity.SITE_AREA Action.UPDATE"

definition canListCarCatalogs :: "acl \<Rightarrow> user_token \<Rightarrow> bool res" where
  "canListCarCatalogs acl u = canPerformAction acl u Entity.CAR_CATALOG Action.LIST no_context"

definition canListCars :: "acl \<Rightarrow> user_token \<Rightarrow> bool res" where
  "canListCars acl u = canPerformAction acl u Entity.CAR Action.LIST no_context"

definition canSynchronizeCarCatalogs :: "acl_env \<Rightarrow> user_token \<Rightarrow> auth_context \<Rightarrow> auth_cache \<Rightarrow> auth_cache \<times> (auth_result \<times> auth_context) res" where
  "canSynchronizeCarCatalogs env u = can env u Entity.CAR_CATALOG Action.SYNCHRONIZE"

definition canUpdateCar :: "acl \<Rightarrow> user_token \<Rightarrow> bool res" where
  "canUpdateCar acl u = canPerformAction acl u Entity.CAR Action.UPDATE no_context"

definition canListAssets :: "acl \<Rightarrow> user_token \<Rightarrow> bool res" where
  "canListAssets acl u = canPerformAction acl u Entity.ASSET Action.LIST no_context"

definition canListAssetsInError :: "acl \<Rightarrow> user_token \<Rightarrow> bool res" where
  "canListAssetsInError acl u = canPerformAction acl u Entity.ASSET Action.IN_ERROR no_context"

definition canReadAsset :: "acl \<Rightarrow> user_token \<Rightarrow> bool res" where
  "canReadAsset acl u = canPerformAction acl u Entity.ASSET Action.READ no_context"

definition canCreateAsset :: "acl \<Rightarrow> user_token \<Rightarrow> bool res" where
  "canCreateAsset acl u = canPerformAction acl u Entity.ASSET Action.CREATE no_context"

definition canUpdateAsset :: "acl \<Rightarrow> user_token \<Rightarrow> bool res" where
  "canUpdateAsset acl u = canPerformAction acl u Entity.ASSET Action.UPDATE no_context"

definition canDeleteAsset :: "acl \<Rightarrow> user_token \<Rightarrow> bool res" where
  "canDeleteAsset acl u = canPerformAction acl u Entity.ASSET Action.DELETE no_context"

definition canListTenants :: "acl \<Rightarrow> user_token \<Rightarrow> bool res" where
  "canListTenants acl u = canPerformAction acl u Entity.TENANT Action.LIST no_context"

definition canReadTenant :: "acl \<Rightarrow> user_token \<Rightarrow> bool res" where
  "canReadTenant acl u = canPerformAction acl u Entity.TENANT Action.READ no_context"

definition canCreateTenant :: "acl \<Rightarrow> user_token \<Rightarrow> bool res" where
  "canCreateTenant acl u = canPerformAction acl u Entity.TENANT Action.CREATE no_context"

definition canUpdateTenant :: "acl \<Rightarrow> user_token \<Rightarrow> bool res" where
  "canUpdateTenant acl u = canPerformAction acl u Entity.TENANT Action.UPDATE no_context"

definition canDeleteTenant :: "acl \<Rightarrow> user_token \<Rightarrow> bool res" where
  "canDeleteTenant acl u = canPerformAction acl u Entity.TENANT Action.DELETE no_context"

definition canCreateConnection :: "acl \<Rightarrow> user_token \<Rightarrow> bool res" where
  "canCreateConnection acl u = canPerformAction acl u Entity.CONNECTION Action.CREATE no_context"

definition canDeleteConnection :: "acl \<Rightarrow> user_token \<Rightarrow> string option \<Rightarrow> bool res" where
  "canDeleteConnection acl u userID = canPerformAction acl u Entity.CONNECTION Action.DELETE (context_of [(''user'', opt_value userID), (''owner'', Str (ut_id u))])"

definition canReadConnection :: "acl \<Rightarrow> user_token \<Rightarrow> string option \<Rightarrow> bool res" where
  "canReadConnection acl u userID = canPerformAction acl u Entity.CONNECTION Action.READ (context_of [(''user'', opt_value userID), (''owner'', Str (ut_id u))])"

definition canListConnections :: "acl \<Rightarrow> user_token \<Rightarrow> bool res" where
  "canListConnections acl u = canPerformAction acl u Entity.CONNECTION Action.LIST no_context"

definition canReadPricingDefinition :: "acl \<Rightarrow> user_token \<Rightarrow> bool res" where
  "canReadPricingDefinition acl u = canPerformAction acl u Entity.PRICING_DEFINITION Action.READ no_context"

definition canUpdatePricingModel :: "acl \<Rightarrow> user_token \<Rightarrow> bool res" where
  "canUpdatePricingModel acl u = canPerformAction acl u Entity.PRICING_DEFINITION Action.UPDATE no_context"

definition canClearBillingTestData :: "acl \<Rightarrow> user_token \<Rightarrow> bool res" where
  "canClearBillingTestData acl u = canPerformAction acl u Entity.BILLING Action.CLEAR_BILLING_TEST_DATA no_context"

definition canCheckBillingConnection :: "acl \<Rightarrow> user_token \<Rightarrow> bool res" where
  "canCheckBillingConnection acl u = canPerformAction acl u Entity.BILLING Action.CHECK_CONNECTION no_context"

definition canSynchronizeUserBilling :: "acl_env \<Rightarrow> user_token \<Rightarrow> auth_context \<Rightarrow> auth_cache \<Rightarrow> auth_cache \<times> (auth_result \<times> auth_context) res" where
  "canSynchronizeUserBilling env u = can env u Entity.USER Action.SYNCHRONIZE_BILLING_USER"

definition canReadTaxesBilling :: "acl \<Rightarrow> user_token \<Rightarrow> bool res" where
  "canReadTaxesBilling acl u = canPerformAction acl u Entity.TAX Action.LIST no_context"

definition canListInvoicesBilling :: "acl \<Rightarrow> user_token \<Rightarrow> bool res" where
  "canListInvoicesBilling acl u = canPerformAction acl u Entity.INVOICE Action.LIST no_context"

definition canReadInvoiceBilling :: "acl \<Rightarrow> user_token \<Rightarrow> string option \<Rightarrow> bool res" where
  "canReadInvoiceBilling acl u userID = canPerformAction acl u Entity.INVOICE Action.READ (context_of [(''user'', opt_value userID), (''owner'', Str (ut_id u))])"

definition canSynchronizeInvoicesBilling :: "acl \<Rightarrow> user_token \<Rightarrow> bool res" where
  "canSynchronizeInvoicesBilling acl u = canPerformAction acl u Entity.INVOICE Action.SYNCHRONIZE no_context"

definition canCreateTransactionInvoice :: "acl \<Rightarrow> user_token \<Rightarrow> bool res" where
  "canCreateTransactionInvoice acl u = canPerformAction acl u Entity.INVOICE Action.CREATE no_context"

definition canDownloadInvoiceBilling :: "acl \<Rightarrow> user_token \<Rightarrow> string option \<Rightarrow> bool res" where
  "canDownloadInvoiceBilling acl u userID = canPerformAction acl u Entity.INVOICE Action.DOWNLOAD (context_of [(''user'', opt_value userID), (''owner'', Str (ut_id u))])"

definition canCheckAssetConnection :: "acl \<Rightarrow> user_token \<Rightarrow> bool res" where
  "canCheckAssetConnection acl u = canPerformAction acl u Entity.ASSET Action.CHECK_CONNECTION no_context"

definition canRetrieveAssetConsumption :: "acl \<Rightarrow> user_token \<Rightarrow> bool res" where
  "canRetrieveAssetConsumption acl u = canPerformAction acl u Entity.ASSET Action.RETRIEVE_CONSUMPTION no_context"

definition canReadAssetConsumption :: "acl \<Rightarrow> user_token \<Rightarrow> bool res" where
  "canReadAssetConsumption acl u = canPerformAction acl u Entity.ASSET Action.READ_CONSUMPTION no_context"

definition canCreateAssetConsumption :: "acl \<Rightarrow> user_token \<Rightarrow> bool res" where
  "canCreateAssetConsumption acl u = canPerformAction acl u Entity.ASSET Action.CREATE_CONSUMPTION no_context"

definition canEndUserReportError :: "acl_env \<Rightarrow> user_token \<Rightarrow> auth_context \<Rightarrow> auth_cache \<Rightarrow> auth_cache \<times> (auth_result \<times> auth_context) res" where
  "canEndUserReportError env u = can env u Entity.NOTIFICATION Action.CREATE"

definition canListPaymentMethod :: "acl \<Rightarrow> user_token \<Rightarrow> bool res" where
  "canListPaymentMethod acl u = canPerformAction acl u Entity.NOTIFICATION Action.CREATE no_context"

definition canCreatePaymentMethod :: "acl \<Rightarrow> user_token \<Rightarrow> string option \<Rightarrow> bool res" where
  "canCreatePaymentMethod acl u userID = canPerformAction acl u Entity.PAYMENT_METHOD Action.CREATE (context_of [(''user'', opt_value userID), (''owner'', Str (ut_id u))])"

definition canDeletePaymentMethod :: "acl \<Rightarrow> user_token \<Rightarrow> bool res" where
  "canDeletePaymentMethod acl u = canPerformAction acl u Entity.PAYMENT_METHOD Action.CREATE no_context"

definition canReadBillingSetting :: "acl \<Rightarrow> user_token \<Rightarrow> bool res" where
  "canReadBillingSetting acl u = canPerformAction acl u Entity.SETTING Action.READ no_context"

definition canUpdateBillingSetting :: "acl \<Rightarrow> user_token \<Rightarrow> bool res" where
  "canUpdateBillingSetting acl u = canPerformAction acl u Entity.SETTING Action.UPDATE no_context"

section \<open>Sites and roles of a user\<close>

fun uniq :: "'a list \<Rightarrow> 'a list" where
  "uniq [] = []"
| "uniq (x # xs) = x # filter (\<lambda>y. y \<noteq> x) (uniq xs)"

lemma set_uniq [simp]: "set (uniq xs) = set xs"
  by (induction xs) auto

definition getSiteAdminSiteIDs :: "directory \<Rightarrow> string \<Rightarrow> string list" where
  "getSiteAdminSiteIDs d userID = map us_siteID (getUserSites d userID True False)"

definition getSiteOwnerSiteIDs :: "directory \<Rightarrow> string \<Rightarrow> string list" where
  "getSiteOwnerSiteIDs d userID = map us_siteID (getUserSites d userID False True)"

definition getAssignedSiteIDs :: "directory \<Rightarrow> string \<Rightarrow> string list" where
  "getAssignedSiteIDs d userID = uniq (map si_id (getSites_of_user d userID))"

definition getAuthorizedSiteIDs :: "directory \<Rightarrow> user_token \<Rightarrow> string list option \<Rightarrow> string list option" where
  "getAuthorizedSiteIDs d u requested =
     (if \<not> isComponentActiveFromToken u ORGANIZATION then None
      else if isAdmin (ut_role u) then requested
      else
        (let assigned = getAssignedSiteIDs d (ut_id u) in
         if or_else requested [] = [] then (if assigned \<noteq> [] then Some assigned else None)
         else Some (filter (\<lambda>s. s \<in> set assigned) (or_else requested []))))"

definition getAuthorizedSiteAdminIDs :: "directory \<Rightarrow> user_token \<Rightarrow> string list option \<Rightarrow> string list option" where
  "getAuthorizedSiteAdminIDs d u requested =
     (if \<not> isComponentActiveFromToken u ORGANIZATION then None
      else if isDemo (ut_role u) then None
      else if isAdmin (ut_role u) then requested
      else
        (let sites = uniq (getSiteAdminSiteIDs d (ut_id u) @ getSiteOwnerSiteIDs d (ut_id u)) in
         if or_else requested [] = [] then Some sites
         else Some (filter (\<lambda>s. s \<in> set sites) (or_else requested []))))"

definition getAuthGroupsFromUser :: "UserRole \<Rightarrow> nat \<Rightarrow> nat \<Rightarrow> string list" where
  "getAuthGroupsFromUser role sitesAdminCount sitesOwnerCount =
     (case role of
        ADMIN \<Rightarrow> [''admin'']
      | SUPER_ADMIN \<Rightarrow> [''superAdmin'']
      | BASIC \<Rightarrow>
          (let roles = (if sitesAdminCount > 0 then [''siteAdmin''] else []) @ (if sitesOwnerCount > 0 then [''siteOwner''] else [])
           in if roles = [] then [''basic''] else roles)
      | DEMO \<Rightarrow> [''demo''])"

text \<open>The part of the token that access control reads; the sites of an administrator are left out.\<close>

definition buildUserToken :: "directory \<Rightarrow> account \<Rightarrow> tag list \<Rightarrow> user_token" where
  "buildUserToken d user tags =
     (let sites = getUserSites d (usr_id user) False False;
          mine = (if isAdmin (acc_role user) then [] else sites);
          admins = map us_siteID (filter us_siteAdmin mine);
          owners = map us_siteID (filter us_siteOwner sites)
      in \<lparr> ut_id = usr_id user, ut_role = acc_role user,
           ut_rolesACL = getAuthGroupsFromUser (acc_role user) (length admins) (length owners),
           ut_tagIDs = map tg_id (filter tg_active tags), ut_sitesAdmin = admins, ut_sitesOwner = owners,
           ut_sites = map us_siteID mine, ut_activeComponents = getTenantActiveComponents d \<rparr>)"

end
