(* ===== verification/Dynamic_Access.thy ===== *)
theory Dynamic_Access
  imports Authorizations
begin

text \<open>
  The dynamic part of access control: the filters, assertions and data sources under
  src/authorization/dynamic-*, their factory (src/authorization/DynamicAuthorizationFactory.ts), and the
  service that applies them to a request (src/server/rest/v1/service/AuthorizationService.ts). The
  filter object that a request carries through the checks is the record \<open>auth_filter\<close>; its lists are
  \<open>None\<close> while the property is \<^verbatim>\<open>undefined\<close>, and the queries ignore a list that is empty.
\<close>

section \<open>Names\<close>

datatype FilterName =
    ASSIGNED_SITES_COMPANIES | SITES_ADMIN | SITES_OWNER | ASSIGNED_SITES | OWN_USER | LOCAL_ISSUER | EXCLUDE_ACTION

datatype AssertName = POOL_CAR | OWN_USER_ASSERT | BASIC_USER | USER_MANDATORY | SITE_AREA_MANDATORY

definition filter_names :: "(string \<times> FilterName) list" where
  "filter_names = [(''AssignedSitesCompanies'', ASSIGNED_SITES_COMPANIES), (''SitesAdmin'', SITES_ADMIN),
     (''SitesOwner'', SITES_OWNER), (''AssignedSites'', ASSIGNED_SITES), (''OwnUser'', OWN_USER),
     (''ExcludeAction'', EXCLUDE_ACTION), (''LocalIssuer'', LOCAL_ISSUER)]"

definition assert_names :: "(string \<times> AssertName) list" where
  "assert_names = [(''PoolCar'', POOL_CAR), (''OwnUser'', OWN_USER_ASSERT), (''BasicUser'', BASIC_USER),
     (''UserMandatory'', USER_MANDATORY), (''SiteAreaMandatory'', SITE_AREA_MANDATORY)]"

text \<open>A name with a leading minus is the negation.\<close>

definition parse_name :: "(string \<times> 'n) list \<Rightarrow> string \<Rightarrow> ('n \<times> bool) option" where
  "parse_name names s =
     (case s of
        c # rest \<Rightarrow> if c = CHR ''-'' then map_option (\<lambda>n. (n, True)) (map_of names rest)
                     else map_option (\<lambda>n. (n, False)) (map_of names s)
      | [] \<Rightarrow> None)"

definition getDynamicFilter :: "string \<Rightarrow> (FilterName \<times> bool) option" where
  "getDynamicFilter = parse_name filter_names"

definition getDynamicAssert :: "string \<Rightarrow> (AssertName \<times> bool) option" where
  "getDynamicAssert = parse_name assert_names"

section \<open>Data sources\<close>

definition getAssignedSitesCompanyIDs :: "directory \<Rightarrow> string \<Rightarrow> string list" where
  "getAssignedSitesCompanyIDs d userID = uniq (map si_companyID (getSites_of_user d userID))"

definition assignedSitesCompanies_loadData :: "directory \<Rightarrow> user_token \<Rightarrow> string list" where
  "assignedSitesCompanies_loadData d u = getAssignedSitesCompanyIDs d (ut_id u)"

definition sitesAdmin_loadData :: "directory \<Rightarrow> user_token \<Rightarrow> string list" where
  "sitesAdmin_loadData d u = getSiteAdminSiteIDs d (ut_id u)"

definition sitesOwner_loadData :: "directory \<Rightarrow> user_token \<Rightarrow> string list" where
  "sitesOwner_loadData d u = getSiteOwnerSiteIDs d (ut_id u)"

definition assignedSites_loadData :: "directory \<Rightarrow> user_token \<Rightarrow> string list" where
  "assignedSites_loadData d u = getAssignedSiteIDs d (ut_id u)"

definition ownUser_loadData :: "user_token \<Rightarrow> string list" where
  "ownUser_loadData u = (if ut_id u = [] then [] else [ut_id u])"

text \<open>The filter by issuer has no data source, and that of the excluded actions is empty.\<close>

definition loadData :: "directory \<Rightarrow> user_token \<Rightarrow> FilterName \<Rightarrow> string list" where
  "loadData d u n =
     (case n of
        ASSIGNED_SITES_COMPANIES \<Rightarrow> assignedSitesCompanies_loadData d u
      | SITES_ADMIN \<Rightarrow> sitesAdmin_loadData d u
      | SITES_OWNER \<Rightarrow> sitesOwner_loadData d u
      | ASSIGNED_SITES \<Rightarrow> assignedSites_loadData d u
      | OWN_USER \<Rightarrow> ownUser_loadData u
      | LOCAL_ISSUER \<Rightarrow> []
      | EXCLUDE_ACTION \<Rightarrow> [])"

lemmas data_source_defs = loadData_def assignedSitesCompanies_loadData_def sitesAdmin_loadData_def sitesOwner_loadData_def
  assignedSites_loadData_def ownUser_loadData_def

section \<open>Filters and assertions\<close>

record auth_filter =
  af_siteIDs :: "string list option"
  af_companyIDs :: "string list option"
  af_userIDs :: "string list option"
  af_issuer :: "bool option"
  af_authorized :: bool
  af_dataSources :: "(FilterName \<times> string list) list"
  af_projectFields :: "string list"
  af_metadata :: "metadata option"

type_synonym request = "string \<Rightarrow> string option"

record entity_data =
  ed_issuer :: "bool option"
  ed_userID :: "string option"
  ed_siteAreaID :: "string option"
  ed_role :: "UserRole option"
  ed_carType :: "string option"

fun split_on :: "char \<Rightarrow> string \<Rightarrow> string list" where
  "split_on c [] = [[]]"
| "split_on c (x # xs) =
     (if x = c then [] # split_on c xs
      else case split_on c xs of [] \<Rightarrow> [[x]] | y # ys \<Rightarrow> (x # y) # ys)"

text \<open>The identifiers of the data source, narrowed by those the request asks for.\<close>

definition narrowed :: "string list \<Rightarrow> string option \<Rightarrow> string list" where
  "narrowed ids asked =
     (if ids = [] then []
      else case asked of None \<Rightarrow> ids | Some a \<Rightarrow> filter (\<lambda>i. i \<in> set ids) (split_on (CHR ''|'') a))"

definition allow_nonempty :: "string list \<Rightarrow> auth_filter \<Rightarrow> auth_filter" where
  "allow_nonempty ids f = (if ids \<noteq> [] then f\<lparr>af_authorized := True\<rparr> else f)"

definition assignedSitesCompanies_processFilter :: "string list \<Rightarrow> request \<Rightarrow> auth_filter \<Rightarrow> auth_filter" where
  "assignedSitesCompanies_processFilter ids extra f =
     (let companyIDs = narrowed ids (extra ''CompanyID'') in allow_nonempty companyIDs (f\<lparr>af_companyIDs := Some companyIDs\<rparr>))"

definition sitesAdmin_processFilter :: "string list \<Rightarrow> request \<Rightarrow> auth_filter \<Rightarrow> auth_filter" where
  "sitesAdmin_processFilter ids extra f =
     (let siteIDs = narrowed ids (extra ''SiteID'') in allow_nonempty siteIDs (f\<lparr>af_siteIDs := Some siteIDs\<rparr>))"

definition sitesOwner_processFilter :: "string list \<Rightarrow> request \<Rightarrow> auth_filter \<Rightarrow> auth_filter" where
  "sitesOwner_processFilter ids extra f =
     (let siteIDs = narrowed ids (extra ''SiteID'') in allow_nonempty siteIDs (f\<lparr>af_siteIDs := Some siteIDs\<rparr>))"

definition assignedSites_processFilter :: "string list \<Rightarrow> request \<Rightarrow> auth_filter \<Rightarrow> auth_filter" where
  "assignedSites_processFilter ids extra f =
     (let siteIDs = narrowed ids (extra ''SiteID'') in allow_nonempty siteIDs (f\<lparr>af_siteIDs := Some siteIDs\<rparr>))"

definition ownUser_processFilter :: "string list \<Rightarrow> request \<Rightarrow> auth_filter \<Rightarrow> auth_filter" where
  "ownUser_processFilter ids extra f =
     (let userIDs = narrowed ids (extra ''UserID'') in allow_nonempty userIDs (f\<lparr>af_userIDs := Some userIDs\<rparr>))"

definition localIssuer_processFilter :: "entity_data option \<Rightarrow> auth_filter \<Rightarrow> auth_filter" where
  "localIssuer_processFilter entity f =
     f\<lparr>af_issuer := Some True, af_authorized := or_else (Option.bind entity ed_issuer) True\<rparr>"

definition excludeAction_processFilter :: "auth_filter \<Rightarrow> auth_filter" where
  "excludeAction_processFilter f = f\<lparr>af_authorized := False\<rparr>"

definition processFilter :: "FilterName \<Rightarrow> string list \<Rightarrow> request \<Rightarrow> entity_data option \<Rightarrow> auth_filter \<Rightarrow> auth_filter" where
  "processFilter n ids extra entity f =
     (case n of
        ASSIGNED_SITES_COMPANIES \<Rightarrow> assignedSitesCompanies_processFilter ids extra f
      | SITES_ADMIN \<Rightarrow> sitesAdmin_processFilter ids extra f
      | SITES_OWNER \<Rightarrow> sitesOwner_processFilter ids extra f
      | ASSIGNED_SITES \<Rightarrow> assignedSites_processFilter ids extra f
      | OWN_USER \<Rightarrow> ownUser_processFilter ids extra f
      | LOCAL_ISSUER \<Rightarrow> localIssuer_processFilter entity f
      | EXCLUDE_ACTION \<Rightarrow> excludeAction_processFilter f)"

lemmas filter_defs = processFilter_def assignedSitesCompanies_processFilter_def sitesAdmin_processFilter_def sitesOwner_processFilter_def
  assignedSites_processFilter_def ownUser_processFilter_def localIssuer_processFilter_def excludeAction_processFilter_def

definition poolCar_processAssert :: "entity_data \<Rightarrow> bool" where
  "poolCar_processAssert e = (ed_carType e = Some ''PC'')"

definition ownUser_processAssert :: "user_token \<Rightarrow> entity_data \<Rightarrow> bool" where
  "ownUser_processAssert u e = (truthy_str (ed_userID e) \<and> ed_userID e = Some (ut_id u))"

definition basicUser_processAssert :: "entity_data \<Rightarrow> bool" where
  "basicUser_processAssert e = (ed_role e = Some BASIC)"

definition userMandatory_processAssert :: "entity_data \<Rightarrow> bool" where
  "userMandatory_processAssert e = truthy_str (ed_userID e)"

definition siteAreaMandatory_processAssert :: "entity_data \<Rightarrow> bool" where
  "siteAreaMandatory_processAssert e = truthy_str (ed_siteAreaID e)"

definition processAssert :: "AssertName \<Rightarrow> user_token \<Rightarrow> entity_data \<Rightarrow> bool" where
  "processAssert n u e =
     (case n of
        POOL_CAR \<Rightarrow> poolCar_processAssert e
      | OWN_USER_ASSERT \<Rightarrow> ownUser_processAssert u e
      | BASIC_USER \<Rightarrow> basicUser_processAssert e
      | USER_MANDATORY \<Rightarrow> userMandatory_processAssert e
      | SITE_AREA_MANDATORY \<Rightarrow> siteAreaMandatory_processAssert e)"

section \<open>Processing\<close>

definition FORBIDDEN :: exn where
  "FORBIDDEN = AppError 403 ''FORBIDDEN''"

definition initFilterDataSources :: "directory \<Rightarrow> user_token \<Rightarrow> FilterName \<Rightarrow> auth_filter \<Rightarrow> auth_filter \<times> string list" where
  "initFilterDataSources d u n f =
     (if n = LOCAL_ISSUER then (f, [])
      else case map_of (af_dataSources f) n of
        Some ids \<Rightarrow> (f, ids)
      | None \<Rightarrow> (let ids = loadData d u n in (f\<lparr>af_dataSources := (n, ids) # af_dataSources f\<rparr>, ids)))"

fun group_names :: "name_group \<Rightarrow> string list" where
  "group_names (One s) = [s]"
| "group_names (AnyOf ss) = ss"

text \<open>One group: its filters are alternatives.\<close>

fun any_filter ::
  "directory \<Rightarrow> user_token \<Rightarrow> request \<Rightarrow> entity_data option \<Rightarrow> string list \<Rightarrow> bool \<Rightarrow> auth_filter \<Rightarrow> (auth_filter \<times> bool) res" where
  "any_filter d u extra entity [] authorized f = Inr (f, authorized)"
| "any_filter d u extra entity (s # ss) authorized f =
     (case getDynamicFilter s of
        None \<Rightarrow> Inl FORBIDDEN
      | Some (n, negate) \<Rightarrow>
          (let (f1, ids) = initFilterDataSources d u n f;
               f2 = processFilter n ids extra entity f1;
               f3 = (if negate then f2\<lparr>af_authorized := \<not> af_authorized f2\<rparr> else f2)
           in any_filter d u extra entity ss (authorized \<or> af_authorized f3) f3))"

fun all_groups ::
  "directory \<Rightarrow> user_token \<Rightarrow> request \<Rightarrow> entity_data option \<Rightarrow> name_group list \<Rightarrow> auth_filter \<Rightarrow> auth_filter res" where
  "all_groups d u extra entity [] f = Inr f"
| "all_groups d u extra entity (g # gs) f =
     bindE (any_filter d u extra entity (group_names g) False (f\<lparr>af_authorized := False\<rparr>)) (\<lambda>(f1, authorized).
       let f2 = f1\<lparr>af_authorized := authorized\<rparr>
       in if authorized then all_groups d u extra entity gs f2 else Inr f2)"

definition processDynamicFilters ::
  "directory \<Rightarrow> user_token \<Rightarrow> request \<Rightarrow> entity_data option \<Rightarrow> auth_context \<Rightarrow> auth_filter \<Rightarrow> auth_filter res" where
  "processDynamicFilters d u extra entity ctx f = all_groups d u extra entity (or_else (ax_filters ctx) []) f"

fun any_assert :: "user_token \<Rightarrow> entity_data \<Rightarrow> string list \<Rightarrow> bool \<Rightarrow> bool res" where
  "any_assert u e [] authorized = Inr authorized"
| "any_assert u e (s # ss) authorized =
     (case getDynamicAssert s of
        None \<Rightarrow> Inl FORBIDDEN
      | Some (n, negate) \<Rightarrow> any_assert u e ss (authorized \<or> processAssert n u e \<noteq> negate))"

fun all_asserts :: "user_token \<Rightarrow> entity_data \<Rightarrow> name_group list \<Rightarrow> bool \<Rightarrow> bool res" where
  "all_asserts u e [] authorized = Inr authorized"
| "all_asserts u e (g # gs) authorized =
     bindE (any_assert u e (group_names g) False) (\<lambda>ok. if ok then all_asserts u e gs True else Inr False)"

definition processDynamicAsserts :: "user_token \<Rightarrow> auth_context \<Rightarrow> entity_data option \<Rightarrow> auth_filter \<Rightarrow> auth_filter res" where
  "processDynamicAsserts u ctx entity f =
     (case entity of
        None \<Rightarrow> Inr f
      | Some e \<Rightarrow> bindE (all_asserts u e (or_else (ax_asserts ctx) []) (af_authorized f)) (\<lambda>ok. Inr (f\<lparr>af_authorized := ok\<rparr>)))"

definition filterProjectFields :: "string list \<Rightarrow> string option \<Rightarrow> string list" where
  "filterProjectFields authFields httpProjectField =
     (let asked = (if truthy_str httpProjectField then split_on (CHR ''|'') (or_else httpProjectField []) else []);
          fields = (if asked \<noteq> [] then filter (\<lambda>x. x \<in> set asked) authFields else authFields)
      in filter (\<lambda>x. x \<noteq> ''*'') fields)"

definition no_filters :: auth_filter where
  "no_filters = \<lparr> af_siteIDs = None, af_companyIDs = None, af_userIDs = None, af_issuer = None, af_authorized = False,
     af_dataSources = [], af_projectFields = [], af_metadata = None \<rparr>"

section \<open>The two entry points\<close>

definition canPerformAuthorizationAction ::
  "acl_env \<Rightarrow> directory \<Rightarrow> user_token \<Rightarrow> Entity \<Rightarrow> Action \<Rightarrow> request \<Rightarrow> entity_data option \<Rightarrow> bool \<Rightarrow> auth_filter \<Rightarrow> auth_cache \<Rightarrow>
   auth_cache \<times> auth_filter res" where
  "canPerformAuthorizationAction env d u entity action filteredRequest entityData failsWithException f cache =
     (case can env u entity action no_context cache of
        (cache', Inl e) \<Rightarrow> (cache', Inl e)
      | (cache', Inr (result, ctx)) \<Rightarrow>
          (cache',
           if \<not> ar_authorized result then
             (if failsWithException then Inl FORBIDDEN else Inr (f\<lparr>af_authorized := False\<rparr>))
           else
             bindE (processDynamicFilters d u filteredRequest entityData ctx (f\<lparr>af_authorized := True\<rparr>)) (\<lambda>f1.
             bindE (if af_authorized f1 then
                      processDynamicAsserts u ctx entityData (f1\<lparr>af_metadata := ax_metadata (ar_context result)\<rparr>)
                    else Inr f1) (\<lambda>f2.
               Inr (f2\<lparr>af_projectFields := filterProjectFields (ar_fields result) (filteredRequest ''ProjectFields'')\<rparr>)))))"

definition checkAndGetEntityAuthorizations ::
  "acl_env \<Rightarrow> directory \<Rightarrow> Entity \<Rightarrow> user_token \<Rightarrow> request \<Rightarrow> request \<Rightarrow> Action \<Rightarrow> entity_data option \<Rightarrow> auth_cache \<Rightarrow>
   auth_cache \<times> auth_filter res" where
  "checkAndGetEntityAuthorizations env d entity u filteredRequest entityID action entityData cache =
     (case can env u entity action no_context cache of
        (cache', Inl e) \<Rightarrow> (cache', Inl e)
      | (cache', Inr (result, ctx)) \<Rightarrow>
          (cache',
           if \<not> ar_authorized result then Inl FORBIDDEN
           else
             bindE (processDynamicFilters d u entityID entityData ctx (no_filters\<lparr>af_authorized := True\<rparr>)) (\<lambda>f1.
               if \<not> af_authorized f1 then Inl FORBIDDEN
               else
                 bindE (processDynamicAsserts u ctx entityData (f1\<lparr>af_metadata := ax_metadata (ar_context result)\<rparr>)) (\<lambda>f2.
                   if \<not> af_authorized f2 then Inl FORBIDDEN
                   else Inr (f2\<lparr>af_projectFields := filterProjectFields (ar_fields result) (filteredRequest ''ProjectFields'')\<rparr>)))))"

end
