(* ===== verification/Access_Service.thy ===== *)
theory Access_Service
  imports Dynamic_Access Handler_Monad
begin

text \<open>
  The services of src/server/rest/v1/service/AuthorizationService.ts: for each kind of object, the
  check of a request on one object, the check of a request for a list, and the actions that are
  offered on the objects returned (the properties \<^verbatim>\<open>can...\<close> of an object). The checks share the cache
  of the decisions, so they are handlers on it; the filter object travels with the objects of one
  request, and every check of an action overwrites parts of it.
\<close>

section \<open>Objects and their actions\<close>

text \<open>
  What the service reads of an object. \<open>it_sites\<close> are the sites that a query joins to it: the site
  of its site area, or the sites of its user.
\<close>

record item =
  it_id :: string
  it_data :: entity_data
  it_siteID :: "string option"
  it_companyID :: "string option"
  it_sites :: "string list"
  it_visualID :: "string option"
  it_dynamicAsset :: bool
  it_usesPushAPI :: bool
  it_deleted :: bool

type_synonym flags = "(string \<times> bool) list"

definition canPerform_flag :: "flags \<Rightarrow> Action \<Rightarrow> bool" where
  "canPerform_flag authActions action = or_else (map_of authActions (''can'' @ action_name action)) False"

definition removeCanPropertiesWithFalseValue :: "flags \<Rightarrow> flags" where
  "removeCanPropertiesWithFalseValue = filter (\<lambda>(k, v). \<not> (take 3 k = ''can'' \<and> \<not> v))"

definition no_request :: request where
  "no_request = (\<lambda>_. None)"

definition id_request :: "string \<Rightarrow> string option \<Rightarrow> request" where
  "id_request name i = (if truthy_str i then no_request(name := i) else no_request)"

text \<open>One action that is asked for, with the property that records the answer.\<close>

record question =
  qu_flag :: string
  qu_entity :: Entity
  qu_action :: Action
  qu_request :: request
  qu_data :: "entity_data option"
  qu_if :: bool

definition ask :: "string \<Rightarrow> Entity \<Rightarrow> Action \<Rightarrow> question" where
  "ask flag e a = \<lparr> qu_flag = flag, qu_entity = e, qu_action = a, qu_request = no_request, qu_data = None, qu_if = True \<rparr>"

definition ask_of_if :: "bool \<Rightarrow> item \<Rightarrow> string \<Rightarrow> Entity \<Rightarrow> Action \<Rightarrow> (string \<times> string option) list \<Rightarrow> question" where
  "ask_of_if b x flag e a kvs =
     \<lparr> qu_flag = flag, qu_entity = e, qu_action = a, qu_request = (\<lambda>k. or_else (map_of kvs k) None),
       qu_data = Some (it_data x), qu_if = b \<rparr>"

definition ask_of :: "item \<Rightarrow> string \<Rightarrow> Entity \<Rightarrow> Action \<Rightarrow> (string \<times> string option) list \<Rightarrow> question" where
  "ask_of = ask_of_if True"

fun add_actions ::
  "acl_env \<Rightarrow> directory \<Rightarrow> user_token \<Rightarrow> question list \<Rightarrow> flags \<Rightarrow> auth_filter \<Rightarrow> (auth_cache, flags \<times> auth_filter) handler" where
  "add_actions env d u [] fs f = returnS (fs, f)"
| "add_actions env d u (q # qs) fs f =
     (if qu_if q then
        bindS (canPerformAuthorizationAction env d u (qu_entity q) (qu_action q) (qu_request q) (qu_data q) False f) (\<lambda>f'.
          add_actions env d u qs (fs @ [(qu_flag q, af_authorized f')]) f')
      else add_actions env d u qs (fs @ [(qu_flag q, False)]) f)"

definition drop_false :: "flags \<times> auth_filter \<Rightarrow> (auth_cache, flags \<times> auth_filter) handler" where
  "drop_false r = returnS (removeCanPropertiesWithFalseValue (fst r), snd r)"

text \<open>A list: its metadata and actions, and the actions of its objects.\<close>

record listing =
  ls_metadata :: "metadata option"
  ls_flags :: flags
  ls_items :: "flags list"
  ls_filter :: auth_filter

fun each_item ::
  "(item \<Rightarrow> auth_filter \<Rightarrow> (auth_cache, flags \<times> auth_filter) handler) \<Rightarrow> item list \<Rightarrow> auth_filter \<Rightarrow> (auth_cache, flags list \<times> auth_filter) handler" where
  "each_item step [] f = returnS ([], f)"
| "each_item step (x # xs) f =
     bindS (step x f) (\<lambda>(fs, f1). bindS (each_item step xs f1) (\<lambda>(rest, f2). returnS (fs # rest, f2)))"

definition list_actions ::
  "(auth_filter \<Rightarrow> (auth_cache, flags \<times> auth_filter) handler) \<Rightarrow> (item \<Rightarrow> auth_filter \<Rightarrow> (auth_cache, flags \<times> auth_filter) handler) \<Rightarrow>
   item list \<Rightarrow> auth_filter \<Rightarrow> (auth_cache, listing) handler" where
  "list_actions own step xs f =
     bindS (own f) (\<lambda>(fs, f1). bindS (each_item step xs f1) (\<lambda>(items, f2).
       returnS \<lparr> ls_metadata = af_metadata f, ls_flags = fs, ls_items = items, ls_filter = f2 \<rparr>))"

section \<open>The checks of single objects and of lists\<close>

definition checkAndGetSiteAuthorizations ::
  "acl_env \<Rightarrow> directory \<Rightarrow> user_token \<Rightarrow> request \<Rightarrow> Action \<Rightarrow> entity_data option \<Rightarrow> (auth_cache, auth_filter) handler" where
  "checkAndGetSiteAuthorizations env d u filteredRequest =
     checkAndGetEntityAuthorizations env d Entity.SITE u filteredRequest (id_request ''SiteID'' (filteredRequest ''ID''))"

definition checkAndGetLoggingAuthorizations ::
  "acl_env \<Rightarrow> directory \<Rightarrow> user_token \<Rightarrow> request \<Rightarrow> Action \<Rightarrow> entity_data option \<Rightarrow> (auth_cache, auth_filter) handler" where
  "checkAndGetLoggingAuthorizations env d u filteredRequest =
     checkAndGetEntityAuthorizations env d Entity.LOGGING u filteredRequest (id_request ''LogID'' (filteredRequest ''ID''))"

definition addSiteAuthorizations ::
  "acl_env \<Rightarrow> directory \<Rightarrow> user_token \<Rightarrow> item \<Rightarrow> auth_filter \<Rightarrow> (auth_cache, flags \<times> auth_filter) handler" where
  "addSiteAuthorizations env d u x f =
     bindS (add_actions env d u
       [ask_of x ''canDelete'' Entity.SITE Action.DELETE [(''SiteID'', Some (it_id x))],
        ask_of x ''canUpdate'' Entity.SITE Action.UPDATE [(''SiteID'', Some (it_id x))],
        ask_of x ''canMaintainPricingDefinitions'' Entity.SITE Action.MAINTAIN_PRICING_DEFINITIONS [(''SiteID'', Some (it_id x))],
        ask_of x ''canExportOCPPParams'' Entity.SITE_AREA Action.EXPORT_OCPP_PARAMS [(''SiteID'', Some (it_id x))],
        ask_of x ''canGenerateQrCode'' Entity.SITE_AREA Action.GENERATE_QR [(''SiteID'', Some (it_id x))],
        ask_of x ''canAssignUsers'' Entity.USERS_SITES Action.ASSIGN [(''SiteID'', Some (it_id x))],
        ask_of x ''canUnassignUsers'' Entity.USERS_SITES Action.UNASSIGN [(''SiteID'', Some (it_id x))],
        ask_of x ''canReadUsers'' Entity.USERS_SITES Action.READ [(''SiteID'', Some (it_id x))]] [(''canRead'', True)] f) drop_false"

definition addSitesAuthorizations ::
  "acl_env \<Rightarrow> directory \<Rightarrow> user_token \<Rightarrow> item list \<Rightarrow> auth_filter \<Rightarrow> (auth_cache, listing) handler" where
  "addSitesAuthorizations env d u xs f =
     list_actions (add_actions env d u
       [ask ''canCreate'' Entity.SITE Action.CREATE] []) (addSiteAuthorizations env d u) xs f"

definition addLogAuthorizations ::
  "acl_env \<Rightarrow> directory \<Rightarrow> user_token \<Rightarrow> item \<Rightarrow> auth_filter \<Rightarrow> (auth_cache, flags \<times> auth_filter) handler" where
  "addLogAuthorizations env d u x f = returnS ([(''canRead'', True)], f)"

definition addLogsAuthorizations ::
  "acl_env \<Rightarrow> directory \<Rightarrow> user_token \<Rightarrow> item list \<Rightarrow> auth_filter \<Rightarrow> (auth_cache, listing) handler" where
  "addLogsAuthorizations env d u xs f =
     list_actions (add_actions env d u
       [ask ''canExport'' Entity.LOGGING Action.EXPORT] []) (addLogAuthorizations env d u) xs f"

definition checkAndGetSitesAuthorizations ::
  "acl_env \<Rightarrow> directory \<Rightarrow> user_token \<Rightarrow> request \<Rightarrow> (auth_cache, auth_filter) handler" where
  "checkAndGetSitesAuthorizations env d u filteredRequest =
     canPerformAuthorizationAction env d u Entity.SITE Action.LIST filteredRequest None True no_filters"

definition checkAndGetLoggingsAuthorizations ::
  "acl_env \<Rightarrow> directory \<Rightarrow> user_token \<Rightarrow> request \<Rightarrow> (auth_cache, auth_filter) handler" where
  "checkAndGetLoggingsAuthorizations env d u filteredRequest =
     canPerformAuthorizationAction env d u Entity.LOGGING Action.LIST filteredRequest None True no_filters"

definition checkAndGetSiteUsersAuthorizations ::
  "acl_env \<Rightarrow> directory \<Rightarrow> user_token \<Rightarrow> request \<Rightarrow> (auth_cache, auth_filter) handler" where
  "checkAndGetSiteUsersAuthorizations env d u filteredRequest =
     canPerformAuthorizationAction env d u Entity.USERS_SITES Action.LIST filteredRequest None True no_filters"

definition checkAndGetUsersInErrorAuthorizations ::
  "acl_env \<Rightarrow> directory \<Rightarrow> user_token \<Rightarrow> request \<Rightarrow> (auth_cache, auth_filter) handler" where
  "checkAndGetUsersInErrorAuthorizations env d u filteredRequest =
     canPerformAuthorizationAction env d u Entity.USER Action.IN_ERROR filteredRequest None True no_filters"

definition addUserAuthorizations ::
  "acl_env \<Rightarrow> directory \<Rightarrow> user_token \<Rightarrow> item \<Rightarrow> auth_filter \<Rightarrow> (auth_cache, flags \<times> auth_filter) handler" where
  "addUserAuthorizations env d u x f =
     bindS (add_actions env d u
       [ask_of x ''canUpdate'' Entity.USER Action.UPDATE [(''UserID'', Some (it_id x))],
        ask_of x ''canDelete'' Entity.USER Action.DELETE [(''UserID'', Some (it_id x))]] [(''canRead'', True)] f) drop_false"

definition addUsersAuthorizations ::
  "acl_env \<Rightarrow> directory \<Rightarrow> user_token \<Rightarrow> item list \<Rightarrow> auth_filter \<Rightarrow> (auth_cache, listing) handler" where
  "addUsersAuthorizations env d u xs f =
     list_actions (add_actions env d u
       [ask ''canCreate'' Entity.USER Action.CREATE,
        ask ''canExport'' Entity.USER Action.EXPORT,
        ask ''canImport'' Entity.USER Action.IMPORT] []) (addUserAuthorizations env d u) xs f"

definition checkAndGetUsersAuthorizations ::
  "acl_env \<Rightarrow> directory \<Rightarrow> user_token \<Rightarrow> request \<Rightarrow> (auth_cache, auth_filter) handler" where
  "checkAndGetUsersAuthorizations env d u filteredRequest =
     canPerformAuthorizationAction env d u Entity.USER Action.LIST filteredRequest None True no_filters"

definition checkAndGetAssetsAuthorizations ::
  "acl_env \<Rightarrow> directory \<Rightarrow> user_token \<Rightarrow> Action \<Rightarrow> request \<Rightarrow> (auth_cache, auth_filter) handler" where
  "checkAndGetAssetsAuthorizations env d u authAction filteredRequest =
     canPerformAuthorizationAction env d u Entity.ASSET authAction filteredRequest None True no_filters"

definition checkAndGetAssetAuthorizations ::
  "acl_env \<Rightarrow> directory \<Rightarrow> user_token \<Rightarrow> request \<Rightarrow> Action \<Rightarrow> entity_data option \<Rightarrow> (auth_cache, auth_filter) handler" where
  "checkAndGetAssetAuthorizations env d u filteredRequest =
     checkAndGetEntityAuthorizations env d Entity.ASSET u filteredRequest (id_request ''AssetID'' (filteredRequest ''ID''))"

definition addAssetAuthorizations ::
  "acl_env \<Rightarrow> directory \<Rightarrow> user_token \<Rightarrow> item \<Rightarrow> auth_filter \<Rightarrow> (auth_cache, flags \<times> auth_filter) handler" where
  "addAssetAuthorizations env d u x f =
     bindS (add_actions env d u
       [ask_of x ''canDelete'' Entity.ASSET Action.DELETE [],
        ask_of x ''canUpdate'' Entity.ASSET Action.UPDATE [],
        ask_of x ''canCheckConnection'' Entity.ASSET Action.CHECK_CONNECTION [],
        ask_of_if (it_dynamicAsset x \<and> \<not> it_usesPushAPI x) x ''canRetrieveConsumption'' Entity.ASSET Action.RETRIEVE_CONSUMPTION [],
        ask_of_if (it_dynamicAsset x) x ''canReadConsumption'' Entity.ASSET Action.READ_CONSUMPTION [],
        ask_of_if (it_dynamicAsset x \<and> it_usesPushAPI x) x ''canCreateConsumption'' Entity.ASSET Action.CREATE_CONSUMPTION []] [(''canRead'', True)] f) drop_false"

definition addAssetsAuthorizations ::
  "acl_env \<Rightarrow> directory \<Rightarrow> user_token \<Rightarrow> item list \<Rightarrow> auth_filter \<Rightarrow> (auth_cache, listing) handler" where
  "addAssetsAuthorizations env d u xs f =
     list_actions (add_actions env d u
       [ask ''canCreate'' Entity.ASSET Action.CREATE,
        ask ''canListSites'' Entity.SITE Action.LIST,
        ask ''canListSiteAreas'' Entity.SITE_AREA Action.LIST] []) (addAssetAuthorizations env d u) xs f"

definition checkAndGetUserAuthorizations ::
  "acl_env \<Rightarrow> directory \<Rightarrow> user_token \<Rightarrow> request \<Rightarrow> Action \<Rightarrow> entity_data option \<Rightarrow> (auth_cache, auth_filter) handler" where
  "checkAndGetUserAuthorizations env d u filteredRequest =
     checkAndGetEntityAuthorizations env d Entity.USER u filteredRequest (id_request ''UserID'' (filteredRequest ''ID''))"

definition checkAndGetTagsAuthorizations ::
  "acl_env \<Rightarrow> directory \<Rightarrow> user_token \<Rightarrow> request \<Rightarrow> (auth_cache, auth_filter) handler" where
  "checkAndGetTagsAuthorizations env d u filteredRequest =
     canPerformAuthorizationAction env d u Entity.TAG Action.LIST filteredRequest None True no_filters"

definition checkAndGetTagAuthorizations ::
  "acl_env \<Rightarrow> directory \<Rightarrow> user_token \<Rightarrow> request \<Rightarrow> Action \<Rightarrow> entity_data option \<Rightarrow> (auth_cache, auth_filter) handler" where
  "checkAndGetTagAuthorizations env d u filteredRequest =
     checkAndGetEntityAuthorizations env d Entity.TAG u filteredRequest (id_request ''TagID'' (filteredRequest ''ID''))"

definition addTagAuthorizations ::
  "acl_env \<Rightarrow> directory \<Rightarrow> user_token \<Rightarrow> item \<Rightarrow> auth_filter \<Rightarrow> (auth_cache, flags \<times> auth_filter) handler" where
  "addTagAuthorizations env d u x f =
     bindS (add_actions env d u
       [ask_of x ''canDelete'' Entity.TAG Action.DELETE [(''TagID'', Some (it_id x))],
        ask_of x ''canUpdate'' Entity.TAG Action.UPDATE [(''TagID'', Some (it_id x))],
        ask_of x ''canUpdateByVisualID'' Entity.TAG Action.UPDATE_BY_VISUAL_ID [(''TagID'', Some (it_id x))],
        ask_of x ''canUnassign'' Entity.TAG Action.UNASSIGN [(''TagID'', Some (it_id x))],
        ask_of x ''canAssign'' Entity.TAG Action.ASSIGN [(''TagID'', Some (it_id x))],
        ask ''canListUsers'' Entity.USER Action.LIST] [(''canRead'', True)] f) drop_false"

definition addTagsAuthorizations ::
  "acl_env \<Rightarrow> directory \<Rightarrow> user_token \<Rightarrow> item list \<Rightarrow> auth_filter \<Rightarrow> (auth_cache, listing) handler" where
  "addTagsAuthorizations env d u xs f =
     list_actions (add_actions env d u
       [ask ''canCreate'' Entity.TAG Action.CREATE,
        ask ''canAssign'' Entity.TAG Action.ASSIGN,
        ask ''canDelete'' Entity.TAG Action.DELETE,
        ask ''canImport'' Entity.TAG Action.IMPORT,
        ask ''canExport'' Entity.TAG Action.EXPORT,
        ask ''canUnassign'' Entity.TAG Action.UNASSIGN,
        ask ''canListUsers'' Entity.USER Action.LIST,
        ask ''canListSources'' Entity.SOURCE Action.LIST] []) (addTagAuthorizations env d u) xs f"

definition checkAndGetRegistrationTokenAuthorizations ::
  "acl_env \<Rightarrow> directory \<Rightarrow> user_token \<Rightarrow> request \<Rightarrow> Action \<Rightarrow> entity_data option \<Rightarrow> (auth_cache, auth_filter) handler" where
  "checkAndGetRegistrationTokenAuthorizations env d u filteredRequest =
     checkAndGetEntityAuthorizations env d Entity.REGISTRATION_TOKEN u filteredRequest (id_request ''registrationTokenID'' (filteredRequest ''ID''))"

definition checkAndGetRegistrationTokensAuthorizations ::
  "acl_env \<Rightarrow> directory \<Rightarrow> user_token \<Rightarrow> request \<Rightarrow> (auth_cache, auth_filter) handler" where
  "checkAndGetRegistrationTokensAuthorizations env d u filteredRequest =
     canPerformAuthorizationAction env d u Entity.REGISTRATION_TOKEN Action.LIST filteredRequest None True no_filters"

definition addRegistrationTokenAuthorizations ::
  "acl_env \<Rightarrow> directory \<Rightarrow> user_token \<Rightarrow> item \<Rightarrow> auth_filter \<Rightarrow> (auth_cache, flags \<times> auth_filter) handler" where
  "addRegistrationTokenAuthorizations env d u x f =
     bindS (add_actions env d u
       [ask_of x ''canDelete'' Entity.REGISTRATION_TOKEN Action.DELETE [(''RegistrationTokenID'', Some (it_id x))],
        ask_of x ''canUpdate'' Entity.REGISTRATION_TOKEN Action.UPDATE [(''RegistrationTokenID'', Some (it_id x))],
        ask_of x ''canRevoke'' Entity.REGISTRATION_TOKEN Action.REVOKE [(''RegistrationTokenID'', Some (it_id x))]] [(''canRead'', True)] f) drop_false"

definition addRegistrationTokensAuthorizations ::
  "acl_env \<Rightarrow> directory \<Rightarrow> user_token \<Rightarrow> item list \<Rightarrow> auth_filter \<Rightarrow> (auth_cache, listing) handler" where
  "addRegistrationTokensAuthorizations env d u xs f =
     list_actions (add_actions env d u
       [ask ''canCreate'' Entity.REGISTRATION_TOKEN Action.CREATE] []) (addRegistrationTokenAuthorizations env d u) xs f"

definition checkAndGetCompaniesAuthorizations ::
  "acl_env \<Rightarrow> directory \<Rightarrow> user_token \<Rightarrow> request \<Rightarrow> (auth_cache, auth_filter) handler" where
  "checkAndGetCompaniesAuthorizations env d u filteredRequest =
     canPerformAuthorizationAction env d u Entity.COMPANY Action.LIST filteredRequest None True no_filters"

definition addCompanyAuthorizations ::
  "acl_env \<Rightarrow> directory \<Rightarrow> user_token \<Rightarrow> item \<Rightarrow> auth_filter \<Rightarrow> (auth_cache, flags \<times> auth_filter) handler" where
  "addCompanyAuthorizations env d u x f =
     bindS (add_actions env d u
       [ask_of x ''canDelete'' Entity.COMPANY Action.DELETE [(''CompanyID'', Some (it_id x))],
        ask_of x ''canUpdate'' Entity.COMPANY Action.UPDATE [(''CompanyID'', Some (it_id x))]] [(''canRead'', True)] f) drop_false"

definition addCompaniesAuthorizations ::
  "acl_env \<Rightarrow> directory \<Rightarrow> user_token \<Rightarrow> item list \<Rightarrow> auth_filter \<Rightarrow> (auth_cache, listing) handler" where
  "addCompaniesAuthorizations env d u xs f =
     list_actions (add_actions env d u
       [ask ''canCreate'' Entity.COMPANY Action.CREATE] []) (addCompanyAuthorizations env d u) xs f"

definition checkAndGetCompanyAuthorizations ::
  "acl_env \<Rightarrow> directory \<Rightarrow> user_token \<Rightarrow> request \<Rightarrow> Action \<Rightarrow> entity_data option \<Rightarrow> (auth_cache, auth_filter) handler" where
  "checkAndGetCompanyAuthorizations env d u filteredRequest =
     checkAndGetEntityAuthorizations env d Entity.COMPANY u filteredRequest (id_request ''CompanyID'' (filteredRequest ''ID''))"

definition checkAndGetPricingDefinitionsAuthorizations ::
  "acl_env \<Rightarrow> directory \<Rightarrow> user_token \<Rightarrow> request \<Rightarrow> (auth_cache, auth_filter) handler" where
  "checkAndGetPricingDefinitionsAuthorizations env d u filteredRequest =
     canPerformAuthorizationAction env d u Entity.PRICING_DEFINITION Action.LIST filteredRequest None True no_filters"

definition addPricingDefinitionAuthorizations ::
  "acl_env \<Rightarrow> directory \<Rightarrow> user_token \<Rightarrow> item \<Rightarrow> auth_filter \<Rightarrow> (auth_cache, flags \<times> auth_filter) handler" where
  "addPricingDefinitionAuthorizations env d u x f =
     bindS (add_actions env d u
       [ask_of x ''canRead'' Entity.PRICING_DEFINITION Action.READ [(''CompanyID'', Some (it_id x))],
        ask_of x ''canDelete'' Entity.PRICING_DEFINITION Action.DELETE [(''CompanyID'', Some (it_id x))],
        ask_of x ''canUpdate'' Entity.PRICING_DEFINITION Action.UPDATE [(''CompanyID'', Some (it_id x))]] [] f) drop_false"

definition addPricingDefinitionsAuthorizations ::
  "acl_env \<Rightarrow> directory \<Rightarrow> user_token \<Rightarrow> item list \<Rightarrow> auth_filter \<Rightarrow> (auth_cache, listing) handler" where
  "addPricingDefinitionsAuthorizations env d u xs f =
     list_actions (add_actions env d u
       [ask ''canCreate'' Entity.PRICING_DEFINITION Action.CREATE] []) (addPricingDefinitionAuthorizations env d u) xs f"

definition checkAndGetPricingDefinitionAuthorizations ::
  "acl_env \<Rightarrow> directory \<Rightarrow> user_token \<Rightarrow> request \<Rightarrow> Action \<Rightarrow> entity_data option \<Rightarrow> (auth_cache, auth_filter) handler" where
  "checkAndGetPricingDefinitionAuthorizations env d u filteredRequest =
     checkAndGetEntityAuthorizations env d Entity.PRICING_DEFINITION u filteredRequest (id_request ''PricingID'' (filteredRequest ''ID''))"

definition checkAndGetSiteAreaAuthorizations ::
  "acl_env \<Rightarrow> directory \<Rightarrow> user_token \<Rightarrow> request \<Rightarrow> Action \<Rightarrow> entity_data option \<Rightarrow> (auth_cache, auth_filter) handler" where
  "checkAndGetSiteAreaAuthorizations env d u filteredRequest =
     checkAndGetEntityAuthorizations env d Entity.SITE_AREA u filteredRequest (id_request ''SiteAreaID'' (filteredRequest ''ID''))"

definition checkAndGetSiteAreasAuthorizations ::
  "acl_env \<Rightarrow> directory \<Rightarrow> user_token \<Rightarrow> request \<Rightarrow> (auth_cache, auth_filter) handler" where
  "checkAndGetSiteAreasAuthorizations env d u filteredRequest =
     canPerformAuthorizationAction env d u Entity.SITE_AREA Action.LIST filteredRequest None True no_filters"

definition addSiteAreaAuthorizations ::
  "acl_env \<Rightarrow> directory \<Rightarrow> user_token \<Rightarrow> item \<Rightarrow> auth_filter \<Rightarrow> (auth_cache, flags \<times> auth_filter) handler" where
  "addSiteAreaAuthorizations env d u x f =
     bindS (add_actions env d u
       [ask_of x ''canUpdate'' Entity.SITE_AREA Action.DELETE [(''SiteAreaID'', Some (it_id x)), (''SiteID'', it_siteID x)],
        ask_of x ''canDelete'' Entity.SITE_AREA Action.UPDATE [(''SiteAreaID'', Some (it_id x)), (''SiteID'', it_siteID x)],
        ask_of x ''canAssignAssets'' Entity.SITE_AREA Action.ASSIGN_ASSETS_TO_SITE_AREA [(''SiteAreaID'', Some (it_id x)), (''SiteID'', it_siteID x)],
        ask_of x ''canUnassignAssets'' Entity.SITE_AREA Action.UNASSIGN_ASSETS_FROM_SITE_AREA [(''SiteAreaID'', Some (it_id x)), (''SiteID'', it_siteID x)],
        ask_of x ''canReadAssets'' Entity.SITE_AREA Action.READ_ASSETS_FROM_SITE_AREA [(''SiteAreaID'', Some (it_id x)), (''SiteID'', it_siteID x)],
        ask_of x ''canAssignChargingStations'' Entity.SITE_AREA Action.ASSIGN_CHARGING_STATIONS_TO_SITE_AREA [(''SiteAreaID'', Some (it_id x)), (''SiteID'', it_siteID x)],
        ask_of x ''canUnassignChargingStations'' Entity.SITE_AREA Action.UNASSIGN_CHARGING_STATIONS_FROM_SITE_AREA [(''SiteAreaID'', Some (it_id x)), (''SiteID'', it_siteID x)],
        ask_of x ''canReadChargingStations'' Entity.SITE_AREA Action.READ_CHARGING_STATIONS_FROM_SITE_AREA [(''SiteAreaID'', Some (it_id x)), (''SiteID'', it_siteID x)],
        ask_of x ''canExportOCPPParams'' Entity.SITE_AREA Action.EXPORT_OCPP_PARAMS [(''SiteAreaID'', Some (it_id x)), (''SiteID'', it_siteID x)],
        ask_of x ''canGenerateQrCode'' Entity.SITE_AREA Action.GENERATE_QR [(''SiteAreaID'', Some (it_id x)), (''SiteID'', it_siteID x)]] [(''canRead'', True)] f) drop_false"

definition addSiteAreasAuthorizations ::
  "acl_env \<Rightarrow> directory \<Rightarrow> user_token \<Rightarrow> item list \<Rightarrow> auth_filter \<Rightarrow> (auth_cache, listing) handler" where
  "addSiteAreasAuthorizations env d u xs f =
     list_actions (add_actions env d u
       [ask ''canCreate'' Entity.SITE_AREA Action.CREATE] []) (addSiteAreaAuthorizations env d u) xs f"

definition checkAndGetCarsAuthorizations ::
  "acl_env \<Rightarrow> directory \<Rightarrow> user_token \<Rightarrow> request \<Rightarrow> (auth_cache, auth_filter) handler" where
  "checkAndGetCarsAuthorizations env d u filteredRequest =
     canPerformAuthorizationAction env d u Entity.CAR Action.LIST filteredRequest None True no_filters"

definition checkAndGetCarAuthorizations ::
  "acl_env \<Rightarrow> directory \<Rightarrow> user_token \<Rightarrow> request \<Rightarrow> Action \<Rightarrow> entity_data option \<Rightarrow> (auth_cache, auth_filter) handler" where
  "checkAndGetCarAuthorizations env d u filteredRequest =
     checkAndGetEntityAuthorizations env d Entity.CAR u filteredRequest (id_request ''CarID'' (filteredRequest ''ID''))"

definition addCarAuthorizations ::
  "acl_env \<Rightarrow> directory \<Rightarrow> user_token \<Rightarrow> item \<Rightarrow> auth_filter \<Rightarrow> (auth_cache, flags \<times> auth_filter) handler" where
  "addCarAuthorizations env d u x f =
     bindS (add_actions env d u
       [ask_of x ''canDelete'' Entity.CAR Action.DELETE [(''CarID'', Some (it_id x))],
        ask_of x ''canUpdate'' Entity.CAR Action.UPDATE [(''CarID'', Some (it_id x))]] [(''canRead'', True)] f) drop_false"

definition addCarsAuthorizations ::
  "acl_env \<Rightarrow> directory \<Rightarrow> user_token \<Rightarrow> item list \<Rightarrow> auth_filter \<Rightarrow> (auth_cache, listing) handler" where
  "addCarsAuthorizations env d u xs f =
     list_actions (add_actions env d u
       [ask ''canCreate'' Entity.CAR Action.CREATE] []) (addCarAuthorizations env d u) xs f"

definition checkAndGetCarCatalogsAuthorizations ::
  "acl_env \<Rightarrow> directory \<Rightarrow> user_token \<Rightarrow> request \<Rightarrow> (auth_cache, auth_filter) handler" where
  "checkAndGetCarCatalogsAuthorizations env d u filteredRequest =
     canPerformAuthorizationAction env d u Entity.CAR_CATALOG Action.LIST filteredRequest None True no_filters"

definition checkAndGetCarCatalogAuthorizations ::
  "acl_env \<Rightarrow> directory \<Rightarrow> user_token \<Rightarrow> request \<Rightarrow> Action \<Rightarrow> entity_data option \<Rightarrow> (auth_cache, auth_filter) handler" where
  "checkAndGetCarCatalogAuthorizations env d u filteredRequest =
     checkAndGetEntityAuthorizations env d Entity.CAR_CATALOG u filteredRequest (id_request ''CarCatalogID'' (filteredRequest ''ID''))"

definition addCarCatalogAuthorizations ::
  "acl_env \<Rightarrow> directory \<Rightarrow> user_token \<Rightarrow> item \<Rightarrow> auth_filter \<Rightarrow> (auth_cache, flags \<times> auth_filter) handler" where
  "addCarCatalogAuthorizations env d u x f =
     bindS (add_actions env d u
       [ask_of x ''canDelete'' Entity.CAR_CATALOG Action.DELETE [(''CarCatalogID'', Some (it_id x))],
        ask_of x ''canUpdate'' Entity.CAR_CATALOG Action.UPDATE [(''CarCatalogID'', Some (it_id x))]] [(''canRead'', True)] f) drop_false"

definition addCarCatalogsAuthorizationActions ::
  "acl_env \<Rightarrow> directory \<Rightarrow> user_token \<Rightarrow> item list \<Rightarrow> auth_filter \<Rightarrow> (auth_cache, listing) handler" where
  "addCarCatalogsAuthorizationActions env d u xs f =
     list_actions (add_actions env d u
       [ask ''canSync'' Entity.CAR_CATALOG Action.SYNCHRONIZE] []) (addCarCatalogAuthorizations env d u) xs f"

definition checkAndGetChargingStationsAuthorizations ::
  "acl_env \<Rightarrow> directory \<Rightarrow> user_token \<Rightarrow> request \<Rightarrow> (auth_cache, auth_filter) handler" where
  "checkAndGetChargingStationsAuthorizations env d u filteredRequest =
     canPerformAuthorizationAction env d u Entity.CHARGING_STATION Action.LIST filteredRequest None True no_filters"

section \<open>The checks by assigned sites\<close>

text \<open>The actions of the REST server that assign users and sites.\<close>

datatype ServerAction = ADD_USERS_TO_SITE | REMOVE_USERS_FROM_SITE | ADD_SITES_TO_USER | REMOVE_SITES_FROM_USER

definition restrict_sites :: "string list \<Rightarrow> string option \<Rightarrow> auth_filter \<Rightarrow> auth_filter" where
  "restrict_sites sites asked f =
     (let f1 = (if sites = [] then f
                else f\<lparr>af_siteIDs := Some (if truthy_str asked then filter (\<lambda>s. s \<in> set sites) (split_on (CHR ''|'') (or_else asked [])) else sites)\<rparr>)
      in if or_else (af_siteIDs f1) [] \<noteq> [] then f1\<lparr>af_authorized := True\<rparr> else f1)"

definition checkAssignedSites :: "directory \<Rightarrow> user_token \<Rightarrow> request \<Rightarrow> auth_filter \<Rightarrow> auth_filter" where
  "checkAssignedSites d u filteredRequest f =
     (if ut_role u \<noteq> ADMIN \<and> ut_role u \<noteq> SUPER_ADMIN then
        if isTenantComponentActive d ORGANIZATION then
          restrict_sites (getAssignedSiteIDs d (ut_id u)) (filteredRequest ''SiteID'') f
        else f\<lparr>af_authorized := True\<rparr>
      else f)"

definition checkAssignedSiteAdminsAndOwners :: "directory \<Rightarrow> user_token \<Rightarrow> request \<Rightarrow> auth_filter \<Rightarrow> auth_filter" where
  "checkAssignedSiteAdminsAndOwners d u filteredRequest f =
     (if ut_role u \<noteq> ADMIN \<and> ut_role u \<noteq> SUPER_ADMIN then
        if isTenantComponentActive d ORGANIZATION then
          restrict_sites (uniq (getSiteAdminSiteIDs d (ut_id u) @ getSiteOwnerSiteIDs d (ut_id u))) (filteredRequest ''SiteID'') f
        else f\<lparr>af_authorized := True\<rparr>
      else f)"

definition checkAndGetUserSitesAuthorizations :: "directory \<Rightarrow> user_token \<Rightarrow> request \<Rightarrow> auth_filter" where
  "checkAndGetUserSitesAuthorizations d u filteredRequest =
     checkAssignedSiteAdminsAndOwners d u no_request (no_filters\<lparr>
       af_projectFields := filterProjectFields
         [''site.id'', ''site.name'', ''site.address.city'', ''site.address.country'', ''siteAdmin'', ''siteOwner'', ''userID'']
         (filteredRequest ''ProjectFields''),
       af_authorized := (ut_role u = ADMIN)\<rparr>)"

definition checkAssignSiteUsersAuthorizations ::
  "acl_env \<Rightarrow> directory \<Rightarrow> ServerAction \<Rightarrow> user_token \<Rightarrow> request \<Rightarrow> (auth_cache, auth_filter) handler" where
  "checkAssignSiteUsersAuthorizations env d action u filteredRequest =
     (let authAction = (if action = ADD_USERS_TO_SITE then Action.ASSIGN else Action.UNASSIGN)
      in canPerformAuthorizationAction env d u Entity.USERS_SITES authAction filteredRequest None True no_filters)"

definition checkAndAssignUserSitesAuthorizations ::
  "acl_env \<Rightarrow> directory \<Rightarrow> ServerAction \<Rightarrow> user_token \<Rightarrow> request \<Rightarrow> (auth_cache, auth_filter) handler" where
  "checkAndAssignUserSitesAuthorizations env d action u filteredRequest =
     (let authAction = (if action = ADD_USERS_TO_SITE then Action.ASSIGN else Action.UNASSIGN)
      in canPerformAuthorizationAction env d u Entity.USERS_SITES authAction filteredRequest None True
           (no_filters\<lparr>af_authorized := (ut_role u = ADMIN)\<rparr>))"

definition charging_station_fields :: "string list" where
  "charging_station_fields =
     [''id'', ''inactive'', ''public'', ''chargingStationURL'', ''issuer'', ''maximumPower'', ''masterSlave'',
      ''excludeFromSmartCharging'', ''lastReboot'', ''siteAreaID'', ''siteArea.id'', ''siteArea.name'',
      ''siteArea.address'', ''siteArea.smartCharging'', ''siteArea.siteID'', ''site.id'', ''site.public'',
      ''site.name'', ''site.address'', ''siteID'', ''voltage'', ''coordinates'', ''forceInactive'',
      ''manualConfiguration'', ''firmwareUpdateStatus'', ''tariffID'', ''capabilities'', ''endpoint'',
      ''chargePointVendor'', ''chargePointModel'', ''ocppVersion'', ''ocppProtocol'', ''lastSeen'',
      ''firmwareVersion'', ''currentIPAddress'', ''ocppStandardParameters'', ''ocppVendorParameters'',
      ''connectors'', ''chargePoints'', ''createdOn'', ''chargeBoxSerialNumber'', ''chargePointSerialNumber'',
      ''powerLimitUnit'']"

definition checkAndGetChargingStationAuthorizations :: "directory \<Rightarrow> user_token \<Rightarrow> request \<Rightarrow> auth_filter" where
  "checkAndGetChargingStationAuthorizations d u filteredRequest =
     (let f = no_filters\<lparr>af_projectFields := filterProjectFields charging_station_fields (filteredRequest ''ProjectFields''),
                af_authorized := (ut_role u = ADMIN)\<rparr>
      in if ut_role u \<noteq> ADMIN then checkAssignedSites d u no_request f else f)"

end
