(* ===== verification/Entity_Access.thy ===== *)
theory Entity_Access
  imports Access_Service
begin

text \<open>
  Reading an object on behalf of a user: the functions \<^verbatim>\<open>checkAndGet...Authorization\<close> of
  src/server/rest/v1/service/UtilsService.ts. Each checks the request, reads the object with the
  filters of the check (the functions \<^verbatim>\<open>get...\<close> of src/storage/mongodb), asks for the actions that are
  offered on it, and gives it back when the action of the request is one of them. A query sees whole
  documents here: the projection to the fields of the check is the list \<open>gi_projectFields\<close> only.
\<close>

section \<open>Queries\<close>

text \<open>
  The parameters of a query that the checks set. Each query passes on some of them, and a list that is
  empty or missing does not restrict it; the users are the exception, whose empty list of sites
  matches nobody.
\<close>

record query_params =
  qp_siteIDs :: "string list option"
  qp_companyIDs :: "string list option"
  qp_userIDs :: "string list option"
  qp_issuer :: "bool option"

definition no_params :: query_params where
  "no_params = \<lparr> qp_siteIDs = None, qp_companyIDs = None, qp_userIDs = None, qp_issuer = None \<rparr>"

definition override :: "'a option \<Rightarrow> 'a option \<Rightarrow> 'a option" where
  "override a b = (case b of Some x \<Rightarrow> Some x | None \<Rightarrow> a)"

text \<open>\<^verbatim>\<open>{ ...additionalFilters, ...authorizationFilter.filters }\<close>\<close>

definition with_filters :: "query_params \<Rightarrow> auth_filter \<Rightarrow> query_params" where
  "with_filters p f = \<lparr> qp_siteIDs = override (qp_siteIDs p) (af_siteIDs f), qp_companyIDs = override (qp_companyIDs p) (af_companyIDs f),
     qp_userIDs = override (qp_userIDs p) (af_userIDs f), qp_issuer = override (qp_issuer p) (af_issuer f) \<rparr>"

definition match_ids :: "string list option \<Rightarrow> string option \<Rightarrow> bool" where
  "match_ids ids v = (or_else ids [] = [] \<or> (case v of None \<Rightarrow> False | Some s \<Rightarrow> s \<in> set (or_else ids [])))"

definition match_any :: "string list option \<Rightarrow> string list \<Rightarrow> bool" where
  "match_any ids vs = (or_else ids [] = [] \<or> list_ex (\<lambda>v. v \<in> set (or_else ids [])) vs)"

definition match_issuer :: "bool option \<Rightarrow> item \<Rightarrow> bool" where
  "match_issuer b x = (b = None \<or> ed_issuer (it_data x) = b)"

text \<open>A query for one record gives it when it is the only match.\<close>

definition only_record :: "item list \<Rightarrow> item option" where
  "only_record xs = (case xs of [x] \<Rightarrow> Some x | _ \<Rightarrow> None)"

definition getSite :: "item list \<Rightarrow> string \<Rightarrow> query_params \<Rightarrow> item option" where
  "getSite col i p = only_record (filter (\<lambda>x. it_id x = i \<and> match_issuer (qp_issuer p) x) col)"

definition getUser_item :: "item list \<Rightarrow> string \<Rightarrow> query_params \<Rightarrow> item option" where
  "getUser_item col i p = only_record (filter (\<lambda>x. it_id x = i
     \<and> (case qp_siteIDs p of None \<Rightarrow> True | Some ss \<Rightarrow> list_ex (\<lambda>s. s \<in> set ss) (it_sites x))) col)"

definition getTag_item :: "item list \<Rightarrow> string \<Rightarrow> query_params \<Rightarrow> item option" where
  "getTag_item col i p = only_record (filter (\<lambda>x. it_id x = i \<and> match_ids (qp_userIDs p) (ed_userID (it_data x))
     \<and> match_any (qp_siteIDs p) (it_sites x) \<and> match_issuer (qp_issuer p) x) col)"

definition getTagByVisualID :: "item list \<Rightarrow> string \<Rightarrow> query_params \<Rightarrow> item option" where
  "getTagByVisualID col v p = only_record (filter (\<lambda>x. it_visualID x = Some v \<and> match_ids (qp_userIDs p) (ed_userID (it_data x))
     \<and> match_issuer (qp_issuer p) x) col)"

definition getCompany :: "item list \<Rightarrow> string \<Rightarrow> query_params \<Rightarrow> item option" where
  "getCompany col i p = only_record (filter (\<lambda>x. it_id x = i \<and> match_issuer (qp_issuer p) x) col)"

definition getSiteArea :: "item list \<Rightarrow> string \<Rightarrow> query_params \<Rightarrow> item option" where
  "getSiteArea col i p = only_record (filter (\<lambda>x. it_id x = i \<and> match_ids (qp_siteIDs p) (it_siteID x) \<and> match_issuer (qp_issuer p) x) col)"

definition getCar :: "item list \<Rightarrow> string \<Rightarrow> query_params \<Rightarrow> item option" where
  "getCar col i p = only_record (filter (\<lambda>x. it_id x = i \<and> match_ids (qp_userIDs p) (ed_userID (it_data x))) col)"

definition getCarCatalog :: "item list \<Rightarrow> string \<Rightarrow> query_params \<Rightarrow> item option" where
  "getCarCatalog col i p = only_record (filter (\<lambda>x. it_id x = i) col)"

definition getAsset :: "item list \<Rightarrow> string \<Rightarrow> query_params \<Rightarrow> item option" where
  "getAsset col i p = only_record (filter (\<lambda>x. it_id x = i \<and> match_ids (qp_siteIDs p) (it_siteID x) \<and> match_issuer (qp_issuer p) x) col)"

definition getPricingDefinition :: "item list \<Rightarrow> string \<Rightarrow> query_params \<Rightarrow> item option" where
  "getPricingDefinition col i p =
     only_record (filter (\<lambda>x. it_id x = i \<and> match_ids (qp_siteIDs p) (it_siteID x) \<and> \<not> it_deleted x) col)"

definition getRegistrationToken :: "item list \<Rightarrow> string \<Rightarrow> query_params \<Rightarrow> item option" where
  "getRegistrationToken col i p = only_record (filter (\<lambda>x. it_id x = i \<and> match_ids (qp_siteIDs p) (it_siteID x)) col)"

definition getLog :: "item list \<Rightarrow> string \<Rightarrow> query_params \<Rightarrow> item option" where
  "getLog col i p = only_record (filter (\<lambda>x. it_id x = i \<and> match_ids (qp_siteIDs p) (it_siteID x)) col)"

definition getChargingStation_item :: "item list \<Rightarrow> string \<Rightarrow> query_params \<Rightarrow> item option" where
  "getChargingStation_item col i p =
     only_record (filter (\<lambda>x. it_id x = i \<and> match_ids (qp_siteIDs p) (it_siteID x) \<and> match_issuer (qp_issuer p) x \<and> \<not> it_deleted x) col)"

section \<open>Checks\<close>

definition GENERAL_ERROR :: int where "GENERAL_ERROR = 500"

definition OBJECT_DOES_NOT_EXIST_ERROR :: int where "OBJECT_DOES_NOT_EXIST_ERROR = 550"

definition assertIdIsProvided :: "string \<Rightarrow> unit res" where
  "assertIdIsProvided i = (if i = [] then Inl (AppError GENERAL_ERROR ''The ID must be provided'') else Inr ())"

definition assertObjectExists :: "'a option \<Rightarrow> 'a res" where
  "assertObjectExists x = (case x of None \<Rightarrow> Inl (AppError OBJECT_DOES_NOT_EXIST_ERROR ''does not exist'') | Some a \<Rightarrow> Inr a)"

definition assertAuthorized :: "bool \<Rightarrow> unit res" where
  "assertAuthorized b = (if b then Inr () else Inl FORBIDDEN)"

record granted_item =
  gi_item :: item
  gi_flags :: flags
  gi_projectFields :: "string list"
  gi_metadata :: "metadata option"

text \<open>The common shape: the check of the request, the query, a further check of the object, its actions.\<close>

definition check_and_get ::
  "(auth_cache, auth_filter) handler \<Rightarrow> (query_params \<Rightarrow> item option) \<Rightarrow> (item \<Rightarrow> unit res) \<Rightarrow>
   (item \<Rightarrow> auth_filter \<Rightarrow> (auth_cache, flags \<times> auth_filter) handler) \<Rightarrow> string \<Rightarrow> query_params \<Rightarrow> Action \<Rightarrow>
   (auth_cache, granted_item) handler" where
  "check_and_get authorize fetch further add i additional authAction =
     bindS (liftS (assertIdIsProvided i)) (\<lambda>_.
     bindS authorize (\<lambda>f.
     bindS (liftS (assertAuthorized (af_authorized f))) (\<lambda>_.
     bindS (liftS (assertObjectExists (fetch (with_filters additional f)))) (\<lambda>x.
     bindS (liftS (further x)) (\<lambda>_.
     bindS (add x f) (\<lambda>(fs, _).
     bindS (liftS (assertAuthorized (canPerform_flag fs authAction))) (\<lambda>_.
       returnS \<lparr> gi_item = x, gi_flags = fs, gi_projectFields = af_projectFields f, gi_metadata = af_metadata f \<rparr>)))))))"

definition anything :: "item \<Rightarrow> unit res" where
  "anything x = Inr ()"

definition request_for :: "string \<Rightarrow> request" where
  "request_for i = no_request(''ID'' := Some i)"

definition checkAndGetChargingStationAuthorization ::
  "acl_env \<Rightarrow> directory \<Rightarrow> user_token \<Rightarrow> item list \<Rightarrow> string \<Rightarrow> query_params \<Rightarrow> item res" where
  "checkAndGetChargingStationAuthorization env d u col i additional =
     bindE (canReadChargingStation (ae_acl env) u) (\<lambda>ok.
     bindE (assertAuthorized ok) (\<lambda>_.
     bindE (assertIdIsProvided i) (\<lambda>_.
     let f = checkAndGetChargingStationAuthorizations d u (request_for i) in
     bindE (assertAuthorized (af_authorized f)) (\<lambda>_.
     bindE (assertObjectExists (getChargingStation_item col i (with_filters additional f))) (\<lambda>x.
       if it_deleted x then Inl (AppError OBJECT_DOES_NOT_EXIST_ERROR ''logically deleted'') else Inr x)))))"

text \<open>
  A pricing definition gets its actions first, so the projected fields and the metadata that it carries
  are those of the last action that was checked.
\<close>

definition checkAndGetPricingDefinitionAuthorization ::
  "acl_env \<Rightarrow> directory \<Rightarrow> user_token \<Rightarrow> item list \<Rightarrow> string \<Rightarrow> Action \<Rightarrow> entity_data option \<Rightarrow> query_params \<Rightarrow>
   (auth_cache, granted_item) handler" where
  "checkAndGetPricingDefinitionAuthorization env d u col i authAction entityData additional =
     bindS (liftS (assertIdIsProvided i)) (\<lambda>_.
     bindS (checkAndGetPricingDefinitionAuthorizations env d u (request_for i) authAction entityData) (\<lambda>f.
     bindS (liftS (assertAuthorized (af_authorized f))) (\<lambda>_.
     bindS (liftS (assertObjectExists (getPricingDefinition col i (with_filters additional f)))) (\<lambda>x.
     bindS (addPricingDefinitionAuthorizations env d u x f) (\<lambda>(fs, f1).
     bindS (liftS (assertAuthorized (canPerform_flag fs authAction))) (\<lambda>_.
       returnS \<lparr> gi_item = x, gi_flags = fs, gi_projectFields = af_projectFields f1, gi_metadata = af_metadata f1 \<rparr>))))))"

definition checkAndGetRegistrationTokenAuthorization ::
  "acl_env \<Rightarrow> directory \<Rightarrow> user_token \<Rightarrow> item list \<Rightarrow> string \<Rightarrow> Action \<Rightarrow> entity_data option \<Rightarrow> query_params \<Rightarrow> 
   (auth_cache, granted_item) handler" where
  "checkAndGetRegistrationTokenAuthorization env d u col i authAction entityData additional =
     check_and_get (checkAndGetRegistrationTokenAuthorizations env d u (request_for i) authAction entityData) (getRegistrationToken col i) anything
       (addRegistrationTokenAuthorizations env d u) i additional authAction"

definition checkAndGetCompanyAuthorization ::
  "acl_env \<Rightarrow> directory \<Rightarrow> user_token \<Rightarrow> item list \<Rightarrow> string \<Rightarrow> Action \<Rightarrow> entity_data option \<Rightarrow> query_params \<Rightarrow> 
   (auth_cache, granted_item) handler" where
  "checkAndGetCompanyAuthorization env d u col i authAction entityData additional =
     check_and_get (checkAndGetCompanyAuthorizations env d u (request_for i) authAction entityData) (getCompany col i) anything
       (addCompanyAuthorizations env d u) i additional authAction"

definition issued_here :: "bool \<Rightarrow> item \<Rightarrow> unit res" where
  "issued_here checkIssuer x =
     (if checkIssuer \<and> ed_issuer (it_data x) \<noteq> Some True then Inl (AppError GENERAL_ERROR ''not issued by the organization'') else Inr ())"

definition checkAndGetUserAuthorization ::
  "acl_env \<Rightarrow> directory \<Rightarrow> user_token \<Rightarrow> item list \<Rightarrow> string \<Rightarrow> Action \<Rightarrow> entity_data option \<Rightarrow> query_params \<Rightarrow> bool \<Rightarrow>
   (auth_cache, granted_item) handler" where
  "checkAndGetUserAuthorization env d u col i authAction entityData additional checkIssuer =
     check_and_get (checkAndGetUserAuthorizations env d u (request_for i) authAction entityData) (getUser_item col i) (issued_here checkIssuer)
       (addUserAuthorizations env d u) i additional authAction"

definition checkAndGetSiteAuthorization ::
  "acl_env \<Rightarrow> directory \<Rightarrow> user_token \<Rightarrow> item list \<Rightarrow> string \<Rightarrow> Action \<Rightarrow> entity_data option \<Rightarrow> query_params \<Rightarrow> 
   (auth_cache, granted_item) handler" where
  "checkAndGetSiteAuthorization env d u col i authAction entityData additional =
     check_and_get (checkAndGetSiteAuthorizations env d u (request_for i) authAction entityData) (getSite col i) anything
       (addSiteAuthorizations env d u) i additional authAction"

definition checkAndGetAssetAuthorization ::
  "acl_env \<Rightarrow> directory \<Rightarrow> user_token \<Rightarrow> item list \<Rightarrow> string \<Rightarrow> Action \<Rightarrow> entity_data option \<Rightarrow> query_params \<Rightarrow> 
   (auth_cache, granted_item) handler" where
  "checkAndGetAssetAuthorization env d u col i authAction entityData additional =
     check_and_get (checkAndGetAssetAuthorizations env d u (request_for i) authAction entityData) (getAsset col i) anything
       (addAssetAuthorizations env d u) i additional authAction"

definition checkAndGetLogAuthorization ::
  "acl_env \<Rightarrow> directory \<Rightarrow> user_token \<Rightarrow> item list \<Rightarrow> string \<Rightarrow> Action \<Rightarrow> entity_data option \<Rightarrow> query_params \<Rightarrow> 
   (auth_cache, granted_item) handler" where
  "checkAndGetLogAuthorization env d u col i authAction entityData additional =
     check_and_get (checkAndGetLoggingAuthorizations env d u (request_for i) authAction entityData) (getLog col i) anything
       (addLogAuthorizations env d u) i additional authAction"

definition checkAndGetSiteAreaAuthorization ::
  "acl_env \<Rightarrow> directory \<Rightarrow> user_token \<Rightarrow> item list \<Rightarrow> string \<Rightarrow> Action \<Rightarrow> entity_data option \<Rightarrow> query_params \<Rightarrow> 
   (auth_cache, granted_item) handler" where
  "checkAndGetSiteAreaAuthorization env d u col i authAction entityData additional =
     check_and_get (checkAndGetSiteAreaAuthorizations env d u (request_for i) authAction entityData) (getSiteArea col i) anything
       (addSiteAreaAuthorizations env d u) i additional authAction"

definition checkAndGetCarAuthorization ::
  "acl_env \<Rightarrow> directory \<Rightarrow> user_token \<Rightarrow> item list \<Rightarrow> string \<Rightarrow> Action \<Rightarrow> entity_data option \<Rightarrow> query_params \<Rightarrow> 
   (auth_cache, granted_item) handler" where
  "checkAndGetCarAuthorization env d u col i authAction entityData additional =
     check_and_get (checkAndGetCarAuthorizations env d u (request_for i) authAction entityData) (getCar col i) anything
       (addCarAuthorizations env d u) i additional authAction"

definition checkAndGetCarCatalogAuthorization ::
  "acl_env \<Rightarrow> directory \<Rightarrow> user_token \<Rightarrow> item list \<Rightarrow> string \<Rightarrow> Action \<Rightarrow> entity_data option \<Rightarrow> query_params \<Rightarrow> 
   (auth_cache, granted_item) handler" where
  "checkAndGetCarCatalogAuthorization env d u col i authAction entityData additional =
     check_and_get (checkAndGetCarCatalogAuthorizations env d u (request_for i) authAction entityData) (getCarCatalog col i) anything
       (addCarCatalogAuthorizations env d u) i additional authAction"

definition checkAndGetTagByXXXAuthorization ::
  "acl_env \<Rightarrow> directory \<Rightarrow> user_token \<Rightarrow> (string \<Rightarrow> query_params \<Rightarrow> item option) \<Rightarrow> string \<Rightarrow> Action \<Rightarrow> entity_data option \<Rightarrow> query_params \<Rightarrow>
   (auth_cache, granted_item) handler" where
  "checkAndGetTagByXXXAuthorization env d u getTagByXXX i authAction entityData additional =
     check_and_get (checkAndGetTagAuthorizations env d u (request_for i) authAction entityData) (getTagByXXX i) anything
       (addTagAuthorizations env d u) i additional authAction"

definition checkAndGetTagAuthorization ::
  "acl_env \<Rightarrow> directory \<Rightarrow> user_token \<Rightarrow> item list \<Rightarrow> string \<Rightarrow> Action \<Rightarrow> entity_data option \<Rightarrow> query_params \<Rightarrow>
   (auth_cache, granted_item) handler" where
  "checkAndGetTagAuthorization env d u col = checkAndGetTagByXXXAuthorization env d u (getTag_item col)"

definition checkAndGetTagByVisualIDAuthorization ::
  "acl_env \<Rightarrow> directory \<Rightarrow> user_token \<Rightarrow> item list \<Rightarrow> string \<Rightarrow> Action \<Rightarrow> entity_data option \<Rightarrow> query_params \<Rightarrow>
   (auth_cache, granted_item) handler" where
  "checkAndGetTagByVisualIDAuthorization env d u col = checkAndGetTagByXXXAuthorization env d u (getTagByVisualID col)"

section \<open>Assigning lists of objects\<close>

text \<open>
  The request carries the properties \<^verbatim>\<open>userID\<close> and \<^verbatim>\<open>siteIDs\<close> (or \<^verbatim>\<open>siteID\<close> and \<^verbatim>\<open>userIDs\<close>), which no filter
  reads. All the objects that were asked for have to be found.
\<close>

definition assert_listed :: "string list \<Rightarrow> string \<Rightarrow> unit res" where
  "assert_listed ids what = (if ids = [] then Inl (AppError GENERAL_ERROR what) else Inr ())"

definition all_found :: "string list \<Rightarrow> item list \<Rightarrow> (auth_cache, item list) handler" where
  "all_found ids xs = liftS (if length ids \<noteq> length xs then Inl FORBIDDEN else Inr xs)"

definition getSites :: "item list \<Rightarrow> query_params \<Rightarrow> item list" where
  "getSites col p = filter (\<lambda>x. match_ids (qp_siteIDs p) (Some (it_id x)) \<and> match_ids (qp_companyIDs p) (it_companyID x)
     \<and> match_issuer (qp_issuer p) x) col"

definition getUsers :: "item list \<Rightarrow> query_params \<Rightarrow> item list" where
  "getUsers col p = filter (\<lambda>x. match_ids (qp_userIDs p) (Some (it_id x)) \<and> match_issuer (qp_issuer p) x
     \<and> (case qp_siteIDs p of None \<Rightarrow> True | Some ss \<Rightarrow> list_ex (\<lambda>s. s \<in> set ss) (it_sites x))) col"

definition getAssets :: "item list \<Rightarrow> string list \<Rightarrow> query_params \<Rightarrow> item list" where
  "getAssets col ids p = filter (\<lambda>x. match_ids (Some ids) (Some (it_id x)) \<and> match_issuer (qp_issuer p) x
     \<and> match_ids (qp_siteIDs p) (it_siteID x)) col"

definition getChargingStations :: "item list \<Rightarrow> string list \<Rightarrow> query_params \<Rightarrow> item list" where
  "getChargingStations col ids p = filter (\<lambda>x. \<not> it_deleted x \<and> match_ids (Some ids) (Some (it_id x)) \<and> match_issuer (qp_issuer p) x
     \<and> match_ids (qp_siteIDs p) (it_siteID x) \<and> match_ids (qp_companyIDs p) (it_companyID x)) col"

definition checkUserSitesAuthorization ::
  "acl_env \<Rightarrow> directory \<Rightarrow> user_token \<Rightarrow> item list \<Rightarrow> string \<Rightarrow> string list \<Rightarrow> ServerAction \<Rightarrow> query_params \<Rightarrow> (auth_cache, item list) handler" where
  "checkUserSitesAuthorization env d u col userID siteIDs action additional =
     bindS (liftS (assertIdIsProvided userID)) (\<lambda>_.
     bindS (liftS (assert_listed siteIDs ''The Site IDs must be provided'')) (\<lambda>_.
     bindS (checkAndAssignUserSitesAuthorizations env d action u (no_request(''userID'' := Some userID))) (\<lambda>f.
     bindS (liftS (assertAuthorized (af_authorized f))) (\<lambda>_.
       all_found siteIDs (filter (\<lambda>x. it_id x \<in> set siteIDs)
         (getSites col (with_filters (additional\<lparr>qp_siteIDs := override (Some siteIDs) (qp_siteIDs additional)\<rparr>) f)))))))"

definition checkSiteUsersAuthorization ::
  "acl_env \<Rightarrow> directory \<Rightarrow> user_token \<Rightarrow> item list \<Rightarrow> string \<Rightarrow> string list \<Rightarrow> ServerAction \<Rightarrow> query_params \<Rightarrow> (auth_cache, item list) handler" where
  "checkSiteUsersAuthorization env d u col siteID userIDs action additional =
     bindS (liftS (assertIdIsProvided siteID)) (\<lambda>_.
     bindS (liftS (assert_listed userIDs ''The User IDs must be provided'')) (\<lambda>_.
     bindS (checkAssignSiteUsersAuthorizations env d action u (no_request(''siteID'' := Some siteID))) (\<lambda>f.
     bindS (liftS (assertAuthorized (af_authorized f))) (\<lambda>_.
       all_found userIDs (filter (\<lambda>x. it_id x \<in> set userIDs)
         (getUsers col (with_filters (additional\<lparr>qp_userIDs := override (Some userIDs) (qp_userIDs additional)\<rparr>) f)))))))"

definition checkSiteAreaAssetsAuthorization ::
  "acl_env \<Rightarrow> directory \<Rightarrow> user_token \<Rightarrow> item list \<Rightarrow> string \<Rightarrow> string list \<Rightarrow> query_params \<Rightarrow> (auth_cache, item list) handler" where
  "checkSiteAreaAssetsAuthorization env d u col siteAreaID assetIDs additional =
     bindS (liftS (assertIdIsProvided siteAreaID)) (\<lambda>_.
     bindS (liftS (assert_listed assetIDs ''The Asset IDs must be provided'')) (\<lambda>_.
     bindS (checkAndGetAssetsAuthorizations env d u Action.LIST no_request) (\<lambda>f.
     bindS (liftS (assertAuthorized (af_authorized f))) (\<lambda>_.
       all_found assetIDs (getAssets col assetIDs (with_filters additional f))))))"

definition checkSiteAreaChargingStationsAuthorization ::
  "acl_env \<Rightarrow> directory \<Rightarrow> user_token \<Rightarrow> item list \<Rightarrow> string \<Rightarrow> string list \<Rightarrow> query_params \<Rightarrow> (auth_cache, item list) handler" where
  "checkSiteAreaChargingStationsAuthorization env d u col siteAreaID chargingStationIDs additional =
     bindS (liftS (assertIdIsProvided siteAreaID)) (\<lambda>_.
     bindS (liftS (assert_listed chargingStationIDs ''The Charging Station IDs must be provided'')) (\<lambda>_.
     bindS (checkAndGetChargingStationsAuthorizations env d u no_request) (\<lambda>f.
     bindS (liftS (assertAuthorized (af_authorized f))) (\<lambda>_.
       all_found chargingStationIDs (getChargingStations col chargingStationIDs (with_filters additional f))))))"

end
