(* ===== verification/Access_Laws.thy ===== *)
theory Access_Laws
  imports Entity_Access
begin

text \<open>
  The decisions of access control. First the table: what it grants, by evaluation of the finite lists
  of src/authorization/AuthorizationsDefinition.ts. Then the decisions, for every implementation of
  the package role-acl that follows its documentation (the locale \<open>role_acl\<close>): they terminate with
  an answer or a refusal, and the cache never changes them.
\<close>

section \<open>The table\<close>

definition role_grants :: "string \<Rightarrow> grant list" where
  "role_grants r = inherited (length AUTHORIZATION_DEFINITION) AUTHORIZATION_DEFINITION r"

definition granted_pairs :: "grant list \<Rightarrow> (Entity \<times> Action) list" where
  "granted_pairs gs = concat (map (\<lambda>g. map (Pair (g_resource g)) (g_actions g)) gs)"

definition role_names :: "string list" where
  "role_names = [''superAdmin'', ''admin'', ''basic'', ''demo'', ''siteAdmin'', ''siteOwner'']"

lemma table_roles: "map fst AUTHORIZATION_DEFINITION = role_names"
  by code_simp

lemma matching_roles:
  "matching AUTHORIZATION_DEFINITION roles r a =
     filter (\<lambda>g. g_resource g = r \<and> a \<in> set (g_actions g)) (concat (map role_grants roles))"
  by (simp add: matching_def role_grants_def[abs_def])

lemma matching_pair:
  "g \<in> set (matching AUTHORIZATION_DEFINITION roles r a) \<Longrightarrow>
     \<exists>role \<in> set roles. g \<in> set (role_grants role) \<and> (r, a) \<in> set (granted_pairs (role_grants role))"
  by (fastforce simp: matching_roles granted_pairs_def)

text \<open>A condition whose filters and assertions are names that the factory knows.\<close>

definition known_names :: "(string \<times> 'n) list \<Rightarrow> name_group list \<Rightarrow> bool" where
  "known_names names = list_all (\<lambda>g. list_all (\<lambda>s. parse_name names s \<noteq> None) (group_names g))"

fun condition_known :: "condition \<Rightarrow> bool" where
  "condition_known (Dynamic fs as md) = (known_names filter_names (or_else fs []) \<and> known_names assert_names (or_else as []))"
| "condition_known (Or_Fn cs) = list_all condition_known cs"
| "condition_known _ = True"

definition grant_known :: "grant \<Rightarrow> bool" where
  "grant_known g = (case g_condition g of None \<Rightarrow> True | Some c \<Rightarrow> condition_known c)"

lemma table_known: "list_all (\<lambda>r. list_all grant_known (role_grants r)) role_names"
  by code_simp

definition roles_ok :: "string list \<Rightarrow> bool" where
  "roles_ok rs \<longleftrightarrow> rs \<noteq> [] \<and> set rs \<subseteq> set role_names"

lemma roles_of_user_ok: "roles_ok (getAuthGroupsFromUser role m n)"
  by (auto simp: roles_ok_def getAuthGroupsFromUser_def role_names_def Let_def split: UserRole.splits)

lemma matching_known:
  assumes "roles_ok roles" and "g \<in> set (matching AUTHORIZATION_DEFINITION roles r a)"
  shows "grant_known g"
  using assms table_known matching_pair[OF assms(2)] by (auto simp: roles_ok_def list_all_iff)

section \<open>Contexts\<close>

definition context_known :: "auth_context \<Rightarrow> bool" where
  "context_known ctx \<longleftrightarrow> known_names filter_names (or_else (ax_filters ctx) []) \<and> known_names assert_names (or_else (ax_asserts ctx) [])"

text \<open>A context that comes from another by setting properties.\<close>

definition extends :: "auth_context \<Rightarrow> auth_context \<Rightarrow> bool" where
  "extends ctx ctx' \<longleftrightarrow> ax_value ctx' = ax_value ctx
     \<and> (ax_filters ctx' = None \<longrightarrow> ax_filters ctx = None) \<and> (ax_filtersSet ctx \<longrightarrow> ax_filtersSet ctx')
     \<and> (ax_asserts ctx' = None \<longrightarrow> ax_asserts ctx = None) \<and> (ax_assertsSet ctx \<longrightarrow> ax_assertsSet ctx')
     \<and> (ax_metadata ctx' = None \<longrightarrow> ax_metadata ctx = None) \<and> (ax_metadataSet ctx \<longrightarrow> ax_metadataSet ctx')"

lemma known_names_Nil [simp]: "known_names names []"
  by (simp add: known_names_def)

lemma set_once_cases:
  "fst (set_once arg b cur ini) = Some (or_else cur ini) \<or> fst (set_once arg b cur ini) = arg \<and> arg \<noteq> None"
  by (auto simp: set_once_def split: option.splits)

lemma set_once_flag: "b \<Longrightarrow> snd (set_once arg b cur ini)"
  by (auto simp: set_once_def split: option.splits)

lemma run_condition_known:
  assumes "condition_known c" and "context_known ctx"
  shows "context_known (run_condition c ctx)"
  using assms
  by (cases c) (auto simp: dynamicAuthorizations_def context_known_def set_once_def split: option.splits prod.splits)

lemma run_condition_extends: "extends ctx (run_condition c ctx)"
  by (cases c) (auto simp: dynamicAuthorizations_def extends_def set_once_def split: option.splits prod.splits if_splits)

lemma extends_refl [simp]: "extends ctx ctx"
  by (simp add: extends_def)

lemma extends_trans: "extends a b \<Longrightarrow> extends b c \<Longrightarrow> extends a c"
  by (auto simp: extends_def)

lemma fold_conditions:
  assumes "list_all condition_known cs" and "context_known ctx"
  shows "context_known (fold run_condition cs ctx)" and "extends ctx (fold run_condition cs ctx)"
  using assms
  by (induction cs arbitrary: ctx) (auto intro: run_condition_known extends_trans[OF run_condition_extends])

lemma enrich_extends: "extends ctx ctx' \<Longrightarrow> enrich ctx ctx' = ctx'"
  by (cases ctx'; cases ctx) (auto simp: enrich_def extends_def fun_eq_iff)

lemma no_context_known [simp]: "context_known no_context"
  by (simp add: context_known_def no_context_def)

section \<open>Decisions\<close>

context role_acl
begin

lemma decides:
  assumes "roles_ok roles"
  obtains ctx' p where "acl AUTHORIZATION_DEFINITION roles r a ctx = Inr (ctx', p)"
proof -
  have "set roles \<subseteq> fst ` set AUTHORIZATION_DEFINITION"
    using assms table_roles by (metis roles_ok_def set_map)
  with assms have "is_ok (acl AUTHORIZATION_DEFINITION roles r a ctx)"
    by (intro acl_total) (auto simp: roles_ok_def)
  then show ?thesis using that by (auto dest: is_okD)
qed

lemma decision_context:
  assumes ok: "roles_ok roles" and dec: "acl AUTHORIZATION_DEFINITION roles r a ctx = Inr (ctx', p)" and known: "context_known ctx"
  shows "context_known ctx'" and "enrich ctx ctx' = ctx'"
proof -
  obtain cs where sub: "set (map Some cs) \<subseteq> g_condition ` set (matching AUTHORIZATION_DEFINITION roles r a)"
    and eq: "ctx' = fold run_condition cs ctx"
    using acl_context[OF dec] by blast
  have "condition_known c" if "c \<in> set cs" for c
  proof -
    from that have "Some c \<in> set (map Some cs)" by simp
    with sub have "Some c \<in> g_condition ` set (matching AUTHORIZATION_DEFINITION roles r a)" by (rule subsetD)
    then obtain g where c: "Some c = g_condition g" and "g \<in> set (matching AUTHORIZATION_DEFINITION roles r a)" by (rule imageE)
    from matching_known[OF ok this(2)] show ?thesis by (simp add: grant_known_def c[symmetric])
  qed
  then have "list_all condition_known cs" by (simp add: list_all_iff)
  from fold_conditions[OF this known] eq show "context_known ctx'" and "enrich ctx ctx' = ctx'"
    by (simp_all add: enrich_extends)
qed

lemma granted_pair:
  assumes "acl AUTHORIZATION_DEFINITION roles r a ctx = Inr (ctx', p)" and "pm_granted p"
  shows "\<exists>role \<in> set roles. (r, a) \<in> set (granted_pairs (role_grants role))"
proof -
  obtain g where "g \<in> set (matching AUTHORIZATION_DEFINITION roles r a)" by (rule granted_grant[OF assms])
  from matching_pair[OF this] show ?thesis by (elim bexE conjE) (rule bexI)
qed

end

section \<open>The names of resources, actions and roles\<close>

text \<open>The identifier of a cached decision determines the roles, the resource and the action.\<close>

definition all_actions :: "Action list" where
  "all_actions =
     [Action.READ, Action.CREATE, Action.UPDATE, Action.UPDATE_BY_VISUAL_ID, Action.REPLACE, Action.REVOKE,
      Action.DELETE, Action.LOGOUT, Action.LOGIN, Action.LIST, Action.IN_ERROR, Action.RESET, Action.ASSIGN,
      Action.UNASSIGN, Action.CLEAR_CACHE, Action.TRIGGER_DATA_TRANSFER, Action.SYNCHRONIZE,
      Action.GET_CONFIGURATION, Action.CHANGE_CONFIGURATION, Action.SYNCHRONIZE_CAR_CATALOGS,
      Action.REMOTE_START_TRANSACTION, Action.REMOTE_STOP_TRANSACTION, Action.START_TRANSACTION,
      Action.STOP_TRANSACTION, Action.UNLOCK_CONNECTOR, Action.AUTHORIZE, Action.SET_CHARGING_PROFILE,
      Action.GET_COMPOSITE_SCHEDULE, Action.CLEAR_CHARGING_PROFILE, Action.GET_DIAGNOSTICS, Action.UPDATE_FIRMWARE,
      Action.EXPORT, Action.CHANGE_AVAILABILITY, Action.REFUND_TRANSACTION, Action.SYNCHRONIZE_BILLING_USER,
      Action.BILLING_SETUP_PAYMENT_METHOD, Action.BILLING_PAYMENT_METHODS, Action.BILLING_DELETE_PAYMENT_METHOD,
      Action.BILLING_CHARGE_INVOICE, Action.CHECK_CONNECTION, Action.CLEAR_BILLING_TEST_DATA,
      Action.RETRIEVE_CONSUMPTION, Action.READ_CONSUMPTION, Action.CREATE_CONSUMPTION, Action.PING,
      Action.GENERATE_LOCAL_TOKEN, Action.REGISTER, Action.TRIGGER_JOB, Action.DOWNLOAD, Action.IMPORT,
      Action.ASSIGN_USERS_TO_SITE, Action.UNASSIGN_USERS_FROM_SITE, Action.ASSIGN_ASSETS_TO_SITE_AREA,
      Action.UNASSIGN_ASSETS_FROM_SITE_AREA, Action.READ_ASSETS_FROM_SITE_AREA,
      Action.ASSIGN_CHARGING_STATIONS_TO_SITE_AREA, Action.UNASSIGN_CHARGING_STATIONS_FROM_SITE_AREA,
      Action.READ_CHARGING_STATIONS_FROM_SITE_AREA, Action.EXPORT_OCPP_PARAMS, Action.GENERATE_QR,
      Action.MAINTAIN_PRICING_DEFINITIONS]"

definition all_entities :: "Entity list" where
  "all_entities =
     [Entity.SITE, Entity.SITE_AREA, Entity.COMPANY, Entity.CHARGING_STATION, Entity.TENANT, Entity.TRANSACTION,
      Entity.REPORT, Entity.USER, Entity.USERS_SITES, Entity.LOGGING, Entity.PRICING, Entity.PRICING_DEFINITION,
      Entity.BILLING, Entity.SETTING, Entity.ASYNC_TASK, Entity.OCPI_ENDPOINT, Entity.OICP_ENDPOINT,
      Entity.CONNECTION, Entity.ASSET, Entity.CAR_CATALOG, Entity.CAR, Entity.INVOICE, Entity.TAX,
      Entity.REGISTRATION_TOKEN, Entity.CHARGING_PROFILE, Entity.NOTIFICATION, Entity.TAG, Entity.PAYMENT_METHOD,
      Entity.SOURCE]"

lemma all_actions: "a \<in> set all_actions"
  by (cases a) (simp_all add: all_actions_def)

lemma all_entities: "e \<in> set all_entities"
  by (cases e) (simp_all add: all_entities_def)

lemma action_name_inj: "action_name a = action_name b \<longleftrightarrow> a = b"
proof -
  have "distinct (map action_name all_actions)" by code_simp
  then show ?thesis using all_actions by (auto simp: distinct_map inj_on_eq_iff)
qed

lemma entity_name_inj: "entity_name a = entity_name b \<longleftrightarrow> a = b"
proof -
  have "distinct (map entity_name all_entities)" by code_simp
  then show ?thesis using all_entities by (auto simp: distinct_map inj_on_eq_iff)
qed

lemma names_plain: "CHR ''~'' \<notin> set (action_name a)" "CHR ''~'' \<notin> set (entity_name e)"
proof -
  have "list_all (\<lambda>a. CHR ''~'' \<notin> set (action_name a)) all_actions" by code_simp
  then show "CHR ''~'' \<notin> set (action_name a)" using all_actions by (simp add: list_all_iff)
  have "list_all (\<lambda>e. CHR ''~'' \<notin> set (entity_name e)) all_entities" by code_simp
  then show "CHR ''~'' \<notin> set (entity_name e)" using all_entities by (simp add: list_all_iff)
qed

lemma split_at_separator:
  assumes "c \<notin> set xs" and "c \<notin> set ys"
  shows "xs @ c # us = ys @ c # vs \<longleftrightarrow> xs = ys \<and> us = vs"
  using assms
proof (induction xs arbitrary: ys)
  case Nil then show ?case by (cases ys) auto
next
  case (Cons x xs) then show ?case by (cases ys) auto
qed

lemma join_inj:
  assumes "list_all (\<lambda>x. x \<noteq> [] \<and> CHR '','' \<notin> set x) xs" and "list_all (\<lambda>x. x \<noteq> [] \<and> CHR '','' \<notin> set x) ys"
  shows "join '','' xs = join '','' ys \<longleftrightarrow> xs = ys"
  using assms
proof (induction "'',''" xs arbitrary: ys rule: join.induct)
  case 1 then show ?case by (cases ys rule: remdups_adj.cases) auto
next
  case (2 x) then show ?case by (cases ys rule: remdups_adj.cases) (auto)
next
  case (3 x x' xs)
  then show ?case by (cases ys rule: remdups_adj.cases) (auto simp: split_at_separator)
qed

lemma roles_plain:
  assumes "roles_ok rs"
  shows "list_all (\<lambda>x. x \<noteq> [] \<and> CHR '','' \<notin> set x) rs" and "CHR ''~'' \<notin> set (join '','' rs)"
proof -
  have plain: "list_all (\<lambda>x. x \<noteq> [] \<and> CHR '','' \<notin> set x \<and> CHR ''~'' \<notin> set x) role_names" by code_simp
  with assms have all: "list_all (\<lambda>x. x \<noteq> [] \<and> CHR '','' \<notin> set x \<and> CHR ''~'' \<notin> set x) rs"
    by (auto simp: roles_ok_def list_all_iff)
  then show "list_all (\<lambda>x. x \<noteq> [] \<and> CHR '','' \<notin> set x) rs" by (auto simp: list_all_iff)
  from all show "CHR ''~'' \<notin> set (join '','' rs)"
    by (induction "'',''" rs rule: join.induct) auto
qed

lemma authID_inj:
  assumes "roles_ok rs" and "roles_ok rs'"
  shows "authID env rs r a ctx = authID env rs' r' a' ctx \<longleftrightarrow> rs = rs' \<and> r = r' \<and> a = a'"
  using roles_plain[OF assms(1)] roles_plain[OF assms(2)]
  by (simp add: authID_def split_at_separator names_plain join_inj entity_name_inj action_name_inj)

end
