(* ===== verification/Access_Cache.thy ===== *)
theory Access_Cache
  imports Access_Laws
begin

text \<open>
  The cache of src/authorization/AuthorizationsManager.ts and the services on top of it. A cache is
  sound when each of its entries is the decision that the package gives; it starts empty, every check
  keeps it sound, and a check gives the same answer with any sound cache as with the empty one.
\<close>

section \<open>Sound caches\<close>

definition cache_sound :: "acl_env \<Rightarrow> auth_cache \<Rightarrow> bool" where
  "cache_sound env c \<longleftrightarrow> (\<forall>roles r a result. roles_ok roles \<longrightarrow> c (authID env roles r a no_context) = Some result \<longrightarrow>
     (\<exists>ctx' p. ae_acl env AUTHORIZATION_DEFINITION roles r a no_context = Inr (ctx', p)
        \<and> result = \<lparr> ar_authorized = pm_granted p, ar_fields = pm_attributes p, ar_context = ctx' \<rparr>))"

definition transparent :: "acl_env \<Rightarrow> (auth_cache, 'a) handler \<Rightarrow> bool" where
  "transparent env m \<longleftrightarrow> (\<forall>c. cache_sound env c \<longrightarrow> cache_sound env (fst (m c)) \<and> snd (m c) = snd (m Map.empty))"

named_theorems transparency \<open>rules of \<open>transparent\<close> for the steps of the services\<close>

lemma sound_empty [simp]: "cache_sound env Map.empty"
  by (simp add: cache_sound_def)

lemma transparentD:
  assumes "transparent env m" and "cache_sound env c"
  shows "cache_sound env (fst (m c))" and "snd (m c) = snd (m Map.empty)"
  using assms unfolding transparent_def by blast+

lemma transparent_return [transparency]: "transparent env (returnS a)"
  by (simp add: transparent_def returnS_def)

lemma transparent_lift [transparency]: "transparent env (liftS r)"
  by (simp add: transparent_def liftS_def)

lemma transparent_bind [transparency]:
  assumes m: "transparent env m" and f: "\<And>a. transparent env (f a)"
  shows "transparent env (bindS m f)"
  unfolding transparent_def
proof (intro allI impI)
  fix c assume c: "cache_sound env c"
  obtain c1 r where mc: "m c = (c1, r)" by (cases "m c")
  from transparentD[OF m c] mc have c1: "cache_sound env c1" and "snd (m Map.empty) = r" by simp_all
  then obtain c2 where me: "m Map.empty = (c2, r)" by (cases "m Map.empty") simp
  from transparentD(1)[OF m sound_empty] me have c2: "cache_sound env c2" by simp
  show "cache_sound env (fst (bindS m f c)) \<and> snd (bindS m f c) = snd (bindS m f Map.empty)"
  proof (cases r)
    case (Inl e) with mc me c1 show ?thesis by (simp add: bindS_def)
  next
    case (Inr a)
    from transparentD[OF f c1, of a] transparentD(2)[OF f c2, of a] mc me Inr show ?thesis by (simp add: bindS_def)
  qed
qed

lemma transparent_if [transparency]: "transparent env m \<Longrightarrow> transparent env n \<Longrightarrow> transparent env (if b then m else n)"
  by simp

lemma transparent_prod [transparency]: "(\<And>x y. transparent env (f x y)) \<Longrightarrow> transparent env (case p of (x, y) \<Rightarrow> f x y)"
  by (cases p) simp

section \<open>Every check is transparent\<close>

lemma check_bind:
  "canPerformAuthorizationAction env d u e a req data fails f =
     bindS (can env u e a no_context) (\<lambda>(result, ctx). liftS
       (if \<not> ar_authorized result then
          (if fails then Inl FORBIDDEN else Inr (f\<lparr>af_authorized := False\<rparr>))
        else
          bindE (processDynamicFilters d u req data ctx (f\<lparr>af_authorized := True\<rparr>)) (\<lambda>f1.
          bindE (if af_authorized f1 then
                   processDynamicAsserts u ctx data (f1\<lparr>af_metadata := ax_metadata (ar_context result)\<rparr>)
                 else Inr f1) (\<lambda>f2.
            Inr (f2\<lparr>af_projectFields := filterProjectFields (ar_fields result) (req ''ProjectFields'')\<rparr>)))))"
  by (rule ext) (simp add: canPerformAuthorizationAction_def bindS_def liftS_def split: prod.splits sum.splits)

lemma entity_check_bind:
  "checkAndGetEntityAuthorizations env d e u req ids a data =
     bindS (can env u e a no_context) (\<lambda>(result, ctx). liftS
       (if \<not> ar_authorized result then Inl FORBIDDEN
        else
          bindE (processDynamicFilters d u ids data ctx (no_filters\<lparr>af_authorized := True\<rparr>)) (\<lambda>f1.
            if \<not> af_authorized f1 then Inl FORBIDDEN
            else
              bindE (processDynamicAsserts u ctx data (f1\<lparr>af_metadata := ax_metadata (ar_context result)\<rparr>)) (\<lambda>f2.
                if \<not> af_authorized f2 then Inl FORBIDDEN
                else Inr (f2\<lparr>af_projectFields := filterProjectFields (ar_fields result) (req ''ProjectFields'')\<rparr>)))))"
  by (rule ext) (simp add: checkAndGetEntityAuthorizations_def bindS_def liftS_def split: prod.splits sum.splits)

context role_acl
begin

lemma can_decides:
  assumes env: "ae_acl env = acl" and ok: "roles_ok (ut_rolesACL u)" and c: "cache_sound env c"
  obtains ctx' p where "acl AUTHORIZATION_DEFINITION (ut_rolesACL u) e a no_context = Inr (ctx', p)"
    and "snd (can env u e a no_context c) =
      Inr (\<lparr> ar_authorized = pm_granted p, ar_fields = pm_attributes p, ar_context = ctx' \<rparr>, ctx')"
    and "cache_sound env (fst (can env u e a no_context c))"
proof -
  let ?rs = "ut_rolesACL u" and ?i = "authID env (ut_rolesACL u) e a no_context"
  obtain ctx' p where dec: "acl AUTHORIZATION_DEFINITION ?rs e a no_context = Inr (ctx', p)"
    by (rule decides[OF ok])
  let ?result = "\<lparr> ar_authorized = pm_granted p, ar_fields = pm_attributes p, ar_context = ctx' \<rparr>"
  show thesis
  proof (cases "c ?i")
    case None
    have "cache_sound env (c(?i \<mapsto> ?result))"
      using c unfolding cache_sound_def by (simp add: authID_inj ok env dec)
    with None dec env that[OF dec] show thesis by (simp add: can_def canPerformAction_acl_def Let_def)
  next
    case (Some result)
    then have "result = ?result" using c ok dec env unfolding cache_sound_def by fastforce
    with Some c that[OF dec] decision_context(2)[OF ok dec] show thesis
      by (simp add: can_def canPerformAction_acl_def Let_def)
  qed
qed

lemma transparent_can:
  assumes "ae_acl env = acl" and "roles_ok (ut_rolesACL u)"
  shows "transparent env (can env u e a no_context)"
  unfolding transparent_def
proof (intro allI impI conjI)
  fix c assume "cache_sound env c"
  from can_decides[OF assms this] obtain ctx' p where dec: "acl AUTHORIZATION_DEFINITION (ut_rolesACL u) e a no_context = Inr (ctx', p)"
    and ans: "snd (can env u e a no_context c) = Inr (\<lparr> ar_authorized = pm_granted p, ar_fields = pm_attributes p, ar_context = ctx' \<rparr>, ctx')"
    and snd: "cache_sound env (fst (can env u e a no_context c))" .
  show "cache_sound env (fst (can env u e a no_context c))" by (rule snd)
  from can_decides[OF assms sound_empty, of e a] obtain ctx2 p2
    where "acl AUTHORIZATION_DEFINITION (ut_rolesACL u) e a no_context = Inr (ctx2, p2)"
    and "snd (can env u e a no_context Map.empty) =
      Inr (\<lparr> ar_authorized = pm_granted p2, ar_fields = pm_attributes p2, ar_context = ctx2 \<rparr>, ctx2)" .
  with dec ans show "snd (can env u e a no_context c) = snd (can env u e a no_context Map.empty)" by simp
qed

lemma transparent_check:
  assumes "ae_acl env = acl" and "roles_ok (ut_rolesACL u)"
  shows "transparent env (canPerformAuthorizationAction env d u e a req data fails f)"
  unfolding check_bind by (intro transparency transparent_can assms)

lemma transparent_entity_check:
  assumes "ae_acl env = acl" and "roles_ok (ut_rolesACL u)"
  shows "transparent env (checkAndGetEntityAuthorizations env d e u req ids a data)"
  unfolding entity_check_bind by (intro transparency transparent_can assms)

lemma transparent_actions:
  assumes "ae_acl env = acl" and "roles_ok (ut_rolesACL u)"
  shows "transparent env (add_actions env d u qs fs f)"
  by (induction qs arbitrary: fs f) (simp_all add: transparency transparent_check[OF assms])

end

lemma transparent_each:
  assumes "\<And>x f. transparent env (step x f)"
  shows "transparent env (each_item step xs f)"
  by (induction xs arbitrary: f) (auto intro!: transparency assms)

lemma transparent_list:
  assumes "\<And>f. transparent env (own f)" and "\<And>x f. transparent env (step x f)"
  shows "transparent env (list_actions own step xs f)"
  unfolding list_actions_def by (intro transparency transparent_each assms)

lemma transparent_check_and_get:
  assumes "transparent env authorize" and "\<And>x f. transparent env (add x f)"
  shows "transparent env (check_and_get authorize fetch further add i additional a)"
  unfolding check_and_get_def by (intro transparency assms)

end
