(* ===== verification/Access_Properties.thy ===== *)
theory Access_Properties
  imports Access_Cache
begin

text \<open>
  What access control guarantees to its callers: the checks answer, the cache is invisible, the
  administrators of sites and the demonstration users stay within what the table gives them, and the
  fields that are returned are granted ones. The last section holds the cases in which the services do
  not ask what they should.
\<close>

section \<open>Checks answer\<close>

lemma any_filter_ok: "list_all (\<lambda>s. parse_name filter_names s \<noteq> None) ss \<Longrightarrow> is_ok (any_filter d u extra entity ss b f)"
  by (induction ss arbitrary: b f) (auto simp: getDynamicFilter_def Let_def split: prod.split)

lemma all_groups_ok: "known_names filter_names gs \<Longrightarrow> is_ok (all_groups d u extra entity gs f)"
proof (induction gs arbitrary: f)
  case (Cons g gs)
  then have "is_ok (any_filter d u extra entity (group_names g) False (f\<lparr>af_authorized := False\<rparr>))"
    by (intro any_filter_ok) (simp add: known_names_def)
  then obtain f1 b where "any_filter d u extra entity (group_names g) False (f\<lparr>af_authorized := False\<rparr>) = Inr (f1, b)"
    by (auto dest!: is_okD)
  with Cons show ?case by (simp add: Let_def known_names_def)
qed simp

lemma any_assert_ok: "list_all (\<lambda>s. parse_name assert_names s \<noteq> None) ss \<Longrightarrow> is_ok (any_assert u e ss b)"
  by (induction ss arbitrary: b) (auto simp: getDynamicAssert_def)

lemma all_asserts_ok: "known_names assert_names gs \<Longrightarrow> is_ok (all_asserts u e gs b)"
proof (induction gs arbitrary: b)
  case (Cons g gs)
  then have "is_ok (any_assert u e (group_names g) False)"
    by (intro any_assert_ok) (simp add: known_names_def)
  with Cons show ?case by (auto dest!: is_okD simp: known_names_def)
qed simp

lemma filters_ok: "context_known ctx \<Longrightarrow> is_ok (processDynamicFilters d u extra entity ctx f)"
  by (simp add: processDynamicFilters_def context_known_def all_groups_ok)

lemma asserts_ok: "context_known ctx \<Longrightarrow> is_ok (processDynamicAsserts u ctx entity f)"
proof (cases entity)
  case (Some e)
  assume "context_known ctx"
  then have "is_ok (all_asserts u e (or_else (ax_asserts ctx) []) (af_authorized f))"
    by (simp add: context_known_def all_asserts_ok)
  then obtain ok where "all_asserts u e (or_else (ax_asserts ctx) []) (af_authorized f) = Inr ok" by (auto dest: is_okD)
  with Some show ?thesis by (simp add: processDynamicAsserts_def)
qed (simp add: processDynamicAsserts_def)

lemma filters_Inr:
  assumes "context_known ctx"
  obtains f' where "processDynamicFilters d u extra entity ctx f = Inr f'"
  using filters_ok[OF assms, of d u extra entity f] by (auto dest!: is_okD)

lemma asserts_Inr:
  assumes "context_known ctx"
  obtains f' where "processDynamicAsserts u ctx entity f = Inr f'"
  using asserts_ok[OF assms, of u entity f] by (auto dest!: is_okD)

context role_acl
begin

lemma check_total:
  assumes "ae_acl env = acl" and "roles_ok (ut_rolesACL u)" and "cache_sound env c"
  shows "is_ok (snd (canPerformAuthorizationAction env d u e a req data False f c))"
proof -
  from can_decides[OF assms, of e a] obtain ctx' p where dec: "acl AUTHORIZATION_DEFINITION (ut_rolesACL u) e a no_context = Inr (ctx', p)"
    and ans: "snd (can env u e a no_context c) = Inr (\<lparr> ar_authorized = pm_granted p, ar_fields = pm_attributes p, ar_context = ctx' \<rparr>, ctx')" .
  have known: "context_known ctx'" using decision_context(1)[OF assms(2) dec] by simp
  obtain f1 where f1: "processDynamicFilters d u req data ctx' (f\<lparr>af_authorized := True\<rparr>) = Inr f1"
    by (rule filters_Inr[OF known])
  obtain f2 where f2: "processDynamicAsserts u ctx' data (f1\<lparr>af_metadata := ax_metadata ctx'\<rparr>) = Inr f2"
    by (rule asserts_Inr[OF known])
  obtain c' where "can env u e a no_context c = (c', Inr (\<lparr> ar_authorized = pm_granted p, ar_fields = pm_attributes p, ar_context = ctx' \<rparr>, ctx'))"
    using ans by (cases "can env u e a no_context c") simp
  with f1 f2 show ?thesis by (simp add: check_bind bindS_def liftS_def)
qed

lemma entity_check_total:
  assumes "ae_acl env = acl" and "roles_ok (ut_rolesACL u)" and "cache_sound env c"
    and "snd (checkAndGetEntityAuthorizations env d e u req ids a data c) = Inl x"
  shows "x = FORBIDDEN"
proof -
  from can_decides[OF assms(1-3), of e a] obtain ctx' p where dec: "acl AUTHORIZATION_DEFINITION (ut_rolesACL u) e a no_context = Inr (ctx', p)"
    and ans: "snd (can env u e a no_context c) = Inr (\<lparr> ar_authorized = pm_granted p, ar_fields = pm_attributes p, ar_context = ctx' \<rparr>, ctx')" .
  have known: "context_known ctx'" using decision_context(1)[OF assms(2) dec] by simp
  obtain f1 where f1: "processDynamicFilters d u ids data ctx' (no_filters\<lparr>af_authorized := True\<rparr>) = Inr f1"
    by (rule filters_Inr[OF known])
  obtain f2 where f2: "processDynamicAsserts u ctx' data (f1\<lparr>af_metadata := ax_metadata ctx'\<rparr>) = Inr f2"
    by (rule asserts_Inr[OF known])
  obtain c' where "can env u e a no_context c = (c', Inr (\<lparr> ar_authorized = pm_granted p, ar_fields = pm_attributes p, ar_context = ctx' \<rparr>, ctx'))"
    using ans by (cases "can env u e a no_context c") simp
  with f1 f2 assms(4) show ?thesis by (simp add: entity_check_bind bindS_def liftS_def split: if_splits)
qed

lemma actions_total:
  assumes "ae_acl env = acl" and "roles_ok (ut_rolesACL u)" and "cache_sound env c"
  shows "is_ok (snd (add_actions env d u qs fs f c))"
  using assms(3)
proof (induction qs arbitrary: fs f c)
  case (Cons q qs)
  obtain c' r where r: "canPerformAuthorizationAction env d u (qu_entity q) (qu_action q) (qu_request q) (qu_data q) False f c = (c', r)"
    by (cases "canPerformAuthorizationAction env d u (qu_entity q) (qu_action q) (qu_request q) (qu_data q) False f c")
  obtain f' where "r = Inr f'"
    using check_total[OF assms(1,2) Cons.prems, of d "qu_entity q" "qu_action q" "qu_request q" "qu_data q" f] r by (auto dest: is_okD)
  moreover have "cache_sound env c'"
    using transparentD(1)[OF transparent_check[OF assms(1,2)] Cons.prems] r by (metis fst_conv)
  ultimately show ?case using Cons r by (simp add: bindS_def)
qed (simp add: returnS_def)

end

text \<open>Access control always answers. For a user with roles of the table, a check of an object gives the filters of
  the request or refuses with 403, and asking for the actions of an object never fails: every filter and assertion that
  the table names is one that the factory builds.\<close>

theorem checks_answer:
  assumes "role_acl (ae_acl env) holds" and "roles_ok (ut_rolesACL u)" and "cache_sound env c"
  shows "(case snd (checkAndGetEntityAuthorizations env d e u req ids a data c) of Inl x \<Rightarrow> x = FORBIDDEN | Inr _ \<Rightarrow> True)
    \<and> is_ok (snd (add_actions env d u qs fs f c))"
proof
  show "case snd (checkAndGetEntityAuthorizations env d e u req ids a data c) of Inl x \<Rightarrow> x = FORBIDDEN | Inr _ \<Rightarrow> True"
    using role_acl.entity_check_total[OF assms(1) refl assms(2,3), of d e req ids a data] by (simp split: sum.split)
qed (rule role_acl.actions_total[OF assms(1) refl assms(2,3)])

text \<open>C22: the cache of the decisions is invisible: whatever sound cache a check finds, it answers as with the empty
  cache, and it leaves a sound one. So it does for a check of an object, for reading an object with its actions and for
  the actions of a list.\<close>

theorem cache_never_changes_an_answer:
  assumes "role_acl (ae_acl env) holds" and "roles_ok (ut_rolesACL u)" and "cache_sound env c"
  shows "snd (checkAndGetEntityAuthorizations env d e u req ids a data c) = snd (checkAndGetEntityAuthorizations env d e u req ids a data Map.empty)
    \<and> snd (checkAndGetSiteAreaAuthorization env d u col i a data p c) = snd (checkAndGetSiteAreaAuthorization env d u col i a data p Map.empty)
    \<and> snd (addSitesAuthorizations env d u xs f c) = snd (addSitesAuthorizations env d u xs f Map.empty)
    \<and> cache_sound env (fst (checkAndGetSiteAreaAuthorization env d u col i a data p c))
    \<and> cache_sound env (fst (addSitesAuthorizations env d u xs f c))"
proof -
  note check = role_acl.transparent_entity_check[OF assms(1) refl assms(2)]
    and actions = role_acl.transparent_actions[OF assms(1) refl assms(2)]
  have site: "transparent env (addSiteAuthorizations env d u x f)" for x f
    unfolding addSiteAuthorizations_def drop_false_def by (intro transparency actions)
  have area: "transparent env (addSiteAreaAuthorizations env d u x f)" for x f
    unfolding addSiteAreaAuthorizations_def drop_false_def by (intro transparency actions)
  have read: "transparent env (checkAndGetSiteAreaAuthorization env d u col i a data p)"
    unfolding checkAndGetSiteAreaAuthorization_def checkAndGetSiteAreaAuthorizations_def
    by (intro transparent_check_and_get check area)
  have sites: "transparent env (addSitesAuthorizations env d u xs f)"
    unfolding addSitesAuthorizations_def by (intro transparent_list actions site)
  show ?thesis
    by (intro conjI transparentD[OF check assms(3)] transparentD[OF read assms(3)] transparentD[OF sites assms(3)])
qed

section \<open>What the roles can do\<close>

text \<open>A demonstration user changes nothing: whatever the resource and the context, only listing, reading and
  reading consumptions are granted.\<close>

theorem demo_reads_only:
  assumes "role_acl acl holds" and "ut_rolesACL u = [''demo'']" and "canPerformAction acl u e a ctx = Inr True"
  shows "a \<in> {Action.LIST, Action.READ, Action.READ_CONSUMPTION}"
proof -
  have demo: "list_all (\<lambda>p. snd p \<in> set [Action.LIST, Action.READ, Action.READ_CONSUMPTION]) (granted_pairs (role_grants ''demo''))"
    by code_simp
  obtain ctx' p where "acl AUTHORIZATION_DEFINITION [''demo''] e a ctx = Inr (ctx', p)" and "pm_granted p"
    using assms(2,3) by (auto simp: canPerformAction_def can_acl_def split: sum.splits)
  from role_acl.granted_pair[OF assms(1) this] demo show ?thesis by (auto simp: list_all_iff)
qed

lemma station_grants:
  "matching AUTHORIZATION_DEFINITION [''siteAdmin''] Entity.CHARGING_STATION Action.UPDATE =
     matching AUTHORIZATION_DEFINITION [''siteAdmin''] Entity.CHARGING_STATION Action.DELETE"
  "map g_condition (matching AUTHORIZATION_DEFINITION [''siteAdmin''] Entity.CHARGING_STATION Action.DELETE) =
     [Some (List_Contains_Fn ''sitesAdmin'' (Field ''site''))]"
  "matching AUTHORIZATION_DEFINITION [''basic''] Entity.CHARGING_STATION Action.UPDATE = []"
  "matching AUTHORIZATION_DEFINITION [''basic''] Entity.CHARGING_STATION Action.DELETE = []"
  by code_simp+

context role_acl
begin

lemma decides_grant:
  assumes "roles_ok roles" and "map g_condition (matching AUTHORIZATION_DEFINITION roles r a) = [Some c]"
  shows "can_acl acl roles r a ctx = Inr (holds c ctx)"
proof -
  obtain ctx' p where dec: "acl AUTHORIZATION_DEFINITION roles r a ctx = Inr (ctx', p)" by (rule decides[OF assms(1)])
  from assms(2) obtain g where "matching AUTHORIZATION_DEFINITION roles r a = [g]" and "g_condition g = Some c" by auto
  with acl_granted[OF dec] dec show ?thesis by (simp add: can_acl_def grant_holds_def)
qed

lemma decides_none:
  assumes "roles_ok roles" and "matching AUTHORIZATION_DEFINITION roles r a = []"
  shows "can_acl acl roles r a ctx = Inr False"
proof -
  obtain ctx' p where dec: "acl AUTHORIZATION_DEFINITION roles r a ctx = Inr (ctx', p)" by (rule decides[OF assms(1)])
  with not_granted[OF dec assms(2)] show ?thesis by (simp add: can_acl_def)
qed

end

text \<open>An administrator of sites updates and deletes the charging stations of exactly the sites of the token, and a
  basic user none.\<close>

theorem stations_of_own_sites:
  assumes "role_acl acl holds"
    and "ut_rolesACL u = [r]" and "r = ''siteAdmin'' \<or> r = ''basic''"
  shows "canUpdateChargingStation acl u (Some s) = Inr (r = ''siteAdmin'' \<and> s \<in> set (ut_sitesAdmin u))
    \<and> canDeleteChargingStation acl u (Some s) = Inr (r = ''siteAdmin'' \<and> s \<in> set (ut_sitesAdmin u))"
  using assms(3)
proof
  let ?ctx = "context_of [(''site'', opt_value (Some s)), (''sitesAdmin'', Strs (ut_sitesAdmin u))]"
  have holds: "holds (List_Contains_Fn ''sitesAdmin'' (Field ''site'')) ?ctx \<longleftrightarrow> s \<in> set (ut_sitesAdmin u)"
    by (rule role_acl.holds_contains[OF assms(1)]) (simp_all add: context_of_def opt_value_def)
  have ok: "roles_ok [''siteAdmin'']" "roles_ok [''basic'']" by (simp_all add: roles_ok_def role_names_def)
  note defs = canUpdateChargingStation_def canDeleteChargingStation_def canPerformAction_def
  {
    assume "r = ''siteAdmin''"
    with role_acl.decides_grant[OF assms(1) ok(1), of Entity.CHARGING_STATION] holds assms(2) show ?thesis
      by (simp add: defs station_grants)
  next
    assume "r = ''basic''"
    with role_acl.decides_none[OF assms(1) ok(2), of Entity.CHARGING_STATION] assms(2) show ?thesis
      by (simp add: defs station_grants)
  }
qed

section \<open>The objects and fields of a request\<close>

lemma assertAuthorized_Inr: "assertAuthorized b = Inr x \<longleftrightarrow> b"
  by (simp add: assertAuthorized_def)

lemma assertObjectExists_Inr: "assertObjectExists x = Inr a \<longleftrightarrow> x = Some a"
  by (simp add: assertObjectExists_def split: option.split)

lemma check_and_getD:
  assumes "check_and_get authorize fetch further add i additional a c = (c', Inr g)"
  obtains f where "snd (authorize c) = Inr f" and "af_authorized f" and "fetch (with_filters additional f) = Some (gi_item g)"
    and "gi_projectFields g = af_projectFields f" and "canPerform_flag (gi_flags g) a"
  using assms
  by (auto simp: check_and_get_def bindS_Inr liftS_def returnS_def assertAuthorized_Inr assertObjectExists_Inr split: prod.splits)

definition only_filters :: "name_group list \<Rightarrow> condition \<Rightarrow> bool" where
  "only_filters fs c = (case c of Dynamic fs' _ _ \<Rightarrow> fs' = Some fs | _ \<Rightarrow> False)"

lemma run_only_filters:
  assumes "only_filters fs c" and "ax_filtersSet ctx \<Longrightarrow> ax_filters ctx = Some fs"
  shows "ax_filters (run_condition c ctx) = Some fs \<and> ax_filtersSet (run_condition c ctx)"
  using assms by (cases c) (auto simp: only_filters_def dynamicAuthorizations_def set_once_def split: option.splits prod.splits if_splits)

lemma fold_only_filters:
  assumes "list_all (only_filters fs) cs" and "ax_filters ctx = Some fs \<and> ax_filtersSet ctx"
  shows "ax_filters (fold run_condition cs ctx) = Some fs"
  using assms by (induction cs arbitrary: ctx) (auto intro!: run_only_filters)

lemma narrowed_subset: "set (narrowed ids asked) \<subseteq> set ids"
  by (auto simp: narrowed_def split: option.splits)

lemma sites_admin_filter:
  assumes "processDynamicFilters d u extra entity ctx (no_filters\<lparr>af_authorized := True\<rparr>) = Inr f"
    and "ax_filters ctx = Some [One ''SitesAdmin'']" and "af_authorized f"
  shows "\<exists>ids. af_siteIDs f = Some ids \<and> ids \<noteq> [] \<and> set ids \<subseteq> set (getSiteAdminSiteIDs d (ut_id u))"
proof -
  have "getDynamicFilter ''SitesAdmin'' = Some (SITES_ADMIN, False)" by code_simp
  with assms narrowed_subset[of "getSiteAdminSiteIDs d (ut_id u)" "extra ''SiteID''"] show ?thesis
    by (auto simp: processDynamicFilters_def initFilterDataSources_def no_filters_def filter_defs
        allow_nonempty_def data_source_defs Let_def split: if_splits)
qed

context role_acl
begin

lemma entity_checkD:
  assumes "ae_acl env = acl" and "roles_ok (ut_rolesACL u)" and "cache_sound env c"
    and "snd (checkAndGetEntityAuthorizations env d e u req ids a data c) = Inr f"
  obtains ctx' p f1 where "acl AUTHORIZATION_DEFINITION (ut_rolesACL u) e a no_context = Inr (ctx', p)" and "pm_granted p"
    and "processDynamicFilters d u ids data ctx' (no_filters\<lparr>af_authorized := True\<rparr>) = Inr f1" and "af_authorized f1"
    and "af_siteIDs f = af_siteIDs f1" and "af_userIDs f = af_userIDs f1"
    and "af_projectFields f = filterProjectFields (pm_attributes p) (req ''ProjectFields'')"
proof -
  from can_decides[OF assms(1-3), of e a] obtain ctx' p where dec: "acl AUTHORIZATION_DEFINITION (ut_rolesACL u) e a no_context = Inr (ctx', p)"
    and ans: "snd (can env u e a no_context c) = Inr (\<lparr> ar_authorized = pm_granted p, ar_fields = pm_attributes p, ar_context = ctx' \<rparr>, ctx')" .
  obtain c' where "can env u e a no_context c = (c', Inr (\<lparr> ar_authorized = pm_granted p, ar_fields = pm_attributes p, ar_context = ctx' \<rparr>, ctx'))"
    using ans by (cases "can env u e a no_context c") simp
  with assms(4) that[OF dec] show thesis
    by (auto simp: entity_check_bind bindS_def liftS_def bindE_eq_Inr processDynamicAsserts_def split: if_splits option.splits)
qed

lemma granted_filters:
  assumes "roles_ok roles" and dec: "acl AUTHORIZATION_DEFINITION roles r a no_context = Inr (ctx', p)" and "pm_granted p"
    and all: "list_all (\<lambda>g. case g_condition g of None \<Rightarrow> False | Some c \<Rightarrow> only_filters fs c) (matching AUTHORIZATION_DEFINITION roles r a)"
  shows "ax_filters ctx' = Some fs"
proof -
  obtain cs where sub: "set (map Some cs) \<subseteq> g_condition ` set (matching AUTHORIZATION_DEFINITION roles r a)"
    and eq: "ctx' = fold run_condition cs no_context"
    and none: "cs = [] \<longrightarrow> (\<exists>g \<in> set (matching AUTHORIZATION_DEFINITION roles r a). g_condition g = None)"
    using acl_context[OF dec] assms(3) by blast
  have "only_filters fs c" if "c \<in> set cs" for c
  proof -
    from that have "Some c \<in> set (map Some cs)" by simp
    with sub have "Some c \<in> g_condition ` set (matching AUTHORIZATION_DEFINITION roles r a)" by (rule subsetD)
    then obtain g where c: "Some c = g_condition g" and g: "g \<in> set (matching AUTHORIZATION_DEFINITION roles r a)" by (rule imageE)
    from all g have "case g_condition g of None \<Rightarrow> False | Some c \<Rightarrow> only_filters fs c" by (simp add: list_all_iff)
    then show ?thesis by (simp add: c[symmetric])
  qed
  then have cs: "list_all (only_filters fs) cs" by (simp add: list_all_iff)
  show ?thesis
  proof (cases cs)
    case Nil
    with none all show ?thesis by (fastforce simp: list_all_iff)
  next
    case (Cons c cs')
    with cs have "only_filters fs c" and "list_all (only_filters fs) cs'" by simp_all
    have "ax_filters (run_condition c no_context) = Some fs \<and> ax_filtersSet (run_condition c no_context)"
      by (rule run_only_filters[OF \<open>only_filters fs c\<close>]) (simp add: no_context_def)
    from fold_only_filters[OF \<open>list_all (only_filters fs) cs'\<close> this] eq Cons show ?thesis by simp
  qed
qed

end

lemma filterProjectFields_subset: "set (filterProjectFields granted asked) \<subseteq> set granted - {''*''}"
  by (auto simp: filterProjectFields_def Let_def)

text \<open>A check returns no field that is not granted: the projected fields are attributes of the grants of the user's
  roles for this resource and this action, and the wildcard is never among them.\<close>

theorem fields_are_granted:
  assumes "role_acl (ae_acl env) holds" and "roles_ok (ut_rolesACL u)" and "cache_sound env c"
    and "checkAndGetEntityAuthorizations env d e u req ids a data c = (c', Inr f)"
  shows "set (af_projectFields f) \<subseteq>
    (\<Union>g \<in> set (matching AUTHORIZATION_DEFINITION (ut_rolesACL u) e a). set (attributes_of g)) - {''*''}"
proof -
  have "snd (checkAndGetEntityAuthorizations env d e u req ids a data c) = Inr f" using assms(4) by simp
  from role_acl.entity_checkD[OF assms(1) refl assms(2,3) this] obtain ctx' p
    where dec: "ae_acl env AUTHORIZATION_DEFINITION (ut_rolesACL u) e a no_context = Inr (ctx', p)"
      and fields: "af_projectFields f = filterProjectFields (pm_attributes p) (req ''ProjectFields'')" .
  have "set (pm_attributes p) \<subseteq> (\<Union>g \<in> set (matching AUTHORIZATION_DEFINITION (ut_rolesACL u) e a). set (attributes_of g))"
    using role_acl.acl_attributes[OF assms(1) dec] by blast
  with filterProjectFields_subset[of "pm_attributes p" "req ''ProjectFields''"] show ?thesis unfolding fields by blast
qed

lemma site_admin_grants:
  "list_all (\<lambda>g. g_resource g \<in> set [Entity.REGISTRATION_TOKEN, Entity.LOGGING] \<longrightarrow>
     (case g_condition g of None \<Rightarrow> False | Some c \<Rightarrow> only_filters [One ''SitesAdmin''] c)) (role_grants ''siteAdmin'')"
  by code_simp

context role_acl
begin

lemma site_admin_sites:
  assumes "ae_acl env = acl" and "ut_rolesACL u = [''siteAdmin'']" and "cache_sound env c"
    and "e = Entity.REGISTRATION_TOKEN \<or> e = Entity.LOGGING"
    and "snd (checkAndGetEntityAuthorizations env d e u req ids a data c) = Inr f"
  shows "\<exists>sites. af_siteIDs f = Some sites \<and> sites \<noteq> [] \<and> set sites \<subseteq> set (getSiteAdminSiteIDs d (ut_id u))"
proof -
  have ok: "roles_ok (ut_rolesACL u)" by (simp add: assms(2) roles_ok_def role_names_def)
  from entity_checkD[OF assms(1) ok assms(3,5)] obtain ctx' p f1
    where dec: "acl AUTHORIZATION_DEFINITION (ut_rolesACL u) e a no_context = Inr (ctx', p)" and granted: "pm_granted p"
      and f1: "processDynamicFilters d u ids data ctx' (no_filters\<lparr>af_authorized := True\<rparr>) = Inr f1" "af_authorized f1"
      and same: "af_siteIDs f = af_siteIDs f1" .
  have "list_all (\<lambda>g. case g_condition g of None \<Rightarrow> False | Some c \<Rightarrow> only_filters [One ''SitesAdmin''] c)
    (matching AUTHORIZATION_DEFINITION (ut_rolesACL u) e a)"
    using site_admin_grants assms(2,4) by (auto simp: matching_roles list_all_iff)
  from granted_filters[OF ok dec granted this] sites_admin_filter[OF f1(1) _ f1(2)] same show ?thesis by simp
qed

end

lemma match_confined:
  assumes "af_siteIDs f = Some sites" and "sites \<noteq> []" and "match_ids (qp_siteIDs (with_filters additional f)) v"
  obtains s where "v = Some s" and "s \<in> set sites"
  using assms by (cases v) (auto simp: match_ids_def with_filters_def override_def)

lemma only_record_SomeD: "only_record (filter P xs) = Some x \<Longrightarrow> x \<in> set xs \<and> P x"
proof -
  assume "only_record (filter P xs) = Some x"
  then have "filter P xs = [x]" by (simp add: only_record_def split: list.splits)
  then have "x \<in> set (filter P xs)" by simp
  then show ?thesis by simp
qed

text \<open>C11: an administrator of sites is confined to them: whatever the action and the further parameters of the query, a
  registration token or a log that is given out belongs to a site that the user administers now.\<close>

theorem site_admin_confined:
  assumes "role_acl (ae_acl env) holds" and "ut_rolesACL u = [''siteAdmin'']" and "cache_sound env c"
    and "checkAndGetRegistrationTokenAuthorization env d u col i a data additional c = (c', Inr g)
      \<or> checkAndGetLogAuthorization env d u col i a data additional c = (c', Inr g)"
  shows "gi_item g \<in> set col \<and> (\<exists>s \<in> set (getSiteAdminSiteIDs d (ut_id u)). it_siteID (gi_item g) = Some s)"
  using assms(4)
proof
  note confined = role_acl.site_admin_sites[OF assms(1) refl assms(2,3)]
  {
    assume "checkAndGetRegistrationTokenAuthorization env d u col i a data additional c = (c', Inr g)"
    then obtain f where f: "snd (checkAndGetRegistrationTokenAuthorizations env d u (request_for i) a data c) = Inr f"
      and x: "getRegistrationToken col i (with_filters additional f) = Some (gi_item g)"
      unfolding checkAndGetRegistrationTokenAuthorization_def by (rule check_and_getD)
    from confined[OF _ f[unfolded checkAndGetRegistrationTokenAuthorizations_def]] obtain sites
      where "af_siteIDs f = Some sites" and "sites \<noteq> []" and sub: "set sites \<subseteq> set (getSiteAdminSiteIDs d (ut_id u))" by auto
    from match_confined[OF this(1,2)] only_record_SomeD[OF x[unfolded getRegistrationToken_def]] sub show ?thesis by blast
  next
    assume "checkAndGetLogAuthorization env d u col i a data additional c = (c', Inr g)"
    then obtain f where f: "snd (checkAndGetLoggingAuthorizations env d u (request_for i) a data c) = Inr f"
      and x: "getLog col i (with_filters additional f) = Some (gi_item g)"
      unfolding checkAndGetLogAuthorization_def by (rule check_and_getD)
    from confined[OF _ f[unfolded checkAndGetLoggingAuthorizations_def]] obtain sites
      where "af_siteIDs f = Some sites" and "sites \<noteq> []" and sub: "set sites \<subseteq> set (getSiteAdminSiteIDs d (ut_id u))" by auto
    from match_confined[OF this(1,2)] only_record_SomeD[OF x[unfolded getLog_def]] sub show ?thesis by blast
  }
qed

end
