(* ===== verification/Access_Cases.thy ===== *)
theory Access_Cases
  imports Access_Properties
begin

text \<open>
  Cases on a small tenant: two sites, the administrator of the first and a user of the second. They
  instantiate the properties of access control, with the implementation of role-acl that evaluates the
  conditions in the order of the grants, and show where the services do not ask what they should.
\<close>

section \<open>A tenant\<close>

definition ordered_env :: acl_env where
  "ordered_env = \<lparr> ae_acl = ordered_acl, ae_json = (\<lambda>_. ''{}'') \<rparr>"

definition two_sites :: directory where
  "two_sites = \<lparr> dr_users = [], dr_tags = [],
     dr_sites = [\<lparr> si_id = ''s1'', si_companyID = ''c'', si_issuer = True \<rparr>, \<lparr> si_id = ''s2'', si_companyID = ''c'', si_issuer = True \<rparr>],
     dr_userSites = [\<lparr> us_userID = ''sam'', us_siteID = ''s1'', us_siteAdmin = True, us_siteOwner = False \<rparr>,
       \<lparr> us_userID = ''bob'', us_siteID = ''s2'', us_siteAdmin = False, us_siteOwner = False \<rparr>],
     dr_components = [(ORGANIZATION, True)] \<rparr>"

definition sam :: user_token where
  "sam = \<lparr> ut_id = ''sam'', ut_role = BASIC, ut_rolesACL = [''siteAdmin''], ut_tagIDs = [], ut_sitesAdmin = [''s1''],
     ut_sitesOwner = [], ut_sites = [''s1''], ut_activeComponents = [ORGANIZATION, CAR] \<rparr>"

definition object :: "string \<Rightarrow> string option \<Rightarrow> string option \<Rightarrow> string list \<Rightarrow> item" where
  "object i userID siteID sites = \<lparr> it_id = i,
     it_data = \<lparr> ed_issuer = Some True, ed_userID = userID, ed_siteAreaID = None, ed_role = None, ed_carType = None \<rparr>,
     it_siteID = siteID, it_companyID = Some ''c'', it_sites = sites, it_visualID = Some i, it_dynamicAsset = False,
     it_usesPushAPI = False, it_deleted = False \<rparr>"

lemma ordered_conforms: "role_acl (ae_acl ordered_env) in_order"
  by (simp add: ordered_env_def ordered.role_acl_axioms)

lemma sam_ok: "roles_ok (ut_rolesACL sam)"
  by (simp add: sam_def roles_ok_def role_names_def)

definition object_of :: "(auth_cache \<times> granted_item res) \<Rightarrow> item option" where
  "object_of r = (case snd r of Inr g \<Rightarrow> Some (gi_item g) | Inl _ \<Rightarrow> None)"

section \<open>Instances\<close>

theorem checks_answer_witness:
  "is_ok (snd (add_actions ordered_env two_sites sam [ask ''canCreate'' Entity.CAR Action.CREATE] [] no_filters Map.empty))"
  using checks_answer[OF ordered_conforms sam_ok sound_empty] by blast

definition warm_cache :: auth_cache where
  "warm_cache = fst (addSitesAuthorizations ordered_env two_sites sam [object ''s1'' None None []] no_filters Map.empty)"

theorem cache_never_changes_an_answer_witness:
  "snd (addSitesAuthorizations ordered_env two_sites sam [object ''s2'' None None []] no_filters warm_cache) =
   snd (addSitesAuthorizations ordered_env two_sites sam [object ''s2'' None None []] no_filters Map.empty)"
proof -
  note fact = cache_never_changes_an_answer[OF ordered_conforms sam_ok]
  have "cache_sound ordered_env warm_cache" unfolding warm_cache_def by (intro fact[THEN conjunct2, THEN conjunct2, THEN conjunct2, THEN conjunct2] sound_empty)
  from fact[OF this] show ?thesis by blast
qed

theorem demo_reads_only_witness:
  "canPerformAction ordered_acl (sam\<lparr>ut_rolesACL := [''demo'']\<rparr>) Entity.CHARGING_STATION Action.READ no_context = Inr True
   \<and> Action.READ \<in> {Action.LIST, Action.READ, Action.READ_CONSUMPTION}"
proof -
  have "canPerformAction ordered_acl (sam\<lparr>ut_rolesACL := [''demo'']\<rparr>) Entity.CHARGING_STATION Action.READ no_context = Inr True"
    by code_simp
  from this demo_reads_only[OF ordered.role_acl_axioms _ this] show ?thesis by simp
qed

theorem stations_of_own_sites_witness:
  "canDeleteChargingStation ordered_acl sam (Some ''s1'') = Inr True \<and> canDeleteChargingStation ordered_acl sam (Some ''s2'') = Inr False"
proof -
  have sam: "ut_rolesACL sam = [''siteAdmin'']" "ut_sitesAdmin sam = [''s1'']" by (simp_all add: sam_def)
  show ?thesis using stations_of_own_sites[OF ordered.role_acl_axioms sam(1)] sam(2) by simp
qed

text \<open>The administrator of the first site reads a log of it.\<close>

abbreviation read_log :: "auth_cache \<times> granted_item res" where
  "read_log \<equiv> checkAndGetLogAuthorization ordered_env two_sites sam [object ''log'' None (Some ''s1'') []] ''log'' Action.READ None no_params Map.empty"

lemma read_log: "object_of read_log = Some (object ''log'' None (Some ''s1'') [])"
  by code_simp

lemma read_log_Inr:
  obtains c' g where "read_log = (c', Inr g)"
  using read_log by (cases "snd read_log"; cases read_log) (auto simp: object_of_def)

theorem fields_are_granted_witness:
  "list_all (\<lambda>x. x \<noteq> ''*'') (af_projectFields (case snd (checkAndGetLoggingAuthorizations ordered_env two_sites sam (request_for ''log'') Action.READ None Map.empty)
     of Inr f \<Rightarrow> f | Inl _ \<Rightarrow> no_filters\<lparr>af_projectFields := [''*'']\<rparr>))"
proof -
  obtain c' g where "read_log = (c', Inr g)" by (rule read_log_Inr)
  then obtain f where "snd (checkAndGetLoggingAuthorizations ordered_env two_sites sam (request_for ''log'') Action.READ None Map.empty) = Inr f"
    unfolding checkAndGetLogAuthorization_def by (rule check_and_getD)
  then obtain c1 where c1: "checkAndGetLoggingAuthorizations ordered_env two_sites sam (request_for ''log'') Action.READ None Map.empty = (c1, Inr f)"
    by (cases "checkAndGetLoggingAuthorizations ordered_env two_sites sam (request_for ''log'') Action.READ None Map.empty") simp
  from fields_are_granted[OF ordered_conforms sam_ok sound_empty c1[unfolded checkAndGetLoggingAuthorizations_def]] c1 show ?thesis
    by (auto simp: list_all_iff)
qed

theorem site_admin_confined_witness:
  "(case object_of read_log of Some x \<Rightarrow> it_siteID x | None \<Rightarrow> None) = Some ''s1''"
proof -
  obtain c' g where g: "read_log = (c', Inr g)" by (rule read_log_Inr)
  have roles: "ut_rolesACL sam = [''siteAdmin'']" by (simp add: sam_def)
  have "getSiteAdminSiteIDs two_sites (ut_id sam) = [''s1'']" by code_simp
  then have conf: "\<exists>s \<in> set [''s1'']. it_siteID (gi_item g) = Some s"
    using site_admin_confined[OF ordered_conforms roles sound_empty disjI2, OF g] by metis
  show ?thesis unfolding g object_of_def using conf by auto
qed

section \<open>What the services do not ask\<close>

text \<open>The sites are not asked for. The query for a car ignores the sites of the check, and so does the query for a
  badge by its visual number: the administrator of the first site deletes the car of a user of the second.\<close>

theorem cars_and_badges_escape_the_sites:
  "getCar col i (with_filters p (f\<lparr>af_siteIDs := sites\<rparr>)) = getCar col i (with_filters p f)
   \<and> getTagByVisualID col i (with_filters p (f\<lparr>af_siteIDs := sites\<rparr>)) = getTagByVisualID col i (with_filters p f)
   \<and> object_of (checkAndGetCarAuthorization ordered_env two_sites sam [object ''car'' (Some ''bob'') None [''s2'']] ''car'' Action.DELETE None
        no_params Map.empty) = Some (object ''car'' (Some ''bob'') None [''s2''])"
proof -
  have "object_of (checkAndGetCarAuthorization ordered_env two_sites sam [object ''car'' (Some ''bob'') None [''s2'']] ''car'' Action.DELETE None
        no_params Map.empty) = Some (object ''car'' (Some ''bob'') None [''s2''])" by code_simp
  then show ?thesis by (simp add: getCar_def getTagByVisualID_def with_filters_def)
qed

text \<open>Assigning sites to a user asks for the right to unassign them. The two requests are checked alike, so the
  administrator of a site, whom no grant lets assign users, adds the site to a user.\<close>

theorem assigning_sites_asks_for_unassigning:
  "checkAndAssignUserSitesAuthorizations env d ADD_SITES_TO_USER u req = checkAndAssignUserSitesAuthorizations env d REMOVE_SITES_FROM_USER u req
   \<and> matching AUTHORIZATION_DEFINITION [''siteAdmin''] Entity.USERS_SITES Action.ASSIGN = []
   \<and> snd (checkUserSitesAuthorization ordered_env two_sites sam [object ''s1'' None None []] ''bob'' [''s1''] ADD_SITES_TO_USER no_params Map.empty)
       = Inr [object ''s1'' None None []]"
proof -
  have "matching AUTHORIZATION_DEFINITION [''siteAdmin''] Entity.USERS_SITES Action.ASSIGN = []" by code_simp
  moreover have "snd (checkUserSitesAuthorization ordered_env two_sites sam [object ''s1'' None None []] ''bob'' [''s1''] ADD_SITES_TO_USER no_params Map.empty)
       = Inr [object ''s1'' None None []]" by code_simp
  ultimately show ?thesis by (simp add: checkAndAssignUserSitesAuthorizations_def)
qed

end
