(* ===== verification/Setting_Store.thy ===== *)
theory Setting_Store
  imports Entity_Access Lock_Protocol "HOL-Library.List_Lexorder" "HOL-Library.Char_ord"
begin

text \<open>
  The settings of a tenant (src/types/Setting.ts) and their collection
  (src/storage/mongodb/SettingStorage.ts), with what the secrets in them need: the encryption key.

  A setting is a document. Its properties are seen through their paths, as the code does with
  \<^verbatim>\<open>_.get\<close>, \<^verbatim>\<open>_.has\<close> and \<^verbatim>\<open>_.set\<close>: \<open>st_props\<close> maps the paths of the leaves of the document
  (such as \<^verbatim>\<open>content.stripe.secretKey\<close>) to their values. The setting of the encryption key is the one
  whose content the code reads field by field; it is \<open>st_crypto\<close>. Who changed a setting and when is left
  out.
\<close>

section \<open>Settings\<close>

text \<open>The values of the leaves: strings, booleans, dates; \<^verbatim>\<open>undefined\<close> and \<^verbatim>\<open>null\<close> are \<open>None\<close>.\<close>

datatype property = Text string | Flag bool | Time int

datatype sensitive_names = Names "string list" | Not_Array

record key_properties =
  kp_blockCypher :: string
  kp_blockSize :: int
  kp_operationMode :: string

record crypto_setting =
  cy_key :: string
  cy_keyProperties :: key_properties
  cy_formerKey :: "string option"
  cy_formerKeyProperties :: "key_properties option"
  cy_migrationToBeDone :: bool

record setting =
  st_id :: "string option"
  st_identifier :: string
  st_sensitiveData :: "sensitive_names option"
  st_backupSensitiveData :: "(string \<times> property) list option"
  st_props :: "string \<Rightarrow> property option"
  st_crypto :: "crypto_setting option"

definition CRYPTO :: string where "CRYPTO = ''crypto''"

text \<open>\<^verbatim>\<open>value && value.length > 0\<close> on the value at a path.\<close>

definition text_at :: "setting \<Rightarrow> string \<Rightarrow> string option" where
  "text_at s p = (case st_props s p of Some (Text v) \<Rightarrow> if v \<noteq> [] then Some v else None | _ \<Rightarrow> None)"

definition set_at :: "setting \<Rightarrow> string \<Rightarrow> string \<Rightarrow> setting" where
  "set_at s p v = s\<lparr>st_props := (st_props s)(p \<mapsto> Text v)\<rparr>"

definition sensitive_paths :: "setting \<Rightarrow> string list" where
  "sensitive_paths s = (case st_sensitiveData s of Some (Names ns) \<Rightarrow> ns | _ \<Rightarrow> [])"

section \<open>The back end of a tenant\<close>

text \<open>
  The surroundings: the tenant, the cipher of the \<^verbatim>\<open>crypto\<close> module of Node, its random bytes, and the
  generator of identifiers. \<open>ve_cipher algorithm key iv authTagLength data\<close> is the encrypted data and
  the authentication tag; \<open>ve_decipher\<close> has the tag, when one is set, before the data. Both raise on an
  unknown algorithm, and on a key or an initial vector of the wrong length. A string stands for its bytes.
\<close>

record vault_env = lock_env +
  ve_tenantID :: string
  ve_cipher :: "string \<Rightarrow> string \<Rightarrow> string \<Rightarrow> nat option \<Rightarrow> string \<Rightarrow> (string \<times> string option) res"
  ve_decipher :: "string \<Rightarrow> string \<Rightarrow> string \<Rightarrow> nat option \<Rightarrow> string option \<Rightarrow> string \<Rightarrow> string res"
  ve_randomBytes :: "nat \<Rightarrow> nat \<Rightarrow> string"
  ve_newID :: "setting list \<Rightarrow> string"

text \<open>The state: the clock and the locks, the collection of settings, and how often random bytes were drawn.\<close>

record vault =
  va_world :: lock_world
  va_settings :: "setting list"
  va_draws :: nat

section \<open>The collection\<close>

datatype page_number = Number int | Numeral_String string | Not_Given

definition page_value :: "page_number \<Rightarrow> int option" where
  "page_value n = (case n of Number i \<Rightarrow> Some i | Numeral_String s \<Rightarrow> convertToInt_str s | Not_Given \<Rightarrow> None)"

definition DB_RECORD_COUNT_DEFAULT :: int where "DB_RECORD_COUNT_DEFAULT = 100"

definition MAX_SAFE_INTEGER :: int where "MAX_SAFE_INTEGER = 2 ^ 53 - 1"

definition checkRecordLimit :: "page_number \<Rightarrow> int" where
  "checkRecordLimit recordLimit =
     (let n = (case page_value recordLimit of
                 None \<Rightarrow> DB_RECORD_COUNT_DEFAULT
               | Some i \<Rightarrow> if i < 0 \<or> i = 0 then DB_RECORD_COUNT_DEFAULT else i)
      in if n > MAX_SAFE_INTEGER then MAX_SAFE_INTEGER else n)"

definition checkRecordSkip :: "page_number \<Rightarrow> int" where
  "checkRecordSkip recordSkip =
     (case page_value recordSkip of None \<Rightarrow> 0 | Some i \<Rightarrow> if i < 0 then 0 else i)"

record setting_query =
  sq_identifier :: "string option"
  sq_settingID :: "string option"
  sq_limit :: page_number
  sq_skip :: page_number
  sq_sort :: "(setting list \<Rightarrow> setting list) option"

definition all_settings :: setting_query where
  "all_settings = \<lparr> sq_identifier = None, sq_settingID = None, sq_limit = Number MAX_SAFE_INTEGER, sq_skip = Number 0, sq_sort = None \<rparr>"

definition getSettings :: "setting_query \<Rightarrow> setting list \<Rightarrow> nat \<times> setting list" where
  "getSettings q col =
     (let found = filter (\<lambda>s. (truthy_str (sq_settingID q) \<longrightarrow> st_id s = sq_settingID q)
                            \<and> (truthy_str (sq_identifier q) \<longrightarrow> Some (st_identifier s) = sq_identifier q)) col;
          sorted = (case sq_sort q of None \<Rightarrow> sort_key st_identifier found | Some f \<Rightarrow> f found)
      in (length found,
          take (nat (checkRecordLimit (sq_limit q))) (drop (nat (checkRecordSkip (sq_skip q))) sorted)))"

definition single_result :: "nat \<times> setting list \<Rightarrow> setting option" where
  "single_result r = (case r of (n, found) \<Rightarrow> if n = 1 then (case found of [] \<Rightarrow> None | s # _ \<Rightarrow> Some s) else None)"

text \<open>\<^verbatim>\<open>Constants.UNKNOWN_OBJECT_ID\<close> and \<^verbatim>\<open>UNKNOWN_STRING_ID\<close> are the defaults of callers that pass none; none does.\<close>

definition getSetting :: "string \<Rightarrow> setting list \<Rightarrow> setting option" where
  "getSetting i col = single_result (getSettings (all_settings\<lparr>sq_settingID := Some i, sq_limit := Number 1\<rparr>) col)"

definition getSettingByIdentifier :: "string \<Rightarrow> setting list \<Rightarrow> setting option" where
  "getSettingByIdentifier identifier col =
     single_result (getSettings (all_settings\<lparr>sq_identifier := Some identifier, sq_limit := Number 1\<rparr>) col)"

fun replace_setting :: "setting \<Rightarrow> setting list \<Rightarrow> setting list" where
  "replace_setting s [] = [s]"
| "replace_setting s (t # ts) = (if st_id t = st_id s then s # ts else t # replace_setting s ts)"

definition saveSettings :: "vault_env \<Rightarrow> setting \<Rightarrow> (vault, string) handler" where
  "saveSettings env s =
     (if \<not> truthy_str (st_id s) \<and> st_identifier s = []
      then liftS (Inl (BackendError ''Setting has no ID and no Identifier''))
      else bindS (readS (\<lambda>v. if truthy_str (st_id s) then or_else (st_id s) [] else ve_newID env (va_settings v))) (\<lambda>i.
           bindS (modifyS (\<lambda>v. v\<lparr>va_settings := replace_setting (s\<lparr>st_id := Some i\<rparr>) (va_settings v)\<rparr>)) (\<lambda>_.
           returnS i)))"

fun delete_first_setting :: "string \<Rightarrow> setting list \<Rightarrow> setting list" where
  "delete_first_setting i [] = []"
| "delete_first_setting i (s # ss) = (if st_id s = Some i then ss else s # delete_first_setting i ss)"

definition deleteSetting :: "string \<Rightarrow> (vault, unit) handler" where
  "deleteSetting i = modifyS (\<lambda>v. v\<lparr>va_settings := delete_first_setting i (va_settings v)\<rparr>)"

text \<open>
  The stored key, with its identifier. A former key is read with its properties; a stored setting of
  this kind without content raises.
\<close>

definition stored_crypto_settings :: "setting list \<Rightarrow> (string option \<times> crypto_setting) option res" where
  "stored_crypto_settings col =
     (case getSettings (all_settings\<lparr>sq_identifier := Some CRYPTO\<rparr>) col of
        (_, []) \<Rightarrow> Inr None
      | (_, s # _) \<Rightarrow>
          (case st_crypto s of
             None \<Rightarrow> Inl TypeError
           | Some c \<Rightarrow> Inr (Some (st_id s,
               (if truthy_str (cy_formerKey c) then c
                else c\<lparr>cy_formerKey := None, cy_formerKeyProperties := None\<rparr>)))))"

end
