(* ===== verification/Cypher.thy ===== *)
theory Cypher
  imports Setting_Store
begin

text \<open>
  The encryption of the secrets of a tenant (src/utils/Cypher.ts): encryption and decryption of one
  string, of the sensitive properties of a setting, and the migration of all settings to a new key.
  The cipher and the random bytes are those of the environment.
\<close>

section \<open>Hexadecimal digits and separators\<close>

definition hex_digit :: "nat \<Rightarrow> char" where
  "hex_digit n = (if n < 10 then char_of (48 + n) else char_of (87 + n))"

definition to_hex :: "string \<Rightarrow> string" where
  "to_hex s = concat (map (\<lambda>c. [hex_digit (of_char c div 16), hex_digit (of_char c mod 16)]) s)"

text \<open>\<^verbatim>\<open>Buffer.from(s, 'hex')\<close> stops at the first pair that is not one of digits.\<close>

fun from_hex :: "string \<Rightarrow> string" where
  "from_hex (a # b # s) =
     (case (digit_of 16 a, digit_of 16 b) of
        (Some x, Some y) \<Rightarrow> char_of (16 * x + y) # from_hex s
      | _ \<Rightarrow> [])"
| "from_hex _ = []"

lemma digit_of_hex_digit: "n < 16 \<Longrightarrow> digit_of 16 (hex_digit n) = Some n"
  by (auto simp: hex_digit_def digit_of_def Let_def)

lemma from_hex_to_hex [simp]: "from_hex (to_hex s) = s"
proof (induction s)
  case (Cons c s)
  have "of_char c div 16 < (16 :: nat)"
    using nat_of_char_less_256[of c] by (simp add: less_mult_imp_div_less)
  moreover have "char_of (16 * (of_char c div 16) + of_char c mod 16 :: nat) = c" by simp
  ultimately show ?case using Cons by (simp add: to_hex_def digit_of_hex_digit)
qed (simp add: to_hex_def)

lemma hex_digit_no_colon: "n < 16 \<Longrightarrow> hex_digit n \<noteq> CHR '':''"
  using digit_of_hex_digit[of n] by (force simp: digit_of_def)

lemma to_hex_no_colon: "CHR '':'' \<notin> set (to_hex s)"
proof -
  have "of_char c div 16 < (16 :: nat)" for c :: char
    using nat_of_char_less_256[of c] by (simp add: less_mult_imp_div_less)
  then show ?thesis using hex_digit_no_colon by (auto simp: to_hex_def dest: sym)
qed

lemma split_on_plain: "c \<notin> set xs \<Longrightarrow> split_on c xs = [xs]"
  by (induction xs) auto

lemma split_on_append: "c \<notin> set xs \<Longrightarrow> split_on c (xs @ c # ys) = xs # split_on c ys"
  by (induction xs) auto

lemmas split_hex [simp] = split_on_plain[OF to_hex_no_colon] split_on_append[OF to_hex_no_colon]

section \<open>Algorithms\<close>

text \<open>\<^verbatim>\<open>Utils.buildCryptoAlgorithm\<close>; reading the properties of no former key raises.\<close>

definition buildCryptoAlgorithm :: "key_properties \<Rightarrow> string" where
  "buildCryptoAlgorithm k = kp_blockCypher k @ ''-'' @ show_int (kp_blockSize k) @ ''-'' @ kp_operationMode k"

definition str_includes :: "string \<Rightarrow> string \<Rightarrow> bool" where
  "str_includes s t = list_ex (\<lambda>i. take (length t) (drop i s) = t) [0..<Suc (length s)]"

definition isAuthenticatedEncryptionMode :: "string \<Rightarrow> bool" where
  "isAuthenticatedEncryptionMode algo =
     (str_includes algo ''gcm'' \<or> str_includes algo ''ccm'' \<or> str_includes algo ''GCM'' \<or> str_includes algo ''CCM'' \<or> str_includes algo ''ocb'')"

definition getIVLength :: "string \<Rightarrow> nat" where
  "getIVLength algo = (if str_includes algo ''ccm'' \<or> str_includes algo ''ocb'' then 13 else 16)"

definition getCipherOptions :: "string \<Rightarrow> nat option" where
  "getCipherOptions algo = (if str_includes algo ''ccm'' \<or> str_includes algo ''ocb'' then Some 16 else None)"

text \<open>The algorithm and the key in use, or the former ones.\<close>

definition algorithm_of :: "bool \<Rightarrow> crypto_setting \<Rightarrow> string res" where
  "algorithm_of useFormerKey c =
     (if useFormerKey then (case cy_formerKeyProperties c of None \<Rightarrow> Inl TypeError | Some k \<Rightarrow> Inr (buildCryptoAlgorithm k))
      else Inr (buildCryptoAlgorithm (cy_keyProperties c)))"

definition key_of :: "bool \<Rightarrow> crypto_setting \<Rightarrow> string res" where
  "key_of useFormerKey c =
     (if useFormerKey then (case cy_formerKey c of None \<Rightarrow> Inl TypeError | Some k \<Rightarrow> Inr k) else Inr (cy_key c))"

section \<open>One string\<close>

definition getCryptoSettings :: "(vault, string option \<times> crypto_setting) handler" where
  "getCryptoSettings =
     bindS (readS va_settings) (\<lambda>col.
     bindS (liftS (stored_crypto_settings col)) (\<lambda>c.
     case c of None \<Rightarrow> liftS (Inl (BackendError ''does not have crypto settings'')) | Some x \<Rightarrow> returnS x))"

definition crypto_or_stored :: "crypto_setting option \<Rightarrow> (vault, crypto_setting) handler" where
  "crypto_or_stored cs = (case cs of Some c \<Rightarrow> returnS c | None \<Rightarrow> bindS getCryptoSettings (\<lambda>x. returnS (snd x)))"

definition randomBytes :: "vault_env \<Rightarrow> nat \<Rightarrow> (vault, string) handler" where
  "randomBytes env n = (\<lambda>v. (v\<lparr>va_draws := Suc (va_draws v)\<rparr>, Inr (ve_randomBytes env (va_draws v) n)))"

definition encrypt_with :: "vault_env \<Rightarrow> string \<Rightarrow> string \<Rightarrow> string \<Rightarrow> string \<Rightarrow> string res" where
  "encrypt_with env algo key iv data =
     bindE (ve_cipher env algo key iv (getCipherOptions algo) data) (\<lambda>(encryptedData, authTag).
       case (isAuthenticatedEncryptionMode algo, authTag) of
         (True, Some t) \<Rightarrow> Inr (to_hex iv @ '':'' @ to_hex encryptedData @ '':'' @ to_hex t)
       | _ \<Rightarrow> Inr (to_hex iv @ '':'' @ to_hex encryptedData))"

definition encrypt :: "vault_env \<Rightarrow> string \<Rightarrow> bool \<Rightarrow> crypto_setting option \<Rightarrow> (vault, string) handler" where
  "encrypt env data useFormerKey cs =
     bindS (crypto_or_stored cs) (\<lambda>c.
     bindS (liftS (algorithm_of useFormerKey c)) (\<lambda>algo.
     bindS (randomBytes env (getIVLength algo)) (\<lambda>iv.
     bindS (liftS (key_of useFormerKey c)) (\<lambda>key.
     liftS (encrypt_with env algo key iv data)))))"

definition decrypt_with :: "vault_env \<Rightarrow> string \<Rightarrow> string \<Rightarrow> string \<Rightarrow> string res" where
  "decrypt_with env algo key data =
     (case split_on (CHR '':'') data of
        ivStr # encryptedDataStr # rest \<Rightarrow>
          (let authTag = (case rest of [] \<Rightarrow> None | t # _ \<Rightarrow> Some (from_hex t)) in
           ve_decipher env algo key (from_hex ivStr) (getCipherOptions algo)
             (if isAuthenticatedEncryptionMode algo then authTag else None) (from_hex encryptedDataStr))
      | _ \<Rightarrow> Inl TypeError)"

definition decrypt :: "vault_env \<Rightarrow> string \<Rightarrow> bool \<Rightarrow> crypto_setting option \<Rightarrow> (vault, string) handler" where
  "decrypt env data useFormerKey cs =
     bindS (crypto_or_stored cs) (\<lambda>c.
     bindS (liftS (algorithm_of useFormerKey c)) (\<lambda>algo.
     bindS (liftS (key_of useFormerKey c)) (\<lambda>key.
     liftS (decrypt_with env algo key data))))"

definition checkCryptoSettings :: "vault_env \<Rightarrow> crypto_setting \<Rightarrow> (vault, unit) handler" where
  "checkCryptoSettings env c =
     bindS (encrypt env ''test-data-to-encrypt'' False (Some c)) (\<lambda>encryptedData.
     bindS (decrypt env encryptedData False (Some c)) (\<lambda>decryptedData.
     if decryptedData \<noteq> ''test-data-to-encrypt'' then liftS (Inl (BackendError ''Crypto algorithm check failed''))
     else returnS ()))"

section \<open>The sensitive properties of a setting\<close>

definition encrypt_property :: "vault_env \<Rightarrow> bool \<Rightarrow> crypto_setting option \<Rightarrow> string \<Rightarrow> setting \<Rightarrow> (vault, setting) handler" where
  "encrypt_property env useFormerKey cs p s =
     (case text_at s p of
        None \<Rightarrow> returnS s
      | Some v \<Rightarrow> bindS (encrypt env v useFormerKey cs) (\<lambda>e. returnS (set_at s p e)))"

definition encryptSensitiveDataInJSON ::
  "vault_env \<Rightarrow> setting \<Rightarrow> bool \<Rightarrow> crypto_setting option \<Rightarrow> (vault, setting) handler" where
  "encryptSensitiveDataInJSON env s useFormerKey cs =
     (let s' = (if sensitive_paths s = [] then s\<lparr>st_sensitiveData := Some (Names [])\<rparr> else s)
      in foldS (encrypt_property env useFormerKey cs) (sensitive_paths s') s')"

definition decrypt_property :: "vault_env \<Rightarrow> bool \<Rightarrow> crypto_setting option \<Rightarrow> string \<Rightarrow> setting \<Rightarrow> (vault, setting) handler" where
  "decrypt_property env useFormerKey cs p s =
     (case text_at s p of
        None \<Rightarrow> returnS s
      | Some v \<Rightarrow> bindS (decrypt env v useFormerKey cs) (\<lambda>d. returnS (set_at s p d)))"

definition decryptSensitiveDataInJSON ::
  "vault_env \<Rightarrow> setting \<Rightarrow> bool \<Rightarrow> crypto_setting option \<Rightarrow> (vault, setting) handler" where
  "decryptSensitiveDataInJSON env s useFormerKey cs =
     foldS (decrypt_property env useFormerKey cs) (sensitive_paths s) s"

definition hash_property :: "vault_env \<Rightarrow> string \<Rightarrow> setting \<Rightarrow> setting" where
  "hash_property env p s = (case text_at s p of None \<Rightarrow> s | Some v \<Rightarrow> set_at s p (le_hash env v))"

definition hashSensitiveDataInJSON :: "vault_env \<Rightarrow> setting \<Rightarrow> setting res" where
  "hashSensitiveDataInJSON env s =
     (case st_sensitiveData s of
        None \<Rightarrow> Inr s
      | Some Not_Array \<Rightarrow> Inl (BackendError ''The property 'sensitiveData' is not an array'')
      | Some (Names ns) \<Rightarrow> Inr (fold (hash_property env) ns s))"

section \<open>Migration to a new key\<close>

definition getSettingsWithSensitiveData :: "setting list \<Rightarrow> setting list" where
  "getSettingsWithSensitiveData col = filter (\<lambda>s. sensitive_paths s \<noteq> []) (snd (getSettings all_settings col))"

definition prepareBackupSensitiveData :: "setting \<Rightarrow> (string \<times> property) list" where
  "prepareBackupSensitiveData s =
     map (\<lambda>p. (p, Text (or_else (text_at s p) []))) (filter (\<lambda>p. text_at s p \<noteq> None) (sensitive_paths s))"

text \<open>One turn of the loop of \<^verbatim>\<open>migrateSettings\<close>: nothing when the setting has a backup.\<close>

definition migrateSetting :: "vault_env \<Rightarrow> crypto_setting \<Rightarrow> setting \<Rightarrow> unit \<Rightarrow> (vault, unit) handler" where
  "migrateSetting env c s _ =
     (if or_else (st_backupSensitiveData s) [] = [] then
        bindS (decryptSensitiveDataInJSON env (s\<lparr>st_backupSensitiveData := Some (prepareBackupSensitiveData s)\<rparr>) True (Some c)) (\<lambda>s1.
        bindS (encryptSensitiveDataInJSON env s1 False (Some c)) (\<lambda>s2.
        bindS (saveSettings env s2) (\<lambda>_. returnS ())))
      else returnS ())"

definition migrateSettings :: "vault_env \<Rightarrow> crypto_setting \<Rightarrow> (vault, unit) handler" where
  "migrateSettings env c =
     bindS (readS (\<lambda>v. getSettingsWithSensitiveData (va_settings v))) (\<lambda>settings.
     foldS (migrateSetting env c) settings ())"

text \<open>A property with the value \<^verbatim>\<open>null\<close> is there too, but saving it again changes nothing.\<close>

definition cleanupSetting :: "vault_env \<Rightarrow> setting \<Rightarrow> unit \<Rightarrow> (vault, unit) handler" where
  "cleanupSetting env s _ =
     (if st_backupSensitiveData s \<noteq> None then
        bindS (saveSettings env (s\<lparr>st_backupSensitiveData := None\<rparr>)) (\<lambda>_. returnS ())
      else returnS ())"

definition cleanupBackupSensitiveData :: "vault_env \<Rightarrow> (vault, unit) handler" where
  "cleanupBackupSensitiveData env =
     bindS (readS (\<lambda>v. getSettingsWithSensitiveData (va_settings v))) (\<lambda>settings.
     foldS (cleanupSetting env) settings ())"

text \<open>The content is rebuilt from the key alone.\<close>

definition saveCryptoSetting :: "vault_env \<Rightarrow> string option \<Rightarrow> crypto_setting \<Rightarrow> (vault, unit) handler" where
  "saveCryptoSetting env i c =
     bindS (saveSettings env \<lparr> st_id = i, st_identifier = CRYPTO, st_sensitiveData = None, st_backupSensitiveData = None,
                               st_props = Map.empty, st_crypto = Some c \<rparr>) (\<lambda>_. returnS ())"

definition acquire_database :: "vault_env \<Rightarrow> lock \<Rightarrow> (vault, bool) handler" where
  "acquire_database env l =
     (\<lambda>v. case acquire (le_others env) l 0 True (va_world v) of (w, ok) \<Rightarrow> (v\<lparr>va_world := w\<rparr>, Inr ok))"

definition release_database :: "lock \<Rightarrow> vault \<Rightarrow> vault" where
  "release_database l v = v\<lparr>va_world := (va_world v)\<lparr>lw_locks := fst (release l (lw_locks (va_world v)))\<rparr>\<rparr>"

definition handleCryptoSettingsChange :: "vault_env \<Rightarrow> (vault, unit) handler" where
  "handleCryptoSettingsChange env =
     bindS (\<lambda>v. (v, createExclusiveLock (le_hash env) (lw_now (va_world v)) (le_host env) (ve_tenantID env) DATABASE
                     ''migrate-settings-sensitive-data'' 600)) (\<lambda>l.
     bindS (acquire_database env l) (\<lambda>ok.
     if ok then
       finallyS
         (rethrowS
           (bindS getCryptoSettings (\<lambda>(i, c).
            bindS (migrateSettings env c) (\<lambda>_.
            bindS (cleanupBackupSensitiveData env) (\<lambda>_.
            saveCryptoSetting env i (c\<lparr>cy_migrationToBeDone := False\<rparr>)))))
           (BackendError ''Sensitive Data migration failed''))
         (release_database l)
     else liftS (Inl (BackendError ''Sensitive Data migration is in progress''))))"

text \<open>The task that resumes a migration (src/scheduler/tasks/MigrateSensitiveDataTask.ts).\<close>

definition migrateSensitiveData_processTenant :: "vault_env \<Rightarrow> (vault, unit) handler" where
  "migrateSensitiveData_processTenant env =
     bindS (readS va_settings) (\<lambda>col.
     bindS (liftS (stored_crypto_settings col)) (\<lambda>c.
     case c of
       Some (_, cs) \<Rightarrow> if cy_migrationToBeDone cs then handleCryptoSettingsChange env else returnS ()
     | None \<Rightarrow> returnS ()))"

end
