(* ===== verification/Setting_Service.thy ===== *)
theory Setting_Service
  imports Cypher
begin

text \<open>
  The requests on settings (src/server/rest/v1/service/SettingService.ts), the secrets of the billing
  settings (\<^verbatim>\<open>processSensitiveData\<close> and \<^verbatim>\<open>hashSensitiveData\<close> of UtilsService.ts) and the requests on
  the billing settings (src/server/rest/v1/service/BillingService.ts). A request is what the JSON schema
  of the code lets through; the schemas are the parameter \<open>validate\<close>, with the identifier of the setting.
  The package role-acl is \<open>acl\<close>, and \<open>u\<close> is the user of the request.
\<close>

section \<open>Constants\<close>

definition CYPHER_INVALID_SENSITIVE_DATA_ERROR :: int where "CYPHER_INVALID_SENSITIVE_DATA_ERROR = 555"
definition CRYPTO_MIGRATION_IN_PROGRESS :: int where "CRYPTO_MIGRATION_IN_PROGRESS = 511"
definition CRYPTO_ALGORITHM_NOT_SUPPORTED :: int where "CRYPTO_ALGORITHM_NOT_SUPPORTED = 512"
definition CRYPTO_KEY_LENGTH_INVALID :: int where "CRYPTO_KEY_LENGTH_INVALID = 513"
definition CRYPTO_CHECK_FAILED :: int where "CRYPTO_CHECK_FAILED = 514"
definition TENANT_COMPONENT_CHANGED :: int where "TENANT_COMPONENT_CHANGED = 596"
definition METHOD_NOT_ALLOWED :: int where "METHOD_NOT_ALLOWED = 405"

definition CRYPTO_SUPPORTED_ALGORITHM :: "string list" where
  "CRYPTO_SUPPORTED_ALGORITHM = [
    ''aes-128-cbc'', ''aes-128-cbc-hmac-sha1'', ''aes-128-cbc-hmac-sha256'', ''aes-128-ccm'', ''aes-128-cfb'',
    ''aes-128-cfb1'', ''aes-128-cfb8'', ''aes-128-ctr'', ''aes-128-ecb'', ''aes-128-gcm'', ''aes-128-ocb'',
    ''aes-128-ofb'', ''aes-128-xts'', ''aes-192-cbc'', ''aes-192-ccm'', ''aes-192-cfb'', ''aes-192-cfb1'',
    ''aes-192-cfb8'', ''aes-192-ctr'', ''aes-192-ecb'', ''aes-192-gcm'', ''aes-192-ocb'', ''aes-192-ofb'',
    ''aes-256-cbc'', ''aes-256-cbc-hmac-sha1'', ''aes-256-cbc-hmac-sha256'', ''aes-256-ccm'', ''aes-256-cfb'',
    ''aes-256-cfb1'', ''aes-256-cfb8'', ''aes-256-ctr'', ''aes-256-ecb'', ''aes-256-gcm'', ''aes-256-ocb'',
    ''aes-256-ofb'', ''aes-256-xts'', ''aes128'', ''aes128-wrap'', ''aes192'', ''aes192-wrap'', ''aes256'',
    ''aes256-wrap'', ''aria-128-cbc'', ''aria-128-ccm'', ''aria-128-cfb'', ''aria-128-cfb1'', ''aria-128-cfb8'',
    ''aria-128-ctr'', ''aria-128-ecb'', ''aria-128-gcm'', ''aria-128-ofb'', ''aria-192-cbc'', ''aria-192-ccm'',
    ''aria-192-cfb'', ''aria-192-cfb1'', ''aria-192-cfb8'', ''aria-192-ctr'', ''aria-192-ecb'', ''aria-192-gcm'',
    ''aria-192-ofb'', ''aria-256-cbc'', ''aria-256-ccm'', ''aria-256-cfb'', ''aria-256-cfb1'', ''aria-256-cfb8'',
    ''aria-256-ctr'', ''aria-256-ecb'', ''aria-256-gcm'', ''aria-256-ofb'', ''aria128'', ''aria192'', ''aria256'',
    ''bf'', ''bf-cbc'', ''bf-cfb'', ''bf-ecb'', ''bf-ofb'', ''blowfish'', ''camellia-128-cbc'', ''camellia-128-cfb'',
    ''camellia-128-cfb1'', ''camellia-128-cfb8'', ''camellia-128-ctr'', ''camellia-128-ecb'', ''camellia-128-ofb'',
    ''camellia-192-cbc'', ''camellia-192-cfb'', ''camellia-192-cfb1'', ''camellia-192-cfb8'', ''camellia-192-ctr'',
    ''camellia-192-ecb'', ''camellia-192-ofb'', ''camellia-256-cbc'', ''camellia-256-cfb'', ''camellia-256-cfb1'',
    ''camellia-256-cfb8'', ''camellia-256-ctr'', ''camellia-256-ecb'', ''camellia-256-ofb'', ''camellia128'',
    ''camellia192'', ''camellia256'', ''cast'', ''cast-cbc'', ''cast5-cbc'', ''cast5-cfb'', ''cast5-ecb'',
    ''cast5-ofb'', ''chacha20'', ''chacha20-poly1305'', ''des'', ''des-cbc'', ''des-cfb'', ''des-cfb1'',
    ''des-cfb8'', ''des-ecb'', ''des-ede'', ''des-ede-cbc'', ''des-ede-cfb'', ''des-ede-ecb'', ''des-ede-ofb'',
    ''des-ede3'', ''des-ede3-cbc'', ''des-ede3-cfb'', ''des-ede3-cfb1'', ''des-ede3-cfb8'', ''des-ede3-ecb'',
    ''des-ede3-ofb'', ''des-ofb'', ''des3'', ''des3-wrap'', ''desx'', ''desx-cbc'', ''id-aes128-CCM'',
    ''id-aes128-GCM'', ''id-aes128-wrap'', ''id-aes128-wrap-pad'', ''id-aes192-CCM'', ''id-aes192-GCM'',
    ''id-aes192-wrap'', ''id-aes192-wrap-pad'', ''id-aes256-CCM'', ''id-aes256-GCM'', ''id-aes256-wrap'',
    ''id-aes256-wrap-pad'', ''id-smime-alg-CMS3DESwrap'', ''idea'', ''idea-cbc'', ''idea-cfb'', ''idea-ecb'',
    ''idea-ofb'', ''rc2'', ''rc2-128'', ''rc2-40'', ''rc2-40-cbc'', ''rc2-64'', ''rc2-64-cbc'', ''rc2-cbc'',
    ''rc2-cfb'', ''rc2-ecb'', ''rc2-ofb'', ''rc4'', ''rc4-40'', ''rc4-hmac-md5'', ''seed'', ''seed-cbc'',
    ''seed-cfb'', ''seed-ecb'', ''seed-ofb'', ''sm4'', ''sm4-cbc'', ''sm4-cfb'', ''sm4-ctr'', ''sm4-ecb'', ''sm4-ofb'']"

definition setting_identifiers :: "string list" where
  "setting_identifiers = [''ocpi'', ''oicp'', CRYPTO, ''user'', ''smartCharging'', ''refund'', ''pricing'', ''analytics'',
     ''asset'', ''carConnector'', ''billing'', ''car'', ''organization'', ''statistics'']"

type_synonym schemas = "string \<Rightarrow> setting \<Rightarrow> setting res"

definition filterSetting :: "schemas \<Rightarrow> setting \<Rightarrow> setting res" where
  "filterSetting validate body =
     (if st_identifier body \<in> set setting_identifiers then validate (st_identifier body) body
      else Inl (AppError GENERAL_ERROR ''Unknown setting''))"

section \<open>Reading\<close>

definition allowed :: "bool res \<Rightarrow> unit res" where
  "allowed r = bindE r assertAuthorized"

text \<open>What is sent to the client: secrets are hashed, and so is the key.\<close>

definition hash_key :: "vault_env \<Rightarrow> setting \<Rightarrow> setting res" where
  "hash_key env s =
     (if st_identifier s = CRYPTO then
        (case st_crypto s of
           None \<Rightarrow> Inl TypeError
         | Some c \<Rightarrow> Inr (s\<lparr>st_crypto := Some (c\<lparr>cy_key := le_hash env (cy_key c)\<rparr>)\<rparr>))
      else Inr s)"

definition shown :: "vault_env \<Rightarrow> setting \<Rightarrow> setting res" where
  "shown env s = bindE (hashSensitiveDataInJSON env s) (hash_key env)"

definition handleGetSetting :: "acl \<Rightarrow> vault_env \<Rightarrow> user_token \<Rightarrow> string \<Rightarrow> (vault, setting) handler" where
  "handleGetSetting acl env u settingID =
     bindS (liftS (assertIdIsProvided settingID)) (\<lambda>_.
     bindS (liftS (allowed (canReadSetting acl u no_context))) (\<lambda>_.
     bindS (readS (\<lambda>v. getSetting settingID (va_settings v))) (\<lambda>found.
     bindS (liftS (assertObjectExists found)) (\<lambda>s.
     liftS (shown env s)))))"

definition handleGetSettingByIdentifier :: "acl \<Rightarrow> vault_env \<Rightarrow> user_token \<Rightarrow> string \<Rightarrow> (vault, setting) handler" where
  "handleGetSettingByIdentifier acl env u identifier =
     bindS (liftS (assertIdIsProvided identifier)) (\<lambda>_.
     bindS (liftS (allowed (canReadSetting acl u no_context))) (\<lambda>_.
     bindS (readS (\<lambda>v. getSettingByIdentifier identifier (va_settings v))) (\<lambda>found.
     bindS (liftS (assertObjectExists found)) (\<lambda>s.
     liftS (shown env s)))))"

fun show_all :: "vault_env \<Rightarrow> setting list \<Rightarrow> setting list res" where
  "show_all env [] = Inr []"
| "show_all env (s # ss) = bindE (shown env s) (\<lambda>t. bindE (show_all env ss) (\<lambda>ts. Inr (t # ts)))"

definition handleGetSettings :: "acl \<Rightarrow> vault_env \<Rightarrow> user_token \<Rightarrow> setting_query \<Rightarrow> (vault, nat \<times> setting list) handler" where
  "handleGetSettings acl env u q =
     bindS (liftS (allowed (canListSettings acl u))) (\<lambda>_.
     bindS (readS (\<lambda>v. getSettings (q\<lparr>sq_settingID := None\<rparr>) (va_settings v))) (\<lambda>(n, found).
     bindS (liftS (show_all env found)) (\<lambda>ss. returnS (n, ss))))"

section \<open>Writing\<close>

definition handleDeleteSetting :: "acl \<Rightarrow> user_token \<Rightarrow> string \<Rightarrow> (vault, unit) handler" where
  "handleDeleteSetting acl u settingID =
     bindS (liftS (assertIdIsProvided settingID)) (\<lambda>_.
     bindS (liftS (allowed (canDeleteSetting acl u))) (\<lambda>_.
     bindS (readS (\<lambda>v. getSetting settingID (va_settings v))) (\<lambda>found.
     bindS (liftS (assertObjectExists found)) (\<lambda>_.
     deleteSetting settingID))))"

definition handleCreateSetting :: "acl \<Rightarrow> schemas \<Rightarrow> vault_env \<Rightarrow> user_token \<Rightarrow> setting \<Rightarrow> (vault, string) handler" where
  "handleCreateSetting acl validate env u body =
     bindS (liftS (allowed (canCreateSetting acl u))) (\<lambda>_.
     bindS (liftS (filterSetting validate body)) (\<lambda>r.
     bindS (encryptSensitiveDataInJSON env r False None) (\<lambda>r.
     saveSettings env r)))"

text \<open>
  One sensitive property of an update: the hash of what is stored means no change; anything else is a
  new value.
\<close>

definition update_property :: "vault_env \<Rightarrow> setting \<Rightarrow> string \<Rightarrow> setting \<Rightarrow> (vault, setting) handler" where
  "update_property env stored p r =
     (case text_at r p of
        None \<Rightarrow> returnS r
      | Some valueInRequest \<Rightarrow>
          (case text_at stored p of
             None \<Rightarrow> bindS (encrypt env valueInRequest False None) (\<lambda>e. returnS (set_at r p e))
           | Some valueInDb \<Rightarrow>
               if valueInRequest \<noteq> le_hash env valueInDb
               then bindS (encrypt env valueInRequest False None) (\<lambda>e. returnS (set_at r p e))
               else returnS (set_at r p valueInDb)))"

definition update_sensitive :: "vault_env \<Rightarrow> setting \<Rightarrow> setting \<Rightarrow> (vault, setting) handler" where
  "update_sensitive env stored r =
     (case st_sensitiveData r of
        None \<Rightarrow> returnS (r\<lparr>st_sensitiveData := Some (Names [])\<rparr>)
      | Some Not_Array \<Rightarrow> liftS (Inl (AppError CYPHER_INVALID_SENSITIVE_DATA_ERROR ''sensitiveData is not an array''))
      | Some (Names ns) \<Rightarrow> foldS (update_property env stored) ns r)"

text \<open>\<^verbatim>\<open>key.length !== blockSize / 8\<close>, a division of floats, is compared without the division.\<close>

definition update_crypto :: "vault_env \<Rightarrow> setting \<Rightarrow> setting \<Rightarrow> (vault, setting) handler" where
  "update_crypto env stored r =
     (case st_crypto r of
        None \<Rightarrow> liftS (Inl TypeError)
      | Some c \<Rightarrow>
          if buildCryptoAlgorithm (cy_keyProperties c) \<notin> set CRYPTO_SUPPORTED_ALGORITHM
          then liftS (Inl (AppError CRYPTO_ALGORITHM_NOT_SUPPORTED ''Crypto algorithm not supported''))
          else if int (length (cy_key c)) * 8 \<noteq> kp_blockSize (cy_keyProperties c)
          then liftS (Inl (AppError CRYPTO_KEY_LENGTH_INVALID ''Crypto key length is invalid''))
          else bindS (rethrowS (checkCryptoSettings env c) (AppError CRYPTO_CHECK_FAILED ''Crypto check failed to run'')) (\<lambda>_.
            case st_crypto stored of
              None \<Rightarrow> liftS (Inl TypeError)
            | Some k \<Rightarrow>
                if cy_migrationToBeDone k
                then liftS (Inl (AppError CRYPTO_MIGRATION_IN_PROGRESS ''Crypto migration is in progress''))
                else returnS (r\<lparr>st_crypto := Some (c\<lparr>
                       cy_migrationToBeDone := (if le_hash env (cy_key c) \<noteq> le_hash env (cy_key k) then True else cy_migrationToBeDone c),
                       cy_formerKey := Some (cy_key k), cy_formerKeyProperties := Some (cy_keyProperties k)\<rparr>)\<rparr>)))"

definition currency_changed :: "setting \<Rightarrow> setting \<Rightarrow> bool" where
  "currency_changed stored r =
     (st_identifier r = ''pricing'' \<and> st_props stored ''content.type'' = Some (Text ''simple'')
      \<and> st_props stored ''content.simple.currency'' \<noteq> st_props r ''content.simple.currency'')"

definition handleUpdateSetting :: "acl \<Rightarrow> schemas \<Rightarrow> vault_env \<Rightarrow> user_token \<Rightarrow> setting \<Rightarrow> (vault, unit) handler" where
  "handleUpdateSetting acl validate env u body =
     bindS (liftS (assertIdIsProvided (or_else (st_id body) []))) (\<lambda>_.
     bindS (liftS (filterSetting validate body)) (\<lambda>r.
     bindS (liftS (allowed (canUpdateSetting acl u))) (\<lambda>_.
     bindS (readS (\<lambda>v. getSetting (or_else (st_id r) []) (va_settings v))) (\<lambda>found.
     bindS (liftS (assertObjectExists found)) (\<lambda>stored.
     bindS (update_sensitive env stored r) (\<lambda>r.
     bindS (if st_identifier r = CRYPTO then update_crypto env stored r else returnS r) (\<lambda>r.
     bindS (saveSettings env r) (\<lambda>_.
     bindS (if st_identifier r = CRYPTO \<and> (case st_crypto r of None \<Rightarrow> False | Some c \<Rightarrow> cy_migrationToBeDone c)
            then handleCryptoSettingsChange env else returnS ()) (\<lambda>_.
     if currency_changed stored r then liftS (Inl (AppError TENANT_COMPONENT_CHANGED ''Currency has been updated''))
     else returnS ())))))))))"

end
