(* ===== verification/Billing_Settings.thy ===== *)
theory Billing_Settings
  imports Setting_Service
begin

text \<open>
  The settings of billing: \<^verbatim>\<open>getBillingSetting\<close> and \<^verbatim>\<open>saveBillingSetting\<close> of SettingStorage.ts,
  \<^verbatim>\<open>processSensitiveData\<close> and \<^verbatim>\<open>hashSensitiveData\<close> of UtilsService.ts, and the requests of
  src/server/rest/v1/service/BillingService.ts on them. Billing settings are the content of the stored
  setting one level up: the path \<^verbatim>\<open>content.stripe.secretKey\<close> of the one is \<^verbatim>\<open>stripe.secretKey\<close> of the
  other. The connection to the billing system and its further prerequisites are a parameter.
\<close>

section \<open>Storage\<close>

definition billing_flags :: "string list" where
  "billing_flags = [''billing.isTransactionBillingActivated'', ''billing.immediateBillingAllowed'', ''billing.periodicBillingAllowed'']"

definition billing_values :: "string list" where
  "billing_values = [''billing.taxID'', ''billing.usersLastSynchronizedOn'']"

definition stripe_paths :: "string list" where
  "stripe_paths = [''stripe.url'', ''stripe.secretKey'', ''stripe.publicKey'']"

definition flag_at :: "setting \<Rightarrow> string \<Rightarrow> bool" where
  "flag_at s p = (case st_props s p of None \<Rightarrow> False | Some (Text v) \<Rightarrow> v \<noteq> [] | Some (Flag b) \<Rightarrow> b | Some (Time t) \<Rightarrow> True)"

definition getBillingSetting :: "setting list \<Rightarrow> setting option" where
  "getBillingSetting col =
     map_option (\<lambda>s.
       let stripe = (st_props s ''content.type'' = Some (Text ''stripe'')) in
       s\<lparr>st_identifier := ''billing'', st_crypto := None,
         st_sensitiveData := (if stripe then Some (Names [''stripe.secretKey'']) else None),
         st_props := (\<lambda>p.
           if p \<in> set billing_flags then Some (Flag (flag_at s (''content.'' @ p)))
           else if p = ''type'' \<or> p \<in> set billing_values \<or> (p \<in> set stripe_paths \<and> stripe) then st_props s (''content.'' @ p)
           else None)\<rparr>)
     (getSettingByIdentifier ''billing'' col)"

definition under_content :: "string \<Rightarrow> string option" where
  "under_content q = (if take 8 q = ''content.'' then Some (drop 8 q) else None)"

definition saveBillingSetting :: "vault_env \<Rightarrow> setting \<Rightarrow> (vault, string) handler" where
  "saveBillingSetting env b =
     (let stripe = (st_props b ''type'' = Some (Text ''stripe'')) in
      saveSettings env (b\<lparr>
        st_sensitiveData := (if stripe then Some (Names [''content.stripe.secretKey'']) else st_sensitiveData b),
        st_props := (\<lambda>q. case under_content q of
            None \<Rightarrow> None
          | Some p \<Rightarrow> if p = ''type'' \<or> p \<in> set billing_flags \<or> p \<in> set billing_values \<or> (p \<in> set stripe_paths \<and> stripe)
                      then st_props b p else None)\<rparr>))"

section \<open>Secrets\<close>

definition process_property :: "vault_env \<Rightarrow> setting \<Rightarrow> string \<Rightarrow> setting \<Rightarrow> (vault, setting) handler" where
  "process_property env current p new =
     (case text_at new p of
        None \<Rightarrow> liftS (Inl (AppError CYPHER_INVALID_SENSITIVE_DATA_ERROR ''The property is not set''))
      | Some newValue \<Rightarrow>
          (case text_at current p of
             None \<Rightarrow> bindS (encrypt env newValue False None) (\<lambda>e. returnS (set_at new p e))
           | Some currentValue \<Rightarrow>
               if newValue \<noteq> le_hash env currentValue
               then bindS (encrypt env newValue False None) (\<lambda>e. returnS (set_at new p e))
               else returnS (set_at new p currentValue)))"

definition processSensitiveData :: "vault_env \<Rightarrow> setting \<Rightarrow> setting \<Rightarrow> (vault, setting) handler" where
  "processSensitiveData env current new =
     (case st_sensitiveData current of
        None \<Rightarrow> returnS new
      | Some Not_Array \<Rightarrow> liftS (Inl (AppError CYPHER_INVALID_SENSITIVE_DATA_ERROR ''sensitiveData is not an array''))
      | Some (Names ns) \<Rightarrow> foldS (process_property env current) ns new)"

definition hashSensitiveData :: "vault_env \<Rightarrow> setting \<Rightarrow> setting res" where
  "hashSensitiveData env s =
     (case st_sensitiveData s of
        None \<Rightarrow> Inr s
      | Some Not_Array \<Rightarrow> Inl (AppError CYPHER_INVALID_SENSITIVE_DATA_ERROR ''sensitiveData is not an array'')
      | Some (Names ns) \<Rightarrow> Inr (fold (hash_property env) ns s))"

section \<open>Requests\<close>

definition assertComponentIsActiveFromToken :: "user_token \<Rightarrow> TenantComponents \<Rightarrow> unit res" where
  "assertComponentIsActiveFromToken u component =
     (if \<not> isComponentActiveFromToken u component then Inl FORBIDDEN else Inr ())"

definition handleGetBillingSetting :: "acl \<Rightarrow> vault_env \<Rightarrow> user_token \<Rightarrow> (vault, setting) handler" where
  "handleGetBillingSetting acl env u =
     bindS (liftS (assertComponentIsActiveFromToken u BILLING)) (\<lambda>_.
     bindS (liftS (allowed (canReadBillingSetting acl u))) (\<lambda>_.
     bindS (readS (\<lambda>v. getBillingSetting (va_settings v))) (\<lambda>found.
     bindS (liftS (assertObjectExists found)) (\<lambda>b.
     liftS (hashSensitiveData env b)))))"

text \<open>The client of the billing system: a check of its connection, then of what billing needs.\<close>

record billing_client =
  bc_checkConnection :: "vault \<Rightarrow> unit res"
  bc_checkActivationPrerequisites :: "vault \<Rightarrow> unit res"

definition checkActivationPrerequisites :: "(vault \<Rightarrow> billing_client option) \<Rightarrow> (vault, unit) handler" where
  "checkActivationPrerequisites getBillingImpl =
     (\<lambda>v. (v, case getBillingImpl v of
        None \<Rightarrow> Inl (AppError GENERAL_ERROR ''Billing service is not configured'')
      | Some impl \<Rightarrow> bindE (bc_checkConnection impl v) (\<lambda>_. bc_checkActivationPrerequisites impl v)))"

definition ACTIVATED :: string where "ACTIVATED = ''billing.isTransactionBillingActivated''"

text \<open>
  The new properties over the stored ones: when billing is productive the keys of Stripe are read-only.
  \<open>activated\<close> is the flag that is saved.
\<close>

definition merged_billing :: "setting \<Rightarrow> setting \<Rightarrow> bool \<Rightarrow> setting" where
  "merged_billing current new activated =
     current\<lparr>st_props := (\<lambda>p.
       if p = ACTIVATED then Some (Flag activated)
       else if p \<in> {''billing.immediateBillingAllowed'', ''billing.periodicBillingAllowed'', ''billing.taxID''} then st_props new p
       else if p \<in> {''stripe.secretKey'', ''stripe.publicKey''} \<and> flag_at current ACTIVATED then st_props current p
       else if p \<in> set stripe_paths then st_props new p
       else st_props current p)\<rparr>"

definition handleUpdateBillingSetting ::
  "acl \<Rightarrow> schemas \<Rightarrow> vault_env \<Rightarrow> (vault \<Rightarrow> billing_client option) \<Rightarrow> user_token \<Rightarrow> setting \<Rightarrow> (vault, unit) handler" where
  "handleUpdateBillingSetting acl validate env getBillingImpl u body =
     bindS (liftS (assertComponentIsActiveFromToken u BILLING)) (\<lambda>_.
     bindS (liftS (allowed (canUpdateBillingSetting acl u))) (\<lambda>_.
     bindS (liftS (validate ''billing'' body)) (\<lambda>new.
     bindS (readS (\<lambda>v. getBillingSetting (va_settings v))) (\<lambda>found.
     bindS (liftS (assertObjectExists found)) (\<lambda>current.
     bindS (processSensitiveData env current new) (\<lambda>new.
     let previous = flag_at current ACTIVATED; wanted = flag_at new ACTIVATED in
     if \<not> wanted \<and> previous
     then liftS (Inl (AppError METHOD_NOT_ALLOWED ''Switching OFF the billing of transactions is forbidden''))
     else
       let postpone = (wanted \<and> \<not> previous) in
       if previous \<and> st_props current ''type'' \<noteq> Some (Text ''stripe'') then liftS (Inl TypeError)
       else
         bindS (saveBillingSetting env (merged_billing current new (if postpone then False else previous))) (\<lambda>_.
         if postpone then
           bindS (checkActivationPrerequisites getBillingImpl) (\<lambda>_.
           bindS (saveBillingSetting env (merged_billing current new True)) (\<lambda>_. returnS ()))
         else returnS ())))))))"

end
