(* ===== verification/Setting_Migration.thy ===== *)
theory Setting_Migration
  imports Setting_Laws
begin

text \<open>
  The migration of the secrets to a new key (\<^verbatim>\<open>handleCryptoSettingsChange\<close> of src/utils/Cypher.ts): each
  setting is decrypted with the former key, encrypted with the new one and saved with a backup, which
  marks it as done; a second pass removes the backups. It may be interrupted and is then run again.
\<close>

section \<open>A pass over the sensitive properties\<close>

definition transform :: "(string \<Rightarrow> (vault, string) handler) \<Rightarrow> string \<Rightarrow> setting \<Rightarrow> (vault, setting) handler" where
  "transform f p s = (case text_at s p of None \<Rightarrow> returnS s | Some x \<Rightarrow> bindS (f x) (\<lambda>y. returnS (set_at s p y)))"

lemma property_transforms:
  "encrypt_property env former cs = transform (\<lambda>x. encrypt env x former cs)"
  "decrypt_property env former cs = transform (\<lambda>x. decrypt env x former cs)"
  by (simp_all add: fun_eq_iff transform_def encrypt_property_def decrypt_property_def)

definition changed :: "(string \<Rightarrow> string \<Rightarrow> string \<Rightarrow> bool) \<Rightarrow> string list \<Rightarrow> setting \<Rightarrow> setting \<Rightarrow> bool" where
  "changed R ns s s' \<longleftrightarrow> s' = s\<lparr>st_props := st_props s'\<rparr> \<and>
     (\<forall>p. (p \<notin> set ns \<or> text_at s p = None \<longrightarrow> st_props s' p = st_props s p) \<and>
          (\<forall>x. p \<in> set ns \<longrightarrow> text_at s p = Some x \<longrightarrow> (\<exists>y. st_props s' p = Some (Text y) \<and> R p x y)))"

lemma changedD:
  assumes "changed R ns s s'"
  shows "st_id s' = st_id s" and "st_identifier s' = st_identifier s" and "st_sensitiveData s' = st_sensitiveData s"
    and "st_backupSensitiveData s' = st_backupSensitiveData s" and "st_crypto s' = st_crypto s"
    and "sensitive_paths s' = sensitive_paths s"
    and "p \<notin> set ns \<Longrightarrow> st_props s' p = st_props s p"
    and "text_at s p = None \<Longrightarrow> text_at s' p = None"
    and "p \<in> set ns \<Longrightarrow> text_at s p = Some x \<Longrightarrow> \<exists>y. st_props s' p = Some (Text y) \<and> R p x y"
proof -
  from assms have s': "s' = s\<lparr>st_props := st_props s'\<rparr>" by (simp add: changed_def)
  show "st_id s' = st_id s" "st_identifier s' = st_identifier s" "st_sensitiveData s' = st_sensitiveData s"
    "st_backupSensitiveData s' = st_backupSensitiveData s" "st_crypto s' = st_crypto s"
    "sensitive_paths s' = sensitive_paths s"
    by (subst s', simp add: sensitive_paths_def)+
  show "p \<notin> set ns \<Longrightarrow> st_props s' p = st_props s p"
    "p \<in> set ns \<Longrightarrow> text_at s p = Some x \<Longrightarrow> \<exists>y. st_props s' p = Some (Text y) \<and> R p x y"
    using assms by (simp_all add: changed_def)
  show "text_at s p = None \<Longrightarrow> text_at s' p = None"
    using assms by (simp add: changed_def text_at_def)
qed

lemma transform_fold:
  assumes "distinct ns"
    and "\<And>p x v. p \<in> set ns \<Longrightarrow> text_at s p = Some x \<Longrightarrow> \<exists>n y. f x v = (v\<lparr>va_draws := n\<rparr>, Inr y) \<and> R p x y"
  shows "\<exists>n s'. foldS (transform f) ns s v = (v\<lparr>va_draws := n\<rparr>, Inr s') \<and> changed R ns s s'"
  using assms
proof (induction ns arbitrary: s v)
  case Nil
  show ?case by (intro exI[of _ "va_draws v"] exI[of _ s]) (simp add: returnS_def changed_def)
next
  case (Cons p ns)
  show ?case
  proof (cases "text_at s p")
    case None
    then have step: "transform f p s v = (v, Inr s)" by (simp add: transform_def returnS_def)
    obtain n s' where "foldS (transform f) ns s v = (v\<lparr>va_draws := n\<rparr>, Inr s')" "changed R ns s s'"
      using Cons.IH[of s v] Cons.prems by auto
    with step None show ?thesis by (intro exI[of _ n] exI[of _ s']) (auto simp: bindS_def changed_def)
  next
    case (Some x)
    then obtain n y where y: "f x v = (v\<lparr>va_draws := n\<rparr>, Inr y)" "R p x y" using Cons.prems(2)[of p x v] by auto
    then have step: "transform f p s v = (v\<lparr>va_draws := n\<rparr>, Inr (set_at s p y))"
      by (simp add: transform_def handler_simps Some)
    have "q \<in> set ns \<Longrightarrow> text_at (set_at s p y) q = text_at s q" for q
      using Cons.prems(1) by (auto simp: text_at_set)
    with Cons.prems have "\<exists>m s'. foldS (transform f) ns (set_at s p y) (v\<lparr>va_draws := n\<rparr>) = (v\<lparr>va_draws := n\<rparr>\<lparr>va_draws := m\<rparr>, Inr s')
      \<and> changed R ns (set_at s p y) s'"
      by (intro Cons.IH) auto
    then obtain m s' where m: "foldS (transform f) ns (set_at s p y) (v\<lparr>va_draws := n\<rparr>) = (v\<lparr>va_draws := m\<rparr>, Inr s')"
      and s': "changed R ns (set_at s p y) s'" by auto
    have "changed R (p # ns) s s'"
      unfolding changed_def
    proof (intro conjI allI impI)
      from s' have e: "s' = (set_at s p y)\<lparr>st_props := st_props s'\<rparr>" unfolding changed_def by blast
      then show "s' = s\<lparr>st_props := st_props s'\<rparr>" by (subst (asm) set_at_def) simp
    next
      fix q assume "q \<notin> set (p # ns) \<or> text_at s q = None"
      then have "q \<noteq> p" "q \<notin> set ns \<or> text_at (set_at s p y) q = None" using Some by (auto simp: text_at_set)
      with s' show "st_props s' q = st_props s q" by (auto simp: changed_def set_at_def)
    next
      fix q z assume q: "q \<in> set (p # ns)" "text_at s q = Some z"
      show "\<exists>y. st_props s' q = Some (Text y) \<and> R q z y"
      proof (cases "q = p")
        case True
        with Cons.prems(1) s' have "st_props s' p = Some (Text y)" by (auto simp: changed_def set_at_def)
        with True q y Some show ?thesis by simp
      next
        case False
        with q s' show ?thesis by (auto simp: changed_def text_at_set)
      qed
    qed
    with step m show ?thesis by (auto simp: bindS_def)
  qed
qed

section \<open>One setting\<close>

text \<open>The secrets of a setting, opened with the current or with the former key.\<close>

definition secret :: "vault_env \<Rightarrow> bool \<Rightarrow> crypto_setting \<Rightarrow> setting \<Rightarrow> string \<Rightarrow> string res option" where
  "secret env former c s p = map_option (opens env former c) (text_at s p)"

text \<open>The cipher accepts the new algorithm and key.\<close>

definition can_encrypt :: "vault_env \<Rightarrow> crypto_setting \<Rightarrow> bool" where
  "can_encrypt env c \<longleftrightarrow> (\<forall>data v. is_ok (snd (encrypt env data False (Some c) v)))"

definition opened :: "vault_env \<Rightarrow> crypto_setting \<Rightarrow> setting \<Rightarrow> bool" where
  "opened env c s = list_all (\<lambda>p. case secret env True c s p of None \<Rightarrow> True | Some (Inl _) \<Rightarrow> False | Some (Inr d) \<Rightarrow> d \<noteq> []) (sensitive_paths s)"

definition moved :: "vault_env \<Rightarrow> crypto_setting \<Rightarrow> setting \<Rightarrow> setting \<Rightarrow> bool" where
  "moved env c s s' \<longleftrightarrow> st_id s' = st_id s \<and> st_identifier s' = st_identifier s \<and> st_sensitiveData s' = st_sensitiveData s
     \<and> (\<forall>p. p \<notin> set (sensitive_paths s) \<longrightarrow> st_props s' p = st_props s p)
     \<and> (\<forall>p \<in> set (sensitive_paths s). secret env False c s' p = secret env True c s p)"

lemma encrypt_runs:
  assumes "can_encrypt env c" and "deciphers env"
  shows "\<exists>n y. encrypt env x False (Some c) v = (v\<lparr>va_draws := n\<rparr>, Inr y) \<and> y \<noteq> [] \<and> opens env False c y = Inr x"
proof -
  obtain y v' where "encrypt env x False (Some c) v = (v', Inr y)"
    using assms(1) is_okD unfolding can_encrypt_def by (metis prod.collapse)
  with encrypt_opens[OF assms(2) this] show ?thesis by auto
qed

lemma migrateSetting_moves:
  assumes env: "can_encrypt env c" "deciphers env" and s: "opened env c s" "distinct (sensitive_paths s)" "sensitive_paths s \<noteq> []"
    "truthy_str (st_id s)" "or_else (st_backupSensitiveData s) [] = []"
  shows "\<exists>n s'. migrateSetting env c s () v = (v\<lparr>va_draws := n, va_settings := replace_setting s' (va_settings v)\<rparr>, Inr ())
    \<and> moved env c s s' \<and> st_backupSensitiveData s' = Some (prepareBackupSensitiveData s)"
proof -
  let ?b = "s\<lparr>st_backupSensitiveData := Some (prepareBackupSensitiveData s)\<rparr>"
  let ?D = "\<lambda>p x y. opens env True c x = Inr y \<and> y \<noteq> []"
  let ?E = "\<lambda>p x y. y \<noteq> [] \<and> opens env False c y = Inr x"
  have b: "sensitive_paths ?b = sensitive_paths s" "\<And>p. text_at ?b p = text_at s p"
    by (simp_all add: sensitive_paths_def text_at_def)
  have dec: "\<exists>n y. decrypt env x True (Some c) w = (w\<lparr>va_draws := n\<rparr>, Inr y) \<and> ?D p x y"
    if "p \<in> set (sensitive_paths s)" "text_at ?b p = Some x" for p x w
  proof -
    from s(1) that obtain d where "opens env True c x = Inr d" "d \<noteq> []"
      by (auto simp: opened_def list_all_iff secret_def b split: sum.splits)
    then show ?thesis by (intro exI[of _ "va_draws w"] exI[of _ d]) (simp add: decrypt_opens)
  qed
  have "\<exists>n s1. foldS (transform (\<lambda>x. decrypt env x True (Some c))) (sensitive_paths s) ?b v = (v\<lparr>va_draws := n\<rparr>, Inr s1)
      \<and> changed ?D (sensitive_paths s) ?b s1"
    by (intro transform_fold s(2) dec)
  then obtain n1 s1 where
    d: "decryptSensitiveDataInJSON env ?b True (Some c) v = (v\<lparr>va_draws := n1\<rparr>, Inr s1)" "changed ?D (sensitive_paths s) ?b s1"
    by (auto simp: decryptSensitiveDataInJSON_def property_transforms b)
  note s1 = changedD[OF d(2)]
  have p1: "sensitive_paths s1 = sensitive_paths s" using s1(6) b by simp
  have enc: "\<exists>n y. encrypt env x False (Some c) w = (w\<lparr>va_draws := n\<rparr>, Inr y) \<and> ?E p x y" for p x w
    using encrypt_runs[OF env, of x w] by auto
  have "\<exists>n s2. foldS (transform (\<lambda>x. encrypt env x False (Some c))) (sensitive_paths s) s1 (v\<lparr>va_draws := n1\<rparr>)
      = (v\<lparr>va_draws := n1\<rparr>\<lparr>va_draws := n\<rparr>, Inr s2) \<and> changed ?E (sensitive_paths s) s1 s2"
    by (intro transform_fold s(2) enc)
  then obtain n2 s2 where
    e: "encryptSensitiveDataInJSON env s1 False (Some c) (v\<lparr>va_draws := n1\<rparr>) = (v\<lparr>va_draws := n2\<rparr>, Inr s2)"
      "changed ?E (sensitive_paths s) s1 s2"
    using s(3) by (auto simp: encryptSensitiveDataInJSON_def property_transforms p1 Let_def)
  note s2 = changedD[OF e(2)]
  have "moved env c s s2"
    unfolding moved_def
  proof (intro conjI ballI allI impI)
    fix p assume p: "p \<in> set (sensitive_paths s)"
    show "secret env False c s2 p = secret env True c s p"
    proof (cases "text_at s p")
      case None
      with s1(8)[of p] s2(8)[of p] b show ?thesis by (simp add: secret_def)
    next
      case (Some x)
      with s1(9)[OF p, of x] b obtain y where y: "st_props s1 p = Some (Text y)" "opens env True c x = Inr y" "y \<noteq> []" by auto
      then have "text_at s1 p = Some y" by (simp add: text_at_def)
      with s2(9)[OF p this] obtain z where z: "st_props s2 p = Some (Text z)" "z \<noteq> []" "opens env False c z = Inr y" by auto
      then show ?thesis using Some y by (simp add: secret_def text_at_def)
    qed
  qed (use s1 s2 in auto)
  moreover have "migrateSetting env c s () v = (v\<lparr>va_draws := n2, va_settings := replace_setting s2 (va_settings v)\<rparr>, Inr ())"
    using s(4,5) d(1) e(1) s1(1) s2(1) by (simp add: migrateSetting_def bindS_def saveSettings_known returnS_def)
  moreover have "st_backupSensitiveData s2 = Some (prepareBackupSensitiveData s)" using s1(4) s2(4) by simp
  ultimately show ?thesis by blast
qed

section \<open>A loop that saves settings\<close>

lemma list_all2_in_set2: "list_all2 R xs ys \<Longrightarrow> y \<in> set ys \<Longrightarrow> \<exists>x \<in> set xs. R x y"
  by (induction rule: list_all2_induct) auto

lemma list_all2_replace:
  assumes "distinct (map st_id col)" and "s \<in> set col" and "st_id s' = st_id s"
  shows "list_all2 (\<lambda>x y. y = (if x = s then s' else x)) col (replace_setting s' col)"
  using assms
proof (induction col)
  case (Cons t col)
  show ?case
  proof (cases "t = s")
    case True
    with Cons.prems have "list_all2 (\<lambda>x y. y = (if x = s then s' else x)) col col"
      by (auto simp: list_all2_same)
    with True Cons.prems show ?thesis by simp
  next
    case False
    with Cons.prems have "st_id t \<noteq> st_id s'" by (auto simp: rev_image_eqI)
    with False Cons show ?thesis by simp
  qed
qed simp

lemma save_loop:
  assumes "\<And>s v. s \<in> set ss \<Longrightarrow> s \<in> set (va_settings v) \<Longrightarrow> distinct (map st_id (va_settings v)) \<Longrightarrow>
      \<exists>n s'. g s () v = (v\<lparr>va_draws := n, va_settings := replace_setting s' (va_settings v)\<rparr>, Inr ())
        \<and> st_id s' = st_id s \<and> Q s s'"
    and "distinct (map st_id ss)" and "set ss \<subseteq> set (va_settings v)" and "distinct (map st_id (va_settings v))"
  shows "\<exists>n col'. foldS g ss () v = (v\<lparr>va_draws := n, va_settings := col'\<rparr>, Inr ())
    \<and> list_all2 (\<lambda>s s'. if s \<in> set ss then st_id s' = st_id s \<and> Q s s' else s' = s) (va_settings v) col'"
  using assms
proof (induction ss arbitrary: v)
  case Nil
  show ?case
    by (intro exI[of _ "va_draws v"] exI[of _ "va_settings v"]) (simp add: returnS_def list_all2_same)
next
  case (Cons s ss)
  obtain n s' where g: "g s () v = (v\<lparr>va_draws := n, va_settings := replace_setting s' (va_settings v)\<rparr>, Inr ())"
    and s': "st_id s' = st_id s" "Q s s'" using Cons.prems(1)[of s v] Cons.prems(3,4) by auto
  let ?v = "v\<lparr>va_draws := n, va_settings := replace_setting s' (va_settings v)\<rparr>"
  have "set ss \<subseteq> set (va_settings ?v)"
    using Cons.prems settings.put_set[OF Cons.prems(4), of s'] s'(1) by (auto simp: rev_image_eqI)
  moreover have "distinct (map st_id (va_settings ?v))"
    using settings.put_distinct[OF Cons.prems(4)] by simp
  ultimately obtain m col' where f: "foldS g ss () ?v = (?v\<lparr>va_draws := m, va_settings := col'\<rparr>, Inr ())"
    and l: "list_all2 (\<lambda>s s'. if s \<in> set ss then st_id s' = st_id s \<and> Q s s' else s' = s) (va_settings ?v) col'"
    using Cons.IH[of ?v] Cons.prems by auto
  have put: "list_all2 (\<lambda>x y. y = (if x = s then s' else x)) (va_settings v) (va_settings ?v)"
    using list_all2_replace[OF Cons.prems(4), of s s'] Cons.prems(3) s' by simp
  have trans: "if x \<in> set (s # ss) then st_id z = st_id x \<and> Q x z else z = x"
    if "y = (if x = s then s' else x)" "if y \<in> set ss then st_id z = st_id y \<and> Q y z else z = y" for x y z
  proof (cases "x = s")
    case True
    have "s' \<notin> set ss" using Cons.prems(2) s'(1) by (auto simp: rev_image_eqI)
    with True that s' show ?thesis by simp
  qed (use that in auto)
  have "list_all2 (\<lambda>x z. if x \<in> set (s # ss) then st_id z = st_id x \<and> Q x z else z = x) (va_settings v) col'"
    using list_all2_trans[OF trans put l] .
  moreover have "foldS g (s # ss) () v = (v\<lparr>va_draws := m, va_settings := col'\<rparr>, Inr ())"
    using f g by (simp add: bindS_def)
  ultimately show ?case by blast
qed

section \<open>The whole migration\<close>

definition to_migrate :: "vault_env \<Rightarrow> crypto_setting \<Rightarrow> setting list \<Rightarrow> bool" where
  "to_migrate env c col = (vault_ok col \<and> int (length col) \<le> MAX_SAFE_INTEGER \<and>
     list_all (\<lambda>s. sensitive_paths s = [] \<or> distinct (sensitive_paths s) \<and> st_identifier s \<noteq> CRYPTO
                   \<and> st_backupSensitiveData s = None \<and> opened env c s) col)"

definition finished :: "vault_env \<Rightarrow> crypto_setting \<Rightarrow> setting \<Rightarrow> setting \<Rightarrow> bool" where
  "finished env c s s' = (if sensitive_paths s = [] then s' = s
     else moved env c s s' \<and> st_backupSensitiveData s' = Some (prepareBackupSensitiveData s))"

definition underway :: "vault_env \<Rightarrow> crypto_setting \<Rightarrow> setting \<Rightarrow> setting \<Rightarrow> bool" where
  "underway env c s s' = (s' = s \<or> finished env c s s')"

definition cleaned :: "vault_env \<Rightarrow> crypto_setting \<Rightarrow> setting \<Rightarrow> setting \<Rightarrow> bool" where
  "cleaned env c s s' = (if sensitive_paths s = [] then s' = s else moved env c s s' \<and> st_backupSensitiveData s' = None)"

lemmas stages = underway_def finished_def cleaned_def moved_def

lemma underway_same:
  assumes "underway env c s s'"
  shows "st_id s' = st_id s" "sensitive_paths s' = sensitive_paths s" "st_identifier s' = st_identifier s"
  using assms by (auto simp: stages sensitive_paths_def split: if_splits)

lemma sensitive_settings:
  assumes "int (length col) \<le> MAX_SAFE_INTEGER"
  shows "set (getSettingsWithSensitiveData col) = {s \<in> set col. sensitive_paths s \<noteq> []}"
    and "distinct (map st_id col) \<Longrightarrow> distinct (map st_id (getSettingsWithSensitiveData col))"
  using assms by (auto simp: getSettingsWithSensitiveData_def all_settings_found distinct_map inj_on_def)

lemma no_backup_no_secret: "prepareBackupSensitiveData s = [] \<Longrightarrow> p \<in> set (sensitive_paths s) \<Longrightarrow> text_at s p = None"
  by (auto simp: prepareBackupSensitiveData_def filter_empty_conv)

lemma migrateSetting_finishes:
  assumes env: "can_encrypt env c" "deciphers env" and "to_migrate env c col" and "s0 \<in> set col" and "sensitive_paths s0 \<noteq> []"
    and u: "underway env c s0 s" and "s \<in> set (va_settings v)" and "distinct (map st_id (va_settings v))"
  shows "\<exists>n s'. migrateSetting env c s () v = (v\<lparr>va_draws := n, va_settings := replace_setting s' (va_settings v)\<rparr>, Inr ())
    \<and> st_id s' = st_id s \<and> finished env c s0 s'"
proof -
  from assms(3-5) have s0: "opened env c s0" "distinct (sensitive_paths s0)" "truthy_str (st_id s0)" "st_backupSensitiveData s0 = None"
    by (auto simp: to_migrate_def vault_ok_def list_all_iff)
  show ?thesis
  proof (cases "s = s0")
    case True
    with migrateSetting_moves[OF env s0(1,2) assms(5) s0(3), of v] s0(4) obtain n s' where
      m: "migrateSetting env c s0 () v = (v\<lparr>va_draws := n, va_settings := replace_setting s' (va_settings v)\<rparr>, Inr ())"
        "moved env c s0 s'" "st_backupSensitiveData s' = Some (prepareBackupSensitiveData s0)" by auto
    with True assms(5) show ?thesis by (intro exI[of _ n] exI[of _ s']) (simp add: finished_def moved_def)
  next
    case False
    with u assms(5) have m: "moved env c s0 s" and b: "st_backupSensitiveData s = Some (prepareBackupSensitiveData s0)"
      by (auto simp: underway_def finished_def)
    show ?thesis
    proof (cases "prepareBackupSensitiveData s0 = []")
      case True
      have none: "p \<in> set (sensitive_paths s0) \<Longrightarrow> text_at s p = None" for p
        using m no_backup_no_secret[OF True, of p] by (force simp: moved_def secret_def)
      note ps = underway_same[OF u]
      have "opened env c s" using none by (auto simp: opened_def list_all_iff ps secret_def)
      from migrateSetting_moves[OF env this, of v] s0 b True ps assms(5) obtain n s' where
        m': "migrateSetting env c s () v = (v\<lparr>va_draws := n, va_settings := replace_setting s' (va_settings v)\<rparr>, Inr ())"
          "moved env c s s'" "st_backupSensitiveData s' = Some (prepareBackupSensitiveData s)" by auto
      have "prepareBackupSensitiveData s = []" using none by (simp add: prepareBackupSensitiveData_def ps)
      moreover have "moved env c s0 s'"
        using m m'(2) none no_backup_no_secret[OF True] by (auto simp: moved_def ps secret_def)
      ultimately show ?thesis using m' True assms(5) ps by (intro exI[of _ n] exI[of _ s']) (simp add: finished_def moved_def)
    next
      case False
      have "v\<lparr>va_settings := replace_setting s (va_settings v)\<rparr> = v" using assms(7,8) by (simp add: replace_member)
      then have "migrateSetting env c s () v = (v\<lparr>va_draws := va_draws v, va_settings := replace_setting s (va_settings v)\<rparr>, Inr ())"
        using b False by (simp add: migrateSetting_def returnS_def)
      then show ?thesis using m b assms(5) by (intro exI[of _ "va_draws v"] exI[of _ s]) (simp add: finished_def)
    qed
  qed
qed

lemma migrate_loop:
  assumes env: "can_encrypt env c" "deciphers env" and col: "to_migrate env c col"
    and u: "list_all2 (underway env c) col (va_settings v)"
    and ss: "distinct (map st_id ss)" "set ss \<subseteq> {s \<in> set (va_settings v). sensitive_paths s \<noteq> []}"
  shows "\<exists>n col'. foldS (migrateSetting env c) ss () v = (v\<lparr>va_draws := n, va_settings := col'\<rparr>, Inr ())
    \<and> list_all2 (underway env c) col col'
    \<and> ({s \<in> set (va_settings v). sensitive_paths s \<noteq> []} \<subseteq> set ss \<longrightarrow> list_all2 (finished env c) col col')"
proof -
  let ?Q = "\<lambda>s s'. \<forall>s0 \<in> set col. sensitive_paths s0 \<noteq> [] \<longrightarrow> underway env c s0 s \<longrightarrow> finished env c s0 s'"
  have ids: "map st_id (va_settings v) = map st_id col"
    using u by (induction rule: list_all2_induct) (auto dest: underway_same)
  have d: "distinct (map st_id (va_settings v))" using col ids by (simp add: to_migrate_def vault_ok_def)
  have inj: "s0 = s1" if "s0 \<in> set col" "s1 \<in> set col" "underway env c s0 s" "underway env c s1 s" for s0 s1 s
    using that col underway_same(1) by (metis eq_key_imp_eq_value to_migrate_def vault_ok_def distinct_map inj_onD)
  have "\<exists>n s'. migrateSetting env c s () w = (w\<lparr>va_draws := n, va_settings := replace_setting s' (va_settings w)\<rparr>, Inr ())
      \<and> st_id s' = st_id s \<and> ?Q s s'"
    if s: "s \<in> set ss" "s \<in> set (va_settings w)" "distinct (map st_id (va_settings w))" for s w
  proof -
    obtain s0 where s0: "s0 \<in> set col" "underway env c s0 s"
      using ss(2) s(1) list_all2_in_set2[OF u, of s] by auto
    moreover have "sensitive_paths s0 \<noteq> []" using ss(2) s(1) underway_same(2)[OF s0(2)] by auto
    ultimately show ?thesis
      using migrateSetting_finishes[OF env col s0(1) _ s0(2) s(2,3)] inj by metis
  qed
  from save_loop[of ss "migrateSetting env c" ?Q v, OF this ss(1) _ d] ss(2) obtain n col' where
    f: "foldS (migrateSetting env c) ss () v = (v\<lparr>va_draws := n, va_settings := col'\<rparr>, Inr ())" and
    l: "list_all2 (\<lambda>s s'. if s \<in> set ss then st_id s' = st_id s \<and> ?Q s s' else s' = s) (va_settings v) col'" by auto
  have len: "length col = length (va_settings v)" "length col' = length (va_settings v)"
    using u l by (auto dest: list_all2_lengthD)
  have step: "underway env c (col ! j) (col' ! j) \<and>
      ({s \<in> set (va_settings v). sensitive_paths s \<noteq> []} \<subseteq> set ss \<longrightarrow> finished env c (col ! j) (col' ! j))"
    if "j < length col" for j
  proof -
    let ?s = "va_settings v ! j"
    have m: "underway env c (col ! j) ?s" and i: "if ?s \<in> set ss then st_id (col' ! j) = st_id ?s \<and> ?Q ?s (col' ! j) else col' ! j = ?s"
      using u l len that by (auto simp: list_all2_conv_all_nth)
    have "?s \<in> set (va_settings v)" "col ! j \<in> set col" using len that by auto
    with m i ss(2) underway_same(2)[OF m] show ?thesis
      by (auto simp: underway_def finished_def split: if_splits)
  qed
  have "list_all2 (underway env c) col col'"
    "{s \<in> set (va_settings v). sensitive_paths s \<noteq> []} \<subseteq> set ss \<longrightarrow> list_all2 (finished env c) col col'"
    using len step unfolding list_all2_conv_all_nth by auto
  with f show ?thesis by blast
qed

text \<open>The second pass, or what a crash left done of it.\<close>

lemma cleanup_some:
  assumes col: "to_migrate env c col" and u: "list_all2 (finished env c) col (va_settings v)"
    and ss: "distinct (map st_id ss)" "set ss \<subseteq> {s \<in> set (va_settings v). sensitive_paths s \<noteq> []}"
  shows "\<exists>n col'. foldS (cleanupSetting env) ss () v = (v\<lparr>va_draws := n, va_settings := col'\<rparr>, Inr ())
    \<and> list_all2 (\<lambda>s s'. s' = (if s \<in> set ss then s\<lparr>st_backupSensitiveData := None\<rparr> else s)) (va_settings v) col'"
proof -
  let ?Q = "\<lambda>s s'. s' = s\<lparr>st_backupSensitiveData := None\<rparr>"
  have w: "list_all2 (underway env c) col (va_settings v)"
    using u by (rule list_all2_mono) (simp add: underway_def)
  have ids: "map st_id (va_settings v) = map st_id col"
    using w by (induction rule: list_all2_induct) (auto dest: underway_same)
  have d: "distinct (map st_id (va_settings v))" using col ids by (simp add: to_migrate_def vault_ok_def)
  have "\<exists>n s'. cleanupSetting env s () w = (w\<lparr>va_draws := n, va_settings := replace_setting s' (va_settings w)\<rparr>, Inr ())
      \<and> st_id s' = st_id s \<and> ?Q s s'" if s: "s \<in> set ss" for s w
  proof -
    obtain s0 where s0: "s0 \<in> set col" "finished env c s0 s" using s ss(2) list_all2_in_set2[OF u, of s] by auto
    with s ss(2) col have "st_backupSensitiveData s \<noteq> None" "truthy_str (st_id s)"
      by (auto simp: stages to_migrate_def vault_ok_def list_all_iff split: if_splits)
    then show ?thesis
      by (intro exI[of _ "va_draws w"] exI[of _ "s\<lparr>st_backupSensitiveData := None\<rparr>"])
        (simp add: cleanupSetting_def bindS_def saveSettings_known returnS_def)
  qed
  from save_loop[of ss "cleanupSetting env" ?Q v, OF this ss(1) _ d] ss(2) obtain m col' where
    f: "foldS (cleanupSetting env) ss () v = (v\<lparr>va_draws := m, va_settings := col'\<rparr>, Inr ())" and
    l: "list_all2 (\<lambda>s s'. if s \<in> set ss then st_id s' = st_id s \<and> ?Q s s' else s' = s) (va_settings v) col'" by auto
  from l have "list_all2 (\<lambda>s s'. s' = (if s \<in> set ss then s\<lparr>st_backupSensitiveData := None\<rparr> else s)) (va_settings v) col'"
    by (rule list_all2_mono) (auto split: if_splits)
  with f show ?thesis by blast
qed

lemma cleanup_finished:
  assumes "finished env c s s1" and "s2 = (if b then s1\<lparr>st_backupSensitiveData := None\<rparr> else s1)"
    and "b \<longrightarrow> sensitive_paths s \<noteq> []"
  shows "finished env c s s2 \<or> cleaned env c s s2" and "b \<longleftrightarrow> sensitive_paths s \<noteq> [] \<Longrightarrow> cleaned env c s s2"
  using assms by (cases "sensitive_paths s"; auto simp: finished_def cleaned_def moved_def secret_def text_at_def)+

lemma finished_sensitive: "finished env c s s' \<Longrightarrow> sensitive_paths s' = sensitive_paths s"
  using underway_same(2)[of env c s s'] by (simp add: underway_def)

lemma finished_text:
  assumes "finished env c s s'" and "p \<in> set (sensitive_paths s)"
  shows "text_at s' p = None \<longleftrightarrow> text_at s p = None"
proof -
  have "secret env False c s' p = secret env True c s p"
    using assms by (auto simp: finished_def moved_def split: if_splits)
  then show ?thesis by (cases "text_at s' p"; cases "text_at s p") (simp_all add: secret_def)
qed

lemma migration_finishes:
  assumes env: "can_encrypt env c" "deciphers env" and col: "to_migrate env c (va_settings v)"
    and run: "migrateSettings env c v = (v1, r)"
  shows "list_all2 (finished env c) (va_settings v) (va_settings v1)"
proof -
  have n: "int (length (va_settings v)) \<le> MAX_SAFE_INTEGER" and d: "distinct (map st_id (va_settings v))"
    using col by (simp_all add: to_migrate_def vault_ok_def)
  note ss = sensitive_settings[OF n]
  have "list_all2 (underway env c) (va_settings v) (va_settings v)" by (simp add: list_all2_same underway_def)
  then show ?thesis
    using migrate_loop[OF env col, of v, OF _ ss(2)[OF d]] ss(1) run by (auto simp: migrateSettings_def bindS_def readS_def)
qed

lemma cleanup_loop:
  assumes col: "to_migrate env c col" and u: "list_all2 (finished env c) col (va_settings v)"
  shows "\<exists>n col'. cleanupBackupSensitiveData env v = (v\<lparr>va_draws := n, va_settings := col'\<rparr>, Inr ())
    \<and> list_all2 (cleaned env c) col col'"
proof -
  let ?ss = "getSettingsWithSensitiveData (va_settings v)"
  have w: "list_all2 (underway env c) col (va_settings v)"
    using u by (rule list_all2_mono) (simp add: underway_def)
  have ids: "map st_id (va_settings v) = map st_id col"
    using w by (induction rule: list_all2_induct) (auto dest: underway_same)
  have d: "distinct (map st_id (va_settings v))" and n: "int (length (va_settings v)) \<le> MAX_SAFE_INTEGER"
    using col ids map_eq_imp_length_eq[OF ids] by (simp_all add: to_migrate_def vault_ok_def)
  note ss = sensitive_settings[OF n]
  obtain m col' where f: "foldS (cleanupSetting env) ?ss () v = (v\<lparr>va_draws := m, va_settings := col'\<rparr>, Inr ())"
    and l: "list_all2 (\<lambda>s s'. s' = (if s \<in> set ?ss then s\<lparr>st_backupSensitiveData := None\<rparr> else s)) (va_settings v) col'"
    using cleanup_some[OF col u ss(2)[OF d]] ss(1) by auto
  have "cleaned env c x z"
    if "finished env c x y" "y \<in> set (va_settings v)" "z = (if y \<in> set ?ss then y\<lparr>st_backupSensitiveData := None\<rparr> else y)" for x y z
    using cleanup_finished(2)[OF that(1,3)] that(2) finished_sensitive[OF that(1)] ss(1) by auto
  then have "list_all2 (cleaned env c) col col'"
    using u l by (auto simp: list_all2_conv_all_nth)
  with f show ?thesis by (auto simp: cleanupBackupSensitiveData_def bindS_def readS_def)
qed

text \<open>The setting of the key is not one of those that are migrated.\<close>

definition key_settings :: "setting list \<Rightarrow> setting list" where
  "key_settings col = filter (\<lambda>s. st_identifier s = CRYPTO) col"

lemma sort_key_same: "(\<And>x. x \<in> set xs \<Longrightarrow> f x = k) \<Longrightarrow> sort_key f xs = xs" for f :: "'a \<Rightarrow> 'b::linorder"
proof (induction xs)
  case (Cons x xs)
  then show ?case by (cases xs) auto
qed simp

lemma stored_crypto_first:
  "stored_crypto_settings col =
     (case key_settings col of [] \<Rightarrow> Inr None
      | s # _ \<Rightarrow> (case st_crypto s of None \<Rightarrow> Inl TypeError
                 | Some c \<Rightarrow> Inr (Some (st_id s, (if truthy_str (cy_formerKey c) then c
                     else c\<lparr>cy_formerKey := None, cy_formerKeyProperties := None\<rparr>)))))"
proof -
  have "(\<lambda>s. CRYPTO = st_identifier s) = (\<lambda>s. st_identifier s = CRYPTO)" by auto
  then have "filter (\<lambda>s. Some (st_identifier s) = Some CRYPTO) col = key_settings col" by (simp add: key_settings_def eq_commute)
  moreover have "sort_key st_identifier (key_settings col) = key_settings col"
    by (rule sort_key_same[of _ _ CRYPTO]) (simp add: key_settings_def)
  ultimately show ?thesis
    by (cases "key_settings col")
      (simp_all add: stored_crypto_settings_def getSettings_def all_settings_def Let_def CRYPTO_def checkRecordLimit_def
        checkRecordSkip_def page_value_def MAX_SAFE_INTEGER_def DB_RECORD_COUNT_DEFAULT_def eq_commute[of _ "st_identifier _"])
qed

lemma crypto_unmoved:
  assumes "to_migrate env c col" and "list_all2 R col col'" and "\<And>s s'. R s s' \<Longrightarrow> underway env c s s' \<or> cleaned env c s s'"
  shows "stored_crypto_settings col' = stored_crypto_settings col"
proof -
  have key: "s \<in> set col \<Longrightarrow> st_identifier s = CRYPTO \<Longrightarrow> sensitive_paths s = []" for s
    using assms(1) by (auto simp: to_migrate_def list_all_iff)
  have "list_all2 (\<lambda>s s'. st_identifier s' = st_identifier s \<and> (st_identifier s = CRYPTO \<longrightarrow> s' = s)) col col'"
    using assms(2,3) key by (fastforce simp: list_all2_conv_all_nth stages split: if_splits)
  then have "key_settings col' = key_settings col"
    by (induction rule: list_all2_induct) (auto simp: key_settings_def)
  then show ?thesis by (simp add: stored_crypto_first)
qed

lemma stored_crypto_member:
  assumes "stored_crypto_settings col = Inr (Some (i, c))"
  obtains s ss where "key_settings col = s # ss" and "s \<in> set col" and "st_id s = i" and "st_identifier s = CRYPTO"
proof (cases "key_settings col")
  case Nil
  with assms show thesis by (simp add: stored_crypto_first)
next
  case (Cons s ss)
  with assms have "st_id s = i" by (auto simp: stored_crypto_first split: option.splits)
  moreover have "s \<in> set (key_settings col)" using Cons by simp
  ultimately show thesis using that Cons by (simp add: key_settings_def)
qed

lemma stored_crypto_saved:
  assumes "distinct (map st_id col)" and "stored_crypto_settings col = Inr (Some (i, c))" and "st_id s = i" and "st_identifier s = CRYPTO"
    and "st_crypto s = Some c'" and "truthy_str (cy_formerKey c') \<or> cy_formerKey c' = None \<and> cy_formerKeyProperties c' = None"
  shows "stored_crypto_settings (replace_setting s col) = Inr (Some (i, c'))"
proof -
  obtain t ts where t: "key_settings col = t # ts" "st_id t = i" "st_identifier t = CRYPTO" "t \<in> set col"
    using stored_crypto_member[OF assms(2)] by metis
  have "key_settings (replace_setting s col) = s # ts"
    using assms(1) t
  proof (induction col)
    case (Cons x xs)
    show ?case
    proof (cases "x = t")
      case True
      with Cons.prems assms(3,4) show ?thesis by (simp add: key_settings_def)
    next
      case False
      with Cons.prems have "st_identifier x \<noteq> CRYPTO" by (auto simp: key_settings_def split: if_splits)
      moreover have "st_id x \<noteq> st_id s" using False Cons.prems assms(3) by (auto simp: rev_image_eqI)
      ultimately show ?thesis using Cons False by (simp add: key_settings_def)
    qed
  qed (simp add: key_settings_def)
  then show ?thesis using assms(3,5,6) by (auto simp: stored_crypto_first)
qed

definition database_lock :: "vault_env \<Rightarrow> lock_world \<Rightarrow> lock res" where
  "database_lock env w = createExclusiveLock (le_hash env) (lw_now w) (le_host env) (ve_tenantID env) DATABASE
     ''migrate-settings-sensitive-data'' 600"

text \<open>A process that comes now gets the lock of the migration.\<close>

definition database_free :: "vault_env \<Rightarrow> lock_world \<Rightarrow> bool" where
  "database_free env w = (case database_lock env w of Inl _ \<Rightarrow> False | Inr l \<Rightarrow> snd (acquire (le_others env) l 0 True w))"

lemma saved_crypto_finishes:
  assumes col: "to_migrate env c col" and l: "list_all2 (cleaned env c) col (va_settings v)"
    and k: "stored_crypto_settings col = Inr (Some (i, c))"
  shows "\<exists>col'. saveCryptoSetting env i (c\<lparr>cy_migrationToBeDone := False\<rparr>) v = (v\<lparr>va_settings := col'\<rparr>, Inr ())
    \<and> list_all2 (\<lambda>s s'. sensitive_paths s = [] \<or> moved env c s s' \<and> st_backupSensitiveData s' = None) col col'
    \<and> stored_crypto_settings col' = Inr (Some (i, c\<lparr>cy_migrationToBeDone := False\<rparr>))"
proof -
  let ?c = "c\<lparr>cy_migrationToBeDone := False\<rparr>"
  let ?s = "\<lparr>st_id = i, st_identifier = CRYPTO, st_sensitiveData = None, st_backupSensitiveData = None,
    st_props = Map.empty, st_crypto = Some ?c\<rparr>"
  obtain t where t: "t \<in> set col" "st_id t = i" "st_identifier t = CRYPTO" using stored_crypto_member[OF k] by metis
  with col have i: "truthy_str i" and st: "sensitive_paths t = []"
    by (auto simp: to_migrate_def vault_ok_def list_all_iff)
  have ids: "map st_id (va_settings v) = map st_id col"
    using l by (induction rule: list_all2_induct) (auto simp: stages split: if_splits)
  then have d: "distinct (map st_id (va_settings v))" using col by (simp add: to_migrate_def vault_ok_def)
  have t': "t \<in> set (va_settings v)"
    using l t(1) st by (auto simp: list_all2_conv_all_nth in_set_conv_nth cleaned_def)
  have k': "stored_crypto_settings (va_settings v) = Inr (Some (i, c))"
    using crypto_unmoved[OF col l] k by simp
  have "truthy_str (cy_formerKey c) \<or> cy_formerKey c = None \<and> cy_formerKeyProperties c = None"
    using k by (auto simp: stored_crypto_first split: list.splits option.splits if_splits)
  then have "stored_crypto_settings (replace_setting ?s (va_settings v)) = Inr (Some (i, ?c))"
    by (intro stored_crypto_saved[OF d k']) auto
  moreover have put: "list_all2 (\<lambda>x y. y = (if x = t then ?s else x)) (va_settings v) (replace_setting ?s (va_settings v))"
    using list_all2_replace[OF d t', of ?s] t(2) by simp
  moreover have tr: "sensitive_paths s = [] \<or> moved env c s z \<and> st_backupSensitiveData z = None"
    if "cleaned env c s y" "z = (if y = t then ?s else y)" for s y z
    using that st by (auto simp: cleaned_def moved_def sensitive_paths_def split: if_splits)
  have "list_all2 (\<lambda>s s'. sensitive_paths s = [] \<or> moved env c s s' \<and> st_backupSensitiveData s' = None) col
      (replace_setting ?s (va_settings v))"
    using list_all2_trans[OF tr l put] .
  moreover have "saveCryptoSetting env i ?c v = (v\<lparr>va_settings := replace_setting ?s (va_settings v)\<rparr>, Inr ())"
    using i by (simp add: saveCryptoSetting_def bindS_def saveSettings_known returnS_def)
  ultimately show ?thesis by blast
qed

text \<open>C12: a migration that is interrupted in its first pass, after any number of settings, and run again when its lock is free,
  ends: every secret opens with the new key to what the former key opened it to before, the backups are gone, and so is the
  mark that the migration is to be done.\<close>

theorem migration_resumes:
  assumes env: "can_encrypt env c" "deciphers env" and col: "to_migrate env c (va_settings v)"
    and k: "stored_crypto_settings (va_settings v) = Inr (Some (i, c))"
    and crash: "foldS (migrateSetting env c) (take n (getSettingsWithSensitiveData (va_settings v))) () v = (v1, r)"
    and later: "va_settings v2 = va_settings v1" "database_free env (va_world v2)"
  shows "\<exists>v3. handleCryptoSettingsChange env v2 = (v3, Inr ())
    \<and> list_all2 (\<lambda>s s'. sensitive_paths s = [] \<or> moved env c s s' \<and> st_backupSensitiveData s' = None) (va_settings v) (va_settings v3)
    \<and> stored_crypto_settings (va_settings v3) = Inr (Some (i, c\<lparr>cy_migrationToBeDone := False\<rparr>))"
proof -
  let ?col = "va_settings v"
  have n: "int (length ?col) \<le> MAX_SAFE_INTEGER" and d: "distinct (map st_id ?col)"
    using col by (simp_all add: to_migrate_def vault_ok_def)
  note ss = sensitive_settings[OF n]
  have "list_all2 (underway env c) ?col ?col" by (simp add: list_all2_same underway_def)
  moreover have "distinct (map st_id (take n (getSettingsWithSensitiveData ?col)))"
    "set (take n (getSettingsWithSensitiveData ?col)) \<subseteq> {s \<in> set ?col. sensitive_paths s \<noteq> []}"
    using ss(2)[OF d] ss(1) by (auto simp: take_map[symmetric] dest: in_set_takeD)
  ultimately obtain col1 where "va_settings v1 = col1" and u: "list_all2 (underway env c) ?col col1"
    using migrate_loop[OF env col, of v] crash by fastforce
  with later have v2: "va_settings v2 = col1" by simp
  obtain l w where l: "database_lock env (va_world v2) = Inr l" "acquire (le_others env) l 0 True (va_world v2) = (w, True)"
    using later(2) by (auto simp: database_free_def split: sum.splits) (metis prod.collapse)
  let ?v2 = "v2\<lparr>va_world := w\<rparr>"
  have u2: "list_all2 (underway env c) ?col (va_settings ?v2)" using u v2 by simp
  have k2: "stored_crypto_settings (va_settings ?v2) = Inr (Some (i, c))"
    using crypto_unmoved[OF col u2] k by simp
  have ids: "map st_id (va_settings ?v2) = map st_id ?col"
    using u2 by (induction rule: list_all2_induct) (auto dest: underway_same)
  have n2: "int (length (va_settings ?v2)) \<le> MAX_SAFE_INTEGER" and d2: "distinct (map st_id (va_settings ?v2))"
    using n d ids map_eq_imp_length_eq[OF ids] by simp_all
  note ss2 = sensitive_settings[OF n2]
  obtain m col3 where m: "migrateSettings env c ?v2 = (?v2\<lparr>va_draws := m, va_settings := col3\<rparr>, Inr ())" "list_all2 (finished env c) ?col col3"
    using migrate_loop[OF env col u2 ss2(2)[OF d2]] ss2(1) by (auto simp: migrateSettings_def bindS_def readS_def)
  obtain m' col4 where c: "cleanupBackupSensitiveData env (?v2\<lparr>va_draws := m, va_settings := col3\<rparr>) = (?v2\<lparr>va_draws := m', va_settings := col4\<rparr>, Inr ())"
    "list_all2 (cleaned env c) ?col col4"
    using cleanup_loop[OF col, of "?v2\<lparr>va_draws := m, va_settings := col3\<rparr>"] m(2) by auto
  obtain col5 where s: "saveCryptoSetting env i (c\<lparr>cy_migrationToBeDone := False\<rparr>) (?v2\<lparr>va_draws := m', va_settings := col4\<rparr>)
      = (?v2\<lparr>va_draws := m', va_settings := col5\<rparr>, Inr ())"
    "list_all2 (\<lambda>s s'. sensitive_paths s = [] \<or> moved env c s s' \<and> st_backupSensitiveData s' = None) ?col col5"
    "stored_crypto_settings col5 = Inr (Some (i, c\<lparr>cy_migrationToBeDone := False\<rparr>))"
    using saved_crypto_finishes[OF col, of "?v2\<lparr>va_draws := m', va_settings := col4\<rparr>" i] c(2) k by auto
  have g: "getCryptoSettings ?v2 = (?v2, Inr (i, c))"
    using k2 by (simp add: getCryptoSettings_def handler_simps)
  have "handleCryptoSettingsChange env v2 = (release_database l (?v2\<lparr>va_draws := m', va_settings := col5\<rparr>), Inr ())"
    using l m(1) c(1) s(1) g
    by (simp add: handleCryptoSettingsChange_def database_lock_def[symmetric] acquire_database_def bindS_def finallyS_def rethrowS_def)
  with s(2,3) show ?thesis by (simp add: release_database_def)
qed

section \<open>A migration that cannot go on\<close>

lemma transform_keeps:
  assumes "\<And>x w. \<exists>n. fst (f x w) = w\<lparr>va_draws := n\<rparr>"
  shows "\<exists>n. fst (foldS (transform f) ns s w) = w\<lparr>va_draws := n\<rparr> \<and>
    (\<forall>s'. snd (foldS (transform f) ns s w) = Inr s' \<longrightarrow> s' = s\<lparr>st_props := st_props s'\<rparr>)"
proof (induction ns arbitrary: s w)
  case Nil
  show ?case by (intro exI[of _ "va_draws w"]) (simp add: returnS_def)
next
  case (Cons p ns)
  show ?case
  proof (cases "text_at s p")
    case None
    with Cons.IH[of s w] show ?thesis by (simp add: transform_def bindS_def returnS_def)
  next
    case (Some x)
    obtain n where n: "fst (f x w) = w\<lparr>va_draws := n\<rparr>" using assms by blast
    show ?thesis
    proof (cases "snd (f x w)")
      case (Inl e)
      with n have "f x w = (w\<lparr>va_draws := n\<rparr>, Inl e)" by (simp add: prod_eq_iff)
      with Some have "foldS (transform f) (p # ns) s w = (w\<lparr>va_draws := n\<rparr>, Inl e)"
        by (simp add: transform_def bindS_def)
      then show ?thesis by auto
    next
      case (Inr y)
      with n have "f x w = (w\<lparr>va_draws := n\<rparr>, Inr y)" by (simp add: prod_eq_iff)
      with Some have "foldS (transform f) (p # ns) s w = foldS (transform f) ns (set_at s p y) (w\<lparr>va_draws := n\<rparr>)"
        by (simp add: transform_def bindS_def returnS_def)
      with Cons.IH[of "set_at s p y" "w\<lparr>va_draws := n\<rparr>"] show ?thesis
        by (auto simp: set_at_def)
    qed
  qed
qed

lemma crypto_draws: "\<exists>n. fst (encrypt env x former (Some c) w) = w\<lparr>va_draws := n\<rparr>" "\<exists>n. fst (decrypt env x former (Some c) w) = w\<lparr>va_draws := n\<rparr>"
proof -
  have "\<exists>n. w = w\<lparr>va_draws := n\<rparr>" by (rule exI[of _ "va_draws w"]) simp
  then show "\<exists>n. fst (encrypt env x former (Some c) w) = w\<lparr>va_draws := n\<rparr>"
    by (auto simp: encrypt_def crypto_or_stored_def handler_simps randomBytes_def split: sum.splits)
  show "\<exists>n. fst (decrypt env x former (Some c) w) = w\<lparr>va_draws := n\<rparr>"
    by (intro exI[of _ "va_draws w"]) (simp add: decrypt_opens)
qed

text \<open>Whatever happens in a turn, the collection only changes at the setting of the turn.\<close>

lemma migrateSetting_local:
  assumes "truthy_str (st_id t)"
  shows "\<exists>n. fst (migrateSetting env c t () w) = w\<lparr>va_draws := n\<rparr> \<or>
    (\<exists>t'. st_id t' = st_id t \<and> st_identifier t' = st_identifier t \<and>
       fst (migrateSetting env c t () w) = w\<lparr>va_draws := n, va_settings := replace_setting t' (va_settings w)\<rparr>)"
proof (cases "or_else (st_backupSensitiveData t) [] = []")
  case False
  then show ?thesis by (intro exI[of _ "va_draws w"]) (simp add: migrateSetting_def returnS_def)
next
  case True
  let ?b = "t\<lparr>st_backupSensitiveData := Some (prepareBackupSensitiveData t)\<rparr>"
  let ?d = "decryptSensitiveDataInJSON env ?b True (Some c)"
  obtain n where n: "fst (?d w) = w\<lparr>va_draws := n\<rparr>" "\<And>s'. snd (?d w) = Inr s' \<Longrightarrow> s' = ?b\<lparr>st_props := st_props s'\<rparr>"
    using transform_keeps[where f = "\<lambda>x. decrypt env x True (Some c)" and ns = "sensitive_paths ?b" and s = ?b and w = w, OF crypto_draws(2)]
    by (auto simp: decryptSensitiveDataInJSON_def property_transforms)
  show ?thesis
  proof (cases "snd (?d w)")
    case (Inl e)
    with n True have "migrateSetting env c t () w = (w\<lparr>va_draws := n\<rparr>, Inl e)"
      by (simp add: migrateSetting_def bindS_def split_def)
    then show ?thesis by auto
  next
    case (Inr s1)
    let ?s = "if sensitive_paths s1 = [] then s1\<lparr>st_sensitiveData := Some (Names [])\<rparr> else s1"
    let ?e = "encryptSensitiveDataInJSON env s1 False (Some c)" and ?w = "w\<lparr>va_draws := n\<rparr>"
    obtain m where m: "fst (?e ?w) = w\<lparr>va_draws := m\<rparr>" "\<And>s'. snd (?e ?w) = Inr s' \<Longrightarrow> s' = ?s\<lparr>st_props := st_props s'\<rparr>"
      using transform_keeps[where f = "\<lambda>x. encrypt env x False (Some c)" and ns = "sensitive_paths ?s" and s = ?s and w = ?w, OF crypto_draws(1)]
      by (auto simp: encryptSensitiveDataInJSON_def property_transforms Let_def)
    show ?thesis
    proof (cases "snd (?e ?w)")
      case (Inl e)
      with n(1) m(1) Inr True have "migrateSetting env c t () w = (w\<lparr>va_draws := m\<rparr>, Inl e)"
        by (simp add: migrateSetting_def bindS_def split_def)
      then show ?thesis by auto
    next
      case (Inr s2)
      have s1: "st_id s1 = st_id t" "st_identifier s1 = st_identifier t"
        using arg_cong[OF n(2)[OF \<open>snd (?d w) = Inr s1\<close>], of st_id] arg_cong[OF n(2)[OF \<open>snd (?d w) = Inr s1\<close>], of st_identifier] by simp_all
      have s2: "st_id s2 = st_id t" "st_identifier s2 = st_identifier t"
        using arg_cong[OF m(2)[OF Inr], of st_id] arg_cong[OF m(2)[OF Inr], of st_identifier] s1 by (simp_all split: if_splits)
      have "migrateSetting env c t () w = (w\<lparr>va_draws := m, va_settings := replace_setting s2 (va_settings w)\<rparr>, Inr ())"
        using n(1) m(1) Inr \<open>snd (?d w) = Inr s1\<close> True assms s2(1)
        by (simp add: migrateSetting_def bindS_def split_def saveSettings_known returnS_def)
      with s2 show ?thesis by auto
    qed
  qed
qed

lemma decrypt_stuck:
  assumes "distinct ns" and "p \<in> set ns" and "text_at s p = Some e" and "\<not> is_ok (opens env True c e)"
  shows "\<exists>x. foldS (decrypt_property env True (Some c)) ns s w = (w, Inl x)"
  using assms
proof (induction ns arbitrary: s)
  case (Cons q ns)
  show ?case
  proof (cases "text_at s q")
    case None
    with Cons show ?thesis by (auto simp: decrypt_property_def bindS_def returnS_def)
  next
    case (Some y)
    show ?thesis
    proof (cases "opens env True c y")
      case (Inl x)
      with Some show ?thesis by (simp add: decrypt_property_def bindS_def decrypt_opens)
    next
      case (Inr d)
      with Some Cons.prems(3,4) have "q \<noteq> p" by auto
      with Cons.prems have "\<exists>x. foldS (decrypt_property env True (Some c)) ns (set_at s q d) w = (w, Inl x)"
        by (intro Cons.IH) (auto simp: text_at_set)
      moreover have "decrypt_property env True (Some c) q s w = (w, Inr (set_at s q d))"
        using Some Inr by (simp add: decrypt_property_def bindS_def decrypt_opens returnS_def)
      ultimately show ?thesis by (simp add: bindS_def)
    qed
  qed
qed simp

text \<open>A setting without a backup, one of whose secrets the former key does not open.\<close>

definition blocked :: "vault_env \<Rightarrow> crypto_setting \<Rightarrow> setting \<Rightarrow> setting list \<Rightarrow> bool" where
  "blocked env c s col = (vault_ok col \<and> int (length col) \<le> MAX_SAFE_INTEGER
     \<and> list_all (\<lambda>t. sensitive_paths t = [] \<or> st_identifier t \<noteq> CRYPTO) col
     \<and> s \<in> set col \<and> or_else (st_backupSensitiveData s) [] = [] \<and> distinct (sensitive_paths s)
     \<and> list_ex (\<lambda>p. case secret env True c s p of Some r \<Rightarrow> \<not> is_ok r | None \<Rightarrow> False) (sensitive_paths s)
     \<and> (case stored_crypto_settings col of Inr (Some (_, c')) \<Rightarrow> c' = c \<and> cy_migrationToBeDone c | _ \<Rightarrow> False))"

lemma blocked_replace:
  assumes "blocked env c s col" and "t \<in> set col" and "t \<noteq> s" and "st_identifier t \<noteq> CRYPTO"
    and "st_id t' = st_id t" and "st_identifier t' = st_identifier t"
  shows "blocked env c s (replace_setting t' col)"
proof -
  have d: "distinct (map st_id col)" and ok: "vault_ok col" and s: "s \<in> set col"
    using assms(1) by (simp_all add: blocked_def vault_ok_def)
  note l = list_all2_replace[OF d assms(2,5)]
  have "st_id s \<noteq> st_id t'" using d s assms(2,3,5) by (auto simp: distinct_map inj_on_def)
  with s have "s \<in> set (replace_setting t' col)" by (simp add: settings.put_set[OF d])
  moreover have "truthy_str (st_id t')" using ok assms(2,5) by (simp add: vault_ok_def list_all_iff)
  then have "vault_ok (replace_setting t' col)" using ok by (rule vault_ok_replace[rotated])
  moreover have "length (replace_setting t' col) = length col" using l by (auto dest: list_all2_lengthD)
  moreover have "list_all (\<lambda>t. sensitive_paths t = [] \<or> st_identifier t \<noteq> CRYPTO) (replace_setting t' col)"
    using assms by (auto simp: blocked_def list_all_iff settings.put_set[OF d])
  moreover have "key_settings (replace_setting t' col) = key_settings col"
    using l assms(4,6) by (induction rule: list_all2_induct) (auto simp: key_settings_def)
  then have "stored_crypto_settings (replace_setting t' col) = stored_crypto_settings col"
    by (simp add: stored_crypto_first)
  ultimately show ?thesis using assms(1) by (simp add: blocked_def)
qed

lemma migrate_blocked:
  assumes "blocked env c s (va_settings w)" and "s \<in> set ss" and "distinct (map st_id ss)"
    and "set ss \<subseteq> {t \<in> set (va_settings w). sensitive_paths t \<noteq> []}"
  shows "\<exists>w' e. foldS (migrateSetting env c) ss () w = (w', Inl e) \<and> blocked env c s (va_settings w')"
  using assms
proof (induction ss arbitrary: w)
  case (Cons t ss)
  from Cons.prems(1,4) have t: "t \<in> set (va_settings w)" "st_identifier t \<noteq> CRYPTO" "truthy_str (st_id t)"
    and d: "distinct (map st_id (va_settings w))"
    by (auto simp: blocked_def vault_ok_def list_all_iff)
  show ?case
  proof (cases "t = s")
    case True
    let ?b = "s\<lparr>st_backupSensitiveData := Some (prepareBackupSensitiveData s)\<rparr>"
    have b: "sensitive_paths ?b = sensitive_paths s" "\<And>p. text_at ?b p = text_at s p"
      by (simp_all add: sensitive_paths_def text_at_def)
    from Cons.prems(1) obtain p e where "p \<in> set (sensitive_paths s)" "text_at s p = Some e" "\<not> is_ok (opens env True c e)"
      by (auto simp: blocked_def list_ex_iff secret_def split: option.splits)
    with Cons.prems(1) have "\<exists>x. decryptSensitiveDataInJSON env ?b True (Some c) w = (w, Inl x)"
      unfolding decryptSensitiveDataInJSON_def b by (intro decrypt_stuck[of _ p _ e]) (auto simp: blocked_def text_at_def)
    with Cons.prems(1) True show ?thesis by (auto simp: migrateSetting_def bindS_def blocked_def)
  next
    case False
    let ?m = "migrateSetting env c t () w"
    obtain n where "fst ?m = w\<lparr>va_draws := n\<rparr> \<or>
      (\<exists>t'. st_id t' = st_id t \<and> st_identifier t' = st_identifier t \<and>
         fst ?m = w\<lparr>va_draws := n, va_settings := replace_setting t' (va_settings w)\<rparr>)"
      using migrateSetting_local[OF t(3), of env c w] by blast
    then have k: "blocked env c s (va_settings (fst ?m)) \<and> {u \<in> set (va_settings w). st_id u \<noteq> st_id t} \<subseteq> set (va_settings (fst ?m))"
      using Cons.prems(1) blocked_replace[OF Cons.prems(1) t(1) False t(2)] settings.put_set[OF d] by auto
    show ?thesis
    proof (cases "snd ?m")
      case (Inl e)
      with k show ?thesis by (auto simp: bindS_def split_def)
    next
      case (Inr u)
      have "\<exists>w' e. foldS (migrateSetting env c) ss () (fst ?m) = (w', Inl e) \<and> blocked env c s (va_settings w')"
        using k Cons.prems False by (intro Cons.IH) (auto simp: rev_image_eqI)
      with Inr show ?thesis by (auto simp: bindS_def split_def)
    qed
  qed
qed simp

lemma handle_blocked:
  assumes "blocked env c s (va_settings v)"
  shows "\<not> is_ok (snd (handleCryptoSettingsChange env v)) \<and> blocked env c s (va_settings (fst (handleCryptoSettingsChange env v)))"
proof (cases "database_lock env (va_world v)")
  case (Inl e)
  with assms show ?thesis by (simp add: handleCryptoSettingsChange_def database_lock_def[symmetric] bindS_def)
next
  case (Inr l)
  obtain w ok where a: "acquire (le_others env) l 0 True (va_world v) = (w, ok)" by fastforce
  let ?v = "v\<lparr>va_world := w\<rparr>"
  from assms obtain i where k: "stored_crypto_settings (va_settings v) = Inr (Some (i, c))"
    by (auto simp: blocked_def split: sum.splits option.splits)
  then have g: "getCryptoSettings ?v = (?v, Inr (i, c))" by (simp add: getCryptoSettings_def handler_simps)
  have n: "int (length (va_settings ?v)) \<le> MAX_SAFE_INTEGER" and d: "distinct (map st_id (va_settings ?v))"
    using assms by (simp_all add: blocked_def vault_ok_def)
  note ss = sensitive_settings[OF n]
  have "s \<in> set (getSettingsWithSensitiveData (va_settings ?v))"
    using assms unfolding ss(1) by (auto simp: blocked_def list_ex_iff)
  then obtain w' e where "migrateSettings env c ?v = (w', Inl e)" "blocked env c s (va_settings w')"
    using migrate_blocked[of env c s ?v "getSettingsWithSensitiveData (va_settings ?v)"] assms ss(1) ss(2)[OF d]
    by (auto simp: migrateSettings_def bindS_def readS_def)
  with Inr a g assms show ?thesis
    by (cases ok) (simp_all add: handleCryptoSettingsChange_def database_lock_def[symmetric] acquire_database_def bindS_def
        finallyS_def rethrowS_def release_database_def liftS_def)
qed

text \<open>Attempts that follow each other, each in the world of locks and clock that it finds.\<close>

definition attempts :: "vault_env \<Rightarrow> lock_world list \<Rightarrow> vault \<Rightarrow> vault" where
  "attempts env ws v = fold (\<lambda>w v. fst (handleCryptoSettingsChange env (v\<lparr>va_world := w\<rparr>))) ws v"

lemma attempts_blocked: "blocked env c s (va_settings v) \<Longrightarrow> blocked env c s (va_settings (attempts env ws v))"
proof (induction ws arbitrary: v)
  case (Cons w ws)
  from Cons.prems have "blocked env c s (va_settings (v\<lparr>va_world := w\<rparr>))" by simp
  then have "blocked env c s (va_settings (fst (handleCryptoSettingsChange env (v\<lparr>va_world := w\<rparr>))))"
    using handle_blocked by blast
  from Cons.IH[OF this] show ?case by (simp add: attempts_def)
qed (simp add: attempts_def)

text \<open>
  Of what opens with the new key nothing opens with the former one: so it is with the modes that authenticate what
  they encrypt (gcm, ccm), where the decipher raises when the tag does not fit, and not with ctr.
\<close>

definition keys_apart :: "vault_env \<Rightarrow> crypto_setting \<Rightarrow> bool" where
  "keys_apart env c = (\<forall>e. is_ok (opens env False c e) \<longrightarrow> \<not> is_ok (opens env True c e))"

lemma cleaned_blocked:
  assumes col: "to_migrate env c col" and k: "stored_crypto_settings col = Inr (Some (i, c))" "cy_migrationToBeDone c"
    and l: "list_all2 (\<lambda>s s'. finished env c s s' \<or> cleaned env c s s') col col'" and apart: "keys_apart env c"
    and s: "s0 \<in> set col" "cleaned env c s0 s" "s \<in> set col'" "p \<in> set (sensitive_paths s0)" "text_at s0 p \<noteq> None"
  shows "blocked env c s col'"
proof -
  have same: "st_id y = st_id x \<and> st_identifier y = st_identifier x \<and> sensitive_paths y = sensitive_paths x"
    if "finished env c x y \<or> cleaned env c x y" for x y
    using that by (auto simp: stages sensitive_paths_def split: if_splits)
  have ids: "map st_id col' = map st_id col" and len: "length col' = length col"
    using l by (induction rule: list_all2_induct) (auto dest!: same)
  have all: "list_all P col' = list_all P col" if "\<And>x y. finished env c x y \<or> cleaned env c x y \<Longrightarrow> P y = P x" for P
    using l by (induction rule: list_all2_induct) (use that in auto)
  have m: "moved env c s0 s" "st_backupSensitiveData s = None" and paths: "sensitive_paths s = sensitive_paths s0"
    using s(2,4) same[of s0 s] by (auto simp: cleaned_def split: if_splits)
  obtain d where d: "secret env True c s0 p = Some (Inr d)"
  proof -
    have "opened env c s0" using col s(1,4) by (auto simp: to_migrate_def list_all_iff)
    with s(4) have o: "case secret env True c s0 p of None \<Rightarrow> True | Some (Inl _) \<Rightarrow> False | Some (Inr d) \<Rightarrow> d \<noteq> []"
      by (simp add: opened_def list_all_iff)
    from s(5) obtain y where "secret env True c s0 p = Some (opens env True c y)" by (auto simp: secret_def)
    with o show thesis using that by (cases "opens env True c y") simp_all
  qed
  then have "secret env False c s p = Some (Inr d)" using m(1) s(4) by (simp add: moved_def)
  then obtain e where e: "text_at s p = Some e" "opens env False c e = Inr d" by (auto simp: secret_def)
  then have "\<not> is_ok (opens env True c e)" using apart by (simp add: keys_apart_def)
  then have ex: "list_ex (\<lambda>p. case secret env True c s p of Some r \<Rightarrow> \<not> is_ok r | None \<Rightarrow> False) (sensitive_paths s)"
    using e(1) s(4) paths by (auto simp: list_ex_iff secret_def intro!: bexI[of _ p])
  have ok: "list_all (\<lambda>x. truthy_str (st_id x)) col' = list_all (\<lambda>x. truthy_str (st_id x)) col"
    "list_all (\<lambda>t. sensitive_paths t = [] \<or> st_identifier t \<noteq> CRYPTO) col' = list_all (\<lambda>t. sensitive_paths t = [] \<or> st_identifier t \<noteq> CRYPTO) col"
    by (rule all; use same in auto)+
  have crypto: "stored_crypto_settings col' = stored_crypto_settings col"
    by (rule crypto_unmoved[OF col l]) (auto simp: underway_def)
  have "distinct (sensitive_paths s)"
    using col s(1,4) paths by (auto simp: to_migrate_def list_all_iff)
  moreover have "vault_ok col'" "list_all (\<lambda>t. sensitive_paths t = [] \<or> st_identifier t \<noteq> CRYPTO) col'"
    using col ids ok by (auto simp: to_migrate_def vault_ok_def list_all_iff)
  ultimately show ?thesis
    using col k ex s(3) m(2) len crypto by (simp add: blocked_def to_migrate_def)
qed

lemma second_pass_crash:
  assumes col: "to_migrate env c col" and u: "list_all2 (finished env c) col (va_settings v1)"
    and crash: "foldS (cleanupSetting env) (take n (getSettingsWithSensitiveData (va_settings v1))) () v1 = (v2, r)"
  shows "list_all2 (\<lambda>s s'. finished env c s s' \<or> cleaned env c s s') col (va_settings v2)"
    and "s \<in> set (take n (getSettingsWithSensitiveData (va_settings v1)))
      \<Longrightarrow> s \<in> set (va_settings v1) \<and> s\<lparr>st_backupSensitiveData := None\<rparr> \<in> set (va_settings v2)"
proof -
  let ?ss = "take n (getSettingsWithSensitiveData (va_settings v1))"
  have ids: "map st_id (va_settings v1) = map st_id col"
    using u by (induction rule: list_all2_induct) (auto simp: stages split: if_splits)
  have n: "int (length (va_settings v1)) \<le> MAX_SAFE_INTEGER" and d: "distinct (map st_id (va_settings v1))"
    using col ids map_eq_imp_length_eq[OF ids] by (simp_all add: to_migrate_def vault_ok_def)
  have sub: "distinct (map st_id ?ss)" "set ?ss \<subseteq> {s \<in> set (va_settings v1). sensitive_paths s \<noteq> []}"
    using sensitive_settings[OF n] d by (auto simp: take_map[symmetric] dest: in_set_takeD)
  have l: "list_all2 (\<lambda>s s'. s' = (if s \<in> set ?ss then s\<lparr>st_backupSensitiveData := None\<rparr> else s)) (va_settings v1) (va_settings v2)"
    using cleanup_some[OF col u sub] crash by auto
  show "list_all2 (\<lambda>s s'. finished env c s s' \<or> cleaned env c s s') col (va_settings v2)"
  proof (unfold list_all2_conv_all_nth, intro conjI allI impI)
    show "length col = length (va_settings v2)" using u l by (auto dest!: list_all2_lengthD)
    fix j assume j: "j < length col"
    with u have f: "finished env c (col ! j) (va_settings v1 ! j)" by (simp add: list_all2_nthD)
    have "j < length (va_settings v1)" using j u by (auto dest!: list_all2_lengthD)
    note e = list_all2_nthD[OF l this]
    have "va_settings v1 ! j \<in> set ?ss \<longrightarrow> sensitive_paths (col ! j) \<noteq> []"
      using sub(2) finished_sensitive[OF f] by auto
    from cleanup_finished(1)[OF f e this]
    show "finished env c (col ! j) (va_settings v2 ! j) \<or> cleaned env c (col ! j) (va_settings v2 ! j)" .
  qed
  show "s \<in> set (va_settings v1) \<and> s\<lparr>st_backupSensitiveData := None\<rparr> \<in> set (va_settings v2)" if s: "s \<in> set ?ss"
  proof -
    have m: "s \<in> set (va_settings v1)" using s sub(2) by blast
    then obtain j where j: "j < length (va_settings v1)" "va_settings v1 ! j = s" by (auto simp only: in_set_conv_nth)
    with list_all2_nthD[OF l j(1)] s have "va_settings v2 ! j = s\<lparr>st_backupSensitiveData := None\<rparr>" by simp
    then show ?thesis using m j(1) list_all2_lengthD[OF l] nth_mem[of j "va_settings v2"] by simp
  qed
qed

text \<open>C38: a crash in the second pass, after the backup of a setting with a secret was removed, blocks the migration when the
  new and the former key are of modes that authenticate: every later attempt fails, whatever locks it finds, and leaves a setting
  whose secret the former key does not open, without its backup, and the mark that the migration is to be done.\<close>

theorem migration_blocked_for_ever:
  assumes env: "can_encrypt env c" "deciphers env" and col: "to_migrate env c (va_settings v)"
    and k: "stored_crypto_settings (va_settings v) = Inr (Some (i, c))" "cy_migrationToBeDone c" and apart: "keys_apart env c"
    and first: "migrateSettings env c v = (v1, r)"
    and crash: "foldS (cleanupSetting env) (take n (getSettingsWithSensitiveData (va_settings v1))) () v1 = (v2, r')"
    and s: "s \<in> set (take n (getSettingsWithSensitiveData (va_settings v1)))" "p \<in> set (sensitive_paths s)" "text_at s p \<noteq> None"
  shows "\<not> is_ok (snd (handleCryptoSettingsChange env ((attempts env ws v2)\<lparr>va_world := w\<rparr>)))
    \<and> blocked env c (s\<lparr>st_backupSensitiveData := None\<rparr>) (va_settings (attempts env ws v2))"
proof -
  let ?col = "va_settings v" and ?s = "s\<lparr>st_backupSensitiveData := None\<rparr>"
  have u: "list_all2 (finished env c) ?col (va_settings v1)" by (rule migration_finishes[OF env col first])
  note l = second_pass_crash[OF col u crash]
  obtain s0 where s0: "s0 \<in> set ?col" "finished env c s0 s" using list_all2_in_set2[OF u, of s] l(2)[OF s(1)] by auto
  note same = finished_sensitive[OF s0(2)]
  have "cleaned env c s0 ?s" using cleanup_finished(2)[OF s0(2), of ?s True] s(2) same by force
  then have "blocked env c ?s (va_settings v2)"
    using cleaned_blocked[OF col k l(1) apart s0(1)] l(2)[OF s(1)] s(2,3) same finished_text[OF s0(2)] by auto
  then have b: "blocked env c ?s (va_settings (attempts env ws v2))" by (rule attempts_blocked)
  then have "\<not> is_ok (snd (handleCryptoSettingsChange env ((attempts env ws v2)\<lparr>va_world := w\<rparr>)))"
    by (intro conjunct1[OF handle_blocked[of env c ?s]]) simp
  with b show ?thesis by blast
qed

end
