(* ===== verification/Tag_Access.thy ===== *)
theory Tag_Access
  imports Authorizations
begin

text \<open>
  The badge at a charging station: \<^verbatim>\<open>isTagIDAuthorizedOnChargingStation\<close> and the checks it is made of
  (src/authorization/Authorizations.ts). The answers of the OICP and OCPI clients are parameters; so is
  the question whether a transaction already uses an OCPI authorization.
\<close>

record remote_authorization =
  ra_id :: string
  ra_tagId :: string
  ra_timestamp :: int

record authorize_request =
  ar_timestamp :: int
  ar_chargeBoxID :: string
  ar_tagID :: string
  ar_authorizationId :: "string option"

record tag_env =
  te_acl :: acl
  te_now :: int
  te_oicpUser :: "string \<Rightarrow> transaction option \<Rightarrow> account option res"
  te_ocpiAuthorizeToken :: "(string \<Rightarrow> charging_station \<Rightarrow> string option res) option"
  te_authorizes :: "authorize_request list"
  te_authorizationUsed :: "string \<Rightarrow> bool"

definition ROAMING_AUTHORIZATION_TIMEOUT_MINS :: int where
  "ROAMING_AUTHORIZATION_TIMEOUT_MINS = 2"

definition isAuthorizationValid :: "int \<Rightarrow> int \<Rightarrow> bool" where
  "isAuthorizationValid now timestamp = (timestamp > now - ROAMING_AUTHORIZATION_TIMEOUT_MINS * 60000)"

section \<open>The collections\<close>

definition getTag :: "directory \<Rightarrow> string \<Rightarrow> tag option" where
  "getTag d tagID = find (\<lambda>t. tg_id t = tagID) (dr_tags d)"

definition getUser :: "directory \<Rightarrow> string \<Rightarrow> account option" where
  "getUser d userID = find (\<lambda>u. usr_id u = userID) (dr_users d)"

definition tag_user :: "directory \<Rightarrow> tag \<Rightarrow> account option" where
  "tag_user d t = Option.bind (tg_userID t) (getUser d)"

definition getUserByTagID :: "directory \<Rightarrow> string \<Rightarrow> account option" where
  "getUserByTagID d tagID = Option.bind (getTag d tagID) (tag_user d)"

section \<open>The checks\<close>

definition isChargingStationValidInOrganization :: "directory \<Rightarrow> charging_station \<Rightarrow> bool res" where
  "isChargingStationValidInOrganization d cs =
     (if isTenantComponentActive d ORGANIZATION then
        if \<not> truthy_str (cs_siteAreaID cs) \<or> cs_siteArea cs = None then Inl (BackendError ''not assigned to a Site Area'')
        else if \<not> truthy_str (cs_siteID cs) then Inl (BackendError ''not assigned to a Site'')
        else Inr True
      else Inr False)"

definition checkAndGetAuthorizedTag :: "directory \<Rightarrow> string \<Rightarrow> tag option res" where
  "checkAndGetAuthorizedTag d tagID =
     (case getTag d tagID of
        None \<Rightarrow> Inr None
      | Some t \<Rightarrow>
          if \<not> tg_active t then Inl (BackendError ''Tag ID is not active'')
          else if tag_user d t = None then Inl (BackendError ''Tag ID is not assigned to a User'')
          else Inr (Some t))"

definition checkAndGetOICPAuthorizedUser :: "tag_env \<Rightarrow> directory \<Rightarrow> transaction option \<Rightarrow> string \<Rightarrow> account option res" where
  "checkAndGetOICPAuthorizedUser env d t tagID =
     (if isTenantComponentActive d OICP then te_oicpUser env tagID t else Inr None)"

definition checkAndGetAuthorizedUserFromTag ::
  "tag_env \<Rightarrow> directory \<Rightarrow> charging_station \<Rightarrow> transaction option \<Rightarrow> tag \<Rightarrow> Action option \<Rightarrow> account res" where
  "checkAndGetAuthorizedUserFromTag env d cs t tag authAction =
     (case tag_user d tag of
        None \<Rightarrow> Inl TypeError
      | Some user \<Rightarrow>
          if acc_status user \<noteq> ACTIVE then Inl (BackendError ''User is not Active'')
          else case authAction of
            None \<Rightarrow> Inr user
          | Some action \<Rightarrow>
              if \<not> usr_issuer user then Inr user
              else
                (let token = buildUserToken d user [tag];
                     ctx = context_of [(''user'', case t of None \<Rightarrow> Null | Some t \<Rightarrow> opt_value (tx_userID t)),
                       (''tagIDs'', Strs (ut_tagIDs token)),
                       (''tagID'', case t of None \<Rightarrow> Null | Some t \<Rightarrow> opt_value (tx_tagID t)), (''owner'', Str (ut_id token)),
                       (''site'', opt_value (cs_siteID cs)), (''sites'', Strs (ut_sites token)), (''sitesAdmin'', Strs (ut_sitesAdmin token))]
                 in bindE (canPerformActionOnChargingStation (te_acl env) token action cs (Some ctx)) (\<lambda>ok.
                      if ok then Inr user else Inl (BackendError ''User is not authorized to perform the action''))))"

section \<open>Roaming users\<close>

text \<open>The remote authorizations are read from the last one; those that have expired are removed on the way.\<close>

fun scan_remote :: "int \<Rightarrow> string option \<Rightarrow> remote_authorization list \<Rightarrow> string option \<times> remote_authorization list" where
  "scan_remote now token [] = (None, [])"
| "scan_remote now token (r # rs) =
     (if isAuthorizationValid now (ra_timestamp r) then
        if token = Some (ra_tagId r) then (Some (ra_id r), r # rs)
        else (case scan_remote now token rs of (i, rest) \<Rightarrow> (i, r # rest))
      else scan_remote now token rs)"

definition checkAndGetOCPIAuthorizationIDFromIOPRemoteStartTransaction ::
  "tag_env \<Rightarrow> tag \<Rightarrow> remote_authorization list \<Rightarrow> string option \<times> remote_authorization list" where
  "checkAndGetOCPIAuthorizationIDFromIOPRemoteStartTransaction env tag ras =
     (case scan_remote (te_now env) (tg_ocpiToken tag) (rev ras) of (i, rest) \<Rightarrow> (i, rev rest))"

text \<open>The latest request first, as the query sorts them.\<close>

definition checkAndGetOCPIAuthorizationIDFromOCPPAuthorize :: "tag_env \<Rightarrow> transaction \<Rightarrow> string option" where
  "checkAndGetOCPIAuthorizationIDFromOCPPAuthorize env t =
     (let recent = filter (\<lambda>a. ar_timestamp a \<ge> tx_timestamp t - ROAMING_AUTHORIZATION_TIMEOUT_MINS * 60000
            \<and> ar_chargeBoxID a = tx_chargeBoxID t \<and> Some (ar_tagID a) = tx_tagID t) (te_authorizes env)
      in Option.bind (find (\<lambda>a. truthy_str (ar_authorizationId a) \<and> \<not> te_authorizationUsed env (or_else (ar_authorizationId a) []))
           (rev (sort_key ar_timestamp recent))) ar_authorizationId)"

definition request_token ::
  "(string \<Rightarrow> charging_station \<Rightarrow> string option res) \<Rightarrow> charging_station \<Rightarrow> string \<Rightarrow> string option \<Rightarrow> string option res" where
  "request_token client cs token found = (if truthy_str found then Inr found else client token cs)"

definition checkOCPIAuthorizedUser ::
  "tag_env \<Rightarrow> directory \<Rightarrow> charging_station \<Rightarrow> remote_authorization list \<Rightarrow> transaction option \<Rightarrow> tag \<Rightarrow> account \<Rightarrow>
   Action option \<Rightarrow> (account \<times> remote_authorization list) res" where
  "checkOCPIAuthorizedUser env d cs ras t tag user authAction =
     (if \<not> isTenantComponentActive d OCPI then Inl (BackendError ''Roaming is not active'')
      else case tg_ocpiToken tag of
        None \<Rightarrow> Inl (BackendError ''missing OCPI Token'')
      | Some token \<Rightarrow>
          if \<not> cs_public cs then Inl (BackendError ''private Charging Station'')
          else case te_ocpiAuthorizeToken env of
            None \<Rightarrow> Inl (BackendError ''requires at least one CPO endpoint'')
          | Some client \<Rightarrow>
              (case authAction of
                 Some Action.AUTHORIZE \<Rightarrow>
                   (let (found, ras') = checkAndGetOCPIAuthorizationIDFromIOPRemoteStartTransaction env tag ras
                    in bindE (request_token client cs token found) (\<lambda>i.
                         Inr (user\<lparr>usr_authorizationID := i\<rparr>, ras')))
               | Some Action.START_TRANSACTION \<Rightarrow>
                   (case t of
                      None \<Rightarrow> Inl TypeError
                    | Some t \<Rightarrow> bindE (request_token client cs token (checkAndGetOCPIAuthorizationIDFromOCPPAuthorize env t)) (\<lambda>i.
                        Inr (user\<lparr>usr_authorizationID := i\<rparr>, ras)))
               | _ \<Rightarrow> Inr (user, ras)))"

section \<open>The badge\<close>

record tag_access =
  ta_user :: "account option"
  ta_tag :: "tag option"
  ta_remote :: "remote_authorization list"

definition isTagIDAuthorizedOnChargingStation ::
  "tag_env \<Rightarrow> directory \<Rightarrow> charging_station \<Rightarrow> remote_authorization list \<Rightarrow> transaction option \<Rightarrow> string \<Rightarrow> Action option \<Rightarrow>
   tag_access res" where
  "isTagIDAuthorizedOnChargingStation env d cs ras t tagID authAction =
     bindE (isChargingStationValidInOrganization d cs) (\<lambda>inOrganization.
       if inOrganization \<and> \<not> sa_accessControl (the (cs_siteArea cs)) then
         Inr \<lparr> ta_user = getUserByTagID d tagID, ta_tag = getTag d tagID, ta_remote = ras \<rparr>
       else
         bindE (checkAndGetAuthorizedTag d tagID) (\<lambda>found.
           case found of
             None \<Rightarrow>
               bindE (checkAndGetOICPAuthorizedUser env d t tagID) (\<lambda>user.
                 if user \<noteq> None then Inr \<lparr> ta_user = user, ta_tag = None, ta_remote = ras \<rparr>
                 else Inl (BackendError ''Tag ID is unknown''))
           | Some tag \<Rightarrow>
               bindE (checkAndGetAuthorizedUserFromTag env d cs t tag authAction) (\<lambda>user.
                 if usr_issuer user then Inr \<lparr> ta_user = Some user, ta_tag = Some tag, ta_remote = ras \<rparr>
                 else bindE (checkOCPIAuthorizedUser env d cs ras t tag user authAction) (\<lambda>(user', ras').
                   Inr \<lparr> ta_user = Some user', ta_tag = Some tag, ta_remote = ras' \<rparr>))))"

definition isAuthorizedOnChargingStation ::
  "tag_env \<Rightarrow> directory \<Rightarrow> charging_station \<Rightarrow> remote_authorization list \<Rightarrow> string \<Rightarrow> Action option \<Rightarrow> tag_access res" where
  "isAuthorizedOnChargingStation env d cs ras tagID authAction =
     isTagIDAuthorizedOnChargingStation env d cs ras None tagID authAction"

definition isAuthorizedToStartTransaction ::
  "tag_env \<Rightarrow> directory \<Rightarrow> charging_station \<Rightarrow> remote_authorization list \<Rightarrow> string \<Rightarrow> transaction \<Rightarrow> Action option \<Rightarrow> tag_access res" where
  "isAuthorizedToStartTransaction env d cs ras tagID t authAction =
     isTagIDAuthorizedOnChargingStation env d cs ras (Some t) tagID authAction"

text \<open>The user and badge of the session, and the alternate ones when another badge stops it.\<close>

definition isAuthorizedToStopTransaction ::
  "tag_env \<Rightarrow> directory \<Rightarrow> charging_station \<Rightarrow> remote_authorization list \<Rightarrow> transaction \<Rightarrow> string \<Rightarrow> Action option \<Rightarrow>
   (tag_access \<times> tag_access option) res" where
  "isAuthorizedToStopTransaction env d cs ras t tagID authAction =
     bindE (isTagIDAuthorizedOnChargingStation env d cs ras (Some t) tagID authAction) (\<lambda>access.
       if Some tagID \<noteq> tx_tagID t then
         Inr (\<lparr> ta_user = Option.bind (tx_tagID t) (getUserByTagID d), ta_tag = Option.bind (tx_tagID t) (getTag d),
                ta_remote = ta_remote access \<rparr>, Some access)
       else Inr (access, None))"

end
