(* ===== verification/Badge_Laws.thy ===== *)
theory Badge_Laws
  imports Tag_Access Access_Cache Access_Properties Pricing_Engine
begin

text \<open>
  What a badge opens (\<^verbatim>\<open>isTagIDAuthorizedOnChargingStation\<close>, model in \<open>Tag_Access\<close>), for the users of the
  tenant: starting needs an active badge of an active user who is assigned to the site of the charging
  station; stopping does not ask for the site or for the session.
\<close>

section \<open>The grants of a basic user\<close>

definition basic_roles :: "string list list" where
  "basic_roles = [[''basic''], [''siteAdmin''], [''siteOwner''], [''siteAdmin'', ''siteOwner'']]"

lemma roles_of_basic: "getAuthGroupsFromUser BASIC m n \<in> set basic_roles"
  by (simp add: getAuthGroupsFromUser_def basic_roles_def)

definition site_condition :: condition where
  "site_condition = Or_Fn [Equals_Fn ''site'' (Const Null), List_Contains_Fn ''sites'' (Field ''site'')]"

text \<open>Every grant to start asks for the site; a grant to stop comes with filters, which it leaves to the caller.\<close>

lemma start_grants:
  "list_all (\<lambda>rs. list_all (\<lambda>g. g_condition g = Some site_condition)
     (matching AUTHORIZATION_DEFINITION rs Entity.CHARGING_STATION Action.START_TRANSACTION)) basic_roles"
  by code_simp

definition dynamic_grant :: "grant \<Rightarrow> bool" where
  "dynamic_grant g = (case g_condition g of Some (Dynamic _ _ _) \<Rightarrow> True | _ \<Rightarrow> False)"

lemma stop_grants:
  "list_all (\<lambda>rs. list_ex dynamic_grant (matching AUTHORIZATION_DEFINITION rs Entity.CHARGING_STATION Action.STOP_TRANSACTION)) basic_roles"
  by code_simp

lemma basic_roles_ok: "rs \<in> set basic_roles \<Longrightarrow> roles_ok rs"
  by (auto simp: basic_roles_def roles_ok_def role_names_def)

context role_acl
begin

lemma start_decision:
  assumes "rs \<in> set basic_roles" and "can_acl acl rs Entity.CHARGING_STATION Action.START_TRANSACTION ctx = Inr True"
    and "ax_value ctx ''site'' = Str s" and "ax_value ctx ''sites'' = Strs ss"
  shows "s \<in> set ss"
proof -
  obtain ctx' p where dec: "acl AUTHORIZATION_DEFINITION rs Entity.CHARGING_STATION Action.START_TRANSACTION ctx = Inr (ctx', p)" and "pm_granted p"
    using assms(2) by (auto simp: can_acl_def split: sum.splits)
  then obtain g where g: "g \<in> set (matching AUTHORIZATION_DEFINITION rs Entity.CHARGING_STATION Action.START_TRANSACTION)"
    and "grant_holds holds ctx g" by (rule granted_grant)
  moreover from start_grants assms(1) g have "g_condition g = Some site_condition" by (simp add: list_all_iff)
  ultimately have "holds site_condition ctx" by (simp add: grant_holds_def)
  then show ?thesis
    using holds_const[of "''site''" ctx s] holds_contains[OF assms(4,3)] assms(3) by (auto simp: site_condition_def holds_or)
qed

lemma stop_decision:
  assumes "rs \<in> set basic_roles"
  shows "can_acl acl rs Entity.CHARGING_STATION Action.STOP_TRANSACTION ctx = Inr True"
proof -
  obtain ctx' p where dec: "acl AUTHORIZATION_DEFINITION rs Entity.CHARGING_STATION Action.STOP_TRANSACTION ctx = Inr (ctx', p)"
    by (rule decides[OF basic_roles_ok[OF assms]])
  obtain g where g: "g \<in> set (matching AUTHORIZATION_DEFINITION rs Entity.CHARGING_STATION Action.STOP_TRANSACTION)" and "dynamic_grant g"
    using stop_grants assms by (auto simp: list_all_iff list_ex_iff)
  then obtain fs as md where "g_condition g = Some (Dynamic fs as md)"
    by (auto simp: dynamic_grant_def split: option.splits condition.splits)
  from dynamic_grants[OF dec g this] dec show ?thesis by (simp add: can_acl_def)
qed

end

section \<open>The badge\<close>

text \<open>A charging station of a site with access control, in a tenant with sites and without roaming by OICP.\<close>

definition controlled_station :: "directory \<Rightarrow> charging_station \<Rightarrow> string \<Rightarrow> bool" where
  "controlled_station d cs s \<longleftrightarrow> isTenantComponentActive d ORGANIZATION \<and> \<not> isTenantComponentActive d OICP
     \<and> truthy_str (cs_siteAreaID cs) \<and> (\<exists>a. cs_siteArea cs = Some a \<and> sa_accessControl a) \<and> cs_siteID cs = Some s \<and> s \<noteq> []"

lemma controlled_valid:
  "controlled_station d cs s \<Longrightarrow> isChargingStationValidInOrganization d cs = Inr True \<and> sa_accessControl (the (cs_siteArea cs))"
  by (auto simp: controlled_station_def isChargingStationValidInOrganization_def)

lemma badge_known:
  assumes "controlled_station d cs s" and "isTagIDAuthorizedOnChargingStation env d cs ras t i a = Inr acc"
  obtains tag user where "getTag d i = Some tag" and "tg_active tag" and "tag_user d tag = Some user" and "acc_status user = ACTIVE"
    and "checkAndGetAuthorizedUserFromTag env d cs t tag a = Inr user"
proof -
  have oicp: "checkAndGetOICPAuthorizedUser env d t i = Inr None"
    using assms(1) by (simp add: controlled_station_def checkAndGetOICPAuthorizedUser_def)
  from assms(2) controlled_valid[OF assms(1)] oicp obtain tag user
    where tag: "checkAndGetAuthorizedTag d i = Inr (Some tag)" and user: "checkAndGetAuthorizedUserFromTag env d cs t tag a = Inr user"
    by (auto simp: isTagIDAuthorizedOnChargingStation_def bindE_eq_Inr split: option.splits if_splits)
  from tag have 1: "getTag d i = Some tag" "tg_active tag" by (auto simp: checkAndGetAuthorizedTag_def split: option.splits if_splits)
  from user have 2: "tag_user d tag = Some user" "acc_status user = ACTIVE"
    by (auto simp: checkAndGetAuthorizedUserFromTag_def bindE_eq_Inr Let_def split: option.splits if_splits)
  from that[OF 1 2 user] show thesis .
qed

text \<open>A badge that starts a session at a controlled station is in the directory and active, its user is active, and a
  user of the tenant without an administrator's role is assigned to the site of the station.\<close>

theorem badge_starts_on_assigned_site:
  assumes "role_acl (te_acl env) holds" and "controlled_station d cs s"
    and "isAuthorizedToStartTransaction env d cs ras i t (Some Action.START_TRANSACTION) = Inr acc"
  shows "\<exists>tag user. getTag d i = Some tag \<and> tg_active tag \<and> tag_user d tag = Some user \<and> acc_status user = ACTIVE
    \<and> (usr_issuer user \<and> acc_role user = BASIC \<longrightarrow> s \<in> us_siteID ` set (getUserSites d (usr_id user) False False))"
proof -
  obtain tag user where tag: "getTag d i = Some tag" "tg_active tag" "tag_user d tag = Some user" "acc_status user = ACTIVE"
    and user: "checkAndGetAuthorizedUserFromTag env d cs (Some t) tag (Some Action.START_TRANSACTION) = Inr user"
    using badge_known[OF assms(2) assms(3)[unfolded isAuthorizedToStartTransaction_def]] by blast
  have "s \<in> us_siteID ` set (getUserSites d (usr_id user) False False)" if "usr_issuer user" and basic: "acc_role user = BASIC"
  proof -
    let ?u = "buildUserToken d user [tag]"
    have site: "cs_siteID cs = Some s" using assms(2) by (simp add: controlled_station_def)
    from user tag that obtain ctx where
      dec: "can_acl (te_acl env) (ut_rolesACL ?u) Entity.CHARGING_STATION Action.START_TRANSACTION ctx = Inr True"
      and "ax_value ctx ''site'' = Str s" and "ax_value ctx ''sites'' = Strs (ut_sites ?u)"
      by (auto simp: checkAndGetAuthorizedUserFromTag_def canPerformActionOnChargingStation_def canPerformAction_def bindE_eq_Inr
          Let_def context_of_def opt_value_def site split: if_splits)
    moreover have "ut_rolesACL ?u \<in> set basic_roles" using roles_of_basic by (simp add: buildUserToken_def Let_def basic)
    ultimately have "s \<in> set (ut_sites ?u)" using role_acl.start_decision[OF assms(1)] by blast
    then show ?thesis by (simp add: buildUserToken_def Let_def isAdmin_def basic)
  qed
  with tag show ?thesis by blast
qed

text \<open>Stopping asks for nothing more than a badge: at a controlled station, the active badge of an active basic user of
  the tenant stops every session, whoever started it and whatever sites the user is assigned to. The filters that the
  table attaches to the grant are not evaluated on this way.\<close>

theorem any_badge_stops_any_session:
  assumes "role_acl (te_acl env) holds" and "controlled_station d cs s"
    and "getTag d i = Some tag" and "tg_active tag" and "tag_user d tag = Some user"
    and "acc_status user = ACTIVE" and "usr_issuer user" and "acc_role user = BASIC"
  shows "is_ok (isAuthorizedToStopTransaction env d cs ras t i (Some Action.STOP_TRANSACTION))"
proof -
  let ?u = "buildUserToken d user [tag]"
  have "ut_rolesACL ?u \<in> set basic_roles" using roles_of_basic by (simp add: buildUserToken_def Let_def assms(8))
  note dec = role_acl.stop_decision[OF assms(1) this]
  have "checkAndGetAuthorizedTag d i = Inr (Some tag)" using assms(3-5) by (simp add: checkAndGetAuthorizedTag_def)
  moreover have "checkAndGetAuthorizedUserFromTag env d cs (Some t) tag (Some Action.STOP_TRANSACTION) = Inr user"
    using assms(5-7) dec by (simp add: checkAndGetAuthorizedUserFromTag_def canPerformActionOnChargingStation_def canPerformAction_def Let_def)
  ultimately show ?thesis
    using controlled_valid[OF assms(2)] assms(7)
    by (simp add: isAuthorizedToStopTransaction_def isTagIDAuthorizedOnChargingStation_def)
qed

section \<open>Instances\<close>

definition badge_directory :: directory where
  "badge_directory = \<lparr>
     dr_users = [\<lparr> usr_id = ''bob'', usr_issuer = True, usr_authorizationID = None,
      usr_name = ''Bob'', usr_firstName = None, usr_email = ''bob@example.org'',
      usr_locale = None, usr_address = None, usr_freeAccess = False, usr_billingData = None, acc_role = BASIC, acc_status = ACTIVE \<rparr>],
     dr_tags = [\<lparr> tg_id = ''badge'', tg_active = True, tg_issuer = True, tg_userID = Some ''bob'', tg_ocpiToken = None \<rparr>],
     dr_sites = [\<lparr> si_id = ''S1'', si_companyID = ''C1'', si_issuer = True \<rparr>],
     dr_userSites = [\<lparr> us_userID = ''bob'', us_siteID = ''S1'', us_siteAdmin = False, us_siteOwner = False \<rparr>],
     dr_components = [(ORGANIZATION, True)] \<rparr>"

definition badge_station :: charging_station where
  "badge_station = sample_station\<lparr>cs_siteID := Some ''S1'', cs_siteAreaID := Some ''SA1'',
     cs_siteArea := Some \<lparr> sa_id = ''SA1'', sa_maximumPower = None, sa_voltage = VOLTAGE_230, sa_smartCharging = False, sa_accessControl = True \<rparr>\<rparr>"

definition badge_env :: tag_env where
  "badge_env = \<lparr> te_acl = ordered_acl, te_now = 0, te_oicpUser = (\<lambda>_ _. Inr None), te_ocpiAuthorizeToken = None, te_authorizes = [],
     te_authorizationUsed = (\<lambda>_. False) \<rparr>"

lemma badge_conforms: "role_acl (te_acl badge_env) in_order"
  by (simp add: badge_env_def ordered.role_acl_axioms)

lemma badge_controlled: "controlled_station badge_directory badge_station ''S1''"
  by (simp add: controlled_station_def badge_station_def badge_directory_def isTenantComponentActive_def)

abbreviation bob :: account where
  "bob \<equiv> \<lparr> usr_id = ''bob'', usr_issuer = True, usr_authorizationID = None,
      usr_name = ''Bob'', usr_firstName = None, usr_email = ''bob@example.org'',
      usr_locale = None, usr_address = None, usr_freeAccess = False, usr_billingData = None, acc_role = BASIC, acc_status = ACTIVE \<rparr>"

abbreviation badge :: tag where
  "badge \<equiv> \<lparr> tg_id = ''badge'', tg_active = True, tg_issuer = True, tg_userID = Some ''bob'', tg_ocpiToken = None \<rparr>"

lemma badge_of_bob: "getTag badge_directory ''badge'' = Some badge" "tag_user badge_directory badge = Some bob"
  by (simp_all add: getTag_def tag_user_def getUser_def badge_directory_def)

lemma bob_token:
  "ut_rolesACL (buildUserToken badge_directory bob [badge]) = [''basic'']"
  "ut_sites (buildUserToken badge_directory bob [badge]) = [''S1'']"
  by (simp_all add: buildUserToken_def getUserSites_def badge_directory_def getAuthGroupsFromUser_def isAdmin_def Let_def)

lemma bob_starts:
  "isAuthorizedToStartTransaction badge_env badge_directory badge_station [] ''badge'' sample_transaction (Some Action.START_TRANSACTION)
     = Inr \<lparr> ta_user = Some bob, ta_tag = Some badge, ta_remote = [] \<rparr>"
proof -
  have "map g_condition (matching AUTHORIZATION_DEFINITION [''basic''] Entity.CHARGING_STATION Action.START_TRANSACTION) = [Some site_condition]"
    by code_simp
  note dec = role_acl.decides_grant[OF badge_conforms basic_roles_ok this]
  have "checkAndGetAuthorizedUserFromTag badge_env badge_directory badge_station (Some sample_transaction) badge (Some Action.START_TRANSACTION) = Inr bob"
    by (simp add: checkAndGetAuthorizedUserFromTag_def badge_of_bob canPerformActionOnChargingStation_def canPerformAction_def Let_def bob_token
        dec basic_roles_def site_condition_def context_of_def opt_value_def badge_station_def)
  moreover have "checkAndGetAuthorizedTag badge_directory ''badge'' = Inr (Some badge)"
    by (simp add: checkAndGetAuthorizedTag_def badge_of_bob)
  ultimately show ?thesis
    using controlled_valid[OF badge_controlled] by (simp add: isAuthorizedToStartTransaction_def isTagIDAuthorizedOnChargingStation_def)
qed

theorem badge_starts_on_assigned_site_witness:
  "''S1'' \<in> us_siteID ` set (getUserSites badge_directory (usr_id bob) False False)"
  using badge_starts_on_assigned_site[OF badge_conforms badge_controlled bob_starts] by (simp add: badge_of_bob)

theorem any_badge_stops_any_session_witness:
  "is_ok (isAuthorizedToStopTransaction badge_env badge_directory badge_station [] sample_transaction ''badge'' (Some Action.STOP_TRANSACTION))"
  by (rule any_badge_stops_any_session[OF badge_conforms badge_controlled badge_of_bob(1) _ badge_of_bob(2)]) simp_all

end
