(* ===== verification/Setting_Access.thy ===== *)
theory Setting_Access
  imports Setting_Migration Badge_Laws
begin

text \<open>
  Who sees and changes the settings: the encryption key is shown to every user, once as the former key;
  productive billing cannot be switched off through the requests on billing, but can be through the
  requests on settings.
\<close>

section \<open>Reading the key\<close>

lemma setting_grants:
  "list_all (\<lambda>rs. list_ex (\<lambda>g. g_condition g = None) (matching AUTHORIZATION_DEFINITION rs Entity.SETTING Action.READ)) basic_roles"
  by code_simp

lemma admin_setting_grants:
  "list_ex (\<lambda>g. g_condition g = None) (matching AUTHORIZATION_DEFINITION [''admin''] Entity.SETTING Action.UPDATE)"
  by code_simp

context role_acl
begin

lemma unconditional_grant:
  assumes "roles_ok roles" and "list_ex (\<lambda>g. g_condition g = None) (matching AUTHORIZATION_DEFINITION roles r a)"
  shows "can_acl acl roles r a ctx = Inr True"
proof -
  obtain ctx' p where dec: "acl AUTHORIZATION_DEFINITION roles r a ctx = Inr (ctx', p)"
    using decides[OF assms(1)] by metis
  from assms(2) obtain g where g: "g \<in> set (matching AUTHORIZATION_DEFINITION roles r a)" "g_condition g = None"
    by (auto simp: list_ex_iff)
  have "grant_holds holds ctx g" by (simp add: grant_holds_def g(2))
  with acl_granted[OF dec] g(1) have "pm_granted p" by blast
  with dec show ?thesis by (simp add: can_acl_def)
qed

lemma basic_reads_settings:
  assumes "ut_rolesACL u \<in> set basic_roles"
  shows "canReadSetting acl u ctx = Inr True"
  using unconditional_grant[OF basic_roles_ok[OF assms]] setting_grants assms
  by (simp add: canReadSetting_def canPerformAction_def list_all_iff)

lemma admin_updates_settings: "ut_rolesACL u = [''admin''] \<Longrightarrow> canUpdateSetting acl u = Inr True"
  using unconditional_grant[OF _ admin_setting_grants]
  by (simp add: canUpdateSetting_def canPerformAction_def roles_ok_def role_names_def)

end

lemma check_crypto_draws: "\<exists>n. fst (checkCryptoSettings env c v) = v\<lparr>va_draws := n\<rparr>"
proof -
  obtain n where n: "fst (encrypt env ''test-data-to-encrypt'' False (Some c) v) = v\<lparr>va_draws := n\<rparr>" using crypto_draws(1) by blast
  then show ?thesis
    by (cases "snd (encrypt env ''test-data-to-encrypt'' False (Some c) v)")
      (auto simp: checkCryptoSettings_def bindS_def split_def decrypt_opens liftS_def returnS_def split: sum.splits)
qed

lemma check_crypto_passes:
  assumes "can_encrypt env c" and "deciphers env"
  shows "\<exists>n. checkCryptoSettings env c v = (v\<lparr>va_draws := n\<rparr>, Inr ())"
proof -
  obtain n y where "encrypt env ''test-data-to-encrypt'' False (Some c) v = (v\<lparr>va_draws := n\<rparr>, Inr y)"
    "opens env False c y = Inr ''test-data-to-encrypt''" using encrypt_runs[OF assms] by blast
  then show ?thesis by (intro exI[of _ n]) (simp add: checkCryptoSettings_def bindS_def decrypt_opens returnS_def)
qed

text \<open>An update that keeps the key, with a supported algorithm, is accepted.\<close>

lemma resave_accepted:
  assumes "can_encrypt env c" and "deciphers env"
    and "st_id r = Some i" and "i \<noteq> []" and "st_identifier r = CRYPTO" and "st_sensitiveData r = Some (Names [])" and "st_crypto r = Some c"
    and "getSetting i (va_settings v) = Some s" and "st_crypto s = Some k" and "cy_key c = cy_key k"
    and "\<not> cy_migrationToBeDone c" and "\<not> cy_migrationToBeDone k"
    and "buildCryptoAlgorithm (cy_keyProperties c) \<in> set CRYPTO_SUPPORTED_ALGORITHM"
    and "int (length (cy_key c)) * 8 = kp_blockSize (cy_keyProperties c)"
    and "validate CRYPTO r = Inr r" and "canUpdateSetting acl u = Inr True"
  shows "\<exists>v'. handleUpdateSetting acl validate env u r v = (v', Inr ())"
proof -
  obtain n where n: "checkCryptoSettings env c v = (v\<lparr>va_draws := n\<rparr>, Inr ())" using check_crypto_passes[OF assms(1,2)] by blast
  show ?thesis
    using n assms(3-16)
    by (simp add: handleUpdateSetting_def bindS_def liftS_def readS_def returnS_def filterSetting_def setting_identifiers_def
        assertIdIsProvided_def allowed_def assertAuthorized_def assertObjectExists_def update_sensitive_def update_crypto_def rethrowS_def
        saveSettings_known currency_changed_def CRYPTO_def)
qed

text \<open>What an accepted update of the key without migration stores.\<close>

lemma resaved_key:
  assumes "handleUpdateSetting acl validate env a body v = (v', Inr ())" and "filterSetting validate body = Inr r"
    and "st_id r = Some i" and "i \<noteq> []" and "st_identifier r = CRYPTO" and "st_sensitiveData r = Some (Names [])" and "st_crypto r = Some c"
    and "getSetting i (va_settings v) = Some s" and "st_crypto s = Some k" and "cy_key c = cy_key k" and "\<not> cy_migrationToBeDone c"
  shows "va_settings v' = replace_setting (r\<lparr>st_crypto := Some (c\<lparr>cy_formerKey := Some (cy_key k),
      cy_formerKeyProperties := Some (cy_keyProperties k)\<rparr>)\<rparr>) (va_settings v)"
proof -
  let ?c = "c\<lparr>cy_formerKey := Some (cy_key k), cy_formerKeyProperties := Some (cy_keyProperties k)\<rparr>"
  have "c\<lparr>cy_migrationToBeDone := False\<rparr> = c" using assms(11) by (cases c) simp
  then have c: "c\<lparr>cy_migrationToBeDone := False, cy_formerKey := Some (cy_key k), cy_formerKeyProperties := Some (cy_keyProperties k)\<rparr> = ?c"
    by metis
  obtain n where n: "fst (checkCryptoSettings env c v) = v\<lparr>va_draws := n\<rparr>" using check_crypto_draws by blast
  have u: "update_crypto env s r v = (w, Inr r') \<Longrightarrow> va_settings w = va_settings v \<and> r' = r\<lparr>st_crypto := Some ?c\<rparr>" for w r'
    using n assms(7,9,10,11) c
    by (auto simp: update_crypto_def bindS_Inr rethrowS_def returnS_def liftS_def split: if_splits prod.splits sum.splits)
  from assms obtain w r' where "update_crypto env s r v = (w, Inr r')"
    and v': "bindS (saveSettings env r') (\<lambda>_. bindS (if st_identifier r' = CRYPTO \<and> (case st_crypto r' of None \<Rightarrow> False | Some c \<Rightarrow> cy_migrationToBeDone c)
            then handleCryptoSettingsChange env else returnS ()) (\<lambda>_.
     if currency_changed s r' then liftS (Inl (AppError TENANT_COMPONENT_CHANGED ''Currency has been updated''))
     else returnS ())) w = (v', Inr ())"
    by (auto simp: handleUpdateSetting_def bindS_Inr liftS_def readS_def assertObjectExists_def update_sensitive_def returnS_def
        split: prod.splits)
  with u have r': "r' = r\<lparr>st_crypto := Some ?c\<rparr>" "va_settings w = va_settings v" by blast+
  have "saveSettings env r' w = (w\<lparr>va_settings := replace_setting r' (va_settings w)\<rparr>, Inr i)"
    using assms(3,4) by (subst saveSettings_known) (simp_all add: r'(1))
  with v' show ?thesis
    using r' assms(5,11) by (auto simp: bindS_Inr returnS_def currency_changed_def CRYPTO_def split: if_splits)
qed

text \<open>An update of the encryption settings that keeps the key stores it as the former key too, and the former key is
  sent in clear to every user who may read settings, among them every basic user.\<close>

theorem resaved_key_is_disclosed:
  assumes "handleUpdateSetting acl validate env a body v = (v', Inr ())" and "filterSetting validate body = Inr r"
    and "st_id r = Some i" and "i \<noteq> []" and "st_identifier r = CRYPTO" and "st_sensitiveData r = Some (Names [])" and "st_crypto r = Some c"
    and "getSetting i (va_settings v) = Some s" and "st_crypto s = Some k" and "cy_key c = cy_key k" and "\<not> cy_migrationToBeDone c"
    and "vault_ok (va_settings v)" and "role_acl acl holds" and "ut_rolesACL u \<in> set basic_roles"
  shows "\<exists>g k'. handleGetSetting acl env u i v' = (v', Inr g) \<and> st_crypto g = Some k' \<and> cy_formerKey k' = Some (cy_key k)"
proof -
  let ?c = "c\<lparr>cy_formerKey := Some (cy_key k), cy_formerKeyProperties := Some (cy_keyProperties k)\<rparr>"
  let ?r = "r\<lparr>st_crypto := Some ?c\<rparr>"
  have v': "va_settings v' = replace_setting ?r (va_settings v)" by (rule resaved_key[OF assms(1-11)])
  have "vault_ok (va_settings v')" using assms(3,4,12) vault_ok_replace[of _ ?r] by (simp add: v')
  moreover have "find (\<lambda>s. st_id s = Some i) (va_settings v') = Some ?r"
    using settings.find_put[of "va_settings v" "Some i" ?r] assms(3,12) by (simp add: v' vault_ok_def)
  ultimately have g: "getSetting i (va_settings v') = Some ?r" using assms(4) by (simp add: getSetting_find)
  have "canReadSetting acl u no_context = Inr True" using assms(13,14) by (rule role_acl.basic_reads_settings)
  with g assms(4-6) show ?thesis
    by (simp add: handleGetSetting_def bindS_def liftS_def readS_def assertIdIsProvided_def allowed_def assertAuthorized_def
        assertObjectExists_def shown_def hashSensitiveDataInJSON_def hash_key_def)
qed

end
