(* ===== verification/Billing_Laws.thy ===== *)
theory Billing_Laws
  imports Setting_Laws
begin

text \<open>
  The billing settings under the requests on them: productive billing stays productive with its keys,
  and billing becomes productive only when its prerequisites hold; the requests on settings, which write
  the same document, do not ask for that.
\<close>

section \<open>The document behind the billing settings\<close>

lemma single_setting:
  "getSettingByIdentifier idf col = Some s \<Longrightarrow> idf \<noteq> [] \<Longrightarrow> filter (\<lambda>s. st_identifier s = idf) col = [s]"
  by (auto simp: getSettingByIdentifier_def getSettings_def all_settings_def single_result_def Let_def checkRecordLimit_def
      checkRecordSkip_def page_value_def MAX_SAFE_INTEGER_def DB_RECORD_COUNT_DEFAULT_def length_Suc_conv eq_commute[of idf]
      split: if_splits)

lemma single_settingI:
  "filter (\<lambda>s. st_identifier s = idf) col = [s] \<Longrightarrow> idf \<noteq> [] \<Longrightarrow> getSettingByIdentifier idf col = Some s"
  by (simp add: getSettingByIdentifier_def getSettings_def all_settings_def single_result_def Let_def checkRecordLimit_def
      checkRecordSkip_def page_value_def MAX_SAFE_INTEGER_def DB_RECORD_COUNT_DEFAULT_def eq_commute[of idf])

lemma filter_replace:
  assumes "distinct (map st_id col)" and "filter (\<lambda>s. st_identifier s = idf) col = [s]" and "st_id t = st_id s" and "st_identifier t = idf"
  shows "filter (\<lambda>s. st_identifier s = idf) (replace_setting t col) = [t]"
  using assms
proof (induction col)
  case (Cons x xs)
  show ?case
  proof (cases "x = s")
    case True
    have "s \<in> set (filter (\<lambda>s. st_identifier s = idf) (x # xs))" unfolding Cons.prems(2) by simp
    then have "st_identifier s = idf" by (auto split: if_splits)
    with True Cons.prems show ?thesis by simp
  next
    case False
    with Cons.prems have x: "st_identifier x \<noteq> idf" and xs: "filter (\<lambda>s. st_identifier s = idf) xs = [s]" by (auto split: if_splits)
    then have "s \<in> set xs" by (metis filter_is_subset list.set_intros(1) subsetD)
    with Cons.prems have "st_id x \<noteq> st_id t" by (auto simp: rev_image_eqI)
    with x xs Cons show ?thesis by simp
  qed
qed simp

lemma getBilling_stored:
  assumes "getBillingSetting col = Some b"
  obtains s where "filter (\<lambda>s. st_identifier s = ''billing'') col = [s]" and "st_id b = st_id s" and "st_identifier b = ''billing''"
    and "flag_at b ACTIVATED = flag_at s ''content.billing.isTransactionBillingActivated''"
    and "st_props b ''type'' = st_props s ''content.type''"
proof -
  from assms obtain s where s: "getSettingByIdentifier ''billing'' col = Some s"
    by (auto simp: getBillingSetting_def)
  with assms have b: "st_id b = st_id s" "st_identifier b = ''billing''" "st_props b ''type'' = st_props s ''content.type''"
    "st_props b ACTIVATED = Some (Flag (flag_at s ''content.billing.isTransactionBillingActivated''))"
    by (auto simp: getBillingSetting_def Let_def ACTIVATED_def billing_flags_def)
  then have "flag_at b ACTIVATED = flag_at s ''content.billing.isTransactionBillingActivated''" by (simp add: flag_at_def)
  with b single_setting[OF s] that show thesis by simp
qed

text \<open>Saving billing settings and reading them again.\<close>

lemma saved_billing:
  assumes ok: "vault_ok (va_settings v)" and b: "getBillingSetting (va_settings v) = Some b"
    and b': "st_id b' = st_id b" "st_identifier b' = st_identifier b" "st_props b' ''type'' = st_props b ''type''"
  shows "\<exists>b''. (saveBillingSetting env b' v = (v', r) \<longrightarrow> getBillingSetting (va_settings v') = Some b'' \<and> vault_ok (va_settings v'))
    \<and> st_id b'' = st_id b \<and> flag_at b'' ACTIVATED = flag_at b' ACTIVATED \<and> st_props b'' ''type'' = st_props b ''type''
    \<and> (st_props b ''type'' = Some (Text ''stripe'') \<longrightarrow>
        st_props b'' ''stripe.secretKey'' = st_props b' ''stripe.secretKey'' \<and> st_props b'' ''stripe.publicKey'' = st_props b' ''stripe.publicKey'')"
proof -
  obtain s where s: "filter (\<lambda>s. st_identifier s = ''billing'') (va_settings v) = [s]" "st_id b = st_id s" "st_identifier b = ''billing''"
    using getBilling_stored[OF b] by metis
  then have "s \<in> set (va_settings v)" by (metis filter_is_subset list.set_intros(1) subsetD)
  with ok s(2) b'(1) have t: "truthy_str (st_id b')" by (simp add: vault_ok_def list_all_iff)
  let ?stripe = "st_props b' ''type'' = Some (Text ''stripe'')"
  let ?d = "b'\<lparr>st_sensitiveData := (if ?stripe then Some (Names [''content.stripe.secretKey'']) else st_sensitiveData b'),
        st_props := (\<lambda>q. case under_content q of
            None \<Rightarrow> None
          | Some p \<Rightarrow> if p = ''type'' \<or> p \<in> set billing_flags \<or> p \<in> set billing_values \<or> (p \<in> set stripe_paths \<and> ?stripe)
                      then st_props b' p else None)\<rparr>"
  have save: "saveBillingSetting env b' v = (v\<lparr>va_settings := replace_setting ?d (va_settings v)\<rparr>, Inr (or_else (st_id b') []))"
    unfolding saveBillingSetting_def Let_def using t by (subst saveSettings_known) simp_all
  have ok': "vault_ok (replace_setting ?d (va_settings v))"
    using ok t by (intro vault_ok_replace) simp_all
  have "filter (\<lambda>s. st_identifier s = ''billing'') (replace_setting ?d (va_settings v)) = [?d]"
    using ok s b' by (intro filter_replace[where s = s]) (simp_all add: vault_ok_def)
  then have g: "getSettingByIdentifier ''billing'' (replace_setting ?d (va_settings v)) = Some ?d" by (rule single_settingI) simp
  then obtain b'' where b'': "getBillingSetting (replace_setting ?d (va_settings v)) = Some b''" by (simp add: getBillingSetting_def)
  with g b' have "st_id b'' = st_id b \<and> flag_at b'' ACTIVATED = flag_at b' ACTIVATED \<and> st_props b'' ''type'' = st_props b ''type''
    \<and> (st_props b ''type'' = Some (Text ''stripe'') \<longrightarrow>
        st_props b'' ''stripe.secretKey'' = st_props b' ''stripe.secretKey'' \<and> st_props b'' ''stripe.publicKey'' = st_props b' ''stripe.publicKey'')"
    by (auto simp: getBillingSetting_def Let_def ACTIVATED_def billing_flags_def billing_values_def stripe_paths_def under_content_def flag_at_def)
  with b'' ok' save show ?thesis by (intro exI[of _ b'']) auto
qed

section \<open>Requests on billing\<close>

lemma processSensitiveData_keeps: "va_settings (fst (processSensitiveData env current new v)) = va_settings v"
proof -
  have p: "va_settings (fst (process_property env current p x w)) = va_settings w" for p x w
    using encrypt_keeps_settings[of env _ False None w]
    by (auto simp: process_property_def bindS_def liftS_def returnS_def split_def split: option.splits sum.splits)
  have "va_settings (fst (foldS (process_property env current) ns x w)) = va_settings w" for ns x w
  proof (induction ns arbitrary: x w)
    case (Cons q ns)
    with p[of q x w] show ?case by (auto simp: bindS_def split_def split: sum.splits)
  qed (simp add: returnS_def)
  then show ?thesis
    by (auto simp: processSensitiveData_def liftS_def returnS_def split: option.splits sensitive_names.splits)
qed

lemma merged_billing_simps [simp]:
  "st_id (merged_billing b n a) = st_id b" "st_identifier (merged_billing b n a) = st_identifier b"
  "st_props (merged_billing b n a) ''type'' = st_props b ''type''"
  "flag_at (merged_billing b n a) ACTIVATED = a"
  "flag_at b ACTIVATED \<Longrightarrow> st_props (merged_billing b n a) ''stripe.secretKey'' = st_props b ''stripe.secretKey''"
  "flag_at b ACTIVATED \<Longrightarrow> st_props (merged_billing b n a) ''stripe.publicKey'' = st_props b ''stripe.publicKey''"
  by (simp_all add: merged_billing_def ACTIVATED_def stripe_paths_def flag_at_def)

text \<open>
  The ways out of an update: refused before anything is saved; or productive billing is saved as such; or
  billing that is not productive is saved as such, and then perhaps again as productive.
\<close>

lemma update_outcomes:
  assumes "handleUpdateBillingSetting acl validate env impl u body v = (v', r)" and "getBillingSetting (va_settings v) = Some b"
  shows "va_settings v' = va_settings v \<or>
    (\<exists>w new. va_settings w = va_settings v \<and>
      (if flag_at b ACTIVATED
       then st_props b ''type'' = Some (Text ''stripe'') \<and> v' = fst (saveBillingSetting env (merged_billing b new True) w)
       else (let w' = fst (saveBillingSetting env (merged_billing b new False) w) in
             v' = w' \<or> is_ok (snd (checkActivationPrerequisites impl w')) \<and> v' = fst (saveBillingSetting env (merged_billing b new True) w'))))"
proof -
  note h = assms(1)[unfolded handleUpdateBillingSetting_def]
  show ?thesis
  proof (cases "isComponentActiveFromToken u BILLING \<and> allowed (canUpdateBillingSetting acl u) = Inr () \<and> is_ok (validate ''billing'' body)")
    case False
    then have "v' = v" using h
      by (auto simp: bindS_def liftS_def assertComponentIsActiveFromToken_def split: sum.splits if_splits)
    then show ?thesis by simp
  next
    case True
    then obtain n0 where n0: "validate ''billing'' body = Inr n0" by (auto dest: is_okD)
    obtain w p where p: "processSensitiveData env b n0 v = (w, p)" by fastforce
    have w: "va_settings w = va_settings v" using processSensitiveData_keeps[of env b n0 v] p by simp
    show ?thesis
    proof (cases p)
      case (Inl e)
      with True n0 p h assms(2) w show ?thesis
        by (simp add: bindS_def liftS_def readS_def assertComponentIsActiveFromToken_def assertObjectExists_def)
    next
      case (Inr new)
      obtain w1 q1 where s1: "saveBillingSetting env (merged_billing b new False) w = (w1, q1)" by fastforce
      obtain w2 q2 where s2: "saveBillingSetting env (merged_billing b new True) w = (w2, q2)" by fastforce
      obtain c where c: "checkActivationPrerequisites impl w1 = (w1, c)" by (simp add: checkActivationPrerequisites_def)
      from True n0 p assms(2) Inr h have k:
        "(if \<not> flag_at new ACTIVATED \<and> flag_at b ACTIVATED then liftS (Inl (AppError METHOD_NOT_ALLOWED ''Switching OFF the billing of transactions is forbidden''))
          else if flag_at b ACTIVATED \<and> st_props b ''type'' \<noteq> Some (Text ''stripe'') then liftS (Inl TypeError)
          else bindS (saveBillingSetting env (merged_billing b new (flag_at b ACTIVATED))) (\<lambda>_.
            if flag_at new ACTIVATED \<and> \<not> flag_at b ACTIVATED then
              bindS (checkActivationPrerequisites impl) (\<lambda>_. bindS (saveBillingSetting env (merged_billing b new True)) (\<lambda>_. returnS ()))
            else returnS ())) w = (v', r)"
        by (cases "flag_at b ACTIVATED"; cases "flag_at new ACTIVATED"; cases "st_props b ''type'' = Some (Text ''stripe'')")
          (simp_all add: bindS_def liftS_def readS_def assertComponentIsActiveFromToken_def assertObjectExists_def Let_def)
      show ?thesis
      proof (cases "flag_at b ACTIVATED")
        case True
        with k s2 w show ?thesis
          by (auto simp: bindS_def liftS_def returnS_def split: if_splits sum.splits intro!: exI[of _ w] exI[of _ new])
      next
        case False
        have "v' = w1 \<or> is_ok c \<and> v' = fst (saveBillingSetting env (merged_billing b new True) w1)"
          using k s1 c False by (auto simp: bindS_def returnS_def split: if_splits sum.splits prod.splits)
        with False w s1 c show ?thesis by (intro disjI2 exI[of _ w] exI[of _ new]) (auto simp: Let_def)
      qed
    qed
  qed
qed

text \<open>Whatever an update of the billing settings asks for, and however it ends, productive billing stays productive, with
  the keys it has.\<close>

theorem productive_billing_is_kept:
  assumes "vault_ok (va_settings v)" and "getBillingSetting (va_settings v) = Some b" and "flag_at b ACTIVATED"
    and "handleUpdateBillingSetting acl validate env impl u body v = (v', r)"
  shows "\<exists>b'. getBillingSetting (va_settings v') = Some b' \<and> flag_at b' ACTIVATED
    \<and> st_props b' ''stripe.secretKey'' = st_props b ''stripe.secretKey'' \<and> st_props b' ''stripe.publicKey'' = st_props b ''stripe.publicKey''"
proof -
  from update_outcomes[OF assms(4,2)] assms(3) consider "va_settings v' = va_settings v"
    | w new where "va_settings w = va_settings v" "st_props b ''type'' = Some (Text ''stripe'')"
        "v' = fst (saveBillingSetting env (merged_billing b new True) w)" by auto
  then show ?thesis
  proof cases
    case 1
    with assms(2,3) show ?thesis by simp
  next
    case (2 w new)
    with saved_billing[of w b "merged_billing b new True" env v' "snd (saveBillingSetting env (merged_billing b new True) w)"] assms(1-3)
    show ?thesis by auto
  qed
qed

text \<open>Billing becomes productive only when the checks of the billing system succeeded on the settings that the update saved.\<close>

theorem billing_activated_when_ready:
  assumes "vault_ok (va_settings v)" and "getBillingSetting (va_settings v) = Some b" and "\<not> flag_at b ACTIVATED"
    and "handleUpdateBillingSetting acl validate env impl u body v = (v', r)"
    and "getBillingSetting (va_settings v') = Some b'" and "flag_at b' ACTIVATED"
  shows "\<exists>w b0 client. getBillingSetting (va_settings w) = Some b0 \<and> \<not> flag_at b0 ACTIVATED \<and> impl w = Some client
    \<and> bc_checkConnection client w = Inr () \<and> bc_checkActivationPrerequisites client w = Inr ()"
proof -
  have "va_settings v' \<noteq> va_settings v" using assms(2,3,5,6) by auto
  with update_outcomes[OF assms(4,2)] assms(3) obtain w new where w: "va_settings w = va_settings v"
    and o: "let w' = fst (saveBillingSetting env (merged_billing b new False) w) in
       v' = w' \<or> is_ok (snd (checkActivationPrerequisites impl w')) \<and> v' = fst (saveBillingSetting env (merged_billing b new True) w')" by auto
  obtain w' q where s: "saveBillingSetting env (merged_billing b new False) w = (w', q)" by fastforce
  from saved_billing[of w b "merged_billing b new False" env w' q] assms(1,2) w s obtain b0 where
    b0: "getBillingSetting (va_settings w') = Some b0" "\<not> flag_at b0 ACTIVATED" by auto
  with assms(5,6) have "v' \<noteq> w'" by auto
  with o s have "is_ok (snd (checkActivationPrerequisites impl w'))" by (auto simp: Let_def)
  then obtain client where "impl w' = Some client" "bc_checkConnection client w' = Inr ()" "bc_checkActivationPrerequisites client w' = Inr ()"
    by (auto simp: checkActivationPrerequisites_def bindE_def split: option.splits sum.splits dest!: is_okD)
  with b0 show ?thesis by blast
qed

text \<open>The request that updates settings writes the same document without these checks: it switches productive billing off.\<close>

theorem settings_switch_billing_off:
  assumes "vault_ok (va_settings v)" and "getBillingSetting (va_settings v) = Some b" and "flag_at b ACTIVATED"
    and "getSetting i (va_settings v) = Some s" and "i \<noteq> []" and "st_identifier s = ''billing''"
    and "body = s\<lparr>st_sensitiveData := Some (Names []), st_props := (st_props s)(''content.billing.isTransactionBillingActivated'' \<mapsto> Flag False)\<rparr>"
    and "validate ''billing'' body = Inr body" and "canUpdateSetting acl u = Inr True"
  shows "\<exists>v' b'. handleUpdateSetting acl validate env u body v = (v', Inr ()) \<and> getBillingSetting (va_settings v') = Some b'
    \<and> \<not> flag_at b' ACTIVATED"
proof -
  note s = getSetting_Some[OF assms(1,4,5)]
  have body: "st_id body = Some i" "st_identifier body = ''billing''" "st_sensitiveData body = Some (Names [])" "truthy_str (st_id body)"
    using s(2) assms(5,6) by (simp_all add: assms(7))
  let ?v = "v\<lparr>va_settings := replace_setting body (va_settings v)\<rparr>"
  have "handleUpdateSetting acl validate env u body v = (?v, Inr ())"
    using body assms(4,5,8,9)
    by (simp add: handleUpdateSetting_def bindS_def liftS_def readS_def returnS_def filterSetting_def setting_identifiers_def CRYPTO_def
        assertIdIsProvided_def allowed_def assertAuthorized_def assertObjectExists_def update_sensitive_def saveSettings_known currency_changed_def)
  moreover obtain t where t: "filter (\<lambda>s. st_identifier s = ''billing'') (va_settings v) = [t]"
    using getBilling_stored[OF assms(2)] by metis
  moreover have "s \<in> set (filter (\<lambda>s. st_identifier s = ''billing'') (va_settings v))" using s(1) assms(6) by simp
  then have "t = s" unfolding t by simp
  then have "filter (\<lambda>s. st_identifier s = ''billing'') (va_settings ?v) = [body]"
    using assms(1) t s(2) body by (simp add: filter_replace vault_ok_def)
  then have "getSettingByIdentifier ''billing'' (va_settings ?v) = Some body" by (rule single_settingI) simp
  then have "\<exists>b'. getBillingSetting (va_settings ?v) = Some b' \<and> \<not> flag_at b' ACTIVATED"
    by (simp add: getBillingSetting_def ACTIVATED_def billing_flags_def flag_at_def Let_def assms(7))
  ultimately show ?thesis by blast
qed

end
