(* ===== verification/Setting_Cases.thy ===== *)
theory Setting_Cases
  imports Setting_Access Billing_Laws
begin

text \<open>
  Cases on a small tenant, with a cipher that seals the data with the algorithm and the key: the
  properties of the settings on it, and what becomes of the secrets when only the algorithm of the key
  changes.
\<close>

section \<open>A tenant\<close>

definition seal :: "string \<Rightarrow> string \<Rightarrow> string" where
  "seal algo key = algo @ ''|'' @ key @ ''|''"

definition tenant_env :: vault_env where
  "tenant_env = \<lparr> le_hash = (\<lambda>s. CHR ''h'' # s), le_host = ''host'', le_others = (\<lambda>_ ls. ls), ve_tenantID = ''tenant'',
     ve_cipher = (\<lambda>algo key iv opts data. Inr (seal algo key @ data, Some iv)),
     ve_decipher = (\<lambda>algo key iv opts tag data.
        if take (length (seal algo key)) data = seal algo key then Inr (drop (length (seal algo key)) data)
        else Inl (BackendError ''bad decrypt'')),
     ve_randomBytes = (\<lambda>n k. replicate k (char_of (n mod 256))),
     ve_newID = (\<lambda>col. show_nat (length col)) \<rparr>"

lemma tenant_env_simps [simp]:
  "le_hash tenant_env = (\<lambda>s. CHR ''h'' # s)" "le_others tenant_env = (\<lambda>_ ls. ls)" "ve_tenantID tenant_env = ''tenant''"
  "ve_cipher tenant_env = (\<lambda>algo key iv opts data. Inr (seal algo key @ data, Some iv))"
  by (simp_all add: tenant_env_def)

lemma sample_deciphers: "deciphers tenant_env"
  by (simp add: deciphers_def tenant_env_def)

lemma sample_encrypts: "can_encrypt tenant_env c"
  by (simp add: can_encrypt_def encrypt_def crypto_or_stored_def handler_simps algorithm_of_def key_of_def randomBytes_def
      encrypt_with_def split: bool.splits)

definition gcm :: key_properties where "gcm = \<lparr> kp_blockCypher = ''aes'', kp_blockSize = 128, kp_operationMode = ''gcm'' \<rparr>"
definition ctr :: key_properties where "ctr = \<lparr> kp_blockCypher = ''aes'', kp_blockSize = 128, kp_operationMode = ''ctr'' \<rparr>"

definition new_key :: crypto_setting where
  "new_key = \<lparr> cy_key = ''0123456789abcdef'', cy_keyProperties = gcm, cy_formerKey = Some ''fedcba9876543210'',
     cy_formerKeyProperties = Some gcm, cy_migrationToBeDone = True \<rparr>"

definition start :: "setting list \<Rightarrow> vault" where
  "start col = \<lparr> va_world = \<lparr> lw_now = 0, lw_locks = [] \<rparr>, va_settings = col, va_draws = 1 \<rparr>"

definition sealed :: "bool \<Rightarrow> string \<Rightarrow> string" where
  "sealed former d = (case snd (encrypt tenant_env d former (Some new_key) (start [])) of Inl _ \<Rightarrow> [] | Inr e \<Rightarrow> e)"

definition plain_setting :: setting where
  "plain_setting = \<lparr> st_id = Some ''1'', st_identifier = ''crypto'', st_sensitiveData = Some (Names []), st_backupSensitiveData = None,
     st_props = Map.empty, st_crypto = Some new_key \<rparr>"

definition secret_setting :: "bool \<Rightarrow> string \<Rightarrow> string \<Rightarrow> string \<Rightarrow> setting" where
  "secret_setting former i idf d = \<lparr> st_id = Some i, st_identifier = idf, st_sensitiveData = Some (Names [''content.secret'']),
     st_backupSensitiveData = None, st_props = [''content.secret'' \<mapsto> Text (sealed former d)], st_crypto = None \<rparr>"

lemma encrypts_sealed: "\<exists>v'. encrypt tenant_env d former (Some new_key) (start []) = (v', Inr (sealed former d))"
  by (cases former)
    (simp_all add: sealed_def encrypt_def crypto_or_stored_def handler_simps algorithm_of_def key_of_def randomBytes_def
      encrypt_with_def new_key_def split: bool.splits)

lemma sealed_opens: "opens tenant_env former new_key (sealed former d) = Inr d" "sealed former d \<noteq> []"
  using encrypts_sealed[of d former] encrypt_opens(2,3)[OF sample_deciphers] by blast+

lemma secret_simps [simp]:
  "st_id (secret_setting b i idf d) = Some i" "st_identifier (secret_setting b i idf d) = idf"
  "st_sensitiveData (secret_setting b i idf d) = Some (Names [''content.secret''])" "st_backupSensitiveData (secret_setting b i idf d) = None"
  "sensitive_paths (secret_setting b i idf d) = [''content.secret'']"
  "text_at (secret_setting b i idf d) ''content.secret'' = Some (sealed b d)"
  by (simp_all add: secret_setting_def sensitive_paths_def text_at_def sealed_opens)

lemma plain_simps [simp]:
  "st_id plain_setting = Some ''1''" "st_identifier plain_setting = CRYPTO" "sensitive_paths plain_setting = []"
  "st_crypto plain_setting = Some new_key" "st_sensitiveData plain_setting = Some (Names [])"
  by (simp_all add: plain_setting_def CRYPTO_def sensitive_paths_def)

lemma start_simps [simp]: "va_settings (start col) = col" "va_world (start col) = \<lparr> lw_now = 0, lw_locks = [] \<rparr>"
  by (simp_all add: start_def)

definition old_secrets :: "setting list" where
  "old_secrets = [plain_setting, secret_setting True ''2'' ''ocpi'' ''token'', secret_setting True ''3'' ''refund'' ''secret'']"

lemma old_secrets_ok: "to_migrate tenant_env new_key old_secrets"
  by (simp add: to_migrate_def vault_ok_def old_secrets_def opened_def secret_def sealed_opens CRYPTO_def MAX_SAFE_INTEGER_def)

lemma old_secrets_key: "stored_crypto_settings old_secrets = Inr (Some (Some ''1'', new_key))"
  by (simp add: stored_crypto_first key_settings_def old_secrets_def new_key_def CRYPTO_def)

text \<open>The process died after the first setting, and left the lock of the migration behind.\<close>

definition dead_lock :: lock where
  "dead_lock = \<lparr> lk_id = ''htenant~database~migrate-settings-sensitive-data~E'', lk_tenantID = Some ''tenant'',
     lk_entity = DATABASE, lk_key = ''migrate-settings-sensitive-data'', lk_type = EXCLUSIVE, lk_timestamp = 0,
     lk_expirationDate = Some 600000, lk_hostname = ''dead'' \<rparr>"

definition crashed :: vault where
  "crashed = fst (foldS (migrateSetting tenant_env new_key) (take 1 (getSettingsWithSensitiveData old_secrets)) () (start old_secrets))
     \<lparr>va_world := \<lparr> lw_now = 700000, lw_locks = [dead_lock] \<rparr>\<rparr>"

lemma crashed_free: "database_free tenant_env (va_world crashed)"
proof -
  have "to_lower ''migrate-settings-sensitive-data'' = ''migrate-settings-sensitive-data''" by code_simp
  then obtain l where l: "database_lock tenant_env (va_world crashed) = Inr l" "lk_id l = lk_id dead_lock"
    by (simp add: database_lock_def createExclusiveLock_def createLock_def dead_lock_def)
  have "snd (acquire (le_others tenant_env) l 0 True (va_world crashed))"
    by (subst acquire_taken) (simp_all add: crashed_def l lock_ids_def one_per_id_def getLock_def expired_def dead_lock_def)
  with l show ?thesis by (simp add: database_free_def)
qed

theorem migration_resumes_witness:
  "\<exists>v3. handleCryptoSettingsChange tenant_env crashed = (v3, Inr ())
    \<and> list_all2 (\<lambda>s s'. sensitive_paths s = [] \<or> moved tenant_env new_key s s' \<and> st_backupSensitiveData s' = None) old_secrets (va_settings v3)
    \<and> stored_crypto_settings (va_settings v3) = Inr (Some (Some ''1'', new_key\<lparr>cy_migrationToBeDone := False\<rparr>))"
proof -
  let ?m = "foldS (migrateSetting tenant_env new_key) (take 1 (getSettingsWithSensitiveData old_secrets)) () (start old_secrets)"
  have "va_settings crashed = va_settings (fst ?m)" by (simp add: crashed_def)
  with migration_resumes[OF sample_encrypts sample_deciphers, where v = "start old_secrets" and n = 1 and ?v1.0 = "fst ?m" and r = "snd ?m" and ?v2.0 = crashed]
    old_secrets_ok old_secrets_key crashed_free
  show ?thesis by simp
qed

theorem cypher_roundtrip_witness:
  "\<exists>v e. encrypt tenant_env ''secret'' True (Some new_key) (start []) = (v, Inr e)
    \<and> decrypt tenant_env e True (Some new_key) v = (v, Inr ''secret'')"
  using encrypts_sealed[of "''secret''" True] cypher_roundtrip[OF sample_deciphers] by blast

lemma gcm_algorithm: "buildCryptoAlgorithm gcm = ''aes-128-gcm''" "isAuthenticatedEncryptionMode ''aes-128-gcm''"
  by code_simp+

lemma sealed_text:
  "sealed False d = (let iv = to_hex (ve_randomBytes tenant_env 1 16)
     in iv @ '':'' @ to_hex (seal ''aes-128-gcm'' ''0123456789abcdef'' @ d) @ '':'' @ iv)"
proof -
  have "getIVLength ''aes-128-gcm'' = 16" by code_simp
  then show ?thesis
    by (simp add: sealed_def encrypt_def crypto_or_stored_def handler_simps algorithm_of_def key_of_def randomBytes_def
      encrypt_with_def new_key_def gcm_algorithm start_def Let_def)
qed

lemma sample_apart: "keys_apart tenant_env new_key"
  by (auto simp: keys_apart_def opens_def algorithm_of_def key_of_def new_key_def gcm_algorithm decrypt_with_def Let_def split: list.splits)
    (auto simp: tenant_env_def seal_def split: if_splits)

text \<open>The process dies in the second pass, after the backup of the first setting is removed; two attempts follow, then a third.\<close>

definition first_pass :: vault where
  "first_pass = fst (migrateSettings tenant_env new_key (start old_secrets))"

definition half_cleaned :: vault where
  "half_cleaned = fst (foldS (cleanupSetting tenant_env) (take 1 (getSettingsWithSensitiveData (va_settings first_pass))) () first_pass)"

definition later :: lock_world where
  "later = \<lparr> lw_now = 700000, lw_locks = [] \<rparr>"

theorem migration_blocked_for_ever_witness:
  "\<not> is_ok (snd (handleCryptoSettingsChange tenant_env ((attempts tenant_env [later, later] half_cleaned)\<lparr>va_world := later\<rparr>)))
    \<and> (\<exists>s. blocked tenant_env new_key s (va_settings (attempts tenant_env [later, later] half_cleaned)))"
proof -
  let ?v = "start old_secrets" and ?col = "va_settings first_pass"
  obtain r where first: "migrateSettings tenant_env new_key ?v = (first_pass, r)" by (simp add: first_pass_def prod_eq_iff)
  obtain r' where crash: "foldS (cleanupSetting tenant_env) (take 1 (getSettingsWithSensitiveData ?col)) () first_pass = (half_cleaned, r')"
    by (simp add: half_cleaned_def prod_eq_iff)
  have u: "list_all2 (finished tenant_env new_key) old_secrets ?col"
    using migration_finishes[OF sample_encrypts sample_deciphers, of new_key ?v] old_secrets_ok first by simp
  have "length ?col = 3" using list_all2_lengthD[OF u] by (simp add: old_secrets_def)
  then have n: "int (length ?col) \<le> MAX_SAFE_INTEGER" by (simp add: MAX_SAFE_INTEGER_def)
  have f: "finished tenant_env new_key (secret_setting True ''2'' ''ocpi'' ''token'') (?col ! 1)"
    using list_all2_nthD[OF u, of 1] by (simp add: old_secrets_def)
  have "?col ! 1 \<in> set (getSettingsWithSensitiveData ?col)"
    using sensitive_settings(1)[OF n] finished_sensitive[OF f] \<open>length ?col = 3\<close> by simp
  then obtain s ss where g: "getSettingsWithSensitiveData ?col = s # ss" by (cases "getSettingsWithSensitiveData ?col") auto
  then have "s \<in> set ?col" "sensitive_paths s \<noteq> []" using sensitive_settings(1)[OF n] by auto
  then obtain s0 where s0: "s0 \<in> set old_secrets" "finished tenant_env new_key s0 s" "sensitive_paths s0 \<noteq> []"
    using list_all2_in_set2[OF u] finished_sensitive by metis
  then have p: "sensitive_paths s0 = [''content.secret'']" "text_at s0 ''content.secret'' \<noteq> None" by (auto simp: old_secrets_def)
  then have "text_at s ''content.secret'' \<noteq> None" "''content.secret'' \<in> set (sensitive_paths s)"
    using s0(2) finished_text finished_sensitive[OF s0(2)] by auto
  with migration_blocked_for_ever[OF sample_encrypts sample_deciphers _ _ _ sample_apart first crash,
      where i = "Some ''1''" and s = s and p = "''content.secret''" and ws = "[later, later]" and w = later]
    old_secrets_ok old_secrets_key g
  show ?thesis by (auto simp: new_key_def)
qed

section \<open>Requests\<close>

definition user_with :: "string list \<Rightarrow> user_token" where
  "user_with roles = \<lparr> ut_id = ''u'', ut_role = BASIC, ut_rolesACL = roles, ut_tagIDs = [], ut_sitesAdmin = [], ut_sitesOwner = [],
     ut_sites = [], ut_activeComponents = [BILLING] \<rparr>"

lemma admin_updates: "canUpdateSetting ordered_acl (user_with [''admin'']) = Inr True"
  by (rule ordered.admin_updates_settings) (simp add: user_with_def)

lemma old_secrets_found:
  "vault_ok old_secrets"
  "getSetting ''2'' old_secrets = Some (secret_setting True ''2'' ''ocpi'' ''token'')"
proof -
  show ok: "vault_ok old_secrets" using old_secrets_ok by (simp add: to_migrate_def)
  show "getSetting ''2'' old_secrets = Some (secret_setting True ''2'' ''ocpi'' ''token'')"
    by (subst getSetting_find[OF ok]) (simp_all add: old_secrets_def)
qed

theorem settings_form_roundtrip_witness:
  "\<exists>g. shown tenant_env (secret_setting True ''2'' ''ocpi'' ''token'') = Inr g
    \<and> handleUpdateSetting ordered_acl (\<lambda>_ s. Inr s) tenant_env (user_with [''admin'']) g (start old_secrets) = (start old_secrets, Inr ())"
proof -
  obtain g where g: "shown tenant_env (secret_setting True ''2'' ''ocpi'' ''token'') = Inr g"
    by (simp add: shown_def hashSensitiveDataInJSON_def hash_key_def hash_property_def CRYPTO_def)
  with settings_form_roundtrip[of "start old_secrets" "''2''" "secret_setting True ''2'' ''ocpi'' ''token''" "[''content.secret'']"
      tenant_env g "\<lambda>_ s. Inr s" ordered_acl "user_with [''admin'']"]
  show ?thesis using old_secrets_found admin_updates by (simp add: setting_identifiers_def CRYPTO_def)
qed

definition key_in_use :: "key_properties \<Rightarrow> crypto_setting" where
  "key_in_use k = \<lparr> cy_key = ''0123456789abcdef'', cy_keyProperties = k, cy_formerKey = None, cy_formerKeyProperties = None,
     cy_migrationToBeDone = False \<rparr>"

definition key_setting :: "key_properties \<Rightarrow> setting" where
  "key_setting k = plain_setting\<lparr>st_crypto := Some (key_in_use k)\<rparr>"

definition kept_secrets :: "setting list" where
  "kept_secrets = [key_setting gcm, secret_setting False ''2'' ''ocpi'' ''token'']"

lemma key_setting_simps [simp]:
  "st_id (key_setting k) = Some ''1''" "st_identifier (key_setting k) = CRYPTO" "st_sensitiveData (key_setting k) = Some (Names [])"
  "st_crypto (key_setting k) = Some (key_in_use k)"
  by (simp_all add: key_setting_def plain_setting_def CRYPTO_def)

lemma kept_secrets_found: "vault_ok kept_secrets" "getSetting ''1'' kept_secrets = Some (key_setting gcm)"
proof -
  show ok: "vault_ok kept_secrets" by (simp add: vault_ok_def kept_secrets_def)
  show "getSetting ''1'' kept_secrets = Some (key_setting gcm)"
    by (subst getSetting_find[OF ok]) (simp_all add: kept_secrets_def)
qed

lemma algorithms_supported: "buildCryptoAlgorithm gcm = ''aes-128-gcm''" "buildCryptoAlgorithm ctr = ''aes-128-ctr''"
  "''aes-128-gcm'' \<in> set CRYPTO_SUPPORTED_ALGORITHM" "''aes-128-ctr'' \<in> set CRYPTO_SUPPORTED_ALGORITHM"
  "kp_blockSize gcm = 128" "kp_blockSize ctr = 128"
  by code_simp+

lemma algorithm_changed:
  assumes "k = gcm \<or> k = ctr"
  shows "\<exists>v'. handleUpdateSetting ordered_acl (\<lambda>_ s. Inr s) tenant_env (user_with [''admin'']) (key_setting k) (start kept_secrets) = (v', Inr ())"
  using assms
  by (intro resave_accepted[where c = "key_in_use k" and k = "key_in_use gcm" and s = "key_setting gcm" and i = "''1''"])
    (auto simp: sample_encrypts sample_deciphers kept_secrets_found algorithms_supported admin_updates key_in_use_def)

theorem resaved_key_is_disclosed_witness:
  "\<exists>v' g k'. handleUpdateSetting ordered_acl (\<lambda>_ s. Inr s) tenant_env (user_with [''admin'']) (key_setting gcm) (start kept_secrets) = (v', Inr ())
    \<and> handleGetSetting ordered_acl tenant_env (user_with [''basic'']) ''1'' v' = (v', Inr g)
    \<and> st_crypto g = Some k' \<and> cy_formerKey k' = Some ''0123456789abcdef''"
proof -
  obtain v' where u: "handleUpdateSetting ordered_acl (\<lambda>_ s. Inr s) tenant_env (user_with [''admin'']) (key_setting gcm) (start kept_secrets) = (v', Inr ())"
    using algorithm_changed by blast
  have "filterSetting (\<lambda>_ s. Inr s) (key_setting gcm) = Inr (key_setting gcm)" by (simp add: filterSetting_def setting_identifiers_def)
  from resaved_key_is_disclosed[OF u this, of "''1''" "key_in_use gcm" "key_setting gcm" "key_in_use gcm" in_order "user_with [''basic'']"]
  have "\<exists>g k'. handleGetSetting ordered_acl tenant_env (user_with [''basic'']) ''1'' v' = (v', Inr g) \<and> st_crypto g = Some k'
      \<and> cy_formerKey k' = Some ''0123456789abcdef''"
    using kept_secrets_found ordered.role_acl_axioms
    by (simp add: key_in_use_def user_with_def basic_roles_def)
  with u show ?thesis by blast
qed

text \<open>When an update of the encryption settings changes the algorithm and keeps the key, nothing is migrated: a secret that could be
  read before stays as it is stored, and cannot be read any more.\<close>

theorem new_algorithm_strands_secrets:
  "\<exists>v'. handleUpdateSetting ordered_acl (\<lambda>_ s. Inr s) tenant_env (user_with [''admin'']) (key_setting ctr) (start kept_secrets) = (v', Inr ())
    \<and> secret_setting False ''2'' ''ocpi'' ''token'' \<in> set (va_settings v')
    \<and> snd (decrypt tenant_env (sealed False ''token'') False None (start kept_secrets)) = Inr ''token''
    \<and> \<not> is_ok (snd (decrypt tenant_env (sealed False ''token'') False None v'))"
proof -
  let ?t = "sealed False ''token''"
  obtain v' where u: "handleUpdateSetting ordered_acl (\<lambda>_ s. Inr s) tenant_env (user_with [''admin'']) (key_setting ctr) (start kept_secrets) = (v', Inr ())"
    using algorithm_changed by blast
  have "filterSetting (\<lambda>_ s. Inr s) (key_setting ctr) = Inr (key_setting ctr)" by (simp add: filterSetting_def setting_identifiers_def)
  from resaved_key[OF u this, of "''1''" "key_in_use ctr" "key_setting gcm" "key_in_use gcm"] kept_secrets_found
  obtain c where v': "va_settings v' = [(key_setting ctr)\<lparr>st_crypto := Some c\<rparr>, secret_setting False ''2'' ''ocpi'' ''token'']"
    and c: "cy_keyProperties c = ctr" "cy_key c = ''0123456789abcdef''" "truthy_str (cy_formerKey c)"
    by (auto simp: key_in_use_def kept_secrets_def)
  have "stored_crypto_settings (va_settings v') = Inr (Some (Some ''1'', c))"
    using c by (simp add: stored_crypto_first key_settings_def v' CRYPTO_def key_setting_def plain_setting_def)
  then have "decrypt tenant_env ?t False None v' = (v', opens tenant_env False c ?t)"
    by (simp add: decrypt_def crypto_or_stored_def getCryptoSettings_def handler_simps opens_def bindE_def algorithm_of_def key_of_def)
  moreover have "\<not> is_ok (opens tenant_env False c ?t)"
    using c
    by (simp add: opens_def algorithm_of_def key_of_def algorithms_supported decrypt_with_def sealed_text Let_def)
      (simp add: tenant_env_def seal_def)
  moreover have "stored_crypto_settings kept_secrets = Inr (Some (Some ''1'', key_in_use gcm))"
    by (simp add: stored_crypto_first key_settings_def kept_secrets_def CRYPTO_def key_in_use_def)
  then have "decrypt tenant_env ?t False None (start kept_secrets) = (start kept_secrets, opens tenant_env False (key_in_use gcm) ?t)"
    by (simp add: decrypt_def crypto_or_stored_def getCryptoSettings_def handler_simps opens_def bindE_def algorithm_of_def key_of_def)
  moreover have "opens tenant_env False (key_in_use gcm) ?t = Inr ''token''"
    using sealed_opens(1)[of False "''token''"] by (simp add: opens_def algorithm_of_def key_of_def key_in_use_def new_key_def)
  ultimately show ?thesis using u v' by simp
qed

section \<open>Billing\<close>

definition billing_doc :: "bool \<Rightarrow> setting" where
  "billing_doc activated = \<lparr> st_id = Some ''9'', st_identifier = ''billing'', st_sensitiveData = Some (Names [''content.stripe.secretKey'']),
     st_backupSensitiveData = None,
     st_props = [''content.type'' \<mapsto> Text ''stripe'', ''content.billing.isTransactionBillingActivated'' \<mapsto> Flag activated,
                 ''content.stripe.secretKey'' \<mapsto> Text ''sk'', ''content.stripe.publicKey'' \<mapsto> Text ''pk''], st_crypto = None \<rparr>"

definition billing_form :: "bool \<Rightarrow> setting" where
  "billing_form activated = \<lparr> st_id = Some ''9'', st_identifier = ''billing'', st_sensitiveData = None,
     st_backupSensitiveData = None,
     st_props = [''type'' \<mapsto> Text ''stripe'', ''billing.isTransactionBillingActivated'' \<mapsto> Flag activated,
                 ''stripe.secretKey'' \<mapsto> Text ''hsk'', ''stripe.publicKey'' \<mapsto> Text ''other''], st_crypto = None \<rparr>"

definition ready :: billing_client where
  "ready = \<lparr> bc_checkConnection = (\<lambda>_. Inr ()), bc_checkActivationPrerequisites = (\<lambda>_. Inr ()) \<rparr>"

lemma billing_doc_stored:
  "vault_ok (va_settings (start [billing_doc a]))"
  "getSettingByIdentifier ''billing'' (va_settings (start [billing_doc a])) = Some (billing_doc a)"
  "getSetting ''9'' (va_settings (start [billing_doc a])) = Some (billing_doc a)"
proof -
  show ok: "vault_ok (va_settings (start [billing_doc a]))" by (simp add: vault_ok_def billing_doc_def)
  show "getSettingByIdentifier ''billing'' (va_settings (start [billing_doc a])) = Some (billing_doc a)"
    by (rule single_settingI) (simp_all add: billing_doc_def)
  show "getSetting ''9'' (va_settings (start [billing_doc a])) = Some (billing_doc a)"
    by (subst getSetting_find[OF ok]) (simp_all add: billing_doc_def)
qed

lemma billing_doc_read:
  "\<exists>b. getBillingSetting (va_settings (start [billing_doc a])) = Some b \<and> flag_at b ACTIVATED = a
    \<and> st_props b ''type'' = Some (Text ''stripe'') \<and> st_props b ''stripe.secretKey'' = Some (Text ''sk'') \<and> st_props b ''stripe.publicKey'' = Some (Text ''pk'')
    \<and> st_sensitiveData b = Some (Names [''stripe.secretKey'']) \<and> st_id b = Some ''9''"
  using billing_doc_stored(2)[of a]
  by (simp add: getBillingSetting_def Let_def billing_doc_def ACTIVATED_def billing_flags_def billing_values_def stripe_paths_def flag_at_def)

theorem productive_billing_is_kept_witness:
  "\<exists>b'. getBillingSetting (va_settings (fst (handleUpdateBillingSetting ordered_acl (\<lambda>_ s. Inr s) tenant_env (\<lambda>_. Some ready)
        (user_with [''admin'']) (billing_form True) (start [billing_doc True])))) = Some b' \<and> flag_at b' ACTIVATED
    \<and> st_props b' ''stripe.secretKey'' = Some (Text ''sk'') \<and> st_props b' ''stripe.publicKey'' = Some (Text ''pk'')"
proof -
  obtain b where b: "getBillingSetting (va_settings (start [billing_doc True])) = Some b" "flag_at b ACTIVATED"
    "st_props b ''stripe.secretKey'' = Some (Text ''sk'')" "st_props b ''stripe.publicKey'' = Some (Text ''pk'')"
    using billing_doc_read[of True] by auto
  show ?thesis
    using productive_billing_is_kept[OF billing_doc_stored(1) b(1,2) surjective_pairing, of ordered_acl "\<lambda>_ s. Inr s" tenant_env "\<lambda>_. Some ready"
      "user_with [''admin'']" "billing_form True"] b(3,4) by simp
qed

theorem settings_switch_billing_off_witness:
  "\<exists>v' b'. handleUpdateSetting ordered_acl (\<lambda>_ s. Inr s) tenant_env (user_with [''admin''])
      ((billing_doc True)\<lparr>st_sensitiveData := Some (Names []),
         st_props := (st_props (billing_doc True))(''content.billing.isTransactionBillingActivated'' \<mapsto> Flag False)\<rparr>)
      (start [billing_doc True]) = (v', Inr ())
    \<and> getBillingSetting (va_settings v') = Some b' \<and> \<not> flag_at b' ACTIVATED"
proof -
  obtain b where "getBillingSetting (va_settings (start [billing_doc True])) = Some b" "flag_at b ACTIVATED"
    using billing_doc_read[of True] by auto
  from settings_switch_billing_off[OF billing_doc_stored(1) this billing_doc_stored(3)] admin_updates
  show ?thesis by (simp add: billing_doc_def)
qed

lemma saveBilling_succeeds: "truthy_str (st_id b) \<Longrightarrow> \<exists>w i. saveBillingSetting env b v = (w, Inr i)"
  unfolding saveBillingSetting_def Let_def by (subst saveSettings_known) simp_all

theorem billing_activated_when_ready_witness:
  "\<exists>w b0. getBillingSetting (va_settings w) = Some b0 \<and> \<not> flag_at b0 ACTIVATED \<and> bc_checkConnection ready w = Inr ()"
proof -
  let ?v = "start [billing_doc False]" and ?new = "set_at (billing_form True) ''stripe.secretKey'' ''sk''"
  obtain b where b: "getBillingSetting (va_settings ?v) = Some b" "\<not> flag_at b ACTIVATED"
    "st_props b ''stripe.secretKey'' = Some (Text ''sk'')" "st_sensitiveData b = Some (Names [''stripe.secretKey''])" "st_id b = Some ''9''"
    using billing_doc_read[of False] by auto
  let ?h = "handleUpdateBillingSetting ordered_acl (\<lambda>_ s. Inr s) tenant_env (\<lambda>_. Some ready) (user_with [''admin'']) (billing_form True) ?v"
  have p: "processSensitiveData tenant_env b (billing_form True) ?v = (?v, Inr ?new)"
    by (simp add: processSensitiveData_def b process_property_def text_at_def billing_form_def bindS_def returnS_def)
  have f: "flag_at ?new ACTIVATED" by (simp add: flag_at_def set_at_def billing_form_def ACTIVATED_def)
  obtain w1 i1 where s1: "saveBillingSetting tenant_env (merged_billing b ?new False) ?v = (w1, Inr i1)"
    using saveBilling_succeeds[of "merged_billing b ?new False" tenant_env ?v] b(5) by auto
  obtain w2 i2 where s2: "saveBillingSetting tenant_env (merged_billing b ?new True) w1 = (w2, Inr i2)"
    using saveBilling_succeeds[of "merged_billing b ?new True" tenant_env w1] b(5) by auto
  have c: "checkActivationPrerequisites (\<lambda>_. Some ready) w1 = (w1, Inr ())" by (simp add: checkActivationPrerequisites_def ready_def)
  have "?h = (w2, Inr ())"
    using b(1,2) p f s1 s2 c admin_updates
    by (simp add: handleUpdateBillingSetting_def bindS_def liftS_def readS_def returnS_def assertComponentIsActiveFromToken_def
        isComponentActiveFromToken_def user_with_def allowed_def assertAuthorized_def assertObjectExists_def Let_def
        canUpdateBillingSetting_def canUpdateSetting_def)
  moreover from saved_billing[OF billing_doc_stored(1) b(1), of "merged_billing b ?new False" tenant_env w1 "Inr i1"] s1
  obtain b1 where b1: "getBillingSetting (va_settings w1) = Some b1" "vault_ok (va_settings w1)" "st_id b1 = st_id b"
    "st_identifier b1 = st_identifier b" "st_props b1 ''type'' = st_props b ''type''"
    using getBilling_stored[OF b(1)] getBilling_stored by (metis merged_billing_simps(1-3))
  with saved_billing[OF b1(2,1), of "merged_billing b ?new True" tenant_env w2 "Inr i2"] s2
  obtain b2 where "getBillingSetting (va_settings w2) = Some b2" "flag_at b2 ACTIVATED" by auto
  ultimately have "getBillingSetting (va_settings (fst ?h)) = Some b2" "flag_at b2 ACTIVATED" by simp_all
  from billing_activated_when_ready[OF billing_doc_stored(1) b(1,2) surjective_pairing this] show ?thesis by auto
qed

lemma opens_in_use: "decrypt tenant_env (sealed False d) False None (start kept_secrets) = (start kept_secrets, Inr d)"
proof -
  have "stored_crypto_settings kept_secrets = Inr (Some (Some ''1'', key_in_use gcm))"
    by (simp add: stored_crypto_first key_settings_def kept_secrets_def CRYPTO_def key_in_use_def)
  then have "decrypt tenant_env (sealed False d) False None (start kept_secrets) = (start kept_secrets, opens tenant_env False (key_in_use gcm) (sealed False d))"
    by (simp add: decrypt_def crypto_or_stored_def getCryptoSettings_def handler_simps opens_def bindE_def algorithm_of_def key_of_def)
  moreover have "opens tenant_env False (key_in_use gcm) (sealed False d) = Inr d"
    using sealed_opens(1)[of False d] by (simp add: opens_def algorithm_of_def key_of_def key_in_use_def new_key_def)
  ultimately show ?thesis by simp
qed

end
