(* ===== verification/Js_Date.thy ===== *)
theory Js_Date
  imports Js_Base
begin

text \<open>
  Dates in the time zone of the server, for \<^verbatim>\<open>new Date(year, month, day)\<close> and the calendar arithmetic of
  moment. Days are counted from 1 January 1970; the calendar is the proleptic Gregorian one. The offset of the
  zone is a parameter: the first instant of a day, and the day of an instant.
\<close>

definition days_of_civil :: "int \<Rightarrow> int \<Rightarrow> int \<Rightarrow> int" where
  "days_of_civil y m d =
     (let y' = (if m \<le> 2 then y - 1 else y);
          era = y' div 400; yoe = y' mod 400;
          doy = (153 * (if m > 2 then m - 3 else m + 9) + 2) div 5 + d - 1;
          doe = yoe * 365 + yoe div 4 - yoe div 100 + doy
      in era * 146097 + doe - 719468)"

definition civil_of_days :: "int \<Rightarrow> int \<times> int \<times> int" where
  "civil_of_days z =
     (let z' = z + 719468; era = z' div 146097; doe = z' mod 146097;
          yoe = (doe - doe div 1460 + doe div 36524 - doe div 146096) div 365;
          doy = doe - (365 * yoe + yoe div 4 - yoe div 100);
          mp = (5 * doy + 2) div 153;
          m = (if mp < 10 then mp + 3 else mp - 9)
      in (yoe + era * 400 + (if m \<le> 2 then 1 else 0), m, doy - (153 * mp + 2) div 5 + 1))"

record local_clock =
  lc_midnight :: "int \<Rightarrow> int"
  lc_day :: "int \<Rightarrow> int"

text \<open>A day starts at its first instant, and an instant is in the day that started last.\<close>

definition proper_clock :: "local_clock \<Rightarrow> bool" where
  "proper_clock c = (\<forall>d t. lc_day c t = d \<longleftrightarrow> lc_midnight c d \<le> t \<and> t < lc_midnight c (d + 1))"

definition utc_clock :: local_clock where
  "utc_clock = \<lparr> lc_midnight = (\<lambda>d. d * 86400000), lc_day = (\<lambda>t. t div 86400000) \<rparr>"

lemma utc_clock_proper: "proper_clock utc_clock"
proof -
  have "(t div 86400000 = d) = (d * 86400000 \<le> t \<and> t < (d + 1) * 86400000)" for t d :: int
    by (auto simp: algebra_simps)
  then show ?thesis by (simp add: proper_clock_def utc_clock_def)
qed

text \<open>
  \<^verbatim>\<open>new Date(year, monthIndex, day)\<close>: months and days may be out of range and carry over, and a year
  from 0 to 99 is one of the 20th century.
\<close>

definition js_date :: "local_clock \<Rightarrow> int \<Rightarrow> int \<Rightarrow> int \<Rightarrow> int" where
  "js_date c year monthIndex day =
     (let y = (if 0 \<le> year \<and> year \<le> 99 then 1900 + year else year)
      in lc_midnight c (days_of_civil (y + monthIndex div 12) (monthIndex mod 12 + 1) 1 + day - 1))"

text \<open>The first instants of this month, of the previous one, and of a day.\<close>

definition start_of_month :: "local_clock \<Rightarrow> int \<Rightarrow> int" where
  "start_of_month c t = (case civil_of_days (lc_day c t) of (y, m, _) \<Rightarrow> lc_midnight c (days_of_civil y m 1))"

definition start_of_previous_month :: "local_clock \<Rightarrow> int \<Rightarrow> int" where
  "start_of_previous_month c t =
     (case civil_of_days (lc_day c t) of (y, m, _) \<Rightarrow>
        if m = 1 then lc_midnight c (days_of_civil (y - 1) 12 1) else lc_midnight c (days_of_civil y (m - 1) 1))"

definition start_of_day :: "local_clock \<Rightarrow> int \<Rightarrow> int" where
  "start_of_day c t = lc_midnight c (lc_day c t)"

definition end_of_day :: "local_clock \<Rightarrow> int \<Rightarrow> int" where
  "end_of_day c t = lc_midnight c (lc_day c t + 1) - 1"

definition same_day :: "local_clock \<Rightarrow> int \<Rightarrow> int \<Rightarrow> bool" where
  "same_day c t u = (lc_day c t = lc_day c u)"

definition same_month :: "local_clock \<Rightarrow> int \<Rightarrow> int \<Rightarrow> bool" where
  "same_month c t u =
     (case (civil_of_days (lc_day c t), civil_of_days (lc_day c u)) of
        ((y, m, _), (y', m', _)) \<Rightarrow> y = y' \<and> m = m')"

end
