(* ===== verification/Billing_Store.thy ===== *)
theory Billing_Store
  imports Billing_Settings Ocpp_Service Tag_Access Js_Date
begin

text \<open>
  The invoices of a tenant (src/types/Billing.ts) and their collection
  (src/storage/mongodb/BillingStorage.ts), with what billing keeps in the collections of users and of
  transactions (\<^verbatim>\<open>saveUserBillingData\<close> of UserStorage.ts, \<^verbatim>\<open>saveTransactionBillingData\<close> of
  TransactionStorage.ts). The state \<open>billing_world\<close> is what the data base holds for billing, the asynchronous
  tasks and the notifications that were handed over, and the state of the billing platform, whose type is left open.
\<close>

section \<open>Invoices\<close>

datatype BillingErrorType = APPLICATION_ERROR | PLATFORM_SERVER_ERROR | PLATFORM_APPLICATION_ERROR | PLATFORM_PAYMENT_ERROR

datatype BillingErrorCode = UNKNOWN_ERROR | UNEXPECTED_ERROR | NO_PAYMENT_METHOD | CARD_ERROR

record billing_error =
  ber_when :: int
  ber_errorType :: BillingErrorType
  ber_errorCode :: BillingErrorCode
  ber_rootCause :: exn

record billing_session_data =
  bsd_transactionID :: int
  bsd_pricingData :: "priced_consumption_data list"

record billing_additional_data =
  bad_session :: "billing_session_data option"
  bad_lastError :: "billing_error option"

record billing_invoice =
  inv_id :: string
  inv_invoiceID :: string
  inv_liveMode :: bool
  inv_userID :: "string option"
  inv_number :: "string option"
  inv_status :: BillingInvoiceStatus
  inv_amount :: rat
  inv_amountPaid :: rat
  inv_currency :: "string option"
  inv_customerID :: string
  inv_createdOn :: int
  inv_downloadable :: bool
  inv_downloadUrl :: "string option"
  inv_payInvoiceUrl :: "string option"
  inv_sessions :: "billing_session_data list option"
  inv_lastError :: "billing_error option"

section \<open>The state\<close>

text \<open>\<^verbatim>\<open>BILL_TRANSACTION\<close> is the one kind of asynchronous task that billing creates.\<close>

record bill_task =
  btk_transactionID :: int
  btk_userID :: "string option"

record billing_notice =
  bno_invoiceID :: string
  bno_userID :: string
  bno_amount :: rat
  bno_status :: BillingInvoiceStatus
  bno_payInvoiceUrl :: "string option"

text \<open>
  \<open>bw_key\<close> is \<^verbatim>\<open>this.stripe\<close> of the object that serves the request: the secret key with which it was
  connected. \<open>bw_productionMode\<close> is its \<^verbatim>\<open>productionMode\<close>.
\<close>

record 's billing_world =
  bw_vault :: vault
  bw_invoices :: "billing_invoice list"
  bw_users :: "account list"
  bw_transactions :: "transaction list"
  bw_stations :: "charging_station list"
  bw_tasks :: "bill_task list"
  bw_notices :: "billing_notice list"
  bw_platform :: 's
  bw_key :: "string option"
  bw_productionMode :: bool

definition now_of :: "'s billing_world \<Rightarrow> int" where
  "now_of w = lw_now (va_world (bw_vault w))"

definition in_vault :: "(vault, 'a) handler \<Rightarrow> ('s billing_world, 'a) handler" where
  "in_vault m = (\<lambda>w. case m (bw_vault w) of (v, r) \<Rightarrow> (w\<lparr>bw_vault := v\<rparr>, r))"

text \<open>A lock that is taken if it can be; \<open>None\<close> when it is not free.\<close>

definition take_lock :: "(lock_world \<Rightarrow> (lock_world \<times> lock option) res) \<Rightarrow> ('s billing_world, lock option) handler" where
  "take_lock f = in_vault (\<lambda>v. case f (va_world v) of
       Inl e \<Rightarrow> (v, Inl e)
     | Inr (w, l) \<Rightarrow> (v\<lparr>va_world := w\<rparr>, Inr l))"

definition release_lock :: "lock \<Rightarrow> 's billing_world \<Rightarrow> 's billing_world" where
  "release_lock l w = w\<lparr>bw_vault := release_database l (bw_vault w)\<rparr>"

section \<open>Queries\<close>

text \<open>\<open>iq_search\<close> is the test of the data base's regular expression on a number.\<close>

record invoice_query =
  iq_invoiceIDs :: "string list"
  iq_billingInvoiceID :: "string option"
  iq_search :: "(string \<Rightarrow> bool) option"
  iq_userIDs :: "string list"
  iq_invoiceStatus :: "BillingInvoiceStatus list"
  iq_startDateTime :: "int option"
  iq_endDateTime :: "int option"
  iq_liveMode :: "bool option"
  iq_limit :: page_number
  iq_skip :: page_number
  iq_onlyRecordCount :: bool
  iq_sort :: "(billing_invoice list \<Rightarrow> billing_invoice list) option"

definition all_invoices :: invoice_query where
  "all_invoices = \<lparr> iq_invoiceIDs = [], iq_billingInvoiceID = None, iq_search = None, iq_userIDs = [],
     iq_invoiceStatus = [], iq_startDateTime = None, iq_endDateTime = None, iq_liveMode = None,
     iq_limit = Number MAX_SAFE_INTEGER, iq_skip = Number 0, iq_onlyRecordCount = False, iq_sort = None \<rparr>"

definition DB_RECORD_COUNT_CEIL :: nat where "DB_RECORD_COUNT_CEIL = 500"

definition getCountFromDatabaseCount :: "nat \<Rightarrow> int" where
  "getCountFromDatabaseCount n = (if n = DB_RECORD_COUNT_CEIL then -1 else int n)"

text \<open>A filter is set only for a parameter that is truthy: \<^verbatim>\<open>liveMode: false\<close> sets none.\<close>

definition invoice_matches :: "invoice_query \<Rightarrow> billing_invoice \<Rightarrow> bool" where
  "invoice_matches q i =
     ((case iq_search q of None \<Rightarrow> True | Some test \<Rightarrow> (case inv_number i of None \<Rightarrow> False | Some n \<Rightarrow> test n))
      \<and> (iq_invoiceIDs q \<noteq> [] \<longrightarrow> inv_id i \<in> set (iq_invoiceIDs q))
      \<and> (iq_userIDs q \<noteq> [] \<longrightarrow> (case inv_userID i of None \<Rightarrow> False | Some u \<Rightarrow> u \<in> set (iq_userIDs q)))
      \<and> (truthy_str (iq_billingInvoiceID q) \<longrightarrow> Some (inv_invoiceID i) = iq_billingInvoiceID q)
      \<and> (iq_liveMode q = Some True \<longrightarrow> inv_liveMode i)
      \<and> (iq_invoiceStatus q \<noteq> [] \<longrightarrow> inv_status i \<in> set (iq_invoiceStatus q))
      \<and> (case iq_startDateTime q of None \<Rightarrow> True | Some t \<Rightarrow> t \<le> inv_createdOn i)
      \<and> (case iq_endDateTime q of None \<Rightarrow> True | Some t \<Rightarrow> inv_createdOn i \<le> t))"

definition getInvoices :: "invoice_query \<Rightarrow> billing_invoice list \<Rightarrow> int \<times> billing_invoice list" where
  "getInvoices q col =
     (let found = filter (invoice_matches q) col; n = min DB_RECORD_COUNT_CEIL (length found) in
      if iq_onlyRecordCount q then (int (length found), [])
      else (getCountFromDatabaseCount n,
            take (nat (checkRecordLimit (iq_limit q))) (drop (nat (checkRecordSkip (iq_skip q)))
              ((case iq_sort q of None \<Rightarrow> sort_key inv_id | Some f \<Rightarrow> f) found))))"

definition single_invoice :: "int \<times> billing_invoice list \<Rightarrow> billing_invoice option" where
  "single_invoice r = (case r of (n, found) \<Rightarrow> if n = 1 then (case found of [] \<Rightarrow> None | i # _ \<Rightarrow> Some i) else None)"

definition getInvoice :: "string \<Rightarrow> billing_invoice list \<Rightarrow> billing_invoice option" where
  "getInvoice i col = single_invoice (getInvoices (all_invoices\<lparr>iq_invoiceIDs := [i], iq_limit := Number 1\<rparr>) col)"

definition getInvoiceByInvoiceID :: "string \<Rightarrow> billing_invoice list \<Rightarrow> billing_invoice option" where
  "getInvoiceByInvoiceID i col =
     single_invoice (getInvoices (all_invoices\<lparr>iq_billingInvoiceID := Some i, iq_limit := Number 1\<rparr>) col)"

section \<open>Updates\<close>

text \<open>
  \<^verbatim>\<open>saveInvoice\<close> sets the listed properties of the document with this identifier, or inserts it: the
  sessions and the last error of a document stay.
\<close>

definition set_invoice :: "billing_invoice \<Rightarrow> billing_invoice \<Rightarrow> billing_invoice" where
  "set_invoice new old = new\<lparr>inv_sessions := inv_sessions old, inv_lastError := inv_lastError old\<rparr>"

fun upsert_invoice :: "billing_invoice \<Rightarrow> billing_invoice list \<Rightarrow> billing_invoice list" where
  "upsert_invoice i [] = [i\<lparr>inv_sessions := None, inv_lastError := None\<rparr>]"
| "upsert_invoice i (j # js) = (if inv_id j = inv_id i then set_invoice i j # js else j # upsert_invoice i js)"

text \<open>The identifier of a new document is generated: \<open>newID\<close>.\<close>

definition saveInvoice ::
  "(billing_invoice list \<Rightarrow> string) \<Rightarrow> string option \<Rightarrow> billing_invoice \<Rightarrow> ('s billing_world, string) handler" where
  "saveInvoice newID i iv =
     bindS (readS (\<lambda>w. if truthy_str i then or_else i [] else newID (bw_invoices w))) (\<lambda>id'.
     bindS (modifyS (\<lambda>w. w\<lparr>bw_invoices := upsert_invoice (iv\<lparr>inv_id := id'\<rparr>) (bw_invoices w)\<rparr>)) (\<lambda>_.
     returnS id'))"

fun update_first :: "('a \<Rightarrow> bool) \<Rightarrow> ('a \<Rightarrow> 'a) \<Rightarrow> 'a list \<Rightarrow> 'a list" where
  "update_first P f [] = []"
| "update_first P f (x # xs) = (if P x then f x # xs else x # update_first P f xs)"

text \<open>The sessions of the copy that is passed are saved, with the new one, over those of the document.\<close>

definition storeInvoiceAdditionalData :: "billing_invoice \<Rightarrow> billing_additional_data \<Rightarrow> ('s billing_world, unit) handler" where
  "storeInvoiceAdditionalData iv d =
     (let sessions = or_else (inv_sessions iv) [] @ (case bad_session d of None \<Rightarrow> [] | Some x \<Rightarrow> [x]) in
      modifyS (\<lambda>w. w\<lparr>bw_invoices := update_first (\<lambda>i. inv_id i = inv_id iv)
        (\<lambda>i. i\<lparr>inv_sessions := Some sessions, inv_lastError := bad_lastError d\<rparr>) (bw_invoices w)\<rparr>))"

fun delete_first_invoice :: "string \<Rightarrow> billing_invoice list \<Rightarrow> billing_invoice list" where
  "delete_first_invoice i [] = []"
| "delete_first_invoice i (j # js) = (if inv_id j = i then js else j # delete_first_invoice i js)"

definition deleteInvoice :: "string \<Rightarrow> ('s billing_world, unit) handler" where
  "deleteInvoice i = modifyS (\<lambda>w. w\<lparr>bw_invoices := delete_first_invoice i (bw_invoices w)\<rparr>)"

section \<open>Users and transactions\<close>

definition findUser :: "'s billing_world \<Rightarrow> string \<Rightarrow> user option" where
  "findUser w i = map_option user.truncate (find (\<lambda>u. usr_id u = i) (bw_users w))"

definition invoice_user :: "'s billing_world \<Rightarrow> billing_invoice \<Rightarrow> user option" where
  "invoice_user w i = Option.bind (inv_userID i) (findUser w)"

definition saveUserBillingData :: "string \<Rightarrow> billing_user_data option \<Rightarrow> ('s billing_world, unit) handler" where
  "saveUserBillingData i d =
     modifyS (\<lambda>w. w\<lparr>bw_users := update_first (\<lambda>u. usr_id u = i) (\<lambda>u. u\<lparr>usr_billingData := d\<rparr>) (bw_users w)\<rparr>)"

definition loadTransaction :: "int \<Rightarrow> 's billing_world \<Rightarrow> transaction option" where
  "loadTransaction i w =
     map_option (\<lambda>t. t\<lparr>tx_user := Option.bind (tx_userID t) (findUser w)\<rparr>) (find (\<lambda>t. tx_id t = i) (bw_transactions w))"

definition station_of :: "'s billing_world \<Rightarrow> transaction \<Rightarrow> charging_station option" where
  "station_of w t = find (\<lambda>c. cs_id c = tx_chargeBoxID t) (bw_stations w)"

definition saveTransactionBillingData :: "int \<Rightarrow> billing_data option \<Rightarrow> ('s billing_world, unit) handler" where
  "saveTransactionBillingData i d =
     modifyS (\<lambda>w. w\<lparr>bw_transactions := update_first (\<lambda>t. tx_id t = i) (\<lambda>t. t\<lparr>tx_billingData := d\<rparr>) (bw_transactions w)\<rparr>)"

definition storeTransaction :: "transaction \<Rightarrow> ('s billing_world, unit) handler" where
  "storeTransaction t = modifyS (\<lambda>w. w\<lparr>bw_transactions := replace_transaction (stored t) (bw_transactions w)\<rparr>)"

end
