(* ===== verification/Stripe_Platform.thy ===== *)
theory Stripe_Platform
  imports Billing_Store
begin

text \<open>
  The connection to the billing platform, and the customers, taxes and payment methods it keeps
  (src/integration/billing/stripe/StripeBillingIntegration.ts, StripeHelpers.ts, and the
  synchronisation of users of src/integration/billing/BillingIntegration.ts).

  The platform is a service behind the package \<^verbatim>\<open>stripe\<close>: the parameter \<open>platform\<close> has one operation
  for each call of the package that the code makes, on a state of a type that is left open. An operation may raise a
  \<open>PlatformError\<close>. The records below are the properties of the platform's objects that the code reads or
  passes.
\<close>

section \<open>The platform\<close>

record stripe_customer =
  sc_id :: string
  sc_deleted :: bool
  sc_livemode :: bool
  sc_name :: "string option"
  sc_userID :: "string option"
  sc_default_payment_method :: "string option"
  sc_default_source :: "string option"

record stripe_address =
  sad_line1 :: string
  sad_line2 :: "string option"
  sad_postal_code :: string
  sad_city :: string
  sad_state :: "string option"
  sad_country :: "string option"

record customer_params =
  cup_name :: string
  cup_description :: string
  cup_preferred_locale :: string
  cup_email :: string
  cup_address :: "stripe_address option"

record billing_details =
  bde_name :: string
  bde_email :: string
  bde_address :: "stripe_address option"

record stripe_tax =
  sx_id :: string
  sx_active :: bool
  sx_description :: string
  sx_display_name :: string
  sx_percentage :: rat

record stripe_payment_method =
  spm_id :: string
  spm_brand :: string
  spm_exp_year :: int
  spm_exp_month :: int
  spm_last4 :: string
  spm_type :: string
  spm_created :: int

text \<open>\<open>siv_status\<close> is one of the statuses of the code; times are seconds since the epoch, amounts are cents.\<close>

record stripe_invoice =
  siv_id :: string
  siv_customer :: string
  siv_number :: "string option"
  siv_livemode :: bool
  siv_amount_due :: rat
  siv_amount_paid :: rat
  siv_status :: BillingInvoiceStatus
  siv_currency :: "string option"
  siv_invoice_pdf :: "string option"
  siv_userID :: "string option"
  siv_hosted_invoice_url :: "string option"
  siv_finalized_at :: "int option"
  siv_created :: int

record invoice_item_params =
  iip_invoice :: "string option"
  iip_customer :: "string option"
  iip_currency :: string
  iip_description :: "string option"
  iip_tax_rates :: "string list"
  iip_amount :: rat
  iip_dimension :: "DimensionType option"
  iip_metadata :: "(string \<times> string) list"

record 's platform =
  pf_customers_list_one :: "('s, stripe_customer list) handler"
  pf_customers_retrieve :: "string \<Rightarrow> ('s, stripe_customer) handler"
  pf_customers_create :: "customer_params \<Rightarrow> string \<Rightarrow> string \<Rightarrow> ('s, stripe_customer) handler"
  pf_customers_update :: "string \<Rightarrow> customer_params \<Rightarrow> ('s, stripe_customer) handler"
  pf_customers_set_default :: "string \<Rightarrow> string \<Rightarrow> ('s, unit) handler"
  pf_customers_del :: "string \<Rightarrow> ('s, unit) handler"
  pf_taxRates_list :: "string option \<Rightarrow> ('s, stripe_tax list \<times> bool) handler"
  pf_taxRates_retrieve :: "string \<Rightarrow> ('s, stripe_tax) handler"
  pf_invoices_retrieve :: "string \<Rightarrow> ('s, stripe_invoice) handler"
  pf_invoices_create :: "string option \<Rightarrow> string \<Rightarrow> string \<Rightarrow> string option \<Rightarrow> ('s, stripe_invoice) handler"
  pf_invoices_finalize :: "string \<Rightarrow> ('s, stripe_invoice) handler"
  pf_invoices_pay :: "string \<Rightarrow> ('s, stripe_invoice) handler"
  pf_invoices_list :: "string option \<Rightarrow> BillingInvoiceStatus \<Rightarrow> ('s, stripe_invoice list) handler"
  pf_invoiceItems_create :: "invoice_item_params \<Rightarrow> string option \<Rightarrow> ('s, unit) handler"
  pf_invoiceItems_pending :: "string \<Rightarrow> ('s, nat) handler"
  pf_setupIntents_create :: "string \<Rightarrow> ('s, string) handler"
  pf_paymentMethods_attach :: "string \<Rightarrow> string \<Rightarrow> ('s, string) handler"
  pf_paymentMethods_update :: "string \<Rightarrow> billing_details \<Rightarrow> ('s, unit) handler"
  pf_paymentMethods_list :: "string \<Rightarrow> string option \<Rightarrow> ('s, stripe_payment_method list \<times> bool) handler"
  pf_paymentMethods_retrieve :: "string \<Rightarrow> ('s, stripe_payment_method) handler"
  pf_paymentMethods_detach :: "string \<Rightarrow> ('s, string) handler"

text \<open>
  The surroundings: the mode of the process (\<^verbatim>\<open>NODE_ENV\<close>), the account that a secret key opens, the clock of
  the server, the generator of identifiers, and the texts of I18nManager.ts and of i18n-iso-countries.
\<close>

record 's billing_env = vault_env +
  be_nodeEnv :: string
  be_platform :: "string \<Rightarrow> 's platform"
  be_clock :: local_clock
  be_newInvoiceID :: "billing_invoice list \<Rightarrow> string"
  be_generatedUser :: "user \<Rightarrow> string"
  be_countryCode :: "string \<Rightarrow> string \<Rightarrow> string option"
  be_header :: "transaction \<Rightarrow> string"
  be_itemDescription :: "transaction \<Rightarrow> DimensionType \<Rightarrow> priced_dimension_data \<Rightarrow> string"

definition isDevelopmentEnv :: "'s billing_env \<Rightarrow> bool" where
  "isDevelopmentEnv env = (be_nodeEnv env = ''development'' \<or> be_nodeEnv env = ''development-build'')"

definition isProductionEnv :: "'s billing_env \<Rightarrow> bool" where
  "isProductionEnv env = (be_nodeEnv env = ''production'')"

definition vault_of :: "'s billing_env \<Rightarrow> vault_env" where
  "vault_of env = vault_env.truncate env"

text \<open>A call of the platform, with the key of the connection; without a connection it raises.\<close>

definition call :: "'s billing_env \<Rightarrow> ('s platform \<Rightarrow> ('s, 'a) handler) \<Rightarrow> ('s billing_world, 'a) handler" where
  "call env f = (\<lambda>w. case bw_key w of
       None \<Rightarrow> (w, Inl TypeError)
     | Some k \<Rightarrow> (case f (be_platform env k) (bw_platform w) of (p, r) \<Rightarrow> (w\<lparr>bw_platform := p\<rparr>, r)))"

section \<open>Settings\<close>

definition transactionBillingActivated :: "setting \<Rightarrow> bool" where
  "transactionBillingActivated b = flag_at b ''billing.isTransactionBillingActivated''"

definition immediateBillingAllowed :: "setting \<Rightarrow> bool" where
  "immediateBillingAllowed b = flag_at b ''billing.immediateBillingAllowed''"

definition periodicBillingAllowed :: "setting \<Rightarrow> bool" where
  "periodicBillingAllowed b = flag_at b ''billing.periodicBillingAllowed''"

text \<open>\<^verbatim>\<open>getInstance\<close>: the object exists only when the connection is configured.\<close>

definition stripe_getInstance :: "setting \<Rightarrow> bool" where
  "stripe_getInstance b = (text_at b ''stripe.url'' \<noteq> None \<and> text_at b ''stripe.secretKey'' \<noteq> None \<and> text_at b ''stripe.publicKey'' \<noteq> None)"

section \<open>Connection\<close>

definition isConnectedToALiveAccount :: "'s billing_env \<Rightarrow> ('s billing_world, bool) handler" where
  "isConnectedToALiveAccount env =
     bindS (call env pf_customers_list_one) (\<lambda>cs. returnS (case cs of [] \<Rightarrow> False | c # _ \<Rightarrow> sc_livemode c))"

definition checkConnection :: "'s billing_env \<Rightarrow> setting \<Rightarrow> ('s billing_world, unit) handler" where
  "checkConnection env b =
     bindS (readS bw_key) (\<lambda>connected.
     if connected \<noteq> None then returnS ()
     else
       bindS (rethrowS (in_vault (decrypt (vault_of env) (or_else (text_at b ''stripe.secretKey'') []) False None))
                (BackendError ''Failed to connect to Stripe - Key is inconsistent'')) (\<lambda>secretKey.
       bindS (modifyS (\<lambda>w. w\<lparr>bw_key := Some secretKey\<rparr>)) (\<lambda>_.
       rethrowS
         (bindS (isConnectedToALiveAccount env) (\<lambda>live.
          bindS (modifyS (\<lambda>w. w\<lparr>bw_productionMode := live\<rparr>)) (\<lambda>_.
          if live \<and> \<not> isProductionEnv env
          then throwS (BackendError ''connecting to a productive account is forbidden in DEV Mode'')
          else returnS ())))
         (BackendError ''Failed to connect to Stripe''))))"

definition starts_with :: "string \<Rightarrow> string \<Rightarrow> bool" where
  "starts_with p s = (take (length p) s = p)"

text \<open>When the secret key cannot be decrypted the public one is not looked at.\<close>

definition checkTestDataCleanupPrerequisites :: "'s billing_env \<Rightarrow> setting \<Rightarrow> ('s billing_world, unit) handler" where
  "checkTestDataCleanupPrerequisites env b =
     bindS (catchS (bindS (in_vault (decrypt (vault_of env) (or_else (text_at b ''stripe.secretKey'') []) False None))
                     (\<lambda>k. returnS (Some (k, or_else (text_at b ''stripe.publicKey'') []))))
                   (\<lambda>_. returnS None)) (\<lambda>keys.
     case keys of
       None \<Rightarrow> returnS ()
     | Some (secretKey, publicKey) \<Rightarrow>
         if starts_with ''sk_live_'' secretKey \<or> starts_with ''pk_live_'' publicKey
         then throwS (BackendError ''Stripe Account is live - Test data cleanup has been aborted'')
         else returnS ())"

definition resetConnectionSettings :: "'s billing_env \<Rightarrow> setting \<Rightarrow> ('s billing_world, setting) handler" where
  "resetConnectionSettings env b =
     (let b' = b\<lparr>st_props := (\<lambda>p. if p \<in> set billing_flags then Some (Flag False)
                                 else if p \<in> set billing_values \<or> p \<in> set stripe_paths then None else st_props b p)\<rparr>
      in bindS (in_vault (saveBillingSetting (vault_of env) b')) (\<lambda>_. returnS b'))"

section \<open>Taxes\<close>

record billing_tax =
  btx_id :: string
  btx_description :: string
  btx_displayName :: string
  btx_percentage :: rat

definition tax_of :: "stripe_tax \<Rightarrow> billing_tax" where
  "tax_of t = \<lparr> btx_id = sx_id t, btx_description = sx_description t, btx_displayName = sx_display_name t,
                btx_percentage = sx_percentage t \<rparr>"

text \<open>
  The loops that read a list page by page, until the platform says that there is no more. They may run for ever,
  which is \<open>None\<close>; an exception ends them with what was read before.
\<close>

partial_function (option) list_pages ::
  "('b \<Rightarrow> string) \<Rightarrow> (string option \<Rightarrow> ('w, 'b list \<times> bool) handler) \<Rightarrow> string option \<Rightarrow> 'b list \<Rightarrow> 'w \<Rightarrow> ('w \<times> 'b list) option" where
  "list_pages ident fetch after acc w =
     (case fetch after w of
        (w', Inl e) \<Rightarrow> Some (w', acc)
      | (w', Inr (page, has_more)) \<Rightarrow>
          if \<not> has_more then Some (w', acc @ page)
          else if acc @ page = [] then Some (w', [])
          else list_pages ident fetch (Some (ident (last (acc @ page)))) (acc @ page) w')"

definition getTaxes :: "'s billing_env \<Rightarrow> setting \<Rightarrow> 's billing_world \<Rightarrow> ('s billing_world \<times> billing_tax list res) option" where
  "getTaxes env b w =
     (case checkConnection env b w of
        (w', Inl e) \<Rightarrow> Some (w', Inl e)
      | (w', Inr _) \<Rightarrow>
          map_option (\<lambda>(w'', taxes). (w'', Inr (map tax_of taxes)))
            (list_pages sx_id (\<lambda>after. call env (\<lambda>p. pf_taxRates_list p after)) None [] w'))"

definition getTaxRate :: "'s billing_env \<Rightarrow> setting \<Rightarrow> string \<Rightarrow> ('s billing_world, billing_tax option) handler" where
  "getTaxRate env b taxID =
     bindS (checkConnection env b) (\<lambda>_.
     catchS (bindS (call env (\<lambda>p. pf_taxRates_retrieve p taxID)) (\<lambda>t.
              returnS (if sx_active t then Some (tax_of t) else None)))
            (\<lambda>_. returnS None))"

definition checkTaxPrerequisites :: "'s billing_env \<Rightarrow> setting \<Rightarrow> ('s billing_world, unit) handler" where
  "checkTaxPrerequisites env b =
     (case text_at b ''billing.taxID'' of
        None \<Rightarrow> throwS (BackendError ''Billing prerequisites are not consistent - taxID is mandatory'')
      | Some taxID \<Rightarrow>
          bindS (getTaxRate env b taxID) (\<lambda>t.
          if t = None then throwS (BackendError ''Billing prerequisites are not consistent - taxID is not found or inactive'')
          else returnS ()))"

definition stripe_checkActivationPrerequisites :: "'s billing_env \<Rightarrow> setting \<Rightarrow> ('s billing_world, unit) handler" where
  "stripe_checkActivationPrerequisites = checkTaxPrerequisites"

definition getTaxRateIds :: "setting \<Rightarrow> string list" where
  "getTaxRateIds b = (case text_at b ''billing.taxID'' of None \<Rightarrow> [] | Some t \<Rightarrow> [t])"

end
