(* ===== verification/Stripe_Users.thy ===== *)
theory Stripe_Users
  imports Stripe_Platform
begin

text \<open>
  Users as customers of the billing platform, and their payment methods
  (src/integration/billing/stripe/StripeBillingIntegration.ts, StripeHelpers.ts, and the synchronisation of
  users of src/integration/billing/BillingIntegration.ts).
\<close>

section \<open>What is sent of a user\<close>

definition DEFAULT_LOCALE :: string where "DEFAULT_LOCALE = ''en_US''"
definition DEFAULT_LANGUAGE :: string where "DEFAULT_LANGUAGE = ''en''"

definition getLanguageFromLocale :: "string option \<Rightarrow> string" where
  "getLanguageFromLocale locale =
     (case locale of None \<Rightarrow> DEFAULT_LANGUAGE | Some l \<Rightarrow> if length l \<ge> 2 then take 2 l else DEFAULT_LANGUAGE)"

definition buildUserFullName :: "user \<Rightarrow> bool \<Rightarrow> bool \<Rightarrow> string" where
  "buildUserFullName u withID withEmail =
     (if usr_name u = [] then ''-''
      else (if truthy_str (usr_firstName u) then or_else (usr_firstName u) [] @ '' '' @ usr_name u else usr_name u)
         @ (if withID \<and> usr_id u \<noteq> [] then '' ('' @ usr_id u @ '')'' else [])
         @ (if withEmail \<and> usr_email u \<noteq> [] then '' '' @ usr_email u else []))"

definition trim :: "string \<Rightarrow> string" where
  "trim s = rev (dropWhile is_space (rev (dropWhile is_space s)))"

text \<open>A country is looked up in the language of the user, then in English.\<close>

definition getAlpha2CountryCode :: "'s billing_env \<Rightarrow> string \<Rightarrow> string option \<Rightarrow> string option" where
  "getAlpha2CountryCode env country locale =
     (let name = trim country in
      if name = [] then None
      else
        let code = (if truthy_str locale then be_countryCode env name (getLanguageFromLocale locale) else None) in
        if \<not> truthy_str code \<and> locale \<noteq> Some DEFAULT_LOCALE then be_countryCode env name DEFAULT_LANGUAGE else code)"

definition buildStripeAddress :: "'s billing_env \<Rightarrow> user \<Rightarrow> stripe_address option" where
  "buildStripeAddress env u =
     (case usr_address u of
        None \<Rightarrow> None
      | Some a \<Rightarrow>
          if adr_country a = [] then None
          else Some \<lparr> sad_line1 = adr_address1 a, sad_line2 = adr_address2 a, sad_postal_code = adr_postalCode a,
                      sad_city = adr_city a, sad_state = adr_region a,
                      sad_country = getAlpha2CountryCode env (adr_country a) (usr_locale u) \<rparr>)"

definition buildCustomerCommonProperties :: "'s billing_env \<Rightarrow> user \<Rightarrow> customer_params" where
  "buildCustomerCommonProperties env u =
     \<lparr> cup_name = buildUserFullName u False False, cup_description = be_generatedUser env u,
       cup_preferred_locale = getLanguageFromLocale (usr_locale u), cup_email = usr_email u,
       cup_address = (if usr_address u \<noteq> None then buildStripeAddress env u else None) \<rparr>"

definition buildBillingDetails :: "'s billing_env \<Rightarrow> user \<Rightarrow> billing_details" where
  "buildBillingDetails env u =
     \<lparr> bde_name = buildUserFullName u False False, bde_email = usr_email u, bde_address = buildStripeAddress env u \<rparr>"

section \<open>Customers\<close>

record billing_user =
  bu_userID :: string
  bu_name :: "string option"
  bu_billingData :: "billing_user_data option"

definition convertToBillingUser :: "stripe_customer option \<Rightarrow> user \<Rightarrow> billing_user res" where
  "convertToBillingUser customer u =
     (case customer of
        None \<Rightarrow> Inl (BackendError ''Unexpected situation - customer cannot be null'')
      | Some c \<Rightarrow>
          if sc_userID c \<noteq> Some (usr_id u) then Inl (BackendError ''Unexpected situation - the STRIPE metadata does not match'')
          else Inr \<lparr> bu_userID = usr_id u, bu_name = sc_name c, bu_billingData = usr_billingData u \<rparr>)"

definition customerID_of :: "user \<Rightarrow> string option" where
  "customerID_of u = map_option ubd_customerID (usr_billingData u)"

text \<open>No customer for no identifier; a customer that is not found, or deleted, is an exception.\<close>

definition getStripeCustomer :: "'s billing_env \<Rightarrow> string option \<Rightarrow> ('s billing_world, stripe_customer option) handler" where
  "getStripeCustomer env customerID =
     (if truthy_str customerID then
        rethrowS
          (bindS (call env (\<lambda>p. pf_customers_retrieve p (or_else customerID []))) (\<lambda>c.
           if sc_deleted c then throwS (BackendError ''Customer is marked as deleted'') else returnS (Some c)))
          (BackendError ''Customer ID is inconsistent'')
      else returnS None)"

definition fresh_user :: "user \<Rightarrow> ('s billing_world, user) handler" where
  "fresh_user u = bindS (readS (\<lambda>w. findUser w (usr_id u))) (\<lambda>x.
     case x of None \<Rightarrow> throwS TypeError | Some v \<Rightarrow> returnS v)"

definition isUserSynchronized :: "'s billing_env \<Rightarrow> setting \<Rightarrow> user \<Rightarrow> ('s billing_world, bool) handler" where
  "isUserSynchronized env b u =
     bindS (checkConnection env b) (\<lambda>_.
     readS (\<lambda>w. truthy_str (Option.bind (findUser w (usr_id u)) customerID_of)))"

definition stripe_getUser :: "'s billing_env \<Rightarrow> setting \<Rightarrow> user \<Rightarrow> ('s billing_world, billing_user option) handler" where
  "stripe_getUser env b u =
     bindS (checkConnection env b) (\<lambda>_.
     bindS (if usr_billingData u = None then fresh_user u else returnS u) (\<lambda>v.
     if truthy_str (customerID_of v) then
       bindS (getStripeCustomer env (customerID_of v)) (\<lambda>c.
       bindS (liftS (convertToBillingUser c v)) (\<lambda>x. returnS (Some x)))
     else returnS None))"

definition createBillingUser :: "'s billing_env \<Rightarrow> setting \<Rightarrow> user \<Rightarrow> bool \<Rightarrow> ('s billing_world, billing_user) handler" where
  "createBillingUser env b u forceUserCreation =
     bindS (checkConnection env b) (\<lambda>_.
     if truthy_str (customerID_of u) \<and> \<not> forceUserCreation
     then throwS (BackendError ''Unexpected situation - the customerID is already set'')
     else
       bindS (call env (\<lambda>p. pf_customers_create p (buildCustomerCommonProperties env u) (ve_tenantID env) (usr_id u))) (\<lambda>c.
       bindS (readS now_of) (\<lambda>now.
       let d = \<lparr> ubd_customerID = sc_id c, ubd_liveMode = sc_livemode c, ubd_lastChangedOn = Some now,
                 ubd_hasSynchroError = False, ubd_invoicesLastSynchronizedOn = None \<rparr> in
       bindS (saveUserBillingData (usr_id u) (Some d)) (\<lambda>_.
       liftS (convertToBillingUser (Some c) (u\<lparr>usr_billingData := Some d\<rparr>))))))"

definition stripe_createUser :: "'s billing_env \<Rightarrow> setting \<Rightarrow> user \<Rightarrow> ('s billing_world, billing_user) handler" where
  "stripe_createUser env b u = createBillingUser env b u False"

definition stripe_repairUser :: "'s billing_env \<Rightarrow> setting \<Rightarrow> user \<Rightarrow> ('s billing_world, billing_user) handler" where
  "stripe_repairUser env b u = createBillingUser env b u True"

definition stripe_updateUser :: "'s billing_env \<Rightarrow> setting \<Rightarrow> user \<Rightarrow> ('s billing_world, billing_user) handler" where
  "stripe_updateUser env b u =
     bindS (checkConnection env b) (\<lambda>_.
     if \<not> truthy_str (customerID_of u) then throwS (BackendError ''Unexpected situation - the customerID is NOT set'')
     else
       bindS (getStripeCustomer env (customerID_of u)) (\<lambda>c.
       if Option.bind c sc_userID \<noteq> Some (usr_id u)
       then throwS (BackendError ''Unexpected situation - the STRIPE metadata does not match'')
       else
         bindS (call env (\<lambda>p. pf_customers_update p (or_else (customerID_of u) []) (buildCustomerCommonProperties env u))) (\<lambda>c'.
         bindS (readS now_of) (\<lambda>now.
         let d = map_option (\<lambda>x. x\<lparr>ubd_lastChangedOn := Some now\<rparr>) (usr_billingData u) in
         bindS (saveUserBillingData (usr_id u) d) (\<lambda>_.
         liftS (convertToBillingUser (Some c') (u\<lparr>usr_billingData := d\<rparr>)))))))"

datatype Feature = BILLING_PREVENT_CUSTOMER_DELETION | BILLING_SHOW_PRICING_DETAIL

definition activeFeatures :: "Feature list" where
  "activeFeatures = [BILLING_PREVENT_CUSTOMER_DELETION]"

definition isFeatureActive :: "Feature \<Rightarrow> bool" where
  "isFeatureActive feature = (feature \<in> set activeFeatures)"

definition stripe_deleteUser :: "'s billing_env \<Rightarrow> setting \<Rightarrow> user \<Rightarrow> ('s billing_world, unit) handler" where
  "stripe_deleteUser env b u =
     (if isFeatureActive BILLING_PREVENT_CUSTOMER_DELETION then returnS ()
      else
        bindS (checkConnection env b) (\<lambda>_.
        bindS (getStripeCustomer env (customerID_of u)) (\<lambda>c.
        case c of
          None \<Rightarrow> returnS ()
        | Some x \<Rightarrow> if sc_id x = [] then returnS () else call env (\<lambda>p. pf_customers_del p (sc_id x)))))"

definition checkIfUserCanBeDeleted :: "'s billing_env \<Rightarrow> setting \<Rightarrow> user \<Rightarrow> ('s billing_world, bool) handler" where
  "checkIfUserCanBeDeleted env b u =
     bindS (checkConnection env b) (\<lambda>_.
     if \<not> truthy_str (customerID_of u) then returnS True
     else
       bindS (checkConnection env b) (\<lambda>_.
       bindS (call env (\<lambda>p. pf_invoices_list p (customerID_of u) OPEN)) (\<lambda>opened.
       if opened \<noteq> [] then returnS False
       else
         bindS (call env (\<lambda>p. pf_invoices_list p (customerID_of u) DRAFT)) (\<lambda>drafts.
         if drafts \<noteq> [] then returnS False
         else
           bindS (call env (\<lambda>p. pf_invoiceItems_pending p (or_else (customerID_of u) []))) (\<lambda>n.
           returnS (n = 0))))))"

section \<open>Synchronisation\<close>

definition synchronize_user :: "'s billing_env \<Rightarrow> setting \<Rightarrow> user \<Rightarrow> bool \<Rightarrow> ('s billing_world, billing_user) handler" where
  "synchronize_user env b u forceMode =
     (if \<not> forceMode then
        bindS (isUserSynchronized env b u) (\<lambda>exists.
        if \<not> exists then stripe_createUser env b u else stripe_updateUser env b u)
      else
        catchS
          (bindS (stripe_getUser env b u) (\<lambda>x.
           if x = None then stripe_createUser env b u else stripe_updateUser env b u))
          (\<lambda>_. stripe_repairUser env b u))"

definition synchronizeUser :: "'s billing_env \<Rightarrow> setting \<Rightarrow> user \<Rightarrow> ('s billing_world, billing_user option) handler" where
  "synchronizeUser env b u =
     catchS (bindS (synchronize_user env b u False) (\<lambda>x. returnS (Some x))) (\<lambda>_. returnS None)"

definition forceSynchronizeUser :: "'s billing_env \<Rightarrow> setting \<Rightarrow> user \<Rightarrow> ('s billing_world, billing_user option) handler" where
  "forceSynchronizeUser env b u =
     catchS (bindS (synchronize_user env b u True) (\<lambda>x. returnS (Some x))) (\<lambda>_. returnS None)"

section \<open>Payment methods\<close>

text \<open>\<^verbatim>\<open>BillingOperationResult\<close>: the identifier of the object of the platform, or the exception.\<close>

type_synonym operation_result = "exn + string"

record billing_payment_method =
  bpm_id :: string
  bpm_brand :: string
  bpm_expiringOn :: int
  bpm_last4 :: string
  bpm_type :: string
  bpm_createdOn :: int
  bpm_isDefault :: bool

definition convertToBillingPaymentMethod :: "'s billing_env \<Rightarrow> stripe_payment_method \<Rightarrow> bool \<Rightarrow> billing_payment_method" where
  "convertToBillingPaymentMethod env m isDefault =
     \<lparr> bpm_id = spm_id m, bpm_brand = spm_brand m,
       bpm_expiringOn = js_date (be_clock env) (spm_exp_year m) (spm_exp_month m) 0,
       bpm_last4 = spm_last4 m, bpm_type = spm_type m, bpm_createdOn = spm_created m * 1000, bpm_isDefault = isDefault \<rparr>"

definition attemptS :: "('w, string) handler \<Rightarrow> ('w, operation_result) handler" where
  "attemptS m = catchS (bindS m (\<lambda>x. returnS (Inr x))) (\<lambda>e. returnS (Inl e))"

definition createSetupIntent :: "'s billing_env \<Rightarrow> string \<Rightarrow> ('s billing_world, operation_result) handler" where
  "createSetupIntent env customerID = attemptS (call env (\<lambda>p. pf_setupIntents_create p customerID))"

definition attachPaymentMethod :: "'s billing_env \<Rightarrow> user \<Rightarrow> string \<Rightarrow> string \<Rightarrow> ('s billing_world, operation_result) handler" where
  "attachPaymentMethod env u customerID paymentMethodId =
     attemptS
       (bindS (call env (\<lambda>p. pf_paymentMethods_attach p paymentMethodId customerID)) (\<lambda>m.
        bindS (call env (\<lambda>p. pf_paymentMethods_update p paymentMethodId (buildBillingDetails env u))) (\<lambda>_.
        bindS (call env (\<lambda>p. pf_customers_set_default p customerID paymentMethodId)) (\<lambda>_.
        returnS m))))"

definition setupPaymentMethod :: "'s billing_env \<Rightarrow> setting \<Rightarrow> user \<Rightarrow> string option \<Rightarrow> ('s billing_world, operation_result) handler" where
  "setupPaymentMethod env b u paymentMethodId =
     bindS (checkConnection env b) (\<lambda>_.
     bindS (if truthy_str (customerID_of u) then returnS (customerID_of u)
            else bindS (synchronizeUser env b u) (\<lambda>x.
                 returnS (map_option ubd_customerID (Option.bind x bu_billingData)))) (\<lambda>customerID.
     if \<not> truthy_str customerID then throwS (BackendError ''User is not known in Stripe'')
     else if \<not> truthy_str paymentMethodId then createSetupIntent env (or_else customerID [])
     else attachPaymentMethod env u (or_else customerID []) (or_else paymentMethodId [])))"

definition getStripePaymentMethods ::
  "'s billing_env \<Rightarrow> string option \<Rightarrow> 's billing_world \<Rightarrow> ('s billing_world \<times> billing_payment_method list) option" where
  "getStripePaymentMethods env customerID w =
     (case getStripeCustomer env customerID w of
        (w', Inr (Some c)) \<Rightarrow>
          map_option (\<lambda>(w'', ms). (w'', map (\<lambda>m. convertToBillingPaymentMethod env m (sc_default_payment_method c = Some (spm_id m))) ms))
            (list_pages spm_id (\<lambda>after. call env (\<lambda>p. pf_paymentMethods_list p (or_else customerID []) after)) None [] w')
      | (w', _) \<Rightarrow> Some (w', []))"

definition getPaymentMethods ::
  "'s billing_env \<Rightarrow> setting \<Rightarrow> user \<Rightarrow> 's billing_world \<Rightarrow> ('s billing_world \<times> billing_payment_method list res) option" where
  "getPaymentMethods env b u w =
     (case checkConnection env b w of
        (w', Inl e) \<Rightarrow> Some (w', Inl e)
      | (w', Inr _) \<Rightarrow> map_option (\<lambda>(w'', ms). (w'', Inr ms)) (getStripePaymentMethods env (customerID_of u) w'))"

definition getStripePaymentMethod ::
  "'s billing_env \<Rightarrow> string \<Rightarrow> bool \<Rightarrow> ('s billing_world, billing_payment_method option) handler" where
  "getStripePaymentMethod env paymentMethodID asDefault =
     catchS (bindS (call env (\<lambda>p. pf_paymentMethods_retrieve p paymentMethodID)) (\<lambda>m.
              returnS (Some (convertToBillingPaymentMethod env m asDefault))))
            (\<lambda>_. returnS None)"

definition detachStripePaymentMethod :: "'s billing_env \<Rightarrow> string \<Rightarrow> string \<Rightarrow> ('s billing_world, operation_result) handler" where
  "detachStripePaymentMethod env paymentMethodId customerID =
     attemptS
       (bindS (getStripeCustomer env (Some customerID)) (\<lambda>c.
        case c of
          None \<Rightarrow> throwS TypeError
        | Some x \<Rightarrow>
            if sc_default_payment_method x = Some paymentMethodId
            then throwS (BackendError ''Cannot delete default payment method'')
            else call env (\<lambda>p. pf_paymentMethods_detach p paymentMethodId)))"

definition deletePaymentMethod :: "'s billing_env \<Rightarrow> setting \<Rightarrow> user \<Rightarrow> string \<Rightarrow> ('s billing_world, operation_result) handler" where
  "deletePaymentMethod env b u paymentMethodId =
     bindS (checkConnection env b) (\<lambda>_.
     if \<not> truthy_str (customerID_of u) then throwS (BackendError ''User is not known in Stripe'')
     else detachStripePaymentMethod env paymentMethodId (or_else (customerID_of u) []))"

end
