(* ===== verification/Stripe_Billing.thy ===== *)
theory Stripe_Billing
  imports Stripe_Users
begin

text \<open>
  The billing of sessions and the invoices of the billing platform
  (src/integration/billing/stripe/StripeBillingIntegration.ts and StripeHelpers.ts, with the checks that
  BillingIntegration.ts shares). The texts of the lines of an invoice are parameters.
\<close>

section \<open>Errors\<close>

text \<open>
  The class of a platform error is that of the package, such as \<^verbatim>\<open>StripeCardError\<close>; every other
  exception is not an error of the platform.
\<close>

definition guessStripeRootCause :: "string \<Rightarrow> int \<Rightarrow> string \<Rightarrow> BillingErrorType \<times> BillingErrorCode" where
  "guessStripeRootCause kind statusCode code =
     (let r = (if statusCode \<ge> 500 then (PLATFORM_SERVER_ERROR, UNEXPECTED_ERROR) else (PLATFORM_APPLICATION_ERROR, UNKNOWN_ERROR)) in
      if kind = ''StripeInvalidRequestError'' then (if code = ''missing'' then (fst r, NO_PAYMENT_METHOD) else r)
      else if kind = ''StripeCardError'' then (PLATFORM_PAYMENT_ERROR, CARD_ERROR)
      else r)"

definition guessRootCause :: "exn \<Rightarrow> BillingErrorType \<times> BillingErrorCode" where
  "guessRootCause e =
     (case e of PlatformError kind statusCode code \<Rightarrow> guessStripeRootCause kind statusCode code
      | _ \<Rightarrow> (APPLICATION_ERROR, UNKNOWN_ERROR))"

definition convertToBillingError :: "int \<Rightarrow> exn \<Rightarrow> billing_error" where
  "convertToBillingError now e =
     \<lparr> ber_when = now, ber_errorType = fst (guessRootCause e), ber_errorCode = snd (guessRootCause e), ber_rootCause = e \<rparr>"

definition isResourceMissingError :: "exn \<Rightarrow> bool" where
  "isResourceMissingError e =
     (case e of PlatformError _ statusCode code \<Rightarrow> statusCode = 404 \<and> code = ''resource_missing'' | _ \<Rightarrow> False)"

section \<open>Charging an invoice\<close>

text \<open>\<^verbatim>\<open>StripeChargeOperationResult\<close>: the exception, or the invoice after the attempt.\<close>

type_synonym charge_result = "exn + stripe_invoice"

definition getStripeInvoice :: "'s billing_env \<Rightarrow> string \<Rightarrow> ('s billing_world, stripe_invoice) handler" where
  "getStripeInvoice env i = call env (\<lambda>p. pf_invoices_retrieve p i)"

definition createStripeInvoice ::
  "'s billing_env \<Rightarrow> string option \<Rightarrow> string \<Rightarrow> string option \<Rightarrow> ('s billing_world, stripe_invoice) handler" where
  "createStripeInvoice env customerID userID idempotencyKey =
     call env (\<lambda>p. pf_invoices_create p customerID (ve_tenantID env) userID idempotencyKey)"

definition chargeStripeInvoice :: "'s billing_env \<Rightarrow> string \<Rightarrow> ('s billing_world, charge_result) handler" where
  "chargeStripeInvoice env i =
     catchS
       (bindS (getStripeInvoice env i) (\<lambda>si.
        if siv_status si = PAID then returnS (Inr si)
        else
          bindS (if siv_status si = DRAFT then call env (\<lambda>p. pf_invoices_finalize p i) else returnS si) (\<lambda>si'.
          bindS (if siv_status si' = OPEN \<or> siv_status si' = UNCOLLECTIBLE then call env (\<lambda>p. pf_invoices_pay p i)
                 else returnS si') (\<lambda>si''.
          returnS (Inr si'')))))
       (\<lambda>e. returnS (Inl e))"

definition updateInvoiceAdditionalData ::
  "billing_invoice \<Rightarrow> charge_result option \<Rightarrow> billing_invoice_item option \<Rightarrow> ('s billing_world, unit) handler" where
  "updateInvoiceAdditionalData i r item =
     bindS (readS now_of) (\<lambda>now.
     let billingError = (case r of Some (Inl e) \<Rightarrow> Some (convertToBillingError now e) | _ \<Rightarrow> None);
         session = map_option (\<lambda>x. \<lparr> bsd_transactionID = bii_transactionID x, bsd_pricingData = bii_pricingData x \<rparr>) item in
     if session \<noteq> None \<or> billingError \<noteq> None
     then storeInvoiceAdditionalData i \<lparr> bad_session = session, bad_lastError = billingError \<rparr>
     else returnS ())"

definition to_upper :: "string \<Rightarrow> string" where
  "to_upper = map (\<lambda>c. if 97 \<le> (of_char c :: nat) \<and> (of_char c :: nat) \<le> 122 then char_of ((of_char c :: nat) - 32) else c)"

text \<open>The identifier of the document is set when it is saved.\<close>

definition local_copy :: "stripe_invoice \<Rightarrow> billing_invoice" where
  "local_copy si =
     \<lparr> inv_id = [], inv_invoiceID = siv_id si, inv_liveMode = siv_livemode si, inv_userID = siv_userID si,
       inv_number = siv_number si, inv_status = siv_status si, inv_amount = siv_amount_due si,
       inv_amountPaid = siv_amount_paid si, inv_currency = map_option to_upper (siv_currency si),
       inv_customerID = siv_customer si,
       inv_createdOn = or_num (siv_finalized_at si) (siv_created si) * 1000,
       inv_downloadable = truthy_str (siv_invoice_pdf si), inv_downloadUrl = siv_invoice_pdf si,
       inv_payInvoiceUrl = siv_hosted_invoice_url si, inv_sessions = None, inv_lastError = None \<rparr>"

text \<open>
  The local copy of an invoice. When the saved document is not found the code waits and reads once more; here a
  second reading finds the same.
\<close>

definition synchronizeAsBillingInvoice ::
  "'s billing_env \<Rightarrow> stripe_invoice \<Rightarrow> bool \<Rightarrow> ('s billing_world, billing_invoice option) handler" where
  "synchronizeAsBillingInvoice env si checkUserExists =
     (if \<not> truthy_str (siv_userID si)
      then throwS (BackendError ''Unexpected situation - invoice is not an e-Mobility invoice'')
      else
        bindS (readS (\<lambda>w. findUser w (or_else (siv_userID si) []))) (\<lambda>u.
        if checkUserExists \<and> u = None
        then throwS (BackendError ''Unexpected situation - the e-Mobility user does not exist'')
        else
          bindS (readS (\<lambda>w. getInvoiceByInvoiceID (siv_id si) (bw_invoices w))) (\<lambda>existing.
          bindS (saveInvoice (be_newInvoiceID env) (map_option inv_id existing) (local_copy si)) (\<lambda>i.
          readS (\<lambda>w. getInvoice i (bw_invoices w))))))"

text \<open>
  \<^verbatim>\<open>sendInvoiceNotification\<close> (BillingIntegration.ts): nothing for an invoice that is not finalised; a user
  that is gone, or has no locale, and an invoice without currency raise, and the exception is logged.
\<close>

definition sendInvoiceNotification :: "billing_invoice \<Rightarrow> ('s billing_world, bool option) handler" where
  "sendInvoiceNotification i =
     (if inv_status i = OPEN \<or> inv_status i = PAID then
        bindS (readS (\<lambda>w. invoice_user w i)) (\<lambda>u.
        case u of
          None \<Rightarrow> returnS (Some False)
        | Some x \<Rightarrow>
            if usr_locale x = None \<or> inv_currency i = None then returnS (Some False)
            else
              bindS (modifyS (\<lambda>w. w\<lparr>bw_notices := bw_notices w @ [\<lparr> bno_invoiceID = inv_id i, bno_userID = usr_id x,
                  bno_amount = inv_amount i / 100, bno_status = inv_status i,
                  bno_payInvoiceUrl = (if inv_status i = OPEN then inv_payInvoiceUrl i else Some []) \<rparr>]\<rparr>)) (\<lambda>_.
              returnS (Some True)))
      else returnS None)"

text \<open>The transactions of an invoice are updated one after the other; the code does it concurrently.\<close>

definition update_session_billing :: "billing_invoice \<Rightarrow> billing_session_data \<Rightarrow> unit \<Rightarrow> ('s billing_world, unit) handler" where
  "update_session_billing i x _ =
     bindS (readS (loadTransaction (bsd_transactionID x))) (\<lambda>found.
     case found of
       None \<Rightarrow> returnS ()
     | Some t \<Rightarrow>
         (case tx_billingData t of
            None \<Rightarrow> returnS ()
          | Some d \<Rightarrow>
              (case bd_stop d of
                 None \<Rightarrow> returnS ()
               | Some st \<Rightarrow>
                   bindS (readS now_of) (\<lambda>now.
                   saveTransactionBillingData (tx_id t)
                     (Some (d\<lparr>bd_stop := Some (st\<lparr>bst_invoiceStatus := Some (inv_status i), bst_invoiceNumber := inv_number i\<rparr>),
                              bd_lastUpdate := now\<rparr>))))))"

definition updateTransactionsBillingData :: "billing_invoice \<Rightarrow> ('s billing_world, unit) handler" where
  "updateTransactionsBillingData i =
     (case inv_sessions i of
        None \<Rightarrow> throwS (BackendError ''Unexpected situation - Invoice has no sessions attached to it'')
      | Some ss \<Rightarrow> foldS (update_session_billing i) ss ())"

definition chargeInvoice :: "'s billing_env \<Rightarrow> setting \<Rightarrow> billing_invoice \<Rightarrow> ('s billing_world, billing_invoice) handler" where
  "chargeInvoice env b i =
     bindS (checkConnection env b) (\<lambda>_.
     bindS (chargeStripeInvoice env (inv_invoiceID i)) (\<lambda>r.
     bindS (case r of
              Inl e \<Rightarrow> if isResourceMissingError e
                       then bindS (updateInvoiceAdditionalData i (Some r) None) (\<lambda>_. throwS e)
                       else getStripeInvoice env (inv_invoiceID i)
            | Inr si \<Rightarrow> returnS si) (\<lambda>si.
     bindS (synchronizeAsBillingInvoice env si False) (\<lambda>saved.
     case saved of
       None \<Rightarrow> throwS (BackendError ''Unexpected situation - failed to synchronize - the invoice is null'')
     | Some i' \<Rightarrow>
         bindS (updateInvoiceAdditionalData i' (Some r) None) (\<lambda>_.
         bindS (sendInvoiceNotification i') (\<lambda>_.
         bindS (updateTransactionsBillingData i') (\<lambda>_.
         returnS i')))))))"

section \<open>Starting a session\<close>

definition checkStartTransaction :: "transaction \<Rightarrow> unit res" where
  "checkStartTransaction t =
     (if \<not> truthy_str (tx_userID t) \<or> tx_user t = None then Inl (BackendError ''User is not provided'')
      else if \<not> truthy_str (Option.bind (tx_user t) customerID_of)
      then Inl (BackendError ''User has no billing data or no customer ID'')
      else Inr ())"

definition checkStripeCustomer :: "'s billing_env \<Rightarrow> string option \<Rightarrow> ('s billing_world, stripe_customer) handler" where
  "checkStripeCustomer env customerID =
     bindS (getStripeCustomer env customerID) (\<lambda>c.
     case c of None \<Rightarrow> throwS (BackendError ''Customer not found'') | Some x \<Rightarrow> returnS x)"

definition isPaymentMethodStillValid :: "int \<Rightarrow> billing_payment_method option \<Rightarrow> bool res" where
  "isPaymentMethodStillValid now m =
     (case m of None \<Rightarrow> Inl TypeError | Some x \<Rightarrow> Inr (\<not> bpm_expiringOn x < now))"

definition checkStripePaymentMethod :: "'s billing_env \<Rightarrow> stripe_customer \<Rightarrow> ('s billing_world, unit) handler" where
  "checkStripePaymentMethod env c =
     (if isDevelopmentEnv env \<and> truthy_str (sc_default_source c) then returnS ()
      else if \<not> truthy_str (sc_default_payment_method c)
      then throwS (BackendError ''Customer has no default payment method'')
      else
        bindS (getStripePaymentMethod env (or_else (sc_default_payment_method c) []) True) (\<lambda>m.
        bindS (readS now_of) (\<lambda>now.
        bindS (liftS (isPaymentMethodStillValid now m)) (\<lambda>ok.
        if ok then returnS () else throwS (BackendError ''Default payment method has expired'')))))"

definition stripe_startTransaction :: "'s billing_env \<Rightarrow> setting \<Rightarrow> transaction \<Rightarrow> ('s billing_world, bool) handler" where
  "stripe_startTransaction env b t =
     (if \<not> transactionBillingActivated b then returnS False
      else if (case tx_user t of None \<Rightarrow> False | Some u \<Rightarrow> usr_freeAccess u) then returnS False
      else
        bindS (checkConnection env b) (\<lambda>_.
        bindS (liftS (checkStartTransaction t)) (\<lambda>_.
        bindS (checkStripeCustomer env (Option.bind (tx_user t) customerID_of)) (\<lambda>c.
        bindS (checkStripePaymentMethod env c) (\<lambda>_.
        returnS True)))))"

definition stripe_updateTransaction :: "transaction \<Rightarrow> bool option" where
  "stripe_updateTransaction t = map_option bd_withBillingActive (tx_billingData t)"

text \<open>What a start would be refused for, asked beforehand.\<close>

datatype StartTransactionErrorCode = BILLING_NO_PAYMENT_METHOD | BILLING_NO_TAX | BILLING_NO_SETTINGS | BILLING_INCONSISTENT_SETTINGS

definition precheckStartTransactionPrerequisites ::
  "'s billing_env \<Rightarrow> setting \<Rightarrow> user \<Rightarrow> ('s billing_world, StartTransactionErrorCode list) handler" where
  "precheckStartTransactionPrerequisites env b u =
     (if \<not> transactionBillingActivated b then returnS []
      else if usr_freeAccess u then returnS []
      else
        catchS (bindS (checkConnection env b) (\<lambda>_.
          bindS (catchS (bindS (checkTaxPrerequisites env b) (\<lambda>_. returnS [])) (\<lambda>_. returnS [BILLING_NO_TAX])) (\<lambda>taxCodes.
          bindS (catchS (bindS (checkStripeCustomer env (customerID_of u)) (\<lambda>c.
                         bindS (checkStripePaymentMethod env c) (\<lambda>_. returnS [])))
                        (\<lambda>_. returnS [BILLING_NO_PAYMENT_METHOD])) (\<lambda>userCodes.
          returnS (taxCodes @ userCodes)))))
        (\<lambda>_. returnS [BILLING_NO_SETTINGS]))"

section \<open>Stopping and ending a session\<close>

text \<open>The time spent, in milliseconds; the code divides by 1000.\<close>

definition computeTimeSpentMillis :: "transaction \<Rightarrow> int res" where
  "computeTimeSpentMillis t =
     (case tx_stop t of
        Some st \<Rightarrow> Inr (stop_timestamp st - tx_timestamp t)
      | None \<Rightarrow> (case rt_lastConsumption (tx_run t) of None \<Rightarrow> Inl TypeError | Some c \<Rightarrow> Inr (lc_timestamp c - tx_timestamp t)))"

definition checkBillingDataThreshold :: "'s billing_env \<Rightarrow> transaction \<Rightarrow> bool res" where
  "checkBillingDataThreshold env t =
     (if isDevelopmentEnv env then Inr True
      else
        bindE (computeTimeSpentMillis t) (\<lambda>timeSpent.
        if timeSpent < 60 * 1000 then Inr False
        else (case tx_stop t of None \<Rightarrow> Inl TypeError | Some st \<Rightarrow> Inr (\<not> stop_totalConsumptionWh st < 1000))))"

definition only_status :: "BillingStatus \<Rightarrow> billing_stop" where
  "only_status s = \<lparr> bst_status = s, bst_invoiceID = None, bst_invoiceNumber = None, bst_invoiceStatus = None, bst_invoiceItem = None \<rparr>"

definition billing_active :: "transaction \<Rightarrow> bool" where
  "billing_active t = (case tx_billingData t of None \<Rightarrow> False | Some d \<Rightarrow> bd_withBillingActive d)"

definition billing_stop_of :: "transaction \<Rightarrow> billing_stop option" where
  "billing_stop_of t = Option.bind (tx_billingData t) bd_stop"

definition stripe_stopTransaction :: "'s billing_env \<Rightarrow> transaction \<Rightarrow> billing_stop res" where
  "stripe_stopTransaction env t =
     (if \<not> billing_active t then Inr (only_status UNBILLED)
      else bindE (checkBillingDataThreshold env t) (\<lambda>ok. Inr (only_status (if ok then BillingStatus.PENDING else UNBILLED))))"

definition stripe_endTransaction :: "transaction \<Rightarrow> ('s billing_world, billing_stop) handler" where
  "stripe_endTransaction t =
     (if \<not> billing_active t then returnS (only_status UNBILLED)
      else
        (case billing_stop_of t of
           Some st \<Rightarrow>
             if bst_status st = BILLED \<or> bst_status st = UNBILLED then returnS st
             else if \<not> (case tx_stop t of None \<Rightarrow> False | Some x \<Rightarrow> stop_extraInactivityComputed x) then returnS st
             else bindS (modifyS (\<lambda>w. w\<lparr>bw_tasks := bw_tasks w @ [\<lparr> btk_transactionID = tx_id t, btk_userID = tx_userID t \<rparr>]\<rparr>))
                    (\<lambda>_. returnS (only_status BillingStatus.PENDING))
         | None \<Rightarrow>
             if \<not> (case tx_stop t of None \<Rightarrow> False | Some x \<Rightarrow> stop_extraInactivityComputed x) then returnS (only_status BillingStatus.PENDING)
             else bindS (modifyS (\<lambda>w. w\<lparr>bw_tasks := bw_tasks w @ [\<lparr> btk_transactionID = tx_id t, btk_userID = tx_userID t \<rparr>]\<rparr>))
                    (\<lambda>_. returnS (only_status BillingStatus.PENDING))))"

section \<open>Billing a session\<close>

definition checkBillTransaction :: "charging_station option \<Rightarrow> transaction \<Rightarrow> unit res" where
  "checkBillTransaction chargeBox t =
     (if \<not> truthy_str (tx_userID t) \<or> tx_user t = None then Inl (BackendError ''User is not provided'')
      else if chargeBox = None then Inl (BackendError ''Charging Station is not provided'')
      else if \<not> truthy_str (Option.bind (tx_user t) customerID_of) then Inl (BackendError ''User has no Billing Data'')
      else Inr ())"

definition enrich_dimension ::
  "'s billing_env \<Rightarrow> setting \<Rightarrow> transaction \<Rightarrow> DimensionType \<Rightarrow> priced_consumption_data \<Rightarrow> priced_consumption_data" where
  "enrich_dimension env b t d p =
     (case pcd_of d p of
        None \<Rightarrow> p
      | Some x \<Rightarrow> set_pcd d (x\<lparr>pdd_itemDescription := Some (be_itemDescription env t d x), pdd_taxes := Some (getTaxRateIds b)\<rparr>) p)"

definition enrichTransactionPricingData ::
  "'s billing_env \<Rightarrow> setting \<Rightarrow> transaction \<Rightarrow> priced_consumption_data \<Rightarrow> priced_consumption_data" where
  "enrichTransactionPricingData env b t p =
     enrich_dimension env b t PARKING_TIME (enrich_dimension env b t DimensionType.CHARGING_TIME
       (enrich_dimension env b t ENERGY (enrich_dimension env b t FLAT_FEE p)))"

definition extractTransactionPricingData ::
  "'s billing_env \<Rightarrow> setting \<Rightarrow> transaction \<Rightarrow> priced_consumption_data list" where
  "extractTransactionPricingData env b t =
     (let pricingData = extractFinalPricingData (tx_pricingModel t);
          shown = (if \<not> isFeatureActive BILLING_SHOW_PRICING_DETAIL then [accumulatePricedConsumption pricingData] else pricingData)
      in map (enrichTransactionPricingData env b t) shown)"

definition convertToBillingInvoiceItem :: "'s billing_env \<Rightarrow> setting \<Rightarrow> transaction \<Rightarrow> billing_invoice_item res" where
  "convertToBillingInvoiceItem env b t =
     (case tx_stop t of
        None \<Rightarrow> Inl TypeError
      | Some st \<Rightarrow>
          Inr \<lparr> bii_transactionID = tx_id t, bii_currency = stop_priceUnit st,
                bii_pricingData = extractTransactionPricingData env b t,
                bii_headerDescription = Some (be_header env t),
                bii_metadata = [(''tenantID'', ve_tenantID env), (''transactionID'', show_int (tx_id t)),
                  (''userID'', or_else (tx_userID t) []), (''begin'', show_int (tx_timestamp t))] \<rparr>)"

definition shrinkInvoiceItem :: "billing_invoice_item \<Rightarrow> billing_invoice_item" where
  "shrinkInvoiceItem i = i\<lparr>bii_headerDescription := None, bii_metadata := []\<rparr>"

text \<open>No key for the identifier 0.\<close>

definition buildIdemPotencyKey :: "int \<Rightarrow> string \<Rightarrow> string option \<Rightarrow> string option" where
  "buildIdemPotencyKey uniqueId prefix suffix =
     (if uniqueId = 0 then None
      else if truthy_str suffix then Some (prefix @ ''_'' @ show_int uniqueId @ ''_'' @ or_else suffix [])
      else Some (prefix @ ''_'' @ show_int uniqueId))"

fun dimension_name :: "DimensionType \<Rightarrow> string" where
  "dimension_name FLAT_FEE = ''flatFee''"
| "dimension_name ENERGY = ''energy''"
| "dimension_name DimensionType.CHARGING_TIME = ''chargingTime''"
| "dimension_name PARKING_TIME = ''parkingTime''"

definition createStripeInvoiceItem ::
  "'s billing_env \<Rightarrow> invoice_item_params \<Rightarrow> string option \<Rightarrow> ('s billing_world, unit) handler" where
  "createStripeInvoiceItem env params idempotencyKey = call env (\<lambda>p. pf_invoiceItems_create p params idempotencyKey)"

text \<open>An invoice that is not set is left out of the parameters, and so is one with an empty identifier.\<close>

definition set_if_truthy :: "string option \<Rightarrow> string option" where
  "set_if_truthy s = (if truthy_str s then s else None)"

definition createStripeInvoiceItemHeader ::
  "'s billing_env \<Rightarrow> string option \<Rightarrow> billing_invoice_item \<Rightarrow> string option \<Rightarrow> ('s billing_world, unit) handler" where
  "createStripeInvoiceItemHeader env customerID item invoiceID =
     (if \<not> truthy_str (bii_headerDescription item) then returnS ()
      else
        (case bii_currency item of
           None \<Rightarrow> throwS TypeError
         | Some currency \<Rightarrow>
             createStripeInvoiceItem env
               \<lparr> iip_invoice = set_if_truthy invoiceID, iip_customer = customerID, iip_currency = to_lower currency,
                 iip_description = bii_headerDescription item, iip_tax_rates = [], iip_amount = 0,
                 iip_dimension = None, iip_metadata = bii_metadata item \<rparr>
               (buildIdemPotencyKey (bii_transactionID item) ''invoice'' (Some ''items-header''))))"

definition createStripeInvoiceItem4Dimension ::
  "'s billing_env \<Rightarrow> string option \<Rightarrow> DimensionType \<Rightarrow> billing_invoice_item \<Rightarrow> priced_consumption_data \<Rightarrow> nat \<Rightarrow>
   string option \<Rightarrow> ('s billing_world, unit) handler" where
  "createStripeInvoiceItem4Dimension env customerID dimension item pricedData counter invoiceID =
     (case pcd_of dimension pricedData of
        None \<Rightarrow> returnS ()
      | Some d \<Rightarrow>
          if pdd_amount d = 0 \<or> pdd_quantity d = 0 then returnS ()
          else
            (case bii_currency item of
               None \<Rightarrow> throwS TypeError
             | Some currency \<Rightarrow>
                 createStripeInvoiceItem env
                   \<lparr> iip_invoice = set_if_truthy invoiceID, iip_customer = customerID, iip_currency = to_lower currency,
                     iip_description = pdd_itemDescription d, iip_tax_rates = or_else (pdd_taxes d) [],
                     iip_amount = pdd_roundedAmount d * 100, iip_dimension = Some dimension, iip_metadata = bii_metadata item \<rparr>
                   (buildIdemPotencyKey (bii_transactionID item) ''invoice''
                      (Some (dimension_name dimension @ ''-'' @ show_int (int counter))))))"

definition createStripeInvoiceItems4PricingConsumptionData ::
  "'s billing_env \<Rightarrow> string option \<Rightarrow> billing_invoice_item \<Rightarrow> priced_consumption_data \<Rightarrow> nat \<Rightarrow> string option \<Rightarrow>
   ('s billing_world, unit) handler" where
  "createStripeInvoiceItems4PricingConsumptionData env customerID item pricedData counter invoiceID =
     bindS (createStripeInvoiceItem4Dimension env customerID FLAT_FEE item pricedData counter invoiceID) (\<lambda>_.
     bindS (createStripeInvoiceItem4Dimension env customerID DimensionType.CHARGING_TIME item pricedData counter invoiceID) (\<lambda>_.
     bindS (createStripeInvoiceItem4Dimension env customerID ENERGY item pricedData counter invoiceID) (\<lambda>_.
     createStripeInvoiceItem4Dimension env customerID PARKING_TIME item pricedData counter invoiceID)))"

definition createStripeInvoiceItems ::
  "'s billing_env \<Rightarrow> string option \<Rightarrow> billing_invoice_item \<Rightarrow> string option \<Rightarrow> ('s billing_world, unit) handler" where
  "createStripeInvoiceItems env customerID item invoiceID =
     bindS (createStripeInvoiceItemHeader env customerID item invoiceID) (\<lambda>_.
     bindS (foldS (\<lambda>p counter. bindS (createStripeInvoiceItems4PricingConsumptionData env customerID item p (Suc counter) invoiceID)
              (\<lambda>_. returnS (Suc counter))) (bii_pricingData item) 0) (\<lambda>_.
     returnS ()))"

definition getLatestDraftInvoiceOfTheMonth ::
  "'s billing_env \<Rightarrow> string option \<Rightarrow> ('s billing_world, stripe_invoice option) handler" where
  "getLatestDraftInvoiceOfTheMonth env customerID =
     bindS (call env (\<lambda>p. pf_invoices_list p customerID DRAFT)) (\<lambda>found.
     bindS (readS now_of) (\<lambda>now.
     returnS (case found of
         [] \<Rightarrow> None
       | si # _ \<Rightarrow> if same_month (be_clock env) (siv_created si * 1000) now then Some si else None)))"

definition billInvoiceItem ::
  "'s billing_env \<Rightarrow> setting \<Rightarrow> user \<Rightarrow> billing_invoice_item \<Rightarrow> ('s billing_world, billing_invoice) handler" where
  "billInvoiceItem env b u item =
     (let customerID = customerID_of u in
      bindS (if immediateBillingAllowed b then returnS None else getLatestDraftInvoiceOfTheMonth env customerID) (\<lambda>draft.
      bindS (createStripeInvoiceItems env customerID item (map_option siv_id draft)) (\<lambda>_.
      bindS (case draft of
               None \<Rightarrow> createStripeInvoice env customerID (usr_id u) (buildIdemPotencyKey (bii_transactionID item) ''invoice'' None)
             | Some si \<Rightarrow> returnS si) (\<lambda>si.
      bindS (if immediateBillingAllowed b
             then bindS (chargeStripeInvoice env (siv_id si)) (\<lambda>r. returnS (Some r)) else returnS None) (\<lambda>r.
      bindS (case r of
               Some (Inr si') \<Rightarrow> if draft \<noteq> None then getStripeInvoice env (siv_id si') else returnS si'
             | Some (Inl _) \<Rightarrow> getStripeInvoice env (siv_id si)
             | None \<Rightarrow> if draft \<noteq> None then getStripeInvoice env (siv_id si) else returnS si) (\<lambda>si'.
      bindS (synchronizeAsBillingInvoice env si' False) (\<lambda>saved.
      case saved of
        None \<Rightarrow> throwS (BackendError ''Unexpected situation - failed to synchronize - the invoice is null'')
      | Some i \<Rightarrow> bindS (updateInvoiceAdditionalData i r (Some item)) (\<lambda>_. returnS i))))))))"

text \<open>The checks raise; what fails while the session is billed makes it failed.\<close>

definition billTransaction ::
  "'s billing_env \<Rightarrow> setting \<Rightarrow> charging_station option \<Rightarrow> transaction \<Rightarrow> ('s billing_world, billing_stop) handler" where
  "billTransaction env b chargeBox t =
     bindS (checkConnection env b) (\<lambda>_.
     bindS (liftS (checkBillTransaction chargeBox t)) (\<lambda>_.
     case tx_user t of
       None \<Rightarrow> throwS TypeError
     | Some u \<Rightarrow>
         catchS
           (bindS (getStripeCustomer env (customerID_of u)) (\<lambda>customer.
            if customer = None then returnS (only_status FAILED)
            else
              bindS (liftS (convertToBillingInvoiceItem env b t)) (\<lambda>item.
              bindS (billInvoiceItem env b u item) (\<lambda>i.
              bindS (sendInvoiceNotification i) (\<lambda>_.
              returnS \<lparr> bst_status = BILLED, bst_invoiceID = Some (inv_id i), bst_invoiceNumber = inv_number i,
                        bst_invoiceStatus = Some (inv_status i), bst_invoiceItem = Some (shrinkInvoiceItem item) \<rparr>)))))
           (\<lambda>_. returnS (only_status FAILED))))"

end
