(* ===== verification/Session_Invoice.thy ===== *)
theory Session_Invoice
  imports Stripe_Billing
begin

text \<open>
  What the lines of an invoice come to: the items that are created for a session add the amounts that the session was
  priced, each cut to cents, and however often the creation is tried again, they add them once.
\<close>

section \<open>The ledger of the platform\<close>

text \<open>
  What the platform documents of the items of invoices that are created with a key, while it keeps the key (a day at
  least). \<open>items\<close> are those that were created, with their parameters, and \<open>owed\<close> is what each customer owes in cents. A request
  with the key of an item adds nothing: it repeats the first answer, or fails when its parameters are not those of the
  item. One with another key adds the item, although its answer may be lost; or it fails and adds nothing.
\<close>

definition ledger :: "'s platform \<Rightarrow> ('s \<Rightarrow> string \<Rightarrow> invoice_item_params option) \<Rightarrow> ('s \<Rightarrow> string option \<Rightarrow> rat) \<Rightarrow> bool" where
  "ledger p items owed =
     (\<forall>x k s. case pf_invoiceItems_create p x (Some k) s of (s', r) \<Rightarrow>
        (case items s k of
           Some y \<Rightarrow> items s' = items s \<and> owed s' = owed s \<and> (x \<noteq> y \<longrightarrow> \<not> is_ok r)
         | None \<Rightarrow> items s' = items s \<and> owed s' = owed s \<and> \<not> is_ok r
             \<or> items s' = (items s)(k \<mapsto> x) \<and> owed s' = (owed s)(iip_customer x := owed s (iip_customer x) + iip_amount x)))"

definition item_key :: "int \<Rightarrow> DimensionType \<Rightarrow> string" where
  "item_key i d = ''invoice_'' @ show_int i @ ''_'' @ dimension_name d @ ''-1''"

definition header_key :: "int \<Rightarrow> string" where
  "header_key i = ''invoice_'' @ show_int i @ ''_items-header''"

definition session_keys :: "int \<Rightarrow> string set" where
  "session_keys i = insert (header_key i) (range (item_key i))"

definition charged :: "priced_dimension_data option \<Rightarrow> rat" where
  "charged x = (case x of None \<Rightarrow> 0 | Some d \<Rightarrow> if pdd_amount d = 0 \<or> pdd_quantity d = 0 then 0 else pdd_roundedAmount d * 100)"

lemma item_key_inj: "item_key i d = item_key i e \<longleftrightarrow> d = e"
  by (cases d; cases e) (simp_all add: item_key_def)

lemma header_not_item: "header_key i \<noteq> item_key i d"
  by (cases d) (simp_all add: item_key_def header_key_def)

lemma show_one: "show_int 1 = ''1''"
  by code_simp

lemma dimension_key:
  "i \<noteq> 0 \<Longrightarrow> buildIdemPotencyKey i ''invoice'' (Some (dimension_name d @ ''-'' @ show_int (int (Suc 0)))) = Some (item_key i d)"
  by (cases d) (simp_all add: buildIdemPotencyKey_def item_key_def show_one)

lemma head_key: "i \<noteq> 0 \<Longrightarrow> buildIdemPotencyKey i ''invoice'' (Some ''items-header'') = Some (header_key i)"
  by (simp add: buildIdemPotencyKey_def header_key_def truthy_str_def)

section \<open>One item\<close>

text \<open>What the items of a list that exist come to, and the state after some of them were added.\<close>

definition worth :: "(string \<Rightarrow> 'p option) \<Rightarrow> (string \<times> rat) list \<Rightarrow> rat" where
  "worth m L = sum_list (map (\<lambda>(k, a). if m k = None then 0 else a) L)"

definition added :: "('s \<Rightarrow> string \<Rightarrow> 'p option) \<Rightarrow> ('s \<Rightarrow> string option \<Rightarrow> rat) \<Rightarrow> string option \<Rightarrow> (string \<times> rat) list \<Rightarrow> 's \<Rightarrow> 's \<Rightarrow> bool" where
  "added items owed c L s s' =
     ((\<forall>k. items s k \<noteq> None \<longrightarrow> items s' k \<noteq> None)
      \<and> (\<exists>x. owed s' = (owed s)(c := owed s c + x) \<and> worth (items s') L = worth (items s) L + x))"

lemma added_same: "added items owed c L s s"
  by (auto simp: added_def intro!: exI[of _ 0])

lemma added_trans:
  assumes "added items owed c L s t" and "added items owed c L t u"
  shows "added items owed c L s u"
proof -
  obtain x y where "owed t = (owed s)(c := owed s c + x)" "worth (items t) L = worth (items s) L + x"
      "owed u = (owed t)(c := owed t c + y)" "worth (items u) L = worth (items t) L + y"
    using assms by (auto simp: added_def)
  then have "owed u = (owed s)(c := owed s c + (x + y))" "worth (items u) L = worth (items s) L + (x + y)"
    by (simp_all add: add.assoc)
  then show ?thesis using assms unfolding added_def by blast
qed

lemma worth_put:
  assumes "distinct (map fst L)" and "(k, a) \<in> set L" and "m k = None"
  shows "worth (m(k \<mapsto> x)) L = worth m L + a"
  using assms
proof (induction L)
  case (Cons e L)
  have same: "worth (m(k \<mapsto> x)) L = worth m L" if "k \<notin> fst ` set L"
    unfolding worth_def using that by (intro arg_cong[of _ _ sum_list] map_cong refl) (auto simp: rev_image_eqI)
  show ?case
  proof (cases "e = (k, a)")
    case True
    with Cons.prems same show ?thesis by (simp add: worth_def)
  next
    case False
    with Cons.prems have "fst e \<noteq> k" "(k, a) \<in> set L" by (auto simp: rev_image_eqI)
    with Cons show ?thesis by (cases e) (simp add: worth_def)
  qed
qed simp

text \<open>
  A handler of a connected world that creates items of the list \<open>L\<close>: it only changes the platform, it adds to what the
  customer owes what the items come to that it adds, and when it succeeds the items \<open>xs\<close> exist.
\<close>

definition bills ::
  "('s \<Rightarrow> string \<Rightarrow> 'p option) \<Rightarrow> ('s \<Rightarrow> string option \<Rightarrow> rat) \<Rightarrow> string \<Rightarrow> string option \<Rightarrow> (string \<times> rat) list \<Rightarrow>
   ('s billing_world, unit) handler \<Rightarrow> (string \<times> rat) list \<Rightarrow> bool" where
  "bills items owed key c L m xs =
     (\<forall>w. bw_key w = Some key \<longrightarrow> (\<exists>s' r. m w = (w\<lparr>bw_platform := s'\<rparr>, r) \<and> added items owed c L (bw_platform w) s'
        \<and> (r = Inr () \<longrightarrow> (\<forall>(k, a) \<in> set xs. a \<noteq> 0 \<longrightarrow> items s' k \<noteq> None))))"

lemma bills_bind:
  fixes m n :: "('s billing_world, unit) handler"
  assumes m: "bills items owed key c L m xs" and n: "bills items owed key c L n ys"
  shows "bills items owed key c L (bindS m (\<lambda>_. n)) (xs @ ys)"
  unfolding bills_def
proof (intro allI impI)
  fix w :: "'s billing_world"
  assume k: "bw_key w = Some key"
  obtain s r where s: "m w = (w\<lparr>bw_platform := s\<rparr>, r)" "added items owed c L (bw_platform w) s"
      "r = Inr () \<longrightarrow> (\<forall>(k, a) \<in> set xs. a \<noteq> 0 \<longrightarrow> items s k \<noteq> None)"
    using m k unfolding bills_def by blast
  have "bw_key (w\<lparr>bw_platform := s\<rparr>) = Some key" using k by simp
  then obtain s' r' where s': "n (w\<lparr>bw_platform := s\<rparr>) = (w\<lparr>bw_platform := s'\<rparr>, r')" "added items owed c L s s'"
      "r' = Inr () \<longrightarrow> (\<forall>(k, a) \<in> set ys. a \<noteq> 0 \<longrightarrow> items s' k \<noteq> None)"
    using n unfolding bills_def by fastforce
  show "\<exists>s' r. bindS m (\<lambda>_. n) w = (w\<lparr>bw_platform := s'\<rparr>, r) \<and> added items owed c L (bw_platform w) s'
        \<and> (r = Inr () \<longrightarrow> (\<forall>(k, a) \<in> set (xs @ ys). a \<noteq> 0 \<longrightarrow> items s' k \<noteq> None))"
  proof (cases r)
    case (Inl e)
    with s show ?thesis by (intro exI[of _ s] exI[of _ "Inl e"]) (simp add: bindS_def)
  next
    case (Inr u)
    have "\<forall>k. items s k \<noteq> None \<longrightarrow> items s' k \<noteq> None" using s'(2) by (simp add: added_def)
    with s s' Inr added_trans[OF s(2) s'(2)] show ?thesis
      by (intro exI[of _ s'] exI[of _ r']) (auto simp: bindS_def)
  qed
qed

lemma bills_skip:
  fixes items :: "'s \<Rightarrow> string \<Rightarrow> 'p option"
  assumes "\<And>k a. (k, a) \<in> set xs \<Longrightarrow> a = 0"
  shows "bills items owed key c L (returnS ()) xs"
  unfolding bills_def
proof (intro allI impI)
  fix w :: "'s billing_world"
  show "\<exists>s' r. returnS () w = (w\<lparr>bw_platform := s'\<rparr>, r) \<and> added items owed c L (bw_platform w) s'
      \<and> (r = Inr () \<longrightarrow> (\<forall>(k, a) \<in> set xs. a \<noteq> 0 \<longrightarrow> items s' k \<noteq> None))"
    using assms by (intro exI[of _ "bw_platform w"] exI[of _ "Inr ()"]) (auto simp: returnS_def added_same)
qed

lemma call_create:
  fixes env :: "'s billing_env"
  assumes "ledger (be_platform env key) items owed" and L: "distinct (map fst L)" "(k, a) \<in> set L"
    and "iip_customer x = c" and "iip_amount x = a"
  shows "bills items owed key c L (createStripeInvoiceItem env x (Some k)) [(k, a)]"
  unfolding bills_def
proof (intro allI impI)
  fix w :: "'s billing_world"
  assume key: "bw_key w = Some key"
  let ?s = "bw_platform w"
  obtain s' r where c: "pf_invoiceItems_create (be_platform env key) x (Some k) ?s = (s', r)" by force
  have led: "case items ?s k of
      Some y \<Rightarrow> items s' = items ?s \<and> owed s' = owed ?s \<and> (x \<noteq> y \<longrightarrow> \<not> is_ok r)
    | None \<Rightarrow> items s' = items ?s \<and> owed s' = owed ?s \<and> \<not> is_ok r
        \<or> items s' = (items ?s)(k \<mapsto> x) \<and> owed s' = (owed ?s)(c := owed ?s c + a)"
    using assms(1)[unfolded ledger_def, THEN spec[of _ x], THEN spec[of _ k], THEN spec[of _ ?s]] assms(4,5) c by (simp split: option.splits)
  have "added items owed c L ?s s' \<and> (r = Inr () \<longrightarrow> items s' k \<noteq> None)"
  proof (cases "items ?s k")
    case (Some y)
    with led show ?thesis by (auto simp: added_def intro!: exI[of _ 0])
  next
    case None
    with led worth_put[where m = "items ?s" and x = x, OF L None] show ?thesis by (auto simp: added_def intro: exI[of _ a] exI[of _ 0])
  qed
  then show "\<exists>s' r. createStripeInvoiceItem env x (Some k) w = (w\<lparr>bw_platform := s'\<rparr>, r) \<and> added items owed c L ?s s'
      \<and> (r = Inr () \<longrightarrow> (\<forall>(k, a) \<in> set [(k, a)]. a \<noteq> 0 \<longrightarrow> items s' k \<noteq> None))"
    using key c by (intro exI[of _ s'] exI[of _ r]) (simp add: createStripeInvoiceItem_def call_def)
qed

section \<open>The items of a session\<close>

definition invoice_dimensions :: "DimensionType list" where
  "invoice_dimensions = [FLAT_FEE, DimensionType.CHARGING_TIME, ENERGY, PARKING_TIME]"

definition session_items :: "int \<Rightarrow> priced_consumption_data \<Rightarrow> (string \<times> rat) list" where
  "session_items i data = (header_key i, 0) # map (\<lambda>d. (item_key i d, charged (pcd_of d data))) invoice_dimensions"

lemma session_items_distinct: "distinct (map fst (session_items i data))"
  by (simp add: session_items_def invoice_dimensions_def item_key_inj header_not_item)

lemma create_header:
  assumes "ledger (be_platform env key) items owed" and "bii_transactionID item \<noteq> 0" and "bii_currency item = Some cur"
  shows "bills items owed key c (session_items (bii_transactionID item) data) (createStripeInvoiceItemHeader env c item iid)
    [(header_key (bii_transactionID item), 0)]"
proof (cases "truthy_str (bii_headerDescription item)")
  case True
  then show ?thesis
    using assms(2,3)
    by (simp add: createStripeInvoiceItemHeader_def head_key)
      (intro call_create[OF assms(1) session_items_distinct]; simp add: session_items_def)
next
  case False
  then show ?thesis by (simp add: createStripeInvoiceItemHeader_def) (intro bills_skip; simp)
qed

lemma create_dimension:
  assumes "ledger (be_platform env key) items owed" and "bii_transactionID item \<noteq> 0" and "bii_currency item = Some cur"
    and "d \<in> set invoice_dimensions"
  shows "bills items owed key c (session_items (bii_transactionID item) data)
    (createStripeInvoiceItem4Dimension env c d item data (Suc 0) iid) [(item_key (bii_transactionID item) d, charged (pcd_of d data))]"
proof (cases "case pcd_of d data of None \<Rightarrow> True | Some x \<Rightarrow> pdd_amount x = 0 \<or> pdd_quantity x = 0")
  case True
  then have "createStripeInvoiceItem4Dimension env c d item data (Suc 0) iid = returnS ()" "charged (pcd_of d data) = 0"
    by (auto simp: createStripeInvoiceItem4Dimension_def charged_def split: option.splits)
  then show ?thesis by (simp, intro bills_skip) auto
next
  case False
  then obtain x where x: "pcd_of d data = Some x" "pdd_amount x \<noteq> 0" "pdd_quantity x \<noteq> 0"
    by (auto split: option.splits)
  then show ?thesis
    using assms(2-4) dimension_key[OF assms(2), of d]
    by (simp add: createStripeInvoiceItem4Dimension_def charged_def)
      (intro call_create[OF assms(1) session_items_distinct]; force simp: session_items_def charged_def)
qed

lemma create_items:
  assumes "ledger (be_platform env key) items owed" and "bii_transactionID item \<noteq> 0"
    and "bii_currency item = Some cur" and "bii_pricingData item = [data]"
  shows "bills items owed key c (session_items (bii_transactionID item) data) (createStripeInvoiceItems env c item iid)
    (session_items (bii_transactionID item) data)"
proof -
  let ?i = "bii_transactionID item" and ?L = "session_items (bii_transactionID item) data"
  note d = create_dimension[OF assms(1-3), of _ c data iid]
  have "bills items owed key c ?L (createStripeInvoiceItems4PricingConsumptionData env c item data (Suc 0) iid)
      (map (\<lambda>d. (item_key ?i d, charged (pcd_of d data))) invoice_dimensions)"
    using bills_bind[OF d[of FLAT_FEE] bills_bind[OF d[of DimensionType.CHARGING_TIME] bills_bind[OF d[of ENERGY] d[of PARKING_TIME]]]]
    by (simp add: createStripeInvoiceItems4PricingConsumptionData_def invoice_dimensions_def)
  from bills_bind[OF create_header[OF assms(1-3)] this]
  have "bills items owed key c ?L (bindS (createStripeInvoiceItemHeader env c item iid) (\<lambda>_.
      createStripeInvoiceItems4PricingConsumptionData env c item data (Suc 0) iid)) ?L"
    by (simp add: session_items_def)
  moreover have "createStripeInvoiceItems env c item iid = bindS (createStripeInvoiceItemHeader env c item iid) (\<lambda>_.
      createStripeInvoiceItems4PricingConsumptionData env c item data (Suc 0) iid)"
    by (simp add: createStripeInvoiceItems_def assms(4) bindS_def returnS_def fun_eq_iff split: prod.splits sum.splits)
  ultimately show ?thesis by simp
qed

section \<open>The amounts of a session\<close>

lemma final_data:
  assumes "sound_definition d" and "extractFinalPricedConsumptionData d = Some p"
  shows "sound_data p"
proof -
  have e: "pcd_of t p = Option.bind (dim_of t (def_dimensions d)) dim_pricedData" for t
    using assms(2) by (cases t) (auto simp: extractFinalPricedConsumptionData_def Let_def split: if_splits)
  have "case pcd_of t p of None \<Rightarrow> True | Some pd \<Rightarrow> sound_pd pd" for t
    using assms(1) unfolding e sound_definition_def
    by (cases "dim_of t (def_dimensions d)") (auto simp: sound_dim_def split: option.splits dest!: spec[of _ t])
  then show ?thesis by (simp add: sound_data_def)
qed

lemma final_measure:
  "(case extractFinalPricedConsumptionData d of None \<Rightarrow> 0 | Some p \<Rightarrow> reported f (pcd_of t p))
     = stored_measure f (dim_of t (def_dimensions d))"
  by (cases t) (auto simp: extractFinalPricedConsumptionData_def Let_def stored_measure_def split: option.splits)

lemma sound_has_decimal: "sound_data p \<Longrightarrow> has_decimal p"
  by (auto simp: sound_data_def has_decimal_def sound_pd_def coherent_def split: option.splits dest: spec)

lemma accumulated_data:
  "list_all sound_data ps \<Longrightarrow> sound_data acc \<Longrightarrow> sound_data (fold accumulateAllDimensions ps acc)
     \<and> reported pd_decimal (pcd_of t (fold accumulateAllDimensions ps acc))
       = reported pd_decimal (pcd_of t acc) + sum_list (map (\<lambda>p. reported pd_decimal (pcd_of t p)) ps)"
proof (induction ps arbitrary: acc)
  case (Cons p ps)
  then show ?case
    using Cons.IH[OF _ sound_accumulate[of acc p]] acc_decimal.accumulate_add[of acc p t]
    by (simp add: sound_has_decimal)
qed simp

lemma final_accumulated:
  assumes "sound_model m"
  shows "sound_data (accumulatePricedConsumption (extractFinalPricingData (Some m)))"
    and "amount_of (pcd_of t (accumulatePricedConsumption (extractFinalPricingData (Some m)))) = billed pdd_amount t m"
proof -
  have s: "list_all sound_data (extractFinalPricingData (Some m))"
    using assms by (auto simp: list_all_iff sound_model_def extractFinalPricingData_def List.map_filter_def intro: final_data)
  note a = accumulated_data[OF s sound_none, of t, folded accumulatePricedConsumption_def]
  then show d: "sound_data (accumulatePricedConsumption (extractFinalPricingData (Some m)))" by simp
  have "sum_list (map (\<lambda>p. reported pd_decimal (pcd_of t p)) (extractFinalPricingData (Some m))) = billed pd_decimal t m"
    by (simp add: extractFinalPricingData_def sum_map_filter final_measure billed_def)
  with a amount_of_decimal[OF d] billed_amount_decimal[OF assms] show
    "amount_of (pcd_of t (accumulatePricedConsumption (extractFinalPricingData (Some m)))) = billed pdd_amount t m" by simp
qed

lemma charged_amount:
  assumes "case x of None \<Rightarrow> True | Some pd \<Rightarrow> sound_pd pd"
  shows "charged x = 100 * truncTo (amount_of x) 2" and "0 \<le> amount_of x"
  using assms by (auto simp: charged_def amount_of_def sound_pd_def coherent_def split: option.splits)

lemma pcd_of_enrich:
  "pcd_of u (enrich_dimension env b t d p)
     = (if u = d then map_option (\<lambda>x. x\<lparr>pdd_itemDescription := Some (be_itemDescription env t d x), pdd_taxes := Some (getTaxRateIds b)\<rparr>) (pcd_of d p)
        else pcd_of u p)"
  by (auto simp: enrich_dimension_def split: option.splits)

lemma charged_map:
  "(\<And>x. pdd_amount (f x) = pdd_amount x \<and> pdd_quantity (f x) = pdd_quantity x \<and> pdd_roundedAmount (f x) = pdd_roundedAmount x)
     \<Longrightarrow> charged (map_option f y) = charged y"
  by (cases y) (simp_all add: charged_def)

lemma charged_enriched: "charged (pcd_of u (enrichTransactionPricingData env b t p)) = charged (pcd_of u p)"
  by (simp add: enrichTransactionPricingData_def pcd_of_enrich charged_map)

lemma item_data:
  assumes "convertToBillingInvoiceItem env b t = Inr item" and "tx_pricingModel t = Some m"
  shows "bii_transactionID item = tx_id t"
    and "bii_pricingData item = [enrichTransactionPricingData env b t (accumulatePricedConsumption (extractFinalPricingData (Some m)))]"
  using assms by (auto simp: convertToBillingInvoiceItem_def extractTransactionPricingData_def Let_def isFeatureActive_def activeFeatures_def
      split: option.splits)

section \<open>What an invoice bills\<close>

text \<open>The cents that a session is billed.\<close>

definition session_due :: "pricing_model \<Rightarrow> rat" where
  "session_due m = 100 * sum_list (map (\<lambda>d. truncTo (billed pdd_amount d m) 2) invoice_dimensions)"

lemma session_due_bounds:
  assumes "sound_model m"
  shows "session_due m \<le> 100 * fst (computeCumulatedAmount m)" and "100 * fst (computeCumulatedAmount m) - 4 < session_due m"
proof -
  have n: "0 \<le> billed pdd_amount d m" for d
    using charged_amount(2)[of "pcd_of d (accumulatePricedConsumption (extractFinalPricingData (Some m)))"] final_accumulated[OF assms]
    by (simp add: sound_data_def)
  have b: "truncTo (billed pdd_amount d m) 2 \<le> billed pdd_amount d m" "billed pdd_amount d m - 1 / 100 < truncTo (billed pdd_amount d m) 2" for d
    using truncTo_le[OF n, of d 2] truncTo_gt[OF n, of d 2] by simp_all
  note f = b[of FLAT_FEE] b[of ENERGY] b[of DimensionType.CHARGING_TIME] b[of PARKING_TIME]
  show "session_due m \<le> 100 * fst (computeCumulatedAmount m)"
    unfolding session_due_def invoice_dimensions_def computeCumulatedAmount_eq fst_conv list.map sum_list.Cons sum_list.Nil
    using f by (simp add: distrib_left)
  show "100 * fst (computeCumulatedAmount m) - 4 < session_due m"
    unfolding session_due_def invoice_dimensions_def computeCumulatedAmount_eq fst_conv list.map sum_list.Cons sum_list.Nil
    using f by (simp add: distrib_left)
qed

lemma worth_all:
  assumes "\<And>k a. (k, a) \<in> set L \<Longrightarrow> a \<noteq> 0 \<Longrightarrow> m k \<noteq> None"
  shows "worth m L = sum_list (map snd L)"
  unfolding worth_def using assms by (intro arg_cong[of _ _ sum_list] map_cong refl) fastforce

lemma worth_bounds:
  assumes "\<And>k a. (k, a) \<in> set L \<Longrightarrow> 0 \<le> a"
  shows "0 \<le> worth m L" and "worth m L \<le> sum_list (map snd L)"
  using assms unfolding worth_def by (induction L) (force split: if_splits)+

lemma worth_none: "(\<And>k. k \<in> fst ` set L \<Longrightarrow> m k = None) \<Longrightarrow> worth m L = 0"
  unfolding worth_def by (induction L) auto

lemma session_items_due:
  assumes "sound_model m"
    and data: "data = enrichTransactionPricingData env b t (accumulatePricedConsumption (extractFinalPricingData (Some m)))"
  shows "sum_list (map snd (session_items i data)) = session_due m"
    and "(k, a) \<in> set (session_items i data) \<Longrightarrow> 0 \<le> a"
proof -
  let ?acc = "accumulatePricedConsumption (extractFinalPricingData (Some m))"
  have c: "charged (pcd_of d data) = 100 * truncTo (billed pdd_amount d m) 2" and n: "0 \<le> billed pdd_amount d m" for d
    using charged_amount[of "pcd_of d ?acc"] final_accumulated[OF assms(1)] by (simp_all add: data charged_enriched sound_data_def)
  show "sum_list (map snd (session_items i data)) = session_due m"
    by (simp add: session_items_def session_due_def c o_def sum_list_const_mult)
  show "(k, a) \<in> set (session_items i data) \<Longrightarrow> 0 \<le> a"
    using c n truncTo_nonneg by (auto simp: session_items_def)
qed

text \<open>The creation tried for one invoice after the other, whatever becomes of each attempt.\<close>

definition tried :: "'s billing_env \<Rightarrow> string option \<Rightarrow> billing_invoice_item \<Rightarrow> string option list \<Rightarrow> 's billing_world \<Rightarrow> 's billing_world" where
  "tried env c item iids w = fold (\<lambda>iid w. fst (createStripeInvoiceItems env c item iid w)) iids w"

lemma tried_adds:
  assumes "\<And>iid. bills items owed key c L (createStripeInvoiceItems env c item iid) L" and "bw_key w = Some key"
  shows "bw_key (tried env c item iids w) = Some key \<and> added items owed c L (bw_platform w) (bw_platform (tried env c item iids w))
    \<and> (\<forall>n < length iids. snd (createStripeInvoiceItems env c item (iids ! n) (tried env c item (take n iids) w)) = Inr () \<longrightarrow>
        (\<forall>(k, a) \<in> set L. a \<noteq> 0 \<longrightarrow> items (bw_platform (tried env c item iids w)) k \<noteq> None))"
  using assms(2)
proof (induction iids rule: rev_induct)
  case Nil
  then show ?case by (simp add: tried_def added_same)
next
  case (snoc iid iids)
  let ?w = "tried env c item iids w"
  from snoc have ih: "bw_key ?w = Some key" "added items owed c L (bw_platform w) (bw_platform ?w)"
    "\<And>n. n < length iids \<Longrightarrow> snd (createStripeInvoiceItems env c item (iids ! n) (tried env c item (take n iids) w)) = Inr () \<Longrightarrow>
        \<forall>(k, a) \<in> set L. a \<noteq> 0 \<longrightarrow> items (bw_platform ?w) k \<noteq> None" by blast+
  obtain s' r where s': "createStripeInvoiceItems env c item iid ?w = (?w\<lparr>bw_platform := s'\<rparr>, r)" "added items owed c L (bw_platform ?w) s'"
      "r = Inr () \<longrightarrow> (\<forall>(k, a) \<in> set L. a \<noteq> 0 \<longrightarrow> items s' k \<noteq> None)"
    using assms(1)[of iid] ih(1) unfolding bills_def by blast
  have e: "tried env c item (iids @ [iid]) w = ?w\<lparr>bw_platform := s'\<rparr>" using s'(1) by (simp add: tried_def)
  have keep: "\<forall>k. items (bw_platform ?w) k \<noteq> None \<longrightarrow> items s' k \<noteq> None" using s'(2) by (simp add: added_def)
  have "\<forall>(k, a) \<in> set L. a \<noteq> 0 \<longrightarrow> items s' k \<noteq> None"
    if n: "n < length (iids @ [iid])"
      and ok: "snd (createStripeInvoiceItems env c item ((iids @ [iid]) ! n) (tried env c item (take n (iids @ [iid])) w)) = Inr ()" for n
  proof (cases "n < length iids")
    case True
    with ok ih(3)[of n] keep show ?thesis by (fastforce simp: nth_append)
  next
    case False
    with n ok s'(1,3) show ?thesis by (simp add: less_Suc_eq)
  qed
  then show ?case using ih(1) s'(2) added_trans[OF ih(2) s'(2)] unfolding e by simp
qed

text \<open>C5: however often the creation of the items of a priced session is tried, for the same or other invoices and whatever becomes of
  each attempt, what its customer owes grows by no more than the session was priced, dimension by dimension and cut to cents,
  and what others owe does not change; once an attempt succeeded it has grown by exactly that amount, which stays less than
  four cents below the price of the session and never exceeds it. This is while the platform keeps the keys of the items; the
  session has an identifier, a currency and a sound pricing model, and none of its items was created before.\<close>

theorem invoice_bills_priced_session:
  assumes "ledger (be_platform env key) items owed" and "bw_key w = Some key"
    and "convertToBillingInvoiceItem env b t = Inr item" and "bii_currency item = Some cur" and "tx_id t \<noteq> 0"
    and "tx_pricingModel t = Some m" and "sound_model m" and "\<And>k. k \<in> session_keys (tx_id t) \<Longrightarrow> items (bw_platform w) k = None"
  shows "\<exists>x. owed (bw_platform (tried env c item iids w)) = (owed (bw_platform w))(c := owed (bw_platform w) c + x)
    \<and> 0 \<le> x \<and> x \<le> session_due m
    \<and> ((\<exists>n < length iids. snd (createStripeInvoiceItems env c item (iids ! n) (tried env c item (take n iids) w)) = Inr ())
        \<longrightarrow> x = session_due m)
    \<and> session_due m \<le> 100 * fst (computeCumulatedAmount m) \<and> 100 * fst (computeCumulatedAmount m) - 4 < session_due m"
proof -
  let ?L = "session_items (tx_id t) (enrichTransactionPricingData env b t (accumulatePricedConsumption (extractFinalPricingData (Some m))))"
  let ?s = "bw_platform (tried env c item iids w)"
  note i = item_data[OF assms(3,6)] and due = session_items_due[OF assms(7) refl, where i = "tx_id t" and env = env and b = b and t = t]
  note run = tried_adds[OF create_items[OF assms(1) _ assms(4) i(2), unfolded i(1), OF assms(5)] assms(2), where iids = iids]
  have fresh: "worth (items (bw_platform w)) ?L = 0"
    using assms(8) by (intro worth_none) (auto simp: session_items_def session_keys_def)
  then obtain x where x: "owed ?s = (owed (bw_platform w))(c := owed (bw_platform w) c + x)" "worth (items ?s) ?L = x"
    using run by (auto simp: added_def)
  have "0 \<le> x" "x \<le> session_due m" using worth_bounds[of ?L "items ?s"] due x(2) by auto
  moreover have "x = session_due m"
    if "\<exists>n < length iids. snd (createStripeInvoiceItems env c item (iids ! n) (tried env c item (take n iids) w)) = Inr ()"
  proof -
    have "\<forall>(k, a) \<in> set ?L. a \<noteq> 0 \<longrightarrow> items ?s k \<noteq> None" using run that by blast
    then show ?thesis using worth_all[of ?L "items ?s"] due(1) x(2) by auto
  qed
  ultimately show ?thesis using x(1) session_due_bounds[OF assms(7)] by blast
qed

end
