(* ===== verification/Billing_Integration.thy ===== *)
theory Billing_Integration
  imports Stripe_Billing
begin

text \<open>
  What every billing system shares (src/integration/billing/BillingIntegration.ts): the periodic charging of
  invoices and the removal of test data, the factory (BillingFactory.ts), and the jobs that drive
  billing: the asynchronous task that bills a session (src/async-task/tasks/BillTransactionAsyncTask.ts), the
  scheduled tasks that start it for pending sessions and that charge invoices
  (src/scheduler/tasks/BillPendingTransactionTask.ts, BillingPeriodicOperationTask.ts).
\<close>

section \<open>Periodic charging\<close>

definition BATCH_PAGE_SIZE :: int where "BATCH_PAGE_SIZE = 1000"

definition isInvoiceOutOfPeriodicOperationScope :: "setting \<Rightarrow> billing_invoice \<Rightarrow> bool" where
  "isInvoiceOutOfPeriodicOperationScope b i =
     (if inv_status i = DRAFT \<and> periodicBillingAllowed b then False
      else if inv_status i = OPEN then False
      else True)"

definition preparePeriodicBillingQueryParameters :: "local_clock \<Rightarrow> setting \<Rightarrow> bool \<Rightarrow> int \<Rightarrow> invoice_query" where
  "preparePeriodicBillingQueryParameters c b forceOperation now =
     all_invoices\<lparr>
       iq_startDateTime := Some (if forceOperation then start_of_day c now else start_of_previous_month c now),
       iq_endDateTime := Some (if forceOperation then end_of_day c now else start_of_month c now),
       iq_invoiceStatus := (if periodicBillingAllowed b then [DRAFT, OPEN] else [OPEN]),
       iq_limit := Number (if forceOperation then 1 else BATCH_PAGE_SIZE),
       iq_sort := Some (sort_key inv_createdOn)\<rparr>"

record charge_actions =
  cga_inSuccess :: nat
  cga_inError :: nat

text \<open>
  One invoice of a page: \<open>charge\<close> is the abstract \<^verbatim>\<open>chargeInvoice\<close>. An invoice that leaves the scope
  moves the following ones up by one, so that one less is to be skipped.
\<close>

definition charge_one ::
  "(billing_invoice \<Rightarrow> ('s billing_world, billing_invoice) handler) \<Rightarrow> local_clock \<Rightarrow> setting \<Rightarrow> bool \<Rightarrow>
   billing_invoice \<Rightarrow> charge_actions \<times> int \<Rightarrow> ('s billing_world, charge_actions \<times> int) handler" where
  "charge_one charge c b forceOperation i = (\<lambda>(acts, skip).
     if isInvoiceOutOfPeriodicOperationScope b i then returnS (acts, skip)
     else
       bindS (readS now_of) (\<lambda>now.
       if \<not> forceOperation \<and> same_day c (inv_createdOn i) now
       then returnS (acts\<lparr>cga_inSuccess := Suc (cga_inSuccess acts)\<rparr>, skip)
       else
         catchS
           (bindS (charge i) (\<lambda>newInvoice.
            returnS (acts\<lparr>cga_inSuccess := Suc (cga_inSuccess acts)\<rparr>,
                     if isInvoiceOutOfPeriodicOperationScope b newInvoice then skip - 1 else skip)))
           (\<lambda>_. returnS (acts\<lparr>cga_inError := Suc (cga_inError acts)\<rparr>, skip))))"

text \<open>The loop over the pages, which ends with the first empty one; \<open>None\<close> is a loop that does not end.\<close>

partial_function (option) charge_pages ::
  "(billing_invoice \<Rightarrow> ('s billing_world, billing_invoice) handler) \<Rightarrow> local_clock \<Rightarrow> setting \<Rightarrow> bool \<Rightarrow> invoice_query \<Rightarrow> int \<Rightarrow>
   int \<Rightarrow> charge_actions \<Rightarrow> 's billing_world \<Rightarrow> ('s billing_world \<times> charge_actions res) option" where
  "charge_pages charge c b forceOperation q limit skip acts w =
     (let page = snd (getInvoices (q\<lparr>iq_limit := Number limit, iq_skip := Number skip\<rparr>) (bw_invoices w)) in
      if page = [] then Some (w, Inr acts)
      else
        case foldS (charge_one charge c b forceOperation) page (acts, skip + limit) w of
          (w', Inl e) \<Rightarrow> Some (w', Inl e)
        | (w', Inr (acts', skip')) \<Rightarrow> charge_pages charge c b forceOperation q limit skip' acts' w')"

definition page_limit :: "invoice_query \<Rightarrow> int" where
  "page_limit q = (case iq_limit q of Number n \<Rightarrow> n | _ \<Rightarrow> 0)"

definition chargeInvoices ::
  "'s billing_env \<Rightarrow> setting \<Rightarrow> bool \<Rightarrow> 's billing_world \<Rightarrow> ('s billing_world \<times> charge_actions res) option" where
  "chargeInvoices env b forceOperation w =
     (case checkConnection env b w of
        (w', Inl e) \<Rightarrow> Some (w', Inl e)
      | (w', Inr _) \<Rightarrow>
          let q = preparePeriodicBillingQueryParameters (be_clock env) b forceOperation (now_of w') in
          charge_pages (chargeInvoice env b) (be_clock env) b forceOperation q (page_limit q) 0
            \<lparr> cga_inSuccess = 0, cga_inError = 0 \<rparr> w')"

section \<open>Removal of test data\<close>

definition clear_session_billing :: "billing_session_data \<Rightarrow> unit \<Rightarrow> ('s billing_world, unit) handler" where
  "clear_session_billing x _ =
     bindS (readS (loadTransaction (bsd_transactionID x))) (\<lambda>found.
     case found of
       None \<Rightarrow> returnS ()
     | Some t \<Rightarrow>
         bindS (readS now_of) (\<lambda>now.
         saveTransactionBillingData (tx_id t)
           (Some \<lparr> bd_withBillingActive = False, bd_lastUpdate = now, bd_stop = Some (only_status UNBILLED) \<rparr>)))"

definition clearTransactionsTestData :: "billing_invoice \<Rightarrow> ('s billing_world, unit) handler" where
  "clearTransactionsTestData i =
     (case inv_sessions i of None \<Rightarrow> throwS TypeError | Some ss \<Rightarrow> foldS clear_session_billing ss ())"

definition clearInvoiceTestData :: "billing_invoice \<Rightarrow> ('s billing_world, unit) handler" where
  "clearInvoiceTestData i =
     (if inv_liveMode i then throwS (BackendError ''Unexpected situation - attempt to clear an invoice with live billing data'')
      else bindS (clearTransactionsTestData i) (\<lambda>_. deleteInvoice (inv_id i)))"

definition ignoring :: "('a \<Rightarrow> ('w, unit) handler) \<Rightarrow> 'a \<Rightarrow> unit \<Rightarrow> ('w, unit) handler" where
  "ignoring f x _ = catchS (f x) (\<lambda>_. returnS ())"

definition clearAllInvoiceTestData :: "('s billing_world, unit) handler" where
  "clearAllInvoiceTestData =
     bindS (readS (\<lambda>w. snd (getInvoices (all_invoices\<lparr>iq_liveMode := Some False\<rparr>) (bw_invoices w)))) (\<lambda>invoices.
     foldS (ignoring clearInvoiceTestData) invoices ())"

text \<open>
  \<^verbatim>\<open>UserStorage.getUsers\<close> with the filters for test billing data, and what \<^verbatim>\<open>count\<close> says of its result.
\<close>

definition has_test_billing_data :: "account \<Rightarrow> bool" where
  "has_test_billing_data u =
     (acc_status u = ACTIVE \<and> (case usr_billingData u of None \<Rightarrow> False | Some d \<Rightarrow> \<not> ubd_liveMode d))"

definition getUsersWithTestBillingData :: "account list \<Rightarrow> account list" where
  "getUsersWithTestBillingData users =
     (let found = filter has_test_billing_data users;
          count = getCountFromDatabaseCount (min DB_RECORD_COUNT_CEIL (length found))
      in if count > 0 then found else [])"

definition clearUserTestBillingData :: "account \<Rightarrow> ('s billing_world, unit) handler" where
  "clearUserTestBillingData u =
     (if (case usr_billingData u of None \<Rightarrow> False | Some d \<Rightarrow> ubd_liveMode d)
      then throwS (BackendError ''Unexpected situation - attempt to clear a user with live billing data'')
      else saveUserBillingData (usr_id u) None)"

definition clearAllUsersTestData :: "('s billing_world, unit) handler" where
  "clearAllUsersTestData =
     bindS (readS (\<lambda>w. getUsersWithTestBillingData (bw_users w))) (\<lambda>users.
     foldS (ignoring clearUserTestBillingData) users ())"

definition clearTestData :: "('s billing_world, unit) handler" where
  "clearTestData = bindS clearAllInvoiceTestData (\<lambda>_. clearAllUsersTestData)"

section \<open>The factory\<close>

text \<open>
  The settings of the billing system to use, if the components are active and a connection is configured. The
  components of a tenant are a parameter.
\<close>

definition getBillingImpl :: "(TenantComponents \<Rightarrow> bool) \<Rightarrow> 's billing_world \<Rightarrow> setting option" where
  "getBillingImpl active w =
     (if active PRICING \<and> active BILLING then
        (case getBillingSetting (va_settings (bw_vault w)) of
           None \<Rightarrow> None
         | Some b \<Rightarrow> if st_props b ''type'' = Some (Text ''stripe'') \<and> stripe_getInstance b then Some b else None)
      else None)"

text \<open>A new object has no connection yet.\<close>

definition new_instance :: "'s billing_world \<Rightarrow> 's billing_world" where
  "new_instance w = w\<lparr>bw_key := None, bw_productionMode := False\<rparr>"

section \<open>Billing of a session, as a task\<close>

definition bill_session :: "'s billing_env \<Rightarrow> setting \<Rightarrow> int \<Rightarrow> ('s billing_world, unit) handler" where
  "bill_session env b transactionID =
     bindS (readS (loadTransaction transactionID)) (\<lambda>found.
     case found of
       None \<Rightarrow> throwS (BackendError ''Unknown Transaction ID'')
     | Some t \<Rightarrow>
         if \<not> billing_active t then throwS (BackendError ''Unexpected situation - billing should be active'')
         else if map_option bst_status (billing_stop_of t) \<noteq> Some BillingStatus.PENDING
         then throwS (BackendError ''Unexpected situation - billing status should be PENDING'')
         else
           bindS (readS (\<lambda>w. station_of w t)) (\<lambda>chargeBox.
           bindS (billTransaction env b chargeBox t) (\<lambda>st.
           bindS (readS now_of) (\<lambda>now.
           saveTransactionBillingData (tx_id t)
             (map_option (\<lambda>d. d\<lparr>bd_stop := Some st, bd_lastUpdate := now\<rparr>) (tx_billingData t))))))"

definition billTransaction_executeAsyncTask ::
  "'s billing_env \<Rightarrow> (TenantComponents \<Rightarrow> bool) \<Rightarrow> bill_task \<Rightarrow> ('s billing_world, unit) handler" where
  "billTransaction_executeAsyncTask env active task =
     (if \<not> active BILLING then returnS ()
      else
        catchS
          (bindS (readS (getBillingImpl active)) (\<lambda>impl.
           case impl of
             None \<Rightarrow> returnS ()
           | Some b \<Rightarrow>
               bindS (modifyS new_instance) (\<lambda>_.
               bindS (take_lock (acquireBillUserLock (lock_env.truncate env) (ve_tenantID env) (or_else (btk_userID task) []))) (\<lambda>lk.
               case lk of
                 None \<Rightarrow> throwS (BackendError ''Unexpected situation - concurrent billing'')
               | Some l \<Rightarrow> finallyS (bill_session env b (btk_transactionID task)) (release_lock l)))))
          (\<lambda>_. returnS ()))"

section \<open>Pending sessions\<close>

definition is_pending_session :: "transaction \<Rightarrow> bool" where
  "is_pending_session t =
     ((case tx_stop t of None \<Rightarrow> False | Some st \<Rightarrow> \<not> stop_extraInactivityComputed st)
      \<and> map_option bst_status (billing_stop_of t) = Some BillingStatus.PENDING)"

text \<open>
  \<^verbatim>\<open>OCPPUtils.processTransactionBilling\<close> at the end of a session, with the task that it creates. A user of
  another operator is not billed.
\<close>

definition end_billing :: "'s billing_env \<Rightarrow> (TenantComponents \<Rightarrow> bool) \<Rightarrow> transaction \<Rightarrow> ('s billing_world, transaction) handler" where
  "end_billing env active t =
     (case tx_user t of
        None \<Rightarrow> returnS t
      | Some u \<Rightarrow>
          if \<not> usr_issuer u then returnS t
          else
            bindS (readS (getBillingImpl active)) (\<lambda>impl.
            if impl = None then returnS t
            else
              catchS
                (bindS (stripe_endTransaction t) (\<lambda>st.
                 bindS (readS now_of) (\<lambda>now.
                 returnS (t\<lparr>tx_billingData := map_option (\<lambda>d. d\<lparr>bd_stop := Some st, bd_lastUpdate := now\<rparr>) (tx_billingData t)\<rparr>))))
                (\<lambda>_. returnS t)))"

definition last_on_connector :: "'s billing_world \<Rightarrow> transaction \<Rightarrow> transaction option" where
  "last_on_connector w t =
     latest (filter (\<lambda>u. tx_chargeBoxID u = tx_chargeBoxID t \<and> tx_connectorId u = tx_connectorId t) (bw_transactions w))"

definition connector_in_use :: "charging_station \<Rightarrow> transaction \<Rightarrow> bool res" where
  "connector_in_use cs t =
     (case getConnectorFromID cs (tx_connectorId t) of
        None \<Rightarrow> Inl TypeError
      | Some c \<Rightarrow> Inr (con_status c \<noteq> AVAILABLE))"

text \<open>The transaction that is loaded, and the one that is saved: between them the session is handed over to a task.\<close>

definition load_pending :: "int \<Rightarrow> ('s billing_world, transaction option) handler" where
  "load_pending transactionID =
     bindS (readS (loadTransaction transactionID)) (\<lambda>found.
     case found of
       None \<Rightarrow> returnS None
     | Some t \<Rightarrow>
         bindS (readS (\<lambda>w. station_of w t)) (\<lambda>chargeBox.
         case chargeBox of
           None \<Rightarrow> returnS None
         | Some cs \<Rightarrow>
             bindS (readS (\<lambda>w. last_on_connector w t)) (\<lambda>lastTransaction.
             bindS (if map_option tx_id lastTransaction = Some (tx_id t) then liftS (connector_in_use cs t) else returnS False) (\<lambda>used.
             if used \<or> map_option bst_status (billing_stop_of t) \<noteq> Some BillingStatus.PENDING
                \<or> truthy_str (Option.bind (billing_stop_of t) bst_invoiceID)
             then returnS None else returnS (Some t)))))"

definition hand_over_pending :: "'s billing_env \<Rightarrow> (TenantComponents \<Rightarrow> bool) \<Rightarrow> transaction \<Rightarrow> ('s billing_world, transaction) handler" where
  "hand_over_pending env active t =
     end_billing env active
       (t\<lparr>tx_stop := map_option (\<lambda>st. st\<lparr>stop_extraInactivityComputed := True, stop_extraInactivitySecs := 0\<rparr>) (tx_stop t)\<rparr>)"

definition bill_pending_one ::
  "'s billing_env \<Rightarrow> (TenantComponents \<Rightarrow> bool) \<Rightarrow> int \<Rightarrow> unit \<Rightarrow> ('s billing_world, unit) handler" where
  "bill_pending_one env active transactionID _ =
     bindS (take_lock (acquireBillPendingTransactionLock (lock_env.truncate env) (ve_tenantID env) transactionID)) (\<lambda>lk.
     case lk of
       None \<Rightarrow> returnS ()
     | Some l \<Rightarrow>
         finallyS
           (catchS
             (bindS (load_pending transactionID) (\<lambda>found.
              case found of
                None \<Rightarrow> returnS ()
              | Some t \<Rightarrow> bindS (hand_over_pending env active t) storeTransaction))
             (\<lambda>_. returnS ()))
           (release_lock l))"

definition billPending_processTenant :: "'s billing_env \<Rightarrow> (TenantComponents \<Rightarrow> bool) \<Rightarrow> ('s billing_world, unit) handler" where
  "billPending_processTenant env active =
     catchS
       (bindS (readS (getBillingImpl active)) (\<lambda>impl.
        if \<not> active BILLING \<or> impl = None then returnS ()
        else
          bindS (take_lock (acquireBillPendingTransactionsLock (lock_env.truncate env) (ve_tenantID env))) (\<lambda>lk.
          case lk of
            None \<Rightarrow> returnS ()
          | Some l \<Rightarrow>
              finallyS
                (bindS (readS (\<lambda>w. map tx_id (filter is_pending_session (bw_transactions w)))) (\<lambda>ids.
                 foldS (bill_pending_one env active) ids ()))
                (release_lock l))))
       (\<lambda>_. returnS ())"

section \<open>Charging invoices, as a scheduled task\<close>

text \<open>The failures are reported by a notification, which is left out; the result is the number of errors.\<close>

definition billingPeriodicOperation_processTenant ::
  "'s billing_env \<Rightarrow> (TenantComponents \<Rightarrow> bool) \<Rightarrow> 's billing_world \<Rightarrow> ('s billing_world \<times> charge_actions option res) option" where
  "billingPeriodicOperation_processTenant env active w =
     (case take_lock (acquireBillingPeriodicOperationLock (lock_env.truncate env) (ve_tenantID env)) w of
        (w1, Inl e) \<Rightarrow> Some (w1, Inl e)
      | (w1, Inr None) \<Rightarrow> Some (w1, Inr None)
      | (w1, Inr (Some l)) \<Rightarrow>
          (case getBillingImpl active w1 of
             None \<Rightarrow> Some (release_lock l w1, Inr None)
           | Some b \<Rightarrow>
               map_option (\<lambda>(w2, r). (release_lock l w2, Inr (case r of Inl _ \<Rightarrow> None | Inr acts \<Rightarrow> Some acts)))
                 (chargeInvoices env b False (new_instance w1))))"

end
