(* ===== verification/Handler_Frame.thy ===== *)
theory Handler_Frame
  imports Handler_Monad
begin

text \<open>
  What a handler keeps of the state. \<open>R s t\<close> relates a state with one that it may become; a reflexive and
  transitive \<open>R\<close> holds of a whole handler when it holds of its steps, and the rules of the locale \<open>evolution\<close>
  break a handler into them.
\<close>

definition moves :: "('s \<Rightarrow> 's \<Rightarrow> bool) \<Rightarrow> ('s, 'a) handler \<Rightarrow> bool" where
  "moves R m = (\<forall>s. R s (fst (m s)))"

lemma movesI: "(\<And>s. R s (fst (m s))) \<Longrightarrow> moves R m"
  by (simp add: moves_def)

lemma movesD: "moves R m \<Longrightarrow> R s (fst (m s))"
  by (simp add: moves_def)

lemma moves_mono: "moves R m \<Longrightarrow> (\<And>s t. R s t \<Longrightarrow> S s t) \<Longrightarrow> moves S m"
  by (auto simp: moves_def)

locale evolution =
  fixes R :: "'s \<Rightarrow> 's \<Rightarrow> bool"
  assumes stays: "R s s" and goes_on: "R s t \<Longrightarrow> R t u \<Longrightarrow> R s u"
begin

lemma returns: "moves R (returnS a)"
  and reads: "moves R (readS f)"
  and lifts: "moves R (liftS r)"
  and throws: "moves R (throwS e)"
  by (simp_all add: moves_def returnS_def readS_def liftS_def throwS_def stays)

lemma modifies: "(\<And>s. R s (f s)) \<Longrightarrow> moves R (modifyS f)"
  by (simp add: moves_def modifyS_def)

lemma binds: "moves R m \<Longrightarrow> (\<And>a. moves R (f a)) \<Longrightarrow> moves R (bindS m f)"
  unfolding moves_def bindS_def by (auto split: prod.split sum.split) (metis fst_conv goes_on)+

lemma catches: "moves R m \<Longrightarrow> (\<And>e. moves R (f e)) \<Longrightarrow> moves R (catchS m f)"
  unfolding moves_def catchS_def by (auto split: prod.split sum.split) (metis fst_conv goes_on)+

lemma rethrows: "moves R m \<Longrightarrow> moves R (rethrowS m e)"
  unfolding moves_def rethrowS_def by (auto split: prod.split) (metis fst_conv)

lemma finishes: "moves R m \<Longrightarrow> (\<And>s. R s (g s)) \<Longrightarrow> moves R (finallyS m g)"
  unfolding moves_def finallyS_def by (auto split: prod.split) (metis fst_conv goes_on)

lemma branches: "moves R m \<Longrightarrow> moves R n \<Longrightarrow> moves R (if b then m else n)"
  by simp

lemma options: "moves R m \<Longrightarrow> (\<And>a. moves R (f a)) \<Longrightarrow> moves R (case x of None \<Rightarrow> m | Some a \<Rightarrow> f a)"
  by (cases x) simp_all

lemma sums: "(\<And>a. moves R (f a)) \<Longrightarrow> (\<And>a. moves R (g a)) \<Longrightarrow> moves R (case x of Inl a \<Rightarrow> f a | Inr a \<Rightarrow> g a)"
  by (cases x) simp_all

lemma pairs: "(\<And>a b. moves R (f a b)) \<Longrightarrow> moves R (case x of (a, b) \<Rightarrow> f a b)"
  by (cases x) simp_all

lemma lets: "(\<And>a. moves R (f a)) \<Longrightarrow> moves R (Let x f)"
  by (simp add: Let_def)

lemma folds: "(\<And>a b. moves R (f a b)) \<Longrightarrow> moves R (foldS f xs b)"
  by (induction xs arbitrary: b) (auto intro: returns binds)

lemmas rules = returns reads lifts throws modifies binds catches rethrows finishes branches options sums pairs lets folds

end

end
