(* ===== verification/Session_Billing.thy ===== *)
theory Session_Billing
  imports Billing_Integration Handler_Frame
begin

text \<open>
  The billing of a session as a state machine: pending, then billed, unbilled or failed. A task bills a session that is
  pending, once; a session that is settled keeps its billing data whatever tasks run; but the scheduled task that hands
  pending sessions over saves a stale copy, which can put a billed session back to pending.
\<close>

section \<open>What billing leaves alone\<close>

text \<open>The sessions, the users and the stations.\<close>

definition same_data :: "'s billing_world \<Rightarrow> 's billing_world \<Rightarrow> bool" where
  "same_data w w' = (bw_transactions w' = bw_transactions w \<and> bw_users w' = bw_users w \<and> bw_stations w' = bw_stations w)"

interpretation same: evolution same_data
  by unfold_locales (simp_all add: same_data_def)

named_theorems same_data_rules

declare same.rules [same_data_rules]

lemma same_call [same_data_rules]: "moves same_data (call env f)"
  by (rule movesI) (simp add: same_data_def call_def split: option.split prod.split)

lemma same_in_vault [same_data_rules]: "moves same_data (in_vault m)"
  by (rule movesI) (simp add: same_data_def in_vault_def split: prod.split)

lemma same_take_lock [same_data_rules]: "moves same_data (take_lock f)"
  by (simp add: take_lock_def same_data_rules)

lemma same_release [same_data_rules]: "same_data w (release_lock l w)"
  by (simp add: same_data_def release_lock_def)

lemma same_updates [same_data_rules]:
  "same_data w (w\<lparr>bw_key := k\<rparr>)" "same_data w (w\<lparr>bw_productionMode := p\<rparr>)" "same_data w (w\<lparr>bw_invoices := is\<rparr>)"
  "same_data w (w\<lparr>bw_notices := ns\<rparr>)" "same_data w (w\<lparr>bw_tasks := ts\<rparr>)" "same_data w (new_instance w)"
  by (simp_all add: same_data_def new_instance_def)

lemma same_checkConnection [same_data_rules]: "moves same_data (checkConnection env b)"
  unfolding checkConnection_def isConnectedToALiveAccount_def by (intro same_data_rules)

lemma same_platform [same_data_rules]:
  "moves same_data (getStripeCustomer env k)"
  "moves same_data (getStripeInvoice env i)"
  "moves same_data (createStripeInvoice env c u key)"
  "moves same_data (chargeStripeInvoice env i)"
  unfolding getStripeCustomer_def getStripeInvoice_def createStripeInvoice_def chargeStripeInvoice_def by (intro same_data_rules)+

lemma same_invoice [same_data_rules]:
  "moves same_data (saveInvoice newID k i)"
  "moves same_data (storeInvoiceAdditionalData i d)"
  "moves same_data (updateInvoiceAdditionalData i r item)"
  "moves same_data (synchronizeAsBillingInvoice env si check)"
  "moves same_data (sendInvoiceNotification i)"
  unfolding saveInvoice_def storeInvoiceAdditionalData_def updateInvoiceAdditionalData_def synchronizeAsBillingInvoice_def
    sendInvoiceNotification_def
  by (intro same_data_rules)+

lemma same_items [same_data_rules]: "moves same_data (createStripeInvoiceItems env c item i)"
  unfolding createStripeInvoiceItems_def createStripeInvoiceItemHeader_def createStripeInvoiceItem_def
    createStripeInvoiceItems4PricingConsumptionData_def createStripeInvoiceItem4Dimension_def
  by (intro same_data_rules)

lemma same_billInvoiceItem [same_data_rules]: "moves same_data (billInvoiceItem env b u item)"
  unfolding billInvoiceItem_def getLatestDraftInvoiceOfTheMonth_def by (intro same_data_rules)

lemma same_billTransaction [same_data_rules]: "moves same_data (billTransaction env b cs t)"
  unfolding billTransaction_def by (intro same_data_rules)

section \<open>A settled session\<close>

definition billing_of :: "int \<Rightarrow> 's billing_world \<Rightarrow> billing_data option" where
  "billing_of i w = Option.bind (find (\<lambda>t. tx_id t = i) (bw_transactions w)) tx_billingData"

definition status_of :: "int \<Rightarrow> 's billing_world \<Rightarrow> BillingStatus option" where
  "status_of i w = map_option bst_status (Option.bind (billing_of i w) bd_stop)"

lemma billing_of_same: "same_data w w' \<Longrightarrow> billing_of i w' = billing_of i w"
  by (simp add: same_data_def billing_of_def)

lemma find_updated_session:
  "find (\<lambda>t. tx_id t = i) (update_first (\<lambda>t. tx_id t = j) f ts)
     = (case find (\<lambda>t. tx_id t = i) ts of None \<Rightarrow> None | Some t \<Rightarrow> Some (if i = j then f t else t))"
  if "\<And>t. tx_id (f t) = tx_id t"
  using that by (induction ts) (auto split: option.split)

lemma billing_of_save:
  "billing_of i (fst (saveTransactionBillingData j d w))
     = (if i = j \<and> find (\<lambda>t. tx_id t = i) (bw_transactions w) \<noteq> None then d else billing_of i w)"
  by (auto simp: saveTransactionBillingData_def modifyS_def billing_of_def find_updated_session split: option.split)

lemma loadTransaction_id: "loadTransaction i w = Some t \<Longrightarrow> tx_id t = i"
  by (auto simp: loadTransaction_def find_Some_iff)

lemma loadTransaction_billing:
  "loadTransaction i w = Some t \<Longrightarrow> tx_billingData t = billing_of i w \<and> billing_stop_of t = Option.bind (billing_of i w) bd_stop"
  by (auto simp: loadTransaction_def billing_of_def billing_stop_of_def)

text \<open>A session that is not pending, and has the billing data \<open>d\<close>.\<close>

definition is_settled :: "int \<Rightarrow> 's billing_world \<Rightarrow> bool" where
  "is_settled i w = (status_of i w \<noteq> None \<and> status_of i w \<noteq> Some BillingStatus.PENDING)"

lemma settled_not_billed:
  assumes "is_settled i w"
  shows "\<exists>e. bill_session env b i w = (w, Inl e)"
proof (cases "loadTransaction i w")
  case (Some t)
  with assms loadTransaction_billing[OF Some] show ?thesis
    by (auto simp: bill_session_def handler_simps throwS_def is_settled_def status_of_def)
qed (simp add: bill_session_def handler_simps throwS_def)

text \<open>What the billing of a session does to the others: nothing.\<close>

definition only_session :: "int \<Rightarrow> 's billing_world \<Rightarrow> 's billing_world \<Rightarrow> bool" where
  "only_session j w w' = (\<forall>i. i \<noteq> j \<longrightarrow> billing_of i w' = billing_of i w)"

interpretation only: evolution "only_session j" for j
  by unfold_locales (simp_all add: only_session_def)

lemma only_same: "moves same_data m \<Longrightarrow> moves (only_session j) m"
  by (erule moves_mono) (simp add: only_session_def billing_of_same)

lemma only_save: "moves (only_session j) (saveTransactionBillingData j d)"
  by (rule movesI) (auto simp: only_session_def billing_of_save)

lemma only_save_loaded:
  "moves (only_session j) (bindS (readS (loadTransaction j)) (\<lambda>found. case found of None \<Rightarrow> m | Some t \<Rightarrow> f t))"
  if "moves (only_session j) m" and "\<And>t. tx_id t = j \<Longrightarrow> moves (only_session j) (f t)"
  using that by (auto simp: moves_def bindS_def readS_def split: option.split dest: loadTransaction_id)

lemma only_bill_session: "moves (only_session j) (bill_session env b j)"
  unfolding bill_session_def
  by (intro only_save_loaded only.rules only_same[OF same_billTransaction]) (simp_all add: only_save)

lemma same_releases: "billing_of i (release_lock l w) = billing_of i w"
  by (rule billing_of_same[OF same_release])

lemma only_task: "moves (only_session (btk_transactionID k)) (billTransaction_executeAsyncTask env active k)"
  unfolding billTransaction_executeAsyncTask_def
  by (intro only.rules only_bill_session only_same[OF same_take_lock])
    (simp_all add: only_session_def billing_of_same[OF same_release] billing_of_same[OF same_updates(6)])

text \<open>What a task leaves when its session is settled: everything but the locks and the connection.\<close>

definition same_books :: "'s billing_world \<Rightarrow> 's billing_world \<Rightarrow> bool" where
  "same_books w w' = (same_data w w' \<and> bw_platform w' = bw_platform w \<and> bw_invoices w' = bw_invoices w
     \<and> bw_notices w' = bw_notices w \<and> bw_tasks w' = bw_tasks w)"

lemma same_books_billing: "same_books w w' \<Longrightarrow> billing_of i w' = billing_of i w"
  by (simp add: same_books_def billing_of_same)

lemma take_lock_books: "take_lock f w = (w', r) \<Longrightarrow> same_books w w'"
  by (auto simp: take_lock_def in_vault_def same_books_def same_data_def split: prod.splits sum.splits)

lemma books_trans: "same_books w w' \<Longrightarrow> same_books w' w'' \<Longrightarrow> same_books w w''"
  by (simp add: same_books_def same_data_def)

lemma same_books_refl: "same_books w w"
  by (simp add: same_books_def same_data_def)

lemma new_instance_books: "same_books w (new_instance w)" and release_books: "same_books w (release_lock l w)"
  by (simp_all add: same_books_def same_data_def new_instance_def release_lock_def)

lemma settled_task:
  assumes "is_settled (btk_transactionID k) w"
  shows "same_books w (fst (billTransaction_executeAsyncTask env active k w))"
proof -
  let ?i = "btk_transactionID k"
  have ?thesis if r: "take_lock (acquireBillUserLock (lock_env.truncate env) (ve_tenantID env) (or_else (btk_userID k) [])) (new_instance w) = (w1, r)" for w1 r
  proof -
    have w1: "same_books w w1" by (rule books_trans[OF new_instance_books take_lock_books[OF r]])
    then have "is_settled ?i w1" using assms by (simp add: is_settled_def status_of_def same_books_billing)
    then have "\<forall>b. \<exists>e. bill_session env b ?i w1 = (w1, Inl e)" by (simp add: settled_not_billed)
    then obtain e where f: "\<And>b. bill_session env b ?i w1 = (w1, Inl (e b))" by metis
    have "same_books w (release_lock l w1)" for l by (rule books_trans[OF w1 release_books])
    with r w1 f show ?thesis
      by (simp add: billTransaction_executeAsyncTask_def handler_simps catchS_def finallyS_def throwS_def same_books_refl
          split: option.split sum.split)
  qed
  then show ?thesis by (metis surj_pair)
qed

lemma only_keeps: "only_session j w w' \<Longrightarrow> i \<noteq> j \<Longrightarrow> billing_of i w' = billing_of i w"
  by (simp add: only_session_def)

lemma settled_kept:
  assumes "is_settled i w"
  shows "billing_of i (fst (billTransaction_executeAsyncTask env active k w)) = billing_of i w"
proof (cases "btk_transactionID k = i")
  case True
  then show ?thesis using settled_task[of k w] assms by (simp add: same_books_billing)
next
  case False
  then show ?thesis using only_keeps[OF movesD[OF only_task]] by metis
qed

definition run_tasks ::
  "'s billing_env \<Rightarrow> (TenantComponents \<Rightarrow> bool) \<Rightarrow> bill_task list \<Rightarrow> 's billing_world \<Rightarrow> 's billing_world" where
  "run_tasks env active ks w = fold (\<lambda>k w. fst (billTransaction_executeAsyncTask env active k w)) ks w"

lemma settled_kept_by_tasks: "is_settled i w \<Longrightarrow> billing_of i (run_tasks env active ks w) = billing_of i w"
proof (induction ks arbitrary: w)
  case (Cons k ks)
  let ?w = "fst (billTransaction_executeAsyncTask env active k w)"
  have "billing_of i ?w = billing_of i w" by (rule settled_kept[OF Cons.prems])
  with Cons show ?case by (simp add: run_tasks_def is_settled_def status_of_def)
qed (simp add: run_tasks_def)

lemma bindS_done: "bindS m f w = (w', Inr x) \<Longrightarrow> \<exists>w1 a. m w = (w1, Inr a) \<and> f a w1 = (w', Inr x)"
  by (auto simp: bindS_def split: prod.splits sum.splits)

lemma catchS_done: "catchS m f w = (w', Inr x) \<Longrightarrow> m w = (w', Inr x) \<or> (\<exists>w1 e. m w = (w1, Inl e) \<and> f e w1 = (w', Inr x))"
  by (auto simp: catchS_def split: prod.splits sum.splits)

lemma billTransaction_status:
  assumes "billTransaction env b cs t w = (w', Inr st)"
  shows "bst_status st = BILLED \<or> bst_status st = FAILED"
  using assms unfolding billTransaction_def
  by (auto dest!: bindS_done catchS_done simp: returnS_def throwS_def only_status_def split: option.splits if_splits)

lemma bill_session_settles:
  assumes "bill_session env b i w = (w', Inr ())"
  shows "status_of i w' = Some BILLED \<or> status_of i w' = Some FAILED"
proof -
  obtain t w1 st now where t: "loadTransaction i w = Some t" and a: "billing_active t"
    and r: "billTransaction env b (station_of w t) t w = (w1, Inr st)"
    and s: "saveTransactionBillingData (tx_id t) (map_option (\<lambda>d. d\<lparr>bd_stop := Some st, bd_lastUpdate := now\<rparr>) (tx_billingData t)) w1
      = (w', Inr ())"
    using assms unfolding bill_session_def
    by (auto dest!: bindS_done simp: readS_def throwS_def split: option.splits if_splits)
  have "find (\<lambda>t. tx_id t = i) (bw_transactions w1) \<noteq> None"
    using movesD[OF same_billTransaction, of w env b "station_of w t" t] r t by (auto simp: same_data_def loadTransaction_def)
  moreover obtain d where "tx_billingData t = Some d" using a by (auto simp: billing_active_def split: option.splits)
  ultimately have "billing_of i w' = Some (d\<lparr>bd_stop := Some st, bd_lastUpdate := now\<rparr>)"
    using loadTransaction_id[OF t] using billing_of_save[of i "tx_id t" _ w1] by (metis (no_types, lifting) s fst_conv option.simps(9))
  then show ?thesis using billTransaction_status[OF r] by (simp add: status_of_def)
qed

text \<open>C8: the asynchronous billing task (BillTransactionAsyncTask) that billed a session settles it, as billed or failed; whatever
  runs of that task follow, for this session or others, its billing data stays, and a run for it calls the platform no more
  and changes no invoice and no session. Of the other tasks the one for pending sessions may change it, as may periodic charging.\<close>

theorem session_billed_once:
  assumes "bill_session env b i w = (w', Inr ())" and "btk_transactionID k = i"
  shows "(status_of i w' = Some BILLED \<or> status_of i w' = Some FAILED)
    \<and> billing_of i (run_tasks env active ks w') = billing_of i w'
    \<and> same_books (run_tasks env active ks w') (fst (billTransaction_executeAsyncTask env active k (run_tasks env active ks w')))"
proof -
  note st = bill_session_settles[OF assms(1)]
  then have w': "is_settled i w'" by (auto simp: is_settled_def)
  note kept = settled_kept_by_tasks[OF w', of env active ks]
  then have "is_settled i (run_tasks env active ks w')" using w' by (simp add: is_settled_def status_of_def)
  with st kept settled_task[of k] assms(2) show ?thesis by simp
qed

section \<open>The stale copy\<close>

lemma load_pending_done:
  assumes "load_pending i w = (w', Inr (Some t))"
  shows "w' = w \<and> loadTransaction i w = Some t \<and> map_option bst_status (billing_stop_of t) = Some BillingStatus.PENDING
    \<and> \<not> truthy_str (Option.bind (billing_stop_of t) bst_invoiceID)"
  using assms unfolding load_pending_def
  by (auto dest!: bindS_done simp: readS_def returnS_def liftS_def split: option.splits if_splits sum.splits)

definition still_pending :: "transaction \<Rightarrow> bool" where
  "still_pending t = (billing_active t \<and> map_option bst_status (billing_stop_of t) = Some BillingStatus.PENDING
     \<and> \<not> truthy_str (Option.bind (billing_stop_of t) bst_invoiceID))"

lemma still_pending_end:
  assumes "still_pending t" and "stripe_endTransaction t w = (w', Inr st)"
  shows "bst_status st = BillingStatus.PENDING \<and> \<not> truthy_str (bst_invoiceID st)"
  using assms unfolding stripe_endTransaction_def still_pending_def
  by (auto dest!: bindS_done simp: returnS_def only_status_def split: option.splits if_splits)

lemma end_billing_pending:
  assumes "still_pending t" and "end_billing env active t w = (w', Inr t')"
  shows "still_pending t' \<and> tx_id t' = tx_id t \<and> tx_stop t' = tx_stop t"
proof -
  have "t' = t \<or> (\<exists>st now w1. stripe_endTransaction t w = (w1, Inr st)
      \<and> t' = t\<lparr>tx_billingData := map_option (\<lambda>d. d\<lparr>bd_stop := Some st, bd_lastUpdate := now\<rparr>) (tx_billingData t)\<rparr>)"
    using assms(2) unfolding end_billing_def
    by (auto dest!: bindS_done catchS_done simp: returnS_def readS_def split: option.splits if_splits) blast
  then show ?thesis
  proof
    assume "\<exists>st now w1. stripe_endTransaction t w = (w1, Inr st)
      \<and> t' = t\<lparr>tx_billingData := map_option (\<lambda>d. d\<lparr>bd_stop := Some st, bd_lastUpdate := now\<rparr>) (tx_billingData t)\<rparr>"
    then show ?thesis
      using still_pending_end[OF assms(1)] assms(1)
      by (auto simp: still_pending_def billing_active_def billing_stop_of_def split: option.splits)
  qed (simp add: assms(1))
qed

lemma find_replaced: "find (\<lambda>t. tx_id t = tx_id u) (replace_transaction u ts) = Some u"
  by (induction ts) auto

lemma stored_pending: "still_pending t \<Longrightarrow> still_pending (stored t)" and stored_id: "tx_id (stored t) = tx_id t"
  and stored_computed: "(case tx_stop t of None \<Rightarrow> True | Some st \<Rightarrow> stop_extraInactivityComputed st) \<Longrightarrow> \<not> is_pending_session (stored t)"
  by (auto simp: still_pending_def stored_def billing_active_def billing_stop_of_def is_pending_session_def stored_stop_def split: option.splits)

lemma task_loads_active:
  assumes "bill_session env b i w = (w', Inr ())"
  shows "\<exists>t. loadTransaction i w = Some t \<and> billing_active t"
  using assms unfolding bill_session_def
  by (auto dest!: bindS_done simp: readS_def throwS_def split: option.splits if_splits)

lemma same_load: "same_data w w' \<Longrightarrow> loadTransaction i w' = loadTransaction i w"
proof -
  assume s: "same_data w w'"
  then have "findUser w' = findUser w" by (simp add: same_data_def findUser_def fun_eq_iff)
  with s show ?thesis by (simp add: same_data_def loadTransaction_def)
qed

lemma same_end_billing: "moves same_data (end_billing env active t)"
  unfolding end_billing_def stripe_endTransaction_def by (intro same_data_rules)

text \<open>The scheduled task that hands a pending session over starts a task that bills it, and then saves its own copy: when the
  session was billed in between, it is pending again, its invoice is forgotten, and no later run of the scheduled task finds it.\<close>

theorem pending_overwrites_billed:
  assumes "load_pending i w = (w0, Inr (Some t))" and "hand_over_pending env active t w0 = (w1, Inr t')"
    and "bill_session env b i w1 = (w2, Inr ())"
  shows "(status_of i w2 = Some BILLED \<or> status_of i w2 = Some FAILED)
    \<and> (\<exists>u. find (\<lambda>t. tx_id t = i) (bw_transactions (fst (storeTransaction t' w2))) = Some u
        \<and> still_pending u \<and> \<not> is_pending_session u)"
proof -
  let ?t = "t\<lparr>tx_stop := map_option (\<lambda>st. st\<lparr>stop_extraInactivityComputed := True, stop_extraInactivitySecs := 0\<rparr>) (tx_stop t)\<rparr>"
  note l = load_pending_done[OF assms(1)]
  have s: "same_data w w1"
    using movesD[OF same_end_billing, of w env active ?t] assms(2) l by (simp add: hand_over_pending_def)
  then have "loadTransaction i w1 = Some t" using l by (simp add: same_load)
  then have "billing_active t" using task_loads_active[OF assms(3)] by simp
  then have "still_pending ?t" using l by (simp add: still_pending_def billing_active_def billing_stop_of_def)
  from end_billing_pending[OF this assms(2)[unfolded hand_over_pending_def]]
  have e: "still_pending t'" "tx_id t' = i" "\<not> is_pending_session (stored t')"
    using loadTransaction_id[of i w t] l by (auto intro!: stored_computed split: option.splits)
  have "find (\<lambda>t. tx_id t = i) (bw_transactions (fst (storeTransaction t' w2))) = Some (stored t')"
    using find_replaced[of "stored t'" "bw_transactions w2"] by (simp add: storeTransaction_def modifyS_def stored_id e(2))
  then show ?thesis using bill_session_settles[OF assms(3)] stored_pending[OF e(1)] e(3) by blast
qed

end
