(* ===== verification/Invoice_Laws.thy ===== *)
theory Invoice_Laws
  imports Session_Billing
begin

text \<open>
  The invoices of a tenant: what the removal of test data takes and leaves, and the periodic charging, which
  ends, attempts what it finds, and may overlook invoices at the end of a page.
\<close>

section \<open>Removal of test data\<close>

text \<open>
  What is live: invoices and users with live billing data, and the sessions that no test invoice names. The removal works
  on lists that were read before it started; \<open>descends w0\<close> says that nothing was added to them since.
\<close>

definition test_sessions :: "'s billing_world \<Rightarrow> int set" where
  "test_sessions w = {bsd_transactionID x |x i. i \<in> set (bw_invoices w) \<and> \<not> inv_liveMode i \<and> x \<in> set (or_else (inv_sessions i) [])}"

definition live_user :: "account \<Rightarrow> bool" where
  "live_user u = (case usr_billingData u of None \<Rightarrow> False | Some d \<Rightarrow> ubd_liveMode d)"

definition unique_documents :: "'s billing_world \<Rightarrow> bool" where
  "unique_documents w = (distinct (map inv_id (bw_invoices w)) \<and> distinct (map usr_id (bw_users w)))"

definition same_live :: "'s billing_world \<Rightarrow> 's billing_world \<Rightarrow> 's billing_world \<Rightarrow> bool" where
  "same_live w0 w w' =
     (filter inv_liveMode (bw_invoices w') = filter inv_liveMode (bw_invoices w)
      \<and> filter live_user (bw_users w') = filter live_user (bw_users w)
      \<and> (\<forall>i. i \<notin> test_sessions w0 \<longrightarrow> billing_of i w' = billing_of i w))"

definition descends :: "'s billing_world \<Rightarrow> 's billing_world \<Rightarrow> bool" where
  "descends w0 w = (unique_documents w \<and> set (bw_invoices w) \<subseteq> set (bw_invoices w0) \<and> filter live_user (bw_users w) = filter live_user (bw_users w0))"

definition spares :: "'s billing_world \<Rightarrow> 's billing_world \<Rightarrow> 's billing_world \<Rightarrow> bool" where
  "spares w0 w w' = (descends w0 w \<longrightarrow> descends w0 w' \<and> same_live w0 w w')"

interpretation spare: evolution "spares w0" for w0
  by unfold_locales (simp_all add: spares_def same_live_def)

lemma delete_invoice_filter:
  "i \<in> set is \<Longrightarrow> distinct (map inv_id is) \<Longrightarrow> \<not> P i \<Longrightarrow> filter P (delete_first_invoice (inv_id i) is) = filter P is"
proof (induction "is")
  case (Cons j js)
  then show ?case by (cases "j = i") (auto simp: image_iff)
qed simp

lemma delete_invoice_absent: "i \<notin> inv_id ` set is \<Longrightarrow> delete_first_invoice i is = is"
  by (induction "is") auto

lemma delete_invoice_set: "set (delete_first_invoice i is) \<subseteq> set is"
  by (induction "is") auto

lemma delete_invoice_distinct: "distinct (map inv_id is) \<Longrightarrow> distinct (map inv_id (delete_first_invoice i is))"
proof (induction "is")
  case (Cons j js)
  then show ?case using delete_invoice_set[of i js] by auto
qed simp

lemma deletes_test_invoice:
  assumes "unique_documents w0" and "i \<in> set (bw_invoices w0)" and "\<not> inv_liveMode i"
  shows "moves (spares w0) (deleteInvoice (inv_id i))"
proof (rule movesI)
  fix w :: "'a billing_world"
  have "filter inv_liveMode (delete_first_invoice (inv_id i) (bw_invoices w)) = filter inv_liveMode (bw_invoices w)" if w: "descends w0 w"
  proof (cases "inv_id i \<in> inv_id ` set (bw_invoices w)")
    case True
    then obtain j where j: "j \<in> set (bw_invoices w)" "inv_id j = inv_id i" by auto
    then have "j \<in> set (bw_invoices w0)" using w by (auto simp: descends_def)
    then have "j = i" using assms(1,2) j(2) by (auto simp: unique_documents_def distinct_map inj_on_def)
    with j w assms(3) show ?thesis by (intro delete_invoice_filter) (auto simp: descends_def unique_documents_def)
  qed (simp add: delete_invoice_absent)
  then show "spares w0 w (fst (deleteInvoice (inv_id i) w))"
    using delete_invoice_set[of "inv_id i" "bw_invoices w"] delete_invoice_distinct[of "bw_invoices w" "inv_id i"]
    by (auto simp: spares_def same_live_def descends_def unique_documents_def deleteInvoice_def modifyS_def billing_of_def)
qed

lemma clears_test_session:
  assumes "bsd_transactionID x \<in> test_sessions w0"
  shows "moves (spares w0) (clear_session_billing x u)"
proof (rule movesI)
  fix w :: "'a billing_world"
  have "billing_of i (fst (clear_session_billing x u w)) = billing_of i w" if "i \<notin> test_sessions w0" for i
    using that assms by (auto simp: clear_session_billing_def handler_simps billing_of_save dest!: loadTransaction_id split: option.split)
  moreover have "bw_invoices (fst (clear_session_billing x u w)) = bw_invoices w" "bw_users (fst (clear_session_billing x u w)) = bw_users w"
    by (simp_all add: clear_session_billing_def handler_simps saveTransactionBillingData_def split: option.split)
  ultimately show "spares w0 w (fst (clear_session_billing x u w))"
    using assms by (auto simp: spares_def same_live_def descends_def unique_documents_def)
qed

lemma spare_folds:
  assumes "\<And>x u. x \<in> set xs \<Longrightarrow> moves (spares w0) (f x u)"
  shows "moves (spares w0) (foldS f xs u)"
  using assms by (induction xs arbitrary: u) (auto intro: spare.returns spare.binds)

lemma clears_test_invoice:
  assumes "unique_documents w0" and "i \<in> set (bw_invoices w0)"
  shows "moves (spares w0) (clearInvoiceTestData i)"
proof (cases "inv_liveMode i")
  case False
  have "bsd_transactionID x \<in> test_sessions w0" if "inv_sessions i = Some ss" and "x \<in> set ss" for ss x
    using that assms(2) False by (force simp: test_sessions_def)
  then have "moves (spares w0) (foldS clear_session_billing ss ())" if "inv_sessions i = Some ss" for ss
    using that by (intro spare_folds clears_test_session) auto
  then have "moves (spares w0) (clearTransactionsTestData i)"
    by (cases "inv_sessions i") (auto simp: clearTransactionsTestData_def intro: spare.throws)
  then show ?thesis
    unfolding clearInvoiceTestData_def using False by (intro spare.rules deletes_test_invoice[OF assms False]) auto
qed (simp add: clearInvoiceTestData_def spare.throws)

lemma live_update_first:
  assumes "\<And>v. v \<in> set us \<Longrightarrow> usr_id v = i \<Longrightarrow> \<not> live_user v"
  shows "filter live_user (update_first (\<lambda>u. usr_id u = i) (\<lambda>u. u\<lparr>usr_billingData := None\<rparr>) us) = filter live_user us"
  using assms by (induction us) (auto simp: live_user_def)

lemma update_first_ids: "map usr_id (update_first P (\<lambda>u. u\<lparr>usr_billingData := d\<rparr>) us) = map usr_id us"
  by (induction us) auto

lemma clears_test_user:
  assumes "unique_documents w0" and "u \<in> set (bw_users w0)"
  shows "moves (spares w0) (clearUserTestBillingData u)"
proof (cases "live_user u")
  case False
  have "spares w0 w (fst (saveUserBillingData (usr_id u) None w))" for w
  proof -
    have "\<not> live_user v" if "descends w0 w" "v \<in> set (bw_users w)" "usr_id v = usr_id u" for v
    proof
      assume "live_user v"
      with that(2) have "v \<in> set (filter live_user (bw_users w))" by simp
      with that(1) have "v \<in> set (bw_users w0)" "live_user v" by (auto simp: descends_def)
      with assms that(3) have "v = u" by (auto simp: unique_documents_def distinct_map inj_on_def)
      with \<open>live_user v\<close> False show False by simp
    qed
    then have "descends w0 w \<Longrightarrow> filter live_user (update_first (\<lambda>v. usr_id v = usr_id u) (\<lambda>u. u\<lparr>usr_billingData := None\<rparr>) (bw_users w))
        = filter live_user (bw_users w)"
      by (intro live_update_first) blast
    then show ?thesis
      by (simp add: spares_def same_live_def descends_def unique_documents_def saveUserBillingData_def modifyS_def billing_of_def
          update_first_ids)
  qed
  then show ?thesis using False by (auto simp: clearUserTestBillingData_def live_user_def intro!: movesI split: option.splits)
qed (simp add: clearUserTestBillingData_def live_user_def spare.throws split: option.splits)

lemma ignoring_spares: "moves (spares w0) (f x) \<Longrightarrow> moves (spares w0) (ignoring f x u)"
  unfolding ignoring_def by (intro spare.catches spare.returns)

lemma getInvoices_subset: "iq_sort q = None \<Longrightarrow> set (snd (getInvoices q col)) \<subseteq> set col"
  by (auto simp: getInvoices_def Let_def dest!: in_set_takeD in_set_dropD)

lemma clears_invoices:
  assumes "unique_documents w0"
  shows "spares w0 w0 (fst (clearAllInvoiceTestData w0))"
proof -
  have "moves (spares w0) (foldS (ignoring clearInvoiceTestData) (snd (getInvoices (all_invoices\<lparr>iq_liveMode := Some False\<rparr>) (bw_invoices w0))) ())"
    using getInvoices_subset[of "all_invoices\<lparr>iq_liveMode := Some False\<rparr>" "bw_invoices w0"]
    by (intro spare_folds ignoring_spares clears_test_invoice[OF assms]) (auto simp: all_invoices_def)
  then show ?thesis by (simp add: clearAllInvoiceTestData_def bindS_def readS_def movesD)
qed

lemma test_users: "set (getUsersWithTestBillingData us) \<subseteq> set us"
  by (auto simp: getUsersWithTestBillingData_def Let_def)

lemma clears_users:
  assumes "unique_documents w0"
  shows "spares w0 w0 (fst (clearAllUsersTestData w0))"
proof -
  have "moves (spares w0) (foldS (ignoring clearUserTestBillingData) (getUsersWithTestBillingData (bw_users w0)) ())"
    using test_users[of "bw_users w0"] by (intro spare_folds ignoring_spares clears_test_user[OF assms]) auto
  then show ?thesis by (simp add: clearAllUsersTestData_def bindS_def readS_def movesD)
qed

text \<open>C30: the removal of test data leaves every live invoice, every user with live billing data, and the billing of every
  session that no test invoice names, whatever fails on the way.\<close>

theorem test_removal_spares_live:
  assumes "unique_documents w"
  shows "same_live w w (fst (clearTestData w))"
proof -
  obtain w1 r where w1: "clearAllInvoiceTestData w = (w1, r)" by (metis surj_pair)
  note s1 = clears_invoices[OF assms, unfolded w1 fst_conv spares_def, rule_format]
  have d: "descends w w" using assms by (simp add: descends_def)
  have u: "unique_documents w1" using s1[OF d] by (simp add: descends_def)
  then have "descends w1 w1" by (simp add: descends_def)
  with clears_users[OF u] have "same_live w1 w1 (fst (clearAllUsersTestData w1))" by (simp add: spares_def)
  moreover have "test_sessions w1 \<subseteq> test_sessions w" using s1[OF d] by (auto simp: descends_def test_sessions_def)
  ultimately show ?thesis
    using s1[OF d] by (cases r) (auto simp: clearTestData_def bindS_def w1 same_live_def)
qed

definition same_users :: "'s billing_world \<Rightarrow> 's billing_world \<Rightarrow> bool" where
  "same_users w w' = (bw_users w' = bw_users w)"

interpretation users: evolution same_users
  by unfold_locales (simp_all add: same_users_def)

lemma same_users_save: "moves same_users (saveTransactionBillingData i d)" "moves same_users (deleteInvoice k)"
  by (simp_all add: moves_def same_users_def saveTransactionBillingData_def deleteInvoice_def modifyS_def)

lemma same_users_clear: "moves same_users clearAllInvoiceTestData"
  unfolding clearAllInvoiceTestData_def ignoring_def clearInvoiceTestData_def clearTransactionsTestData_def clear_session_billing_def
  by (intro users.rules same_users_save)

lemma many_found: "500 \<le> length (filter has_test_billing_data us) \<Longrightarrow> getUsersWithTestBillingData us = []"
  by (simp add: getUsersWithTestBillingData_def Let_def getCountFromDatabaseCount_def DB_RECORD_COUNT_CEIL_def)

text \<open>With 500 users or more that have test billing data the count of the data base is cut and the number of users is taken
  for negative: the removal of test data clears none of them, and raises nothing.\<close>

theorem many_test_users_stay:
  assumes "500 \<le> length (filter has_test_billing_data (bw_users w))" and "clearTestData w = (w', r)"
  shows "bw_users w' = bw_users w"
proof -
  obtain w1 r1 where w1: "clearAllInvoiceTestData w = (w1, r1)" by (metis surj_pair)
  have "bw_users w1 = bw_users w" using movesD[OF same_users_clear, of w] w1 by (simp add: same_users_def)
  with assms w1 show ?thesis
    by (cases r1) (auto simp: clearTestData_def bindS_def clearAllUsersTestData_def readS_def many_found returnS_def)
qed

end
