(* ===== verification/Invoice_Charging.thy ===== *)
theory Invoice_Charging
  imports Billing_Integration Handler_Frame
begin

text \<open>
  The periodic charging of invoices: the loop over the pages ends, for the invoices that leave the scope are no longer
  found and the others are skipped. The contract of the abstract \<^verbatim>\<open>chargeInvoice\<close> is the locale \<open>charging\<close>,
  which the billing platform's own satisfies while the platform answers for the invoice that it is asked for.
\<close>

section \<open>Updates of one document\<close>

definition put_invoice :: "(billing_invoice \<Rightarrow> billing_invoice) \<Rightarrow> string \<Rightarrow> billing_invoice list \<Rightarrow> billing_invoice list" where
  "put_invoice g k is = map (\<lambda>j. if inv_id j = k then g j else j) is"

lemma put_id [simp]: "put_invoice id k is = is"
  unfolding put_invoice_def by (rule map_idI) simp

lemma put_invoice_other: "j \<in> set is \<Longrightarrow> inv_id j \<noteq> k \<Longrightarrow> j \<in> set (put_invoice g k is)"
  by (force simp: put_invoice_def)

lemma put_invoice_absent: "i \<notin> inv_id ` set is \<Longrightarrow> put_invoice g i is = is"
  unfolding put_invoice_def by (rule map_idI) auto

lemma put_invoice_matched:
  assumes "distinct (map inv_id is)" and "i \<in> set is" and "P i"
  shows "length (filter P (put_invoice g (inv_id i) is)) + (if P (g i) then 0 else 1) = length (filter P is)"
  using assms(1,2)
proof (induction "is")
  case (Cons j js)
  show ?case
  proof (cases "j = i")
    case True
    then have "put_invoice g (inv_id i) js = js" using Cons.prems by (intro put_invoice_absent) auto
    then show ?thesis using True assms(3) by (simp add: put_invoice_def)
  next
    case False
    then have "i \<in> set js" and "inv_id j \<noteq> inv_id i" using Cons.prems by auto
    then show ?thesis using Cons by (simp add: put_invoice_def)
  qed
qed simp

section \<open>The contract of charging\<close>

locale charging =
  fixes charge :: "billing_invoice \<Rightarrow> ('s billing_world, billing_invoice) handler"
    and good :: "'s billing_world \<Rightarrow> bool"
  assumes unique: "good w \<Longrightarrow> distinct (map inv_id (bw_invoices w))"
    and updates: "good w \<Longrightarrow> i \<in> set (bw_invoices w) \<Longrightarrow> charge i w = (w', r) \<Longrightarrow>
      good w' \<and> (\<exists>g. bw_invoices w' = put_invoice g (inv_id i) (bw_invoices w)
        \<and> (\<forall>n. r = Inr n \<longrightarrow> inv_status (g i) = inv_status n))"
begin

definition found :: "invoice_query \<Rightarrow> 's billing_world \<Rightarrow> nat" where
  "found q w = length (filter (invoice_matches q) (bw_invoices w))"

lemma charge_one_step:
  assumes g: "good w" and i: "i \<in> set (bw_invoices w)" "invoice_matches q i"
    and q: "\<And>n. isInvoiceOutOfPeriodicOperationScope b n \<Longrightarrow> \<not> invoice_matches q n"
    and st: "\<And>m n. inv_status m = inv_status n \<Longrightarrow> isInvoiceOutOfPeriodicOperationScope b m = isInvoiceOutOfPeriodicOperationScope b n"
  shows "\<exists>w' acts' skip'. charge_one charge c b force i (acts, skip) w = (w', Inr (acts', skip'))
    \<and> good w' \<and> skip - 1 \<le> skip' \<and> skip' \<le> skip \<and> int (found q w') + (skip - skip') \<le> int (found q w)
    \<and> (\<forall>j. j \<in> set (bw_invoices w) \<and> inv_id j \<noteq> inv_id i \<longrightarrow> j \<in> set (bw_invoices w'))"
proof (cases "isInvoiceOutOfPeriodicOperationScope b i \<or> \<not> force \<and> same_day c (inv_createdOn i) (now_of w)")
  case True
  then show ?thesis using g by (auto simp: charge_one_def handler_simps)
next
  case False
  obtain w' r where r: "charge i w = (w', r)" by (metis surj_pair)
  obtain g where g': "good w'" "bw_invoices w' = put_invoice g (inv_id i) (bw_invoices w)"
    "\<forall>n. r = Inr n \<longrightarrow> inv_status (g i) = inv_status n"
    using updates[OF g i(1) r] by blast
  have f: "found q w' + (if invoice_matches q (g i) then 0 else 1) = found q w"
    using put_invoice_matched[of "bw_invoices w" i "invoice_matches q" g] unique[OF g] i by (simp add: found_def g'(2))
  have o: "\<not> invoice_matches q (g i)" if "r = Inr n" "isInvoiceOutOfPeriodicOperationScope b n" for n
    using q st[of "g i" n] g'(3) that by blast
  have k: "\<forall>j. j \<in> set (bw_invoices w) \<and> inv_id j \<noteq> inv_id i \<longrightarrow> j \<in> set (bw_invoices w')"
    by (simp add: g'(2) put_invoice_other)
  show ?thesis
  proof (cases r)
    case (Inl e)
    then show ?thesis
      using False r g'(1) f k by (auto simp: charge_one_def handler_simps catchS_def split: if_splits)
  next
    case (Inr n)
    then show ?thesis
      using False r g'(1) f k o[OF Inr] by (auto simp: charge_one_def handler_simps catchS_def split: if_splits)
  qed
qed

lemma charge_page:
  assumes "good w" and "set is \<subseteq> set (bw_invoices w)" and "distinct (map inv_id is)" and "list_all (invoice_matches q) is"
    and q: "\<And>n. isInvoiceOutOfPeriodicOperationScope b n \<Longrightarrow> \<not> invoice_matches q n"
    and st: "\<And>m n. inv_status m = inv_status n \<Longrightarrow> isInvoiceOutOfPeriodicOperationScope b m = isInvoiceOutOfPeriodicOperationScope b n"
  shows "\<exists>w' acts' skip'. foldS (charge_one charge c b force) is (acts, skip) w = (w', Inr (acts', skip'))
    \<and> good w' \<and> skip - int (length is) \<le> skip' \<and> skip' \<le> skip \<and> int (found q w') + (skip - skip') \<le> int (found q w)"
  using assms(1-4)
proof (induction "is" arbitrary: w acts skip)
  case (Cons i js)
  have i: "i \<in> set (bw_invoices w)" "invoice_matches q i" using Cons.prems by simp_all
  obtain w1 acts1 skip1 where s: "charge_one charge c b force i (acts, skip) w = (w1, Inr (acts1, skip1))"
      "good w1" "skip - 1 \<le> skip1" "skip1 \<le> skip" "int (found q w1) + (skip - skip1) \<le> int (found q w)"
    and k: "\<forall>j. j \<in> set (bw_invoices w) \<and> inv_id j \<noteq> inv_id i \<longrightarrow> j \<in> set (bw_invoices w1)"
    using charge_one_step[OF Cons.prems(1) i q st, of c force acts skip] by blast
  have "j \<in> set (bw_invoices w1)" if "j \<in> set js" for j
  proof -
    have "inv_id j \<noteq> inv_id i" using Cons.prems(3) that by (force simp: image_iff)
    then show ?thesis using k Cons.prems(2) that by auto
  qed
  then have j: "set js \<subseteq> set (bw_invoices w1)" by blast
  have "distinct (map inv_id js)" "list_all (invoice_matches q) js" using Cons.prems(3,4) by simp_all
  from Cons.IH[OF s(2) j this, of acts1 skip1] obtain w' acts' skip' where
    r: "foldS (charge_one charge c b force) js (acts1, skip1) w1 = (w', Inr (acts', skip'))" "good w'"
    "skip1 - int (length js) \<le> skip'" "skip' \<le> skip1" "int (found q w') + (skip1 - skip') \<le> int (found q w1)"
    by blast
  have "foldS (charge_one charge c b force) (i # js) (acts, skip) w = (w', Inr (acts', skip'))"
    using s(1) r(1) by (simp add: bindS_def)
  moreover have "skip - int (length (i # js)) \<le> skip'" "skip' \<le> skip" "int (found q w') + (skip - skip') \<le> int (found q w)"
    using s(3-5) r(3-5) by simp_all
  ultimately show ?case using r(2) by blast
qed (auto simp: returnS_def)

definition page :: "invoice_query \<Rightarrow> int \<Rightarrow> int \<Rightarrow> 's billing_world \<Rightarrow> billing_invoice list" where
  "page q limit skip w = snd (getInvoices (q\<lparr>iq_limit := Number limit, iq_skip := Number skip\<rparr>) (bw_invoices w))"

lemma page_facts:
  assumes "good w" and "iq_sort q = Some (sort_key inv_createdOn)" and "0 < limit" and "0 \<le> skip"
  shows "set (page q limit skip w) \<subseteq> set (bw_invoices w)" and "list_all (invoice_matches q) (page q limit skip w)"
    and "distinct (map inv_id (page q limit skip w))" and "int (length (page q limit skip w)) \<le> limit"
    and "page q limit skip w \<noteq> [] \<Longrightarrow> skip < int (found q w)"
proof -
  let ?f = "sort_key inv_createdOn (filter (invoice_matches q) (bw_invoices w))"
  have m: "invoice_matches (q\<lparr>iq_limit := a, iq_skip := k\<rparr>) = invoice_matches q" for a k
    by (simp add: fun_eq_iff invoice_matches_def cong: option.case_cong)
  have e: "page q limit skip w = (if iq_onlyRecordCount q then [] else take (nat (checkRecordLimit (Number limit))) (drop (nat skip) ?f))"
    using assms(2,4) by (simp add: page_def getInvoices_def Let_def m checkRecordSkip_def page_value_def)
  have l: "nat (checkRecordLimit (Number limit)) \<le> nat limit"
    using assms(3) by (auto simp: checkRecordLimit_def page_value_def Let_def MAX_SAFE_INTEGER_def)
  show "set (page q limit skip w) \<subseteq> set (bw_invoices w)" "list_all (invoice_matches q) (page q limit skip w)"
    by (auto simp: e list_all_iff dest!: in_set_takeD in_set_dropD)
  have "distinct (map inv_id ?f)" using unique[OF assms(1)]
    by (simp add: distinct_map inj_on_def)
  then show "distinct (map inv_id (page q limit skip w))" by (simp add: e take_map[symmetric] drop_map[symmetric] distinct_take distinct_drop)
  show "int (length (page q limit skip w)) \<le> limit" using l assms(3) by (auto simp: e)
  show "page q limit skip w \<noteq> [] \<Longrightarrow> skip < int (found q w)"
    using assms(4) by (auto simp: e found_def split: if_splits)
qed

lemma charge_pages_end:
  assumes "good w" and "iq_sort q = Some (sort_key inv_createdOn)" and "0 < limit" and "0 \<le> skip"
    and q: "\<And>n. isInvoiceOutOfPeriodicOperationScope b n \<Longrightarrow> \<not> invoice_matches q n"
    and st: "\<And>m n. inv_status m = inv_status n \<Longrightarrow> isInvoiceOutOfPeriodicOperationScope b m = isInvoiceOutOfPeriodicOperationScope b n"
  shows "\<exists>w' acts'. charge_pages charge c b force q limit skip acts w = Some (w', Inr acts') \<and> good w'"
  using assms(1,4)
proof (induction "nat (int (found q w) - skip)" arbitrary: w acts skip rule: less_induct)
  case less
  note f = page_facts[OF less.prems(1) assms(2,3) less.prems(2)]
  show ?case
  proof (cases "page q limit skip w = []")
    case True
    then show ?thesis using less.prems(1) by (subst charge_pages.simps) (simp add: Let_def page_def)
  next
    case False
    obtain w1 acts1 skip1 where s: "foldS (charge_one charge c b force) (page q limit skip w) (acts, skip + limit) w = (w1, Inr (acts1, skip1))"
      "good w1" "skip + limit - int (length (page q limit skip w)) \<le> skip1" "skip1 \<le> skip + limit"
      "int (found q w1) + (skip + limit - skip1) \<le> int (found q w)"
      using charge_page[OF less.prems(1) f(1,3,2), of b c force acts "skip + limit"] q st by blast
    have k: "0 \<le> skip1" using s(3) f(4) less.prems(2) by linarith
    have "nat (int (found q w1) - skip1) < nat (int (found q w) - skip)"
      using s(5) f(5)[OF False] assms(3) by linarith
    from less.hyps[OF this s(2) k, of acts1] obtain w' acts' where
      "charge_pages charge c b force q limit skip1 acts1 w1 = Some (w', Inr acts')" "good w'" by blast
    then show ?thesis using False s(1) by (subst charge_pages.simps) (simp add: Let_def page_def[symmetric])
  qed
qed

end

section \<open>Charging with the billing platform\<close>

text \<open>
  The platform answers for the invoice that it is asked for; the local copies have identifiers of their own, and no two are of the
  same invoice of the platform.
\<close>

definition answers_asked :: "'s billing_env \<Rightarrow> bool" where
  "answers_asked env = (\<forall>key i s s' si. (pf_invoices_retrieve (be_platform env key) i s = (s', Inr si)
      \<or> pf_invoices_finalize (be_platform env key) i s = (s', Inr si) \<or> pf_invoices_pay (be_platform env key) i s = (s', Inr si))
    \<longrightarrow> siv_id si = i)"

definition proper_invoices :: "billing_invoice list \<Rightarrow> bool" where
  "proper_invoices is = (distinct (map inv_id is) \<and> distinct (map inv_invoiceID is) \<and> (\<forall>i\<in>set is. inv_id i \<noteq> [] \<and> inv_invoiceID i \<noteq> []))"

definition chargeable :: "'s billing_env \<Rightarrow> string list \<Rightarrow> 's billing_world \<Rightarrow> bool" where
  "chargeable env ids w = (answers_asked env \<and> proper_invoices (bw_invoices w) \<and> map inv_invoiceID (bw_invoices w) = ids)"

definition same_invoices :: "'s billing_world \<Rightarrow> 's billing_world \<Rightarrow> bool" where
  "same_invoices w w' = (bw_invoices w' = bw_invoices w)"

interpretation invoices: evolution same_invoices
  by unfold_locales (simp_all add: same_invoices_def)

lemma same_invoices_call: "moves same_invoices (call env f)"
  by (rule movesI) (simp add: same_invoices_def call_def split: option.split prod.split)

lemma same_invoices_vault: "moves same_invoices (in_vault m)"
  by (rule movesI) (simp add: same_invoices_def in_vault_def split: prod.split)

lemma same_invoices_updates:
  "same_invoices w (w\<lparr>bw_key := k\<rparr>)" "same_invoices w (w\<lparr>bw_productionMode := p\<rparr>)" "same_invoices w (w\<lparr>bw_notices := ns\<rparr>)"
  "moves same_invoices (saveTransactionBillingData i d)"
  by (simp_all add: same_invoices_def moves_def saveTransactionBillingData_def modifyS_def)

lemma same_invoices_steps:
  "moves same_invoices (checkConnection env b)"
  "moves same_invoices (chargeStripeInvoice env k)"
  "moves same_invoices (getStripeInvoice env k)"
  "moves same_invoices (sendInvoiceNotification i)"
  "moves same_invoices (updateTransactionsBillingData i)"
  unfolding checkConnection_def isConnectedToALiveAccount_def chargeStripeInvoice_def getStripeInvoice_def sendInvoiceNotification_def
    updateTransactionsBillingData_def update_session_billing_def
  by (intro invoices.rules same_invoices_call same_invoices_vault same_invoices_updates)+

text \<open>The invoice that the platform returns is the one that was asked for.\<close>

lemma call_done: "call env f w = (w', Inr x) \<Longrightarrow> \<exists>key s'. f (be_platform env key) (bw_platform w) = (s', Inr x)"
  by (auto simp: call_def split: option.splits prod.splits)

lemma retrieved_id: "answers_asked env \<Longrightarrow> getStripeInvoice env k w = (w', Inr si) \<Longrightarrow> siv_id si = k"
  unfolding getStripeInvoice_def answers_asked_def by (blast dest: call_done)

lemma bind_Inr: "bindS m f w = (w', Inr x) \<longleftrightarrow> (\<exists>w1 a. m w = (w1, Inr a) \<and> f a w1 = (w', Inr x))"
  by (auto simp: bindS_def split: prod.splits sum.splits)

lemma charged_id:
  assumes "answers_asked env" and "chargeStripeInvoice env k w = (w', Inr (Inr si))"
  shows "siv_id si = k"
proof -
  have c: "call env (\<lambda>p. pf_invoices_finalize p i) u = (v, Inr x) \<Longrightarrow> siv_id x = i"
    "call env (\<lambda>p. pf_invoices_pay p i) u = (v, Inr x) \<Longrightarrow> siv_id x = i" for i u v x
    using assms(1) unfolding answers_asked_def by (blast dest: call_done)+
  show ?thesis
    using assms(2) unfolding chargeStripeInvoice_def catchS_def
    by (auto simp: bind_Inr returnS_def split: prod.splits sum.splits if_splits dest: retrieved_id[OF assms(1)] c)
qed

text \<open>The local copy of a known invoice.\<close>

lemma filter_by_unique:
  "distinct (map f is) \<Longrightarrow> i \<in> set is \<Longrightarrow> filter (\<lambda>j. f j = f i) is = [i]"
proof (induction "is")
  case (Cons j js)
  show ?case
  proof (cases "j = i")
    case True
    then have "filter (\<lambda>j. f j = f i) js = []" using Cons.prems by (auto simp: filter_empty_conv image_iff)
    then show ?thesis using True by simp
  qed (use Cons in auto)
qed simp

lemma all_match:
  "k \<noteq> [] \<Longrightarrow> invoice_matches (all_invoices\<lparr>iq_billingInvoiceID := Some k, iq_limit := l\<rparr>) = (\<lambda>j. inv_invoiceID j = k)"
  "invoice_matches (all_invoices\<lparr>iq_invoiceIDs := [k], iq_limit := l\<rparr>) = (\<lambda>j. inv_id j = k)"
  by (auto simp: fun_eq_iff invoice_matches_def all_invoices_def)

lemma proper_found:
  assumes "proper_invoices is" and "i \<in> set is"
  shows "getInvoiceByInvoiceID (inv_invoiceID i) is = Some i" and "getInvoice (inv_id i) is = Some i"
proof -
  have n: "inv_invoiceID i \<noteq> []" using assms by (auto simp: proper_invoices_def)
  have l: "take (nat (checkRecordLimit (Number 1))) (drop (nat (checkRecordSkip (Number 0))) [i]) = [i]"
    by (simp add: checkRecordLimit_def checkRecordSkip_def page_value_def Let_def MAX_SAFE_INTEGER_def)
  have o: "iq_onlyRecordCount all_invoices = False" "iq_sort all_invoices = None" "iq_skip all_invoices = Number 0"
    by (simp_all add: all_invoices_def)
  show "getInvoiceByInvoiceID (inv_invoiceID i) is = Some i"
    using assms filter_by_unique[of inv_invoiceID "is" i] l n
    by (simp add: getInvoiceByInvoiceID_def getInvoices_def all_match o single_invoice_def getCountFromDatabaseCount_def
        DB_RECORD_COUNT_CEIL_def proper_invoices_def)
  show "getInvoice (inv_id i) is = Some i"
    using assms filter_by_unique[of inv_id "is" i] l
    by (simp add: getInvoice_def getInvoices_def all_match o single_invoice_def getCountFromDatabaseCount_def
        DB_RECORD_COUNT_CEIL_def proper_invoices_def)
qed

lemma upsert_put:
  assumes "distinct (map inv_id is)" and "i \<in> set is" and "inv_id n = inv_id i"
  shows "upsert_invoice n is = put_invoice (set_invoice n) (inv_id i) is"
  using assms(1,2)
proof (induction "is")
  case (Cons j js)
  show ?case
  proof (cases "inv_id j = inv_id i")
    case True
    then have "inv_id i \<notin> inv_id ` set js" using Cons.prems by auto
    then have "put_invoice (set_invoice n) (inv_id i) js = js" by (rule put_invoice_absent)
    then show ?thesis using True assms(3) by (simp add: put_invoice_def)
  next
    case False
    then show ?thesis using Cons assms(3) by (auto simp: put_invoice_def)
  qed
qed simp

lemma update_first_put:
  assumes "distinct (map inv_id is)"
  shows "update_first (\<lambda>i. inv_id i = k) f is = put_invoice f k is"
  using assms
proof (induction "is")
  case (Cons j js)
  show ?case
  proof (cases "inv_id j = k")
    case True
    then have "put_invoice f k js = js" using Cons.prems by (intro put_invoice_absent) auto
    then show ?thesis using True by (simp add: put_invoice_def)
  qed (use Cons in \<open>auto simp: put_invoice_def\<close>)
qed (simp add: put_invoice_def)

lemma put_put: "(\<And>j. inv_id j = k \<Longrightarrow> inv_id (g j) = k) \<Longrightarrow> put_invoice h k (put_invoice g k is) = put_invoice (h o g) k is"
  by (simp add: put_invoice_def)

text \<open>An update that keeps the two identifiers.\<close>

definition keeps_ids :: "billing_invoice \<Rightarrow> (billing_invoice \<Rightarrow> billing_invoice) \<Rightarrow> bool" where
  "keeps_ids i g = (\<forall>j. inv_id j = inv_id i \<longrightarrow> inv_id (g j) = inv_id i \<and> (inv_invoiceID j = inv_invoiceID i \<longrightarrow> inv_invoiceID (g j) = inv_invoiceID i))"

lemma proper_put:
  assumes "proper_invoices is" and "i \<in> set is" and "keeps_ids i g"
  shows "proper_invoices (put_invoice g (inv_id i) is)" and "map inv_invoiceID (put_invoice g (inv_id i) is) = map inv_invoiceID is"
proof -
  have "inv_id j = inv_id i \<longrightarrow> j = i" if "j \<in> set is" for j
    using assms(1,2) that by (auto simp: proper_invoices_def distinct_map inj_on_def)
  then have m: "map inv_id (put_invoice g (inv_id i) is) = map inv_id is" "map inv_invoiceID (put_invoice g (inv_id i) is) = map inv_invoiceID is"
    using assms(3) by (auto simp: put_invoice_def keeps_ids_def)
  have "x \<noteq> []" if "x \<in> set (map inv_id is) \<or> x \<in> set (map inv_invoiceID is)" for x
    using that assms(1) by (auto simp: proper_invoices_def)
  then have "\<forall>j\<in>set (put_invoice g (inv_id i) is). inv_id j \<noteq> [] \<and> inv_invoiceID j \<noteq> []"
    unfolding m[symmetric] by auto
  then show "proper_invoices (put_invoice g (inv_id i) is)" using assms(1) m by (simp add: proper_invoices_def)
  show "map inv_invoiceID (put_invoice g (inv_id i) is) = map inv_invoiceID is" by (rule m(2))
qed

text \<open>What charging an invoice does to its local copy: one update, whose status is that of the result.\<close>

definition updates_one :: "billing_invoice \<Rightarrow> 's billing_world \<Rightarrow> 's billing_world \<times> billing_invoice res \<Rightarrow> bool" where
  "updates_one i w x = (\<exists>g. keeps_ids i g \<and> bw_invoices (fst x) = put_invoice g (inv_id i) (bw_invoices w)
     \<and> (\<forall>n. snd x = Inr n \<longrightarrow> inv_status (g i) = inv_status n))"

lemma updates_none: "bw_invoices w' = bw_invoices w \<Longrightarrow> updates_one i w (w', Inl e)"
  unfolding updates_one_def by (rule exI[of _ id]) (auto simp: keeps_ids_def)

lemma updates_same_start: "bw_invoices w1 = bw_invoices w \<Longrightarrow> updates_one i w1 x \<Longrightarrow> updates_one i w x"
  by (simp add: updates_one_def)

lemma same_done: "moves same_invoices m \<Longrightarrow> m w = (w', r) \<Longrightarrow> bw_invoices w' = bw_invoices w"
  by (metis fst_conv movesD same_invoices_def)

lemma additional_data:
  assumes "distinct (map inv_id (bw_invoices w))"
  shows "\<exists>w' h. updateInvoiceAdditionalData i r item w = (w', Inr ()) \<and> bw_invoices w' = put_invoice h (inv_id i) (bw_invoices w)
    \<and> (\<forall>j. inv_id (h j) = inv_id j \<and> inv_invoiceID (h j) = inv_invoiceID j \<and> inv_status (h j) = inv_status j)"
proof -
  have u: "\<exists>w' h. storeInvoiceAdditionalData i d w = (w', Inr ()) \<and> bw_invoices w' = put_invoice h (inv_id i) (bw_invoices w)
    \<and> (\<forall>j. inv_id (h j) = inv_id j \<and> inv_invoiceID (h j) = inv_invoiceID j \<and> inv_status (h j) = inv_status j)" for d
    by (simp add: storeInvoiceAdditionalData_def Let_def modifyS_def update_first_put[OF assms])
      (rule exI, rule conjI, rule refl, simp)
  have "\<exists>w' h. returnS () w = (w', Inr ()) \<and> bw_invoices w' = put_invoice h (inv_id i) (bw_invoices w)
    \<and> (\<forall>j. inv_id (h j) = inv_id j \<and> inv_invoiceID (h j) = inv_invoiceID j \<and> inv_status (h j) = inv_status j)"
    by (intro exI[of _ w] exI[of _ id]) (simp add: returnS_def)
  with u show ?thesis by (simp add: updateInvoiceAdditionalData_def Let_def bindS_def readS_def)
qed

lemma synchronized:
  assumes "proper_invoices (bw_invoices w)" and "i \<in> set (bw_invoices w)" and "siv_id si = inv_invoiceID i"
    and "synchronizeAsBillingInvoice env si check w = (w', r)"
  shows "(\<exists>e. r = Inl e \<and> bw_invoices w' = bw_invoices w)
    \<or> (\<exists>g. r = Inr (Some (g i)) \<and> keeps_ids i g \<and> bw_invoices w' = put_invoice g (inv_id i) (bw_invoices w))"
proof (cases "\<not> truthy_str (siv_userID si) \<or> check \<and> findUser w (or_else (siv_userID si) []) = None")
  case True
  then show ?thesis using assms(4) by (auto simp: synchronizeAsBillingInvoice_def handler_simps throwS_def split: if_splits)
next
  case False
  let ?n = "(local_copy si)\<lparr>inv_id := inv_id i\<rparr>"
  let ?g = "set_invoice ?n"
  have d: "distinct (map inv_id (bw_invoices w))" and t: "truthy_str (Some (inv_id i))" using assms(1,2) by (auto simp: proper_invoices_def)
  have k: "keeps_ids i ?g" using assms(3) by (simp add: keeps_ids_def set_invoice_def local_copy_def)
  have u: "upsert_invoice ?n (bw_invoices w) = put_invoice ?g (inv_id i) (bw_invoices w)"
    by (rule upsert_put[OF d assms(2)]) simp
  have "?g i \<in> set (put_invoice ?g (inv_id i) (bw_invoices w))" using assms(2) by (force simp: put_invoice_def)
  from proper_found(2)[OF proper_put(1)[OF assms(1,2) k] this]
  have "getInvoice (inv_id i) (put_invoice ?g (inv_id i) (bw_invoices w)) = Some (?g i)" by (simp add: set_invoice_def)
  then have "(w', r) = (w\<lparr>bw_invoices := put_invoice ?g (inv_id i) (bw_invoices w)\<rparr>, Inr (Some (?g i)))"
    using assms(3,4) False t proper_found(1)[OF assms(1,2)]
    by (cases check) (auto simp: synchronizeAsBillingInvoice_def saveInvoice_def handler_simps u)
  with k show ?thesis by auto
qed

lemma catch_returns: "\<exists>w' r. catchS m (\<lambda>e. returnS (f e)) w = (w', Inr r)"
  by (cases "m w") (auto simp: catchS_def returnS_def split: sum.split)

text \<open>From the answer of the platform on.\<close>

lemma charge_tail:
  assumes "proper_invoices (bw_invoices w)" and "i \<in> set (bw_invoices w)" and "siv_id si = inv_invoiceID i"
  shows "updates_one i w (bindS (synchronizeAsBillingInvoice env si False) (\<lambda>saved.
     case saved of None \<Rightarrow> throwS e
     | Some i' \<Rightarrow> bindS (updateInvoiceAdditionalData i' res None) (\<lambda>_.
         bindS (sendInvoiceNotification i') (\<lambda>_. bindS (updateTransactionsBillingData i') (\<lambda>_. returnS i')))) w)"
proof -
  obtain w1 r1 where s: "synchronizeAsBillingInvoice env si False w = (w1, r1)" by (metis surj_pair)
  from synchronized[OF assms s] show ?thesis
  proof (elim disjE exE conjE)
    fix x assume "r1 = Inl x" "bw_invoices w1 = bw_invoices w"
    then show ?thesis using s by (simp add: bindS_def updates_none)
  next
    fix g assume g: "r1 = Inr (Some (g i))" "keeps_ids i g" "bw_invoices w1 = put_invoice g (inv_id i) (bw_invoices w)"
    have gi: "inv_id (g i) = inv_id i" using g(2) by (simp add: keeps_ids_def)
    have d: "distinct (map inv_id (bw_invoices w1))"
      using proper_put(1)[OF assms(1,2) g(2)] g(3) by (simp add: proper_invoices_def)
    obtain w2 h where h: "updateInvoiceAdditionalData (g i) res None w1 = (w2, Inr ())" "bw_invoices w2 = put_invoice h (inv_id i) (bw_invoices w1)"
      "\<forall>j. inv_id (h j) = inv_id j \<and> inv_invoiceID (h j) = inv_invoiceID j \<and> inv_status (h j) = inv_status j"
      using additional_data[OF d, of "g i" res None] gi by auto
    have k: "keeps_ids i (h o g)" using g(2) h(3) by (simp add: keeps_ids_def)
    have i2: "bw_invoices w2 = put_invoice (h o g) (inv_id i) (bw_invoices w)"
      using h(2) g(2,3) by (simp add: put_put keeps_ids_def)
    have m: "moves same_invoices (bindS (sendInvoiceNotification (g i)) (\<lambda>_. bindS (updateTransactionsBillingData (g i)) (\<lambda>_. returnS (g i))))"
      by (intro invoices.rules same_invoices_steps)
    obtain w3 r3 where t: "bindS (sendInvoiceNotification (g i)) (\<lambda>_. bindS (updateTransactionsBillingData (g i)) (\<lambda>_. returnS (g i))) w2 = (w3, r3)"
      by (metis surj_pair)
    then have "r3 = Inr n \<Longrightarrow> n = g i" for n by (auto simp: bind_Inr returnS_def)
    then show ?thesis
      using s g(1) h(1,3) t same_done[OF m t] k i2 unfolding updates_one_def
      by (intro exI[of _ "h o g"]) (auto simp: bindS_def)
  qed
qed

lemma chargeInvoice_updates:
  assumes "answers_asked env" and "proper_invoices (bw_invoices w)" and "i \<in> set (bw_invoices w)"
  shows "updates_one i w (chargeInvoice env b i w)"
proof -
  obtain w1 r1 where c: "checkConnection env b w = (w1, r1)" by (metis surj_pair)
  note c1 = same_done[OF same_invoices_steps(1) c]
  obtain w2 r2 where h: "chargeStripeInvoice env (inv_invoiceID i) w1 = (w2, Inr r2)"
    unfolding chargeStripeInvoice_def using catch_returns[of _ Inl w1] by blast
  note h1 = same_done[OF same_invoices_steps(2) h]
  have p: "proper_invoices (bw_invoices w2)" "i \<in> set (bw_invoices w2)" "distinct (map inv_id (bw_invoices w2))"
    using assms(2,3) c1 h1 by (simp_all add: proper_invoices_def)
  let ?rest = "\<lambda>si. bindS (synchronizeAsBillingInvoice env si False) (\<lambda>saved.
     case saved of None \<Rightarrow> throwS (BackendError ''Unexpected situation - failed to synchronize - the invoice is null'')
     | Some i' \<Rightarrow> bindS (updateInvoiceAdditionalData i' (Some r2) None) (\<lambda>_.
         bindS (sendInvoiceNotification i') (\<lambda>_. bindS (updateTransactionsBillingData i') (\<lambda>_. returnS i'))))"
  have e: "updates_one i w (chargeInvoice env b i w)" if "r1 = Inl x" for x
    using c c1 that by (simp add: chargeInvoice_def bindS_def updates_none)
  have start: "chargeInvoice env b i w = bindS (case r2 of
       Inl e \<Rightarrow> if isResourceMissingError e then bindS (updateInvoiceAdditionalData i (Some r2) None) (\<lambda>_. throwS e)
               else getStripeInvoice env (inv_invoiceID i)
     | Inr si \<Rightarrow> returnS si) ?rest w2" if "r1 = Inr x" for x
    using c h that by (simp add: chargeInvoice_def bindS_def)
  show ?thesis
  proof (cases r1)
    case (Inr x)
    note start = start[OF Inr]
    show ?thesis
    proof (cases r2)
      case (Inr si)
      have "chargeInvoice env b i w = ?rest si w2" using start Inr by (simp add: bindS_def returnS_def)
      then show ?thesis
        using charge_tail[OF p(1,2) charged_id[OF assms(1)], of w1 w2 si] h Inr updates_same_start[of w2 w] c1 h1 by simp
    next
      case (Inl y)
      show ?thesis
      proof (cases "isResourceMissingError y")
        case True
        obtain w3 g where "updateInvoiceAdditionalData i (Some r2) None w2 = (w3, Inr ())" "bw_invoices w3 = put_invoice g (inv_id i) (bw_invoices w2)"
          "\<forall>j. inv_id (g j) = inv_id j \<and> inv_invoiceID (g j) = inv_invoiceID j \<and> inv_status (g j) = inv_status j"
          using additional_data[OF p(3)] by blast
        then show ?thesis
          using start Inl True c1 h1 unfolding updates_one_def
          by (intro exI[of _ g]) (auto simp: bindS_def throwS_def keeps_ids_def)
      next
        case False
        obtain w3 r3 where g: "getStripeInvoice env (inv_invoiceID i) w2 = (w3, r3)" by (metis surj_pair)
        note g1 = same_done[OF same_invoices_steps(3) g]
        show ?thesis
        proof (cases r3)
          case (Inl z)
          then show ?thesis using start \<open>r2 = Inl y\<close> False g g1 c1 h1 by (simp add: bindS_def updates_none)
        next
          case (Inr si)
          have "chargeInvoice env b i w = ?rest si w3" using start \<open>r2 = Inl y\<close> False g Inr by (simp add: bindS_def)
          moreover have "updates_one i w3 (?rest si w3)"
            using p g1 retrieved_id[OF assms(1)] g Inr by (intro charge_tail) simp_all
          ultimately show ?thesis using updates_same_start[of w3 w] g1 c1 h1 by simp
        qed
      qed
    qed
  qed (rule e)
qed

interpretation stripe_charging: charging "chargeInvoice env b" "chargeable env ids" for env :: "'s billing_env" and b ids
proof
  fix w :: "'s billing_world"
  show "chargeable env ids w \<Longrightarrow> distinct (map inv_id (bw_invoices w))" by (simp add: chargeable_def proper_invoices_def)
next
  fix w w' :: "'s billing_world" and i r
  assume w: "chargeable env ids w" and i: "i \<in> set (bw_invoices w)" and c: "chargeInvoice env b i w = (w', r)"
  obtain g where g: "keeps_ids i g" "bw_invoices w' = put_invoice g (inv_id i) (bw_invoices w)" "\<forall>n. r = Inr n \<longrightarrow> inv_status (g i) = inv_status n"
    using chargeInvoice_updates[of env w i b] w i c by (auto simp: chargeable_def updates_one_def)
  moreover have "chargeable env ids w'" using w proper_put[OF _ i g(1)] g(2) by (simp add: chargeable_def)
  ultimately show "chargeable env ids w' \<and> (\<exists>g. bw_invoices w' = put_invoice g (inv_id i) (bw_invoices w)
      \<and> (\<forall>n. r = Inr n \<longrightarrow> inv_status (g i) = inv_status n))" by blast
qed

section \<open>The periodic operation\<close>

lemma out_of_scope_unmatched:
  "isInvoiceOutOfPeriodicOperationScope b n \<Longrightarrow> \<not> invoice_matches (preparePeriodicBillingQueryParameters c b force now) n"
  by (auto simp: isInvoiceOutOfPeriodicOperationScope_def invoice_matches_def preparePeriodicBillingQueryParameters_def split: if_splits)

lemma scope_status:
  "inv_status m = inv_status n \<Longrightarrow> isInvoiceOutOfPeriodicOperationScope b m = isInvoiceOutOfPeriodicOperationScope b n"
  by (simp add: isInvoiceOutOfPeriodicOperationScope_def)

lemma periodic_query:
  "iq_sort (preparePeriodicBillingQueryParameters c b force now) = Some (sort_key inv_createdOn)"
  "0 < page_limit (preparePeriodicBillingQueryParameters c b force now)"
  by (simp_all add: preparePeriodicBillingQueryParameters_def page_limit_def BATCH_PAGE_SIZE_def)

text \<open>C20: the periodic charging ends, whatever the platform answers and however often it fails, while it answers for the invoice that
  it is asked for; and no local copy of an invoice is lost, doubled or exchanged on the way.\<close>

theorem charging_ends:
  assumes "answers_asked env" and "proper_invoices (bw_invoices w)"
  shows "\<exists>w' r. chargeInvoices env b force w = Some (w', r) \<and> proper_invoices (bw_invoices w')
    \<and> map inv_invoiceID (bw_invoices w') = map inv_invoiceID (bw_invoices w)"
proof -
  let ?ids = "map inv_invoiceID (bw_invoices w)"
  obtain w1 r1 where c: "checkConnection env b w = (w1, r1)" by (metis surj_pair)
  have w1: "chargeable env ?ids w1" using assms same_done[OF same_invoices_steps(1) c] by (simp add: chargeable_def)
  show ?thesis
  proof (cases r1)
    case (Inl e)
    then show ?thesis using c w1 by (simp add: chargeInvoices_def chargeable_def)
  next
    case (Inr u)
    let ?q = "preparePeriodicBillingQueryParameters (be_clock env) b force (now_of w1)"
    obtain w' acts' where "charge_pages (chargeInvoice env b) (be_clock env) b force ?q (page_limit ?q) 0
        \<lparr> cga_inSuccess = 0, cga_inError = 0 \<rparr> w1 = Some (w', Inr acts')" "chargeable env ?ids w'"
      using stripe_charging.charge_pages_end[OF w1 periodic_query order_refl out_of_scope_unmatched scope_status] by blast
    then show ?thesis using c Inr by (simp add: chargeInvoices_def Let_def chargeable_def)
  qed
qed

text \<open>An invoice that is finalised but not paid gets the date of the attempt and leaves the range of dates of the query, but not its
  statuses: when that befalls a whole page, the next page is skipped over and the loop ends, with invoices that it never tried.\<close>

theorem page_end_overlooked:
  assumes "sort_key inv_createdOn (filter (invoice_matches q) (bw_invoices w)) = xs @ ys"
    and "iq_sort q = Some (sort_key inv_createdOn)" and "\<not> iq_onlyRecordCount q"
    and "0 < limit" and "limit \<le> MAX_SAFE_INTEGER" and "int (length xs) = limit" and "int (length ys) \<le> limit"
    and "foldS (charge_one (chargeInvoice env b) (be_clock env) b False) xs (acts, limit) w = (w', Inr (acts', limit))"
    and "sort_key inv_createdOn (filter (invoice_matches q) (bw_invoices w')) = ys"
  shows "charge_pages (chargeInvoice env b) (be_clock env) b False q limit 0 acts w = Some (w', Inr acts')
    \<and> set ys \<subseteq> set (bw_invoices w) \<inter> set (bw_invoices w')"
proof -
  have m: "invoice_matches (q\<lparr>iq_limit := a, iq_skip := k\<rparr>) = invoice_matches q" for a k
    by (simp add: fun_eq_iff invoice_matches_def cong: option.case_cong)
  have l: "nat (checkRecordLimit (Number limit)) = nat limit"
    using assms(4,5) by (simp add: checkRecordLimit_def page_value_def Let_def)
  have p: "snd (getInvoices (q\<lparr>iq_limit := Number limit, iq_skip := Number 0\<rparr>) (bw_invoices w)) = xs"
    using assms(1-3) assms(6)[symmetric] l by (simp add: getInvoices_def Let_def m checkRecordSkip_def page_value_def)
  have p': "snd (getInvoices (q\<lparr>iq_limit := Number limit, iq_skip := Number limit\<rparr>) (bw_invoices w')) = []"
    using assms(2-4,7,9) l by (simp add: getInvoices_def Let_def m checkRecordSkip_def page_value_def)
  have "charge_pages (chargeInvoice env b) (be_clock env) b False q limit limit acts' w' = Some (w', Inr acts')"
    by (subst charge_pages.simps) (simp add: p')
  moreover have "xs \<noteq> []" using assms(4,6) by auto
  ultimately have "charge_pages (chargeInvoice env b) (be_clock env) b False q limit 0 acts w = Some (w', Inr acts')"
    by (subst charge_pages.simps) (simp add: p assms(8))
  moreover have "set ys \<subseteq> set (bw_invoices w)" using arg_cong[OF assms(1), of set] by auto
  moreover have "set ys \<subseteq> set (bw_invoices w')" using arg_cong[OF assms(9), of set] by auto
  ultimately show ?thesis by simp
qed

end
