(* ===== verification/Stripe_Laws.thy ===== *)
theory Stripe_Laws
  imports Stripe_Billing
begin

text \<open>
  The connection to the billing platform, payment methods and the start of a session: what a session needs to start,
  how its answer agrees with the check beforehand, when a card is refused, and how a forced synchronisation gets around the
  guard of live accounts.
\<close>

lemma bind_result: "bindS m f w = (w', Inr x) \<longleftrightarrow> (\<exists>w1 a. m w = (w1, Inr a) \<and> f a w1 = (w', Inr x))"
  by (auto simp: bindS_def split: prod.splits sum.splits)

lemma call_connected:
  "bw_key w = Some key \<Longrightarrow> call env f w = (w\<lparr>bw_platform := fst (f (be_platform env key) (bw_platform w))\<rparr>,
     snd (f (be_platform env key) (bw_platform w)))"
  by (simp add: call_def split: prod.split)

lemma call_result:
  "call env f w = (w', Inr x) \<longleftrightarrow> (\<exists>key s. bw_key w = Some key \<and> f (be_platform env key) (bw_platform w) = (s, Inr x) \<and> w' = w\<lparr>bw_platform := s\<rparr>)"
  by (auto simp: call_def split: option.splits prod.splits)

section \<open>Starting a session\<close>

lemma customer_result:
  assumes "checkStripeCustomer env cid w = (w', Inr c)"
  shows "\<exists>key s. truthy_str cid \<and> bw_key w = Some key \<and> pf_customers_retrieve (be_platform env key) (or_else cid []) (bw_platform w) = (s, Inr c)
    \<and> \<not> sc_deleted c \<and> w' = w\<lparr>bw_platform := s\<rparr>"
  using assms unfolding checkStripeCustomer_def getStripeCustomer_def rethrowS_def
  by (auto simp: bind_result call_result returnS_def throwS_def bindS_def split: option.splits if_splits prod.splits sum.splits)

lemma valid_method_result:
  assumes "checkStripePaymentMethod env c w = (w', Inr ())" and "\<not> isDevelopmentEnv env"
  shows "\<exists>key k s m. bw_key w = Some key \<and> sc_default_payment_method c = Some k
    \<and> pf_paymentMethods_retrieve (be_platform env key) k (bw_platform w) = (s, Inr m)
    \<and> now_of w \<le> js_date (be_clock env) (spm_exp_year m) (spm_exp_month m) 0 \<and> w' = w\<lparr>bw_platform := s\<rparr>"
  using assms unfolding checkStripePaymentMethod_def getStripePaymentMethod_def catchS_def isPaymentMethodStillValid_def
  by (auto simp: bind_result call_result returnS_def throwS_def readS_def liftS_def bindS_def convertToBillingPaymentMethod_def
      or_else_def now_of_def truthy_str_def split: option.splits if_splits prod.splits sum.splits)

text \<open>Outside of development a session starts with billing only when the platform knows the user's customer, it is not deleted,
  and its default payment method is there and not expired.\<close>

theorem start_needs_payment_method:
  assumes "stripe_startTransaction env b t w = (w', Inr True)" and "\<not> isDevelopmentEnv env"
  shows "\<exists>u key s c k s1 m s2. tx_user t = Some u \<and> \<not> usr_freeAccess u \<and> truthy_str (customerID_of u)
    \<and> pf_customers_retrieve (be_platform env key) (or_else (customerID_of u) []) s = (s1, Inr c) \<and> \<not> sc_deleted c
    \<and> sc_default_payment_method c = Some k \<and> pf_paymentMethods_retrieve (be_platform env key) k s1 = (s2, Inr m)
    \<and> now_of w' \<le> js_date (be_clock env) (spm_exp_year m) (spm_exp_month m) 0"
proof -
  obtain u where u: "tx_user t = Some u" "\<not> usr_freeAccess u"
    using assms(1) by (auto simp: stripe_startTransaction_def bind_result liftS_def checkStartTransaction_def returnS_def
        split: option.splits if_splits)
  obtain w1 w2 c where s: "checkStripeCustomer env (customerID_of u) w1 = (w2, Inr c)" "checkStripePaymentMethod env c w2 = (w', Inr ())"
    using assms(1) u by (auto simp: stripe_startTransaction_def bind_result liftS_def returnS_def split: if_splits)
  from customer_result[OF s(1)] valid_method_result[OF s(2) assms(2)] u show ?thesis
    by (fastforce simp: now_of_def)
qed

section \<open>Cards\<close>

lemma expiry_is_last_day:
  assumes "proper_clock c" and "100 \<le> y" and "lc_day c now + 1 = days_of_civil (y + m div 12) (m mod 12 + 1) 1"
  shows "js_date c y m 0 = lc_midnight c (lc_day c now)"
proof -
  have "js_date c y m 0 = lc_midnight c (days_of_civil (y + m div 12) (m mod 12 + 1) 1 - 1)"
    using assms(2) by (simp add: js_date_def Let_def)
  also have "days_of_civil (y + m div 12) (m mod 12 + 1) 1 - 1 = lc_day c now" using assms(3) by simp
  finally show ?thesis .
qed

text \<open>A card is good until the end of the last day of the month that is printed on it, but its expiry is taken to be the
  first instant of that day: on this day, from the first millisecond on, a session is refused.\<close>

theorem card_refused_on_last_day:
  assumes "proper_clock (be_clock env)" and "\<not> isDevelopmentEnv env" and "bw_key w = Some key"
    and "sc_default_payment_method c = Some k" and "k \<noteq> []"
    and "pf_paymentMethods_retrieve (be_platform env key) k (bw_platform w) = (s, Inr m)" and "100 \<le> spm_exp_year m"
    and "lc_day (be_clock env) (now_of w) + 1 = days_of_civil (spm_exp_year m + spm_exp_month m div 12) (spm_exp_month m mod 12 + 1) 1"
    and "now_of w \<noteq> lc_midnight (be_clock env) (lc_day (be_clock env) (now_of w))"
  shows "snd (checkStripePaymentMethod env c w) = Inl (BackendError ''Default payment method has expired'')"
proof -
  have "lc_midnight (be_clock env) (lc_day (be_clock env) (now_of w)) \<le> now_of w" using assms(1) by (metis proper_clock_def)
  then have "lc_midnight (be_clock env) (lc_day (be_clock env) (now_of w)) < now_of w" using assms(9) by simp
  moreover have "js_date (be_clock env) (spm_exp_year m) (spm_exp_month m) 0 = lc_midnight (be_clock env) (lc_day (be_clock env) (now_of w))"
    by (rule expiry_is_last_day[OF assms(1,7,8)])
  moreover have "now_of (w\<lparr>bw_platform := s\<rparr>) = now_of w" by (simp add: now_of_def)
  ultimately show ?thesis
    using assms(2,4-6)
    by (simp add: checkStripePaymentMethod_def getStripePaymentMethod_def catchS_def bindS_def call_connected[OF assms(3)] returnS_def
        readS_def liftS_def isPaymentMethodStillValid_def convertToBillingPaymentMethod_def throwS_def)
qed

section \<open>The check beforehand\<close>

text \<open>A platform that only reads while it answers for a customer, a tax or a payment method.\<close>

definition only_reads :: "'s platform \<Rightarrow> bool" where
  "only_reads p = (\<forall>i s. fst (pf_customers_retrieve p i s) = s \<and> fst (pf_taxRates_retrieve p i s) = s \<and> fst (pf_paymentMethods_retrieve p i s) = s)"

lemma connected: "bw_key w = Some key \<Longrightarrow> checkConnection env b w = (w, Inr ())"
  by (simp add: checkConnection_def bindS_def readS_def returnS_def)

lemma pair_of: "fst x = a \<Longrightarrow> \<exists>r. x = (a, r)"
  by (cases x) simp

lemma reads_same:
  assumes "only_reads (be_platform env key)" and "bw_key w = Some key"
  shows "fst (checkStripeCustomer env cid w) = w" and "fst (checkStripePaymentMethod env c w) = w" and "fst (checkTaxPrerequisites env b w) = w"
proof -
  have c: "fst (call env (\<lambda>p. pf_customers_retrieve p i) w) = w" "fst (call env (\<lambda>p. pf_taxRates_retrieve p i) w) = w"
    "fst (call env (\<lambda>p. pf_paymentMethods_retrieve p i) w) = w" for i
    using assms by (simp_all add: call_connected only_reads_def)
  obtain cr where cr: "\<And>i. call env (\<lambda>p. pf_customers_retrieve p i) w = (w, cr i)" using pair_of[OF c(1)] by metis
  obtain tr where tr: "\<And>i. call env (\<lambda>p. pf_taxRates_retrieve p i) w = (w, tr i)" using pair_of[OF c(2)] by metis
  obtain pr where pr: "\<And>i. call env (\<lambda>p. pf_paymentMethods_retrieve p i) w = (w, pr i)" using pair_of[OF c(3)] by metis
  show "fst (checkStripeCustomer env cid w) = w"
    by (simp add: checkStripeCustomer_def getStripeCustomer_def rethrowS_def bindS_def cr throwS_def returnS_def split: sum.split option.split)
  show "fst (checkStripePaymentMethod env c w) = w"
    by (simp add: checkStripePaymentMethod_def getStripePaymentMethod_def catchS_def bindS_def pr throwS_def returnS_def readS_def liftS_def
        split: sum.split option.split)
  show "fst (checkTaxPrerequisites env b w) = w"
    by (simp add: checkTaxPrerequisites_def getTaxRate_def connected[OF assms(2)] catchS_def bindS_def tr throwS_def returnS_def
        split: sum.split option.split)
qed

text \<open>The check beforehand tells what the start would say: it reports a missing payment method exactly when the start of a session of
  this user fails, and nothing when the start goes on without billing; a missing tax it reports on its own, for the start does not
  look at taxes.\<close>

theorem precheck_agrees_with_start:
  assumes "only_reads (be_platform env key)" and "bw_key w = Some key" and "truthy_str (tx_userID t)" and "tx_user t = Some u"
  shows "\<exists>codes. precheckStartTransactionPrerequisites env b u w = (w, Inr codes)
    \<and> (BILLING_NO_PAYMENT_METHOD \<in> set codes \<longleftrightarrow> (\<exists>e. stripe_startTransaction env b t w = (w, Inl e)))
    \<and> (BILLING_NO_TAX \<in> set codes \<longleftrightarrow> transactionBillingActivated b \<and> \<not> usr_freeAccess u \<and> (\<exists>e. checkTaxPrerequisites env b w = (w, Inl e)))
    \<and> (stripe_startTransaction env b t w = (w, Inr False) \<longleftrightarrow> \<not> transactionBillingActivated b \<or> usr_freeAccess u)"
proof (cases "transactionBillingActivated b \<and> \<not> usr_freeAccess u")
  case False
  then show ?thesis
    using assms(4) by (auto simp: precheckStartTransactionPrerequisites_def stripe_startTransaction_def returnS_def)
next
  case True
  note r = reads_same[OF assms(1,2)]
  obtain t' where tx: "checkTaxPrerequisites env b w = (w, t')" using pair_of[OF r(3)] by blast
  obtain c' where cu: "checkStripeCustomer env (customerID_of u) w = (w, c')" using pair_of[OF r(1)] by blast
  obtain p' where pm: "\<And>c. checkStripePaymentMethod env c w = (w, p' c)" using pair_of[OF r(2)] by metis
  have no: "\<not> truthy_str (customerID_of u) \<Longrightarrow> \<exists>e. c' = Inl e"
    using cu by (auto simp: checkStripeCustomer_def getStripeCustomer_def bindS_def returnS_def throwS_def)
  show ?thesis
    using True assms(3,4) no
    by (cases t'; cases c'; cases "truthy_str (customerID_of u)")
      (auto simp: precheckStartTransactionPrerequisites_def stripe_startTransaction_def connected[OF assms(2)] catchS_def bindS_def
        tx cu pm returnS_def liftS_def checkStartTransaction_def split: sum.splits)
qed

section \<open>A forced synchronisation\<close>

text \<open>C32: outside of production the connection to a live account is refused, but the forced synchronisation of a user goes on after
  the refusal with the connection that it left: it creates a customer in the live account.\<close>

theorem forced_sync_reaches_live_account:
  assumes "\<not> isProductionEnv env" and "bw_key w = None"
    and "decrypt (vault_of env) (or_else (text_at b ''stripe.secretKey'') []) False None (bw_vault w) = (v, Inr key)"
    and "pf_customers_list_one (be_platform env key) (bw_platform w) = (s, Inr (c # cs))" and "sc_livemode c"
    and "pf_customers_create (be_platform env key) (buildCustomerCommonProperties env u) (ve_tenantID env) (usr_id u) s = (s', Inr c')"
  shows "(\<exists>w' e. checkConnection env b w = (w', Inl e)) \<and> bw_platform (fst (forceSynchronizeUser env b u w)) = s'"
proof -
  let ?w = "w\<lparr>bw_vault := v, bw_key := Some key, bw_platform := s, bw_productionMode := True\<rparr>"
  have d: "in_vault (decrypt (vault_of env) (or_else (text_at b ''stripe.secretKey'') []) False None) w = (w\<lparr>bw_vault := v\<rparr>, Inr key)"
    using assms(3) by (simp add: in_vault_def)
  have c: "checkConnection env b w = (?w, Inl (BackendError ''Failed to connect to Stripe''))"
    using assms(1,2,4,5) by (simp add: checkConnection_def bindS_def rethrowS_def readS_def modifyS_def d isConnectedToALiveAccount_def
        call_def throwS_def returnS_def)
  have "createBillingUser env b u True ?w = (fst (createBillingUser env b u True ?w), snd (createBillingUser env b u True ?w))" by simp
  moreover have "bw_platform (fst (createBillingUser env b u True ?w)) = s'"
    using assms(6) by (simp add: createBillingUser_def bindS_def connected[of ?w key] call_connected[of ?w key] readS_def
        saveUserBillingData_def modifyS_def liftS_def Let_def)
  ultimately show ?thesis
    using c by (auto simp: forceSynchronizeUser_def synchronize_user_def catchS_def bindS_def stripe_getUser_def stripe_repairUser_def
        returnS_def split: prod.split sum.split)
qed

end
