(* ===== verification/Billing_Service.thy ===== *)
theory Billing_Service
  imports Billing_Integration Setting_Access
begin

text \<open>
  The requests on invoices, payment methods and the connection to the billing system
  (src/server/rest/v1/service/BillingService.ts; those on the settings are in \<open>Billing_Settings\<close>). A request is
  what the JSON schema of the code lets through. The package role-acl is \<open>acl\<close>, \<open>u\<close> is the user of the
  request, and \<open>active\<close> says which components the tenant has.
\<close>

definition MISSING_SETTINGS :: int where "MISSING_SETTINGS = 505"

definition with_impl ::
  "(TenantComponents \<Rightarrow> bool) \<Rightarrow> int \<Rightarrow> (setting \<Rightarrow> ('s billing_world, 'a) handler) \<Rightarrow> ('s billing_world, 'a) handler" where
  "with_impl active errorCode k =
     bindS (readS (getBillingImpl active)) (\<lambda>impl.
     case impl of
       None \<Rightarrow> throwS (AppError errorCode ''Billing service is not configured'')
     | Some b \<Rightarrow> bindS (modifyS new_instance) (\<lambda>_. k b))"

text \<open>The same for the operations that may not end.\<close>

definition with_impl_option ::
  "(TenantComponents \<Rightarrow> bool) \<Rightarrow> int \<Rightarrow> (setting \<Rightarrow> 's billing_world \<Rightarrow> ('s billing_world \<times> 'a res) option) \<Rightarrow>
   's billing_world \<Rightarrow> ('s billing_world \<times> 'a res) option" where
  "with_impl_option active errorCode k w =
     (case getBillingImpl active w of
        None \<Rightarrow> Some (w, Inl (AppError errorCode ''Billing service is not configured''))
      | Some b \<Rightarrow> k b (new_instance w))"

section \<open>Connection, test data, taxes\<close>

definition handleClearBillingTestData ::
  "acl \<Rightarrow> 's billing_env \<Rightarrow> (TenantComponents \<Rightarrow> bool) \<Rightarrow> user_token \<Rightarrow> ('s billing_world, bool) handler" where
  "handleClearBillingTestData acl env active u =
     bindS (liftS (assertComponentIsActiveFromToken u BILLING)) (\<lambda>_.
     bindS (liftS (allowed (canClearBillingTestData acl u))) (\<lambda>_.
     with_impl active GENERAL_ERROR (\<lambda>b.
       catchS
         (bindS (checkTestDataCleanupPrerequisites env b) (\<lambda>_.
          bindS clearTestData (\<lambda>_.
          bindS (resetConnectionSettings env b) (\<lambda>_. returnS True))))
         (\<lambda>_. returnS False))))"

definition handleCheckBillingConnection ::
  "acl \<Rightarrow> 's billing_env \<Rightarrow> (TenantComponents \<Rightarrow> bool) \<Rightarrow> user_token \<Rightarrow> ('s billing_world, bool) handler" where
  "handleCheckBillingConnection acl env active u =
     bindS (liftS (assertComponentIsActiveFromToken u BILLING)) (\<lambda>_.
     bindS (liftS (allowed (canCheckBillingConnection acl u))) (\<lambda>_.
     with_impl active GENERAL_ERROR (\<lambda>b.
       catchS (bindS (checkConnection env b) (\<lambda>_. returnS True)) (\<lambda>_. returnS False))))"

text \<open>The decisions that go through the cache; it never changes their answers.\<close>

definition is_authorized :: "acl \<Rightarrow> user_token \<Rightarrow> Entity \<Rightarrow> Action \<Rightarrow> bool res" where
  "is_authorized acl u entity action = can_acl acl (ut_rolesACL u) entity action no_context"

definition handleForceSynchronizeUser ::
  "acl \<Rightarrow> 's billing_env \<Rightarrow> (TenantComponents \<Rightarrow> bool) \<Rightarrow> user_token \<Rightarrow> string \<Rightarrow> ('s billing_world, unit) handler" where
  "handleForceSynchronizeUser acl env active u userID =
     bindS (liftS (allowed (is_authorized acl u Entity.USER Action.SYNCHRONIZE_BILLING_USER))) (\<lambda>_.
     bindS (liftS (assertComponentIsActiveFromToken u BILLING)) (\<lambda>_.
     with_impl active GENERAL_ERROR (\<lambda>b.
       bindS (readS (\<lambda>w. findUser w userID)) (\<lambda>found.
       bindS (liftS (assertObjectExists found)) (\<lambda>user.
       bindS (take_lock (acquireBillingSyncUsersLock (lock_env.truncate env) (ve_tenantID env))) (\<lambda>lk.
       case lk of
         None \<Rightarrow> throwS (AppError GENERAL_ERROR ''Cannot acquire lock'')
       | Some l \<Rightarrow> finallyS (bindS (forceSynchronizeUser env b user) (\<lambda>_. returnS ())) (release_lock l)))))))"

definition handleGetBillingTaxes ::
  "acl \<Rightarrow> 's billing_env \<Rightarrow> (TenantComponents \<Rightarrow> bool) \<Rightarrow> user_token \<Rightarrow> 's billing_world \<Rightarrow>
   ('s billing_world \<times> billing_tax list res) option" where
  "handleGetBillingTaxes acl env active u w =
     (case bindE (allowed (canReadTaxesBilling acl u)) (\<lambda>_. assertComponentIsActiveFromToken u BILLING) of
        Inl e \<Rightarrow> Some (w, Inl e)
      | Inr _ \<Rightarrow> with_impl_option active GENERAL_ERROR (getTaxes env) w)"

section \<open>Invoices\<close>

text \<open>The properties of an invoice that are sent, with those of its user when they may be seen.\<close>

record invoice_view =
  ivw_id :: string
  ivw_number :: "string option"
  ivw_status :: BillingInvoiceStatus
  ivw_amount :: rat
  ivw_createdOn :: int
  ivw_currency :: "string option"
  ivw_downloadable :: bool
  ivw_sessions :: "billing_session_data list option"
  ivw_userID :: "string option"
  ivw_user :: "(string \<times> string \<times> string option \<times> string) option"

definition invoice_view_of :: "bool \<Rightarrow> 's billing_world \<Rightarrow> billing_invoice \<Rightarrow> invoice_view" where
  "invoice_view_of withUser w i =
     \<lparr> ivw_id = inv_id i, ivw_number = inv_number i, ivw_status = inv_status i, ivw_amount = inv_amount i,
       ivw_createdOn = inv_createdOn i, ivw_currency = inv_currency i, ivw_downloadable = inv_downloadable i,
       ivw_sessions = inv_sessions i, ivw_userID = (if withUser then inv_userID i else None),
       ivw_user = (if withUser then map_option (\<lambda>x. (usr_id x, usr_name x, usr_firstName x, usr_email x)) (invoice_user w i) else None) \<rparr>"

record invoices_request =
  irq_UserID :: "string option"
  irq_Status :: "BillingInvoiceStatus list"
  irq_Search :: "(string \<Rightarrow> bool) option"
  irq_StartDateTime :: "int option"
  irq_EndDateTime :: "int option"
  irq_Limit :: page_number
  irq_Skip :: page_number
  irq_OnlyRecordCount :: bool
  irq_Sort :: "(billing_invoice list \<Rightarrow> billing_invoice list) option"

definition handleGetInvoices ::
  "acl \<Rightarrow> user_token \<Rightarrow> invoices_request \<Rightarrow> ('s billing_world, int \<times> invoice_view list) handler" where
  "handleGetInvoices acl u r =
     bindS (liftS (assertComponentIsActiveFromToken u BILLING)) (\<lambda>_.
     bindS (liftS (allowed (canListInvoicesBilling acl u))) (\<lambda>_.
     readS (\<lambda>w.
       case getInvoices \<lparr> iq_invoiceIDs = [], iq_billingInvoiceID = None, iq_search = irq_Search r,
              iq_userIDs = (if \<not> isAdmin (ut_role u) then [ut_id u]
                            else if truthy_str (irq_UserID r) then split_on (CHR ''|'') (or_else (irq_UserID r) []) else []),
              iq_invoiceStatus = irq_Status r, iq_startDateTime = irq_StartDateTime r, iq_endDateTime = irq_EndDateTime r,
              iq_liveMode = None, iq_limit = irq_Limit r, iq_skip = irq_Skip r,
              iq_onlyRecordCount = irq_OnlyRecordCount r, iq_sort = irq_Sort r \<rparr> (bw_invoices w) of
         (n, found) \<Rightarrow> (n, map (invoice_view_of (\<not> isDemo (ut_role u)) w) found))))"

text \<open>The owner of the invoice that is passed to the check is what the view shows of it.\<close>

definition handleGetInvoice :: "acl \<Rightarrow> user_token \<Rightarrow> string \<Rightarrow> ('s billing_world, invoice_view) handler" where
  "handleGetInvoice acl u invoiceID =
     bindS (liftS (assertComponentIsActiveFromToken u BILLING)) (\<lambda>_.
     bindS (liftS (assertIdIsProvided invoiceID)) (\<lambda>_.
     bindS (liftS (is_authorized acl u Entity.USER Action.LIST)) (\<lambda>withUser.
     bindS (readS (\<lambda>w. map_option (invoice_view_of withUser w) (getInvoice invoiceID (bw_invoices w)))) (\<lambda>found.
     bindS (liftS (assertObjectExists found)) (\<lambda>i.
     bindS (liftS (allowed (canReadInvoiceBilling acl u (ivw_userID i)))) (\<lambda>_.
     returnS i))))))"

text \<open>The document of an invoice is fetched from the platform: \<open>fetch\<close>.\<close>

definition downloadInvoiceDocument :: "(string \<Rightarrow> string res) \<Rightarrow> billing_invoice \<Rightarrow> string option res" where
  "downloadInvoiceDocument fetch i =
     (if truthy_str (inv_downloadUrl i) then bindE (fetch (or_else (inv_downloadUrl i) [])) (\<lambda>d. Inr (Some d)) else Inr None)"

definition handleDownloadInvoice ::
  "acl \<Rightarrow> (string \<Rightarrow> string res) \<Rightarrow> (TenantComponents \<Rightarrow> bool) \<Rightarrow> user_token \<Rightarrow> string \<Rightarrow> ('s billing_world, string \<times> string) handler" where
  "handleDownloadInvoice acl fetch active u invoiceID =
     bindS (liftS (assertComponentIsActiveFromToken u BILLING)) (\<lambda>_.
     bindS (readS (\<lambda>w. getInvoice invoiceID (bw_invoices w))) (\<lambda>found.
     bindS (liftS (assertObjectExists found)) (\<lambda>i.
     bindS (liftS (allowed (canDownloadInvoiceBilling acl u (inv_userID i)))) (\<lambda>_.
     with_impl active GENERAL_ERROR (\<lambda>b.
       bindS (liftS (downloadInvoiceDocument fetch i)) (\<lambda>buffer.
       case (inv_number i, buffer) of
         (Some n, Some d) \<Rightarrow>
           if n = [] then throwS (AppError GENERAL_ERROR ''Invoice document not found'')
           else returnS (''invoice_'' @ n @ ''.pdf'', d)
       | _ \<Rightarrow> throwS (AppError GENERAL_ERROR ''Invoice document not found'')))))))"

section \<open>Payment methods\<close>

definition existing_user :: "string \<Rightarrow> ('s billing_world, user) handler" where
  "existing_user userID = bindS (readS (\<lambda>w. findUser w userID)) (\<lambda>found. liftS (assertObjectExists found))"

definition handleBillingSetupPaymentMethod ::
  "acl \<Rightarrow> 's billing_env \<Rightarrow> (TenantComponents \<Rightarrow> bool) \<Rightarrow> user_token \<Rightarrow> string \<Rightarrow> string option \<Rightarrow>
   ('s billing_world, operation_result) handler" where
  "handleBillingSetupPaymentMethod acl env active u userID paymentMethodId =
     bindS (liftS (assertComponentIsActiveFromToken u BILLING)) (\<lambda>_.
     bindS (liftS (allowed (canCreatePaymentMethod acl u (Some userID)))) (\<lambda>_.
     with_impl active GENERAL_ERROR (\<lambda>b.
       bindS (existing_user userID) (\<lambda>user.
       setupPaymentMethod env b user paymentMethodId))))"

definition handleBillingGetPaymentMethods ::
  "acl \<Rightarrow> 's billing_env \<Rightarrow> (TenantComponents \<Rightarrow> bool) \<Rightarrow> user_token \<Rightarrow> string \<Rightarrow> 's billing_world \<Rightarrow>
   ('s billing_world \<times> billing_payment_method list res) option" where
  "handleBillingGetPaymentMethods acl env active u userID w =
     (case bindE (assertComponentIsActiveFromToken u BILLING) (\<lambda>_. allowed (canListPaymentMethod acl u)) of
        Inl e \<Rightarrow> Some (w, Inl e)
      | Inr _ \<Rightarrow>
          with_impl_option active MISSING_SETTINGS (\<lambda>b w'.
            case existing_user userID w' of
              (w'', Inl e) \<Rightarrow> Some (w'', Inl e)
            | (w'', Inr user) \<Rightarrow> getPaymentMethods env b user w'') w)"

definition handleBillingDeletePaymentMethod ::
  "acl \<Rightarrow> 's billing_env \<Rightarrow> (TenantComponents \<Rightarrow> bool) \<Rightarrow> user_token \<Rightarrow> string \<Rightarrow> string \<Rightarrow>
   ('s billing_world, operation_result) handler" where
  "handleBillingDeletePaymentMethod acl env active u userID paymentMethodId =
     bindS (liftS (assertComponentIsActiveFromToken u BILLING)) (\<lambda>_.
     bindS (liftS (allowed (canDeletePaymentMethod acl u))) (\<lambda>_.
     with_impl active GENERAL_ERROR (\<lambda>b.
       bindS (existing_user userID) (\<lambda>user.
       deletePaymentMethod env b user paymentMethodId))))"

end
