(* ===== verification/Billing_Access.thy ===== *)
theory Billing_Access
  imports Billing_Service
begin

text \<open>
  Who sees invoices and changes payment methods. The list of invoices is confined to the user's own; a single invoice
  and the payment methods are not, for the checks of these requests do not depend on the user they name.
\<close>

section \<open>The grants\<close>

text \<open>The roles of a basic user have the grants of the role basic.\<close>

lemma basic_inherited:
  "inherited (Suc n) AUTHORIZATION_DEFINITION ''basic'' = basic_grants_1 @ basic_grants_2 @ basic_grants_3"
  by (simp add: AUTHORIZATION_DEFINITION_def)

lemma site_inherited:
  "inherited (Suc (Suc n)) AUTHORIZATION_DEFINITION ''siteAdmin''
     = (siteAdmin_grants_1 @ siteAdmin_grants_2 @ siteAdmin_grants_3 @ siteAdmin_grants_4) @ inherited (Suc n) AUTHORIZATION_DEFINITION ''basic''"
  "inherited (Suc (Suc n)) AUTHORIZATION_DEFINITION ''siteOwner''
     = siteOwner_grants_1 @ inherited (Suc n) AUTHORIZATION_DEFINITION ''basic''"
  by (simp_all add: AUTHORIZATION_DEFINITION_def)

lemma basic_inherits:
  assumes "rs \<in> set basic_roles"
  obtains role where "role \<in> set rs"
    and "set (basic_grants_1 @ basic_grants_2 @ basic_grants_3) \<subseteq> set (inherited (length AUTHORIZATION_DEFINITION) AUTHORIZATION_DEFINITION role)"
proof -
  have n: "length AUTHORIZATION_DEFINITION = Suc (Suc 4)" by (simp add: AUTHORIZATION_DEFINITION_def)
  have b: "set (basic_grants_1 @ basic_grants_2 @ basic_grants_3) \<subseteq> set (inherited (Suc (Suc 4)) AUTHORIZATION_DEFINITION ''basic'')"
    unfolding basic_inherited by (rule order_refl)
  have a: "set (basic_grants_1 @ basic_grants_2 @ basic_grants_3) \<subseteq> set (inherited (Suc (Suc 4)) AUTHORIZATION_DEFINITION ''siteAdmin'')"
    unfolding site_inherited basic_inherited set_append[of _ "basic_grants_1 @ basic_grants_2 @ basic_grants_3"] by (rule Un_upper2)
  have o: "set (basic_grants_1 @ basic_grants_2 @ basic_grants_3) \<subseteq> set (inherited (Suc (Suc 4)) AUTHORIZATION_DEFINITION ''siteOwner'')"
    unfolding site_inherited basic_inherited set_append[of _ "basic_grants_1 @ basic_grants_2 @ basic_grants_3"] by (rule Un_upper2)
  have "''basic'' \<in> set rs \<or> ''siteAdmin'' \<in> set rs \<or> ''siteOwner'' \<in> set rs"
    using assms by (auto simp: basic_roles_def)
  then show ?thesis using that[unfolded n] a b o by (elim disjE) blast+
qed

lemma basic_matching:
  assumes "rs \<in> set basic_roles" and "g \<in> set basic_grants_1 \<union> set basic_grants_2 \<union> set basic_grants_3"
    and "g_resource g = r" and "a \<in> set (g_actions g)"
  shows "g \<in> set (matching AUTHORIZATION_DEFINITION rs r a)"
proof -
  obtain role where "role \<in> set rs" "g \<in> set (inherited (length AUTHORIZATION_DEFINITION) AUTHORIZATION_DEFINITION role)"
    using basic_inherits[OF assms(1)] assms(2) by (metis Un_assoc set_append subsetD)
  with assms(3,4) show ?thesis by (auto simp: matching_def)
qed

lemma basic_unconditional:
  assumes "rs \<in> set basic_roles" and "Grant r as None fs \<in> set basic_grants_1 \<union> set basic_grants_2 \<union> set basic_grants_3" and "a \<in> set as"
  shows "list_ex (\<lambda>g. g_condition g = None) (matching AUTHORIZATION_DEFINITION rs r a)"
  unfolding list_ex_iff by (rule bexI[OF _ basic_matching[OF assms(1,2)]]) (simp_all add: assms(3))

lemma basic_dynamic:
  assumes "rs \<in> set basic_roles" and "Grant r as (Some (Dynamic x y z)) fs \<in> set basic_grants_1 \<union> set basic_grants_2 \<union> set basic_grants_3"
    and "a \<in> set as"
  shows "list_ex dynamic_grant (matching AUTHORIZATION_DEFINITION rs r a)"
  unfolding list_ex_iff by (rule bexI[OF _ basic_matching[OF assms(1,2)]]) (simp_all add: assms(3) dynamic_grant_def)

lemma basic_grants:
  "Grant Entity.PAYMENT_METHOD [Action.READ, Action.CREATE, Action.DELETE] None None \<in> set basic_grants_2"
  "Grant Entity.NOTIFICATION [Action.CREATE] None None \<in> set basic_grants_3"
  "Grant Entity.INVOICE [Action.LIST] None None \<in> set basic_grants_1"
  "Grant Entity.INVOICE [Action.DOWNLOAD, Action.READ] (Some (Dynamic (Some [One ''OwnUser'']) (Some []) None)) None \<in> set basic_grants_2"
  by (simp_all add: basic_grants_1_def basic_grants_2_def basic_grants_3_def)

context role_acl
begin

lemma dynamic_decision:
  assumes "roles_ok roles" and "list_ex dynamic_grant (matching AUTHORIZATION_DEFINITION roles r a)"
  shows "can_acl acl roles r a ctx = Inr True"
proof -
  obtain ctx' p where dec: "acl AUTHORIZATION_DEFINITION roles r a ctx = Inr (ctx', p)"
    using decides[OF assms(1)] by metis
  from assms(2) obtain g where g: "g \<in> set (matching AUTHORIZATION_DEFINITION roles r a)" "dynamic_grant g"
    by (auto simp: list_ex_iff)
  then obtain fs as md where "g_condition g = Some (Dynamic fs as md)"
    by (cases "g_condition g") (auto simp: dynamic_grant_def split: condition.splits)
  from dynamic_grants[OF dec g(1) this] dec show ?thesis by (simp add: can_acl_def)
qed

lemma basic_payment_methods:
  assumes "ut_rolesACL u \<in> set basic_roles"
  shows "canCreatePaymentMethod acl u v = Inr True" and "canListPaymentMethod acl u = Inr True" and "canDeletePaymentMethod acl u = Inr True"
  unfolding canCreatePaymentMethod_def canListPaymentMethod_def canDeletePaymentMethod_def canPerformAction_def
  by (rule unconditional_grant[OF basic_roles_ok[OF assms] basic_unconditional[OF assms UnI1[OF UnI2[OF basic_grants(1)]]]]
        unconditional_grant[OF basic_roles_ok[OF assms] basic_unconditional[OF assms UnI2[OF basic_grants(2)]]], simp)+

lemma basic_invoices:
  assumes "ut_rolesACL u \<in> set basic_roles"
  shows "canReadInvoiceBilling acl u v = Inr True" and "canDownloadInvoiceBilling acl u v = Inr True" and "canListInvoicesBilling acl u = Inr True"
  unfolding canReadInvoiceBilling_def canDownloadInvoiceBilling_def canListInvoicesBilling_def canPerformAction_def
  by (rule dynamic_decision[OF basic_roles_ok[OF assms] basic_dynamic[OF assms UnI1[OF UnI2[OF basic_grants(4)]]]]
        unconditional_grant[OF basic_roles_ok[OF assms] basic_unconditional[OF assms UnI1[OF UnI1[OF basic_grants(3)]]]], simp)+

lemma decides_is_authorized:
  assumes "ut_rolesACL u \<in> set basic_roles"
  shows "\<exists>x. is_authorized acl u e a = Inr x"
proof -
  obtain ctx' p where "acl AUTHORIZATION_DEFINITION (ut_rolesACL u) e a no_context = Inr (ctx', p)"
    using decides[OF basic_roles_ok[OF assms]] by metis
  then show ?thesis by (simp add: is_authorized_def can_acl_def)
qed

end

section \<open>Payment methods\<close>

text \<open>The requests on payment methods never look at whose they are: a basic user adds, lists and deletes those of any
  user exactly as the billing system lets that user.\<close>

theorem payment_methods_of_anybody:
  assumes "role_acl acl holds" and "ut_rolesACL u \<in> set basic_roles" and "isComponentActiveFromToken u BILLING"
  shows "handleBillingSetupPaymentMethod acl env active u userID m
      = with_impl active GENERAL_ERROR (\<lambda>b. bindS (existing_user userID) (\<lambda>user. setupPaymentMethod env b user m))
    \<and> handleBillingDeletePaymentMethod acl env active u userID k
      = with_impl active GENERAL_ERROR (\<lambda>b. bindS (existing_user userID) (\<lambda>user. deletePaymentMethod env b user k))
    \<and> handleBillingGetPaymentMethods acl env active u userID w
      = with_impl_option active MISSING_SETTINGS (\<lambda>b w'. case existing_user userID w' of
            (w'', Inl e) \<Rightarrow> Some (w'', Inl e) | (w'', Inr user) \<Rightarrow> getPaymentMethods env b user w'') w"
proof -
  note c = role_acl.basic_payment_methods[OF assms(1,2)]
  show ?thesis
    using assms(3) by (simp add: handleBillingSetupPaymentMethod_def handleBillingDeletePaymentMethod_def handleBillingGetPaymentMethods_def
        c assertComponentIsActiveFromToken_def allowed_def assertAuthorized_def liftS_def bindS_def)
qed

section \<open>Invoices\<close>

lemma listed_invoices:
  "iq_sort q = None \<Longrightarrow> set (snd (getInvoices q col)) \<subseteq> {i \<in> set col. invoice_matches q i}"
  by (auto simp: getInvoices_def Let_def dest!: in_set_takeD in_set_dropD)

lemma matches_user: "invoice_matches q i \<Longrightarrow> iq_userIDs q = [v] \<Longrightarrow> inv_userID i = Some v"
  unfolding invoice_matches_def by (cases "inv_userID i") simp_all

lemma shown_id: "ivw_id (invoice_view_of x w i) = inv_id i"
  by (simp add: invoice_view_of_def)

text \<open>A user who is no administrator lists only his own invoices, but whoever has a basic role reads every invoice of the
  tenant by its identifier, with its amount and its sessions.\<close>

theorem any_invoice_is_read:
  assumes "role_acl acl holds" and "ut_rolesACL u \<in> set basic_roles" and "isComponentActiveFromToken u BILLING"
    and "\<not> isAdmin (ut_role u)" and "invoiceID \<noteq> []" and "getInvoice invoiceID (bw_invoices w) = Some i"
    and "irq_Sort r = None"
  shows "\<exists>n shown v. handleGetInvoices acl u r w = (w, Inr (n, shown))
    \<and> ivw_id ` set shown \<subseteq> inv_id ` {j \<in> set (bw_invoices w). inv_userID j = Some (ut_id u)}
    \<and> handleGetInvoice acl u invoiceID w = (w, Inr v) \<and> ivw_id v = inv_id i \<and> ivw_amount v = inv_amount i
    \<and> ivw_sessions v = inv_sessions i"
proof -
  note c = role_acl.basic_invoices[OF assms(1,2)]
  obtain x where x: "is_authorized acl u Entity.USER Action.LIST = Inr x"
    using role_acl.decides_is_authorized[OF assms(1,2)] by blast
  have "handleGetInvoice acl u invoiceID w = (w, Inr (invoice_view_of x w i))"
    using assms(3,5,6) by (simp add: handleGetInvoice_def c x assertComponentIsActiveFromToken_def assertIdIsProvided_def
        assertObjectExists_def allowed_def assertAuthorized_def liftS_def bindS_def readS_def returnS_def)
  moreover obtain n shown where l: "handleGetInvoices acl u r w = (w, Inr (n, shown))"
  proof -
    have "\<exists>p. handleGetInvoices acl u r w = (w, Inr p)"
      using assms(3) by (simp add: handleGetInvoices_def c assertComponentIsActiveFromToken_def
          allowed_def assertAuthorized_def liftS_def bindS_def readS_def)
    then show ?thesis using that by auto
  qed
  moreover have "ivw_id ` set shown \<subseteq> inv_id ` {j \<in> set (bw_invoices w). inv_userID j = Some (ut_id u)}"
  proof -
    let ?q = "\<lparr> iq_invoiceIDs = [], iq_billingInvoiceID = None, iq_search = irq_Search r, iq_userIDs = [ut_id u],
      iq_invoiceStatus = irq_Status r, iq_startDateTime = irq_StartDateTime r, iq_endDateTime = irq_EndDateTime r,
      iq_liveMode = None, iq_limit = irq_Limit r, iq_skip = irq_Skip r, iq_onlyRecordCount = irq_OnlyRecordCount r,
      iq_sort = irq_Sort r \<rparr>"
    have "shown = map (invoice_view_of (\<not> isDemo (ut_role u)) w) (snd (getInvoices ?q (bw_invoices w)))"
      using l assms(3,4) by (simp add: handleGetInvoices_def c assertComponentIsActiveFromToken_def
          allowed_def assertAuthorized_def liftS_def bindS_def readS_def split: prod.splits)
    moreover have "set (snd (getInvoices ?q (bw_invoices w))) \<subseteq> {j \<in> set (bw_invoices w). inv_userID j = Some (ut_id u)}"
      using listed_invoices[of ?q "bw_invoices w"] assms(7) matches_user[of ?q _ "ut_id u"] by fastforce
    ultimately show ?thesis by (auto simp: image_image shown_id)
  qed
  ultimately show ?thesis by (intro exI conjI) (assumption | simp add: invoice_view_of_def)+
qed

end
