(* ===== verification/Billing_Cases.thy ===== *)
theory Billing_Cases
  imports Setting_Cases Session_Invoice Session_Billing Invoice_Laws Invoice_Charging Stripe_Laws Billing_Access
begin

text \<open>
  A small billing platform that keeps invoices, the keys of the items and what customers owe, and the
  properties of billing on it.
\<close>

section \<open>A platform\<close>

record demo =
  dm_keys :: "(string \<times> invoice_item_params) list"
  dm_owed :: "string option \<Rightarrow> rat"
  dm_invoices :: "stripe_invoice list"
  dm_customers :: "string list"
  dm_declines :: bool

definition demo_customer :: "bool \<Rightarrow> string \<Rightarrow> stripe_customer" where
  "demo_customer lv i = \<lparr> sc_id = i, sc_deleted = False, sc_livemode = lv, sc_name = Some ''Ann'', sc_userID = Some ''u1'',
     sc_default_payment_method = Some ''pm'', sc_default_source = None \<rparr>"

definition demo_card :: stripe_payment_method where
  "demo_card = \<lparr> spm_id = ''pm'', spm_brand = ''visa'', spm_exp_year = 2024, spm_exp_month = 1, spm_last4 = ''4242'', spm_type = ''card'',
     spm_created = 0 \<rparr>"

definition demo_invoice :: "string \<Rightarrow> int \<Rightarrow> stripe_invoice" where
  "demo_invoice i created = \<lparr> siv_id = i, siv_customer = ''cus_1'', siv_number = None, siv_livemode = True, siv_amount_due = 150,
     siv_amount_paid = 0, siv_status = DRAFT, siv_currency = Some ''eur'', siv_invoice_pdf = None, siv_userID = Some ''u1'',
     siv_hosted_invoice_url = None, siv_finalized_at = None, siv_created = created \<rparr>"

definition with_invoice ::
  "(stripe_invoice \<Rightarrow> demo \<Rightarrow> exn + stripe_invoice) \<Rightarrow> string \<Rightarrow> (demo, stripe_invoice) handler" where
  "with_invoice f i s =
     (case find (\<lambda>x. siv_id x = i) (dm_invoices s) of
        None \<Rightarrow> (s, Inl (PlatformError ''StripeInvalidRequestError'' 404 ''resource_missing''))
      | Some x \<Rightarrow>
          (case f x s of
             Inl e \<Rightarrow> (s, Inl e)
           | Inr y \<Rightarrow> (s\<lparr>dm_invoices := map (\<lambda>z. if siv_id z = i then y else z) (dm_invoices s)\<rparr>, Inr y)))"

definition demo_item :: "invoice_item_params \<Rightarrow> string option \<Rightarrow> (demo, unit) handler" where
  "demo_item x k s =
     (case Option.bind k (map_of (dm_keys s)) of
        Some y \<Rightarrow> (s, if x = y then Inr () else Inl (PlatformError ''StripeIdempotencyError'' 400 ''idempotency_error''))
      | None \<Rightarrow> (s\<lparr>dm_keys := (case k of None \<Rightarrow> dm_keys s | Some l \<Rightarrow> (l, x) # dm_keys s),
              dm_owed := (dm_owed s)(iip_customer x := dm_owed s (iip_customer x) + iip_amount x)\<rparr>, Inr ()))"

definition demo_platform :: "bool \<Rightarrow> demo platform" where
  "demo_platform lv = \<lparr>
     pf_customers_list_one = returnS [demo_customer lv ''cus_0''],
     pf_customers_retrieve = (\<lambda>i. returnS (demo_customer lv i)),
     pf_customers_create = (\<lambda>x tenant u s. (s\<lparr>dm_customers := ''cus_1'' # dm_customers s\<rparr>, Inr (demo_customer lv ''cus_1''))),
     pf_customers_update = (\<lambda>i x. returnS (demo_customer lv i)),
     pf_customers_set_default = (\<lambda>i x. returnS ()),
     pf_customers_del = (\<lambda>i. returnS ()),
     pf_taxRates_list = (\<lambda>a. returnS ([], False)),
     pf_taxRates_retrieve = (\<lambda>i. throwS TypeError),
     pf_invoices_retrieve = with_invoice (\<lambda>x s. Inr x),
     pf_invoices_create = (\<lambda>c tenant u k s. (s\<lparr>dm_invoices := demo_invoice ''in_new'' 0 # dm_invoices s\<rparr>, Inr (demo_invoice ''in_new'' 0))),
     pf_invoices_finalize = with_invoice (\<lambda>x s. Inr (x\<lparr>siv_status := OPEN, siv_finalized_at := Some 5356800\<rparr>)),
     pf_invoices_pay = with_invoice (\<lambda>x s. if dm_declines s then Inl (PlatformError ''StripeCardError'' 402 ''card_declined'')
                                           else Inr (x\<lparr>siv_status := PAID\<rparr>)),
     pf_invoices_list = (\<lambda>c st. returnS []),
     pf_invoiceItems_create = demo_item,
     pf_invoiceItems_pending = (\<lambda>c. returnS 0),
     pf_setupIntents_create = (\<lambda>c. returnS ''seti''),
     pf_paymentMethods_attach = (\<lambda>i c. returnS i),
     pf_paymentMethods_update = (\<lambda>i x. returnS ()),
     pf_paymentMethods_list = (\<lambda>c a. returnS ([demo_card], False)),
     pf_paymentMethods_retrieve = (\<lambda>i. returnS demo_card),
     pf_paymentMethods_detach = (\<lambda>i. returnS i) \<rparr>"

definition demo_env :: "bool \<Rightarrow> demo billing_env" where
  "demo_env lv = \<lparr> le_hash = le_hash tenant_env, le_host = le_host tenant_env, le_others = le_others tenant_env,
     ve_tenantID = ve_tenantID tenant_env, ve_cipher = ve_cipher tenant_env, ve_decipher = ve_decipher tenant_env,
     ve_randomBytes = ve_randomBytes tenant_env, ve_newID = ve_newID tenant_env,
     be_nodeEnv = ''staging'', be_platform = (\<lambda>_. demo_platform lv), be_clock = utc_clock,
     be_newInvoiceID = (\<lambda>is. ''doc'' @ show_nat (length is)), be_generatedUser = (\<lambda>u. usr_id u),
     be_countryCode = (\<lambda>a b. None), be_header = (\<lambda>t. ''session''), be_itemDescription = (\<lambda>t d x. ''line'') \<rparr>"

lemma demo_env_simps [simp]:
  "be_platform (demo_env lv) k = demo_platform lv" "be_clock (demo_env lv) = utc_clock"
  "vault_of (demo_env lv) = tenant_env" "ve_tenantID (demo_env lv) = ''tenant''"
  "\<not> isDevelopmentEnv (demo_env lv)" "\<not> isProductionEnv (demo_env lv)"
  by (simp_all add: demo_env_def vault_of_def vault_env.truncate_def tenant_env_def isDevelopmentEnv_def isProductionEnv_def)

lemma demo_ledger: "ledger (demo_platform lv) (\<lambda>s. map_of (dm_keys s)) dm_owed"
  by (auto simp: ledger_def demo_platform_def demo_item_def split: option.splits)

lemma demo_answers: "answers_asked (demo_env lv)"
  by (auto simp: answers_asked_def demo_platform_def with_invoice_def find_Some_iff split: option.splits if_splits)

lemma demo_reads: "only_reads (demo_platform lv)"
  by (simp add: only_reads_def demo_platform_def returnS_def throwS_def)

lemma utc_proper: "proper_clock utc_clock"
  by (rule utc_clock_proper)

section \<open>A tenant\<close>

definition demo_state :: "stripe_invoice list \<Rightarrow> demo" where
  "demo_state is = \<lparr> dm_keys = [], dm_owed = (\<lambda>_. 0), dm_invoices = is, dm_customers = [], dm_declines = True \<rparr>"

definition demo_data :: billing_user_data where
  "demo_data = \<lparr> ubd_customerID = ''cus_1'', ubd_liveMode = False, ubd_lastChangedOn = None, ubd_hasSynchroError = False,
     ubd_invoicesLastSynchronizedOn = None \<rparr>"

definition demo_account :: account where
  "demo_account = \<lparr> usr_id = ''u1'', usr_issuer = True, usr_authorizationID = None, usr_name = ''Ann'', usr_firstName = None,
     usr_email = ''ann@x.org'', usr_locale = Some ''en_US'', usr_address = None, usr_freeAccess = False,
     usr_billingData = Some demo_data, acc_role = BASIC, acc_status = ACTIVE \<rparr>"

definition demo_user :: user where "demo_user = user.truncate demo_account"

definition demo_world :: "int \<Rightarrow> billing_invoice list \<Rightarrow> transaction list \<Rightarrow> stripe_invoice list \<Rightarrow> demo billing_world" where
  "demo_world now is ts ps = \<lparr> bw_vault = (start [])\<lparr>va_world := \<lparr> lw_now = now, lw_locks = [] \<rparr>\<rparr>, bw_invoices = is, bw_users = [demo_account],
     bw_transactions = ts, bw_stations = [], bw_tasks = [], bw_notices = [], bw_platform = demo_state ps, bw_key = Some ''sk'',
     bw_productionMode = False \<rparr>"

lemma demo_world_simps [simp]:
  "bw_key (demo_world now is ts ps) = Some ''sk''" "bw_invoices (demo_world now is ts ps) = is"
  "bw_transactions (demo_world now is ts ps) = ts" "bw_platform (demo_world now is ts ps) = demo_state ps"
  "now_of (demo_world now is ts ps) = now" "bw_users (demo_world now is ts ps) = [demo_account]"
  by (simp_all add: demo_world_def now_of_def)

section \<open>The start of a session\<close>

definition demo_settings :: setting where
  "demo_settings = \<lparr> st_id = None, st_identifier = ''billing'', st_sensitiveData = None, st_backupSensitiveData = None,
     st_props = [''billing.isTransactionBillingActivated'' \<mapsto> Flag True, ''billing.immediateBillingAllowed'' \<mapsto> Flag True,
       ''billing.periodicBillingAllowed'' \<mapsto> Flag True], st_crypto = None \<rparr>"

definition demo_session :: transaction where
  "demo_session = sample_transaction\<lparr>tx_userID := Some ''u1'', tx_user := Some demo_user\<rparr>"

lemma demo_session_simps [simp]:
  "tx_id demo_session = 7" "tx_userID demo_session = Some ''u1''" "tx_user demo_session = Some demo_user" "tx_stop demo_session = None"
  "tx_pricingModel demo_session = None" "tx_billingData demo_session = None"
  by (simp_all add: demo_session_def sample_transaction_def)

lemma demo_user_simps [simp]:
  "usr_id demo_user = ''u1''" "\<not> usr_freeAccess demo_user" "customerID_of demo_user = Some ''cus_1''" "usr_issuer demo_user"
  "usr_locale demo_user = Some ''en_US''" "usr_billingData demo_user = Some demo_data"
  by (simp_all add: demo_user_def demo_account_def user.truncate_def customerID_of_def demo_data_def)

lemma demo_settings_simps [simp]:
  "transactionBillingActivated demo_settings" "immediateBillingAllowed demo_settings" "periodicBillingAllowed demo_settings"
  by (simp_all add: demo_settings_def transactionBillingActivated_def immediateBillingAllowed_def periodicBillingAllowed_def flag_at_def)

lemma card_expiry: "js_date utc_clock 2024 1 0 = 1706659200000"
  by code_simp

lemma demo_connected: "checkConnection (demo_env lv) b (demo_world now is ts ps) = (demo_world now is ts ps, Inr ())"
  by (rule connected) simp

lemma demo_checks:
  "checkStripeCustomer (demo_env lv) (Some ''cus_1'') (demo_world now is ts ps) = (demo_world now is ts ps, Inr (demo_customer lv ''cus_1''))"
  "checkStripePaymentMethod (demo_env lv) (demo_customer lv i) (demo_world now is ts ps) = (demo_world now is ts ps,
     if now \<le> 1706659200000 then Inr () else Inl (BackendError ''Default payment method has expired''))"
  by (simp_all add: checkStripeCustomer_def getStripeCustomer_def rethrowS_def bindS_def call_connected demo_platform_def returnS_def
      checkStripePaymentMethod_def getStripePaymentMethod_def catchS_def readS_def liftS_def isPaymentMethodStillValid_def throwS_def
      demo_customer_def convertToBillingPaymentMethod_def demo_card_def card_expiry or_else_def demo_world_def now_of_def)

theorem start_needs_payment_method_witness:
  "\<exists>c k m. pf_customers_retrieve (demo_platform True) ''cus_1'' (demo_state []) = (demo_state [], Inr c) \<and> sc_default_payment_method c = Some k
    \<and> pf_paymentMethods_retrieve (demo_platform True) k (demo_state []) = (demo_state [], Inr m)
    \<and> 1000 \<le> js_date utc_clock (spm_exp_year m) (spm_exp_month m) 0"
proof -
  have "stripe_startTransaction (demo_env True) demo_settings demo_session (demo_world 1000 [] [] []) = (demo_world 1000 [] [] [], Inr True)"
    by (simp add: stripe_startTransaction_def bindS_def demo_connected liftS_def checkStartTransaction_def demo_checks returnS_def)
  from start_needs_payment_method[OF this] show ?thesis
    by (auto simp: demo_platform_def returnS_def)
qed

theorem card_refused_on_last_day_witness:
  "snd (checkStripePaymentMethod (demo_env True) (demo_customer True ''cus_1'') (demo_world 1706688000000 [] [] []))
     = Inl (BackendError ''Default payment method has expired'')
   \<and> snd (checkStripePaymentMethod (demo_env True) (demo_customer True ''cus_1'') (demo_world 1706659200000 [] [] [])) = Inr ()"
proof -
  have d: "lc_day utc_clock 1706688000000 + 1 = days_of_civil (2024 + 1 div 12) (1 mod 12 + 1) 1"
    "1706688000000 \<noteq> lc_midnight utc_clock (lc_day utc_clock 1706688000000)" by code_simp+
  have "snd (checkStripePaymentMethod (demo_env True) (demo_customer True ''cus_1'') (demo_world 1706688000000 [] [] []))
     = Inl (BackendError ''Default payment method has expired'')"
    using d by (intro card_refused_on_last_day[where key = "''sk''" and k = "''pm''" and m = demo_card and s = "demo_state []"])
      (simp_all add: utc_proper demo_customer_def demo_platform_def returnS_def demo_card_def)
  then show ?thesis by (simp add: demo_checks)
qed

theorem precheck_agrees_with_start_witness:
  "\<exists>codes. precheckStartTransactionPrerequisites (demo_env True) demo_settings demo_user (demo_world 1706688000000 [] [] []) = (demo_world 1706688000000 [] [] [], Inr codes)
    \<and> BILLING_NO_PAYMENT_METHOD \<in> set codes"
proof -
  have "stripe_startTransaction (demo_env True) demo_settings demo_session (demo_world 1706688000000 [] [] [])
      = (demo_world 1706688000000 [] [] [], Inl (BackendError ''Default payment method has expired''))"
    by (simp add: stripe_startTransaction_def bindS_def demo_connected liftS_def checkStartTransaction_def demo_checks returnS_def)
  with precheck_agrees_with_start[of "demo_env True" "''sk''" "demo_world 1706688000000 [] [] []" demo_session demo_user demo_settings]
  show ?thesis by (auto simp: demo_reads)
qed

section \<open>The connection\<close>

definition live_settings :: setting where
  "live_settings = demo_settings\<lparr>st_props := (st_props demo_settings)(''stripe.secretKey'' \<mapsto> Text (sealed False ''sk_live''))\<rparr>"

definition unconnected :: "demo billing_world" where
  "unconnected = (demo_world 0 [] [] [])\<lparr>bw_vault := start kept_secrets, bw_key := None\<rparr>"

theorem forced_sync_reaches_live_account_witness:
  "(\<exists>w' e. checkConnection (demo_env True) live_settings unconnected = (w', Inl e))
    \<and> dm_customers (bw_platform (fst (forceSynchronizeUser (demo_env True) live_settings demo_user unconnected))) = [''cus_1'']"
proof -
  have k: "or_else (text_at live_settings ''stripe.secretKey'') [] = sealed False ''sk_live''"
    by (simp add: live_settings_def text_at_def)
  have "(\<exists>w' e. checkConnection (demo_env True) live_settings unconnected = (w', Inl e))
    \<and> bw_platform (fst (forceSynchronizeUser (demo_env True) live_settings demo_user unconnected)) = (demo_state [])\<lparr>dm_customers := [''cus_1'']\<rparr>"
    by (intro forced_sync_reaches_live_account[where key = "''sk_live''" and v = "start kept_secrets" and s = "demo_state []" and cs = "[]"
        and c = "demo_customer True ''cus_0''" and c' = "demo_customer True ''cus_1''"])
      (simp_all add: k unconnected_def opens_in_use demo_platform_def returnS_def demo_customer_def demo_state_def)
  then show ?thesis by simp
qed

section \<open>Billing a session\<close>

definition demo_stop :: transaction_stop where
  "demo_stop = \<lparr> stop_timestamp = 3600000, stop_meterStop = 0, stop_reason = None,
     stop_tagID = None, stop_userID = None, stop_price = None, stop_roundedPrice = None, stop_priceUnit = Some ''EUR'', stop_pricingSource = None,
     stop_stateOfCharge = 0, stop_totalInactivitySecs = 0, stop_extraInactivitySecs = 0, stop_extraInactivityComputed = False,
     stop_totalConsumptionWh = 0, stop_totalDurationSecs = None, stop_inactivityStatus = INFO, stop_signedData = [] \<rparr>"

definition priced_model :: pricing_model where
  "priced_model = (case priceConsumption utc sample_model short_consumption of Inl _ \<Rightarrow> sample_model | Inr r \<Rightarrow> fst r)"

definition priced_session :: transaction where
  "priced_session = demo_session\<lparr>tx_pricingModel := Some priced_model, tx_stop := Some demo_stop\<rparr>"

lemma priced_model_sound: "sound_model priced_model"
proof -
  have "case dim_of t (def_dimensions d) of None \<Rightarrow> True | Some dm \<Rightarrow> sound_dim dm" if "d \<in> set (pm_pricingDefinitions sample_model)" for t d
    using that by (cases t) (simp_all add: sample_eval sound_dim_def)
  then have s: "sound_model sample_model" by (simp add: sound_model_def list_all_iff sound_definition_def)
  show ?thesis
    by (cases "priceConsumption utc sample_model short_consumption") (auto simp: priced_model_def s dest: sound_consumption[OF _ s])
qed

lemma priced_model_due: "session_due priced_model = 135"
  by (simp add: session_due_def invoice_dimensions_def priced_model_def billed_def
      consumption_eval pricer_eval check_eval sample_eval short_consumption_def Let_def)

text \<open>The first attempt creates the items; the second, for another invoice, is refused by the platform, and adds nothing.\<close>

lemma demo_dimension:
  assumes "bw_key w = Some ''sk''" and "bii_transactionID item \<noteq> 0" and "bii_currency item = Some cur"
    and K: "fst ` set (dm_keys (bw_platform w)) \<subseteq> K" "item_key (bii_transactionID item) d \<notin> K"
  obtains s' where "createStripeInvoiceItem4Dimension (demo_env lv) c d item data (Suc 0) iid w = (w\<lparr>bw_platform := s'\<rparr>, Inr ())"
    and "fst ` set (dm_keys s') \<subseteq> insert (item_key (bii_transactionID item) d) K"
proof (cases "case pcd_of d data of None \<Rightarrow> True | Some x \<Rightarrow> pdd_amount x = 0 \<or> pdd_quantity x = 0")
  case True
  then have "createStripeInvoiceItem4Dimension (demo_env lv) c d item data (Suc 0) iid w = (w\<lparr>bw_platform := bw_platform w\<rparr>, Inr ())"
    by (auto simp: createStripeInvoiceItem4Dimension_def returnS_def split: option.splits)
  with K(1) that show thesis by blast
next
  case False
  then obtain x where x: "pcd_of d data = Some x" "pdd_amount x \<noteq> 0" "pdd_quantity x \<noteq> 0" by (auto split: option.splits)
  have "item_key (bii_transactionID item) d \<notin> fst ` set (dm_keys (bw_platform w))" using K by blast
  then have "map_of (dm_keys (bw_platform w)) (item_key (bii_transactionID item) d) = None"
    by (simp add: map_of_eq_None_iff)
  with x have "\<exists>y f. createStripeInvoiceItem4Dimension (demo_env lv) c d item data (Suc 0) iid w =
      (w\<lparr>bw_platform := (bw_platform w)\<lparr>dm_keys := (item_key (bii_transactionID item) d, y) # dm_keys (bw_platform w), dm_owed := f\<rparr>\<rparr>, Inr ())"
    using assms(1-3) dimension_key[OF assms(2), of d]
    by (simp add: createStripeInvoiceItem4Dimension_def createStripeInvoiceItem_def call_connected demo_platform_def demo_item_def)
      (intro exI; rule refl)
  with K(1) that show thesis by fastforce
qed

lemma demo_created:
  assumes "bw_key w = Some ''sk''" and "bii_transactionID item \<noteq> 0" and "bii_currency item = Some cur"
    and "bii_pricingData item = [data]" and "dm_keys (bw_platform w) = []"
  shows "snd (createStripeInvoiceItems (demo_env lv) c item iid w) = Inr ()"
proof -
  let ?i = "bii_transactionID item"
  obtain s0 where h: "createStripeInvoiceItemHeader (demo_env lv) c item iid w = (w\<lparr>bw_platform := s0\<rparr>, Inr ())"
      "fst ` set (dm_keys s0) \<subseteq> {header_key ?i}"
  proof (cases "truthy_str (bii_headerDescription item)")
    case True
    with assms that show thesis
      by (simp add: createStripeInvoiceItemHeader_def head_key createStripeInvoiceItem_def call_connected demo_platform_def demo_item_def)
  next
    case False
    with assms that[of "bw_platform w"] show thesis by (simp add: createStripeInvoiceItemHeader_def returnS_def)
  qed
  let ?k = "item_key ?i"
  have key: "bw_key (w\<lparr>bw_platform := s\<rparr>) = Some ''sk''" for s using assms(1) by simp
  note step = demo_dimension[OF key assms(2,3), where lv = lv and c = c and data = data and iid = iid]
  obtain s1 where s1: "createStripeInvoiceItem4Dimension (demo_env lv) c FLAT_FEE item data (Suc 0) iid (w\<lparr>bw_platform := s0\<rparr>)
      = (w\<lparr>bw_platform := s1\<rparr>, Inr ())" "fst ` set (dm_keys s1) \<subseteq> {?k FLAT_FEE, header_key ?i}"
    by (rule step[of s0 "{header_key ?i}" FLAT_FEE]) (use h(2) in \<open>simp_all add: header_not_item[symmetric]\<close>)
  obtain s2 where s2: "createStripeInvoiceItem4Dimension (demo_env lv) c DimensionType.CHARGING_TIME item data (Suc 0) iid (w\<lparr>bw_platform := s1\<rparr>)
      = (w\<lparr>bw_platform := s2\<rparr>, Inr ())" "fst ` set (dm_keys s2) \<subseteq> {?k DimensionType.CHARGING_TIME, ?k FLAT_FEE, header_key ?i}"
    by (rule step[of s1 "{?k FLAT_FEE, header_key ?i}" DimensionType.CHARGING_TIME])
      (use s1(2) in \<open>simp_all add: item_key_inj header_not_item[symmetric]\<close>)
  obtain s3 where s3: "createStripeInvoiceItem4Dimension (demo_env lv) c ENERGY item data (Suc 0) iid (w\<lparr>bw_platform := s2\<rparr>)
      = (w\<lparr>bw_platform := s3\<rparr>, Inr ())" "fst ` set (dm_keys s3) \<subseteq> {?k ENERGY, ?k DimensionType.CHARGING_TIME, ?k FLAT_FEE, header_key ?i}"
    by (rule step[of s2 "{?k DimensionType.CHARGING_TIME, ?k FLAT_FEE, header_key ?i}" ENERGY])
      (use s2(2) in \<open>simp_all add: item_key_inj header_not_item[symmetric]\<close>)
  obtain s4 where s4: "createStripeInvoiceItem4Dimension (demo_env lv) c PARKING_TIME item data (Suc 0) iid (w\<lparr>bw_platform := s3\<rparr>)
      = (w\<lparr>bw_platform := s4\<rparr>, Inr ())"
    by (rule step[of s3 "{?k ENERGY, ?k DimensionType.CHARGING_TIME, ?k FLAT_FEE, header_key ?i}" PARKING_TIME])
      (use s3(2) in \<open>simp_all add: item_key_inj header_not_item[symmetric]\<close>)
  show ?thesis
    using assms(4) h(1) s1(1) s2(1) s3(1) s4
    by (simp add: createStripeInvoiceItems_def createStripeInvoiceItems4PricingConsumptionData_def bindS_def returnS_def)
qed

theorem invoice_bills_priced_session_witness:
  "\<exists>item. convertToBillingInvoiceItem (demo_env True) demo_settings priced_session = Inr item
    \<and> dm_owed (bw_platform (tried (demo_env True) (Some ''cus_1'') item [None, Some ''in_2''] (demo_world 0 [] [] []))) (Some ''cus_1'') = 135
    \<and> dm_owed (bw_platform (tried (demo_env True) (Some ''cus_1'') item [None, Some ''in_2''] (demo_world 0 [] [] []))) (Some ''cus_2'') = 0"
proof -
  let ?w = "demo_world 0 [] [] []"
  obtain item where item: "convertToBillingInvoiceItem (demo_env True) demo_settings priced_session = Inr item" "bii_currency item = Some ''EUR''"
    by (simp add: convertToBillingInvoiceItem_def priced_session_def demo_stop_def)
  have t: "tx_id priced_session = 7" "tx_pricingModel priced_session = Some priced_model" by (simp_all add: priced_session_def)
  note d = item_data[OF item(1) t(2), unfolded t(1)]
  have "snd (createStripeInvoiceItems (demo_env True) (Some ''cus_1'') item None ?w) = Inr ()"
    by (rule demo_created[OF _ _ item(2) d(2)]) (simp_all add: d(1) demo_state_def)
  then have ok: "\<exists>n < length [None, Some ''in_2'']. snd (createStripeInvoiceItems (demo_env True) (Some ''cus_1'') item ([None, Some ''in_2''] ! n)
      (tried (demo_env True) (Some ''cus_1'') item (take n [None, Some ''in_2'']) ?w)) = Inr ()"
    by (intro exI[of _ 0]) (simp add: tried_def)
  have l: "ledger (be_platform (demo_env True) ''sk'') (\<lambda>s. map_of (dm_keys s)) dm_owed" by (simp add: demo_ledger)
  have w: "bw_key ?w = Some ''sk''" "tx_id priced_session \<noteq> 0" by (simp_all add: t)
  have f: "map_of (dm_keys (bw_platform ?w)) k = None" for k by (simp add: demo_state_def)
  obtain x where "dm_owed (bw_platform (tried (demo_env True) (Some ''cus_1'') item [None, Some ''in_2''] ?w))
      = (dm_owed (bw_platform ?w))(Some ''cus_1'' := dm_owed (bw_platform ?w) (Some ''cus_1'') + x)" "x = session_due priced_model"
    using invoice_bills_priced_session[OF l w(1) item w(2) t(2) priced_model_sound f, of "Some ''cus_1''" "[None, Some ''in_2'']"] ok by blast
  then show ?thesis using item(1) priced_model_due by (intro exI[of _ item]) (simp add: demo_state_def)
qed

text \<open>A pending session, another one that runs on the same connector, and the settings of the billing system in the data base.\<close>

definition stripe_doc :: setting where
  "stripe_doc = (billing_doc True)\<lparr>st_props := (st_props (billing_doc True))(''content.stripe.url'' \<mapsto> Text ''https'')\<rparr>"

definition pending_session :: transaction where
  "pending_session = demo_session\<lparr>tx_user := None, tx_stop := Some demo_stop,
     tx_billingData := Some \<lparr> bd_withBillingActive = True, bd_lastUpdate = 0, bd_stop = Some (only_status BillingStatus.PENDING) \<rparr>\<rparr>"

definition running_session :: transaction where
  "running_session = demo_session\<lparr>tx_id := 8, tx_timestamp := 3600000, tx_user := None\<rparr>"

definition race_world :: "bill_task list \<Rightarrow> demo billing_world" where
  "race_world ks = (demo_world 1000 [] [pending_session, running_session] [])
     \<lparr>bw_vault := (start [stripe_doc])\<lparr>va_world := \<lparr> lw_now = 1000, lw_locks = [] \<rparr>\<rparr>, bw_stations := [sample_station], bw_tasks := ks\<rparr>"

lemma race_simps [simp]:
  "bw_transactions (race_world ks) = [pending_session, running_session]" "bw_users (race_world ks) = [demo_account]"
  "bw_stations (race_world ks) = [sample_station]" "bw_key (race_world ks) = Some ''sk''" "now_of (race_world ks) = 1000"
  "bw_platform (race_world ks) = demo_state []" "bw_invoices (race_world ks) = []" "bw_tasks (race_world ks) = ks"
  "va_settings (bw_vault (race_world ks)) = [stripe_doc]"
  by (simp_all add: race_world_def now_of_def)

lemma session_simps [simp]:
  "tx_id pending_session = 7" "tx_userID pending_session = Some ''u1''" "tx_chargeBoxID pending_session = ''CS-1''" "tx_connectorId pending_session = 1"
  "tx_timestamp pending_session = 0" "tx_stop pending_session = Some demo_stop" "tx_pricingModel pending_session = None"
  "tx_billingData pending_session = Some \<lparr> bd_withBillingActive = True, bd_lastUpdate = 0, bd_stop = Some (only_status BillingStatus.PENDING) \<rparr>"
  "tx_id running_session = 8" "tx_chargeBoxID running_session = ''CS-1''" "tx_connectorId running_session = 1" "tx_timestamp running_session = 3600000"
  by (simp_all add: pending_session_def running_session_def demo_session_def sample_transaction_def)

definition loaded_session :: transaction where
  "loaded_session = pending_session\<lparr>tx_user := Some demo_user\<rparr>"

lemma demo_found: "findUser w ''u1'' = Some demo_user" if "bw_users w = [demo_account]"
  using that by (simp add: findUser_def demo_user_def) (simp add: demo_account_def)

lemma race_loaded:
  "loadTransaction 7 (race_world ks) = Some loaded_session" "last_on_connector (race_world ks) loaded_session = Some running_session"
  "station_of (race_world ks) loaded_session = Some sample_station"
  by (simp_all add: loadTransaction_def demo_found loaded_session_def last_on_connector_def station_of_def sample_station_def)

lemma loaded_simps [simp]:
  "tx_id loaded_session = 7" "tx_user loaded_session = Some demo_user" "tx_stop loaded_session = Some demo_stop"
  "tx_billingData loaded_session = tx_billingData pending_session" "tx_userID loaded_session = Some ''u1''" "tx_pricingModel loaded_session = None"
  by (simp_all add: loaded_session_def)

lemma race_load: "load_pending 7 (race_world ks) = (race_world ks, Inr (Some loaded_session))"
  by (simp add: load_pending_def bindS_def readS_def returnS_def race_loaded billing_stop_of_def only_status_def)

lemma stripe_doc_read:
  "\<exists>b. getBillingSetting [stripe_doc] = Some b \<and> st_props b ''type'' = Some (Text ''stripe'') \<and> stripe_getInstance b"
proof -
  have "getSettingByIdentifier ''billing'' [stripe_doc] = Some stripe_doc"
    by (rule single_settingI) (simp_all add: stripe_doc_def billing_doc_def)
  then show ?thesis
    by (simp add: getBillingSetting_def Let_def stripe_doc_def billing_doc_def billing_flags_def billing_values_def stripe_paths_def
        stripe_getInstance_def text_at_def)
qed

lemma race_impl: "\<exists>b. getBillingImpl (\<lambda>_. True) (race_world ks) = Some b"
  using stripe_doc_read by (auto simp: getBillingImpl_def)

lemma race_handed_over:
  "\<exists>t'. hand_over_pending (demo_env True) (\<lambda>_. True) loaded_session (race_world [])
      = (race_world [\<lparr> btk_transactionID = 7, btk_userID = Some ''u1'' \<rparr>], Inr t')"
proof -
  obtain b where b: "getBillingImpl (\<lambda>_. True) (race_world []) = Some b" using race_impl by blast
  have "(race_world [])\<lparr>bw_tasks := ks\<rparr> = race_world ks" for ks by (simp add: race_world_def)
  then show ?thesis
    by (simp add: hand_over_pending_def end_billing_def bindS_def readS_def b catchS_def stripe_endTransaction_def billing_active_def
        billing_stop_of_def only_status_def modifyS_def returnS_def)
qed

text \<open>The session is billed, though its card is declined: the invoice stays open.\<close>

definition empty_item :: billing_invoice_item where
  "empty_item = \<lparr> bii_transactionID = 7, bii_currency = Some ''EUR'', bii_pricingData = [no_priced_data],
     bii_headerDescription = Some ''session'', bii_metadata = [(''tenantID'', ''tenant''), (''transactionID'', show_int 7), (''userID'', ''u1''), (''begin'', show_int 0)] \<rparr>"

lemma race_item: "convertToBillingInvoiceItem (demo_env lv) demo_settings loaded_session = Inr empty_item"
proof -
  have "enrichTransactionPricingData (demo_env lv) demo_settings loaded_session no_priced_data = no_priced_data"
    by (simp add: enrichTransactionPricingData_def enrich_dimension_def no_priced_data_def)
  moreover have "tx_timestamp loaded_session = 0" by (simp add: loaded_session_def)
  moreover have "be_header (demo_env lv) loaded_session = ''session''" by (simp add: demo_env_def)
  ultimately show ?thesis
    by (simp add: convertToBillingInvoiceItem_def extractTransactionPricingData_def extractFinalPricingData_def isFeatureActive_def
        activeFeatures_def accumulatePricedConsumption_def empty_item_def demo_stop_def)
qed

definition demo_header :: invoice_item_params where
  "demo_header = \<lparr> iip_invoice = None, iip_customer = Some ''cus_1'', iip_currency = to_lower ''EUR'', iip_description = Some ''session'',
     iip_tax_rates = [], iip_amount = 0, iip_dimension = None, iip_metadata = bii_metadata empty_item \<rparr>"

definition opened_invoice :: stripe_invoice where
  "opened_invoice = (demo_invoice ''in_new'' 0)\<lparr>siv_status := OPEN, siv_finalized_at := Some 5356800\<rparr>"

definition billed_state :: demo where
  "billed_state = (demo_state [opened_invoice])\<lparr>dm_keys := [(header_key 7, demo_header)]\<rparr>"

lemma demo_items:
  "createStripeInvoiceItems (demo_env lv) (Some ''cus_1'') empty_item None (race_world ks)
     = ((race_world ks)\<lparr>bw_platform := (demo_state [])\<lparr>dm_keys := [(header_key 7, demo_header)]\<rparr>\<rparr>, Inr ())"
proof -
  have "(dm_owed (demo_state []))(c := 0) = dm_owed (demo_state [])" for c by (simp add: demo_state_def fun_eq_iff)
  then show ?thesis
    by (simp add: createStripeInvoiceItems_def createStripeInvoiceItemHeader_def createStripeInvoiceItem_def createStripeInvoiceItems4PricingConsumptionData_def
        createStripeInvoiceItem4Dimension_def empty_item_def head_key bindS_def returnS_def call_connected demo_platform_def demo_item_def demo_state_def no_priced_data_def
        demo_header_def set_if_truthy_def)
qed

lemma demo_charged:
  "chargeStripeInvoice (demo_env lv) ''in_new'' (w\<lparr>bw_platform := (demo_state [demo_invoice ''in_new'' 0])\<lparr>dm_keys := ks\<rparr>\<rparr>)
     = (w\<lparr>bw_platform := (demo_state [opened_invoice])\<lparr>dm_keys := ks\<rparr>\<rparr>, Inr (Inl (PlatformError ''StripeCardError'' 402 ''card_declined'')))"
  if "bw_key w = Some ''sk''"
  using that
  by (simp add: chargeStripeInvoice_def getStripeInvoice_def catchS_def bindS_def call_connected demo_platform_def with_invoice_def demo_invoice_def
      demo_state_def opened_invoice_def returnS_def)

lemma demo_retrieved:
  "getStripeInvoice (demo_env lv) ''in_new'' (w\<lparr>bw_platform := (demo_state [opened_invoice])\<lparr>dm_keys := ks\<rparr>\<rparr>)
     = (w\<lparr>bw_platform := (demo_state [opened_invoice])\<lparr>dm_keys := ks\<rparr>\<rparr>, Inr opened_invoice)"
  if "bw_key w = Some ''sk''"
  using that by (simp add: getStripeInvoice_def call_connected demo_platform_def with_invoice_def demo_state_def opened_invoice_def demo_invoice_def)

lemma one_page: "take (nat (checkRecordLimit (Number 1))) (drop (nat (checkRecordSkip (Number 0))) xs) = take 1 xs"
  by (simp add: checkRecordLimit_def checkRecordSkip_def page_value_def Let_def MAX_SAFE_INTEGER_def)

lemma new_copy: "getInvoice k [i\<lparr>inv_id := k\<rparr>] = Some (i\<lparr>inv_id := k\<rparr>)"
  using one_page[of "[i\<lparr>inv_id := k\<rparr>]"]
  by (simp add: getInvoice_def getInvoices_def all_invoices_def invoice_matches_def single_invoice_def getCountFromDatabaseCount_def DB_RECORD_COUNT_CEIL_def Let_def)

lemma no_copy: "getInvoiceByInvoiceID k [] = None"
  by (simp add: getInvoiceByInvoiceID_def getInvoices_def all_invoices_def single_invoice_def getCountFromDatabaseCount_def DB_RECORD_COUNT_CEIL_def Let_def)

lemma show_zero: "show_nat 0 = ''0''"
  by code_simp

lemma demo_synchronized:
  "synchronizeAsBillingInvoice (demo_env lv) opened_invoice False w
     = (w\<lparr>bw_invoices := [(local_copy opened_invoice)\<lparr>inv_id := ''doc0''\<rparr>]\<rparr>, Inr (Some ((local_copy opened_invoice)\<lparr>inv_id := ''doc0''\<rparr>)))"
  if "bw_invoices w = []" and "bw_users w = [demo_account]"
proof -
  have i: "siv_userID opened_invoice = Some ''u1''" by (simp add: opened_invoice_def demo_invoice_def)
  have "be_newInvoiceID (demo_env lv) [] = ''doc0''" by (simp add: demo_env_def show_zero)
  moreover have "(local_copy opened_invoice)\<lparr>inv_id := k, inv_sessions := None, inv_lastError := None\<rparr> = (local_copy opened_invoice)\<lparr>inv_id := k\<rparr>" for k
    by (simp add: local_copy_def)
  ultimately show ?thesis
    using that
    by (simp add: synchronizeAsBillingInvoice_def i bindS_def readS_def demo_found no_copy saveInvoice_def modifyS_def returnS_def new_copy)
qed

lemma race_billed_item:
  "\<exists>w' i. billInvoiceItem (demo_env lv) demo_settings demo_user empty_item (race_world ks) = (w', Inr i)"
proof -
  let ?n = "demo_invoice ''in_new'' 0" and ?e = "PlatformError ''StripeCardError'' 402 ''card_declined''"
  let ?w = "\<lambda>is. (race_world ks)\<lparr>bw_platform := (demo_state is)\<lparr>dm_keys := [(header_key 7, demo_header)]\<rparr>\<rparr>"
  have c: "createStripeInvoice (demo_env lv) (Some ''cus_1'') ''u1'' k (?w []) = (?w [?n], Inr ?n)" for k
    by (simp add: createStripeInvoice_def call_connected demo_platform_def demo_state_def)
  have k: "bw_key (race_world ks) = Some ''sk''" by simp
  have i: "siv_id ?n = ''in_new''" by (simp add: demo_invoice_def)
  have "\<exists>w'. updateInvoiceAdditionalData ((local_copy opened_invoice)\<lparr>inv_id := ''doc0''\<rparr>) r (Some empty_item) w = (w', Inr ())" for r w
    by (simp add: updateInvoiceAdditionalData_def Let_def bindS_def readS_def storeInvoiceAdditionalData_def modifyS_def)
  then obtain w' where u: "updateInvoiceAdditionalData ((local_copy opened_invoice)\<lparr>inv_id := ''doc0''\<rparr>) (Some (Inl ?e)) (Some empty_item)
      ((?w [opened_invoice])\<lparr>bw_invoices := [(local_copy opened_invoice)\<lparr>inv_id := ''doc0''\<rparr>]\<rparr>) = (w', Inr ())" by blast
  have s: "synchronizeAsBillingInvoice (demo_env lv) opened_invoice False (?w [opened_invoice])
     = ((?w [opened_invoice])\<lparr>bw_invoices := [(local_copy opened_invoice)\<lparr>inv_id := ''doc0''\<rparr>]\<rparr>, Inr (Some ((local_copy opened_invoice)\<lparr>inv_id := ''doc0''\<rparr>)))"
    by (rule demo_synchronized) simp_all
  show ?thesis
    by (simp add: billInvoiceItem_def Let_def bindS_def demo_items c i demo_charged[OF k] demo_retrieved[OF k] returnS_def s u)
qed

lemma notice_sent: "\<exists>w' r. sendInvoiceNotification i w = (w', Inr r)"
  by (simp add: sendInvoiceNotification_def bindS_def readS_def modifyS_def returnS_def split: option.split)

lemma race_billed:
  "\<exists>w'. bill_session (demo_env lv) demo_settings 7 (race_world ks) = (w', Inr ())"
proof -
  obtain w1 i where b: "billInvoiceItem (demo_env lv) demo_settings demo_user empty_item (race_world ks) = (w1, Inr i)" using race_billed_item by blast
  note n = notice_sent[of i w1]
  have c: "getStripeCustomer (demo_env lv) (Some ''cus_1'') (race_world ks) = (race_world ks, Inr (Some (demo_customer lv ''cus_1'')))"
    by (simp add: getStripeCustomer_def rethrowS_def bindS_def call_connected demo_platform_def returnS_def demo_customer_def)
  have k: "checkConnection (demo_env lv) demo_settings (race_world ks) = (race_world ks, Inr ())" by (rule connected) simp
  obtain w2 st where "billTransaction (demo_env lv) demo_settings (Some sample_station) loaded_session (race_world ks) = (w2, Inr st)"
    using n by (auto simp: billTransaction_def bindS_def k liftS_def checkBillTransaction_def catchS_def c race_item b returnS_def)
  then show ?thesis
    by (simp add: bill_session_def bindS_def readS_def race_loaded billing_active_def billing_stop_of_def only_status_def
        saveTransactionBillingData_def modifyS_def)
qed

definition race_task :: bill_task where "race_task = \<lparr> btk_transactionID = 7, btk_userID = Some ''u1'' \<rparr>"

theorem session_billed_once_witness:
  "\<exists>w'. bill_session (demo_env True) demo_settings 7 (race_world []) = (w', Inr ())
    \<and> same_books (run_tasks (demo_env True) (\<lambda>_. True) [race_task] w')
      (fst (billTransaction_executeAsyncTask (demo_env True) (\<lambda>_. True) race_task (run_tasks (demo_env True) (\<lambda>_. True) [race_task] w')))"
proof -
  obtain w' where "bill_session (demo_env True) demo_settings 7 (race_world []) = (w', Inr ())" using race_billed by blast
  from this session_billed_once[OF this, of race_task] show ?thesis by (auto simp: race_task_def)
qed

theorem pending_overwrites_billed_witness:
  "\<exists>t t' w1 w2. load_pending 7 (race_world []) = (race_world [], Inr (Some t))
    \<and> hand_over_pending (demo_env True) (\<lambda>_. True) t (race_world []) = (w1, Inr t')
    \<and> bill_session (demo_env True) demo_settings 7 w1 = (w2, Inr ())
    \<and> (\<exists>u. find (\<lambda>t. tx_id t = 7) (bw_transactions (fst (storeTransaction t' w2))) = Some u \<and> still_pending u)"
proof -
  obtain t' where h: "hand_over_pending (demo_env True) (\<lambda>_. True) loaded_session (race_world []) = (race_world [race_task], Inr t')"
    using race_handed_over by (auto simp: race_task_def)
  obtain w2 where b: "bill_session (demo_env True) demo_settings 7 (race_world [race_task]) = (w2, Inr ())" using race_billed by blast
  from pending_overwrites_billed[OF race_load h b] race_load h b show ?thesis by blast
qed

section \<open>Invoices\<close>

definition copy :: "string \<Rightarrow> string \<Rightarrow> int \<Rightarrow> bool \<Rightarrow> billing_invoice" where
  "copy i ps created lv = \<lparr> inv_id = i, inv_invoiceID = ps, inv_liveMode = lv, inv_userID = Some ''u1'', inv_number = None, inv_status = DRAFT,
     inv_amount = 150, inv_amountPaid = 0, inv_currency = Some ''EUR'', inv_customerID = ''cus_1'', inv_createdOn = created,
     inv_downloadable = False, inv_downloadUrl = None, inv_payInvoiceUrl = None,
     inv_sessions = Some [\<lparr> bsd_transactionID = 7, bsd_pricingData = [] \<rparr>], inv_lastError = None \<rparr>"

theorem test_removal_spares_live_witness:
  "same_live (demo_world 0 [copy ''a'' ''in_1'' 0 True, copy ''b'' ''in_2'' 0 False] [] []) (demo_world 0 [copy ''a'' ''in_1'' 0 True, copy ''b'' ''in_2'' 0 False] [] [])
     (fst (clearTestData (demo_world 0 [copy ''a'' ''in_1'' 0 True, copy ''b'' ''in_2'' 0 False] [] [])))"
  by (rule test_removal_spares_live) (simp add: unique_documents_def copy_def)

theorem many_test_users_stay_witness:
  "bw_users (fst (clearTestData ((demo_world 0 [] [] [])\<lparr>bw_users := replicate 500 demo_account\<rparr>))) = replicate 500 demo_account"
proof -
  let ?w = "(demo_world 0 [] [] [])\<lparr>bw_users := replicate 500 demo_account\<rparr>"
  have "has_test_billing_data demo_account" by (simp add: has_test_billing_data_def demo_account_def demo_data_def)
  then have "500 \<le> length (filter has_test_billing_data (bw_users ?w))" by (simp add: filter_replicate)
  moreover obtain w' r where "clearTestData ?w = (w', r)" by (metis surj_pair)
  ultimately show ?thesis using many_test_users_stay[of ?w w' r] by simp
qed

text \<open>Two drafts of January, charged on 3 March 1970.\<close>

definition two_drafts :: "demo billing_world" where
  "two_drafts = demo_world 5356800000 [copy ''a'' ''in_1'' 2678400000 True, copy ''b'' ''in_2'' 2678400001 True] []
     [demo_invoice ''in_1'' 2678400, demo_invoice ''in_2'' 2678401]"

lemma two_drafts_proper: "proper_invoices (bw_invoices two_drafts)"
  by (simp add: two_drafts_def proper_invoices_def copy_def)

theorem charging_ends_witness:
  "\<exists>w' r. chargeInvoices (demo_env True) demo_settings False two_drafts = Some (w', r)
    \<and> map inv_invoiceID (bw_invoices w') = [''in_1'', ''in_2'']"
  using charging_ends[OF demo_answers two_drafts_proper, of True demo_settings False] by (auto simp: two_drafts_def copy_def)

definition january_query :: invoice_query where
  "january_query = preparePeriodicBillingQueryParameters utc_clock demo_settings False 5356800000"

lemma query_dates: "start_of_previous_month utc_clock 5356800000 = 2678400000" "start_of_month utc_clock 5356800000 = 5097600000"
  by code_simp+

lemma january_matches:
  "invoice_matches january_query i \<longleftrightarrow> (inv_status i = DRAFT \<or> inv_status i = OPEN) \<and> 2678400000 \<le> inv_createdOn i \<and> inv_createdOn i \<le> 5097600000"
  by (auto simp: invoice_matches_def january_query_def preparePeriodicBillingQueryParameters_def query_dates all_invoices_def)

definition opened_draft :: stripe_invoice where
  "opened_draft = (demo_invoice ''in_1'' 2678400)\<lparr>siv_status := OPEN, siv_finalized_at := Some 5356800\<rparr>"

definition opened_copy :: billing_invoice where
  "opened_copy = set_invoice ((local_copy opened_draft)\<lparr>inv_id := ''a''\<rparr>) (copy ''a'' ''in_1'' 2678400000 True)"

definition attempted :: "demo billing_world" where
  "attempted = two_drafts\<lparr>bw_platform := demo_state [opened_draft, demo_invoice ''in_2'' 2678401]\<rparr>"

definition card_error :: exn where "card_error = PlatformError ''StripeCardError'' 402 ''card_declined''"

lemma opened_copy_simps [simp]:
  "inv_id opened_copy = ''a''" "inv_invoiceID opened_copy = ''in_1''" "inv_status opened_copy = OPEN" "inv_createdOn opened_copy = 5356800000"
  "inv_sessions opened_copy = Some [\<lparr> bsd_transactionID = 7, bsd_pricingData = [] \<rparr>]" "inv_userID opened_copy = Some ''u1''"
  by (simp_all add: opened_copy_def set_invoice_def local_copy_def opened_draft_def demo_invoice_def copy_def or_num_def)

lemma attempted_simps:
  "bw_users attempted = [demo_account]" "bw_transactions attempted = []" "now_of attempted = 5356800000"
  "now_of (attempted\<lparr>bw_invoices := is\<rparr>) = 5356800000"
  by (simp_all add: attempted_def two_drafts_def demo_world_def now_of_def)

lemma attempted_steps:
  "checkConnection (demo_env lv) b two_drafts = (two_drafts, Inr ())"
  "chargeStripeInvoice (demo_env lv) ''in_1'' two_drafts = (attempted, Inr (Inl card_error))"
  "getStripeInvoice (demo_env lv) ''in_1'' attempted = (attempted, Inr opened_draft)"
  by (rule connected, simp add: two_drafts_def)
    (simp_all add: chargeStripeInvoice_def getStripeInvoice_def catchS_def bindS_def call_def two_drafts_def attempted_def demo_world_def
      demo_platform_def with_invoice_def demo_invoice_def demo_state_def opened_draft_def returnS_def card_error_def)

lemma attempted_synchronized:
  "synchronizeAsBillingInvoice (demo_env lv) opened_draft False attempted
     = (attempted\<lparr>bw_invoices := [opened_copy, copy ''b'' ''in_2'' 2678400001 True]\<rparr>, Inr (Some opened_copy))"
proof -
  let ?a = "copy ''a'' ''in_1'' 2678400000 True" and ?b = "copy ''b'' ''in_2'' 2678400001 True"
  have u: "siv_userID opened_draft = Some ''u1''" "siv_id opened_draft = ''in_1''" by (simp_all add: opened_draft_def demo_invoice_def)
  have f: "getInvoiceByInvoiceID ''in_1'' [?a, ?b] = Some ?a"
    using proper_found(1)[OF two_drafts_proper, of ?a] by (simp add: two_drafts_def copy_def)
  have p: "proper_invoices [opened_copy, ?b]" by (simp add: proper_invoices_def copy_def)
  have g: "getInvoice ''a'' [opened_copy, ?b] = Some opened_copy" using proper_found(2)[OF p, of opened_copy] by simp
  have i: "bw_invoices attempted = [?a, ?b]" "bw_users attempted = [demo_account]" "inv_id ?a = ''a''" by (simp_all add: attempted_def two_drafts_def copy_def)
  have "set_invoice ((local_copy opened_draft)\<lparr>inv_id := ''a''\<rparr>) ?a = opened_copy" by (simp add: opened_copy_def)
  then show ?thesis
    by (simp add: synchronizeAsBillingInvoice_def u bindS_def readS_def demo_found i f saveInvoice_def modifyS_def returnS_def g)
qed

theorem page_end_overlooked_witness:
  "\<exists>w' acts'. charge_pages (chargeInvoice (demo_env True) demo_settings) utc_clock demo_settings False january_query 1 0
      \<lparr> cga_inSuccess = 0, cga_inError = 0 \<rparr> two_drafts = Some (w', Inr acts')
    \<and> copy ''b'' ''in_2'' 2678400001 True \<in> set (bw_invoices w')"
proof -
  let ?a = "copy ''a'' ''in_1'' 2678400000 True" and ?b = "copy ''b'' ''in_2'' 2678400001 True"
  let ?acts = "\<lparr> cga_inSuccess = 0, cga_inError = 0 \<rparr>"
  have m: "filter (invoice_matches january_query) [?a, ?b] = [?a, ?b]" by (simp add: january_matches copy_def)
  let ?c = "opened_copy\<lparr>inv_sessions := Some [\<lparr> bsd_transactionID = 7, bsd_pricingData = [] \<rparr>],
    inv_lastError := Some (convertToBillingError 5356800000 card_error)\<rparr>"
  let ?w1 = "attempted\<lparr>bw_invoices := [?c, ?b]\<rparr>"
  have w1: "bw_users ?w1 = [demo_account]" "bw_transactions ?w1 = []" by (simp_all add: attempted_simps)
  have u: "updateInvoiceAdditionalData opened_copy (Some (Inl card_error)) None (attempted\<lparr>bw_invoices := [opened_copy, ?b]\<rparr>) = (?w1, Inr ())"
    by (simp add: updateInvoiceAdditionalData_def Let_def bindS_def readS_def storeInvoiceAdditionalData_def modifyS_def or_else_def attempted_simps)
  obtain w2 r2 where n: "sendInvoiceNotification opened_copy ?w1 = (w2, Inr r2)" and w2: "bw_invoices w2 = [?c, ?b]" "bw_transactions w2 = []"
    using notice_sent[of opened_copy ?w1] movesD[OF same_invoices_steps(4), of ?w1 opened_copy] movesD[OF same_invoice(5), of ?w1 opened_copy] w1
    by (auto simp: same_data_def same_invoices_def)
  have t: "updateTransactionsBillingData opened_copy w2 = (w2, Inr ())"
    using w2 by (simp add: updateTransactionsBillingData_def update_session_billing_def bindS_def readS_def loadTransaction_def returnS_def)
  have c: "chargeInvoice (demo_env True) demo_settings ?a two_drafts = (w2, Inr opened_copy)"
    using u n t by (simp add: chargeInvoice_def bindS_def attempted_steps attempted_synchronized copy_def isResourceMissingError_def card_error_def returnS_def)
  have d: "same_day utc_clock 2678400000 5356800000 = False" by code_simp
  have one: "foldS (charge_one (chargeInvoice (demo_env True) demo_settings) utc_clock demo_settings False) [?a] (?acts, 1) two_drafts
      = (w2, Inr (\<lparr> cga_inSuccess = 1, cga_inError = 0 \<rparr>, 1))"
    using c d by (simp add: charge_one_def isInvoiceOutOfPeriodicOperationScope_def bindS_def readS_def catchS_def returnS_def)
      (simp add: two_drafts_def copy_def)
  have f: "filter (invoice_matches january_query) (bw_invoices w2) = [?b]" by (simp add: january_matches w2(1)) (simp add: copy_def)
  have s: "sort_key inv_createdOn [?a, ?b] = [?a] @ [?b]" by (simp add: copy_def)
  have q: "iq_sort january_query = Some (sort_key inv_createdOn)" "\<not> iq_onlyRecordCount january_query"
    by (simp_all add: january_query_def preparePeriodicBillingQueryParameters_def all_invoices_def)
  from page_end_overlooked[of january_query two_drafts "[?a]" "[?b]" 1 "demo_env True" demo_settings ?acts w2 "\<lparr> cga_inSuccess = 1, cga_inError = 0 \<rparr>"]
  show ?thesis using m s q one f by (auto simp: two_drafts_def MAX_SAFE_INTEGER_def)
qed

section \<open>Requests\<close>

lemma basic_request:
  "ut_rolesACL (user_with [''basic'']) \<in> set basic_roles" "isComponentActiveFromToken (user_with [''basic'']) BILLING"
  "\<not> isAdmin (ut_role (user_with [''basic'']))" "ut_id (user_with [''basic'']) = ''u''"
  by (simp_all add: user_with_def basic_roles_def isComponentActiveFromToken_def isAdmin_def)

theorem payment_methods_of_anybody_witness:
  "handleBillingDeletePaymentMethod ordered_acl (demo_env True) (\<lambda>_. True) (user_with [''basic'']) ''u1'' ''pm''
     = with_impl (\<lambda>_. True) GENERAL_ERROR (\<lambda>b. bindS (existing_user ''u1'') (\<lambda>user. deletePaymentMethod (demo_env True) b user ''pm''))"
  using payment_methods_of_anybody[OF ordered.role_acl_axioms basic_request(1,2), of "demo_env True" "\<lambda>_. True" "''u1''" None "''pm''"] by blast

definition every_invoice :: invoices_request where
  "every_invoice = \<lparr> irq_UserID = None, irq_Status = [], irq_Search = None, irq_StartDateTime = None, irq_EndDateTime = None,
     irq_Limit = Number 10, irq_Skip = Number 0, irq_OnlyRecordCount = False, irq_Sort = None \<rparr>"

theorem any_invoice_is_read_witness:
  "\<exists>n shown v. handleGetInvoices ordered_acl (user_with [''basic'']) every_invoice two_drafts = (two_drafts, Inr (n, shown))
    \<and> shown = []
    \<and> handleGetInvoice ordered_acl (user_with [''basic'']) ''b'' two_drafts = (two_drafts, Inr v) \<and> ivw_amount v = 150"
proof -
  let ?b = "copy ''b'' ''in_2'' 2678400001 True"
  have b: "getInvoice ''b'' (bw_invoices two_drafts) = Some ?b"
    using proper_found(2)[OF two_drafts_proper, of ?b] by (simp add: two_drafts_def copy_def)
  have e: "{j \<in> set (bw_invoices two_drafts). inv_userID j = Some ''u''} = {}" by (auto simp: two_drafts_def copy_def)
  from any_invoice_is_read[OF ordered.role_acl_axioms basic_request(1-3) _ b, of every_invoice]
  show ?thesis by (auto simp: every_invoice_def basic_request(4) copy_def e)
qed

end
