(* ===== verification/Charging_Profiles.thy ===== *)
theory Charging_Profiles
  imports Charging_Limits Handler_Monad Collections "HOL-Library.List_Lexorder" "HOL-Library.Char_ord"
begin

text \<open>
  Charging profiles: their collection (src/storage/mongodb/ChargingStationStorage.ts), how they are pushed to a
  station and cleared on it (ChargingStationVendorIntegration.ts), and the operations that keep the two together
  (\<^verbatim>\<open>setAndSaveChargingProfile\<close>, \<^verbatim>\<open>clearAndDeleteChargingProfile\<close> and the loops over a site area and over a
  transaction in src/server/ocpp).

  A station is outside the program. What it answers is a parameter that may depend on every request sent before, so
  a request that is sent again may get another answer. Whether it is connected may change in the same way, and so may
  the stations of the data base, which other handlers update.
\<close>

section \<open>Profiles\<close>

text \<open>
  \<^verbatim>\<open>ChargingProfile\<close> with its \<^verbatim>\<open>Profile\<close>. The profile of \<open>Charging_Limits\<close> has what decides the
  limit in force; the identifiers are added here. The station that the code attaches for its log is left out.
\<close>

record site_profile = charging_profile +
  spf_id :: "string option"
  spf_chargingStationID :: string
  spf_chargePointID :: int
  spf_chargingProfileId :: int
  spf_transactionId :: "int option"

datatype OCPPChargingProfileStatus = ACCEPTED | REJECTED | NOT_SUPPORTED

datatype OCPPClearChargingProfileStatus = ACCEPTED | UNKNOWN

datatype profile_request =
    SetProfile string int site_profile
  | ClearProfile string int

text \<open>An answer, an exception, or an exception that carries a status.\<close>

datatype 'st station_answer = Answer 'st | Raise exn | RaiseStatus 'st

record profile_env =
  pe_stations :: "profile_request list \<Rightarrow> charging_station list"
  pe_connected :: "profile_request list \<Rightarrow> string \<Rightarrow> bool"
  pe_set :: "profile_request list \<Rightarrow> profile_request \<Rightarrow> OCPPChargingProfileStatus station_answer"
  pe_clear :: "profile_request list \<Rightarrow> profile_request \<Rightarrow> OCPPClearChargingProfileStatus station_answer"
  pe_hash :: "string \<Rightarrow> string"

text \<open>The requests sent so far, and the collection.\<close>

record profile_state =
  ps_sent :: "profile_request list"
  ps_profiles :: "site_profile list"

type_synonym 'a profile_handler = "(profile_state, 'a) handler"

section \<open>The collection\<close>

text \<open>\<^verbatim>\<open>findOneAndUpdate\<close> with \<^verbatim>\<open>upsert\<close>, on the identifier.\<close>

definition put_profile :: "site_profile \<Rightarrow> site_profile list \<Rightarrow> site_profile list" where
  "put_profile p ps =
     (if spf_id p \<in> spf_id ` set ps then map (\<lambda>q. if spf_id q = spf_id p then p else q) ps else ps @ [p])"

definition profile_id :: "'e profile_env_scheme \<Rightarrow> site_profile \<Rightarrow> string" where
  "profile_id env p =
     (if truthy_str (spf_id p) then the (spf_id p)
      else pe_hash env (spf_chargingStationID p @ ''~'' @ show_int (prf_connectorID p) @ ''~'' @ show_int (spf_chargingProfileId p)))"

definition saveChargingProfile :: "'e profile_env_scheme \<Rightarrow> site_profile \<Rightarrow> string profile_handler" where
  "saveChargingProfile env p =
     bindS (modifyS (\<lambda>s. s\<lparr>ps_profiles := put_profile (p\<lparr>spf_id := Some (profile_id env p)\<rparr>) (ps_profiles s)\<rparr>)) (\<lambda>_.
     returnS (profile_id env p))"

text \<open>
  The parameters of \<^verbatim>\<open>getChargingProfiles\<close> that the modelled callers give. A connector or a transaction that is 0
  is falsy and selects nothing. The limit and the page size of the callers are the largest number.
\<close>

record profile_query =
  pq_chargingProfileID :: "string option"
  pq_chargingStationIDs :: "string list option"
  pq_connectorID :: "int option"
  pq_profilePurposeType :: "ChargingProfilePurposeType option"
  pq_transactionId :: "int option"

definition any_profile :: profile_query where
  "any_profile = \<lparr> pq_chargingProfileID = None, pq_chargingStationIDs = None, pq_connectorID = None,
     pq_profilePurposeType = None, pq_transactionId = None \<rparr>"

definition matches :: "profile_query \<Rightarrow> site_profile \<Rightarrow> bool" where
  "matches q p =
     (if truthy_str (pq_chargingProfileID q) then spf_id p = pq_chargingProfileID q
      else (case pq_chargingStationIDs q of None \<Rightarrow> True | Some ids \<Rightarrow> spf_chargingStationID p \<in> set ids)
        \<and> (truthy_num (pq_connectorID q) \<longrightarrow> Some (prf_connectorID p) = pq_connectorID q)
        \<and> (case pq_profilePurposeType q of None \<Rightarrow> True | Some t \<Rightarrow> prf_purpose p = t)
        \<and> (truthy_num (pq_transactionId q) \<longrightarrow> spf_transactionId p = pq_transactionId q))"

text \<open>The names of the purposes, in the order of the alphabet.\<close>

fun purpose_rank :: "ChargingProfilePurposeType \<Rightarrow> nat" where
  "purpose_rank CHARGE_POINT_MAX_PROFILE = 0"
| "purpose_rank TX_DEFAULT_PROFILE = 1"
| "purpose_rank TX_PROFILE = 2"

text \<open>\<^verbatim>\<open>$sort\<close> on station, connector, purpose and stack level: a stable sort on each key, the first key last.\<close>

definition profile_order :: "site_profile list \<Rightarrow> site_profile list" where
  "profile_order ps =
     sort_key spf_chargingStationID (sort_key prf_connectorID
       (sort_key (\<lambda>p. purpose_rank (prf_purpose p)) (sort_key prf_stackLevel ps)))"

definition getChargingProfiles :: "profile_query \<Rightarrow> profile_state \<Rightarrow> site_profile list" where
  "getChargingProfiles q s = profile_order (filter (matches q) (ps_profiles s))"

definition getChargingProfile :: "string \<Rightarrow> profile_state \<Rightarrow> site_profile option" where
  "getChargingProfile i s =
     (case getChargingProfiles (any_profile\<lparr>pq_chargingProfileID := Some i\<rparr>) s of [p] \<Rightarrow> Some p | _ \<Rightarrow> None)"

fun remove_first :: "('a \<Rightarrow> bool) \<Rightarrow> 'a list \<Rightarrow> 'a list" where
  "remove_first P [] = []"
| "remove_first P (x # xs) = (if P x then xs else x # remove_first P xs)"

definition deleteChargingProfile :: "string option \<Rightarrow> unit profile_handler" where
  "deleteChargingProfile i = modifyS (\<lambda>s. s\<lparr>ps_profiles := remove_first (\<lambda>p. spf_id p = i) (ps_profiles s)\<rparr>)"

text \<open>With the deletion of a station: \<^verbatim>\<open>findOneAndDelete\<close> on the station.\<close>

definition deleteChargingProfiles :: "string \<Rightarrow> unit profile_handler" where
  "deleteChargingProfiles csID =
     modifyS (\<lambda>s. s\<lparr>ps_profiles := remove_first (\<lambda>p. spf_chargingStationID p = csID) (ps_profiles s)\<rparr>)"

section \<open>Requests to the station\<close>

text \<open>\<^verbatim>\<open>ChargingStationStorage.getChargingStation\<close>: identifiers are unique.\<close>

definition getChargingStation :: "'e profile_env_scheme \<Rightarrow> string \<Rightarrow> profile_state \<Rightarrow> charging_station option" where
  "getChargingStation env csID s = find (\<lambda>cs. cs_id cs = csID \<and> \<not> cs_deleted cs) (pe_stations env (ps_sent s))"

definition log_request :: "profile_request \<Rightarrow> profile_state \<Rightarrow> profile_state" where
  "log_request rq s = s\<lparr>ps_sent := ps_sent s @ [rq]\<rparr>"

definition send_set :: "'e profile_env_scheme \<Rightarrow> profile_request \<Rightarrow> OCPPChargingProfileStatus station_answer profile_handler" where
  "send_set env rq = (\<lambda>s. (log_request rq s, Inr (pe_set env (ps_sent s) rq)))"

definition send_clear :: "'e profile_env_scheme \<Rightarrow> profile_request \<Rightarrow> OCPPClearChargingProfileStatus station_answer profile_handler" where
  "send_clear env rq = (\<lambda>s. (log_request rq s, Inr (pe_clear env (ps_sent s) rq)))"

text \<open>The profile as the station wants it.\<close>

definition to_vendor :: "charging_station \<Rightarrow> charge_point option \<Rightarrow> site_profile \<Rightarrow> site_profile res" where
  "to_vendor cs cpo p =
     bindE (convertToVendorChargingProfile cs cpo (charging_profile.truncate p)) (\<lambda>v.
       Inr (p\<lparr>prf_schedule := prf_schedule v\<rparr>))"

text \<open>
  The result of \<^verbatim>\<open>setChargingProfile\<close> is one status or an array of them; both are a list here, as the caller
  looks for the first one that is not accepted. An exception with a status ends the calls and is the result.
\<close>

fun set_each :: "'e profile_env_scheme \<Rightarrow> string \<Rightarrow> site_profile \<Rightarrow> connector list \<Rightarrow> OCPPChargingProfileStatus list \<Rightarrow>
    OCPPChargingProfileStatus list profile_handler" where
  "set_each env csID v [] rs = returnS rs"
| "set_each env csID v (c # cs) rs =
     bindS (send_set env (SetProfile csID (con_connectorId c) v)) (\<lambda>a.
     case a of
       Answer st \<Rightarrow> set_each env csID v cs (rs @ [st])
     | Raise e \<Rightarrow> throwS e
     | RaiseStatus st \<Rightarrow> returnS [st])"

definition setChargingProfile ::
  "'e profile_env_scheme \<Rightarrow> charging_station \<Rightarrow> charge_point option \<Rightarrow> site_profile \<Rightarrow> OCPPChargingProfileStatus list profile_handler" where
  "setChargingProfile env cs cpo p =
     (if \<not> cs_supportChargingProfiles cs then throwS (BackendError ''Charging Station does not support charging profiles'')
      else bindS (readS (\<lambda>s. pe_connected env (ps_sent s) (cs_id cs))) (\<lambda>ok.
        if \<not> ok then throwS (BackendError ''Charging Station is not connected to the backend'')
        else bindS (liftS (to_vendor cs cpo p)) (\<lambda>v.
          bindS (send_set env (SetProfile (cs_id cs) (prf_connectorID v) v)) (\<lambda>a.
          case a of
            Answer st \<Rightarrow>
              if prf_connectorID p = 0 \<and> st \<noteq> OCPPChargingProfileStatus.ACCEPTED
              then (case cs_connectors cs of None \<Rightarrow> throwS TypeError | Some cons \<Rightarrow> set_each env (cs_id cs) v cons [])
              else returnS [st]
          | Raise e \<Rightarrow> throwS e
          | RaiseStatus st \<Rightarrow> returnS [st]))))"

fun clear_each :: "'e profile_env_scheme \<Rightarrow> string \<Rightarrow> connector list \<Rightarrow> unit profile_handler" where
  "clear_each env csID [] = returnS ()"
| "clear_each env csID (c # cs) =
     bindS (send_clear env (ClearProfile csID (con_connectorId c))) (\<lambda>a.
     case a of
       Answer st \<Rightarrow> clear_each env csID cs
     | Raise e \<Rightarrow> throwS e
     | RaiseStatus st \<Rightarrow> throwS (BackendError ''status''))"

text \<open>Every exception of the station is raised again. No caller looks at the status.\<close>

definition clearChargingProfile :: "'e profile_env_scheme \<Rightarrow> charging_station \<Rightarrow> site_profile \<Rightarrow> unit profile_handler" where
  "clearChargingProfile env cs p =
     (if \<not> cs_supportChargingProfiles cs then throwS (BackendError ''Charging Station does not support charging profiles'')
      else bindS (readS (\<lambda>s. pe_connected env (ps_sent s) (cs_id cs))) (\<lambda>ok.
        if \<not> ok then throwS (BackendError ''Charging Station is not connected to the backend'')
        else bindS (send_clear env (ClearProfile (cs_id cs) (prf_connectorID p))) (\<lambda>a.
          case a of
            Answer st \<Rightarrow>
              if prf_connectorID p = 0 \<and> st \<noteq> OCPPClearChargingProfileStatus.ACCEPTED
              then (case cs_connectors cs of None \<Rightarrow> throwS TypeError | Some cons \<Rightarrow> clear_each env (cs_id cs) cons)
              else returnS ()
          | Raise e \<Rightarrow> throwS e
          | RaiseStatus st \<Rightarrow> throwS (BackendError ''status''))))"

section \<open>Station and collection together\<close>

definition all_accepted :: "OCPPChargingProfileStatus list \<Rightarrow> bool" where
  "all_accepted rs = list_all (\<lambda>st. st = OCPPChargingProfileStatus.ACCEPTED) rs"

definition setAndSaveChargingProfile :: "'e profile_env_scheme \<Rightarrow> site_profile \<Rightarrow> string profile_handler" where
  "setAndSaveChargingProfile env p =
     bindS (readS (getChargingStation env (spf_chargingStationID p))) (\<lambda>found.
     case found of
        None \<Rightarrow> throwS (BackendError ''Charging Station not found'')
      | Some cs \<Rightarrow>
          if getChargingStationVendorImpl (cs_chargePointVendor cs) = None
          then throwS (BackendError ''No vendor implementation is available for setting a Charging Profile'')
          else bindS (setChargingProfile env cs (getChargePointFromID cs (spf_chargePointID p)) p) (\<lambda>rs.
            if \<not> all_accepted rs then throwS (BackendError ''Cannot set the Charging Profile!'')
            else saveChargingProfile env p))"

definition clearAndDeleteChargingProfile :: "'e profile_env_scheme \<Rightarrow> site_profile \<Rightarrow> unit profile_handler" where
  "clearAndDeleteChargingProfile env p =
     bindS (readS (getChargingStation env (spf_chargingStationID p))) (\<lambda>found.
     case found of
        None \<Rightarrow> throwS TypeError
      | Some cs \<Rightarrow>
          if \<not> cs_supportChargingProfiles cs then throwS (BackendError ''Charging Station does not support the Charging Profiles'')
          else if getChargingStationVendorImpl (cs_chargePointVendor cs) = None
          then throwS (BackendError ''No vendor implementation is available for setting a Charging Profile'')
          else bindS (clearChargingProfile env cs p) (\<lambda>_. deleteChargingProfile (spf_id p)))"

record actions_response =
  ar_inSuccess :: nat
  ar_inError :: nat

definition no_actions :: actions_response where
  "no_actions = \<lparr> ar_inSuccess = 0, ar_inError = 0 \<rparr>"

definition one_success :: "actions_response \<Rightarrow> actions_response" where
  "one_success r = r\<lparr>ar_inSuccess := Suc (ar_inSuccess r)\<rparr>"

definition one_error :: "actions_response \<Rightarrow> actions_response" where
  "one_error r = r\<lparr>ar_inError := Suc (ar_inError r)\<rparr>"

definition clear_one :: "'e profile_env_scheme \<Rightarrow> site_profile \<Rightarrow> actions_response \<Rightarrow> actions_response profile_handler" where
  "clear_one env p r =
     catchS (bindS (clearAndDeleteChargingProfile env p) (\<lambda>_. returnS (one_success r))) (\<lambda>_. returnS (one_error r))"

definition clear_station :: "'e profile_env_scheme \<Rightarrow> ChargingProfilePurposeType option \<Rightarrow> int option \<Rightarrow> charging_station \<Rightarrow>
    actions_response \<Rightarrow> actions_response profile_handler" where
  "clear_station env purpose tid cs r =
     bindS (readS (getChargingProfiles (any_profile\<lparr>pq_chargingStationIDs := Some [cs_id cs],
       pq_profilePurposeType := purpose, pq_transactionId := tid\<rparr>))) (\<lambda>ps. foldS (clear_one env) ps r)"

definition clearAndDeleteChargingProfilesForSiteArea ::
  "'e profile_env_scheme \<Rightarrow> charging_station list \<Rightarrow> ChargingProfilePurposeType option \<Rightarrow> int option \<Rightarrow> actions_response profile_handler" where
  "clearAndDeleteChargingProfilesForSiteArea env stations purpose tid = foldS (clear_station env purpose tid) stations no_actions"

text \<open>At the end of a transaction, as far as its profiles can be cleared.\<close>

definition deleteAllTransactionTxProfile :: "'e profile_env_scheme \<Rightarrow> transaction \<Rightarrow> unit profile_handler" where
  "deleteAllTransactionTxProfile env t =
     bindS (readS (getChargingProfiles (any_profile\<lparr>pq_chargingStationIDs := Some [tx_chargeBoxID t],
       pq_connectorID := Some (tx_connectorId t), pq_profilePurposeType := Some TX_PROFILE,
       pq_transactionId := Some (tx_id t)\<rparr>))) (\<lambda>ps.
     bindS (foldS (clear_one env) ps no_actions) (\<lambda>_. returnS ()))"

end
