(* ===== verification/Smart_Fuses.thy ===== *)
theory Smart_Fuses
  imports Charging_Profiles
begin

text \<open>
  The fuse tree of a site area (src/integration/smart-charging): what the optimizer is told of the limits. The
  root fuse has what is left of the site when the assets and the connectors that cannot be steered have taken
  their share; each charging station is a fuse, and each of its connectors one below it
  (\<^verbatim>\<open>buildRootFuse\<close>, \<^verbatim>\<open>buildChargingStationFuse\<close>, \<^verbatim>\<open>buildChargingStationConnectorFuse\<close> of
  SapSmartChargingIntegration.ts, types in src/types/Optimizer.ts).
\<close>

section \<open>Site areas\<close>

record smart_area = site_area +
  sm_name :: string
  sm_numberOfPhases :: int

text \<open>
  \<^verbatim>\<open>checkIfSiteAreaIsValid\<close>. \<open>stations\<close> is the list that the caller has put into the area; it is there at
  every call.
\<close>

definition checkIfSiteAreaIsValid :: "smart_area \<Rightarrow> charging_station list option \<Rightarrow> unit res" where
  "checkIfSiteAreaIsValid a stations =
     (if \<not> truthy_num (sa_maximumPower a) then Inl (BackendError ''Maximum Power is not set in Site Area'')
      else if sa_voltage a \<noteq> VOLTAGE_230 \<and> sa_voltage a \<noteq> VOLTAGE_110
      then Inl (BackendError ''Voltage must be either 110V or 230V in Site Area'')
      else if sm_numberOfPhases a \<noteq> 1 \<and> sm_numberOfPhases a \<noteq> 3
      then Inl (BackendError ''Number of phases must be either 1 or 3 in Site Area'')
      else if stations = None then Inl (BackendError ''No Charging Stations found in Site Area'')
      else Inr ())"

text \<open>
  \<^verbatim>\<open>getChargingStations\<close> with the site area and the statuses of the caller: the stations that have a connector in
  one of them, with these connectors only.
\<close>

definition with_status :: "ChargePointStatus list \<Rightarrow> charging_station \<Rightarrow> charging_station" where
  "with_status sts cs = cs\<lparr>cs_connectors := map_option (filter (\<lambda>c. con_status c \<in> set sts)) (cs_connectors cs)\<rparr>"

definition getChargingStationsOfArea ::
  "'e profile_env_scheme \<Rightarrow> string \<Rightarrow> ChargePointStatus list \<Rightarrow> profile_state \<Rightarrow> charging_station list" where
  "getChargingStationsOfArea env siteAreaID sts s =
     sort_key cs_id
       (map (with_status sts)
         (filter (\<lambda>cs. \<not> cs_deleted cs \<and> cs_siteAreaID cs = Some siteAreaID \<and> \<not> cs_inactive cs
              \<and> list_ex (\<lambda>c. con_status c \<in> set sts) (connectors_of cs))
           (pe_stations env (ps_sent s))))"

section \<open>Fuses\<close>

record fuse_node =
  fn_id :: int
  fn_fusePhase1 :: rat
  fn_fusePhase2 :: rat
  fn_fusePhase3 :: rat
  fn_phase1Connected :: bool
  fn_phase2Connected :: bool
  fn_phase3Connected :: bool

record station_fuse = fuse_node +
  sfu_children :: "fuse_node list"

record root_fuse = fuse_node +
  rfu_children :: "station_fuse list"

definition DC_CHARGING_STATION_DEFAULT_EFFICIENCY_PERCENT :: rat where
  "DC_CHARGING_STATION_DEFAULT_EFFICIENCY_PERCENT = 80"

text \<open>\<^verbatim>\<open>chargePoint?.efficiency > 0\<close>\<close>

definition efficiency_of :: "charge_point option \<Rightarrow> rat option" where
  "efficiency_of cpo =
     (case Option.bind cpo cp_efficiency of None \<Rightarrow> None | Some e \<Rightarrow> if e > 0 then Some e else None)"

text \<open>\<^verbatim>\<open>connector.chargePointID ? Utils.getChargePointFromID(...) : null\<close>\<close>

definition charge_point_of :: "charging_station \<Rightarrow> connector \<Rightarrow> charge_point option" where
  "charge_point_of cs c =
     (if truthy_num (con_chargePointID c) then Option.bind (con_chargePointID c) (getChargePointFromID cs) else None)"

definition is_DC :: "charging_station \<Rightarrow> int \<Rightarrow> bool" where
  "is_DC cs cid = (getChargingStationCurrentType cs None cid = Some DC)"

section \<open>The root fuse\<close>

definition takes :: "rat \<Rightarrow> rat \<Rightarrow> rat \<Rightarrow> 'x fuse_node_scheme \<Rightarrow> 'x fuse_node_scheme" where
  "takes a b c f = f\<lparr>fn_fusePhase1 := fn_fusePhase1 f - a, fn_fusePhase2 := fn_fusePhase2 f - b,
     fn_fusePhase3 := fn_fusePhase3 f - c\<rparr>"

text \<open>The phases of the grid from which a connector on a single phase takes its current.\<close>

definition grid_share :: "connector \<Rightarrow> rat \<Rightarrow> 'x fuse_node_scheme \<Rightarrow> 'x fuse_node_scheme" where
  "grid_share c amps =
     (case Option.bind (con_phaseAssignmentToGrid c) csPhaseL1 of
        None \<Rightarrow> takes amps 0 0
      | Some L1 \<Rightarrow> takes amps 0 0
      | Some L2 \<Rightarrow> takes 0 amps 0
      | Some L3 \<Rightarrow> takes 0 0 amps
      | Some _ \<Rightarrow> takes 0 0 0)"

definition reserve :: "smart_area \<Rightarrow> charging_station \<Rightarrow> connector \<Rightarrow> charge_point option \<Rightarrow> 'x fuse_node_scheme \<Rightarrow> 'x fuse_node_scheme" where
  "reserve a cs c cpo =
     (let amps = getChargingStationAmperage cs cpo (con_connectorId c)
      in if sm_numberOfPhases a = 1 then takes amps 0 0
         else if getNumberOfConnectedPhases cs None 0 = 1 then grid_share c amps
         else
           (let perPhase = amps / 3;
                atGrid = (if is_DC cs (con_connectorId c) then
                            perPhase * 100 / or_else (efficiency_of cpo) DC_CHARGING_STATION_DEFAULT_EFFICIENCY_PERCENT
                          else perPhase)
            in takes atGrid atGrid atGrid))"

text \<open>What cannot be steered, or has been excluded from this run.\<close>

definition not_steered :: "string list \<Rightarrow> charging_station \<Rightarrow> charge_point option \<Rightarrow> bool" where
  "not_steered excluded cs cpo =
     ((case cpo of None \<Rightarrow> True | Some p \<Rightarrow> cp_excludeFromPowerLimitation p)
      \<or> cs_excludeFromSmartCharging cs \<or> \<not> cs_supportChargingProfiles cs \<or> cs_id cs \<in> set excluded)"

text \<open>
  The loop over the connectors of a station, from the last to the first. A connector that is not steered is taken out
  of the station at once; \<open>kept\<close> are the connectors behind it that stay. A charge point that shares its power is
  reserved once: \<open>dn\<close> has the identifiers of those that have been.
\<close>

fun reserve_connectors ::
  "smart_area \<Rightarrow> string list \<Rightarrow> charging_station \<Rightarrow> connector list \<Rightarrow> connector list \<Rightarrow> int list \<Rightarrow> 'x fuse_node_scheme \<Rightarrow>
   connector list \<times> 'x fuse_node_scheme" where
  "reserve_connectors a excluded cs [] kept dn f = (kept, f)"
| "reserve_connectors a excluded cs (c # before) kept dn f =
     (let now = cs\<lparr>cs_connectors := Some (rev before @ c # kept)\<rparr>;
          cpo = charge_point_of now c
      in if not_steered excluded now cpo \<and> (case cpo of None \<Rightarrow> True | Some p \<Rightarrow> cp_chargePointID p \<notin> set dn)
         then reserve_connectors a excluded cs before kept
                (case cpo of
                   None \<Rightarrow> dn
                 | Some p \<Rightarrow> if cp_sharePowerToAllConnectors p \<or> cp_cannotChargeInParallel p then dn @ [cp_chargePointID p] else dn)
                (reserve a now c cpo f)
         else reserve_connectors a excluded cs before (c # kept) dn f)"

text \<open>The loop over the stations, from the last to the first; a station that is left without connectors goes.\<close>

fun reserve_stations ::
  "smart_area \<Rightarrow> string list \<Rightarrow> charging_station list \<Rightarrow> charging_station list \<Rightarrow> 'x fuse_node_scheme \<Rightarrow>
   (charging_station list \<times> 'x fuse_node_scheme) res" where
  "reserve_stations a excluded [] kept f = Inr (kept, f)"
| "reserve_stations a excluded (cs # before) kept f =
     (case cs_connectors cs of
        None \<Rightarrow> Inl TypeError
      | Some cons \<Rightarrow>
          (let (left, f') = reserve_connectors a excluded cs (rev cons) [] [] f
           in reserve_stations a excluded before
                (if left = [] then kept else cs\<lparr>cs_connectors := Some left\<rparr> # kept) f'))"

definition at_least_zero :: "'x fuse_node_scheme \<Rightarrow> 'x fuse_node_scheme" where
  "at_least_zero f = f\<lparr>fn_fusePhase1 := max 0 (fn_fusePhase1 f), fn_fusePhase2 := max 0 (fn_fusePhase2 f),
     fn_fusePhase3 := max 0 (fn_fusePhase3 f)\<rparr>"

definition site_amps_per_phase :: "smart_area \<Rightarrow> rat \<Rightarrow> rat" where
  "site_amps_per_phase a assetWatts =
     (or_else (sa_maximumPower a) 0 - assetWatts) / voltage_value (sa_voltage a) / of_int (sm_numberOfPhases a)"

definition site_fuse :: "smart_area \<Rightarrow> int \<Rightarrow> rat \<Rightarrow> root_fuse" where
  "site_fuse a fuseID assetWatts =
     (let n = sm_numberOfPhases a; amps = site_amps_per_phase a assetWatts
      in \<lparr> fn_id = fuseID, fn_fusePhase1 = amps, fn_fusePhase2 = (if n > 1 then amps else 0),
           fn_fusePhase3 = (if n > 1 then amps else 0), fn_phase1Connected = True, fn_phase2Connected = (n > 1),
           fn_phase3Connected = (n > 1), rfu_children = [] \<rparr>)"

text \<open>The root fuse, and the stations that are left in the site area.\<close>

definition buildRootFuse ::
  "smart_area \<Rightarrow> int \<Rightarrow> string list \<Rightarrow> rat \<Rightarrow> charging_station list \<Rightarrow> (charging_station list \<times> root_fuse) res" where
  "buildRootFuse a fuseID excluded assetWatts stations =
     bindE (reserve_stations a excluded (rev stations) [] (site_fuse a fuseID assetWatts)) (\<lambda>(left, f).
       Inr (left, at_least_zero f))"

section \<open>The fuses of a station\<close>

definition connectorIsCharging :: "connector \<Rightarrow> bool" where
  "connectorIsCharging c = (con_status c \<in> {CHARGING, SUSPENDED_EV, SUSPENDED_EVSE, OCCUPIED})"

text \<open>A power that is shared goes to the connectors that charge; the others count as one.\<close>

definition shared_amps :: "charging_station \<Rightarrow> charge_point \<Rightarrow> rat \<Rightarrow> rat" where
  "shared_amps cs p amps =
     (if cp_sharePowerToAllConnectors p \<or> cp_cannotChargeInParallel p then
        (let n = length (filter connectorIsCharging (List.map_filter (getConnectorFromID cs) (cp_connectorIDs p)));
             shared = (if cp_sharePowerToAllConnectors p then amps / of_nat n else amps)
         in if n \<ge> 1 then (if cp_cannotChargeInParallel p \<and> n > 1 then 0 else shared) else amps)
      else amps)"

text \<open>The number of phases and the amps of a connector: both are there and not 0, or the code raises.\<close>

definition getConnectorNbrOfPhasesAndAmps :: "charging_station \<Rightarrow> connector \<Rightarrow> (int \<times> rat) res" where
  "getConnectorNbrOfPhasesAndAmps cs c =
     bindE (if truthy_num (con_chargePointID c) then
              (case charge_point_of cs c of
                 None \<Rightarrow> Inl TypeError
               | Some p \<Rightarrow>
                   Inr (Some (getNumberOfConnectedPhases cs (Some p) (con_connectorId c)),
                        Some (shared_amps cs p (getChargingStationAmperage cs (Some p) (con_connectorId c)))))
            else Inr (con_numberOfConnectedPhase c, con_amperage c)) (\<lambda>(n, amps).
       if \<not> truthy_num n then Inl (BackendError ''Cannot get the number of phases of connector ID'')
       else if \<not> truthy_num amps then Inl (BackendError ''Cannot get the amperage of connector ID'')
       else Inr (or_else n 0, or_else amps 0))"

text \<open>
  The default efficiency divides without the \<^verbatim>\<open>/ 100\<close> that the efficiency of the charge point has, as in the source.
\<close>

definition buildChargingStationConnectorFuse :: "int \<Rightarrow> charging_station \<Rightarrow> connector \<Rightarrow> fuse_node res" where
  "buildChargingStationConnectorFuse fuseID cs c =
     bindE (getConnectorNbrOfPhasesAndAmps cs c) (\<lambda>(n, amps).
       let perPhase = amps / of_int n;
           cpo = Option.bind (con_chargePointID c) (getChargePointFromID cs);
           atGrid = (if is_DC cs (con_connectorId c) then
                       (case efficiency_of cpo of
                          Some e \<Rightarrow> perPhase / (e / 100)
                        | None \<Rightarrow> perPhase / DC_CHARGING_STATION_DEFAULT_EFFICIENCY_PERCENT)
                     else perPhase)
       in Inr \<lparr> fn_id = fuseID, fn_fusePhase1 = atGrid, fn_fusePhase2 = (if n > 1 then atGrid else 0),
                fn_fusePhase3 = (if n > 1 then atGrid else 0), fn_phase1Connected = True,
                fn_phase2Connected = (n > 1), fn_phase3Connected = (n > 1) \<rparr>)"

definition buildChargingStationFuse :: "int \<Rightarrow> rat \<Rightarrow> rat \<Rightarrow> rat \<Rightarrow> fuse_node list \<Rightarrow> station_fuse" where
  "buildChargingStationFuse fuseID sum1 sum2 sum3 children =
     \<lparr> fn_id = fuseID, fn_fusePhase1 = sum1, fn_fusePhase2 = sum2, fn_fusePhase3 = sum3, fn_phase1Connected = True,
       fn_phase2Connected = (sum2 > 0), fn_phase3Connected = (sum3 > 0), sfu_children = children \<rparr>"

end
