(* ===== verification/Smart_Cars.thy ===== *)
theory Smart_Cars
  imports Smart_Fuses
begin

text \<open>
  The cars of a site area as the optimizer sees them (\<^verbatim>\<open>buildSafeCar\<close>, \<^verbatim>\<open>buildCar\<close>,
  \<^verbatim>\<open>overrideCarWithRuntimeData\<close>, \<^verbatim>\<open>checkIfCarIsIncreasingConsumption\<close>,
  \<^verbatim>\<open>getCurrentSapSmartChargingProfileLimit\<close> of SapSmartChargingIntegration.ts) and the consumption of the
  assets of the area (\<^verbatim>\<open>getAssetConsumptionInWatts\<close>, types in src/types/Asset.ts and Car.ts).

  A division by the number of phases in use is by one at least for the phases that
  \<^verbatim>\<open>getUsedPhasesInTransactionInProgress\<close> detects; a transaction that names no phase would give an infinite
  limit in the code, and 0 here. The buffers of the settings are percentages above -100.
\<close>

section \<open>Data\<close>

datatype OptimizerCarType = BEV | PHEV | PETROL | DIESEL

record optimizer_car =
  oc_id :: int
  oc_name :: string
  oc_carType :: OptimizerCarType
  oc_timestampArrival :: int
  oc_startCapacity :: rat
  oc_maxCapacity :: rat
  oc_minLoadingState :: rat
  oc_minCurrent :: rat
  oc_minCurrentPerPhase :: rat
  oc_maxCurrent :: rat
  oc_maxCurrentPerPhase :: rat
  oc_canLoadPhase1 :: int
  oc_canLoadPhase2 :: int
  oc_canLoadPhase3 :: int
  oc_suspendable :: bool
  oc_immediateStart :: bool
  oc_canUseVariablePower :: bool

text \<open>A transaction with the car it was started for.\<close>

record car_transaction = transaction +
  tx_carID :: "string option"

record car =
  car_amperagePerPhase :: "rat option"
  car_fastChargePowerMax :: "rat option"
  car_batteryCapacityFull :: "rat option"

record sap_setting =
  sap_optimizerUrl :: string
  sap_user :: string
  sap_password :: string
  sap_stickyLimitation :: bool
  sap_limitBufferDC :: rat
  sap_limitBufferAC :: rat

datatype AssetType = CONSUMPTION | PRODUCTION | CONSUMPTION_AND_PRODUCTION

record asset =
  ast_id :: string
  ast_siteAreaID :: string
  ast_assetType :: AssetType
  ast_fluctuationPercent :: rat
  ast_staticValueWatt :: rat
  ast_dynamicAsset :: bool
  ast_excludeFromSmartCharging :: bool
  ast_currentInstantWatts :: "rat option"
  ast_lastConsumption :: "int option"
  ast_powerWattsLastSmartChargingRun :: "rat option"

section \<open>Assets\<close>

text \<open>Without a last consumption the moment compared with is the present one.\<close>

definition up_to_date :: "int \<Rightarrow> asset \<Rightarrow> bool" where
  "up_to_date now ast =
     (case ast_lastConsumption ast of None \<Rightarrow> True | Some t \<Rightarrow> tdiv (now - t) 60000 < 2)"

definition consumes :: "asset \<Rightarrow> bool" where
  "consumes ast = (ast_assetType ast = CONSUMPTION \<or> ast_assetType ast = CONSUMPTION_AND_PRODUCTION)"

definition save_value :: "int \<Rightarrow> asset \<Rightarrow> rat" where
  "save_value now ast =
     (let fluctuation = ast_staticValueWatt ast * (ast_fluctuationPercent ast / 100);
          watts = or_else (ast_currentInstantWatts ast) 0
      in if up_to_date now ast then
           (if watts > 0 then (if watts + fluctuation < ast_staticValueWatt ast then watts + fluctuation else ast_staticValueWatt ast)
            else if watts < 0 then (if watts + fluctuation < 0 then watts + fluctuation else 0)
            else 0)
         else if consumes ast then ast_staticValueWatt ast else 0)"

definition asset_watts :: "int \<Rightarrow> asset \<Rightarrow> rat" where
  "asset_watts now ast =
     (if ast_excludeFromSmartCharging ast then 0
      else if ast_dynamicAsset ast then save_value now ast
      else if consumes ast then ast_staticValueWatt ast else 0)"

text \<open>The power seen at this run, remembered in the data base for the dynamic assets that take part.\<close>

definition remember_watts :: "asset \<Rightarrow> asset" where
  "remember_watts ast =
     (if \<not> ast_excludeFromSmartCharging ast \<and> ast_dynamicAsset ast
         \<and> ast_powerWattsLastSmartChargingRun ast \<noteq> ast_currentInstantWatts ast
      then ast\<lparr>ast_powerWattsLastSmartChargingRun := ast_currentInstantWatts ast\<rparr> else ast)"

definition getAssetConsumptionInWatts :: "bool \<Rightarrow> int \<Rightarrow> string \<Rightarrow> asset list \<Rightarrow> asset list \<times> rat" where
  "getAssetConsumptionInWatts assetActive now siteAreaID assets =
     (if assetActive then
        (map (\<lambda>ast. if ast_siteAreaID ast = siteAreaID then remember_watts ast else ast) assets,
         sum_list (map (asset_watts now) (filter (\<lambda>ast. ast_siteAreaID ast = siteAreaID) assets)))
      else (assets, 0))"

section \<open>The plan in force\<close>

text \<open>
  \<open>Some l\<close> is the limit of the slot of this moment, \<open>None\<close> is \<^verbatim>\<open>undefined\<close> for a schedule that is still to
  start; an expired schedule gives -1.
\<close>

definition getCurrentSapSmartChargingProfileLimit :: "int \<Rightarrow> site_profile \<Rightarrow> rat option" where
  "getCurrentSapSmartChargingProfileLimit now p =
     (let sch = prf_schedule p;
          currentSlot = \<lfloor>(of_int (tdiv (now - sch_startSchedule sch) 60000) :: rat) / 15\<rfloor>
      in if currentSlot < int (length (sch_periods sch)) then
           (if currentSlot < 0 then None else Some (sp_limit (sch_periods sch ! nat currentSlot)))
         else Some (- 1))"

definition own_profiles :: "site_profile list \<Rightarrow> 'x transaction_scheme \<Rightarrow> site_profile list" where
  "own_profiles ps t =
     filter (\<lambda>p. spf_transactionId p = Some (tx_id t) \<and> spf_chargingStationID p = tx_chargeBoxID t
               \<and> prf_connectorID p = tx_connectorId t) ps"

text \<open>What the car drew when the optimizer was called the last time, with a fifth of the buffer as tolerance.\<close>

definition growth_threshold :: "rat \<Rightarrow> rat \<Rightarrow> rat" where
  "growth_threshold limit buffer =
     (let threshold = limit / (1 + buffer / 100) in threshold + (limit - threshold) * (2 / 10))"

definition checkIfCarIsIncreasingConsumption ::
  "sap_setting \<Rightarrow> int \<Rightarrow> charging_station \<Rightarrow> site_profile list \<Rightarrow> 'x transaction_scheme \<Rightarrow> CurrentType \<Rightarrow> int \<Rightarrow> bool" where
  "checkIfCarIsIncreasingConsumption st now cs current t currentType phases =
     (case own_profiles current t of
        [p] \<Rightarrow>
          (case getCurrentSapSmartChargingProfileLimit now p of
             None \<Rightarrow> False
           | Some limit \<Rightarrow>
               if limit < 1 then True
               else (case currentType of
                 AC \<Rightarrow>
                   (case rd_total (rt_amps (tx_run t)) of
                      None \<Rightarrow> False
                    | Some amps \<Rightarrow>
                        growth_threshold (limit / of_int (getNumberOfConnectedPhases cs None (tx_connectorId t))) (sap_limitBufferAC st)
                          < amps / of_int phases)
               | DC \<Rightarrow>
                   (case rd_DC (rt_watts (tx_run t)) of
                      None \<Rightarrow> False
                    | Some watts \<Rightarrow>
                        growth_threshold limit (sap_limitBufferDC st) < convertWattToAmp cs None (tx_connectorId t) watts)))
      | _ \<Rightarrow> False)"

section \<open>Cars\<close>

text \<open>\<^verbatim>\<open>Utils.roundTo\<close>: decimal.js rounds halves away from zero.\<close>

definition decimal_round :: "rat \<Rightarrow> rat" where
  "decimal_round x = (if x < 0 then - of_int \<lfloor>1 / 2 - x\<rfloor> else of_int \<lfloor>x + 1 / 2\<rfloor>)"

definition roundTo :: "rat \<Rightarrow> nat \<Rightarrow> rat" where
  "roundTo x scale = decimal_round (x * 10 ^ scale) / 10 ^ scale"

definition car_name :: "'x transaction_scheme \<Rightarrow> string" where
  "car_name t = tx_chargeBoxID t @ ''~'' @ show_int (tx_connectorId t)"

definition buildSafeCar :: "int \<Rightarrow> charging_station \<Rightarrow> 'x transaction_scheme \<Rightarrow> optimizer_car" where
  "buildSafeCar fuseID cs t =
     (let voltage = voltage_value (getChargingStationVoltage cs None 0);
          perPhase = getChargingStationAmperagePerPhase cs None (tx_connectorId t)
      in \<lparr> oc_id = fuseID, oc_name = car_name t, oc_carType = BEV, oc_timestampArrival = 0,
           oc_startCapacity = rt_currentTotalConsumptionWh (tx_run t) / voltage,
           oc_maxCapacity = 100 * 1000 / voltage, oc_minLoadingState = (100 * 1000 / voltage) * (5 / 10),
           oc_minCurrent = MIN_LIMIT_PER_PHASE * 3, oc_minCurrentPerPhase = MIN_LIMIT_PER_PHASE,
           oc_maxCurrent = perPhase * 3, oc_maxCurrentPerPhase = perPhase,
           oc_canLoadPhase1 = 1, oc_canLoadPhase2 = 1, oc_canLoadPhase3 = 1,
           oc_suspendable = True, oc_immediateStart = False, oc_canUseVariablePower = True \<rparr>)"

definition set_car_current :: "rat \<Rightarrow> rat \<Rightarrow> optimizer_car \<Rightarrow> optimizer_car" where
  "set_car_current perPhase phases c = c\<lparr>oc_maxCurrentPerPhase := perPhase, oc_maxCurrent := perPhase * phases\<rparr>"

definition custom_car :: "charging_station \<Rightarrow> 'x transaction_scheme \<Rightarrow> car option \<Rightarrow> optimizer_car \<Rightarrow> optimizer_car" where
  "custom_car cs t found c0 =
     (let cid = tx_connectorId t;
          voltage = voltage_value (getChargingStationVoltage cs None 0);
          converter = Option.bind found car_amperagePerPhase;
          fast = Option.bind found car_fastChargePowerMax;
          battery = Option.bind found car_batteryCapacityFull;
          c1 = (if getChargingStationCurrentType cs None cid = Some AC \<and> getNumberOfConnectedPhases cs None cid = 3
                then (if pos converter then set_car_current (or_else converter 0) 3 c0 else c0)
                else if is_DC cs cid \<and> pos fast
                then set_car_current (roundTo (convertWattToAmp cs None cid (or_else fast 0 * 1000) / 3) 3) 3 c0
                else c0)
      in if pos battery
         then c1\<lparr>oc_maxCapacity := or_else battery 0 * 1000 / voltage,
                 oc_minLoadingState := (or_else battery 0 * 1000 / voltage) * (5 / 10)\<rparr>
         else c1)"

definition overrideCarWithRuntimeData ::
  "sap_setting \<Rightarrow> int \<Rightarrow> charging_station \<Rightarrow> 'x transaction_scheme \<Rightarrow> site_profile list \<Rightarrow> optimizer_car \<Rightarrow> optimizer_car" where
  "overrideCarWithRuntimeData st now cs t current c =
     (let cid = tx_connectorId t; amps = rd_total (rt_amps (tx_run t)); dcWatts = rd_DC (rt_watts (tx_run t)) in
      case tx_phasesUsed t of
        Some u \<Rightarrow>
          (let n = getNumberOfUsedPhasesInTransactionInProgress (getChargingStationCurrentType cs None cid) (Some u);
               limited =
                 (if sap_stickyLimitation st \<and> \<not> checkIfCarIsIncreasingConsumption st now cs current t AC n
                  then c\<lparr>oc_maxCurrentPerPhase :=
                    (if pos amps then roundTo (or_else amps 0 / of_int n * (1 + sap_limitBufferAC st / 100)) 3
                     else oc_minCurrentPerPhase c)\<rparr>
                  else c)
           in if n \<noteq> -1 then
                limited\<lparr>oc_canLoadPhase1 := of_bool (csPhase1 u), oc_canLoadPhase2 := of_bool (csPhase2 u),
                  oc_canLoadPhase3 := of_bool (csPhase3 u), oc_minCurrent := oc_minCurrentPerPhase limited * of_int n,
                  oc_maxCurrent := oc_maxCurrentPerPhase limited * of_int n\<rparr>
              else c)
      | None \<Rightarrow>
          if is_DC cs cid \<and> pos dcWatts \<and> sap_stickyLimitation st
             \<and> \<not> checkIfCarIsIncreasingConsumption st now cs current t DC 0
          then set_car_current
                 (roundTo (convertWattToAmp cs None cid (or_else dcWatts 0) / 3 * (1 + sap_limitBufferDC st / 100)) 3) 3 c
          else c)"

text \<open>\<open>found\<close> is the car of the transaction, read when the transaction names one.\<close>

definition buildCar ::
  "sap_setting \<Rightarrow> int \<Rightarrow> int \<Rightarrow> charging_station \<Rightarrow> 'x car_transaction_scheme \<Rightarrow> car option \<Rightarrow> site_profile list \<Rightarrow> optimizer_car" where
  "buildCar st now fuseID cs t found current =
     (let cid = tx_connectorId t;
          c1 = (if truthy_str (tx_carID t) then custom_car cs t found (buildSafeCar fuseID cs t) else buildSafeCar fuseID cs t);
          c2 = overrideCarWithRuntimeData st now cs t current c1
      in if is_DC cs cid then
           (let cpo = Option.bind (getConnectorFromID cs cid) (\<lambda>c. Option.bind (con_chargePointID c) (getChargePointFromID cs));
                e = or_else (efficiency_of cpo) DC_CHARGING_STATION_DEFAULT_EFFICIENCY_PERCENT
            in set_car_current (oc_maxCurrentPerPhase c2 / (e / 100)) 3 c2)
         else c2)"

end
