(* ===== verification/Smart_Optimizer.thy ===== *)
theory Smart_Optimizer
  imports Smart_Cars Cypher
begin

text \<open>
  One run of the smart charging of a site area: the request to the optimizer, the profiles built from its answer, and
  how they are pushed to the stations (src/integration/smart-charging: SapSmartChargingIntegration.ts,
  SmartChargingIntegration.ts).

  The optimizer is a service outside the program: its answer is a parameter, which may be any plan and may depend
  on the history. The time, the stations and the transactions of the data base are those of the moment, and so
  depend on the history too. The zone of the server has a constant offset of whole minutes.
\<close>

section \<open>State and surroundings\<close>

record optimizer_request =
  or_rootFuse :: root_fuse
  or_cars :: "optimizer_car list"
  or_carAssignments :: "(int \<times> int) list"
  or_currentTimeSeconds :: rat

record planned_car =
  pc_name :: string
  pc_currentPlan :: "rat list option"

record smart_env = profile_env +
  se_vault :: vault_env
  se_setting :: sap_setting
  se_assetActive :: bool
  se_now :: "profile_request list \<Rightarrow> int"
  se_zone :: int
  se_transaction :: "profile_request list \<Rightarrow> int \<Rightarrow> car_transaction option"
  se_car :: "string \<Rightarrow> car option"
  se_configuration :: "string \<Rightarrow> (string \<times> string option) list option"
  se_optimizer :: "profile_request list \<Rightarrow> string \<Rightarrow> optimizer_request \<Rightarrow> planned_car list option res"

text \<open>\<open>ss_excluded\<close> is \<^verbatim>\<open>this.excludedChargingStations\<close>, which lives as long as the object of the integration.\<close>

record smart_state =
  ss_profiles :: profile_state
  ss_assets :: "asset list"
  ss_excluded :: "string list"
  ss_vault :: vault

type_synonym 'a smart_handler = "(smart_state, 'a) handler"

definition on_profiles :: "'a profile_handler \<Rightarrow> 'a smart_handler" where
  "on_profiles m = (\<lambda>s. case m (ss_profiles s) of (p, r) \<Rightarrow> (s\<lparr>ss_profiles := p\<rparr>, r))"

definition on_vault :: "(vault, 'a) handler \<Rightarrow> 'a smart_handler" where
  "on_vault m = (\<lambda>s. case m (ss_vault s) of (v, r) \<Rightarrow> (s\<lparr>ss_vault := v\<rparr>, r))"

definition now_in :: "smart_env \<Rightarrow> smart_state \<Rightarrow> int" where
  "now_in env s = se_now env (ps_sent (ss_profiles s))"

section \<open>The address of the optimizer\<close>

text \<open>
  \<^verbatim>\<open>Constants.REGEX_URL_PATTERN\<close>: a scheme, then characters of which the first is a word character or a
  hyphen and the last is not a dot, a comma or a colon.
\<close>

definition is_word_char :: "char \<Rightarrow> bool" where
  "is_word_char c =
     (let n = of_char c :: nat
      in 48 \<le> n \<and> n \<le> 57 \<or> 65 \<le> n \<and> n \<le> 90 \<or> 97 \<le> n \<and> n \<le> 122 \<or> n = 95)"

definition is_url_end :: "char \<Rightarrow> bool" where
  "is_url_end c = (is_word_char c \<or> c \<in> set ''@?^=%&;/~+#-'')"

definition is_url_char :: "char \<Rightarrow> bool" where
  "is_url_char c = (is_url_end c \<or> c \<in> set ''.,:'')"

definition after_scheme :: "string \<Rightarrow> string option" where
  "after_scheme url =
     (if take 8 url = ''https://'' then Some (drop 8 url)
      else if take 7 url = ''http://'' then Some (drop 7 url)
      else if take 6 url = ''wss://'' then Some (drop 6 url)
      else if take 5 url = ''ws://'' then Some (drop 5 url)
      else None)"

definition is_url :: "string \<Rightarrow> bool" where
  "is_url url =
     (case after_scheme url of
        None \<Rightarrow> False
      | Some r \<Rightarrow> r \<noteq> [] \<and> (is_word_char (hd r) \<or> hd r = CHR ''-'') \<and> list_all is_url_char r \<and> is_url_end (last r))"

definition buildOptimizerUrl :: "smart_env \<Rightarrow> string smart_handler" where
  "buildOptimizerUrl env =
     (let url = sap_optimizerUrl (se_setting env); usr = sap_user (se_setting env); pw = sap_password (se_setting env)
      in bindS (if pw \<noteq> [] then on_vault (decrypt (se_vault env) pw False None) else returnS pw) (\<lambda>password.
         if \<not> is_url url \<or> usr = [] \<or> password = []
         then throwS (BackendError ''SAP Smart Charging service configuration is incorrect'')
         else
           (let n = (if take 5 url = ''https'' then 8 else 7)
            in returnS (take n url @ usr @ '':'' @ password @ ''@'' @ drop n url))))"

section \<open>The request\<close>

text \<open>The transaction in progress on a connector; \<open>None\<close> excludes the station.\<close>

definition getTransactionFromChargingConnector :: "smart_env \<Rightarrow> connector \<Rightarrow> car_transaction option smart_handler" where
  "getTransactionFromChargingConnector env c =
     (if \<not> truthy_num (con_currentTransactionID c) then returnS None
      else readS (\<lambda>s. Option.bind (con_currentTransactionID c) (se_transaction env (ps_sent (ss_profiles s)))))"

text \<open>What the loops over stations and connectors build up.\<close>

record request_parts =
  rp_fuseID :: int
  rp_inError :: bool
  rp_cars :: "optimizer_car list"
  rp_assignments :: "(int \<times> int) list"
  rp_stationFuses :: "station_fuse list"

record station_parts = request_parts +
  stp_sum1 :: rat
  stp_sum2 :: rat
  stp_sum3 :: rat
  stp_connectorFuses :: "fuse_node list"

definition add_connector ::
  "smart_env \<Rightarrow> charging_station \<Rightarrow> site_profile list \<Rightarrow> connector \<Rightarrow> station_parts \<Rightarrow> station_parts smart_handler" where
  "add_connector env cs current c r =
     bindS (getTransactionFromChargingConnector env c) (\<lambda>found.
     case found of
       None \<Rightarrow>
         bindS (modifyS (\<lambda>s. s\<lparr>ss_excluded := ss_excluded s @ [cs_id cs]\<rparr>)) (\<lambda>_. returnS (r\<lparr>rp_inError := True\<rparr>))
     | Some t \<Rightarrow>
         bindS (liftS (buildChargingStationConnectorFuse (rp_fuseID r) cs c)) (\<lambda>f.
         bindS (readS (now_in env)) (\<lambda>now.
         returnS (r\<lparr>stp_connectorFuses := stp_connectorFuses r @ [f],
           stp_sum1 := stp_sum1 r + fn_fusePhase1 f, stp_sum2 := stp_sum2 r + fn_fusePhase2 f,
           stp_sum3 := stp_sum3 r + fn_fusePhase3 f,
           rp_cars := rp_cars r @ [buildCar (se_setting env) now (rp_fuseID r) cs t
             (Option.bind (tx_carID t) (se_car env)) current],
           rp_assignments := rp_assignments r @ [(rp_fuseID r, rp_fuseID r)],
           rp_fuseID := rp_fuseID r + 1\<rparr>))))"

definition open_station :: "request_parts \<Rightarrow> station_parts" where
  "open_station r = request_parts.extend r
     \<lparr> stp_sum1 = 0, stp_sum2 = 0, stp_sum3 = 0, stp_connectorFuses = [] \<rparr>"

definition close_station :: "station_parts \<Rightarrow> request_parts" where
  "close_station r =
     (let f = buildChargingStationFuse (rp_fuseID r) (stp_sum1 r) (stp_sum2 r) (stp_sum3 r) (stp_connectorFuses r);
          r' = request_parts.truncate r
      in r'\<lparr>rp_fuseID := rp_fuseID r + 1,
            rp_stationFuses := (if sfu_children f \<noteq> [] then rp_stationFuses r @ [f] else rp_stationFuses r)\<rparr>)"

definition add_station ::
  "smart_env \<Rightarrow> site_profile list \<Rightarrow> charging_station \<Rightarrow> request_parts \<Rightarrow> request_parts smart_handler" where
  "add_station env current cs r =
     bindS (foldS (add_connector env cs current) (connectors_of cs) (open_station r)) (\<lambda>r'. returnS (close_station r'))"

definition no_parts :: request_parts where
  "no_parts = \<lparr> rp_fuseID = 0, rp_inError = False, rp_cars = [], rp_assignments = [], rp_stationFuses = [] \<rparr>"

text \<open>The consumption of the assets, whose record of this run is saved.\<close>

definition asset_consumption :: "smart_env \<Rightarrow> smart_area \<Rightarrow> rat smart_handler" where
  "asset_consumption env a = (\<lambda>s.
     case getAssetConsumptionInWatts (se_assetActive env) (now_in env s) (sa_id a) (ss_assets s) of
       (assets, watts) \<Rightarrow> (s\<lparr>ss_assets := assets\<rparr>, Inr watts))"

text \<open>
  The seconds since the last quarter of an hour, by way of the quarters of the hour that have passed.
\<close>

definition current_time_seconds :: "int \<Rightarrow> int \<Rightarrow> rat" where
  "current_time_seconds zone now =
     (let quarters = of_int (((now + zone) mod 3600000) div 1000) / 900
      in (quarters - of_int \<lfloor>quarters\<rfloor>) * 900)"

text \<open>
  The body of \<^verbatim>\<open>buildOptimizerRequest\<close>. \<^verbatim>\<open>buildRootFuse\<close> takes stations out of the list of the site area;
  what is called the original site area is the same object, so the second attempt starts from the list that the first
  one has left, as the result of \<open>request_attempt\<close>.
\<close>

definition request_attempt ::
  "smart_env \<Rightarrow> smart_area \<Rightarrow> charging_station list \<Rightarrow> site_profile list \<Rightarrow>
   (charging_station list \<times> root_fuse \<times> request_parts) smart_handler" where
  "request_attempt env a stations current =
     bindS (liftS (checkIfSiteAreaIsValid a (Some stations))) (\<lambda>_.
     bindS (asset_consumption env a) (\<lambda>watts.
     bindS (readS ss_excluded) (\<lambda>excluded.
     bindS (liftS (buildRootFuse a 0 excluded watts stations)) (\<lambda>(left, rootFuse).
     bindS (foldS (add_station env current) left no_parts) (\<lambda>r.
     returnS (left, rootFuse, r))))))"

definition request_of :: "smart_env \<Rightarrow> root_fuse \<Rightarrow> request_parts \<Rightarrow> smart_state \<Rightarrow> optimizer_request" where
  "request_of env rootFuse r s =
     \<lparr> or_rootFuse = rootFuse\<lparr>rfu_children := rp_stationFuses r\<rparr>, or_cars = rp_cars r, or_carAssignments = rp_assignments r,
       or_currentTimeSeconds = current_time_seconds (se_zone env) (now_in env s) \<rparr>"

definition buildOptimizerRequest ::
  "smart_env \<Rightarrow> smart_area \<Rightarrow> charging_station list \<Rightarrow> site_profile list \<Rightarrow> optimizer_request smart_handler" where
  "buildOptimizerRequest env a stations current =
     bindS (request_attempt env a stations current) (\<lambda>(left, rootFuse, r).
     if rp_inError r then
       bindS (request_attempt env a left current) (\<lambda>(_, rootFuse', r'). readS (request_of env rootFuse' r'))
     else readS (request_of env rootFuse r))"

section \<open>The answer\<close>

definition calculateCarConsumption :: "charging_station \<Rightarrow> connector \<Rightarrow> int \<Rightarrow> rat \<Rightarrow> rat" where
  "calculateCarConsumption cs c n currentLimit =
     (if is_DC cs (con_connectorId c) then
        (case efficiency_of (Option.bind (con_chargePointID c) (getChargePointFromID cs)) of
           Some e \<Rightarrow> roundTo (currentLimit * e / 100 * of_int n) 3
         | None \<Rightarrow> roundTo (currentLimit * DC_CHARGING_STATION_DEFAULT_EFFICIENCY_PERCENT * of_int n) 3)
      else roundTo (currentLimit * of_int n) 3)"

definition getOcppParameterValue :: "smart_env \<Rightarrow> string \<Rightarrow> string \<Rightarrow> string option" where
  "getOcppParameterValue env csID name =
     (case se_configuration env csID of None \<Rightarrow> None | Some ps \<Rightarrow> (case map_of ps name of Some v \<Rightarrow> v | None \<Rightarrow> None))"

definition max_periods :: "string option \<Rightarrow> int" where
  "max_periods v = (case Option.bind v parseInt of None \<Rightarrow> 20 | Some n \<Rightarrow> n)"

text \<open>
  The loop over the slots of the plan: at most \<open>maxn\<close> of them, and after the third only as long as the plan is
  positive. \<open>k\<close> is the number of periods built.
\<close>

fun plan_periods :: "(rat \<Rightarrow> rat) \<Rightarrow> int \<Rightarrow> nat \<Rightarrow> rat list \<Rightarrow> schedule_period list" where
  "plan_periods limit maxn k [] = []"
| "plan_periods limit maxn k (x # xs) =
     (if int k < maxn \<and> (x > 0 \<or> k < 3)
      then \<lparr> sp_startPeriod = int k * 15 * 60, sp_limit = limit x \<rparr> # plan_periods limit maxn (Suc k) xs
      else [])"

definition start_of_quarter :: "int \<Rightarrow> int \<Rightarrow> int" where
  "start_of_quarter zone now = ((now + zone) div 900000) * 900000 - zone"

definition smart_profile :: "string \<Rightarrow> int \<Rightarrow> int \<Rightarrow> int option \<Rightarrow> int \<Rightarrow> schedule_period list \<Rightarrow> site_profile" where
  "smart_profile csID cid cpID tid start ps =
     \<lparr> prf_connectorID = cid, prf_stackLevel = 2, prf_purpose = TX_PROFILE, prf_kind = ABSOLUTE, prf_recurrencyKind = None,
       prf_schedule = \<lparr> sch_duration = Some (int (length ps) * 15 * 60), sch_startSchedule = start,
         sch_chargingRateUnit = RATE_AMPERE, sch_periods = ps \<rparr>,
       spf_id = None, spf_chargingStationID = csID, spf_chargePointID = cpID, spf_chargingProfileId = cid,
       spf_transactionId = tid \<rparr>"

definition plan_of :: "planned_car \<Rightarrow> int \<Rightarrow> rat list res" where
  "plan_of pc maxn = (case pc_currentPlan pc of Some xs \<Rightarrow> Inr xs | None \<Rightarrow> if maxn > 0 then Inl TypeError else Inr [])"

text \<open>The profile of one car. A connector without a charge point raises when its identifier is read.\<close>

definition profile_of_car :: "smart_env \<Rightarrow> int \<Rightarrow> profile_state \<Rightarrow> planned_car \<Rightarrow> site_profile res" where
  "profile_of_car env start s pc =
     (let parts = split_on (CHR ''~'') (pc_name pc);
          csID = hd parts;
          cid = (case parts of _ # w # _ \<Rightarrow> convertToInt_str w | _ \<Rightarrow> Some 0)
      in case getChargingStation env csID s of
           None \<Rightarrow> Inl (BackendError ''Charging Station not found'')
         | Some cs \<Rightarrow>
             (case Option.bind cid (getConnectorFromID cs) of
                None \<Rightarrow> Inl TypeError
              | Some c \<Rightarrow>
                  (let maxn = max_periods (getOcppParameterValue env csID ''ChargingScheduleMaxPeriods'')
                   in bindE (plan_of pc maxn) (\<lambda>plan.
                     case charge_point_of cs c of
                       None \<Rightarrow> Inl TypeError
                     | Some p \<Rightarrow>
                         (let n = getNumberOfConnectedPhases cs (Some p) (con_connectorId c)
                          in Inr (smart_profile csID (or_else cid 0) (cp_chargePointID p) (con_currentTransactionID c) start
                               (plan_periods (calculateCarConsumption cs c n) maxn 0 plan)))))))"

definition buildChargingProfilesFromOptimizerResponse :: "smart_env \<Rightarrow> planned_car list option \<Rightarrow> site_profile list smart_handler" where
  "buildChargingProfilesFromOptimizerResponse env answer = (\<lambda>s.
     (s, case answer of
           None \<Rightarrow> Inl TypeError
         | Some cars \<Rightarrow> mapE (profile_of_car env (start_of_quarter (se_zone env) (now_in env s)) (ss_profiles s)) cars))"

text \<open>
  The same \<^verbatim>\<open>profile\<close> by its JSON text: the keys are written in the same order and the dates as their
  instants.
\<close>

definition same_plan :: "site_profile \<Rightarrow> site_profile \<Rightarrow> bool" where
  "same_plan p q =
     (spf_chargingProfileId p = spf_chargingProfileId q \<and> spf_transactionId p = spf_transactionId q
      \<and> prf_stackLevel p = prf_stackLevel q \<and> prf_purpose p = prf_purpose q \<and> prf_kind p = prf_kind q
      \<and> prf_recurrencyKind p = prf_recurrencyKind q \<and> prf_schedule p = prf_schedule q)"

definition remove_applied :: "site_profile \<Rightarrow> site_profile list \<Rightarrow> site_profile list" where
  "remove_applied q ps =
     (case first_index (\<lambda>p. spf_transactionId p = spf_transactionId q) ps of
        None \<Rightarrow> ps
      | Some i \<Rightarrow> if same_plan (ps ! i) q then take i ps @ drop (Suc i) ps else ps)"

definition checkIfChargingProfileAlreadyApplied :: "site_profile list \<Rightarrow> site_profile list \<Rightarrow> site_profile list" where
  "checkIfChargingProfileAlreadyApplied ps current = fold remove_applied current ps"

section \<open>The run\<close>

text \<open>\<open>None\<close> when no car is connected.\<close>

definition buildChargingProfiles :: "smart_env \<Rightarrow> smart_area \<Rightarrow> site_profile list option smart_handler" where
  "buildChargingProfiles env a =
     bindS (readS (\<lambda>s. getChargingStationsOfArea env (sa_id a) [CHARGING, SUSPENDED_EVSE] (ss_profiles s))) (\<lambda>stations.
     bindS (readS (\<lambda>s. getChargingProfiles (any_profile\<lparr>pq_chargingStationIDs := Some (map cs_id stations),
       pq_profilePurposeType := Some TX_PROFILE\<rparr>) (ss_profiles s))) (\<lambda>current.
     bindS (buildOptimizerRequest env a stations current) (\<lambda>rq.
     bindS (buildOptimizerUrl env) (\<lambda>url.
     if or_cars rq = [] then returnS None
     else
       bindS (\<lambda>s. (s, se_optimizer env (ps_sent (ss_profiles s)) url rq)) (\<lambda>answer.
       bindS (buildChargingProfilesFromOptimizerResponse env answer) (\<lambda>ps.
       returnS (Some (checkIfChargingProfileAlreadyApplied ps current))))))))"

definition sap_checkConnection :: "smart_env \<Rightarrow> unit smart_handler" where
  "sap_checkConnection env =
     (let dummy = \<lparr> sa_id = [], sa_maximumPower = Some 10000, sa_voltage = VOLTAGE_230, sa_smartCharging = False,
                    sa_accessControl = False, sm_name = ''Dummy Site Area'', sm_numberOfPhases = 3 \<rparr>
      in rethrowS
        (bindS (buildOptimizerRequest env dummy [] []) (\<lambda>rq.
         bindS (buildOptimizerUrl env) (\<lambda>url.
         bindS (\<lambda>s. (s, se_optimizer env (ps_sent (ss_profiles s)) url rq)) (\<lambda>_. returnS ()))))
        (BackendError ''SAP Smart Charging service responded with an error''))"

text \<open>
  Lower limits first. The comparison reads the first period of every profile, as soon as there are two of them.
\<close>

definition first_limit :: "site_profile \<Rightarrow> rat" where
  "first_limit p = (case sch_periods (prf_schedule p) of [] \<Rightarrow> 0 | x # _ \<Rightarrow> sp_limit x)"

definition sort_by_limit :: "site_profile list \<Rightarrow> site_profile list res" where
  "sort_by_limit ps =
     (if length ps \<ge> 2 \<and> list_ex (\<lambda>p. sch_periods (prf_schedule p) = []) ps then Inl TypeError
      else Inr (sort_key first_limit ps))"

text \<open>Two more attempts; then the station is excluded, for as long as the object lives.\<close>

fun try_again :: "smart_env \<Rightarrow> site_profile \<Rightarrow> nat \<Rightarrow> bool smart_handler" where
  "try_again env p 0 =
     bindS (readS (\<lambda>s. getChargingStation env (spf_chargingStationID p) (ss_profiles s))) (\<lambda>found.
     case found of
       None \<Rightarrow> throwS TypeError
     | Some cs \<Rightarrow> bindS (modifyS (\<lambda>s. s\<lparr>ss_excluded := ss_excluded s @ [cs_id cs]\<rparr>)) (\<lambda>_. returnS False))"
| "try_again env p (Suc n) =
     catchS (bindS (on_profiles (setAndSaveChargingProfile env p)) (\<lambda>_. returnS True)) (\<lambda>_. try_again env p n)"

definition handleRefusedChargingProfile :: "smart_env \<Rightarrow> site_profile \<Rightarrow> bool smart_handler" where
  "handleRefusedChargingProfile env p = try_again env p 2"

definition apply_profile :: "smart_env \<Rightarrow> site_profile \<Rightarrow> actions_response \<Rightarrow> actions_response smart_handler" where
  "apply_profile env p r =
     catchS (bindS (on_profiles (setAndSaveChargingProfile env p)) (\<lambda>_. returnS (one_success r))) (\<lambda>_.
       bindS (handleRefusedChargingProfile env p) (\<lambda>ok. returnS (if ok then one_success r else one_error r)))"

text \<open>The part before the decision to run again.\<close>

definition apply_once :: "smart_env \<Rightarrow> smart_area \<Rightarrow> actions_response option smart_handler" where
  "apply_once env a =
     bindS (buildChargingProfiles env a) (\<lambda>built.
     case built of
       None \<Rightarrow> returnS None
     | Some ps \<Rightarrow>
         bindS (liftS (sort_by_limit ps)) (\<lambda>sorted.
         bindS (foldS (apply_profile env) sorted no_actions) (\<lambda>r. returnS (Some r))))"

text \<open>The second run, which is not followed by a third; its result is not looked at.\<close>

definition computeAndApplyChargingProfiles :: "smart_env \<Rightarrow> smart_area \<Rightarrow> actions_response option smart_handler" where
  "computeAndApplyChargingProfiles env a =
     bindS (apply_once env a) (\<lambda>result.
     case result of
       None \<Rightarrow> returnS None
     | Some r \<Rightarrow>
         if ar_inError r > 0 then bindS (apply_once env a) (\<lambda>_. returnS (Some r))
         else returnS (Some r))"

end
