(* ===== verification/Profile_Laws.thy ===== *)
theory Profile_Laws
  imports Charging_Profiles Handler_Frame
begin

text \<open>
  What the operations on charging profiles keep: the collection changes only with the station's consent, a profile is
  stored under one identifier, and what a station area is cleared of is gone.
\<close>

section \<open>The collection of profiles\<close>

lemma put_profile_keys:
  "map spf_id (put_profile p ps) = (if spf_id p \<in> spf_id ` set ps then map spf_id ps else map spf_id ps @ [spf_id p])"
  by (auto simp: put_profile_def)

lemma put_profile_set:
  assumes "distinct (map spf_id ps)"
  shows "set (put_profile p ps) = insert p {q \<in> set ps. spf_id q \<noteq> spf_id p}"
  by (auto simp: put_profile_def split: if_splits) (metis image_eqI)

interpretation plans: keyed_collection spf_id put_profile
  by unfold_locales (simp_all add: put_profile_keys put_profile_set)

lemma remove_first_set:
  assumes "distinct (map spf_id ps)"
  shows "set (remove_first (\<lambda>p. spf_id p = i) ps) = {q \<in> set ps. spf_id q \<noteq> i}"
    and "distinct (map spf_id (remove_first (\<lambda>p. spf_id p = i) ps))"
  using assms
proof (induction ps)
  case (Cons p ps)
  { case 1
    with Cons show ?case by (auto simp: image_iff)
  next
    case 2
    with Cons show ?case by auto
  }
qed simp_all

lemma getChargingProfiles_set [simp]: "set (getChargingProfiles q s) = {p \<in> set (ps_profiles s). matches q p}"
  by (auto simp: getChargingProfiles_def profile_order_def)

section \<open>Pushing a profile\<close>

text \<open>What an operation on profiles may send: the requests that it adds, all to one station.\<close>

fun station_of_request :: "profile_request \<Rightarrow> string" where
  "station_of_request (SetProfile i c p) = i"
| "station_of_request (ClearProfile i c) = i"

definition sends_to :: "string \<Rightarrow> profile_state \<Rightarrow> profile_state \<Rightarrow> bool" where
  "sends_to csID s s' = (\<exists>rqs. ps_sent s' = ps_sent s @ rqs \<and> (\<forall>rq \<in> set rqs. station_of_request rq = csID))"

definition accepts :: "'e profile_env_scheme \<Rightarrow> profile_request list \<Rightarrow> profile_request \<Rightarrow> bool" where
  "accepts env sent rq = (pe_set env sent rq \<in> {Answer OCPPChargingProfileStatus.ACCEPTED, RaiseStatus OCPPChargingProfileStatus.ACCEPTED})"

text \<open>The last request was accepted.\<close>

definition last_accepted :: "'e profile_env_scheme \<Rightarrow> profile_state \<Rightarrow> bool" where
  "last_accepted env s = (\<exists>pre rq. ps_sent s = pre @ [rq] \<and> accepts env pre rq)"

lemma stored_again [simp]:
  "sends_to i s (s1\<lparr>ps_profiles := ps\<rparr>) = sends_to i s s1" "last_accepted env (s1\<lparr>ps_profiles := ps\<rparr>) = last_accepted env s1"
  by (simp_all add: sends_to_def last_accepted_def)

lemma sends_to_refl [simp]: "sends_to i s s"
  by (simp add: sends_to_def)

lemma sends_to_trans: "sends_to i s s' \<Longrightarrow> sends_to i s' s'' \<Longrightarrow> sends_to i s s''"
  unfolding sends_to_def by (metis Un_iff append.assoc set_append)

lemma sends_to_log: "station_of_request rq = i \<Longrightarrow> sends_to i s (log_request rq s)"
  by (auto simp: sends_to_def log_request_def)

lemma log_request_sel [simp]: "ps_profiles (log_request rq s) = ps_profiles s" "ps_sent (log_request rq s) = ps_sent s @ [rq]"
  by (simp_all add: log_request_def)

lemma all_accepted_simps [simp]:
  "all_accepted []" "all_accepted (x # xs) \<longleftrightarrow> x = OCPPChargingProfileStatus.ACCEPTED \<and> all_accepted xs"
  "all_accepted (xs @ ys) \<longleftrightarrow> all_accepted xs \<and> all_accepted ys"
  by (simp_all add: all_accepted_def)

definition asks :: "string \<Rightarrow> profile_state \<Rightarrow> profile_state \<Rightarrow> bool" where
  "asks i s s' = (ps_profiles s' = ps_profiles s \<and> sends_to i s s')"

interpretation asking: evolution "asks i" for i
  by unfold_locales (auto simp: asks_def intro: sends_to_trans)

lemma sends: "station_of_request rq = i \<Longrightarrow> moves (asks i) (send_set env rq)"
  "station_of_request rq = i \<Longrightarrow> moves (asks i) (send_clear env rq)"
  by (auto simp: moves_def send_set_def send_clear_def asks_def intro: sends_to_log)

lemma answers:
  "(\<And>st. moves R (f st)) \<Longrightarrow> (\<And>e. moves R (g e)) \<Longrightarrow> (\<And>st. moves R (h st)) \<Longrightarrow>
   moves R (case a of Answer st \<Rightarrow> f st | Raise e \<Rightarrow> g e | RaiseStatus st \<Rightarrow> h st)"
  by (cases a) simp_all

lemma set_each_frame: "moves (asks i) (set_each env i v cs rs)"
  by (induction cs arbitrary: rs) (auto intro!: asking.rules sends answers)

lemma clear_each_frame: "moves (asks i) (clear_each env i cs)"
  by (induction cs) (auto intro!: asking.rules sends answers)

lemma set_each_accepted:
  "set_each env i v cs rs s = (s', Inr out) \<Longrightarrow> all_accepted out \<Longrightarrow> cs \<noteq> [] \<Longrightarrow> last_accepted env s'"
proof (induction cs arbitrary: rs s)
  case (Cons c cs)
  let ?rq = "SetProfile i (con_connectorId c) v"
  show ?case
  proof (cases "pe_set env (ps_sent s) ?rq")
    case (Answer st)
    show ?thesis
    proof (cases cs)
      case Nil
      with Answer Cons.prems show ?thesis
        by (auto simp: bindS_def send_set_def returnS_def last_accepted_def accepts_def)
    next
      case (Cons c' cs')
      with Answer Cons.prems Cons.IH[of "rs @ [st]" "log_request ?rq s"] show ?thesis
        by (simp add: bindS_def send_set_def)
    qed
  next
    case (RaiseStatus st)
    with Cons.prems show ?thesis
      by (auto simp: bindS_def send_set_def returnS_def last_accepted_def accepts_def)
  qed (use Cons.prems in \<open>auto simp: bindS_def send_set_def throwS_def\<close>)
qed simp

lemma setChargingProfile_frame: "moves (asks (cs_id cs)) (setChargingProfile env cs cpo p)"
  unfolding setChargingProfile_def by (intro asking.rules sends answers set_each_frame) simp_all

lemma clearChargingProfile_frame: "moves (asks (cs_id cs)) (clearChargingProfile env cs p)"
  unfolding clearChargingProfile_def by (intro asking.rules sends answers clear_each_frame) simp_all

lemma setChargingProfile_accepted:
  assumes "setChargingProfile env cs cpo p s = (s', Inr out)" and "all_accepted out" and "cs_connectors cs \<noteq> Some []"
  shows "last_accepted env s'"
proof -
  from assms(1) obtain v where v: "to_vendor cs cpo p = Inr v" "cs_supportChargingProfiles cs" "pe_connected env (ps_sent s) (cs_id cs)"
    by (cases "to_vendor cs cpo p") (auto simp: setChargingProfile_def bindS_def readS_def liftS_def throwS_def split: if_splits)
  let ?rq = "SetProfile (cs_id cs) (prf_connectorID v) v"
  show ?thesis
  proof (cases "pe_set env (ps_sent s) ?rq")
    case (Answer st)
    show ?thesis
    proof (cases "prf_connectorID p = 0 \<and> st \<noteq> OCPPChargingProfileStatus.ACCEPTED")
      case True
      with assms(1) v Answer obtain cons where c: "cs_connectors cs = Some cons"
        and "set_each env (cs_id cs) v cons [] (log_request ?rq s) = (s', Inr out)"
        by (auto simp: setChargingProfile_def bindS_def readS_def liftS_def send_set_def throwS_def split: option.splits)
      from set_each_accepted[OF this(2) assms(2)] assms(3) c show ?thesis by auto
    next
      case False
      with assms(1,2) v Answer show ?thesis
        by (auto simp: setChargingProfile_def bindS_def readS_def liftS_def send_set_def returnS_def last_accepted_def accepts_def)
    qed
  next
    case (RaiseStatus st)
    with assms(1,2) v show ?thesis
      by (auto simp: setChargingProfile_def bindS_def readS_def liftS_def send_set_def returnS_def last_accepted_def accepts_def)
  qed (use assms v in \<open>auto simp: setChargingProfile_def bindS_def readS_def liftS_def send_set_def throwS_def\<close>)
qed

lemma find_station: "getChargingStation env i s = Some cs \<Longrightarrow> cs_id cs = i"
  by (auto simp: getChargingStation_def find_Some_iff)

lemma setAndSave_cases:
  assumes "setAndSaveChargingProfile env p s = (s', r)"
  shows "case r of
      Inl e \<Rightarrow> ps_profiles s' = ps_profiles s
    | Inr i \<Rightarrow> i = profile_id env p \<and> ps_profiles s' = put_profile (p\<lparr>spf_id := Some i\<rparr>) (ps_profiles s)"
proof (cases "getChargingStation env (spf_chargingStationID p) s")
  case (Some cs)
  let ?m = "setChargingProfile env cs (getChargePointFromID cs (spf_chargePointID p)) p"
  obtain s1 r1 where m: "?m s = (s1, r1)" by (cases "?m s")
  with movesD[OF setChargingProfile_frame, of cs s env "getChargePointFromID cs (spf_chargePointID p)" p]
  have a: "ps_profiles s1 = ps_profiles s" by (simp add: asks_def)
  show ?thesis
  proof (cases "getChargingStationVendorImpl (cs_chargePointVendor cs) = None")
    case True
    with assms Some show ?thesis by (auto simp: setAndSaveChargingProfile_def bindS_def readS_def throwS_def)
  next
    case False
    with assms Some m a show ?thesis
      by (cases r1) (auto simp: setAndSaveChargingProfile_def saveChargingProfile_def bindS_def readS_def modifyS_def returnS_def
          throwS_def split: if_splits)
  qed
qed (use assms in \<open>auto simp: setAndSaveChargingProfile_def bindS_def readS_def throwS_def\<close>)

text \<open>A station without connectors that refuses a profile for all of them, with no answer of a connector to count, stores it.\<close>

lemma refused_plan_stored:
  assumes "getChargingStation env (spf_chargingStationID p) s = Some cs" and "cs_connectors cs = Some []"
    and "getChargingStationVendorImpl (cs_chargePointVendor cs) \<noteq> None" and "cs_supportChargingProfiles cs"
    and "pe_connected env (ps_sent s) (cs_id cs)" and "to_vendor cs (getChargePointFromID cs (spf_chargePointID p)) p = Inr v"
    and "prf_connectorID p = 0" and "snd (send_set env (SetProfile (cs_id cs) (prf_connectorID v) v) s) = Inr (Answer st)"
    and "st \<noteq> OCPPChargingProfileStatus.ACCEPTED"
  shows "\<exists>s' i. setAndSaveChargingProfile env p s = (s', Inr i) \<and> p\<lparr>spf_id := Some i\<rparr> \<in> set (ps_profiles s')"
proof -
  obtain s1 where s1: "send_set env (SetProfile (cs_id cs) (prf_connectorID v) v) s = (s1, Inr (Answer st))"
    using assms(8) by (metis prod.collapse)
  have "setChargingProfile env cs (getChargePointFromID cs (spf_chargePointID p)) p s = (s1, Inr [])"
    using assms(2,4-7,9) s1 by (simp add: setChargingProfile_def handler_simps)
  with assms(1,3) show ?thesis
    by (auto simp: setAndSaveChargingProfile_def saveChargingProfile_def bindS_def readS_def modifyS_def returnS_def put_profile_def image_iff)
qed

text \<open>C17: a charging profile of a station that has connectors (its list of them is not empty) is stored only when the station has
  accepted it: when the operation succeeds the station has been asked, its last answer is an acceptance, and the collection
  has the profile under its identifier; when it fails the collection is unchanged.\<close>

theorem plan_saved_when_accepted:
  assumes "setAndSaveChargingProfile env p s = (s', r)"
    and "getChargingStation env (spf_chargingStationID p) s = Some cs" and "cs_connectors cs \<noteq> Some []"
  shows "sends_to (cs_id cs) s s'
    \<and> (case r of
         Inl e \<Rightarrow> ps_profiles s' = ps_profiles s
       | Inr i \<Rightarrow> last_accepted env s' \<and> i = profile_id env p
           \<and> ps_profiles s' = put_profile (p\<lparr>spf_id := Some i\<rparr>) (ps_profiles s))"
proof (cases "getChargingStationVendorImpl (cs_chargePointVendor cs) = None")
  case True
  with assms show ?thesis
    by (auto simp: setAndSaveChargingProfile_def bindS_def readS_def throwS_def)
next
  case False
  let ?cpo = "getChargePointFromID cs (spf_chargePointID p)"
  obtain s1 r1 where m: "setChargingProfile env cs ?cpo p s = (s1, r1)" by (cases "setChargingProfile env cs ?cpo p s")
  with movesD[OF setChargingProfile_frame, of cs s env ?cpo p] have a: "asks (cs_id cs) s s1" by simp
  show ?thesis
  proof (cases "\<exists>out. r1 = Inr out \<and> all_accepted out")
    case True
    then obtain out where out: "r1 = Inr out" "all_accepted out" by blast
    from setChargingProfile_accepted[OF m[unfolded out] out(2) assms(3)] a assms(1,2) False m out setAndSave_cases[OF assms(1)]
    show ?thesis
      by (auto simp: setAndSaveChargingProfile_def saveChargingProfile_def bindS_def readS_def modifyS_def returnS_def asks_def)
  next
    case no: False
    with a assms(1,2) False m show ?thesis
      by (cases r1) (auto simp: setAndSaveChargingProfile_def bindS_def readS_def throwS_def asks_def)
  qed
qed

section \<open>Clearing a site area\<close>

lemma clearAndDelete_cases:
  assumes "clearAndDeleteChargingProfile env p s = (s', r)"
  shows "case r of
      Inl e \<Rightarrow> ps_profiles s' = ps_profiles s
    | Inr _ \<Rightarrow> ps_profiles s' = remove_first (\<lambda>q. spf_id q = spf_id p) (ps_profiles s)"
proof (cases "getChargingStation env (spf_chargingStationID p) s")
  case None
  with assms show ?thesis by (auto simp: clearAndDeleteChargingProfile_def bindS_def readS_def throwS_def)
next
  case (Some cs)
  obtain s1 r1 where m: "clearChargingProfile env cs p s = (s1, r1)" by (cases "clearChargingProfile env cs p s")
  with movesD[OF clearChargingProfile_frame, of cs s env p] have "ps_profiles s1 = ps_profiles s" by (simp add: asks_def)
  with Some m assms show ?thesis
    by (cases r1) (auto simp: clearAndDeleteChargingProfile_def bindS_def readS_def throwS_def deleteChargingProfile_def modifyS_def
        split: if_splits)
qed

definition gone :: "string option \<Rightarrow> profile_state \<Rightarrow> bool" where
  "gone i s = (\<forall>q \<in> set (ps_profiles s). spf_id q \<noteq> i)"

text \<open>Clearing one profile of a list: identifiers stay unique, nothing is added, and what is not counted as an error is gone.\<close>

definition clears :: "site_profile list \<Rightarrow> (actions_response \<Rightarrow> actions_response profile_handler) \<Rightarrow> bool" where
  "clears ps m = (\<forall>s s' r r'. distinct (map spf_id (ps_profiles s)) \<longrightarrow> m r s = (s', Inr r') \<longrightarrow>
     distinct (map spf_id (ps_profiles s')) \<and> set (ps_profiles s') \<subseteq> set (ps_profiles s) \<and> ar_inError r \<le> ar_inError r'
     \<and> (ar_inError r = ar_inError r' \<longrightarrow> (\<forall>p \<in> set ps. gone (spf_id p) s')))"

lemma clears_one: "clears [p] (clear_one env p)"
  unfolding clears_def
proof (intro allI impI, goal_cases)
  case (1 s s' r r')
  obtain s1 r1 where m: "clearAndDeleteChargingProfile env p s = (s1, r1)" by (cases "clearAndDeleteChargingProfile env p s")
  show ?case
  proof (cases r1)
    case (Inl e)
    with clearAndDelete_cases[OF m] 1 m show ?thesis
      by (auto simp: clear_one_def catchS_def bindS_def returnS_def one_error_def)
  next
    case (Inr u)
    with clearAndDelete_cases[OF m] 1(2) m
    have "s' = s1" "r' = one_success r" "ps_profiles s' = remove_first (\<lambda>q. spf_id q = spf_id p) (ps_profiles s)"
      by (simp_all add: clear_one_def catchS_def bindS_def returnS_def)
    with remove_first_set[OF 1(1), of "spf_id p"] show ?thesis by (simp add: one_success_def gone_def subset_iff)
  qed
qed

lemma clears_Cons:
  assumes "clears ps m" and "clears qs n"
  shows "clears (ps @ qs) (\<lambda>r. bindS (m r) n)"
  unfolding clears_def
proof (intro allI impI, goal_cases)
  case (1 s s' r r')
  from 1(2) obtain s1 r1 where m: "m r s = (s1, Inr r1)" and n: "n r1 s1 = (s', Inr r')"
    by (auto simp: bindS_Inr)
  from assms(1) 1(1) m have M: "distinct (map spf_id (ps_profiles s1))" "set (ps_profiles s1) \<subseteq> set (ps_profiles s)"
    "ar_inError r \<le> ar_inError r1" "ar_inError r = ar_inError r1 \<longrightarrow> (\<forall>p \<in> set ps. gone (spf_id p) s1)"
    unfolding clears_def by blast+
  from assms(2) M(1) n have N: "distinct (map spf_id (ps_profiles s'))" "set (ps_profiles s') \<subseteq> set (ps_profiles s1)"
    "ar_inError r1 \<le> ar_inError r'" "ar_inError r1 = ar_inError r' \<longrightarrow> (\<forall>p \<in> set qs. gone (spf_id p) s')"
    unfolding clears_def by blast+
  have "gone i s1 \<Longrightarrow> gone i s'" for i using N(2) by (auto simp: gone_def)
  with M N show ?case by auto
qed

lemma clears_foldS: "clears ps (foldS (clear_one env) ps)"
proof (induction ps)
  case Nil
  show ?case by (simp add: clears_def returnS_def)
next
  case (Cons p ps)
  from clears_Cons[OF clears_one Cons, of p env] show ?case by simp
qed

definition cleared :: "ChargingProfilePurposeType option \<Rightarrow> int option \<Rightarrow> string \<Rightarrow> profile_state \<Rightarrow> bool" where
  "cleared purpose tid csID s = (\<forall>p \<in> set (ps_profiles s).
     \<not> matches (any_profile\<lparr>pq_chargingStationIDs := Some [csID], pq_profilePurposeType := purpose, pq_transactionId := tid\<rparr>) p)"

lemma clear_stations:
  assumes "distinct (map spf_id (ps_profiles s))"
    and "foldS (clear_station env purpose tid) stations r s = (s', Inr r')"
  shows "distinct (map spf_id (ps_profiles s')) \<and> set (ps_profiles s') \<subseteq> set (ps_profiles s) \<and> ar_inError r \<le> ar_inError r'
    \<and> (ar_inError r = ar_inError r' \<longrightarrow> (\<forall>cs \<in> set stations. cleared purpose tid (cs_id cs) s'))"
  using assms
proof (induction stations arbitrary: r s)
  case Nil
  then show ?case by (simp add: returnS_def)
next
  case (Cons cs stations)
  let ?q = "any_profile\<lparr>pq_chargingStationIDs := Some [cs_id cs], pq_profilePurposeType := purpose, pq_transactionId := tid\<rparr>"
  let ?ps = "getChargingProfiles ?q s"
  from Cons.prems(2) obtain s1 r1 where m: "foldS (clear_one env) ?ps r s = (s1, Inr r1)"
    and n: "foldS (clear_station env purpose tid) stations r1 s1 = (s', Inr r')"
    unfolding foldS.simps bindS_Inr clear_station_def[of env purpose tid cs] by (auto simp: readS_def bindS_Inr)
  from clears_foldS[of ?ps env] Cons.prems(1) m have M: "distinct (map spf_id (ps_profiles s1))"
    "set (ps_profiles s1) \<subseteq> set (ps_profiles s)" "ar_inError r \<le> ar_inError r1"
    "ar_inError r = ar_inError r1 \<longrightarrow> (\<forall>p \<in> set ?ps. gone (spf_id p) s1)"
    unfolding clears_def by blast+
  have c: "cleared purpose tid (cs_id cs) s1" if "ar_inError r = ar_inError r1"
    using M(2,4) that by (fastforce simp: cleared_def gone_def)
  from Cons.IH[OF M(1) n] have N: "distinct (map spf_id (ps_profiles s'))" "set (ps_profiles s') \<subseteq> set (ps_profiles s1)"
    "ar_inError r1 \<le> ar_inError r'" "ar_inError r1 = ar_inError r' \<longrightarrow> (\<forall>cs \<in> set stations. cleared purpose tid (cs_id cs) s')"
    by blast+
  have "cleared purpose tid i s1 \<Longrightarrow> cleared purpose tid i s'" for i using N(2) by (auto simp: cleared_def)
  with M N c show ?case by auto
qed

text \<open>C19: clearing the profiles of a site area leaves none behind unless it says so: when it reports no error, no profile of
  the asked purpose is left for any of the stations, nothing has been added, and identifiers are still unique.\<close>

theorem no_plan_left_behind:
  assumes "clearAndDeleteChargingProfilesForSiteArea env stations (Some purpose) None s = (s', Inr r)"
    and "ar_inError r = 0" and "distinct (map spf_id (ps_profiles s))"
  shows "(\<forall>cs \<in> set stations. \<forall>p \<in> set (ps_profiles s'). \<not> (spf_chargingStationID p = cs_id cs \<and> prf_purpose p = purpose))
    \<and> set (ps_profiles s') \<subseteq> set (ps_profiles s) \<and> distinct (map spf_id (ps_profiles s'))"
  using clear_stations[OF assms(3) assms(1)[unfolded clearAndDeleteChargingProfilesForSiteArea_def]] assms(2)
  by (auto simp: no_actions_def cleared_def matches_def any_profile_def)

end
