(* ===== verification/Fuse_Laws.thy ===== *)
theory Fuse_Laws
  imports Smart_Fuses
begin

text \<open>
  The fuse tree: the root fuse stays within the power of the site area, the stations that are left are those that can be
  steered (unless they share the power of a charge point), and the efficiency of a direct-current charge point is
  taken into account once as a percentage and once as a factor.
\<close>

section \<open>Rated amperages\<close>

text \<open>No amperage of the station is negative.\<close>

definition rated :: "charging_station \<Rightarrow> bool" where
  "rated cs = (list_all (\<lambda>p. 0 \<le> cp_amperage p) (charge_points_of cs)
     \<and> list_all (\<lambda>c. 0 \<le> or_else (con_amperage c) 0) (connectors_of cs))"

lemma result_of_simps [simp]: "result_of (Inl v) = v" "result_of (Inr v) = v"
  by (simp_all add: result_of_def)

lemma cp_total_nonneg:
  assumes "list_all (\<lambda>p. 0 \<le> cpv p) ps" and "list_all (\<lambda>c. 0 \<le> or_else (conv c) 0) (connectors_of cs)" and "0 \<le> tot"
  shows "0 \<le> result_of (cp_total cs cpo cid cpv conv tot ps)"
  using assms
proof (induction ps arbitrary: tot)
  case (Cons p ps)
  have "0 \<le> or_num (Option.bind (getConnectorFromID cs cid) conv) (cpv p)"
  proof (cases "Option.bind (getConnectorFromID cs cid) conv")
    case (Some v)
    then obtain c where "c \<in> set (connectors_of cs)" "conv c = Some v"
      by (auto simp: Option.bind_eq_Some_conv dest: getConnectorFromID_Some)
    with Cons.prems Some show ?thesis by (auto simp: list_all_iff)
  qed (use Cons.prems in simp)
  moreover have "0 \<le> cpv p / of_nat (length (cp_connectorIDs p))" using Cons.prems(1) by simp
  moreover have "0 \<le> result_of (cp_total cs cpo cid cpv conv tot ps)" "0 \<le> result_of (cp_total cs cpo cid cpv conv (tot + cpv p) ps)"
    using Cons.IH[of tot] Cons.IH[of "tot + cpv p"] Cons.prems by simp_all
  ultimately show ?case by auto
qed simp

lemma con_total_nonneg:
  assumes "list_all (\<lambda>c. 0 \<le> or_else (conv c) 0) cons" and "0 \<le> tot"
  shows "0 \<le> result_of (con_total cid conv tot cons)"
  using assms
proof (induction cons arbitrary: tot)
  case (Cons c cons)
  have "0 \<le> or_num (conv c) 0" using Cons.prems(1) by (cases "conv c") auto
  with Cons.IH[of tot] Cons.IH[of "tot + or_num (conv c) 0"] Cons.prems show ?case by (auto simp: Let_def)
qed simp

lemma amperage_nonneg:
  assumes "rated cs" shows "0 \<le> getChargingStationAmperage cs cpo cid"
proof -
  from assms have a: "list_all (\<lambda>p. 0 \<le> cp_amperage p) (charge_points_of cs)"
    "list_all (\<lambda>c. 0 \<le> or_else (con_amperage c) 0) (connectors_of cs)" by (auto simp: rated_def)
  have c: "0 \<le> result_of (cp_total cs cpo cid cp_amperage con_amperage 0 (charge_points_of cs))"
    by (rule cp_total_nonneg[OF a]) simp
  show ?thesis
  proof (cases "cp_total cs cpo cid cp_amperage con_amperage 0 (charge_points_of cs)")
    case (Inl v)
    with c show ?thesis by (simp add: getChargingStationAmperage_def station_total_def)
  next
    case (Inr v)
    with c con_total_nonneg[OF a(2), of v cid] show ?thesis by (auto simp: getChargingStationAmperage_def station_total_def)
  qed
qed

lemma rated_sub:
  assumes "rated cs" and "set cons \<subseteq> set (connectors_of cs)"
  shows "rated (cs\<lparr>cs_connectors := Some cons\<rparr>)"
  using assms by (auto simp: rated_def list_all_iff charge_points_of_def connectors_of_def)

section \<open>Reservations\<close>

definition below :: "'x fuse_node_scheme \<Rightarrow> 'y fuse_node_scheme \<Rightarrow> bool" where
  "below f g = (fn_fusePhase1 f \<le> fn_fusePhase1 g \<and> fn_fusePhase2 f \<le> fn_fusePhase2 g \<and> fn_fusePhase3 f \<le> fn_fusePhase3 g)"

lemma below_refl [simp]: "below f f"
  by (simp add: below_def)

lemma below_trans: "below f g \<Longrightarrow> below g h \<Longrightarrow> below f h"
  by (auto simp: below_def)

lemma takes_simps [simp]:
  "fn_fusePhase1 (takes x y z f) = fn_fusePhase1 f - x" "fn_fusePhase2 (takes x y z f) = fn_fusePhase2 f - y"
  "fn_fusePhase3 (takes x y z f) = fn_fusePhase3 f - z" "fn_id (takes x y z f) = fn_id f"
  by (simp_all add: takes_def)

lemma efficiency_pos: "efficiency_of cpo = Some e \<Longrightarrow> 0 < e"
  by (auto simp: efficiency_of_def split: option.splits if_splits)

lemma reserve_below:
  assumes "rated cs" shows "below (reserve a cs c cpo f) f"
proof -
  let ?amps = "getChargingStationAmperage cs cpo (con_connectorId c)"
  have n: "0 \<le> ?amps" by (rule amperage_nonneg[OF assms])
  have "0 < or_else (efficiency_of cpo) DC_CHARGING_STATION_DEFAULT_EFFICIENCY_PERCENT"
    by (cases "efficiency_of cpo") (auto simp: DC_CHARGING_STATION_DEFAULT_EFFICIENCY_PERCENT_def dest: efficiency_pos)
  with n have "0 \<le> ?amps / 3 * 100 / or_else (efficiency_of cpo) DC_CHARGING_STATION_DEFAULT_EFFICIENCY_PERCENT"
    by (intro divide_nonneg_pos mult_nonneg_nonneg) simp_all
  with n show ?thesis
    by (auto simp: reserve_def Let_def grid_share_def below_def split: option.splits OCPPPhase.splits)
qed

lemma reserve_single: "sm_numberOfPhases a = 1 \<Longrightarrow> fn_fusePhase2 (reserve a cs c cpo f) = fn_fusePhase2 f
    \<and> fn_fusePhase3 (reserve a cs c cpo f) = fn_fusePhase3 f"
  by (simp add: reserve_def Let_def)

text \<open>One step of the loop over the connectors: the connector stays or is reserved.\<close>

lemma reserve_step:
  assumes "now = cs\<lparr>cs_connectors := Some (rev before @ c # kept)\<rparr>"
  obtains kept' dn' f' where
    "reserve_connectors a ex cs (c # before) kept dn f = reserve_connectors a ex cs before kept' dn' f'"
    "kept' = kept \<or> kept' = c # kept" "f' = f \<or> f' = reserve a now c (charge_point_of now c) f"
proof (cases "not_steered ex now (charge_point_of now c)
    \<and> (case charge_point_of now c of None \<Rightarrow> True | Some p \<Rightarrow> cp_chargePointID p \<notin> set dn)")
  case True
  show ?thesis
    by (rule that[of kept _ "reserve a now c (charge_point_of now c) f"])
      (subst reserve_connectors.simps(2), simp only: Let_def assms[symmetric] if_P[OF True], simp_all)
next
  case False
  show ?thesis
    by (rule that[of "c # kept" dn f])
      (subst reserve_connectors.simps(2), simp only: Let_def assms[symmetric] if_not_P[OF False], simp_all)
qed

lemma reserve_connectors_below:
  assumes "rated cs" and "set before \<union> set kept \<subseteq> set (connectors_of cs)"
    and "reserve_connectors a ex cs before kept dn f = (l, g)"
  shows "below g f \<and> set l \<subseteq> set before \<union> set kept
    \<and> (sm_numberOfPhases a = 1 \<longrightarrow> fn_fusePhase2 g = fn_fusePhase2 f \<and> fn_fusePhase3 g = fn_fusePhase3 f)"
  using assms(2,3)
proof (induction before arbitrary: kept dn f)
  case (Cons c before)
  let ?now = "cs\<lparr>cs_connectors := Some (rev before @ c # kept)\<rparr>"
  let ?cpo = "charge_point_of ?now c"
  obtain kept' dn' f' where s: "reserve_connectors a ex cs (c # before) kept dn f = reserve_connectors a ex cs before kept' dn' f'"
    and k: "kept' = kept \<or> kept' = c # kept" and f: "f' = f \<or> f' = reserve a ?now c ?cpo f"
    by (rule reserve_step[OF refl])
  have "rated ?now" using Cons.prems assms(1) by (intro rated_sub) auto
  from f reserve_below[OF this] have "below f' f" by auto
  moreover have "sm_numberOfPhases a = 1 \<longrightarrow> fn_fusePhase2 f' = fn_fusePhase2 f \<and> fn_fusePhase3 f' = fn_fusePhase3 f"
    using f reserve_single by metis
  moreover have "set before \<union> set kept' \<subseteq> set (connectors_of cs)" using k Cons.prems(1) by auto
  from Cons.IH[OF this Cons.prems(2)[unfolded s]] have "below g f'" "set l \<subseteq> set before \<union> set kept'"
    "sm_numberOfPhases a = 1 \<longrightarrow> fn_fusePhase2 g = fn_fusePhase2 f' \<and> fn_fusePhase3 g = fn_fusePhase3 f'" by blast+
  ultimately show ?case using k by (auto intro: below_trans)
qed simp

lemma reserve_stations_below:
  assumes "reserve_stations a ex before kept f = Inr (left, f')" and "list_all rated before"
  shows "below f' f \<and> (sm_numberOfPhases a = 1 \<longrightarrow> fn_fusePhase2 f' = fn_fusePhase2 f \<and> fn_fusePhase3 f' = fn_fusePhase3 f)"
  using assms
proof (induction before arbitrary: kept f)
  case (Cons cs before)
  from Cons.prems(1) obtain cons where c: "cs_connectors cs = Some cons" by (auto split: option.splits)
  obtain l g where lg: "reserve_connectors a ex cs (rev cons) [] [] f = (l, g)" by (cases "reserve_connectors a ex cs (rev cons) [] [] f")
  have "below g f \<and> (sm_numberOfPhases a = 1 \<longrightarrow> fn_fusePhase2 g = fn_fusePhase2 f \<and> fn_fusePhase3 g = fn_fusePhase3 f)"
    using reserve_connectors_below[of cs "rev cons" "[]" a ex "[]" f l g] Cons.prems(2) c lg by (simp add: connectors_of_def)
  with Cons.IH[of "if l = [] then kept else cs\<lparr>cs_connectors := Some l\<rparr> # kept" g] Cons.prems c lg show ?case
    by (auto intro: below_trans)
qed simp

text \<open>C4: the root fuse given to the optimizer stays within the power of the site area: no phase is negative or above the site's
  share, a site on one phase has nothing on the others, and all phases together carry at most what the assets leave
  of the maximum power.\<close>

theorem root_fuse_within_site:
  assumes "checkIfSiteAreaIsValid a (Some stations) = Inr ()" and "list_all rated stations"
    and "buildRootFuse a fuseID excluded watts stations = Inr (left, f)"
  shows "0 \<le> fn_fusePhase1 f \<and> 0 \<le> fn_fusePhase2 f \<and> 0 \<le> fn_fusePhase3 f
    \<and> fn_fusePhase1 f \<le> max 0 (site_amps_per_phase a watts)
    \<and> fn_fusePhase2 f \<le> max 0 (site_amps_per_phase a watts) \<and> fn_fusePhase3 f \<le> max 0 (site_amps_per_phase a watts)
    \<and> (sm_numberOfPhases a = 1 \<longrightarrow> fn_fusePhase2 f = 0 \<and> fn_fusePhase3 f = 0)
    \<and> (fn_fusePhase1 f + fn_fusePhase2 f + fn_fusePhase3 f) * voltage_value (sa_voltage a)
        \<le> max 0 (or_else (sa_maximumPower a) 0 - watts)"
proof -
  let ?x = "site_amps_per_phase a watts" and ?v = "voltage_value (sa_voltage a)"
  let ?w = "or_else (sa_maximumPower a) 0 - watts"
  from assms(3) obtain g where g: "reserve_stations a excluded (rev stations) [] (site_fuse a fuseID watts) = Inr (left, g)"
    and f: "f = at_least_zero g"
    by (auto simp: buildRootFuse_def bindE_eq_Inr)
  from reserve_stations_below[OF g] assms(2) have b: "below g (site_fuse a fuseID watts)"
    and one: "sm_numberOfPhases a = 1 \<Longrightarrow> fn_fusePhase2 g = 0 \<and> fn_fusePhase3 g = 0"
    by (auto simp: site_fuse_def Let_def)
  from assms(1) have n: "sm_numberOfPhases a = 1 \<or> sm_numberOfPhases a = 3"
    by (simp add: checkIfSiteAreaIsValid_def split: if_splits)
  have v: "0 < ?v" by simp
  have x: "?x * of_int (sm_numberOfPhases a) * ?v = ?w"
    using n v by (auto simp: site_amps_per_phase_def)
  have m: "max 0 ?x * of_int (sm_numberOfPhases a) * ?v = max 0 ?w"
    using max_mult_distrib_right[of 0 ?x "of_int (sm_numberOfPhases a) * ?v"] n less_imp_le[OF v] x by (auto simp: mult.assoc)
  have p: "fn_fusePhase1 f \<le> max 0 ?x" "fn_fusePhase2 f \<le> (if sm_numberOfPhases a = 1 then 0 else max 0 ?x)"
    "fn_fusePhase3 f \<le> (if sm_numberOfPhases a = 1 then 0 else max 0 ?x)"
    using b one n unfolding f by (auto simp: at_least_zero_def below_def site_fuse_def Let_def)
  then have "fn_fusePhase1 f + fn_fusePhase2 f + fn_fusePhase3 f \<le> max 0 ?x * of_int (sm_numberOfPhases a)"
    using n by auto
  from mult_right_mono[OF this, of ?v] v m
  have "(fn_fusePhase1 f + fn_fusePhase2 f + fn_fusePhase3 f) * ?v \<le> max 0 ?w" by simp
  with p one n show ?thesis by (auto simp: f at_least_zero_def max_def split: if_splits)
qed

section \<open>What is left to steer\<close>

definition shares_power :: "charge_point \<Rightarrow> bool" where
  "shares_power p = (cp_sharePowerToAllConnectors p \<or> cp_cannotChargeInParallel p)"

lemma charge_point_of_now [simp]: "charge_point_of (cs\<lparr>cs_connectors := x\<rparr>) c = charge_point_of cs c"
  by (simp add: charge_point_of_def getChargePointFromID_def[abs_def])

lemma not_steered_now [simp]: "not_steered ex (cs\<lparr>cs_connectors := x\<rparr>) cpo = not_steered ex cs cpo"
  by (simp add: not_steered_def)

lemma charge_point_of_in: "charge_point_of cs c = Some p \<Longrightarrow> p \<in> set (charge_points_of cs)"
  by (auto simp: charge_point_of_def getChargePointFromID_def charge_points_of_def Option.bind_eq_Some_conv find_Some_iff
      split: if_splits option.splits)

lemma reserve_connectors_unshared:
  assumes "list_all (\<lambda>p. \<not> shares_power p) (charge_points_of cs)"
  shows "fst (reserve_connectors a ex cs before kept [] f) = rev (filter (\<lambda>c. \<not> not_steered ex cs (charge_point_of cs c)) before) @ kept"
proof (induction before arbitrary: kept f)
  case (Cons c before)
  have "\<not> shares_power p" if "charge_point_of cs c = Some p" for p
    using charge_point_of_in[OF that] assms by (auto simp: list_all_iff)
  with Cons show ?case by (auto simp: Let_def shares_power_def split: option.splits)
qed simp

definition steered_part :: "string list \<Rightarrow> charging_station \<Rightarrow> charging_station" where
  "steered_part ex cs = cs\<lparr>cs_connectors := map_option (filter (\<lambda>c. \<not> not_steered ex cs (charge_point_of cs c))) (cs_connectors cs)\<rparr>"

lemma reserve_stations_unshared:
  assumes "reserve_stations a ex before kept f = Inr (left, f')"
    and "list_all (\<lambda>cs. list_all (\<lambda>p. \<not> shares_power p) (charge_points_of cs)) before"
  shows "left = rev (filter (\<lambda>cs. connectors_of cs \<noteq> []) (map (steered_part ex) before)) @ kept"
  using assms
proof (induction before arbitrary: kept f)
  case (Cons cs before)
  from Cons.prems(1) obtain cons where c: "cs_connectors cs = Some cons" by (auto split: option.splits)
  obtain l g where lg: "reserve_connectors a ex cs (rev cons) [] [] f = (l, g)" by (cases "reserve_connectors a ex cs (rev cons) [] [] f")
  have l: "l = filter (\<lambda>c. \<not> not_steered ex cs (charge_point_of cs c)) cons"
    using reserve_connectors_unshared[of cs a ex "rev cons" "[]" f] Cons.prems(2) lg by (simp add: rev_filter)
  let ?kept = "if l = [] then kept else cs\<lparr>cs_connectors := Some l\<rparr> # kept"
  from Cons.prems(1) c lg have r: "reserve_stations a ex before ?kept g = Inr (left, f')" by simp
  have "?kept = rev (filter (\<lambda>cs. connectors_of cs \<noteq> []) [steered_part ex cs]) @ kept"
    by (simp add: l steered_part_def connectors_of_def c)
  with Cons.IH[OF r] Cons.prems(2) show ?case by simp
qed simp

text \<open>Where no charge point shares its power, exactly the connectors that can be steered are left to the optimizer: those of
  stations that support charging profiles and are not excluded, on charge points that may be limited; in their
  order, and without the stations that have none.\<close>

theorem only_steered_left:
  assumes "buildRootFuse a fuseID excluded watts stations = Inr (left, f)"
    and "list_all (\<lambda>cs. list_all (\<lambda>p. \<not> shares_power p) (charge_points_of cs)) stations"
  shows "left = filter (\<lambda>cs. connectors_of cs \<noteq> []) (map (steered_part excluded) stations)
    \<and> (\<forall>cs \<in> set left. cs_id cs \<notin> set excluded \<and> \<not> cs_excludeFromSmartCharging cs \<and> cs_supportChargingProfiles cs)"
proof -
  from assms(1) obtain g where "reserve_stations a excluded (rev stations) [] (site_fuse a fuseID watts) = Inr (left, g)"
    by (auto simp: buildRootFuse_def bindE_eq_Inr)
  from reserve_stations_unshared[OF this] assms(2)
  have l: "left = filter (\<lambda>cs. connectors_of cs \<noteq> []) (map (steered_part excluded) stations)"
    by (simp add: rev_map rev_filter)
  have "cs_id cs \<notin> set excluded \<and> \<not> cs_excludeFromSmartCharging cs \<and> cs_supportChargingProfiles cs" if "cs \<in> set left" for cs
  proof -
    from that l obtain cs0 where cs: "cs = steered_part excluded cs0" and ne: "connectors_of cs \<noteq> []" by auto
    then obtain c where "\<not> not_steered excluded cs0 (charge_point_of cs0 c)"
      by (cases "cs_connectors cs0") (auto simp: steered_part_def connectors_of_def filter_empty_conv)
    then show ?thesis by (simp add: cs steered_part_def not_steered_def)
  qed
  with l show ?thesis by blast
qed

text \<open>A charge point that shares its power escapes its exclusion: when all connectors that charge are on one such charge
  point of an excluded station, only the last of them is taken out, and the others are planned for.\<close>

theorem shared_point_escapes_exclusion:
  assumes "not_steered excluded cs (Some p)" and "shares_power p"
    and "list_all (\<lambda>c. charge_point_of cs c = Some p) cons"
  shows "fst (reserve_connectors a excluded cs (rev cons) [] [] f) = butlast cons"
proof -
  have skip: "fst (reserve_connectors a excluded cs before kept [cp_chargePointID p] g) = rev before @ kept"
    if "list_all (\<lambda>c. charge_point_of cs c = Some p) before" for before kept g
    using that by (induction before arbitrary: kept) (simp_all add: Let_def)
  show ?thesis
  proof (cases cons rule: rev_cases)
    case (snoc cons' c)
    with assms skip[of "rev cons'" "[]"] show ?thesis
      by (simp add: Let_def shares_power_def)
  qed simp
qed

section \<open>Direct current\<close>

text \<open>A direct-current connector on three phases weighs the same on the grid whether it is reserved at the root or planned
  under it, as long as its charge point has an efficiency. With the default efficiency its fuse is a hundred times too
  small.\<close>

theorem default_efficiency_unscaled:
  assumes "sm_numberOfPhases a \<noteq> 1" and "getNumberOfConnectedPhases cs None 0 \<noteq> 1"
    and "is_DC cs (con_connectorId c)" and "charge_point_of cs c = Some p" and "\<not> shares_power p"
    and "getNumberOfConnectedPhases cs (Some p) (con_connectorId c) = 3"
    and "buildChargingStationConnectorFuse i cs c = Inr f"
  shows "fn_fusePhase1 (reserve a cs c (Some p) g) =
    fn_fusePhase1 g - (if efficiency_of (Some p) = None then 100 else 1) * fn_fusePhase1 f"
proof -
  let ?amps = "getChargingStationAmperage cs (Some p) (con_connectorId c)"
  from assms(4) have i: "truthy_num (con_chargePointID c)" "Option.bind (con_chargePointID c) (getChargePointFromID cs) = Some p"
    by (auto simp: charge_point_of_def split: if_splits)
  from assms(4-7) i have "?amps \<noteq> 0"
    by (auto simp: buildChargingStationConnectorFuse_def getConnectorNbrOfPhasesAndAmps_def shared_amps_def shares_power_def Let_def
        split: if_splits)
  with assms i show ?thesis
    by (auto simp: buildChargingStationConnectorFuse_def getConnectorNbrOfPhasesAndAmps_def shared_amps_def shares_power_def Let_def
        reserve_def DC_CHARGING_STATION_DEFAULT_EFFICIENCY_PERCENT_def split: if_splits option.splits)
qed

end
