(* ===== verification/Smart_Laws.thy ===== *)
theory Smart_Laws
  imports Smart_Optimizer Profile_Laws Fuse_Laws "HOL-Library.Multiset"
begin

text \<open>
  A run of the smart charging: the shape of the plans it builds, which of them it does not push again, and the account it
  gives of the others.
\<close>

section \<open>Rounding\<close>

lemma decimal_round_mono: "x \<le> y \<Longrightarrow> decimal_round x \<le> decimal_round y"
proof -
  assume xy: "x \<le> y"
  consider "y < 0" | "x < 0" "0 \<le> y" | "0 \<le> x" "0 \<le> y" by linarith
  then show ?thesis
  proof cases
    case 1
    with xy have "\<lfloor>1 / 2 - y\<rfloor> \<le> \<lfloor>1 / 2 - x\<rfloor>" by (intro floor_mono) simp
    with 1 xy show ?thesis by (simp add: decimal_round_def)
  next
    case 2
    have "- rat_of_int \<lfloor>1 / 2 - x\<rfloor> \<le> rat_of_int \<lfloor>y + 1 / 2\<rfloor>"
      by (rule order_trans[of _ 0]) (use 2 in simp_all)
    with 2 show ?thesis by (simp only: decimal_round_def if_True if_False not_less[symmetric]) simp
  next
    case 3
    with xy have "\<lfloor>x + 1 / 2\<rfloor> \<le> \<lfloor>y + 1 / 2\<rfloor>" by (intro floor_mono) simp
    with 3 show ?thesis by (simp add: decimal_round_def)
  qed
qed

lemma roundTo_mono: "x \<le> y \<Longrightarrow> roundTo x n \<le> roundTo y n"
  unfolding roundTo_def by (intro divide_right_mono decimal_round_mono mult_right_mono) simp_all

text \<open>A plan that stays within the fuse of its connector never sets a limit above the amperage of the connector, with or without
  an efficiency of the charge point: what the fuse divides by, the limit multiplies by.\<close>

theorem plan_within_connector:
  assumes "buildChargingStationConnectorFuse i cs c = Inr f" and "getConnectorNbrOfPhasesAndAmps cs c = Inr (n, amps)"
    and "0 < n" and "x \<le> fn_fusePhase1 f"
  shows "calculateCarConsumption cs c n x \<le> roundTo amps 3"
proof -
  let ?cpo = "Option.bind (con_chargePointID c) (getChargePointFromID cs)"
  have n: "(0::rat) < of_int n" using assms(3) by simp
  show ?thesis
  proof (cases "is_DC cs (con_connectorId c)")
    case False
    with assms(1,2,4) have "x \<le> amps / of_int n" by (auto simp: buildChargingStationConnectorFuse_def Let_def)
    with n have "x * of_int n \<le> amps" by (simp add: pos_le_divide_eq)
    with False show ?thesis by (auto simp: calculateCarConsumption_def intro: roundTo_mono)
  next
    case dc: True
    show ?thesis
    proof (cases "efficiency_of ?cpo")
      case None
      with dc assms(1,2,4) have "x \<le> amps / of_int n / DC_CHARGING_STATION_DEFAULT_EFFICIENCY_PERCENT"
        by (auto simp: buildChargingStationConnectorFuse_def Let_def)
      with n have "x * DC_CHARGING_STATION_DEFAULT_EFFICIENCY_PERCENT * of_int n \<le> amps"
        by (simp add: pos_le_divide_eq DC_CHARGING_STATION_DEFAULT_EFFICIENCY_PERCENT_def mult.commute mult.left_commute)
      with None dc show ?thesis by (auto simp: calculateCarConsumption_def intro: roundTo_mono)
    next
      case (Some e)
      from efficiency_pos[OF this] have e: "0 < e" .
      from Some dc assms(1,2,4) have "x \<le> amps / of_int n / (e / 100)"
        by (auto simp: buildChargingStationConnectorFuse_def Let_def)
      with n e have "x * e / 100 * of_int n \<le> amps" by (simp add: field_simps)
      with Some dc show ?thesis by (auto simp: calculateCarConsumption_def intro: roundTo_mono)
    qed
  qed
qed

section \<open>The schedule of a plan\<close>

text \<open>How many slots of the plan are taken.\<close>

fun slots :: "int \<Rightarrow> nat \<Rightarrow> rat list \<Rightarrow> nat" where
  "slots maxn k [] = 0"
| "slots maxn k (x # xs) = (if int k < maxn \<and> (x > 0 \<or> k < 3) then Suc (slots maxn (Suc k) xs) else 0)"

lemma plan_periods_slots:
  "plan_periods limit maxn k xs =
     map (\<lambda>i. \<lparr> sp_startPeriod = int (k + i) * 15 * 60, sp_limit = limit (xs ! i) \<rparr>) [0..<slots maxn k xs]"
proof (induction xs arbitrary: k)
  case (Cons x xs)
  show ?case
    by (simp add: Cons upt_conv_Cons map_Suc_upt[symmetric] del: upt_Suc)
qed simp

lemma slots_bounds:
  "slots maxn k xs \<le> length xs" "int (slots maxn k xs) \<le> max 0 (maxn - int k)"
  "i < slots maxn k xs \<Longrightarrow> 3 \<le> k + i \<Longrightarrow> 0 < xs ! i"
  "slots maxn k xs < length xs \<Longrightarrow> int (k + slots maxn k xs) < maxn \<Longrightarrow> 3 \<le> k + slots maxn k xs \<and> xs ! slots maxn k xs \<le> 0"
proof (induction xs arbitrary: k i)
  case (Cons x xs)
  { case 1 show ?case using Cons.IH(1)[of "Suc k"] by simp
  next
    case 2 show ?case using Cons.IH(2)[of "Suc k"] by (auto simp: max_def split: if_splits)
  next
    case 3 then show ?case using Cons.IH(3)[of _ "Suc k"] by (cases i) (auto split: if_splits)
  next
    case 4 then show ?case using Cons.IH(4)[of "Suc k"] by (auto split: if_splits)
  }
qed simp_all

lemma profile_of_car_cases:
  assumes "profile_of_car env start s pc = Inr p"
  obtains cs c cp cid plan where "getChargingStation env (spf_chargingStationID p) s = Some cs"
    and "getConnectorFromID cs cid = Some c" and "charge_point_of cs c = Some cp"
    and "plan_of pc (max_periods (getOcppParameterValue env (spf_chargingStationID p) ''ChargingScheduleMaxPeriods'')) = Inr plan"
    and "p = smart_profile (spf_chargingStationID p) cid (cp_chargePointID cp) (con_currentTransactionID c) start
       (plan_periods (calculateCarConsumption cs c (getNumberOfConnectedPhases cs (Some cp) (con_connectorId c)))
         (max_periods (getOcppParameterValue env (spf_chargingStationID p) ''ChargingScheduleMaxPeriods'')) 0 plan)"
proof -
  let ?i = "hd (split_on (CHR ''~'') (pc_name pc))"
  let ?maxn = "max_periods (getOcppParameterValue env ?i ''ChargingScheduleMaxPeriods'')"
  from assms obtain cs where g: "getChargingStation env ?i s = Some cs"
    by (cases "getChargingStation env ?i s") (simp_all add: profile_of_car_def Let_def)
  from assms g obtain cid c where c: "getConnectorFromID cs cid = Some c"
    and w: "(case split_on (CHR ''~'') (pc_name pc) of _ # w # _ \<Rightarrow> convertToInt_str w | _ \<Rightarrow> Some 0) = Some cid"
    by (simp add: profile_of_car_def Let_def split: option.splits) (auto simp: Option.bind_eq_Some_conv)
  from assms have "bindE (plan_of pc ?maxn) (\<lambda>plan. case charge_point_of cs c of
        None \<Rightarrow> Inl TypeError
      | Some cp \<Rightarrow> Inr (smart_profile ?i (or_else (Some cid) 0) (cp_chargePointID cp) (con_currentTransactionID c) start
          (plan_periods (calculateCarConsumption cs c (getNumberOfConnectedPhases cs (Some cp) (con_connectorId c))) ?maxn 0 plan))) = Inr p"
    by (simp only: profile_of_car_def Let_def g w option.case Option.bind.simps c)
  then obtain plan where pl: "plan_of pc ?maxn = Inr plan"
    and r: "(case charge_point_of cs c of
        None \<Rightarrow> Inl TypeError
      | Some cp \<Rightarrow> Inr (smart_profile ?i (or_else (Some cid) 0) (cp_chargePointID cp) (con_currentTransactionID c) start
          (plan_periods (calculateCarConsumption cs c (getNumberOfConnectedPhases cs (Some cp) (con_connectorId c))) ?maxn 0 plan))) = Inr p"
    by (rule bindE_InrE)
  from r obtain cp where cp: "charge_point_of cs c = Some cp"
    and p: "p = smart_profile ?i cid (cp_chargePointID cp) (con_currentTransactionID c) start
          (plan_periods (calculateCarConsumption cs c (getNumberOfConnectedPhases cs (Some cp) (con_connectorId c))) ?maxn 0 plan)"
    by (cases "charge_point_of cs c") simp_all
  have i: "spf_chargingStationID p = ?i" by (simp add: p smart_profile_def)
  show thesis by (rule that[of cs cid c cp plan]) (simp_all only: i g c cp pl p[symmetric])
qed

text \<open>C28: the profile built for a car has one period of a quarter of an hour for each slot of the plan that it takes, in the order
  of the plan and without gaps, with the limit that the slot comes to on the car's connector for the phases it is connected
  with. It takes the slots of the plan up to the station's maximum of periods, and before that stops only at a slot after the
  third that is not positive; its duration is that of its periods.\<close>

theorem plan_schedule:
  assumes "profile_of_car env start s pc = Inr p" and "pc_currentPlan pc = Some plan"
  shows "\<exists>cs c cp. getChargingStation env (spf_chargingStationID p) s = Some cs
    \<and> getConnectorFromID cs (prf_connectorID p) = Some c \<and> c \<in> set (connectors_of cs) \<and> charge_point_of cs c = Some cp
    \<and> spf_transactionId p = con_currentTransactionID c
    \<and> (let periods = sch_periods (prf_schedule p); k = length periods; n = getNumberOfConnectedPhases cs (Some cp) (con_connectorId c);
           maxn = max_periods (getOcppParameterValue env (spf_chargingStationID p) ''ChargingScheduleMaxPeriods'')
       in periods = map (\<lambda>i. \<lparr> sp_startPeriod = 900 * int i, sp_limit = calculateCarConsumption cs c n (plan ! i) \<rparr>) [0..<k]
        \<and> sch_duration (prf_schedule p) = Some (900 * int k)
        \<and> k \<le> length plan \<and> int k \<le> max 0 maxn \<and> (\<forall>i < k. 3 \<le> i \<longrightarrow> 0 < plan ! i)
        \<and> (k < length plan \<and> int k < maxn \<longrightarrow> 3 \<le> k \<and> plan ! k \<le> 0))"
proof -
  let ?maxn = "max_periods (getOcppParameterValue env (spf_chargingStationID p) ''ChargingScheduleMaxPeriods'')"
  obtain cs c cp cid plan' where g: "getChargingStation env (spf_chargingStationID p) s = Some cs"
    and c: "getConnectorFromID cs cid = Some c" and cp: "charge_point_of cs c = Some cp" and pl: "plan_of pc ?maxn = Inr plan'"
    and p: "p = smart_profile (spf_chargingStationID p) cid (cp_chargePointID cp) (con_currentTransactionID c) start
       (plan_periods (calculateCarConsumption cs c (getNumberOfConnectedPhases cs (Some cp) (con_connectorId c))) ?maxn 0 plan')"
    by (rule profile_of_car_cases[OF assms(1)])
  from pl assms(2) have [simp]: "plan' = plan" by (simp add: plan_of_def)
  define n where "n = getNumberOfConnectedPhases cs (Some cp) (con_connectorId c)"
  let ?k = "slots ?maxn 0 plan"
  from arg_cong[OF p, of spf_transactionId] have t: "spf_transactionId p = con_currentTransactionID c"
    by (simp add: smart_profile_def)
  from arg_cong[OF p, of "\<lambda>p. sch_periods (prf_schedule p)"] have ps: "sch_periods (prf_schedule p) =
      map (\<lambda>i. \<lparr> sp_startPeriod = 900 * int i, sp_limit = calculateCarConsumption cs c n (plan ! i) \<rparr>) [0..<?k]"
    by (simp add: smart_profile_def n_def plan_periods_slots mult.commute)
  from arg_cong[OF p, of "\<lambda>p. sch_duration (prf_schedule p)"] have d: "sch_duration (prf_schedule p) = Some (900 * int ?k)"
    by (simp add: smart_profile_def plan_periods_slots)
  from arg_cong[OF p, of prf_connectorID] have "prf_connectorID p = cid" by (simp add: smart_profile_def)
  with c cp getConnectorFromID_Some(2)[OF c] g t ps d slots_bounds[where maxn = ?maxn and k = 0 and xs = plan] show ?thesis
    unfolding Let_def n_def[symmetric] by (intro exI[of _ cs] exI[of _ c] exI[of _ cp]) (simp add: n_def)
qed

section \<open>Plans that are in force already\<close>

lemma remove_applied_filter:
  assumes "distinct (map spf_transactionId ps)"
  shows "remove_applied q ps = filter (\<lambda>p. \<not> same_plan p q) ps"
  using assms
proof (induction ps)
  case (Cons p ps)
  show ?case
  proof (cases "spf_transactionId p = spf_transactionId q")
    case True
    moreover from Cons.prems have "spf_transactionId p \<notin> spf_transactionId ` set ps" by simp
    ultimately have "spf_transactionId x \<noteq> spf_transactionId q" if "x \<in> set ps" for x
      using that by (metis imageI)
    then have "filter (\<lambda>p. \<not> same_plan p q) ps = ps"
      by (auto simp: filter_id_conv same_plan_def)
    with True show ?thesis by (simp add: remove_applied_def)
  next
    case False
    with Cons show ?thesis by (auto simp: remove_applied_def same_plan_def split: option.splits)
  qed
qed (simp add: remove_applied_def)

text \<open>A plan that is in force already is not pushed again, and every other one is: of the profiles built for different
  transactions, those remain whose profile is not among the current ones.\<close>

theorem unchanged_plan_not_pushed:
  assumes "distinct (map spf_transactionId ps)"
  shows "checkIfChargingProfileAlreadyApplied ps current = filter (\<lambda>p. \<not> (\<exists>q \<in> set current. same_plan p q)) ps"
  using assms unfolding checkIfChargingProfileAlreadyApplied_def
proof (induction current arbitrary: ps)
  case (Cons q current)
  from Cons.prems have "distinct (map spf_transactionId (filter (\<lambda>p. \<not> same_plan p q) ps))" by (rule distinct_map_filter)
  from Cons.IH[OF this] Cons.prems show ?case
    by (simp add: remove_applied_filter conj_commute)
qed simp

section \<open>The account of a run\<close>

definition plan_stored :: "'e profile_env_scheme \<Rightarrow> site_profile \<Rightarrow> smart_state \<Rightarrow> bool" where
  "plan_stored env p s = (p\<lparr>spf_id := Some (profile_id env p)\<rparr> \<in> set (ps_profiles (ss_profiles s)))"

lemma plan_stored_put: "p\<lparr>spf_id := Some i\<rparr> \<in> set (put_profile (p\<lparr>spf_id := Some i\<rparr>) ps)"
  by (auto simp: put_profile_def image_iff)

lemma put_keeps: "q \<in> set ps \<Longrightarrow> spf_id q \<noteq> spf_id p \<Longrightarrow> q \<in> set (put_profile p ps)"
  by (force simp: put_profile_def)

text \<open>What trying to push one profile does to the rest of the state.\<close>

definition carries :: "smart_env \<Rightarrow> site_profile \<Rightarrow> smart_state \<Rightarrow> smart_state \<Rightarrow> bool" where
  "carries env p s s' = (set (ss_excluded s) \<subseteq> set (ss_excluded s')
     \<and> (\<forall>q. profile_id env q \<noteq> profile_id env p \<longrightarrow> plan_stored env q s \<longrightarrow> plan_stored env q s'))"

lemma carries_refl [simp]: "carries env p s s"
  by (simp add: carries_def)

lemma carries_trans: "carries env p s s' \<Longrightarrow> carries env p s' s'' \<Longrightarrow> carries env p s s''"
  by (auto simp: carries_def)

lemma carries_exclude: "carries env p s (s\<lparr>ss_excluded := ss_excluded s @ xs\<rparr>)"
  by (auto simp: carries_def plan_stored_def)

lemma push_once:
  assumes "on_profiles (setAndSaveChargingProfile env p) s = (s', r)"
  shows "carries env p s s' \<and> (\<forall>i. r = Inr i \<longrightarrow> plan_stored env p s')"
proof -
  obtain q where q: "setAndSaveChargingProfile env p (ss_profiles s) = (q, r)" "s' = s\<lparr>ss_profiles := q\<rparr>"
    using assms by (auto simp: on_profiles_def split: prod.splits)
  from setAndSave_cases[OF q(1)] q(2) show ?thesis
    by (cases r) (auto simp: carries_def plan_stored_def plan_stored_put intro: put_keeps)
qed

lemma try_again_result:
  assumes "try_again env p n s = (s', Inr ok)"
  shows "carries env p s s' \<and> (if ok then plan_stored env p s' else spf_chargingStationID p \<in> set (ss_excluded s'))"
  using assms
proof (induction n arbitrary: s)
  case 0
  then show ?case
    by (auto simp: bindS_Inr readS_def modifyS_def returnS_def throwS_def carries_exclude find_station split: option.splits)
next
  case (Suc n)
  obtain s1 r1 where m: "on_profiles (setAndSaveChargingProfile env p) s = (s1, r1)"
    by (cases "on_profiles (setAndSaveChargingProfile env p) s")
  from push_once[OF m] Suc.prems m Suc.IH[of s1] show ?case
    by (cases r1) (auto simp: catchS_def bindS_def returnS_def intro: carries_trans)
qed

lemma apply_profile_result:
  assumes "apply_profile env p r s = (s', Inr r')"
  shows "carries env p s s' \<and> (r' = one_success r \<and> plan_stored env p s'
    \<or> r' = one_error r \<and> spf_chargingStationID p \<in> set (ss_excluded s'))"
proof -
  obtain s1 r1 where m: "on_profiles (setAndSaveChargingProfile env p) s = (s1, r1)"
    by (cases "on_profiles (setAndSaveChargingProfile env p) s")
  show ?thesis
  proof (cases r1)
    case (Inr i)
    with push_once[OF m] assms m show ?thesis by (auto simp: apply_profile_def catchS_def bindS_def returnS_def)
  next
    case (Inl e)
    with assms m obtain ok where "try_again env p 2 s1 = (s', Inr ok)" "r' = (if ok then one_success r else one_error r)"
      by (auto simp: apply_profile_def catchS_def bindS_def returnS_def handleRefusedChargingProfile_def
          split: prod.splits sum.splits)
    with try_again_result[of env p 2 s1 s' ok] push_once[OF m] show ?thesis
      by (auto intro: carries_trans split: if_splits)
  qed
qed

lemma apply_profiles_result:
  assumes "foldS (apply_profile env) ps r s = (s', Inr r')" and "distinct (map (profile_id env) ps)"
  shows "\<exists>pushed refused. mset ps = mset pushed + mset refused
    \<and> ar_inSuccess r' = ar_inSuccess r + length pushed \<and> ar_inError r' = ar_inError r + length refused
    \<and> (\<forall>p \<in> set pushed. plan_stored env p s') \<and> (\<forall>p \<in> set refused. spf_chargingStationID p \<in> set (ss_excluded s'))
    \<and> set (ss_excluded s) \<subseteq> set (ss_excluded s')
    \<and> (\<forall>q. profile_id env q \<notin> profile_id env ` set ps \<longrightarrow> plan_stored env q s \<longrightarrow> plan_stored env q s')"
  using assms
proof (induction ps arbitrary: r s)
  case (Cons p ps)
  from Cons.prems(1) obtain s1 r1 where a: "apply_profile env p r s = (s1, Inr r1)"
    and n: "foldS (apply_profile env) ps r1 s1 = (s', Inr r')" by (auto simp: bindS_Inr)
  from Cons.IH[OF n] Cons.prems(2) obtain pushed refused where IH: "mset ps = mset pushed + mset refused"
    "ar_inSuccess r' = ar_inSuccess r1 + length pushed" "ar_inError r' = ar_inError r1 + length refused"
    "\<forall>p \<in> set pushed. plan_stored env p s'" "\<forall>p \<in> set refused. spf_chargingStationID p \<in> set (ss_excluded s')"
    "set (ss_excluded s1) \<subseteq> set (ss_excluded s')"
    "\<And>q. profile_id env q \<notin> profile_id env ` set ps \<Longrightarrow> plan_stored env q s1 \<Longrightarrow> plan_stored env q s'"
    by auto
  have fresh: "profile_id env p \<notin> profile_id env ` set ps" using Cons.prems(2) by simp
  from apply_profile_result[OF a] have c: "carries env p s s1"
    and "r1 = one_success r \<and> plan_stored env p s1 \<or> r1 = one_error r \<and> spf_chargingStationID p \<in> set (ss_excluded s1)" by blast+
  then show ?case
  proof (elim disjE conjE)
    assume "r1 = one_success r" "plan_stored env p s1"
    with IH fresh c show ?thesis
      by (intro exI[of _ "p # pushed"] exI[of _ refused]) (auto simp: one_success_def carries_def)
  next
    assume "r1 = one_error r" "spf_chargingStationID p \<in> set (ss_excluded s1)"
    with IH fresh c show ?thesis
      by (intro exI[of _ pushed] exI[of _ "p # refused"]) (auto simp: one_error_def carries_def)
  qed
qed (auto simp: returnS_def)

lemma sort_by_limit_mset: "sort_by_limit ps = Inr qs \<Longrightarrow> mset qs = mset ps \<and> sorted (map first_limit qs)"
  by (auto simp: sort_by_limit_def split: if_splits)

text \<open>C10: when the plans that a run has built have distinct identifiers, it accounts for every one of them: each is counted as a
  success and stored, or counted as an error and its station put on the list of excluded stations.\<close>

theorem run_accounts:
  assumes "apply_once env a s = (s', Inr (Some r))"
    and "\<And>s1 ps. buildChargingProfiles env a s = (s1, Inr (Some ps)) \<Longrightarrow> distinct (map (profile_id env) ps)"
  shows "\<exists>s1 ps pushed refused. buildChargingProfiles env a s = (s1, Inr (Some ps))
    \<and> mset ps = mset pushed + mset refused
    \<and> ar_inSuccess r = length pushed \<and> ar_inError r = length refused
    \<and> (\<forall>p \<in> set pushed. plan_stored env p s') \<and> (\<forall>p \<in> set refused. spf_chargingStationID p \<in> set (ss_excluded s'))"
proof -
  from assms(1) obtain s1 ps qs where b: "buildChargingProfiles env a s = (s1, Inr (Some ps))"
    and q: "sort_by_limit ps = Inr qs" and f: "foldS (apply_profile env) qs no_actions s1 = (s', Inr r)"
    by (auto simp: apply_once_def bindS_Inr liftS_def returnS_def split: option.splits)
  from sort_by_limit_mset[OF q] have m: "mset qs = mset ps" by blast
  from assms(2)[OF b] m have "distinct (map (profile_id env) qs)"
    by (metis mset_map distinct_count_atmost_1 mset_eq_imp_distinct_iff)
  from apply_profiles_result[OF f this] m b show ?thesis
    by (auto simp: no_actions_def)
qed

end
