(* ===== verification/Smart_Tree.thy ===== *)
theory Smart_Tree
  imports Smart_Optimizer Fuse_Laws
begin

text \<open>
  The request to the optimizer as a tree: its identifiers, the cars at its leaves, and the sums of its fuses.
\<close>

section \<open>Loops\<close>

lemma foldS_invariant:
  assumes "foldS f xs b s = (s', Inr b')" and "P b"
    and "\<And>x b s s' b'. x \<in> set xs \<Longrightarrow> P b \<Longrightarrow> f x b s = (s', Inr b') \<Longrightarrow> P b'"
  shows "P b'"
  using assms
proof (induction xs arbitrary: b s)
  case (Cons x xs)
  from Cons.prems(1) obtain s1 b1 where "f x b s = (s1, Inr b1)" "foldS f xs b1 s1 = (s', Inr b')"
    by (auto simp: bindS_Inr)
  with Cons.IH[of b1 s1] Cons.prems(2,3) show ?case by (metis list.set_intros)
qed (simp add: returnS_def)

section \<open>Identifiers and sums\<close>

lemma buildCar_sel: "oc_id (buildCar st now i cs t found current) = i" "oc_name (buildCar st now i cs t found current) = car_name t"
proof -
  have s: "oc_id (set_car_current x y c) = oc_id c" "oc_name (set_car_current x y c) = oc_name c" for x y c
    by (simp_all add: set_car_current_def)
  have c: "oc_id (custom_car cs t found c) = oc_id c" "oc_name (custom_car cs t found c) = oc_name c" for c
    by (simp_all add: custom_car_def Let_def s)
  have o: "oc_id (overrideCarWithRuntimeData st now cs t current c) = oc_id c"
    "oc_name (overrideCarWithRuntimeData st now cs t current c) = oc_name c" for c
    by (simp_all add: overrideCarWithRuntimeData_def Let_def s split: option.split)
  show "oc_id (buildCar st now i cs t found current) = i" "oc_name (buildCar st now i cs t found current) = car_name t"
    by (simp_all add: buildCar_def Let_def s c o buildSafeCar_def)
qed

definition children_sum :: "(fuse_node \<Rightarrow> rat) \<Rightarrow> fuse_node list \<Rightarrow> rat" where
  "children_sum ph fs = sum_list (map ph fs)"

text \<open>The fuse of a station carries what its connectors carry, phase by phase.\<close>

definition balanced :: "station_fuse \<Rightarrow> bool" where
  "balanced f = (sfu_children f \<noteq> []
     \<and> fn_fusePhase1 f = children_sum fn_fusePhase1 (sfu_children f)
     \<and> fn_fusePhase2 f = children_sum fn_fusePhase2 (sfu_children f)
     \<and> fn_fusePhase3 f = children_sum fn_fusePhase3 (sfu_children f))"

definition leaf_ids :: "station_fuse list \<Rightarrow> int list" where
  "leaf_ids fs = concat (map (\<lambda>f. map fn_id (sfu_children f)) fs)"

definition tree_ids :: "station_fuse list \<Rightarrow> int list" where
  "tree_ids fs = concat (map (\<lambda>f. map fn_id (sfu_children f) @ [fn_id f]) fs)"

lemma ids_simps [simp]:
  "leaf_ids [] = []" "leaf_ids (fs @ [f]) = leaf_ids fs @ map fn_id (sfu_children f)"
  "tree_ids [] = []" "tree_ids (fs @ [f]) = tree_ids fs @ map fn_id (sfu_children f) @ [fn_id f]"
  by (simp_all add: leaf_ids_def tree_ids_def)

definition ascending_below :: "int \<Rightarrow> int list \<Rightarrow> bool" where
  "ascending_below n is = (sorted_wrt (<) is \<and> list_all (\<lambda>i. 0 \<le> i \<and> i < n) is)"

lemma ascending_next: "ascending_below n is \<Longrightarrow> 0 \<le> n \<Longrightarrow> ascending_below (n + 1) (is @ [n])"
  by (auto simp: ascending_below_def sorted_wrt_append list_all_iff)

lemma ascending_weaken: "ascending_below n is \<Longrightarrow> ascending_below (n + 1) is"
  by (auto simp: ascending_below_def list_all_iff)

definition parts_ok :: "'x request_parts_scheme \<Rightarrow> fuse_node list \<Rightarrow> bool" where
  "parts_ok r open_fuses =
     (0 \<le> rp_fuseID r \<and> ascending_below (rp_fuseID r) (tree_ids (rp_stationFuses r) @ map fn_id open_fuses)
      \<and> list_all balanced (rp_stationFuses r)
      \<and> map oc_id (rp_cars r) = leaf_ids (rp_stationFuses r) @ map fn_id open_fuses
      \<and> rp_assignments r = map (\<lambda>c. (oc_id c, oc_id c)) (rp_cars r))"

definition station_ok :: "station_parts \<Rightarrow> bool" where
  "station_ok r = (parts_ok r (stp_connectorFuses r)
     \<and> stp_sum1 r = children_sum fn_fusePhase1 (stp_connectorFuses r)
     \<and> stp_sum2 r = children_sum fn_fusePhase2 (stp_connectorFuses r)
     \<and> stp_sum3 r = children_sum fn_fusePhase3 (stp_connectorFuses r))"

lemma connector_fuse_id: "buildChargingStationConnectorFuse i cs c = Inr f \<Longrightarrow> fn_id f = i"
  by (auto simp: buildChargingStationConnectorFuse_def bindE_eq_Inr Let_def)

lemma add_connector_ok:
  assumes "station_ok r" and "add_connector env cs current c r s = (s', Inr r')"
  shows "station_ok r'"
proof -
  from assms(2) consider "r' = r\<lparr>rp_inError := True\<rparr>"
    | f now and t :: car_transaction where "buildChargingStationConnectorFuse (rp_fuseID r) cs c = Inr f"
      and "r' = r\<lparr>stp_connectorFuses := stp_connectorFuses r @ [f],
           stp_sum1 := stp_sum1 r + fn_fusePhase1 f, stp_sum2 := stp_sum2 r + fn_fusePhase2 f,
           stp_sum3 := stp_sum3 r + fn_fusePhase3 f,
           rp_cars := rp_cars r @ [buildCar (se_setting env) now (rp_fuseID r) cs t
             (Option.bind (tx_carID t) (se_car env)) current],
           rp_assignments := rp_assignments r @ [(rp_fuseID r, rp_fuseID r)],
           rp_fuseID := rp_fuseID r + 1\<rparr>"
    by (auto simp: add_connector_def bindS_Inr readS_def modifyS_def returnS_def liftS_def split: option.splits)
  then show ?thesis
  proof cases
    case 1
    with assms(1) show ?thesis by (simp add: station_ok_def parts_ok_def)
  next
    case 2
    from assms(1) have ok: "parts_ok r (stp_connectorFuses r)" by (simp add: station_ok_def)
    from ok have "ascending_below (rp_fuseID r + 1)
        ((tree_ids (rp_stationFuses r) @ map fn_id (stp_connectorFuses r)) @ [rp_fuseID r])"
      by (intro ascending_next) (simp_all add: parts_ok_def)
    with 2 assms(1) show ?thesis
      by (simp add: station_ok_def parts_ok_def connector_fuse_id[OF 2(1)] buildCar_sel children_sum_def)
  qed
qed

lemma add_station_ok:
  assumes "parts_ok r []" and "add_station env current cs r s = (s', Inr r')"
  shows "parts_ok r' []"
proof -
  from assms(2) obtain s1 r1 where f: "foldS (add_connector env cs current) (connectors_of cs) (open_station r) s = (s1, Inr r1)"
    and r': "r' = close_station r1" by (auto simp: add_station_def bindS_Inr returnS_def)
  have "station_ok (open_station r)"
    using assms(1) by (simp add: open_station_def station_ok_def parts_ok_def request_parts.defs children_sum_def)
  from foldS_invariant[OF f, of station_ok] this add_connector_ok have ok: "station_ok r1" by blast
  let ?f = "buildChargingStationFuse (rp_fuseID r1) (stp_sum1 r1) (stp_sum2 r1) (stp_sum3 r1) (stp_connectorFuses r1)"
  show ?thesis
  proof (cases "stp_connectorFuses r1 = []")
    case True
    with ok show ?thesis
      by (auto simp: r' close_station_def Let_def buildChargingStationFuse_def station_ok_def parts_ok_def request_parts.defs
          intro: ascending_weaken)
  next
    case False
    from ok have "ascending_below (rp_fuseID r1 + 1)
        ((tree_ids (rp_stationFuses r1) @ map fn_id (stp_connectorFuses r1)) @ [rp_fuseID r1])"
      by (intro ascending_next) (simp_all add: station_ok_def parts_ok_def)
    with ok False show ?thesis
      by (simp add: r' close_station_def Let_def buildChargingStationFuse_def station_ok_def parts_ok_def request_parts.defs balanced_def)
  qed
qed

lemma request_attempt_ok:
  assumes "request_attempt env a stations current s = (s', Inr (left, rootFuse, r))"
  shows "parts_ok r []" and "fn_id rootFuse = 0"
proof -
  from assms obtain s1 excluded watts where b: "buildRootFuse a 0 excluded watts stations = Inr (left, rootFuse)"
    and f: "foldS (add_station env current) left no_parts s1 = (s', Inr r)"
    by (auto simp: request_attempt_def bindS_Inr liftS_def readS_def returnS_def split: prod.splits)
  have "parts_ok no_parts []" by (simp add: no_parts_def parts_ok_def ascending_below_def)
  from foldS_invariant[OF f, of "\<lambda>r. parts_ok r []"] this add_station_ok show "parts_ok r []" by blast
  have i: "fn_id (snd (reserve_connectors a ex cs before kept dn f)) = fn_id f" for ex cs before kept dn and f :: "'z fuse_node_scheme"
  proof (induction before arbitrary: kept dn f)
    case (Cons c before)
    have r: "fn_id (reserve a cs' c cpo g) = fn_id g" for cs' cpo and g :: "'z fuse_node_scheme"
      by (simp add: reserve_def grid_share_def Let_def split: option.split OCPPPhase.split)
    show ?case by (simp add: Let_def Cons r)
  qed simp
  have "fn_id g = fn_id f" if "reserve_stations a ex before kept f = Inr (l, g)" for ex before kept l and f g :: root_fuse
    using that
  proof (induction before arbitrary: kept f)
    case (Cons cs before)
    from Cons.prems obtain cons l1 g1 where "reserve_connectors a ex cs (rev cons) [] [] f = (l1, g1)"
      "reserve_stations a ex before (if l1 = [] then kept else cs\<lparr>cs_connectors := Some l1\<rparr> # kept) g1 = Inr (l, g)"
      by (auto split: option.splits prod.splits)
    with Cons.IH i[of ex cs "rev cons" "[]" "[]" f] show ?case by (metis snd_conv)
  qed simp
  with b show "fn_id rootFuse = 0"
    by (auto simp: buildRootFuse_def bindE_eq_Inr at_least_zero_def site_fuse_def Let_def)
qed

text \<open>C9: every request to the optimizer is a well-formed tree: the fuse of each station carries, phase by phase, what the fuses of
  its connectors carry; each car is assigned to the connector with its own identifier, and the cars are those of the
  connectors, in order; below the root no identifier occurs twice. The root itself is numbered 0.\<close>

theorem request_is_a_tree:
  assumes "buildOptimizerRequest env a stations current s = (s', Inr rq)"
  shows "let fs = rfu_children (or_rootFuse rq) in
    list_all balanced fs \<and> map oc_id (or_cars rq) = leaf_ids fs
    \<and> or_carAssignments rq = map (\<lambda>c. (oc_id c, oc_id c)) (or_cars rq)
    \<and> sorted_wrt (<) (tree_ids fs) \<and> list_all (\<lambda>i. 0 \<le> i) (tree_ids fs) \<and> fn_id (or_rootFuse rq) = 0"
proof -
  from assms obtain s0 s1 stations' left rootFuse r where at: "request_attempt env a stations' current s0 = (s1, Inr (left, rootFuse, r))"
    and rq: "rq = request_of env rootFuse r s1"
    by (auto simp: buildOptimizerRequest_def bindS_Inr readS_def split: if_splits prod.splits)
  from request_attempt_ok[OF at] show ?thesis
    by (auto simp: rq request_of_def Let_def parts_ok_def ascending_below_def list_all_iff)
qed

end
