(* ===== verification/Smart_Cases.thy ===== *)
theory Smart_Cases
  imports Smart_Laws Smart_Tree Setting_Cases
begin

text \<open>
  A small site area with three stations: one that does not support charging profiles, one whose connector has lost its
  transaction, and one that can be steered. The properties of charging profiles and of the smart charging on it.
\<close>

section \<open>A site area\<close>

definition demo_area :: smart_area where
  "demo_area = \<lparr> sa_id = ''A'', sa_maximumPower = Some 22080, sa_voltage = VOLTAGE_230, sa_smartCharging = True,
     sa_accessControl = True, sm_name = ''Garage'', sm_numberOfPhases = 3 \<rparr>"

definition demo_point :: "rat \<Rightarrow> charge_point" where
  "demo_point amps = sample_point\<lparr>cp_amperage := amps, cp_connectorIDs := [1]\<rparr>"

definition demo_connector :: "int option \<Rightarrow> connector" where
  "demo_connector t = (sample_connector 1)\<lparr>con_status := CHARGING, con_currentTransactionID := t, con_chargePointID := Some 1\<rparr>"

definition demo_station :: "string \<Rightarrow> bool \<Rightarrow> rat \<Rightarrow> int option \<Rightarrow> charging_station" where
  "demo_station i supported amps t = sample_station\<lparr>cs_id := i, cs_siteAreaID := Some ''A'', cs_chargePointVendor := ''Schneider Electric'',
     cs_supportChargingProfiles := supported, cs_chargePoints := Some [demo_point amps],
     cs_connectors := Some [demo_connector t]\<rparr>"

definition demo_stations :: "charging_station list" where
  "demo_stations = [demo_station ''B'' True 24 None, demo_station ''C'' True 96 (Some 7), demo_station ''U'' False 48 (Some 8)]"

definition demo_transaction :: "int \<Rightarrow> car_transaction" where
  "demo_transaction i = \<lparr> tx_id = i, tx_chargeBoxID = ''C'', tx_connectorId = 1, tx_companyID = None, tx_siteID = None,
     tx_siteAreaID = Some ''A'', tx_issuer = True, tx_tagID = None, tx_userID = None, tx_user = None, tx_authorizationID = None,
     tx_signedData = [], tx_meterStart = 0, tx_timestamp = 0, tx_timezone = None, tx_price = None, tx_roundedPrice = None,
     tx_priceUnit = None, tx_pricingSource = None, tx_pricingModel = None, tx_stateOfCharge = 0, tx_phasesUsed = None,
     tx_run = blank_runtime, tx_remotestop = None, tx_stop = None, tx_billingData = None, tx_carID = None \<rparr>"

text \<open>The station answers a request by what was sent before: \<open>refuse n\<close> refuses the first \<open>n\<close> requests.\<close>

definition demo_env :: "charging_station list \<Rightarrow> nat \<Rightarrow> smart_env" where
  "demo_env stations n = \<lparr> pe_stations = (\<lambda>_. stations), pe_connected = (\<lambda>_ _. True),
     pe_set = (\<lambda>sent _. Answer (if length sent < n then OCPPChargingProfileStatus.REJECTED else OCPPChargingProfileStatus.ACCEPTED)),
     pe_clear = (\<lambda>_ _. Answer OCPPClearChargingProfileStatus.UNKNOWN), pe_hash = (\<lambda>x. CHR ''#'' # x),
     se_vault = tenant_env,
     se_setting = \<lparr> sap_optimizerUrl = ''https://opt.org/'', sap_user = ''u'', sap_password = sealed False ''pw'',
       sap_stickyLimitation = True, sap_limitBufferDC = 20, sap_limitBufferAC = 10 \<rparr>,
     se_assetActive = False, se_now = (\<lambda>_. 1000000), se_zone = 0,
     se_transaction = (\<lambda>_ i. Some (demo_transaction i)), se_car = (\<lambda>_. None), se_configuration = (\<lambda>_. None),
     se_optimizer = (\<lambda>_ _ rq. Inr (Some (map (\<lambda>c. \<lparr> pc_name = oc_name c, pc_currentPlan = Some [16, 10, 8, 8, 0, 6] \<rparr>) (or_cars rq)))) \<rparr>"

definition demo_state :: smart_state where
  "demo_state = \<lparr> ss_profiles = \<lparr> ps_sent = [], ps_profiles = [] \<rparr>, ss_assets = [], ss_excluded = [], ss_vault = start kept_secrets \<rparr>"

section \<open>The stations evaluated\<close>

lemma demo_point_simps [simp]:
  "cp_chargePointID (demo_point amps) = 1" "cp_currentType (demo_point amps) = Some AC" "cp_amperage (demo_point amps) = amps"
  "cp_numberOfConnectedPhase (demo_point amps) = 3" "cp_cannotChargeInParallel (demo_point amps) = False"
  "cp_sharePowerToAllConnectors (demo_point amps) = False" "cp_excludeFromPowerLimitation (demo_point amps) = False"
  "cp_efficiency (demo_point amps) = None" "cp_connectorIDs (demo_point amps) = [1]"
  by (simp_all add: demo_point_def sample_point_def)

lemma demo_connector_simps [simp]:
  "con_connectorId (demo_connector t) = 1" "con_status (demo_connector t) = CHARGING"
  "con_currentTransactionID (demo_connector t) = t" "con_chargePointID (demo_connector t) = Some 1"
  "con_numberOfConnectedPhase (demo_connector t) = Some 3" "con_currentType (demo_connector t) = Some AC"
  "con_amperage (demo_connector t) = Some 96" "con_voltage (demo_connector t) = Some VOLTAGE_230"
  by (simp_all add: demo_connector_def sample_connector_def)

lemma demo_station_simps [simp]:
  "cs_id (demo_station i b amps t) = i" "cs_connectors (demo_station i b amps t) = Some [demo_connector t]"
  "cs_chargePoints (demo_station i b amps t) = Some [demo_point amps]" "cs_supportChargingProfiles (demo_station i b amps t) = b"
  "cs_excludeFromSmartCharging (demo_station i b amps t) = False" "cs_deleted (demo_station i b amps t) = False"
  "cs_inactive (demo_station i b amps t) = False" "cs_siteAreaID (demo_station i b amps t) = Some ''A''"
  "cs_voltage (demo_station i b amps t) = None" "cs_powerLimitUnit (demo_station i b amps t) = RATE_AMPERE"
  "cs_chargePointVendor (demo_station i b amps t) = ''Schneider Electric''"
  by (simp_all add: demo_station_def sample_station_def)

lemma demo_station_same [simp]: "demo_station i b amps t\<lparr>cs_connectors := Some [demo_connector t]\<rparr> = demo_station i b amps t"
  by (simp add: demo_station_def)

lemma demo_lookups [simp]:
  "getChargePointFromID (demo_station i b amps t) 1 = Some (demo_point amps)"
  "getConnectorFromID (demo_station i b amps t) 1 = Some (demo_connector t)"
  "charge_point_of (demo_station i b amps t) (demo_connector t) = Some (demo_point amps)"
  "connectors_of (demo_station i b amps t) = [demo_connector t]"
  "charge_points_of (demo_station i b amps t) = [demo_point amps]"
  by (simp_all add: getChargePointFromID_def getConnectorFromID_def charge_point_of_def connectors_of_def charge_points_of_def)

lemma demo_amperage [simp]:
  "amps \<noteq> 0 \<Longrightarrow> getChargingStationAmperage (demo_station i b amps t) (Some (demo_point amps)) 1 = amps"
  "amps \<noteq> 0 \<Longrightarrow> getChargingStationAmperage (demo_station i b amps t) None 1 = amps"
  by (simp_all add: getChargingStationAmperage_def station_total_def cp_selected_def)

lemma demo_phases [simp]:
  "getNumberOfConnectedPhases (demo_station i b amps t) (Some (demo_point amps)) 1 = 3"
  "getNumberOfConnectedPhases (demo_station i b amps t) None 1 = 3"
  "getNumberOfConnectedPhases (demo_station i b amps t) None 0 = 3"
  by (simp_all add: getNumberOfConnectedPhases_def station_lookup_def cp_selected_def nonzero_def)

lemma demo_current [simp]:
  "getChargingStationCurrentType (demo_station i b amps t) None 1 = Some AC" "is_DC (demo_station i b amps t) 1 = False"
  by (simp_all add: is_DC_def getChargingStationCurrentType_def station_lookup_def cp_selected_def)

lemma demo_voltage [simp]: "getChargingStationVoltage (demo_station i b amps t) None 0 = VOLTAGE_230"
  by (simp add: getChargingStationVoltage_def station_lookup_def cp_selected_def demo_point_def sample_point_def)

lemma demo_area_simps [simp]:
  "sa_id demo_area = ''A''" "sa_maximumPower demo_area = Some 22080" "sa_voltage demo_area = VOLTAGE_230" "sm_numberOfPhases demo_area = 3"
  by (simp_all add: demo_area_def)

section \<open>The fuses\<close>

definition amps_left :: "rat \<Rightarrow> root_fuse" where
  "amps_left x = (site_fuse demo_area 0 0)\<lparr>fn_fusePhase1 := x, fn_fusePhase2 := x, fn_fusePhase3 := x\<rparr>"

abbreviation "unsteered \<equiv> demo_station ''U'' False 48 (Some 8)"
abbreviation "gone_by \<equiv> demo_station ''B'' True 24 None"
abbreviation "steady \<equiv> demo_station ''C'' True 96 (Some 7)"

lemma demo_valid [simp]: "checkIfSiteAreaIsValid demo_area (Some cs) = Inr ()"
  by (simp add: checkIfSiteAreaIsValid_def)

lemma demo_not_steered [simp]:
  "not_steered ex (demo_station i b amps t) (Some (demo_point x)) = (\<not> b \<or> i \<in> set ex)"
  by (simp add: not_steered_def)

lemma demo_reserve_amps [simp]:
  "amps \<noteq> 0 \<Longrightarrow> reserve demo_area (demo_station i b amps t) (demo_connector t) (Some (demo_point amps)) (amps_left x) = amps_left (x - amps / 3)"
  by (simp add: reserve_def Let_def takes_def amps_left_def)

lemma demo_root [simp]: "site_fuse demo_area 0 0 = amps_left 32" "at_least_zero (amps_left x) = amps_left (max 0 x)"
  by (simp_all add: amps_left_def site_fuse_def Let_def site_amps_per_phase_def at_least_zero_def)

lemma demo_fuse: "buildRootFuse demo_area 0 [] 0 demo_stations = Inr ([gone_by, steady], amps_left 16)"
  by (simp add: buildRootFuse_def demo_stations_def Let_def)

lemma demo_fuse_retry: "buildRootFuse demo_area 0 [''B''] 0 [gone_by, steady] = Inr ([steady], amps_left 24)"
  "buildRootFuse demo_area 0 [''B''] 0 demo_stations = Inr ([steady], amps_left 8)"
  by (simp_all add: buildRootFuse_def demo_stations_def Let_def)

lemma demo_rated: "list_all rated demo_stations"
  by (simp add: demo_stations_def rated_def)

theorem root_fuse_within_site_witness:
  "fn_fusePhase1 (amps_left 16) \<le> 32
    \<and> (fn_fusePhase1 (amps_left 16) + fn_fusePhase2 (amps_left 16) + fn_fusePhase3 (amps_left 16)) * 230 \<le> 22080"
  using root_fuse_within_site[OF demo_valid demo_rated demo_fuse] by (simp add: site_amps_per_phase_def)

theorem only_steered_left_witness:
  "[gone_by, steady] = filter (\<lambda>cs. connectors_of cs \<noteq> []) (map (steered_part []) demo_stations)"
  using only_steered_left[OF demo_fuse] by (simp add: demo_stations_def shares_power_def)

lemma demo_connector_fuse [simp]:
  "amps \<noteq> 0 \<Longrightarrow> buildChargingStationConnectorFuse n (demo_station i b amps t) (demo_connector t) =
     Inr \<lparr> fn_id = n, fn_fusePhase1 = amps / 3, fn_fusePhase2 = amps / 3, fn_fusePhase3 = amps / 3, fn_phase1Connected = True,
       fn_phase2Connected = True, fn_phase3Connected = True \<rparr>"
  by (simp add: buildChargingStationConnectorFuse_def getConnectorNbrOfPhasesAndAmps_def shared_amps_def Let_def)

section \<open>The request\<close>

lemma smart_env_simps [simp]:
  "pe_stations (demo_env st n) = (\<lambda>_. st)" "pe_connected (demo_env st n) = (\<lambda>_ _. True)"
  "pe_set (demo_env st n) = (\<lambda>sent _. Answer (if length sent < n then OCPPChargingProfileStatus.REJECTED else OCPPChargingProfileStatus.ACCEPTED))"
  "pe_hash (demo_env st n) = (\<lambda>x. CHR ''#'' # x)" "pe_clear (demo_env st n) = (\<lambda>_ _. Answer OCPPClearChargingProfileStatus.UNKNOWN)"
  "se_assetActive (demo_env st n) = False" "se_now (demo_env st n) = (\<lambda>_. 1000000)" "se_zone (demo_env st n) = 0"
  "se_transaction (demo_env st n) = (\<lambda>_ i. Some (demo_transaction i))" "se_car (demo_env st n) = (\<lambda>_. None)"
  "se_configuration (demo_env st n) = (\<lambda>_. None)" "se_vault (demo_env st n) = tenant_env"
  "se_optimizer (demo_env st n) = (\<lambda>_ _ rq. Inr (Some (map (\<lambda>c. \<lparr> pc_name = oc_name c, pc_currentPlan = Some [16, 10, 8, 8, 0, 6] \<rparr>) (or_cars rq))))"
  by (simp_all add: demo_env_def)

lemma demo_transaction_simps [simp]:
  "tx_id (demo_transaction i) = i" "tx_chargeBoxID (demo_transaction i) = ''C''" "tx_connectorId (demo_transaction i) = 1"
  "tx_carID (demo_transaction i) = None"
  by (simp_all add: demo_transaction_def)

definition demo_car :: "int \<Rightarrow> optimizer_car" where
  "demo_car k = buildCar (se_setting (demo_env [] 0)) 1000000 k steady (demo_transaction 7) None []"

lemma demo_car_eq: "buildCar (se_setting (demo_env st n)) 1000000 k steady (demo_transaction 7) None [] = demo_car k"
  by (simp add: demo_car_def demo_env_def)

definition demo_fuses :: "int \<Rightarrow> station_fuse" where
  "demo_fuses k = \<lparr> fn_id = k + 1, fn_fusePhase1 = 32, fn_fusePhase2 = 32, fn_fusePhase3 = 32, fn_phase1Connected = True,
     fn_phase2Connected = True, fn_phase3Connected = True,
     sfu_children = [\<lparr> fn_id = k, fn_fusePhase1 = 32, fn_fusePhase2 = 32, fn_fusePhase3 = 32, fn_phase1Connected = True,
       fn_phase2Connected = True, fn_phase3Connected = True \<rparr>] \<rparr>"

definition demo_parts :: "int \<Rightarrow> bool \<Rightarrow> request_parts" where
  "demo_parts k e = \<lparr> rp_fuseID = k + 2, rp_inError = e, rp_cars = [demo_car k],
     rp_assignments = [(k, k)], rp_stationFuses = [demo_fuses k] \<rparr>"

lemma steady_added:
  "add_station (demo_env st n) [] steady (no_parts\<lparr>rp_fuseID := k, rp_inError := e\<rparr>) s = (s, Inr (demo_parts k e))"
  by (simp add: add_station_def add_connector_def getTransactionFromChargingConnector_def handler_simps now_in_def demo_car_eq
      open_station_def no_parts_def request_parts.defs close_station_def Let_def buildChargingStationFuse_def demo_fuses_def demo_parts_def)

lemma no_parts_same: "no_parts\<lparr>rp_fuseID := 0, rp_inError := False\<rparr> = no_parts"
  by (simp add: no_parts_def)

lemma lost_transaction:
  "add_station (demo_env st n) [] gone_by no_parts s = (s\<lparr>ss_excluded := ss_excluded s @ [''B'']\<rparr>, Inr (no_parts\<lparr>rp_fuseID := 1, rp_inError := True\<rparr>))"
  by (simp add: add_station_def add_connector_def getTransactionFromChargingConnector_def handler_simps
      open_station_def no_parts_def request_parts.defs close_station_def Let_def buildChargingStationFuse_def)

lemma demo_assets: "asset_consumption (demo_env st n) a s = (s, Inr 0)"
  by (simp add: asset_consumption_def getAssetConsumptionInWatts_def)

lemma first_attempt:
  "request_attempt (demo_env st n) demo_area demo_stations [] demo_state =
     (demo_state\<lparr>ss_excluded := [''B'']\<rparr>, Inr ([gone_by, steady], amps_left 16, demo_parts 1 True))"
  using lost_transaction[of st n demo_state] steady_added[where k = 1 and e = True and s = "demo_state\<lparr>ss_excluded := [''B'']\<rparr>" and st = st and n = n]
  by (simp add: request_attempt_def handler_simps demo_assets demo_state_def demo_fuse)

lemma second_attempt:
  "request_attempt (demo_env st n) demo_area [gone_by, steady] [] (demo_state\<lparr>ss_excluded := [''B'']\<rparr>) =
     (demo_state\<lparr>ss_excluded := [''B'']\<rparr>, Inr ([steady], amps_left 24, demo_parts 0 False))"
  using steady_added[where k = 0 and e = False and s = "demo_state\<lparr>ss_excluded := [''B'']\<rparr>" and st = st and n = n]
  by (simp add: request_attempt_def handler_simps demo_assets demo_state_def demo_fuse_retry no_parts_same)

definition demo_request :: optimizer_request where
  "demo_request = \<lparr> or_rootFuse = (amps_left 24)\<lparr>rfu_children := [demo_fuses 0]\<rparr>, or_cars = [demo_car 0], or_carAssignments = [(0, 0)],
     or_currentTimeSeconds = 100 \<rparr>"

lemma demo_request_built:
  "buildOptimizerRequest (demo_env st n) demo_area demo_stations [] demo_state = (demo_state\<lparr>ss_excluded := [''B'']\<rparr>, Inr demo_request)"
  by (simp add: buildOptimizerRequest_def first_attempt second_attempt demo_parts_def handler_simps request_of_def now_in_def
      demo_request_def current_time_seconds_def Let_def)

theorem request_is_a_tree_witness:
  "let fs = rfu_children (or_rootFuse demo_request) in
    list_all balanced fs \<and> or_carAssignments demo_request = map (\<lambda>c. (oc_id c, oc_id c)) (or_cars demo_request)
    \<and> tree_ids fs = [0, 1] \<and> sorted_wrt (<) (tree_ids fs)"
  using request_is_a_tree[OF demo_request_built[of "[]" 0]] by (simp add: Let_def demo_request_def demo_fuses_def tree_ids_def)

text \<open>A transaction that is lost while the request is built makes it start again from a list that has lost the stations that are
  not steered: on a site of 32 amps per phase with such a station, which draws 16, the optimizer may distribute 24, where the
  same stations and exclusions, reserved from the full list, leave 8.\<close>

theorem retry_forgets_reservations:
  "\<exists>s rq. buildOptimizerRequest (demo_env demo_stations 0) demo_area demo_stations [] demo_state = (s, Inr rq)
    \<and> fn_fusePhase1 (or_rootFuse rq) = 24
    \<and> (\<exists>left f. buildRootFuse demo_area 0 (ss_excluded s) 0 demo_stations = Inr (left, f) \<and> fn_fusePhase1 f = 8)"
proof -
  have "buildRootFuse demo_area 0 (ss_excluded (demo_state\<lparr>ss_excluded := [''B'']\<rparr>)) 0 demo_stations = Inr ([steady], amps_left 8)"
    by (simp add: demo_fuse_retry)
  moreover have "fn_fusePhase1 (amps_left 8) = 8" "fn_fusePhase1 (or_rootFuse demo_request) = 24"
    by (simp_all add: amps_left_def demo_request_def del: demo_root)
  ultimately show ?thesis using demo_request_built[of demo_stations 0] by blast
qed

section \<open>The plan\<close>

definition demo_plan :: site_profile where
  "demo_plan = smart_profile ''C'' 1 1 (Some 7) 900000
     [\<lparr> sp_startPeriod = 0, sp_limit = 48 \<rparr>, \<lparr> sp_startPeriod = 900, sp_limit = 30 \<rparr>,
      \<lparr> sp_startPeriod = 1800, sp_limit = 24 \<rparr>, \<lparr> sp_startPeriod = 2700, sp_limit = 24 \<rparr>]"

definition demo_planned :: planned_car where
  "demo_planned = \<lparr> pc_name = oc_name (demo_car 0), pc_currentPlan = Some [16, 10, 8, 8, 0, 6] \<rparr>"

lemma show_int_one: "show_int 1 = ''1''"
  by code_simp

lemma demo_name: "split_on (CHR ''~'') (oc_name (demo_car 0)) = [''C'', ''1'']" "convertToInt_str ''1'' = Some 1"
proof -
  have "oc_name (demo_car 0) = ''C~1''" by (simp add: demo_car_def buildCar_sel car_name_def show_int_one)
  then show "split_on (CHR ''~'') (oc_name (demo_car 0)) = [''C'', ''1'']" by simp
qed code_simp

lemma steady_found: "getChargingStation (demo_env demo_stations n) ''C'' s = Some steady"
  by (simp add: getChargingStation_def demo_stations_def)

lemma demo_limit: "calculateCarConsumption steady (demo_connector (Some 7)) 3 x = roundTo (x * 3) 3"
  by (simp add: calculateCarConsumption_def)

lemma roundTo_int [simp]: "roundTo (of_int k) n = of_int k"
proof -
  have "\<lfloor>rat_of_int m + 1 / 2\<rfloor> = m" "\<lfloor>1 / 2 - rat_of_int m\<rfloor> = - m" for m by (simp_all add: floor_eq_iff)
  then have "decimal_round (of_int (k * 10 ^ n)) = of_int (k * 10 ^ n)"
    by (simp add: decimal_round_def del: of_int_mult of_int_power)
  then show ?thesis by (simp add: roundTo_def)
qed

lemma roundTo_numeral [simp]: "roundTo (numeral k) n = numeral k"
  using roundTo_int[of "numeral k" n] by simp

lemma demo_periods:
  "plan_periods (calculateCarConsumption steady (demo_connector (Some 7)) 3) 20 0 [16, 10, 8, 8, 0, 6] =
     [\<lparr> sp_startPeriod = 0, sp_limit = 48 \<rparr>, \<lparr> sp_startPeriod = 900, sp_limit = 30 \<rparr>,
      \<lparr> sp_startPeriod = 1800, sp_limit = 24 \<rparr>, \<lparr> sp_startPeriod = 2700, sp_limit = 24 \<rparr>]"
  by (simp add: demo_limit)

lemma demo_profile: "profile_of_car (demo_env demo_stations n) 900000 s demo_planned = Inr demo_plan"
  by (simp add: profile_of_car_def Let_def demo_planned_def demo_name steady_found getOcppParameterValue_def max_periods_def plan_of_def
      demo_periods demo_plan_def del: plan_periods.simps)

theorem plan_schedule_witness:
  "\<exists>cs c. getChargingStation (demo_env demo_stations 0) ''C'' (ss_profiles demo_state) = Some cs \<and> c \<in> set (connectors_of cs)
    \<and> spf_transactionId demo_plan = con_currentTransactionID c
    \<and> length (sch_periods (prf_schedule demo_plan)) = 4 \<and> sch_duration (prf_schedule demo_plan) = Some 3600"
proof -
  have "pc_currentPlan demo_planned = Some [16, 10, 8, 8, 0, 6]" "spf_chargingStationID demo_plan = ''C''"
    "length (sch_periods (prf_schedule demo_plan)) = 4"
    by (simp_all add: demo_planned_def demo_plan_def smart_profile_def)
  with plan_schedule[OF demo_profile[of 0 "ss_profiles demo_state"], of "[16, 10, 8, 8, 0, 6]"] show ?thesis
    by (auto simp: Let_def)
qed

theorem plan_within_connector_witness: "calculateCarConsumption steady (demo_connector (Some 7)) 3 32 \<le> 96"
  using plan_within_connector[of 0 steady "demo_connector (Some 7)" _ 3 96 32, OF demo_connector_fuse]
  by (simp add: getConnectorNbrOfPhasesAndAmps_def shared_amps_def)

theorem unchanged_plan_not_pushed_witness:
  "checkIfChargingProfileAlreadyApplied [demo_plan, demo_plan\<lparr>spf_transactionId := Some 8\<rparr>] [demo_plan] = [demo_plan\<lparr>spf_transactionId := Some 8\<rparr>]"
  by (subst unchanged_plan_not_pushed) (simp_all add: same_plan_def demo_plan_def smart_profile_def)

section \<open>The run\<close>

lemma demo_vendor: "getChargingStationVendorImpl ''Schneider Electric'' = Some DEFAULT_VENDOR"
  by code_simp

text \<open>The plan as the station wants it, for each of its three phases.\<close>

lemma demo_to_vendor: "\<exists>v. to_vendor steady (Some (demo_point 96)) demo_plan = Inr v \<and> prf_connectorID v = 1"
  by (simp add: to_vendor_def convertToVendorChargingProfile_def demo_plan_def smart_profile_def charging_profile.defs
      to_vendor_period_def convertLimitAmpPerPhase_def Let_def)

lemma demo_plan_simps [simp]:
  "spf_chargingStationID demo_plan = ''C''" "spf_chargePointID demo_plan = 1" "prf_connectorID demo_plan = 1" "spf_id demo_plan = None"
  by (simp_all add: demo_plan_def smart_profile_def)

lemma demo_push:
  "\<exists>rq. setAndSaveChargingProfile (demo_env demo_stations n) demo_plan s =
     (if length (ps_sent s) < n then (s\<lparr>ps_sent := ps_sent s @ [rq]\<rparr>, Inl (BackendError ''Cannot set the Charging Profile!''))
      else (s\<lparr>ps_sent := ps_sent s @ [rq],
              ps_profiles := put_profile (demo_plan\<lparr>spf_id := Some (profile_id (demo_env demo_stations n) demo_plan)\<rparr>) (ps_profiles s)\<rparr>,
            Inr (profile_id (demo_env demo_stations n) demo_plan)))"
proof -
  obtain v where v: "to_vendor steady (Some (demo_point 96)) demo_plan = Inr v" "prf_connectorID v = 1"
    using demo_to_vendor by blast
  show ?thesis
    by (rule exI[of _ "SetProfile ''C'' 1 v"])
      (simp add: setAndSaveChargingProfile_def handler_simps steady_found demo_vendor setChargingProfile_def v send_set_def log_request_def
        all_accepted_def throwS_def saveChargingProfile_def)
qed

theorem plan_saved_when_accepted_witness:
  "\<exists>s'. setAndSaveChargingProfile (demo_env demo_stations 0) demo_plan (ss_profiles demo_state) = (s', Inr (profile_id (demo_env demo_stations 0) demo_plan))
    \<and> sends_to ''C'' (ss_profiles demo_state) s' \<and> last_accepted (demo_env demo_stations 0) s'"
proof -
  obtain s' where s': "setAndSaveChargingProfile (demo_env demo_stations 0) demo_plan (ss_profiles demo_state)
      = (s', Inr (profile_id (demo_env demo_stations 0) demo_plan))"
    using demo_push[of 0 "ss_profiles demo_state"] by auto
  from plan_saved_when_accepted[OF this, of steady] s' show ?thesis by (simp add: steady_found)
qed

lemma demo_area_stations: "getChargingStationsOfArea (demo_env demo_stations n) ''A'' [CHARGING, SUSPENDED_EVSE] p = demo_stations"
proof -
  have "with_status [CHARGING, SUSPENDED_EVSE] (demo_station i b amps t) = demo_station i b amps t" for i b amps t
    by (simp add: with_status_def)
  moreover have "''B'' \<le> ''C''" "''B'' \<le> ''U''" "''C'' \<le> ''U''" by code_simp+
  ultimately show ?thesis by (simp add: getChargingStationsOfArea_def demo_stations_def)
qed

definition demo_url :: string where "demo_url = ''https://u:pw@opt.org/''"

lemma demo_url_built:
  assumes "ss_vault s = start kept_secrets" shows "buildOptimizerUrl (demo_env st n) s = (s, Inr demo_url)"
proof -
  have "is_url ''https://opt.org/''" by code_simp
  moreover have "s\<lparr>ss_vault := start kept_secrets\<rparr> = s" using assms by (cases s) simp
  ultimately show ?thesis
    using opens_in_use[of "''pw''"] sealed_opens(2)[of False "''pw''"] assms
    by (simp add: buildOptimizerUrl_def demo_env_def handler_simps on_vault_def demo_url_def Let_def)
qed

lemma demo_built:
  "buildChargingProfiles (demo_env demo_stations n) demo_area demo_state = (demo_state\<lparr>ss_excluded := [''B'']\<rparr>, Inr (Some [demo_plan]))"
proof -
  have e: "getChargingProfiles q (ss_profiles demo_state) = []" for q
    by (simp add: getChargingProfiles_def demo_state_def profile_order_def)
  have r: "or_cars demo_request = [demo_car 0]" by (simp add: demo_request_def)
  have p: "buildChargingProfilesFromOptimizerResponse (demo_env demo_stations n) (Some [demo_planned]) s = (s, Inr [demo_plan])" for s
    using demo_profile by (simp add: buildChargingProfilesFromOptimizerResponse_def start_of_quarter_def now_in_def)
  have v: "ss_vault (demo_state\<lparr>ss_excluded := x\<rparr>) = start kept_secrets" for x by (simp add: demo_state_def)
  show ?thesis
    by (simp add: buildChargingProfiles_def handler_simps demo_area_stations e demo_request_built demo_url_built[OF v] r
        p[unfolded demo_planned_def] checkIfChargingProfileAlreadyApplied_def)
qed

lemma demo_once:
  "\<exists>s'. apply_once (demo_env demo_stations 3) demo_area demo_state = (s', Inr (Some (one_error no_actions)))"
proof -
  let ?env = "demo_env demo_stations 3" and ?p = "ss_profiles demo_state"
  have step: "\<exists>rq. setAndSaveChargingProfile ?env demo_plan s
      = (s\<lparr>ps_sent := ps_sent s @ [rq]\<rparr>, Inl (BackendError ''Cannot set the Charging Profile!''))" if "length (ps_sent s) < 3" for s
    using demo_push[of 3 s] that by simp
  obtain s1 s2 s3 where
    s: "setAndSaveChargingProfile ?env demo_plan ?p = (s1, Inl (BackendError ''Cannot set the Charging Profile!''))"
       "setAndSaveChargingProfile ?env demo_plan s1 = (s2, Inl (BackendError ''Cannot set the Charging Profile!''))"
       "setAndSaveChargingProfile ?env demo_plan s2 = (s3, Inl (BackendError ''Cannot set the Charging Profile!''))"
  proof -
    obtain rq1 where 1: "setAndSaveChargingProfile ?env demo_plan ?p = (?p\<lparr>ps_sent := ps_sent ?p @ [rq1]\<rparr>, Inl (BackendError ''Cannot set the Charging Profile!''))"
      using step[of ?p] by (auto simp: demo_state_def)
    let ?p1 = "?p\<lparr>ps_sent := ps_sent ?p @ [rq1]\<rparr>"
    obtain rq2 where 2: "setAndSaveChargingProfile ?env demo_plan ?p1 = (?p1\<lparr>ps_sent := ps_sent ?p1 @ [rq2]\<rparr>, Inl (BackendError ''Cannot set the Charging Profile!''))"
      using step[of ?p1] by (auto simp: demo_state_def)
    let ?p2 = "?p1\<lparr>ps_sent := ps_sent ?p1 @ [rq2]\<rparr>"
    obtain rq3 where 3: "setAndSaveChargingProfile ?env demo_plan ?p2 = (?p2\<lparr>ps_sent := ps_sent ?p2 @ [rq3]\<rparr>, Inl (BackendError ''Cannot set the Charging Profile!''))"
      using step[of ?p2] by (auto simp: demo_state_def)
    from that 1 2 3 show thesis by blast
  qed
  have two: "2 = Suc (Suc 0)" by simp
  show ?thesis
    by (simp add: apply_once_def handler_simps demo_built sort_by_limit_def apply_profile_def catchS_def on_profiles_def s
        handleRefusedChargingProfile_def two steady_found del: One_nat_def)
qed

theorem run_accounts_witness:
  "\<exists>s'. apply_once (demo_env demo_stations 3) demo_area demo_state = (s', Inr (Some (one_error no_actions)))
    \<and> ''C'' \<in> set (ss_excluded s')"
proof -
  obtain s' where s': "apply_once (demo_env demo_stations 3) demo_area demo_state = (s', Inr (Some (one_error no_actions)))"
    using demo_once by blast
  from run_accounts[OF this] obtain pushed refused where "mset [demo_plan] = mset pushed + mset refused"
    "0 = length pushed" "1 = length refused" "\<forall>p \<in> set refused. spf_chargingStationID p \<in> set (ss_excluded s')"
    by (auto simp: demo_built one_error_def no_actions_def)
  then have "refused = [demo_plan]" by (auto simp: length_Suc_conv)
  with s' \<open>\<forall>p \<in> set refused. spf_chargingStationID p \<in> set (ss_excluded s')\<close> show ?thesis by simp
qed

section \<open>Clearing, sharing and direct current\<close>

definition demo_cleared :: "profile_state \<times> actions_response res" where
  "demo_cleared = clearAndDeleteChargingProfilesForSiteArea (demo_env demo_stations 0) [steady] (Some TX_PROFILE) None
     \<lparr> ps_sent = [], ps_profiles = [demo_plan\<lparr>spf_id := Some ''k''\<rparr>, demo_plan\<lparr>spf_id := Some ''m'', spf_chargingStationID := ''B''\<rparr>] \<rparr>"

lemma demo_purpose [simp]: "prf_purpose demo_plan = TX_PROFILE"
  by (simp add: demo_plan_def smart_profile_def)

lemma demo_cleared: "\<exists>s'. demo_cleared = (s', Inr (one_success no_actions))"
proof -
  have v: "cs_supportChargingProfiles steady" by simp
  show ?thesis
    by (simp add: demo_cleared_def clearAndDeleteChargingProfilesForSiteArea_def clear_station_def handler_simps getChargingProfiles_def
        profile_order_def matches_def any_profile_def clear_one_def catchS_def clearAndDeleteChargingProfile_def steady_found v demo_vendor
        clearChargingProfile_def send_clear_def log_request_def deleteChargingProfile_def)
qed

theorem no_plan_left_behind_witness:
  "\<not> list_ex (\<lambda>p. spf_chargingStationID p = ''C'' \<and> prf_purpose p = TX_PROFILE) (ps_profiles (fst demo_cleared))"
proof -
  obtain s' where s': "demo_cleared = (s', Inr (one_success no_actions))" using demo_cleared by blast
  then have "fst demo_cleared = s'" by (metis fst_conv)
  with no_plan_left_behind[OF s'[unfolded demo_cleared_def]] show ?thesis
    by (auto simp: list_ex_iff one_success_def no_actions_def)
qed

definition shared_point :: charge_point where
  "shared_point = (demo_point 96)\<lparr>cp_sharePowerToAllConnectors := True\<rparr>"

definition shared_station :: charging_station where
  "shared_station = unsteered\<lparr>cs_chargePoints := Some [shared_point],
     cs_connectors := Some [demo_connector (Some 1), demo_connector (Some 2)]\<rparr>"

theorem shared_point_escapes_exclusion_witness:
  "fst (reserve_connectors demo_area [] shared_station [demo_connector (Some 2), demo_connector (Some 1)] [] [] (amps_left 32))
    = [demo_connector (Some 1)]"
  using shared_point_escapes_exclusion[of "[]" shared_station shared_point "[demo_connector (Some 1), demo_connector (Some 2)]" demo_area]
  by (simp add: not_steered_def shared_station_def shares_power_def shared_point_def charge_point_of_def getChargePointFromID_def)

definition dc_point :: charge_point where
  "dc_point = (demo_point 96)\<lparr>cp_currentType := Some DC\<rparr>"

definition dc_connector :: connector where
  "dc_connector = (demo_connector (Some 7))\<lparr>con_currentType := Some DC\<rparr>"

definition dc_station :: charging_station where
  "dc_station = steady\<lparr>cs_chargePoints := Some [dc_point], cs_connectors := Some [dc_connector]\<rparr>"

lemma dc_lookups:
  "charge_point_of dc_station dc_connector = Some dc_point" "is_DC dc_station 1" "con_connectorId dc_connector = 1"
  "getNumberOfConnectedPhases dc_station (Some dc_point) 1 = 3" "getNumberOfConnectedPhases dc_station None 0 = 3"
  "getChargingStationAmperage dc_station (Some dc_point) 1 = 96" "con_chargePointID dc_connector = Some 1"
  "getChargePointFromID dc_station 1 = Some dc_point" "efficiency_of (Some dc_point) = None" "\<not> shares_power dc_point"
  by (simp_all add: dc_station_def dc_connector_def dc_point_def charge_point_of_def getChargePointFromID_def is_DC_def
      getChargingStationCurrentType_def getNumberOfConnectedPhases_def getChargingStationAmperage_def station_lookup_def station_total_def
      cp_selected_def charge_points_of_def nonzero_def getConnectorFromID_def efficiency_of_def shares_power_def)

theorem default_efficiency_unscaled_witness:
  "\<exists>f. buildChargingStationConnectorFuse 0 dc_station dc_connector = Inr f
    \<and> fn_fusePhase1 (reserve demo_area dc_station dc_connector (Some dc_point) (amps_left 100)) = 100 - 100 * fn_fusePhase1 f"
proof -
  obtain f where f: "buildChargingStationConnectorFuse 0 dc_station dc_connector = Inr f"
    by (simp add: buildChargingStationConnectorFuse_def getConnectorNbrOfPhasesAndAmps_def shared_amps_def Let_def dc_lookups
        dc_lookups(10)[unfolded shares_power_def])
  have "fn_fusePhase1 (amps_left 100) = 100" by (simp add: amps_left_def del: demo_root)
  with f default_efficiency_unscaled[of demo_area dc_station dc_connector dc_point 0 f "amps_left 100"] show ?thesis
    by (simp add: dc_lookups)
qed

end
