(* ===== verification/Profile_Requests.thy ===== *)
theory Profile_Requests
  imports Smart_Optimizer Setting_Service Lock_Protocol
begin

text \<open>
  Requests on charging profiles and on the power of a station (\<^verbatim>\<open>handleCreateChargingProfile\<close>,
  \<^verbatim>\<open>handleUpdateChargingProfile\<close>, \<^verbatim>\<open>handleDeleteChargingProfile\<close>, \<^verbatim>\<open>handleChargingStationLimitPower\<close>
  of ChargingStationService.ts, \<^verbatim>\<open>checkIfChargingProfileIsValid\<close> of UtilsService.ts), and what triggers the smart
  charging: the request of a user, the events of a station (\<^verbatim>\<open>triggerSmartCharging\<close> of OCPPService.ts) and the scheduled
  task (CheckAndComputeSmartChargingTask.ts), each under the lock of the site area.

  The bodies of the requests have passed their JSON schemas, so that the fields these require are there.
\<close>

section \<open>Surroundings\<close>

record owned_area = smart_area +
  oa_siteID :: "string option"

text \<open>
  \<open>qe_siteArea\<close> is a site area of the data base by its identifier, \<open>qe_siteAreas\<close> those of the task, \<open>qe_change\<close> the answer
  of a station to a change of an OCPP parameter. \<open>qe_smartSetting\<close> is the setting of the smart charging, when there is one
  of the type that the factory knows.
\<close>

record request_env = smart_env +
  qe_acl :: acl_env
  qe_siteArea :: "profile_request list \<Rightarrow> string \<Rightarrow> owned_area option"
  qe_siteAreas :: "owned_area list"
  qe_change :: "profile_request list \<Rightarrow> string \<Rightarrow> string \<Rightarrow> rat \<Rightarrow> OCPPConfigurationStatus res"
  qe_directory :: directory
  qe_smartSetting :: "sap_setting option"

definition FEATURE_NOT_SUPPORTED_ERROR :: int where "FEATURE_NOT_SUPPORTED_ERROR = 585"

definition LIMIT_POWER_ERROR :: int where "LIMIT_POWER_ERROR = 556"

definition CLEAR_CHARGING_PROFILE_NOT_SUCCESSFUL :: int where "CLEAR_CHARGING_PROFILE_NOT_SUCCESSFUL = 537"

definition fails_with :: "int \<Rightarrow> string \<Rightarrow> bool \<Rightarrow> unit res" where
  "fails_with code msg b = (if b then Inl (AppError code msg) else Inr ())"

section \<open>A valid profile\<close>

text \<open>
  A profile as it is sent; its schedule may have no start. An end that cannot be computed is not before any date. A
  comparison with a limit that is not a number is false.
\<close>

record profile_form = site_profile +
  pfm_startGiven :: bool

definition within_a_day :: "profile_form \<Rightarrow> bool" where
  "within_a_day p = (pfm_startGiven p
     \<and> (case sch_duration (prf_schedule p) of None \<Rightarrow> False | Some d \<Rightarrow> d * 1000 < 86400000 + 60000))"

definition check_period :: "rat option \<Rightarrow> schedule_period \<Rightarrow> unit res" where
  "check_period maxAmpLimit x =
     (if sp_limit x < 0 then Inl (AppError GENERAL_ERROR ''Charging Schedule is below the min limitation (0A)'')
      else if (case maxAmpLimit of None \<Rightarrow> False | Some m \<Rightarrow> sp_limit x > m)
      then Inl (AppError GENERAL_ERROR ''Charging Schedule is above the max limitation'')
      else Inr ())"

definition checkIfChargingProfileIsValid :: "bool \<Rightarrow> charging_station \<Rightarrow> charge_point option \<Rightarrow> profile_form \<Rightarrow> unit res" where
  "checkIfChargingProfileIsValid isPost cs cpo p =
     (if \<not> isPost \<and> \<not> truthy_str (spf_id p) then Inl (AppError GENERAL_ERROR ''The Charging Profile ID is mandatory'')
      else if spf_chargingProfileId p = 0 \<or> prf_stackLevel p = 0
      then Inl (AppError GENERAL_ERROR ''Invalid Charging Profile'')
      else if sch_periods (prf_schedule p) = []
      then Inl (AppError GENERAL_ERROR ''Charging Profile's schedule must not be empty'')
      else if \<not> within_a_day p
      then Inl (AppError GENERAL_ERROR ''Charging Profile's schedule should not exceed 24 hours'')
      else bindE (mapE (check_period (getChargingStationAmperageLimit cs cpo (prf_connectorID p))) (sch_periods (prf_schedule p)))
        (\<lambda>_. Inr ()))"

section \<open>Requests on profiles\<close>

text \<open>The site of a station, which is looked for when the tenant has organizations.\<close>

definition site_of_station :: "request_env \<Rightarrow> user_token \<Rightarrow> charging_station \<Rightarrow> profile_state \<Rightarrow> string option" where
  "site_of_station env u cs s =
     (if isComponentActiveFromToken u ORGANIZATION then
        Option.bind (Option.bind (cs_siteAreaID cs) (qe_siteArea env (ps_sent s))) oa_siteID
      else None)"

definition may_update_station :: "request_env \<Rightarrow> user_token \<Rightarrow> charging_station \<Rightarrow> unit profile_handler" where
  "may_update_station env u cs =
     bindS (readS (site_of_station env u cs)) (\<lambda>siteID.
     liftS (allowed (canUpdateChargingStation (ae_acl (qe_acl env)) u siteID)))"

definition station_for :: "request_env \<Rightarrow> string \<Rightarrow> charging_station profile_handler" where
  "station_for env i = bindS (readS (getChargingStation env i)) (\<lambda>found. liftS (assertObjectExists found))"

definition service_setAndSaveChargingProfile :: "request_env \<Rightarrow> user_token \<Rightarrow> bool \<Rightarrow> profile_form \<Rightarrow> string profile_handler" where
  "service_setAndSaveChargingProfile env u isPost p =
     bindS (station_for env (spf_chargingStationID p)) (\<lambda>cs.
     bindS (liftS (fails_with GENERAL_ERROR ''not issued by the organization'' (\<not> cs_issuer cs))) (\<lambda>_.
     bindS (liftS (assertObjectExists (getChargePointFromID cs (spf_chargePointID p)))) (\<lambda>cp.
     bindS (liftS (checkIfChargingProfileIsValid isPost cs (Some cp) p)) (\<lambda>_.
     bindS (may_update_station env u cs) (\<lambda>_.
     bindS (liftS (fails_with FEATURE_NOT_SUPPORTED_ERROR ''does not support Charging Profiles'' (\<not> cs_supportChargingProfiles cs))) (\<lambda>_.
     setAndSaveChargingProfile env (site_profile.truncate p)))))))"

definition handleCreateChargingProfile :: "request_env \<Rightarrow> user_token \<Rightarrow> profile_form \<Rightarrow> string profile_handler" where
  "handleCreateChargingProfile env u p = service_setAndSaveChargingProfile env u True p"

definition handleUpdateChargingProfile :: "request_env \<Rightarrow> user_token \<Rightarrow> profile_form \<Rightarrow> string profile_handler" where
  "handleUpdateChargingProfile env u p =
     bindS (readS (getChargingProfile (or_else (spf_id p) []))) (\<lambda>found.
     bindS (liftS (assertObjectExists found)) (\<lambda>_.
     service_setAndSaveChargingProfile env u False p))"

definition handleDeleteChargingProfile :: "request_env \<Rightarrow> user_token \<Rightarrow> string \<Rightarrow> unit profile_handler" where
  "handleDeleteChargingProfile env u i =
     bindS (readS (getChargingProfile i)) (\<lambda>found.
     bindS (liftS (assertObjectExists found)) (\<lambda>p.
     bindS (station_for env (spf_chargingStationID p)) (\<lambda>cs.
     bindS (liftS (fails_with GENERAL_ERROR ''not issued by the organization'' (\<not> cs_issuer cs))) (\<lambda>_.
     bindS (may_update_station env u cs) (\<lambda>_.
     rethrowS (clearAndDeleteChargingProfile env p)
       (AppError CLEAR_CHARGING_PROFILE_NOT_SUCCESSFUL ''Error occurred while clearing Charging Profile''))))))"

section \<open>The power of a charge point\<close>

definition exceeds :: "rat \<Rightarrow> 'x charging_profile_scheme \<Rightarrow> bool" where
  "exceeds amps p = list_ex (\<lambda>x. sp_limit x > amps) (sch_periods (prf_schedule p))"

definition capped :: "rat \<Rightarrow> 'x charging_profile_scheme \<Rightarrow> 'x charging_profile_scheme" where
  "capped amps p = p\<lparr>prf_schedule := (prf_schedule p)\<lparr>sch_periods :=
     map (\<lambda>x. x\<lparr>sp_limit := min (sp_limit x) amps\<rparr>) (sch_periods (prf_schedule p))\<rparr>\<rparr>"

text \<open>
  The first profile that is above the new limit is lowered, when the user insists, and no other one after it. The profiles
  are looked for with the connector 0, which selects nothing (\<open>matches\<close>).
\<close>

definition adjust_plans :: "request_env \<Rightarrow> charging_station \<Rightarrow> rat \<Rightarrow> bool \<Rightarrow> unit profile_handler" where
  "adjust_plans env cs amps force =
     bindS (readS (getChargingProfiles (any_profile\<lparr>pq_chargingStationIDs := Some [cs_id cs], pq_connectorID := Some 0\<rparr>))) (\<lambda>ps.
     case find (exceeds amps) ps of
       None \<Rightarrow> returnS ()
     | Some p \<Rightarrow>
         if \<not> force then throwS (AppError GENERAL_ERROR ''Cannot change the current limitation because of an existing charging plan!'')
         else bindS (setAndSaveChargingProfile env (capped amps p)) (\<lambda>_. returnS ()))"

text \<open>The station is the one that is saved with its new limits.\<close>

definition handleChargingStationLimitPower ::
  "request_env \<Rightarrow> user_token \<Rightarrow> string \<Rightarrow> int \<Rightarrow> rat \<Rightarrow> bool \<Rightarrow> (charging_station \<times> OCPPConfigurationStatus) profile_handler" where
  "handleChargingStationLimitPower env u csID cpID amps force =
     bindS (liftS (fails_with GENERAL_ERROR ''You must provide a Charge Point ID'' (cpID = 0))) (\<lambda>_.
     bindS (station_for env csID) (\<lambda>cs.
     bindS (liftS (assertObjectExists (getChargePointFromID cs cpID))) (\<lambda>cp.
     bindS (liftS (fails_with GENERAL_ERROR ''Limitation is too low''
       (amps < MIN_LIMIT_PER_PHASE * of_int (getNumberOfConnectedPhases cs (Some cp) 0) * of_nat (length (cp_connectorIDs cp))))) (\<lambda>_.
     bindS (may_update_station env u cs) (\<lambda>_.
     case getChargingStationVendorImpl (cs_chargePointVendor cs) of
       None \<Rightarrow> throwS (AppError FEATURE_NOT_SUPPORTED_ERROR ''No vendor implementation is available for limiting the charge'')
     | Some v \<Rightarrow>
         bindS (liftS (fails_with FEATURE_NOT_SUPPORTED_ERROR ''Charging Station does not support power limitation''
           (\<not> cs_supportStaticLimitation cs))) (\<lambda>_.
         bindS (adjust_plans env cs amps force) (\<lambda>_.
         bindS (\<lambda>s. (s, setStaticPowerLimitation (qe_change env (ps_sent s) (cs_id cs)) (static_limit_unit v) cs (Some cp) amps)) (\<lambda>(cs', status).
         if status \<noteq> OCPPConfigurationStatus.ACCEPTED \<and> status \<noteq> OCPPConfigurationStatus.REBOOT_REQUIRED
         then throwS (AppError LIMIT_POWER_ERROR ''Cannot limit the charger's power'')
         else returnS (cs', status)))))))))"

section \<open>Triggers of the smart charging\<close>

definition in_world :: "lock_world \<Rightarrow> smart_state \<Rightarrow> smart_state" where
  "in_world w s = s\<lparr>ss_vault := (ss_vault s)\<lparr>va_world := w\<rparr>\<rparr>"

definition release_area :: "lock \<Rightarrow> smart_state \<Rightarrow> smart_state" where
  "release_area l s = s\<lparr>ss_vault := release_database l (ss_vault s)\<rparr>"

text \<open>A block that runs under the lock of a site area, or not at all when the lock is not to be had.\<close>

definition under_area_lock :: "request_env \<Rightarrow> string \<Rightarrow> unit smart_handler \<Rightarrow> unit smart_handler" where
  "under_area_lock env areaID m = (\<lambda>s.
     case acquireSiteAreaSmartChargingLock (lock_env.truncate (se_vault env)) (ve_tenantID (se_vault env)) areaID (va_world (ss_vault s)) of
       Inl e \<Rightarrow> (s, Inl e)
     | Inr (w, None) \<Rightarrow> (in_world w s, Inr ())
     | Inr (w, Some l) \<Rightarrow> finallyS m (release_area l) (in_world w s))"

text \<open>Every call of the factory makes a new object, which has excluded no station yet.\<close>

definition getSmartChargingImpl :: "request_env \<Rightarrow> smart_env option" where
  "getSmartChargingImpl env =
     (if isTenantComponentActive (qe_directory env) SMART_CHARGING
      then map_option (\<lambda>st. (smart_env.truncate env)\<lparr>se_setting := st\<rparr>) (qe_smartSetting env)
      else None)"

definition new_run :: "smart_env \<Rightarrow> owned_area \<Rightarrow> actions_response option smart_handler" where
  "new_run impl a =
     bindS (modifyS (\<lambda>s. s\<lparr>ss_excluded := []\<rparr>)) (\<lambda>_. computeAndApplyChargingProfiles impl (smart_area.truncate a))"

definition triggerSmartCharging :: "request_env \<Rightarrow> charging_station \<Rightarrow> unit smart_handler" where
  "triggerSmartCharging env cs =
     (if \<not> isTenantComponentActive (qe_directory env) SMART_CHARGING then returnS ()
      else bindS (readS (\<lambda>s. Option.bind (cs_siteAreaID cs) (qe_siteArea env (ps_sent (ss_profiles s))))) (\<lambda>found.
        case found of
          None \<Rightarrow> returnS ()
        | Some a \<Rightarrow>
            if \<not> sa_smartCharging a then returnS ()
            else under_area_lock env (sa_id a)
              (case getSmartChargingImpl env of
                 None \<Rightarrow> returnS ()
               | Some impl \<Rightarrow> bindS (new_run impl a) (\<lambda>_. returnS ()))))"

text \<open>At the end of a transaction: its profiles at once, and the trigger after a delay, whose exceptions are logged.\<close>

definition triggerSmartChargingStopTransaction :: "request_env \<Rightarrow> transaction \<Rightarrow> unit smart_handler" where
  "triggerSmartChargingStopTransaction env t =
     (if isTenantComponentActive (qe_directory env) SMART_CHARGING
      then on_profiles (deleteAllTransactionTxProfile env t) else returnS ())"

definition delayed_trigger :: "request_env \<Rightarrow> charging_station \<Rightarrow> unit smart_handler" where
  "delayed_trigger env cs = catchS (triggerSmartCharging env cs) (\<lambda>_. returnS ())"

text \<open>The task. Where there is no implementation it logs that, calls it all the same and catches the exception.\<close>

definition process_area :: "request_env \<Rightarrow> owned_area \<Rightarrow> unit \<Rightarrow> unit smart_handler" where
  "process_area env a _ =
     under_area_lock env (sa_id a)
       (catchS
         (case getSmartChargingImpl env of
            None \<Rightarrow> throwS TypeError
          | Some impl \<Rightarrow> bindS (new_run impl a) (\<lambda>_. returnS ()))
         (\<lambda>_. returnS ()))"

definition smartCharging_processTenant :: "request_env \<Rightarrow> unit smart_handler" where
  "smartCharging_processTenant env =
     (if isTenantComponentActive (qe_directory env) ORGANIZATION \<and> isTenantComponentActive (qe_directory env) SMART_CHARGING
      then foldS (process_area env) (filter sa_smartCharging (qe_siteAreas env)) ()
      else returnS ())"

text \<open>The request of a user. The decision on the site area is that of the cache-free check.\<close>

definition handleTriggerSmartCharging :: "request_env \<Rightarrow> user_token \<Rightarrow> string \<Rightarrow> unit smart_handler" where
  "handleTriggerSmartCharging env u areaID =
     bindS (liftS (if isComponentActiveFromToken u SMART_CHARGING then Inr () else Inl FORBIDDEN)) (\<lambda>_.
     bindS (liftS (assertIdIsProvided areaID)) (\<lambda>_.
     bindS (readS (\<lambda>s. qe_siteArea env (ps_sent (ss_profiles s)) areaID)) (\<lambda>found.
     bindS (liftS (assertObjectExists found)) (\<lambda>a.
     bindS (liftS (snd (canUpdateSiteArea (qe_acl env) u no_context Map.empty))) (\<lambda>(result, _).
     bindS (liftS (assertAuthorized (ar_authorized result))) (\<lambda>_.
     case getSmartChargingImpl env of
       None \<Rightarrow> throwS (AppError GENERAL_ERROR ''Smart Charging service is not configured'')
     | Some impl \<Rightarrow>
         under_area_lock env (sa_id a)
           (bindS (new_run impl a) (\<lambda>r.
             case r of
               None \<Rightarrow> returnS ()
             | Some acts \<Rightarrow> liftS (fails_with GENERAL_ERROR ''Error occurred while triggering the smart charging'' (ar_inError acts > 0))))))))))"

end
