(* ===== verification/Request_Laws.thy ===== *)
theory Request_Laws
  imports Profile_Requests Profile_Laws
begin

text \<open>
  What the requests on charging profiles guarantee, and what they do not: a stored profile is within the limits of its
  station; an update may take over the profile of another station; a new power limit adjusts one plan only; and the
  scheduled task does not stop at a site area that fails.
\<close>

lemma mapE_unit_Inr: "mapE f xs = Inr ys \<Longrightarrow> \<forall>x \<in> set xs. \<exists>y. f x = Inr y"
  by (induction xs arbitrary: ys) (auto simp: bindE_eq_Inr)

lemma service_save_cases:
  assumes "service_setAndSaveChargingProfile env u isPost p s = (s', Inr i)"
  obtains cs cp where "getChargingStation env (spf_chargingStationID p) s = Some cs" and "cs_issuer cs"
    and "getChargePointFromID cs (spf_chargePointID p) = Some cp"
    and "checkIfChargingProfileIsValid isPost cs (Some cp) p = Inr ()"
    and "canUpdateChargingStation (ae_acl (qe_acl env)) u (site_of_station env u cs s) = Inr True"
    and "cs_supportChargingProfiles cs"
    and "setAndSaveChargingProfile env (site_profile.truncate p) s = (s', Inr i)"
proof -
  obtain cs where cs: "getChargingStation env (spf_chargingStationID p) s = Some cs"
    using assms by (auto simp: service_setAndSaveChargingProfile_def station_for_def bindS_Inr readS_def liftS_def assertObjectExists_def
        split: option.splits)
  obtain cp where cp: "getChargePointFromID cs (spf_chargePointID p) = Some cp"
    using assms cs by (auto simp: service_setAndSaveChargingProfile_def station_for_def bindS_Inr readS_def liftS_def assertObjectExists_def
        split: option.splits)
  from assms cs cp show thesis
    by (intro that[of cs cp])
      (auto simp: service_setAndSaveChargingProfile_def station_for_def bindS_Inr readS_def liftS_def assertObjectExists_def
        fails_with_def may_update_station_def allowed_def assertAuthorized_def bindE_eq_Inr split: if_splits)
qed

lemma valid_profile:
  assumes "checkIfChargingProfileIsValid isPost cs cpo p = Inr ()"
  shows "sch_periods (prf_schedule p) \<noteq> []" and "within_a_day p"
    and "\<And>x. x \<in> set (sch_periods (prf_schedule p)) \<Longrightarrow> 0 \<le> sp_limit x
      \<and> (\<forall>m. getChargingStationAmperageLimit cs cpo (prf_connectorID p) = Some m \<longrightarrow> sp_limit x \<le> m)"
proof -
  have c: "\<forall>x \<in> set (sch_periods (prf_schedule p)). \<exists>y.
      check_period (getChargingStationAmperageLimit cs cpo (prf_connectorID p)) x = Inr y"
    using assms by (auto simp: checkIfChargingProfileIsValid_def bindE_eq_Inr split: if_splits dest: mapE_unit_Inr)
  show "sch_periods (prf_schedule p) \<noteq> []" "within_a_day p"
    using assms by (auto simp: checkIfChargingProfileIsValid_def split: if_splits)
  show "0 \<le> sp_limit x \<and> (\<forall>m. getChargingStationAmperageLimit cs cpo (prf_connectorID p) = Some m \<longrightarrow> sp_limit x \<le> m)"
    if "x \<in> set (sch_periods (prf_schedule p))" for x
    using c that by (fastforce simp: check_period_def not_less split: if_splits option.splits)
qed

text \<open>C16: a profile that a user has stored, by creating or by updating it, is one the user may store and the station can follow:
  the station belongs to the organization, supports profiles and may be updated by the user; the profile has periods, lasts
  less than a day and a minute, and no limit is negative, or above that of its connector where an amperage limit is known for
  the connector.\<close>

theorem saved_profile_within_limits:
  assumes "handleCreateChargingProfile env u p s = (s', Inr i) \<or> handleUpdateChargingProfile env u p s = (s', Inr i)"
  shows "\<exists>cs cp. getChargingStation env (spf_chargingStationID p) s = Some cs \<and> cs_issuer cs \<and> cs_supportChargingProfiles cs
    \<and> canUpdateChargingStation (ae_acl (qe_acl env)) u (site_of_station env u cs s) = Inr True
    \<and> getChargePointFromID cs (spf_chargePointID p) = Some cp
    \<and> (site_profile.truncate p)\<lparr>spf_id := Some i\<rparr> \<in> set (ps_profiles s')
    \<and> sch_periods (prf_schedule p) \<noteq> [] \<and> (\<exists>d. sch_duration (prf_schedule p) = Some d \<and> d < 86460)
    \<and> (\<forall>x \<in> set (sch_periods (prf_schedule p)). 0 \<le> sp_limit x
        \<and> (\<forall>m. getChargingStationAmperageLimit cs (Some cp) (prf_connectorID p) = Some m \<longrightarrow> sp_limit x \<le> m))"
proof -
  from assms have "\<exists>isPost. service_setAndSaveChargingProfile env u isPost p s = (s', Inr i)"
    by (auto simp: handleCreateChargingProfile_def handleUpdateChargingProfile_def bindS_Inr readS_def liftS_def assertObjectExists_def
        split: option.splits)
  then obtain isPost where "service_setAndSaveChargingProfile env u isPost p s = (s', Inr i)" by blast
  then obtain cs cp where c: "getChargingStation env (spf_chargingStationID p) s = Some cs" "cs_issuer cs"
    "getChargePointFromID cs (spf_chargePointID p) = Some cp" "checkIfChargingProfileIsValid isPost cs (Some cp) p = Inr ()"
    "canUpdateChargingStation (ae_acl (qe_acl env)) u (site_of_station env u cs s) = Inr True" "cs_supportChargingProfiles cs"
    and save: "setAndSaveChargingProfile env (site_profile.truncate p) s = (s', Inr i)"
    by (rule service_save_cases)
  from setAndSave_cases[OF save] have "(site_profile.truncate p)\<lparr>spf_id := Some i\<rparr> \<in> set (ps_profiles s')"
    by (auto simp: put_profile_def image_iff)
  moreover have "\<exists>d. sch_duration (prf_schedule p) = Some d \<and> d < 86460"
    using valid_profile(2)[OF c(4)] by (auto simp: within_a_day_def split: option.splits)
  ultimately show ?thesis using c valid_profile(1,3)[OF c(4)] by blast
qed

text \<open>C33: the update of a profile may take over the profile of another station: it is checked that a profile with the identifier
  exists and that the user may update the station of the request, not that the one belongs to the other. The profile of
  the other station is lost from the collection, and the other station is not told.\<close>

theorem update_takes_foreign_profile:
  assumes "handleUpdateChargingProfile env u p s = (s', Inr i)"
    and "q \<in> set (ps_profiles s)" and "spf_id q = spf_id p" and "spf_chargingStationID q \<noteq> spf_chargingStationID p"
    and "distinct (map spf_id (ps_profiles s))"
  shows "q \<notin> set (ps_profiles s') \<and> sends_to (spf_chargingStationID p) s s'"
proof -
  from assms(1) have "service_setAndSaveChargingProfile env u False p s = (s', Inr i)"
    by (auto simp: handleUpdateChargingProfile_def bindS_Inr readS_def liftS_def assertObjectExists_def split: option.splits)
  then obtain cs cp where c: "getChargingStation env (spf_chargingStationID p) s = Some cs"
    "checkIfChargingProfileIsValid False cs (Some cp) p = Inr ()"
    and save: "setAndSaveChargingProfile env (site_profile.truncate p) s = (s', Inr i)"
    by (rule service_save_cases)
  from c(2) have id: "profile_id env (site_profile.truncate p) = the (spf_id p)" "spf_id p \<noteq> None"
    by (auto simp: checkIfChargingProfileIsValid_def profile_id_def site_profile.defs truthy_str_def split: if_splits option.splits)
  from setAndSave_cases[OF save] have put: "ps_profiles s' = put_profile ((site_profile.truncate p)\<lparr>spf_id := spf_id p\<rparr>) (ps_profiles s)"
    using id by auto
  have "q \<noteq> (site_profile.truncate p)\<lparr>spf_id := spf_id p\<rparr>" using assms(4) by (auto simp: site_profile.defs)
  with assms(3,5) have "q \<notin> set (ps_profiles s')"
    unfolding put put_profile_set[OF assms(5)] by simp
  moreover have "sends_to (cs_id cs) s s'"
  proof -
    obtain s1 r1 where m: "setChargingProfile env cs (getChargePointFromID cs (spf_chargePointID p)) (site_profile.truncate p) s = (s1, r1)"
      by (cases "setChargingProfile env cs (getChargePointFromID cs (spf_chargePointID p)) (site_profile.truncate p) s")
    with movesD[OF setChargingProfile_frame, of cs s env "getChargePointFromID cs (spf_chargePointID p)" "site_profile.truncate p"]
    have "asks (cs_id cs) s s1" by simp
    with save c(1) m show ?thesis
      by (cases r1) (auto simp: setAndSaveChargingProfile_def saveChargingProfile_def bindS_def readS_def modifyS_def returnS_def throwS_def
          asks_def site_profile.defs split: if_splits)
  qed
  ultimately show ?thesis using find_station[OF c(1)] by simp
qed

section \<open>The power of a charge point\<close>

lemma adjust_plans_cases:
  assumes "adjust_plans env cs amps force s = (s', Inr ())"
    and "getChargingProfiles (any_profile\<lparr>pq_chargingStationIDs := Some [cs_id cs], pq_connectorID := Some 0\<rparr>) s = ps"
  shows "case find (exceeds amps) ps of
      None \<Rightarrow> s' = s
    | Some p \<Rightarrow> force \<and> ps_profiles s' = put_profile ((capped amps p)\<lparr>spf_id := Some (profile_id env (capped amps p))\<rparr>) (ps_profiles s)"
proof (cases "find (exceeds amps) ps")
  case None
  with assms show ?thesis by (auto simp: adjust_plans_def bindS_Inr readS_def returnS_def)
next
  case (Some p)
  with assms obtain i where "force" "setAndSaveChargingProfile env (capped amps p) s = (s', Inr i)"
    by (auto simp: adjust_plans_def bindS_Inr readS_def returnS_def throwS_def split: if_splits)
  with setAndSave_cases[OF this(2)] Some show ?thesis by simp
qed

lemma capped_id [simp]: "spf_id (capped amps p) = spf_id p"
  by (simp add: capped_def)

text \<open>A new limit for one charge point adjusts the first plan of the station that is above it, on whatever connector, and no
  other: a second plan above the new limit is left as it is, although the change is reported as done.\<close>

theorem limit_leaves_other_plans_above:
  assumes "handleChargingStationLimitPower env u csID cpID amps True s = (s', Inr r)"
    and "distinct (map spf_id (ps_profiles s))" and "\<forall>q \<in> set (ps_profiles s). truthy_str (spf_id q)"
    and "find (exceeds amps) (profile_order (filter (\<lambda>q. spf_chargingStationID q = csID) (ps_profiles s))) = Some p"
    and "q \<in> set (ps_profiles s)" and "q \<noteq> p"
  shows "q \<in> set (ps_profiles s')
    \<and> ((capped amps p)\<lparr>spf_id := spf_id p\<rparr>) \<in> set (ps_profiles s')"
proof -
  from assms(1) obtain cs s1 where cs: "getChargingStation env csID s = Some cs"
    and a: "adjust_plans env cs amps True s = (s1, Inr ())" and s': "s' = s1"
    by (auto simp: handleChargingStationLimitPower_def station_for_def may_update_station_def bindS_Inr readS_def liftS_def returnS_def throwS_def
        assertObjectExists_def split: option.splits if_splits)
  let ?q = "any_profile\<lparr>pq_chargingStationIDs := Some [cs_id cs], pq_connectorID := Some 0\<rparr>"
  have i: "cs_id cs = csID" by (rule find_station[OF cs])
  have "matches ?q = (\<lambda>q. spf_chargingStationID q = csID)"
    by (rule ext) (simp add: matches_def any_profile_def i truthy_num_def)
  then have "getChargingProfiles ?q s = profile_order (filter (\<lambda>q. spf_chargingStationID q = csID) (ps_profiles s))"
    by (simp add: getChargingProfiles_def)
  from adjust_plans_cases[OF a this] assms(4)
  have put: "ps_profiles s' = put_profile ((capped amps p)\<lparr>spf_id := Some (profile_id env (capped amps p))\<rparr>) (ps_profiles s)"
    by (simp add: s')
  from assms(4) have "p \<in> set (profile_order (filter (\<lambda>q. spf_chargingStationID q = csID) (ps_profiles s)))"
    unfolding find_Some_iff by (metis nth_mem)
  then have p: "p \<in> set (ps_profiles s)" by (simp add: profile_order_def)
  with assms(3) have id: "Some (profile_id env (capped amps p)) = spf_id p"
    by (auto simp: profile_id_def truthy_str_def split: option.splits)
  have "spf_id q \<noteq> spf_id p" using assms(2,5,6) p by (auto simp: distinct_map dest: inj_onD)
  with assms(5) show ?thesis unfolding put put_profile_set[OF assms(2)] id by simp
qed

section \<open>Runs under the lock\<close>

text \<open>What a run of the smart charging does to the locks of the data base: nothing.\<close>

definition locks_of :: "smart_state \<Rightarrow> lock list" where
  "locks_of s = lw_locks (va_world (ss_vault s))"

definition locks_kept :: "smart_state \<Rightarrow> smart_state \<Rightarrow> bool" where
  "locks_kept s t = (locks_of t = locks_of s)"

interpretation running: evolution locks_kept
  by unfold_locales (simp_all add: locks_kept_def)

lemma locks_kept_upd [simp]:
  "locks_kept s (t\<lparr>ss_profiles := p\<rparr>) = locks_kept s t" "locks_kept s (t\<lparr>ss_assets := x\<rparr>) = locks_kept s t"
  "locks_kept s (t\<lparr>ss_excluded := e\<rparr>) = locks_kept s t" "locks_kept s s"
  by (simp_all add: locks_kept_def locks_of_def)

lemma runs_on_profiles: "moves locks_kept (on_profiles m)"
  by (simp add: moves_def on_profiles_def split: prod.split)

lemma runs_asset_consumption: "moves locks_kept (asset_consumption env a)"
  by (simp add: moves_def asset_consumption_def split: prod.split)

lemma runs_answer: "moves locks_kept (\<lambda>s. (s, f s))"
  by (simp add: moves_def)

lemma decrypt_keeps: "va_world (fst (decrypt env x b c v)) = va_world v"
  by (auto simp: decrypt_def crypto_or_stored_def getCryptoSettings_def handler_simps split: option.splits sum.splits prod.splits if_splits)

lemma runs_decrypt: "moves locks_kept (on_vault (decrypt env x b c))"
  using decrypt_keeps[of env x b c]
  by (auto simp: moves_def on_vault_def locks_kept_def locks_of_def split: prod.split) (metis fst_conv)

lemma runs_try_again: "moves locks_kept (try_again env p n)"
  by (induction n) (auto intro!: running.rules runs_on_profiles split: option.split)

lemmas runs = running.rules runs_on_profiles runs_asset_consumption runs_answer runs_decrypt runs_try_again

lemma runs_compute: "moves locks_kept (new_run impl a)"
  unfolding new_run_def computeAndApplyChargingProfiles_def apply_once_def apply_profile_def handleRefusedChargingProfile_def
    buildChargingProfiles_def buildChargingProfilesFromOptimizerResponse_def buildOptimizerUrl_def buildOptimizerRequest_def
    request_attempt_def add_station_def add_connector_def getTransactionFromChargingConnector_def Let_def
  by (intro runs; simp)

abbreviation alone :: others where
  "alone \<equiv> (\<lambda>_ ls. ls)"

text \<open>A process alone takes a lock or leaves the collection as it was, up to a lock that has expired.\<close>

lemma alone_waits:
  assumes "wait_and_insert alone l t w = (w', r)"
  shows "case r of
      Inl _ \<Rightarrow> lw_locks w' = lw_locks w
    | Inr _ \<Rightarrow> lk_id l \<notin> lock_ids (lw_locks w) \<and> lw_locks w' = lw_locks w @ [saved_lock l]"
  using assms
proof (induction alone l t w arbitrary: w' rule: wait_and_insert.induct)
  case (1 l t w)
  show ?case
  proof (cases "insertLock l (lw_locks w)")
    case (Inr ls)
    with 1(2) show ?thesis by (auto simp: wait_and_insert.simps[of _ _ _ w] insert_Inr)
  next
    case (Inl e)
    let ?w = "sleep alone LOCK_WAIT_MILLIS w"
    have k: "lw_locks ?w = lw_locks w" by (simp add: sleep_def Let_def)
    show ?thesis
    proof (cases "lw_now ?w < t")
      case True
      with 1(1)[OF Inl refl] 1(2) Inl k show ?thesis by (simp add: wait_and_insert.simps[of _ _ _ w] split: sum.split_asm)
    next
      case False
      with 1(2) Inl k show ?thesis by (auto simp: wait_and_insert.simps[of _ _ _ w])
    qed
  qed
qed

lemma alone_exclusive:
  assumes "acquireExclusiveLock alone l T w = (w', r)"
  shows "case r of
      Inl _ \<Rightarrow> lw_locks w' = lw_locks w
    | Inr _ \<Rightarrow> lk_id l \<notin> lock_ids (lw_locks w) \<and> lw_locks w' = lw_locks w @ [saved_lock l]"
  using assms alone_waits[of l "lw_now w + T * 1000" w w' r]
  by (auto simp: acquireExclusiveLock_def insert_Inr split: if_splits sum.splits)

definition took :: "lock \<Rightarrow> lock list \<Rightarrow> lock list \<Rightarrow> bool \<Rightarrow> bool" where
  "took l ls ls' ok = (\<exists>kept. one_per_id kept \<and> set kept \<subseteq> set ls
     \<and> (if ok then lk_id l \<notin> lock_ids kept \<and> ls' = kept @ [saved_lock l] else ls' = kept))"

lemma alone_acquires:
  assumes "acquire alone l T retry w = (w', ok)" and "one_per_id (lw_locks w)"
  shows "took l (lw_locks w) (lw_locks w') ok"
  using assms
proof (induction alone l T retry w arbitrary: w' rule: acquire.induct)
  case (1 l T retry w)
  obtain w1 r where a: "acquireExclusiveLock alone l T w = (w1, r)" by fastforce
  note e = alone_exclusive[OF a]
  show ?case
  proof (cases r)
    case (Inr x)
    with 1(2) a have "w' = w1" "ok" by (cases "lk_type l"; simp add: acquire.simps[of _ _ _ _ w])+
    with e Inr 1(3) show ?thesis by (auto simp: took_def)
  next
    case (Inl x)
    with e have k: "lw_locks w1 = lw_locks w" by simp
    obtain w2 freed where c: "checkAndReleaseExpiredLock l w1 = (w2, freed)" by fastforce
    have d: "one_per_id (lw_locks w2)" "set (lw_locks w2) \<subseteq> set (lw_locks w)"
      using c k 1(3) one_per_id_delete[OF 1(3)]
      by (auto simp: checkAndReleaseExpiredLock_def release_def deleteLock_def delete_first_filter split: option.splits if_splits)
    show ?thesis
    proof (cases "retry \<and> freed")
      case True
      with 1(2) a Inl c have "acquire alone l T False w2 = (w', ok)"
        by (cases "lk_type l") (simp add: acquire.simps[of _ _ _ _ w])
      moreover have "(w1, r) = (case lk_type l of EXCLUSIVE \<Rightarrow> acquireExclusiveLock alone l T w)"
        by (cases "lk_type l") (simp add: a)
      ultimately have "took l (lw_locks w2) (lw_locks w') ok"
        using 1(1)[OF refl _ Inl _ refl c[symmetric] _ _ d(1)] True by blast
      with d(2) show ?thesis unfolding took_def by (meson subset_trans)
    next
      case False
      with 1(2) a Inl c have "w' = (if retry then w2 else w1)" "\<not> ok"
        by (cases "lk_type l"; auto simp: acquire.simps[of _ _ _ _ w] split: if_splits)+
      with d k 1(3) show ?thesis by (auto simp: took_def)
    qed
  qed
qed

lemma under_lock_alone:
  assumes "le_others (se_vault env) = alone" and "one_per_id (locks_of s)" and "moves locks_kept m"
    and "under_area_lock env areaID m s = (s', r)"
  shows "one_per_id (locks_of s') \<and> set (locks_of s') \<subseteq> set (locks_of s)"
proof (cases "acquireSiteAreaSmartChargingLock (lock_env.truncate (se_vault env)) (ve_tenantID (se_vault env)) areaID (va_world (ss_vault s))")
  case (Inl e)
  with assms(2,4) show ?thesis by (auto simp: under_area_lock_def)
next
  case (Inr wl)
  then obtain l where "createExclusiveLock (le_hash (se_vault env)) (lw_now (va_world (ss_vault s))) (le_host (se_vault env))
      (ve_tenantID (se_vault env)) LockEntity.SITE_AREA (areaID @ ''-smart-charging'') (3 * 60) = Inr l"
    by (auto simp: acquireSiteAreaSmartChargingLock_def acquire_new_def bindE_eq_Inr lock_env.defs)
  moreover obtain w ok where a: "acquire alone l SMART_CHARGING_LOCK_SECS True (va_world (ss_vault s)) = (w, ok)" by fastforce
  ultimately have wl: "wl = (w, if ok then Some l else None)"
    using Inr assms(1) by (auto simp: acquireSiteAreaSmartChargingLock_def acquire_new_def lock_env.defs)
  obtain kept where k: "one_per_id kept" "set kept \<subseteq> set (locks_of s)"
    and t: "if ok then lk_id l \<notin> lock_ids kept \<and> lw_locks w = kept @ [saved_lock l] else lw_locks w = kept"
    using alone_acquires[OF a] assms(2) by (auto simp: took_def locks_of_def)
  show ?thesis
  proof (cases ok)
    case False
    with Inr wl assms(4) k t show ?thesis by (auto simp: under_area_lock_def in_world_def locks_of_def)
  next
    case True
    obtain s1 where m: "m (in_world w s) = (s1, r)" and s': "s' = release_area l s1"
      using Inr wl True assms(4) by (auto simp: under_area_lock_def finallyS_def split: prod.splits)
    have "locks_of s1 = kept @ [saved_lock l]"
      using movesD[OF assms(3), of "in_world w s"] m True t by (simp add: locks_kept_def locks_of_def in_world_def)
    then have "locks_of s' = kept"
      using True t by (simp add: s' release_area_def release_database_def locks_of_def release_def deleteLock_def delete_first_absent)
    with k show ?thesis by simp
  qed
qed

lemma runs_area: "moves locks_kept (catchS (case getSmartChargingImpl env of None \<Rightarrow> throwS TypeError
    | Some impl \<Rightarrow> bindS (new_run impl a) (\<lambda>_. returnS ())) (\<lambda>_. returnS ()))"
  by (intro runs runs_compute)

text \<open>What the computing of a site area leaves, whether it fails or not.\<close>

definition computed :: "request_env \<Rightarrow> owned_area \<Rightarrow> smart_state \<Rightarrow> smart_state" where
  "computed env a s = (case getSmartChargingImpl env of None \<Rightarrow> s | Some impl \<Rightarrow> fst (new_run impl a s))"

text \<open>
  The turn of a site area where no other process interferes: it is computed when its lock is obtained, which is then released;
  else the turn passes.
\<close>

definition turn :: "request_env \<Rightarrow> owned_area \<Rightarrow> smart_state \<Rightarrow> smart_state" where
  "turn env a s =
     (case createExclusiveLock (le_hash (se_vault env)) (lw_now (va_world (ss_vault s))) (le_host (se_vault env))
        (ve_tenantID (se_vault env)) LockEntity.SITE_AREA (sa_id a @ ''-smart-charging'') (3 * 60) of
        Inl _ \<Rightarrow> s
      | Inr l \<Rightarrow>
          (case acquire alone l SMART_CHARGING_LOCK_SECS True (va_world (ss_vault s)) of
             (w, ok) \<Rightarrow> if ok then release_area l (computed env a (in_world w s)) else in_world w s))"

lemma process_area_turn:
  assumes "ve_tenantID (se_vault env) \<noteq> []" and "le_others (se_vault env) = alone"
  shows "process_area env a () s = (turn env a s, Inr ())"
proof -
  let ?m = "catchS (case getSmartChargingImpl env of None \<Rightarrow> throwS TypeError
    | Some impl \<Rightarrow> bindS (new_run impl a) (\<lambda>_. returnS ())) (\<lambda>_. returnS ())"
  have m: "?m t = (computed env a t, Inr ())" for t
    by (auto simp: computed_def catchS_def returnS_def throwS_def bindS_def split: option.splits prod.splits sum.splits)
  obtain l where l: "createExclusiveLock (le_hash (se_vault env)) (lw_now (va_world (ss_vault s))) (le_host (se_vault env))
      (ve_tenantID (se_vault env)) LockEntity.SITE_AREA (sa_id a @ ''-smart-charging'') (3 * 60) = Inr l"
    using assms(1) by (simp add: createExclusiveLock_def createLock_def)
  obtain w ok where "acquire alone l SMART_CHARGING_LOCK_SECS True (va_world (ss_vault s)) = (w, ok)" by fastforce
  with l assms(2) show ?thesis
    by (simp add: process_area_def under_area_lock_def acquireSiteAreaSmartChargingLock_def acquire_new_def lock_env.defs turn_def
        finallyS_def m)
qed

text \<open>C39: where no other process interferes, the scheduled task of the smart charging is not stopped by a site area that fails: it
  returns, after the turn of every site area with smart charging, each computed on what the turns before left, and it leaves no
  lock behind that was not there, whatever the runs do.\<close>

theorem task_survives_and_unlocks:
  assumes "ve_tenantID (se_vault env) \<noteq> []" and "le_others (se_vault env) = alone" and "one_per_id (locks_of s)"
    and "smartCharging_processTenant env s = (s', r)"
  shows "r = Inr () \<and> one_per_id (locks_of s') \<and> set (locks_of s') \<subseteq> set (locks_of s)
    \<and> s' = (if isTenantComponentActive (qe_directory env) ORGANIZATION \<and> isTenantComponentActive (qe_directory env) SMART_CHARGING
            then fold (turn env) (filter sa_smartCharging (qe_siteAreas env)) s else s)"
proof -
  note step = process_area_turn[OF assms(1,2)]
  have "foldS (process_area env) as () s = (fold (turn env) as s, Inr ())
    \<and> one_per_id (locks_of (fold (turn env) as s)) \<and> set (locks_of (fold (turn env) as s)) \<subseteq> set (locks_of s)"
    if "one_per_id (locks_of s)" for as s
    using that
  proof (induction as arbitrary: s)
    case (Cons a as)
    from under_lock_alone[OF assms(2) Cons.prems runs_area step[of a s, unfolded process_area_def]]
    have k: "one_per_id (locks_of (turn env a s))" "set (locks_of (turn env a s)) \<subseteq> set (locks_of s)" by auto
    from Cons.IH[OF k(1)] k(2) show ?case by (auto simp: bindS_def step)
  qed (simp add: returnS_def)
  from this[OF assms(3), of "filter sa_smartCharging (qe_siteAreas env)"] assms(3,4) show ?thesis
    by (auto simp: smartCharging_processTenant_def returnS_def split: if_splits)
qed

end
