(* ===== verification/Request_Cases.thy ===== *)
theory Request_Cases
  imports Smart_Cases Request_Laws Access_Cases
begin

text \<open>
  The requests on charging profiles on a small tenant: \<open>sam\<close>, who administers the site \<open>s1\<close> with the station \<open>C\<close>, and a
  station \<open>F\<close> of another site.
\<close>

section \<open>A tenant\<close>

definition foreign :: charging_station where
  "foreign = (demo_station ''F'' True 96 None)\<lparr>cs_siteAreaID := Some ''Z''\<rparr>"

definition owned :: "string \<Rightarrow> string \<Rightarrow> owned_area" where
  "owned i siteID = smart_area.extend (demo_area\<lparr>sa_id := i\<rparr>) \<lparr> oa_siteID = Some siteID \<rparr>"

definition req_env :: request_env where
  "req_env = smart_env.extend (demo_env [steady, foreign] 0)
     \<lparr> qe_acl = ordered_env,
       qe_siteArea = (\<lambda>_ i. if i = ''A'' then Some (owned ''A'' ''s1'') else if i = ''Z'' then Some (owned ''Z'' ''s2'') else None),
       qe_siteAreas = [owned ''A'' ''s1'', owned ''Z'' ''s2''],
       qe_change = (\<lambda>_ _ _ _. Inr OCPPConfigurationStatus.ACCEPTED),
       qe_directory = two_sites\<lparr>dr_components := [(ORGANIZATION, True), (SMART_CHARGING, True)]\<rparr>,
       qe_smartSetting = Some (se_setting (demo_env [] 0)) \<rparr>"

lemma req_env_simps [simp]:
  "pe_stations req_env = (\<lambda>_. [steady, foreign])" "pe_connected req_env = (\<lambda>_ _. True)"
  "pe_set req_env = (\<lambda>_ _. Answer OCPPChargingProfileStatus.ACCEPTED)" "pe_hash req_env = (\<lambda>x. CHR ''#'' # x)"
  "se_vault req_env = tenant_env" "qe_acl req_env = ordered_env"
  "qe_siteArea req_env = (\<lambda>_ i. if i = ''A'' then Some (owned ''A'' ''s1'') else if i = ''Z'' then Some (owned ''Z'' ''s2'') else None)"
  "qe_change req_env = (\<lambda>_ _ _ _. Inr OCPPConfigurationStatus.ACCEPTED)"
  by (simp_all add: req_env_def smart_env.defs demo_env_def)

lemma owned_site [simp]: "oa_siteID (owned i x) = Some x"
  by (simp add: owned_def smart_area.defs)

lemma sam_updates:
  "canUpdateChargingStation (ae_acl ordered_env) sam (Some ''s1'') = Inr True"
  "canUpdateChargingStation (ae_acl ordered_env) sam (Some ''s2'') = Inr False"
  by code_simp+

lemma sam_organized: "isComponentActiveFromToken sam ORGANIZATION"
  by code_simp

lemma sam_at_C: "may_update_station req_env sam steady s = (s, Inr ())"
  by (simp add: may_update_station_def handler_simps site_of_station_def sam_organized allowed_def sam_updates assertAuthorized_def)

lemma C_found: "getChargingStation req_env ''C'' s = Some steady"
  by (simp add: getChargingStation_def)

lemma steady_more [simp]: "cs_issuer steady" "cs_supportStaticLimitation steady"
  by (simp_all add: demo_station_def sample_station_def)

section \<open>Profiles\<close>

definition demo_form :: "string option \<Rightarrow> profile_form" where
  "demo_form i = site_profile.extend (demo_plan\<lparr>spf_id := i\<rparr>) \<lparr> pfm_startGiven = True \<rparr>"

lemma demo_form_simps [simp]:
  "site_profile.truncate (demo_form i) = demo_plan\<lparr>spf_id := i\<rparr>" "spf_chargingStationID (demo_form i) = ''C''"
  "spf_chargePointID (demo_form i) = 1" "spf_id (demo_form i) = i" "prf_connectorID (demo_form i) = 1"
  by (simp_all add: demo_form_def site_profile.defs demo_plan_def smart_profile_def)

lemma C_limit: "getChargingStationAmperageLimit steady (Some (demo_point 96)) 1 = Some 120"
  by (simp add: getChargingStationAmperageLimit_def amperageLimit_of_def demo_connector_def sample_connector_def cp_selected_def)

lemma demo_form_valid: "isPost \<or> i = Some (x # xs) \<Longrightarrow> checkIfChargingProfileIsValid isPost steady (Some (demo_point 96)) (demo_form i) = Inr ()"
  by (auto simp: checkIfChargingProfileIsValid_def C_limit demo_form_def site_profile.defs demo_plan_def smart_profile_def
      within_a_day_def check_period_def truthy_str_def)

lemma steady_to_vendor:
  assumes "prf_connectorID p = 1" shows "\<exists>v. to_vendor steady (Some (demo_point 96)) p = Inr v \<and> prf_connectorID v = 1"
proof -
  have "\<exists>ys. mapE (to_vendor_period steady (Some (demo_point 96)) 1) xs = Inr ys" for xs
    by (induction xs) (auto simp: to_vendor_period_def convertLimitAmpPerPhase_def)
  then obtain ys where "mapE (to_vendor_period steady (Some (demo_point 96)) 1) (sch_periods (prf_schedule p)) = Inr ys" by blast
  with assms show ?thesis
    by (simp add: to_vendor_def convertToVendorChargingProfile_def charging_profile.defs Let_def)
qed

lemma pushed:
  assumes "prf_connectorID p = 1" "spf_chargingStationID p = ''C''" "spf_chargePointID p = 1"
  shows "\<exists>rq. setAndSaveChargingProfile req_env p s =
     (s\<lparr>ps_sent := ps_sent s @ [rq], ps_profiles := put_profile (p\<lparr>spf_id := Some (profile_id req_env p)\<rparr>) (ps_profiles s)\<rparr>,
      Inr (profile_id req_env p))"
proof -
  obtain v where v: "to_vendor steady (Some (demo_point 96)) p = Inr v" "prf_connectorID v = 1"
    using steady_to_vendor[OF assms(1)] by blast
  show ?thesis
    by (rule exI[of _ "SetProfile ''C'' 1 v"])
      (simp add: setAndSaveChargingProfile_def handler_simps C_found demo_vendor setChargingProfile_def v send_set_def log_request_def
        all_accepted_def throwS_def saveChargingProfile_def assms)
qed

lemma demo_form_saved:
  assumes "isPost \<or> i = Some (x # xs)"
  shows "\<exists>rq. service_setAndSaveChargingProfile req_env sam isPost (demo_form i) s =
     (s\<lparr>ps_sent := ps_sent s @ [rq],
        ps_profiles := put_profile (demo_plan\<lparr>spf_id := Some (profile_id req_env (demo_plan\<lparr>spf_id := i\<rparr>))\<rparr>) (ps_profiles s)\<rparr>,
      Inr (profile_id req_env (demo_plan\<lparr>spf_id := i\<rparr>)))"
proof -
  obtain rq where "setAndSaveChargingProfile req_env (demo_plan\<lparr>spf_id := i\<rparr>) s =
     (s\<lparr>ps_sent := ps_sent s @ [rq],
        ps_profiles := put_profile (demo_plan\<lparr>spf_id := Some (profile_id req_env (demo_plan\<lparr>spf_id := i\<rparr>))\<rparr>) (ps_profiles s)\<rparr>,
      Inr (profile_id req_env (demo_plan\<lparr>spf_id := i\<rparr>)))"
    using pushed[of "demo_plan\<lparr>spf_id := i\<rparr>" s] by (auto simp: demo_plan_def smart_profile_def)
  then show ?thesis
    by (intro exI[of _ rq])
      (simp add: service_setAndSaveChargingProfile_def station_for_def handler_simps C_found assertObjectExists_def fails_with_def
        demo_form_valid[OF assms] sam_at_C)
qed

theorem saved_profile_within_limits_witness:
  "\<exists>s' i. handleCreateChargingProfile req_env sam (demo_form None) (ss_profiles demo_state) = (s', Inr i)
    \<and> demo_plan\<lparr>spf_id := Some i\<rparr> \<in> set (ps_profiles s')"
proof -
  obtain s' i where s': "handleCreateChargingProfile req_env sam (demo_form None) (ss_profiles demo_state) = (s', Inr i)"
    using demo_form_saved[of True None undefined undefined "ss_profiles demo_state"] by (auto simp: handleCreateChargingProfile_def)
  from saved_profile_within_limits[OF disjI1[OF this]] s' show ?thesis by auto
qed

definition foreign_profile :: site_profile where
  "foreign_profile = demo_plan\<lparr>spf_id := Some ''k'', spf_chargingStationID := ''F''\<rparr>"

text \<open>Sam may not update the station \<open>F\<close>, whose profile is taken.\<close>

theorem update_takes_foreign_profile_witness:
  "\<exists>s' i. handleUpdateChargingProfile req_env sam (demo_form (Some ''k'')) \<lparr> ps_sent = [], ps_profiles = [foreign_profile] \<rparr> = (s', Inr i)
    \<and> foreign_profile \<notin> set (ps_profiles s')
    \<and> canUpdateChargingStation (ae_acl (qe_acl req_env)) sam (site_of_station req_env sam foreign s') = Inr False"
proof -
  let ?s = "\<lparr> ps_sent = [], ps_profiles = [foreign_profile] \<rparr>"
  have "getChargingProfile ''k'' ?s = Some foreign_profile"
    by (simp add: getChargingProfile_def getChargingProfiles_def matches_def any_profile_def profile_order_def truthy_str_def foreign_profile_def)
  then obtain s' i where s': "handleUpdateChargingProfile req_env sam (demo_form (Some ''k'')) ?s = (s', Inr i)"
    using demo_form_saved[of False "Some ''k''" "CHR ''k''" "[]" ?s]
    by (auto simp: handleUpdateChargingProfile_def handler_simps assertObjectExists_def)
  have "canUpdateChargingStation (ae_acl (qe_acl req_env)) sam (site_of_station req_env sam foreign s') = Inr False"
    by (simp add: site_of_station_def sam_organized sam_updates) (simp add: foreign_def sam_updates)
  with s' update_takes_foreign_profile[OF s', of foreign_profile] show ?thesis by (auto simp: foreign_profile_def)
qed

section \<open>A new limit\<close>

definition two_plans :: "site_profile list" where
  "two_plans = [demo_plan\<lparr>spf_id := Some ''k''\<rparr>, demo_plan\<lparr>spf_id := Some ''m'', prf_stackLevel := 3\<rparr>]"

lemma two_plans_order: "profile_order (filter (\<lambda>q. spf_chargingStationID q = ''C'') two_plans) = two_plans"
  by (simp add: two_plans_def profile_order_def demo_plan_def smart_profile_def)

lemma two_plans_exceed: "exceeds 36 (demo_plan\<lparr>spf_id := x\<rparr>)"
  by (simp add: exceeds_def demo_plan_def smart_profile_def)

lemma demo_limited:
  "\<exists>s' r. handleChargingStationLimitPower req_env sam ''C'' 1 36 True \<lparr> ps_sent = [], ps_profiles = two_plans \<rparr> = (s', Inr r)"
proof -
  let ?s = "\<lparr> ps_sent = [], ps_profiles = two_plans \<rparr>" and ?p = "capped 36 (demo_plan\<lparr>spf_id := Some ''k''\<rparr>)"
  have q: "matches (any_profile\<lparr>pq_chargingStationIDs := Some [''C''], pq_connectorID := Some 0\<rparr>) = (\<lambda>q. spf_chargingStationID q = ''C'')"
    by (rule ext) (simp add: matches_def any_profile_def truthy_num_def)
  have f: "find (exceeds 36) two_plans = Some (demo_plan\<lparr>spf_id := Some ''k''\<rparr>)"
    by (simp add: two_plans_def two_plans_exceed)
  obtain s1 i where "setAndSaveChargingProfile req_env ?p ?s = (s1, Inr i)"
    using pushed[of ?p ?s] by (auto simp: capped_def)
  then have a: "adjust_plans req_env steady 36 True ?s = (s1, Inr ())"
    by (simp add: adjust_plans_def handler_simps getChargingProfiles_def q two_plans_order f)
  have n: "getNumberOfConnectedPhases steady (Some (demo_point 96)) 0 = 3"
    by (simp add: getNumberOfConnectedPhases_def station_lookup_def cp_selected_def nonzero_def)
  have "cp_ocppParamForPowerLimitation (demo_point 96) = Some ''maxintensity''" by (simp add: demo_point_def sample_point_def)
  then obtain cs' where l: "setStaticPowerLimitation (\<lambda>_ _. Inr OCPPConfigurationStatus.ACCEPTED) 1 steady (Some (demo_point 96)) 36
      = Inr (cs', OCPPConfigurationStatus.ACCEPTED)"
    by (simp add: setStaticPowerLimitation_def hasStaticLimitationFullSupport_def static_limit_floor_def MIN_LIMIT_PER_PHASE_def
        convertLimitAmpPerPhase_def chargePointToConnectorLimitAmps_def n truthy_str_def)
  show ?thesis
    by (simp add: handleChargingStationLimitPower_def handler_simps fails_with_def station_for_def C_found assertObjectExists_def
        MIN_LIMIT_PER_PHASE_def sam_at_C demo_vendor a l n)
qed

theorem limit_leaves_other_plans_above_witness:
  "\<exists>s' r. handleChargingStationLimitPower req_env sam ''C'' 1 36 True \<lparr> ps_sent = [], ps_profiles = two_plans \<rparr> = (s', Inr r)
    \<and> (\<exists>q \<in> set (ps_profiles s'). exceeds 36 q)"
proof -
  obtain s' r where s': "handleChargingStationLimitPower req_env sam ''C'' 1 36 True \<lparr> ps_sent = [], ps_profiles = two_plans \<rparr> = (s', Inr r)"
    using demo_limited by blast
  let ?q = "demo_plan\<lparr>spf_id := Some ''m'', prf_stackLevel := 3\<rparr>"
  have "prf_stackLevel ?q \<noteq> prf_stackLevel (demo_plan\<lparr>spf_id := Some ''k''\<rparr>)" by (simp add: demo_plan_def smart_profile_def)
  then have "?q \<noteq> demo_plan\<lparr>spf_id := Some ''k''\<rparr>" by metis
  then have "?q \<in> set (ps_profiles s')"
    using limit_leaves_other_plans_above[OF s', of "demo_plan\<lparr>spf_id := Some ''k''\<rparr>" ?q]
    by (simp add: two_plans_order) (simp add: two_plans_def two_plans_exceed truthy_str_def)
  moreover have "exceeds 36 ?q" by (simp add: exceeds_def demo_plan_def smart_profile_def)
  ultimately show ?thesis using s' by blast
qed

section \<open>The task\<close>

theorem task_survives_and_unlocks_witness:
  "snd (smartCharging_processTenant req_env demo_state) = Inr () \<and> locks_of (fst (smartCharging_processTenant req_env demo_state)) = []
    \<and> fst (smartCharging_processTenant req_env demo_state) = fold (turn req_env) (filter sa_smartCharging (qe_siteAreas req_env)) demo_state
    \<and> filter sa_smartCharging (qe_siteAreas req_env) \<noteq> []"
proof -
  have e: "locks_of demo_state = []" by (simp add: locks_of_def demo_state_def)
  have a: "isTenantComponentActive (qe_directory req_env) ORGANIZATION" "isTenantComponentActive (qe_directory req_env) SMART_CHARGING"
    "filter sa_smartCharging (qe_siteAreas req_env) \<noteq> []"
    by (simp_all add: req_env_def smart_env.defs demo_env_def isTenantComponentActive_def owned_def smart_area.defs demo_area_def)
  have "ve_tenantID (se_vault req_env) \<noteq> []" "le_others (se_vault req_env) = alone" "one_per_id (locks_of demo_state)"
    by (simp_all add: e one_per_id_def tenant_env_def)
  note t = task_survives_and_unlocks[OF this surjective_pairing]
  then have "set (locks_of (fst (smartCharging_processTenant req_env demo_state))) \<subseteq> set (locks_of demo_state)" by blast
  then have "locks_of (fst (smartCharging_processTenant req_env demo_state)) = []" by (simp only: e) simp
  with t a show ?thesis by presburger
qed

end
