(* ===== verification/Ocpi_Types.thy ===== *)
theory Ocpi_Types
  imports Ocpp_Service
begin

text \<open>
  Roaming over OCPI 2.1.1: the objects that two operators exchange (src/types/ocpi) and the conversions of
  src/server/ocpi/OCPIUtils.ts, OCPIUtilsService.ts and src/utils/RoamingUtils.ts. An operator of charging stations (CPO)
  sends locations, sessions and charge detail records (CDR); an operator of users (eMSP) receives them.

  The body of a request is any JSON object, so that each property of a session or a record may be missing. The names,
  addresses and coordinates of a location play no part in what the code decides and are left out.
\<close>

section \<open>Enumerations\<close>

datatype OCPISessionStatus = ACTIVE | COMPLETED | INVALID | PENDING

datatype OCPIAuthMethod = AUTH_REQUEST | WHITELIST

datatype OCPIEvseStatus =
    AVAILABLE | BLOCKED | CHARGING | INOPERATIVE | OUTOFORDER | PLANNED | REMOVED | RESERVED | UNKNOWN

datatype OCPIConnectorType =
    CHADEMO | DOMESTIC_A | DOMESTIC_B | DOMESTIC_C | DOMESTIC_D | DOMESTIC_E | DOMESTIC_F | DOMESTIC_G | DOMESTIC_H
  | DOMESTIC_I | DOMESTIC_J | DOMESTIC_K | DOMESTIC_L | IEC_60309_2_SINGLE_16 | IEC_60309_2_THREE_16 | IEC_60309_2_THREE_32
  | IEC_60309_2_THREE_64 | IEC_62196_T1 | IEC_62196_T1_COMBO | IEC_62196_T2 | IEC_62196_T2_COMBO | IEC_62196_T3A
  | IEC_62196_T3 | TESLA_R | TESLA_S

datatype OCPIConnectorFormat = SOCKET | CABLE

datatype OCPIPowerType = AC_1_PHASE | AC_3_PHASE | DC

datatype CdrDimensionType = ENERGY | FLAT | MAX_CURRENT | MIN_CURRENT | PARKING_TIME | TIME

datatype OCPITokenType = RFID | OTHER

datatype OCPITokenWhitelist = ALWAYS | ALLOWED | ALLOWED_OFFLINE | NEVER

section \<open>Objects\<close>

record ocpi_connector =
  occ_id :: "string option"
  occ_standard :: "OCPIConnectorType option"
  occ_format :: "OCPIConnectorFormat option"
  occ_power_type :: "OCPIPowerType option"
  occ_voltage :: "Voltage option"
  occ_amperage :: "rat option"
  occ_tariff_id :: "string option"
  occ_last_updated :: "int option"

record ocpi_evse =
  evs_uid :: "string option"
  evs_evse_id :: "string option"
  evs_location_id :: "string option"
  evs_status :: "OCPIEvseStatus option"
  evs_connectors :: "ocpi_connector list option"
  evs_last_updated :: "int option"
  evs_chargingStationID :: "string option"
  evs_siteID :: "string option"
  evs_siteAreaID :: "string option"
  evs_companyID :: "string option"

record ocpi_location =
  loc_id :: "string option"
  loc_evses :: "ocpi_evse list option"
  loc_last_updated :: "int option"

record cdr_dimension =
  dim_type :: "CdrDimensionType option"
  dim_volume :: "rat option"

record charging_period =
  cper_start_date_time :: "int option"
  cper_dimensions :: "cdr_dimension list option"

record ocpi_session =
  os_id :: "string option"
  os_authorization_id :: "string option"
  os_start_datetime :: "int option"
  os_end_datetime :: "int option"
  os_kwh :: "rat option"
  os_auth_id :: "string option"
  os_auth_method :: "OCPIAuthMethod option"
  os_location :: "ocpi_location option"
  os_currency :: "string option"
  os_charging_periods :: "charging_period list option"
  os_total_cost :: "rat option"
  os_status :: "OCPISessionStatus option"
  os_last_updated :: "int option"

record ocpi_cdr =
  cdr_id :: "string option"
  cdr_authorization_id :: "string option"
  cdr_start_date_time :: "int option"
  cdr_stop_date_time :: "int option"
  cdr_auth_id :: "string option"
  cdr_auth_method :: "OCPIAuthMethod option"
  cdr_location :: "ocpi_location option"
  cdr_currency :: "string option"
  cdr_charging_periods :: "charging_period list option"
  cdr_total_cost :: "rat option"
  cdr_total_energy :: "rat option"
  cdr_total_time :: "rat option"
  cdr_total_parking_time :: "rat option"
  cdr_last_updated :: "int option"

record ocpi_token =
  otk_uid :: "string option"
  otk_type :: "OCPITokenType option"
  otk_auth_id :: "string option"
  otk_visual_number :: "string option"
  otk_issuer :: "string option"
  otk_valid :: "bool option"
  otk_whitelist :: "OCPITokenWhitelist option"
  otk_last_updated :: "int option"

definition no_session :: ocpi_session where
  "no_session = \<lparr> os_id = None, os_authorization_id = None, os_start_datetime = None, os_end_datetime = None, os_kwh = None,
     os_auth_id = None, os_auth_method = None, os_location = None, os_currency = None, os_charging_periods = None,
     os_total_cost = None, os_status = None, os_last_updated = None \<rparr>"

text \<open>\<^verbatim>\<open>TransactionOcpiData\<close> of a transaction.\<close>

record ocpi_data =
  od_session :: "ocpi_session option"
  od_cdr :: "ocpi_cdr option"
  od_sessionCheckedOn :: "int option"
  od_cdrCheckedOn :: "int option"

definition no_ocpi_data :: ocpi_data where
  "no_ocpi_data = \<lparr> od_session = None, od_cdr = None, od_sessionCheckedOn = None, od_cdrCheckedOn = None \<rparr>"

record roaming_transaction = transaction +
  rtx_ocpiData :: "ocpi_data option"

text \<open>\<^verbatim>\<open>transaction.ocpiData?.session\<close> and \<^verbatim>\<open>transaction.ocpiData?.cdr\<close>\<close>

definition session_of :: "roaming_transaction \<Rightarrow> ocpi_session option" where
  "session_of t = Option.bind (rtx_ocpiData t) od_session"

definition cdr_of :: "roaming_transaction \<Rightarrow> ocpi_cdr option" where
  "cdr_of t = Option.bind (rtx_ocpiData t) od_cdr"

text \<open>\<^verbatim>\<open>RemoteAuthorization\<close>: a start that an eMSP has asked for on a connector.\<close>

record connector_authorization =
  cau_id :: string
  cau_connectorId :: int
  cau_tagId :: string
  cau_timestamp :: int

text \<open>
  A station as the roaming sees it: the properties \<^verbatim>\<open>id\<close> of its connectors, in their order, the EVSEs that were exchanged,
  the starts asked for, and the tariffs of the connectors (by \<^verbatim>\<open>connectorId\<close>), of the station, its site area and its site.
\<close>

record roaming_station = charging_station +
  rsn_connectorIds :: "string option list"
  rsn_noStatus :: "int list"
  rsn_evses :: "ocpi_evse list"
  rsn_remoteAuthorizations :: "connector_authorization list"
  rsn_connectorTariffs :: "(int \<times> string) list"
  rsn_tariffID :: "string option"
  rsn_siteAreaTariffID :: "string option"
  rsn_siteTariffID :: "string option"

section \<open>Statuses and connector types\<close>

fun convertOCPIStatus2Status :: "OCPIEvseStatus option \<Rightarrow> ChargePointStatus" where
  "convertOCPIStatus2Status (Some OCPIEvseStatus.AVAILABLE) = ChargePointStatus.AVAILABLE"
| "convertOCPIStatus2Status (Some OCPIEvseStatus.BLOCKED) = ChargePointStatus.OCCUPIED"
| "convertOCPIStatus2Status (Some OCPIEvseStatus.CHARGING) = ChargePointStatus.CHARGING"
| "convertOCPIStatus2Status (Some OCPIEvseStatus.INOPERATIVE) = ChargePointStatus.FAULTED"
| "convertOCPIStatus2Status (Some OCPIEvseStatus.OUTOFORDER) = ChargePointStatus.FAULTED"
| "convertOCPIStatus2Status (Some OCPIEvseStatus.PLANNED) = ChargePointStatus.RESERVED"
| "convertOCPIStatus2Status (Some OCPIEvseStatus.RESERVED) = ChargePointStatus.RESERVED"
| "convertOCPIStatus2Status _ = ChargePointStatus.UNAVAILABLE"

fun convertStatus2OCPIStatus :: "ChargePointStatus \<Rightarrow> OCPIEvseStatus" where
  "convertStatus2OCPIStatus ChargePointStatus.AVAILABLE = OCPIEvseStatus.AVAILABLE"
| "convertStatus2OCPIStatus ChargePointStatus.OCCUPIED = OCPIEvseStatus.BLOCKED"
| "convertStatus2OCPIStatus ChargePointStatus.CHARGING = OCPIEvseStatus.CHARGING"
| "convertStatus2OCPIStatus ChargePointStatus.FAULTED = OCPIEvseStatus.INOPERATIVE"
| "convertStatus2OCPIStatus ChargePointStatus.UNAVAILABLE = OCPIEvseStatus.INOPERATIVE"
| "convertStatus2OCPIStatus ChargePointStatus.PREPARING = OCPIEvseStatus.BLOCKED"
| "convertStatus2OCPIStatus ChargePointStatus.SUSPENDED_EV = OCPIEvseStatus.BLOCKED"
| "convertStatus2OCPIStatus ChargePointStatus.SUSPENDED_EVSE = OCPIEvseStatus.BLOCKED"
| "convertStatus2OCPIStatus ChargePointStatus.FINISHING = OCPIEvseStatus.BLOCKED"
| "convertStatus2OCPIStatus ChargePointStatus.RESERVED = OCPIEvseStatus.RESERVED"

definition convertOCPIConnectorType2ConnectorType :: "OCPIConnectorType option \<Rightarrow> ConnectorType" where
  "convertOCPIConnectorType2ConnectorType ty =
     (case ty of
        None \<Rightarrow> ConnectorType.UNKNOWN
      | Some c \<Rightarrow>
          if c = OCPIConnectorType.CHADEMO then ConnectorType.CHADEMO
          else if c = IEC_62196_T2 then TYPE_2
          else if c = IEC_62196_T2_COMBO then COMBO_CCS
          else if c \<in> {IEC_62196_T3, IEC_62196_T3A} then TYPE_3C
          else if c = IEC_62196_T1 then TYPE_1
          else if c = IEC_62196_T1_COMBO then TYPE_1_CCS
          else if c \<in> {DOMESTIC_A, DOMESTIC_B, DOMESTIC_C, DOMESTIC_D, DOMESTIC_E, DOMESTIC_F, DOMESTIC_G, DOMESTIC_H,
                       DOMESTIC_I, DOMESTIC_J, DOMESTIC_K, DOMESTIC_L} then DOMESTIC
          else ConnectorType.UNKNOWN)"

definition status_order :: "ChargePointStatus list" where
  "status_order = [ChargePointStatus.AVAILABLE, ChargePointStatus.OCCUPIED, ChargePointStatus.CHARGING, ChargePointStatus.FAULTED]"

text \<open>\<^verbatim>\<open>indexOf\<close> is -1 for a status that is not in the list, which is above no index.\<close>

fun index_of :: "'a \<Rightarrow> 'a list \<Rightarrow> int" where
  "index_of x [] = -1"
| "index_of x (y # ys) = (if x = y then 0 else if index_of x ys = -1 then -1 else 1 + index_of x ys)"

definition convertToOneConnectorStatus :: "connector list \<Rightarrow> ChargePointStatus" where
  "convertToOneConnectorStatus cons =
     status_order ! nat (foldl (\<lambda>i c. if index_of (con_status c) status_order > i then index_of (con_status c) status_order else i) 0 cons)"

section \<open>Identifiers\<close>

definition OCPI_SEPARATOR :: char where "OCPI_SEPARATOR = CHR ''*''"

text \<open>\<^verbatim>\<open>s.split(c).pop()\<close>: what follows the last \<open>c\<close>.\<close>

definition last_part :: "char \<Rightarrow> string \<Rightarrow> string" where
  "last_part c s = rev (takeWhile (\<lambda>x. x \<noteq> c) (rev s))"

definition getConnectorIDFromEvseID :: "string \<Rightarrow> string" where
  "getConnectorIDFromEvseID evseID = last_part OCPI_SEPARATOR evseID"

definition getOCPIEmspLocationIDFromSiteAreaName :: "string \<Rightarrow> string" where
  "getOCPIEmspLocationIDFromSiteAreaName siteAreaName = last_part OCPI_SEPARATOR siteAreaName"

definition buildEvseUID :: "charging_station \<Rightarrow> connector \<Rightarrow> string" where
  "buildEvseUID cs c =
     (let own = cs_id cs @ ''*'' @ show_int (con_connectorId c)
      in if truthy_num (con_chargePointID c) then
           (case getChargePointFromID cs (or_else (con_chargePointID c) 0) of
              Some cp \<Rightarrow> if cp_cannotChargeInParallel cp then cs_id cs @ ''*'' @ show_int (cp_chargePointID cp) else own
            | None \<Rightarrow> own)
         else own)"

definition buildEvseUIDs :: "charging_station \<Rightarrow> string list" where
  "buildEvseUIDs cs = map (buildEvseUID cs) (connectors_of cs)"

definition buildOperatorName :: "string \<Rightarrow> string \<Rightarrow> string" where
  "buildOperatorName countryCode partyId = countryCode @ ''*'' @ partyId"

definition is_alnum :: "char \<Rightarrow> bool" where
  "is_alnum c = (let n = of_char c :: nat in 48 \<le> n \<and> n \<le> 57 \<or> 65 \<le> n \<and> n \<le> 90 \<or> 97 \<le> n \<and> n \<le> 122)"

text \<open>\<^verbatim>\<open>replace(/[\W_]+/g, '*')\<close>: each run of other characters becomes one star.\<close>

fun star_runs :: "bool \<Rightarrow> string \<Rightarrow> string" where
  "star_runs starred [] = []"
| "star_runs starred (c # cs) =
     (if is_alnum c then c # star_runs False cs
      else if starred then star_runs True cs
      else CHR ''*'' # star_runs True cs)"

definition upper_ascii :: "char \<Rightarrow> char" where
  "upper_ascii c = (let n = of_char c :: nat in if 97 \<le> n \<and> n \<le> 122 then char_of (n - 32) else c)"

definition buildEvseID :: "string \<Rightarrow> string \<Rightarrow> string \<Rightarrow> int \<Rightarrow> string" where
  "buildEvseID countryCode partyId chargingStationID connectorID =
     map upper_ascii (star_runs False
       (buildOperatorName countryCode partyId @ ''*E'' @ chargingStationID @ ''*'' @ show_int connectorID))"

definition getOCPITokenTypeFromID :: "string \<Rightarrow> OCPITokenType" where
  "getOCPITokenTypeFromID tagID = (if length tagID mod 8 = 0 then RFID else OCPITokenType.OTHER)"

section \<open>Validation\<close>

definition validateToken :: "ocpi_token \<Rightarrow> bool" where
  "validateToken k = (truthy_str (otk_uid k) \<and> truthy_str (otk_auth_id k) \<and> otk_type k \<noteq> None \<and> truthy_str (otk_issuer k)
     \<and> otk_whitelist k \<noteq> None \<and> otk_last_updated k \<noteq> None)"

definition validateLocation :: "ocpi_location \<Rightarrow> bool" where
  "validateLocation l = (case loc_evses l of Some [e] \<Rightarrow> truthy_str (evs_uid e) | _ \<Rightarrow> False)"

definition validateSession :: "ocpi_session \<Rightarrow> bool" where
  "validateSession s = (truthy_str (os_id s) \<and> os_start_datetime s \<noteq> None \<and> truthy_str (os_auth_id s) \<and> os_auth_method s \<noteq> None
     \<and> truthy_str (os_currency s) \<and> os_status s \<noteq> None \<and> os_last_updated s \<noteq> None
     \<and> (case os_location s of None \<Rightarrow> False | Some l \<Rightarrow> validateLocation l))"

definition validateCdr :: "ocpi_cdr \<Rightarrow> bool" where
  "validateCdr c = (truthy_str (cdr_id c) \<and> cdr_start_date_time c \<noteq> None \<and> cdr_stop_date_time c \<noteq> None \<and> truthy_str (cdr_auth_id c)
     \<and> cdr_auth_method c \<noteq> None \<and> truthy_str (cdr_currency c) \<and> cdr_charging_periods c \<noteq> None \<and> cdr_last_updated c \<noteq> None
     \<and> (case cdr_location c of None \<Rightarrow> False | Some l \<Rightarrow> validateLocation l))"

end
