(* ===== verification/Ocpi_Sessions.thy ===== *)
theory Ocpi_Sessions
  imports Ocpi_Types
begin

text \<open>
  The sessions and charge detail records that an eMSP receives (\<^verbatim>\<open>updateTransaction\<close>, \<^verbatim>\<open>processCdr\<close> of
  OCPIUtilsService.ts, the endpoints EMSPSessionsEndpoint.ts and EMSPCdrsEndpoint.ts), the stations it learns of
  (\<^verbatim>\<open>processEMSPLocationChargingStation\<close> of OCPIUtils.ts), and the pulls of EmspOCPIClient.ts.

  Requests that the code handles two at a time run one after the other here.
\<close>

section \<open>State\<close>

text \<open>\<open>eme_blank\<close> is the station object on which no property is set; \<open>eme_timezone\<close> the lookup of its coordinates.\<close>

record emsp_env =
  eme_now :: int
  eme_user :: "string \<Rightarrow> user option"
  eme_newID :: "int list \<Rightarrow> int"
  eme_timezone :: "roaming_station \<Rightarrow> string option"
  eme_blank :: roaming_station

record emsp_state =
  ems_transactions :: "roaming_transaction list"
  ems_consumptions :: "meter_consumption list"
  ems_stations :: "roaming_station list"

type_synonym 'a emsp_handler = "(emsp_state, 'a) handler"

definition BAD_REQUEST :: int where "BAD_REQUEST = 400"

definition GENERAL_ERROR_CODE :: int where "GENERAL_ERROR_CODE = 500"

section \<open>Storage\<close>

definition stored_roaming :: "roaming_transaction \<Rightarrow> roaming_transaction" where
  "stored_roaming t = transaction.extend (stored (transaction.truncate t)) (transaction.more t)"

fun replace_roaming :: "roaming_transaction \<Rightarrow> roaming_transaction list \<Rightarrow> roaming_transaction list" where
  "replace_roaming t [] = [t]"
| "replace_roaming t (u # us) = (if tx_id u = tx_id t then t # us else u # replace_roaming t us)"

text \<open>A transaction without an identifier gets one when it is saved; the object keeps it.\<close>

definition with_id :: "emsp_env \<Rightarrow> emsp_state \<Rightarrow> roaming_transaction \<Rightarrow> roaming_transaction" where
  "with_id env s t = (if tx_id t = 0 then t\<lparr>tx_id := eme_newID env (map tx_id (ems_transactions s))\<rparr> else t)"

definition save_roaming :: "emsp_env \<Rightarrow> roaming_transaction \<Rightarrow> roaming_transaction emsp_handler" where
  "save_roaming env t =
     bindS (readS (\<lambda>s. with_id env s t)) (\<lambda>t'.
     bindS (modifyS (\<lambda>s. s\<lparr>ems_transactions := replace_roaming (stored_roaming t') (ems_transactions s)\<rparr>)) (\<lambda>_. returnS t'))"

definition has_session :: "string \<Rightarrow> roaming_transaction \<Rightarrow> bool" where
  "has_session i t = (case session_of t of None \<Rightarrow> False | Some x \<Rightarrow> os_id x = Some i)"

definition getOCPITransactionBySessionID :: "string \<Rightarrow> emsp_state \<Rightarrow> roaming_transaction option" where
  "getOCPITransactionBySessionID i s = (case filter (has_session i) (ems_transactions s) of [t] \<Rightarrow> Some t | _ \<Rightarrow> None)"

text \<open>The two conditions of the query may be met by different EVSEs of a station.\<close>

definition getChargingStationByOcpiLocationEvseUid :: "string option \<Rightarrow> string \<Rightarrow> roaming_station list \<Rightarrow> roaming_station option" where
  "getChargingStationByOcpiLocationEvseUid locationID uid stations =
     (case filter (\<lambda>cs. list_ex (\<lambda>e. evs_uid e = Some uid) (rsn_evses cs) \<and> list_ex (\<lambda>e. evs_location_id e = locationID) (rsn_evses cs)
         \<and> \<not> cs_deleted cs) stations of [cs] \<Rightarrow> Some cs | _ \<Rightarrow> None)"

definition station_by_id :: "string \<Rightarrow> emsp_state \<Rightarrow> roaming_station option" where
  "station_by_id i s = find (\<lambda>cs. cs_id cs = i \<and> \<not> cs_deleted cs) (ems_stations s)"

fun replace_station :: "roaming_station \<Rightarrow> roaming_station list \<Rightarrow> roaming_station list" where
  "replace_station c [] = [c]"
| "replace_station c (d # ds) = (if cs_id d = cs_id c then c # ds else d # replace_station c ds)"

text \<open>\<^verbatim>\<open>filterConnectorMDB\<close>: numbers that are undefined become 0. (So does a voltage, which has no value 0 here.)\<close>

definition stored_connector :: "connector \<Rightarrow> connector" where
  "stored_connector c = c\<lparr>con_currentInstantWatts := to_float (con_currentInstantWatts c),
     con_currentTotalConsumptionWh := to_float (con_currentTotalConsumptionWh c),
     con_currentTotalInactivitySecs := to_float (con_currentTotalInactivitySecs c),
     con_currentTransactionID := Some (or_num (con_currentTransactionID c) 0), con_power := to_float (con_power c),
     con_amperage := to_float (con_amperage c), con_amperageLimit := to_float (con_amperageLimit c)\<rparr>"

section \<open>The consumption of a session\<close>

definition on_runtime :: "(runtime \<Rightarrow> runtime) \<Rightarrow> roaming_transaction \<Rightarrow> roaming_transaction" where
  "on_runtime f t = t\<lparr>tx_run := f (tx_run t)\<rparr>"

definition last_session :: "roaming_transaction \<Rightarrow> last_consumption" where
  "last_session t = (case rt_lastConsumption (tx_run t) of
     None \<Rightarrow> \<lparr> lc_value = tx_meterStart t, lc_timestamp = tx_timestamp t \<rparr> | Some l \<Rightarrow> l)"

definition ms_to_secs :: "int \<Rightarrow> rat" where
  "ms_to_secs d = of_int d / 1000"

text \<open>The transaction carries no station here, so that the level of its inactivity is that of an unknown connector.\<close>

definition consumed :: "rat \<Rightarrow> rat \<Rightarrow> roaming_transaction \<Rightarrow> roaming_transaction" where
  "consumed consumptionWh duration t = on_runtime (\<lambda>r.
     let watts = (if consumptionWh > 0 then consumptionWh * (if duration > 0 then 3600 / duration else 0) else 0);
         wh = (if consumptionWh > 0 then consumptionWh else 0);
         r' = r\<lparr>rt_watts := (rt_watts r)\<lparr>rd_total := Some watts\<rparr>, rt_currentConsumptionWh := wh,
           rt_currentTotalConsumptionWh := rt_currentTotalConsumptionWh r + wh\<rparr>
     in if consumptionWh \<le> 0 then
          (let secs = rt_currentTotalInactivitySecs r + duration
           in r'\<lparr>rt_currentTotalInactivitySecs := secs,
                rt_currentInactivityStatus := (if secs = 0 then INFO else ERROR)\<rparr>)
        else r') t"

definition floor_rat :: "rat \<Rightarrow> rat" where
  "floor_rat x = of_int \<lfloor>x\<rfloor>"

definition session_consumption :: "roaming_transaction \<Rightarrow> last_consumption \<Rightarrow> ocpi_session \<Rightarrow> rat \<Rightarrow> meter_consumption" where
  "session_consumption t l x amount =
     (let r = tx_run t in
      \<lparr> mc_transactionId = tx_id t, mc_connectorId = tx_connectorId t, mc_chargeBoxID = tx_chargeBoxID t, mc_siteAreaID = None,
        mc_siteID = None, mc_userID = tx_userID t, mc_startedAt = Some (lc_timestamp l), mc_endedAt = or_else (os_last_updated x) 0,
        mc_stateOfCharge = Some (rt_currentStateOfCharge r),
        mc_watts = no_readings\<lparr>rd_total := Some (floor_rat (or_num (rd_total (rt_watts r)) 0))\<rparr>, mc_volts = no_readings,
        mc_amps = no_readings\<lparr>rd_total := Some (floor_rat (or_num (rd_total (rt_amps r)) 0))\<rparr>,
        mc_consumptionWh = Some (rt_currentConsumptionWh r), mc_consumptionAmps = None,
        mc_cumulatedConsumptionWh = Some (rt_currentTotalConsumptionWh r),
        mc_cumulatedConsumptionAmps = Some (floor_rat (rt_currentTotalConsumptionWh r / 230)), mc_inactivitySecs = None,
        mc_totalInactivitySecs = Some (rt_currentTotalInactivitySecs r),
        mc_totalDurationSecs = Some (ms_to_secs ((case tx_stop t of Some st \<Rightarrow> stop_timestamp st | None \<Rightarrow> lc_timestamp l) - tx_timestamp t)),
        mc_limit = None, mc_siteLimit = None, mc_cumulatedAmount = os_total_cost x, mc_amount = Some amount, mc_roundedAmount = None,
        mc_currencyCode = os_currency x, mc_pricingSource = None, mc_toPrice = False \<rparr>)"

text \<open>
  \<^verbatim>\<open>minus\<close> of decimal.js rejects a price that is undefined; the identifier of a consumption is built from the one of its
  transaction, which must be set.
\<close>

definition save_session_consumption :: "meter_consumption \<Rightarrow> unit emsp_handler" where
  "save_session_consumption c =
     (if mc_transactionId c = 0 then throwS (BackendError ''Consumption cannot be saved'')
      else modifyS (\<lambda>s. s\<lparr>ems_consumptions := replace_consumption (stored_consumption c) (ems_consumptions s)\<rparr>))"

definition computeAndSaveConsumption :: "roaming_transaction \<Rightarrow> last_consumption \<Rightarrow> ocpi_session \<Rightarrow> roaming_transaction emsp_handler" where
  "computeAndSaveConsumption t l x =
     (let consumptionWh = or_num (os_kwh x) 0 * 1000 - lc_value l;
          duration = ms_to_secs (or_else (os_last_updated x) 0 - lc_timestamp l)
      in if consumptionWh > 0 \<or> duration > 0 then
           (case tx_price t of
              None \<Rightarrow> throwS DecimalError
            | Some price \<Rightarrow>
                let t' = consumed consumptionWh duration t
                in bindS (save_session_consumption (session_consumption t' l x (or_num (os_total_cost x) 0 - price))) (\<lambda>_. returnS t'))
         else returnS t)"

section \<open>A session becomes a transaction\<close>

definition connector_of_evse :: "roaming_station \<Rightarrow> ocpi_evse \<Rightarrow> int" where
  "connector_of_evse cs e =
     (case evs_connectors e of
        Some [oc] \<Rightarrow> foldl (\<lambda>cid (i, c). if occ_id oc = i then con_connectorId c else cid) 1 (zip (rsn_connectorIds cs) (connectors_of (charging_station.truncate cs)))
      | _ \<Rightarrow> 1)"

definition new_roaming_transaction :: "emsp_env \<Rightarrow> ocpi_session \<Rightarrow> user \<Rightarrow> roaming_station \<Rightarrow> ocpi_evse \<Rightarrow> roaming_transaction" where
  "new_roaming_transaction env x u cs e =
     \<lparr> tx_id = 0, tx_chargeBoxID = cs_id cs, tx_connectorId = connector_of_evse cs e, tx_companyID = None, tx_siteID = None,
       tx_siteAreaID = None, tx_issuer = False, tx_tagID = os_auth_id x, tx_userID = Some (usr_id u), tx_user = None,
       tx_authorizationID = None, tx_signedData = [], tx_meterStart = 0, tx_timestamp = or_else (os_start_datetime x) 0,
       tx_timezone = eme_timezone env cs, tx_price = None, tx_roundedPrice = None, tx_priceUnit = None,
       tx_pricingSource = Some PricingSource.OCPI, tx_pricingModel = None, tx_stateOfCharge = 0, tx_phasesUsed = None,
       tx_run = blank_runtime\<lparr>rt_watts := no_readings\<lparr>rd_total := Some 0\<rparr>,
         rt_lastConsumption := Some \<lparr> lc_value = 0, lc_timestamp = or_else (os_start_datetime x) 0 \<rparr>\<rparr>,
       tx_remotestop = None, tx_stop = None, tx_billingData = None, rtx_ocpiData = None \<rparr>"

definition evse_of_session :: "ocpi_session \<Rightarrow> ocpi_evse option" where
  "evse_of_session x = (case Option.bind (os_location x) loc_evses of Some (e # _) \<Rightarrow> Some e | _ \<Rightarrow> None)"

definition create_roaming :: "emsp_env \<Rightarrow> ocpi_session \<Rightarrow> roaming_transaction emsp_handler" where
  "create_roaming env x =
     (case eme_user env (or_else (os_auth_id x) []) of
        None \<Rightarrow> throwS (AppError GENERAL_ERROR_CODE ''No User found'')
      | Some u \<Rightarrow>
          (case evse_of_session x of
             None \<Rightarrow> throwS TypeError
           | Some e \<Rightarrow>
               bindS (readS (\<lambda>s. getChargingStationByOcpiLocationEvseUid (Option.bind (os_location x) loc_id) (or_else (evs_uid e) []) (ems_stations s))) (\<lambda>found.
               case found of
                 None \<Rightarrow> throwS (AppError GENERAL_ERROR_CODE ''Charging Station does not exist'')
               | Some cs \<Rightarrow> returnS (new_roaming_transaction env x u cs e))))"

text \<open>The end of a session that has no date is now.\<close>

definition session_stop :: "emsp_env \<Rightarrow> ocpi_session \<Rightarrow> roaming_transaction \<Rightarrow> transaction_stop" where
  "session_stop env x t =
     (let kwh = or_num (os_kwh x) 0; cost = or_num (os_total_cost x) 0; stopTimestamp = or_else (os_end_datetime x) (eme_now env) in
      \<lparr> stop_timestamp = stopTimestamp, stop_meterStop = kwh * 1000, stop_reason = None, stop_tagID = os_auth_id x,
        stop_userID = tx_userID t, stop_price = Some cost, stop_roundedPrice = Some (truncTo cost 2), stop_priceUnit = os_currency x,
        stop_pricingSource = Some PricingSource.OCPI, stop_stateOfCharge = 0,
        stop_totalInactivitySecs = rt_currentTotalInactivitySecs (tx_run t), stop_extraInactivitySecs = 0,
        stop_extraInactivityComputed = False, stop_totalConsumptionWh = kwh * 1000,
        stop_totalDurationSecs = Some (math_round (ms_to_secs (stopTimestamp - tx_timestamp t))),
        stop_inactivityStatus = rt_currentInactivityStatus (tx_run t), stop_signedData = [] \<rparr>)"

definition with_session_data :: "ocpi_session \<Rightarrow> roaming_transaction \<Rightarrow> roaming_transaction" where
  "with_session_data x t =
     (on_runtime (\<lambda>r. r\<lparr>rt_currentTimestamp := os_last_updated x,
        rt_lastConsumption := Some \<lparr> lc_value = or_num (os_kwh x) 0 * 1000, lc_timestamp = or_else (os_last_updated x) 0 \<rparr>\<rparr>) t)
     \<lparr>rtx_ocpiData := Some ((or_else (rtx_ocpiData t) no_ocpi_data)\<lparr>od_session := Some x\<rparr>), tx_price := Some (or_num (os_total_cost x) 0),
      tx_priceUnit := os_currency x, tx_roundedPrice := Some (truncTo (or_num (os_total_cost x) 0) 2)\<rparr>"

definition ends :: "ocpi_session \<Rightarrow> bool" where
  "ends x = (os_end_datetime x \<noteq> None \<or> os_status x = Some OCPISessionStatus.COMPLETED)"

definition with_session :: "emsp_env \<Rightarrow> ocpi_session \<Rightarrow> roaming_transaction \<Rightarrow> roaming_transaction" where
  "with_session env x t =
     (let t' = with_session_data x t in if ends x then t'\<lparr>tx_stop := Some (session_stop env x t')\<rparr> else t')"

section \<open>Its connector\<close>

text \<open>\<^verbatim>\<open>a && b || c\<close>: the transaction of the connector counts wherever it is.\<close>

definition concerned :: "roaming_transaction \<Rightarrow> connector \<Rightarrow> bool" where
  "concerned t c = (con_connectorId c = tx_connectorId t \<and> con_currentTransactionID c = Some 0 \<or> con_currentTransactionID c = Some (tx_id t))"

definition occupied :: "roaming_transaction \<Rightarrow> connector \<Rightarrow> connector" where
  "occupied t c = c\<lparr>con_currentTransactionID := Some (tx_id t), con_currentInactivityStatus := Some (rt_currentInactivityStatus (tx_run t)),
     con_currentTagID := tx_tagID t, con_currentStateOfCharge := Some (rt_currentStateOfCharge (tx_run t)),
     con_currentInstantWatts := rd_total (rt_watts (tx_run t)),
     con_currentTotalConsumptionWh := Some (rt_currentTotalConsumptionWh (tx_run t)),
     con_currentTransactionDate := rt_currentTimestamp (tx_run t),
     con_currentTotalInactivitySecs := Some (rt_currentTotalInactivitySecs (tx_run t))\<rparr>"

definition freed :: "connector \<Rightarrow> connector" where
  "freed c = c\<lparr>con_status := ChargePointStatus.AVAILABLE, con_currentTransactionID := Some 0, con_currentTransactionDate := None,
     con_currentTagID := None, con_currentTotalConsumptionWh := Some 0, con_currentStateOfCharge := Some 0,
     con_currentTotalInactivitySecs := Some 0, con_currentInstantWatts := Some 0, con_currentInactivityStatus := None\<rparr>"

definition with_roaming :: "roaming_transaction \<Rightarrow> connector \<Rightarrow> connector" where
  "with_roaming t c = (if concerned t c then if tx_stop t = None then occupied t c else freed c else c)"

text \<open>
  The loop saves all connectors at each one it changes; the last time counts. A running transaction has no property
  \<^verbatim>\<open>status\<close>, which the connector takes over.
\<close>

definition update_station :: "roaming_transaction \<Rightarrow> roaming_station \<Rightarrow> roaming_station" where
  "update_station t cs =
     (let cons = connectors_of (charging_station.truncate cs); hit = map con_connectorId (filter (concerned t) cons)
      in if hit = [] then cs
         else cs\<lparr>cs_connectors := Some (map (\<lambda>c. stored_connector (with_roaming t c)) cons),
                rsn_noStatus := (if tx_stop t = None then hit @ rsn_noStatus cs else filter (\<lambda>i. i \<notin> set hit) (rsn_noStatus cs))\<rparr>)"

definition updateConnector :: "roaming_transaction \<Rightarrow> unit emsp_handler" where
  "updateConnector t = modifyS (\<lambda>s.
     case station_by_id (tx_chargeBoxID t) s of
       None \<Rightarrow> s
     | Some cs \<Rightarrow> s\<lparr>ems_stations := replace_station (update_station t cs) (ems_stations s)\<rparr>)"

section \<open>Sessions\<close>

definition with_defaults :: "ocpi_session \<Rightarrow> ocpi_session" where
  "with_defaults x = x\<lparr>os_total_cost := Some (or_num (os_total_cost x) 0), os_kwh := Some (or_num (os_kwh x) 0)\<rparr>"

definition apply_session :: "emsp_env \<Rightarrow> ocpi_session \<Rightarrow> roaming_transaction \<Rightarrow> unit emsp_handler" where
  "apply_session env x t =
     (if or_else (os_last_updated x) 0 < lc_timestamp (last_session t) then returnS ()
      else
        bindS (if or_num (os_kwh x) 0 > 0 then computeAndSaveConsumption t (last_session t) x else returnS t) (\<lambda>t1.
        bindS (save_roaming env (with_session env x t1)) (\<lambda>t2.
        updateConnector t2)))"

definition updateTransaction :: "emsp_env \<Rightarrow> ocpi_session \<Rightarrow> roaming_transaction option \<Rightarrow> unit emsp_handler" where
  "updateTransaction env session given =
     (if \<not> validateSession session then throwS (AppError BAD_REQUEST ''Session object is invalid'')
      else let x = with_defaults session in
        bindS (readS (\<lambda>s. case given of Some t \<Rightarrow> Some t | None \<Rightarrow> getOCPITransactionBySessionID (or_else (os_id x) []) s)) (\<lambda>found.
        bindS (case found of Some t \<Rightarrow> returnS t | None \<Rightarrow> create_roaming env x) (\<lambda>t.
        apply_session env x t)))"

end
