(* ===== verification/Ocpi_Emsp.thy ===== *)
theory Ocpi_Emsp
  imports Ocpi_Sessions
begin

text \<open>
  What else an eMSP does: the charge detail records, the endpoints for sessions and records (EMSPSessionsEndpoint.ts,
  EMSPCdrsEndpoint.ts), the stations of a location (OCPIUtils.ts), the pulls of pages and the remote commands of
  EmspOCPIClient.ts.
\<close>

section \<open>Charge detail records\<close>

definition cdr_defaults :: "ocpi_cdr \<Rightarrow> ocpi_cdr" where
  "cdr_defaults c = c\<lparr>cdr_total_cost := Some (or_num (cdr_total_cost c) 0), cdr_total_energy := Some (or_num (cdr_total_energy c) 0),
     cdr_total_time := Some (or_num (cdr_total_time c) 0), cdr_total_parking_time := Some (or_num (cdr_total_parking_time c) 0)\<rparr>"

definition cdr_stop :: "ocpi_cdr \<Rightarrow> roaming_transaction \<Rightarrow> transaction_stop" where
  "cdr_stop c t =
     (let cost = or_num (cdr_total_cost c) 0; wh = or_num (cdr_total_energy c) 0 * 1000 in
      \<lparr> stop_timestamp = or_else (cdr_stop_date_time c) 0, stop_meterStop = wh, stop_reason = None, stop_tagID = cdr_auth_id c,
        stop_userID = tx_userID t, stop_price = Some cost, stop_roundedPrice = Some (truncTo cost 2), stop_priceUnit = cdr_currency c,
        stop_pricingSource = Some PricingSource.OCPI, stop_stateOfCharge = 0,
        stop_totalInactivitySecs = or_num (cdr_total_parking_time c) 0 * 3600, stop_extraInactivitySecs = 0,
        stop_extraInactivityComputed = False, stop_totalConsumptionWh = wh,
        stop_totalDurationSecs = Some (or_num (cdr_total_time c) 0 * 3600),
        stop_inactivityStatus = rt_currentInactivityStatus (tx_run t), stop_signedData = [] \<rparr>)"

definition with_cdr :: "ocpi_cdr \<Rightarrow> roaming_transaction \<Rightarrow> roaming_transaction" where
  "with_cdr c t =
     (on_runtime (\<lambda>r. r\<lparr>rt_currentTimestamp := cdr_last_updated c\<rparr>) t)
     \<lparr>tx_priceUnit := cdr_currency c, tx_price := cdr_total_cost c, tx_roundedPrice := Some (truncTo (or_num (cdr_total_cost c) 0) 2),
      tx_stop := Some (cdr_stop c t), rtx_ocpiData := Some ((or_else (rtx_ocpiData t) no_ocpi_data)\<lparr>od_cdr := Some c\<rparr>)\<rparr>"

definition processCdr :: "emsp_env \<Rightarrow> ocpi_cdr \<Rightarrow> unit emsp_handler" where
  "processCdr env cdr =
     (if \<not> validateCdr cdr then throwS (AppError GENERAL_ERROR_CODE ''Cdr object is invalid'')
      else
        bindS (readS (getOCPITransactionBySessionID (or_else (cdr_id cdr) []))) (\<lambda>found.
        case found of
          None \<Rightarrow> throwS (AppError GENERAL_ERROR_CODE ''No Transaction found for OCPI CDR'')
        | Some t \<Rightarrow>
            bindS (save_roaming env (with_cdr (cdr_defaults cdr) t)) (\<lambda>t'. updateConnector t')))"

section \<open>Endpoints\<close>

text \<open>The segments of a path are empty where they are missing.\<close>

definition path_given :: "string list \<Rightarrow> int \<Rightarrow> unit res" where
  "path_given segments code = (if list_ex (\<lambda>s. s = []) segments then Inl (AppError code ''Missing request parameters'') else Inr ())"

definition found_or :: "string \<Rightarrow> 'a option \<Rightarrow> 'a res" where
  "found_or msg x = (case x of None \<Rightarrow> Inl (AppError GENERAL_ERROR_CODE msg) | Some a \<Rightarrow> Inr a)"

definition getSessionRequest :: "string \<Rightarrow> string \<Rightarrow> string \<Rightarrow> ocpi_session option emsp_handler" where
  "getSessionRequest countryCode partyID sessionID =
     bindS (liftS (path_given [countryCode, partyID, sessionID] BAD_REQUEST)) (\<lambda>_.
     bindS (readS (getOCPITransactionBySessionID sessionID)) (\<lambda>found.
     bindS (liftS (found_or ''No Transaction found for ocpi session'' found)) (\<lambda>t. returnS (session_of t))))"

definition putSessionRequest :: "emsp_env \<Rightarrow> string \<Rightarrow> string \<Rightarrow> string \<Rightarrow> ocpi_session \<Rightarrow> unit emsp_handler" where
  "putSessionRequest env countryCode partyID sessionID body =
     bindS (liftS (path_given [countryCode, partyID, sessionID] BAD_REQUEST)) (\<lambda>_.
     if \<not> truthy_str (os_id body) then updateTransaction env (body\<lparr>os_id := Some sessionID\<rparr>) None
     else if os_id body \<noteq> Some sessionID then throwS (AppError BAD_REQUEST ''Transaction ID mismatch in URL'')
     else updateTransaction env body None)"

text \<open>
  \<^verbatim>\<open>_.merge\<close> of lodash: a property that the source has replaces the one of the target, objects are merged one property at
  a time and lists one index at a time. No property of a body is null.
\<close>

fun merge_lists :: "('a \<Rightarrow> 'a \<Rightarrow> 'a) \<Rightarrow> 'a list \<Rightarrow> 'a list \<Rightarrow> 'a list" where
  "merge_lists f xs [] = xs"
| "merge_lists f [] ys = ys"
| "merge_lists f (x # xs) (y # ys) = f x y # merge_lists f xs ys"

definition merge_with :: "('a \<Rightarrow> 'a \<Rightarrow> 'a) \<Rightarrow> 'a option \<Rightarrow> 'a option \<Rightarrow> 'a option" where
  "merge_with f a b = (case b of None \<Rightarrow> a | Some y \<Rightarrow> (case a of None \<Rightarrow> Some y | Some x \<Rightarrow> Some (f x y)))"

definition merge_value :: "'a option \<Rightarrow> 'a option \<Rightarrow> 'a option" where
  "merge_value a b = merge_with (\<lambda>x y. y) a b"

definition merge_connector :: "ocpi_connector \<Rightarrow> ocpi_connector \<Rightarrow> ocpi_connector" where
  "merge_connector a b = \<lparr> occ_id = merge_value (occ_id a) (occ_id b), occ_standard = merge_value (occ_standard a) (occ_standard b),
     occ_format = merge_value (occ_format a) (occ_format b), occ_power_type = merge_value (occ_power_type a) (occ_power_type b),
     occ_voltage = merge_value (occ_voltage a) (occ_voltage b), occ_amperage = merge_value (occ_amperage a) (occ_amperage b),
     occ_tariff_id = merge_value (occ_tariff_id a) (occ_tariff_id b), occ_last_updated = merge_value (occ_last_updated a) (occ_last_updated b) \<rparr>"

definition merge_evse :: "ocpi_evse \<Rightarrow> ocpi_evse \<Rightarrow> ocpi_evse" where
  "merge_evse a b = \<lparr> evs_uid = merge_value (evs_uid a) (evs_uid b), evs_evse_id = merge_value (evs_evse_id a) (evs_evse_id b),
     evs_location_id = merge_value (evs_location_id a) (evs_location_id b), evs_status = merge_value (evs_status a) (evs_status b),
     evs_connectors = merge_with (merge_lists merge_connector) (evs_connectors a) (evs_connectors b),
     evs_last_updated = merge_value (evs_last_updated a) (evs_last_updated b),
     evs_chargingStationID = merge_value (evs_chargingStationID a) (evs_chargingStationID b),
     evs_siteID = merge_value (evs_siteID a) (evs_siteID b), evs_siteAreaID = merge_value (evs_siteAreaID a) (evs_siteAreaID b),
     evs_companyID = merge_value (evs_companyID a) (evs_companyID b) \<rparr>"

definition merge_location :: "ocpi_location \<Rightarrow> ocpi_location \<Rightarrow> ocpi_location" where
  "merge_location a b = \<lparr> loc_id = merge_value (loc_id a) (loc_id b),
     loc_evses = merge_with (merge_lists merge_evse) (loc_evses a) (loc_evses b),
     loc_last_updated = merge_value (loc_last_updated a) (loc_last_updated b) \<rparr>"

definition merge_dimension :: "cdr_dimension \<Rightarrow> cdr_dimension \<Rightarrow> cdr_dimension" where
  "merge_dimension a b = \<lparr> dim_type = merge_value (dim_type a) (dim_type b), dim_volume = merge_value (dim_volume a) (dim_volume b) \<rparr>"

definition merge_period :: "charging_period \<Rightarrow> charging_period \<Rightarrow> charging_period" where
  "merge_period a b = \<lparr> cper_start_date_time = merge_value (cper_start_date_time a) (cper_start_date_time b),
     cper_dimensions = merge_with (merge_lists merge_dimension) (cper_dimensions a) (cper_dimensions b) \<rparr>"

definition merge_session :: "ocpi_session \<Rightarrow> ocpi_session \<Rightarrow> ocpi_session" where
  "merge_session a b = \<lparr> os_id = merge_value (os_id a) (os_id b),
     os_authorization_id = merge_value (os_authorization_id a) (os_authorization_id b),
     os_start_datetime = merge_value (os_start_datetime a) (os_start_datetime b),
     os_end_datetime = merge_value (os_end_datetime a) (os_end_datetime b), os_kwh = merge_value (os_kwh a) (os_kwh b),
     os_auth_id = merge_value (os_auth_id a) (os_auth_id b), os_auth_method = merge_value (os_auth_method a) (os_auth_method b),
     os_location = merge_with merge_location (os_location a) (os_location b), os_currency = merge_value (os_currency a) (os_currency b),
     os_charging_periods = merge_with (merge_lists merge_period) (os_charging_periods a) (os_charging_periods b),
     os_total_cost = merge_value (os_total_cost a) (os_total_cost b), os_status = merge_value (os_status a) (os_status b),
     os_last_updated = merge_value (os_last_updated a) (os_last_updated b) \<rparr>"

text \<open>The session is merged in the object of the transaction.\<close>

definition with_merged :: "ocpi_session \<Rightarrow> roaming_transaction \<Rightarrow> roaming_transaction" where
  "with_merged x t = t\<lparr>rtx_ocpiData := map_option (\<lambda>d. d\<lparr>od_session := Some x\<rparr>) (rtx_ocpiData t)\<rparr>"

definition patchSessionRequest :: "emsp_env \<Rightarrow> string \<Rightarrow> string \<Rightarrow> string \<Rightarrow> ocpi_session \<Rightarrow> unit emsp_handler" where
  "patchSessionRequest env countryCode partyID sessionID body =
     bindS (liftS (path_given [countryCode, partyID, sessionID] GENERAL_ERROR_CODE)) (\<lambda>_.
     bindS (readS (getOCPITransactionBySessionID sessionID)) (\<lambda>found.
     bindS (liftS (found_or ''No Transaction found for OCPI Session'' found)) (\<lambda>t.
     let x = merge_session (or_else (session_of t) no_session) body
     in updateTransaction env x (Some (with_merged x t)))))"

definition getCdrRequest :: "string \<Rightarrow> ocpi_cdr emsp_handler" where
  "getCdrRequest i =
     bindS (liftS (path_given [i] GENERAL_ERROR_CODE)) (\<lambda>_.
     bindS (readS (getOCPITransactionBySessionID i)) (\<lambda>found.
     bindS (liftS (found_or ''No Transaction found for CDR'' found)) (\<lambda>t.
     liftS (found_or ''No CDR found in Transaction'' (cdr_of t)))))"

definition postCdrRequest :: "emsp_env \<Rightarrow> ocpi_cdr \<Rightarrow> unit emsp_handler" where
  "postCdrRequest env cdr = processCdr env cdr"

section \<open>The stations of a location\<close>

text \<open>A product of which a factor is missing is \<^verbatim>\<open>NaN\<close>, and so is a maximum with it; it is saved as 0.\<close>

definition watts_of :: "ocpi_connector \<Rightarrow> rat option" where
  "watts_of c = (case (occ_amperage c, occ_voltage c) of (Some a, Some v) \<Rightarrow> Some (a * voltage_value v) | _ \<Rightarrow> None)"

definition nan_max :: "rat option \<Rightarrow> rat option \<Rightarrow> rat option" where
  "nan_max a b = (case (a, b) of (Some x, Some y) \<Rightarrow> Some (max x y) | _ \<Rightarrow> None)"

definition convertEvseToChargingStationConnector :: "ocpi_evse \<Rightarrow> ocpi_connector \<Rightarrow> int \<Rightarrow> connector" where
  "convertEvseToChargingStationConnector e c cid =
     \<lparr> con_connectorId = cid, con_currentInstantWatts = Some 0, con_currentStateOfCharge = None, con_currentTotalConsumptionWh = None,
       con_currentTotalInactivitySecs = None, con_currentInactivityStatus = None, con_currentTransactionID = None,
       con_currentTransactionDate = None, con_currentTagID = None, con_currentUserID = None,
       con_status = convertOCPIStatus2Status (evs_status e), con_errorCode = None, con_info = None, con_vendorErrorCode = None,
       con_power = watts_of c, con_type = Some (convertOCPIConnectorType2ConnectorType (occ_standard c)), con_voltage = occ_voltage c,
       con_amperage = occ_amperage c, con_amperageLimit = None, con_statusLastChangedOn = None, con_numberOfConnectedPhase = None,
       con_currentType = None, con_chargePointID = None, con_phaseAssignmentToGrid = None \<rparr>"

record owned_site =
  ow_companyID :: string
  ow_siteID :: string
  ow_siteAreaID :: string

fun numbered :: "int \<Rightarrow> 'a list \<Rightarrow> (int \<times> 'a) list" where
  "numbered n [] = []"
| "numbered n (x # xs) = (n, x) # numbered (n + 1) xs"

definition convertEvseToChargingStation ::
  "emsp_env \<Rightarrow> roaming_station option \<Rightarrow> ocpi_evse \<Rightarrow> ocpi_location \<Rightarrow> owned_site \<Rightarrow> roaming_station res" where
  "convertEvseToChargingStation env existing e l ow =
     (if \<not> truthy_str (evs_evse_id e) then Inl (BackendError ''Cannot find Charging Station EVSE ID'')
      else
        (let base = (case existing of
               Some cs \<Rightarrow> cs
             | None \<Rightarrow> (eme_blank env)\<lparr>cs_id := or_else (evs_evse_id e) [], cs_issuer := False, cs_companyID := Some (ow_companyID ow),
                 cs_siteID := Some (ow_siteID ow), cs_siteAreaID := Some (ow_siteAreaID ow)\<rparr>);
             ocs = or_else (evs_connectors e) [];
             cons = map (\<lambda>(n, c). convertEvseToChargingStationConnector e c n) (numbered 1 ocs)
         in Inr (base\<lparr>rsn_evses := [e\<lparr>evs_location_id := loc_id l\<rparr>], rsn_connectorIds := map occ_id ocs, rsn_noStatus := [],
              cs_connectors := Some cons,
              cs_maximumPower := or_else (foldl nan_max (Some 0) (map con_power cons)) 0\<rparr>)))"

definition processEMSPLocationChargingStation :: "emsp_env \<Rightarrow> ocpi_location \<Rightarrow> owned_site \<Rightarrow> ocpi_evse \<Rightarrow> unit emsp_handler" where
  "processEMSPLocationChargingStation env l ow e =
     (if \<not> truthy_str (evs_uid e) then throwS (BackendError ''Missing Charging Station EVSE UID'')
      else
        bindS (readS (\<lambda>s. getChargingStationByOcpiLocationEvseUid (loc_id l) (or_else (evs_uid e) []) (ems_stations s))) (\<lambda>found.
        case found of
          Some cs \<Rightarrow>
            if evs_status e = Some OCPIEvseStatus.REMOVED
            then modifyS (\<lambda>s. s\<lparr>ems_stations := filter (\<lambda>c. cs_id c \<noteq> cs_id cs) (ems_stations s)\<rparr>)
            else bindS (liftS (convertEvseToChargingStation env (Some cs) e l ow)) (\<lambda>new.
              modifyS (\<lambda>s. s\<lparr>ems_stations := replace_station (new\<lparr>cs_connectors := map_option (map stored_connector) (cs_connectors new)\<rparr>) (ems_stations s)\<rparr>))
        | None \<Rightarrow>
            bindS (liftS (convertEvseToChargingStation env None e l ow)) (\<lambda>new.
              modifyS (\<lambda>s. s\<lparr>ems_stations := replace_station (new\<lparr>cs_connectors := map_option (map stored_connector) (cs_connectors new)\<rparr>) (ems_stations s)\<rparr>))))"

definition processEMSPLocationChargingStations :: "emsp_env \<Rightarrow> ocpi_location \<Rightarrow> owned_site \<Rightarrow> ocpi_evse list \<Rightarrow> unit emsp_handler" where
  "processEMSPLocationChargingStations env l ow evses =
     foldS (\<lambda>e _. catchS (processEMSPLocationChargingStation env l ow e) (\<lambda>_. returnS ())) evses ()"

section \<open>Pulling pages\<close>

text \<open>
  A pull asks for a page, treats its objects each on its own, and follows the link to the next page until there is none or
  it is the page at hand. \<open>pages\<close> is the answer for a page.
\<close>

record pull_result =
  pr_success :: int
  pr_failure :: int

definition pulled :: "('o \<Rightarrow> ('s, unit) handler) \<Rightarrow> 'o \<Rightarrow> pull_result \<Rightarrow> ('s, pull_result) handler" where
  "pulled handle x r = catchS (bindS (handle x) (\<lambda>_. returnS (r\<lparr>pr_success := pr_success r + 1\<rparr>)))
     (\<lambda>_. returnS (r\<lparr>pr_failure := pr_failure r + 1\<rparr>))"

definition next_page :: "'u \<Rightarrow> 'u option \<Rightarrow> 'u option" where
  "next_page url link = (case link of None \<Rightarrow> None | Some u \<Rightarrow> if u \<noteq> url then Some u else None)"

partial_function (option) pull_pages ::
  "('u \<Rightarrow> ('o list \<times> 'u option) res) \<Rightarrow> ('o \<Rightarrow> ('s, unit) handler) \<Rightarrow> 'u \<Rightarrow> pull_result \<Rightarrow> 's \<Rightarrow> ('s \<times> pull_result res) option" where
  "pull_pages pages handle url r s =
     (case pages url of
        Inl e \<Rightarrow> Some (s, Inl e)
      | Inr (objects, link) \<Rightarrow>
          (case foldS (pulled handle) objects r s of
             (s', Inl e) \<Rightarrow> Some (s', Inl e)
           | (s', Inr r') \<Rightarrow>
               (case next_page url link of
                  None \<Rightarrow> Some (s', Inr r')
                | Some url' \<Rightarrow> pull_pages pages handle url' r' s')))"

definition no_result :: pull_result where
  "no_result = \<lparr> pr_success = 0, pr_failure = 0 \<rparr>"

definition pullSessions ::
  "emsp_env \<Rightarrow> ('u \<Rightarrow> (ocpi_session list \<times> 'u option) res) \<Rightarrow> 'u \<Rightarrow> emsp_state \<Rightarrow> (emsp_state \<times> pull_result res) option" where
  "pullSessions env pages url = pull_pages pages (\<lambda>x. updateTransaction env x None) url no_result"

definition pullCdrs ::
  "emsp_env \<Rightarrow> ('u \<Rightarrow> (ocpi_cdr list \<times> 'u option) res) \<Rightarrow> 'u \<Rightarrow> emsp_state \<Rightarrow> (emsp_state \<times> pull_result res) option" where
  "pullCdrs env pages url = pull_pages pages (processCdr env) url no_result"

section \<open>Remote commands\<close>

record roaming_tag =
  rtg_id :: string
  rtg_visualID :: "string option"
  rtg_issuer :: bool
  rtg_active :: bool
  rtg_user :: "user option"
  rtg_ocpiToken :: "ocpi_token option"

record start_session =
  sts_response_url :: "string option"
  sts_token :: "ocpi_token option"
  sts_evse_uid :: "string option"
  sts_location_id :: "string option"
  sts_authorization_id :: "string option"

record stop_session =
  sps_response_url :: "string option"
  sps_session_id :: "string option"

text \<open>
  The command that is posted. \<open>callbackUrl\<close>, the name of the tenant and the fresh identifier are the surroundings of the
  client. The site area of a station that the eMSP learned of is always there.
\<close>

definition emsp_remoteStartSession ::
  "string \<Rightarrow> string \<Rightarrow> string \<Rightarrow> int \<Rightarrow> (string \<Rightarrow> roaming_tag option) \<Rightarrow> roaming_station \<Rightarrow> string \<Rightarrow> string \<Rightarrow> start_session res" where
  "emsp_remoteStartSession callbackUrl tenantName authorizationId now tags cs siteAreaName tagID =
     (case tags tagID of
        None \<Rightarrow> Inl (BackendError ''OCPI Remote Start Session is not available for Tag ID'')
      | Some tag \<Rightarrow>
          if \<not> rtg_issuer tag \<or> \<not> rtg_active tag then Inl (BackendError ''OCPI Remote Start Session is not available for Tag ID'')
          else case rtg_user tag of
            None \<Rightarrow> Inl (BackendError ''OCPI Remote Start Session is not available for user with Tag ID'')
          | Some u \<Rightarrow>
              if \<not> usr_issuer u then Inl (BackendError ''OCPI Remote Start Session is not available for user with Tag ID'')
              else Inr \<lparr> sts_response_url = Some (callbackUrl @ ''/'' @ authorizationId),
                sts_token = Some \<lparr> otk_uid = Some (rtg_id tag), otk_type = Some (getOCPITokenTypeFromID (rtg_id tag)),
                  otk_auth_id = Some (usr_id u), otk_visual_number = rtg_visualID tag, otk_issuer = Some tenantName,
                  otk_valid = Some True, otk_whitelist = Some ALLOWED_OFFLINE, otk_last_updated = Some now \<rparr>,
                sts_evse_uid = Some (cs_id cs), sts_location_id = Some (getOCPIEmspLocationIDFromSiteAreaName siteAreaName),
                sts_authorization_id = Some authorizationId \<rparr>)"

definition emsp_remoteStopSession :: "string \<Rightarrow> int \<Rightarrow> emsp_state \<Rightarrow> stop_session res" where
  "emsp_remoteStopSession callbackUrl transactionId s =
     (case find (\<lambda>t. tx_id t = transactionId) (ems_transactions s) of
        None \<Rightarrow> Inl (BackendError ''Transaction does not exist'')
      | Some t \<Rightarrow>
          if \<not> tx_issuer t then Inl (BackendError ''Transaction belongs to an external organization'')
          else case session_of t of
            None \<Rightarrow> Inl (BackendError ''No OCPI Session data'')
          | Some x \<Rightarrow> Inr \<lparr> sps_response_url = Some (callbackUrl @ ''/'' @ or_else (os_id x) []), sps_session_id = os_id x \<rparr>)"

end
