(* ===== verification/Ocpi_Cpo.thy ===== *)
theory Ocpi_Cpo
  imports Ocpi_Emsp Lock_Protocol
begin

text \<open>
  What a CPO sends: its EVSEs and tariffs (OCPIUtilsService.ts), the sessions and charge detail records of a transaction of
  a roaming user (CpoOCPIClient.ts, \<^verbatim>\<open>processTransactionRoaming\<close> of OCPPUtils.ts), the task that pushes the records that
  are missing (OCPIPushCdrsTask.ts) and the checks of what the other side holds.

  \<open>cps_tx\<close> is the transaction object at hand, which a call changes before it is sent and which is lost when an exception
  leaves the handler; \<open>cps_store\<close> are the documents of the data base; \<open>cps_sent\<close> are the calls, the latest last.
\<close>

section \<open>State\<close>

datatype cpo_message =
    PutSession ocpi_session
  | PatchSession string ocpi_session
  | PostCdr ocpi_cdr
  | GetSession string
  | GetCdr string
  | PatchEvseStatus string string OCPIEvseStatus

text \<open>What the code reads of an answer: \<^verbatim>\<open>status_code\<close>, and whether there is \<^verbatim>\<open>data\<close>.\<close>

record ocpi_answer =
  oan_status_code :: "int option"
  oan_hasData :: bool

text \<open>
  \<open>cpe_answer\<close> is the outcome of a call after those already made; \<open>cpe_client\<close> whether an endpoint of the role CPO is registered;
  \<open>cpe_endpoints\<close> its services; \<open>cpe_site\<close> the sites; \<open>cpe_oicp\<close> the processing of OICP, when that component is active.
\<close>

record cpo_env = lock_env +
  cpe_tenantID :: string
  cpe_now :: int
  cpe_ocpiActive :: bool
  cpe_client :: bool
  cpe_endpoints :: "string \<Rightarrow> bool"
  cpe_countryCode :: "string option"
  cpe_partyID :: "string option"
  cpe_currency :: string
  cpe_tariffID :: "string option"
  cpe_site :: "string \<Rightarrow> ocpi_location option"
  cpe_user :: "string \<Rightarrow> user option"
  cpe_tag :: "string \<Rightarrow> roaming_tag option"
  cpe_consumptions :: "meter_consumption list"
  cpe_answer :: "cpo_message list \<Rightarrow> cpo_message \<Rightarrow> ocpi_answer res"
  cpe_oicp :: "(roaming_transaction \<Rightarrow> TransactionAction \<Rightarrow> unit res) option"

record cpo_state =
  cps_tx :: roaming_transaction
  cps_sent :: "cpo_message list"
  cps_store :: "roaming_transaction list"
  cps_stations :: "roaming_station list"
  cps_world :: lock_world

type_synonym 'a cpo_handler = "(cpo_state, 'a) handler"

definition on_tx :: "(roaming_transaction \<Rightarrow> roaming_transaction) \<Rightarrow> unit cpo_handler" where
  "on_tx f = modifyS (\<lambda>s. s\<lparr>cps_tx := f (cps_tx s)\<rparr>)"

definition call :: "cpo_env \<Rightarrow> cpo_message \<Rightarrow> ocpi_answer cpo_handler" where
  "call env m = (\<lambda>s. (s\<lparr>cps_sent := cps_sent s @ [m]\<rparr>, cpe_answer env (cps_sent s) m))"

definition getEndpointUrl :: "cpo_env \<Rightarrow> string \<Rightarrow> unit res" where
  "getEndpointUrl env service = (if cpe_endpoints env service then Inr () else Inl (BackendError ''No endpoint URL defined for service''))"

definition getLocalCountryCode :: "cpo_env \<Rightarrow> string res" where
  "getLocalCountryCode env = (if truthy_str (cpe_countryCode env) then Inr (or_else (cpe_countryCode env) [])
     else Inl (BackendError ''OCPI Country Code setting is missing''))"

definition getLocalPartyID :: "cpo_env \<Rightarrow> string res" where
  "getLocalPartyID env = (if truthy_str (cpe_partyID env) then Inr (or_else (cpe_partyID env) [])
     else Inl (BackendError ''OCPI Party ID setting is missing''))"

text \<open>\<^verbatim>\<open>url/country/party\<close> of a service: the country and the party, when all three are set.\<close>

definition service_url :: "cpo_env \<Rightarrow> string \<Rightarrow> (string \<times> string) res" where
  "service_url env service =
     bindE (getEndpointUrl env service) (\<lambda>_. bindE (getLocalCountryCode env) (\<lambda>c. bindE (getLocalPartyID env) (\<lambda>p. Inr (c, p))))"

section \<open>Connectors and tariffs\<close>

definition plain_station :: "roaming_station \<Rightarrow> charging_station" where
  "plain_station cs = charging_station.truncate cs"

definition getChargingStationOCPIVoltage :: "charging_station \<Rightarrow> charge_point option \<Rightarrow> int \<Rightarrow> Voltage option" where
  "getChargingStationOCPIVoltage cs cpo cid =
     (case getChargingStationCurrentType cs cpo cid of
        Some CurrentType.AC \<Rightarrow> Some (getChargingStationVoltage cs cpo cid)
      | Some CurrentType.DC \<Rightarrow> Some VOLTAGE_400
      | None \<Rightarrow> None)"

definition getChargingStationOCPIAmperage :: "charging_station \<Rightarrow> charge_point option \<Rightarrow> int \<Rightarrow> rat option" where
  "getChargingStationOCPIAmperage cs cpo cid =
     (case getChargingStationCurrentType cs cpo cid of
        Some CurrentType.AC \<Rightarrow> Some (getChargingStationAmperagePerPhase cs cpo cid)
      | Some CurrentType.DC \<Rightarrow> Some (math_round (getChargingStationPower cs cpo cid / 400))
      | None \<Rightarrow> None)"

definition getChargingStationOCPINumberOfConnectedPhases :: "charging_station \<Rightarrow> charge_point option \<Rightarrow> int \<Rightarrow> int option" where
  "getChargingStationOCPINumberOfConnectedPhases cs cpo cid =
     (case getChargingStationCurrentType cs cpo cid of
        Some CurrentType.AC \<Rightarrow> Some (getNumberOfConnectedPhases cs cpo cid)
      | Some CurrentType.DC \<Rightarrow> Some 0
      | None \<Rightarrow> None)"

definition convertOCPINumberOfConnectedPhases2PowerType :: "int option \<Rightarrow> OCPIPowerType option" where
  "convertOCPINumberOfConnectedPhases2PowerType n =
     (if n = Some 0 then Some OCPIPowerType.DC else if n = Some 1 then Some AC_1_PHASE
      else if n = Some 3 then Some AC_3_PHASE else None)"

text \<open>The first tariff of the connector, the station, the site area, the site and the settings; then names for some tenants.\<close>

fun first_truthy :: "string option list \<Rightarrow> string option" where
  "first_truthy [] = None"
| "first_truthy (x # xs) = (if truthy_str x then x else first_truthy xs)"

definition tariffs_of :: "cpo_env \<Rightarrow> roaming_station \<Rightarrow> connector \<Rightarrow> string option list" where
  "tariffs_of env cs c = [map_of (rsn_connectorTariffs cs) (con_connectorId c), rsn_tariffID cs, rsn_siteAreaTariffID cs,
     rsn_siteTariffID cs, cpe_tariffID env]"

definition defaultTariff :: string where "defaultTariff = ''Default''"

definition backup_tariff :: "string \<Rightarrow> string option \<Rightarrow> string \<Rightarrow> ConnectorType option \<Rightarrow> string" where
  "backup_tariff tenantID siteAreaID i ty =
     (if tenantID = ''60633bb1834fed0016310189'' then
        (if siteAreaID = Some ''60d5a20c9deee6001419cabb'' then
           (if i = ''BMPBA'' then (if ty = Some TYPE_2 then ''STE-AC_22k'' else ''STE-DC_25k'')
            else if i = ''P91800RMRCLPGNL22AC'' then ''STE-AC_22k'' else defaultTariff)
         else if siteAreaID = Some ''61697ae8d9c095772ca9a771'' then
           (if i = ''HBDBA'' \<or> i = ''HBDBB'' then (if ty = Some TYPE_2 then ''STE-AC_22k'' else ''STE-DC_60k'') else defaultTariff)
         else defaultTariff)
      else if tenantID = ''5be7fb271014d90008992f06'' then
        (if siteAreaID = Some ''5abebb1b4bae1457eb565e98'' then ''AC_Sud2''
         else if siteAreaID = Some ''5b72cef274ae30000855e458'' then ''DC_Sud'' else defaultTariff)
      else if tenantID = ''5e2701b248aaa90007904cca'' then ''1''
      else if tenantID = ''5ff4c5ca1804a20013ce8a23'' then ''Tarif_Standard''
      else if tenantID = ''602e260fa9b0290023fb68d2'' then ''Payant1''
      else if tenantID = ''603655d291930d0014017e0a'' then
        (if siteAreaID = Some ''60990f1cc48de10014ea4fdc'' then
           (if i = ''F3CBaume-CAHORS25DC'' then ''EVSE_DC'' else if i = ''F3CBaume-LAFON22AC'' then ''EVSE_AC'' else defaultTariff)
         else if siteAreaID = Some ''60e40cfc32a7e60014672290'' then
           (if i = ''F3CALBON-CAHORS25DC'' then ''EVSE_DC'' else if i = ''F3CALBON-SCHNEIDER22AC'' then ''EVSE_AC'' else defaultTariff)
         else defaultTariff)
      else if tenantID = ''60b9f4336493830016c9a68c'' then ''Tarif_Standard''
      else defaultTariff)"

definition buildTariffID :: "cpo_env \<Rightarrow> roaming_station \<Rightarrow> connector \<Rightarrow> string" where
  "buildTariffID env cs c =
     (case first_truthy (tariffs_of env cs c) of
        Some t \<Rightarrow> t | None \<Rightarrow> backup_tariff (cpe_tenantID env) (cs_siteAreaID cs) (cs_id cs) (con_type c))"

definition ocpi_type :: "ConnectorType option \<Rightarrow> rat option \<Rightarrow> OCPIConnectorType option \<times> OCPIConnectorFormat option" where
  "ocpi_type ty amperage =
     (case ty of
        Some ConnectorType.CHADEMO \<Rightarrow> (Some OCPIConnectorType.CHADEMO, Some OCPIConnectorFormat.CABLE)
      | Some TYPE_2 \<Rightarrow> (Some IEC_62196_T2, Some (if or_num amperage 0 > 32 then OCPIConnectorFormat.CABLE else SOCKET))
      | Some COMBO_CCS \<Rightarrow> (Some IEC_62196_T2_COMBO, Some OCPIConnectorFormat.CABLE)
      | Some DOMESTIC \<Rightarrow> (Some DOMESTIC_E, Some SOCKET)
      | _ \<Rightarrow> (None, None))"

definition convertConnector2OCPIConnector :: "cpo_env \<Rightarrow> roaming_station \<Rightarrow> connector \<Rightarrow> string \<Rightarrow> string \<Rightarrow> ocpi_connector" where
  "convertConnector2OCPIConnector env rs c countryID partyID =
     (let cs = plain_station rs; cid = con_connectorId c;
          cpo = Option.bind (con_chargePointID c) (getChargePointFromID cs);
          amperage = getChargingStationOCPIAmperage cs cpo cid;
          (ty, fmt) = ocpi_type (con_type c) amperage
      in \<lparr> occ_id = Some (buildEvseID countryID partyID (cs_id cs) cid), occ_standard = ty, occ_format = fmt,
           occ_power_type = convertOCPINumberOfConnectedPhases2PowerType (getChargingStationOCPINumberOfConnectedPhases cs cpo cid),
           occ_voltage = getChargingStationOCPIVoltage cs cpo cid, occ_amperage = amperage,
           occ_tariff_id = Some (buildTariffID env rs c), occ_last_updated = Some (cs_lastSeen cs) \<rparr>)"

section \<open>EVSEs\<close>

definition with_org_ids :: "bool \<Rightarrow> roaming_station \<Rightarrow> ocpi_evse \<Rightarrow> ocpi_evse" where
  "with_org_ids b cs e = (if b then e\<lparr>evs_chargingStationID := Some (cs_id cs), evs_siteID := cs_siteID cs, evs_siteAreaID := cs_siteAreaID cs,
     evs_companyID := cs_companyID cs\<rparr> else e)"

definition connectors_for :: "roaming_station \<Rightarrow> charge_point option \<Rightarrow> connector list" where
  "connectors_for cs cpo = (if cpo = None then connectors_of (plain_station cs) else getConnectorsFromChargePoint (plain_station cs) cpo)"

definition evse_of :: "roaming_station \<Rightarrow> string \<Rightarrow> string \<Rightarrow> ChargePointStatus \<Rightarrow> ocpi_connector list \<Rightarrow> ocpi_evse" where
  "evse_of cs uid evseID status cons =
     \<lparr> evs_uid = Some uid, evs_evse_id = Some evseID, evs_location_id = cs_siteID cs,
       evs_status = Some (if cs_inactive cs then OCPIEvseStatus.INOPERATIVE else convertStatus2OCPIStatus status),
       evs_connectors = Some cons, evs_last_updated = Some (cs_lastSeen cs), evs_chargingStationID = None, evs_siteID = None,
       evs_siteAreaID = None, evs_companyID = None \<rparr>"

definition convertChargingStation2MultipleEvses ::
  "cpo_env \<Rightarrow> bool \<Rightarrow> string \<Rightarrow> string \<Rightarrow> roaming_station \<Rightarrow> charge_point option \<Rightarrow> ocpi_evse list" where
  "convertChargingStation2MultipleEvses env org countryID partyID cs cpo =
     map (\<lambda>c. with_org_ids org cs (evse_of cs (buildEvseUID (plain_station cs) c)
       (buildEvseID countryID partyID (cs_id cs) (con_connectorId c)) (con_status c)
       [convertConnector2OCPIConnector env cs c countryID partyID])) (connectors_for cs cpo)"

text \<open>A charge point without connectors: the first one is undefined.\<close>

definition convertChargingStation2UniqueEvse ::
  "cpo_env \<Rightarrow> bool \<Rightarrow> string \<Rightarrow> string \<Rightarrow> roaming_station \<Rightarrow> charge_point \<Rightarrow> ocpi_evse list res" where
  "convertChargingStation2UniqueEvse env org countryID partyID cs cp =
     (case connectors_for cs (Some cp) of
        [] \<Rightarrow> Inl TypeError
      | c # cons \<Rightarrow> Inr [with_org_ids org cs (evse_of cs (buildEvseUID (plain_station cs) c)
          (buildEvseID countryID partyID (cs_id cs) (cp_chargePointID cp)) (convertToOneConnectorStatus (c # cons))
          (map (\<lambda>c. convertConnector2OCPIConnector env cs c countryID partyID) (c # cons)))])"

fun evses_of_points :: "cpo_env \<Rightarrow> bool \<Rightarrow> string \<Rightarrow> string \<Rightarrow> roaming_station \<Rightarrow> charge_point list \<Rightarrow> ocpi_evse list res" where
  "evses_of_points env org countryID partyID cs [] = Inr []"
| "evses_of_points env org countryID partyID cs (cp # cps) =
     bindE (if cp_cannotChargeInParallel cp then convertChargingStation2UniqueEvse env org countryID partyID cs cp
            else Inr (convertChargingStation2MultipleEvses env org countryID partyID cs (Some cp))) (\<lambda>es.
     bindE (evses_of_points env org countryID partyID cs cps) (\<lambda>rest. Inr (es @ rest)))"

definition evses_of_station :: "cpo_env \<Rightarrow> bool \<Rightarrow> string \<Rightarrow> string \<Rightarrow> roaming_station \<Rightarrow> ocpi_evse list res" where
  "evses_of_station env org countryID partyID cs =
     (if charge_points_of (plain_station cs) \<noteq> [] then evses_of_points env org countryID partyID cs (charge_points_of (plain_station cs))
      else Inr (convertChargingStation2MultipleEvses env org countryID partyID cs None))"

definition saveChargingStationOcpiData :: "string \<Rightarrow> ocpi_evse list \<Rightarrow> unit cpo_handler" where
  "saveChargingStationOcpiData i es = modifyS (\<lambda>s. s\<lparr>cps_stations :=
     map (\<lambda>cs. if cs_id cs = i then cs\<lparr>rsn_evses := es\<rparr> else cs) (cps_stations s)\<rparr>)"

definition public_of_site :: "string \<Rightarrow> string list option \<Rightarrow> cpo_state \<Rightarrow> roaming_station list" where
  "public_of_site siteID chargingStationIDs s = filter (\<lambda>cs. cs_siteID cs = Some siteID \<and> cs_public cs \<and> cs_issuer cs \<and> \<not> cs_deleted cs
     \<and> (case chargingStationIDs of None \<Rightarrow> True | Some ids \<Rightarrow> ids = [] \<or> cs_id cs \<in> set ids)) (cps_stations s)"

text \<open>The query names the fields it wants: neither \<^verbatim>\<open>inactive\<close> nor \<^verbatim>\<open>voltage\<close> of the station is among them.\<close>

definition projected :: "roaming_station \<Rightarrow> roaming_station" where
  "projected cs = cs\<lparr>cs_inactive := False, cs_voltage := None\<rparr>"

definition evses_and_save :: "cpo_env \<Rightarrow> bool \<Rightarrow> string \<Rightarrow> string \<Rightarrow> roaming_station \<Rightarrow> ocpi_evse list \<Rightarrow> ocpi_evse list cpo_handler" where
  "evses_and_save env org countryID partyID cs acc =
     bindS (liftS (evses_of_station env org countryID partyID (projected cs))) (\<lambda>es.
     bindS (saveChargingStationOcpiData (cs_id cs) es) (\<lambda>_. returnS (acc @ es)))"

definition getEvsesFromSite :: "cpo_env \<Rightarrow> bool \<Rightarrow> string \<Rightarrow> string \<Rightarrow> roaming_station list \<Rightarrow> ocpi_evse list cpo_handler" where
  "getEvsesFromSite env org countryID partyID stations = foldS (evses_and_save env org countryID partyID) stations []"

section \<open>Charging periods\<close>

definition kilo3 :: "rat \<Rightarrow> rat" where
  "kilo3 wh = truncTo (wh / 1000) 3"

definition buildChargingPeriod :: "meter_consumption \<Rightarrow> charging_period" where
  "buildChargingPeriod c =
     \<lparr> cper_start_date_time = Some (mc_endedAt c),
       cper_dimensions = Some (if or_num (mc_consumptionWh c) 0 > 0
         then [\<lparr> dim_type = Some ENERGY, dim_volume = Some (kilo3 (or_num (mc_consumptionWh c) 0)) \<rparr>]
         else (let duration = of_int (mc_endedAt c - or_else (mc_startedAt c) 0) / 3600000
               in if duration > 0 then [\<lparr> dim_type = Some PARKING_TIME, dim_volume = Some (truncTo duration 3) \<rparr>] else [])) \<rparr>"

definition buildChargingPeriods :: "cpo_env \<Rightarrow> roaming_transaction \<Rightarrow> charging_period list" where
  "buildChargingPeriods env t =
     (if tx_timestamp t = 0 then []
      else filter (\<lambda>p. cper_dimensions p \<noteq> Some [])
        (map buildChargingPeriod (sort_key (\<lambda>c. or_else (mc_startedAt c) 0) (filter (\<lambda>c. mc_transactionId c = tx_id t) (cpe_consumptions env)))))"

section \<open>Sessions\<close>

definition positive_or_0 :: "rat option \<Rightarrow> rat" where
  "positive_or_0 x = (if pos x then or_num x 0 else 0)"

text \<open>The location of a session: the site with the one EVSE of the connector.\<close>

definition convertChargingStationToOCPILocation ::
  "cpo_env \<Rightarrow> ocpi_location option \<Rightarrow> roaming_station \<Rightarrow> int \<Rightarrow> string \<Rightarrow> string \<Rightarrow> ocpi_location res" where
  "convertChargingStationToOCPILocation env site rs connectorID countryID partyID =
     (case site of
        None \<Rightarrow> Inl TypeError
      | Some l \<Rightarrow>
          (case getConnectorFromID (plain_station rs) connectorID of
             None \<Rightarrow> Inl TypeError
           | Some c \<Rightarrow>
               let cs = plain_station rs; cpo = Option.bind (con_chargePointID c) (getChargePointFromID cs) in
               Inr (l\<lparr>loc_evses := Some [\<lparr> evs_uid = Some (buildEvseUID cs c),
                 evs_evse_id = Some (buildEvseID countryID partyID (cs_id cs)
                   (case cpo of Some cp \<Rightarrow> if cp_cannotChargeInParallel cp then cp_chargePointID cp else connectorID | None \<Rightarrow> connectorID)),
                 evs_location_id = cs_siteID cs, evs_status = Some (convertStatus2OCPIStatus (con_status c)),
                 evs_connectors = Some [convertConnector2OCPIConnector env rs c countryID partyID],
                 evs_last_updated = Some (cs_lastSeen cs), evs_chargingStationID = None, evs_siteID = None, evs_siteAreaID = None,
                 evs_companyID = None \<rparr>]\<rparr>)))"

definition ocpi_startSession :: "cpo_env \<Rightarrow> ocpi_token option \<Rightarrow> roaming_station \<Rightarrow> unit cpo_handler" where
  "ocpi_startSession env token cs =
     bindS (liftS (service_url env ''sessions'')) (\<lambda>(countryID, partyID).
     bindS (readS cps_tx) (\<lambda>t.
     bindS (liftS (convertChargingStationToOCPILocation env (Option.bind (cs_siteID cs) (cpe_site env)) cs (tx_connectorId t) countryID partyID)) (\<lambda>l.
     case token of
       None \<Rightarrow> throwS TypeError
     | Some k \<Rightarrow>
         let x = \<lparr> os_id = Some (show_int (tx_id t)), os_authorization_id = tx_authorizationID t,
               os_start_datetime = Some (tx_timestamp t), os_end_datetime = None, os_kwh = Some 0, os_auth_id = otk_auth_id k,
               os_auth_method = Some AUTH_REQUEST, os_location = Some l, os_currency = Some (cpe_currency env),
               os_charging_periods = None, os_total_cost = Some (positive_or_0 (rt_currentCumulatedPrice (tx_run t))),
               os_status = Some OCPISessionStatus.PENDING, os_last_updated = Some (tx_timestamp t) \<rparr>
         in bindS (call env (PutSession x)) (\<lambda>_.
            on_tx (\<lambda>t. t\<lparr>rtx_ocpiData := Some (no_ocpi_data\<lparr>od_session := Some x\<rparr>)\<rparr>)))))"

definition set_session :: "ocpi_session \<Rightarrow> unit cpo_handler" where
  "set_session x = on_tx (\<lambda>t. t\<lparr>rtx_ocpiData := map_option (\<lambda>d. d\<lparr>od_session := Some x\<rparr>) (rtx_ocpiData t)\<rparr>)"

definition active_session :: "cpo_env \<Rightarrow> roaming_transaction \<Rightarrow> ocpi_session \<Rightarrow> ocpi_session" where
  "active_session env t x = x\<lparr>os_kwh := Some (rt_currentTotalConsumptionWh (tx_run t) / 1000),
     os_last_updated := rt_currentTimestamp (tx_run t), os_total_cost := Some (positive_or_0 (rt_currentCumulatedPrice (tx_run t))),
     os_currency := Some (cpe_currency env), os_status := Some OCPISessionStatus.ACTIVE,
     os_charging_periods := Some (buildChargingPeriods env t)\<rparr>"

text \<open>The object is changed before the call, which sends the part that changed.\<close>

definition ocpi_updateSession :: "cpo_env \<Rightarrow> unit cpo_handler" where
  "ocpi_updateSession env =
     bindS (readS cps_tx) (\<lambda>t.
     case session_of t of
       None \<Rightarrow> throwS (BackendError ''OCPI Data not found'')
     | Some x0 \<Rightarrow>
         bindS (liftS (service_url env ''sessions'')) (\<lambda>_.
         let x = active_session env t x0 in
         bindS (set_session x) (\<lambda>_.
         bindS (call env (PatchSession (or_else (os_id x) []) (no_session\<lparr>os_kwh := os_kwh x, os_last_updated := os_last_updated x,
           os_currency := os_currency x, os_total_cost := Some (positive_or_0 (os_total_cost x)), os_status := os_status x,
           os_charging_periods := os_charging_periods x\<rparr>))) (\<lambda>_. returnS ()))))"

definition completed_session :: "cpo_env \<Rightarrow> roaming_transaction \<Rightarrow> transaction_stop \<Rightarrow> ocpi_session \<Rightarrow> ocpi_session" where
  "completed_session env t st x = x\<lparr>os_kwh := Some (stop_totalConsumptionWh st / 1000),
     os_total_cost := Some (positive_or_0 (stop_roundedPrice st)), os_end_datetime := Some (stop_timestamp st),
     os_last_updated := Some (stop_timestamp st), os_status := Some OCPISessionStatus.COMPLETED,
     os_charging_periods := Some (buildChargingPeriods env t)\<rparr>"

definition ocpi_stopSession :: "cpo_env \<Rightarrow> unit cpo_handler" where
  "ocpi_stopSession env =
     bindS (readS cps_tx) (\<lambda>t.
     case session_of t of
       None \<Rightarrow> throwS (BackendError ''OCPI Transaction does not exists'')
     | Some x0 \<Rightarrow>
         (case tx_stop t of
            None \<Rightarrow> throwS (BackendError ''Transaction has not yet been stopped'')
          | Some st \<Rightarrow>
              bindS (liftS (service_url env ''sessions'')) (\<lambda>_.
              let x = completed_session env t st x0 in
              bindS (set_session x) (\<lambda>_.
              bindS (call env (PutSession x)) (\<lambda>_. returnS ())))))"

section \<open>Charge detail records\<close>

definition cdr_from :: "cpo_env \<Rightarrow> roaming_transaction \<Rightarrow> transaction_stop \<Rightarrow> ocpi_session \<Rightarrow> ocpi_cdr" where
  "cdr_from env t st x =
     \<lparr> cdr_id = os_id x, cdr_authorization_id = os_authorization_id x, cdr_start_date_time = Some (tx_timestamp t),
       cdr_stop_date_time = Some (stop_timestamp st), cdr_auth_id = os_auth_id x, cdr_auth_method = os_auth_method x,
       cdr_location = os_location x, cdr_currency = Some (cpe_currency env),
       cdr_charging_periods = Some (buildChargingPeriods env t), cdr_total_cost = Some (positive_or_0 (stop_roundedPrice st)),
       cdr_total_energy = Some (stop_totalConsumptionWh st / 1000), cdr_total_time = Some (or_num (stop_totalDurationSecs st) 0 / 3600),
       cdr_total_parking_time = Some ((stop_totalInactivitySecs st + stop_extraInactivitySecs st) / 3600),
       cdr_last_updated = Some (stop_timestamp st) \<rparr>"

definition worth_sending :: "ocpi_cdr \<Rightarrow> bool" where
  "worth_sending c = (or_else (cdr_charging_periods c) [] \<noteq> [] \<and> pos (cdr_total_energy c))"

definition postCdr :: "cpo_env \<Rightarrow> unit cpo_handler" where
  "postCdr env =
     bindS (readS cps_tx) (\<lambda>t.
     case tx_stop t of
       None \<Rightarrow> throwS (BackendError ''Transaction has not yet been stopped'')
     | Some st \<Rightarrow>
         (case session_of t of
            None \<Rightarrow> throwS (BackendError ''OCPI Session does not exists'')
          | Some x \<Rightarrow>
              if truthy_str (Option.bind (cdr_of t) cdr_id) then throwS (BackendError ''OCPI CDR has already been sent for this Transaction'')
              else
                bindS (liftS (getEndpointUrl env ''cdrs'')) (\<lambda>_.
                let c = cdr_from env t st x in
                bindS (on_tx (\<lambda>t. t\<lparr>rtx_ocpiData := map_option (\<lambda>d. d\<lparr>od_cdr := Some c\<rparr>) (rtx_ocpiData t)\<rparr>)) (\<lambda>_.
                if worth_sending c then bindS (call env (PostCdr c)) (\<lambda>_. returnS ()) else returnS ()))))"

section \<open>The roaming of a transaction\<close>

definition processOCPITransaction :: "cpo_env \<Rightarrow> roaming_station \<Rightarrow> roaming_tag option \<Rightarrow> TransactionAction \<Rightarrow> unit cpo_handler" where
  "processOCPITransaction env cs tag action =
     bindS (readS cps_tx) (\<lambda>t.
     case tx_user t of
       None \<Rightarrow> throwS (BackendError ''User does not exist'')
     | Some u \<Rightarrow>
         if \<not> cpe_ocpiActive env then throwS (BackendError ''OCPI Component is not active in this Tenant'')
         else if usr_issuer u then throwS (BackendError ''User does not belong to the local organization'')
         else if \<not> cpe_client env then throwS (BackendError ''OCPI component requires at least one CPO endpoint'')
         else (case action of
             START \<Rightarrow>
               if \<not> truthy_str (tx_authorizationID t) then throwS (BackendError ''Tag ID is not authorized'')
               else (case tag of None \<Rightarrow> throwS TypeError | Some tg \<Rightarrow> ocpi_startSession env (rtg_ocpiToken tg) cs)
           | UPDATE \<Rightarrow> ocpi_updateSession env
           | STOP \<Rightarrow> ocpi_stopSession env
           | END \<Rightarrow> postCdr env))"

definition is_roaming :: "roaming_transaction \<Rightarrow> roaming_station \<Rightarrow> bool" where
  "is_roaming t cs = ((case tx_user t of None \<Rightarrow> False | Some u \<Rightarrow> \<not> usr_issuer u)
     \<and> (case cs_siteArea cs of None \<Rightarrow> False | Some sa \<Rightarrow> sa_accessControl sa))"

definition client_processTransactionRoaming :: "cpo_env \<Rightarrow> roaming_station \<Rightarrow> roaming_tag option \<Rightarrow> TransactionAction \<Rightarrow> unit cpo_handler" where
  "client_processTransactionRoaming env cs tag action =
     catchS
       (bindS (readS cps_tx) (\<lambda>t.
        if is_roaming t cs then
          bindS (if cpe_ocpiActive env then processOCPITransaction env cs tag action else returnS ()) (\<lambda>_.
          case cpe_oicp env of None \<Rightarrow> returnS () | Some f \<Rightarrow> bindS (readS cps_tx) (\<lambda>t. liftS (f t action)))
        else returnS ()))
       (\<lambda>e. if action \<noteq> UPDATE then throwS e else returnS ())"

section \<open>The task that pushes the missing records\<close>

definition saveTransactionOcpiData :: "int \<Rightarrow> ocpi_data option \<Rightarrow> unit cpo_handler" where
  "saveTransactionOcpiData i d = modifyS (\<lambda>s. s\<lparr>cps_store := map (\<lambda>t. if tx_id t = i then t\<lparr>rtx_ocpiData := d\<rparr> else t) (cps_store s)\<rparr>)"

definition stored_with_user :: "cpo_env \<Rightarrow> int \<Rightarrow> cpo_state \<Rightarrow> roaming_transaction option" where
  "stored_with_user env i s = map_option (\<lambda>t. t\<lparr>tx_user := Option.bind (tx_userID t) (cpe_user env)\<rparr>) (find (\<lambda>t. tx_id t = i) (cps_store s))"

definition in_cpo_world :: "lock_world \<Rightarrow> cpo_state \<Rightarrow> cpo_state" where
  "in_cpo_world w s = s\<lparr>cps_world := w\<rparr>"

definition take_cpo_lock :: "(lock_world \<Rightarrow> (lock_world \<times> lock option) res) \<Rightarrow> lock option cpo_handler" where
  "take_cpo_lock acquire_it = (\<lambda>s. case acquire_it (cps_world s) of Inl e \<Rightarrow> (s, Inl e) | Inr (w, l) \<Rightarrow> (in_cpo_world w s, Inr l))"

definition release_cpo_lock :: "lock \<Rightarrow> cpo_state \<Rightarrow> cpo_state" where
  "release_cpo_lock l s = s\<lparr>cps_world := (cps_world s)\<lparr>lw_locks := fst (release l (lw_locks (cps_world s)))\<rparr>\<rparr>"

definition under_cpo_lock :: "(lock_world \<Rightarrow> (lock_world \<times> lock option) res) \<Rightarrow> unit cpo_handler \<Rightarrow> unit cpo_handler" where
  "under_cpo_lock acquire_it m =
     bindS (take_cpo_lock acquire_it) (\<lambda>lk. case lk of None \<Rightarrow> returnS () | Some l \<Rightarrow> finallyS m (release_cpo_lock l))"

text \<open>A transaction that ended, has data of OCPI and no record.\<close>

definition lacks_cdr :: "roaming_transaction \<Rightarrow> bool" where
  "lacks_cdr t = (tx_stop t \<noteq> None \<and> rtx_ocpiData t \<noteq> None \<and> cdr_of t = None)"

definition station_in_store :: "string \<Rightarrow> cpo_state \<Rightarrow> roaming_station option" where
  "station_in_store i s = find (\<lambda>cs. cs_id cs = i \<and> \<not> cs_deleted cs) (cps_stations s)"

definition push_cdr_of :: "cpo_env \<Rightarrow> int \<Rightarrow> unit cpo_handler" where
  "push_cdr_of env i =
     bindS (readS (stored_with_user env i)) (\<lambda>found.
     case found of
       None \<Rightarrow> returnS ()
     | Some t \<Rightarrow>
         if cdr_of t \<noteq> None then returnS ()
         else
           bindS (readS (station_in_store (tx_chargeBoxID t))) (\<lambda>station.
           case station of
             None \<Rightarrow> returnS ()
           | Some cs \<Rightarrow>
               (case Option.bind (tx_tagID t) (cpe_tag env) of
                  None \<Rightarrow> returnS ()
                | Some tag \<Rightarrow>
                    bindS (on_tx (\<lambda>_. t)) (\<lambda>_.
                    bindS (client_processTransactionRoaming env cs (Some tag) END) (\<lambda>_.
                    bindS (readS cps_tx) (\<lambda>t'. saveTransactionOcpiData i (rtx_ocpiData t')))))))"

definition push_one :: "cpo_env \<Rightarrow> int \<Rightarrow> unit \<Rightarrow> unit cpo_handler" where
  "push_one env i _ =
     under_cpo_lock (acquireOCPIPushCdrLock (lock_env.truncate env) (cpe_tenantID env) i)
       (catchS (push_cdr_of env i) (\<lambda>_. returnS ()))"

definition pushCdrs_processTenant :: "cpo_env \<Rightarrow> unit cpo_handler" where
  "pushCdrs_processTenant env =
     catchS
       (if cpe_ocpiActive env then
          under_cpo_lock (acquireOCPIPushCpoCdrsLock (lock_env.truncate env) (cpe_tenantID env))
            (bindS (readS (\<lambda>s. map tx_id (filter lacks_cdr (cps_store s)))) (\<lambda>ids. foldS (push_one env) ids ()))
        else returnS ())
       (\<lambda>_. returnS ())"

text \<open>At the end of a transaction (OCPPService.ts): the caller saves the transaction when it was changed.\<close>

definition checkAndSendOCPITransactionCdr :: "cpo_env \<Rightarrow> roaming_station \<Rightarrow> roaming_tag option \<Rightarrow> bool cpo_handler" where
  "checkAndSendOCPITransactionCdr env cs tag =
     bindS (readS cps_tx) (\<lambda>t.
     if session_of t \<noteq> None \<and> \<not> truthy_str (Option.bind (cdr_of t) cdr_id) then
       bindS (take_cpo_lock (acquireOCPIPushCdrLock (lock_env.truncate env) (cpe_tenantID env) (tx_id t))) (\<lambda>lk.
       case lk of
         None \<Rightarrow> returnS False
       | Some l \<Rightarrow> finallyS (bindS (client_processTransactionRoaming env cs tag END) (\<lambda>_. returnS True)) (release_cpo_lock l))
     else returnS False)"

section \<open>Checks\<close>

definition isSuccessResponse :: "ocpi_answer \<Rightarrow> bool" where
  "isSuccessResponse a = (oan_status_code a = None \<or> oan_status_code a = Some 1000)"

text \<open>A check is marked as done before the call, which may fail.\<close>

definition checkSession :: "cpo_env \<Rightarrow> roaming_transaction \<Rightarrow> bool cpo_handler" where
  "checkSession env t =
     (case session_of t of
        None \<Rightarrow> throwS (BackendError ''OCPI Session does not exists'')
      | Some x \<Rightarrow>
          bindS (saveTransactionOcpiData (tx_id t) (map_option (\<lambda>d. d\<lparr>od_sessionCheckedOn := Some (cpe_now env)\<rparr>) (rtx_ocpiData t))) (\<lambda>_.
          bindS (liftS (service_url env ''sessions'')) (\<lambda>_.
          bindS (call env (GetSession (or_else (os_id x) []))) (\<lambda>a.
          returnS (isSuccessResponse a \<and> oan_hasData a)))))"

definition checkCdr :: "cpo_env \<Rightarrow> roaming_transaction \<Rightarrow> bool cpo_handler" where
  "checkCdr env t =
     (case cdr_of t of
        None \<Rightarrow> throwS (BackendError ''OCPI CDR does not exists'')
      | Some c \<Rightarrow>
          bindS (saveTransactionOcpiData (tx_id t) (map_option (\<lambda>d. d\<lparr>od_cdrCheckedOn := Some (cpe_now env)\<rparr>) (rtx_ocpiData t))) (\<lambda>_.
          bindS (liftS (getEndpointUrl env ''cdrs'')) (\<lambda>_.
          bindS (call env (GetCdr (or_else (cdr_id c) []))) (\<lambda>a.
          if oan_status_code a = Some 3001 then bindS (call env (PostCdr c)) (\<lambda>_. returnS False)
          else returnS (isSuccessResponse a \<and> oan_hasData a)))))"

record ocpi_result =
  orr_success :: int
  orr_failure :: int
  orr_total :: int
  orr_inFailure :: "string list"

definition no_ocpi_result :: ocpi_result where
  "no_ocpi_result = \<lparr> orr_success = 0, orr_failure = 0, orr_total = 0, orr_inFailure = [] \<rparr>"

definition checked :: "(roaming_transaction \<Rightarrow> bool cpo_handler) \<Rightarrow> roaming_transaction \<Rightarrow> ocpi_result \<Rightarrow> ocpi_result cpo_handler" where
  "checked check t r =
     bindS (catchS (check t) (\<lambda>_. returnS False)) (\<lambda>ok.
     returnS (if ok then r\<lparr>orr_success := orr_success r + 1, orr_total := orr_total r + 1\<rparr>
       else r\<lparr>orr_failure := orr_failure r + 1, orr_inFailure := orr_inFailure r @ [show_int (tx_id t)], orr_total := orr_total r + 1\<rparr>))"

definition checkSessions :: "cpo_env \<Rightarrow> ocpi_result cpo_handler" where
  "checkSessions env =
     bindS (readS (\<lambda>s. filter (\<lambda>t. tx_issuer t \<and> tx_stop t \<noteq> None \<and> session_of t \<noteq> None
        \<and> Option.bind (rtx_ocpiData t) od_sessionCheckedOn = None) (cps_store s))) (\<lambda>ts.
     foldS (checked (checkSession env)) ts no_ocpi_result)"

definition checkCdrs :: "cpo_env \<Rightarrow> ocpi_result cpo_handler" where
  "checkCdrs env =
     bindS (readS (\<lambda>s. filter (\<lambda>t. tx_issuer t \<and> tx_stop t \<noteq> None \<and> cdr_of t \<noteq> None
        \<and> Option.bind (rtx_ocpiData t) od_cdrCheckedOn = None) (cps_store s))) (\<lambda>ts.
     foldS (checked (checkCdr env)) ts no_ocpi_result)"

section \<open>Statuses\<close>

definition patchEVSEStatus :: "cpo_env \<Rightarrow> string option \<Rightarrow> string option \<Rightarrow> OCPIEvseStatus \<Rightarrow> unit cpo_handler" where
  "patchEVSEStatus env locationId evseUID newStatus =
     (if \<not> truthy_str locationId \<or> \<not> truthy_str evseUID then throwS (BackendError ''Invalid parameters'')
      else bindS (liftS (service_url env ''locations'')) (\<lambda>_.
        bindS (call env (PatchEvseStatus (or_else locationId []) (or_else evseUID []) newStatus)) (\<lambda>_. returnS ())))"

definition updateChargingStationStatus :: "cpo_env \<Rightarrow> roaming_station \<Rightarrow> OCPIEvseStatus option \<Rightarrow> unit cpo_handler" where
  "updateChargingStationStatus env cs status =
     (if \<not> truthy_str (cs_siteAreaID cs) then throwS (BackendError ''Charging Station must be associated to a Site Area'')
      else if \<not> cs_issuer cs then throwS (BackendError ''Only charging Station issued locally can be exposed to IOP'')
      else foldS (\<lambda>c _. patchEVSEStatus env (cs_siteID cs) (Some (buildEvseUID (plain_station cs) c))
             (or_else status (convertStatus2OCPIStatus (con_status c)))) (connectors_of (plain_station cs)) ())"

definition patchChargingStationStatus :: "cpo_env \<Rightarrow> roaming_station \<Rightarrow> connector \<Rightarrow> unit cpo_handler" where
  "patchChargingStationStatus env cs c =
     (if \<not> truthy_str (cs_siteAreaID cs) \<and> cs_siteArea cs = None then throwS (BackendError ''Charging Station must be associated to a site area'')
      else if \<not> cs_issuer cs then throwS (BackendError ''Only charging Station issued locally can be exposed to IOP'')
      else if \<not> cs_public cs then throwS (BackendError ''Private charging Station cannot be exposed to IOP'')
      else patchEVSEStatus env (cs_siteID cs) (Some (buildEvseUID (plain_station cs) c)) (convertStatus2OCPIStatus (con_status c)))"

end
