(* ===== verification/Ocpi_Commands.thy ===== *)
theory Ocpi_Commands
  imports Ocpi_Cpo
begin

text \<open>
  The commands that an eMSP sends to a CPO (CPOCommandsEndpoint.ts): a request to start leaves an authorization on the
  station, and the station is asked after the answer was given; the EVSE statuses that a CPO sends in bulk
  (\<^verbatim>\<open>sendEVSEStatuses\<close> of CpoOCPIClient.ts).
\<close>

section \<open>Starting and stopping\<close>

datatype OCPICommandResponseType = NOT_SUPPORTED | REJECTED | ACCEPTED | TIMEOUT | UNKNOWN_SESSION

text \<open>What the station is asked to do afterwards.\<close>

datatype station_order = StartOn string int string | StopOf string int

type_synonym command_outcome = "OCPICommandResponseType \<times> station_order option"

definition validateStartSession :: "start_session \<Rightarrow> bool" where
  "validateStartSession c = (truthy_str (sts_response_url c) \<and> truthy_str (sts_evse_uid c) \<and> truthy_str (sts_location_id c)
     \<and> truthy_str (sts_authorization_id c) \<and> (case sts_token c of None \<Rightarrow> False | Some k \<Rightarrow> validateToken k))"

definition validateStopSession :: "stop_session \<Rightarrow> bool" where
  "validateStopSession c = (truthy_str (sps_response_url c) \<and> truthy_str (sps_session_id c))"

definition authorization_valid :: "int \<Rightarrow> int \<Rightarrow> bool" where
  "authorization_valid now timestamp = (timestamp > now - 2 * 60000)"

text \<open>The user of a token and the right of the token to start.\<close>

definition token_may_start :: "roaming_tag option \<Rightarrow> bool" where
  "token_may_start tag = (case tag of
     None \<Rightarrow> False
   | Some tg \<Rightarrow> rtg_active tg \<and> (case rtg_ocpiToken tg of None \<Rightarrow> False | Some k \<Rightarrow> otk_valid k = Some True)
       \<and> (case rtg_user tg of None \<Rightarrow> False | Some u \<Rightarrow> \<not> usr_issuer u))"

definition requested_connector :: "string \<Rightarrow> charging_station \<Rightarrow> connector option" where
  "requested_connector evseUID cs = Option.bind (convertToInt_str (getConnectorIDFromEvseID evseUID)) (getConnectorFromID cs)"

definition free_to_start :: "connector \<Rightarrow> bool" where
  "free_to_start c = (con_status c = ChargePointStatus.AVAILABLE \<or> con_status c = ChargePointStatus.PREPARING)"

definition authorize_connector ::
  "int \<Rightarrow> start_session \<Rightarrow> string \<Rightarrow> int \<Rightarrow> connector_authorization list \<Rightarrow> connector_authorization list option" where
  "authorize_connector now c uid cid auths =
     (let new = \<lparr> cau_id = or_else (sts_authorization_id c) [], cau_connectorId = cid, cau_tagId = uid, cau_timestamp = now \<rparr>
      in case find (\<lambda>a. cau_connectorId a = cid) auths of
           Some a \<Rightarrow> if authorization_valid now (cau_timestamp a) then None
             else Some (update_first (\<lambda>a. cau_connectorId a = cid) (\<lambda>_. new) auths)
         | None \<Rightarrow> Some (auths @ [new]))"

definition saveChargingStationRemoteAuthorizations :: "string \<Rightarrow> connector_authorization list \<Rightarrow> unit cpo_handler" where
  "saveChargingStationRemoteAuthorizations i auths = modifyS (\<lambda>s. s\<lparr>cps_stations :=
     map (\<lambda>cs. if cs_id cs = i then cs\<lparr>rsn_remoteAuthorizations := auths\<rparr> else cs) (cps_stations s)\<rparr>)"

definition remoteStartSessionRequest :: "cpo_env \<Rightarrow> start_session \<Rightarrow> command_outcome cpo_handler" where
  "remoteStartSessionRequest env c =
     (if \<not> validateStartSession c then throwS (AppError BAD_REQUEST ''Start Session command body is invalid'')
      else
        let uid = or_else (Option.bind (sts_token c) otk_uid) []; evseUID = or_else (sts_evse_uid c) [] in
        if \<not> token_may_start (cpe_tag env uid) then returnS (REJECTED, None)
        else
          bindS (readS (\<lambda>s. getChargingStationByOcpiLocationEvseUid (sts_location_id c) evseUID (cps_stations s))) (\<lambda>found.
          case found of
            None \<Rightarrow> returnS (REJECTED, None)
          | Some cs \<Rightarrow>
              (case requested_connector evseUID (plain_station cs) of
                 None \<Rightarrow> returnS (REJECTED, None)
               | Some con \<Rightarrow>
                   if \<not> cs_issuer cs \<or> \<not> cs_public cs then returnS (REJECTED, None)
                   else if \<not> free_to_start con then returnS (REJECTED, None)
                   else (case authorize_connector (cpe_now env) c uid (con_connectorId con) (rsn_remoteAuthorizations cs) of
                       None \<Rightarrow> returnS (REJECTED, None)
                     | Some auths \<Rightarrow>
                         bindS (saveChargingStationRemoteAuthorizations (cs_id cs) auths) (\<lambda>_.
                         returnS (OCPICommandResponseType.ACCEPTED, Some (StartOn (cs_id cs) (con_connectorId con) uid)))))))"

definition cpo_transaction_of_session :: "string \<Rightarrow> cpo_state \<Rightarrow> roaming_transaction option" where
  "cpo_transaction_of_session i s = (case filter (has_session i) (cps_store s) of [t] \<Rightarrow> Some t | _ \<Rightarrow> None)"

definition remoteStopSessionRequest :: "cpo_env \<Rightarrow> stop_session \<Rightarrow> command_outcome cpo_handler" where
  "remoteStopSessionRequest env c =
     (if \<not> validateStopSession c then throwS (AppError BAD_REQUEST ''StopSession command body is invalid'')
      else
        bindS (readS (cpo_transaction_of_session (or_else (sps_session_id c) []))) (\<lambda>found.
        case found of
          None \<Rightarrow> returnS (REJECTED, None)
        | Some t \<Rightarrow>
            if \<not> tx_issuer t then returnS (REJECTED, None)
            else if tx_stop t \<noteq> None then returnS (REJECTED, None)
            else bindS (readS (station_in_store (tx_chargeBoxID t))) (\<lambda>station.
              if station = None then returnS (REJECTED, None)
              else returnS (OCPICommandResponseType.ACCEPTED, Some (StopOf (tx_chargeBoxID t) (tx_id t))))))"

datatype OCPICommandType = RESERVE_NOW | START_SESSION | STOP_SESSION | UNLOCK_CONNECTOR

datatype command_body = StartBody start_session | StopBody stop_session | OtherBody

text \<open>The command is the segment of the path, \<open>None\<close> when it is missing; \<open>Some None\<close> is one that is unknown.\<close>

definition cpo_commands_process :: "cpo_env \<Rightarrow> OCPICommandType option option \<Rightarrow> command_body \<Rightarrow> command_outcome cpo_handler" where
  "cpo_commands_process env command body =
     (case command of
        None \<Rightarrow> throwS (AppError BAD_REQUEST ''OCPI Command is not provided'')
      | Some None \<Rightarrow> throwS (AppError BAD_REQUEST ''OCPI Command is unknown'')
      | Some (Some START_SESSION) \<Rightarrow> (case body of StartBody c \<Rightarrow> remoteStartSessionRequest env c
          | _ \<Rightarrow> throwS (AppError BAD_REQUEST ''Start Session command body is invalid''))
      | Some (Some STOP_SESSION) \<Rightarrow> (case body of StopBody c \<Rightarrow> remoteStopSessionRequest env c
          | _ \<Rightarrow> throwS (AppError BAD_REQUEST ''StopSession command body is invalid''))
      | Some (Some _) \<Rightarrow> returnS (NOT_SUPPORTED, None))"

text \<open>
  The order to the station and what is posted to the eMSP then. \<open>client\<close> is the outcome of the order, when the station is
  connected; it is asked even when it is not.
\<close>

definition command_result :: "(station_order \<Rightarrow> bool res) option \<Rightarrow> station_order \<Rightarrow> OCPICommandResponseType res" where
  "command_result client order =
     (case client of
        None \<Rightarrow> Inl TypeError
      | Some ask \<Rightarrow> bindE (ask order) (\<lambda>accepted. Inr (if accepted then OCPICommandResponseType.ACCEPTED else REJECTED)))"

section \<open>Statuses in bulk\<close>

definition send_status :: "cpo_env \<Rightarrow> string \<Rightarrow> ocpi_evse \<Rightarrow> ocpi_result \<Rightarrow> ocpi_result cpo_handler" where
  "send_status env locationId e r =
     (let r' = r\<lparr>orr_total := orr_total r + 1\<rparr>
      in if locationId = [] \<or> \<not> truthy_str (evs_uid e) then returnS r'
         else bindS (catchS (bindS (patchEVSEStatus env (Some locationId) (evs_uid e) (or_else (evs_status e) OCPIEvseStatus.UNKNOWN)) (\<lambda>_. returnS True))
             (\<lambda>_. returnS False)) (\<lambda>ok.
           returnS (if ok then r'\<lparr>orr_success := orr_success r' + 1\<rparr>
             else r'\<lparr>orr_failure := orr_failure r' + 1,
               orr_inFailure := orr_inFailure r' @ [or_else (evs_chargingStationID e) []]\<rparr>)))"

definition STATUS_PAGE_SIZE :: nat where "STATUS_PAGE_SIZE = 100"

text \<open>The stations of a site come in pages of 100, until a page has no EVSE.\<close>

function send_pages :: "cpo_env \<Rightarrow> string \<Rightarrow> string \<Rightarrow> string \<Rightarrow> roaming_station list \<Rightarrow> ocpi_result \<Rightarrow> ocpi_result cpo_handler" where
  "send_pages env countryID partyID locationId stations r =
     (if stations = [] then returnS r
      else bindS (getEvsesFromSite env True countryID partyID (take STATUS_PAGE_SIZE stations)) (\<lambda>evses.
        if evses = [] then returnS r
        else bindS (foldS (send_status env locationId) evses r) (\<lambda>r'.
          send_pages env countryID partyID locationId (drop STATUS_PAGE_SIZE stations) r')))"
  by pat_completeness auto
termination
  by (relation "measure (\<lambda>(env, c, p, l, stations, r). length stations)") (auto simp: STATUS_PAGE_SIZE_def)

declare send_pages.simps [simp del]

text \<open>The last push, which the endpoint keeps.\<close>

record patch_job =
  pj_on :: "int option"
  pj_successNbr :: int
  pj_failureNbr :: int
  pj_totalNbr :: int
  pj_inFailure :: "string list option"

definition getChargeBoxIDsInFailure :: "patch_job \<Rightarrow> string list" where
  "getChargeBoxIDsInFailure j = or_else (pj_inFailure j) []"

text \<open>\<open>notes\<close> are the status notifications: their time and their station.\<close>

definition getChargeBoxIDsWithNewStatusNotifications :: "int \<Rightarrow> (int \<times> string) list \<Rightarrow> patch_job \<Rightarrow> string list" where
  "getChargeBoxIDsWithNewStatusNotifications now notes j = map snd (filter (\<lambda>(t, _). or_else (pj_on j) now \<le> t) notes)"

text \<open>\<^verbatim>\<open>_.uniq\<close>: of equal entries the first stays.\<close>

definition first_ones :: "'a list \<Rightarrow> 'a list" where
  "first_ones xs = rev (remdups (rev xs))"

text \<open>
  The stations to process: all of them, or those of the last failure and of new status notifications. The list of these is
  a filter only when it is not empty.
\<close>

definition chosen_stations :: "bool \<Rightarrow> string list \<Rightarrow> string list option" where
  "chosen_stations processAllEVSEs ids = (if \<not> processAllEVSEs \<and> ids \<noteq> [] then Some ids else None)"

definition send_site :: "cpo_env \<Rightarrow> string \<Rightarrow> string \<Rightarrow> string list option \<Rightarrow> string \<Rightarrow> ocpi_result \<Rightarrow> ocpi_result cpo_handler" where
  "send_site env countryID partyID chosen locationId r =
     bindS (readS (public_of_site locationId chosen)) (\<lambda>stations. send_pages env countryID partyID locationId stations r)"

text \<open>\<open>sites\<close> are the public sites of the organization. The new job is returned, which is saved at the endpoint.\<close>

definition sendEVSEStatuses ::
  "cpo_env \<Rightarrow> bool \<Rightarrow> (int \<times> string) list \<Rightarrow> string list \<Rightarrow> patch_job \<Rightarrow> (ocpi_result \<times> patch_job) cpo_handler" where
  "sendEVSEStatuses env processAllEVSEs notes sites j =
     bindS (liftS (getLocalCountryCode env)) (\<lambda>countryID.
     bindS (liftS (getLocalPartyID env)) (\<lambda>partyID.
     let ids = (if processAllEVSEs then []
           else first_ones (getChargeBoxIDsInFailure j @ getChargeBoxIDsWithNewStatusNotifications (cpe_now env) notes j))
     in bindS (foldS (send_site env countryID partyID (chosen_stations processAllEVSEs ids)) sites no_ocpi_result) (\<lambda>r.
        returnS (r, j\<lparr>pj_on := Some (cpe_now env), pj_successNbr := orr_success r, pj_failureNbr := orr_failure r,
          pj_totalNbr := orr_total r, pj_inFailure := Some (first_ones (orr_inFailure r))\<rparr>))))"

end
