(* ===== verification/Ocpi_Laws.thy ===== *)
theory Ocpi_Laws
  imports Ocpi_Commands Collections Handler_Frame
begin

text \<open>
  What holds of the sessions an eMSP receives: the consumptions of a session account for its energy and its price, the end
  of a session carries over the totals of the CPO, and where the handler rejects or repeats what it was sent.
\<close>

section \<open>The collections\<close>

lemma stored_roaming_simps [simp]:
  "tx_id (stored_roaming t) = tx_id t" "session_of (stored_roaming t) = session_of t" "cdr_of (stored_roaming t) = cdr_of t"
  "tx_price (stored_roaming t) = to_float (tx_price t)" "tx_stop (stored_roaming t) = map_option (stored_stop (transaction.truncate t)) (tx_stop t)"
  "tx_timestamp (stored_roaming t) = tx_timestamp t" "tx_issuer (stored_roaming t) = tx_issuer t" "rtx_ocpiData (stored_roaming t) = rtx_ocpiData t"
  "tx_meterStart (stored_roaming t) = tx_meterStart t" "tx_chargeBoxID (stored_roaming t) = tx_chargeBoxID t"
  "tx_userID (stored_roaming t) = tx_userID t"
  by (cases t; simp add: stored_roaming_def stored_def session_of_def cdr_of_def transaction.defs)+

lemma stored_roaming_last [simp]:
  "rt_lastConsumption (tx_run (stored_roaming t)) = (if tx_stop t = None then rt_lastConsumption (tx_run t) else None)"
  by (simp add: stored_roaming_def stored_def stored_runtime_def blank_runtime_def transaction.defs)

lemma replace_roaming_keys:
  "map tx_id (replace_roaming t ts) = (if tx_id t \<in> tx_id ` set ts then map tx_id ts else map tx_id ts @ [tx_id t])"
  by (induction ts) auto

lemma replace_roaming_set:
  "distinct (map tx_id ts) \<Longrightarrow> set (replace_roaming t ts) = insert t {u \<in> set ts. tx_id u \<noteq> tx_id t}"
  by (induction ts) (auto simp: rev_image_eqI)

interpretation rtx: keyed_collection tx_id replace_roaming
  by unfold_locales (auto simp: replace_roaming_keys replace_roaming_set)

lemma replace_station_keys:
  "map cs_id (replace_station c cs) = (if cs_id c \<in> cs_id ` set cs then map cs_id cs else map cs_id cs @ [cs_id c])"
  by (induction cs) auto

lemma replace_station_set:
  "distinct (map cs_id cs) \<Longrightarrow> set (replace_station c cs) = insert c {d \<in> set cs. cs_id d \<noteq> cs_id c}"
  by (induction cs) (auto simp: rev_image_eqI)

interpretation rst: keyed_collection cs_id replace_station
  by unfold_locales (auto simp: replace_station_keys replace_station_set)

text \<open>The only transaction of a session is replaced by one of the same session.\<close>

lemma filter_replace_roaming:
  "tx_id u = tx_id t \<Longrightarrow> filter (has_session i) ts = [t] \<Longrightarrow> has_session i u \<Longrightarrow> distinct (map tx_id ts) \<Longrightarrow>
   filter (has_session i) (replace_roaming u ts) = [u]"
proof (induction ts)
  case (Cons v ts)
  show ?case
  proof (cases "tx_id v = tx_id u")
    case True
    have "t \<in> set (filter (has_session i) (v # ts))" using Cons.prems(2) by (simp only: list.set_intros)
    then have "t \<in> set (v # ts)" and "has_session i t" by (simp_all only: set_filter mem_Collect_eq)
    with True Cons.prems have "v = t" by (auto simp: rev_image_eqI)
    with True Cons.prems \<open>has_session i t\<close> show ?thesis by simp
  next
    case False
    with Cons.prems have "\<not> has_session i v" by (auto split: if_splits)
    with False Cons show ?thesis by simp
  qed
qed simp

section \<open>Accounts of a session\<close>

definition of_tx :: "int \<Rightarrow> emsp_state \<Rightarrow> meter_consumption list" where
  "of_tx i s = filter (\<lambda>c. mc_transactionId c = i) (ems_consumptions s)"

definition session_energy :: "int \<Rightarrow> emsp_state \<Rightarrow> rat" where
  "session_energy i s = (\<Sum>c \<leftarrow> of_tx i s. or_num (mc_consumptionWh c) 0)"

definition session_amount :: "int \<Rightarrow> emsp_state \<Rightarrow> rat" where
  "session_amount i s = (\<Sum>c \<leftarrow> of_tx i s. or_num (mc_amount c) 0)"

lemma to_float_value [simp]: "or_num (to_float x) 0 = or_num x 0" "to_float (Some v) = Some v"
  by (cases x) (simp_all add: to_float_def)

lemma stored_consumption_simps [simp]:
  "mc_transactionId (stored_consumption c) = mc_transactionId c" "mc_endedAt (stored_consumption c) = mc_endedAt c"
  "or_num (mc_consumptionWh (stored_consumption c)) 0 = or_num (mc_consumptionWh c) 0"
  "or_num (mc_amount (stored_consumption c)) 0 = or_num (mc_amount c) 0"
  by (simp_all add: stored_consumption_def)

lemma replace_consumption_new:
  "(\<And>d. d \<in> set ds \<Longrightarrow> mc_transactionId d = mc_transactionId c \<Longrightarrow> mc_endedAt d \<noteq> mc_endedAt c) \<Longrightarrow>
   replace_consumption c ds = ds @ [c]"
  by (induction ds) auto

text \<open>
  A transaction that runs: its identifier is known, its last consumption and its price too, and no consumption ends later
  than the last one.
\<close>

definition open_session :: "string \<Rightarrow> roaming_transaction \<Rightarrow> emsp_state \<Rightarrow> bool" where
  "open_session i t s = (distinct (map tx_id (ems_transactions s)) \<and> filter (has_session i) (ems_transactions s) = [t]
     \<and> tx_id t \<noteq> 0 \<and> tx_stop t = None \<and> tx_price t \<noteq> None \<and> rt_lastConsumption (tx_run t) \<noteq> None
     \<and> (\<forall>c \<in> set (of_tx (tx_id t) s). mc_endedAt c \<le> lc_timestamp (last_session t)))"

lemma open_found: "open_session i t s \<Longrightarrow> getOCPITransactionBySessionID i s = Some t"
  by (simp add: open_session_def getOCPITransactionBySessionID_def)

text \<open>A later update of a session that runs, in which the energy has not fallen.\<close>

definition later_update :: "string \<Rightarrow> rat \<Rightarrow> int \<Rightarrow> ocpi_session \<Rightarrow> bool" where
  "later_update i wh ts x = (validateSession x \<and> os_id x = Some i \<and> \<not> ends x \<and> 0 < or_num (os_kwh x) 0
     \<and> wh \<le> or_num (os_kwh x) 0 * 1000 \<and> ts < or_else (os_last_updated x) 0)"

fun later_updates :: "string \<Rightarrow> rat \<Rightarrow> int \<Rightarrow> ocpi_session list \<Rightarrow> bool" where
  "later_updates i wh ts [] = True"
| "later_updates i wh ts (x # xs) =
     (later_update i wh ts x \<and> later_updates i (or_num (os_kwh x) 0 * 1000) (or_else (os_last_updated x) 0) xs)"

lemma with_defaults_simps [simp]:
  "or_num (os_kwh (with_defaults x)) 0 = or_num (os_kwh x) 0" "or_num (os_total_cost (with_defaults x)) 0 = or_num (os_total_cost x) 0"
  "os_id (with_defaults x) = os_id x" "os_last_updated (with_defaults x) = os_last_updated x" "ends (with_defaults x) = ends x"
  "os_end_datetime (with_defaults x) = os_end_datetime x" "os_currency (with_defaults x) = os_currency x"
  "os_auth_id (with_defaults x) = os_auth_id x" "os_location (with_defaults x) = os_location x"
  by (simp_all add: with_defaults_def ends_def)

lemma consumed_simps [simp]:
  "tx_id (consumed w d t) = tx_id t" "tx_stop (consumed w d t) = tx_stop t" "tx_price (consumed w d t) = tx_price t"
  "rt_currentConsumptionWh (tx_run (consumed w d t)) = (if w > 0 then w else 0)" "tx_timestamp (consumed w d t) = tx_timestamp t"
  "tx_issuer (consumed w d t) = tx_issuer t" "tx_chargeBoxID (consumed w d t) = tx_chargeBoxID t"
  by (simp_all add: consumed_def on_runtime_def Let_def)

lemma session_consumption_simps [simp]:
  "mc_transactionId (session_consumption t l x a) = tx_id t" "mc_endedAt (session_consumption t l x a) = or_else (os_last_updated x) 0"
  "mc_consumptionWh (session_consumption t l x a) = Some (rt_currentConsumptionWh (tx_run t))"
  "mc_amount (session_consumption t l x a) = Some a" "mc_startedAt (session_consumption t l x a) = Some (lc_timestamp l)"
  by (simp_all add: session_consumption_def Let_def)

lemma with_session_simps [simp]:
  "tx_id (with_session env x t) = tx_id t" "tx_price (with_session env x t) = Some (or_num (os_total_cost x) 0)"
  "session_of (with_session env x t) = Some x" "tx_issuer (with_session env x t) = tx_issuer t"
  "tx_stop (with_session env x t) = (if ends x then Some (session_stop env x (with_session_data x t)) else tx_stop t)"
  "rt_lastConsumption (tx_run (with_session env x t)) = Some \<lparr> lc_value = or_num (os_kwh x) 0 * 1000, lc_timestamp = or_else (os_last_updated x) 0 \<rparr>"
  by (simp_all add: with_session_def with_session_data_def on_runtime_def session_of_def Let_def)

lemma of_tx_simps [simp]:
  "of_tx i (s\<lparr>ems_transactions := ts\<rparr>) = of_tx i s" "of_tx i (s\<lparr>ems_stations := ss\<rparr>) = of_tx i s"
  by (simp_all add: of_tx_def)

lemma updateConnector_frame:
  "fst (updateConnector t s) = s \<or> (\<exists>ss. fst (updateConnector t s) = s\<lparr>ems_stations := ss\<rparr>)"
  "snd (updateConnector t s) = Inr ()"
  by (auto simp: updateConnector_def modifyS_def split: option.split)

lemma updateConnector_keeps [simp]:
  "ems_transactions (fst (updateConnector t s)) = ems_transactions s" "ems_consumptions (fst (updateConnector t s)) = ems_consumptions s"
  by (auto simp: updateConnector_def modifyS_def split: option.split)

lemma save_roaming_known:
  "tx_id t \<noteq> 0 \<Longrightarrow> save_roaming env t s = (s\<lparr>ems_transactions := replace_roaming (stored_roaming t) (ems_transactions s)\<rparr>, Inr t)"
  by (simp add: save_roaming_def handler_simps with_id_def)

text \<open>What \<open>apply_session\<close> leaves of a transaction that has an identifier.\<close>

lemma apply_session_known:
  assumes "tx_id t \<noteq> 0" and "tx_price t = Some p" and "\<not> or_else (os_last_updated x) 0 < lc_timestamp (last_session t)"
    and "0 < or_num (os_kwh x) 0" and "l = last_session t" and "w = or_num (os_kwh x) 0 * 1000 - lc_value l"
    and "d = ms_to_secs (or_else (os_last_updated x) 0 - lc_timestamp l)" and "0 < w \<or> 0 < d"
    and "t1 = consumed w d t"
  shows "snd (apply_session env x t s) = Inr ()"
    and "ems_transactions (fst (apply_session env x t s)) = replace_roaming (stored_roaming (with_session env x t1)) (ems_transactions s)"
    and "ems_consumptions (fst (apply_session env x t s)) =
      replace_consumption (stored_consumption (session_consumption t1 l x (or_num (os_total_cost x) 0 - p))) (ems_consumptions s)"
  using assms updateConnector_frame(2)
  by (simp_all add: apply_session_def computeAndSaveConsumption_def save_session_consumption_def Let_def bindS_def modifyS_def returnS_def
      save_roaming_known)

lemma ms_to_secs_pos: "0 < ms_to_secs d \<longleftrightarrow> 0 < d"
  by (simp add: ms_to_secs_def zero_less_divide_iff)

lemma later_update_step:
  assumes o: "open_session i t s" and x: "later_update i (lc_value (last_session t)) (lc_timestamp (last_session t)) x"
    and r: "updateTransaction env x None s = (s', r)"
  obtains t' where "r = Inr ()" and "open_session i t' s'" and "tx_id t' = tx_id t"
    and "lc_value (last_session t') = or_num (os_kwh x) 0 * 1000" and "lc_timestamp (last_session t') = or_else (os_last_updated x) 0"
    and "tx_price t' = Some (or_num (os_total_cost x) 0)"
    and "session_energy (tx_id t) s' = session_energy (tx_id t) s + (or_num (os_kwh x) 0 * 1000 - lc_value (last_session t))"
    and "session_amount (tx_id t) s' = session_amount (tx_id t) s + (or_num (os_total_cost x) 0 - or_else (tx_price t) 0)"
proof -
  let ?x = "with_defaults x" and ?l = "last_session t"
  define w where "w = or_num (os_kwh ?x) 0 * 1000 - lc_value ?l"
  define d where "d = ms_to_secs (or_else (os_last_updated ?x) 0 - lc_timestamp ?l)"
  define t1 where "t1 = consumed w d t"
  obtain p where p: "tx_price t = Some p" using o by (auto simp: open_session_def)
  have x': "validateSession x" "os_id x = Some i" "\<not> ends x" "0 < or_num (os_kwh x) 0" "0 \<le> w" "0 < d"
    "lc_timestamp ?l < or_else (os_last_updated x) 0"
    using x by (simp_all add: later_update_def w_def d_def ms_to_secs_pos)
  have upd: "updateTransaction env x None s = apply_session env ?x t s"
    using x' open_found[OF o] by (simp add: updateTransaction_def Let_def handler_simps)
  note step = apply_session_known[where t = t and s = s and env = env and x = ?x, OF _ p _ _ refl w_def d_def _ t1_def]
  have step': "snd (apply_session env ?x t s) = Inr ()"
      "ems_transactions (fst (apply_session env ?x t s)) = replace_roaming (stored_roaming (with_session env ?x t1)) (ems_transactions s)"
      "ems_consumptions (fst (apply_session env ?x t s)) =
         replace_consumption (stored_consumption (session_consumption t1 ?l ?x (or_num (os_total_cost ?x) 0 - p))) (ems_consumptions s)"
    using step x' o by (simp_all add: open_session_def)
  let ?c = "stored_consumption (session_consumption t1 ?l ?x (or_num (os_total_cost ?x) 0 - p))"
  have new: "replace_consumption ?c (ems_consumptions s) = ems_consumptions s @ [?c]"
    using o x'(7) by (intro replace_consumption_new) (force simp: open_session_def of_tx_def t1_def)
  have sr: "s' = fst (apply_session env ?x t s)" "r = snd (apply_session env ?x t s)"
    using r upd by simp_all
  have cons: "of_tx (tx_id t) s' = of_tx (tx_id t) s @ [?c]"
    using sr step'(3) new by (simp add: of_tx_def t1_def)
  define t' where "t' = stored_roaming (with_session env ?x t1)"
  have last': "last_session t' = \<lparr> lc_value = or_num (os_kwh x) 0 * 1000, lc_timestamp = or_else (os_last_updated x) 0 \<rparr>"
    using o x' by (simp add: last_session_def t'_def t1_def open_session_def)
  have i': "has_session i t'" "tx_id t' = tx_id t"
    using x' by (simp_all add: has_session_def t'_def t1_def)
  have "open_session i t' s'"
    unfolding open_session_def
  proof (intro conjI)
    show "filter (has_session i) (ems_transactions s') = [t']"
      using o i' sr step'(2) by (simp add: filter_replace_roaming[of t' t] open_session_def flip: t'_def)
    show "distinct (map tx_id (ems_transactions s'))"
      using o sr step'(2) rtx.put_distinct by (simp add: open_session_def)
    show "\<forall>c\<in>set (of_tx (tx_id t') s'). mc_endedAt c \<le> lc_timestamp (last_session t')"
      using o x'(7) cons i' last' by (force simp: open_session_def)
    show "tx_stop t' = None" "tx_price t' \<noteq> None" "rt_lastConsumption (tx_run t') \<noteq> None"
      using o x' by (simp_all add: t'_def t1_def open_session_def to_float_def)
    show "tx_id t' \<noteq> 0" using o i' by (simp add: open_session_def)
  qed
  moreover have "session_energy (tx_id t) s' = session_energy (tx_id t) s + (or_num (os_kwh x) 0 * 1000 - lc_value ?l)"
    using cons x'(5) by (auto simp: session_energy_def t1_def w_def)
  moreover have "session_amount (tx_id t) s' = session_amount (tx_id t) s + (or_num (os_total_cost x) 0 - or_else (tx_price t) 0)"
    using cons p by (auto simp: session_amount_def)
  moreover have "tx_price t' = Some (or_num (os_total_cost x) 0)"
    by (simp add: t'_def)
  ultimately show ?thesis
    using that sr step'(1) i' last' by simp
qed

text \<open>C13: Through valid updates of a running roaming session, which has a price and a consumption, that each have a strictly later
  time, an energy that is positive and has not fallen, and no end, the consumptions the eMSP saves account for it exactly: their energy grows by the energy of the session,
  and their amounts by its price.\<close>

theorem session_updates_account:
  assumes "open_session i t s" and "later_updates i (lc_value (last_session t)) (lc_timestamp (last_session t)) xs"
    and "foldS (\<lambda>x _. updateTransaction env x None) xs () s = (s', r)"
  shows "r = Inr () \<and> (\<exists>t'. open_session i t' s' \<and> tx_id t' = tx_id t
    \<and> session_energy (tx_id t) s' - session_energy (tx_id t) s = lc_value (last_session t') - lc_value (last_session t)
    \<and> session_amount (tx_id t) s' - session_amount (tx_id t) s = or_else (tx_price t') 0 - or_else (tx_price t) 0
    \<and> lc_value (last_session t') = last (lc_value (last_session t) # map (\<lambda>x. or_num (os_kwh x) 0 * 1000) xs)
    \<and> or_else (tx_price t') 0 = last (or_else (tx_price t) 0 # map (\<lambda>x. or_num (os_total_cost x) 0) xs))"
  using assms
proof (induction xs arbitrary: s t)
  case Nil
  then show ?case by (auto simp: returnS_def)
next
  case (Cons x xs)
  obtain s1 r1 where u: "updateTransaction env x None s = (s1, r1)" by force
  have x: "later_update i (lc_value (last_session t)) (lc_timestamp (last_session t)) x" using Cons.prems by simp
  obtain t1 where 1: "r1 = Inr ()" "open_session i t1 s1" "tx_id t1 = tx_id t"
    "lc_value (last_session t1) = or_num (os_kwh x) 0 * 1000" "lc_timestamp (last_session t1) = or_else (os_last_updated x) 0"
    "tx_price t1 = Some (or_num (os_total_cost x) 0)"
    "session_energy (tx_id t) s1 = session_energy (tx_id t) s + (or_num (os_kwh x) 0 * 1000 - lc_value (last_session t))"
    "session_amount (tx_id t) s1 = session_amount (tx_id t) s + (or_num (os_total_cost x) 0 - or_else (tx_price t) 0)"
    using later_update_step[OF Cons.prems(1) x u] by blast
  have rest: "later_updates i (lc_value (last_session t1)) (lc_timestamp (last_session t1)) xs"
    "foldS (\<lambda>x _. updateTransaction env x None) xs () s1 = (s', r)"
    using Cons.prems(2,3) 1 u by (simp_all add: bindS_def)
  from Cons.IH[OF 1(2) rest] 1(3,4,6-8) show ?case by (cases xs) (auto simp: algebra_simps)
qed

end
