(* ===== verification/Ocpi_Ends.thy ===== *)
theory Ocpi_Ends
  imports Ocpi_Laws
begin

text \<open>
  The ends of a roaming session: what the CPO sends last is what the eMSP keeps; a session whose start was missed, a
  session that is sent again and one whose identifier another operator uses too; and the stop that an eMSP asks for.
\<close>

section \<open>One update\<close>

lemma session_stop_simps [simp]:
  "stop_totalConsumptionWh (session_stop env x t) = or_num (os_kwh x) 0 * 1000"
  "stop_price (session_stop env x t) = Some (or_num (os_total_cost x) 0)"
  "stop_timestamp (session_stop env x t) = or_else (os_end_datetime x) (eme_now env)"
  by (simp_all add: session_stop_def Let_def)

lemma stored_stop_simps [simp]:
  "stop_totalConsumptionWh (stored_stop t st) = stop_totalConsumptionWh st" "stop_price (stored_stop t st) = to_float (stop_price st)"
  "stop_timestamp (stored_stop t st) = stop_timestamp st"
  by (simp_all add: stored_stop_def)

lemma with_session_more [simp]:
  "tx_chargeBoxID (with_session env x t) = tx_chargeBoxID t" "tx_userID (with_session env x t) = tx_userID t"
  by (simp_all add: with_session_def with_session_data_def on_runtime_def Let_def)

lemma consumed_more [simp]: "tx_userID (consumed w d t) = tx_userID t"
  by (simp add: consumed_def on_runtime_def)

definition same_session :: "roaming_transaction \<Rightarrow> roaming_transaction \<Rightarrow> bool" where
  "same_session t u = (tx_id u = tx_id t \<and> tx_issuer u = tx_issuer t \<and> tx_chargeBoxID u = tx_chargeBoxID t \<and> tx_userID u = tx_userID t)"

lemma computeAndSaveConsumption_known:
  assumes "tx_id t \<noteq> 0" and "tx_price t \<noteq> None"
  shows "\<exists>u s'. computeAndSaveConsumption t l x s = (s', Inr u) \<and> same_session t u \<and> ems_transactions s' = ems_transactions s"
  using assms by (auto simp: computeAndSaveConsumption_def save_session_consumption_def Let_def handler_simps same_session_def)

lemma apply_session_saves:
  assumes "tx_id t \<noteq> 0" and "tx_price t \<noteq> None" and "\<not> or_else (os_last_updated x) 0 < lc_timestamp (last_session t)"
  obtains u where "snd (apply_session env x t s) = Inr ()" and "same_session t u"
    and "ems_transactions (fst (apply_session env x t s)) = replace_roaming (stored_roaming (with_session env x u)) (ems_transactions s)"
proof (cases "or_num (os_kwh x) 0 > 0")
  case True
  obtain u s1 where u: "computeAndSaveConsumption t (last_session t) x s = (s1, Inr u)" "same_session t u" "ems_transactions s1 = ems_transactions s"
    using computeAndSaveConsumption_known[OF assms(1,2)] by blast
  then show ?thesis using that[of u] assms True updateConnector_frame(2)
    by (simp add: apply_session_def bindS_def same_session_def save_roaming_known)
next
  case False
  then show ?thesis using that[of t] assms updateConnector_frame(2)
    by (simp add: apply_session_def bindS_def returnS_def same_session_def save_roaming_known)
qed

lemma update_known:
  assumes "distinct (map tx_id (ems_transactions s))" and "filter (has_session i) (ems_transactions s) = [t]"
    and "tx_id t \<noteq> 0" and "tx_price t \<noteq> None"
    and "validateSession x" and "os_id x = Some i" and "\<not> or_else (os_last_updated x) 0 < lc_timestamp (last_session t)"
    and "updateTransaction env x None s = (s', r)"
  obtains u where "r = Inr ()" and "same_session t u"
    and "getOCPITransactionBySessionID i s' = Some (stored_roaming (with_session env (with_defaults x) u))"
proof -
  let ?x = "with_defaults x"
  have upd: "updateTransaction env x None s = apply_session env ?x t s"
    using assms by (simp add: updateTransaction_def Let_def handler_simps getOCPITransactionBySessionID_def)
  obtain u where u: "snd (apply_session env ?x t s) = Inr ()" "same_session t u"
    "ems_transactions (fst (apply_session env ?x t s)) = replace_roaming (stored_roaming (with_session env ?x u)) (ems_transactions s)"
    using apply_session_saves[OF assms(3,4), where x = ?x] assms(7) by (metis with_defaults_simps(4))
  have "has_session i (stored_roaming (with_session env ?x u))" using assms(6) by (simp add: has_session_def)
  with u(2,3) assms(1,2,8) upd filter_replace_roaming[where u = "stored_roaming (with_session env ?x u)" and t = t] that[of u] u(1)
  show ?thesis by (auto simp: getOCPITransactionBySessionID_def same_session_def)
qed

section \<open>Both sides agree\<close>

lemma stop_sends:
  assumes "ocpi_stopSession env c = (c', Inr ())" and "tx_stop (cps_tx c) = Some st"
  obtains x0 where "session_of (cps_tx c) = Some x0" and "cps_sent c' = cps_sent c @ [PutSession (completed_session env (cps_tx c) st x0)]"
  using assms by (auto simp: ocpi_stopSession_def handler_simps throwS_def set_session_def on_tx_def call_def Let_def
      split: option.splits sum.splits prod.splits)

lemma completed_session_simps [simp]:
  "os_kwh (completed_session env t st x) = Some (stop_totalConsumptionWh st / 1000)"
  "os_total_cost (completed_session env t st x) = Some (positive_or_0 (stop_roundedPrice st))"
  "os_end_datetime (completed_session env t st x) = Some (stop_timestamp st)"
  "os_last_updated (completed_session env t st x) = Some (stop_timestamp st)" "os_id (completed_session env t st x) = os_id x"
  by (simp_all add: completed_session_def)

text \<open>C14: When a CPO ends a session and the eMSP takes what it sent, the transaction of the eMSP ends at the same time, with the same
  energy and with the price of the CPO.\<close>

theorem stop_totals_agree:
  assumes "ocpi_stopSession envC c = (c', Inr ())" and "tx_stop (cps_tx c) = Some st" and "last (cps_sent c') = PutSession x"
    and "os_id x = Some i" and "validateSession x" and "open_session i t e" and "lc_timestamp (last_session t) \<le> stop_timestamp st"
    and "country \<noteq> []" and "party \<noteq> []" and "putSessionRequest env country party i x e = (e', r)"
  shows "r = Inr () \<and> (\<exists>t' u. getOCPITransactionBySessionID i e' = Some t' \<and> tx_stop t' = Some u
    \<and> stop_timestamp u = stop_timestamp st \<and> stop_totalConsumptionWh u = stop_totalConsumptionWh st
    \<and> stop_price u = Some (positive_or_0 (stop_roundedPrice st)))"
proof -
  obtain x0 where x: "x = completed_session envC (cps_tx c) st x0"
    using stop_sends[OF assms(1,2)] assms(3) by (metis cpo_message.inject(1) snoc_eq_iff_butlast)
  have "i \<noteq> []" using assms(4,5) by (simp add: validateSession_def)
  then have u: "updateTransaction env x None e = (e', r)"
    using assms(4,8-10) by (simp add: putSessionRequest_def path_given_def handler_simps)
  have *: "\<not> or_else (os_last_updated x) 0 < lc_timestamp (last_session t)" using assms(7) by (simp add: x)
  have o: "distinct (map tx_id (ems_transactions e))" "filter (has_session i) (ems_transactions e) = [t]" "tx_id t \<noteq> 0" "tx_price t \<noteq> None"
    using assms(6) by (simp_all add: open_session_def)
  obtain v where "r = Inr ()" and "getOCPITransactionBySessionID i e' = Some (stored_roaming (with_session env (with_defaults x) v))"
    by (rule update_known[OF o assms(5,4) * u])
  moreover have "ends (with_defaults x)" by (simp add: ends_def x)
  moreover have "stop_totalConsumptionWh st / 1000 = 0 \<longleftrightarrow> stop_totalConsumptionWh st = 0" by simp
  ultimately show ?thesis by (simp add: x)
qed

section \<open>A session whose start was missed\<close>

lemma create_roaming_read_only: "fst (create_roaming env x s) = s"
  by (simp add: create_roaming_def handler_simps throwS_def split: option.split)

lemma created_fields:
  assumes "create_roaming env x s = (s', Inr t)"
  shows "tx_price t = None" and "last_session t = \<lparr> lc_value = 0, lc_timestamp = or_else (os_start_datetime x) 0 \<rparr>" and "tx_issuer t = False"
  using assms by (auto simp: create_roaming_def handler_simps throwS_def new_roaming_transaction_def last_session_def split: option.splits)

lemma missed_start:
  assumes "getOCPITransactionBySessionID (or_else (os_id x) []) s = None" and "0 < or_num (os_kwh x) 0"
  shows "fst (updateTransaction env x None s) = s"
proof (cases "create_roaming env (with_defaults x) s")
  case (Pair s1 r)
  then have s1: "s1 = s" using create_roaming_read_only by (metis fst_conv)
  show ?thesis
  proof (cases r)
    case (Inr t)
    note t = created_fields[OF Pair[unfolded Inr]]
    show ?thesis
      using assms Pair Inr t s1
      by (simp add: updateTransaction_def Let_def handler_simps throwS_def apply_session_def computeAndSaveConsumption_def)
  qed (use assms Pair s1 in \<open>simp add: updateTransaction_def Let_def handler_simps throwS_def\<close>)
qed

text \<open>C34: A roaming session of which the eMSP sees no update without energy is never recorded: every update that carries energy
  leaves the data base as it was.\<close>

theorem missed_start_never_recorded:
  assumes "getOCPITransactionBySessionID i s = None" and "\<forall>x \<in> set xs. os_id x = Some i \<and> 0 < or_num (os_kwh x) 0"
  shows "fst (foldS (\<lambda>x _. catchS (updateTransaction env x None) (\<lambda>_. returnS ())) xs () s) = s"
  using assms(2)
proof (induction xs)
  case Nil
  then show ?case by (simp add: returnS_def)
next
  case (Cons x xs)
  have "fst (updateTransaction env x None s) = s" using missed_start assms(1) Cons.prems by simp
  then have "catchS (updateTransaction env x None) (\<lambda>_. returnS ()) s = (s, Inr ())"
    by (auto simp: catchS_def returnS_def split: prod.split sum.split)
  with Cons show ?case by (simp add: bindS_def)
qed

section \<open>A session that is sent again\<close>

lemma sum_replace_consumption:
  assumes "distinct (map mc_endedAt (filter (\<lambda>d. mc_transactionId d = i) ds))" and "mc_transactionId c = i"
  shows "(\<Sum>d \<leftarrow> filter (\<lambda>d. mc_transactionId d = i) (replace_consumption c ds). f d :: rat)
    = (\<Sum>d \<leftarrow> filter (\<lambda>d. mc_transactionId d = i \<and> mc_endedAt d \<noteq> mc_endedAt c) ds. f d) + f c"
  using assms
proof (induction ds)
  case (Cons d ds)
  show ?case
  proof (cases "mc_transactionId d = i \<and> mc_endedAt d = mc_endedAt c")
    case True
    with Cons.prems have "filter (\<lambda>d. mc_transactionId d = i \<and> mc_endedAt d \<noteq> mc_endedAt c) ds = filter (\<lambda>d. mc_transactionId d = i) ds"
      by (auto intro!: filter_cong simp: rev_image_eqI)
    with True Cons.prems show ?thesis by simp
  qed (use Cons in \<open>auto split: if_splits\<close>)
qed simp

text \<open>A session that is sent again after its end, as the pulls of the eMSP do, is counted from its start once more: beside its earlier
  consumptions a new one holds the energy of the whole session.\<close>

theorem replay_counts_from_start:
  assumes "filter (has_session i) (ems_transactions s) = [t]" and "tx_id t \<noteq> 0" and "tx_price t \<noteq> None"
    and "rt_lastConsumption (tx_run t) = None" and "tx_meterStart t = 0"
    and "validateSession x" and "os_id x = Some i" and "0 < or_num (os_kwh x) 0" and "tx_timestamp t \<le> or_else (os_last_updated x) 0"
    and "distinct (map mc_endedAt (of_tx (tx_id t) s))" and "updateTransaction env x None s = (s', r)"
  shows "r = Inr () \<and> session_energy (tx_id t) s' =
    (\<Sum>c \<leftarrow> filter (\<lambda>c. mc_endedAt c \<noteq> or_else (os_last_updated x) 0) (of_tx (tx_id t) s). or_num (mc_consumptionWh c) 0)
    + or_num (os_kwh x) 0 * 1000"
proof -
  let ?x = "with_defaults x"
  define w where "w = or_num (os_kwh ?x) 0 * 1000 - lc_value (last_session t)"
  define d where "d = ms_to_secs (or_else (os_last_updated ?x) 0 - lc_timestamp (last_session t))"
  define t1 where "t1 = consumed w d t"
  obtain p where p: "tx_price t = Some p" using assms(3) by auto
  have last: "last_session t = \<lparr> lc_value = 0, lc_timestamp = tx_timestamp t \<rparr>" using assms(4,5) by (simp add: last_session_def)
  have w: "w = or_num (os_kwh x) 0 * 1000" by (simp add: w_def last)
  have upd: "updateTransaction env x None s = apply_session env ?x t s"
    using assms by (simp add: updateTransaction_def Let_def handler_simps getOCPITransactionBySessionID_def)
  note step = apply_session_known[where t = t and s = s and env = env and x = ?x, OF assms(2) p _ _ refl w_def d_def _ t1_def]
  have "ems_consumptions s' = replace_consumption (stored_consumption (session_consumption t1 (last_session t) ?x (or_num (os_total_cost ?x) 0 - p))) (ems_consumptions s)"
    and r: "r = Inr ()"
    using step assms(8,9,11) upd w by (simp_all add: last)
  then have "session_energy (tx_id t) s' =
      (\<Sum>c \<leftarrow> filter (\<lambda>c. mc_transactionId c = tx_id t \<and> mc_endedAt c \<noteq> or_else (os_last_updated x) 0) (ems_consumptions s). or_num (mc_consumptionWh c) 0) + w"
    using sum_replace_consumption[of "tx_id t" "ems_consumptions s"
        "stored_consumption (session_consumption t1 (last_session t) ?x (or_num (os_total_cost ?x) 0 - p))" "\<lambda>c. or_num (mc_consumptionWh c) 0"]
      assms(8,10) w by (simp add: session_energy_def of_tx_def t1_def)
  with r w show ?thesis by (simp add: of_tx_def conj_commute)
qed

section \<open>An identifier of two operators\<close>

text \<open>Sessions are told apart by their identifier alone: a session of another operator with an identifier in use, of any user on any
  station, goes to the transaction that has it, whose user and station stay.\<close>

theorem session_ids_collide:
  assumes "open_session i t s" and "validateSession x" and "os_id x = Some i" and "lc_timestamp (last_session t) \<le> or_else (os_last_updated x) 0"
    and "country \<noteq> []" and "party \<noteq> []" and "putSessionRequest env country party i x s = (s', r)"
  shows "r = Inr () \<and> (\<exists>t'. getOCPITransactionBySessionID i s' = Some t' \<and> tx_id t' = tx_id t \<and> tx_userID t' = tx_userID t
    \<and> tx_chargeBoxID t' = tx_chargeBoxID t \<and> tx_price t' = Some (or_num (os_total_cost x) 0))"
proof -
  have "i \<noteq> []" using assms(2,3) by (simp add: validateSession_def)
  then have u: "updateTransaction env x None s = (s', r)"
    using assms(3,5-7) by (simp add: putSessionRequest_def path_given_def handler_simps)
  have *: "\<not> or_else (os_last_updated x) 0 < lc_timestamp (last_session t)" using assms(4) by simp
  have o: "distinct (map tx_id (ems_transactions s))" "filter (has_session i) (ems_transactions s) = [t]" "tx_id t \<noteq> 0" "tx_price t \<noteq> None"
    using assms(1) by (simp_all add: open_session_def)
  obtain v where "r = Inr ()" and "same_session t v" and "getOCPITransactionBySessionID i s' = Some (stored_roaming (with_session env (with_defaults x) v))"
    by (rule update_known[OF o assms(2,3) * u])
  then show ?thesis by (simp add: same_session_def)
qed

section \<open>The stop that an eMSP asks for\<close>

text \<open>The requests of the endpoints that change something.\<close>

datatype emsp_request =
    PutRequest string string string ocpi_session
  | PatchRequest string string string ocpi_session
  | CdrRequest ocpi_cdr

fun emsp_process :: "emsp_env \<Rightarrow> emsp_request \<Rightarrow> unit emsp_handler" where
  "emsp_process env (PutRequest country party i body) = putSessionRequest env country party i body"
| "emsp_process env (PatchRequest country party i body) = patchSessionRequest env country party i body"
| "emsp_process env (CdrRequest cdr) = postCdrRequest env cdr"

text \<open>The sessions an eMSP has are of other organizations.\<close>

definition foreign :: "emsp_state \<Rightarrow> bool" where
  "foreign s = (\<forall>t \<in> set (ems_transactions s). session_of t \<noteq> None \<longrightarrow> \<not> tx_issuer t)"

lemma replace_roaming_subset: "set (replace_roaming t ts) \<subseteq> insert t (set ts)"
  by (induction ts) auto

lemma with_id_issuer [simp]: "tx_issuer (with_id env s t) = tx_issuer t"
  by (simp add: with_id_def)

lemma save_roaming_foreign: "\<not> tx_issuer t \<Longrightarrow> foreign s \<Longrightarrow> foreign (fst (save_roaming env t s))"
  using replace_roaming_subset by (fastforce simp: foreign_def save_roaming_def handler_simps)

lemma computeAndSaveConsumption_frame:
  "ems_transactions (fst (computeAndSaveConsumption t l x s)) = ems_transactions s"
  "snd (computeAndSaveConsumption t l x s) = Inr u \<Longrightarrow> tx_issuer u = tx_issuer t"
  by (auto simp: computeAndSaveConsumption_def save_session_consumption_def Let_def handler_simps throwS_def split: option.splits if_splits)

lemma triple_foreignI: "(\<And>s. foreign s \<Longrightarrow> P s \<Longrightarrow> foreign (fst (m s))) \<Longrightarrow> triple foreign P m (\<lambda>_ _. True)"
  by (simp add: triple_def)

lemma save_roaming_triple: "triple foreign (\<lambda>_. \<not> tx_issuer t) (save_roaming env t) (\<lambda>_ _. True)"
  by (rule triple_foreignI) (rule save_roaming_foreign)

lemma updateConnector_triple: "triple foreign P (updateConnector t) (\<lambda>_ _. True)"
  by (rule triple_foreignI) (simp add: foreign_def)

lemma apply_session_triple: "triple foreign (\<lambda>_. \<not> tx_issuer t) (apply_session env x t) (\<lambda>_ _. True)"
  unfolding apply_session_def
proof (intro triple_if triple_bind)
  show "triple foreign (\<lambda>_. \<not> tx_issuer t) (returnS ()) (\<lambda>_ _. True)" by (simp add: triple_return)
  show "triple foreign (\<lambda>_. \<not> tx_issuer t) (computeAndSaveConsumption t (last_session t) x) (\<lambda>u _. \<not> tx_issuer u)"
    using computeAndSaveConsumption_frame by (intro tripleI) (auto simp: foreign_def)
  show "triple foreign (\<lambda>_. \<not> tx_issuer t) (returnS t) (\<lambda>u _. \<not> tx_issuer u)" by (simp add: triple_return)
  show "triple foreign (\<lambda>_. \<not> tx_issuer u) (save_roaming env (with_session env x u)) (\<lambda>_ _. True)" for u
    using save_roaming_triple[of "with_session env x u"] by simp
  show "triple foreign (\<lambda>_. True) (updateConnector u) (\<lambda>_ _. True)" for u by (rule updateConnector_triple)
qed

lemma found_not_issuer: "foreign s \<Longrightarrow> getOCPITransactionBySessionID i s = Some t \<Longrightarrow> \<not> tx_issuer t"
  by (auto simp: foreign_def getOCPITransactionBySessionID_def has_session_def filter_eq_Cons_iff split: list.splits option.splits)

lemma create_roaming_triple: "triple foreign P (create_roaming env x) (\<lambda>t _. \<not> tx_issuer t)"
  using created_fields(3) create_roaming_read_only by (intro tripleI) (metis, metis prod.collapse)

lemma updateTransaction_triple:
  "triple foreign (\<lambda>_. case given of None \<Rightarrow> True | Some t \<Rightarrow> \<not> tx_issuer t) (updateTransaction env x given) (\<lambda>_ _. True)"
  unfolding updateTransaction_def Let_def
proof (intro triple_if triple_bind)
  show "triple foreign (\<lambda>_. case given of None \<Rightarrow> True | Some t \<Rightarrow> \<not> tx_issuer t)
      (readS (\<lambda>s. case given of None \<Rightarrow> getOCPITransactionBySessionID (or_else (os_id (with_defaults x)) []) s | Some t \<Rightarrow> Some t))
      (\<lambda>found _. case found of None \<Rightarrow> True | Some t \<Rightarrow> \<not> tx_issuer t)"
    by (rule triple_read) (auto dest: found_not_issuer split: option.splits)
  show "triple foreign (\<lambda>_. case found of None \<Rightarrow> True | Some t \<Rightarrow> \<not> tx_issuer t)
      (case found of None \<Rightarrow> create_roaming env (with_defaults x) | Some t \<Rightarrow> returnS t) (\<lambda>t _. \<not> tx_issuer t)" for found
    by (cases found) (simp_all add: create_roaming_triple triple_return)
  show "triple foreign (\<lambda>_. \<not> tx_issuer t) (apply_session env (with_defaults x) t) (\<lambda>_ _. True)" for t
    by (rule apply_session_triple)
qed (simp add: triple_def throwS_def)

lemma emsp_process_foreign: "foreign s \<Longrightarrow> foreign (fst (emsp_process env r s))"
proof (cases r)
  case (PutRequest country party i body)
  assume s: "foreign s"
  have "foreign (fst (updateTransaction env b None s))" for b
    using triple_inv[OF updateTransaction_triple[where given = None] s] by simp
  with s show ?thesis by (auto simp: PutRequest putSessionRequest_def handler_simps throwS_def split: sum.split)
next
  case (PatchRequest country party i body)
  assume s: "foreign s"
  have "foreign (fst (updateTransaction env x (Some (with_merged x t)) s))" if "getOCPITransactionBySessionID i s = Some t" for x t
    using triple_inv[OF updateTransaction_triple[where given = "Some (with_merged x t)"] s] found_not_issuer[OF s that]
    by (simp add: with_merged_def)
  with s show ?thesis
    by (auto simp: PatchRequest patchSessionRequest_def handler_simps found_or_def Let_def split: sum.split option.split)
next
  case (CdrRequest cdr)
  assume s: "foreign s"
  show ?thesis
  proof (cases "getOCPITransactionBySessionID (or_else (cdr_id cdr) []) s")
    case (Some t)
    obtain s1 q where sv: "save_roaming env (with_cdr (cdr_defaults cdr) t) s = (s1, q)" by force
    have "foreign s1"
      using save_roaming_foreign[OF _ s, of "with_cdr (cdr_defaults cdr) t" env] found_not_issuer[OF s Some] sv
      by (simp add: with_cdr_def on_runtime_def)
    with s Some sv show ?thesis
      by (cases q) (simp_all add: CdrRequest postCdrRequest_def processCdr_def handler_simps throwS_def foreign_def)
  qed (use s in \<open>simp add: CdrRequest postCdrRequest_def processCdr_def handler_simps throwS_def\<close>)
qed

text \<open>C36: An eMSP can never ask for the stop of a roaming session: whatever sessions and records it was sent, the transactions they become
  belong to another organization, which is what the request rejects.\<close>

theorem emsp_never_stops:
  assumes "foreign s" and "foldS (\<lambda>r _. catchS (emsp_process env r) (\<lambda>_. returnS ())) rs () s = (s', q)"
  shows "\<exists>e. emsp_remoteStopSession url tid s' = Inl e"
proof -
  have "foreign (fst (foldS (\<lambda>r _. catchS (emsp_process env r) (\<lambda>_. returnS ())) rs () s))"
    using assms(1)
  proof (induction rs arbitrary: s)
    case (Cons r rs)
    have "foreign (fst (catchS (emsp_process env r) (\<lambda>_. returnS ()) s))"
      using emsp_process_foreign[OF Cons.prems, of env r]
      by (cases "emsp_process env r s") (auto simp: catchS_def returnS_def split: sum.split)
    with Cons.IH show ?case
      by (auto simp: bindS_def split: prod.split sum.split)
  qed (simp add: returnS_def)
  then have "foreign s'" using assms(2) by simp
  then show ?thesis
    by (auto simp: emsp_remoteStopSession_def foreign_def find_Some_iff split: option.split)
qed

end
