(* ===== verification/Ocpi_Names.thy ===== *)
theory Ocpi_Names
  imports Ocpi_Laws
begin

text \<open>
  The identifiers of EVSEs, from which a CPO reads back the connector that an eMSP wants to start; the starts it accepts; and
  the charging periods it sends.
\<close>

section \<open>Numbers in identifiers\<close>

lemma digit_char: "d < 10 \<Longrightarrow> digit_of 10 (char_of (48 + d)) = Some d" for d :: nat
  by (simp add: digit_of_def Let_def of_char_of)

definition is_decimal :: "char \<Rightarrow> bool" where
  "is_decimal c = (48 \<le> (of_char c :: nat) \<and> (of_char c :: nat) \<le> 57)"

lemma decimal_char: "d < 10 \<Longrightarrow> is_decimal (char_of (48 + d))" for d :: nat
  by (simp add: is_decimal_def of_char_of)

lemma show_nat_digits: "c \<in> set (show_nat n) \<Longrightarrow> is_decimal c"
  by (induction n rule: show_nat.induct) (subst (asm) (2) show_nat.simps, auto split: if_splits intro: decimal_char)

lemma show_nat_Nil: "show_nat n \<noteq> []"
  by (subst show_nat.simps) simp

lemma not_digits: "\<not> is_decimal (CHR ''*'')" "\<not> is_decimal (CHR ''x'')" "\<not> is_decimal (CHR ''X'')" "\<not> is_decimal (CHR ''-'')" "\<not> is_decimal (CHR ''+'')"
  by (simp_all add: is_decimal_def)

lemma decimal_not_space: "is_decimal c \<Longrightarrow> \<not> is_space c"
  by (auto simp: is_decimal_def is_space_def)

lemma digits_value_show: "digits_value 10 acc (show_nat n @ t) = digits_value 10 (acc * 10 ^ length (show_nat n) + int n) t"
proof (induction n arbitrary: acc t rule: show_nat.induct)
  case (1 n)
  show ?case
  proof (cases "n < 10")
    case True
    then have "show_nat n = [char_of (48 + n)]" by (subst show_nat.simps) simp
    with True show ?thesis by (simp add: digit_char)
  next
    case False
    then have s: "show_nat n = show_nat (n div 10) @ [char_of (48 + n mod 10)]" by (subst show_nat.simps) simp
    have "int n = int (n div 10) * 10 + int (n mod 10)" by (simp add: zdiv_int zmod_int)
    with 1 False s show ?thesis by (simp add: digit_char algebra_simps)
  qed
qed

lemma parse_unsigned_show: "parse_unsigned (show_nat n) = Some (int n)"
proof -
  obtain c t where s: "show_nat n = c # t" using show_nat_Nil by (cases "show_nat n") auto
  have c: "is_decimal c" using show_nat_digits[of c n] s by simp
  have "digit_of 10 c \<noteq> None" using c by (auto simp: digit_of_def is_decimal_def Let_def)
  moreover have "b \<noteq> CHR ''x'' \<and> b \<noteq> CHR ''X''" if "t = b # u" for b u
    using show_nat_digits[of b n] s that not_digits by auto
  moreover have "digits_value 10 0 (c # t) = int n" using digits_value_show[of 0 n "[]"] s by simp
  ultimately show ?thesis by (cases t) (auto simp: parse_unsigned_def s split: if_splits)
qed

lemma parseInt_show: "parseInt (show_int n) = Some n"
proof (cases "n < 0")
  case True
  then show ?thesis by (simp add: show_int_def parseInt_def is_space_def parse_unsigned_show)
next
  case False
  obtain c t where s: "show_nat (nat n) = c # t" using show_nat_Nil by (cases "show_nat (nat n)") auto
  have c: "is_decimal c" using show_nat_digits[of c "nat n"] s by simp
  then have "\<not> is_space c" "c \<noteq> CHR ''-''" "c \<noteq> CHR ''+''" using decimal_not_space not_digits by auto
  with False s parse_unsigned_show[of "nat n"] show ?thesis by (simp add: show_int_def parseInt_def)
qed

lemma show_int_no_star: "CHR ''*'' \<notin> set (show_int n)"
  using show_nat_digits[of "CHR ''*''" "nat n"] show_nat_digits[of "CHR ''*''" "nat (- n)"] not_digits(1)
  by (auto simp: show_int_def)

lemma last_part_append:
  assumes "c \<notin> set b"
  shows "last_part c (a @ c # b) = b"
proof -
  have "takeWhile (\<lambda>x. x \<noteq> c) (rev b @ c # rev a) = rev b"
    using assms by (subst takeWhile_append2) auto
  then show ?thesis by (simp add: last_part_def)
qed

lemma show_int_Nil: "show_int n \<noteq> []"
  using show_nat_Nil by (simp add: show_int_def)

lemma requested_of_name: "requested_connector (i @ ''*'' @ show_int n) cs = getConnectorFromID cs n"
  using last_part_append[OF show_int_no_star, of i n] show_int_Nil
  by (simp add: requested_connector_def getConnectorIDFromEvseID_def OCPI_SEPARATOR_def convertToInt_str_def parseInt_show)

text \<open>The charge point of a connector that is published as one EVSE with the others of it.\<close>

definition grouped :: "charging_station \<Rightarrow> connector \<Rightarrow> charge_point option" where
  "grouped cs c = (if truthy_num (con_chargePointID c) then
     (case getChargePointFromID cs (or_else (con_chargePointID c) 0) of
        Some cp \<Rightarrow> if cp_cannotChargeInParallel cp then Some cp else None | None \<Rightarrow> None) else None)"

text \<open>C23: The name under which a connector is published leads back to it when it is an EVSE of its own; where a charge point groups its
  connectors, the name leads to the connector that has the number of the charge point, whichever point that belongs to.\<close>

theorem evse_name_read_back:
  "requested_connector (buildEvseUID cs c) cs =
     getConnectorFromID cs (case grouped cs c of Some cp \<Rightarrow> cp_chargePointID cp | None \<Rightarrow> con_connectorId c)"
  using requested_of_name[where i = "cs_id cs"] by (simp add: buildEvseUID_def grouped_def Let_def split: option.split)

section \<open>Starts\<close>

lemma authorize_connector_distinct:
  "authorize_connector now c uid cid auths = Some auths' \<Longrightarrow> distinct (map cau_connectorId auths) \<Longrightarrow>
   distinct (map cau_connectorId auths') \<and> (\<exists>a \<in> set auths'. cau_connectorId a = cid \<and> cau_tagId a = uid \<and> cau_timestamp a = now)"
proof -
  assume a: "authorize_connector now c uid cid auths = Some auths'" and d: "distinct (map cau_connectorId auths)"
  let ?new = "\<lparr> cau_id = or_else (sts_authorization_id c) [], cau_connectorId = cid, cau_tagId = uid, cau_timestamp = now \<rparr>"
  have ids: "map cau_connectorId (update_first (\<lambda>a. cau_connectorId a = cid) (\<lambda>_. ?new) xs) = map cau_connectorId xs" for xs
    by (induction xs) auto
  have mem: "find (\<lambda>a. cau_connectorId a = cid) xs = Some b \<Longrightarrow> ?new \<in> set (update_first (\<lambda>a. cau_connectorId a = cid) (\<lambda>_. ?new) xs)" for xs b
    by (induction xs) auto
  show ?thesis
  proof (cases "find (\<lambda>a. cau_connectorId a = cid) auths")
    case None
    then have "cid \<notin> cau_connectorId ` set auths" by (simp add: find_absent)
    with None a d show ?thesis by (auto simp: authorize_connector_def)
  next
    case (Some b)
    then have u: "auths' = update_first (\<lambda>a. cau_connectorId a = cid) (\<lambda>_. ?new) auths"
      using a by (simp add: authorize_connector_def Let_def split: if_splits)
    show ?thesis
    proof
      show "distinct (map cau_connectorId auths')" using d ids by (simp add: u)
      show "\<exists>a \<in> set auths'. cau_connectorId a = cid \<and> cau_tagId a = uid \<and> cau_timestamp a = now"
        using mem[OF Some] unfolding u by (intro bexI[of _ ?new]) simp_all
    qed
  qed
qed

lemma authorize_connector_None:
  assumes "authorize_connector now c uid cid auths = Some auths'" and "distinct (map cau_connectorId auths)"
    and "a \<in> set auths" and "cau_connectorId a = cid"
  shows "\<not> authorization_valid now (cau_timestamp a)"
proof -
  have "find (\<lambda>e. cau_connectorId e = cid) auths = Some a" using assms(2-4) by (simp add: find_unique)
  with assms(1) show ?thesis by (simp add: authorize_connector_def Let_def split: if_splits)
qed

definition one_authorization :: "cpo_state \<Rightarrow> bool" where
  "one_authorization s = (\<forall>cs \<in> set (cps_stations s). distinct (map cau_connectorId (rsn_remoteAuthorizations cs)))"

definition started_on :: "cpo_env \<Rightarrow> start_session \<Rightarrow> cpo_state \<Rightarrow> cpo_state \<Rightarrow> command_outcome res \<Rightarrow>
    roaming_station \<Rightarrow> connector \<Rightarrow> string \<Rightarrow> connector_authorization list \<Rightarrow> bool" where
  "started_on env c s s' r cs con uid auths = (token_may_start (cpe_tag env uid)
     \<and> getChargingStationByOcpiLocationEvseUid (sts_location_id c) (or_else (sts_evse_uid c) []) (cps_stations s) = Some cs
     \<and> requested_connector (or_else (sts_evse_uid c) []) (plain_station cs) = Some con
     \<and> cs_issuer cs \<and> cs_public cs \<and> free_to_start con
     \<and> authorize_connector (cpe_now env) c uid (con_connectorId con) (rsn_remoteAuthorizations cs) = Some auths
     \<and> s' = s\<lparr>cps_stations := map (\<lambda>d. if cs_id d = cs_id cs then d\<lparr>rsn_remoteAuthorizations := auths\<rparr> else d) (cps_stations s)\<rparr>
     \<and> r = Inr (OCPICommandResponseType.ACCEPTED, Some (StartOn (cs_id cs) (con_connectorId con) uid)))"

lemma start_cases:
  assumes "remoteStartSessionRequest env c s = (s', r)"
  shows "(s' = s \<and> (\<forall>order. r \<noteq> Inr (OCPICommandResponseType.ACCEPTED, order)))
    \<or> (\<exists>cs con uid auths. started_on env c s s' r cs con uid auths)"
proof -
  let ?uid = "or_else (Option.bind (sts_token c) otk_uid) []"
  let ?evse = "or_else (sts_evse_uid c) []"
  let ?found = "getChargingStationByOcpiLocationEvseUid (sts_location_id c) ?evse (cps_stations s)"
  show ?thesis
  proof (cases "validateStartSession c \<and> token_may_start (cpe_tag env ?uid)")
    case False
    with assms show ?thesis
      by (auto simp: remoteStartSessionRequest_def Let_def returnS_def throwS_def split: if_splits)
  next
    case ok: True
    show ?thesis
    proof (cases ?found)
      case None
      with ok assms show ?thesis by (auto simp: remoteStartSessionRequest_def Let_def bindS_def readS_def returnS_def)
    next
      case (Some cs)
      show ?thesis
      proof (cases "requested_connector ?evse (plain_station cs)")
        case None
        with ok Some assms show ?thesis
          by (auto simp: remoteStartSessionRequest_def Let_def bindS_def readS_def returnS_def)
      next
        case con: (Some con)
        show ?thesis
        proof (cases "cs_issuer cs \<and> cs_public cs \<and> free_to_start con")
          case False
          with ok Some con assms show ?thesis
            by (auto simp add: remoteStartSessionRequest_def Let_def bindS_def readS_def returnS_def split: if_splits)
        next
          case free: True
          show ?thesis
          proof (cases "authorize_connector (cpe_now env) c ?uid (con_connectorId con) (rsn_remoteAuthorizations cs)")
            case None
            with ok Some con free assms show ?thesis
              by (auto simp: remoteStartSessionRequest_def Let_def bindS_def readS_def returnS_def)
          next
            case auths: (Some auths)
            have "started_on env c s s' r cs con ?uid auths"
              using ok Some con free auths assms
              by (auto simp: started_on_def remoteStartSessionRequest_def Let_def bindS_def readS_def returnS_def
                  saveChargingStationRemoteAuthorizations_def modifyS_def)
            then show ?thesis by blast
          qed
        qed
      qed
    qed
  qed
qed

lemma started_on_leaves:
  assumes "one_authorization s" and "started_on env c s s' r cs con uid auths"
  shows "one_authorization s'" and "cs \<in> set (cps_stations s)" and "con \<in> set (connectors_of (plain_station cs))"
    and "cs\<lparr>rsn_remoteAuthorizations := auths\<rparr> \<in> set (cps_stations s')"
    and "a \<in> set (rsn_remoteAuthorizations cs) \<Longrightarrow> cau_connectorId a = con_connectorId con \<Longrightarrow>
      \<not> authorization_valid (cpe_now env) (cau_timestamp a)"
    and "\<exists>a \<in> set auths. cau_connectorId a = con_connectorId con \<and> cau_tagId a = uid \<and> cau_timestamp a = cpe_now env"
proof -
  note st = assms(2)[unfolded started_on_def]
  show cs: "cs \<in> set (cps_stations s)"
    using st by (auto simp: getChargingStationByOcpiLocationEvseUid_def filter_eq_Cons_iff split: list.splits)
  show "con \<in> set (connectors_of (plain_station cs))"
    using st by (auto simp: requested_connector_def bind_eq_Some_conv dest: getConnectorFromID_Some)
  have d: "distinct (map cau_connectorId (rsn_remoteAuthorizations cs))" using assms(1) cs by (simp add: one_authorization_def)
  have a: "authorize_connector (cpe_now env) c uid (con_connectorId con) (rsn_remoteAuthorizations cs) = Some auths" using st by simp
  have s': "cps_stations s' = map (\<lambda>d. if cs_id d = cs_id cs then d\<lparr>rsn_remoteAuthorizations := auths\<rparr> else d) (cps_stations s)"
    using st by simp
  show "cs\<lparr>rsn_remoteAuthorizations := auths\<rparr> \<in> set (cps_stations s')" using cs unfolding s' by force
  show "one_authorization s'"
    using assms(1) authorize_connector_distinct[OF a d] by (auto simp: one_authorization_def s')
  show "\<exists>a \<in> set auths. cau_connectorId a = con_connectorId con \<and> cau_tagId a = uid \<and> cau_timestamp a = cpe_now env"
    using authorize_connector_distinct[OF a d] by simp
  show "a \<in> set (rsn_remoteAuthorizations cs) \<Longrightarrow> cau_connectorId a = con_connectorId con \<Longrightarrow>
      \<not> authorization_valid (cpe_now env) (cau_timestamp a)"
    by (rule authorize_connector_None[OF a d])
qed

text \<open>C18: A CPO accepts the start of a session only for an active and valid token of a foreign user, on a free connector of a public
  station of its own for which no other start is pending; it then leaves the one authorization of that connector, and a start it
  does not accept changes nothing.\<close>

theorem accepted_start:
  assumes "one_authorization s" and "remoteStartSessionRequest env c s = (s', r)"
  shows "one_authorization s' \<and> (case r of
      Inr (OCPICommandResponseType.ACCEPTED, order) \<Rightarrow>
        \<exists>cs con uid cs'. order = Some (StartOn (cs_id cs) (con_connectorId con) uid) \<and> token_may_start (cpe_tag env uid)
          \<and> cs \<in> set (cps_stations s) \<and> cs_public cs \<and> cs_issuer cs \<and> con \<in> set (connectors_of (plain_station cs)) \<and> free_to_start con
          \<and> (\<forall>a \<in> set (rsn_remoteAuthorizations cs). cau_connectorId a = con_connectorId con \<longrightarrow> \<not> authorization_valid (cpe_now env) (cau_timestamp a))
          \<and> cs' \<in> set (cps_stations s') \<and> cs_id cs' = cs_id cs
          \<and> (\<exists>a \<in> set (rsn_remoteAuthorizations cs'). cau_connectorId a = con_connectorId con \<and> cau_tagId a = uid \<and> cau_timestamp a = cpe_now env)
    | _ \<Rightarrow> s' = s)"
  using start_cases[OF assms(2)]
proof (elim disjE exE conjE)
  assume "s' = s" and "\<forall>order. r \<noteq> Inr (OCPICommandResponseType.ACCEPTED, order)"
  with assms(1) show ?thesis by (auto split: sum.split prod.split OCPICommandResponseType.split)
next
  fix cs con uid auths assume st: "started_on env c s s' r cs con uid auths"
  note left = started_on_leaves[OF assms(1) st]
  have r: "r = Inr (OCPICommandResponseType.ACCEPTED, Some (StartOn (cs_id cs) (con_connectorId con) uid))"
    using st by (simp add: started_on_def)
  have "\<exists>a \<in> set (rsn_remoteAuthorizations (cs\<lparr>rsn_remoteAuthorizations := auths\<rparr>)).
      cau_connectorId a = con_connectorId con \<and> cau_tagId a = uid \<and> cau_timestamp a = cpe_now env"
    using left(6) by simp
  moreover have "cs_id (cs\<lparr>rsn_remoteAuthorizations := auths\<rparr>) = cs_id cs" by (cases cs) simp
  ultimately show ?thesis
    using left(1-4) left(5) st unfolding r sum.case prod.case OCPICommandResponseType.case started_on_def by blast
qed

section \<open>Charging periods\<close>

definition energy_of_period :: "charging_period \<Rightarrow> rat" where
  "energy_of_period p = (\<Sum>d \<leftarrow> or_else (cper_dimensions p) []. if dim_type d = Some ENERGY then or_num (dim_volume d) 0 else 0)"

definition periods_energy :: "charging_period list \<Rightarrow> rat" where
  "periods_energy ps = (\<Sum>p \<leftarrow> ps. energy_of_period p)"

lemma energy_of_buildChargingPeriod:
  assumes "0 \<le> or_num (mc_consumptionWh c) 0"
  shows "energy_of_period (buildChargingPeriod c) \<le> or_num (mc_consumptionWh c) 0 / 1000"
    and "or_num (mc_consumptionWh c) 0 / 1000 - 1 / 1000 \<le> energy_of_period (buildChargingPeriod c)"
proof -
  let ?w = "or_num (mc_consumptionWh c) 0 / 1000"
  have "truncTo ?w 3 \<le> ?w" "?w - 1 / 1000 \<le> truncTo ?w 3"
    using truncTo_le[of ?w 3] truncTo_gt[of ?w 3] assms by simp_all
  moreover have "energy_of_period (buildChargingPeriod c) = (if or_num (mc_consumptionWh c) 0 > 0 then truncTo ?w 3 else 0)"
    by (simp add: energy_of_period_def buildChargingPeriod_def kilo3_def Let_def)
  ultimately show "energy_of_period (buildChargingPeriod c) \<le> ?w" "?w - 1 / 1000 \<le> energy_of_period (buildChargingPeriod c)"
    using assms by auto
qed

lemma periods_energy_drop_empty: "periods_energy (filter (\<lambda>p. cper_dimensions p \<noteq> Some []) ps) = periods_energy ps"
  by (induction ps) (auto simp: periods_energy_def energy_of_period_def)

lemma sum_sort_key: "(\<Sum>x \<leftarrow> sort_key k xs. f x) = (\<Sum>x \<leftarrow> xs. f x)" for f :: "'a \<Rightarrow> rat"
  by (metis mset_map mset_sort sum_mset_sum_list)

lemma sum_periods_bounds:
  assumes "\<forall>c \<in> set cs. 0 \<le> or_num (mc_consumptionWh c) 0"
  shows "(\<Sum>c \<leftarrow> cs. energy_of_period (buildChargingPeriod c)) \<le> (\<Sum>c \<leftarrow> cs. or_num (mc_consumptionWh c) 0) / 1000"
    and "(\<Sum>c \<leftarrow> cs. or_num (mc_consumptionWh c) 0) / 1000 - of_nat (length cs) / 1000 \<le> (\<Sum>c \<leftarrow> cs. energy_of_period (buildChargingPeriod c))"
  using assms
proof (induction cs)
  case (Cons c cs)
  {
    case 1
    with Cons(1) energy_of_buildChargingPeriod(1)[of c] show ?case by (simp add: add_divide_distrib)
  next
    case 2
    with Cons(2) energy_of_buildChargingPeriod(2)[of c] show ?case by (simp add: add_divide_distrib)
  }
qed simp_all

text \<open>C24: The energy of the charging periods that a CPO sends never exceeds the energy of the consumptions they are built from, and falls
  short of it by at most one watt-hour for each.\<close>

theorem periods_energy_bounds:
  assumes "tx_timestamp t \<noteq> 0" and "cs = filter (\<lambda>c. mc_transactionId c = tx_id t) (cpe_consumptions env)"
    and "\<forall>c \<in> set cs. 0 \<le> or_num (mc_consumptionWh c) 0"
  shows "periods_energy (buildChargingPeriods env t) \<le> (\<Sum>c \<leftarrow> cs. or_num (mc_consumptionWh c) 0) / 1000
    \<and> (\<Sum>c \<leftarrow> cs. or_num (mc_consumptionWh c) 0) / 1000 - of_nat (length cs) / 1000 \<le> periods_energy (buildChargingPeriods env t)"
proof -
  have "periods_energy (buildChargingPeriods env t) = (\<Sum>c \<leftarrow> cs. energy_of_period (buildChargingPeriod c))"
    using assms(1,2) by (simp add: buildChargingPeriods_def periods_energy_drop_empty)
      (simp add: periods_energy_def sum_sort_key comp_def)
  with sum_periods_bounds[OF assms(3)] show ?thesis by simp
qed

end
