(* ===== verification/Ocpi_Pushes.thy ===== *)
theory Ocpi_Pushes
  imports Ocpi_Laws
begin

text \<open>
  The charge detail records that a CPO pushes: the scheduled task posts the record of a session once, while the other roaming
  protocol (OICP) is not in use, and at every run while OICP refuses the end of the session; and the pulls of an eMSP, which end when the links of the pages do.
\<close>

section \<open>Accepted records\<close>

definition record_accepted :: "cpo_env \<Rightarrow> string option \<Rightarrow> cpo_message list \<Rightarrow> cpo_message \<Rightarrow> bool" where
  "record_accepted env i before m = (case m of
     PostCdr c \<Rightarrow> cdr_id c = i \<and> (case cpe_answer env before m of Inl _ \<Rightarrow> False | Inr _ \<Rightarrow> True)
   | _ \<Rightarrow> False)"

fun accepted_records :: "cpo_env \<Rightarrow> string option \<Rightarrow> cpo_message list \<Rightarrow> cpo_message list \<Rightarrow> nat" where
  "accepted_records env i before [] = 0"
| "accepted_records env i before (m # ms) =
     (if record_accepted env i before m then 1 else 0) + accepted_records env i (before @ [m]) ms"

definition posted :: "cpo_env \<Rightarrow> string option \<Rightarrow> cpo_message list \<Rightarrow> nat" where
  "posted env i sent = accepted_records env i [] sent"

lemma accepted_records_snoc:
  "accepted_records env i before (ms @ [m]) =
     accepted_records env i before ms + (if record_accepted env i (before @ ms) m then 1 else 0)"
  by (induction ms arbitrary: before) simp_all

lemma posted_Nil [simp]: "posted env i [] = 0"
  by (simp add: posted_def)

lemma posted_snoc: "posted env i (sent @ [m]) = posted env i sent + (if record_accepted env i sent m then 1 else 0)"
  by (simp add: posted_def accepted_records_snoc)

text \<open>A session belongs to one transaction, and its record was accepted once at most and only when the transaction has it.\<close>

definition one_session_each :: "roaming_transaction list \<Rightarrow> bool" where
  "one_session_each ts = (distinct (map tx_id ts) \<and> (\<forall>t \<in> set ts. \<forall>u \<in> set ts. case (session_of t, session_of u) of
     (Some x, Some y) \<Rightarrow> os_id x = os_id y \<longrightarrow> tx_id t = tx_id u | _ \<Rightarrow> True))"

definition recorded_at_most :: "roaming_transaction \<Rightarrow> nat" where
  "recorded_at_most t = (if cdr_of t = None then 0 else 1)"

definition records_once :: "cpo_env \<Rightarrow> cpo_state \<Rightarrow> bool" where
  "records_once env s = (one_session_each (cps_store s) \<and> (\<forall>t \<in> set (cps_store s). case session_of t of
     None \<Rightarrow> True | Some x \<Rightarrow> posted env (os_id x) (cps_sent s) \<le> recorded_at_most t))"

lemma one_session_each_map:
  assumes "\<And>v. v \<in> set ts \<Longrightarrow> session_of (f v) = session_of v" and "\<And>v. v \<in> set ts \<Longrightarrow> tx_id (f v) = tx_id v"
  shows "one_session_each (map f ts) = one_session_each ts"
proof -
  have "map tx_id (map f ts) = map tx_id ts" using assms(2) by simp
  then show ?thesis using assms by (simp add: one_session_each_def del: map_map cong: option.case_cong ball_cong)
qed

section \<open>One record\<close>

definition posts_own :: "cpo_env \<Rightarrow> cpo_state \<Rightarrow> cpo_state \<Rightarrow> unit res \<Rightarrow> bool" where
  "posts_own env s s' r = (cps_store s' = cps_store s \<and> session_of (cps_tx s') = session_of (cps_tx s)
     \<and> ((\<forall>i. posted env i (cps_sent s') = posted env i (cps_sent s))
       \<or> (\<exists>x c. session_of (cps_tx s) = Some x \<and> r = Inr () \<and> cps_sent s' = cps_sent s @ [PostCdr c] \<and> cdr_id c = os_id x
            \<and> cdr_of (cps_tx s') \<noteq> None)))"

lemma posts_own_same: "cps_store s' = cps_store s \<Longrightarrow> cps_sent s' = cps_sent s \<Longrightarrow> session_of (cps_tx s') = session_of (cps_tx s) \<Longrightarrow>
    posts_own env s s' r"
  by (simp add: posts_own_def)

lemma set_cdr_session [simp]:
  "session_of (t\<lparr>rtx_ocpiData := map_option (\<lambda>d. d\<lparr>od_cdr := Some c\<rparr>) (rtx_ocpiData t)\<rparr>) = session_of t"
  by (cases "rtx_ocpiData t") (simp_all add: session_of_def)

lemma set_cdr_cdr:
  "session_of t = Some x \<Longrightarrow> cdr_of (t\<lparr>rtx_ocpiData := map_option (\<lambda>d. d\<lparr>od_cdr := Some c\<rparr>) (rtx_ocpiData t)\<rparr>) = Some c"
  by (cases "rtx_ocpiData t") (simp_all add: session_of_def cdr_of_def)

lemma call_PostCdr:
  assumes "call env (PostCdr c) s = (s', q)"
  shows "s' = s\<lparr>cps_sent := cps_sent s @ [PostCdr c]\<rparr>"
    and "q = Inl e \<Longrightarrow> posted env i (cps_sent s') = posted env i (cps_sent s)"
  using assms by (auto simp: call_def posted_snoc record_accepted_def)

lemma postCdr_posts_own:
  assumes "postCdr env s = (s', r)"
  shows "posts_own env s s' r"
proof (cases "session_of (cps_tx s)")
  case None
  with assms show ?thesis
    by (auto simp: postCdr_def handler_simps throwS_def intro!: posts_own_same split: option.splits)
next
  case (Some x)
  show ?thesis
  proof (cases "tx_stop (cps_tx s)")
    case None
    with assms show ?thesis by (auto simp: postCdr_def handler_simps throwS_def intro!: posts_own_same)
  next
    case st: (Some st)
    let ?c = "cdr_from env (cps_tx s) st x"
    let ?s = "s\<lparr>cps_tx := (cps_tx s)\<lparr>rtx_ocpiData := map_option (\<lambda>d. d\<lparr>od_cdr := Some ?c\<rparr>) (rtx_ocpiData (cps_tx s))\<rparr>\<rparr>"
    have run: "postCdr env s = (if truthy_str (Option.bind (cdr_of (cps_tx s)) cdr_id) \<or> getEndpointUrl env ''cdrs'' \<noteq> Inr ()
        then (s, snd (postCdr env s))
        else if worth_sending ?c then bindS (call env (PostCdr ?c)) (\<lambda>_. returnS ()) ?s else (?s, Inr ()))"
      using Some st by (simp add: postCdr_def handler_simps throwS_def on_tx_def getEndpointUrl_def Let_def)
    consider "s' = s" | "s' = ?s" "r = Inr ()" | "bindS (call env (PostCdr ?c)) (\<lambda>_. returnS ()) ?s = (s', r)"
      using assms run by (metis prod.inject)
    then show ?thesis
    proof cases
      case 1
      then show ?thesis by (intro posts_own_same) simp_all
    next
      case 2
      then show ?thesis by (intro posts_own_same) simp_all
    next
      case bound: 3
      obtain s1 q where c: "call env (PostCdr ?c) ?s = (s1, q)" by force
      then have 3: "s' = s1" "r = map_sum id (\<lambda>_. ()) q" using bound by (cases q; simp add: bindS_def returnS_def)+
      note sent = call_PostCdr[OF c]
      show ?thesis
      proof (cases q)
        case (Inl e)
        with 3(1) sent(1) sent(2)[OF Inl] show ?thesis by (simp add: posts_own_def)
      next
        case (Inr a)
        have "cdr_of (cps_tx s') \<noteq> None" using 3(1) sent(1) set_cdr_cdr[OF Some] by simp
        with 3 sent(1) Inr Some show ?thesis by (auto simp: posts_own_def cdr_from_def)
      qed
    qed
  qed
qed

lemma process_posts_own:
  assumes "processOCPITransaction env cs tag END s = (s', r)"
  shows "posts_own env s s' r"
proof -
  have "s' = s \<or> postCdr env s = (s', r)"
    using assms by (auto simp: processOCPITransaction_def handler_simps throwS_def split: option.splits if_splits)
  then show ?thesis using postCdr_posts_own by (auto intro: posts_own_same)
qed

lemma roaming_posts_own:
  assumes "cpe_oicp env = None" and "client_processTransactionRoaming env cs tag END s = (s', r)"
  shows "posts_own env s s' r"
proof (cases "is_roaming (cps_tx s) cs \<and> cpe_ocpiActive env")
  case True
  obtain s1 q where p: "processOCPITransaction env cs tag END s = (s1, q)" by force
  have "s' = s1 \<and> r = q"
    using assms True p by (cases q) (auto simp: client_processTransactionRoaming_def catchS_def handler_simps throwS_def)
  with process_posts_own[OF p] show ?thesis by simp
next
  case False
  with assms have "s' = s"
    by (cases "is_roaming (cps_tx s) cs") (auto simp: client_processTransactionRoaming_def catchS_def handler_simps)
  then show ?thesis by (intro posts_own_same) simp_all
qed

section \<open>The task\<close>

lemma records_once_store:
  "records_once env (s\<lparr>cps_store := ts\<rparr>) = (one_session_each ts \<and> (\<forall>t \<in> set ts. case session_of t of
     None \<Rightarrow> True | Some x \<Rightarrow> posted env (os_id x) (cps_sent s) \<le> recorded_at_most t))"
  by (simp add: records_once_def split: option.split)

lemma records_once_kept:
  assumes once: "records_once env s" and own: "posts_own env (s\<lparr>cps_tx := t\<rparr>) s' r"
    and u: "u \<in> set (cps_store s)" "session_of t = session_of u" "tx_id u = i" "cdr_of u = None"
  shows "r = Inl e \<Longrightarrow> records_once env s'"
    and "r = Inr () \<Longrightarrow> records_once env (fst (saveTransactionOcpiData i (rtx_ocpiData (cps_tx s')) s'))"
proof -
  have st: "cps_store s' = cps_store s" "session_of (cps_tx s') = session_of u" using own u(2) by (simp_all add: posts_own_def)
  show "records_once env s'" if "r = Inl e"
    using own once that by (fastforce simp: posts_own_def records_once_def split: option.split)
  show "records_once env (fst (saveTransactionOcpiData i (rtx_ocpiData (cps_tx s')) s'))" if r: "r = Inr ()"
  proof -
    let ?f = "\<lambda>v. if tx_id v = i then v\<lparr>rtx_ocpiData := rtx_ocpiData (cps_tx s')\<rparr> else v"
    have d: "distinct (map tx_id (cps_store s))" using once by (simp add: records_once_def one_session_each_def)
    have same: "session_of (?f v) = session_of v" "tx_id (?f v) = tx_id v" if "v \<in> set (cps_store s)" for v
    proof -
      have "v = u" if "tx_id v = i" using that d u(1,3) \<open>v \<in> set (cps_store s)\<close> by (auto simp: distinct_map inj_on_def)
      then show "session_of (?f v) = session_of v" using st(2) by (simp add: session_of_def)
      show "tx_id (?f v) = tx_id v" by simp
    qed
    have "one_session_each (cps_store s)" using once by (simp add: records_once_def)
    then have each: "one_session_each (map ?f (cps_store s))"
      using one_session_each_map[of "cps_store s" ?f, OF same] by simp
    have zero: "posted env (os_id x) (cps_sent s) = 0" if "session_of u = Some x" for x
      using once u(1,4) that by (force simp: records_once_def recorded_at_most_def)
    have bound: "posted env (os_id x) (cps_sent s') \<le> recorded_at_most (?f v)"
      if v: "v \<in> set (cps_store s)" and x: "session_of v = Some x" for v x
    proof (cases "v = u")
      case True
      with own r x zero st(2) u(2,3) show ?thesis
        by (auto simp: posts_own_def posted_snoc recorded_at_most_def cdr_of_def split: option.splits)
    next
      case False
      have ne: "tx_id v \<noteq> i" using False d u(1,3) v by (auto simp: distinct_map inj_on_def)
      have "os_id x \<noteq> os_id y" if "session_of u = Some y" for y
        using once v u(1,3) x that ne by (force simp: records_once_def one_session_each_def)
      then have "posted env (os_id x) (cps_sent s') = posted env (os_id x) (cps_sent s)"
        using own u(2) by (auto simp: posts_own_def posted_snoc record_accepted_def)
      with once v x ne show ?thesis by (force simp: records_once_def)
    qed
    have "case session_of v of None \<Rightarrow> True | Some x \<Rightarrow> posted env (os_id x) (cps_sent s') \<le> recorded_at_most v"
      if in_new: "v \<in> set (map ?f (cps_store s))" for v
    proof -
      obtain w where w: "v = ?f w" "w \<in> set (cps_store s)" using in_new unfolding set_map image_iff by blast
      show ?thesis
        by (cases "session_of w") (simp_all only: w(1) same(1)[OF w(2)] bound[OF w(2)] option.case)
    qed
    moreover have "fst (saveTransactionOcpiData i (rtx_ocpiData (cps_tx s')) s') = s'\<lparr>cps_store := map ?f (cps_store s)\<rparr>"
      by (simp add: saveTransactionOcpiData_def modifyS_def st(1))
    ultimately show ?thesis using each by (simp only: records_once_store) blast
  qed
qed

lemma push_cdr_of_once:
  assumes "cpe_oicp env = None" and once: "records_once env s"
  shows "records_once env (fst (push_cdr_of env i s))"
proof (cases "stored_with_user env i s")
  case None
  with once show ?thesis by (simp add: push_cdr_of_def handler_simps)
next
  case (Some t)
  then obtain u where u: "find (\<lambda>t. tx_id t = i) (cps_store s) = Some u" "t = u\<lparr>tx_user := Option.bind (tx_userID u) (cpe_user env)\<rparr>"
    by (auto simp: stored_with_user_def)
  have t: "u \<in> set (cps_store s)" "session_of t = session_of u" "tx_id u = i" "cdr_of t = cdr_of u"
    using u find_Some_iff[of "\<lambda>t. tx_id t = i" "cps_store s" u] by (auto simp: session_of_def cdr_of_def)
  show ?thesis
  proof (cases "cdr_of t = None \<and> station_in_store (tx_chargeBoxID t) s \<noteq> None \<and> Option.bind (tx_tagID t) (cpe_tag env) \<noteq> None")
    case False
    with once Some show ?thesis by (auto simp: push_cdr_of_def handler_simps split: option.split)
  next
    case True
    then obtain cs tag where c: "cdr_of u = None" "cdr_of t = None" "station_in_store (tx_chargeBoxID t) s = Some cs"
        "Option.bind (tx_tagID t) (cpe_tag env) = Some tag" using t(4) by auto
    obtain s1 r where p: "client_processTransactionRoaming env cs (Some tag) END (s\<lparr>cps_tx := t\<rparr>) = (s1, r)" by force
    note kept = records_once_kept[OF once roaming_posts_own[OF assms(1) p] t(1-3) c(1)]
    have "fst (push_cdr_of env i s) = (case r of Inl _ \<Rightarrow> s1 | Inr _ \<Rightarrow> fst (saveTransactionOcpiData i (rtx_ocpiData (cps_tx s1)) s1))"
      using Some c p by (simp add: push_cdr_of_def handler_simps on_tx_def saveTransactionOcpiData_def split: sum.split)
    with kept show ?thesis by (cases r) auto
  qed
qed

interpretation once: evolution "\<lambda>s s'. records_once env s \<longrightarrow> records_once env s'" for env
  by unfold_locales auto

lemma records_once_world [simp]: "records_once env (s\<lparr>cps_world := w\<rparr>) = records_once env s"
  by (simp add: records_once_def split: option.split)

lemma once_takes_lock: "moves (\<lambda>s s'. records_once env s \<longrightarrow> records_once env s') (take_cpo_lock acquire_it)"
  by (simp add: moves_def take_cpo_lock_def in_cpo_world_def split: sum.split prod.split)

lemma once_under_lock:
  "moves (\<lambda>s s'. records_once env s \<longrightarrow> records_once env s') m \<Longrightarrow>
   moves (\<lambda>s s'. records_once env s \<longrightarrow> records_once env s') (under_cpo_lock acquire_it m)"
  unfolding under_cpo_lock_def
  by (intro once.binds once.options once_takes_lock once.returns once.finishes) (simp_all add: release_cpo_lock_def)

lemma task_keeps_once:
  assumes "cpe_oicp env = None"
  shows "moves (\<lambda>s s'. records_once env s \<longrightarrow> records_once env s') (pushCdrs_processTenant env)"
proof -
  have "moves (\<lambda>s s'. records_once env s \<longrightarrow> records_once env s') (push_cdr_of env i)" for i
    using push_cdr_of_once[OF assms] by (simp add: moves_def)
  then have "moves (\<lambda>s s'. records_once env s \<longrightarrow> records_once env s') (push_one env i u)" for i u
    unfolding push_one_def by (intro once_under_lock once.catches once.returns)
  then have "moves (\<lambda>s s'. records_once env s \<longrightarrow> records_once env s') (foldS (push_one env) ids ())" for ids
    by (intro once.folds)
  then show ?thesis
    unfolding pushCdrs_processTenant_def
    by (intro once.catches once_under_lock once.binds once.reads once.returns) (auto intro: once_under_lock once.binds once.reads once.returns)
qed

text \<open>C15: While OICP is not in use, the scheduled task keeps, however often it runs and whatever the eMSP answers, that the record of
  a session, which belongs to one transaction, was accepted once at most and that a transaction whose record was accepted has it.\<close>

theorem record_posted_once:
  assumes "cpe_oicp env = None" and "records_once env s"
  shows "records_once env (((\<lambda>s. fst (pushCdrs_processTenant env s)) ^^ n) s)"
  using task_keeps_once[OF assms(1)] assms(2) by (induction n) (auto simp: moves_def)

section \<open>A record that is due\<close>

definition record_due :: "cpo_env \<Rightarrow> int \<Rightarrow> cpo_state \<Rightarrow> roaming_transaction \<Rightarrow> ocpi_cdr \<Rightarrow> bool" where
  "record_due env i s t c = (stored_with_user env i s = Some t \<and> cdr_of t = None
     \<and> (case station_in_store (tx_chargeBoxID t) s of None \<Rightarrow> False | Some cs \<Rightarrow> is_roaming t cs)
     \<and> Option.bind (tx_tagID t) (cpe_tag env) \<noteq> None \<and> cpe_ocpiActive env \<and> cpe_client env \<and> cpe_endpoints env ''cdrs''
     \<and> (case (tx_stop t, session_of t) of (Some st, Some x) \<Rightarrow> c = cdr_from env t st x \<and> worth_sending c | _ \<Rightarrow> False))"

definition with_record :: "ocpi_cdr \<Rightarrow> roaming_transaction \<Rightarrow> roaming_transaction" where
  "with_record c t = t\<lparr>rtx_ocpiData := map_option (\<lambda>d. d\<lparr>od_cdr := Some c\<rparr>) (rtx_ocpiData t)\<rparr>"

lemma due_process:
  assumes "record_due env i s t c" and "station_in_store (tx_chargeBoxID t) s = Some cs" and "cpe_answer env (cps_sent s) (PostCdr c) = Inr a"
  shows "processOCPITransaction env cs tag END (s\<lparr>cps_tx := t\<rparr>) =
    (s\<lparr>cps_tx := with_record c t, cps_sent := cps_sent s @ [PostCdr c]\<rparr>, Inr ())"
proof -
  obtain st x u where due: "tx_stop t = Some st" "session_of t = Some x" "c = cdr_from env t st x" "worth_sending c" "cdr_of t = None"
      "cpe_ocpiActive env" "cpe_client env" "cpe_endpoints env ''cdrs''" "tx_user t = Some u" "\<not> usr_issuer u"
    using assms(1,2) by (auto simp: record_due_def is_roaming_def split: option.splits)
  have "postCdr env (s\<lparr>cps_tx := t\<rparr>) = (s\<lparr>cps_tx := with_record c t, cps_sent := cps_sent s @ [PostCdr c]\<rparr>, Inr ())"
    using due(1-5,8) assms(3)
    by (simp add: postCdr_def handler_simps getEndpointUrl_def on_tx_def call_def Let_def truthy_str_def with_record_def)
  with due(6,7,9,10) show ?thesis by (simp add: processOCPITransaction_def handler_simps)
qed

lemma due_push:
  assumes "record_due env i s t c" and "cpe_answer env (cps_sent s) (PostCdr c) = Inr a"
  shows "fst (push_cdr_of env i s) = (case cpe_oicp env of
      None \<Rightarrow> s\<lparr>cps_tx := with_record c t, cps_sent := cps_sent s @ [PostCdr c],
        cps_store := map (\<lambda>u. if tx_id u = i then u\<lparr>rtx_ocpiData := rtx_ocpiData (with_record c t)\<rparr> else u) (cps_store s)\<rparr>
    | Some f \<Rightarrow> (case f (with_record c t) END of
        Inl e \<Rightarrow> s\<lparr>cps_tx := with_record c t, cps_sent := cps_sent s @ [PostCdr c]\<rparr>
      | Inr _ \<Rightarrow> s\<lparr>cps_tx := with_record c t, cps_sent := cps_sent s @ [PostCdr c],
        cps_store := map (\<lambda>u. if tx_id u = i then u\<lparr>rtx_ocpiData := rtx_ocpiData (with_record c t)\<rparr> else u) (cps_store s)\<rparr>))"
proof -
  obtain cs tag where cs: "station_in_store (tx_chargeBoxID t) s = Some cs" "is_roaming t cs" "Option.bind (tx_tagID t) (cpe_tag env) = Some tag"
    using assms(1) by (auto simp: record_due_def split: option.splits)
  have d: "stored_with_user env i s = Some t" "cdr_of t = None" "cpe_ocpiActive env" using assms(1) by (simp_all add: record_due_def)
  show ?thesis
    using d cs due_process[OF assms(1) cs(1) assms(2)]
    by (simp add: push_cdr_of_def client_processTransactionRoaming_def catchS_def throwS_def handler_simps on_tx_def
        saveTransactionOcpiData_def split: option.split sum.split)
qed

section \<open>Runs of the task while a record is due\<close>

text \<open>How often a record was posted.\<close>

definition times_posted :: "ocpi_cdr \<Rightarrow> cpo_state \<Rightarrow> nat" where
  "times_posted c s = length (filter (\<lambda>m. m = PostCdr c) (cps_sent s))"

text \<open>A push of a record changes nothing of the others, and holds the locks that it found.\<close>

definition pushes_only :: "int \<Rightarrow> cpo_state \<Rightarrow> cpo_state \<Rightarrow> bool" where
  "pushes_only j s s' = (cps_stations s' = cps_stations s \<and> cps_world s' = cps_world s \<and> (\<exists>ms. cps_sent s' = cps_sent s @ ms)
     \<and> (\<forall>i. i \<noteq> j \<longrightarrow> find (\<lambda>u. tx_id u = i) (cps_store s') = find (\<lambda>u. tx_id u = i) (cps_store s)))"

interpretation pushing: evolution "pushes_only j" for j
  by unfold_locales (auto simp: pushes_only_def)

lemma push_cdr_of_only: "moves (pushes_only i) (push_cdr_of env i)"
proof -
  have tx: "moves (pushes_only i) (on_tx f)" for f
    unfolding on_tx_def by (intro pushing.modifies) (simp add: pushes_only_def)
  have calls: "moves (pushes_only i) (call env m)" for m
    by (simp add: moves_def call_def pushes_only_def)
  have post: "moves (pushes_only i) (postCdr env)"
    unfolding postCdr_def by (intro pushing.rules tx calls)
  have "moves (pushes_only i) (processOCPITransaction env cs tag END)" for cs tag
    unfolding processOCPITransaction_def TransactionAction.case by (intro pushing.rules post)
  then have client: "moves (pushes_only i) (client_processTransactionRoaming env cs tag END)" for cs tag
    unfolding client_processTransactionRoaming_def by (intro pushing.rules) simp_all
  have "find (\<lambda>u. tx_id u = k) (map (\<lambda>u. if tx_id u = i then u\<lparr>rtx_ocpiData := d\<rparr> else u) ts) = find (\<lambda>u. tx_id u = k) ts"
    if "k \<noteq> i" for k d and ts :: "roaming_transaction list"
    using that by (induction ts) auto
  then have save: "moves (pushes_only i) (saveTransactionOcpiData i d)" for d
    unfolding saveTransactionOcpiData_def by (intro pushing.modifies) (simp add: pushes_only_def)
  show ?thesis
    unfolding push_cdr_of_def by (intro pushing.rules tx client save)
qed

lemma due_kept:
  assumes "record_due env i s t c" and "pushes_only j s s'" and "i \<noteq> j"
  shows "record_due env i s' t c" and "times_posted c s \<le> times_posted c s'"
  using assms by (auto simp: record_due_def stored_with_user_def station_in_store_def pushes_only_def times_posted_def)

text \<open>The locks of the task: no other lock has the identifier of one that is taken for a push.\<close>

definition transaction_lock_id :: "cpo_env \<Rightarrow> string \<Rightarrow> string" where
  "transaction_lock_id env key = le_hash env (cpe_tenantID env @ ''~transaction~'' @ to_lower key @ ''~E'')"

lemma free_lock_taken:
  assumes "cpe_tenantID env \<noteq> []" and "key \<noteq> []" and "transaction_lock_id env key \<notin> lock_ids (lw_locks w)"
  obtains l where "acquire_new (lock_env.truncate env) (cpe_tenantID env) TRANSACTION key secs T w
      = Inr (w\<lparr>lw_locks := lw_locks w @ [saved_lock l]\<rparr>, Some l)" and "lk_id l = transaction_lock_id env key"
proof -
  obtain l where l: "createExclusiveLock (le_hash env) (lw_now w) (le_host env) (cpe_tenantID env) TRANSACTION key secs = Inr l"
      "lk_id l = transaction_lock_id env key"
    using assms(1,2) by (simp add: createExclusiveLock_def createLock_def transaction_lock_id_def)
  then have "acquire others l T retry w = (w\<lparr>lw_locks := lw_locks w @ [saved_lock l]\<rparr>, True)" for others retry
    using assms(3) by (intro acquire_free) simp
  with l that show thesis by (simp add: acquire_new_def lock_env.truncate_def)
qed

lemma under_free_lock:
  assumes "acq (cps_world s) = Inr ((cps_world s)\<lparr>lw_locks := lw_locks (cps_world s) @ [saved_lock l]\<rparr>, Some l)"
    and "lk_id l \<notin> lock_ids (lw_locks (cps_world s))"
    and "m (in_cpo_world ((cps_world s)\<lparr>lw_locks := lw_locks (cps_world s) @ [saved_lock l]\<rparr>) s) = (s1, r)"
    and "lw_locks (cps_world s1) = lw_locks (cps_world s) @ [saved_lock l]"
  shows "under_cpo_lock acq m s = (s1\<lparr>cps_world := (cps_world s1)\<lparr>lw_locks := lw_locks (cps_world s)\<rparr>\<rparr>, r)"
  using assms by (simp add: under_cpo_lock_def take_cpo_lock_def bindS_def finallyS_def release_cpo_lock_def release_def deleteLock_def
      delete_first_absent)

lemma due_world [simp]:
  "record_due env i (s\<lparr>cps_world := w\<rparr>) t c = record_due env i s t c" "times_posted c (s\<lparr>cps_world := w\<rparr>) = times_posted c s"
  "record_due env i (in_cpo_world w s) t c = record_due env i s t c" "times_posted c (in_cpo_world w s) = times_posted c s"
  by (simp_all add: record_due_def stored_with_user_def station_in_store_def times_posted_def in_cpo_world_def)

text \<open>While OICP refuses the end of the session and OCPI accepts its record.\<close>

definition refused_by_oicp :: "cpo_env \<Rightarrow> roaming_transaction \<Rightarrow> ocpi_cdr \<Rightarrow> bool" where
  "refused_by_oicp env t c = ((\<forall>before. is_ok (cpe_answer env before (PostCdr c)))
     \<and> (case cpe_oicp env of None \<Rightarrow> False | Some f \<Rightarrow> \<not> is_ok (f (with_record c t) END)))"

lemma refused_push:
  assumes "record_due env i s t c" and "refused_by_oicp env t c"
  shows "record_due env i (fst (push_cdr_of env j s)) t c"
    and "times_posted c s + (if j = i then 1 else 0) \<le> times_posted c (fst (push_cdr_of env j s))"
    and "cps_world (fst (push_cdr_of env j s)) = cps_world s"
proof -
  obtain f e where f: "cpe_oicp env = Some f" "f (with_record c t) END = Inl e"
    using assms(2) by (auto simp: refused_by_oicp_def is_ok_def split: option.splits sum.splits)
  obtain a where a: "cpe_answer env (cps_sent s) (PostCdr c) = Inr a"
    using assms(2) is_okD unfolding refused_by_oicp_def by blast
  have own: "fst (push_cdr_of env i s) = s\<lparr>cps_tx := with_record c t, cps_sent := cps_sent s @ [PostCdr c]\<rparr>"
    using due_push[OF assms(1) a] f by simp
  have only: "pushes_only j s (fst (push_cdr_of env j s))" by (rule movesD[OF push_cdr_of_only])
  show "record_due env i (fst (push_cdr_of env j s)) t c"
    using due_kept(1)[OF assms(1) only] assms(1)
    by (cases "j = i") (simp_all add: own record_due_def stored_with_user_def station_in_store_def)
  show "times_posted c s + (if j = i then 1 else 0) \<le> times_posted c (fst (push_cdr_of env j s))"
    using due_kept(2)[OF assms(1) only] by (cases "j = i") (simp_all add: own times_posted_def)
  show "cps_world (fst (push_cdr_of env j s)) = cps_world s" using only by (simp add: pushes_only_def)
qed

definition push_locks_free :: "cpo_env \<Rightarrow> lock list \<Rightarrow> bool" where
  "push_locks_free env ls = (\<forall>i. transaction_lock_id env (''push-cdr-'' @ show_int i) \<notin> lock_ids ls)"

lemma refused_one:
  assumes "record_due env i s t c" and "refused_by_oicp env t c" and "cpe_tenantID env \<noteq> []"
    and "push_locks_free env (lw_locks (cps_world s))"
  shows "\<exists>s'. push_one env j () s = (s', Inr ()) \<and> record_due env i s' t c \<and> lw_locks (cps_world s') = lw_locks (cps_world s)
    \<and> times_posted c s + (if j = i then 1 else 0) \<le> times_posted c s'"
proof -
  let ?key = "''push-cdr-'' @ show_int j" and ?w = "cps_world s"
  have f: "transaction_lock_id env ?key \<notin> lock_ids (lw_locks ?w)" using assms(4) by (simp add: push_locks_free_def)
  obtain l where l: "acquireOCPIPushCdrLock (lock_env.truncate env) (cpe_tenantID env) j ?w = Inr (?w\<lparr>lw_locks := lw_locks ?w @ [saved_lock l]\<rparr>, Some l)"
      "lk_id l = transaction_lock_id env ?key"
    by (rule free_lock_taken[OF assms(3) _ f]) (simp_all add: acquireOCPIPushCdrLock_def)
  let ?s = "in_cpo_world (?w\<lparr>lw_locks := lw_locks ?w @ [saved_lock l]\<rparr>) s"
  let ?s1 = "fst (push_cdr_of env j ?s)"
  have run: "catchS (push_cdr_of env j) (\<lambda>_. returnS ()) ?s = (?s1, Inr ())"
    by (simp add: catchS_def returnS_def split: prod.split sum.split)
  have "record_due env i ?s t c" using assms(1) by simp
  note p = refused_push[OF this assms(2), of j]
  have "lw_locks (cps_world ?s1) = lw_locks ?w @ [saved_lock l]" unfolding p(3) by (simp add: in_cpo_world_def)
  from under_free_lock[where acq = "acquireOCPIPushCdrLock (lock_env.truncate env) (cpe_tenantID env) j" and s = s and l = l
      and m = "catchS (push_cdr_of env j) (\<lambda>_. returnS ())", OF l(1) _ run this] l(2) f p(1,2)
  show ?thesis by (simp add: push_one_def)
qed

lemma refused_all:
  assumes "record_due env i s t c" and "refused_by_oicp env t c" and "cpe_tenantID env \<noteq> []"
    and "push_locks_free env (lw_locks (cps_world s))"
  shows "\<exists>s'. foldS (push_one env) ids () s = (s', Inr ()) \<and> record_due env i s' t c \<and> lw_locks (cps_world s') = lw_locks (cps_world s)
    \<and> times_posted c s + (if i \<in> set ids then 1 else 0) \<le> times_posted c s'"
  using assms
proof (induction ids arbitrary: s)
  case (Cons j ids)
  obtain s1 where s1: "push_one env j () s = (s1, Inr ())" "record_due env i s1 t c" "lw_locks (cps_world s1) = lw_locks (cps_world s)"
      "times_posted c s + (if j = i then 1 else 0) \<le> times_posted c s1"
    using refused_one[OF Cons.prems] by blast
  with Cons.IH[OF s1(2) Cons.prems(2,3)] Cons.prems(4) obtain s2 where "foldS (push_one env) ids () s1 = (s2, Inr ())" "record_due env i s2 t c"
      "lw_locks (cps_world s2) = lw_locks (cps_world s)" "times_posted c s1 + (if i \<in> set ids then 1 else 0) \<le> times_posted c s2"
    by auto
  with s1 show ?case by (intro exI[of _ s2]) (auto simp: bindS_def)
qed (simp add: returnS_def)

lemma due_selected:
  assumes "record_due env i s t c"
  shows "i \<in> set (map tx_id (filter lacks_cdr (cps_store s)))"
proof -
  obtain u where u: "find (\<lambda>t. tx_id t = i) (cps_store s) = Some u" "t = u\<lparr>tx_user := Option.bind (tx_userID u) (cpe_user env)\<rparr>"
    using assms by (auto simp: record_due_def stored_with_user_def)
  then have "u \<in> set (cps_store s)" "tx_id u = i" by (auto simp: find_Some_iff)
  moreover have "lacks_cdr u"
    using assms u(2) by (auto simp: record_due_def lacks_cdr_def session_of_def cdr_of_def split: option.splits bind_splits)
  ultimately show ?thesis by auto
qed

text \<open>One run: the lock of the task and those of the records are free, and the hash does not identify two keys.\<close>

lemma refused_run:
  assumes due: "record_due env i s t c" and refused: "refused_by_oicp env t c" and tenant: "cpe_tenantID env \<noteq> []"
    and hash: "inj (le_hash env)" and free: "lw_locks (cps_world s) = []"
  shows "record_due env i (fst (pushCdrs_processTenant env s)) t c \<and> lw_locks (cps_world (fst (pushCdrs_processTenant env s))) = []
    \<and> times_posted c s < times_posted c (fst (pushCdrs_processTenant env s))"
proof -
  let ?w = "cps_world s" and ?acq = "acquireOCPIPushCpoCdrsLock (lock_env.truncate env) (cpe_tenantID env)"
  have f: "transaction_lock_id env ''push-cdrs'' \<notin> lock_ids (lw_locks ?w)" using free by (simp add: lock_ids_def)
  obtain l where l: "?acq ?w = Inr (?w\<lparr>lw_locks := lw_locks ?w @ [saved_lock l]\<rparr>, Some l)" "lk_id l = transaction_lock_id env ''push-cdrs''"
    by (rule free_lock_taken[OF tenant _ f]) (simp_all add: acquireOCPIPushCpoCdrsLock_def)
  let ?s = "in_cpo_world (?w\<lparr>lw_locks := lw_locks ?w @ [saved_lock l]\<rparr>) s"
  have "record_due env i ?s t c" using due by simp
  moreover have "push_locks_free env (lw_locks (cps_world ?s))"
    using hash free l(2) by (auto simp: push_locks_free_def in_cpo_world_def lock_ids_def transaction_lock_id_def inj_eq to_lower_def)
  ultimately obtain s1 where s1: "foldS (push_one env) (map tx_id (filter lacks_cdr (cps_store ?s))) () ?s = (s1, Inr ())"
      "record_due env i s1 t c" "lw_locks (cps_world s1) = lw_locks ?w @ [saved_lock l]" "times_posted c s < times_posted c s1"
    using refused_all[OF _ refused tenant, of i ?s "map tx_id (filter lacks_cdr (cps_store ?s))"] due_selected[of env i ?s t c]
    by (auto simp: in_cpo_world_def)
  let ?m = "bindS (readS (\<lambda>s. map tx_id (filter lacks_cdr (cps_store s)))) (\<lambda>ids. foldS (push_one env) ids ())"
  have "?m ?s = (s1, Inr ())" using s1(1) by (simp add: bindS_def readS_def)
  from under_free_lock[where acq = ?acq and s = s and l = l and m = ?m, OF l(1) _ this s1(3)] l(2) f
  have "under_cpo_lock ?acq ?m s = (s1\<lparr>cps_world := (cps_world s1)\<lparr>lw_locks := lw_locks ?w\<rparr>\<rparr>, Inr ())" by simp
  moreover have "cpe_ocpiActive env" using due by (simp add: record_due_def)
  ultimately show ?thesis using s1(2,4) free by (simp add: pushCdrs_processTenant_def catchS_def)
qed

text \<open>C35: While OICP refuses the end of a session whose record OCPI accepts, every run of the task posts the record again: after n
  successive runs, that find no lock held and with no other process between, it was posted n times more at least, and it is
  still due.\<close>

theorem record_posted_again:
  assumes "record_due env i s t c" and "refused_by_oicp env t c" and "cpe_tenantID env \<noteq> []" and "inj (le_hash env)"
    and "lw_locks (cps_world s) = []"
  shows "times_posted c s + n \<le> times_posted c (((\<lambda>s. fst (pushCdrs_processTenant env s)) ^^ n) s)
    \<and> record_due env i (((\<lambda>s. fst (pushCdrs_processTenant env s)) ^^ n) s) t c"
proof -
  let ?after = "\<lambda>n. ((\<lambda>s. fst (pushCdrs_processTenant env s)) ^^ n) s"
  have "record_due env i (?after n) t c \<and> lw_locks (cps_world (?after n)) = [] \<and> times_posted c s + n \<le> times_posted c (?after n)"
  proof (induction n)
    case (Suc n)
    with refused_run[OF _ assms(2-4), of i "?after n"] show ?case by auto
  qed (simp add: assms(1,5))
  then show ?thesis by blast
qed

text \<open>C25: While OICP is not in use, a record that is due and that the eMSP accepts is posted and kept with its transaction.\<close>

theorem due_record_is_posted:
  assumes "record_due env i s t c" and "cpe_answer env (cps_sent s) (PostCdr c) = Inr a" and "cpe_oicp env = None"
  shows "cps_sent (fst (push_cdr_of env i s)) = cps_sent s @ [PostCdr c]
    \<and> map_option cdr_of (find (\<lambda>u. tx_id u = i) (cps_store (fst (push_cdr_of env i s)))) = Some (Some c)"
proof -
  obtain u where u: "find (\<lambda>t. tx_id t = i) (cps_store s) = Some u" "t = u\<lparr>tx_user := Option.bind (tx_userID u) (cpe_user env)\<rparr>"
    using assms(1) by (auto simp: record_due_def stored_with_user_def)
  obtain d where d: "rtx_ocpiData t = Some d"
    using assms(1) by (auto simp: record_due_def session_of_def split: option.splits bind_splits)
  have "find (\<lambda>u. tx_id u = i) (map (\<lambda>u. if tx_id u = i then u\<lparr>rtx_ocpiData := o'\<rparr> else u) ts) =
      map_option (\<lambda>u. u\<lparr>rtx_ocpiData := o'\<rparr>) (find (\<lambda>u. tx_id u = i) ts)" for o' and ts :: "roaming_transaction list"
    by (induction ts) auto
  then show ?thesis using u(1) d by (simp add: due_push[OF assms(1,2)] assms(3) cdr_of_def with_record_def)
qed

section \<open>Pulls\<close>

lemma pulled_succeeds: "\<exists>s' r'. pulled handle x r s = (s', Inr r')"
  by (cases "handle x s"; cases "snd (handle x s)") (simp_all add: pulled_def catchS_def bindS_def returnS_def)

lemma pulled_all: "\<exists>s' r'. foldS (pulled handle) xs r s = (s', Inr r')"
proof (induction xs arbitrary: r s)
  case (Cons x xs)
  obtain s1 r1 where "pulled handle x r s = (s1, Inr r1)" using pulled_succeeds by metis
  with Cons show ?case by (simp add: bindS_def)
qed (simp add: returnS_def)

text \<open>A pull ends when the links of the pages go down in some order, whatever the objects of the pages are.\<close>

theorem pull_ends:
  assumes "\<And>u xs l u'. pages u = Inr (xs, l) \<Longrightarrow> next_page u l = Some u' \<Longrightarrow> rank u' < (rank u :: nat)"
  shows "\<exists>s' r'. pull_pages pages handle u r s = Some (s', r')"
proof (induction "rank u" arbitrary: u r s rule: less_induct)
  case less
  show ?case
  proof (cases "pages u")
    case (Inl e)
    then show ?thesis by (simp add: pull_pages.simps)
  next
    case (Inr p)
    obtain xs l where p: "p = (xs, l)" by force
    obtain s1 r1 where f: "foldS (pulled handle) xs r s = (s1, Inr r1)" using pulled_all by metis
    show ?thesis
    proof (cases "next_page u l")
      case None
      with Inr p f show ?thesis by (simp add: pull_pages.simps)
    next
      case (Some u')
      with less[OF assms[OF Inr[unfolded p] Some]] Inr p f show ?thesis by (simp add: pull_pages.simps[of _ _ u])
    qed
  qed
qed

text \<open>A pull never ends when each page links to another one for ever, as pages in a cycle of two or more do.\<close>

theorem pull_never_ends:
  assumes "\<And>k. \<exists>xs. pages (u k) = Inr (xs, Some (u (Suc k)))" and "\<And>k. u (Suc k) \<noteq> u k"
  shows "pull_pages pages handle (u k) r s = None"
proof -
  have "pages = pages \<longrightarrow> (\<forall>j. u k \<noteq> u j)" if "pull_pages pages handle (u k) r s = Some q" for q
  proof (rule pull_pages.raw_induct[where P = "\<lambda>p h v r s q. p = pages \<longrightarrow> (\<forall>j. v \<noteq> u j)", OF _ that], intro impI allI notI)
    fix again p h v r s q j
    assume ih: "\<And>p h v r s q. again p h v r s = Some q \<Longrightarrow> p = pages \<longrightarrow> (\<forall>j. v \<noteq> u j)"
      and body: "(case p v of Inl e \<Rightarrow> Some (s, Inl e)
        | Inr (objects, link) \<Rightarrow> (case foldS (pulled h) objects r s of
            (s', Inl e) \<Rightarrow> Some (s', Inl e)
          | (s', Inr r') \<Rightarrow> (case next_page v link of None \<Rightarrow> Some (s', Inr r') | Some url' \<Rightarrow> again p h url' r' s'))) = Some q"
      and p: "p = pages" and v: "v = u j"
    obtain xs where xs: "pages (u j) = Inr (xs, Some (u (Suc j)))" using assms(1) by blast
    obtain s1 r1 where f: "foldS (pulled h) xs r s = (s1, Inr r1)" using pulled_all by metis
    have "again p h (u (Suc j)) r1 s1 = Some q" using body xs f assms(2)[of j] p v by (simp add: next_page_def)
    with ih p show False by blast
  qed
  then show ?thesis by (cases "pull_pages pages handle (u k) r s") auto
qed

end
