(* ===== verification/Ocpi_Cases.thy ===== *)
theory Ocpi_Cases
  imports Ocpi_Ends Ocpi_Names Ocpi_Pushes
begin

text \<open>
  A session of a roaming user on both sides: the station and the transaction of the CPO, and the transaction that the eMSP
  holds. The properties of the roaming on them.
\<close>

section \<open>A session\<close>

definition roaming_evse :: ocpi_evse where
  "roaming_evse = \<lparr> evs_uid = Some ''CS-1*1'', evs_evse_id = Some ''FR*ABC*ECS*1*1'', evs_location_id = Some ''S1'',
     evs_status = Some OCPIEvseStatus.AVAILABLE, evs_connectors = Some [], evs_last_updated = Some 0, evs_chargingStationID = None,
     evs_siteID = None, evs_siteAreaID = None, evs_companyID = None \<rparr>"

definition roaming_location :: ocpi_location where
  "roaming_location = \<lparr> loc_id = Some ''S1'', loc_evses = Some [roaming_evse], loc_last_updated = Some 0 \<rparr>"

definition session_at :: "rat \<Rightarrow> rat \<Rightarrow> int \<Rightarrow> ocpi_session" where
  "session_at kwh cost ts = \<lparr> os_id = Some ''9'', os_authorization_id = Some ''AUTH'', os_start_datetime = Some 0, os_end_datetime = None,
     os_kwh = Some kwh, os_auth_id = Some ''U'', os_auth_method = Some AUTH_REQUEST, os_location = Some roaming_location,
     os_currency = Some ''EUR'', os_charging_periods = None, os_total_cost = Some cost, os_status = Some OCPISessionStatus.ACTIVE,
     os_last_updated = Some ts \<rparr>"

lemma session_at_valid: "validateSession (session_at kwh cost ts)"
  by (simp add: validateSession_def validateLocation_def session_at_def roaming_location_def roaming_evse_def truthy_str_def)

lemma session_at_simps [simp]:
  "os_id (session_at kwh cost ts) = Some ''9''" "os_kwh (session_at kwh cost ts) = Some kwh"
  "os_total_cost (session_at kwh cost ts) = Some cost" "os_last_updated (session_at kwh cost ts) = Some ts"
  "\<not> ends (session_at kwh cost ts)"
  by (simp_all add: session_at_def ends_def)

definition roaming_held :: "bool \<Rightarrow> last_consumption option \<Rightarrow> transaction_stop option \<Rightarrow> roaming_transaction" where
  "roaming_held issuer lc st = \<lparr> tx_id = 7, tx_chargeBoxID = ''CS-1'', tx_connectorId = 1, tx_companyID = None, tx_siteID = None,
     tx_siteAreaID = None, tx_issuer = issuer, tx_tagID = Some ''TAG'', tx_userID = Some ''U'', tx_user = None,
     tx_authorizationID = Some ''AUTH'', tx_signedData = [], tx_meterStart = 0, tx_timestamp = 0, tx_timezone = None,
     tx_price = Some 0, tx_roundedPrice = None, tx_priceUnit = None, tx_pricingSource = None, tx_pricingModel = None,
     tx_stateOfCharge = 0, tx_phasesUsed = None, tx_run = blank_runtime\<lparr>rt_lastConsumption := lc\<rparr>, tx_remotestop = None,
     tx_stop = st, tx_billingData = None, rtx_ocpiData = Some (no_ocpi_data\<lparr>od_session := Some (session_at 0 0 0)\<rparr>) \<rparr>"

lemma roaming_held_simps [simp]:
  "tx_id (roaming_held b lc st) = 7" "tx_stop (roaming_held b lc st) = st" "tx_price (roaming_held b lc st) = Some 0"
  "tx_timestamp (roaming_held b lc st) = 0" "tx_meterStart (roaming_held b lc st) = 0" "tx_issuer (roaming_held b lc st) = b"
  "tx_userID (roaming_held b lc st) = Some ''U''" "tx_chargeBoxID (roaming_held b lc st) = ''CS-1''"
  "rt_lastConsumption (tx_run (roaming_held b lc st)) = lc" "session_of (roaming_held b lc st) = Some (session_at 0 0 0)"
  "has_session i (roaming_held b lc st) \<longleftrightarrow> i = ''9''"
  by (auto simp: roaming_held_def blank_runtime_def session_of_def has_session_def)

definition roaming_emsp_env :: emsp_env where
  "roaming_emsp_env = \<lparr> eme_now = 0, eme_user = (\<lambda>_. None), eme_newID = (\<lambda>ids. fold max ids 0 + 1), eme_timezone = (\<lambda>_. None),
     eme_blank = charging_station.extend sample_station (roaming_station.fields [] [] [] [] [] None None None) \<rparr>"

definition roaming_emsp :: "last_consumption option \<Rightarrow> emsp_state" where
  "roaming_emsp lc = \<lparr> ems_transactions = [roaming_held False lc None], ems_consumptions = [], ems_stations = [] \<rparr>"

definition at_start :: last_consumption where
  "at_start = \<lparr> lc_value = 0, lc_timestamp = 0 \<rparr>"

lemma last_session_held [simp]: "last_session (roaming_held b (Some lc) st) = lc" "last_session (roaming_held b None st) = at_start"
  by (simp_all add: last_session_def at_start_def)

lemma roaming_emsp_empty [simp]: "of_tx i (roaming_emsp lc) = []" "session_energy i (roaming_emsp lc) = 0" "session_amount i (roaming_emsp lc) = 0"
  by (simp_all add: of_tx_def roaming_emsp_def session_energy_def session_amount_def)

lemma roaming_open: "open_session ''9'' (roaming_held False (Some at_start) None) (roaming_emsp (Some at_start))"
  using roaming_emsp_empty(1)[of 7 "Some at_start"] by (simp add: open_session_def) (simp add: roaming_emsp_def)

section \<open>The eMSP\<close>

definition two_updates :: "ocpi_session list" where
  "two_updates = [session_at 1 2 60000, session_at 3 5 120000]"

theorem session_updates_account_witness:
  "session_energy 7 (fst (foldS (\<lambda>x _. updateTransaction roaming_emsp_env x None) two_updates () (roaming_emsp (Some at_start)))) = 3000
   \<and> session_amount 7 (fst (foldS (\<lambda>x _. updateTransaction roaming_emsp_env x None) two_updates () (roaming_emsp (Some at_start)))) = 5"
proof -
  have "later_updates ''9'' 0 0 two_updates"
    by (simp add: two_updates_def later_update_def session_at_valid)
  then have u: "later_updates ''9'' (lc_value (last_session (roaming_held False (Some at_start) None)))
      (lc_timestamp (last_session (roaming_held False (Some at_start) None))) two_updates" by (simp add: at_start_def)
  obtain s' r where "foldS (\<lambda>x _. updateTransaction roaming_emsp_env x None) two_updates () (roaming_emsp (Some at_start)) = (s', r)" by force
  with session_updates_account[OF roaming_open u this] show ?thesis by (auto simp: at_start_def two_updates_def)
qed

theorem session_ids_collide_witness:
  "snd (putSessionRequest roaming_emsp_env ''FR'' ''XYZ'' ''9'' (session_at 4 9 60000) (roaming_emsp (Some at_start))) = Inr ()"
  using session_ids_collide[OF roaming_open session_at_valid[of 4 9 60000], of "''FR''" "''XYZ''" roaming_emsp_env]
  by (cases "putSessionRequest roaming_emsp_env ''FR'' ''XYZ'' ''9'' (session_at 4 9 60000) (roaming_emsp (Some at_start))")
    (simp add: at_start_def)

theorem replay_counts_from_start_witness:
  "session_energy 7 (fst (updateTransaction roaming_emsp_env (session_at 4 9 60000) None (roaming_emsp None))) = 4000"
proof -
  have "filter (has_session ''9'') (ems_transactions (roaming_emsp None)) = [roaming_held False None None]"
    by (simp add: roaming_emsp_def)
  from replay_counts_from_start[OF this, of "session_at 4 9 60000" roaming_emsp_env] session_at_valid show ?thesis
    by (cases "updateTransaction roaming_emsp_env (session_at 4 9 60000) None (roaming_emsp None)") simp
qed

definition nothing_held :: emsp_state where
  "nothing_held = \<lparr> ems_transactions = [], ems_consumptions = [], ems_stations = [] \<rparr>"

theorem missed_start_never_recorded_witness:
  "fst (foldS (\<lambda>x _. catchS (updateTransaction roaming_emsp_env x None) (\<lambda>_. returnS ())) two_updates () nothing_held) = nothing_held"
  by (rule missed_start_never_recorded[of "''9''"])
    (simp_all add: getOCPITransactionBySessionID_def nothing_held_def two_updates_def)

definition after_put :: "emsp_state \<times> unit res" where
  "after_put = foldS (\<lambda>r _. catchS (emsp_process roaming_emsp_env r) (\<lambda>_. returnS ()))
     [PutRequest ''FR'' ''ABC'' ''9'' (session_at 4 9 60000)] () (roaming_emsp (Some at_start))"

theorem emsp_never_stops_witness: "\<exists>e. emsp_remoteStopSession ''https://emsp/cb'' 7 (fst after_put) = Inl e"
proof (rule emsp_never_stops)
  show "foreign (roaming_emsp (Some at_start))" by (simp add: foreign_def roaming_emsp_def)
  show "foldS (\<lambda>r _. catchS (emsp_process roaming_emsp_env r) (\<lambda>_. returnS ()))
     [PutRequest ''FR'' ''ABC'' ''9'' (session_at 4 9 60000)] () (roaming_emsp (Some at_start)) = (fst after_put, snd after_put)"
    by (simp only: after_put_def prod.collapse)
qed

section \<open>The CPO\<close>

definition roaming_token :: ocpi_token where
  "roaming_token = \<lparr> otk_uid = Some ''TAG'', otk_type = Some RFID, otk_auth_id = Some ''U'', otk_visual_number = None,
     otk_issuer = Some ''eMSP'', otk_valid = Some True, otk_whitelist = Some ALLOWED_OFFLINE, otk_last_updated = Some 0 \<rparr>"

definition foreign_user :: user where
  "foreign_user = \<lparr> usr_id = ''U'', usr_issuer = False, usr_authorizationID = None, usr_name = ''R'', usr_firstName = None, usr_email = ''r@x'',
     usr_locale = None, usr_address = None, usr_freeAccess = False, usr_billingData = None \<rparr>"

definition roaming_station_1 :: roaming_station where
  "roaming_station_1 = charging_station.extend sample_station
     (roaming_station.fields [None, None] [] [roaming_evse] [] [] None None None)"

definition roaming_reading :: meter_consumption where
  "roaming_reading = session_consumption (roaming_held True None None) at_start (session_at 0 0 60000) 0"

definition roaming_cpo_env :: cpo_env where
  "roaming_cpo_env = \<lparr> le_hash = (\<lambda>x. x), le_host = ''host'', le_others = (\<lambda>_ ls. ls), cpe_tenantID = ''T'', cpe_now = 300000,
     cpe_ocpiActive = True, cpe_client = True, cpe_endpoints = (\<lambda>_. True), cpe_countryCode = Some ''FR'', cpe_partyID = Some ''ABC'',
     cpe_currency = ''EUR'', cpe_tariffID = None, cpe_site = (\<lambda>_. Some roaming_location), cpe_user = (\<lambda>_. Some foreign_user),
     cpe_tag = (\<lambda>_. Some \<lparr> rtg_id = ''TAG'', rtg_visualID = None, rtg_issuer = False, rtg_active = True, rtg_user = Some foreign_user,
       rtg_ocpiToken = Some roaming_token \<rparr>),
     cpe_consumptions = [roaming_reading\<lparr>mc_consumptionWh := Some (1234567 / 1000)\<rparr>],
     cpe_answer = (\<lambda>_ _. Inr \<lparr> oan_status_code = Some 1000, oan_hasData = True \<rparr>), cpe_oicp = None \<rparr>"

definition roaming_stop :: transaction_stop where
  "roaming_stop = \<lparr> stop_timestamp = 180000, stop_meterStop = 4000, stop_reason = None, stop_tagID = Some ''TAG'', stop_userID = Some ''U'',
     stop_price = Some 2, stop_roundedPrice = Some 2, stop_priceUnit = Some ''EUR'', stop_pricingSource = None, stop_stateOfCharge = 0,
     stop_totalInactivitySecs = 0, stop_extraInactivitySecs = 0, stop_extraInactivityComputed = False, stop_totalConsumptionWh = 4000,
     stop_totalDurationSecs = Some 180, stop_inactivityStatus = INFO, stop_signedData = [] \<rparr>"

definition roaming_cpo :: cpo_state where
  "roaming_cpo = \<lparr> cps_tx = roaming_held True None (Some roaming_stop), cps_sent = [], cps_store = [], cps_stations = [roaming_station_1],
     cps_world = \<lparr> lw_now = 0, lw_locks = [] \<rparr> \<rparr>"

definition roaming_completed :: ocpi_session where
  "roaming_completed = completed_session roaming_cpo_env (roaming_held True None (Some roaming_stop)) roaming_stop (session_at 0 0 0)"

lemma roaming_completed_valid: "validateSession roaming_completed"
  using session_at_valid[of 0 0 0] by (simp add: validateSession_def roaming_completed_def completed_session_def)

lemma roaming_stop_sent:
  "snd (ocpi_stopSession roaming_cpo_env roaming_cpo) = Inr ()"
  "cps_sent (fst (ocpi_stopSession roaming_cpo_env roaming_cpo)) = [PutSession roaming_completed]"
  by (simp_all add: ocpi_stopSession_def handler_simps roaming_cpo_def service_url_def getEndpointUrl_def getLocalCountryCode_def
      getLocalPartyID_def roaming_cpo_env_def truthy_str_def set_session_def on_tx_def call_def Let_def roaming_completed_def)

theorem stop_totals_agree_witness:
  "snd (putSessionRequest roaming_emsp_env ''FR'' ''ABC'' ''9'' roaming_completed (roaming_emsp (Some at_start))) = Inr ()
   \<and> stop_totalConsumptionWh roaming_stop = 4000"
proof -
  obtain e' r where e: "putSessionRequest roaming_emsp_env ''FR'' ''ABC'' ''9'' roaming_completed (roaming_emsp (Some at_start)) = (e', r)" by force
  obtain c' where c: "ocpi_stopSession roaming_cpo_env roaming_cpo = (c', Inr ())" and l: "cps_sent c' = [PutSession roaming_completed]"
    using roaming_stop_sent by (cases "ocpi_stopSession roaming_cpo_env roaming_cpo") simp
  have "r = Inr ()"
    using stop_totals_agree[OF c _ _ _ roaming_completed_valid roaming_open _ _ _ e, of roaming_stop] l
    by (simp add: roaming_cpo_def at_start_def roaming_completed_def roaming_stop_def)
  with e show ?thesis by (simp add: roaming_stop_def)
qed

definition roaming_start :: start_session where
  "roaming_start = \<lparr> sts_response_url = Some ''https://emsp/cb/AUTH'', sts_token = Some roaming_token, sts_evse_uid = Some ''CS-1*1'',
     sts_location_id = Some ''S1'', sts_authorization_id = Some ''AUTH'' \<rparr>"

lemma roaming_station_1_simps [simp]:
  "cs_id roaming_station_1 = ''CS-1''" "plain_station roaming_station_1 = sample_station" "cs_issuer roaming_station_1" "cs_public roaming_station_1"
  "\<not> cs_deleted roaming_station_1" "rsn_evses roaming_station_1 = [roaming_evse]" "rsn_remoteAuthorizations roaming_station_1 = []"
  by (simp_all add: roaming_station_1_def sample_station_def charging_station.defs roaming_station.defs plain_station_def)

lemma roaming_start_found: "requested_connector ''CS-1*1'' sample_station = Some (sample_connector 1)"
proof -
  have "show_int 1 = ''1''" by code_simp
  moreover have "getConnectorFromID sample_station 1 = Some (sample_connector 1)"
    by (simp add: getConnectorFromID_def sample_station_def) (simp add: sample_connector_def)
  ultimately show ?thesis using requested_of_name[of "''CS-1''" 1 sample_station] by simp
qed

theorem accepted_start_witness:
  "one_authorization (fst (remoteStartSessionRequest roaming_cpo_env roaming_start roaming_cpo))
   \<and> snd (remoteStartSessionRequest roaming_cpo_env roaming_start roaming_cpo) =
       Inr (OCPICommandResponseType.ACCEPTED, Some (StartOn ''CS-1'' 1 ''TAG''))"
proof -
  have "one_authorization roaming_cpo" by (simp add: one_authorization_def roaming_cpo_def)
  from accepted_start[OF this, of roaming_cpo_env roaming_start]
  have "one_authorization (fst (remoteStartSessionRequest roaming_cpo_env roaming_start roaming_cpo))"
    by (metis prod.collapse)
  moreover have "con_connectorId (sample_connector 1) = 1" "free_to_start (sample_connector 1)"
    by (simp_all add: sample_connector_def free_to_start_def)
  ultimately show ?thesis using roaming_start_found
    by (simp add: remoteStartSessionRequest_def validateStartSession_def validateToken_def roaming_start_def roaming_token_def truthy_str_def
        handler_simps roaming_cpo_env_def token_may_start_def foreign_user_def Let_def getChargingStationByOcpiLocationEvseUid_def
        roaming_cpo_def roaming_evse_def authorize_connector_def saveChargingStationRemoteAuthorizations_def)
qed

theorem periods_energy_bounds_witness:
  "periods_energy (buildChargingPeriods roaming_cpo_env ((roaming_held True None None)\<lparr>tx_timestamp := 1\<rparr>)) \<le> 1234567 / 1000000"
  using periods_energy_bounds[of "(roaming_held True None None)\<lparr>tx_timestamp := 1\<rparr>" "cpe_consumptions roaming_cpo_env" roaming_cpo_env]
  by (simp add: roaming_cpo_env_def roaming_reading_def)

section \<open>Records\<close>

definition roaming_due :: roaming_transaction where
  "roaming_due = (roaming_held True None (Some roaming_stop))\<lparr>tx_timestamp := 1\<rparr>"

definition controlled_station :: roaming_station where
  "controlled_station = roaming_station_1\<lparr>cs_siteArea := Some \<lparr> sa_id = ''SA1'', sa_maximumPower = None, sa_voltage = VOLTAGE_230,
     sa_smartCharging = False, sa_accessControl = True \<rparr>\<rparr>"

definition due_state :: cpo_state where
  "due_state = roaming_cpo\<lparr>cps_store := [roaming_due], cps_stations := [controlled_station]\<rparr>"

definition due_cdr :: ocpi_cdr where
  "due_cdr = cdr_from roaming_cpo_env (roaming_due\<lparr>tx_user := Some foreign_user\<rparr>) roaming_stop (session_at 0 0 0)"

lemma roaming_due_simps [simp]:
  "tx_id roaming_due = 7" "tx_stop roaming_due = Some roaming_stop" "session_of roaming_due = Some (session_at 0 0 0)"
  "cdr_of roaming_due = None" "tx_timestamp roaming_due = 1" "tx_chargeBoxID roaming_due = ''CS-1''" "tx_tagID roaming_due = Some ''TAG''"
  "tx_userID roaming_due = Some ''U''"
  by (simp_all add: roaming_due_def) (simp_all add: roaming_held_def session_of_def cdr_of_def no_ocpi_data_def)

lemma due_more [simp]: "session_of (t\<lparr>tx_user := u\<rparr>) = session_of t" "cdr_of (t\<lparr>tx_user := u\<rparr>) = cdr_of t"
  by (simp_all add: session_of_def cdr_of_def)

lemma controlled_station_simps [simp]:
  "cs_id controlled_station = ''CS-1''" "\<not> cs_deleted controlled_station" "is_roaming (t\<lparr>tx_user := Some foreign_user\<rparr>) controlled_station"
  by (simp_all add: controlled_station_def is_roaming_def foreign_user_def)

lemma due_cdr_worth: "worth_sending due_cdr"
  by (simp add: worth_sending_def due_cdr_def cdr_from_def roaming_stop_def pos_def buildChargingPeriods_def roaming_cpo_env_def
      roaming_reading_def buildChargingPeriod_def)

lemma due_now: "record_due (roaming_cpo_env\<lparr>cpe_oicp := f\<rparr>) 7 due_state (roaming_due\<lparr>tx_user := Some foreign_user\<rparr>) due_cdr"
proof -
  have "due_cdr = cdr_from (roaming_cpo_env\<lparr>cpe_oicp := f\<rparr>) (roaming_due\<lparr>tx_user := Some foreign_user\<rparr>) roaming_stop (session_at 0 0 0)"
    by (simp add: due_cdr_def cdr_from_def buildChargingPeriods_def)
  then show ?thesis
    using due_cdr_worth by (simp add: record_due_def stored_with_user_def due_state_def station_in_store_def)
      (simp add: roaming_cpo_env_def)
qed

lemma oicp_none: "roaming_cpo_env\<lparr>cpe_oicp := None\<rparr> = roaming_cpo_env"
  by (simp add: roaming_cpo_env_def)

theorem due_record_is_posted_witness:
  "cps_sent (fst (push_cdr_of roaming_cpo_env 7 due_state)) = [PostCdr due_cdr]"
  using due_record_is_posted[OF due_now[of None], of "\<lparr> oan_status_code = Some 1000, oan_hasData = True \<rparr>"]
  by (simp add: oicp_none) (simp add: due_state_def roaming_cpo_def roaming_cpo_env_def)

definition refusing_env :: cpo_env where
  "refusing_env = roaming_cpo_env\<lparr>cpe_oicp := Some (\<lambda>_ _. Inl TypeError)\<rparr>"

theorem record_posted_again_witness:
  "3 \<le> times_posted due_cdr (((\<lambda>s. fst (pushCdrs_processTenant refusing_env s)) ^^ 3) due_state)"
proof -
  have "refused_by_oicp refusing_env (roaming_due\<lparr>tx_user := Some foreign_user\<rparr>) due_cdr" "cpe_tenantID refusing_env \<noteq> []"
    "inj (le_hash refusing_env)"
    by (simp_all add: refusing_env_def refused_by_oicp_def roaming_cpo_env_def inj_on_def)
  moreover have "lw_locks (cps_world due_state) = []" "times_posted due_cdr due_state = 0"
    by (simp_all add: due_state_def roaming_cpo_def times_posted_def)
  ultimately show ?thesis
    using record_posted_again[OF due_now[of "Some (\<lambda>_ _. Inl TypeError)", folded refusing_env_def], of 3] by simp
qed

theorem record_posted_once_witness:
  "records_once roaming_cpo_env (((\<lambda>s. fst (pushCdrs_processTenant roaming_cpo_env s)) ^^ 5) due_state)"
proof (rule record_posted_once)
  show "cpe_oicp roaming_cpo_env = None" by (simp add: roaming_cpo_env_def)
  show "records_once roaming_cpo_env due_state"
    by (simp add: records_once_def one_session_each_def due_state_def roaming_cpo_def)
qed

section \<open>Pulls\<close>

definition three_pages :: "nat \<Rightarrow> (ocpi_session list \<times> nat option) res" where
  "three_pages n = Inr (two_updates, if n = 0 then None else Some (n - 1))"

theorem pull_ends_witness: "\<exists>s' r'. pullSessions roaming_emsp_env three_pages 2 (roaming_emsp (Some at_start)) = Some (s', r')"
  unfolding pullSessions_def
  by (rule pull_ends[where rank = id]) (auto simp: three_pages_def next_page_def split: if_splits)

theorem pull_never_ends_witness:
  "pullSessions roaming_emsp_env (\<lambda>b. Inr (two_updates, Some (\<not> b))) True nothing_held = None"
  unfolding pullSessions_def
  using pull_never_ends[of "\<lambda>b. Inr (two_updates, Some (\<not> b))" "even :: nat \<Rightarrow> bool" _ 0] by simp

end
