(* ===== verification/Spec2Isabelle.thy ===== *)
theory Spec2Isabelle
  imports Tariff_Steps Session_Properties Lock_Protocol Access_Cases Billing_Cases Request_Cases Ocpi_Cases
begin

text \<open>
  A model of the back end of an operator of charging stations for electric vehicles
  (src/ev-server-2.6.1, TypeScript on Node and MongoDB), with the properties that make it correct.

  The program. Charging stations talk OCPP to the back end: they ask whether a badge may start a
  session, start and stop it, send meter values and the status of their connectors. The back end turns
  meter values into consumptions, prices them, and keeps the sessions. Users and administrators of sites
  use a REST interface; every request is checked by access control and reads or writes one tenant's
  collections. Several processes share the data base and exclude each other by locks that are documents of
  it. The parts call each other as the theories import each other.

  \<^bold>\<open>Foundations.\<close>
  \<^item> \<open>Js_Base\<close>: the values of TypeScript in HOL (truthiness, \<^verbatim>\<open>parseInt\<close>, exceptions as sums). \<open>Handler_Monad\<close>:
    a request as a function from the state to the state and a value or an exception, and the rules by
    which a handler keeps an invariant. \<open>Collections\<close>: the contracts of the operations of the data base, as
    locales, which the components interpret on their own collections.

  \<^bold>\<open>Charging stations.\<close>
  \<^item> \<open>Station_Types\<close> (types/ChargingStation.ts, types/ocpp), \<open>Station_Utils\<close> (the electrical helpers of
    utils/Utils.ts), \<open>Charging_Limits\<close> (integration/charging-station-vendor/ChargingStationVendorIntegration.ts:
    limits in force, conversions, the static power limitation).

  \<^bold>\<open>Pricing.\<close>
  \<^item> \<open>Pricing_Types\<close>, \<open>Pricing_Time\<close> (PricingTimeLimit.ts), \<open>Chunk_Pricer\<close> (ConsumptionChunkPricer.ts),
    \<open>Consumption_Pricer\<close> (ConsumptionPricer.ts, PricingHelper.ts), \<open>Pricing_Engine\<close> (PricingEngine.ts and
    simple-pricing/BuiltInPricingIntegration.ts), \<open>Tariff_Steps\<close> (laws of tariffs with steps).
    The state is the pricing model of a session; its invariant is that the cumulated price is the sum of
    the prices of the consumptions, dimension by dimension, whatever tariffs apply on the way.

  \<^bold>\<open>Sessions.\<close>
  \<^item> \<open>Transaction_Types\<close>, \<open>Meter_Values\<close> (server/ocpp/utils/OCPPUtils.ts), \<open>Meter_Laws\<close>, \<open>Ocpp_Service\<close>
    (server/ocpp/services/OCPPService.ts with OCPPValidation.ts and the storage of transactions and
    consumptions), \<open>Session_Laws\<close>, \<open>Session_Properties\<close>. The state is what the data base holds for one charging
    station; a request may fail at any point and keeps what it saved. The invariant is the energy
    account: the energy of a running session is its last register less its first, that of a stopped one
    is closed; it is kept by any sequence of complete requests (whose meter values have one time and an energy register).

  \<^bold>\<open>Locks.\<close>
  \<^item> \<open>Locking\<close> (locking/LockingManager.ts, storage/mongodb/LockingStorage.ts) for one process,
    \<open>Lock_Protocol\<close> (locking/LockingHelper.ts) for the interleaving of any number of processes, as a step
    relation whose steps are single operations of the data base.

  \<^bold>\<open>Access control.\<close>
  \<^item> \<open>Access_Types\<close>, \<open>Access_Table\<close> (authorization/AuthorizationsDefinition.ts), \<open>Access_Control\<close> (the package
    role-acl as the locale \<open>role_acl\<close>, with an implementation that follows it), \<open>Authorizations\<close>
    (Authorizations.ts, AuthorizationsManager.ts with its cache), \<open>Tag_Access\<close> (a badge at a station),
    \<open>Dynamic_Access\<close> (dynamic filters, assertions and data sources), \<open>Access_Service\<close>
    (server/rest/v1/service/AuthorizationService.ts), \<open>Entity_Access\<close> (UtilsService.ts: reading one object of a
    request). \<open>Access_Laws\<close>, \<open>Access_Cache\<close>, \<open>Access_Properties\<close>, \<open>Access_Cases\<close>, \<open>Badge_Laws\<close> show that checks
    answer, that the cache never changes an answer, and who is confined to what.

  \<^bold>\<open>Settings and secrets.\<close>
  \<^item> \<open>Setting_Store\<close> (storage/mongodb/SettingStorage.ts), \<open>Cypher\<close> (utils/Cypher.ts and the task that resumes a
    migration), \<open>Setting_Service\<close> (SettingService.ts), \<open>Billing_Settings\<close> (the settings part of
    BillingService.ts and UtilsService.ts). \<open>Setting_Laws\<close>: encryption and unchanged forms; \<open>Setting_Migration\<close>:
    the migration to a new key as a computation that may be interrupted and run again, which a crash in the first pass
    leaves able to go on and one in the second pass, with a cipher that authenticates, blocks; \<open>Setting_Access\<close>,
    \<open>Billing_Laws\<close>, \<open>Setting_Cases\<close>: who sees the key, productive billing, cases.

  \<^bold>\<open>Billing.\<close>
  \<^item> \<open>Js_Date\<close> (dates in the zone of the server), \<open>Billing_Store\<close> (types/Billing.ts, storage/mongodb/BillingStorage.ts and the
    state \<open>billing_world\<close> of a tenant's invoices, users, sessions and tasks), \<open>Stripe_Platform\<close>, \<open>Stripe_Users\<close>,
    \<open>Stripe_Billing\<close> (integration/billing/stripe/StripeBillingIntegration.ts and StripeHelpers.ts: connection, customers and
    payment methods, sessions and invoices), \<open>Billing_Integration\<close> (integration/billing/BillingIntegration.ts,
    BillingFactory.ts and the tasks that drive billing), \<open>Billing_Service\<close> (server/rest/v1/service/BillingService.ts).
    The platform is a parameter, a record of one operation for each call of its client, on a state of any type.
  \<^item> \<open>Handler_Frame\<close>: what a handler keeps of the state, as a locale of reflexive and transitive relations.
    \<open>Session_Invoice\<close>: the lines of an invoice come to the price of the session, once, however often their creation is tried
    (what the platform documents of items with a key is the hypothesis \<open>ledger\<close>). \<open>Session_Billing\<close>: the billing of a
    session as a state machine, and the race of the scheduled task. \<open>Invoice_Charging\<close>: the periodic charging ends; the
    contract of charging one invoice is the locale \<open>charging\<close>. \<open>Invoice_Laws\<close>: the removal of test data. \<open>Stripe_Laws\<close>:
    cards, the start of a session and its check beforehand, the guard of live accounts. \<open>Billing_Access\<close>: whose invoices and
    payment methods are reached. \<open>Billing_Cases\<close>: a small platform, and the properties on it.

  \<^bold>\<open>Smart charging.\<close>
  \<^item> \<open>Charging_Profiles\<close> (storage/mongodb/ChargingStationStorage.ts, the requests of ChargingStationVendorIntegration.ts and the
    profiles of server/ocpp/utils/OCPPUtils.ts): the collection of charging profiles, how they are pushed to a station and
    cleared on it. \<open>Smart_Fuses\<close>, \<open>Smart_Cars\<close>, \<open>Smart_Optimizer\<close>
    (integration/smart-charging/SmartChargingIntegration.ts, sap-smart-charging/SapSmartChargingIntegration.ts, types/Optimizer.ts):
    the fuse tree of a site area, its cars, the request to the optimizer, the profiles built from its answer, and a run
    with its retries. \<open>Profile_Requests\<close> (ChargingStationService.ts, UtilsService.ts, SmartChargingFactory.ts, OCPPService.ts and
    scheduler/tasks/CheckAndComputeSmartChargingTask.ts): the requests of users on profiles and limits, and what triggers a run,
    under the lock of the site area. The state is the collection of profiles with the requests sent to stations so far,
    the assets, the excluded stations and the vault with the locks; the answers of stations and of the optimizer, the time, and the
    stations and transactions that other handlers change may depend on the requests sent before.
  \<^item> \<open>Fuse_Laws\<close>: the root fuse stays within the site, what is left to steer. \<open>Smart_Tree\<close>: the request is a
    well-formed tree. \<open>Smart_Laws\<close>: the shape of a plan, plans in force, the account of a run. \<open>Profile_Laws\<close>: a profile of a station
    with connectors is stored only with its consent, and clearing leaves none. \<open>Request_Laws\<close>: what a stored profile is checked for,
    whose profile an update reaches, and runs under their lock. \<open>Smart_Cases\<close>, \<open>Request_Cases\<close>: a site area with three stations.

  \<^bold>\<open>Roaming.\<close>
  \<^item> \<open>Ocpi_Types\<close> (types/ocpi, server/ocpi/OCPIUtils.ts, utils/RoamingUtils.ts), \<open>Ocpi_Sessions\<close> and \<open>Ocpi_Emsp\<close>
    (server/ocpi/ocpi-services-impl/ocpi-2.1.1: OCPIUtilsService.ts, emsp/EMSPSessionsEndpoint.ts, emsp/EMSPCdrsEndpoint.ts; the
    pulls and commands of client/ocpi/EmspOCPIClient.ts): the operator of users, whose state is its transactions, their
    consumptions and the stations it learned of. \<open>Ocpi_Cpo\<close> (client/ocpi/CpoOCPIClient.ts, the roaming of
    server/ocpp/utils/OCPPUtils.ts and OCPPService.ts, scheduler/tasks/ocpi/OCPIPushCdrsTask.ts) and \<open>Ocpi_Commands\<close>
    (cpo/CPOCommandsEndpoint.ts): the operator of stations, whose state is the transaction at hand, the documents of
    transactions and stations, the locks and the calls made so far. The answer to a call may depend on the calls before it.
  \<^item> \<open>Ocpi_Laws\<close>: the consumptions of a session account for it. \<open>Ocpi_Ends\<close>: both operators agree on the totals; sessions that are
    missed, sent again or share an identifier; the stop that an operator of users asks for. \<open>Ocpi_Names\<close>: EVSEs and their
    connectors, the starts that are accepted, the charging periods. \<open>Ocpi_Pushes\<close>: records are posted once while OICP is
    not in use, and at every run of the task while OICP refuses what OCPI accepts; when a pull ends. \<open>Ocpi_Cases\<close>: a session on both sides.

  \<^bold>\<open>Parameters.\<close> Code that is not in the repository is an argument: the time-zone library, the hash, the cipher and
  the random bytes of Node, role-acl, the JSON schemas (ajv), the answers of stations, of the optimizer, of the billing
  platform and of the other operators of a roaming network, the generators of identifiers. What the proofs use of them is a named hypothesis or a locale.

  \<^bold>\<open>Bounds and fuel.\<close> The only fuel is that of the clean-up loop before a start (\<open>existing_turns\<close> = 2), which is
  proved to be enough; the loops over the pages of the billing platform and of the invoices and of a pull are \<open>partial_function (option)\<close>,
  where \<open>None\<close> is a loop that does not end, and that of the invoices is proved to end; the depth of the inheritance of roles is the length of the table; all other loops are
  recursive functions with a measure. Numbers that measure are exact rationals, numbers that count are integers;
  the rounding of binary floats is not modelled. The zone of the server has a constant offset of whole minutes where the smart
  charging reads the clock, and a transaction uses at least one phase where a car's share of it is computed.

  \<^bold>\<open>Not modelled.\<close> The dashboard (src/ev-dashboard-2.6.1), which is user interface; aggregation pipelines of MongoDB
  beyond the queries used here; the REST handlers other than those named; of the roaming protocol OCPI the credentials, tokens,
  tariffs and the endpoints of locations, names, addresses and coordinates, bodies with null properties, and requests treated two
  at a time (they run one after the other here); the roaming protocol OICP; the transport of OCPP; the repair of invoices, the web
  hook of the billing platform and the texts on invoices; refunds, assets, cars and
  their connectors; notifications; the scheduler and the manager of asynchronous tasks, other tasks than those
  named, and migrations; configuration, logging, texts.
\<close>

end
